(* ===== verification/Prelude.thy ===== *)
theory Prelude
  imports Main "HOL-Library.Word" "HOL-Library.List_Lexorder"
begin

text \<open>
  What every component of the model shares.

  Python values: a \<open>str\<close> is the list of its code points (\<open>pystr\<close>), an \<open>int\<close> is
  an \<open>int\<close> (Python's do not overflow), and a parameter the source annotates as
  \<open>object\<close> is a \<open>pyobj\<close>, so that its \<open>isinstance\<close> tests are branches of the model.

  Errors: a function that may raise returns \<open>error + value\<close>.  A sequence of guard
  statements \<open>if c: raise E\<close> is the list of the guards given to \<open>all_checks\<close>, in the
  order of the source: the first one that fires is the error that is raised.
\<close>

named_theorems check_simps "unfolding a sequence of guards"
named_theorems text_simps "facts on code-point lists and character classes"

section \<open>Python values\<close>

type_synonym pystr = "nat list"

definition lit :: "string \<Rightarrow> pystr" where
  "lit s = map of_char s"

lemma length_lit [simp]: "length (lit s) = length s"
  by (simp add: lit_def)

lemma lit_Nil [simp]: "lit [] = []"
  by (simp add: lit_def)

datatype pyobj = PyNone | PyBool bool | PyInt int | PyStr pystr | PyOther

text \<open>\<open>opt_obj f x\<close>: the object passed when an optional field is handed to a validator.\<close>

fun opt_obj :: "('a \<Rightarrow> pyobj) \<Rightarrow> 'a option \<Rightarrow> pyobj" where
  "opt_obj f None = PyNone"
| "opt_obj f (Some x) = f x"

section \<open>Errors\<close>

definition raise_if :: "bool \<Rightarrow> 'e \<Rightarrow> 'e + unit" where
  "raise_if b e = (if b then Inl e else Inr ())"

fun all_checks :: "('e + unit) list \<Rightarrow> 'e + unit" where
  "all_checks [] = Inr ()"
| "all_checks (c # cs) = (case c of Inl e \<Rightarrow> Inl e | Inr _ \<Rightarrow> all_checks cs)"

definition and_then :: "'e + 'a \<Rightarrow> ('a \<Rightarrow> 'e + 'b) \<Rightarrow> 'e + 'b" where
  "and_then m f = (case m of Inl e \<Rightarrow> Inl e | Inr x \<Rightarrow> f x)"

text \<open>An \<open>except\<close> clause that replaces one error by another.\<close>

definition rescue :: "('e \<Rightarrow> 'f) \<Rightarrow> 'e + 'a \<Rightarrow> 'f + 'a" where
  "rescue h m = (case m of Inl e \<Rightarrow> Inl (h e) | Inr x \<Rightarrow> Inr x)"

definition ok :: "'e + 'a \<Rightarrow> bool" where
  "ok m = (case m of Inl _ \<Rightarrow> False | Inr _ \<Rightarrow> True)"

definition opt_map :: "('a \<Rightarrow> 'e + 'b) \<Rightarrow> 'a option \<Rightarrow> 'e + 'b option" where
  "opt_map f x = (case x of None \<Rightarrow> Inr None
     | Some y \<Rightarrow> (case f y of Inl e \<Rightarrow> Inl e | Inr z \<Rightarrow> Inr (Some z)))"

lemma raise_if_Inr [simp]: "raise_if b e = Inr u \<longleftrightarrow> \<not> b"
  by (cases u) (simp add: raise_if_def)

lemma raise_if_Inl [simp]: "raise_if b e = Inl e' \<longleftrightarrow> b \<and> e' = e"
  by (auto simp: raise_if_def)

lemma raise_if_simps [simp]: "raise_if True e = Inl e" "raise_if False e = Inr ()"
  by (simp_all add: raise_if_def)

lemma all_checks_Inr [check_simps]: "all_checks cs = Inr u \<longleftrightarrow> (\<forall>c \<in> set cs. c = Inr ())"
  by (cases u) (induction cs, auto split: sum.splits)

lemma all_checks_Cons_Inr [simp]:
  "all_checks (c # cs) = Inr u \<longleftrightarrow> c = Inr () \<and> all_checks cs = Inr u"
  by (cases c) auto

lemma all_checks_Cons_Inl:
  "all_checks (c # cs) = Inl e \<longleftrightarrow> c = Inl e \<or> (c = Inr () \<and> all_checks cs = Inl e)"
  by (cases c) auto

lemma all_checks_eval [simp]:
  "all_checks (Inl e # cs) = Inl e" "all_checks (Inr u # cs) = all_checks cs"
  by simp_all

lemma all_checks_append:
  "all_checks (cs @ ds) = (case all_checks cs of Inl e \<Rightarrow> Inl e | Inr _ \<Rightarrow> all_checks ds)"
  by (induction cs) (auto split: sum.splits)

lemma all_checks_Inl_in: "all_checks cs = Inl e \<Longrightarrow> Inl e \<in> set cs"
  by (induction cs) (auto split: sum.splits)

declare all_checks.simps(2) [simp del]

lemma and_then_simps [simp]: "and_then (Inl e) f = Inl e" "and_then (Inr x) f = f x"
  by (simp_all add: and_then_def)

lemma and_then_Inr [check_simps]: "and_then m f = Inr y \<longleftrightarrow> (\<exists>x. m = Inr x \<and> f x = Inr y)"
  by (cases m) auto

lemma and_then_Inl [check_simps]:
  "and_then m f = Inl e \<longleftrightarrow> m = Inl e \<or> (\<exists>x. m = Inr x \<and> f x = Inl e)"
  by (cases m) auto

lemma rescue_simps [simp]: "rescue h (Inl e) = Inl (h e)" "rescue h (Inr x) = Inr x"
  by (simp_all add: rescue_def)

lemma rescue_Inr [simp]: "rescue h m = Inr y \<longleftrightarrow> m = Inr y"
  by (cases m) auto

lemma rescue_Inl: "rescue h m = Inl f \<longleftrightarrow> (\<exists>e. m = Inl e \<and> f = h e)"
  by (cases m) auto

lemma ok_simps [simp]: "ok (Inl e) = False" "ok (Inr x) = True"
  by (simp_all add: ok_def)

lemma ok_iff: "ok m \<longleftrightarrow> (\<exists>x. m = Inr x)"
  by (cases m) auto

lemma opt_map_None [simp]: "opt_map f None = Inr None"
  by (simp add: opt_map_def)

lemma opt_map_Some [simp]:
  "opt_map f (Some y) = (case f y of Inl e \<Rightarrow> Inl e | Inr z \<Rightarrow> Inr (Some z))"
  by (simp add: opt_map_def)

lemma unit_sum_cases: "(m :: 'e + unit) = Inr () \<or> (\<exists>e. m = Inl e)"
  by (cases m) auto

text \<open>A comprehension whose element may raise: the first error ends it.\<close>

fun map_results :: "('a \<Rightarrow> 'e + 'b) \<Rightarrow> 'a list \<Rightarrow> 'e + 'b list" where
  "map_results f [] = Inr []"
| "map_results f (x # xs) = and_then (f x) (\<lambda>y. and_then (map_results f xs) (\<lambda>ys. Inr (y # ys)))"

lemma map_results_all:
  "(\<And>x. x \<in> set xs \<Longrightarrow> f x = Inr (g x)) \<Longrightarrow> map_results f xs = Inr (map g xs)"
  by (induction xs) auto

section \<open>Characters and text\<close>

definition is_digit :: "nat \<Rightarrow> bool" where
  "is_digit c \<longleftrightarrow> 48 \<le> c \<and> c \<le> 57"

definition is_lower :: "nat \<Rightarrow> bool" where
  "is_lower c \<longleftrightarrow> 97 \<le> c \<and> c \<le> 122"

definition is_upper :: "nat \<Rightarrow> bool" where
  "is_upper c \<longleftrightarrow> 65 \<le> c \<and> c \<le> 90"

definition is_lower_hex :: "nat \<Rightarrow> bool" where
  "is_lower_hex c \<longleftrightarrow> is_digit c \<or> (97 \<le> c \<and> c \<le> 102)"

lemmas char_class_defs = is_digit_def is_lower_def is_upper_def is_lower_hex_def

text \<open>\<open>str.isspace\<close> of one character (the white space of the Unicode database).\<close>

definition is_space :: "nat \<Rightarrow> bool" where
  "is_space c \<longleftrightarrow> (9 \<le> c \<and> c \<le> 13) \<or> (28 \<le> c \<and> c \<le> 32) \<or> c = 133 \<or> c = 160 \<or> c = 5760
     \<or> (8192 \<le> c \<and> c \<le> 8202) \<or> c = 8232 \<or> c = 8233 \<or> c = 8239 \<or> c = 8287 \<or> c = 12288"

text \<open>Unicode category \<open>Cc\<close>: the C0 and C1 control characters.\<close>

definition is_cc :: "nat \<Rightarrow> bool" where
  "is_cc c \<longleftrightarrow> c \<le> 31 \<or> (127 \<le> c \<and> c \<le> 159)"

definition strip :: "pystr \<Rightarrow> pystr" where
  "strip s = rev (dropWhile is_space (rev (dropWhile is_space s)))"

definition ascii_lower_char :: "nat \<Rightarrow> nat" where
  "ascii_lower_char c = (if is_upper c then c + 32 else c)"

definition ascii_lower :: "pystr \<Rightarrow> pystr" where
  "ascii_lower s = map ascii_lower_char s"

text \<open>\<open>re.compile(r"[class]{n}").fullmatch\<close> and its relatives.\<close>

definition matches_class :: "(nat \<Rightarrow> bool) \<Rightarrow> nat \<Rightarrow> nat \<Rightarrow> pystr \<Rightarrow> bool" where
  "matches_class p lo hi s \<longleftrightarrow> lo \<le> length s \<and> length s \<le> hi \<and> list_all p s"

definition matches_head_class :: "(nat \<Rightarrow> bool) \<Rightarrow> (nat \<Rightarrow> bool) \<Rightarrow> nat \<Rightarrow> nat \<Rightarrow> pystr \<Rightarrow> bool" where
  "matches_head_class p q lo hi s \<longleftrightarrow>
     (case s of [] \<Rightarrow> False | c # cs \<Rightarrow> p c \<and> matches_class q lo hi cs)"

lemma matches_class_nonempty: "matches_class p lo hi s \<Longrightarrow> 0 < lo \<Longrightarrow> s \<noteq> []"
  by (auto simp: matches_class_def)

lemma matches_classD: "matches_class p lo hi s \<Longrightarrow> c \<in> set s \<Longrightarrow> p c"
  by (auto simp: matches_class_def list_all_iff)

lemma dropWhile_id: "(xs \<noteq> [] \<Longrightarrow> \<not> P (hd xs)) \<Longrightarrow> dropWhile P xs = xs"
  by (cases xs) auto

lemma strip_no_space: "list_all (\<lambda>c. \<not> is_space c) s \<Longrightarrow> strip s = s"
proof -
  assume a: "list_all (\<lambda>c. \<not> is_space c) s"
  have "dropWhile is_space s = s"
    using a by (intro dropWhile_id) (cases s, auto)
  moreover have "dropWhile is_space (rev s) = rev s"
    using a by (intro dropWhile_id) (auto simp: list_all_iff hd_rev)
  ultimately show ?thesis by (simp add: strip_def)
qed

lemma set_strip: "set (strip s) \<subseteq> set s"
  unfolding strip_def by (auto dest!: set_dropWhileD)

lemma length_strip_le: "length (strip s) \<le> length s"
  unfolding strip_def
  by (metis dual_order.trans length_dropWhile_le length_rev)

section \<open>The Unicode database\<close>

text \<open>
  \<open>unicodedata.normalize("NFC", s)\<close>, its NFKC form, \<open>str.lower\<close>, \<open>str.casefold\<close> and the
  decimal digits that \<open>\d\<close> matches are tables of the runtime, and so is the answer of \<open>ipaddress\<close> on a bracketed host.
  The functions that use them take them as an argument; a property that relies on one of
  their documented laws names it as a hypothesis, and its witness gives the tables of the
  ASCII range.
\<close>

record unicode_tables =
  uni_nfc :: "pystr \<Rightarrow> pystr"
  uni_lower :: "pystr \<Rightarrow> pystr"
  uni_casefold :: "pystr \<Rightarrow> pystr"
  uni_nfkc :: "pystr \<Rightarrow> pystr"
  uni_decimal :: "nat \<Rightarrow> bool"
  ip_literal_ok :: "pystr \<Rightarrow> bool"

definition ascii_tables :: unicode_tables where
  "ascii_tables = \<lparr>uni_nfc = (\<lambda>s. s), uni_lower = ascii_lower, uni_casefold = ascii_lower,
     uni_nfkc = (\<lambda>s. s), uni_decimal = is_digit, ip_literal_ok = (\<lambda>_. False)\<rparr>"

lemma ascii_tables_simps [simp]:
  "uni_nfc ascii_tables s = s" "uni_lower ascii_tables s = ascii_lower s"
  "uni_casefold ascii_tables s = ascii_lower s" "uni_nfkc ascii_tables s = s"
  "uni_decimal ascii_tables c = is_digit c"
  by (simp_all add: ascii_tables_def)

section \<open>Splitting text\<close>

text \<open>\<open>s.split(c)\<close> for a one-character separator: always at least one part.\<close>

fun split_on :: "nat \<Rightarrow> pystr \<Rightarrow> pystr list" where
  "split_on c [] = [[]]"
| "split_on c (x # xs) =
     (if x = c then [] # split_on c xs
      else case split_on c xs of [] \<Rightarrow> [[x]] | p # ps \<Rightarrow> (x # p) # ps)"

text \<open>\<open>s.partition(c)\<close>: the text before, whether the separator occurs, the text after.\<close>

definition partition_on :: "nat \<Rightarrow> pystr \<Rightarrow> pystr \<times> bool \<times> pystr" where
  "partition_on c s = (takeWhile (\<lambda>x. x \<noteq> c) s, c \<in> set s, drop 1 (dropWhile (\<lambda>x. x \<noteq> c) s))"

fun join_with :: "nat \<Rightarrow> pystr list \<Rightarrow> pystr" where
  "join_with c [] = []"
| "join_with c [p] = p"
| "join_with c (p # q # ps) = p @ c # join_with c (q # ps)"

lemma split_on_not_Nil [simp]: "split_on c s \<noteq> []"
  by (cases s) (auto split: list.splits)

lemma join_with_head: "join_with c ((x # p) # ps) = x # join_with c (p # ps)"
  by (cases ps) auto

lemma join_with_Nil_part: "ps \<noteq> [] \<Longrightarrow> join_with c ([] # ps) = c # join_with c ps"
  by (cases ps) auto

lemma join_split [simp]: "join_with c (split_on c s) = s"
  by (induction s) (auto simp: join_with_head join_with_Nil_part split: list.splits)

lemma split_on_absent [simp]: "c \<notin> set s \<Longrightarrow> split_on c s = [s]"
  by (induction s) auto

lemma split_on_part_absent: "p \<in> set (split_on c s) \<Longrightarrow> c \<notin> set p"
  by (induction s arbitrary: p) (auto split: if_splits list.splits)

end
