(* ===== verification/Url_Parsing.thy ===== *)
theory Url_Parsing
  imports Prelude
begin

text \<open>
  The part of \<open>urllib.parse\<close> (Python 3.13) that the source URL policies use: \<open>urlsplit\<close> with
  the attributes of its result, \<open>unquote_plus\<close> and \<open>parse_qsl\<close> with strict parsing.  A
  \<open>ValueError\<close> is \<open>None\<close>.
\<close>

section \<open>Splitting off the parts\<close>

text \<open>\<open>s.rpartition(c)\<close>: the text before the last separator, whether there is one, the rest.\<close>

definition rpartition_on :: "nat \<Rightarrow> pystr \<Rightarrow> pystr \<times> bool \<times> pystr" where
  "rpartition_on c s =
     (let r = rev s
      in (rev (drop 1 (dropWhile (\<lambda>x. x \<noteq> c) r)), c \<in> set s, rev (takeWhile (\<lambda>x. x \<noteq> c) r)))"

record split_result =
  sr_scheme :: pystr
  sr_netloc :: pystr
  sr_path :: pystr
  sr_query :: pystr
  sr_fragment :: pystr

definition is_alpha :: "nat \<Rightarrow> bool" where
  "is_alpha c \<longleftrightarrow> is_lower c \<or> is_upper c"

definition is_scheme_char :: "nat \<Rightarrow> bool" where
  "is_scheme_char c \<longleftrightarrow> is_alpha c \<or> is_digit c \<or> c = 43 \<or> c = 45 \<or> c = 46"

text \<open>\<open>_checknetloc\<close> and \<open>_check_bracketed_netloc\<close>.\<close>

definition nfkc_netloc_ok :: "unicode_tables \<Rightarrow> pystr \<Rightarrow> bool" where
  "nfkc_netloc_ok U netloc \<longleftrightarrow>
     list_all (\<lambda>c. c < 128) netloc
     \<or> (let n = filter (\<lambda>c. c \<notin> {64, 58, 35, 63}) netloc; n' = uni_nfkc U n
        in n = n' \<or> list_all (\<lambda>c. c \<notin> {47, 63, 35, 64, 58}) n')"

definition bracketed_netloc_ok :: "unicode_tables \<Rightarrow> pystr \<Rightarrow> bool" where
  "bracketed_netloc_ok U netloc \<longleftrightarrow>
     (if 91 \<notin> set netloc \<and> 93 \<notin> set netloc then True
      else if 91 \<notin> set netloc \<or> 93 \<notin> set netloc then False
      else let (_, _, hostport) = rpartition_on 64 netloc;
               (prefix, open_br, bracketed) = partition_on 91 hostport
           in if open_br
              then let (host, _, port) = partition_on 93 bracketed
                   in prefix = [] \<and> (port = [] \<or> hd port = 58) \<and> ip_literal_ok U host
              else let (host, _, _) = partition_on 58 hostport in ip_literal_ok U host)"

definition urlsplit :: "unicode_tables \<Rightarrow> pystr \<Rightarrow> split_result option" where
  "urlsplit U url0 =
     (let url = filter (\<lambda>c. c \<notin> {9, 13, 10}) (dropWhile (\<lambda>c. c \<le> 32) url0);
          (head, colon, after) = partition_on 58 url;
          (scheme, rest) =
            (if colon \<and> head \<noteq> [] \<and> is_alpha (hd head) \<and> list_all is_scheme_char head
             then (ascii_lower head, after) else ([], url));
          (netloc, tail) =
            (if take 2 rest = [47, 47]
             then (takeWhile (\<lambda>c. c \<notin> {47, 63, 35}) (drop 2 rest),
                   dropWhile (\<lambda>c. c \<notin> {47, 63, 35}) (drop 2 rest))
             else ([], rest));
          (tail', _, fragment) = partition_on 35 tail;
          (path, _, query) = partition_on 63 tail'
      in if \<not> bracketed_netloc_ok U netloc \<or> \<not> nfkc_netloc_ok U netloc then None
         else Some \<lparr>sr_scheme = scheme, sr_netloc = netloc, sr_path = path, sr_query = query,
                    sr_fragment = fragment\<rparr>)"

section \<open>Attributes of the result\<close>

definition url_userinfo :: "split_result \<Rightarrow> pystr option \<times> pystr option" where
  "url_userinfo r =
     (let (userinfo, have, _) = rpartition_on 64 (sr_netloc r)
      in if \<not> have then (None, None)
         else let (username, have_password, password) = partition_on 58 userinfo
              in (Some username, if have_password then Some password else None))"

definition url_hostinfo :: "split_result \<Rightarrow> pystr \<times> pystr option" where
  "url_hostinfo r =
     (let (_, _, hostinfo) = rpartition_on 64 (sr_netloc r);
          (_, open_br, bracketed) = partition_on 91 hostinfo;
          (host, port) =
            (if open_br
             then let (h, _, p) = partition_on 93 bracketed; (_, _, q) = partition_on 58 p in (h, q)
             else let (h, _, p) = partition_on 58 hostinfo in (h, p))
      in (host, if port = [] then None else Some port))"

definition url_hostname :: "unicode_tables \<Rightarrow> split_result \<Rightarrow> pystr option" where
  "url_hostname U r =
     (let (host, _) = url_hostinfo r
      in if host = [] then None
         else let (name, percent, zone) = partition_on 37 host
              in Some (uni_lower U name @ (if percent then [37] else []) @ zone))"

definition decimal_value :: "pystr \<Rightarrow> nat" where
  "decimal_value s = foldl (\<lambda>n c. 10 * n + (c - 48)) 0 s"

text \<open>The port; the outer \<open>None\<close> is the \<open>ValueError\<close>.\<close>

definition url_port :: "split_result \<Rightarrow> nat option option" where
  "url_port r =
     (case snd (url_hostinfo r) of
        None \<Rightarrow> Some None
      | Some p \<Rightarrow>
          if list_all is_digit p
          then let n = decimal_value p in if n \<le> 65535 then Some (Some n) else None
          else None)"

section \<open>Percent decoding\<close>

definition hex_nibble :: "nat \<Rightarrow> nat option" where
  "hex_nibble c =
     (if is_digit c then Some (c - 48)
      else if 97 \<le> c \<and> c \<le> 102 then Some (c - 87)
      else if 65 \<le> c \<and> c \<le> 70 then Some (c - 55)
      else None)"

fun unquote_to_bytes :: "pystr \<Rightarrow> nat list" where
  "unquote_to_bytes [] = []"
| "unquote_to_bytes (c # a # b # rest) =
     (if c = 37
      then case (hex_nibble a, hex_nibble b) of
             (Some x, Some y) \<Rightarrow> (16 * x + y) # unquote_to_bytes rest
           | _ \<Rightarrow> c # unquote_to_bytes (a # b # rest)
      else c # unquote_to_bytes (a # b # rest))"
| "unquote_to_bytes (c # cs) = c # unquote_to_bytes cs"

text \<open>\<open>bytes.decode("utf-8", "replace")\<close>: every maximal ill-formed part is one U+FFFD.\<close>

definition is_cont :: "nat \<Rightarrow> bool" where
  "is_cont b \<longleftrightarrow> 128 \<le> b \<and> b \<le> 191"

definition second_ok :: "nat \<Rightarrow> nat \<Rightarrow> bool" where
  "second_ok a b \<longleftrightarrow>
     (if a = 224 then 160 \<le> b \<and> b \<le> 191
      else if a = 237 then 128 \<le> b \<and> b \<le> 159
      else if a = 240 then 144 \<le> b \<and> b \<le> 191
      else if a = 244 then 128 \<le> b \<and> b \<le> 143
      else is_cont b)"

text \<open>The first character of a byte string and the number of bytes it takes.\<close>

definition utf8_head :: "nat \<Rightarrow> nat list \<Rightarrow> nat \<times> nat" where
  "utf8_head a bs =
     (if a < 128 then (a, 0)
      else if 194 \<le> a \<and> a \<le> 223 then
        (case bs of b # _ \<Rightarrow> if is_cont b then (64 * (a - 192) + (b - 128), 1) else (65533, 0)
         | [] \<Rightarrow> (65533, 0))
      else if 224 \<le> a \<and> a \<le> 239 then
        (case bs of
           b # c # _ \<Rightarrow> if second_ok a b
             then if is_cont c
                  then (4096 * (a - 224) + 64 * (b - 128) + (c - 128), 2) else (65533, 1)
             else (65533, 0)
         | [b] \<Rightarrow> (65533, if second_ok a b then 1 else 0)
         | [] \<Rightarrow> (65533, 0))
      else if 240 \<le> a \<and> a \<le> 244 then
        (case bs of
           b # c # d # _ \<Rightarrow> if second_ok a b
             then if is_cont c
                  then if is_cont d
                       then (262144 * (a - 240) + 4096 * (b - 128) + 64 * (c - 128) + (d - 128), 3)
                       else (65533, 2)
                  else (65533, 1)
             else (65533, 0)
         | [b, c] \<Rightarrow> (65533, if second_ok a b then if is_cont c then 2 else 1 else 0)
         | [b] \<Rightarrow> (65533, if second_ok a b then 1 else 0)
         | [] \<Rightarrow> (65533, 0))
      else (65533, 0))"

function utf8_decode :: "nat list \<Rightarrow> pystr" where
  "utf8_decode [] = []"
| "utf8_decode (a # bs) = (let (c, n) = utf8_head a bs in c # utf8_decode (drop n bs))"
  by pat_completeness auto
termination by (relation "measure length") auto

text \<open>\<open>unquote\<close> decodes each ASCII run of the text for itself.\<close>

function unquote :: "pystr \<Rightarrow> pystr" where
  "unquote [] = []"
| "unquote (c # cs) =
     (if c < 128
      then utf8_decode (unquote_to_bytes (takeWhile (\<lambda>x. x < 128) (c # cs)))
             @ unquote (dropWhile (\<lambda>x. x < 128) cs)
      else c # unquote cs)"
  by pat_completeness auto
termination by (relation "measure length") (auto simp: le_imp_less_Suc length_dropWhile_le)

definition unquote_plus :: "pystr \<Rightarrow> pystr" where
  "unquote_plus s = unquote (map (\<lambda>c. if c = 43 then 32 else c) s)"

section \<open>Query strings\<close>

text \<open>\<open>parse_qsl(qs, keep_blank_values=True, strict_parsing=True, max_num_fields=n)\<close>.\<close>

fun query_fields :: "pystr list \<Rightarrow> (pystr \<times> pystr) list option" where
  "query_fields [] = Some []"
| "query_fields (f # fs) =
     (let (name, has_eq, value) = partition_on 61 f
      in if \<not> has_eq then None
         else map_option (\<lambda>r. (unquote_plus name, unquote_plus value) # r) (query_fields fs))"

definition parse_qsl_strict :: "nat \<Rightarrow> pystr \<Rightarrow> (pystr \<times> pystr) list option" where
  "parse_qsl_strict max_num_fields qs =
     (if qs = [] then Some []
      else if max_num_fields < length (split_on 38 qs) then None
      else query_fields (split_on 38 qs))"

section \<open>Facts\<close>

lemma partition_on_eq:
  "partition_on c s = (takeWhile (\<lambda>x. x \<noteq> c) s, c \<in> set s, drop 1 (dropWhile (\<lambda>x. x \<noteq> c) s))"
  by (simp add: partition_on_def)

lemma partition_absent: "c \<notin> set s \<Longrightarrow> partition_on c s = (s, False, [])"
proof -
  assume "c \<notin> set s"
  then have "takeWhile (\<lambda>x. x \<noteq> c) s = s" "dropWhile (\<lambda>x. x \<noteq> c) s = []"
    by (auto simp: takeWhile_eq_all_conv dropWhile_eq_Nil_conv)
  then show ?thesis using \<open>c \<notin> set s\<close> by (simp only: partition_on_def drop_Nil simp_thms)
qed

lemma partition_at: "c \<notin> set p \<Longrightarrow> partition_on c (p @ c # s) = (p, True, s)"
proof -
  assume "c \<notin> set p"
  then have "takeWhile (\<lambda>x. x \<noteq> c) (p @ c # s) = p" "dropWhile (\<lambda>x. x \<noteq> c) (p @ c # s) = c # s"
    by (induction p) auto
  then show ?thesis by (simp add: partition_on_def)
qed

lemma rpartition_absent: "c \<notin> set s \<Longrightarrow> rpartition_on c s = ([], False, s)"
proof -
  assume a: "c \<notin> set s"
  then have "takeWhile (\<lambda>x. x \<noteq> c) (rev s) = rev s" "dropWhile (\<lambda>x. x \<noteq> c) (rev s) = []" by auto
  then show ?thesis using a by (simp only: rpartition_on_def Let_def drop_Nil rev.simps(1) rev_rev_ident simp_thms)
qed

lemma unquote_to_bytes_plain: "37 \<notin> set s \<Longrightarrow> unquote_to_bytes s = s"
  by (induction s rule: unquote_to_bytes.induct) auto

lemma utf8_decode_ascii: "list_all (\<lambda>c. c < 128) s \<Longrightarrow> utf8_decode s = s"
  by (induction s) (simp_all add: utf8_head_def)

lemma unquote_plain:
  assumes "list_all (\<lambda>c. c < 128) s" and "37 \<notin> set s"
  shows "unquote s = s"
proof (cases s)
  case (Cons c cs)
  have t: "takeWhile (\<lambda>x. x < 128) cs = cs" "dropWhile (\<lambda>x. x < 128) cs = []"
    using assms(1) Cons by (auto simp: list_all_iff)
  have c: "c < 128" using assms(1) Cons by simp
  have "unquote s = utf8_decode (unquote_to_bytes s) @ unquote []"
    unfolding Cons by (simp only: unquote.simps(2) c if_True t takeWhile.simps)
  then show ?thesis
    using unquote_to_bytes_plain [OF assms(2)] utf8_decode_ascii [OF assms(1)] by simp
qed simp

lemma unquote_plus_plain:
  "list_all (\<lambda>c. c < 128) s \<Longrightarrow> 37 \<notin> set s \<Longrightarrow> 43 \<notin> set s \<Longrightarrow> unquote_plus s = s"
  unfolding unquote_plus_def
  by (subst map_idI) (auto intro: unquote_plain)

text \<open>What a successful split says about the text.\<close>

lemma takeWhile_pair: "takeWhile P xs @ dropWhile P xs = xs" by (rule takeWhile_dropWhile_id)

lemma partition_text:
  "partition_on c s = (a, present, b) \<Longrightarrow> s = (if present then a @ c # b else a)"
proof -
  assume p: "partition_on c s = (a, present, b)"
  then have a: "a = takeWhile (\<lambda>x. x \<noteq> c) s" "present = (c \<in> set s)"
      "b = drop 1 (dropWhile (\<lambda>x. x \<noteq> c) s)"
    by (auto simp: partition_on_def)
  show ?thesis
  proof (cases "c \<in> set s")
    case True
    obtain us vs where s: "s = us @ c # vs" "c \<notin> set us" using split_list_first [OF True] by blast
    show ?thesis using p partition_at [OF s(2), of vs] s(1) by simp
  next
    case False
    then show ?thesis using p partition_absent [OF False] by simp
  qed
qed

lemma dropWhile_head_fails: "dropWhile P xs = [] \<or> \<not> P (hd (dropWhile P xs))"
  using hd_dropWhile [of P xs] by blast

lemma urlsplit_text:
  assumes "urlsplit U s = Some r" and "sr_scheme r \<noteq> []"
    and "s = [] \<or> 32 < hd s" and "list_all (\<lambda>c. c \<notin> {9, 13, 10}) s"
  obtains head after where "s = head @ 58 # after" and "ascii_lower head = sr_scheme r"
    and "sr_netloc r \<noteq> [] \<Longrightarrow> \<exists>tail. after = [47, 47] @ sr_netloc r @ tail
           \<and> (tail = [] \<or> hd tail \<in> {47, 63, 35})"
proof -
  have "dropWhile (\<lambda>c. c \<le> 32) s = s" using assms(3) by (cases s) auto
  moreover have "filter (\<lambda>c. c \<notin> {9, 13, 10}) s = s"
    using assms(4) by (simp add: list_all_iff filter_id_conv)
  ultimately have url: "filter (\<lambda>c. c \<notin> {9, 13, 10}) (dropWhile (\<lambda>c. c \<le> 32) s) = s" by simp
  obtain head colon after where p: "partition_on 58 s = (head, colon, after)" by (cases "partition_on 58 s")
  let ?ok = "colon \<and> head \<noteq> [] \<and> is_alpha (hd head) \<and> list_all is_scheme_char head"
  let ?rest = "if ?ok then after else s"
  let ?net = "if take 2 ?rest = [47, 47] then takeWhile (\<lambda>c. c \<notin> {47, 63, 35}) (drop 2 ?rest) else []"
  have r: "sr_scheme r = (if ?ok then ascii_lower head else []) \<and> sr_netloc r = ?net"
    using assms(1) unfolding urlsplit_def url p Let_def
    by (auto split: prod.splits if_splits)
  have ok: ?ok using r assms(2) by argo
  have net: "\<exists>tail. after = [47, 47] @ sr_netloc r @ tail \<and> (tail = [] \<or> hd tail \<in> {47, 63, 35})"
    if "sr_netloc r \<noteq> []"
  proof -
    have t: "take 2 after = [47, 47]" and n: "sr_netloc r = takeWhile (\<lambda>c. c \<notin> {47, 63, 35}) (drop 2 after)"
      using r ok that by (auto split: if_splits)
    let ?tail = "dropWhile (\<lambda>c. c \<notin> {47, 63, 35}) (drop 2 after)"
    have "after = [47, 47] @ drop 2 after" using append_take_drop_id [of 2 after] t by simp
    moreover have "drop 2 after = sr_netloc r @ ?tail" unfolding n by (rule takeWhile_dropWhile_id [symmetric])
    moreover have "?tail = [] \<or> hd ?tail \<in> {47, 63, 35}"
      using dropWhile_head_fails [of "\<lambda>c. c \<notin> {47, 63, 35}" "drop 2 after"] by blast
    ultimately show ?thesis by (intro exI [of _ ?tail]) simp
  qed
  have "s = head @ 58 # after" using partition_text [OF p] ok by simp
  then show thesis using r ok net by (intro that [of head after]) simp_all
qed

text \<open>The split of a plain \<open>https\<close> URL.\<close>

definition plain_url_char :: "nat \<Rightarrow> bool" where
  "plain_url_char c \<longleftrightarrow> 32 < c \<and> c < 127 \<and> c \<notin> {35, 63, 91, 93}"

lemma plain_url_charD: "list_all plain_url_char s \<Longrightarrow> c \<in> set s \<Longrightarrow> 32 < c \<and> c < 127 \<and> c \<notin> {35, 63, 91, 93}"
  by (auto simp: list_all_iff plain_url_char_def)

lemma takeWhile_until: "list_all P a \<Longrightarrow> b = [] \<or> \<not> P (hd b) \<Longrightarrow> takeWhile P (a @ b) = a"
  by (cases b) (auto simp: list_all_iff takeWhile_append2 takeWhile_tail)

lemma dropWhile_until: "list_all P a \<Longrightarrow> b = [] \<or> \<not> P (hd b) \<Longrightarrow> dropWhile P (a @ b) = b"
  by (cases b) (auto simp: list_all_iff dropWhile_append2)

lemma urlsplit_https:
  assumes n: "list_all plain_url_char n" "47 \<notin> set n"
    and p: "list_all plain_url_char p" "p = [] \<or> hd p = 47"
    and q: "list_all plain_url_char q" and present: "present \<or> q = []"
  shows "urlsplit U (lit ''https://'' @ n @ p @ (if present then 63 # q else []))
    = Some \<lparr>sr_scheme = lit ''https'', sr_netloc = n, sr_path = p, sr_query = q, sr_fragment = []\<rparr>"
proof -
  let ?qs = "if present then 63 # q else []"
  let ?tail = "p @ ?qs"
  let ?url = "lit ''https://'' @ n @ ?tail"
  have plain: "\<And>c. c \<in> set n \<union> set p \<union> set q \<Longrightarrow> 32 < c \<and> c < 127 \<and> c \<notin> {35, 63, 91, 93}"
    using n(1) p(1) q plain_url_charD by blast
  have set_tail: "set ?tail \<subseteq> insert 63 (set p \<union> set q)" by auto
  have "c \<notin> {9, 13, 10}" if "c \<in> set ?url" for c
  proof -
    have "c \<in> set (lit ''https://'') \<or> c = 63 \<or> c \<in> set n \<union> set p \<union> set q"
      using that set_tail by auto
    then show ?thesis using plain [of c] by (auto simp: lit_def)
  qed
  then have f: "filter (\<lambda>c. c \<notin> {9, 13, 10}) ?url = ?url" by (simp only: filter_id_conv) blast
  have d: "dropWhile (\<lambda>c. c \<le> 32) ?url = ?url" by (simp add: lit_def)
  have "?url = lit ''https'' @ 58 # (47 # 47 # n @ ?tail)" by (simp add: lit_def)
  moreover have "58 \<notin> set (lit ''https'')" by (simp add: lit_def)
  ultimately have pc: "partition_on 58 ?url = (lit ''https'', True, 47 # 47 # n @ ?tail)"
    using partition_at [of 58 "lit ''https''" "47 # 47 # n @ ?tail"] by metis
  have sch: "list_all is_scheme_char (lit ''https'')" "is_alpha (hd (lit ''https''))" "lit ''https'' \<noteq> []"
      "ascii_lower (lit ''https'') = lit ''https''"
    by (simp_all add: lit_def is_scheme_char_def is_alpha_def char_class_defs ascii_lower_def
        ascii_lower_char_def)
  have nn: "list_all (\<lambda>c. c \<notin> {47, 63, 35}) n" using n plain by (auto simp: list_all_iff)
  have hd: "?tail = [] \<or> \<not> (hd ?tail \<notin> {47, 63, 35})" using p(2) present by (cases p) auto
  note tw = takeWhile_until [OF nn hd] dropWhile_until [OF nn hd]
  have "35 \<notin> set ?tail" using set_tail plain by fastforce
  then have pf: "partition_on 35 ?tail = (?tail, False, [])" by (rule partition_absent)
  have np: "63 \<notin> set p" using plain by blast
  have pq: "partition_on 63 ?tail = (p, present, q)"
  proof (cases present)
    case True
    then show ?thesis using partition_at [OF np, of q] by simp
  next
    case False
    then show ?thesis using partition_absent [OF np] present by simp
  qed
  have br: "bracketed_netloc_ok U n" using plain by (simp add: bracketed_netloc_ok_def) blast
  have nf: "nfkc_netloc_ok U n" using plain by (force simp: nfkc_netloc_ok_def list_all_iff)
  show ?thesis
    unfolding urlsplit_def
    by (simp only: f d pc sch Let_def prod.case if_True if_False simp_thms take_Suc_Cons take0 drop_Suc_Cons
        drop0 numeral_2_eq_2 tw pf pq br nf)
qed

lemma hostinfo_plain:
  assumes "64 \<notin> set n" "91 \<notin> set n" "58 \<notin> set n" "58 \<notin> set p"
  shows "sr_netloc r = n \<Longrightarrow> url_hostinfo r = (n, None)"
    and "sr_netloc r = n @ 58 # p \<Longrightarrow> 64 \<notin> set p \<Longrightarrow> 91 \<notin> set p \<Longrightarrow>
      url_hostinfo r = (n, if p = [] then None else Some p)"
  using assms by (simp_all add: url_hostinfo_def rpartition_absent partition_absent partition_at)

end
