(* ===== verification/Identities.thy ===== *)
theory Identities
  imports Prelude
begin

unbundle bit_operations_syntax

text \<open>
  \<open>src/framenest/domain/identities.py\<close>: UUIDv4 identities and their canonical text, and
  the interface every textual encoding of the model satisfies (\<open>text_codec\<close>).

  The identity classes of the source share one body and differ by their class only; a
  typed field never holds an instance of another class, so all of them are the UUID they
  wrap.  An instance exists only if its constructor did not raise, so \<open>isinstance(x,
  MediaId)\<close> on a field is \<open>is_uuid4\<close> of the wrapped value.
\<close>

section \<open>The interface of a textual encoding\<close>

locale text_codec =
  fixes print :: "'a \<Rightarrow> pystr"
    and parse :: "pystr \<Rightarrow> 'e + 'a"
    and valid :: "'a \<Rightarrow> bool"
  assumes parse_print: "valid x \<Longrightarrow> parse (print x) = Inr x"
    and parse_sound: "parse s = Inr x \<Longrightarrow> print x = s \<and> valid x"
begin

lemma parse_iff: "parse s = Inr x \<longleftrightarrow> valid x \<and> s = print x"
  using parse_print parse_sound by blast

lemma print_inj: "valid x \<Longrightarrow> valid y \<Longrightarrow> print x = print y \<longleftrightarrow> x = y"
  by (metis parse_print sum.inject(2))

lemma opt_map_parse_iff:
  "opt_map parse t = Inr x \<longleftrightarrow> pred_option valid x \<and> t = map_option print x"
proof (cases t)
  case None
  then show ?thesis by (cases x) auto
next
  case (Some s)
  then show ?thesis by (cases x) (auto simp: parse_print dest: parse_sound split: sum.splits)
qed

lemma opt_map_parse_print: "pred_option valid x \<Longrightarrow> opt_map parse (map_option print x) = Inr x"
  by (simp add: opt_map_parse_iff)

lemma map_option_print_inj:
  "pred_option valid x \<Longrightarrow> pred_option valid y \<Longrightarrow>
   map_option print x = map_option print y \<longleftrightarrow> x = y"
  using print_inj by (cases x; cases y) auto

end

text \<open>A textual encoding of an enumeration: every value is valid.\<close>

locale enum_codec = text_codec print parse "\<lambda>_. True"
  for print :: "'a \<Rightarrow> pystr" and parse :: "pystr \<Rightarrow> 'e + 'a"
begin

lemma print_eq_iff: "print x = print y \<longleftrightarrow> x = y"
  by (simp add: print_inj)

lemma parse_print_enum: "parse (print x) = Inr x"
  by (simp add: parse_print)

lemma map_option_print_eq_iff: "map_option print x = map_option print y \<longleftrightarrow> x = y"
  by (rule map_option_print_inj) (cases x, auto, cases y, auto)

end

section \<open>UUIDs\<close>

type_synonym uuid = "128 word"

text \<open>\<open>UUID.variant == RFC_4122\<close> and \<open>UUID.version == 4\<close> of the 128-bit value.\<close>

definition uuid_is_rfc4122 :: "uuid \<Rightarrow> bool" where
  "uuid_is_rfc4122 u \<longleftrightarrow> bit u 63 \<and> \<not> bit u 62"

definition uuid_version :: "uuid \<Rightarrow> uuid" where
  "uuid_version u = drop_bit 76 u AND 15"

definition is_uuid4 :: "uuid \<Rightarrow> bool" where
  "is_uuid4 u \<longleftrightarrow> uuid_is_rfc4122 u \<and> uuid_version u = 4"

definition hex_digit :: "nat \<Rightarrow> nat" where
  "hex_digit d = (if d < 10 then 48 + d else 87 + d)"

fun hex_digits :: "nat \<Rightarrow> nat \<Rightarrow> pystr" where
  "hex_digits 0 n = []"
| "hex_digits (Suc w) n = hex_digits w (n div 16) @ [hex_digit (n mod 16)]"

definition hex_char_value :: "nat \<Rightarrow> nat option" where
  "hex_char_value c =
     (if is_digit c then Some (c - 48)
      else if 97 \<le> c \<and> c \<le> 102 then Some (c - 87)
      else if 65 \<le> c \<and> c \<le> 70 then Some (c - 55)
      else None)"

fun hex_value :: "nat \<Rightarrow> pystr \<Rightarrow> nat option" where
  "hex_value acc [] = Some acc"
| "hex_value acc (c # cs) =
     (case hex_char_value c of None \<Rightarrow> None | Some d \<Rightarrow> hex_value (acc * 16 + d) cs)"

text \<open>\<open>UUID.hex\<close> and \<open>str(UUID)\<close>.\<close>

definition uuid_hex :: "uuid \<Rightarrow> pystr" where
  "uuid_hex u = hex_digits 32 (unat u)"

definition hyphenate :: "pystr \<Rightarrow> pystr" where
  "hyphenate h = take 8 h @ [45] @ take 4 (drop 8 h) @ [45] @ take 4 (drop 12 h) @ [45]
     @ take 4 (drop 16 h) @ [45] @ drop 20 h"

definition uuid_to_text :: "uuid \<Rightarrow> pystr" where
  "uuid_to_text u = hyphenate (uuid_hex u)"

text \<open>\<open>s.replace(pat, "")\<close>.\<close>

function remove_all :: "pystr \<Rightarrow> pystr \<Rightarrow> pystr" where
  "remove_all pat [] = []"
| "remove_all pat (c # cs) =
     (if pat \<noteq> [] \<and> take (length pat) (c # cs) = pat
      then remove_all pat (drop (length pat - 1) cs)
      else c # remove_all pat cs)"
  by pat_completeness auto
termination
  by (relation "measure (\<lambda>(pat, s). length s)") auto

text \<open>
  \<open>uuid.UUID(text)\<close>: drop \<open>urn:\<close> and \<open>uuid:\<close>, strip braces, drop hyphens, require 32
  characters, read them in base 16.  (\<open>int(text, 16)\<close> also reads a sign, blanks,
  underscores and a prefix; no such text equals the canonical text of the result, so the
  comparison that follows every call in the source refuses those, as it does here.)
\<close>

definition strip_braces :: "pystr \<Rightarrow> pystr" where
  "strip_braces s =
     rev (dropWhile (\<lambda>c. c = 123 \<or> c = 125) (rev (dropWhile (\<lambda>c. c = 123 \<or> c = 125) s)))"

definition uuid_of_text :: "pystr \<Rightarrow> uuid option" where
  "uuid_of_text s =
     (let h = filter (\<lambda>c. c \<noteq> 45)
                (strip_braces (remove_all (lit ''uuid:'') (remove_all (lit ''urn:'') s)))
      in if length h \<noteq> 32 then None else map_option of_nat (hex_value 0 h))"

section \<open>Identities\<close>

datatype identity_error = FrameNestIdentityError

definition identity_new :: "uuid \<Rightarrow> identity_error + uuid" where
  "identity_new u =
     (if \<not> uuid_is_rfc4122 u \<or> uuid_version u \<noteq> 4 then Inl FrameNestIdentityError else Inr u)"

definition identity_from_string :: "pystr \<Rightarrow> identity_error + uuid" where
  "identity_from_string value =
     (case uuid_of_text value of
        None \<Rightarrow> Inl FrameNestIdentityError
      | Some parsed \<Rightarrow>
          if uuid_to_text parsed \<noteq> value then Inl FrameNestIdentityError
          else if \<not> uuid_is_rfc4122 parsed \<or> uuid_version parsed \<noteq> 4
               then Inl FrameNestIdentityError
          else identity_new parsed)"

definition identity_to_string :: "uuid \<Rightarrow> pystr" where
  "identity_to_string u = uuid_to_text u"

section \<open>The text of a UUID\<close>

lemma length_hex_digits [simp]: "length (hex_digits w n) = w"
  by (induction w n rule: hex_digits.induct) auto

lemma hex_value_append:
  "hex_value acc (s @ t) = (case hex_value acc s of None \<Rightarrow> None | Some a \<Rightarrow> hex_value a t)"
  by (induction acc s rule: hex_value.induct) (auto split: option.splits)

lemma hex_char_value_digit: "d < 16 \<Longrightarrow> hex_char_value (hex_digit d) = Some d"
  by (auto simp: hex_char_value_def hex_digit_def is_digit_def)

lemma hex_value_hex_digits: "n < 16 ^ w \<Longrightarrow> hex_value 0 (hex_digits w n) = Some n"
proof (induction w arbitrary: n)
  case 0
  then show ?case by simp
next
  case (Suc w)
  then have "n div 16 < 16 ^ w" by (simp add: div_less_iff_less_mult mult.commute)
  then show ?case
    using Suc.IH [of "n div 16"] by (simp add: hex_value_append hex_char_value_digit)
qed

lemma hex_digit_class: "d < 16 \<Longrightarrow> is_lower_hex (hex_digit d)"
  by (auto simp: hex_digit_def char_class_defs)

lemma hex_digits_class: "c \<in> set (hex_digits w n) \<Longrightarrow> is_lower_hex c"
  by (induction w n rule: hex_digits.induct) (auto intro: hex_digit_class)

lemma hex_not_special:
  "is_lower_hex c \<Longrightarrow> c \<noteq> 45 \<and> c \<noteq> 58 \<and> c \<noteq> 123 \<and> c \<noteq> 125"
  by (auto simp: char_class_defs)

lemma set_hyphenate: "set (hyphenate h) \<subseteq> insert 45 (set h)"
  by (auto simp: hyphenate_def dest: in_set_takeD in_set_dropD)

lemma filter_hyphenate:
  assumes "\<And>c. c \<in> set h \<Longrightarrow> c \<noteq> 45" and "length h = 32"
  shows "filter (\<lambda>c. c \<noteq> 45) (hyphenate h) = h"
proof -
  have f: "filter (\<lambda>c. c \<noteq> 45) (take n (drop m h)) = take n (drop m h)" for n m
    using assms(1) by (auto simp: filter_id_conv dest: in_set_takeD in_set_dropD)
  have g: "filter (\<lambda>c. c \<noteq> 45) (take 8 h) = take 8 h" "filter (\<lambda>c. c \<noteq> 45) (drop 20 h) = drop 20 h"
    using assms(1) by (auto simp: filter_id_conv dest: in_set_takeD in_set_dropD)
  have step: "take 4 (drop n h) @ drop (n + 4) h = drop n h" for n
    by (metis append_take_drop_id drop_drop add.commute)
  have "take 4 (drop 16 h) @ drop 20 h = drop 16 h" using step [of 16] by simp
  moreover have "take 4 (drop 12 h) @ drop 16 h = drop 12 h" using step [of 12] by simp
  moreover have "take 4 (drop 8 h) @ drop 12 h = drop 8 h" using step [of 8] by simp
  ultimately show ?thesis by (simp add: hyphenate_def f g)
qed

lemma remove_all_absent: "pat \<noteq> [] \<Longrightarrow> last pat \<notin> set s \<Longrightarrow> remove_all pat s = s"
proof (induction pat s rule: remove_all.induct)
  case (1 pat)
  then show ?case by simp
next
  case (2 pat c cs)
  have "take (length pat) (c # cs) \<noteq> pat"
    by (metis "2.prems" in_set_takeD last_in_set)
  then show ?case using 2 by simp
qed

lemma strip_braces_absent: "123 \<notin> set s \<Longrightarrow> 125 \<notin> set s \<Longrightarrow> strip_braces s = s"
proof -
  assume a: "123 \<notin> set s" "125 \<notin> set s"
  have "dropWhile (\<lambda>c. c = 123 \<or> c = 125) s = s"
    using a by (intro dropWhile_id) (metis hd_in_set)
  moreover have "dropWhile (\<lambda>c. c = 123 \<or> c = 125) (rev s) = rev s"
    using a by (intro dropWhile_id) (metis hd_in_set set_rev)
  ultimately show ?thesis by (simp add: strip_braces_def)
qed

lemma uuid_of_text_to_text: "uuid_of_text (uuid_to_text u) = Some u"
proof -
  let ?t = "uuid_to_text u"
  have hs: "c \<in> set (uuid_hex u) \<Longrightarrow> is_lower_hex c" for c
    unfolding uuid_hex_def by (rule hex_digits_class)
  have s: "c \<in> set ?t \<Longrightarrow> c = 45 \<or> is_lower_hex c" for c
    unfolding uuid_to_text_def using set_hyphenate [of "uuid_hex u"] hs by auto
  have no: "58 \<notin> set ?t" "123 \<notin> set ?t" "125 \<notin> set ?t"
    using s hex_not_special by fastforce+
  have last: "last (lit ''urn:'') = 58" "last (lit ''uuid:'') = 58"
    "lit ''urn:'' \<noteq> []" "lit ''uuid:'' \<noteq> []"
    by (simp_all add: lit_def)
  have r: "remove_all (lit ''uuid:'') (remove_all (lit ''urn:'') ?t) = ?t"
    using no(1) last by (simp add: remove_all_absent)
  have f: "filter (\<lambda>c. c \<noteq> 45) ?t = uuid_hex u"
    unfolding uuid_to_text_def
    by (rule filter_hyphenate) (use hs hex_not_special in blast, simp add: uuid_hex_def)
  have "unat u < 2 ^ 128" using unsigned_less [of u] by simp
  then have "unat u < 16 ^ 32" by simp
  then have "hex_value 0 (uuid_hex u) = Some (unat u)"
    unfolding uuid_hex_def by (rule hex_value_hex_digits)
  then show ?thesis
    unfolding uuid_of_text_def Let_def r strip_braces_absent [OF no(2,3)] f
    by (simp add: uuid_hex_def)
qed

lemma length_uuid_to_text [simp]: "length (uuid_to_text u) = 36"
  by (simp add: uuid_to_text_def hyphenate_def uuid_hex_def)

lemma uuid_to_text_eq_iff [simp]: "uuid_to_text u = uuid_to_text v \<longleftrightarrow> u = v"
  by (metis uuid_of_text_to_text option.inject)

lemma identity_new_iff: "identity_new u = Inr v \<longleftrightarrow> is_uuid4 u \<and> v = u"
  by (auto simp: identity_new_def is_uuid4_def)

interpretation identity: text_codec identity_to_string identity_from_string is_uuid4
proof unfold_locales
  fix u assume "is_uuid4 u"
  then show "identity_from_string (identity_to_string u) = Inr u"
    by (simp add: identity_from_string_def identity_to_string_def uuid_of_text_to_text
        is_uuid4_def identity_new_def)
next
  fix s u assume "identity_from_string s = Inr u"
  then show "identity_to_string u = s \<and> is_uuid4 u"
    by (auto simp: identity_from_string_def identity_to_string_def identity_new_iff
        split: option.splits if_splits)
qed

text \<open>A UUIDv4 used by the witnesses.\<close>

definition sample_uuid :: "nat \<Rightarrow> uuid" where
  "sample_uuid n = 0x00000000000040008000000000000000 + of_nat n"

lemma is_uuid4_sample [simp]:
  "is_uuid4 (sample_uuid 0)" "is_uuid4 (sample_uuid 1)" "is_uuid4 (sample_uuid 2)"
  "is_uuid4 (sample_uuid 3)" "is_uuid4 (sample_uuid 4)"
  by code_simp+

end
