(* ===== verification/Lifecycle.thy ===== *)
theory Lifecycle
  imports Identities
begin

text \<open>
  The durable lifecycles of the source (upload sessions, publications, YouTube claims, X
  posts and X assets) are transition tables: a dictionary from a state to the set of its
  allowed targets.  This theory holds the interface such a table satisfies, runs through a
  table, and the encoding of an enumeration by the text of its members.
\<close>

section \<open>Enumerations with a text value\<close>

text \<open>\<open>StrEnum(value)\<close>: the member with that value, or \<open>ValueError\<close>.\<close>

definition enum_parse :: "'e \<Rightarrow> 'a list \<Rightarrow> ('a \<Rightarrow> pystr) \<Rightarrow> pystr \<Rightarrow> 'e + 'a" where
  "enum_parse e members value s =
     (case find (\<lambda>x. value x = s) members of None \<Rightarrow> Inl e | Some x \<Rightarrow> Inr x)"

lemma find_value:
  "distinct (map f xs) \<Longrightarrow> x \<in> set xs \<Longrightarrow> find (\<lambda>y. f y = f x) xs = Some x"
proof (induction xs)
  case Nil
  then show ?case by simp
next
  case (Cons y ys)
  then show ?case by (cases "f y = f x") (auto simp: image_iff)
qed

lemma enum_codec_enum_parse:
  assumes "distinct (map value members)" and "\<And>x. x \<in> set members"
  shows "enum_codec value (enum_parse e members value)"
proof (unfold_locales, goal_cases)
  case (1 x)
  show ?case by (simp add: enum_parse_def find_value [OF assms(1) assms(2)])
next
  case (2 s x)
  then show ?case
    by (auto simp: enum_parse_def find_Some_iff split: option.splits)
qed

text \<open>A parameter that takes a member of an enumeration or any other object.\<close>

datatype 'a enum_arg = Member 'a | Raw pyobj

section \<open>Runs through a transition table\<close>

fun table_run :: "('s \<Rightarrow> 's list) \<Rightarrow> 's \<Rightarrow> 's list \<Rightarrow> bool" where
  "table_run allowed s [] = True"
| "table_run allowed s (t # ts) = (t \<in> set (allowed s) \<and> table_run allowed t ts)"

lemma table_run_append:
  "table_run allowed s (ts @ us) \<longleftrightarrow>
     table_run allowed s ts \<and> table_run allowed (last (s # ts)) us"
  by (induction ts arbitrary: s) auto

locale lifecycle =
  fixes allowed :: "'s \<Rightarrow> 's list"
    and final :: "'s \<Rightarrow> bool"
  assumes final_stuck: "final s \<Longrightarrow> allowed s = []"
begin

lemma run_from_final: "final s \<Longrightarrow> table_run allowed s ts \<Longrightarrow> ts = []"
  by (cases ts) (auto simp: final_stuck)

lemma final_only_last:
  assumes "table_run allowed s ts" and "ts = us @ t # vs" and "final t"
  shows "vs = []"
  using assms by (auto simp: table_run_append dest: run_from_final)

end

text \<open>A table whose moves all climb a rank: no state is ever entered twice.\<close>

locale ranked_lifecycle = lifecycle allowed final
  for allowed :: "'s \<Rightarrow> 's list" and final :: "'s \<Rightarrow> bool" +
  fixes rank :: "'s \<Rightarrow> nat"
  assumes rank_climbs: "t \<in> set (allowed s) \<Longrightarrow> rank s < rank t"
begin

lemma run_rank: "table_run allowed s ts \<Longrightarrow> t \<in> set ts \<Longrightarrow> rank s < rank t"
proof (induction ts arbitrary: s)
  case Nil
  then show ?case by simp
next
  case (Cons u us)
  then have "rank s < rank u" by (auto intro: rank_climbs)
  then show ?case using Cons by (auto intro: less_trans)
qed

lemma run_distinct: "table_run allowed s ts \<Longrightarrow> distinct (s # ts)"
proof (induction ts arbitrary: s)
  case Nil
  then show ?case by simp
next
  case (Cons u us)
  then have "s \<notin> set (u # us)" using run_rank [OF Cons.prems, of s] by blast
  with Cons show ?case by auto
qed

lemma run_length: "table_run allowed s ts \<Longrightarrow> rank s + length ts \<le> rank (last (s # ts))"
proof (induction ts arbitrary: s)
  case Nil
  then show ?case by simp
next
  case (Cons u us)
  then have "rank s < rank u" by (auto intro: rank_climbs)
  moreover have "rank u + length us \<le> rank (last (u # us))"
    using Cons by (intro Cons.IH) auto
  ultimately show ?case by simp
qed

end

end
