(* ===== verification/Identity_Access.thy ===== *)
theory Identity_Access
  imports Prelude
begin

text \<open>
  Verified identities, roles and capabilities (\<open>domain/identity_access.py\<close>) and the read
  decisions on records (\<open>domain/record_access.py\<close>).  An \<open>identity: object\<close> argument is an
  optional identity context: \<open>None\<close> stands for every object that is not one.
\<close>

section \<open>Roles and capabilities\<close>

definition ROLE_ADMIN :: pystr where "ROLE_ADMIN = lit ''admin''"
definition ROLE_USER :: pystr where "ROLE_USER = lit ''user''"

definition ROLES :: "pystr list" where
  "ROLES = [ROLE_ADMIN, ROLE_USER]"

definition IDENTITY_PROVENANCE_TAILSCALE_SERVE :: pystr where
  "IDENTITY_PROVENANCE_TAILSCALE_SERVE = lit ''tailscale-serve''"

definition IDENTITY_PROVENANCE_LOCAL_CONFIG :: pystr where
  "IDENTITY_PROVENANCE_LOCAL_CONFIG = lit ''local-config''"

definition MAPPING_PROVENANCE_CONFIG :: pystr where
  "MAPPING_PROVENANCE_CONFIG = lit ''config''"

definition CAPABILITY_MEDIA_WORKFLOW_READ :: pystr where
  "CAPABILITY_MEDIA_WORKFLOW_READ = lit ''media.workflow.read''"

definition PUBLIC_PUBLISHED_CAPABILITIES :: "pystr list" where
  "PUBLIC_PUBLISHED_CAPABILITIES = [lit ''gallery.read'', lit ''media.original.read'']"

definition ORDINARY_CAPABILITIES :: "pystr list" where
  "ORDINARY_CAPABILITIES = [lit ''gallery.read'', lit ''media.original.read'',
     lit ''media.download'', lit ''media.workspace.read'', lit ''analysis.propose'',
     lit ''upload.submit'', lit ''youtube.request'', lit ''x.request'',
     lit ''metadata.alias.write'', lit ''research.run'']"

definition ADMIN_ONLY_CAPABILITIES :: "pystr list" where
  "ADMIN_ONLY_CAPABILITIES = [lit ''metadata.canonical.write'', lit ''upload.manage'',
     lit ''analysis.run'', lit ''provider.operate'', lit ''media.import'', lit ''library.scan'',
     CAPABILITY_MEDIA_WORKFLOW_READ, lit ''media.content.publish'', lit ''youtube.acquire'',
     lit ''x.acquire'', lit ''media.catalog.remove'', lit ''metadata.alias.team.read'',
     lit ''records.approve'']"

text \<open>The dict \<open>CAPABILITIES_BY_ROLE\<close>.\<close>

definition CAPABILITIES_BY_ROLE :: "pystr \<Rightarrow> pystr list option" where
  "CAPABILITIES_BY_ROLE role =
     (if role = ROLE_USER then Some ORDINARY_CAPABILITIES
      else if role = ROLE_ADMIN then Some (ORDINARY_CAPABILITIES @ ADMIN_ONLY_CAPABILITIES)
      else None)"

definition MAX_IDENTITY_MAPPING_ENTRIES :: nat where
  "MAX_IDENTITY_MAPPING_ENTRIES = 64"

definition MAX_LOGIN_LENGTH :: nat where
  "MAX_LOGIN_LENGTH = 254"

definition MAX_DISPLAY_NAME_CODE_POINTS :: nat where
  "MAX_DISPLAY_NAME_CODE_POINTS = 200"

text \<open>\<open>KeyError\<close> is the unchecked look-up of a role in \<open>CAPABILITIES_BY_ROLE\<close>.\<close>

datatype identity_access_error = FrameNestIdentityAccessError | RoleKeyError

record identity_mapping_entry =
  im_login_key :: pystr
  im_role :: pystr
  im_provenance :: pystr

record identity_context =
  ic_login :: pystr
  ic_login_key :: pystr
  ic_display_name :: pystr
  ic_role :: pystr
  ic_capabilities :: "pystr list"
  ic_provenance :: pystr

type_synonym identity_mapping = "pystr \<Rightarrow> identity_mapping_entry option"

definition has_capability :: "identity_context \<Rightarrow> pystr \<Rightarrow> bool" where
  "has_capability c capability \<longleftrightarrow> capability \<in> set (ic_capabilities c)"

section \<open>Logins\<close>

definition is_control_character :: "nat \<Rightarrow> bool" where
  "is_control_character c \<longleftrightarrow> c < 32 \<or> c = 127"

definition is_forbidden_login_character :: "nat \<Rightarrow> bool" where
  "is_forbidden_login_character c \<longleftrightarrow> is_space c \<or> is_control_character c"

definition normalize_login :: "unicode_tables \<Rightarrow> pyobj \<Rightarrow> identity_access_error + pystr" where
  "normalize_login U value =
     (case value of
        PyStr s \<Rightarrow>
          let stripped = strip s
          in if stripped = [] \<or> length stripped > MAX_LOGIN_LENGTH
             then Inl FrameNestIdentityAccessError
             else if list_ex is_forbidden_login_character stripped
             then Inl FrameNestIdentityAccessError
             else Inr (uni_casefold U stripped)
      | _ \<Rightarrow> Inl FrameNestIdentityAccessError)"

text \<open>
  \<open>rfc2047\<close> is \<open>str(make_header(decode_header(s)))\<close> of the \<open>email\<close> package, \<open>None\<close> when it
  raises.
\<close>

definition contains_encoded_word :: "pystr \<Rightarrow> bool" where
  "contains_encoded_word s \<longleftrightarrow> (61, 63) \<in> set (zip s (drop 1 s))"

definition decode_display_name :: "(pystr \<Rightarrow> pystr option) \<Rightarrow> pyobj \<Rightarrow> pystr" where
  "decode_display_name rfc2047 value =
     (case value of
        PyStr s \<Rightarrow>
          let candidate = strip s
          in if candidate = [] then []
             else let decoded = (if contains_encoded_word candidate
                        then case rfc2047 candidate of None \<Rightarrow> candidate | Some d \<Rightarrow> d
                        else candidate);
                      sanitized = strip (filter (\<lambda>c. \<not> is_control_character c) decoded)
                  in take MAX_DISPLAY_NAME_CODE_POINTS sanitized
      | _ \<Rightarrow> [])"

section \<open>Mappings\<close>

fun add_identity_mappings ::
    "unicode_tables \<Rightarrow> (pyobj \<times> pyobj) list \<Rightarrow> identity_mapping
     \<Rightarrow> identity_access_error + identity_mapping" where
  "add_identity_mappings U [] mapping = Inr mapping"
| "add_identity_mappings U ((raw_login, raw_role) # rest) mapping =
     and_then (normalize_login U raw_login) (\<lambda>login_key.
       case raw_role of
         PyStr r \<Rightarrow>
           let role = strip r
           in if role \<notin> set ROLES then Inl FrameNestIdentityAccessError
              else if mapping login_key \<noteq> None then Inl FrameNestIdentityAccessError
              else add_identity_mappings U rest
                (mapping(login_key \<mapsto> \<lparr>im_login_key = login_key, im_role = role,
                   im_provenance = MAPPING_PROVENANCE_CONFIG\<rparr>))
       | _ \<Rightarrow> Inl FrameNestIdentityAccessError)"

definition build_identity_mapping ::
    "unicode_tables \<Rightarrow> (pyobj \<times> pyobj) list \<Rightarrow> identity_access_error + identity_mapping" where
  "build_identity_mapping U raw_mapping =
     (if length raw_mapping > MAX_IDENTITY_MAPPING_ENTRIES then Inl FrameNestIdentityAccessError
      else add_identity_mappings U raw_mapping Map.empty)"

definition capabilities_of_role :: "pystr \<Rightarrow> identity_access_error + pystr list" where
  "capabilities_of_role role =
     (case CAPABILITIES_BY_ROLE role of None \<Rightarrow> Inl RoleKeyError | Some cs \<Rightarrow> Inr cs)"

definition identity_from_mapped_login ::
    "unicode_tables \<Rightarrow> pyobj \<Rightarrow> identity_mapping \<Rightarrow> pystr
     \<Rightarrow> identity_access_error + identity_context" where
  "identity_from_mapped_login U login_key mapping provenance =
     and_then (normalize_login U login_key) (\<lambda>normalized.
       case mapping normalized of
         None \<Rightarrow> Inl FrameNestIdentityAccessError
       | Some entry \<Rightarrow>
           if provenance \<notin> set [IDENTITY_PROVENANCE_TAILSCALE_SERVE,
                IDENTITY_PROVENANCE_LOCAL_CONFIG, MAPPING_PROVENANCE_CONFIG]
           then Inl FrameNestIdentityAccessError
           else and_then (capabilities_of_role (im_role entry)) (\<lambda>capabilities.
             Inr \<lparr>ic_login = normalized, ic_login_key = normalized,
                  ic_display_name = normalized, ic_role = im_role entry,
                  ic_capabilities = capabilities, ic_provenance = provenance\<rparr>))"

definition resolve_identity ::
    "unicode_tables \<Rightarrow> (pystr \<Rightarrow> pystr option) \<Rightarrow> pyobj \<Rightarrow> pyobj \<Rightarrow> identity_mapping
     \<Rightarrow> identity_access_error + identity_context option" where
  "resolve_identity U rfc2047 login display_name mapping =
     (case login of
        PyStr s \<Rightarrow>
          let original_login = strip s
          in and_then (normalize_login U (PyStr original_login)) (\<lambda>login_key.
             case mapping login_key of
               None \<Rightarrow> Inr None
             | Some entry \<Rightarrow>
                 let resolved = decode_display_name rfc2047 display_name
                 in and_then (capabilities_of_role (im_role entry)) (\<lambda>capabilities.
                    Inr (Some \<lparr>ic_login = original_login, ic_login_key = login_key,
                      ic_display_name = (if resolved \<noteq> [] then resolved else original_login),
                      ic_role = im_role entry, ic_capabilities = capabilities,
                      ic_provenance = IDENTITY_PROVENANCE_TAILSCALE_SERVE\<rparr>)))
      | _ \<Rightarrow> Inl FrameNestIdentityAccessError)"

definition mapped_role_has_capability ::
    "unicode_tables \<Rightarrow> identity_mapping \<Rightarrow> pyobj \<Rightarrow> pystr \<Rightarrow> bool" where
  "mapped_role_has_capability U mapping login capability =
     (case normalize_login U login of
        Inl _ \<Rightarrow> False
      | Inr login_key \<Rightarrow>
          (case mapping login_key of
             None \<Rightarrow> False
           | Some entry \<Rightarrow>
               capability \<in> set (case CAPABILITIES_BY_ROLE (im_role entry) of
                 None \<Rightarrow> [] | Some cs \<Rightarrow> cs)))"

section \<open>Reading records\<close>

datatype record_kind = RK_MEDIA | RK_SEARCH | RK_RESEARCH
datatype record_visibility = PRIVATE | FAMILY
datatype access_scope_kind = AS_DENY | AS_MEMBER | AS_ADMINISTRATOR | AS_LEGACY_PUBLIC
datatype read_decision = READ_DENY | READ_CURRENT | READ_APPROVED | READ_LEGACY

text \<open>\<open>RecordAccessScope\<close>; the \<open>ValueError\<close> of its constructor is \<open>None\<close>.\<close>

record record_access_scope =
  ras_kind :: access_scope_kind
  ras_owner_login_key :: "pystr option"

definition record_access_scope_new ::
    "access_scope_kind \<Rightarrow> pystr option \<Rightarrow> record_access_scope option" where
  "record_access_scope_new kind owner =
     (if kind \<in> {AS_MEMBER, AS_ADMINISTRATOR}
      then if owner = None \<or> owner = Some [] then None
           else Some \<lparr>ras_kind = kind, ras_owner_login_key = owner\<rparr>
      else if owner \<noteq> None then None
      else Some \<lparr>ras_kind = kind, ras_owner_login_key = owner\<rparr>)"

definition allows_queries :: "record_access_scope \<Rightarrow> bool" where
  "allows_queries scope \<longleftrightarrow> ras_kind scope \<noteq> AS_DENY"

definition scope_for_identity :: "identity_context option \<Rightarrow> record_access_scope option" where
  "scope_for_identity identity =
     (case identity of
        None \<Rightarrow> record_access_scope_new AS_DENY None
      | Some c \<Rightarrow>
          if ic_login_key c = [] then record_access_scope_new AS_DENY None
          else if has_capability c CAPABILITY_MEDIA_WORKFLOW_READ
          then record_access_scope_new AS_ADMINISTRATOR (Some (ic_login_key c))
          else record_access_scope_new AS_MEMBER (Some (ic_login_key c)))"

record bound_record_view =
  br_owner_login_key :: pystr
  br_kind :: record_kind
  br_visibility :: record_visibility
  br_completed :: bool
  br_approved :: bool

definition decide_bound_read :: "identity_context option \<Rightarrow> bound_record_view \<Rightarrow> read_decision" where
  "decide_bound_read identity r =
     (case identity of
        None \<Rightarrow> READ_DENY
      | Some c \<Rightarrow>
          if ic_login_key c = [] then READ_DENY
          else if has_capability c CAPABILITY_MEDIA_WORKFLOW_READ then READ_CURRENT
          else if ic_login_key c = br_owner_login_key r then READ_CURRENT
          else if br_visibility r = FAMILY \<and> br_approved r \<and> br_completed r then READ_APPROVED
          else READ_DENY)"

definition decide_unbound_legacy ::
    "identity_context option \<Rightarrow> bool \<Rightarrow> bool \<Rightarrow> bool \<Rightarrow> read_decision" where
  "decide_unbound_legacy identity exists published requester_access =
     (case identity of
        None \<Rightarrow> READ_DENY
      | Some c \<Rightarrow>
          if ic_login_key c = [] \<or> \<not> exists then READ_DENY
          else if has_capability c CAPABILITY_MEDIA_WORKFLOW_READ then READ_CURRENT
          else if published \<or> requester_access then READ_LEGACY
          else READ_DENY)"

definition may_approve :: "identity_context option \<Rightarrow> bool" where
  "may_approve identity =
     (case identity of
        None \<Rightarrow> False
      | Some c \<Rightarrow> has_capability c CAPABILITY_MEDIA_WORKFLOW_READ \<and> ic_login_key c \<noteq> [])"

definition timeline_includes :: "bound_record_view \<Rightarrow> bool" where
  "timeline_includes r \<longleftrightarrow> br_visibility r = FAMILY \<and> br_approved r \<and> br_completed r"

section \<open>Facts\<close>

lemma dropWhile_head: "dropWhile P xs = ys \<Longrightarrow> ys \<noteq> [] \<Longrightarrow> \<not> P (hd ys)"
  using hd_dropWhile [of P xs] by auto

lemma strip_idem [simp]: "strip (strip s) = strip s"
proof -
  obtain a where a: "dropWhile is_space s = a" by blast
  obtain b where b: "dropWhile is_space (rev a) = b" by blast
  obtain zs where z: "rev a = zs @ b" using b by (metis takeWhile_dropWhile_id)
  have ab: "a = rev b @ rev zs" using arg_cong [OF z, of rev] by simp
  have "\<not> is_space (hd (rev b))" if "b \<noteq> []"
  proof -
    have "a \<noteq> []" "hd a = hd (rev b)" using that unfolding ab by simp_all
    then show ?thesis using dropWhile_head [OF a] by simp
  qed
  then have "dropWhile is_space (rev b) = rev b" by (intro dropWhile_id) auto
  moreover have "dropWhile is_space b = b" using dropWhile_head [OF b] by (intro dropWhile_id)
  ultimately show ?thesis by (simp add: strip_def a b)
qed

lemma normalize_login_strip: "normalize_login U (PyStr (strip s)) = normalize_login U (PyStr s)"
  by (simp add: normalize_login_def)

lemma capabilities_of_role_some:
  "role \<in> set ROLES \<Longrightarrow> \<exists>cs. CAPABILITIES_BY_ROLE role = Some cs \<and> capabilities_of_role role = Inr cs"
  by (auto simp: CAPABILITIES_BY_ROLE_def ROLES_def capabilities_of_role_def)

definition mapping_ok :: "identity_mapping \<Rightarrow> bool" where
  "mapping_ok m \<longleftrightarrow> (\<forall>k e. m k = Some e \<longrightarrow> im_login_key e = k \<and> im_role e \<in> set ROLES
     \<and> im_provenance e = MAPPING_PROVENANCE_CONFIG)"

lemma add_mappings_ok:
  assumes "add_identity_mappings U raw m = Inr m'" and "mapping_ok m"
  shows "mapping_ok m'" and "m k = Some e \<Longrightarrow> m' k = Some e"
    and "\<And>login role. (login, role) \<in> set raw \<Longrightarrow>
      \<exists>key r. normalize_login U login = Inr key \<and> role = PyStr r \<and>
        m' key = Some \<lparr>im_login_key = key, im_role = strip r, im_provenance = MAPPING_PROVENANCE_CONFIG\<rparr>"
    and "dom m' = dom m \<union> {key. \<exists>login role. (login, role) \<in> set raw \<and> normalize_login U login = Inr key}"
proof -
  have "mapping_ok m' \<and> (\<forall>k e. m k = Some e \<longrightarrow> m' k = Some e)
    \<and> (\<forall>login role. (login, role) \<in> set raw \<longrightarrow>
      (\<exists>key r. normalize_login U login = Inr key \<and> role = PyStr r \<and>
        m' key = Some \<lparr>im_login_key = key, im_role = strip r, im_provenance = MAPPING_PROVENANCE_CONFIG\<rparr>))
    \<and> dom m' = dom m \<union> {key. \<exists>login role. (login, role) \<in> set raw \<and> normalize_login U login = Inr key}"
    using assms
  proof (induction raw arbitrary: m)
    case Nil
    then show ?case by simp
  next
    case (Cons x raw)
    obtain login role where x: "x = (login, role)" by (cases x)
    from Cons.prems(1) obtain key r where k: "normalize_login U login = Inr key" "role = PyStr r"
        "strip r \<in> set ROLES" "m key = None"
        "add_identity_mappings U raw (m(key \<mapsto> \<lparr>im_login_key = key, im_role = strip r,
            im_provenance = MAPPING_PROVENANCE_CONFIG\<rparr>)) = Inr m'"
      by (cases role) (auto simp: x and_then_Inr Let_def split: if_splits)
    let ?m = "m(key \<mapsto> \<lparr>im_login_key = key, im_role = strip r, im_provenance = MAPPING_PROVENANCE_CONFIG\<rparr>)"
    have "mapping_ok ?m" using Cons.prems(2) k(3) by (simp add: mapping_ok_def)
    note ih = Cons.IH [OF k(5) this]
    have keep: "m' k' = Some e" if "m k' = Some e" for k' e
    proof -
      have "k' \<noteq> key" using that k(4) by auto
      then show ?thesis using ih that by simp
    qed
    have here: "m' key = Some \<lparr>im_login_key = key, im_role = strip r,
        im_provenance = MAPPING_PROVENANCE_CONFIG\<rparr>"
      using ih by simp
    have all: "\<exists>key r. normalize_login U l = Inr key \<and> ro = PyStr r \<and>
        m' key = Some \<lparr>im_login_key = key, im_role = strip r, im_provenance = MAPPING_PROVENANCE_CONFIG\<rparr>"
      if "(l, ro) \<in> set (x # raw)" for l ro
    proof (cases "(l, ro) = x")
      case True
      then show ?thesis using here k(1,2) x by blast
    next
      case False
      then show ?thesis using ih that by simp
    qed
    have "{k. \<exists>l ro. (l, ro) \<in> set (x # raw) \<and> normalize_login U l = Inr k}
        = insert key {k. \<exists>l ro. (l, ro) \<in> set raw \<and> normalize_login U l = Inr k}"
      using x k(1) by auto
    moreover have "dom ?m = insert key (dom m)" by (simp only: dom_fun_upd option.distinct if_False)
    then have "dom m' = insert key (dom m) \<union> {k. \<exists>l ro. (l, ro) \<in> set raw \<and> normalize_login U l = Inr k}"
      using ih by argo
    ultimately have "dom m' = dom m \<union> {k. \<exists>l ro. (l, ro) \<in> set (x # raw) \<and> normalize_login U l = Inr k}"
      by simp
    then show ?case using ih keep all by blast
  qed
  then show "mapping_ok m'" and "m k = Some e \<Longrightarrow> m' k = Some e"
    and "\<And>login role. (login, role) \<in> set raw \<Longrightarrow>
      \<exists>key r. normalize_login U login = Inr key \<and> role = PyStr r \<and>
        m' key = Some \<lparr>im_login_key = key, im_role = strip r, im_provenance = MAPPING_PROVENANCE_CONFIG\<rparr>"
    and "dom m' = dom m \<union> {key. \<exists>login role. (login, role) \<in> set raw \<and> normalize_login U login = Inr key}"
    by blast+
qed

lemma built_mapping:
  assumes "build_identity_mapping U raw = Inr m"
  shows "mapping_ok m"
    and "(login, role) \<in> set raw \<Longrightarrow> \<exists>key r. normalize_login U login = Inr key \<and> role = PyStr r \<and>
        m key = Some \<lparr>im_login_key = key, im_role = strip r, im_provenance = MAPPING_PROVENANCE_CONFIG\<rparr>"
    and "dom m = {key. \<exists>login role. (login, role) \<in> set raw \<and> normalize_login U login = Inr key}"
proof -
  have a: "add_identity_mappings U raw Map.empty = Inr m"
    using assms by (simp add: build_identity_mapping_def split: if_splits)
  have e: "mapping_ok Map.empty" by (simp add: mapping_ok_def)
  show "mapping_ok m" by (rule add_mappings_ok(1) [OF a e])
  show "(login, role) \<in> set raw \<Longrightarrow> \<exists>key r. normalize_login U login = Inr key \<and> role = PyStr r \<and>
        m key = Some \<lparr>im_login_key = key, im_role = strip r, im_provenance = MAPPING_PROVENANCE_CONFIG\<rparr>"
    by (rule add_mappings_ok(3) [OF a e])
  show "dom m = {key. \<exists>login role. (login, role) \<in> set raw \<and> normalize_login U login = Inr key}"
    using add_mappings_ok(4) [OF a e] by simp
qed

text \<open>An entry of the built mapping comes from a line of the configuration.\<close>

lemma built_mapping_source:
  assumes "build_identity_mapping U raw = Inr m" and "m key = Some e"
  shows "\<exists>login r. (login, PyStr r) \<in> set raw \<and> normalize_login U login = Inr key \<and> im_role e = strip r
    \<and> strip r \<in> set ROLES"
proof -
  have "key \<in> dom m" using assms(2) by blast
  then obtain login role where lr: "(login, role) \<in> set raw" "normalize_login U login = Inr key"
    using built_mapping(3) [OF assms(1)] by blast
  from built_mapping(2) [OF assms(1) lr(1)] lr(2) obtain r where r: "role = PyStr r"
      "m key = Some \<lparr>im_login_key = key, im_role = strip r, im_provenance = MAPPING_PROVENANCE_CONFIG\<rparr>"
    by auto
  moreover have "im_role e \<in> set ROLES"
    using built_mapping(1) [OF assms(1)] assms(2) unfolding mapping_ok_def by blast
  ultimately show ?thesis using lr assms(2) by auto
qed

lemma resolve_identity_Some:
  assumes "resolve_identity U rfc2047 login display_name m = Inr (Some c)"
  obtains s key e cs where "login = PyStr s" "normalize_login U (PyStr s) = Inr key" "m key = Some e"
    "CAPABILITIES_BY_ROLE (im_role e) = Some cs"
    "c = \<lparr>ic_login = strip s, ic_login_key = key,
       ic_display_name = (if decode_display_name rfc2047 display_name \<noteq> []
         then decode_display_name rfc2047 display_name else strip s),
       ic_role = im_role e, ic_capabilities = cs, ic_provenance = IDENTITY_PROVENANCE_TAILSCALE_SERVE\<rparr>"
proof -
  from assms obtain s where s: "login = PyStr s" by (cases login) (auto simp: resolve_identity_def)
  from assms s obtain key where k: "normalize_login U (PyStr s) = Inr key"
    by (cases "normalize_login U (PyStr s)") (auto simp: resolve_identity_def normalize_login_strip)
  from assms s k obtain e where e: "m key = Some e"
    by (cases "m key") (auto simp: resolve_identity_def normalize_login_strip)
  from assms s k e obtain cs where "CAPABILITIES_BY_ROLE (im_role e) = Some cs"
    by (cases "CAPABILITIES_BY_ROLE (im_role e)")
       (auto simp: resolve_identity_def normalize_login_strip capabilities_of_role_def Let_def)
  with assms s k e show thesis
    by (intro that [OF s k e])
       (auto simp: resolve_identity_def normalize_login_strip capabilities_of_role_def Let_def)
qed

lemma resolve_identity_mapped:
  assumes "normalize_login U (PyStr s) = Inr key" "m key = Some e" "CAPABILITIES_BY_ROLE (im_role e) = Some cs"
  shows "resolve_identity U rfc2047 (PyStr s) display_name m = Inr (Some
     \<lparr>ic_login = strip s, ic_login_key = key,
       ic_display_name = (if decode_display_name rfc2047 display_name \<noteq> []
         then decode_display_name rfc2047 display_name else strip s),
       ic_role = im_role e, ic_capabilities = cs, ic_provenance = IDENTITY_PROVENANCE_TAILSCALE_SERVE\<rparr>)"
  using assms by (simp add: resolve_identity_def normalize_login_strip capabilities_of_role_def Let_def)

text \<open>The workflow capability is what distinguishes an administrator.\<close>

lemma workflow_read_iff_admin:
  assumes "CAPABILITIES_BY_ROLE role = Some cs"
  shows "CAPABILITY_MEDIA_WORKFLOW_READ \<in> set cs \<longleftrightarrow> role = ROLE_ADMIN"
proof (cases "role = ROLE_USER")
  case True
  then have "cs = ORDINARY_CAPABILITIES" using assms by (simp add: CAPABILITIES_BY_ROLE_def)
  moreover have "CAPABILITY_MEDIA_WORKFLOW_READ \<notin> set ORDINARY_CAPABILITIES" by code_simp
  moreover have "ROLE_USER \<noteq> ROLE_ADMIN" by code_simp
  ultimately show ?thesis using True by simp
next
  case False
  then have "role = ROLE_ADMIN" "cs = ORDINARY_CAPABILITIES @ ADMIN_ONLY_CAPABILITIES"
    using assms by (auto simp: CAPABILITIES_BY_ROLE_def split: if_splits)
  then show ?thesis by (simp add: ADMIN_ONLY_CAPABILITIES_def)
qed

lemma public_capabilities_ordinary: "set PUBLIC_PUBLISHED_CAPABILITIES \<subseteq> set ORDINARY_CAPABILITIES"
  by (simp add: PUBLIC_PUBLISHED_CAPABILITIES_def ORDINARY_CAPABILITIES_def)

lemma normalize_login_nonempty:
  assumes "\<And>s. uni_casefold U s = [] \<Longrightarrow> s = []" and "normalize_login U login = Inr key"
  shows "key \<noteq> []"
proof (cases login)
  case (PyStr s)
  then show ?thesis using assms by (auto simp: normalize_login_def Let_def split: if_splits)
qed (use assms in \<open>auto simp: normalize_login_def\<close>)

definition sample_identities :: "(pyobj \<times> pyobj) list" where
  "sample_identities = [(PyStr (lit '' Bob@Example.org''), PyStr (lit ''user'')),
     (PyStr (lit ''alice@example.org''), PyStr (lit '' admin ''))]"

definition sample_mapping :: identity_mapping where
  "sample_mapping = Map.empty(lit ''bob@example.org'' \<mapsto> \<lparr>im_login_key = lit ''bob@example.org'',
     im_role = ROLE_USER, im_provenance = MAPPING_PROVENANCE_CONFIG\<rparr>,
     lit ''alice@example.org'' \<mapsto> \<lparr>im_login_key = lit ''alice@example.org'',
     im_role = ROLE_ADMIN, im_provenance = MAPPING_PROVENANCE_CONFIG\<rparr>)"

lemma sample_strings:
  "strip (lit ''user'') = ROLE_USER" "strip (lit '' admin '') = ROLE_ADMIN"
  "strip (lit '' Bob@Example.org'') = lit ''Bob@Example.org''"
  "strip (lit ''alice@example.org'') = lit ''alice@example.org''"
  "strip (lit ''ALICE@example.org'') = lit ''ALICE@example.org''"
  by (simp_all add: strip_def lit_def is_space_def ROLE_USER_def ROLE_ADMIN_def)

lemma sample_logins:
  "normalize_login ascii_tables (PyStr (lit '' Bob@Example.org'')) = Inr (lit ''bob@example.org'')"
  "normalize_login ascii_tables (PyStr (lit ''alice@example.org'')) = Inr (lit ''alice@example.org'')"
  "normalize_login ascii_tables (PyStr (lit ''ALICE@example.org'')) = Inr (lit ''alice@example.org'')"
  "lit ''bob@example.org'' \<noteq> lit ''alice@example.org''" "lit ''alice@example.org'' \<noteq> lit ''bob@example.org''"
  by (simp_all add: normalize_login_def sample_strings MAX_LOGIN_LENGTH_def)
     (simp_all add: lit_def is_forbidden_login_character_def is_space_def is_control_character_def
       ascii_lower_def ascii_lower_char_def is_upper_def)

lemma sample_mapping_built: "build_identity_mapping ascii_tables sample_identities = Inr sample_mapping"
  by (simp add: build_identity_mapping_def sample_identities_def sample_mapping_def sample_logins
      sample_strings
      MAX_IDENTITY_MAPPING_ENTRIES_def ROLES_def)

section \<open>Authorization comes from the configuration alone\<close>

lemma resolved_identity_facts:
  assumes "build_identity_mapping U raw = Inr m"
    and "resolve_identity U rfc2047 login display_name m = Inr (Some c)"
  shows "\<exists>l r. (l, PyStr r) \<in> set raw \<and> normalize_login U l = normalize_login U login
      \<and> normalize_login U login = Inr (ic_login_key c) \<and> ic_role c = strip r
      \<and> ic_role c \<in> {ROLE_USER, ROLE_ADMIN}"
    and "has_capability c capability \<longleftrightarrow> mapped_role_has_capability U m login capability"
    and "has_capability c capability \<longleftrightarrow> capability \<in> set ORDINARY_CAPABILITIES
      \<or> ic_role c = ROLE_ADMIN \<and> capability \<in> set ADMIN_ONLY_CAPABILITIES"
    and "\<exists>shown. resolve_identity U rfc2047 login other_name m = Inr (Some (c\<lparr>ic_display_name := shown\<rparr>))"
proof -
  from assms(2) obtain s key e cs where c: "login = PyStr s" "normalize_login U (PyStr s) = Inr key"
      "m key = Some e" "CAPABILITIES_BY_ROLE (im_role e) = Some cs"
      "c = \<lparr>ic_login = strip s, ic_login_key = key,
       ic_display_name = (if decode_display_name rfc2047 display_name \<noteq> []
         then decode_display_name rfc2047 display_name else strip s),
       ic_role = im_role e, ic_capabilities = cs, ic_provenance = IDENTITY_PROVENANCE_TAILSCALE_SERVE\<rparr>"
    by (rule resolve_identity_Some)
  from built_mapping_source [OF assms(1) c(3)] obtain l r where lr: "(l, PyStr r) \<in> set raw"
      "normalize_login U l = Inr key" "im_role e = strip r" "strip r \<in> set ROLES" by blast
  show "\<exists>l r. (l, PyStr r) \<in> set raw \<and> normalize_login U l = normalize_login U login
      \<and> normalize_login U login = Inr (ic_login_key c) \<and> ic_role c = strip r
      \<and> ic_role c \<in> {ROLE_USER, ROLE_ADMIN}"
    using lr c by (intro exI [of _ l] exI [of _ r]) (auto simp: ROLES_def)
  show "has_capability c capability \<longleftrightarrow> mapped_role_has_capability U m login capability"
    using c by (simp add: has_capability_def mapped_role_has_capability_def)
  show "has_capability c capability \<longleftrightarrow> capability \<in> set ORDINARY_CAPABILITIES
      \<or> ic_role c = ROLE_ADMIN \<and> capability \<in> set ADMIN_ONLY_CAPABILITIES"
  proof -
    have "ROLE_USER \<noteq> ROLE_ADMIN" by code_simp
    then show ?thesis using c(4,5) by (auto simp: has_capability_def CAPABILITIES_BY_ROLE_def split: if_splits)
  qed
  show "\<exists>shown. resolve_identity U rfc2047 login other_name m = Inr (Some (c\<lparr>ic_display_name := shown\<rparr>))"
    using resolve_identity_mapped [of U s key m e cs rfc2047 other_name, OF c(2,3,4)] c(1,5) by simp
qed

lemma read_matrix_facts:
  assumes "build_identity_mapping U raw = Inr m"
    and "resolve_identity U rfc2047 login display_name m = Inr (Some c)"
    and "\<And>s. uni_casefold U s = [] \<Longrightarrow> s = []"
  shows "decide_bound_read (Some c) r = READ_CURRENT
      \<longleftrightarrow> ic_role c = ROLE_ADMIN \<or> br_owner_login_key r = ic_login_key c"
    and "decide_bound_read (Some c) r = READ_APPROVED
      \<longleftrightarrow> timeline_includes r \<and> ic_role c = ROLE_USER \<and> br_owner_login_key r \<noteq> ic_login_key c"
    and "decide_bound_read (Some c) r = READ_DENY
      \<longleftrightarrow> \<not> timeline_includes r \<and> ic_role c = ROLE_USER \<and> br_owner_login_key r \<noteq> ic_login_key c"
    and "may_approve (Some c) \<longleftrightarrow> ic_role c = ROLE_ADMIN"
    and "scope_for_identity (Some c) = Some \<lparr>ras_kind = (if ic_role c = ROLE_ADMIN then AS_ADMINISTRATOR
        else AS_MEMBER), ras_owner_login_key = Some (ic_login_key c)\<rparr>"
proof -
  from assms(2) obtain s key e cs where c: "login = PyStr s" "normalize_login U (PyStr s) = Inr key"
      "m key = Some e" "CAPABILITIES_BY_ROLE (im_role e) = Some cs"
      "ic_login_key c = key" "ic_role c = im_role e" "ic_capabilities c = cs"
    by (rule resolve_identity_Some) auto
  have key: "ic_login_key c \<noteq> []" using normalize_login_nonempty [OF assms(3) c(2)] c(5) by simp
  have admin: "has_capability c CAPABILITY_MEDIA_WORKFLOW_READ \<longleftrightarrow> ic_role c = ROLE_ADMIN"
    using workflow_read_iff_admin [OF c(4)] c(6,7) by (simp add: has_capability_def)
  have "ROLE_USER \<noteq> ROLE_ADMIN" by code_simp
  then have user: "ic_role c = ROLE_USER \<longleftrightarrow> ic_role c \<noteq> ROLE_ADMIN"
    using c(4,6) by (auto simp: CAPABILITIES_BY_ROLE_def split: if_splits)
  show "decide_bound_read (Some c) r = READ_CURRENT
      \<longleftrightarrow> ic_role c = ROLE_ADMIN \<or> br_owner_login_key r = ic_login_key c"
    and "decide_bound_read (Some c) r = READ_APPROVED
      \<longleftrightarrow> timeline_includes r \<and> ic_role c = ROLE_USER \<and> br_owner_login_key r \<noteq> ic_login_key c"
    and "decide_bound_read (Some c) r = READ_DENY
      \<longleftrightarrow> \<not> timeline_includes r \<and> ic_role c = ROLE_USER \<and> br_owner_login_key r \<noteq> ic_login_key c"
    using key by (auto simp: decide_bound_read_def admin user timeline_includes_def)
  show "may_approve (Some c) \<longleftrightarrow> ic_role c = ROLE_ADMIN"
    using key by (simp add: may_approve_def admin)
  show "scope_for_identity (Some c) = Some \<lparr>ras_kind = (if ic_role c = ROLE_ADMIN then AS_ADMINISTRATOR
        else AS_MEMBER), ras_owner_login_key = Some (ic_login_key c)\<rparr>"
    using key by (simp add: scope_for_identity_def admin record_access_scope_new_def)
qed

lemma sample_resolved:
  "\<exists>c. resolve_identity ascii_tables (\<lambda>_. None) (PyStr (lit ''ALICE@example.org'')) PyNone sample_mapping
     = Inr (Some c) \<and> ic_role c = ROLE_ADMIN"
proof -
  have "ROLE_ADMIN \<noteq> ROLE_USER" by code_simp
  then have cs: "CAPABILITIES_BY_ROLE ROLE_ADMIN = Some (ORDINARY_CAPABILITIES @ ADMIN_ONLY_CAPABILITIES)"
    by (simp add: CAPABILITIES_BY_ROLE_def)
  have e: "sample_mapping (lit ''alice@example.org'') = Some \<lparr>im_login_key = lit ''alice@example.org'',
     im_role = ROLE_ADMIN, im_provenance = MAPPING_PROVENANCE_CONFIG\<rparr>"
    by (simp add: sample_mapping_def)
  show ?thesis
    using resolve_identity_mapped [of _ _ _ sample_mapping, OF sample_logins(3) e, of _ "\<lambda>_. None" PyNone]
    by (simp add: cs)
qed

text \<open>
   C34. An identity resolved against a mapping built from the configuration has a role that
  some configuration line gives to a login with the same key, and exactly the capabilities
  of that role; the answer agrees with \<open>mapped_role_has_capability\<close>; and presenting
  another display name changes nothing but the display name.
\<close>

theorem resolved_identity_authorised:
  assumes "build_identity_mapping U raw = Inr m"
    and "resolve_identity U rfc2047 login display_name m = Inr (Some c)"
  shows "(\<exists>l r. (l, PyStr r) \<in> set raw \<and> normalize_login U l = normalize_login U login
      \<and> normalize_login U login = Inr (ic_login_key c) \<and> ic_role c = strip r
      \<and> ic_role c \<in> {ROLE_USER, ROLE_ADMIN})
    \<and> (has_capability c capability \<longleftrightarrow> mapped_role_has_capability U m login capability)
    \<and> (has_capability c capability \<longleftrightarrow> capability \<in> set ORDINARY_CAPABILITIES
      \<or> ic_role c = ROLE_ADMIN \<and> capability \<in> set ADMIN_ONLY_CAPABILITIES)
    \<and> (\<exists>shown. resolve_identity U rfc2047 login other_name m = Inr (Some (c\<lparr>ic_display_name := shown\<rparr>)))"
  using resolved_identity_facts [OF assms] by simp

lemma resolved_identity_authorised_witness:
  "\<exists>c. resolve_identity ascii_tables (\<lambda>_. None) (PyStr (lit ''ALICE@example.org'')) PyNone sample_mapping
     = Inr (Some c) \<and> has_capability c (lit ''records.approve'')"
proof -
  obtain c where c: "resolve_identity ascii_tables (\<lambda>_. None) (PyStr (lit ''ALICE@example.org'')) PyNone
      sample_mapping = Inr (Some c)" "ic_role c = ROLE_ADMIN"
    using sample_resolved by blast
  have "lit ''records.approve'' \<in> set ADMIN_ONLY_CAPABILITIES" by (simp add: ADMIN_ONLY_CAPABILITIES_def)
  then show ?thesis
    using resolved_identity_authorised [OF sample_mapping_built c(1), of "lit ''records.approve''" PyNone] c by blast
qed

text \<open>
   C35. The read matrix for a configured identity: an administrator or the owner reads the
  current version, another member reads the approved version exactly of the records the
  shared timeline shows, nobody else reads; only an administrator approves; and the scope of
  list queries is the matching one.  (Case folding never empties a non-empty login.)
\<close>

theorem configured_identity_read_matrix:
  assumes "build_identity_mapping U raw = Inr m"
    and "resolve_identity U rfc2047 login display_name m = Inr (Some c)"
    and "\<And>s. uni_casefold U s = [] \<Longrightarrow> s = []"
  shows "(decide_bound_read (Some c) r = READ_CURRENT
      \<longleftrightarrow> ic_role c = ROLE_ADMIN \<or> br_owner_login_key r = ic_login_key c)
    \<and> (decide_bound_read (Some c) r = READ_APPROVED
      \<longleftrightarrow> timeline_includes r \<and> ic_role c = ROLE_USER \<and> br_owner_login_key r \<noteq> ic_login_key c)
    \<and> (decide_bound_read (Some c) r = READ_DENY
      \<longleftrightarrow> \<not> timeline_includes r \<and> ic_role c = ROLE_USER \<and> br_owner_login_key r \<noteq> ic_login_key c)
    \<and> (may_approve (Some c) \<longleftrightarrow> ic_role c = ROLE_ADMIN)
    \<and> scope_for_identity (Some c) = Some \<lparr>ras_kind = (if ic_role c = ROLE_ADMIN then AS_ADMINISTRATOR
        else AS_MEMBER), ras_owner_login_key = Some (ic_login_key c)\<rparr>"
  by (intro conjI read_matrix_facts [OF assms])

lemma configured_identity_read_matrix_witness:
  "\<exists>c. resolve_identity ascii_tables (\<lambda>_. None) (PyStr (lit ''ALICE@example.org'')) PyNone sample_mapping
     = Inr (Some c) \<and> may_approve (Some c)"
proof -
  obtain c where c: "resolve_identity ascii_tables (\<lambda>_. None) (PyStr (lit ''ALICE@example.org'')) PyNone
      sample_mapping = Inr (Some c)" "ic_role c = ROLE_ADMIN"
    using sample_resolved by blast
  have "\<And>s. uni_casefold ascii_tables s = [] \<Longrightarrow> s = []" by (simp add: ascii_lower_def)
  then show ?thesis using configured_identity_read_matrix [OF sample_mapping_built c(1)] c by blast
qed

end
