(* ===== verification/Uploads.thy ===== *)
theory Uploads
  imports Lifecycle Identity_Access
begin

text \<open>
  \<open>src/framenest/domain/uploads.py\<close> and \<open>domain/media_byte_identities.py\<close>: the upload
  session, its states and transition table, and the validation of every field.  The
  constructor's \<open>__post_init__\<close> is \<open>upload_session_post_init\<close>; the value classes
  (storage key, display filename) are their text and the predicate their constructor
  enforces.
\<close>

section \<open>Errors and enumerations\<close>

datatype upload_error =
    FrameNestUploadSessionError
  | FrameNestUploadSessionTransitionError
  | FrameNestIncompleteUploadSessionError
  | FrameNestUploadOffsetError
  | FrameNestUploadChecksumError
  | FrameNestUploadValidationEvidenceError

datatype upload_state =
    U_CREATED | U_RECEIVING | U_RECEIVED | U_VALIDATING | U_DUPLICATE_PENDING
  | U_PUBLISH_PENDING | U_PUBLISHED | U_CATALOGED | U_REJECTED | U_CANCELLED | U_EXPIRED
  | U_FAILED

fun upload_state_value :: "upload_state \<Rightarrow> pystr" where
  "upload_state_value U_CREATED = lit ''created''"
| "upload_state_value U_RECEIVING = lit ''receiving''"
| "upload_state_value U_RECEIVED = lit ''received''"
| "upload_state_value U_VALIDATING = lit ''validating''"
| "upload_state_value U_DUPLICATE_PENDING = lit ''duplicate_pending''"
| "upload_state_value U_PUBLISH_PENDING = lit ''publish_pending''"
| "upload_state_value U_PUBLISHED = lit ''published''"
| "upload_state_value U_CATALOGED = lit ''cataloged''"
| "upload_state_value U_REJECTED = lit ''rejected''"
| "upload_state_value U_CANCELLED = lit ''cancelled''"
| "upload_state_value U_EXPIRED = lit ''expired''"
| "upload_state_value U_FAILED = lit ''failed''"

definition upload_states :: "upload_state list" where
  "upload_states = [U_CREATED, U_RECEIVING, U_RECEIVED, U_VALIDATING, U_DUPLICATE_PENDING,
     U_PUBLISH_PENDING, U_PUBLISHED, U_CATALOGED, U_REJECTED, U_CANCELLED, U_EXPIRED, U_FAILED]"

datatype duplicate_disposition = KEEP_SEPARATE | DISCARD

fun duplicate_disposition_value :: "duplicate_disposition \<Rightarrow> pystr" where
  "duplicate_disposition_value KEEP_SEPARATE = lit ''keep_separate''"
| "duplicate_disposition_value DISCARD = lit ''discard''"

datatype duplicate_resolution_mode = EXPLICIT | SILENT_KEEP_SEPARATE

fun duplicate_resolution_mode_value :: "duplicate_resolution_mode \<Rightarrow> pystr" where
  "duplicate_resolution_mode_value EXPLICIT = lit ''explicit''"
| "duplicate_resolution_mode_value SILENT_KEEP_SEPARATE = lit ''silent_keep_separate''"

datatype validated_media_kind = ANIMATED_IMAGE | VIDEO | IMAGE

fun validated_media_kind_value :: "validated_media_kind \<Rightarrow> pystr" where
  "validated_media_kind_value ANIMATED_IMAGE = lit ''animated_image''"
| "validated_media_kind_value VIDEO = lit ''video''"
| "validated_media_kind_value IMAGE = lit ''image''"

datatype validated_format = GIF | MP4 | JPEG | PNG

fun validated_format_value :: "validated_format \<Rightarrow> pystr" where
  "validated_format_value GIF = lit ''gif''"
| "validated_format_value MP4 = lit ''mp4''"
| "validated_format_value JPEG = lit ''jpg''"
| "validated_format_value PNG = lit ''png''"

definition validated_media_kinds :: "validated_media_kind list" where
  "validated_media_kinds = [ANIMATED_IMAGE, VIDEO, IMAGE]"

definition validated_formats :: "validated_format list" where
  "validated_formats = [GIF, MP4, JPEG, PNG]"

abbreviation upload_state_parse :: "pystr \<Rightarrow> upload_error + upload_state" where
  "upload_state_parse \<equiv> enum_parse FrameNestUploadSessionError upload_states upload_state_value"

abbreviation duplicate_disposition_parse :: "pystr \<Rightarrow> upload_error + duplicate_disposition" where
  "duplicate_disposition_parse \<equiv>
     enum_parse FrameNestUploadSessionError [KEEP_SEPARATE, DISCARD] duplicate_disposition_value"

abbreviation duplicate_resolution_mode_parse ::
    "pystr \<Rightarrow> upload_error + duplicate_resolution_mode" where
  "duplicate_resolution_mode_parse \<equiv>
     enum_parse FrameNestUploadSessionError [EXPLICIT, SILENT_KEEP_SEPARATE]
       duplicate_resolution_mode_value"

abbreviation validated_media_kind_parse :: "pystr \<Rightarrow> upload_error + validated_media_kind" where
  "validated_media_kind_parse \<equiv>
     enum_parse FrameNestUploadSessionError validated_media_kinds validated_media_kind_value"

abbreviation validated_format_parse :: "pystr \<Rightarrow> upload_error + validated_format" where
  "validated_format_parse \<equiv>
     enum_parse FrameNestUploadSessionError validated_formats validated_format_value"

section \<open>State sets and the transition table\<close>

definition TERMINAL_UPLOAD_SESSION_STATES :: "upload_state list" where
  "TERMINAL_UPLOAD_SESSION_STATES = [U_CATALOGED, U_REJECTED, U_CANCELLED, U_EXPIRED, U_FAILED]"

definition COMPLETE_UPLOAD_SESSION_STATES :: "upload_state list" where
  "COMPLETE_UPLOAD_SESSION_STATES = [U_RECEIVED, U_VALIDATING, U_DUPLICATE_PENDING,
     U_PUBLISH_PENDING, U_PUBLISHED, U_CATALOGED, U_REJECTED]"

definition VALIDATED_UPLOAD_SESSION_STATES :: "upload_state list" where
  "VALIDATED_UPLOAD_SESSION_STATES = [U_DUPLICATE_PENDING, U_PUBLISH_PENDING, U_PUBLISHED,
     U_CATALOGED]"

definition ALLOWED_UPLOAD_VALIDATION_EVIDENCE_PAIRS ::
    "(validated_media_kind \<times> validated_format) list" where
  "ALLOWED_UPLOAD_VALIDATION_EVIDENCE_PAIRS =
     [(ANIMATED_IMAGE, GIF), (VIDEO, MP4), (IMAGE, JPEG), (IMAGE, PNG)]"

fun allowed_upload_transitions :: "upload_state \<Rightarrow> upload_state list" where
  "allowed_upload_transitions U_CREATED = [U_RECEIVING, U_CANCELLED, U_EXPIRED, U_FAILED]"
| "allowed_upload_transitions U_RECEIVING = [U_RECEIVED, U_CANCELLED, U_EXPIRED, U_FAILED]"
| "allowed_upload_transitions U_RECEIVED = [U_VALIDATING, U_CANCELLED, U_EXPIRED, U_FAILED]"
| "allowed_upload_transitions U_VALIDATING =
     [U_DUPLICATE_PENDING, U_PUBLISH_PENDING, U_REJECTED, U_FAILED]"
| "allowed_upload_transitions U_DUPLICATE_PENDING =
     [U_PUBLISH_PENDING, U_CANCELLED, U_EXPIRED, U_FAILED]"
| "allowed_upload_transitions U_PUBLISH_PENDING = [U_FAILED]"
| "allowed_upload_transitions U_PUBLISHED = []"
| "allowed_upload_transitions U_CATALOGED = []"
| "allowed_upload_transitions U_REJECTED = []"
| "allowed_upload_transitions U_CANCELLED = []"
| "allowed_upload_transitions U_EXPIRED = []"
| "allowed_upload_transitions U_FAILED = []"

lemmas upload_state_set_defs =
  TERMINAL_UPLOAD_SESSION_STATES_def COMPLETE_UPLOAD_SESSION_STATES_def
  VALIDATED_UPLOAD_SESSION_STATES_def ALLOWED_UPLOAD_VALIDATION_EVIDENCE_PAIRS_def

section \<open>Value classes\<close>

definition upload_session_id_from_string :: "pystr \<Rightarrow> upload_error + uuid" where
  "upload_session_id_from_string value =
     (case uuid_of_text value of
        None \<Rightarrow> Inl FrameNestUploadSessionError
      | Some parsed \<Rightarrow>
          if uuid_to_text parsed \<noteq> value then Inl FrameNestUploadSessionError
          else if \<not> uuid_is_rfc4122 parsed \<or> uuid_version parsed \<noteq> 4
               then Inl FrameNestUploadSessionError
          else Inr parsed)"

text \<open>
  \<open>PurePosixPath(s).is_absolute()\<close> is a leading slash; \<open>PureWindowsPath(s).is_absolute()\<close>
  is \<open>ntpath.isabs\<close> of Python 3.13: a colon and a separator after the first character, or
  two leading separators (a slash counts as a separator).
\<close>

definition is_separator :: "nat \<Rightarrow> bool" where
  "is_separator c \<longleftrightarrow> c = 47 \<or> c = 92"

definition posix_is_absolute :: "pystr \<Rightarrow> bool" where
  "posix_is_absolute s \<longleftrightarrow> s \<noteq> [] \<and> hd s = 47"

fun windows_is_absolute :: "pystr \<Rightarrow> bool" where
  "windows_is_absolute (a # b # c # _) =
     ((b = 58 \<and> is_separator c) \<or> (is_separator a \<and> is_separator b))"
| "windows_is_absolute [a, b] = (is_separator a \<and> is_separator b)"
| "windows_is_absolute _ = False"

definition looks_like_path :: "pystr \<Rightarrow> bool" where
  "looks_like_path s \<longleftrightarrow>
     47 \<in> set s \<or> 92 \<in> set s \<or> posix_is_absolute s \<or> windows_is_absolute s"

definition storage_key_pattern :: "pystr \<Rightarrow> bool" where
  "storage_key_pattern s \<longleftrightarrow>
     matches_head_class (\<lambda>c. is_lower c \<or> is_digit c)
       (\<lambda>c. is_lower c \<or> is_digit c \<or> c = 46 \<or> c = 95 \<or> c = 45) 15 127 s"

definition upload_storage_key :: "pyobj \<Rightarrow> upload_error + pystr" where
  "upload_storage_key value =
     (case value of
        PyStr s \<Rightarrow>
          if \<not> storage_key_pattern s then Inl FrameNestUploadSessionError
          else if looks_like_path s then Inl FrameNestUploadSessionError
          else Inr s
      | _ \<Rightarrow> Inl FrameNestUploadSessionError)"

definition upload_display_filename :: "pyobj \<Rightarrow> upload_error + pystr" where
  "upload_display_filename value =
     (case value of
        PyStr s \<Rightarrow>
          if s = [] \<or> length s > 255 then Inl FrameNestUploadSessionError
          else if 0 \<in> set s \<or> 47 \<in> set s \<or> 92 \<in> set s then Inl FrameNestUploadSessionError
          else if list_ex (\<lambda>c. c \<le> 31 \<or> c = 127) s then Inl FrameNestUploadSessionError
          else if posix_is_absolute s \<or> windows_is_absolute s
               then Inl FrameNestUploadSessionError
          else Inr s
      | _ \<Rightarrow> Inl FrameNestUploadSessionError)"

section \<open>The session\<close>

record upload_session =
  us_id :: uuid
  us_state :: upload_state
  us_storage_key :: pystr
  us_display_filename :: pystr
  us_declared_size_bytes :: int
  us_received_size_bytes :: int
  us_checksum_algorithm :: "pystr option"
  us_checksum_hex :: "pystr option"
  us_created_at_ms :: int
  us_updated_at_ms :: int
  us_expires_at_ms :: int
  us_failure_code :: "pystr option"
  us_version :: int
  us_validated_media_kind :: "validated_media_kind option"
  us_validated_format :: "validated_format option"
  us_byte_identity_id :: "uuid option"
  us_duplicate_disposition :: "duplicate_disposition option"
  us_created_by_login_key :: "pystr option"
  us_duplicate_resolution_mode :: duplicate_resolution_mode

section \<open>Field validators\<close>

fun validate_positive_int :: "pyobj \<Rightarrow> upload_error + unit" where
  "validate_positive_int (PyInt n) = raise_if (n \<le> 0) FrameNestUploadSessionError"
| "validate_positive_int _ = Inl FrameNestUploadSessionError"

fun validate_non_negative_int :: "pyobj \<Rightarrow> upload_error + unit" where
  "validate_non_negative_int (PyInt n) = raise_if (n < 0) FrameNestUploadSessionError"
| "validate_non_negative_int _ = Inl FrameNestUploadSessionError"

definition sha256_hex_pattern :: "pystr \<Rightarrow> bool" where
  "sha256_hex_pattern s = matches_class is_lower_hex 64 64 s"

definition failure_code_pattern :: "pystr \<Rightarrow> bool" where
  "failure_code_pattern s = matches_class (\<lambda>c. is_upper c \<or> is_digit c \<or> c = 95) 1 80 s"

fun validate_sha256_checksum_hex :: "pyobj \<Rightarrow> upload_error + pystr" where
  "validate_sha256_checksum_hex (PyStr s) =
     (if \<not> sha256_hex_pattern s then Inl FrameNestUploadChecksumError else Inr s)"
| "validate_sha256_checksum_hex _ = Inl FrameNestUploadChecksumError"

fun validate_upload_failure_code :: "pyobj \<Rightarrow> upload_error + pystr" where
  "validate_upload_failure_code (PyStr s) =
     (if \<not> failure_code_pattern s then Inl FrameNestUploadSessionError else Inr s)"
| "validate_upload_failure_code _ = Inl FrameNestUploadSessionError"

definition validate_checksum_pair :: "pyobj \<Rightarrow> pyobj \<Rightarrow> upload_error + unit" where
  "validate_checksum_pair algorithm checksum_hex =
     (if algorithm = PyNone \<and> checksum_hex = PyNone then Inr ()
      else if algorithm \<noteq> PyStr (lit ''sha256'') then Inl FrameNestUploadChecksumError
      else and_then (validate_sha256_checksum_hex checksum_hex) (\<lambda>_. Inr ()))"

fun validate_validation_evidence_pair ::
    "validated_media_kind option \<Rightarrow> validated_format option \<Rightarrow> upload_error + unit" where
  "validate_validation_evidence_pair None None = Inr ()"
| "validate_validation_evidence_pair (Some kind) (Some format) =
     raise_if ((kind, format) \<notin> set ALLOWED_UPLOAD_VALIDATION_EVIDENCE_PAIRS)
       FrameNestUploadValidationEvidenceError"
| "validate_validation_evidence_pair _ _ = Inl FrameNestUploadValidationEvidenceError"

definition validate_required_validation_evidence ::
    "pyobj \<Rightarrow> pyobj \<Rightarrow> validated_media_kind option \<Rightarrow> validated_format option \<Rightarrow> uuid option
     \<Rightarrow> upload_error + unit" where
  "validate_required_validation_evidence algorithm checksum_hex kind format byte_identity =
     all_checks [
       validate_checksum_pair algorithm checksum_hex,
       raise_if (algorithm \<noteq> PyStr (lit ''sha256'') \<or> checksum_hex = PyNone)
         FrameNestUploadValidationEvidenceError,
       validate_validation_evidence_pair kind format,
       raise_if (kind = None \<or> format = None) FrameNestUploadValidationEvidenceError,
       raise_if (\<not> (byte_identity \<noteq> None \<and> is_uuid4 (the byte_identity)))
         FrameNestUploadValidationEvidenceError]"

fun disposition_allowed_states :: "duplicate_disposition \<Rightarrow> upload_state list" where
  "disposition_allowed_states KEEP_SEPARATE =
     [U_PUBLISH_PENDING, U_PUBLISHED, U_CATALOGED, U_FAILED]"
| "disposition_allowed_states DISCARD = [U_CANCELLED]"

definition validate_duplicate_disposition ::
    "upload_state \<Rightarrow> duplicate_disposition option \<Rightarrow> pyobj \<Rightarrow> pyobj \<Rightarrow> validated_media_kind option
     \<Rightarrow> validated_format option \<Rightarrow> uuid option \<Rightarrow> upload_error + unit" where
  "validate_duplicate_disposition state disposition algorithm checksum_hex kind format
       byte_identity =
     (case disposition of
        None \<Rightarrow> Inr ()
      | Some d \<Rightarrow> all_checks [
          raise_if (state \<notin> set (disposition_allowed_states d)) FrameNestUploadSessionError,
          validate_required_validation_evidence algorithm checksum_hex kind format
            byte_identity])"

fun validate_created_by_login_key :: "pyobj \<Rightarrow> upload_error + unit" where
  "validate_created_by_login_key PyNone = Inr ()"
| "validate_created_by_login_key (PyStr s) = all_checks [
     raise_if (s = [] \<or> length s > MAX_LOGIN_LENGTH) FrameNestUploadSessionError,
     raise_if (list_ex (\<lambda>c. is_space c \<or> c \<le> 31 \<or> c = 127) s) FrameNestUploadSessionError]"
| "validate_created_by_login_key _ = Inl FrameNestUploadSessionError"

definition state_requires_complete_upload :: "upload_state \<Rightarrow> bool" where
  "state_requires_complete_upload state \<longleftrightarrow> state \<in> set COMPLETE_UPLOAD_SESSION_STATES"

definition validate_upload_session_byte_state ::
    "upload_state \<Rightarrow> int \<Rightarrow> int \<Rightarrow> upload_error + unit" where
  "validate_upload_session_byte_state state declared received = all_checks [
     raise_if (state = U_CREATED \<and> received \<noteq> 0) FrameNestUploadSessionError,
     raise_if (state_requires_complete_upload state \<and> received \<noteq> declared)
       FrameNestIncompleteUploadSessionError]"

section \<open>\<open>UploadSession.__post_init__\<close>\<close>

definition upload_session_post_init :: "upload_session \<Rightarrow> upload_error + unit" where
  "upload_session_post_init s = all_checks [
     raise_if (\<not> is_uuid4 (us_id s)) FrameNestUploadSessionError,
     raise_if (\<not> ok (upload_storage_key (PyStr (us_storage_key s)))) FrameNestUploadSessionError,
     raise_if (\<not> ok (upload_display_filename (PyStr (us_display_filename s))))
       FrameNestUploadSessionError,
     validate_positive_int (PyInt (us_declared_size_bytes s)),
     validate_non_negative_int (PyInt (us_received_size_bytes s)),
     raise_if (us_received_size_bytes s > us_declared_size_bytes s) FrameNestUploadSessionError,
     validate_upload_session_byte_state (us_state s) (us_declared_size_bytes s)
       (us_received_size_bytes s),
     validate_checksum_pair (opt_obj PyStr (us_checksum_algorithm s))
       (opt_obj PyStr (us_checksum_hex s)),
     validate_non_negative_int (PyInt (us_created_at_ms s)),
     validate_non_negative_int (PyInt (us_updated_at_ms s)),
     validate_non_negative_int (PyInt (us_expires_at_ms s)),
     raise_if (us_expires_at_ms s \<le> us_created_at_ms s) FrameNestUploadSessionError,
     raise_if (us_updated_at_ms s < us_created_at_ms s) FrameNestUploadSessionError,
     raise_if (case us_failure_code s of None \<Rightarrow> False | Some c \<Rightarrow> \<not> failure_code_pattern c)
       FrameNestUploadSessionError,
     validate_non_negative_int (PyInt (us_version s)),
     validate_validation_evidence_pair (us_validated_media_kind s) (us_validated_format s),
     raise_if (case us_byte_identity_id s of None \<Rightarrow> False | Some i \<Rightarrow> \<not> is_uuid4 i)
       FrameNestUploadSessionError,
     (if us_state s \<in> set VALIDATED_UPLOAD_SESSION_STATES
      then validate_required_validation_evidence (opt_obj PyStr (us_checksum_algorithm s))
             (opt_obj PyStr (us_checksum_hex s)) (us_validated_media_kind s)
             (us_validated_format s) (us_byte_identity_id s)
      else Inr ()),
     validate_duplicate_disposition (us_state s) (us_duplicate_disposition s)
       (opt_obj PyStr (us_checksum_algorithm s)) (opt_obj PyStr (us_checksum_hex s))
       (us_validated_media_kind s) (us_validated_format s) (us_byte_identity_id s),
     validate_created_by_login_key (opt_obj PyStr (us_created_by_login_key s))]"

section \<open>Policy functions\<close>

definition uses_explicit_duplicate_resolution ::
    "duplicate_resolution_mode enum_arg \<Rightarrow> bool" where
  "uses_explicit_duplicate_resolution mode =
     (mode = Member EXPLICIT \<or> mode = Raw (PyStr (duplicate_resolution_mode_value EXPLICIT)))"

definition is_terminal_upload_session_state :: "upload_state \<Rightarrow> bool" where
  "is_terminal_upload_session_state state \<longleftrightarrow> state \<in> set TERMINAL_UPLOAD_SESSION_STATES"

definition ensure_upload_session_transition_allowed ::
    "upload_state \<Rightarrow> upload_state \<Rightarrow> upload_error + unit" where
  "ensure_upload_session_transition_allowed current target =
     raise_if (target \<notin> set (allowed_upload_transitions current))
       FrameNestUploadSessionTransitionError"

definition ensure_upload_session_can_transition ::
    "upload_session \<Rightarrow> upload_state \<Rightarrow> upload_error + unit" where
  "ensure_upload_session_can_transition s target = all_checks [
     ensure_upload_session_transition_allowed (us_state s) target,
     raise_if (state_requires_complete_upload target
         \<and> us_received_size_bytes s \<noteq> us_declared_size_bytes s)
       FrameNestIncompleteUploadSessionError]"

definition validate_upload_offset_advance :: "int \<Rightarrow> int \<Rightarrow> int \<Rightarrow> upload_error + int" where
  "validate_upload_offset_advance current_offset accepted_bytes declared_size_bytes =
     and_then (all_checks [
         validate_non_negative_int (PyInt current_offset),
         validate_positive_int (PyInt accepted_bytes),
         validate_positive_int (PyInt declared_size_bytes)])
       (\<lambda>_. let next_offset = current_offset + accepted_bytes
            in if next_offset > declared_size_bytes then Inl FrameNestUploadOffsetError
               else Inr next_offset)"

fun parse_enum_arg :: "(pystr \<Rightarrow> 'e + 'a) \<Rightarrow> 'e \<Rightarrow> 'a enum_arg \<Rightarrow> 'e + 'a" where
  "parse_enum_arg parse e (Member x) = Inr x"
| "parse_enum_arg parse e (Raw (PyStr s)) = parse s"
| "parse_enum_arg parse e (Raw _) = Inl e"

definition validate_upload_validation_evidence ::
    "validated_media_kind enum_arg \<Rightarrow> validated_format enum_arg
     \<Rightarrow> upload_error + validated_media_kind \<times> validated_format" where
  "validate_upload_validation_evidence media_kind media_format =
     and_then
       (rescue (\<lambda>_. FrameNestUploadValidationEvidenceError)
          (and_then (parse_enum_arg validated_media_kind_parse FrameNestUploadSessionError media_kind)
             (\<lambda>kind. and_then
                (parse_enum_arg validated_format_parse FrameNestUploadSessionError media_format)
                (\<lambda>format. Inr (kind, format)))))
       (\<lambda>(kind, format). and_then (validate_validation_evidence_pair (Some kind) (Some format))
          (\<lambda>_. Inr (kind, format)))"

section \<open>Exact-byte identities\<close>

datatype byte_identity_error = FrameNestMediaByteIdentityError

record media_byte_identity =
  bi_id :: uuid
  bi_checksum_algorithm :: pystr
  bi_size_bytes :: int
  bi_checksum_hex :: pystr
  bi_created_at_ms :: int

definition validate_media_byte_identity_evidence ::
    "pyobj \<Rightarrow> pyobj \<Rightarrow> pyobj \<Rightarrow> byte_identity_error + pystr \<times> int \<times> pystr" where
  "validate_media_byte_identity_evidence algorithm size_bytes checksum_hex =
     (if algorithm \<noteq> PyStr (lit ''sha256'') then Inl FrameNestMediaByteIdentityError
      else case size_bytes of
          PyInt n \<Rightarrow>
            (if n \<le> 0 then Inl FrameNestMediaByteIdentityError
             else case checksum_hex of
                 PyStr h \<Rightarrow> (if \<not> sha256_hex_pattern h then Inl FrameNestMediaByteIdentityError
                            else Inr (lit ''sha256'', n, h))
               | _ \<Rightarrow> Inl FrameNestMediaByteIdentityError)
        | _ \<Rightarrow> Inl FrameNestMediaByteIdentityError)"

definition media_byte_identity_post_init ::
    "media_byte_identity \<Rightarrow> byte_identity_error + unit" where
  "media_byte_identity_post_init b = all_checks [
     raise_if (\<not> is_uuid4 (bi_id b)) FrameNestMediaByteIdentityError,
     and_then (validate_media_byte_identity_evidence (PyStr (bi_checksum_algorithm b))
        (PyInt (bi_size_bytes b)) (PyStr (bi_checksum_hex b))) (\<lambda>_. Inr ()),
     raise_if (bi_created_at_ms b < 0) FrameNestMediaByteIdentityError]"

section \<open>Encodings and the lifecycle\<close>

interpretation upload_state_codec: enum_codec upload_state_value upload_state_parse
proof (rule enum_codec_enum_parse)
  show "distinct (map upload_state_value upload_states)" by (simp add: upload_states_def lit_def)
  show "x \<in> set upload_states" for x by (cases x) (simp_all add: upload_states_def)
qed

interpretation disposition_codec: enum_codec duplicate_disposition_value duplicate_disposition_parse
proof (rule enum_codec_enum_parse)
  show "distinct (map duplicate_disposition_value [KEEP_SEPARATE, DISCARD])"
    by (simp add: lit_def)
  show "x \<in> set [KEEP_SEPARATE, DISCARD]" for x by (cases x) simp_all
qed

interpretation mode_codec:
  enum_codec duplicate_resolution_mode_value duplicate_resolution_mode_parse
proof (rule enum_codec_enum_parse)
  show "distinct (map duplicate_resolution_mode_value [EXPLICIT, SILENT_KEEP_SEPARATE])"
    by (simp add: lit_def)
  show "x \<in> set [EXPLICIT, SILENT_KEEP_SEPARATE]" for x by (cases x) simp_all
qed

interpretation media_kind_codec: enum_codec validated_media_kind_value validated_media_kind_parse
proof (rule enum_codec_enum_parse)
  show "distinct (map validated_media_kind_value validated_media_kinds)"
    by (simp add: validated_media_kinds_def lit_def)
  show "x \<in> set validated_media_kinds" for x
    by (cases x) (simp_all add: validated_media_kinds_def)
qed

interpretation format_codec: enum_codec validated_format_value validated_format_parse
proof (rule enum_codec_enum_parse)
  show "distinct (map validated_format_value validated_formats)"
    by (simp add: validated_formats_def lit_def)
  show "x \<in> set validated_formats" for x by (cases x) (simp_all add: validated_formats_def)
qed

interpretation upload_session_id:
  text_codec uuid_to_text upload_session_id_from_string is_uuid4
  by unfold_locales
    (auto simp: upload_session_id_from_string_def uuid_of_text_to_text is_uuid4_def
      split: option.splits if_splits)

lemma storage_key_pattern_not_path: "storage_key_pattern s \<Longrightarrow> \<not> looks_like_path s"
proof -
  assume a: "storage_key_pattern s"
  then have c: "c \<in> set s \<Longrightarrow> c \<noteq> 47 \<and> c \<noteq> 92" for c
    unfolding storage_key_pattern_def matches_head_class_def matches_class_def
    by (cases s) (auto simp: list_all_iff char_class_defs)
  have "\<not> posix_is_absolute s"
    using c by (auto simp: posix_is_absolute_def dest: hd_in_set)
  moreover have "\<not> windows_is_absolute s"
    using c by (cases s rule: windows_is_absolute.cases) (auto simp: is_separator_def)
  ultimately show ?thesis using c unfolding looks_like_path_def by blast
qed

lemma upload_storage_key_iff: "upload_storage_key (PyStr s) = Inr k \<longleftrightarrow> storage_key_pattern s \<and> k = s"
  by (auto simp: upload_storage_key_def storage_key_pattern_not_path)

text \<open>What the display filename constructor accepts, without the redundant path tests.\<close>

definition plain_filename :: "pystr \<Rightarrow> bool" where
  "plain_filename s \<longleftrightarrow>
     matches_class (\<lambda>c. 32 \<le> c \<and> c \<noteq> 127 \<and> \<not> is_separator c) 1 255 s"

lemma no_separator_not_absolute:
  assumes "47 \<notin> set s" and "92 \<notin> set s"
  shows "\<not> posix_is_absolute s" and "\<not> windows_is_absolute s"
proof -
  show "\<not> posix_is_absolute s"
    using assms by (auto simp: posix_is_absolute_def dest: hd_in_set)
  show "\<not> windows_is_absolute s"
    using assms by (cases s rule: windows_is_absolute.cases) (auto simp: is_separator_def)
qed

lemma upload_display_filename_iff:
  "upload_display_filename (PyStr s) = Inr f \<longleftrightarrow> plain_filename s \<and> f = s"
proof
  assume "upload_display_filename (PyStr s) = Inr f"
  then show "plain_filename s \<and> f = s"
    by (auto simp: upload_display_filename_def plain_filename_def matches_class_def
        is_separator_def list_ex_iff list_all_iff Suc_le_eq split: if_splits)
next
  assume a: "plain_filename s \<and> f = s"
  then have "47 \<notin> set s" "92 \<notin> set s" "0 \<notin> set s"
    by (auto simp: plain_filename_def matches_class_def list_all_iff is_separator_def)
  with a show "upload_display_filename (PyStr s) = Inr f"
    using no_separator_not_absolute [of s]
    by (auto simp: upload_display_filename_def plain_filename_def matches_class_def
        list_ex_iff list_all_iff)
qed

section \<open>Well-formed sessions\<close>

definition full_evidence :: "upload_session \<Rightarrow> bool" where
  "full_evidence s \<longleftrightarrow> us_checksum_algorithm s = Some (lit ''sha256'')
     \<and> (\<exists>h. us_checksum_hex s = Some h \<and> sha256_hex_pattern h)
     \<and> (\<exists>k f. us_validated_media_kind s = Some k \<and> us_validated_format s = Some f
          \<and> (k, f) \<in> set ALLOWED_UPLOAD_VALIDATION_EVIDENCE_PAIRS)
     \<and> (\<exists>i. us_byte_identity_id s = Some i \<and> is_uuid4 i)"

definition checksum_pair_ok :: "pystr option \<Rightarrow> pystr option \<Rightarrow> bool" where
  "checksum_pair_ok a h \<longleftrightarrow> (a = None \<and> h = None)
     \<or> (a = Some (lit ''sha256'') \<and> pred_option sha256_hex_pattern h \<and> h \<noteq> None)"

definition evidence_pair_ok :: "validated_media_kind option \<Rightarrow> validated_format option \<Rightarrow> bool" where
  "evidence_pair_ok k f \<longleftrightarrow> (k = None \<and> f = None)
     \<or> (\<exists>k' f'. k = Some k' \<and> f = Some f'
          \<and> (k', f') \<in> set ALLOWED_UPLOAD_VALIDATION_EVIDENCE_PAIRS)"

definition login_key_ok :: "pystr \<Rightarrow> bool" where
  "login_key_ok s \<longleftrightarrow>
     matches_class (\<lambda>c. \<not> is_space c \<and> 32 \<le> c \<and> c \<noteq> 127) 1 MAX_LOGIN_LENGTH s"

definition upload_sizes_ok :: "upload_session \<Rightarrow> bool" where
  "upload_sizes_ok s \<longleftrightarrow> 0 < us_declared_size_bytes s \<and> 0 \<le> us_received_size_bytes s
     \<and> us_received_size_bytes s \<le> us_declared_size_bytes s
     \<and> (us_state s = U_CREATED \<longrightarrow> us_received_size_bytes s = 0)
     \<and> (state_requires_complete_upload (us_state s) \<longrightarrow>
          us_received_size_bytes s = us_declared_size_bytes s)"

definition upload_times_ok :: "upload_session \<Rightarrow> bool" where
  "upload_times_ok s \<longleftrightarrow> 0 \<le> us_created_at_ms s \<and> us_created_at_ms s \<le> us_updated_at_ms s
     \<and> us_created_at_ms s < us_expires_at_ms s \<and> 0 \<le> us_version s"

definition upload_evidence_ok :: "upload_session \<Rightarrow> bool" where
  "upload_evidence_ok s \<longleftrightarrow> checksum_pair_ok (us_checksum_algorithm s) (us_checksum_hex s)
     \<and> evidence_pair_ok (us_validated_media_kind s) (us_validated_format s)
     \<and> pred_option is_uuid4 (us_byte_identity_id s)
     \<and> (us_state s \<in> set VALIDATED_UPLOAD_SESSION_STATES \<longrightarrow> full_evidence s)
     \<and> (\<forall>d. us_duplicate_disposition s = Some d \<longrightarrow>
          us_state s \<in> set (disposition_allowed_states d) \<and> full_evidence s)"

definition upload_names_ok :: "upload_session \<Rightarrow> bool" where
  "upload_names_ok s \<longleftrightarrow> is_uuid4 (us_id s) \<and> storage_key_pattern (us_storage_key s)
     \<and> plain_filename (us_display_filename s)
     \<and> pred_option failure_code_pattern (us_failure_code s)
     \<and> pred_option login_key_ok (us_created_by_login_key s)"

definition upload_session_wf :: "upload_session \<Rightarrow> bool" where
  "upload_session_wf s \<longleftrightarrow> upload_names_ok s \<and> upload_sizes_ok s \<and> upload_times_ok s
     \<and> upload_evidence_ok s"

lemmas upload_wf_defs = upload_session_wf_def upload_names_ok_def upload_sizes_ok_def
  upload_times_ok_def upload_evidence_ok_def

lemma validate_checksum_pair_iff:
  "validate_checksum_pair (opt_obj PyStr a) (opt_obj PyStr h) = Inr u \<longleftrightarrow> checksum_pair_ok a h"
  by (cases a; cases h) (auto simp: validate_checksum_pair_def checksum_pair_ok_def)

lemma validate_evidence_pair_iff:
  "validate_validation_evidence_pair k f = Inr u \<longleftrightarrow> evidence_pair_ok k f"
  by (cases k; cases f) (auto simp: evidence_pair_ok_def)

lemma validate_required_evidence_iff:
  "validate_required_validation_evidence (opt_obj PyStr (us_checksum_algorithm s))
     (opt_obj PyStr (us_checksum_hex s)) (us_validated_media_kind s) (us_validated_format s)
     (us_byte_identity_id s) = Inr u \<longleftrightarrow> full_evidence s"
  unfolding validate_required_validation_evidence_def full_evidence_def
  by (cases "us_checksum_algorithm s"; cases "us_checksum_hex s")
    (auto simp: validate_checksum_pair_iff [of _ "Some _", simplified]
      validate_checksum_pair_def validate_evidence_pair_iff evidence_pair_ok_def)

lemma validate_login_key_iff:
  "validate_created_by_login_key (opt_obj PyStr k) = Inr u \<longleftrightarrow> pred_option login_key_ok k"
  by (cases k) (auto simp: login_key_ok_def matches_class_def list_all_iff list_ex_iff not_le
      Suc_le_eq)

lemma validate_disposition_iff:
  "validate_duplicate_disposition (us_state s) (us_duplicate_disposition s)
     (opt_obj PyStr (us_checksum_algorithm s)) (opt_obj PyStr (us_checksum_hex s))
     (us_validated_media_kind s) (us_validated_format s) (us_byte_identity_id s) = Inr u \<longleftrightarrow>
   (\<forall>d. us_duplicate_disposition s = Some d \<longrightarrow>
      us_state s \<in> set (disposition_allowed_states d) \<and> full_evidence s)"
  unfolding validate_duplicate_disposition_def
  by (cases "us_duplicate_disposition s") (auto simp: validate_required_evidence_iff)

lemma upload_session_post_init_iff:
  "upload_session_post_init s = Inr u \<longleftrightarrow> upload_session_wf s"
  unfolding upload_session_post_init_def all_checks_Cons_Inr ok_iff
    upload_storage_key_iff upload_display_filename_iff validate_checksum_pair_iff
    validate_evidence_pair_iff validate_login_key_iff validate_disposition_iff
  by (auto simp: upload_wf_defs validate_required_evidence_iff
      validate_upload_session_byte_state_def option.pred_set not_le not_less
      split: option.splits)

text \<open>The rank of a state: how far along the pipeline it is.\<close>

fun upload_rank :: "upload_state \<Rightarrow> nat" where
  "upload_rank U_CREATED = 0"
| "upload_rank U_RECEIVING = 1"
| "upload_rank U_RECEIVED = 2"
| "upload_rank U_VALIDATING = 3"
| "upload_rank U_DUPLICATE_PENDING = 4"
| "upload_rank U_PUBLISH_PENDING = 5"
| "upload_rank _ = 6"

lemma terminal_upload_state_iff:
  "is_terminal_upload_session_state s \<longleftrightarrow>
     s \<in> {U_CATALOGED, U_REJECTED, U_CANCELLED, U_EXPIRED, U_FAILED}"
  by (simp add: is_terminal_upload_session_state_def TERMINAL_UPLOAD_SESSION_STATES_def)

interpretation upload_lifecycle:
  ranked_lifecycle allowed_upload_transitions is_terminal_upload_session_state upload_rank
proof unfold_locales
  show "is_terminal_upload_session_state s \<Longrightarrow> allowed_upload_transitions s = []" for s
    by (cases s) (simp_all add: terminal_upload_state_iff)
  show "t \<in> set (allowed_upload_transitions s) \<Longrightarrow> upload_rank s < upload_rank t" for s t
    by (cases s) auto
qed

lemma upload_rank_le: "upload_rank s \<le> 6"
  by (cases s) simp_all

lemma table_never_published: "t \<in> set (allowed_upload_transitions s) \<Longrightarrow> t \<noteq> U_PUBLISHED \<and> t \<noteq> U_CATALOGED"
  by (cases s) auto

lemma run_never_published:
  "table_run allowed_upload_transitions s ts \<Longrightarrow> U_PUBLISHED \<notin> set ts \<and> U_CATALOGED \<notin> set ts"
  by (induction ts arbitrary: s) (auto dest: table_never_published)

end
