(* ===== verification/Media.thy ===== *)
theory Media
  imports Uploads
begin

text \<open>
  \<open>src/framenest/domain/media.py\<close>, \<open>media_classification.py\<close> and \<open>media_metadata.py\<close>:
  logical media, their library-relative locations, and the user metadata of one item.
\<close>

section \<open>Logical media and locations\<close>

datatype media_error =
    FrameNestMediaError
  | FrameNestMediaLocationError
  | FrameNestMediaRelativePathError
  | FrameNestMediaMetadataError

datatype media_kind = MK_VIDEO | MK_ANIMATED_IMAGE | MK_IMAGE

fun media_kind_value :: "media_kind \<Rightarrow> pystr" where
  "media_kind_value MK_VIDEO = lit ''video''"
| "media_kind_value MK_ANIMATED_IMAGE = lit ''animated_image''"
| "media_kind_value MK_IMAGE = lit ''image''"

datatype availability = AVAILABLE | OFFLINE | MISSING | UNVERIFIED | ARCHIVED

fun availability_value :: "availability \<Rightarrow> pystr" where
  "availability_value AVAILABLE = lit ''available''"
| "availability_value OFFLINE = lit ''offline''"
| "availability_value MISSING = lit ''missing''"
| "availability_value UNVERIFIED = lit ''unverified''"
| "availability_value ARCHIVED = lit ''archived''"

definition MAX_RELATIVE_PATH_CODE_POINTS :: nat where
  "MAX_RELATIVE_PATH_CODE_POINTS = 4096"

text \<open>\<open>str(PurePosixPath(s))\<close>: the root, and the parts that are neither empty nor a dot.\<close>

definition posix_root :: "pystr \<Rightarrow> pystr" where
  "posix_root s =
     (if take 1 s \<noteq> [47] then []
      else if take 2 s = [47, 47] \<and> take 3 s \<noteq> [47, 47, 47] then [47, 47]
      else [47])"

definition pure_posix_str :: "pystr \<Rightarrow> pystr" where
  "pure_posix_str s =
     (let t = posix_root s
              @ join_with 47 (filter (\<lambda>p. p \<noteq> [] \<and> p \<noteq> [46]) (split_on 47 s))
      in if t = [] then [46] else t)"

definition normalize_relative_path :: "pyobj \<Rightarrow> media_error + pystr" where
  "normalize_relative_path value =
     (case value of
        PyStr s \<Rightarrow>
          if s = [] then Inl FrameNestMediaRelativePathError
          else if 0 \<in> set s then Inl FrameNestMediaRelativePathError
          else if length s > MAX_RELATIVE_PATH_CODE_POINTS
               then Inl FrameNestMediaRelativePathError
          else if posix_is_absolute s \<or> windows_is_absolute s
               then Inl FrameNestMediaRelativePathError
          else let normalized = map (\<lambda>c. if c = 92 then 47 else c) s;
                   canonical = pure_posix_str normalized
               in if posix_is_absolute normalized then Inl FrameNestMediaRelativePathError
                  else if canonical \<noteq> normalized then Inl FrameNestMediaRelativePathError
                  else if list_ex (\<lambda>p. p = [] \<or> p = [46] \<or> p = [46, 46]) (split_on 47 canonical)
                       then Inl FrameNestMediaRelativePathError
                  else Inr canonical
      | _ \<Rightarrow> Inl FrameNestMediaRelativePathError)"

text \<open>\<open>MediaRelativePath.filename\<close>.\<close>

definition relative_path_filename :: "pystr \<Rightarrow> pystr" where
  "relative_path_filename path = last (split_on 47 path)"

fun media_validate_non_negative_int :: "media_error \<Rightarrow> pyobj \<Rightarrow> media_error + int" where
  "media_validate_non_negative_int error (PyInt n) = (if n < 0 then Inl error else Inr n)"
| "media_validate_non_negative_int error _ = Inl error"

fun media_validate_optional_non_negative_int :: "pyobj \<Rightarrow> media_error + int option" where
  "media_validate_optional_non_negative_int PyNone = Inr None"
| "media_validate_optional_non_negative_int value =
     and_then (media_validate_non_negative_int FrameNestMediaLocationError value)
       (\<lambda>n. Inr (Some n))"

record logical_media =
  lm_id :: uuid
  lm_kind :: media_kind
  lm_created_at_ms :: int
  lm_updated_at_ms :: int

definition logical_media_post_init :: "logical_media \<Rightarrow> media_error + unit" where
  "logical_media_post_init m = all_checks [
     raise_if (\<not> is_uuid4 (lm_id m)) FrameNestMediaError,
     and_then (media_validate_non_negative_int FrameNestMediaError (PyInt (lm_created_at_ms m)))
       (\<lambda>_. Inr ()),
     and_then (media_validate_non_negative_int FrameNestMediaError (PyInt (lm_updated_at_ms m)))
       (\<lambda>_. Inr ())]"

record media_location =
  ml_id :: uuid
  ml_media_id :: uuid
  ml_library_id :: uuid
  ml_relative_path :: pystr
  ml_availability :: availability
  ml_observed_size_bytes :: "int option"
  ml_observed_mtime_ns :: "int option"
  ml_created_at_ms :: int
  ml_updated_at_ms :: int

definition media_location_post_init :: "media_location \<Rightarrow> media_error + unit" where
  "media_location_post_init l = all_checks [
     raise_if (\<not> is_uuid4 (ml_id l)) FrameNestMediaLocationError,
     raise_if (\<not> is_uuid4 (ml_media_id l)) FrameNestMediaLocationError,
     raise_if (\<not> is_uuid4 (ml_library_id l)) FrameNestMediaLocationError,
     raise_if (normalize_relative_path (PyStr (ml_relative_path l)) \<noteq> Inr (ml_relative_path l))
       FrameNestMediaLocationError,
     and_then (media_validate_optional_non_negative_int (opt_obj PyInt (ml_observed_size_bytes l)))
       (\<lambda>_. Inr ()),
     and_then (media_validate_optional_non_negative_int (opt_obj PyInt (ml_observed_mtime_ns l)))
       (\<lambda>_. Inr ()),
     and_then (media_validate_non_negative_int FrameNestMediaLocationError
        (PyInt (ml_created_at_ms l))) (\<lambda>_. Inr ()),
     and_then (media_validate_non_negative_int FrameNestMediaLocationError
        (PyInt (ml_updated_at_ms l))) (\<lambda>_. Inr ())]"

section \<open>Classification\<close>

datatype content_category = CC_GENERAL | CC_MEME | CC_MOVIE | CC_YOUTUBE

fun content_category_value :: "content_category \<Rightarrow> pystr" where
  "content_category_value CC_GENERAL = lit ''general''"
| "content_category_value CC_MEME = lit ''meme''"
| "content_category_value CC_MOVIE = lit ''movie''"
| "content_category_value CC_YOUTUBE = lit ''youtube''"

datatype acquisition_source =
  AS_UNKNOWN | AS_MANUAL_UPLOAD | AS_LIBRARY_SCAN | AS_YOUTUBE_MANUAL_CLAIM | AS_X_MANUAL_CLAIM

fun acquisition_source_value :: "acquisition_source \<Rightarrow> pystr" where
  "acquisition_source_value AS_UNKNOWN = lit ''unknown''"
| "acquisition_source_value AS_MANUAL_UPLOAD = lit ''manual_upload''"
| "acquisition_source_value AS_LIBRARY_SCAN = lit ''library_scan''"
| "acquisition_source_value AS_YOUTUBE_MANUAL_CLAIM = lit ''youtube_manual_claim''"
| "acquisition_source_value AS_X_MANUAL_CLAIM = lit ''x_manual_claim''"

datatype creator_kind = YOUTUBE_CHANNEL | X_AUTHOR

fun creator_kind_value :: "creator_kind \<Rightarrow> pystr" where
  "creator_kind_value YOUTUBE_CHANNEL = lit ''youtube_channel''"
| "creator_kind_value X_AUTHOR = lit ''x_author''"

datatype movie_genre =
  DRAMA | COMEDY | SCI_FI | THRILLER | HORROR | ACTION | ADVENTURE | DOCUMENTARY | ANIMATION
  | FAMILY | ROMANCE | CRIME | FANTASY | MYSTERY

definition MAX_MEDIA_GENRES :: nat where
  "MAX_MEDIA_GENRES = 8"

section \<open>Metadata values\<close>

definition MAX_DISPLAY_TITLE_CODE_POINTS :: nat where
  "MAX_DISPLAY_TITLE_CODE_POINTS = 240"

definition has_control_character :: "pystr \<Rightarrow> bool" where
  "has_control_character s \<longleftrightarrow> list_ex is_cc s"

definition has_forbidden_control_char :: "pystr \<Rightarrow> bool" where
  "has_forbidden_control_char s \<longleftrightarrow> list_ex (\<lambda>c. is_cc c \<and> c \<noteq> 10) s"

text \<open>\<open>^[a-z][a-z0-9]*(?:-[a-z0-9]+)*$\<close>: slug words separated by single hyphens.\<close>

definition tag_key_pattern :: "pystr \<Rightarrow> bool" where
  "tag_key_pattern s \<longleftrightarrow>
     (case split_on 45 s of
        [] \<Rightarrow> False
      | w # ws \<Rightarrow> w \<noteq> [] \<and> is_lower (hd w)
          \<and> list_all (\<lambda>v. v \<noteq> [] \<and> list_all (\<lambda>c. is_lower c \<or> is_digit c) v) (w # ws))"

definition canonical_tag_key :: "pyobj \<Rightarrow> media_error + pystr" where
  "canonical_tag_key value =
     (case value of
        PyStr s \<Rightarrow> if length s > 64 \<or> \<not> tag_key_pattern s
                   then Inl FrameNestMediaMetadataError else Inr s
      | _ \<Rightarrow> Inl FrameNestMediaMetadataError)"

definition canonical_tag_display_name :: "pyobj \<Rightarrow> media_error + pystr" where
  "canonical_tag_display_name value =
     (case value of
        PyStr s \<Rightarrow>
          if has_control_character s then Inl FrameNestMediaMetadataError
          else let trimmed = strip s
               in if trimmed = [] \<or> length trimmed > 80
                  then Inl FrameNestMediaMetadataError else Inr trimmed
      | _ \<Rightarrow> Inl FrameNestMediaMetadataError)"

definition media_display_title :: "pyobj \<Rightarrow> media_error + pystr" where
  "media_display_title value =
     (case value of
        PyStr s \<Rightarrow>
          if s = [] \<or> strip s \<noteq> s \<or> length s > MAX_DISPLAY_TITLE_CODE_POINTS
             \<or> has_control_character s
          then Inl FrameNestMediaMetadataError else Inr s
      | _ \<Rightarrow> Inl FrameNestMediaMetadataError)"

definition media_description :: "pyobj \<Rightarrow> media_error + pystr" where
  "media_description value =
     (case value of
        PyStr s \<Rightarrow>
          if s = [] then Inl FrameNestMediaMetadataError
          else if strip s \<noteq> s then Inl FrameNestMediaMetadataError
          else if length s > 10000 then Inl FrameNestMediaMetadataError
          else if has_forbidden_control_char s then Inl FrameNestMediaMetadataError
          else Inr s
      | _ \<Rightarrow> Inl FrameNestMediaMetadataError)"

definition PROCESSED_COLLECTION_KEY :: pystr where
  "PROCESSED_COLLECTION_KEY = lit ''processed''"

record collection_state =
  cs_collection_key :: "pystr option"
  cs_processed_at_ms :: "int option"

definition collection_state_new :: "pystr option \<Rightarrow> int option \<Rightarrow> media_error + collection_state" where
  "collection_state_new key processed = and_then (all_checks [
       raise_if (key = None \<and> processed \<noteq> None) FrameNestMediaMetadataError,
       raise_if (key \<noteq> None \<and> processed = None) FrameNestMediaMetadataError,
       raise_if (key \<noteq> None \<and> key \<noteq> Some PROCESSED_COLLECTION_KEY) FrameNestMediaMetadataError,
       raise_if (case processed of None \<Rightarrow> False | Some t \<Rightarrow> t < 0) FrameNestMediaMetadataError])
     (\<lambda>_. Inr \<lparr>cs_collection_key = key, cs_processed_at_ms = processed\<rparr>)"

definition derive_collection_state ::
    "pystr option \<Rightarrow> int option \<Rightarrow> pystr list \<Rightarrow> int \<Rightarrow> media_error + collection_state" where
  "derive_collection_state current_key current_processed new_tag_keys now_ms =
     (let has_tags = new_tag_keys \<noteq> []
      in if current_key \<noteq> None \<and> has_tags then collection_state_new current_key current_processed
         else if current_key = None \<and> has_tags
              then collection_state_new (Some PROCESSED_COLLECTION_KEY) (Some now_ms)
         else if current_key \<noteq> None \<and> \<not> has_tags then collection_state_new None None
         else collection_state_new None None)"

section \<open>Creator attribution\<close>

definition normalize_creator_display_name ::
    "unicode_tables \<Rightarrow> pyobj \<Rightarrow> media_error + pystr option" where
  "normalize_creator_display_name U value =
     (case value of
        PyNone \<Rightarrow> Inr None
      | PyStr s \<Rightarrow>
          if has_control_character s then Inl FrameNestMediaMetadataError
          else let normalized = uni_nfc U (strip s)
               in if normalized = [] then Inr None
                  else if length normalized > 200 then Inl FrameNestMediaMetadataError
                  else Inr (Some normalized)
      | _ \<Rightarrow> Inl FrameNestMediaMetadataError)"

definition normalize_creator_stable_id :: "pyobj \<Rightarrow> media_error + pystr option" where
  "normalize_creator_stable_id value =
     (case value of
        PyNone \<Rightarrow> Inr None
      | PyStr s \<Rightarrow>
          if has_control_character s then Inl FrameNestMediaMetadataError
          else let trimmed = strip s
               in if trimmed = [] then Inr None
                  else if length trimmed > 128 then Inl FrameNestMediaMetadataError
                  else Inr (Some trimmed)
      | _ \<Rightarrow> Inl FrameNestMediaMetadataError)"

text \<open>\<open>while trimmed.startswith("@"): trimmed = trimmed[1:].lstrip()\<close>\<close>

function strip_at_signs :: "pystr \<Rightarrow> pystr" where
  "strip_at_signs [] = []"
| "strip_at_signs (c # cs) = (if c = 64 then strip_at_signs (dropWhile is_space cs) else c # cs)"
  by pat_completeness auto
termination
  by (relation "measure length") (auto simp: le_imp_less_Suc length_dropWhile_le)

definition normalize_creator_handle :: "unicode_tables \<Rightarrow> pyobj \<Rightarrow> media_error + pystr option" where
  "normalize_creator_handle U value =
     (case value of
        PyNone \<Rightarrow> Inr None
      | PyStr s \<Rightarrow>
          if has_control_character s then Inl FrameNestMediaMetadataError
          else let normalized = uni_lower U (strip_at_signs (strip s))
               in if normalized = [] then Inr None
                  else if length normalized > 64 then Inl FrameNestMediaMetadataError
                  else Inr (Some normalized)
      | _ \<Rightarrow> Inl FrameNestMediaMetadataError)"

definition validate_creator_attribution_fields ::
    "unicode_tables \<Rightarrow> creator_kind option \<Rightarrow> pystr option \<Rightarrow> pystr option \<Rightarrow> pystr option
     \<Rightarrow> media_error + creator_kind option \<times> pystr option \<times> pystr option \<times> pystr option" where
  "validate_creator_attribution_fields U kind stable_id handle display_name =
     and_then (normalize_creator_stable_id (opt_obj PyStr stable_id)) (\<lambda>stable.
     and_then (normalize_creator_handle U (opt_obj PyStr handle)) (\<lambda>hnd.
     and_then (normalize_creator_display_name U (opt_obj PyStr display_name)) (\<lambda>display.
       if kind = None then
         if stable \<noteq> None \<or> hnd \<noteq> None \<or> display \<noteq> None then Inl FrameNestMediaMetadataError
         else Inr (None, None, None, None)
       else if stable = None \<and> hnd = None \<and> display = None then Inl FrameNestMediaMetadataError
       else Inr (kind, stable, hnd, display))))"

section \<open>The metadata of one item\<close>

record media_metadata =
  mm_media_id :: uuid
  mm_display_title :: "pystr option"
  mm_description :: "pystr option"
  mm_tag_keys :: "pystr list"
  mm_created_at_ms :: int
  mm_updated_at_ms :: int
  mm_content_category :: content_category
  mm_acquisition_source :: acquisition_source
  mm_genre_keys :: "movie_genre list"
  mm_creator_attribution_kind :: "creator_kind option"
  mm_creator_stable_id :: "pystr option"
  mm_creator_handle :: "pystr option"
  mm_creator_display_name :: "pystr option"

definition media_metadata_init ::
    "unicode_tables \<Rightarrow> media_metadata \<Rightarrow> media_error + media_metadata" where
  "media_metadata_init U m =
     and_then (all_checks [
       raise_if (\<not> is_uuid4 (mm_media_id m)) FrameNestMediaMetadataError,
       raise_if (case mm_display_title m of None \<Rightarrow> False
           | Some t \<Rightarrow> \<not> ok (media_display_title (PyStr t))) FrameNestMediaMetadataError,
       raise_if (case mm_description m of None \<Rightarrow> False
           | Some t \<Rightarrow> \<not> ok (media_description (PyStr t))) FrameNestMediaMetadataError,
       raise_if (list_ex (\<lambda>k. \<not> ok (canonical_tag_key (PyStr k))) (mm_tag_keys m))
         FrameNestMediaMetadataError,
       raise_if (length (mm_tag_keys m) > 32 \<or> \<not> distinct (mm_tag_keys m))
         FrameNestMediaMetadataError,
       raise_if (length (mm_genre_keys m) > MAX_MEDIA_GENRES \<or> \<not> distinct (mm_genre_keys m))
         FrameNestMediaMetadataError,
       raise_if (mm_genre_keys m \<noteq> [] \<and> mm_content_category m \<noteq> CC_MOVIE)
         FrameNestMediaMetadataError]) (\<lambda>_.
     and_then (validate_creator_attribution_fields U (mm_creator_attribution_kind m)
         (mm_creator_stable_id m) (mm_creator_handle m) (mm_creator_display_name m))
       (\<lambda>(kind, stable_id, handle, display_name).
     and_then (all_checks [
       raise_if (mm_created_at_ms m < 0) FrameNestMediaMetadataError,
       raise_if (mm_updated_at_ms m < 0) FrameNestMediaMetadataError,
       raise_if (mm_updated_at_ms m < mm_created_at_ms m) FrameNestMediaMetadataError]) (\<lambda>_.
     Inr (m\<lparr>mm_creator_attribution_kind := kind, mm_creator_stable_id := stable_id,
            mm_creator_handle := handle, mm_creator_display_name := display_name\<rparr>))))"

section \<open>Facts\<close>

lemma posix_absolute_root: "\<not> posix_is_absolute s \<Longrightarrow> posix_root s = []"
  by (cases s) (simp_all add: posix_is_absolute_def posix_root_def)

lemma normalize_relative_path_iff:
  "normalize_relative_path (PyStr s) = Inr r \<longleftrightarrow>
     s \<noteq> [] \<and> 0 \<notin> set s \<and> length s \<le> MAX_RELATIVE_PATH_CODE_POINTS
     \<and> \<not> posix_is_absolute s \<and> \<not> windows_is_absolute s
     \<and> r = map (\<lambda>c. if c = 92 then 47 else c) s \<and> \<not> posix_is_absolute r \<and> pure_posix_str r = r
     \<and> \<not> list_ex (\<lambda>p. p = [] \<or> p = [46] \<or> p = [46, 46]) (split_on 47 r)"
  by (simp add: normalize_relative_path_def Let_def not_le) blast

lemma normalize_relative_path_str: "normalize_relative_path v = Inr r \<Longrightarrow> \<exists>s. v = PyStr s"
  by (cases v) (simp_all add: normalize_relative_path_def)

lemma no_backslash_after_map: "92 \<notin> set (map (\<lambda>c::nat. if c = 92 then 47 else c) s)"
  by auto

lemma map_backslash_id: "92 \<notin> set s \<Longrightarrow> map (\<lambda>c. if c = 92 then 47 else c) s = s"
  by (induction s) auto


lemma windows_absolute_slashes:
  "windows_is_absolute (map (\<lambda>c. if c = 92 then 47 else c) s) \<longleftrightarrow> windows_is_absolute s"
  by (cases s rule: windows_is_absolute.cases) (auto simp: is_separator_def)

lemma normalized_path_facts:
  assumes "normalize_relative_path v = Inr r"
  shows "(\<exists>s. v = PyStr s \<and> r = map (\<lambda>c. if c = 92 then 47 else c) s)
    \<and> r \<noteq> [] \<and> length r \<le> 4096 \<and> \<not> posix_is_absolute r \<and> \<not> windows_is_absolute r
    \<and> 0 \<notin> set r \<and> 92 \<notin> set r
    \<and> [] \<notin> set (split_on 47 r) \<and> [46] \<notin> set (split_on 47 r) \<and> [46, 46] \<notin> set (split_on 47 r)
    \<and> normalize_relative_path (PyStr r) = Inr r"
proof -
  obtain s where v: "v = PyStr s" using normalize_relative_path_str [OF assms] by blast
  have f: "s \<noteq> []" "0 \<notin> set s" "length s \<le> MAX_RELATIVE_PATH_CODE_POINTS" "\<not> windows_is_absolute s"
      "r = map (\<lambda>c. if c = 92 then 47 else c) s" "\<not> posix_is_absolute r" "pure_posix_str r = r"
      "\<not> list_ex (\<lambda>p. p = [] \<or> p = [46] \<or> p = [46, 46]) (split_on 47 r)"
    using assms unfolding v normalize_relative_path_iff by blast+
  have c: "92 \<notin> set r" "0 \<notin> set r" using f(2,5) by auto
  have w: "\<not> windows_is_absolute r" using f(4,5) windows_absolute_slashes by simp
  have l: "length r \<le> MAX_RELATIVE_PATH_CODE_POINTS" "r \<noteq> []" using f by auto
  have "normalize_relative_path (PyStr r) = Inr r"
    unfolding normalize_relative_path_iff using f(6-8) c w l map_backslash_id [OF c(1)] by simp
  then show ?thesis using v f(5,6,8) c l w by (auto simp: MAX_RELATIVE_PATH_CODE_POINTS_def list_ex_iff)
qed

end
