(* ===== verification/Claim_Fields.thy ===== *)
theory Claim_Fields
  imports Media Identity_Access
begin

text \<open>
  The field validators that \<open>domain/youtube_acquisition.py\<close> and \<open>domain/x_acquisition.py\<close>
  both define, for the claim error \<open>e\<close> of the module.
\<close>

text \<open>\<open>_validate_advisory\<close> on a present value; ten is the line feed.\<close>

definition advisory_ok :: "unicode_tables \<Rightarrow> nat \<Rightarrow> bool \<Rightarrow> pystr \<Rightarrow> bool" where
  "advisory_ok U maximum allow_newline s \<longleftrightarrow>
     s \<noteq> [] \<and> strip s = s \<and> length s \<le> maximum \<and> s = uni_nfc U s
     \<and> list_all (\<lambda>c. is_cc c \<longrightarrow> allow_newline \<and> c = 10) s"

definition check_advisory ::
    "'e \<Rightarrow> unicode_tables \<Rightarrow> pystr option \<Rightarrow> nat \<Rightarrow> bool \<Rightarrow> 'e + unit" where
  "check_advisory e U value maximum allow_newline =
     (case value of None \<Rightarrow> Inr ()
      | Some s \<Rightarrow> raise_if (\<not> advisory_ok U maximum allow_newline s) e)"

definition check_token :: "'e \<Rightarrow> pystr option \<Rightarrow> (pystr \<Rightarrow> bool) \<Rightarrow> 'e + unit" where
  "check_token e value pattern =
     (case value of None \<Rightarrow> Inr () | Some s \<Rightarrow> raise_if (\<not> pattern s) e)"

definition check_optional_claim_id :: "'e \<Rightarrow> uuid option \<Rightarrow> uuid \<Rightarrow> 'e + unit" where
  "check_optional_claim_id e value own_id =
     (case value of None \<Rightarrow> Inr () | Some i \<Rightarrow> raise_if (\<not> is_uuid4 i \<or> i = own_id) e)"

fun check_non_negative :: "'e \<Rightarrow> pyobj \<Rightarrow> 'e + int" where
  "check_non_negative e (PyInt n) = (if n < 0 then Inl e else Inr n)"
| "check_non_negative e _ = Inl e"

definition check_optional_non_negative :: "'e \<Rightarrow> int option \<Rightarrow> bool \<Rightarrow> 'e + unit" where
  "check_optional_non_negative e value positive =
     (case value of None \<Rightarrow> Inr ()
      | Some n \<Rightarrow> and_then (check_non_negative e (PyInt n)) (\<lambda>_. raise_if (positive \<and> n = 0) e))"

definition check_created_by_login_key :: "'e \<Rightarrow> unicode_tables \<Rightarrow> pystr option \<Rightarrow> 'e + unit" where
  "check_created_by_login_key e U value =
     (case value of
        None \<Rightarrow> Inr ()
      | Some s \<Rightarrow>
          if s = [] \<or> length s > MAX_LOGIN_LENGTH then Inl e
          else case normalize_login U (PyStr s) of
                 Inl _ \<Rightarrow> Inl e
               | Inr normalized \<Rightarrow> raise_if (s \<noteq> normalized) e)"

definition staging_key_pattern :: "pystr \<Rightarrow> bool" where
  "staging_key_pattern s = matches_class is_lower_hex 32 32 s"

definition claim_failure_code_pattern :: "pystr \<Rightarrow> bool" where
  "claim_failure_code_pattern s = matches_class (\<lambda>c. is_upper c \<or> is_digit c \<or> c = 95) 1 80 s"

definition is_alnum :: "nat \<Rightarrow> bool" where
  "is_alnum c \<longleftrightarrow> is_lower c \<or> is_upper c \<or> is_digit c"

text \<open>\<open>[A-Za-z0-9][A-Za-z0-9._+-]{0,n}\<close>\<close>

definition token_pattern :: "nat \<Rightarrow> pystr \<Rightarrow> bool" where
  "token_pattern n s \<longleftrightarrow>
     matches_head_class is_alnum (\<lambda>c. is_alnum c \<or> c \<in> {46, 95, 43, 45}) 0 n s"

section \<open>What the validators accept\<close>

lemma check_advisory_Inr [check_simps]:
  "check_advisory e U value maximum nl = Inr u \<longleftrightarrow> (\<forall>s. value = Some s \<longrightarrow> advisory_ok U maximum nl s)"
  by (cases "value") (auto simp: check_advisory_def)

lemma check_token_Inr [check_simps]:
  "check_token e value pattern = Inr u \<longleftrightarrow> (\<forall>s. value = Some s \<longrightarrow> pattern s)"
  by (cases "value") (auto simp: check_token_def)

lemma check_optional_claim_id_Inr [check_simps]:
  "check_optional_claim_id e value own = Inr u \<longleftrightarrow> (\<forall>i. value = Some i \<longrightarrow> is_uuid4 i \<and> i \<noteq> own)"
  by (cases "value") (auto simp: check_optional_claim_id_def)

lemma check_non_negative_Inr [check_simps]:
  "check_non_negative e (PyInt n) = Inr m \<longleftrightarrow> 0 \<le> n \<and> m = n"
  by auto

lemma check_optional_non_negative_Inr [check_simps]:
  "check_optional_non_negative e value positive = Inr u
     \<longleftrightarrow> (\<forall>n. value = Some n \<longrightarrow> 0 \<le> n \<and> (positive \<longrightarrow> 0 < n))"
  by (cases "value") (auto simp: check_optional_non_negative_def)

lemma check_created_by_login_key_Inr [check_simps]:
  "check_created_by_login_key e U value = Inr u
     \<longleftrightarrow> (\<forall>s. value = Some s \<longrightarrow> s \<noteq> [] \<and> length s \<le> MAX_LOGIN_LENGTH \<and> normalize_login U (PyStr s) = Inr s)"
  by (cases "value") (auto simp: check_created_by_login_key_def split: sum.splits)

text \<open>The validators raise the error of their module and no other.\<close>

definition only_error :: "'e \<Rightarrow> 'e + 'a \<Rightarrow> bool" where
  "only_error e m \<longleftrightarrow> (\<forall>f. m = Inl f \<longrightarrow> f = e)"

lemma only_error_simps [simp]:
  "only_error e (raise_if b e)" "only_error e (check_advisory e U value' maximum nl)"
  "only_error e (check_token e value' pattern)" "only_error e (check_optional_claim_id e i own)"
  "only_error e (check_non_negative e x)" "only_error e (check_optional_non_negative e n positive)"
  "only_error e (check_created_by_login_key e U value')" "only_error e (Inr y)"
  "only_error e (Inl e)"
  by (auto simp: only_error_def check_advisory_def check_token_def check_optional_claim_id_def
      check_optional_non_negative_def check_created_by_login_key_def and_then_Inl
      elim: check_non_negative.elims split: option.splits sum.splits if_splits)

lemma only_error_and_then [simp]:
  "only_error e m \<Longrightarrow> (\<And>x. m = Inr x \<Longrightarrow> only_error e (f x)) \<Longrightarrow> only_error e (and_then m f)"
  by (auto simp: only_error_def and_then_Inl)

lemma only_error_rescue [simp]: "only_error e (rescue (\<lambda>_. e) m)"
  by (auto simp: only_error_def rescue_Inl)

lemma only_error_enum_parse [simp]: "only_error e (enum_parse e members f s)"
  by (simp add: only_error_def enum_parse_def split: option.splits)

lemma only_error_opt_map [simp]: "(\<And>x. only_error e (f x)) \<Longrightarrow> only_error e (opt_map f y)"
  by (auto simp: only_error_def opt_map_def split: option.splits sum.splits)

lemma only_error_all_checks: "list_all (only_error e) cs \<Longrightarrow> only_error e (all_checks cs)"
  unfolding only_error_def by (auto simp: list_all_iff only_error_def dest!: all_checks_Inl_in)

end
