(* ===== verification/Youtube_Url.thy ===== *)
theory Youtube_Url
  imports Url_Parsing Claim_Fields
begin

text \<open>
  The source URL policy of \<open>domain/youtube_acquisition.py\<close>: \<open>canonicalize_youtube_url\<close> in the
  parts its body has (the split and its guards, the query, the video identifier of a path).
\<close>

datatype youtube_error =
    FrameNestYouTubeUrlError
  | FrameNestYouTubeClaimError
  | FrameNestYouTubeTransitionError

definition MAX_SUBMITTED_URL_CODE_POINTS :: nat where
  "MAX_SUBMITTED_URL_CODE_POINTS = 2048"

definition YOUTUBE_EXTRACTOR_KEY :: pystr where
  "YOUTUBE_EXTRACTOR_KEY = lit ''Youtube''"

definition YOUTUBE_HOSTS :: "pystr list" where
  "YOUTUBE_HOSTS = [lit ''youtube.com'', lit ''www.youtube.com'', lit ''m.youtube.com'']"

definition WATCH_QUERY_KEYS :: "pystr list" where
  "WATCH_QUERY_KEYS = [lit ''v'', lit ''t'', lit ''si'', lit ''feature'']"

definition PATH_QUERY_KEYS :: "pystr list" where
  "PATH_QUERY_KEYS = [lit ''t'', lit ''si'', lit ''feature'']"

definition is_video_char :: "nat \<Rightarrow> bool" where
  "is_video_char c \<longleftrightarrow> is_alnum c \<or> c = 95 \<or> c = 45"

definition video_id_pattern :: "pystr \<Rightarrow> bool" where
  "video_id_pattern s = matches_class is_video_char 11 11 s"

record youtube_source_identity =
  ysi_video_id :: pystr
  ysi_canonical_url :: pystr
  ysi_extractor_key :: pystr

definition watch_url :: "pystr \<Rightarrow> pystr" where
  "watch_url video_id = lit ''https://www.youtube.com/watch?v='' @ video_id"

definition youtube_source_identity_new ::
    "pystr \<Rightarrow> pystr \<Rightarrow> pystr \<Rightarrow> youtube_error + youtube_source_identity" where
  "youtube_source_identity_new video_id canonical_url extractor_key =
     (if \<not> video_id_pattern video_id \<or> canonical_url \<noteq> watch_url video_id
         \<or> extractor_key \<noteq> YOUTUBE_EXTRACTOR_KEY
      then Inl FrameNestYouTubeUrlError
      else Inr \<lparr>ysi_video_id = video_id, ysi_canonical_url = canonical_url,
                ysi_extractor_key = extractor_key\<rparr>)"

text \<open>The split URL and its host, or \<open>None\<close> for a text the policy refuses.\<close>

definition youtube_split :: "unicode_tables \<Rightarrow> pystr \<Rightarrow> (pystr \<times> split_result) option" where
  "youtube_split U s =
     (if s = [] \<or> strip s \<noteq> s \<or> length s > MAX_SUBMITTED_URL_CODE_POINTS \<or> has_control_character s
      then None
      else case urlsplit U s of
        None \<Rightarrow> None
      | Some parsed \<Rightarrow>
          (case url_port parsed of
             None \<Rightarrow> None
           | Some port \<Rightarrow>
               (case url_hostname U parsed of
                  None \<Rightarrow> None
                | Some hostname \<Rightarrow>
                    if sr_scheme parsed \<noteq> lit ''https''
                       \<or> fst (url_userinfo parsed) \<noteq> None \<or> snd (url_userinfo parsed) \<noteq> None
                       \<or> (port \<noteq> None \<and> port \<noteq> Some 443) \<or> sr_fragment parsed \<noteq> []
                    then None
                    else let host = uni_lower U hostname
                         in if uni_lower U (sr_netloc parsed) \<notin> {host, host @ lit '':443''} then None
                            else Some (host, parsed))))"

text \<open>The query as a dictionary: distinct keys, at most eight fields.\<close>

definition youtube_query :: "pystr \<Rightarrow> (pystr \<times> pystr) list option" where
  "youtube_query query =
     (case parse_qsl_strict 8 query of
        None \<Rightarrow> None
      | Some pairs \<Rightarrow> if distinct (map fst pairs) then Some pairs else None)"

definition youtube_video_id ::
    "pystr \<Rightarrow> pystr \<Rightarrow> (pystr \<times> pystr) list \<Rightarrow> pystr option" where
  "youtube_video_id host path query =
     (let path_parts = split_on 47 path
      in if host = lit ''youtu.be'' then
           (if \<not> list_all (\<lambda>(k, _). k \<in> set PATH_QUERY_KEYS) query then None
            else if length path_parts = 2 then Some (path_parts ! 1)
            else if length path_parts = 3 \<and> path_parts ! 2 = [] then Some (path_parts ! 1)
            else None)
         else if host \<in> set YOUTUBE_HOSTS \<and> path = lit ''/watch'' then
           (if \<not> list_all (\<lambda>(k, _). k \<in> set WATCH_QUERY_KEYS) query then None
            else map_of query (lit ''v''))
         else if host \<in> set YOUTUBE_HOSTS then
           (if \<not> list_all (\<lambda>(k, _). k \<in> set PATH_QUERY_KEYS) query then None
            else if (length path_parts = 3 \<or> length path_parts = 4) \<and> path_parts ! 1 = lit ''shorts''
            then if length path_parts = 3 \<or> path_parts ! 3 = [] then Some (path_parts ! 2) else None
            else None)
         else None)"

definition canonicalize_youtube_url ::
    "unicode_tables \<Rightarrow> pyobj \<Rightarrow> youtube_error + youtube_source_identity" where
  "canonicalize_youtube_url U value =
     (case value of
        PyStr s \<Rightarrow>
          (case youtube_split U s of
             None \<Rightarrow> Inl FrameNestYouTubeUrlError
           | Some (host, parsed) \<Rightarrow>
               (case youtube_query (sr_query parsed) of
                  None \<Rightarrow> Inl FrameNestYouTubeUrlError
                | Some query \<Rightarrow>
                    (case youtube_video_id host (sr_path parsed) query of
                       None \<Rightarrow> Inl FrameNestYouTubeUrlError
                     | Some video_id \<Rightarrow>
                         if \<not> video_id_pattern video_id then Inl FrameNestYouTubeUrlError
                         else youtube_source_identity_new video_id (watch_url video_id)
                                YOUTUBE_EXTRACTOR_KEY)))
      | _ \<Rightarrow> Inl FrameNestYouTubeUrlError)"

section \<open>Splitting a plain URL\<close>

text \<open>\<open>str.lower\<close> on ASCII text.\<close>

definition ascii_lowering :: "unicode_tables \<Rightarrow> bool" where
  "ascii_lowering U \<longleftrightarrow> (\<forall>s. list_all (\<lambda>c. c < 128) s \<longrightarrow> uni_lower U s = ascii_lower s)"

lemma ascii_lowering_ascii_tables [simp]: "ascii_lowering ascii_tables"
  by (simp add: ascii_lowering_def)

definition plain_host :: "pystr \<Rightarrow> bool" where
  "plain_host n \<longleftrightarrow> n \<noteq> [] \<and> list_all (\<lambda>c. is_lower c \<or> is_digit c \<or> c = 46 \<or> c = 45) n"

lemma plain_host_char:
  "plain_host n \<Longrightarrow> c \<in> set n \<Longrightarrow> (44 < c \<and> c < 47) \<or> (47 < c \<and> c < 58) \<or> (96 < c \<and> c < 123)"
  by (auto simp: plain_host_def list_all_iff char_class_defs)

lemma plain_host_facts:
  assumes "plain_host n"
  shows "list_all plain_url_char n" "47 \<notin> set n" "64 \<notin> set n" "91 \<notin> set n" "58 \<notin> set n" "37 \<notin> set n"
    "ascii_lower n = n" "list_all (\<lambda>c. c < 128) n"
proof -
  show "list_all plain_url_char n" "47 \<notin> set n" "64 \<notin> set n" "91 \<notin> set n" "58 \<notin> set n" "37 \<notin> set n"
    "list_all (\<lambda>c. c < 128) n"
    using plain_host_char [OF assms] by (force simp: list_all_iff plain_url_char_def)+
  have "ascii_lower_char c = c" if "c \<in> set n" for c
    using plain_host_char [OF assms that] by (auto simp: ascii_lower_char_def is_upper_def)
  then show "ascii_lower n = n" by (simp add: ascii_lower_def map_idI)
qed

lemma plain_text_facts:
  assumes "list_all (\<lambda>c. 32 < c \<and> c < 127) s"
  shows "strip s = s" "\<not> has_control_character s"
proof -
  show "strip s = s"
    by (rule strip_no_space) (use assms in \<open>auto simp: list_all_iff is_space_def\<close>)
  show "\<not> has_control_character s"
    using assms by (auto simp: has_control_character_def list_ex_iff list_all_iff is_cc_def)
qed

lemma plain_url_between: "list_all plain_url_char s \<Longrightarrow> list_all (\<lambda>c. 32 < c \<and> c < 127) s"
  by (auto simp: list_all_iff plain_url_char_def)

text \<open>\<open>port\<close> says whether the URL names the port 443.\<close>

definition url_text :: "pystr \<Rightarrow> bool \<Rightarrow> pystr \<Rightarrow> pystr option \<Rightarrow> pystr" where
  "url_text host port path query =
     lit ''https://'' @ (host @ (if port then lit '':443'' else [])) @ path
       @ (case query of None \<Rightarrow> [] | Some q \<Rightarrow> 63 # q)"

lemma youtube_split_plain:
  assumes U: "ascii_lowering U" and h: "plain_host host"
    and p: "list_all plain_url_char p" "p = [] \<or> hd p = 47"
    and q: "list_all plain_url_char (case query of None \<Rightarrow> [] | Some q \<Rightarrow> q)"
    and len: "length (url_text host port p query) \<le> MAX_SUBMITTED_URL_CODE_POINTS"
  shows "\<exists>parsed. youtube_split U (url_text host port p query) = Some (host, parsed)
    \<and> sr_path parsed = p \<and> sr_query parsed = (case query of None \<Rightarrow> [] | Some q \<Rightarrow> q)"
proof -
  let ?n = "host @ (if port then lit '':443'' else [])"
  let ?q = "case query of None \<Rightarrow> [] | Some q \<Rightarrow> q"
  let ?s = "url_text host port p query"
  let ?r = "\<lparr>sr_scheme = lit ''https'', sr_netloc = ?n, sr_path = p, sr_query = ?q, sr_fragment = []\<rparr>"
  note hf = plain_host_facts [OF h]
  have s: "?s = lit ''https://'' @ ?n @ p @ (if query \<noteq> None then 63 # ?q else [])"
    by (cases query) (simp_all add: url_text_def)
  have n: "list_all plain_url_char ?n" "47 \<notin> set ?n"
    using hf by (auto simp: plain_url_char_def lit_def)
  have split: "urlsplit U ?s = Some ?r"
    unfolding s by (rule urlsplit_https [OF n p q]) (cases query; simp)
  have "list_all (\<lambda>c. 32 < c \<and> c < 127) ?s"
    using plain_url_between [OF n(1)] plain_url_between [OF p(1)] plain_url_between [OF q]
    unfolding s by (auto simp: lit_def)
  note plain = plain_text_facts [OF this]
  have info: "url_hostinfo ?r = (host, if port then Some (lit ''443'') else None)"
    using hf hostinfo_plain(1) [of host _ ?r] hostinfo_plain(2) [of host "lit ''443''" ?r]
    by (cases port) (auto simp: lit_def)
  have low: "uni_lower U x = ascii_lower x" if "list_all (\<lambda>c. c < 128) x" for x
    using U that by (simp add: ascii_lowering_def)
  have name: "url_hostname U ?r = Some host"
    using h hf by (simp add: url_hostname_def info partition_absent low plain_host_def)
  have portv: "url_port ?r = Some (if port then Some 443 else None)"
    by (simp add: url_port_def info) (simp add: lit_def is_digit_def decimal_value_def)
  have "64 \<notin> set ?n" using hf by (auto simp: lit_def)
  then have user: "url_userinfo ?r = (None, None)" by (simp add: url_userinfo_def rpartition_absent)
  have "ascii_lower (lit '':443'') = lit '':443''" by (simp add: lit_def ascii_lower_def ascii_lower_char_def is_upper_def)
  moreover have "list_all (\<lambda>c. c < 128) ?n" using hf by (auto simp: lit_def)
  ultimately have netloc: "uni_lower U ?n = ?n" "uni_lower U host = host"
    using hf by (simp_all add: low) (simp add: ascii_lower_def)
  have "?s \<noteq> []" by (simp add: url_text_def lit_def)
  then have "youtube_split U ?s = Some (host, ?r)"
    using len by (simp add: youtube_split_def plain split portv name user netloc)
  then show ?thesis by (intro exI [of _ ?r]) simp
qed

lemma video_char_plain: "is_video_char c \<Longrightarrow> plain_url_char c \<and> c < 128 \<and> c \<notin> {37, 38, 43, 47, 61}"
  by (auto simp: is_video_char_def is_alnum_def char_class_defs plain_url_char_def)

lemma video_id_facts:
  assumes "video_id_pattern vid"
  shows "list_all plain_url_char vid" "length vid = 11" "vid \<noteq> []" "47 \<notin> set vid" "38 \<notin> set vid"
    "unquote_plus vid = vid"
proof -
  have c: "\<And>c. c \<in> set vid \<Longrightarrow> plain_url_char c \<and> c < 128 \<and> c \<notin> {37, 38, 43, 47, 61}"
    using assms video_char_plain by (auto simp: video_id_pattern_def matches_class_def list_all_iff)
  show l: "length vid = 11" using assms by (simp add: video_id_pattern_def matches_class_def)
  show "vid \<noteq> []" using l by auto
  show "list_all plain_url_char vid" "47 \<notin> set vid" "38 \<notin> set vid" using c by (auto simp: list_all_iff)
  show "unquote_plus vid = vid" by (rule unquote_plus_plain) (use c in \<open>auto simp: list_all_iff\<close>)
qed

lemma query_one_field:
  assumes "61 \<notin> set k" "38 \<notin> set k" "38 \<notin> set x" "unquote_plus k = k" "unquote_plus x = x"
  shows "youtube_query (k @ 61 # x) = Some [(k, x)]"
proof -
  have "split_on 38 (k @ 61 # x) = [k @ 61 # x]" using assms by (intro split_on_absent) auto
  then show ?thesis
    using assms by (simp add: youtube_query_def parse_qsl_strict_def partition_at)
qed

text \<open>A text that splits to a host, path and query naming the video is the video's identity.\<close>

lemma canonicalize_plain:
  assumes "youtube_split U s = Some (host, parsed)" "youtube_query (sr_query parsed) = Some query"
    and "youtube_video_id host (sr_path parsed) query = Some vid" "video_id_pattern vid"
  shows "canonicalize_youtube_url U (PyStr s) = Inr \<lparr>ysi_video_id = vid, ysi_canonical_url = watch_url vid,
    ysi_extractor_key = YOUTUBE_EXTRACTOR_KEY\<rparr>"
  using assms by (simp add: canonicalize_youtube_url_def youtube_source_identity_new_def)

lemma canonicalize_Inr:
  assumes "canonicalize_youtube_url U v = Inr i"
  obtains s host parsed query where "v = PyStr s" "youtube_split U s = Some (host, parsed)"
    "youtube_query (sr_query parsed) = Some query"
    "youtube_video_id host (sr_path parsed) query = Some (ysi_video_id i)"
    "video_id_pattern (ysi_video_id i)"
    "i = \<lparr>ysi_video_id = ysi_video_id i, ysi_canonical_url = watch_url (ysi_video_id i),
       ysi_extractor_key = YOUTUBE_EXTRACTOR_KEY\<rparr>"
  using assms
  by (auto simp: canonicalize_youtube_url_def youtube_source_identity_new_def
      split: pyobj.splits option.splits if_splits prod.splits)

lemma known_hosts:
  "plain_host (lit ''youtube.com'')" "plain_host (lit ''www.youtube.com'')"
  "plain_host (lit ''m.youtube.com'')" "plain_host (lit ''youtu.be'')"
  by (simp_all add: plain_host_def lit_def char_class_defs)

section \<open>What the policy accepts\<close>

lemma watch_url_text: "watch_url vid = url_text (lit ''www.youtube.com'') False (lit ''/watch'') (Some (lit ''v='' @ vid))"
  by (simp add: watch_url_def url_text_def lit_def)

lemma watch_path: "list_all plain_url_char (lit ''/watch'')" "hd (lit ''/watch'') = 47"
  by (simp_all add: lit_def plain_url_char_def)

lemma watch_query:
  assumes "video_id_pattern vid"
  shows "youtube_query (lit ''v='' @ vid) = Some [(lit ''v'', vid)]"
    and "list_all plain_url_char (lit ''v='' @ vid)"
proof -
  have "youtube_query (lit ''v'' @ 61 # vid) = Some [(lit ''v'', vid)]"
    by (rule query_one_field)
       (use video_id_facts [OF assms] in \<open>simp_all add: unquote_plus_plain lit_def\<close>)
  then show "youtube_query (lit ''v='' @ vid) = Some [(lit ''v'', vid)]" by (simp add: lit_def)
  show "list_all plain_url_char (lit ''v='' @ vid)"
    using video_id_facts(1) [OF assms] by (simp add: lit_def plain_url_char_def)
qed

lemma no_query: "youtube_query [] = Some []"
  by (simp add: youtube_query_def parse_qsl_strict_def)

text \<open>The four hosts.\<close>

definition YOUTUBE_SHORT_HOST :: pystr where
  "YOUTUBE_SHORT_HOST = lit ''youtu.be''"

lemma host_cases:
  "host \<in> set YOUTUBE_HOSTS \<Longrightarrow> plain_host host \<and> host \<noteq> YOUTUBE_SHORT_HOST \<and> length host \<le> 20"
  "plain_host YOUTUBE_SHORT_HOST" "length YOUTUBE_SHORT_HOST = 8"
  using known_hosts by (auto simp: YOUTUBE_HOSTS_def YOUTUBE_SHORT_HOST_def) (simp_all add: lit_def)

definition video_identity :: "pystr \<Rightarrow> youtube_source_identity" where
  "video_identity vid = \<lparr>ysi_video_id = vid, ysi_canonical_url = watch_url vid,
     ysi_extractor_key = YOUTUBE_EXTRACTOR_KEY\<rparr>"

lemma watch_form:
  assumes U: "ascii_lowering U" and v: "video_id_pattern vid" and h: "host \<in> set YOUTUBE_HOSTS"
  shows "canonicalize_youtube_url U (PyStr (url_text host port (lit ''/watch'') (Some (lit ''v='' @ vid))))
    = Inr (video_identity vid)"
proof -
  have hp: "plain_host host" "host \<noteq> lit ''youtu.be''" "length host \<le> 20"
    using host_cases(1) [OF h] by (auto simp: YOUTUBE_SHORT_HOST_def)
  have len: "length (url_text host port (lit ''/watch'') (Some (lit ''v='' @ vid)))
      \<le> MAX_SUBMITTED_URL_CODE_POINTS"
    using hp(3) video_id_facts(2) [OF v] by (simp add: url_text_def MAX_SUBMITTED_URL_CODE_POINTS_def)
  obtain parsed where s: "youtube_split U (url_text host port (lit ''/watch'') (Some (lit ''v='' @ vid)))
      = Some (host, parsed)" "sr_path parsed = lit ''/watch''" "sr_query parsed = lit ''v='' @ vid"
    using youtube_split_plain [OF U hp(1) watch_path(1) _ _ len] watch_path(2) watch_query(2) [OF v] by auto
  have "youtube_video_id host (lit ''/watch'') [(lit ''v'', vid)] = Some vid"
    using hp(2) h by (simp add: youtube_video_id_def WATCH_QUERY_KEYS_def)
  then show ?thesis
    using canonicalize_plain [OF s(1), of "[(lit ''v'', vid)]" vid] s(2,3) watch_query(1) [OF v] v
    by (simp add: video_identity_def)
qed

text \<open>A path that names the video after \<open>k\<close>, with or without a final slash.\<close>

lemma path_form:
  assumes U: "ascii_lowering U" and v: "video_id_pattern vid"
    and h: "plain_host host" "length host \<le> 20"
    and p: "p = k @ 47 # vid @ (if slash then [47] else [])" "list_all plain_url_char k"
      "k = [] \<or> hd k = 47" "length k \<le> 20"
    and vid: "youtube_video_id host p [] = Some vid"
  shows "canonicalize_youtube_url U (PyStr (url_text host port p None)) = Inr (video_identity vid)"
proof -
  have pl: "list_all plain_url_char p" "hd p = 47"
    using p video_id_facts(1) [OF v] by (cases k; simp add: plain_url_char_def)+
  have len: "length (url_text host port p None) \<le> MAX_SUBMITTED_URL_CODE_POINTS"
    using h(2) p video_id_facts(2) [OF v] by (simp add: url_text_def MAX_SUBMITTED_URL_CODE_POINTS_def)
  obtain parsed where s: "youtube_split U (url_text host port p None) = Some (host, parsed)"
      "sr_path parsed = p" "sr_query parsed = []"
    using youtube_split_plain [OF U h(1) pl(1) _ _ len] pl(2) by auto
  show ?thesis
    using canonicalize_plain [OF s(1), of "[]" vid] s(2,3) no_query vid v by (simp add: video_identity_def)
qed

lemma split_path:
  assumes "47 \<notin> set vid"
  shows "split_on 47 (47 # vid) = [[], vid]" "split_on 47 (47 # vid @ [47]) = [[], vid, []]"
    and "47 \<notin> set k \<Longrightarrow> split_on 47 (47 # k @ 47 # vid) = [[], k, vid]"
    and "47 \<notin> set k \<Longrightarrow> split_on 47 (47 # k @ 47 # vid @ [47]) = [[], k, vid, []]"
proof -
  have s: "split_on 47 (a @ 47 # b) = a # split_on 47 b" if "47 \<notin> set a" for a b
    using that by (induction a) auto
  show "split_on 47 (47 # vid) = [[], vid]" using assms by simp
  show "split_on 47 (47 # vid @ [47]) = [[], vid, []]" using s [OF assms, of "[]"] by simp
  show "split_on 47 (47 # k @ 47 # vid) = [[], k, vid]" if "47 \<notin> set k" using s [OF that, of vid] assms by simp
  show "split_on 47 (47 # k @ 47 # vid @ [47]) = [[], k, vid, []]" if "47 \<notin> set k"
    using s [OF that] s [OF assms, of "[]"] by simp
qed

lemma short_form:
  assumes "ascii_lowering U" and "video_id_pattern vid"
  shows "canonicalize_youtube_url U (PyStr (url_text YOUTUBE_SHORT_HOST port
      (47 # vid @ (if slash then [47] else [])) None)) = Inr (video_identity vid)"
proof (rule path_form [OF assms host_cases(2), where k = "[]" and slash = slash])
  show "youtube_video_id YOUTUBE_SHORT_HOST (47 # vid @ (if slash then [47] else [])) [] = Some vid"
    using split_path(1,2) [OF video_id_facts(4) [OF assms(2)]]
    by (simp add: youtube_video_id_def YOUTUBE_SHORT_HOST_def Let_def)
qed (simp_all add: host_cases)

lemma shorts_form:
  assumes "ascii_lowering U" and "video_id_pattern vid" and h: "host \<in> set YOUTUBE_HOSTS"
  shows "canonicalize_youtube_url U (PyStr (url_text host port
      (lit ''/shorts/'' @ vid @ (if slash then [47] else [])) None)) = Inr (video_identity vid)"
proof (rule path_form [OF assms(1,2), where k = "lit ''/shorts''" and slash = slash])
  have "lit ''/shorts/'' @ vid @ (if slash then [47] else [])
      = 47 # lit ''shorts'' @ 47 # vid @ (if slash then [47] else [])" by (simp add: lit_def)
  moreover have "47 \<notin> set (lit ''shorts'')" by (simp add: lit_def)
  ultimately have "split_on 47 (lit ''/shorts/'' @ vid @ (if slash then [47] else []))
      = [[], lit ''shorts'', vid] @ (if slash then [[]] else [])"
    using split_path(3,4) [OF video_id_facts(4) [OF assms(2)], of "lit ''shorts''"] by simp
  moreover have "lit ''/shorts/'' @ x \<noteq> lit ''/watch''" for x by (simp add: lit_def)
  ultimately show "youtube_video_id host (lit ''/shorts/'' @ vid @ (if slash then [47] else [])) [] = Some vid"
    using h host_cases(1) [OF h]
    by (simp add: youtube_video_id_def YOUTUBE_SHORT_HOST_def Let_def)
qed (use host_cases(1) [OF h] in \<open>simp_all add: lit_def plain_url_char_def\<close>)

text \<open>Nothing but a YouTube host is accepted.\<close>

lemma youtube_split_text:
  assumes "youtube_split U s = Some (host, parsed)"
  obtains h n rest where "s = h @ lit ''://'' @ n @ rest" "ascii_lower h = lit ''https''"
    "uni_lower U n = host \<or> uni_lower U n = host @ lit '':443''" "n \<noteq> []"
    "rest = [] \<or> hd rest \<in> {47, 63, 35}"
proof -
  have a: "s \<noteq> []" "strip s = s" "\<not> has_control_character s" "urlsplit U s = Some parsed"
      "sr_scheme parsed = lit ''https''" "url_hostname U parsed \<noteq> None"
      "uni_lower U (sr_netloc parsed) \<in> {host, host @ lit '':443''}"
    using assms by (auto simp: youtube_split_def Let_def split: if_splits option.splits)
  have cc: "\<not> is_cc c" if "c \<in> set s" for c
    using a(3) that by (auto simp: has_control_character_def list_ex_iff)
  have "\<not> is_space (hd s)"
  proof
    assume sp: "is_space (hd s)"
    have "length (strip s) \<le> length (dropWhile is_space s)"
      unfolding strip_def using length_dropWhile_le [of is_space "rev (dropWhile is_space s)"] by simp
    also have "\<dots> < length s" using sp a(1) by (cases s) (auto simp: le_imp_less_Suc length_dropWhile_le)
    finally show False using a(2) by simp
  qed
  then have "32 < hd s" using cc [of "hd s"] a(1) by (auto simp: is_space_def is_cc_def not_less)
  moreover have "list_all (\<lambda>c. c \<notin> {9, 13, 10}) s" using cc by (force simp: list_all_iff is_cc_def)
  moreover have "sr_scheme parsed \<noteq> []" using a(5) by (simp add: lit_def)
  ultimately obtain head after where t: "s = head @ 58 # after" "ascii_lower head = sr_scheme parsed"
      "sr_netloc parsed \<noteq> [] \<Longrightarrow> \<exists>tail. after = [47, 47] @ sr_netloc parsed @ tail
        \<and> (tail = [] \<or> hd tail \<in> {47, 63, 35})"
    using urlsplit_text [OF a(4)] by blast
  have "sr_netloc parsed \<noteq> []"
  proof
    assume "sr_netloc parsed = []"
    then have "url_hostinfo parsed = ([], None)"
      by (simp add: url_hostinfo_def rpartition_absent partition_absent)
    then show False using a(6) by (simp add: url_hostname_def)
  qed
  with t(3) obtain tail where "after = [47, 47] @ sr_netloc parsed @ tail" "tail = [] \<or> hd tail \<in> {47, 63, 35}"
    by blast
  then show thesis
    using t(1,2) a(5,7) \<open>sr_netloc parsed \<noteq> []\<close>
    by (intro that [of head "sr_netloc parsed" tail]) (auto simp: lit_def)
qed

lemma youtube_video_id_host:
  "youtube_video_id host path query = Some vid \<Longrightarrow> host \<in> set (YOUTUBE_SHORT_HOST # YOUTUBE_HOSTS)"
  by (auto simp: youtube_video_id_def YOUTUBE_SHORT_HOST_def Let_def split: if_splits)

definition sample_video :: pystr where
  "sample_video = lit ''dQw4w9WgXcQ''"

lemma sample_video_ok: "video_id_pattern sample_video"
  by (simp add: sample_video_def lit_def video_id_pattern_def matches_class_def is_video_char_def
      is_alnum_def char_class_defs)

text \<open>
   C36. An accepted submission is an \<open>https\<close> URL whose authority is one of the four YouTube
  hosts, with no user information and no port but 443; its identity is a well-formed video
  identifier with the canonical watch URL, and canonicalising that URL gives the same identity
  again.
\<close>

theorem youtube_url_policy:
  assumes "ascii_lowering U" and "canonicalize_youtube_url U v = Inr i"
  shows "video_id_pattern (ysi_video_id i) \<and> i = video_identity (ysi_video_id i)
    \<and> canonicalize_youtube_url U (PyStr (ysi_canonical_url i)) = Inr i
    \<and> (\<exists>h n rest host. v = PyStr (h @ lit ''://'' @ n @ rest) \<and> ascii_lower h = lit ''https''
        \<and> host \<in> set (YOUTUBE_SHORT_HOST # YOUTUBE_HOSTS)
        \<and> (uni_lower U n = host \<or> uni_lower U n = host @ lit '':443'')
        \<and> (rest = [] \<or> hd rest \<in> {47, 63, 35}))"
proof -
  from assms(2) obtain s host parsed query where c: "v = PyStr s" "youtube_split U s = Some (host, parsed)"
      "youtube_video_id host (sr_path parsed) query = Some (ysi_video_id i)"
      "video_id_pattern (ysi_video_id i)" "i = video_identity (ysi_video_id i)"
    unfolding video_identity_def by (rule canonicalize_Inr)
  from c(2) obtain h n rest where t: "s = h @ lit ''://'' @ n @ rest" "ascii_lower h = lit ''https''"
      "uni_lower U n = host \<or> uni_lower U n = host @ lit '':443''" "rest = [] \<or> hd rest \<in> {47, 63, 35}"
    by (rule youtube_split_text)
  have "ysi_canonical_url i = watch_url (ysi_video_id i)" using c(5) by (metis video_identity_def
      youtube_source_identity.select_convs(2))
  then have "canonicalize_youtube_url U (PyStr (ysi_canonical_url i)) = Inr i"
    using watch_form [OF assms(1) c(4), of "lit ''www.youtube.com''" False] c(5)
    by (simp add: watch_url_text YOUTUBE_HOSTS_def)
  then show ?thesis using c t youtube_video_id_host [OF c(3)] by blast
qed

text \<open>
   The three public forms of a video's URL - watch page, short link and shorts page, on
  every host, with or without the port and a final slash - have the same canonical identity.
\<close>

theorem youtube_url_forms:
  assumes "ascii_lowering U" and "video_id_pattern vid" and "host \<in> set YOUTUBE_HOSTS"
  shows "canonicalize_youtube_url U (PyStr (url_text host port (lit ''/watch'') (Some (lit ''v='' @ vid))))
      = Inr (video_identity vid)
    \<and> canonicalize_youtube_url U (PyStr (url_text YOUTUBE_SHORT_HOST port
        (47 # vid @ (if slash then [47] else [])) None)) = Inr (video_identity vid)
    \<and> canonicalize_youtube_url U (PyStr (url_text host port
        (lit ''/shorts/'' @ vid @ (if slash then [47] else [])) None)) = Inr (video_identity vid)"
  using watch_form [OF assms] short_form [OF assms(1,2)] shorts_form [OF assms] by blast

lemma youtube_url_forms_witness:
  "canonicalize_youtube_url ascii_tables (PyStr (url_text YOUTUBE_SHORT_HOST False (47 # sample_video) None))
    = Inr (video_identity sample_video)"
  using youtube_url_forms [OF ascii_lowering_ascii_tables sample_video_ok, of "lit ''youtube.com''" False False]
  by (simp add: YOUTUBE_HOSTS_def)

lemma youtube_url_policy_witness:
  "canonicalize_youtube_url ascii_tables (PyStr (watch_url sample_video)) = Inr (video_identity sample_video)"
proof -
  have s: "canonicalize_youtube_url ascii_tables
      (PyStr (url_text YOUTUBE_SHORT_HOST False (47 # sample_video @ (if False then [47] else [])) None))
    = Inr (video_identity sample_video)"
    by (rule short_form [OF ascii_lowering_ascii_tables sample_video_ok])
  have "ysi_canonical_url (video_identity sample_video) = watch_url sample_video"
    by (simp add: video_identity_def)
  then show ?thesis using youtube_url_policy [OF ascii_lowering_ascii_tables s] by simp
qed

end
