(* ===== verification/Snapshots.thy ===== *)
theory Snapshots
  imports Lifecycle
begin

text \<open>
  Claims and assets are immutable snapshots: an operation gives a new validated snapshot one
  version later, or raises and leaves the old one.  This theory holds runs of such operations
  and the interface under which a run keeps what every operation keeps; the YouTube claim, the
  X claim and the X asset are instances.
\<close>

fun run_commands :: "('k \<Rightarrow> 'c \<Rightarrow> 'e + 'c) \<Rightarrow> 'k list \<Rightarrow> 'c \<Rightarrow> 'c" where
  "run_commands f [] c = c"
| "run_commands f (k # ks) c =
     (case f k c of Inl _ \<Rightarrow> run_commands f ks c | Inr c' \<Rightarrow> run_commands f ks c')"

fun accepted_commands :: "('k \<Rightarrow> 'c \<Rightarrow> 'e + 'c) \<Rightarrow> 'k list \<Rightarrow> 'c \<Rightarrow> nat" where
  "accepted_commands f [] c = 0"
| "accepted_commands f (k # ks) c =
     (case f k c of Inl _ \<Rightarrow> accepted_commands f ks c | Inr c' \<Rightarrow> Suc (accepted_commands f ks c'))"

locale snapshot =
  fixes exec :: "'k \<Rightarrow> 'c \<Rightarrow> 'e + 'c"
    and fair :: "'k \<Rightarrow> bool"
    and valid :: "'c \<Rightarrow> bool"
    and phase :: "'c \<Rightarrow> 's"
    and version :: "'c \<Rightarrow> int"
    and owner :: "'c \<Rightarrow> 'o"
    and moves :: "'s \<Rightarrow> 's list"
  assumes exec_valid: "exec k c = Inr c' \<Longrightarrow> valid c'"
    and exec_version: "exec k c = Inr c' \<Longrightarrow> version c' = version c + 1"
    and exec_owner: "exec k c = Inr c' \<Longrightarrow> owner c' = owner c"
    and exec_phase: "exec k c = Inr c' \<Longrightarrow> fair k \<Longrightarrow> phase c' = phase c \<or> phase c' \<in> set (moves (phase c))"
begin

lemma run_valid: "valid c \<Longrightarrow> valid (run_commands exec ks c)"
  by (induction ks arbitrary: c) (auto split: sum.splits intro: exec_valid)

lemma run_version: "version (run_commands exec ks c) = version c + int (accepted_commands exec ks c)"
  by (induction ks arbitrary: c) (auto split: sum.splits dest: exec_version)

lemma run_owner: "owner (run_commands exec ks c) = owner c"
  by (induction ks arbitrary: c) (auto split: sum.splits dest: exec_owner)

lemma run_path:
  assumes "list_all fair ks"
  shows "\<exists>ts. table_run moves (phase c) ts \<and> last (phase c # ts) = phase (run_commands exec ks c)
    \<and> length ts \<le> accepted_commands exec ks c"
  using assms
proof (induction ks arbitrary: c)
  case Nil
  show ?case by (rule exI [of _ "[]"]) simp
next
  case (Cons k ks)
  show ?case
  proof (cases "exec k c")
    case (Inl e)
    with Cons show ?thesis by simp
  next
    case (Inr c')
    obtain ts where ts: "table_run moves (phase c') ts"
        "last (phase c' # ts) = phase (run_commands exec ks c')" "length ts \<le> accepted_commands exec ks c'"
      using Cons.IH [of c'] Cons.prems by auto
    consider "phase c' = phase c" | "phase c' \<in> set (moves (phase c))"
      using exec_phase [OF Inr] Cons.prems by auto
    then show ?thesis
    proof cases
      case 1
      then show ?thesis using ts Inr by (intro exI [of _ ts]) auto
    next
      case 2
      then show ?thesis using ts Inr by (intro exI [of _ "phase c' # ts"]) auto
    qed
  qed
qed

text \<open>A phase without moves is never left.\<close>

lemma run_stuck:
  assumes "list_all fair ks" and "moves (phase c) = []"
  shows "phase (run_commands exec ks c) = phase c"
proof -
  obtain ts where ts: "table_run moves (phase c) ts" "last (phase c # ts) = phase (run_commands exec ks c)"
    using run_path [OF assms(1)] by blast
  then have "ts = []" using assms(2) by (cases ts) auto
  then show ?thesis using ts by simp
qed

end

end
