(* ===== verification/Youtube_Claims.thy ===== *)
theory Youtube_Claims
  imports Youtube_Url Snapshots
begin

text \<open>
  The acquisition claim of \<open>domain/youtube_acquisition.py\<close>: its states and transition table,
  the constructor's \<open>__post_init__\<close>, the three operations that give a new snapshot
  (\<open>advance\<close>, \<open>evolve\<close>, \<open>mark_catalog_removed\<close>) and the phase shown to the requester.

  The keyword arguments \<open>changes\<close> of an operation are the update they make on the other
  fields of the claim.  A keyword the operation sets itself cannot be among them (it would be
  passed twice, a \<open>TypeError\<close>), which is why the operation sets those fields last; \<open>evolve\<close>
  does not set \<open>state\<close>, so its \<open>changes\<close> may.
\<close>

section \<open>Enumerations\<close>

datatype youtube_state =
    YS_CLAIMED | YS_INSPECTING | YS_DOWNLOAD_PENDING | YS_DOWNLOADING | YS_DOWNLOADED
  | YS_HANDOFF | YS_HANDED_OFF | YS_DUPLICATE_RESOLVED | YS_CATALOGED | YS_CATALOG_REMOVED
  | YS_FAILED

fun youtube_state_value :: "youtube_state \<Rightarrow> pystr" where
  "youtube_state_value YS_CLAIMED = lit ''claimed''"
| "youtube_state_value YS_INSPECTING = lit ''inspecting''"
| "youtube_state_value YS_DOWNLOAD_PENDING = lit ''download_pending''"
| "youtube_state_value YS_DOWNLOADING = lit ''downloading''"
| "youtube_state_value YS_DOWNLOADED = lit ''downloaded''"
| "youtube_state_value YS_HANDOFF = lit ''handoff''"
| "youtube_state_value YS_HANDED_OFF = lit ''handed_off''"
| "youtube_state_value YS_DUPLICATE_RESOLVED = lit ''duplicate_resolved''"
| "youtube_state_value YS_CATALOGED = lit ''cataloged''"
| "youtube_state_value YS_CATALOG_REMOVED = lit ''catalog_removed''"
| "youtube_state_value YS_FAILED = lit ''failed''"

definition youtube_states :: "youtube_state list" where
  "youtube_states = [YS_CLAIMED, YS_INSPECTING, YS_DOWNLOAD_PENDING, YS_DOWNLOADING, YS_DOWNLOADED,
     YS_HANDOFF, YS_HANDED_OFF, YS_DUPLICATE_RESOLVED, YS_CATALOGED, YS_CATALOG_REMOVED, YS_FAILED]"

definition ACTIVE_YOUTUBE_ACQUISITION_STATES :: "youtube_state list" where
  "ACTIVE_YOUTUBE_ACQUISITION_STATES = [YS_CLAIMED, YS_INSPECTING, YS_DOWNLOAD_PENDING,
     YS_DOWNLOADING, YS_DOWNLOADED, YS_HANDOFF, YS_HANDED_OFF]"

definition TERMINAL_YOUTUBE_ACQUISITION_STATES :: "youtube_state list" where
  "TERMINAL_YOUTUBE_ACQUISITION_STATES = [YS_DUPLICATE_RESOLVED, YS_CATALOGED, YS_CATALOG_REMOVED,
     YS_FAILED]"

definition LIVE_CATALOG_YOUTUBE_ACQUISITION_STATES :: "youtube_state list" where
  "LIVE_CATALOG_YOUTUBE_ACQUISITION_STATES = [YS_DUPLICATE_RESOLVED, YS_CATALOGED]"

lemmas youtube_state_set_defs = ACTIVE_YOUTUBE_ACQUISITION_STATES_def
  TERMINAL_YOUTUBE_ACQUISITION_STATES_def LIVE_CATALOG_YOUTUBE_ACQUISITION_STATES_def

fun allowed_youtube_transitions :: "youtube_state \<Rightarrow> youtube_state list" where
  "allowed_youtube_transitions YS_CLAIMED = [YS_INSPECTING, YS_DUPLICATE_RESOLVED, YS_FAILED]"
| "allowed_youtube_transitions YS_INSPECTING = [YS_CLAIMED, YS_DOWNLOAD_PENDING, YS_FAILED]"
| "allowed_youtube_transitions YS_DOWNLOAD_PENDING = [YS_CLAIMED, YS_DOWNLOADING, YS_FAILED]"
| "allowed_youtube_transitions YS_DOWNLOADING =
     [YS_CLAIMED, YS_DOWNLOAD_PENDING, YS_DOWNLOADED, YS_FAILED]"
| "allowed_youtube_transitions YS_DOWNLOADED = [YS_HANDOFF, YS_FAILED]"
| "allowed_youtube_transitions YS_HANDOFF = [YS_HANDED_OFF, YS_FAILED]"
| "allowed_youtube_transitions YS_HANDED_OFF = [YS_DUPLICATE_RESOLVED, YS_CATALOGED, YS_FAILED]"
| "allowed_youtube_transitions YS_DUPLICATE_RESOLVED = [YS_CATALOG_REMOVED]"
| "allowed_youtube_transitions YS_CATALOGED = [YS_CATALOG_REMOVED]"
| "allowed_youtube_transitions YS_CATALOG_REMOVED = []"
| "allowed_youtube_transitions YS_FAILED = []"

datatype youtube_confirmation = INTERACTIVE | YES_FLAG

fun youtube_confirmation_value :: "youtube_confirmation \<Rightarrow> pystr" where
  "youtube_confirmation_value INTERACTIVE = lit ''interactive''"
| "youtube_confirmation_value YES_FLAG = lit ''yes_flag''"

datatype youtube_cleanup_state = YC_CLEANUP_PENDING | YC_CLEANUP_COMPLETE

fun youtube_cleanup_state_value :: "youtube_cleanup_state \<Rightarrow> pystr" where
  "youtube_cleanup_state_value YC_CLEANUP_PENDING = lit ''pending''"
| "youtube_cleanup_state_value YC_CLEANUP_COMPLETE = lit ''complete''"

datatype youtube_failure_stage =
    YF_CONFIGURATION | YF_INSPECTION | YF_DOWNLOAD | YF_STAGING | YF_HANDOFF | YF_DOWNSTREAM
  | YF_CLEANUP | YF_INTERNAL

fun youtube_failure_stage_value :: "youtube_failure_stage \<Rightarrow> pystr" where
  "youtube_failure_stage_value YF_CONFIGURATION = lit ''configuration''"
| "youtube_failure_stage_value YF_INSPECTION = lit ''inspection''"
| "youtube_failure_stage_value YF_DOWNLOAD = lit ''download''"
| "youtube_failure_stage_value YF_STAGING = lit ''staging''"
| "youtube_failure_stage_value YF_HANDOFF = lit ''handoff''"
| "youtube_failure_stage_value YF_DOWNSTREAM = lit ''downstream''"
| "youtube_failure_stage_value YF_CLEANUP = lit ''cleanup''"
| "youtube_failure_stage_value YF_INTERNAL = lit ''internal''"

definition MAX_UPSTREAM_TITLE_CODE_POINTS :: nat where
  "MAX_UPSTREAM_TITLE_CODE_POINTS = 500"

definition MAX_UPSTREAM_CHANNEL_CODE_POINTS :: nat where
  "MAX_UPSTREAM_CHANNEL_CODE_POINTS = 200"

definition MAX_UPSTREAM_CHANNEL_ID_CODE_POINTS :: nat where
  "MAX_UPSTREAM_CHANNEL_ID_CODE_POINTS = 128"

definition MAX_REMOTE_FILENAME_CODE_POINTS :: nat where
  "MAX_REMOTE_FILENAME_CODE_POINTS = 500"

section \<open>The claim\<close>

record youtube_claim =
  yc_id :: uuid
  yc_state :: youtube_state
  yc_submitted_url :: pystr
  yc_canonical_url :: pystr
  yc_youtube_video_id :: pystr
  yc_extractor_key :: pystr
  yc_confirmation_method :: youtube_confirmation
  yc_confirmed_at_ms :: int
  yc_staging_key :: pystr
  yc_generated_filename :: pystr
  yc_created_at_ms :: int
  yc_updated_at_ms :: int
  yc_acquisition_source :: acquisition_source
  yc_retry_of_claim_id :: "uuid option"
  yc_resolved_claim_id :: "uuid option"
  yc_upload_id :: "uuid option"
  yc_media_id :: "uuid option"
  yc_media_location_id :: "uuid option"
  yc_upstream_title :: "pystr option"
  yc_upstream_channel :: "pystr option"
  yc_upstream_channel_id :: "pystr option"
  yc_upstream_source_date :: "pystr option"
  yc_downloader_name :: "pystr option"
  yc_downloader_version :: "pystr option"
  yc_extractor_version :: "pystr option"
  yc_selected_video_format_id :: "pystr option"
  yc_selected_audio_format_id :: "pystr option"
  yc_remote_filename :: "pystr option"
  yc_downloaded_size_bytes :: "int option"
  yc_downloaded_at_ms :: "int option"
  yc_completed_at_ms :: "int option"
  yc_catalog_removed_at_ms :: "int option"
  yc_failure_stage :: "youtube_failure_stage option"
  yc_failure_code :: "pystr option"
  yc_cleanup_state :: youtube_cleanup_state
  yc_cleanup_completed_at_ms :: "int option"
  yc_version :: int
  yc_created_by_login_key :: "pystr option"

text \<open>\<open>\d{4}-\d{2}-\d{2}\<close>, where \<open>\d\<close> is every decimal digit of the Unicode database.\<close>

definition source_date_pattern :: "unicode_tables \<Rightarrow> pystr \<Rightarrow> bool" where
  "source_date_pattern U s \<longleftrightarrow>
     length s = 10 \<and> s ! 4 = 45 \<and> s ! 7 = 45
     \<and> list_all (\<lambda>i. uni_decimal U (s ! i)) [0, 1, 2, 3, 5, 6, 8, 9]"

text \<open>\<open>_validate_state_payload\<close>\<close>

definition validate_youtube_state_payload :: "youtube_claim \<Rightarrow> youtube_error + unit" where
  "validate_youtube_state_payload c = all_checks [
     raise_if (yc_state c \<in> {YS_DOWNLOADED, YS_HANDOFF, YS_HANDED_OFF, YS_CATALOGED}
       \<and> (yc_downloaded_size_bytes c = None \<or> yc_downloaded_at_ms c = None)) FrameNestYouTubeClaimError,
     raise_if (yc_state c \<in> {YS_HANDED_OFF, YS_CATALOGED} \<and> yc_upload_id c = None)
       FrameNestYouTubeClaimError,
     raise_if (yc_state c = YS_CATALOGED \<and> (yc_media_id c = None \<or> yc_completed_at_ms c = None
       \<or> yc_failure_code c \<noteq> None \<or> yc_catalog_removed_at_ms c \<noteq> None)) FrameNestYouTubeClaimError,
     raise_if (yc_state c = YS_DUPLICATE_RESOLVED \<and> (yc_media_id c = None
       \<or> yc_completed_at_ms c = None \<or> yc_failure_code c \<noteq> None
       \<or> yc_catalog_removed_at_ms c \<noteq> None)) FrameNestYouTubeClaimError,
     raise_if (yc_state c = YS_CATALOG_REMOVED \<and> (yc_media_id c \<noteq> None
       \<or> yc_media_location_id c \<noteq> None \<or> yc_completed_at_ms c = None
       \<or> yc_catalog_removed_at_ms c = None
       \<or> the (yc_catalog_removed_at_ms c) < the (yc_completed_at_ms c)
       \<or> yc_failure_code c \<noteq> None)) FrameNestYouTubeClaimError,
     raise_if (yc_state c = YS_FAILED \<and> (yc_failure_code c = None \<or> yc_completed_at_ms c = None
       \<or> yc_catalog_removed_at_ms c \<noteq> None)) FrameNestYouTubeClaimError,
     raise_if (yc_state c \<notin> set TERMINAL_YOUTUBE_ACQUISITION_STATES
       \<and> (yc_completed_at_ms c \<noteq> None \<or> yc_failure_code c \<noteq> None
         \<or> yc_catalog_removed_at_ms c \<noteq> None)) FrameNestYouTubeClaimError,
     raise_if (yc_state c \<noteq> YS_CATALOG_REMOVED \<and> yc_catalog_removed_at_ms c \<noteq> None)
       FrameNestYouTubeClaimError]"

definition video_filename :: "pystr \<Rightarrow> pystr" where
  "video_filename video_id = lit ''youtube-'' @ video_id @ lit ''.mp4''"

text \<open>The checks of \<open>__post_init__\<close>, first the identity and times, then the provenance.\<close>

definition youtube_identity_checks :: "unicode_tables \<Rightarrow> youtube_claim \<Rightarrow> (youtube_error + unit) list" where
  "youtube_identity_checks U c = [
     raise_if (\<not> is_uuid4 (yc_id c)) FrameNestYouTubeClaimError,
     and_then (canonicalize_youtube_url U (PyStr (yc_submitted_url c))) (\<lambda>identity.
       raise_if (ysi_canonical_url identity \<noteq> yc_canonical_url c
         \<or> ysi_video_id identity \<noteq> yc_youtube_video_id c
         \<or> ysi_extractor_key identity \<noteq> yc_extractor_key c
         \<or> yc_acquisition_source c \<noteq> AS_YOUTUBE_MANUAL_CLAIM) FrameNestYouTubeClaimError),
     and_then (check_non_negative FrameNestYouTubeClaimError (PyInt (yc_confirmed_at_ms c))) (\<lambda>_. Inr ()),
     and_then (check_non_negative FrameNestYouTubeClaimError (PyInt (yc_created_at_ms c))) (\<lambda>_. Inr ()),
     and_then (check_non_negative FrameNestYouTubeClaimError (PyInt (yc_updated_at_ms c))) (\<lambda>_. Inr ()),
     and_then (check_non_negative FrameNestYouTubeClaimError (PyInt (yc_version c))) (\<lambda>_. Inr ()),
     raise_if (yc_confirmed_at_ms c < yc_created_at_ms c \<or> yc_updated_at_ms c < yc_created_at_ms c)
       FrameNestYouTubeClaimError,
     raise_if (\<not> staging_key_pattern (yc_staging_key c)
       \<or> yc_generated_filename c \<noteq> video_filename (yc_youtube_video_id c)) FrameNestYouTubeClaimError]"

definition youtube_link_checks :: "unicode_tables \<Rightarrow> youtube_claim \<Rightarrow> (youtube_error + unit) list" where
  "youtube_link_checks U c = [
     check_optional_claim_id FrameNestYouTubeClaimError (yc_retry_of_claim_id c) (yc_id c),
     check_optional_claim_id FrameNestYouTubeClaimError (yc_resolved_claim_id c) (yc_id c),
     raise_if (\<not> pred_option is_uuid4 (yc_upload_id c)) FrameNestYouTubeClaimError,
     raise_if (\<not> pred_option is_uuid4 (yc_media_id c)) FrameNestYouTubeClaimError,
     raise_if (\<not> pred_option is_uuid4 (yc_media_location_id c)) FrameNestYouTubeClaimError,
     raise_if ((yc_media_id c = None) \<noteq> (yc_media_location_id c = None)) FrameNestYouTubeClaimError,
     check_created_by_login_key FrameNestYouTubeClaimError U (yc_created_by_login_key c)]"

definition youtube_provenance_checks :: "unicode_tables \<Rightarrow> youtube_claim \<Rightarrow> (youtube_error + unit) list" where
  "youtube_provenance_checks U c = [
     check_advisory FrameNestYouTubeClaimError U (yc_upstream_title c) MAX_UPSTREAM_TITLE_CODE_POINTS False,
     check_advisory FrameNestYouTubeClaimError U (yc_upstream_channel c) MAX_UPSTREAM_CHANNEL_CODE_POINTS False,
     check_advisory FrameNestYouTubeClaimError U (yc_upstream_channel_id c)
       MAX_UPSTREAM_CHANNEL_ID_CODE_POINTS False,
     raise_if (\<not> pred_option (source_date_pattern U) (yc_upstream_source_date c)) FrameNestYouTubeClaimError,
     check_token FrameNestYouTubeClaimError (yc_downloader_name c) (token_pattern 119),
     check_token FrameNestYouTubeClaimError (yc_downloader_version c) (token_pattern 119),
     check_token FrameNestYouTubeClaimError (yc_extractor_version c) (token_pattern 119),
     check_token FrameNestYouTubeClaimError (yc_selected_video_format_id c) (token_pattern 119),
     check_token FrameNestYouTubeClaimError (yc_selected_audio_format_id c) (token_pattern 119),
     check_advisory FrameNestYouTubeClaimError U (yc_remote_filename c) MAX_REMOTE_FILENAME_CODE_POINTS False,
     check_optional_non_negative FrameNestYouTubeClaimError (yc_downloaded_size_bytes c) True,
     check_optional_non_negative FrameNestYouTubeClaimError (yc_downloaded_at_ms c) False,
     check_optional_non_negative FrameNestYouTubeClaimError (yc_completed_at_ms c) False,
     check_optional_non_negative FrameNestYouTubeClaimError (yc_catalog_removed_at_ms c) False,
     check_optional_non_negative FrameNestYouTubeClaimError (yc_cleanup_completed_at_ms c) False,
     raise_if ((yc_cleanup_state c = YC_CLEANUP_PENDING \<and> yc_cleanup_completed_at_ms c \<noteq> None)
       \<or> (yc_cleanup_state c = YC_CLEANUP_COMPLETE \<and> yc_cleanup_completed_at_ms c = None))
       FrameNestYouTubeClaimError,
     raise_if ((yc_failure_stage c = None) \<noteq> (yc_failure_code c = None)) FrameNestYouTubeClaimError,
     raise_if (\<not> pred_option claim_failure_code_pattern (yc_failure_code c)) FrameNestYouTubeClaimError]"

definition youtube_claim_post_init :: "unicode_tables \<Rightarrow> youtube_claim \<Rightarrow> youtube_error + unit" where
  "youtube_claim_post_init U c = all_checks
     (youtube_identity_checks U c @ youtube_link_checks U c @ youtube_provenance_checks U c
       @ [validate_youtube_state_payload c])"

definition youtube_claim_make :: "unicode_tables \<Rightarrow> youtube_claim \<Rightarrow> youtube_error + youtube_claim" where
  "youtube_claim_make U c = and_then (youtube_claim_post_init U c) (\<lambda>_. Inr c)"

section \<open>Operations\<close>

text \<open>\<open>YouTubeAcquisitionClaim.new\<close>; \<open>claim_id\<close> is the fresh identity it draws.\<close>

definition fresh_youtube_claim ::
    "uuid \<Rightarrow> pystr \<Rightarrow> youtube_source_identity \<Rightarrow> youtube_confirmation \<Rightarrow> int \<Rightarrow> uuid option
     \<Rightarrow> pystr option \<Rightarrow> youtube_claim" where
  "fresh_youtube_claim claim_id submitted_url identity confirmation_method now_ms retry_of owner =
       \<lparr>yc_id = claim_id, yc_state = YS_CLAIMED, yc_submitted_url = submitted_url,
        yc_canonical_url = ysi_canonical_url identity, yc_youtube_video_id = ysi_video_id identity,
        yc_extractor_key = ysi_extractor_key identity, yc_confirmation_method = confirmation_method,
        yc_confirmed_at_ms = now_ms, yc_staging_key = uuid_hex claim_id,
        yc_generated_filename = video_filename (ysi_video_id identity), yc_created_at_ms = now_ms,
        yc_updated_at_ms = now_ms, yc_acquisition_source = AS_YOUTUBE_MANUAL_CLAIM,
        yc_retry_of_claim_id = retry_of, yc_resolved_claim_id = None, yc_upload_id = None,
        yc_media_id = None, yc_media_location_id = None, yc_upstream_title = None,
        yc_upstream_channel = None, yc_upstream_channel_id = None, yc_upstream_source_date = None,
        yc_downloader_name = None, yc_downloader_version = None, yc_extractor_version = None,
        yc_selected_video_format_id = None, yc_selected_audio_format_id = None,
        yc_remote_filename = None, yc_downloaded_size_bytes = None, yc_downloaded_at_ms = None,
        yc_completed_at_ms = None, yc_catalog_removed_at_ms = None, yc_failure_stage = None,
        yc_failure_code = None, yc_cleanup_state = YC_CLEANUP_PENDING,
        yc_cleanup_completed_at_ms = None, yc_version = 0, yc_created_by_login_key = owner\<rparr>"

definition youtube_claim_new ::
    "unicode_tables \<Rightarrow> uuid \<Rightarrow> pystr \<Rightarrow> youtube_confirmation \<Rightarrow> int \<Rightarrow> uuid option \<Rightarrow> pystr option
     \<Rightarrow> youtube_error + youtube_claim" where
  "youtube_claim_new U claim_id submitted_url confirmation_method now_ms retry_of created_by =
     and_then (canonicalize_youtube_url U (PyStr submitted_url)) (\<lambda>identity.
     and_then (opt_map (\<lambda>k. rescue (\<lambda>_. FrameNestYouTubeClaimError) (normalize_login U (PyStr k)))
                 created_by) (\<lambda>owner.
     youtube_claim_make U
       (fresh_youtube_claim claim_id submitted_url identity confirmation_method now_ms retry_of owner)))"

definition ensure_youtube_transition_allowed :: "youtube_state \<Rightarrow> youtube_state \<Rightarrow> youtube_error + unit" where
  "ensure_youtube_transition_allowed source target =
     raise_if (target \<notin> set (allowed_youtube_transitions source)) FrameNestYouTubeTransitionError"

definition reject_ownership_mutation ::
    "youtube_claim \<Rightarrow> (youtube_claim \<Rightarrow> youtube_claim) \<Rightarrow> youtube_error + unit" where
  "reject_ownership_mutation c changes =
     raise_if (yc_created_by_login_key (changes c) \<noteq> yc_created_by_login_key c) FrameNestYouTubeClaimError"

definition youtube_advance ::
    "unicode_tables \<Rightarrow> youtube_claim \<Rightarrow> youtube_state \<Rightarrow> int \<Rightarrow> (youtube_claim \<Rightarrow> youtube_claim)
     \<Rightarrow> youtube_error + youtube_claim" where
  "youtube_advance U c target_state updated_at_ms changes =
     and_then (ensure_youtube_transition_allowed (yc_state c) target_state) (\<lambda>_.
     and_then (reject_ownership_mutation c changes) (\<lambda>_.
     youtube_claim_make U ((changes c)\<lparr>yc_state := target_state, yc_updated_at_ms := updated_at_ms,
       yc_version := yc_version c + 1\<rparr>)))"

definition youtube_mark_catalog_removed ::
    "unicode_tables \<Rightarrow> youtube_claim \<Rightarrow> pyobj \<Rightarrow> youtube_error + youtube_claim" where
  "youtube_mark_catalog_removed U c now_ms =
     (if yc_state c \<notin> set LIVE_CATALOG_YOUTUBE_ACQUISITION_STATES then Inl FrameNestYouTubeTransitionError
      else if yc_media_id c = None \<or> yc_media_location_id c = None then Inl FrameNestYouTubeClaimError
      else case now_ms of
        PyInt n \<Rightarrow>
          if n < 0 \<or> (yc_completed_at_ms c \<noteq> None \<and> n < the (yc_completed_at_ms c))
          then Inl FrameNestYouTubeClaimError
          else youtube_advance U c YS_CATALOG_REMOVED n
            (\<lambda>c. c\<lparr>yc_media_id := None, yc_media_location_id := None,
                    yc_catalog_removed_at_ms := Some n\<rparr>)
      | _ \<Rightarrow> Inl FrameNestYouTubeClaimError)"

definition youtube_evolve ::
    "unicode_tables \<Rightarrow> youtube_claim \<Rightarrow> int \<Rightarrow> (youtube_claim \<Rightarrow> youtube_claim)
     \<Rightarrow> youtube_error + youtube_claim" where
  "youtube_evolve U c updated_at_ms changes =
     and_then (reject_ownership_mutation c changes) (\<lambda>_.
     youtube_claim_make U ((changes c)\<lparr>yc_updated_at_ms := updated_at_ms,
       yc_version := yc_version c + 1\<rparr>))"

section \<open>The requester's view\<close>

fun requester_phase_by_active_state :: "youtube_state \<Rightarrow> pystr option" where
  "requester_phase_by_active_state YS_CLAIMED = Some (lit ''queued'')"
| "requester_phase_by_active_state YS_INSPECTING = Some (lit ''processing'')"
| "requester_phase_by_active_state YS_DOWNLOAD_PENDING = Some (lit ''downloading'')"
| "requester_phase_by_active_state YS_DOWNLOADING = Some (lit ''downloading'')"
| "requester_phase_by_active_state YS_DOWNLOADED = Some (lit ''processing'')"
| "requester_phase_by_active_state YS_HANDOFF = Some (lit ''processing'')"
| "requester_phase_by_active_state YS_HANDED_OFF = Some (lit ''processing'')"
| "requester_phase_by_active_state _ = None"

text \<open>\<open>None\<close> in the table would be the \<open>KeyError\<close>; the last branch is the final \<open>raise\<close>.\<close>

definition derive_requester_phase :: "youtube_claim \<Rightarrow> bool option \<Rightarrow> youtube_error + pystr option" where
  "derive_requester_phase c media_is_published =
     (if yc_state c = YS_FAILED then Inr (Some (lit ''failed''))
      else if yc_state c = YS_CATALOG_REMOVED then Inr (Some (lit ''unavailable''))
      else if yc_state c \<in> set ACTIVE_YOUTUBE_ACQUISITION_STATES
      then Inr (requester_phase_by_active_state (yc_state c))
      else if yc_state c \<in> set LIVE_CATALOG_YOUTUBE_ACQUISITION_STATES
      then (if yc_media_id c = None \<or> media_is_published = None then Inr (Some (lit ''unavailable''))
            else if the media_is_published then Inr (Some (lit ''completed''))
            else Inr (Some (lit ''completed_private'')))
      else Inl FrameNestYouTubeClaimError)"

definition normalize_advisory_text ::
    "unicode_tables \<Rightarrow> pyobj \<Rightarrow> nat \<Rightarrow> youtube_error + pystr option" where
  "normalize_advisory_text U value maximum =
     (case value of
        PyNone \<Rightarrow> Inr None
      | PyStr s \<Rightarrow>
          let normalized = strip (uni_nfc U s)
          in if normalized = [] then Inr None
             else and_then (check_advisory FrameNestYouTubeClaimError U (Some normalized) maximum False)
               (\<lambda>_. Inr (Some normalized))
      | _ \<Rightarrow> Inl FrameNestYouTubeClaimError)"

section \<open>Commands on a claim\<close>

datatype youtube_command =
    YAdvance youtube_state int "youtube_claim \<Rightarrow> youtube_claim"
  | YEvolve int "youtube_claim \<Rightarrow> youtube_claim"
  | YRemove pyobj

fun youtube_exec :: "unicode_tables \<Rightarrow> youtube_command \<Rightarrow> youtube_claim \<Rightarrow> youtube_error + youtube_claim" where
  "youtube_exec U (YAdvance target t changes) c = youtube_advance U c target t changes"
| "youtube_exec U (YEvolve t changes) c = youtube_evolve U c t changes"
| "youtube_exec U (YRemove now) c = youtube_mark_catalog_removed U c now"

text \<open>The changes of an \<open>evolve\<close> leave the state alone, as every caller's do.\<close>

fun youtube_fair :: "youtube_command \<Rightarrow> bool" where
  "youtube_fair (YEvolve t changes) \<longleftrightarrow> (\<forall>c. yc_state (changes c) = yc_state c)"
| "youtube_fair _ \<longleftrightarrow> True"

lemma youtube_claim_make_Inr [check_simps]:
  "youtube_claim_make U c = Inr c' \<longleftrightarrow> youtube_claim_post_init U c = Inr () \<and> c' = c"
  by (auto simp: youtube_claim_make_def and_then_Inr)

lemma youtube_advance_Inr:
  "youtube_advance U c target t changes = Inr c' \<longleftrightarrow>
     target \<in> set (allowed_youtube_transitions (yc_state c))
     \<and> yc_created_by_login_key (changes c) = yc_created_by_login_key c
     \<and> c' = (changes c)\<lparr>yc_state := target, yc_updated_at_ms := t, yc_version := yc_version c + 1\<rparr>
     \<and> youtube_claim_post_init U c' = Inr ()"
  by (auto simp: youtube_advance_def and_then_Inr ensure_youtube_transition_allowed_def
      reject_ownership_mutation_def youtube_claim_make_Inr)

lemma youtube_evolve_Inr:
  "youtube_evolve U c t changes = Inr c' \<longleftrightarrow>
     yc_created_by_login_key (changes c) = yc_created_by_login_key c
     \<and> c' = (changes c)\<lparr>yc_updated_at_ms := t, yc_version := yc_version c + 1\<rparr>
     \<and> youtube_claim_post_init U c' = Inr ()"
  by (auto simp: youtube_evolve_def and_then_Inr reject_ownership_mutation_def youtube_claim_make_Inr)

lemma youtube_remove_advance:
  assumes "youtube_mark_catalog_removed U c now = Inr c'"
  obtains n changes where "youtube_advance U c YS_CATALOG_REMOVED n changes = Inr c'"
  using assms by (auto simp: youtube_mark_catalog_removed_def split: if_splits pyobj.splits)

lemma youtube_exec_facts:
  assumes "youtube_exec U k c = Inr c'"
  shows "youtube_claim_post_init U c' = Inr ()" "yc_version c' = yc_version c + 1"
    "yc_created_by_login_key c' = yc_created_by_login_key c"
    "youtube_fair k \<Longrightarrow> yc_state c' = yc_state c \<or> yc_state c' \<in> set (allowed_youtube_transitions (yc_state c))"
proof -
  have "youtube_claim_post_init U c' = Inr () \<and> yc_version c' = yc_version c + 1
    \<and> yc_created_by_login_key c' = yc_created_by_login_key c
    \<and> (youtube_fair k \<longrightarrow> yc_state c' = yc_state c \<or> yc_state c' \<in> set (allowed_youtube_transitions (yc_state c)))"
  proof (cases k)
    case (YAdvance target t changes)
    then show ?thesis using assms by (auto simp: youtube_advance_Inr)
  next
    case (YEvolve t changes)
    then show ?thesis using assms by (auto simp: youtube_evolve_Inr)
  next
    case (YRemove now)
    then have "youtube_mark_catalog_removed U c now = Inr c'" using assms by simp
    then obtain n changes where "youtube_advance U c YS_CATALOG_REMOVED n changes = Inr c'"
      by (rule youtube_remove_advance)
    then show ?thesis by (auto simp: youtube_advance_Inr)
  qed
  then show "youtube_claim_post_init U c' = Inr ()" "yc_version c' = yc_version c + 1"
    "yc_created_by_login_key c' = yc_created_by_login_key c"
    "youtube_fair k \<Longrightarrow> yc_state c' = yc_state c \<or> yc_state c' \<in> set (allowed_youtube_transitions (yc_state c))"
    by blast+
qed

interpretation youtube_snapshot: snapshot "youtube_exec U" youtube_fair
    "\<lambda>c. youtube_claim_post_init U c = Inr ()" yc_state yc_version yc_created_by_login_key
    allowed_youtube_transitions for U
  by unfold_locales (blast intro: youtube_exec_facts dest: youtube_exec_facts)+

text \<open>The states after the download, from which nothing leads back to it.\<close>

fun settled_youtube_moves :: "youtube_state \<Rightarrow> youtube_state list" where
  "settled_youtube_moves s =
     (if s \<in> {YS_CLAIMED, YS_INSPECTING, YS_DOWNLOAD_PENDING, YS_DOWNLOADING} then []
      else allowed_youtube_transitions s)"

fun youtube_rank :: "youtube_state \<Rightarrow> nat" where
  "youtube_rank YS_HANDOFF = 1"
| "youtube_rank YS_HANDED_OFF = 2"
| "youtube_rank YS_DUPLICATE_RESOLVED = 3"
| "youtube_rank YS_CATALOGED = 3"
| "youtube_rank YS_CATALOG_REMOVED = 4"
| "youtube_rank YS_FAILED = 4"
| "youtube_rank _ = 0"

interpretation settled_youtube: ranked_lifecycle settled_youtube_moves
    "\<lambda>s. s \<in> {YS_CATALOG_REMOVED, YS_FAILED}" youtube_rank
proof (unfold_locales, goal_cases)
  case (1 s)
  then show ?case by auto
next
  case (2 t s)
  then show ?case by (cases s; cases t) auto
qed

lemma settled_moves_stay:
  "t \<in> set (allowed_youtube_transitions s) \<Longrightarrow> s \<notin> {YS_CLAIMED, YS_INSPECTING, YS_DOWNLOAD_PENDING, YS_DOWNLOADING}
    \<Longrightarrow> t \<notin> {YS_CLAIMED, YS_INSPECTING, YS_DOWNLOAD_PENDING, YS_DOWNLOADING}"
  by (cases s; cases t) auto

lemma settled_run:
  "table_run allowed_youtube_transitions s ts
    \<Longrightarrow> s \<notin> {YS_CLAIMED, YS_INSPECTING, YS_DOWNLOAD_PENDING, YS_DOWNLOADING}
    \<Longrightarrow> table_run settled_youtube_moves s ts"
proof (induction ts arbitrary: s)
  case (Cons t ts)
  then have m: "t \<in> set (allowed_youtube_transitions s)" "table_run allowed_youtube_transitions t ts" by auto
  have "table_run settled_youtube_moves t ts"
    by (rule Cons.IH [OF m(2) settled_moves_stay [OF m(1) Cons.prems(2)]])
  then show ?case
    using Cons.prems(2) m(1) by (simp del: settled_youtube_moves.simps add: settled_youtube_moves.simps [of s])
qed simp

section \<open>What a valid claim holds\<close>

lemma youtube_post_init_parts:
  "youtube_claim_post_init U c = Inr () \<longleftrightarrow>
     all_checks (youtube_identity_checks U c) = Inr () \<and> all_checks (youtube_link_checks U c) = Inr ()
     \<and> all_checks (youtube_provenance_checks U c) = Inr () \<and> validate_youtube_state_payload c = Inr ()"
  unfolding youtube_claim_post_init_def
  by (auto simp: all_checks_Inr)

lemma youtube_payload_iff:
  "validate_youtube_state_payload c = Inr () \<longleftrightarrow>
     (yc_state c \<in> {YS_DOWNLOADED, YS_HANDOFF, YS_HANDED_OFF, YS_CATALOGED} \<longrightarrow>
        yc_downloaded_size_bytes c \<noteq> None \<and> yc_downloaded_at_ms c \<noteq> None)
     \<and> (yc_state c \<in> {YS_HANDED_OFF, YS_CATALOGED} \<longrightarrow> yc_upload_id c \<noteq> None)
     \<and> (yc_state c \<in> {YS_CATALOGED, YS_DUPLICATE_RESOLVED} \<longrightarrow> yc_media_id c \<noteq> None)
     \<and> (yc_completed_at_ms c \<noteq> None \<longleftrightarrow> yc_state c \<in> set TERMINAL_YOUTUBE_ACQUISITION_STATES)
     \<and> (yc_failure_code c \<noteq> None \<longleftrightarrow> yc_state c = YS_FAILED)
     \<and> (yc_catalog_removed_at_ms c \<noteq> None \<longleftrightarrow> yc_state c = YS_CATALOG_REMOVED)
     \<and> (yc_state c = YS_CATALOG_REMOVED \<longrightarrow> yc_media_id c = None \<and> yc_media_location_id c = None
         \<and> the (yc_completed_at_ms c) \<le> the (yc_catalog_removed_at_ms c))"
  unfolding validate_youtube_state_payload_def all_checks_Cons_Inr raise_if_Inr
  by (cases "yc_state c") (auto simp: youtube_state_set_defs)

lemma youtube_link_iff:
  "all_checks (youtube_link_checks U c) = Inr () \<longleftrightarrow>
     (\<forall>i. yc_retry_of_claim_id c = Some i \<longrightarrow> is_uuid4 i \<and> i \<noteq> yc_id c)
     \<and> (\<forall>i. yc_resolved_claim_id c = Some i \<longrightarrow> is_uuid4 i \<and> i \<noteq> yc_id c)
     \<and> pred_option is_uuid4 (yc_upload_id c) \<and> pred_option is_uuid4 (yc_media_id c)
     \<and> pred_option is_uuid4 (yc_media_location_id c)
     \<and> (yc_media_id c = None \<longleftrightarrow> yc_media_location_id c = None)
     \<and> (\<forall>s. yc_created_by_login_key c = Some s \<longrightarrow>
          s \<noteq> [] \<and> length s \<le> MAX_LOGIN_LENGTH \<and> normalize_login U (PyStr s) = Inr s)"
  unfolding youtube_link_checks_def by (auto simp: check_simps)

lemma youtube_identity_iff:
  "all_checks (youtube_identity_checks U c) = Inr () \<longleftrightarrow>
     is_uuid4 (yc_id c)
     \<and> canonicalize_youtube_url U (PyStr (yc_submitted_url c)) = Inr \<lparr>ysi_video_id = yc_youtube_video_id c,
         ysi_canonical_url = yc_canonical_url c, ysi_extractor_key = yc_extractor_key c\<rparr>
     \<and> yc_acquisition_source c = AS_YOUTUBE_MANUAL_CLAIM
     \<and> 0 \<le> yc_created_at_ms c \<and> yc_created_at_ms c \<le> yc_confirmed_at_ms c
     \<and> yc_created_at_ms c \<le> yc_updated_at_ms c \<and> 0 \<le> yc_version c
     \<and> staging_key_pattern (yc_staging_key c)
     \<and> yc_generated_filename c = video_filename (yc_youtube_video_id c)"
proof -
  have i: "(\<exists>x. m = Inr x \<and> raise_if (ysi_canonical_url x \<noteq> a \<or> ysi_video_id x \<noteq> b \<or> ysi_extractor_key x \<noteq> d \<or> q) e = Inr ())
      \<longleftrightarrow> m = Inr \<lparr>ysi_video_id = b, ysi_canonical_url = a, ysi_extractor_key = d\<rparr> \<and> \<not> q"
    for m :: "youtube_error + youtube_source_identity" and a b d q and e :: youtube_error
    by (auto intro!: exI youtube_source_identity.equality)
  show ?thesis
    unfolding youtube_identity_checks_def
    by (auto simp: all_checks_Cons_Inr and_then_Inr i check_non_negative_Inr)
qed

lemma fresh_youtube_claim_simps [simp]:
  "yc_state (fresh_youtube_claim i url y m now retry owner) = YS_CLAIMED"
  "yc_version (fresh_youtube_claim i url y m now retry owner) = 0"
  "yc_id (fresh_youtube_claim i url y m now retry owner) = i"
  "yc_submitted_url (fresh_youtube_claim i url y m now retry owner) = url"
  "yc_created_by_login_key (fresh_youtube_claim i url y m now retry owner) = owner"
  by (simp_all add: fresh_youtube_claim_def)

lemma youtube_new_Inr:
  assumes "youtube_claim_new U i url m now retry owner = Inr c"
  shows "\<exists>y key. canonicalize_youtube_url U (PyStr url) = Inr y
    \<and> opt_map (\<lambda>k. rescue (\<lambda>_. FrameNestYouTubeClaimError) (normalize_login U (PyStr k))) owner = Inr key
    \<and> c = fresh_youtube_claim i url y m now retry key \<and> youtube_claim_post_init U c = Inr ()"
  using assms unfolding youtube_claim_new_def and_then_Inr youtube_claim_make_Inr by blast

lemma youtube_post_init_error:
  assumes "canonicalize_youtube_url U (PyStr (yc_submitted_url c)) = Inr y"
  shows "only_error FrameNestYouTubeClaimError (youtube_claim_post_init U c)"
  unfolding youtube_claim_post_init_def
proof (rule only_error_all_checks, unfold list_all_append, intro conjI)
  show "list_all (only_error FrameNestYouTubeClaimError) (youtube_identity_checks U c)"
    by (simp add: youtube_identity_checks_def assms)
  show "list_all (only_error FrameNestYouTubeClaimError) (youtube_link_checks U c)"
    by (simp add: youtube_link_checks_def)
  show "list_all (only_error FrameNestYouTubeClaimError) (youtube_provenance_checks U c)"
    by (simp add: youtube_provenance_checks_def)
  show "list_all (only_error FrameNestYouTubeClaimError) [validate_youtube_state_payload c]"
    by (simp add: validate_youtube_state_payload_def only_error_all_checks)
qed

lemma youtube_make_eq:
  assumes "canonicalize_youtube_url U (PyStr (yc_submitted_url c)) = Inr y"
  shows "youtube_claim_make U c =
    (if youtube_claim_post_init U c = Inr () then Inr c else Inl FrameNestYouTubeClaimError)"
  using youtube_post_init_error [OF assms]
  by (cases "youtube_claim_post_init U c") (auto simp: youtube_claim_make_def only_error_def)

lemma live_youtube_claim:
  assumes "youtube_claim_post_init U c = Inr ()" and "yc_state c \<in> set LIVE_CATALOG_YOUTUBE_ACQUISITION_STATES"
  shows "yc_media_id c \<noteq> None" "yc_media_location_id c \<noteq> None" "yc_completed_at_ms c \<noteq> None"
    "yc_failure_code c = None" "YS_CATALOG_REMOVED \<in> set (allowed_youtube_transitions (yc_state c))"
    "yc_state c \<in> set TERMINAL_YOUTUBE_ACQUISITION_STATES" "yc_state c \<notin> set ACTIVE_YOUTUBE_ACQUISITION_STATES"
proof -
  have p: "validate_youtube_state_payload c = Inr ()" and l: "all_checks (youtube_link_checks U c) = Inr ()"
    using assms(1) by (simp_all add: youtube_post_init_parts)
  have st: "yc_state c = YS_DUPLICATE_RESOLVED \<or> yc_state c = YS_CATALOGED"
    using assms(2) by (simp add: youtube_state_set_defs)
  then show t: "yc_state c \<in> set TERMINAL_YOUTUBE_ACQUISITION_STATES"
    and "yc_state c \<notin> set ACTIVE_YOUTUBE_ACQUISITION_STATES"
    and "YS_CATALOG_REMOVED \<in> set (allowed_youtube_transitions (yc_state c))"
    by (auto simp: youtube_state_set_defs)
  have nf: "yc_state c \<noteq> YS_FAILED" "yc_state c \<in> {YS_CATALOGED, YS_DUPLICATE_RESOLVED}" using st by auto
  show m: "yc_media_id c \<noteq> None" using p nf(2) unfolding youtube_payload_iff by blast
  show "yc_completed_at_ms c \<noteq> None" "yc_failure_code c = None"
    using p nf(1) t unfolding youtube_payload_iff by blast+
  show "yc_media_location_id c \<noteq> None" using l m unfolding youtube_link_iff by blast
qed

definition removed_youtube_claim :: "youtube_claim \<Rightarrow> int \<Rightarrow> youtube_claim" where
  "removed_youtube_claim c n = c\<lparr>yc_media_id := None, yc_media_location_id := None,
     yc_catalog_removed_at_ms := Some n, yc_state := YS_CATALOG_REMOVED, yc_updated_at_ms := n,
     yc_version := yc_version c + 1\<rparr>"

lemma removed_youtube_claim_simps:
  "yc_state (removed_youtube_claim c n) = YS_CATALOG_REMOVED"
  "yc_media_id (removed_youtube_claim c n) = None" "yc_media_location_id (removed_youtube_claim c n) = None"
  "yc_catalog_removed_at_ms (removed_youtube_claim c n) = Some n"
  "yc_completed_at_ms (removed_youtube_claim c n) = yc_completed_at_ms c"
  "yc_failure_code (removed_youtube_claim c n) = yc_failure_code c"
  by (simp_all add: removed_youtube_claim_def)

lemma removed_youtube_claim_identity:
  "yc_id (removed_youtube_claim c n) = yc_id c"
  "yc_submitted_url (removed_youtube_claim c n) = yc_submitted_url c"
  "yc_canonical_url (removed_youtube_claim c n) = yc_canonical_url c"
  "yc_youtube_video_id (removed_youtube_claim c n) = yc_youtube_video_id c"
  "yc_extractor_key (removed_youtube_claim c n) = yc_extractor_key c"
  "yc_acquisition_source (removed_youtube_claim c n) = yc_acquisition_source c"
  "yc_created_at_ms (removed_youtube_claim c n) = yc_created_at_ms c"
  "yc_confirmed_at_ms (removed_youtube_claim c n) = yc_confirmed_at_ms c"
  "yc_updated_at_ms (removed_youtube_claim c n) = n"
  "yc_version (removed_youtube_claim c n) = yc_version c + 1"
  "yc_staging_key (removed_youtube_claim c n) = yc_staging_key c"
  "yc_generated_filename (removed_youtube_claim c n) = yc_generated_filename c"
  by (simp_all add: removed_youtube_claim_def)

lemma removed_claim_valid:
  assumes "youtube_claim_post_init U c = Inr ()" and "yc_state c \<in> set LIVE_CATALOG_YOUTUBE_ACQUISITION_STATES"
  shows "youtube_claim_post_init U (removed_youtube_claim c n) = Inr ()
    \<longleftrightarrow> \<not> (n < 0 \<or> n < the (yc_completed_at_ms c) \<or> n < yc_created_at_ms c)"
proof -
  have parts: "all_checks (youtube_identity_checks U c) = Inr ()" "all_checks (youtube_link_checks U c) = Inr ()"
      "all_checks (youtube_provenance_checks U c) = Inr ()" "validate_youtube_state_payload c = Inr ()"
    using assms(1) by (simp_all add: youtube_post_init_parts)
  have "all_checks (youtube_provenance_checks U (removed_youtube_claim c n)) = Inr () \<longleftrightarrow> 0 \<le> n"
    using parts(3) unfolding youtube_provenance_checks_def all_checks_Cons_Inr check_optional_non_negative_Inr
    by (simp add: removed_youtube_claim_def)
  moreover have "all_checks (youtube_link_checks U (removed_youtube_claim c n)) = Inr ()"
    using parts(2) unfolding youtube_link_iff by (simp add: removed_youtube_claim_def)
  moreover have "validate_youtube_state_payload (removed_youtube_claim c n) = Inr ()
      \<longleftrightarrow> the (yc_completed_at_ms c) \<le> n"
  proof -
    have "yc_completed_at_ms c \<noteq> None" "yc_failure_code c = None"
      using live_youtube_claim [OF assms] by blast+
    then show ?thesis
      unfolding youtube_payload_iff removed_youtube_claim_simps by (simp add: youtube_state_set_defs)
  qed
  moreover have "all_checks (youtube_identity_checks U (removed_youtube_claim c n)) = Inr () \<longleftrightarrow> yc_created_at_ms c \<le> n"
    using parts(1) unfolding youtube_identity_iff removed_youtube_claim_identity by simp
  ultimately show ?thesis by (auto simp: youtube_post_init_parts)
qed

lemma youtube_remove_eq:
  assumes "youtube_claim_post_init U c = Inr ()" and "yc_state c \<in> set LIVE_CATALOG_YOUTUBE_ACQUISITION_STATES"
  shows "youtube_mark_catalog_removed U c (PyInt n) =
    (if n < 0 \<or> n < the (yc_completed_at_ms c) \<or> n < yc_created_at_ms c then Inl FrameNestYouTubeClaimError
     else Inr (removed_youtube_claim c n))"
proof -
  note live = live_youtube_claim [OF assms]
  have adv: "youtube_advance U c YS_CATALOG_REMOVED n (\<lambda>c. c\<lparr>yc_media_id := None,
      yc_media_location_id := None, yc_catalog_removed_at_ms := Some n\<rparr>)
    = youtube_claim_make U (removed_youtube_claim c n)"
    using live(5) by (simp add: youtube_advance_def ensure_youtube_transition_allowed_def
        reject_ownership_mutation_def removed_youtube_claim_def)
  obtain y where "canonicalize_youtube_url U (PyStr (yc_submitted_url c)) = Inr y"
    using assms(1) by (auto simp: youtube_post_init_parts youtube_identity_iff)
  then have "canonicalize_youtube_url U (PyStr (yc_submitted_url (removed_youtube_claim c n))) = Inr y"
    by (simp add: removed_youtube_claim_def)
  note make = youtube_make_eq [OF this]
  show ?thesis
    unfolding youtube_mark_catalog_removed_def
    using assms(2) removed_claim_valid [OF assms, of n] by (simp add: adv make live)
qed

lemma staging_key_uuid_hex: "staging_key_pattern (uuid_hex u)"
  using hex_digits_class by (auto simp: staging_key_pattern_def matches_class_def uuid_hex_def list_all_iff)

lemma fresh_youtube_claim_valid:
  assumes "canonicalize_youtube_url U (PyStr url) = Inr y" "is_uuid4 i" "0 \<le> now"
    and "\<And>r. retry = Some r \<Longrightarrow> is_uuid4 r \<and> r \<noteq> i"
    and "\<And>s. owner = Some s \<Longrightarrow> s \<noteq> [] \<and> length s \<le> MAX_LOGIN_LENGTH \<and> normalize_login U (PyStr s) = Inr s"
  shows "youtube_claim_post_init U (fresh_youtube_claim i url y m now retry owner) = Inr ()"
  unfolding youtube_post_init_parts
proof (intro conjI)
  let ?c = "fresh_youtube_claim i url y m now retry owner"
  show "all_checks (youtube_identity_checks U ?c) = Inr ()"
    unfolding youtube_identity_iff by (simp add: fresh_youtube_claim_def assms staging_key_uuid_hex)
  show "all_checks (youtube_link_checks U ?c) = Inr ()"
    unfolding youtube_link_iff using assms(4,5) by (simp add: fresh_youtube_claim_def)
  show "all_checks (youtube_provenance_checks U ?c) = Inr ()"
    by (simp add: youtube_provenance_checks_def fresh_youtube_claim_def check_simps)
  show "validate_youtube_state_payload ?c = Inr ()"
    unfolding youtube_payload_iff by (simp add: fresh_youtube_claim_def youtube_state_set_defs)
qed

definition sample_claim :: youtube_claim where
  "sample_claim = fresh_youtube_claim (sample_uuid 1) (watch_url sample_video) (video_identity sample_video)
     INTERACTIVE 10 None (Some (lit ''alice@example.org''))"

lemma sample_watch_url:
  "canonicalize_youtube_url ascii_tables (PyStr (watch_url sample_video)) = Inr (video_identity sample_video)"
  using watch_form [OF ascii_lowering_ascii_tables sample_video_ok, of "lit ''www.youtube.com''" False]
  by (simp add: watch_url_text YOUTUBE_HOSTS_def)

lemma lit_nonempty: "lit ''alice@example.org'' \<noteq> []"
  by (simp add: lit_def)

lemma sample_claim_valid: "youtube_claim_post_init ascii_tables sample_claim = Inr ()"
  unfolding sample_claim_def
  by (rule fresh_youtube_claim_valid)
     (use sample_watch_url sample_logins(2) lit_nonempty in
       \<open>simp_all add: is_uuid4_sample MAX_LOGIN_LENGTH_def del: One_nat_def\<close>)

lemma sample_claim_new:
  "youtube_claim_new ascii_tables (sample_uuid 1) (watch_url sample_video) INTERACTIVE 10 None
     (Some (lit ''alice@example.org'')) = Inr sample_claim"
  using sample_claim_valid sample_watch_url sample_logins(2)
  by (simp add: youtube_claim_new_def youtube_claim_make_def sample_claim_def del: One_nat_def)

lemma youtube_fail_claim:
  assumes "youtube_claim_post_init U c = Inr ()" "yc_state c = YS_CLAIMED" "yc_created_at_ms c \<le> t" "0 \<le> t"
    "claim_failure_code_pattern code"
  shows "\<exists>c'. youtube_advance U c YS_FAILED t (\<lambda>c. c\<lparr>yc_completed_at_ms := Some t,
      yc_failure_stage := Some stage, yc_failure_code := Some code\<rparr>) = Inr c' \<and> yc_state c' = YS_FAILED"
proof -
  let ?c = "c\<lparr>yc_completed_at_ms := Some t, yc_failure_stage := Some stage, yc_failure_code := Some code,
     yc_state := YS_FAILED, yc_updated_at_ms := t, yc_version := yc_version c + 1\<rparr>"
  have parts: "all_checks (youtube_identity_checks U c) = Inr ()" "all_checks (youtube_link_checks U c) = Inr ()"
      "all_checks (youtube_provenance_checks U c) = Inr ()" "validate_youtube_state_payload c = Inr ()"
    using assms(1) by (simp_all add: youtube_post_init_parts)
  have removed: "yc_catalog_removed_at_ms c = None" using parts(4) assms(2) unfolding youtube_payload_iff by auto
  have "all_checks (youtube_provenance_checks U ?c) = Inr ()"
    using parts(3) assms(4,5) unfolding youtube_provenance_checks_def all_checks_Cons_Inr check_optional_non_negative_Inr
    by simp
  moreover have "all_checks (youtube_link_checks U ?c) = Inr ()" using parts(2) unfolding youtube_link_iff by simp
  moreover have "validate_youtube_state_payload ?c = Inr ()"
    unfolding youtube_payload_iff using removed by (simp add: youtube_state_set_defs)
  moreover have "all_checks (youtube_identity_checks U ?c) = Inr ()"
    using parts(1) assms(3) unfolding youtube_identity_iff by simp
  ultimately have "youtube_claim_post_init U ?c = Inr ()" by (simp add: youtube_post_init_parts)
  then show ?thesis using assms(2) by (intro exI [of _ ?c]) (simp add: youtube_advance_Inr)
qed

section \<open>Properties\<close>

text \<open>An accepted command keeps the state, moves it along the table, or is an \<open>evolve\<close> whose changes
  name the new state.\<close>

definition youtube_move_explained :: "youtube_command \<Rightarrow> youtube_claim \<Rightarrow> youtube_claim \<Rightarrow> bool" where
  "youtube_move_explained k c c' \<longleftrightarrow> yc_state c' = yc_state c
     \<or> yc_state c' \<in> set (allowed_youtube_transitions (yc_state c))
     \<or> (\<exists>t changes. k = YEvolve t changes \<and> yc_state (changes c) = yc_state c')"

lemma youtube_exec_explained:
  assumes "youtube_exec U k c = Inr c'"
  shows "youtube_move_explained k c c'"
proof (cases k)
  case (YEvolve t changes)
  then show ?thesis using assms by (auto simp: youtube_evolve_Inr youtube_move_explained_def)
next
  case (YAdvance target t changes)
  then show ?thesis using youtube_exec_facts(4) [OF assms] by (simp add: youtube_move_explained_def)
next
  case (YRemove now)
  then show ?thesis using youtube_exec_facts(4) [OF assms] by (simp add: youtube_move_explained_def)
qed

text \<open>
   C37. Whatever commands follow the creation of a claim, refused ones included, the claim
  passes the constructor's validation, its version counts the accepted commands and its owner is
  the one it was created with.  Each accepted command keeps the state, moves it along the
  transition table, or is an \<open>evolve\<close> whose changes set the state; so when no \<open>evolve\<close> of the
  sequence sets the state, the state is reached from the first one along the table.
\<close>

theorem youtube_claim_history:
  assumes "youtube_claim_new U i url method now retry owner = Inr c0"
    and "c = run_commands (youtube_exec U) ks c0"
  shows "youtube_claim_post_init U c = Inr () \<and> yc_version c = int (accepted_commands (youtube_exec U) ks c0)
    \<and> yc_created_by_login_key c = yc_created_by_login_key c0
    \<and> (\<forall>before k after c'. ks = before @ k # after \<longrightarrow>
         youtube_exec U k (run_commands (youtube_exec U) before c0) = Inr c' \<longrightarrow>
         youtube_move_explained k (run_commands (youtube_exec U) before c0) c')
    \<and> (list_all youtube_fair ks \<longrightarrow>
         (\<exists>ts. table_run allowed_youtube_transitions YS_CLAIMED ts \<and> last (YS_CLAIMED # ts) = yc_state c))"
proof -
  have c0: "youtube_claim_post_init U c0 = Inr ()" "yc_state c0 = YS_CLAIMED" "yc_version c0 = 0"
    using youtube_new_Inr [OF assms(1)] by auto
  have path: "\<exists>ts. table_run allowed_youtube_transitions YS_CLAIMED ts \<and> last (YS_CLAIMED # ts) = yc_state c"
    if "list_all youtube_fair ks"
    using youtube_snapshot.run_path [OF that, where c = c0 and U = U] unfolding c0(2) assms(2) by blast
  show ?thesis
    using youtube_snapshot.run_valid [OF c0(1), of ks] youtube_snapshot.run_version [of U ks c0]
      youtube_snapshot.run_owner [of U ks c0] c0(3) path youtube_exec_explained
    unfolding assms(2) by simp
qed

text \<open>A claim that was just created may be in these states as well.\<close>

lemma sample_claim_states:
  assumes "s \<in> {YS_INSPECTING, YS_DOWNLOADING}"
  shows "youtube_claim_post_init ascii_tables (sample_claim\<lparr>yc_state := s, yc_updated_at_ms := 11, yc_version := 1\<rparr>)
    = Inr ()"
  unfolding youtube_post_init_parts
proof (intro conjI)
  let ?c = "sample_claim\<lparr>yc_state := s, yc_updated_at_ms := 11, yc_version := 1\<rparr>"
  have i: "is_uuid4 (sample_uuid 1)" by (rule is_uuid4_sample)
  show "all_checks (youtube_identity_checks ascii_tables ?c) = Inr ()"
    unfolding youtube_identity_iff
    by (simp add: sample_claim_def fresh_youtube_claim_def sample_watch_url staging_key_uuid_hex i
        del: One_nat_def)
  show "all_checks (youtube_link_checks ascii_tables ?c) = Inr ()"
    unfolding youtube_link_iff using sample_logins(2) lit_nonempty
    by (simp add: sample_claim_def fresh_youtube_claim_def MAX_LOGIN_LENGTH_def)
  show "all_checks (youtube_provenance_checks ascii_tables ?c) = Inr ()"
    by (simp add: youtube_provenance_checks_def sample_claim_def fresh_youtube_claim_def check_simps)
  show "validate_youtube_state_payload ?c = Inr ()"
    unfolding youtube_payload_iff using assms
    by (auto simp: sample_claim_def fresh_youtube_claim_def youtube_state_set_defs)
qed

lemma sample_claim_fields [simp]:
  "yc_state sample_claim = YS_CLAIMED" "yc_version sample_claim = 0"
  by (simp_all add: sample_claim_def fresh_youtube_claim_def)

lemma youtube_claim_history_witness:
  "yc_version (run_commands (youtube_exec ascii_tables) [YAdvance YS_INSPECTING 11 id, YRemove (PyInt 3)] sample_claim) = 1"
proof -
  let ?c = "sample_claim\<lparr>yc_state := YS_INSPECTING, yc_updated_at_ms := 11, yc_version := 1\<rparr>"
  have a: "youtube_exec ascii_tables (YAdvance YS_INSPECTING 11 id) sample_claim = Inr ?c"
    using sample_claim_states [of YS_INSPECTING] by (simp add: youtube_advance_Inr)
  have r: "youtube_exec ascii_tables (YRemove (PyInt 3)) ?c = Inl e \<Longrightarrow> ?thesis" for e
    using youtube_claim_history [OF sample_claim_new refl, of "[YAdvance YS_INSPECTING 11 id, YRemove (PyInt 3)]"] a
    by simp
  show ?thesis
    by (rule r) (simp add: youtube_mark_catalog_removed_def youtube_state_set_defs)
qed

text \<open>An \<open>evolve\<close> that leaves the table is accepted.\<close>

lemma evolve_leaves_table:
  "\<exists>c'. youtube_exec ascii_tables (YEvolve 11 (\<lambda>c. c\<lparr>yc_state := YS_DOWNLOADING\<rparr>)) sample_claim = Inr c'
    \<and> yc_state c' \<notin> set (allowed_youtube_transitions (yc_state sample_claim))"
  using sample_claim_states [of YS_DOWNLOADING] by (simp add: youtube_evolve_Inr)

text \<open>
   Downloading can be retried, but a claim that has left the download ends: from any state
  that is not claimed, inspecting, download pending or downloading, a run enters no state twice
  and takes at most four steps; a failed or removed claim never changes state again.
\<close>

theorem youtube_claim_settles:
  assumes "table_run allowed_youtube_transitions s ts"
    and "s \<notin> {YS_CLAIMED, YS_INSPECTING, YS_DOWNLOAD_PENDING, YS_DOWNLOADING}"
  shows "distinct (s # ts) \<and> length ts \<le> 4 \<and> (s \<in> {YS_FAILED, YS_CATALOG_REMOVED} \<longrightarrow> ts = [])
    \<and> set ts \<inter> {YS_CLAIMED, YS_INSPECTING, YS_DOWNLOAD_PENDING, YS_DOWNLOADING} = {}"
proof -
  note r = settled_run [OF assms]
  have "youtube_rank (last (s # ts)) \<le> 4" by (cases "last (s # ts)") simp_all
  moreover have "set ts \<inter> {YS_CLAIMED, YS_INSPECTING, YS_DOWNLOAD_PENDING, YS_DOWNLOADING} = {}"
    using assms
  proof (induction ts arbitrary: s)
    case (Cons t ts)
    then have "t \<notin> {YS_CLAIMED, YS_INSPECTING, YS_DOWNLOAD_PENDING, YS_DOWNLOADING}"
      by (intro settled_moves_stay [of t s]) auto
    then show ?case using Cons.IH [of t] Cons.prems by auto
  qed simp
  ultimately show ?thesis
    using settled_youtube.run_distinct [OF r] settled_youtube.run_length [OF r]
      settled_youtube.run_from_final [OF _ r] by auto
qed

lemma youtube_claim_settles_witness:
  "distinct [YS_DOWNLOADED, YS_HANDOFF, YS_HANDED_OFF, YS_CATALOGED, YS_CATALOG_REMOVED]"
  using youtube_claim_settles [of YS_DOWNLOADED "[YS_HANDOFF, YS_HANDED_OFF, YS_CATALOGED, YS_CATALOG_REMOVED]"]
  by simp

text \<open>
   Every valid claim has a phase for its requester, and it reveals just the outcome:
  \<open>completed\<close> and \<open>completed_private\<close> exactly for a claim in the live catalog whose media is
  known to be published or not, \<open>failed\<close> exactly for a failed claim, \<open>unavailable\<close> exactly for a
  removed one or one whose media's publication is unknown.
\<close>

theorem youtube_requester_phase:
  assumes "youtube_claim_post_init U c = Inr ()"
  shows "\<exists>p. derive_requester_phase c published = Inr (Some p)
    \<and> (p = lit ''completed'' \<longleftrightarrow> yc_state c \<in> set LIVE_CATALOG_YOUTUBE_ACQUISITION_STATES \<and> published = Some True)
    \<and> (p = lit ''completed_private'' \<longleftrightarrow>
        yc_state c \<in> set LIVE_CATALOG_YOUTUBE_ACQUISITION_STATES \<and> published = Some False)
    \<and> (p = lit ''failed'' \<longleftrightarrow> yc_failure_code c \<noteq> None)
    \<and> (p = lit ''unavailable'' \<longleftrightarrow> yc_catalog_removed_at_ms c \<noteq> None
        \<or> yc_state c \<in> set LIVE_CATALOG_YOUTUBE_ACQUISITION_STATES \<and> published = None)"
proof -
  have p: "validate_youtube_state_payload c = Inr ()" using assms by (simp add: youtube_post_init_parts)
  have f: "yc_failure_code c \<noteq> None \<longleftrightarrow> yc_state c = YS_FAILED"
    and r: "yc_catalog_removed_at_ms c \<noteq> None \<longleftrightarrow> yc_state c = YS_CATALOG_REMOVED"
    using p unfolding youtube_payload_iff by blast+
  have m: "yc_state c \<in> set LIVE_CATALOG_YOUTUBE_ACQUISITION_STATES \<Longrightarrow> yc_media_id c \<noteq> None"
    by (rule live_youtube_claim(1) [OF assms])
  show ?thesis
    unfolding f r
  proof (cases "yc_state c \<in> set LIVE_CATALOG_YOUTUBE_ACQUISITION_STATES")
    case True
    then have "yc_state c \<noteq> YS_FAILED" "yc_state c \<noteq> YS_CATALOG_REMOVED"
      by (auto simp: youtube_state_set_defs)
    then show "\<exists>p. derive_requester_phase c published = Inr (Some p)
      \<and> (p = lit ''completed'' \<longleftrightarrow> yc_state c \<in> set LIVE_CATALOG_YOUTUBE_ACQUISITION_STATES \<and> published = Some True)
      \<and> (p = lit ''completed_private'' \<longleftrightarrow>
        yc_state c \<in> set LIVE_CATALOG_YOUTUBE_ACQUISITION_STATES \<and> published = Some False)
      \<and> (p = lit ''failed'' \<longleftrightarrow> yc_state c = YS_FAILED)
      \<and> (p = lit ''unavailable'' \<longleftrightarrow> yc_state c = YS_CATALOG_REMOVED
        \<or> yc_state c \<in> set LIVE_CATALOG_YOUTUBE_ACQUISITION_STATES \<and> published = None)"
      using m [OF True] True live_youtube_claim(7) [OF assms True]
      by (cases published; cases "the published") (simp_all add: derive_requester_phase_def lit_def)
  next
    case False
    then show "\<exists>p. derive_requester_phase c published = Inr (Some p)
      \<and> (p = lit ''completed'' \<longleftrightarrow> yc_state c \<in> set LIVE_CATALOG_YOUTUBE_ACQUISITION_STATES \<and> published = Some True)
      \<and> (p = lit ''completed_private'' \<longleftrightarrow>
        yc_state c \<in> set LIVE_CATALOG_YOUTUBE_ACQUISITION_STATES \<and> published = Some False)
      \<and> (p = lit ''failed'' \<longleftrightarrow> yc_state c = YS_FAILED)
      \<and> (p = lit ''unavailable'' \<longleftrightarrow> yc_state c = YS_CATALOG_REMOVED
        \<or> yc_state c \<in> set LIVE_CATALOG_YOUTUBE_ACQUISITION_STATES \<and> published = None)"
      by (cases "yc_state c") (simp_all add: derive_requester_phase_def youtube_state_set_defs lit_def)
  qed
qed

lemma youtube_requester_phase_witness:
  "\<exists>p. derive_requester_phase sample_claim None = Inr (Some p) \<and> p \<noteq> lit ''completed''"
  using youtube_requester_phase [OF sample_claim_valid, of None] by auto

text \<open>
   Removing a claim from the catalog: it is refused for a claim that is not live and for a
  time that is negative or before the claim's creation or completion; otherwise the claim loses
  its media and its location, records the time, is \<open>catalog_removed\<close>, one version later, and
  keeps everything else.
\<close>

theorem youtube_catalog_removal:
  assumes "youtube_claim_post_init U c = Inr ()"
  shows "youtube_mark_catalog_removed U c (PyInt n) =
    (if yc_state c \<notin> set LIVE_CATALOG_YOUTUBE_ACQUISITION_STATES then Inl FrameNestYouTubeTransitionError
     else if n < 0 \<or> n < the (yc_completed_at_ms c) \<or> n < yc_created_at_ms c
     then Inl FrameNestYouTubeClaimError
     else Inr (c\<lparr>yc_media_id := None, yc_media_location_id := None, yc_catalog_removed_at_ms := Some n,
       yc_state := YS_CATALOG_REMOVED, yc_updated_at_ms := n, yc_version := yc_version c + 1\<rparr>))"
proof (cases "yc_state c \<in> set LIVE_CATALOG_YOUTUBE_ACQUISITION_STATES")
  case True
  then show ?thesis using youtube_remove_eq [OF assms True, of n] by (simp add: removed_youtube_claim_def)
next
  case False
  then show ?thesis by (simp add: youtube_mark_catalog_removed_def)
qed

definition sample_live_claim :: youtube_claim where
  "sample_live_claim = sample_claim\<lparr>yc_state := YS_DUPLICATE_RESOLVED, yc_media_id := Some (sample_uuid 2),
     yc_media_location_id := Some (sample_uuid 3), yc_completed_at_ms := Some 20,
     yc_updated_at_ms := 20, yc_version := 1\<rparr>"

lemma sample_live_claim_valid: "youtube_claim_post_init ascii_tables sample_live_claim = Inr ()"
proof -
  have parts: "all_checks (youtube_identity_checks ascii_tables sample_claim) = Inr ()"
      "all_checks (youtube_link_checks ascii_tables sample_claim) = Inr ()"
      "all_checks (youtube_provenance_checks ascii_tables sample_claim) = Inr ()"
    using sample_claim_valid by (simp_all add: youtube_post_init_parts)
  have "yc_created_at_ms sample_claim = 10" "yc_downloaded_size_bytes sample_claim = None"
      "yc_failure_code sample_claim = None" "yc_catalog_removed_at_ms sample_claim = None"
    by (simp_all add: sample_claim_def fresh_youtube_claim_def del: One_nat_def)
  note f = this
  have "all_checks (youtube_identity_checks ascii_tables sample_live_claim) = Inr ()"
    using parts(1) f(1) unfolding youtube_identity_iff sample_live_claim_def by simp
  moreover have "all_checks (youtube_link_checks ascii_tables sample_live_claim) = Inr ()"
    using parts(2) unfolding youtube_link_iff sample_live_claim_def by (simp add: is_uuid4_sample)
  moreover have "all_checks (youtube_provenance_checks ascii_tables sample_live_claim) = Inr ()"
    using parts(3) unfolding youtube_provenance_checks_def all_checks_Cons_Inr check_optional_non_negative_Inr
      sample_live_claim_def by simp
  moreover have "validate_youtube_state_payload sample_live_claim = Inr ()"
    unfolding youtube_payload_iff sample_live_claim_def using f by (simp add: youtube_state_set_defs)
  ultimately show ?thesis by (simp add: youtube_post_init_parts)
qed

lemma youtube_catalog_removal_witness:
  "\<exists>c. youtube_mark_catalog_removed ascii_tables sample_live_claim (PyInt 30) = Inr c
    \<and> yc_state c = YS_CATALOG_REMOVED \<and> yc_media_id c = None"
proof -
  have "yc_state sample_live_claim = YS_DUPLICATE_RESOLVED" "yc_created_at_ms sample_live_claim = 10"
      "yc_completed_at_ms sample_live_claim = Some 20"
    by (simp_all add: sample_live_claim_def sample_claim_def fresh_youtube_claim_def del: One_nat_def)
  then show ?thesis
    using youtube_catalog_removal [OF sample_live_claim_valid, of 30] by (simp add: youtube_state_set_defs)
qed

text \<open>
   Upstream text that \<open>normalize_advisory_text\<close> keeps is exactly what the claim's validators
  accept: not empty, stripped, bounded, in normal form and free of control characters; and
  normalising it again gives it back.
\<close>

theorem advisory_text_normal:
  assumes "normalize_advisory_text U v maximum = Inr (Some t)"
  shows "check_advisory FrameNestYouTubeClaimError U (Some t) maximum False = Inr ()
    \<and> strip t = t \<and> t \<noteq> [] \<and> length t \<le> maximum \<and> \<not> has_control_character t
    \<and> normalize_advisory_text U (PyStr t) maximum = Inr (Some t)"
proof -
  have c: "check_advisory FrameNestYouTubeClaimError U (Some t) maximum False = Inr ()"
    using assms by (auto simp: normalize_advisory_text_def Let_def and_then_Inr split: pyobj.splits if_splits)
  then have a: "advisory_ok U maximum False t" by (simp add: check_advisory_Inr)
  then have "uni_nfc U t = t" "strip t = t" "t \<noteq> []" by (simp_all add: advisory_ok_def)
  then have "normalize_advisory_text U (PyStr t) maximum = Inr (Some t)"
    using c by (simp add: normalize_advisory_text_def)
  then show ?thesis
    using c a by (auto simp: advisory_ok_def has_control_character_def list_all_iff list_ex_iff)
qed

lemma advisory_text_normal_witness:
  "normalize_advisory_text ascii_tables (PyStr (lit ''a b'')) 5 = Inr (Some (lit ''a b''))"
proof -
  have s: "strip (lit '' a b'') = lit ''a b''" by (simp add: strip_def lit_def is_space_def)
  have "advisory_ok ascii_tables 5 False (lit ''a b'')"
    by (simp add: advisory_ok_def strip_def lit_def is_space_def is_cc_def)
  then have "normalize_advisory_text ascii_tables (PyStr (lit '' a b'')) 5 = Inr (Some (lit ''a b''))"
    using s by (simp add: normalize_advisory_text_def check_advisory_def advisory_ok_def)
  then show ?thesis using advisory_text_normal by blast
qed

end
