(* ===== verification/Sql_Tables.thy ===== *)
theory Sql_Tables
  imports Prelude
begin

text \<open>
  The fragment of SQL and of \<open>src/framenest/infrastructure/persistence/engine.py\<close> the
  repositories use.  A table is the list of its rows in insertion order; \<open>UPDATE ... WHERE\<close>
  returns the new table and the row count; a transaction that raises leaves the database as
  it was.  SQL conditions over columns that may be \<open>NULL\<close> are three-valued, and a \<open>CHECK\<close>
  constraint rejects a row only when its condition is false (not when it is unknown).
\<close>

section \<open>Three-valued conditions\<close>

type_synonym sql_bool = "bool option"

definition sql_and :: "sql_bool \<Rightarrow> sql_bool \<Rightarrow> sql_bool" where
  "sql_and a b = (if a = Some False \<or> b = Some False then Some False
     else if a = None \<or> b = None then None else Some True)"

definition sql_or :: "sql_bool \<Rightarrow> sql_bool \<Rightarrow> sql_bool" where
  "sql_or a b = (if a = Some True \<or> b = Some True then Some True
     else if a = None \<or> b = None then None else Some False)"

definition sql_not :: "sql_bool \<Rightarrow> sql_bool" where
  "sql_not a = map_option Not a"

definition sql_test :: "('a \<Rightarrow> bool) \<Rightarrow> 'a option \<Rightarrow> sql_bool" where
  "sql_test p x = map_option p x"

definition sql_eq :: "'a option \<Rightarrow> 'a \<Rightarrow> sql_bool" where
  "sql_eq x v = map_option (\<lambda>y. y = v) x"

definition sql_is_null :: "'a option \<Rightarrow> sql_bool" where
  "sql_is_null x = Some (x = None)"

definition sql_is_not_null :: "'a option \<Rightarrow> sql_bool" where
  "sql_is_not_null x = Some (x \<noteq> None)"

fun sql_all :: "sql_bool list \<Rightarrow> sql_bool" where
  "sql_all [] = Some True"
| "sql_all (c # cs) = sql_and c (sql_all cs)"

fun sql_any :: "sql_bool list \<Rightarrow> sql_bool" where
  "sql_any [] = Some False"
| "sql_any (c # cs) = sql_or c (sql_any cs)"

definition check_passes :: "sql_bool \<Rightarrow> bool" where
  "check_passes c \<longleftrightarrow> c \<noteq> Some False"

lemmas sql_defs = sql_and_def sql_or_def sql_not_def sql_test_def sql_eq_def sql_is_null_def
  sql_is_not_null_def check_passes_def

lemma check_passes_Some [simp]: "check_passes (Some b) = b"
  by (simp add: check_passes_def)

text \<open>Evaluation, one operator at a time.\<close>

lemma sql_eval [simp]:
  "sql_and (Some False) b = Some False" "sql_and a (Some False) = Some False"
  "sql_and (Some True) b = b" "sql_and a (Some True) = a"
  "sql_and (Some p) (Some q) = Some (p \<and> q)"
  "sql_or (Some True) b = Some True" "sql_or a (Some True) = Some True"
  "sql_or (Some False) b = b" "sql_or a (Some False) = a"
  "sql_or (Some p) (Some q) = Some (p \<or> q)"
  "sql_is_null (Some x) = Some False" "sql_is_null None = Some True"
  "sql_is_not_null (Some x) = Some True" "sql_is_not_null None = Some False"
  "sql_eq (Some x) v = Some (x = v)" "sql_eq None v = None"
  "sql_test f (Some x) = Some (f x)" "sql_test f None = None"
  "sql_not (Some p) = Some (\<not> p)" "sql_not None = None"
  by (cases a; cases b; auto simp: sql_defs)+

lemma check_passes_None [simp]: "check_passes None"
  by (simp add: check_passes_def)

lemma sql_all_append: "sql_all (xs @ ys) = sql_and (sql_all xs) (sql_all ys)"
  by (induction xs) (auto simp: sql_and_def)

lemma sql_all_Some: "sql_all (map Some bs) = Some (\<forall>b \<in> set bs. b)"
  by (induction bs) (auto simp: sql_and_def)

lemma sql_any_Some: "sql_any (map Some bs) = Some (\<exists>b \<in> set bs. b)"
  by (induction bs) (auto simp: sql_or_def)

text \<open>SQLite's \<open>length\<close> stops at the first NUL; \<open>lower\<close> changes ASCII letters only;
  \<open>s NOT GLOB '*[^class]*'\<close> says that every character is in the class.\<close>

definition sql_length :: "pystr \<Rightarrow> nat" where
  "sql_length s = length (takeWhile (\<lambda>c. c \<noteq> 0) s)"

definition sql_lower :: "pystr \<Rightarrow> pystr" where
  "sql_lower s = ascii_lower s"

definition not_glob_outside :: "(nat \<Rightarrow> bool) \<Rightarrow> pystr \<Rightarrow> bool" where
  "not_glob_outside p s = list_all p s"

lemma takeWhile_absent: "x \<notin> set s \<Longrightarrow> takeWhile (\<lambda>c. c \<noteq> x) s = s"
  by (induction s) auto

lemma sql_length_no_nul: "0 \<notin> set s \<Longrightarrow> sql_length s = length s"
  unfolding sql_length_def by (rule arg_cong [OF takeWhile_absent])

lemma ascii_lower_id: "list_all (\<lambda>c. \<not> is_upper c) s \<Longrightarrow> ascii_lower s = s"
  by (induction s) (auto simp: ascii_lower_def ascii_lower_char_def)

lemma ascii_lower_id_iff: "ascii_lower s = s \<longleftrightarrow> list_all (\<lambda>c. \<not> is_upper c) s"
  by (induction s) (auto simp: ascii_lower_def ascii_lower_char_def)

section \<open>Statements\<close>

definition sql_first :: "('r \<Rightarrow> bool) \<Rightarrow> 'r list \<Rightarrow> 'r option" where
  "sql_first p rows = find p rows"

text \<open>\<open>UPDATE\<close>: \<open>None\<close> is an \<open>IntegrityError\<close>, otherwise the table and the row count.\<close>

definition sql_update ::
    "('r \<Rightarrow> bool) \<Rightarrow> ('r \<Rightarrow> bool) \<Rightarrow> ('r \<Rightarrow> 'r) \<Rightarrow> 'r list \<Rightarrow> ('r list \<times> nat) option" where
  "sql_update constraints p f rows =
     (if list_ex (\<lambda>r. p r \<and> \<not> constraints (f r)) rows then None
      else Some (map (\<lambda>r. if p r then f r else r) rows, length (filter p rows)))"

text \<open>\<open>ORDER BY key LIMIT n\<close>.\<close>

definition sql_order_limit :: "('r \<Rightarrow> 'k::linorder) \<Rightarrow> int \<Rightarrow> 'r list \<Rightarrow> 'r list" where
  "sql_order_limit key limit rows = take (nat limit) (sort_key key rows)"

section \<open>Transactions\<close>

definition run_in_transaction ::
    "('db \<Rightarrow> 'e + 'a \<times> 'db) \<Rightarrow> 'db \<Rightarrow> ('e + 'a) \<times> 'db" where
  "run_in_transaction operation db =
     (case operation db of
        Inl e \<Rightarrow> (Inl e, db)
      | Inr (result, db') \<Rightarrow> (Inr result, db'))"

text \<open>
  \<open>BEGIN IMMEDIATE\<close> takes the writer lock before the first read.  The model executes one
  transaction at a time, so both forms compute the same result.
\<close>

definition run_in_immediate_transaction ::
    "('db \<Rightarrow> 'e + 'a \<times> 'db) \<Rightarrow> 'db \<Rightarrow> ('e + 'a) \<times> 'db" where
  "run_in_immediate_transaction operation db =
     (case operation db of
        Inl e \<Rightarrow> (Inl e, db)
      | Inr (result, db') \<Rightarrow> (Inr result, db'))"

lemma transaction_error_keeps:
  "run_in_transaction op db = (Inl e, db') \<Longrightarrow> db' = db"
  "run_in_immediate_transaction op db = (Inl e, db') \<Longrightarrow> db' = db"
  by (auto simp: run_in_transaction_def run_in_immediate_transaction_def
      split: sum.splits prod.splits)

lemma run_in_transaction_eval [simp]:
  "op db = Inl e \<Longrightarrow> run_in_transaction op db = (Inl e, db)"
  "op db = Inr (x, db') \<Longrightarrow> run_in_transaction op db = (Inr x, db')"
  "op db = Inl e \<Longrightarrow> run_in_immediate_transaction op db = (Inl e, db)"
  "op db = Inr (x, db') \<Longrightarrow> run_in_immediate_transaction op db = (Inr x, db')"
  by (simp_all add: run_in_transaction_def run_in_immediate_transaction_def)

lemma run_in_transaction_Inr:
  "run_in_transaction op db = (Inr x, db') \<longleftrightarrow> op db = Inr (x, db')"
  "run_in_immediate_transaction op db = (Inr x, db') \<longleftrightarrow> op db = Inr (x, db')"
  by (auto simp: run_in_transaction_def run_in_immediate_transaction_def
      split: sum.splits prod.splits)

section \<open>Tables with a primary key\<close>

lemma find_key_unique:
  assumes "distinct (map key rows)" and "r \<in> set rows"
  shows "find (\<lambda>x. key x = key r) rows = Some r"
  using assms by (induction rows) (auto simp: rev_image_eqI)

lemma find_key_Some_iff:
  assumes "distinct (map key rows)"
  shows "find (\<lambda>x. key x = k) rows = Some r \<longleftrightarrow> r \<in> set rows \<and> key r = k"
  using find_key_unique [OF assms, of r] by (auto simp: find_Some_iff)

lemma find_key_None_iff: "find (\<lambda>x. key x = k) rows = None \<longleftrightarrow> k \<notin> key ` set rows"
  by (auto simp: find_None_iff)

lemma find_append_one:
  "find p (xs @ [x]) = (case find p xs of Some y \<Rightarrow> Some y | None \<Rightarrow> if p x then Some x else None)"
  by (induction xs) auto

lemma filter_key_unique:
  assumes "distinct (map key rows)" and "find (\<lambda>x. key x = k) rows = Some r"
  shows "filter (\<lambda>x. key x = k \<and> g x) rows = (if g r then [r] else [])"
  using assms
proof (induction rows)
  case Nil
  then show ?case by simp
next
  case (Cons y ys)
  then show ?case
    by (cases "key y = k") (auto simp: filter_empty_conv rev_image_eqI)
qed

lemma map_key_update:
  assumes "\<And>x. key (f x) = key x"
  shows "map key (map (\<lambda>x. if p x then f x else x) rows) = map key rows"
  using assms by simp

lemma find_key_update:
  assumes "distinct (map key rows)" and "\<And>x. key (f x) = key x"
  shows "find (\<lambda>x. key x = k') (map (\<lambda>x. if key x = k \<and> g x then f x else x) rows) =
     (case find (\<lambda>x. key x = k') rows of None \<Rightarrow> None
      | Some r \<Rightarrow> Some (if key r = k \<and> g r then f r else r))"
  using assms by (induction rows) auto

end
