(* ===== verification/Upload_Publications.thy ===== *)
theory Upload_Publications
  imports Uploads
begin

text \<open>
  \<open>src/framenest/domain/upload_publications.py\<close>: the reservation of a target for one
  validated upload, its progress (reserved, verified, cleaned up, linked to the catalog)
  and the evidence it must share with the upload.
\<close>

datatype publication_error =
    FrameNestUploadPublicationError
  | FrameNestUploadPublicationTransitionError

datatype publication_state = P_RESERVED | P_VERIFIED

fun publication_state_value :: "publication_state \<Rightarrow> pystr" where
  "publication_state_value P_RESERVED = lit ''reserved''"
| "publication_state_value P_VERIFIED = lit ''verified''"

datatype cleanup_state = C_PENDING | C_COMPLETE

fun cleanup_state_value :: "cleanup_state \<Rightarrow> pystr" where
  "cleanup_state_value C_PENDING = lit ''pending''"
| "cleanup_state_value C_COMPLETE = lit ''complete''"

abbreviation publication_state_parse :: "pystr \<Rightarrow> publication_error + publication_state" where
  "publication_state_parse \<equiv>
     enum_parse FrameNestUploadPublicationError [P_RESERVED, P_VERIFIED] publication_state_value"

abbreviation cleanup_state_parse :: "pystr \<Rightarrow> publication_error + cleanup_state" where
  "cleanup_state_parse \<equiv>
     enum_parse FrameNestUploadPublicationError [C_PENDING, C_COMPLETE] cleanup_state_value"

definition upload_publication_id_from_string :: "pystr \<Rightarrow> publication_error + uuid" where
  "upload_publication_id_from_string value =
     (case uuid_of_text value of
        None \<Rightarrow> Inl FrameNestUploadPublicationError
      | Some parsed \<Rightarrow>
          if uuid_to_text parsed \<noteq> value then Inl FrameNestUploadPublicationError
          else if \<not> uuid_is_rfc4122 parsed \<or> uuid_version parsed \<noteq> 4
               then Inl FrameNestUploadPublicationError
          else Inr parsed)"

section \<open>The relative target\<close>

definition relative_target_pattern :: "pystr \<Rightarrow> bool" where
  "relative_target_pattern s \<longleftrightarrow> length s = 36 \<and> list_all is_lower_hex (take 32 s)
     \<and> drop 32 s \<in> set [lit ''.gif'', lit ''.mp4'', lit ''.jpg'', lit ''.png'']"

definition relative_path_new :: "pystr \<Rightarrow> publication_error + pystr" where
  "relative_path_new value =
     (if \<not> relative_target_pattern value then Inl FrameNestUploadPublicationError else Inr value)"

definition for_publication :: "uuid \<Rightarrow> validated_format \<Rightarrow> publication_error + pystr" where
  "for_publication publication_id media_format =
     (if \<not> is_uuid4 publication_id then Inl FrameNestUploadPublicationError
      else relative_path_new
        (uuid_hex publication_id @ lit ''.'' @ validated_format_value media_format))"

section \<open>The publication\<close>

record upload_publication =
  up_upload_id :: uuid
  up_publication_id :: uuid
  up_destination_id :: uuid
  up_relative_path :: pystr
  up_byte_identity_id :: uuid
  up_expected_size_bytes :: int
  up_checksum_algorithm :: pystr
  up_checksum_hex :: pystr
  up_validated_media_kind :: validated_media_kind
  up_validated_format :: validated_format
  up_state :: publication_state
  up_cleanup_state :: cleanup_state
  up_created_at_ms :: int
  up_updated_at_ms :: int
  up_verified_at_ms :: "int option"
  up_cleanup_completed_at_ms :: "int option"
  up_version :: int
  up_media_id :: "uuid option"
  up_media_location_id :: "uuid option"

fun publication_validate_positive :: "pyobj \<Rightarrow> publication_error + unit" where
  "publication_validate_positive (PyInt n) = raise_if (n \<le> 0) FrameNestUploadPublicationError"
| "publication_validate_positive _ = Inl FrameNestUploadPublicationError"

fun publication_validate_non_negative :: "pyobj \<Rightarrow> publication_error + unit" where
  "publication_validate_non_negative (PyInt n) = raise_if (n < 0) FrameNestUploadPublicationError"
| "publication_validate_non_negative _ = Inl FrameNestUploadPublicationError"

definition publication_validate_optional_non_negative :: "pyobj \<Rightarrow> publication_error + unit" where
  "publication_validate_optional_non_negative value =
     (if value \<noteq> PyNone then publication_validate_non_negative value else Inr ())"

text \<open>The progress checks of the constructor: reserved, or verified and then cleaned up.\<close>

definition publication_progress_checks :: "upload_publication \<Rightarrow> publication_error + unit" where
  "publication_progress_checks p =
     (if up_state p = P_RESERVED then
        raise_if (up_cleanup_state p \<noteq> C_PENDING \<or> up_verified_at_ms p \<noteq> None
            \<or> up_cleanup_completed_at_ms p \<noteq> None)
          FrameNestUploadPublicationError
      else
        case up_verified_at_ms p of
          None \<Rightarrow> Inl FrameNestUploadPublicationError
        | Some verified \<Rightarrow>
            if verified < up_created_at_ms p then Inl FrameNestUploadPublicationError
            else if up_cleanup_state p = C_PENDING then
              raise_if (up_cleanup_completed_at_ms p \<noteq> None) FrameNestUploadPublicationError
            else case up_cleanup_completed_at_ms p of
                None \<Rightarrow> Inl FrameNestUploadPublicationError
              | Some completed \<Rightarrow>
                  raise_if (completed < verified) FrameNestUploadPublicationError)"

definition upload_publication_post_init :: "upload_publication \<Rightarrow> publication_error + unit" where
  "upload_publication_post_init p = all_checks [
     raise_if (\<not> is_uuid4 (up_upload_id p)) FrameNestUploadPublicationError,
     raise_if (\<not> is_uuid4 (up_publication_id p)) FrameNestUploadPublicationError,
     raise_if (\<not> is_uuid4 (up_destination_id p)) FrameNestUploadPublicationError,
     raise_if (\<not> relative_target_pattern (up_relative_path p)) FrameNestUploadPublicationError,
     and_then (for_publication (up_publication_id p) (up_validated_format p))
       (\<lambda>expected_path. raise_if (up_relative_path p \<noteq> expected_path)
          FrameNestUploadPublicationError),
     raise_if (\<not> is_uuid4 (up_byte_identity_id p)) FrameNestUploadPublicationError,
     publication_validate_positive (PyInt (up_expected_size_bytes p)),
     raise_if (up_checksum_algorithm p \<noteq> lit ''sha256'') FrameNestUploadPublicationError,
     rescue (\<lambda>_. FrameNestUploadPublicationError)
       (and_then (validate_sha256_checksum_hex (PyStr (up_checksum_hex p))) (\<lambda>_. Inr ())),
     raise_if ((up_validated_media_kind p, up_validated_format p)
         \<notin> set ALLOWED_UPLOAD_VALIDATION_EVIDENCE_PAIRS) FrameNestUploadPublicationError,
     publication_validate_non_negative (PyInt (up_created_at_ms p)),
     publication_validate_non_negative (PyInt (up_updated_at_ms p)),
     raise_if (up_updated_at_ms p < up_created_at_ms p) FrameNestUploadPublicationError,
     publication_validate_optional_non_negative (opt_obj PyInt (up_verified_at_ms p)),
     publication_validate_optional_non_negative (opt_obj PyInt (up_cleanup_completed_at_ms p)),
     publication_validate_non_negative (PyInt (up_version p)),
     publication_progress_checks p,
     raise_if ((up_media_id p = None) \<noteq> (up_media_location_id p = None))
       FrameNestUploadPublicationError,
     raise_if (case up_media_id p of None \<Rightarrow> False | Some i \<Rightarrow> \<not> is_uuid4 i)
       FrameNestUploadPublicationError,
     raise_if (case up_media_location_id p of None \<Rightarrow> False | Some i \<Rightarrow> \<not> is_uuid4 i)
       FrameNestUploadPublicationError]"

definition ensure_upload_is_publication_candidate ::
    "upload_session \<Rightarrow> publication_error + unit" where
  "ensure_upload_is_publication_candidate upload = all_checks [
     raise_if (us_state upload \<noteq> U_PUBLISH_PENDING) FrameNestUploadPublicationTransitionError,
     raise_if (us_received_size_bytes upload \<noteq> us_declared_size_bytes upload
         \<or> us_checksum_algorithm upload \<noteq> Some (lit ''sha256'')
         \<or> us_checksum_hex upload = None
         \<or> us_validated_media_kind upload = None
         \<or> us_validated_format upload = None
         \<or> us_byte_identity_id upload = None)
       FrameNestUploadPublicationError]"

definition ensure_publication_matches_upload ::
    "upload_publication \<Rightarrow> upload_session \<Rightarrow> publication_error + unit" where
  "ensure_publication_matches_upload publication upload =
     raise_if (up_upload_id publication \<noteq> us_id upload
         \<or> Some (up_byte_identity_id publication) \<noteq> us_byte_identity_id upload
         \<or> up_expected_size_bytes publication \<noteq> us_declared_size_bytes upload
         \<or> Some (up_checksum_algorithm publication) \<noteq> us_checksum_algorithm upload
         \<or> Some (up_checksum_hex publication) \<noteq> us_checksum_hex upload
         \<or> Some (up_validated_media_kind publication) \<noteq> us_validated_media_kind upload
         \<or> Some (up_validated_format publication) \<noteq> us_validated_format upload)
       FrameNestUploadPublicationError"

text \<open>
  \<open>new_upload_publication_reservation\<close>; \<open>publication_id\<close> is the UUID drawn by
  \<open>UploadPublicationId.new()\<close>.
\<close>

definition new_upload_publication_reservation ::
    "uuid \<Rightarrow> upload_session \<Rightarrow> uuid \<Rightarrow> int \<Rightarrow> publication_error + upload_publication" where
  "new_upload_publication_reservation publication_id upload destination_id now_ms =
     and_then (ensure_upload_is_publication_candidate upload) (\<lambda>_.
     and_then (publication_validate_non_negative (PyInt now_ms)) (\<lambda>_.
     and_then (for_publication publication_id (the (us_validated_format upload)))
       (\<lambda>relative_path.
        let p = \<lparr>up_upload_id = us_id upload,
                 up_publication_id = publication_id,
                 up_destination_id = destination_id,
                 up_relative_path = relative_path,
                 up_byte_identity_id = the (us_byte_identity_id upload),
                 up_expected_size_bytes = us_declared_size_bytes upload,
                 up_checksum_algorithm = lit ''sha256'',
                 up_checksum_hex = the (us_checksum_hex upload),
                 up_validated_media_kind = the (us_validated_media_kind upload),
                 up_validated_format = the (us_validated_format upload),
                 up_state = P_RESERVED,
                 up_cleanup_state = C_PENDING,
                 up_created_at_ms = now_ms,
                 up_updated_at_ms = now_ms,
                 up_verified_at_ms = None,
                 up_cleanup_completed_at_ms = None,
                 up_version = 0,
                 up_media_id = None,
                 up_media_location_id = None\<rparr>
        in and_then (upload_publication_post_init p) (\<lambda>_. Inr p))))"

section \<open>Encodings and well-formed publications\<close>

interpretation publication_state_codec: enum_codec publication_state_value publication_state_parse
proof (rule enum_codec_enum_parse)
  show "distinct (map publication_state_value [P_RESERVED, P_VERIFIED])" by (simp add: lit_def)
  show "x \<in> set [P_RESERVED, P_VERIFIED]" for x by (cases x) simp_all
qed

interpretation cleanup_state_codec: enum_codec cleanup_state_value cleanup_state_parse
proof (rule enum_codec_enum_parse)
  show "distinct (map cleanup_state_value [C_PENDING, C_COMPLETE])" by (simp add: lit_def)
  show "x \<in> set [C_PENDING, C_COMPLETE]" for x by (cases x) simp_all
qed

interpretation upload_publication_id:
  text_codec uuid_to_text upload_publication_id_from_string is_uuid4
  by unfold_locales
    (auto simp: upload_publication_id_from_string_def uuid_of_text_to_text is_uuid4_def
      split: option.splits if_splits)

lemma uuid_hex_eq_iff [simp]: "uuid_hex u = uuid_hex v \<longleftrightarrow> u = v"
  using uuid_to_text_eq_iff unfolding uuid_to_text_def by metis

lemma length_uuid_hex [simp]: "length (uuid_hex u) = 32"
  by (simp add: uuid_hex_def)

lemma uuid_hex_class: "list_all is_lower_hex (uuid_hex u)"
  by (auto simp: uuid_hex_def list_all_iff dest: hex_digits_class)

lemma for_publication_eq:
  "for_publication u f =
     (if is_uuid4 u then Inr (uuid_hex u @ lit ''.'' @ validated_format_value f)
      else Inl FrameNestUploadPublicationError)"
  using uuid_hex_class [of u]
  by (cases f) (simp_all add: for_publication_def relative_path_new_def
      relative_target_pattern_def lit_def)

definition publication_progress_ok :: "upload_publication \<Rightarrow> bool" where
  "publication_progress_ok p \<longleftrightarrow>
     (case (up_state p, up_cleanup_state p) of
        (P_RESERVED, C_PENDING) \<Rightarrow>
          up_verified_at_ms p = None \<and> up_cleanup_completed_at_ms p = None
      | (P_RESERVED, C_COMPLETE) \<Rightarrow> False
      | (P_VERIFIED, C_PENDING) \<Rightarrow>
          (\<exists>v \<ge> up_created_at_ms p. up_verified_at_ms p = Some v)
            \<and> up_cleanup_completed_at_ms p = None
      | (P_VERIFIED, C_COMPLETE) \<Rightarrow>
          (\<exists>v c. up_verified_at_ms p = Some v \<and> up_cleanup_completed_at_ms p = Some c
             \<and> up_created_at_ms p \<le> v \<and> v \<le> c))"

definition upload_publication_wf :: "upload_publication \<Rightarrow> bool" where
  "upload_publication_wf p \<longleftrightarrow>
     is_uuid4 (up_upload_id p) \<and> is_uuid4 (up_publication_id p) \<and> is_uuid4 (up_destination_id p)
     \<and> up_relative_path p
         = uuid_hex (up_publication_id p) @ lit ''.'' @ validated_format_value (up_validated_format p)
     \<and> is_uuid4 (up_byte_identity_id p) \<and> 0 < up_expected_size_bytes p
     \<and> up_checksum_algorithm p = lit ''sha256'' \<and> sha256_hex_pattern (up_checksum_hex p)
     \<and> (up_validated_media_kind p, up_validated_format p)
         \<in> set ALLOWED_UPLOAD_VALIDATION_EVIDENCE_PAIRS
     \<and> 0 \<le> up_created_at_ms p \<and> up_created_at_ms p \<le> up_updated_at_ms p \<and> 0 \<le> up_version p
     \<and> publication_progress_ok p
     \<and> (up_media_id p = None \<longleftrightarrow> up_media_location_id p = None)
     \<and> pred_option is_uuid4 (up_media_id p) \<and> pred_option is_uuid4 (up_media_location_id p)"

lemma relative_target_of_publication:
  "relative_target_pattern (uuid_hex u @ lit ''.'' @ validated_format_value f)"
  using uuid_hex_class [of u] by (cases f) (simp_all add: relative_target_pattern_def lit_def)

lemma publication_progress_iff:
  "0 \<le> up_created_at_ms p \<Longrightarrow>
   publication_validate_optional_non_negative (opt_obj PyInt (up_verified_at_ms p)) = Inr ()
   \<and> publication_validate_optional_non_negative (opt_obj PyInt (up_cleanup_completed_at_ms p)) = Inr ()
   \<and> publication_progress_checks p = Inr () \<longleftrightarrow> publication_progress_ok p"
  unfolding publication_progress_checks_def publication_progress_ok_def
    publication_validate_optional_non_negative_def
  by (cases "up_state p"; cases "up_cleanup_state p"; cases "up_verified_at_ms p";
      cases "up_cleanup_completed_at_ms p") auto

lemma upload_publication_post_init_iff:
  "upload_publication_post_init p = Inr u \<longleftrightarrow> upload_publication_wf p"
proof (cases "0 \<le> up_created_at_ms p")
  case False
  then show ?thesis
    by (simp add: upload_publication_post_init_def upload_publication_wf_def)
next
  case True
  note prog = publication_progress_iff [OF True]
  show ?thesis
    unfolding upload_publication_post_init_def all_checks_Cons_Inr for_publication_eq
      upload_publication_wf_def prog [symmetric]
    using relative_target_of_publication [of "up_publication_id p" "up_validated_format p"]
    by (auto simp: option.pred_set not_le not_less split: option.splits if_splits)
qed

end
