(* ===== verification/Catalog_Schema.thy ===== *)
theory Catalog_Schema
  imports Sql_Tables Upload_Publications Media
begin

text \<open>
  The tables of \<open>infrastructure/persistence/upload_schema.py\<close> and \<open>catalog_schema.py\<close>
  that the upload pipeline reads and writes: their columns and their \<open>CHECK\<close> constraints.
  Enumerations are stored as their text.  A constraint over columns that may be \<open>NULL\<close> is
  three-valued.
\<close>

section \<open>\<open>upload_sessions\<close>\<close>

record upload_row =
  ur_id :: pystr
  ur_state :: pystr
  ur_storage_key :: pystr
  ur_display_filename :: pystr
  ur_declared_size_bytes :: int
  ur_received_size_bytes :: int
  ur_checksum_algorithm :: "pystr option"
  ur_checksum_hex :: "pystr option"
  ur_validated_media_kind :: "pystr option"
  ur_validated_format :: "pystr option"
  ur_byte_identity_id :: "pystr option"
  ur_duplicate_disposition :: "pystr option"
  ur_created_by_login_key :: "pystr option"
  ur_duplicate_resolution_mode :: pystr
  ur_created_at_ms :: int
  ur_updated_at_ms :: int
  ur_expires_at_ms :: int
  ur_failure_code :: "pystr option"
  ur_version :: int

definition UPLOAD_SESSION_STATE_VALUES :: "pystr list" where
  "UPLOAD_SESSION_STATE_VALUES = [lit ''created'', lit ''receiving'', lit ''received'',
     lit ''validating'', lit ''duplicate_pending'', lit ''publish_pending'', lit ''published'',
     lit ''cataloged'', lit ''rejected'', lit ''cancelled'', lit ''expired'', lit ''failed'']"

definition COMPLETE_UPLOAD_SESSION_STATE_VALUES :: "pystr list" where
  "COMPLETE_UPLOAD_SESSION_STATE_VALUES = [lit ''received'', lit ''validating'',
     lit ''duplicate_pending'', lit ''publish_pending'', lit ''published'', lit ''cataloged'',
     lit ''rejected'']"

definition VALIDATED_UPLOAD_SESSION_STATE_VALUES :: "pystr list" where
  "VALIDATED_UPLOAD_SESSION_STATE_VALUES = [lit ''duplicate_pending'', lit ''publish_pending'',
     lit ''published'', lit ''cataloged'']"

definition ck_checksum_hex :: "pystr \<Rightarrow> bool" where
  "ck_checksum_hex h \<longleftrightarrow> sql_length h = 64 \<and> h = sql_lower h \<and> not_glob_outside is_lower_hex h"

definition ck_evidence_pair :: "pystr option \<Rightarrow> pystr option \<Rightarrow> sql_bool" where
  "ck_evidence_pair kind format = sql_any [
     sql_and (sql_is_null kind) (sql_is_null format),
     sql_and (sql_eq kind (lit ''animated_image'')) (sql_eq format (lit ''gif'')),
     sql_and (sql_eq kind (lit ''video'')) (sql_eq format (lit ''mp4'')),
     sql_and (sql_eq kind (lit ''image'')) (sql_eq format (lit ''jpg'')),
     sql_and (sql_eq kind (lit ''image'')) (sql_eq format (lit ''png''))]"

definition ck_row_evidence :: "upload_row \<Rightarrow> sql_bool list" where
  "ck_row_evidence r = [
     sql_eq (ur_checksum_algorithm r) (lit ''sha256''),
     sql_is_not_null (ur_checksum_hex r),
     sql_is_not_null (ur_validated_media_kind r),
     sql_is_not_null (ur_validated_format r),
     sql_is_not_null (ur_byte_identity_id r)]"

definition upload_row_checks :: "upload_row \<Rightarrow> sql_bool list" where
  "upload_row_checks r = [
     Some (sql_length (ur_id r) = 36),
     Some (ur_state r \<in> set UPLOAD_SESSION_STATE_VALUES),
     Some (16 \<le> sql_length (ur_storage_key r) \<and> sql_length (ur_storage_key r) \<le> 128),
     Some (ur_storage_key r = sql_lower (ur_storage_key r)
       \<and> not_glob_outside (\<lambda>c. is_lower c \<or> is_digit c \<or> c = 46 \<or> c = 95 \<or> c = 45)
           (ur_storage_key r)
       \<and> 47 \<notin> set (ur_storage_key r) \<and> 92 \<notin> set (ur_storage_key r)),
     Some (1 \<le> sql_length (ur_display_filename r) \<and> sql_length (ur_display_filename r) \<le> 255),
     Some (47 \<notin> set (ur_display_filename r) \<and> 92 \<notin> set (ur_display_filename r)),
     Some (ur_declared_size_bytes r > 0),
     Some (ur_received_size_bytes r \<ge> 0),
     Some (ur_received_size_bytes r \<le> ur_declared_size_bytes r),
     Some (ur_state r \<noteq> lit ''created'' \<or> ur_received_size_bytes r = 0),
     Some (ur_state r \<notin> set COMPLETE_UPLOAD_SESSION_STATE_VALUES
       \<or> ur_received_size_bytes r = ur_declared_size_bytes r),
     sql_or (sql_and (sql_is_null (ur_checksum_algorithm r)) (sql_is_null (ur_checksum_hex r)))
       (sql_and (sql_eq (ur_checksum_algorithm r) (lit ''sha256''))
          (sql_is_not_null (ur_checksum_hex r))),
     sql_or (sql_is_null (ur_checksum_hex r)) (sql_test ck_checksum_hex (ur_checksum_hex r)),
     ck_evidence_pair (ur_validated_media_kind r) (ur_validated_format r),
     sql_or (Some (ur_state r \<notin> set VALIDATED_UPLOAD_SESSION_STATE_VALUES))
       (sql_all (Some (ur_received_size_bytes r = ur_declared_size_bytes r) # ck_row_evidence r)),
     sql_or (sql_is_null (ur_duplicate_disposition r))
       (sql_all (ck_row_evidence r
          @ [sql_or (sql_and (sql_eq (ur_duplicate_disposition r) (lit ''keep_separate''))
                       (Some (ur_state r \<in> set [lit ''publish_pending'', lit ''published'',
                          lit ''cataloged'', lit ''failed''])))
                    (sql_and (sql_eq (ur_duplicate_disposition r) (lit ''discard''))
                       (Some (ur_state r = lit ''cancelled'')))])),
     sql_or (sql_is_null (ur_created_by_login_key r))
       (sql_test (\<lambda>k. 1 \<le> sql_length k \<and> sql_length k \<le> 254 \<and> k = sql_lower k
          \<and> 32 \<notin> set k \<and> 9 \<notin> set k \<and> 10 \<notin> set k \<and> 13 \<notin> set k)
          (ur_created_by_login_key r)),
     Some (ur_duplicate_resolution_mode r \<in> set [lit ''explicit'', lit ''silent_keep_separate'']),
     Some (ur_created_at_ms r \<ge> 0),
     Some (ur_updated_at_ms r \<ge> 0),
     Some (ur_updated_at_ms r \<ge> ur_created_at_ms r),
     Some (ur_expires_at_ms r > ur_created_at_ms r),
     sql_or (sql_is_null (ur_failure_code r))
       (sql_test (\<lambda>c. 1 \<le> sql_length c \<and> sql_length c \<le> 80
          \<and> not_glob_outside (\<lambda>x. is_upper x \<or> is_digit x \<or> x = 95) c) (ur_failure_code r)),
     Some (ur_version r \<ge> 0)]"

definition upload_row_ok :: "upload_row \<Rightarrow> bool" where
  "upload_row_ok r = list_all check_passes (upload_row_checks r)"

section \<open>\<open>media_byte_identities\<close>\<close>

record identity_row =
  ir_id :: pystr
  ir_checksum_algorithm :: pystr
  ir_size_bytes :: int
  ir_checksum_hex :: pystr
  ir_created_at_ms :: int

definition identity_row_checks :: "identity_row \<Rightarrow> sql_bool list" where
  "identity_row_checks r = [
     Some (sql_length (ir_id r) = 36),
     Some (ir_checksum_algorithm r = lit ''sha256''),
     Some (ir_size_bytes r > 0),
     Some (ck_checksum_hex (ir_checksum_hex r)),
     Some (ir_created_at_ms r \<ge> 0)]"

definition identity_row_ok :: "identity_row \<Rightarrow> bool" where
  "identity_row_ok r = list_all check_passes (identity_row_checks r)"

text \<open>The columns of \<open>uq_media_byte_identities_tuple\<close>.\<close>

definition identity_tuple :: "identity_row \<Rightarrow> pystr \<times> int \<times> pystr" where
  "identity_tuple r = (ir_checksum_algorithm r, ir_size_bytes r, ir_checksum_hex r)"

section \<open>\<open>upload_publications\<close>\<close>

record publication_row =
  pr_upload_id :: pystr
  pr_publication_id :: pystr
  pr_destination_id :: pystr
  pr_relative_target :: pystr
  pr_byte_identity_id :: pystr
  pr_expected_size_bytes :: int
  pr_checksum_algorithm :: pystr
  pr_checksum_hex :: pystr
  pr_validated_media_kind :: pystr
  pr_validated_format :: pystr
  pr_state :: pystr
  pr_cleanup_state :: pystr
  pr_created_at_ms :: int
  pr_updated_at_ms :: int
  pr_verified_at_ms :: "int option"
  pr_cleanup_completed_at_ms :: "int option"
  pr_version :: int
  pr_media_id :: "pystr option"
  pr_media_location_id :: "pystr option"

definition publication_row_checks :: "publication_row \<Rightarrow> sql_bool list" where
  "publication_row_checks r = [
     Some (sql_length (pr_upload_id r) = 36),
     Some (sql_length (pr_publication_id r) = 36),
     Some (sql_length (pr_destination_id r) = 36),
     Some (sql_length (pr_byte_identity_id r) = 36),
     Some (sql_length (pr_relative_target r) = 36
       \<and> pr_relative_target r = sql_lower (pr_relative_target r)
       \<and> not_glob_outside is_lower_hex (take 32 (pr_relative_target r))
       \<and> 47 \<notin> set (pr_relative_target r) \<and> 92 \<notin> set (pr_relative_target r)
       \<and> take 32 (pr_relative_target r) = filter (\<lambda>c. c \<noteq> 45) (pr_publication_id r)
       \<and> (pr_validated_format r, drop 32 (pr_relative_target r))
           \<in> set [(lit ''gif'', lit ''.gif''), (lit ''mp4'', lit ''.mp4''),
                  (lit ''jpg'', lit ''.jpg''), (lit ''png'', lit ''.png'')]),
     Some (pr_expected_size_bytes r > 0),
     Some (pr_checksum_algorithm r = lit ''sha256''),
     Some (ck_checksum_hex (pr_checksum_hex r)),
     Some ((pr_validated_media_kind r, pr_validated_format r)
       \<in> set [(lit ''animated_image'', lit ''gif''), (lit ''video'', lit ''mp4''),
              (lit ''image'', lit ''jpg''), (lit ''image'', lit ''png'')]),
     Some (pr_state r \<in> set [lit ''reserved'', lit ''verified'']),
     Some (pr_cleanup_state r \<in> set [lit ''pending'', lit ''complete'']),
     Some ((pr_state r = lit ''reserved'' \<and> pr_cleanup_state r = lit ''pending''
            \<and> pr_verified_at_ms r = None \<and> pr_cleanup_completed_at_ms r = None)
       \<or> (pr_state r = lit ''verified'' \<and> pr_verified_at_ms r \<noteq> None
            \<and> ((pr_cleanup_state r = lit ''pending'' \<and> pr_cleanup_completed_at_ms r = None)
              \<or> (pr_cleanup_state r = lit ''complete'' \<and> pr_cleanup_completed_at_ms r \<noteq> None)))),
     Some (pr_created_at_ms r \<ge> 0 \<and> pr_updated_at_ms r \<ge> pr_created_at_ms r),
     sql_or (sql_is_null (pr_verified_at_ms r))
       (sql_test (\<lambda>v. v \<ge> pr_created_at_ms r) (pr_verified_at_ms r)),
     sql_or (sql_is_null (pr_cleanup_completed_at_ms r))
       (case (pr_cleanup_completed_at_ms r, pr_verified_at_ms r) of
          (Some c, Some v) \<Rightarrow> Some (c \<ge> v) | _ \<Rightarrow> None),
     Some (pr_version r \<ge> 0),
     Some ((pr_media_id r = None \<and> pr_media_location_id r = None)
       \<or> (pr_media_id r \<noteq> None \<and> pr_media_location_id r \<noteq> None)),
     sql_or (sql_is_null (pr_media_id r)) (sql_test (\<lambda>i. sql_length i = 36) (pr_media_id r)),
     sql_or (sql_is_null (pr_media_location_id r))
       (sql_test (\<lambda>i. sql_length i = 36) (pr_media_location_id r))]"

definition publication_row_ok :: "publication_row \<Rightarrow> bool" where
  "publication_row_ok r = list_all check_passes (publication_row_checks r)"

section \<open>Catalog tables\<close>

record media_row =
  mr_id :: pystr
  mr_media_kind :: pystr
  mr_created_at_ms :: int
  mr_updated_at_ms :: int

record location_row =
  lr_id :: pystr
  lr_media_id :: pystr
  lr_library_id :: pystr
  lr_relative_path :: pystr
  lr_availability :: pystr
  lr_observed_size_bytes :: "int option"
  lr_observed_mtime_ns :: "int option"
  lr_created_at_ms :: int
  lr_updated_at_ms :: int

record metadata_row =
  dr_media_id :: pystr
  dr_display_title :: "pystr option"
  dr_description :: "pystr option"
  dr_content_category :: pystr
  dr_acquisition_source :: pystr
  dr_creator_attribution_kind :: "pystr option"
  dr_creator_stable_id :: "pystr option"
  dr_creator_handle :: "pystr option"
  dr_creator_display_name :: "pystr option"
  dr_collection_key :: "pystr option"
  dr_processed_at_ms :: "int option"
  dr_created_at_ms :: int
  dr_updated_at_ms :: int

record tag_row =
  tr_media_id :: pystr
  tr_tag_key :: pystr
  tr_position :: int

definition media_row_checks :: "media_row \<Rightarrow> sql_bool list" where
  "media_row_checks r = [
     Some (sql_length (mr_id r) = 36),
     Some (mr_media_kind r \<in> set [lit ''video'', lit ''animated_image'', lit ''image'']),
     Some (mr_created_at_ms r \<ge> 0),
     Some (mr_updated_at_ms r \<ge> 0)]"

definition location_row_checks :: "location_row \<Rightarrow> sql_bool list" where
  "location_row_checks r = [
     Some (sql_length (lr_id r) = 36),
     Some (sql_length (lr_media_id r) = 36),
     Some (sql_length (lr_library_id r) = 36),
     Some (1 \<le> sql_length (lr_relative_path r) \<and> sql_length (lr_relative_path r) \<le> 4096),
     Some (lr_availability r \<in> set [lit ''available'', lit ''offline'', lit ''missing'',
        lit ''unverified'', lit ''archived'']),
     sql_or (sql_is_null (lr_observed_size_bytes r))
       (sql_test (\<lambda>n. n \<ge> 0) (lr_observed_size_bytes r)),
     sql_or (sql_is_null (lr_observed_mtime_ns r))
       (sql_test (\<lambda>n. n \<ge> 0) (lr_observed_mtime_ns r)),
     Some (lr_created_at_ms r \<ge> 0),
     Some (lr_updated_at_ms r \<ge> 0)]"

text \<open>The five alternatives of \<open>ck_media_metadata_creator_attribution\<close> and the rest.\<close>

definition ck_creator_attribution :: "metadata_row \<Rightarrow> sql_bool" where
  "ck_creator_attribution r = sql_or
     (sql_all [sql_is_null (dr_creator_attribution_kind r), sql_is_null (dr_creator_stable_id r),
        sql_is_null (dr_creator_handle r), sql_is_null (dr_creator_display_name r)])
     (sql_all [
        sql_is_not_null (dr_creator_attribution_kind r),
        sql_test (\<lambda>k. k \<in> set [lit ''youtube_channel'', lit ''x_author''])
          (dr_creator_attribution_kind r),
        sql_any [sql_is_not_null (dr_creator_stable_id r), sql_is_not_null (dr_creator_handle r),
          sql_is_not_null (dr_creator_display_name r)],
        sql_or (sql_is_null (dr_creator_stable_id r))
          (sql_test (\<lambda>s. 1 \<le> sql_length s \<and> sql_length s \<le> 128) (dr_creator_stable_id r)),
        sql_or (sql_is_null (dr_creator_handle r))
          (sql_test (\<lambda>h. 1 \<le> sql_length h \<and> sql_length h \<le> 64 \<and> h = sql_lower h
              \<and> take 1 h \<noteq> [64]) (dr_creator_handle r)),
        sql_or (sql_is_null (dr_creator_display_name r))
          (sql_test (\<lambda>n. 1 \<le> sql_length n \<and> sql_length n \<le> 200)
             (dr_creator_display_name r))])"

definition metadata_row_checks :: "metadata_row \<Rightarrow> sql_bool list" where
  "metadata_row_checks r = [
     Some (sql_length (dr_media_id r) = 36),
     Some (dr_content_category r \<in> set [lit ''general'', lit ''meme'', lit ''movie'',
        lit ''youtube'']),
     Some (dr_acquisition_source r \<in> set [lit ''unknown'', lit ''manual_upload'',
        lit ''library_scan'', lit ''youtube_manual_claim'', lit ''x_manual_claim'']),
     ck_creator_attribution r,
     sql_or (sql_is_null (dr_collection_key r)) (sql_eq (dr_collection_key r) (lit ''processed'')),
     sql_or (sql_and (sql_is_null (dr_collection_key r)) (sql_is_null (dr_processed_at_ms r)))
       (sql_and (sql_eq (dr_collection_key r) (lit ''processed''))
          (sql_is_not_null (dr_processed_at_ms r))),
     sql_or (sql_is_null (dr_processed_at_ms r)) (sql_test (\<lambda>t. t \<ge> 0) (dr_processed_at_ms r)),
     sql_or (sql_is_null (dr_display_title r))
       (sql_test (\<lambda>t. 1 \<le> sql_length t \<and> sql_length t \<le> 240) (dr_display_title r)),
     sql_or (sql_is_null (dr_description r))
       (sql_test (\<lambda>t. 1 \<le> sql_length t \<and> sql_length t \<le> 10000) (dr_description r)),
     Some (dr_created_at_ms r \<ge> 0),
     Some (dr_updated_at_ms r \<ge> 0),
     Some (dr_updated_at_ms r \<ge> dr_created_at_ms r)]"

definition tag_row_checks :: "tag_row \<Rightarrow> sql_bool list" where
  "tag_row_checks r = [
     Some (sql_length (tr_media_id r) = 36),
     Some (1 \<le> sql_length (tr_tag_key r) \<and> sql_length (tr_tag_key r) \<le> 64),
     Some (0 \<le> tr_position r \<and> tr_position r < 32)]"

record catalog_db =
  upload_sessions :: "upload_row list"
  media_byte_identities :: "identity_row list"
  upload_publications :: "publication_row list"
  libraries :: "pystr list"
  logical_media_rows :: "media_row list"
  physical_media_locations :: "location_row list"
  media_metadata_rows :: "metadata_row list"
  canonical_tags :: "pystr list"
  media_canonical_tags :: "tag_row list"

definition empty_catalog :: catalog_db where
  "empty_catalog = \<lparr>upload_sessions = [], media_byte_identities = [], upload_publications = [],
     libraries = [], logical_media_rows = [], physical_media_locations = [],
     media_metadata_rows = [], canonical_tags = [], media_canonical_tags = []\<rparr>"

lemma sha256_pattern_ck: "sha256_hex_pattern h \<Longrightarrow> ck_checksum_hex h"
proof -
  assume a: "sha256_hex_pattern h"
  then have l: "length h = 64" and c: "list_all is_lower_hex h"
    by (auto simp: sha256_hex_pattern_def matches_class_def)
  have "list_all (\<lambda>x. \<not> is_upper x) h" and "0 \<notin> set h"
    using c by (auto simp: list_all_iff char_class_defs)
  with l c show ?thesis
    by (simp add: ck_checksum_hex_def sql_length_no_nul sql_lower_def ascii_lower_id
        not_glob_outside_def)
qed

end
