(* ===== verification/Youtube_Claim_Rows.thy ===== *)
theory Youtube_Claim_Rows
  imports Youtube_Claims Catalog_Schema
begin

text \<open>
  The table \<open>youtube_acquisition_claims\<close> of \<open>catalog_schema.py\<close> (columns, CHECK constraints,
  foreign keys, unique constraints and partial unique indexes) and the conversions between its
  rows and claims of \<open>youtube_acquisition_claim_repository.py\<close>.
\<close>

section \<open>Rows\<close>

record youtube_row =
  yr_id :: pystr
  yr_state :: pystr
  yr_acquisition_source :: pystr
  yr_submitted_url :: pystr
  yr_canonical_url :: pystr
  yr_youtube_video_id :: pystr
  yr_extractor_key :: pystr
  yr_retry_of_claim_id :: "pystr option"
  yr_resolved_claim_id :: "pystr option"
  yr_upload_id :: "pystr option"
  yr_media_id :: "pystr option"
  yr_media_location_id :: "pystr option"
  yr_confirmation_method :: pystr
  yr_confirmed_at_ms :: int
  yr_upstream_title :: "pystr option"
  yr_upstream_channel :: "pystr option"
  yr_upstream_channel_id :: "pystr option"
  yr_upstream_source_date :: "pystr option"
  yr_downloader_name :: "pystr option"
  yr_downloader_version :: "pystr option"
  yr_extractor_version :: "pystr option"
  yr_selected_video_format_id :: "pystr option"
  yr_selected_audio_format_id :: "pystr option"
  yr_remote_filename :: "pystr option"
  yr_generated_filename :: pystr
  yr_staging_key :: pystr
  yr_downloaded_size_bytes :: "int option"
  yr_created_at_ms :: int
  yr_updated_at_ms :: int
  yr_downloaded_at_ms :: "int option"
  yr_completed_at_ms :: "int option"
  yr_catalog_removed_at_ms :: "int option"
  yr_failure_stage :: "pystr option"
  yr_failure_code :: "pystr option"
  yr_cleanup_state :: pystr
  yr_cleanup_completed_at_ms :: "int option"
  yr_version :: int
  yr_created_by_login_key :: "pystr option"

text \<open>The rows of \<open>youtube_acquisition_claims\<close> and what its statements read of other tables: the
  keys its foreign keys refer to, the published media, the media of the records.\<close>

record claims_db =
  cd_claims :: "youtube_row list"
  cd_upload_sessions :: "pystr list"
  cd_logical_media :: "pystr list"
  cd_physical_media_locations :: "pystr list"
  cd_media_content_publications :: "pystr list"
  cd_kronika_record_media :: "pystr list"

section \<open>Constraints\<close>

definition optional_length :: "nat \<Rightarrow> pystr option \<Rightarrow> sql_bool" where
  "optional_length n x = sql_or (sql_is_null x) (sql_test (\<lambda>s. 1 \<le> sql_length s \<and> sql_length s \<le> n) x)"

definition ck_owner_key :: "pystr option \<Rightarrow> sql_bool" where
  "ck_owner_key x = sql_or (sql_is_null x)
     (sql_test (\<lambda>k. 1 \<le> sql_length k \<and> sql_length k \<le> 254 \<and> k = sql_lower k
        \<and> 32 \<notin> set k \<and> 9 \<notin> set k \<and> 10 \<notin> set k \<and> 13 \<notin> set k) x)"

definition youtube_identity_row_checks :: "youtube_row \<Rightarrow> sql_bool list" where
  "youtube_identity_row_checks r = [
     Some (sql_length (yr_id r) = 36),
     ck_owner_key (yr_created_by_login_key r),
     Some (yr_state r \<in> set (map youtube_state_value youtube_states)),
     Some (yr_acquisition_source r = lit ''youtube_manual_claim''),
     Some (1 \<le> sql_length (yr_submitted_url r) \<and> sql_length (yr_submitted_url r) \<le> 2048),
     Some (yr_canonical_url r = lit ''https://www.youtube.com/watch?v='' @ yr_youtube_video_id r),
     Some (sql_length (yr_youtube_video_id r) = 11
       \<and> not_glob_outside (\<lambda>c. is_alnum c \<or> c = 95 \<or> c = 45) (yr_youtube_video_id r)),
     Some (yr_extractor_key r = lit ''Youtube''),
     sql_or (sql_is_null (yr_retry_of_claim_id r))
       (sql_test (\<lambda>i. sql_length i = 36 \<and> i \<noteq> yr_id r) (yr_retry_of_claim_id r)),
     sql_or (sql_is_null (yr_resolved_claim_id r))
       (sql_test (\<lambda>i. sql_length i = 36 \<and> i \<noteq> yr_id r) (yr_resolved_claim_id r)),
     sql_or (sql_is_null (yr_upload_id r)) (sql_test (\<lambda>i. sql_length i = 36) (yr_upload_id r)),
     sql_or (sql_and (sql_is_null (yr_media_id r)) (sql_is_null (yr_media_location_id r)))
       (sql_and (sql_test (\<lambda>i. sql_length i = 36) (yr_media_id r))
          (sql_test (\<lambda>i. sql_length i = 36) (yr_media_location_id r))),
     Some (yr_confirmation_method r \<in> {lit ''interactive'', lit ''yes_flag''}),
     Some (yr_confirmed_at_ms r \<ge> yr_created_at_ms r)]"

definition glob_date :: "pystr \<Rightarrow> bool" where
  "glob_date s \<longleftrightarrow> length s = 10 \<and> s ! 4 = 45 \<and> s ! 7 = 45
     \<and> list_all (\<lambda>i. is_digit (s ! i)) [0, 1, 2, 3, 5, 6, 8, 9]"

definition youtube_provenance_row_checks :: "youtube_row \<Rightarrow> sql_bool list" where
  "youtube_provenance_row_checks r = [
     optional_length 500 (yr_upstream_title r),
     optional_length 200 (yr_upstream_channel r),
     optional_length 128 (yr_upstream_channel_id r),
     sql_or (sql_is_null (yr_upstream_source_date r))
       (sql_test (\<lambda>s. sql_length s = 10 \<and> glob_date s) (yr_upstream_source_date r)),
     optional_length 120 (yr_downloader_name r),
     optional_length 120 (yr_downloader_version r),
     optional_length 120 (yr_extractor_version r),
     optional_length 120 (yr_selected_video_format_id r),
     optional_length 120 (yr_selected_audio_format_id r),
     optional_length 500 (yr_remote_filename r),
     Some (yr_generated_filename r = lit ''youtube-'' @ yr_youtube_video_id r @ lit ''.mp4''),
     Some (sql_length (yr_staging_key r) = 32 \<and> yr_staging_key r = sql_lower (yr_staging_key r)
       \<and> not_glob_outside is_lower_hex (yr_staging_key r)),
     sql_or (sql_is_null (yr_downloaded_size_bytes r)) (sql_test (\<lambda>n. n > 0) (yr_downloaded_size_bytes r)),
     Some (yr_created_at_ms r \<ge> 0 \<and> yr_updated_at_ms r \<ge> yr_created_at_ms r),
     sql_or (sql_is_null (yr_downloaded_at_ms r))
       (sql_test (\<lambda>n. n \<ge> yr_created_at_ms r) (yr_downloaded_at_ms r)),
     sql_or (sql_is_null (yr_completed_at_ms r))
       (sql_test (\<lambda>n. n \<ge> yr_created_at_ms r) (yr_completed_at_ms r))]"

definition youtube_outcome_row_checks :: "youtube_row \<Rightarrow> sql_bool list" where
  "youtube_outcome_row_checks r = [
     sql_or (sql_and (sql_is_null (yr_failure_stage r)) (sql_is_null (yr_failure_code r)))
       (sql_and (sql_test (\<lambda>s. s \<in> set [lit ''configuration'', lit ''inspection'', lit ''download'',
            lit ''staging'', lit ''handoff'', lit ''downstream'', lit ''cleanup'', lit ''internal''])
            (yr_failure_stage r))
          (sql_test (\<lambda>c. 1 \<le> sql_length c \<and> sql_length c \<le> 80
             \<and> not_glob_outside (\<lambda>x. is_upper x \<or> is_digit x \<or> x = 95) c) (yr_failure_code r))),
     Some (yr_cleanup_state r \<in> {lit ''pending'', lit ''complete''}
       \<and> ((yr_cleanup_state r = lit ''pending'' \<and> yr_cleanup_completed_at_ms r = None)
         \<or> (yr_cleanup_state r = lit ''complete'' \<and> yr_cleanup_completed_at_ms r \<noteq> None))),
     Some (yr_version r \<ge> 0),
     Some ((yr_state r \<in> set [lit ''downloaded'', lit ''handoff'', lit ''handed_off'', lit ''cataloged'']
         \<and> yr_downloaded_size_bytes r \<noteq> None \<and> yr_downloaded_at_ms r \<noteq> None)
       \<or> yr_state r \<notin> set [lit ''downloaded'', lit ''handoff'', lit ''handed_off'', lit ''cataloged'']),
     Some ((yr_state r \<in> set [lit ''handed_off'', lit ''cataloged''] \<and> yr_upload_id r \<noteq> None)
       \<or> yr_state r \<notin> set [lit ''handed_off'', lit ''cataloged'']),
     sql_any [
       Some (yr_state r = lit ''cataloged'' \<and> yr_media_id r \<noteq> None \<and> yr_media_location_id r \<noteq> None
         \<and> yr_completed_at_ms r \<noteq> None \<and> yr_failure_code r = None \<and> yr_catalog_removed_at_ms r = None),
       Some (yr_state r = lit ''duplicate_resolved'' \<and> yr_media_id r \<noteq> None
         \<and> yr_media_location_id r \<noteq> None \<and> yr_completed_at_ms r \<noteq> None \<and> yr_failure_code r = None
         \<and> yr_catalog_removed_at_ms r = None),
       sql_and (Some (yr_state r = lit ''catalog_removed'' \<and> yr_media_id r = None
           \<and> yr_media_location_id r = None \<and> yr_completed_at_ms r \<noteq> None
           \<and> yr_catalog_removed_at_ms r \<noteq> None))
         (sql_and (case (yr_catalog_removed_at_ms r, yr_completed_at_ms r) of
             (Some a, Some b) \<Rightarrow> Some (a \<ge> b) | _ \<Rightarrow> None)
           (Some (yr_failure_code r = None))),
       Some (yr_state r = lit ''failed'' \<and> yr_failure_code r \<noteq> None \<and> yr_completed_at_ms r \<noteq> None
         \<and> yr_catalog_removed_at_ms r = None),
       Some (yr_state r \<notin> set [lit ''cataloged'', lit ''duplicate_resolved'', lit ''catalog_removed'',
           lit ''failed''] \<and> yr_completed_at_ms r = None \<and> yr_failure_code r = None
         \<and> yr_catalog_removed_at_ms r = None)]]"

definition youtube_row_ok :: "youtube_row \<Rightarrow> bool" where
  "youtube_row_ok r = list_all check_passes
     (youtube_identity_row_checks r @ youtube_provenance_row_checks r @ youtube_outcome_row_checks r)"

definition ACTIVE_STATE_VALUES :: "pystr list" where
  "ACTIVE_STATE_VALUES = map youtube_state_value ACTIVE_YOUTUBE_ACQUISITION_STATES"

definition SUCCESS_STATE_VALUES :: "pystr list" where
  "SUCCESS_STATE_VALUES = [lit ''cataloged'', lit ''duplicate_resolved'']"

text \<open>Whether two different rows break a UNIQUE constraint or one of the two partial unique
  indexes on active claims (without and with an owner); \<open>NULL\<close>s are distinct.\<close>

definition active_row :: "youtube_row \<Rightarrow> bool" where
  "active_row r \<longleftrightarrow> yr_state r \<in> set ACTIVE_STATE_VALUES"

definition same_source :: "youtube_row \<Rightarrow> youtube_row \<Rightarrow> bool" where
  "same_source r s \<longleftrightarrow> yr_extractor_key r = yr_extractor_key s
     \<and> yr_youtube_video_id r = yr_youtube_video_id s"

definition youtube_rows_clash :: "youtube_row \<Rightarrow> youtube_row \<Rightarrow> bool" where
  "youtube_rows_clash r s \<longleftrightarrow>
     yr_staging_key r = yr_staging_key s
     \<or> (yr_upload_id r \<noteq> None \<and> yr_upload_id r = yr_upload_id s)
     \<or> (active_row r \<and> active_row s \<and> same_source r s
         \<and> yr_created_by_login_key r = None \<and> yr_created_by_login_key s = None)
     \<or> (active_row r \<and> active_row s \<and> same_source r s
         \<and> yr_created_by_login_key r \<noteq> None \<and> yr_created_by_login_key r = yr_created_by_login_key s)"

definition youtube_fks_hold :: "claims_db \<Rightarrow> youtube_row \<Rightarrow> bool" where
  "youtube_fks_hold db r \<longleftrightarrow>
     pred_option (\<lambda>i. i \<in> set (map yr_id (cd_claims db)) \<or> i = yr_id r) (yr_retry_of_claim_id r)
     \<and> pred_option (\<lambda>i. i \<in> set (map yr_id (cd_claims db)) \<or> i = yr_id r) (yr_resolved_claim_id r)
     \<and> pred_option (\<lambda>i. i \<in> set (cd_upload_sessions db)) (yr_upload_id r)
     \<and> pred_option (\<lambda>i. i \<in> set (cd_logical_media db)) (yr_media_id r)
     \<and> pred_option (\<lambda>i. i \<in> set (cd_physical_media_locations db)) (yr_media_location_id r)"

text \<open>A row the table takes beside the rows with another key.\<close>

definition youtube_row_admissible :: "claims_db \<Rightarrow> youtube_row \<Rightarrow> bool" where
  "youtube_row_admissible db r \<longleftrightarrow> youtube_row_ok r \<and> youtube_fks_hold db r
     \<and> list_all (\<lambda>s. yr_id s = yr_id r \<or> \<not> youtube_rows_clash r s) (cd_claims db)"

section \<open>Conversions\<close>

datatype youtube_repo_error =
    FrameNestYouTubeClaimRepositoryError
  | YouTubeClaimAlreadyExistsError
  | YouTubeClaimNotFoundError
  | YouTubeClaimConcurrencyConflictError
  | YouTubeClaimSourceIdentityConflictError

definition acquisition_sources :: "acquisition_source list" where
  "acquisition_sources = [AS_UNKNOWN, AS_MANUAL_UPLOAD, AS_LIBRARY_SCAN, AS_YOUTUBE_MANUAL_CLAIM,
     AS_X_MANUAL_CLAIM]"

definition youtube_failure_stages :: "youtube_failure_stage list" where
  "youtube_failure_stages = [YF_CONFIGURATION, YF_INSPECTION, YF_DOWNLOAD, YF_STAGING, YF_HANDOFF,
     YF_DOWNSTREAM, YF_CLEANUP, YF_INTERNAL]"

abbreviation youtube_state_parse :: "pystr \<Rightarrow> youtube_repo_error + youtube_state" where
  "youtube_state_parse \<equiv> enum_parse FrameNestYouTubeClaimRepositoryError youtube_states youtube_state_value"

abbreviation acquisition_source_parse :: "pystr \<Rightarrow> youtube_repo_error + acquisition_source" where
  "acquisition_source_parse \<equiv>
     enum_parse FrameNestYouTubeClaimRepositoryError acquisition_sources acquisition_source_value"

abbreviation youtube_confirmation_parse :: "pystr \<Rightarrow> youtube_repo_error + youtube_confirmation" where
  "youtube_confirmation_parse \<equiv>
     enum_parse FrameNestYouTubeClaimRepositoryError [INTERACTIVE, YES_FLAG] youtube_confirmation_value"

abbreviation youtube_failure_stage_parse :: "pystr \<Rightarrow> youtube_repo_error + youtube_failure_stage" where
  "youtube_failure_stage_parse \<equiv>
     enum_parse FrameNestYouTubeClaimRepositoryError youtube_failure_stages youtube_failure_stage_value"

abbreviation youtube_cleanup_state_parse :: "pystr \<Rightarrow> youtube_repo_error + youtube_cleanup_state" where
  "youtube_cleanup_state_parse \<equiv> enum_parse FrameNestYouTubeClaimRepositoryError
     [YC_CLEANUP_PENDING, YC_CLEANUP_COMPLETE] youtube_cleanup_state_value"

definition repo_identity_parse :: "pystr \<Rightarrow> youtube_repo_error + uuid" where
  "repo_identity_parse s = rescue (\<lambda>_. FrameNestYouTubeClaimRepositoryError) (identity_from_string s)"

definition repo_upload_id_parse :: "pystr \<Rightarrow> youtube_repo_error + uuid" where
  "repo_upload_id_parse s = rescue (\<lambda>_. FrameNestYouTubeClaimRepositoryError) (upload_session_id_from_string s)"

definition values_from_claim :: "youtube_claim \<Rightarrow> youtube_row" where
  "values_from_claim c =
     \<lparr>yr_id = uuid_to_text (yc_id c), yr_state = youtube_state_value (yc_state c),
      yr_acquisition_source = acquisition_source_value (yc_acquisition_source c),
      yr_submitted_url = yc_submitted_url c, yr_canonical_url = yc_canonical_url c,
      yr_youtube_video_id = yc_youtube_video_id c, yr_extractor_key = yc_extractor_key c,
      yr_retry_of_claim_id = map_option uuid_to_text (yc_retry_of_claim_id c),
      yr_resolved_claim_id = map_option uuid_to_text (yc_resolved_claim_id c),
      yr_upload_id = map_option uuid_to_text (yc_upload_id c),
      yr_media_id = map_option uuid_to_text (yc_media_id c),
      yr_media_location_id = map_option uuid_to_text (yc_media_location_id c),
      yr_confirmation_method = youtube_confirmation_value (yc_confirmation_method c),
      yr_confirmed_at_ms = yc_confirmed_at_ms c, yr_upstream_title = yc_upstream_title c,
      yr_upstream_channel = yc_upstream_channel c, yr_upstream_channel_id = yc_upstream_channel_id c,
      yr_upstream_source_date = yc_upstream_source_date c,
      yr_downloader_name = yc_downloader_name c, yr_downloader_version = yc_downloader_version c,
      yr_extractor_version = yc_extractor_version c,
      yr_selected_video_format_id = yc_selected_video_format_id c,
      yr_selected_audio_format_id = yc_selected_audio_format_id c,
      yr_remote_filename = yc_remote_filename c, yr_generated_filename = yc_generated_filename c,
      yr_staging_key = yc_staging_key c, yr_downloaded_size_bytes = yc_downloaded_size_bytes c,
      yr_created_at_ms = yc_created_at_ms c, yr_updated_at_ms = yc_updated_at_ms c,
      yr_downloaded_at_ms = yc_downloaded_at_ms c, yr_completed_at_ms = yc_completed_at_ms c,
      yr_catalog_removed_at_ms = yc_catalog_removed_at_ms c,
      yr_failure_stage = map_option youtube_failure_stage_value (yc_failure_stage c),
      yr_failure_code = yc_failure_code c,
      yr_cleanup_state = youtube_cleanup_state_value (yc_cleanup_state c),
      yr_cleanup_completed_at_ms = yc_cleanup_completed_at_ms c, yr_version = yc_version c,
      yr_created_by_login_key = yc_created_by_login_key c\<rparr>"

lemma values_from_claim_simps:
  "yr_id (values_from_claim c) = uuid_to_text (yc_id c)"
  "yr_state (values_from_claim c) = youtube_state_value (yc_state c)"
  "yr_acquisition_source (values_from_claim c) = acquisition_source_value (yc_acquisition_source c)"
  "yr_submitted_url (values_from_claim c) = yc_submitted_url c"
  "yr_canonical_url (values_from_claim c) = yc_canonical_url c"
  "yr_youtube_video_id (values_from_claim c) = yc_youtube_video_id c"
  "yr_extractor_key (values_from_claim c) = yc_extractor_key c"
  "yr_retry_of_claim_id (values_from_claim c) = map_option uuid_to_text (yc_retry_of_claim_id c)"
  "yr_resolved_claim_id (values_from_claim c) = map_option uuid_to_text (yc_resolved_claim_id c)"
  "yr_upload_id (values_from_claim c) = map_option uuid_to_text (yc_upload_id c)"
  "yr_media_id (values_from_claim c) = map_option uuid_to_text (yc_media_id c)"
  "yr_media_location_id (values_from_claim c) = map_option uuid_to_text (yc_media_location_id c)"
  "yr_confirmation_method (values_from_claim c) = youtube_confirmation_value (yc_confirmation_method c)"
  "yr_confirmed_at_ms (values_from_claim c) = yc_confirmed_at_ms c"
  "yr_upstream_title (values_from_claim c) = yc_upstream_title c"
  "yr_upstream_channel (values_from_claim c) = yc_upstream_channel c"
  "yr_upstream_channel_id (values_from_claim c) = yc_upstream_channel_id c"
  "yr_upstream_source_date (values_from_claim c) = yc_upstream_source_date c"
  "yr_downloader_name (values_from_claim c) = yc_downloader_name c"
  "yr_downloader_version (values_from_claim c) = yc_downloader_version c"
  "yr_extractor_version (values_from_claim c) = yc_extractor_version c"
  "yr_selected_video_format_id (values_from_claim c) = yc_selected_video_format_id c"
  "yr_selected_audio_format_id (values_from_claim c) = yc_selected_audio_format_id c"
  "yr_remote_filename (values_from_claim c) = yc_remote_filename c"
  "yr_generated_filename (values_from_claim c) = yc_generated_filename c"
  "yr_staging_key (values_from_claim c) = yc_staging_key c"
  "yr_downloaded_size_bytes (values_from_claim c) = yc_downloaded_size_bytes c"
  "yr_created_at_ms (values_from_claim c) = yc_created_at_ms c"
  "yr_updated_at_ms (values_from_claim c) = yc_updated_at_ms c"
  "yr_downloaded_at_ms (values_from_claim c) = yc_downloaded_at_ms c"
  "yr_completed_at_ms (values_from_claim c) = yc_completed_at_ms c"
  "yr_catalog_removed_at_ms (values_from_claim c) = yc_catalog_removed_at_ms c"
  "yr_failure_stage (values_from_claim c) = map_option youtube_failure_stage_value (yc_failure_stage c)"
  "yr_failure_code (values_from_claim c) = yc_failure_code c"
  "yr_cleanup_state (values_from_claim c) = youtube_cleanup_state_value (yc_cleanup_state c)"
  "yr_cleanup_completed_at_ms (values_from_claim c) = yc_cleanup_completed_at_ms c"
  "yr_version (values_from_claim c) = yc_version c"
  "yr_created_by_login_key (values_from_claim c) = yc_created_by_login_key c"
  by (simp_all add: values_from_claim_def)

definition claim_from_row :: "unicode_tables \<Rightarrow> youtube_row \<Rightarrow> youtube_repo_error + youtube_claim" where
  "claim_from_row U r = rescue (\<lambda>_. FrameNestYouTubeClaimRepositoryError) (
     and_then (repo_identity_parse (yr_id r)) (\<lambda>claim_id.
     and_then (youtube_state_parse (yr_state r)) (\<lambda>state.
     and_then (acquisition_source_parse (yr_acquisition_source r)) (\<lambda>source.
     and_then (opt_map repo_identity_parse (yr_retry_of_claim_id r)) (\<lambda>retry_of.
     and_then (opt_map repo_identity_parse (yr_resolved_claim_id r)) (\<lambda>resolved.
     and_then (opt_map repo_upload_id_parse (yr_upload_id r)) (\<lambda>upload.
     and_then (opt_map repo_identity_parse (yr_media_id r)) (\<lambda>media.
     and_then (opt_map repo_identity_parse (yr_media_location_id r)) (\<lambda>location.
     and_then (youtube_confirmation_parse (yr_confirmation_method r)) (\<lambda>confirmation.
     and_then (opt_map youtube_failure_stage_parse (yr_failure_stage r)) (\<lambda>stage.
     and_then (youtube_cleanup_state_parse (yr_cleanup_state r)) (\<lambda>cleanup.
     rescue (\<lambda>_. FrameNestYouTubeClaimRepositoryError) (youtube_claim_make U
       \<lparr>yc_id = claim_id, yc_state = state, yc_submitted_url = yr_submitted_url r,
        yc_canonical_url = yr_canonical_url r, yc_youtube_video_id = yr_youtube_video_id r,
        yc_extractor_key = yr_extractor_key r, yc_confirmation_method = confirmation,
        yc_confirmed_at_ms = yr_confirmed_at_ms r, yc_staging_key = yr_staging_key r,
        yc_generated_filename = yr_generated_filename r, yc_created_at_ms = yr_created_at_ms r,
        yc_updated_at_ms = yr_updated_at_ms r, yc_acquisition_source = source,
        yc_retry_of_claim_id = retry_of, yc_resolved_claim_id = resolved, yc_upload_id = upload,
        yc_media_id = media, yc_media_location_id = location,
        yc_upstream_title = yr_upstream_title r, yc_upstream_channel = yr_upstream_channel r,
        yc_upstream_channel_id = yr_upstream_channel_id r,
        yc_upstream_source_date = yr_upstream_source_date r,
        yc_downloader_name = yr_downloader_name r, yc_downloader_version = yr_downloader_version r,
        yc_extractor_version = yr_extractor_version r,
        yc_selected_video_format_id = yr_selected_video_format_id r,
        yc_selected_audio_format_id = yr_selected_audio_format_id r,
        yc_remote_filename = yr_remote_filename r,
        yc_downloaded_size_bytes = yr_downloaded_size_bytes r,
        yc_downloaded_at_ms = yr_downloaded_at_ms r, yc_completed_at_ms = yr_completed_at_ms r,
        yc_catalog_removed_at_ms = yr_catalog_removed_at_ms r, yc_failure_stage = stage,
        yc_failure_code = yr_failure_code r, yc_cleanup_state = cleanup,
        yc_cleanup_completed_at_ms = yr_cleanup_completed_at_ms r, yc_version = yr_version r,
        yc_created_by_login_key = yr_created_by_login_key r\<rparr>)))))))))))))"

end
