(* ===== verification/Youtube_Claim_Facts.thy ===== *)
theory Youtube_Claim_Facts
  imports Youtube_Claim_Rows
begin

text \<open>
  Rows and claims correspond one to one, and which claims the constraints of the table accept.
\<close>

section \<open>Text encodings\<close>

interpretation youtube_state_codec: enum_codec youtube_state_value youtube_state_parse
proof (rule enum_codec_enum_parse)
  show "distinct (map youtube_state_value youtube_states)" by (simp add: youtube_states_def lit_def)
  show "x \<in> set youtube_states" for x by (cases x) (simp_all add: youtube_states_def)
qed

interpretation acquisition_source_codec: enum_codec acquisition_source_value acquisition_source_parse
proof (rule enum_codec_enum_parse)
  show "distinct (map acquisition_source_value acquisition_sources)" by (simp add: acquisition_sources_def lit_def)
  show "x \<in> set acquisition_sources" for x by (cases x) (simp_all add: acquisition_sources_def)
qed

interpretation youtube_confirmation_codec: enum_codec youtube_confirmation_value youtube_confirmation_parse
proof (rule enum_codec_enum_parse)
  show "distinct (map youtube_confirmation_value [INTERACTIVE, YES_FLAG])" by (simp add: lit_def)
  show "x \<in> set [INTERACTIVE, YES_FLAG]" for x by (cases x) simp_all
qed

interpretation youtube_failure_stage_codec: enum_codec youtube_failure_stage_value youtube_failure_stage_parse
proof (rule enum_codec_enum_parse)
  show "distinct (map youtube_failure_stage_value youtube_failure_stages)"
    by (simp add: youtube_failure_stages_def lit_def)
  show "x \<in> set youtube_failure_stages" for x by (cases x) (simp_all add: youtube_failure_stages_def)
qed

interpretation youtube_cleanup_codec: enum_codec youtube_cleanup_state_value youtube_cleanup_state_parse
proof (rule enum_codec_enum_parse)
  show "distinct (map youtube_cleanup_state_value [YC_CLEANUP_PENDING, YC_CLEANUP_COMPLETE])" by (simp add: lit_def)
  show "x \<in> set [YC_CLEANUP_PENDING, YC_CLEANUP_COMPLETE]" for x by (cases x) simp_all
qed

interpretation repo_identity: text_codec uuid_to_text repo_identity_parse is_uuid4
proof unfold_locales
  show "repo_identity_parse (uuid_to_text x) = Inr x" if "is_uuid4 x" for x
    using identity.parse_print [OF that] by (simp add: repo_identity_parse_def identity_to_string_def)
  show "uuid_to_text x = s \<and> is_uuid4 x" if "repo_identity_parse s = Inr x" for s x
    using that identity.parse_sound [of s x] by (simp add: repo_identity_parse_def identity_to_string_def)
qed

interpretation repo_upload_id: text_codec uuid_to_text repo_upload_id_parse is_uuid4
proof unfold_locales
  show "repo_upload_id_parse (uuid_to_text x) = Inr x" if "is_uuid4 x" for x
    using upload_session_id.parse_print [OF that] by (simp add: repo_upload_id_parse_def)
  show "uuid_to_text x = s \<and> is_uuid4 x" if "repo_upload_id_parse s = Inr x" for s x
    using that upload_session_id.parse_sound [of s x] by (simp add: repo_upload_id_parse_def)
qed

section \<open>Rows and claims\<close>

lemma post_init_ids:
  assumes "youtube_claim_post_init U c = Inr ()"
  shows "is_uuid4 (yc_id c)" "pred_option is_uuid4 (yc_retry_of_claim_id c)"
    "pred_option is_uuid4 (yc_resolved_claim_id c)" "pred_option is_uuid4 (yc_upload_id c)"
    "pred_option is_uuid4 (yc_media_id c)" "pred_option is_uuid4 (yc_media_location_id c)"
proof -
  have i: "all_checks (youtube_identity_checks U c) = Inr ()" and l: "all_checks (youtube_link_checks U c) = Inr ()"
    using assms by (simp_all add: youtube_post_init_parts)
  show "is_uuid4 (yc_id c)" using i unfolding youtube_identity_iff by blast
  show "pred_option is_uuid4 (yc_retry_of_claim_id c)" "pred_option is_uuid4 (yc_resolved_claim_id c)"
    using l unfolding youtube_link_iff by (auto simp: pred_option_def)
  show "pred_option is_uuid4 (yc_upload_id c)" "pred_option is_uuid4 (yc_media_id c)"
    "pred_option is_uuid4 (yc_media_location_id c)"
    using l unfolding youtube_link_iff by blast+
qed

lemma claim_from_values:
  assumes "youtube_claim_post_init U c = Inr ()"
  shows "claim_from_row U (values_from_claim c) = Inr c"
proof -
  note i = post_init_ids [OF assms]
  note p = repo_identity.parse_print [OF i(1)] repo_identity.opt_map_parse_print [OF i(2)]
    repo_identity.opt_map_parse_print [OF i(3)] repo_upload_id.opt_map_parse_print [OF i(4)]
    repo_identity.opt_map_parse_print [OF i(5)] repo_identity.opt_map_parse_print [OF i(6)]
    youtube_state_codec.parse_print [OF TrueI] acquisition_source_codec.parse_print [OF TrueI]
    youtube_confirmation_codec.parse_print [OF TrueI] youtube_cleanup_codec.parse_print [OF TrueI]
  have stage: "opt_map youtube_failure_stage_parse (map_option youtube_failure_stage_value x) = Inr x" for x
    by (rule youtube_failure_stage_codec.opt_map_parse_print) (cases x; simp)
  show ?thesis
    unfolding claim_from_row_def
    by (simp add: values_from_claim_def p stage youtube_claim_make_Inr)
       (rule trans [OF arg_cong [where f = "youtube_claim_post_init U"] assms],
        intro youtube_claim.equality, simp_all)
qed

lemma claim_from_row_iff:
  "claim_from_row U r = Inr c \<longleftrightarrow> youtube_claim_post_init U c = Inr () \<and> r = values_from_claim c"
proof
  assume a: "claim_from_row U r = Inr c"
  then have c: "youtube_claim_post_init U c = Inr ()"
    by (auto simp: claim_from_row_def and_then_Inr youtube_claim_make_Inr)
  have "r = values_from_claim c"
    using a
    by (intro youtube_row.equality)
       (auto simp: claim_from_row_def and_then_Inr youtube_claim_make_Inr values_from_claim_def
         repo_identity.parse_iff repo_identity.opt_map_parse_iff repo_upload_id.opt_map_parse_iff
         youtube_state_codec.parse_iff acquisition_source_codec.parse_iff
         youtube_confirmation_codec.parse_iff youtube_cleanup_codec.parse_iff
         youtube_failure_stage_codec.opt_map_parse_iff)
  then show "youtube_claim_post_init U c = Inr () \<and> r = values_from_claim c" using c by blast
next
  assume "youtube_claim_post_init U c = Inr () \<and> r = values_from_claim c"
  then show "claim_from_row U r = Inr c" using claim_from_values by blast
qed

lemma claim_from_row_error: "claim_from_row U r = Inl e \<Longrightarrow> e = FrameNestYouTubeClaimRepositoryError"
proof -
  have "only_error FrameNestYouTubeClaimRepositoryError (claim_from_row U r)"
    unfolding claim_from_row_def
    by (rule only_error_rescue)
  then show "claim_from_row U r = Inl e \<Longrightarrow> e = FrameNestYouTubeClaimRepositoryError"
    by (simp add: only_error_def)
qed

lemma values_from_claim_inj:
  assumes "youtube_claim_post_init U c = Inr ()" "youtube_claim_post_init U d = Inr ()"
  shows "values_from_claim c = values_from_claim d \<longleftrightarrow> c = d"
  by (metis claim_from_values [OF assms(1)] claim_from_values [OF assms(2)] sum.inject(2))

section \<open>The constraints on a claim's row\<close>

text \<open>Case folding leaves no ASCII upper-case letter and makes no white space or control
  character out of other text; what the table then demands of a valid claim beyond the
  constructor.\<close>

definition folds_case :: "unicode_tables \<Rightarrow> bool" where
  "folds_case U \<longleftrightarrow> (\<forall>s. list_all (\<lambda>c. \<not> is_forbidden_login_character c) s \<longrightarrow>
     list_all (\<lambda>c. \<not> is_forbidden_login_character c \<and> \<not> is_upper c) (uni_casefold U s))"

lemma lower_char_allowed:
  assumes "\<not> is_forbidden_login_character c"
  shows "\<not> is_forbidden_login_character (ascii_lower_char c) \<and> \<not> is_upper (ascii_lower_char c)"
proof (cases "is_upper c")
  case True
  then have b: "97 \<le> c + 32" "c + 32 \<le> 122" "ascii_lower_char c = c + 32"
    by (simp_all add: is_upper_def ascii_lower_char_def)
  then show ?thesis
    by (simp add: is_forbidden_login_character_def is_control_character_def is_space_def is_upper_def)
next
  case False
  then show ?thesis using assms by (simp add: ascii_lower_char_def)
qed

lemma folds_case_ascii [simp]: "folds_case ascii_tables"
  using lower_char_allowed by (simp add: folds_case_def list_all_iff ascii_lower_def)

definition claim_row_extra :: "youtube_claim \<Rightarrow> bool" where
  "claim_row_extra c \<longleftrightarrow>
     pred_option (\<lambda>d. list_all (\<lambda>i. is_digit (d ! i)) [0, 1, 2, 3, 5, 6, 8, 9]) (yc_upstream_source_date c)
     \<and> pred_option (\<lambda>t. yc_created_at_ms c \<le> t) (yc_downloaded_at_ms c)
     \<and> pred_option (\<lambda>t. yc_created_at_ms c \<le> t) (yc_completed_at_ms c)"

lemma advisory_length: "advisory_ok U n False s \<Longrightarrow> 1 \<le> sql_length s \<and> sql_length s \<le> n"
proof -
  assume a: "advisory_ok U n False s"
  then have "list_all (\<lambda>c. \<not> is_cc c) s" by (simp add: advisory_ok_def)
  then have "0 \<notin> set s" by (auto simp: list_all_iff is_cc_def)
  moreover have "s \<noteq> []" "length s \<le> n" using a by (simp_all add: advisory_ok_def)
  ultimately show ?thesis by (simp add: sql_length_no_nul Suc_leI)
qed

lemma token_length: "token_pattern 119 s \<Longrightarrow> 1 \<le> sql_length s \<and> sql_length s \<le> 120"
proof -
  assume t: "token_pattern 119 s"
  then obtain c cs where s: "s = c # cs" "is_alnum c" "matches_class (\<lambda>c. is_alnum c \<or> c \<in> {46, 95, 43, 45}) 0 119 cs"
    by (cases s) (auto simp: token_pattern_def matches_head_class_def)
  have "0 \<notin> set s" using s by (auto simp: matches_class_def list_all_iff is_alnum_def char_class_defs)
  then show ?thesis using s by (simp add: sql_length_no_nul matches_class_def)
qed

lemma uuid_text_sql_length [simp]: "sql_length (uuid_to_text u) = 36"
proof -
  have "c = 45 \<or> is_lower_hex c" if "c \<in> set (uuid_to_text u)" for c
    using that set_hyphenate [of "uuid_hex u"] hex_digits_class
    unfolding uuid_to_text_def uuid_hex_def by blast
  then have "0 \<notin> set (uuid_to_text u)" by (force simp: char_class_defs)
  then show ?thesis by (simp add: sql_length_no_nul)
qed

lemma owner_key_row:
  assumes "folds_case U" "k \<noteq> []" "length k \<le> MAX_LOGIN_LENGTH" "normalize_login U (PyStr k) = Inr k"
  shows "check_passes (ck_owner_key (Some k))"
proof -
  have "list_all (\<lambda>c. \<not> is_forbidden_login_character c) (strip k)" "k = uni_casefold U (strip k)"
    using assms(4) by (auto simp: normalize_login_def Let_def list_ex_iff list_all_iff split: if_splits)
  then have k: "list_all (\<lambda>c. \<not> is_forbidden_login_character c \<and> \<not> is_upper c) k"
    using assms(1) by (metis folds_case_def)
  then have "x \<notin> set k" if "is_forbidden_login_character x" for x
    using that by (auto simp: list_all_iff)
  moreover have "is_forbidden_login_character 32" "is_forbidden_login_character 9"
      "is_forbidden_login_character 10" "is_forbidden_login_character 13" "is_forbidden_login_character 0"
    by (simp_all add: is_forbidden_login_character_def is_control_character_def is_space_def)
  ultimately have no: "32 \<notin> set k" "9 \<notin> set k" "10 \<notin> set k" "13 \<notin> set k" "0 \<notin> set k"
    by blast+
  have "ascii_lower k = k" using k by (intro ascii_lower_id) (simp add: list_all_iff)
  then show ?thesis
    using no assms(2,3) by (simp add: ck_owner_key_def sql_lower_def sql_length_no_nul MAX_LOGIN_LENGTH_def Suc_leI)
qed

lemma plain_sql_length: "list_all (\<lambda>c. c \<noteq> 0) s \<Longrightarrow> sql_length s = length s"
  by (rule sql_length_no_nul) (auto simp: list_all_iff)

lemma identity_row_checks_pass:
  assumes i: "all_checks (youtube_identity_checks U c) = Inr ()"
    and l: "all_checks (youtube_link_checks U c) = Inr ()"
  shows "list_all check_passes (youtube_identity_row_checks (values_from_claim c))
    \<longleftrightarrow> pred_option (\<lambda>k. check_passes (ck_owner_key (Some k))) (yc_created_by_login_key c)"
proof -
  have can: "canonicalize_youtube_url U (PyStr (yc_submitted_url c)) = Inr \<lparr>ysi_video_id = yc_youtube_video_id c,
         ysi_canonical_url = yc_canonical_url c, ysi_extractor_key = yc_extractor_key c\<rparr>"
    using i unfolding youtube_identity_iff by blast
  let ?i = "\<lparr>ysi_video_id = yc_youtube_video_id c,
         ysi_canonical_url = yc_canonical_url c, ysi_extractor_key = yc_extractor_key c\<rparr>"
  from can obtain s host parsed query where
      s: "PyStr (yc_submitted_url c) = PyStr s" "youtube_split U s = Some (host, parsed)"
      "video_id_pattern (ysi_video_id ?i)" "?i = \<lparr>ysi_video_id = ysi_video_id ?i,
        ysi_canonical_url = watch_url (ysi_video_id ?i), ysi_extractor_key = YOUTUBE_EXTRACTOR_KEY\<rparr>"
    by (rule canonicalize_Inr)
  have sp: "youtube_split U (yc_submitted_url c) = Some (host, parsed)" using s(1,2) by simp
  have vid: "video_id_pattern (yc_youtube_video_id c)" using s(3) by simp
  have eqs: "yc_canonical_url c = watch_url (yc_youtube_video_id c)" "yc_extractor_key c = YOUTUBE_EXTRACTOR_KEY"
    using s(4) by simp_all
  have url: "yc_submitted_url c \<noteq> []" "length (yc_submitted_url c) \<le> 2048" "\<not> has_control_character (yc_submitted_url c)"
    using sp by (auto simp: youtube_split_def MAX_SUBMITTED_URL_CODE_POINTS_def split: if_splits)
  have "0 \<notin> set (yc_submitted_url c)" using url(3) by (auto simp: has_control_character_def list_ex_iff is_cc_def)
  then have u: "1 \<le> sql_length (yc_submitted_url c)" "sql_length (yc_submitted_url c) \<le> 2048"
    using url by (simp_all add: sql_length_no_nul Suc_leI)
  have v: "sql_length (yc_youtube_video_id c) = 11"
      "not_glob_outside (\<lambda>c. is_alnum c \<or> c = 95 \<or> c = 45) (yc_youtube_video_id c)"
  proof -
    have l: "list_all is_video_char (yc_youtube_video_id c)" "length (yc_youtube_video_id c) = 11"
      using vid by (simp_all add: video_id_pattern_def matches_class_def)
    then have "0 \<notin> set (yc_youtube_video_id c)"
      by (auto simp: list_all_iff is_video_char_def is_alnum_def char_class_defs)
    then show "sql_length (yc_youtube_video_id c) = 11" using l by (simp add: sql_length_no_nul)
    show "not_glob_outside (\<lambda>c. is_alnum c \<or> c = 95 \<or> c = 45) (yc_youtube_video_id c)"
      using l by (simp add: not_glob_outside_def is_video_char_def list_all_iff)
  qed
  have src: "yc_acquisition_source c = AS_YOUTUBE_MANUAL_CLAIM" "yc_created_at_ms c \<le> yc_confirmed_at_ms c"
    using i unfolding youtube_identity_iff by blast+
  have retry: "check_passes (sql_or (sql_is_null x) (sql_test (\<lambda>i. sql_length i = 36 \<and> i \<noteq> uuid_to_text (yc_id c)) x))"
    if "x = map_option uuid_to_text y" "\<forall>i. y = Some i \<longrightarrow> is_uuid4 i \<and> i \<noteq> yc_id c" for x y
    using that by (cases y) simp_all
  have ids: "check_passes (sql_or (sql_is_null (map_option uuid_to_text x))
      (sql_test (\<lambda>i. sql_length i = 36) (map_option uuid_to_text x)))" for x
    by (cases x) simp_all
  have pair: "check_passes (sql_or (sql_and (sql_is_null (map_option uuid_to_text x)) (sql_is_null (map_option uuid_to_text y)))
      (sql_and (sql_test (\<lambda>i. sql_length i = 36) (map_option uuid_to_text x))
        (sql_test (\<lambda>i. sql_length i = 36) (map_option uuid_to_text y))))"
    if "x = None \<longleftrightarrow> y = None" for x y
    using that by (cases x; cases y) simp_all
  have links: "\<forall>i. yc_retry_of_claim_id c = Some i \<longrightarrow> is_uuid4 i \<and> i \<noteq> yc_id c"
      "\<forall>i. yc_resolved_claim_id c = Some i \<longrightarrow> is_uuid4 i \<and> i \<noteq> yc_id c"
      "yc_media_id c = None \<longleftrightarrow> yc_media_location_id c = None"
    using l unfolding youtube_link_iff by blast+
  have st: "youtube_state_value s \<in> set (map youtube_state_value youtube_states)" for s
    by (cases s) (simp_all add: youtube_states_def)
  have conf: "youtube_confirmation_value m = lit ''interactive'' \<or> youtube_confirmation_value m = lit ''yes_flag''" for m
    by (cases m) simp_all
  have own: "check_passes (ck_owner_key (yc_created_by_login_key c))
      \<longleftrightarrow> pred_option (\<lambda>k. check_passes (ck_owner_key (Some k))) (yc_created_by_login_key c)"
    by (cases "yc_created_by_login_key c") (simp_all add: ck_owner_key_def)
  show ?thesis
    unfolding youtube_identity_row_checks_def
    by (simp add: values_from_claim_def u v st conf ids pair [OF links(3)] own src eqs watch_url_def
        YOUTUBE_EXTRACTOR_KEY_def retry [OF refl links(1)] retry [OF refl links(2)]
        del: set_map youtube_state_value.simps One_nat_def)
qed

lemma glob_date_length: "glob_date s \<Longrightarrow> sql_length s = 10"
proof -
  assume g: "glob_date s"
  have "s ! i \<noteq> 0" if "i < 10" for i
  proof -
    have "i \<in> set [4, 7] \<or> i \<in> set [0, 1, 2, 3, 5, 6, 8, 9]" using that by auto
    then show ?thesis using g unfolding glob_date_def list_all_iff by (auto simp: is_digit_def)
  qed
  then have "0 \<notin> set s" using g by (auto simp: glob_date_def in_set_conv_nth)
  then show ?thesis using g by (simp add: sql_length_no_nul glob_date_def)
qed

lemma optional_length_advisory:
  "(\<forall>s. x = Some s \<longrightarrow> advisory_ok U n False s) \<Longrightarrow> check_passes (optional_length n x)"
  by (cases x) (use advisory_length in \<open>simp_all add: optional_length_def\<close>)

lemma optional_length_token:
  "(\<forall>s. x = Some s \<longrightarrow> token_pattern 119 s) \<Longrightarrow> check_passes (optional_length 120 x)"
  by (cases x) (use token_length in \<open>simp_all add: optional_length_def\<close>)

lemma provenance_row_checks_pass:
  assumes p: "all_checks (youtube_provenance_checks U c) = Inr ()"
    and i: "all_checks (youtube_identity_checks U c) = Inr ()"
  shows "list_all check_passes (youtube_provenance_row_checks (values_from_claim c))
    \<longleftrightarrow> pred_option (\<lambda>d. list_all (\<lambda>i. is_digit (d ! i)) [0, 1, 2, 3, 5, 6, 8, 9]) (yc_upstream_source_date c)
     \<and> pred_option (\<lambda>t. yc_created_at_ms c \<le> t) (yc_downloaded_at_ms c)
     \<and> pred_option (\<lambda>t. yc_created_at_ms c \<le> t) (yc_completed_at_ms c)"
proof -
  note ck = p [unfolded youtube_provenance_checks_def all_checks_Cons_Inr check_advisory_Inr check_token_Inr
      raise_if_Inr check_optional_non_negative_Inr MAX_UPSTREAM_TITLE_CODE_POINTS_def
      MAX_UPSTREAM_CHANNEL_CODE_POINTS_def MAX_UPSTREAM_CHANNEL_ID_CODE_POINTS_def
      MAX_REMOTE_FILENAME_CODE_POINTS_def]
  have adv: "check_passes (optional_length 500 (yc_upstream_title c))"
      "check_passes (optional_length 200 (yc_upstream_channel c))"
      "check_passes (optional_length 128 (yc_upstream_channel_id c))"
      "check_passes (optional_length 500 (yc_remote_filename c))"
    by (rule optional_length_advisory, use ck in blast)+
  have tok: "check_passes (optional_length 120 (yc_downloader_name c))"
      "check_passes (optional_length 120 (yc_downloader_version c))"
      "check_passes (optional_length 120 (yc_extractor_version c))"
      "check_passes (optional_length 120 (yc_selected_video_format_id c))"
      "check_passes (optional_length 120 (yc_selected_audio_format_id c))"
    by (rule optional_length_token, use ck in blast)+
  have pat: "pred_option (source_date_pattern U) (yc_upstream_source_date c)" using ck by blast
  have date: "check_passes (sql_or (sql_is_null (yc_upstream_source_date c))
        (sql_test (\<lambda>s. sql_length s = 10 \<and> glob_date s) (yc_upstream_source_date c)))
      \<longleftrightarrow> pred_option (\<lambda>d. list_all (\<lambda>i. is_digit (d ! i)) [0, 1, 2, 3, 5, 6, 8, 9]) (yc_upstream_source_date c)"
  proof (cases "yc_upstream_source_date c")
    case (Some d)
    then have "length d = 10" "d ! 4 = 45" "d ! 7 = 45" using pat by (simp_all add: source_date_pattern_def)
    then have "glob_date d \<longleftrightarrow> list_all (\<lambda>i. is_digit (d ! i)) [0, 1, 2, 3, 5, 6, 8, 9]" by (simp add: glob_date_def)
    then show ?thesis using Some glob_date_length [of d] by auto
  qed simp
  have at: "check_passes (sql_or (sql_is_null x) (sql_test (\<lambda>n. n \<ge> m) x)) \<longleftrightarrow> pred_option (\<lambda>t. m \<le> t) x"
    for x :: "int option" and m by (cases x) simp_all
  have size: "check_passes (sql_or (sql_is_null (yc_downloaded_size_bytes c))
      (sql_test (\<lambda>n. n > 0) (yc_downloaded_size_bytes c)))"
    using ck by (cases "yc_downloaded_size_bytes c") simp_all
  have key: "sql_length (yc_staging_key c) = 32 \<and> yc_staging_key c = sql_lower (yc_staging_key c)
      \<and> not_glob_outside is_lower_hex (yc_staging_key c)"
  proof -
    have k: "staging_key_pattern (yc_staging_key c)" using i unfolding youtube_identity_iff by blast
    then have l: "list_all is_lower_hex (yc_staging_key c)" "length (yc_staging_key c) = 32"
      by (simp_all add: staging_key_pattern_def matches_class_def)
    then have "list_all (\<lambda>x. \<not> is_upper x) (yc_staging_key c)" "0 \<notin> set (yc_staging_key c)"
      by (auto simp: list_all_iff char_class_defs)
    then show ?thesis using l by (simp add: sql_length_no_nul sql_lower_def ascii_lower_id not_glob_outside_def)
  qed
  have times: "0 \<le> yc_created_at_ms c \<and> yc_created_at_ms c \<le> yc_updated_at_ms c"
      "yc_generated_filename c = video_filename (yc_youtube_video_id c)"
    using i unfolding youtube_identity_iff by blast+
  show ?thesis
    unfolding youtube_provenance_row_checks_def
    by (simp only: list.pred_inject values_from_claim_simps adv tok date at size
        check_passes_Some eqTrueI [OF key] eqTrueI [OF times(1)] times(2) video_filename_def simp_thms)
qed

lemma outcome_row_checks_pass:
  assumes p: "all_checks (youtube_provenance_checks U c) = Inr ()"
    and l: "all_checks (youtube_link_checks U c) = Inr ()"
    and i: "all_checks (youtube_identity_checks U c) = Inr ()" and v: "validate_youtube_state_payload c = Inr ()"
  shows "list_all check_passes (youtube_outcome_row_checks (values_from_claim c))"
proof -
  note ck = p [unfolded youtube_provenance_checks_def all_checks_Cons_Inr raise_if_Inr]
  have pair: "(yc_failure_stage c = None) = (yc_failure_code c = None)"
      "pred_option claim_failure_code_pattern (yc_failure_code c)" using ck by blast+
  have stage: "youtube_failure_stage_value s \<in> set [lit ''configuration'', lit ''inspection'', lit ''download'',
            lit ''staging'', lit ''handoff'', lit ''downstream'', lit ''cleanup'', lit ''internal'']" for s
    by (cases s) simp_all
  have code: "1 \<le> sql_length s \<and> sql_length s \<le> 80 \<and> not_glob_outside (\<lambda>x. is_upper x \<or> is_digit x \<or> x = 95) s"
    if "claim_failure_code_pattern s" for s
  proof -
    have m: "list_all (\<lambda>x. is_upper x \<or> is_digit x \<or> x = 95) s" "1 \<le> length s" "length s \<le> 80"
      using that by (simp_all add: claim_failure_code_pattern_def matches_class_def)
    then have "0 \<notin> set s" by (auto simp: list_all_iff char_class_defs)
    then show ?thesis using m by (simp add: sql_length_no_nul not_glob_outside_def)
  qed
  let ?r = "values_from_claim c"
  have fail: "check_passes (sql_or (sql_and (sql_is_null (yr_failure_stage ?r)) (sql_is_null (yr_failure_code ?r)))
       (sql_and (sql_test (\<lambda>s. s \<in> set [lit ''configuration'', lit ''inspection'', lit ''download'',
            lit ''staging'', lit ''handoff'', lit ''downstream'', lit ''cleanup'', lit ''internal''])
            (yr_failure_stage ?r))
          (sql_test (\<lambda>c. 1 \<le> sql_length c \<and> sql_length c \<le> 80
             \<and> not_glob_outside (\<lambda>x. is_upper x \<or> is_digit x \<or> x = 95) c) (yr_failure_code ?r))))"
  proof (cases "yc_failure_stage c")
    case None
    then show ?thesis using pair by (simp add: values_from_claim_def)
  next
    case (Some s)
    then obtain code where "yc_failure_code c = Some code" using pair(1) by auto
    then show ?thesis
      using Some pair(2) code [of code] stage [of s]
      by (simp add: values_from_claim_def del: set_simps youtube_failure_stage_value.simps One_nat_def)
  qed
  have clean: "(yc_cleanup_state c = YC_CLEANUP_PENDING) = (yc_cleanup_completed_at_ms c = None)"
    using ck by (cases "yc_cleanup_state c") auto
  have clean_row: "yr_cleanup_state ?r \<in> {lit ''pending'', lit ''complete''}
       \<and> ((yr_cleanup_state ?r = lit ''pending'' \<and> yr_cleanup_completed_at_ms ?r = None)
         \<or> (yr_cleanup_state ?r = lit ''complete'' \<and> yr_cleanup_completed_at_ms ?r \<noteq> None))"
    using clean by (cases "yc_cleanup_state c") (simp_all add: values_from_claim_def)
  have version: "0 \<le> yr_version ?r" using i unfolding youtube_identity_iff by (simp add: values_from_claim_def)
  have state: "yr_state ?r = youtube_state_value (yc_state c)" by (simp add: values_from_claim_def)
  have media: "yc_media_id c = None \<longleftrightarrow> yc_media_location_id c = None" using l unfolding youtube_link_iff by blast
  note pay = v [unfolded youtube_payload_iff]
  have vals: "yr_downloaded_size_bytes ?r = yc_downloaded_size_bytes c"
      "yr_downloaded_at_ms ?r = yc_downloaded_at_ms c" "yr_completed_at_ms ?r = yc_completed_at_ms c"
      "yr_failure_code ?r = yc_failure_code c" "yr_catalog_removed_at_ms ?r = yc_catalog_removed_at_ms c"
      "yr_upload_id ?r = None \<longleftrightarrow> yc_upload_id c = None" "yr_media_id ?r = None \<longleftrightarrow> yc_media_id c = None"
      "yr_media_location_id ?r = None \<longleftrightarrow> yc_media_location_id c = None"
    by (simp_all add: values_from_claim_def)
  have mem: "yr_state ?r \<in> set [lit ''downloaded'', lit ''handoff'', lit ''handed_off'', lit ''cataloged'']
        \<longleftrightarrow> yc_state c \<in> {YS_DOWNLOADED, YS_HANDOFF, YS_HANDED_OFF, YS_CATALOGED}"
      "yr_state ?r \<in> set [lit ''handed_off'', lit ''cataloged''] \<longleftrightarrow> yc_state c \<in> {YS_HANDED_OFF, YS_CATALOGED}"
      "yr_state ?r = lit ''cataloged'' \<longleftrightarrow> yc_state c = YS_CATALOGED"
      "yr_state ?r = lit ''duplicate_resolved'' \<longleftrightarrow> yc_state c = YS_DUPLICATE_RESOLVED"
      "yr_state ?r = lit ''catalog_removed'' \<longleftrightarrow> yc_state c = YS_CATALOG_REMOVED"
      "yr_state ?r = lit ''failed'' \<longleftrightarrow> yc_state c = YS_FAILED"
      "yr_state ?r \<in> set [lit ''cataloged'', lit ''duplicate_resolved'', lit ''catalog_removed'', lit ''failed'']
        \<longleftrightarrow> yc_state c \<in> set TERMINAL_YOUTUBE_ACQUISITION_STATES"
    unfolding state by (cases "yc_state c"; simp add: lit_def TERMINAL_YOUTUBE_ACQUISITION_STATES_def)+
  have down: "yc_state c \<in> {YS_DOWNLOADED, YS_HANDOFF, YS_HANDED_OFF, YS_CATALOGED} \<Longrightarrow>
      yc_downloaded_size_bytes c \<noteq> None \<and> yc_downloaded_at_ms c \<noteq> None"
    and hand: "yc_state c \<in> {YS_HANDED_OFF, YS_CATALOGED} \<Longrightarrow> yc_upload_id c \<noteq> None"
    and live: "yc_state c \<in> {YS_CATALOGED, YS_DUPLICATE_RESOLVED} \<Longrightarrow> yc_media_id c \<noteq> None"
    and compl: "yc_completed_at_ms c \<noteq> None \<longleftrightarrow> yc_state c \<in> set TERMINAL_YOUTUBE_ACQUISITION_STATES"
    and failed: "yc_failure_code c \<noteq> None \<longleftrightarrow> yc_state c = YS_FAILED"
    and removed: "yc_catalog_removed_at_ms c \<noteq> None \<longleftrightarrow> yc_state c = YS_CATALOG_REMOVED"
    and gone: "yc_state c = YS_CATALOG_REMOVED \<Longrightarrow> yc_media_id c = None
         \<and> the (yc_completed_at_ms c) \<le> the (yc_catalog_removed_at_ms c)"
    using pay by blast+
  have removal: "(case (yc_catalog_removed_at_ms c, yc_completed_at_ms c) of (Some a, Some b) \<Rightarrow> Some (a \<ge> b) | _ \<Rightarrow> None)
      = Some True" if "yc_state c = YS_CATALOG_REMOVED"
  proof -
    have "yc_state c \<in> set TERMINAL_YOUTUBE_ACQUISITION_STATES"
      using that by (simp add: TERMINAL_YOUTUBE_ACQUISITION_STATES_def)
    then have "yc_catalog_removed_at_ms c \<noteq> None" "yc_completed_at_ms c \<noteq> None"
      using that removed compl by simp_all
    then obtain a b where "yc_catalog_removed_at_ms c = Some a" "yc_completed_at_ms c = Some b" by auto
    then show ?thesis using gone [OF that] by simp
  qed
  have terminal: "check_passes (sql_any [
       Some (yc_state c = YS_CATALOGED \<and> yc_media_id c \<noteq> None \<and> yc_media_location_id c \<noteq> None
         \<and> yc_completed_at_ms c \<noteq> None \<and> yc_failure_code c = None \<and> yc_catalog_removed_at_ms c = None),
       Some (yc_state c = YS_DUPLICATE_RESOLVED \<and> yc_media_id c \<noteq> None
         \<and> yc_media_location_id c \<noteq> None \<and> yc_completed_at_ms c \<noteq> None \<and> yc_failure_code c = None
         \<and> yc_catalog_removed_at_ms c = None),
       sql_and (Some (yc_state c = YS_CATALOG_REMOVED \<and> yc_media_id c = None
           \<and> yc_media_location_id c = None \<and> yc_completed_at_ms c \<noteq> None
           \<and> yc_catalog_removed_at_ms c \<noteq> None))
         (sql_and (case (yc_catalog_removed_at_ms c, yc_completed_at_ms c) of
             (Some a, Some b) \<Rightarrow> Some (a \<ge> b) | _ \<Rightarrow> None)
           (Some (yc_failure_code c = None))),
       Some (yc_state c = YS_FAILED \<and> yc_failure_code c \<noteq> None \<and> yc_completed_at_ms c \<noteq> None
         \<and> yc_catalog_removed_at_ms c = None),
       Some (yc_state c \<notin> set TERMINAL_YOUTUBE_ACQUISITION_STATES
         \<and> yc_completed_at_ms c = None \<and> yc_failure_code c = None
         \<and> yc_catalog_removed_at_ms c = None)])" (is "check_passes (sql_any [?a, ?b, ?c, ?d, ?e])")
  proof -
    consider "yc_state c = YS_CATALOGED" | "yc_state c = YS_DUPLICATE_RESOLVED" | "yc_state c = YS_CATALOG_REMOVED"
      | "yc_state c = YS_FAILED" | "yc_state c \<notin> set TERMINAL_YOUTUBE_ACQUISITION_STATES"
      by (auto simp: TERMINAL_YOUTUBE_ACQUISITION_STATES_def)
    then show ?thesis
    proof cases
      case 1
      have "yc_media_id c \<noteq> None" using live 1 by blast
      moreover have "yc_completed_at_ms c \<noteq> None" unfolding compl 1 by (simp add: TERMINAL_YOUTUBE_ACQUISITION_STATES_def)
      ultimately have "?a = Some True" using 1 media failed removed by simp
      then show ?thesis by simp
    next
      case 2
      have "yc_media_id c \<noteq> None" using live 2 by blast
      moreover have "yc_completed_at_ms c \<noteq> None" unfolding compl 2 by (simp add: TERMINAL_YOUTUBE_ACQUISITION_STATES_def)
      ultimately have "?b = Some True" using 2 media failed removed by simp
      then show ?thesis by simp
    next
      case 3
      have "yc_completed_at_ms c \<noteq> None" unfolding compl 3 by (simp add: TERMINAL_YOUTUBE_ACQUISITION_STATES_def)
      then have "?c = Some True" using 3 media failed removed gone [OF 3] removal [OF 3] by simp
      then show ?thesis by simp
    next
      case 4
      have "yc_completed_at_ms c \<noteq> None" unfolding compl 4 by (simp add: TERMINAL_YOUTUBE_ACQUISITION_STATES_def)
      then have "?d = Some True" using 4 failed removed by simp
      then show ?thesis by simp
    next
      case 5
      then have "yc_state c \<noteq> YS_FAILED" "yc_state c \<noteq> YS_CATALOG_REMOVED"
        by (auto simp: TERMINAL_YOUTUBE_ACQUISITION_STATES_def)
      then have "?e = Some True" using 5 compl failed removed by simp
      then show ?thesis by simp
    qed
  qed
  show ?thesis
    unfolding youtube_outcome_row_checks_def list.pred_inject check_passes_Some
  proof (intro conjI fail clean_row [THEN conjunct1] clean_row [THEN conjunct2] version)
    show "yr_state ?r \<in> set [lit ''downloaded'', lit ''handoff'', lit ''handed_off'', lit ''cataloged'']
         \<and> yr_downloaded_size_bytes ?r \<noteq> None \<and> yr_downloaded_at_ms ?r \<noteq> None
       \<or> yr_state ?r \<notin> set [lit ''downloaded'', lit ''handoff'', lit ''handed_off'', lit ''cataloged'']"
      unfolding mem vals using down by blast
    show "yr_state ?r \<in> set [lit ''handed_off'', lit ''cataloged''] \<and> yr_upload_id ?r \<noteq> None
       \<or> yr_state ?r \<notin> set [lit ''handed_off'', lit ''cataloged'']"
      unfolding mem vals using hand by blast
  qed (use terminal in \<open>simp_all only: mem vals simp_thms list.pred_inject\<close>)
qed

text \<open>The table takes the row of a valid claim exactly when the extra conditions hold.\<close>

lemma claim_row_ok_iff:
  assumes "folds_case U" and "youtube_claim_post_init U c = Inr ()"
  shows "youtube_row_ok (values_from_claim c) \<longleftrightarrow> claim_row_extra c"
proof -
  have parts: "all_checks (youtube_identity_checks U c) = Inr ()" "all_checks (youtube_link_checks U c) = Inr ()"
      "all_checks (youtube_provenance_checks U c) = Inr ()" "validate_youtube_state_payload c = Inr ()"
    using assms(2) by (simp_all add: youtube_post_init_parts)
  have own: "pred_option (\<lambda>k. check_passes (ck_owner_key (Some k))) (yc_created_by_login_key c)"
  proof (cases "yc_created_by_login_key c")
    case (Some k)
    then have "k \<noteq> []" "length k \<le> MAX_LOGIN_LENGTH" "normalize_login U (PyStr k) = Inr k"
      using parts(2) unfolding youtube_link_iff by blast+
    then show ?thesis using owner_key_row [OF assms(1)] Some by simp
  qed simp
  show ?thesis
    unfolding youtube_row_ok_def list_all_append identity_row_checks_pass [OF parts(1,2)]
      provenance_row_checks_pass [OF parts(3,1)] claim_row_extra_def
    using outcome_row_checks_pass [OF parts(3,2,1,4)] own by blast
qed

end
