(* ===== verification/Keyed_Rows.thy ===== *)
theory Keyed_Rows
  imports Sql_Tables Identities
begin

text \<open>
  Tables whose rows have a primary key, constraints of their own and constraints between
  rows with different keys (UNIQUE constraints and unique indexes).  The interface
  \<open>keyed_rows\<close> says what such a table keeps when a row is inserted or replaced.
\<close>

definition keyed_rows_ok :: "('r \<Rightarrow> 'k) \<Rightarrow> ('r \<Rightarrow> bool) \<Rightarrow> ('r \<Rightarrow> 'r \<Rightarrow> bool) \<Rightarrow> 'r list \<Rightarrow> bool" where
  "keyed_rows_ok key row_ok clash rows \<longleftrightarrow> distinct (map key rows) \<and> list_all row_ok rows
     \<and> list_all (\<lambda>r. list_all (\<lambda>s. key s = key r \<or> \<not> clash r s) rows) rows"

lemma keyed_rows_okI:
  assumes "distinct (map key rows)" and "\<And>r. r \<in> set rows \<Longrightarrow> row_ok r"
    and "\<And>r s. r \<in> set rows \<Longrightarrow> s \<in> set rows \<Longrightarrow> key s \<noteq> key r \<Longrightarrow> \<not> clash r s"
  shows "keyed_rows_ok key row_ok clash rows"
  using assms by (auto simp: keyed_rows_ok_def list_all_iff)

lemma keyed_rows_okD:
  assumes "keyed_rows_ok key row_ok clash rows"
  shows "distinct (map key rows)" and "r \<in> set rows \<Longrightarrow> row_ok r"
    and "r \<in> set rows \<Longrightarrow> s \<in> set rows \<Longrightarrow> clash r s \<Longrightarrow> key s = key r"
  using assms by (auto simp: keyed_rows_ok_def list_all_iff)

lemma keyed_rows_ok_Nil [simp]: "keyed_rows_ok key row_ok clash []"
  by (simp add: keyed_rows_ok_def)

locale keyed_rows =
  fixes key :: "'r \<Rightarrow> 'k"
    and row_ok :: "'r \<Rightarrow> bool"
    and clash :: "'r \<Rightarrow> 'r \<Rightarrow> bool"
  assumes clash_sym: "clash r s \<Longrightarrow> clash s r"
begin

lemma insert_keeps:
  assumes "keyed_rows_ok key row_ok clash rows" and "row_ok r" and "key r \<notin> set (map key rows)"
    and "list_all (\<lambda>s. key s = key r \<or> \<not> clash r s) rows"
  shows "keyed_rows_ok key row_ok clash (rows @ [r])"
proof (rule keyed_rows_okI)
  show "distinct (map key (rows @ [r]))" using assms(1,3) by (simp add: keyed_rows_ok_def)
  show "row_ok s" if "s \<in> set (rows @ [r])" for s
    using that assms(2) keyed_rows_okD(2) [OF assms(1)] by auto
  have new: "\<not> clash r s" if "s \<in> set rows" for s
  proof -
    have "key s \<noteq> key r" using that assms(3) by (metis image_eqI list.set_map)
    then show ?thesis using that assms(4) by (auto simp: list_all_iff)
  qed
  show "\<not> clash s t" if "s \<in> set (rows @ [r])" "t \<in> set (rows @ [r])" "key t \<noteq> key s" for s t
    using that new keyed_rows_okD(3) [OF assms(1), of s t] clash_sym [of s t] by auto
qed

lemma replace_keeps:
  assumes "keyed_rows_ok key row_ok clash rows" and "row_ok r"
    and "list_all (\<lambda>s. key s = key r \<or> \<not> clash r s) rows"
  shows "keyed_rows_ok key row_ok clash (map (\<lambda>s. if key s = key r \<and> g s then r else s) rows)"
proof (rule keyed_rows_okI)
  let ?f = "\<lambda>s. if key s = key r \<and> g s then r else s"
  have k: "key (?f s) = key s" for s by simp
  then have "map key (map ?f rows) = map key rows" by simp
  then show "distinct (map key (map ?f rows))" using keyed_rows_okD(1) [OF assms(1)] by metis
  show "row_ok s" if "s \<in> set (map ?f rows)" for s
    using that assms(2) keyed_rows_okD(2) [OF assms(1)] by (auto split: if_splits)
  have new: "\<not> clash r s" if "s \<in> set rows" "key s \<noteq> key r" for s
    using that assms(3) by (force simp: list_all_iff)
  show "\<not> clash s t" if st: "s \<in> set (map ?f rows)" "t \<in> set (map ?f rows)" "key t \<noteq> key s" for s t
  proof -
    obtain s' t' where o: "s' \<in> set rows" "s = ?f s'" "t' \<in> set rows" "t = ?f t'" using st(1,2) by auto
    have n: "key t' \<noteq> key s'" using st(3) o k by metis
    show ?thesis
      using o n new [OF o(1)] new [OF o(3)] keyed_rows_okD(3) [OF assms(1) o(1,3)] clash_sym [of s t]
      by (cases "key s' = key r \<and> g s'"; cases "key t' = key r \<and> g t'") auto
  qed
qed

end

text \<open>What a search finds after the change.\<close>

lemma find_after_insert:
  assumes "key r \<notin> set (map key rows)"
  shows "find (\<lambda>x. key x = k) (rows @ [r]) = (if k = key r then Some r else find (\<lambda>x. key x = k) rows)"
  using assms by (induction rows) auto

lemma find_after_replace:
  assumes "distinct (map key rows)" and "key r = k"
  shows "find (\<lambda>x. key x = k') (map (\<lambda>x. if key x = k \<and> g x then r else x) rows) =
     (case find (\<lambda>x. key x = k') rows of None \<Rightarrow> None
      | Some s \<Rightarrow> Some (if key s = k \<and> g s then r else s))"
  using assms by (induction rows) auto

lemma count_key_unique:
  assumes "distinct (map key rows)"
  shows "length (filter (\<lambda>x. key x = k \<and> g x) rows)
    = (case find (\<lambda>x. key x = k) rows of None \<Rightarrow> 0 | Some r \<Rightarrow> if g r then 1 else 0)"
proof (cases "find (\<lambda>x. key x = k) rows")
  case None
  then have "filter (\<lambda>x. key x = k \<and> g x) rows = []" by (auto simp: find_None_iff filter_empty_conv)
  then show ?thesis using None by (simp only: list.size option.case)
next
  case (Some r)
  then show ?thesis using filter_key_unique [OF assms Some] by simp
qed

text \<open>\<open>ORDER BY key DESC LIMIT n\<close>.\<close>

definition sql_order_desc_limit :: "('r \<Rightarrow> 'k::linorder) \<Rightarrow> int \<Rightarrow> 'r list \<Rightarrow> 'r list" where
  "sql_order_desc_limit key limit rows = take (nat limit) (rev (sort_key key rows))"

text \<open>Sorting by a key without ties: the tail after an element is the sorted list of what
  follows it, so a keyset cursor resumes where the page before it ended.\<close>

lemma filter_greater_drop:
  assumes "sorted (map key xs)" and "distinct (map key xs)" and "n < length xs"
  shows "filter (\<lambda>x. (key (xs ! n) :: 'k::linorder) < key x) xs = drop (Suc n) xs"
  using assms
proof (induction xs arbitrary: n)
  case Nil
  then show ?case by simp
next
  case (Cons x xs)
  show ?case
  proof (cases n)
    case 0
    have "key x < key y" if "y \<in> set xs" for y
      using Cons.prems(1,2) that by (auto simp: order.strict_iff_order rev_image_eqI)
    then show ?thesis using 0 by simp
  next
    case (Suc m)
    have "xs ! m \<in> set xs" using Cons.prems(3) Suc by simp
    then have "\<not> key (xs ! m) < key x" using Cons.prems(1) by (auto simp: not_less)
    then show ?thesis using Cons.IH [of m] Cons.prems Suc by simp
  qed
qed

lemma filter_less_take:
  assumes "sorted (map key xs)" and "distinct (map key xs)" and "n < length xs"
  shows "filter (\<lambda>x. key x < (key (xs ! n) :: 'k::linorder)) xs = take n xs"
  using assms
proof (induction xs arbitrary: n)
  case Nil
  then show ?case by simp
next
  case (Cons x xs)
  show ?case
  proof (cases n)
    case 0
    have "\<not> key y < key x" if "y \<in> set xs" for y
      using Cons.prems(1) that by (auto simp: not_less)
    then show ?thesis using 0 by simp
  next
    case (Suc m)
    have m: "xs ! m \<in> set xs" using Cons.prems(3) Suc by simp
    then have "key x < key (xs ! m)"
      using Cons.prems(1,2) by (auto simp: order.strict_iff_order rev_image_eqI)
    then show ?thesis using Cons.IH [of m] Cons.prems Suc by simp
  qed
qed

lemma insort_key_map: "insort_key k (f x) (map f xs) = map f (insort_key (\<lambda>y. k (f y)) x xs)"
  by (induction xs) simp_all

lemma sort_key_map: "sort_key k (map f xs) = map f (sort_key (\<lambda>y. k (f y)) xs)"
  by (induction xs) (simp_all add: insort_key_map)

section \<open>Tables of snapshots\<close>

text \<open>The snapshot a table stores under an identity.\<close>

definition stored_in :: "('r \<Rightarrow> pystr) \<Rightarrow> ('r \<Rightarrow> 'e + 'c) \<Rightarrow> 'r list \<Rightarrow> uuid \<Rightarrow> 'c option" where
  "stored_in key parse rows i =
     (case find (\<lambda>r. key r = uuid_to_text i) rows of
        None \<Rightarrow> None
      | Some r \<Rightarrow> (case parse r of Inl _ \<Rightarrow> None | Inr c \<Rightarrow> Some c))"

text \<open>
  Rows that read back as valid snapshots, one to one: inserting a snapshot and replacing one
  under a guard are updates of the map of stored snapshots.
\<close>

locale snapshot_table = keyed_rows key "\<lambda>r. table_ok r \<and> ok (parse r)" clash
  for key :: "'r \<Rightarrow> pystr" and table_ok :: "'r \<Rightarrow> bool" and parse :: "'r \<Rightarrow> 'e + 'c"
    and clash :: "'r \<Rightarrow> 'r \<Rightarrow> bool" +
  fixes print :: "'c \<Rightarrow> 'r" and valid :: "'c \<Rightarrow> bool" and ident :: "'c \<Rightarrow> uuid"
  assumes parse_iff: "parse r = Inr c \<longleftrightarrow> valid c \<and> r = print c"
    and key_print: "key (print c) = uuid_to_text (ident c)"
begin

lemma parse_print: "valid c \<Longrightarrow> parse (print c) = Inr c"
  by (simp add: parse_iff)

lemma ok_parse: "ok (parse r) \<longleftrightarrow> (\<exists>c. valid c \<and> r = print c)"
  by (simp add: ok_iff parse_iff)

lemma table_row:
  assumes "keyed_rows_ok key (\<lambda>r. table_ok r \<and> ok (parse r)) clash rows" and "r \<in> set rows"
  obtains c where "valid c" and "r = print c" and "table_ok (print c)"
  using keyed_rows_okD(2) [OF assms] by (auto simp: ok_parse)

lemma stored_iff:
  assumes t: "keyed_rows_ok key (\<lambda>r. table_ok r \<and> ok (parse r)) clash rows"
  shows "stored_in key parse rows i = Some c \<longleftrightarrow> valid c \<and> ident c = i \<and> print c \<in> set rows"
proof -
  note f = find_key_Some_iff [OF keyed_rows_okD(1) [OF t]]
  show ?thesis
  proof
    assume "stored_in key parse rows i = Some c"
    then obtain r where r: "find (\<lambda>r. key r = uuid_to_text i) rows = Some r" "parse r = Inr c"
      by (auto simp: stored_in_def split: option.splits sum.splits)
    then have "r = print c" "valid c" by (simp_all add: parse_iff)
    then show "valid c \<and> ident c = i \<and> print c \<in> set rows" using r(1) by (simp add: f key_print)
  next
    assume c: "valid c \<and> ident c = i \<and> print c \<in> set rows"
    then have "find (\<lambda>r. key r = uuid_to_text i) rows = Some (print c)" by (simp add: f key_print)
    then show "stored_in key parse rows i = Some c" using c by (simp add: stored_in_def parse_print)
  qed
qed

lemma find_stored:
  assumes t: "keyed_rows_ok key (\<lambda>r. table_ok r \<and> ok (parse r)) clash rows"
  shows "find (\<lambda>r. key r = uuid_to_text i) rows = map_option print (stored_in key parse rows i)"
proof (cases "find (\<lambda>r. key r = uuid_to_text i) rows")
  case (Some r)
  then have "r \<in> set rows" by (auto simp: find_Some_iff)
  then obtain c where "valid c" "r = print c" using table_row [OF t] by metis
  then show ?thesis using Some by (simp add: stored_in_def parse_print)
qed (simp add: stored_in_def)

lemma stored_insert:
  assumes t: "keyed_rows_ok key (\<lambda>r. table_ok r \<and> ok (parse r)) clash rows" and v: "valid c"
    and n: "uuid_to_text (ident c) \<notin> set (map key rows)" and ok: "table_ok (print c)"
    and adm: "list_all (\<lambda>s. key s = key (print c) \<or> \<not> clash (print c) s) rows"
  shows "keyed_rows_ok key (\<lambda>r. table_ok r \<and> ok (parse r)) clash (rows @ [print c])"
    and "stored_in key parse (rows @ [print c]) = (stored_in key parse rows)(ident c \<mapsto> c)"
proof -
  show "keyed_rows_ok key (\<lambda>r. table_ok r \<and> ok (parse r)) clash (rows @ [print c])"
    using n ok v by (intro insert_keeps [OF t _ _ adm]) (simp_all add: key_print parse_print)
  show "stored_in key parse (rows @ [print c]) = (stored_in key parse rows)(ident c \<mapsto> c)"
    using find_after_insert [of key "print c" rows] n v
    by (intro ext) (simp add: stored_in_def key_print parse_print)
qed

text \<open>A guarded \<open>UPDATE\<close> of the row of \<open>c\<close> by \<open>c\<close> itself.\<close>

lemma stored_update:
  assumes t: "keyed_rows_ok key (\<lambda>r. table_ok r \<and> ok (parse r)) clash rows" and v: "valid c"
    and adm: "admissible (print c) \<Longrightarrow> table_ok (print c)
      \<and> list_all (\<lambda>s. key s = key (print c) \<or> \<not> clash (print c) s) rows"
    and hit: "hit \<longleftrightarrow> (\<exists>d. stored_in key parse rows (ident c) = Some d \<and> guard (print d))"
    and upd: "upd = sql_update admissible (\<lambda>r. key r = uuid_to_text (ident c) \<and> guard r) (\<lambda>_. print c) rows"
  shows "upd = None \<longleftrightarrow> hit \<and> \<not> admissible (print c)"
    and "upd = Some (rows', n) \<Longrightarrow> n = (if hit then 1 else 0)"
    and "upd = Some (rows', n) \<Longrightarrow> keyed_rows_ok key (\<lambda>r. table_ok r \<and> ok (parse r)) clash rows'"
    and "upd = Some (rows', n) \<Longrightarrow> \<not> hit \<Longrightarrow> rows' = rows"
    and "upd = Some (rows', n) \<Longrightarrow> stored_in key parse rows' =
      (if hit then (stored_in key parse rows)(ident c \<mapsto> c) else stored_in key parse rows)"
proof -
  note d = keyed_rows_okD(1) [OF t]
  let ?p = "\<lambda>r. key r = uuid_to_text (ident c) \<and> guard r"
  have f: "find (\<lambda>r. key r = uuid_to_text (ident c)) rows = map_option print (stored_in key parse rows (ident c))"
    by (rule find_stored [OF t])
  have hit': "hit \<longleftrightarrow> (\<exists>r \<in> set rows. ?p r)"
  proof -
    have "(\<exists>r \<in> set rows. ?p r) \<longleftrightarrow> (\<exists>r. find (\<lambda>r. key r = uuid_to_text (ident c)) rows = Some r \<and> guard r)"
      using find_key_Some_iff [OF d] by auto
    then show ?thesis unfolding f hit by (cases "stored_in key parse rows (ident c)") simp_all
  qed
  show none: "upd = None \<longleftrightarrow> hit \<and> \<not> admissible (print c)"
    using hit' by (auto simp: upd sql_update_def list_ex_iff)
  { assume "upd = Some (rows', n)"
    then have r: "rows' = map (\<lambda>r. if ?p r then print c else r) rows" "n = length (filter ?p rows)"
      by (auto simp: upd sql_update_def split: if_splits)
    have a: "hit \<Longrightarrow> admissible (print c)" using none \<open>upd = Some (rows', n)\<close> by blast
    show "n = (if hit then 1 else 0)"
      unfolding r(2) count_key_unique [OF d] f hit by (auto split: option.splits)
    show same: "\<not> hit \<Longrightarrow> rows' = rows"
      using hit' by (auto simp: r(1) intro!: map_idI)
    show "keyed_rows_ok key (\<lambda>r. table_ok r \<and> ok (parse r)) clash rows'"
    proof (cases hit)
      case True
      then show ?thesis
        unfolding r(1)
        using replace_keeps [OF t, of "print c" guard] adm a v by (simp add: key_print parse_print)
    qed (use same t in simp)
    show "stored_in key parse rows' =
      (if hit then (stored_in key parse rows)(ident c \<mapsto> c) else stored_in key parse rows)"
    proof (cases hit)
      case True
      then obtain e where e: "stored_in key parse rows (ident c) = Some e" "guard (print e)" using hit by blast
      have "stored_in key parse rows' i = (if i = ident c then Some c else stored_in key parse rows i)" for i
      proof -
        have g: "find (\<lambda>x. key x = uuid_to_text i) rows' = (case find (\<lambda>x. key x = uuid_to_text i) rows of None \<Rightarrow> None
          | Some s \<Rightarrow> Some (if key s = uuid_to_text (ident c) \<and> guard s then print c else s))"
          unfolding r(1) by (rule find_after_replace [OF d key_print])
        show ?thesis
        proof (cases "i = ident c")
          case True
          have "key (print e) = uuid_to_text (ident c)" using e(1) by (simp add: stored_iff [OF t] key_print)
          then have "find (\<lambda>x. key x = uuid_to_text i) rows' = Some (print c)" using g f e True by simp
          then show ?thesis using True v by (simp add: stored_in_def parse_print)
        next
          case False
          have "key s = uuid_to_text i" if "find (\<lambda>x. key x = uuid_to_text i) rows = Some s" for s
            using that by (auto simp: find_Some_iff)
          then have "find (\<lambda>x. key x = uuid_to_text i) rows' = find (\<lambda>x. key x = uuid_to_text i) rows"
            using g False by (auto split: option.splits)
          then show ?thesis using False by (simp add: stored_in_def)
        qed
      qed
      then show ?thesis using True by (intro ext) simp
    qed (use same in simp) }
qed

end

end
