(* ===== verification/Youtube_Claim_Repository.thy ===== *)
theory Youtube_Claim_Repository
  imports Youtube_Claim_Facts Keyed_Rows "HOL-Library.Option_ord" "HOL-Library.Product_Lexorder"
begin

text \<open>
  \<open>infrastructure/persistence/youtube_acquisition_claim_repository.py\<close>, every method, and the
  step of \<open>catalog_removal_repository.py\<close> that moves claims.  A method is a function from the
  tables to its outcome and the tables after its transaction.

  Inside a transaction an error is either an \<open>IntegrityError\<close> of the driver or an error the
  repository raised; each method's \<open>except\<close> clauses say what becomes of them.
\<close>

datatype claim_failure = IntegrityError | Raised youtube_repo_error

section \<open>Rows by key\<close>

definition claim_row_by_id :: "uuid \<Rightarrow> claims_db \<Rightarrow> youtube_row option" where
  "claim_row_by_id claim_id db = sql_first (\<lambda>r. yr_id r = uuid_to_text claim_id) (cd_claims db)"

definition active_row_by_source :: "pystr \<Rightarrow> pystr \<Rightarrow> pystr option \<Rightarrow> claims_db \<Rightarrow> youtube_row option" where
  "active_row_by_source extractor_key video_id created_by_login_key db = sql_first (\<lambda>r.
     yr_extractor_key r = extractor_key \<and> yr_youtube_video_id r = video_id
     \<and> yr_state r \<in> set ACTIVE_STATE_VALUES
     \<and> (case created_by_login_key of None \<Rightarrow> yr_created_by_login_key r = None
        | Some k \<Rightarrow> yr_created_by_login_key r = Some k)) (cd_claims db)"

text \<open>A row that is missing is no claim; a row that is there must be one.\<close>

definition claim_of_row :: "unicode_tables \<Rightarrow> youtube_row option \<Rightarrow> youtube_repo_error + youtube_claim option" where
  "claim_of_row U row = (case row of None \<Rightarrow> Inr None | Some r \<Rightarrow> and_then (claim_from_row U r) (\<lambda>c. Inr (Some c)))"

definition run_query :: "(claims_db \<Rightarrow> youtube_repo_error + 'a) \<Rightarrow> claims_db \<Rightarrow> (youtube_repo_error + 'a) \<times> claims_db" where
  "run_query query db = run_in_transaction (\<lambda>db. and_then (query db) (\<lambda>x. Inr (x, db))) db"

section \<open>Reading\<close>

definition get_claim :: "unicode_tables \<Rightarrow> uuid \<Rightarrow> claims_db \<Rightarrow> (youtube_repo_error + youtube_claim option) \<times> claims_db" where
  "get_claim U claim_id = run_query (\<lambda>db. claim_of_row U (claim_row_by_id claim_id db))"

definition find_active_by_source_identity ::
    "unicode_tables \<Rightarrow> pystr \<Rightarrow> pystr \<Rightarrow> pystr option \<Rightarrow> claims_db
     \<Rightarrow> (youtube_repo_error + youtube_claim option) \<times> claims_db" where
  "find_active_by_source_identity U extractor_key video_id created_by_login_key =
     run_query (\<lambda>db. claim_of_row U
       (active_row_by_source extractor_key video_id created_by_login_key db))"

definition successful_row :: "pystr \<Rightarrow> pystr \<Rightarrow> youtube_row \<Rightarrow> bool" where
  "successful_row extractor_key video_id r \<longleftrightarrow>
     yr_extractor_key r = extractor_key \<and> yr_youtube_video_id r = video_id
     \<and> yr_state r \<in> set SUCCESS_STATE_VALUES
     \<and> yr_media_id r \<noteq> None \<and> yr_media_location_id r \<noteq> None"

text \<open>\<open>ORDER BY completed_at_ms DESC, created_at_ms DESC, id DESC LIMIT 1\<close>; SQLite orders
  \<open>NULL\<close> before every value.\<close>

definition latest_row :: "youtube_row list \<Rightarrow> youtube_row option" where
  "latest_row rows = sql_first (\<lambda>_. True)
     (sql_order_desc_limit (\<lambda>r. (yr_completed_at_ms r, yr_created_at_ms r, yr_id r)) 1 rows)"

definition find_latest_cataloged_by_source_identity ::
    "unicode_tables \<Rightarrow> pystr \<Rightarrow> pystr \<Rightarrow> claims_db \<Rightarrow> (youtube_repo_error + youtube_claim option) \<times> claims_db" where
  "find_latest_cataloged_by_source_identity U extractor_key video_id =
     run_query (\<lambda>db. claim_of_row U (latest_row
       (filter (successful_row extractor_key video_id) (cd_claims db))))"

definition find_owned_live_successful_by_source_identity ::
    "unicode_tables \<Rightarrow> pystr \<Rightarrow> pystr \<Rightarrow> pystr \<Rightarrow> claims_db
     \<Rightarrow> (youtube_repo_error + youtube_claim option) \<times> claims_db" where
  "find_owned_live_successful_by_source_identity U extractor_key video_id created_by_login_key =
     run_query (\<lambda>db. claim_of_row U (latest_row
       (filter (\<lambda>r. successful_row extractor_key video_id r
          \<and> yr_created_by_login_key r = Some created_by_login_key) (cd_claims db))))"

text \<open>The join keeps the claims whose media is published (\<open>media_id\<close> is the key of
  \<open>media_content_publications\<close>), the anti-join drops those with a record.\<close>

definition find_published_successful_by_source_identity ::
    "unicode_tables \<Rightarrow> pystr \<Rightarrow> pystr \<Rightarrow> claims_db \<Rightarrow> (youtube_repo_error + youtube_claim option) \<times> claims_db" where
  "find_published_successful_by_source_identity U extractor_key video_id =
     run_query (\<lambda>db. claim_of_row U (latest_row
       (filter (\<lambda>r. (case yr_media_id r of None \<Rightarrow> False
             | Some m \<Rightarrow> m \<in> set (cd_media_content_publications db) \<and> m \<notin> set (cd_kronika_record_media db))
          \<and> successful_row extractor_key video_id r) (cd_claims db))))"

definition find_by_upload_id ::
    "unicode_tables \<Rightarrow> uuid \<Rightarrow> claims_db \<Rightarrow> (youtube_repo_error + youtube_claim option) \<times> claims_db" where
  "find_by_upload_id U upload_id = run_query (\<lambda>db. claim_of_row U
     (sql_first (\<lambda>r. yr_upload_id r = Some (uuid_to_text upload_id)) (cd_claims db)))"

definition get_owned ::
    "unicode_tables \<Rightarrow> uuid \<Rightarrow> pystr \<Rightarrow> claims_db \<Rightarrow> (youtube_repo_error + youtube_claim option) \<times> claims_db" where
  "get_owned U claim_id created_by_login_key = run_query (\<lambda>db.
     case claim_row_by_id claim_id db of
       None \<Rightarrow> Inr None
     | Some r \<Rightarrow> and_then (claim_from_row U r) (\<lambda>claim.
         if yc_created_by_login_key claim \<noteq> Some created_by_login_key then Inr None
         else Inr (Some claim)))"

section \<open>Listing\<close>

fun claim_limit_refused :: "pyobj \<Rightarrow> bool" where
  "claim_limit_refused (PyInt n) = (n \<le> 0 \<or> n > 1000)"
| "claim_limit_refused _ = True"

fun claim_cursor_refused :: "pyobj \<Rightarrow> pyobj \<Rightarrow> bool" where
  "claim_cursor_refused PyNone PyNone = False"
| "claim_cursor_refused (PyInt t) (PyStr i) = (t < 0 \<or> i = [])"
| "claim_cursor_refused _ _ = True"

text \<open>\<open>_validate_cursor\<close>; \<open>_validate_owned_cursor\<close> makes the same tests.\<close>

definition validate_claim_cursor :: "pyobj \<Rightarrow> pyobj \<Rightarrow> pyobj \<Rightarrow> youtube_repo_error + unit" where
  "validate_claim_cursor limit after after_id =
     raise_if (claim_limit_refused limit \<or> claim_cursor_refused after after_id)
       FrameNestYouTubeClaimRepositoryError"

fun limit_int :: "pyobj \<Rightarrow> int" where
  "limit_int (PyInt n) = n"
| "limit_int _ = 0"

definition list_owned ::
    "unicode_tables \<Rightarrow> pystr \<Rightarrow> pyobj \<Rightarrow> pyobj \<Rightarrow> pyobj \<Rightarrow> claims_db
     \<Rightarrow> (youtube_repo_error + youtube_claim list) \<times> claims_db" where
  "list_owned U created_by_login_key limit after_created_at_ms after_id db =
     (case validate_claim_cursor limit after_created_at_ms after_id of
        Inl e \<Rightarrow> (Inl e, db)
      | Inr _ \<Rightarrow> run_query (\<lambda>db. map_results (claim_from_row U)
          (sql_order_desc_limit (\<lambda>r. (yr_created_at_ms r, yr_id r)) (limit_int limit)
             (filter (\<lambda>r. yr_created_by_login_key r = Some created_by_login_key
                \<and> (case (after_created_at_ms, after_id) of
                     (PyInt t, PyStr i) \<Rightarrow>
                       yr_created_at_ms r < t \<or> (yr_created_at_ms r = t \<and> yr_id r < i)
                   | _ \<Rightarrow> True)) (cd_claims db)))) db)"

definition list_recovery_candidates ::
    "unicode_tables \<Rightarrow> pyobj \<Rightarrow> pyobj \<Rightarrow> pyobj \<Rightarrow> claims_db
     \<Rightarrow> (youtube_repo_error + youtube_claim list) \<times> claims_db" where
  "list_recovery_candidates U limit after_updated_at_ms after_id db =
     (case validate_claim_cursor limit after_updated_at_ms after_id of
        Inl e \<Rightarrow> (Inl e, db)
      | Inr _ \<Rightarrow> run_query (\<lambda>db. map_results (claim_from_row U)
          (sql_order_limit (\<lambda>r. (yr_updated_at_ms r, yr_id r)) (limit_int limit)
             (filter (\<lambda>r. yr_state r \<in> set ACTIVE_STATE_VALUES
                \<and> (case (after_updated_at_ms, after_id) of
                     (PyInt t, PyStr i) \<Rightarrow>
                       yr_updated_at_ms r > t \<or> (yr_updated_at_ms r = t \<and> yr_id r > i)
                   | _ \<Rightarrow> True)) (cd_claims db)))) db)"

definition list_cleanup_candidates ::
    "unicode_tables \<Rightarrow> pyobj \<Rightarrow> claims_db \<Rightarrow> (youtube_repo_error + youtube_claim list) \<times> claims_db" where
  "list_cleanup_candidates U limit db =
     (case validate_claim_cursor limit PyNone PyNone of
        Inl e \<Rightarrow> (Inl e, db)
      | Inr _ \<Rightarrow> run_query (\<lambda>db. map_results (claim_from_row U)
          (sql_order_limit (\<lambda>r. (yr_updated_at_ms r, yr_id r)) (limit_int limit)
             (filter (\<lambda>r. yr_state r \<in> set (SUCCESS_STATE_VALUES @ [youtube_state_value YS_FAILED])
                \<and> yr_cleanup_state r = youtube_cleanup_state_value YC_CLEANUP_PENDING) (cd_claims db)))) db)"

section \<open>Counting\<close>

definition count_rows :: "(youtube_row \<Rightarrow> bool) \<Rightarrow> claims_db \<Rightarrow> (youtube_repo_error + int) \<times> claims_db" where
  "count_rows p = run_query (\<lambda>db. Inr (int (length (filter p (cd_claims db)))))"

definition count_active_for_requester :: "pystr \<Rightarrow> claims_db \<Rightarrow> (youtube_repo_error + int) \<times> claims_db" where
  "count_active_for_requester created_by_login_key = count_rows (\<lambda>r.
     yr_created_by_login_key r = Some created_by_login_key \<and> yr_state r \<in> set ACTIVE_STATE_VALUES)"

definition count_global_active_ordinary :: "claims_db \<Rightarrow> (youtube_repo_error + int) \<times> claims_db" where
  "count_global_active_ordinary = count_rows (\<lambda>r.
     yr_created_by_login_key r \<noteq> None \<and> yr_state r \<in> set ACTIVE_STATE_VALUES)"

definition count_submits_since :: "pystr \<Rightarrow> int \<Rightarrow> claims_db \<Rightarrow> (youtube_repo_error + int) \<times> claims_db" where
  "count_submits_since created_by_login_key since_ms = count_rows (\<lambda>r.
     yr_created_by_login_key r = Some created_by_login_key \<and> yr_created_at_ms r \<ge> since_ms)"

definition count_failed_transitions_since :: "pystr \<Rightarrow> int \<Rightarrow> claims_db \<Rightarrow> (youtube_repo_error + int) \<times> claims_db" where
  "count_failed_transitions_since created_by_login_key since_ms = count_rows (\<lambda>r.
     yr_created_by_login_key r = Some created_by_login_key \<and> yr_state r = youtube_state_value YS_FAILED
     \<and> (case yr_completed_at_ms r of None \<Rightarrow> False | Some t \<Rightarrow> t \<ge> since_ms))"

fun add_sizes :: "int \<Rightarrow> int option list \<Rightarrow> int" where
  "add_sizes aggregate [] = aggregate"
| "add_sizes aggregate (None # rows) = add_sizes aggregate rows"
| "add_sizes aggregate (Some n # rows) = add_sizes (aggregate + n) rows"

definition private_successful_quota :: "pystr \<Rightarrow> claims_db \<Rightarrow> (youtube_repo_error + int \<times> int) \<times> claims_db" where
  "private_successful_quota created_by_login_key = run_query (\<lambda>db.
     let rows = filter (\<lambda>r. yr_created_by_login_key r = Some created_by_login_key
             \<and> yr_state r \<in> set SUCCESS_STATE_VALUES \<and> yr_media_id r \<noteq> None
             \<and> (case yr_media_id r of None \<Rightarrow> True
                | Some m \<Rightarrow> m \<notin> set (cd_media_content_publications db))) (cd_claims db)
     in Inr (int (length rows), add_sizes 0 (map yr_downloaded_size_bytes rows)))"

definition has_live_requester_media_access :: "uuid \<Rightarrow> pystr \<Rightarrow> claims_db \<Rightarrow> (youtube_repo_error + bool) \<times> claims_db" where
  "has_live_requester_media_access media_id login_key = run_query (\<lambda>db. Inr (
     sql_first (\<lambda>r. yr_media_id r = Some (uuid_to_text media_id)
       \<and> yr_created_by_login_key r = Some login_key
       \<and> yr_state r \<in> set SUCCESS_STATE_VALUES) (cd_claims db) \<noteq> None))"

section \<open>Writing\<close>

definition insert_claim_row :: "youtube_row \<Rightarrow> claims_db \<Rightarrow> claim_failure + claims_db" where
  "insert_claim_row row db =
     (if yr_id row \<in> set (map yr_id (cd_claims db)) \<or> \<not> youtube_row_admissible db row
      then Inl IntegrityError
      else Inr (db\<lparr>cd_claims := cd_claims db @ [row]\<rparr>))"

definition create_or_get_active_in ::
    "unicode_tables \<Rightarrow> youtube_claim \<Rightarrow> claims_db \<Rightarrow> claim_failure + (youtube_claim \<times> bool) \<times> claims_db" where
  "create_or_get_active_in U claim db =
     (if claim_row_by_id (yc_id claim) db \<noteq> None then Inl (Raised YouTubeClaimAlreadyExistsError)
      else case active_row_by_source (yc_extractor_key claim) (yc_youtube_video_id claim)
                  (yc_created_by_login_key claim) db of
        Some active \<Rightarrow> and_then (rescue Raised (claim_from_row U active)) (\<lambda>winner. Inr ((winner, False), db))
      | None \<Rightarrow> and_then (insert_claim_row (values_from_claim claim) db) (\<lambda>db'. Inr ((claim, True), db')))"

text \<open>
  After an \<open>IntegrityError\<close> the active claim is looked up in a second transaction, which may
  find the changes other connections committed in between: \<open>reread\<close> gives the tables it sees.
\<close>

definition create_or_get_active ::
    "unicode_tables \<Rightarrow> (claims_db \<Rightarrow> claims_db) \<Rightarrow> youtube_claim \<Rightarrow> claims_db
     \<Rightarrow> (youtube_repo_error + youtube_claim \<times> bool) \<times> claims_db" where
  "create_or_get_active U reread claim db =
     (if yc_state claim \<noteq> YS_CLAIMED then (Inl FrameNestYouTubeClaimRepositoryError, db)
      else case run_in_immediate_transaction (create_or_get_active_in U claim) db of
        (Inr result, db') \<Rightarrow> (Inr result, db')
      | (Inl (Raised e), db') \<Rightarrow> (Inl e, db')
      | (Inl IntegrityError, db') \<Rightarrow>
          (case find_active_by_source_identity U (yc_extractor_key claim) (yc_youtube_video_id claim)
                  (yc_created_by_login_key claim) (reread db') of
             (Inr (Some existing), db'') \<Rightarrow> (Inr (existing, False), db'')
           | (_, db'') \<Rightarrow> (Inl FrameNestYouTubeClaimRepositoryError, db'')))"

definition create_claim_in :: "youtube_claim \<Rightarrow> claims_db \<Rightarrow> claim_failure + unit \<times> claims_db" where
  "create_claim_in claim db =
     (if claim_row_by_id (yc_id claim) db \<noteq> None then Inl (Raised YouTubeClaimAlreadyExistsError)
      else if active_row_by_source (yc_extractor_key claim) (yc_youtube_video_id claim)
                (yc_created_by_login_key claim) db \<noteq> None
      then Inl (Raised YouTubeClaimSourceIdentityConflictError)
      else and_then (insert_claim_row (values_from_claim claim) db) (\<lambda>db'. Inr ((), db')))"

fun claim_error_or :: "youtube_repo_error \<Rightarrow> claim_failure \<Rightarrow> youtube_repo_error" where
  "claim_error_or e IntegrityError = e"
| "claim_error_or _ (Raised e) = e"

definition create_claim :: "youtube_claim \<Rightarrow> claims_db \<Rightarrow> (youtube_repo_error + unit) \<times> claims_db" where
  "create_claim claim db = map_prod (rescue (claim_error_or FrameNestYouTubeClaimRepositoryError)) id
     (run_in_immediate_transaction (create_claim_in claim) db)"

fun expected_version_refused :: "pyobj \<Rightarrow> youtube_claim \<Rightarrow> bool" where
  "expected_version_refused (PyInt n) claim = (n < 0 \<or> yc_version claim \<noteq> n + 1)"
| "expected_version_refused _ _ = True"

definition save_claim_in ::
    "unicode_tables \<Rightarrow> youtube_claim \<Rightarrow> youtube_state \<Rightarrow> int \<Rightarrow> claims_db
     \<Rightarrow> claim_failure + youtube_claim \<times> claims_db" where
  "save_claim_in U claim expected_state expected_version db =
     (case sql_update (youtube_row_admissible db)
             (\<lambda>r. yr_id r = uuid_to_text (yc_id claim)
                \<and> (yr_state r = youtube_state_value expected_state \<and> yr_version r = expected_version))
             (\<lambda>_. values_from_claim claim) (cd_claims db) of
        None \<Rightarrow> Inl IntegrityError
      | Some (rows, rowcount) \<Rightarrow>
          if rowcount = 1 then Inr (claim, db\<lparr>cd_claims := rows\<rparr>)
          else case claim_row_by_id (yc_id claim) (db\<lparr>cd_claims := rows\<rparr>) of
            None \<Rightarrow> Inl (Raised YouTubeClaimNotFoundError)
          | Some r \<Rightarrow> and_then (rescue Raised (claim_from_row U r)) (\<lambda>current.
              if current = claim then Inr (current, db\<lparr>cd_claims := rows\<rparr>)
              else Inl (Raised YouTubeClaimConcurrencyConflictError)))"

definition save_claim ::
    "unicode_tables \<Rightarrow> youtube_claim \<Rightarrow> youtube_state \<Rightarrow> pyobj \<Rightarrow> claims_db
     \<Rightarrow> (youtube_repo_error + youtube_claim) \<times> claims_db" where
  "save_claim U claim expected_state expected_version db =
     (if expected_version_refused expected_version claim
      then (Inl YouTubeClaimConcurrencyConflictError, db)
      else if yc_state claim \<noteq> expected_state
        \<and> ensure_youtube_transition_allowed expected_state (yc_state claim) \<noteq> Inr ()
      then (Inl YouTubeClaimConcurrencyConflictError, db)
      else map_prod (rescue (claim_error_or YouTubeClaimSourceIdentityConflictError)) id
        (run_in_immediate_transaction
           (save_claim_in U claim expected_state (limit_int expected_version)) db))"

section \<open>Catalog removal\<close>

text \<open>
  \<open>_transition_youtube_claims\<close> of \<open>catalog_removal_repository.py\<close>, inside the removal's
  transaction.  Its two own errors, an error of the claim's row or of \<open>mark_catalog_removed\<close>,
  and an \<open>IntegrityError\<close> of the driver all leave the transaction.
\<close>

datatype removal_failure =
    CatalogRemovalError
  | CatalogRemovalStateConflictError
  | RemovalClaimError youtube_error
  | RemovalRepoError claim_failure

definition transition_youtube_claim ::
    "unicode_tables \<Rightarrow> int \<Rightarrow> youtube_row \<Rightarrow> claims_db \<Rightarrow> removal_failure + claims_db" where
  "transition_youtube_claim U now_ms row db =
     and_then (rescue (\<lambda>e. RemovalRepoError (Raised e)) (claim_from_row U row)) (\<lambda>claim.
     and_then (raise_if (yc_state claim \<notin> set LIVE_CATALOG_YOUTUBE_ACQUISITION_STATES) CatalogRemovalError) (\<lambda>_.
     and_then (rescue RemovalClaimError (youtube_mark_catalog_removed U claim (PyInt now_ms))) (\<lambda>removed.
     case sql_update (youtube_row_admissible db)
            (\<lambda>r. yr_id r = uuid_to_text (yc_id claim)
               \<and> (yr_version r = yc_version claim \<and> yr_state r = youtube_state_value (yc_state claim)))
            (\<lambda>_. values_from_claim removed) (cd_claims db) of
       None \<Rightarrow> Inl (RemovalRepoError IntegrityError)
     | Some (rows, rowcount) \<Rightarrow>
         if rowcount \<noteq> 1 then Inl CatalogRemovalStateConflictError
         else Inr (db\<lparr>cd_claims := rows\<rparr>))))"

fun transition_claim_rows ::
    "unicode_tables \<Rightarrow> int \<Rightarrow> youtube_row list \<Rightarrow> claims_db \<Rightarrow> removal_failure + claims_db" where
  "transition_claim_rows U now_ms [] db = Inr db"
| "transition_claim_rows U now_ms (row # rows) db =
     and_then (transition_youtube_claim U now_ms row db) (transition_claim_rows U now_ms rows)"

definition transition_youtube_claims ::
    "unicode_tables \<Rightarrow> uuid \<Rightarrow> int \<Rightarrow> claims_db \<Rightarrow> removal_failure + claims_db" where
  "transition_youtube_claims U media_id now_ms db =
     transition_claim_rows U now_ms
       (filter (\<lambda>r. yr_media_id r = Some (uuid_to_text media_id)) (cd_claims db)) db"

end
