(* ===== verification/Youtube_Claim_Store.thy ===== *)
theory Youtube_Claim_Store
  imports Youtube_Claim_Repository
begin

text \<open>
  What the repository keeps of the stored claims: rows that read back as valid claims, one
  row per identifier, and the uniqueness constraints; inserting and saving a claim are updates
  of the map of stored claims.
\<close>

definition claims_store :: "unicode_tables \<Rightarrow> claims_db \<Rightarrow> bool" where
  "claims_store U db = keyed_rows_ok yr_id (\<lambda>r. youtube_row_ok r \<and> ok (claim_from_row U r))
     youtube_rows_clash (cd_claims db)"

definition stored_claim :: "unicode_tables \<Rightarrow> claims_db \<Rightarrow> uuid \<Rightarrow> youtube_claim option" where
  "stored_claim U db = stored_in yr_id (claim_from_row U) (cd_claims db)"

text \<open>A claim that owns a source identity for a requester (or for the administrators).\<close>

definition owns_source :: "pystr \<Rightarrow> pystr \<Rightarrow> pystr option \<Rightarrow> youtube_claim \<Rightarrow> bool" where
  "owns_source extractor_key video_id owner c \<longleftrightarrow> yc_state c \<in> set ACTIVE_YOUTUBE_ACQUISITION_STATES
     \<and> yc_extractor_key c = extractor_key \<and> yc_youtube_video_id c = video_id
     \<and> yc_created_by_login_key c = owner"

lemma rows_clash_sym: "youtube_rows_clash r s \<Longrightarrow> youtube_rows_clash s r"
  unfolding youtube_rows_clash_def same_source_def by metis

interpretation claims: snapshot_table yr_id youtube_row_ok "claim_from_row U" youtube_rows_clash
    values_from_claim "\<lambda>c. youtube_claim_post_init U c = Inr ()" yc_id for U
  by unfold_locales (simp_all add: rows_clash_sym claim_from_row_iff values_from_claim_simps)

section \<open>Stored claims\<close>

lemma stored_claim_iff:
  assumes "claims_store U db"
  shows "stored_claim U db i = Some c
    \<longleftrightarrow> youtube_claim_post_init U c = Inr () \<and> yc_id c = i \<and> values_from_claim c \<in> set (cd_claims db)"
  using claims.stored_iff [of U] assms by (simp add: claims_store_def stored_claim_def)

lemma claim_row_by_id_stored:
  assumes "claims_store U db"
  shows "claim_row_by_id i db = map_option values_from_claim (stored_claim U db i)"
  using claims.find_stored [of U] assms
  by (simp add: claims_store_def stored_claim_def claim_row_by_id_def sql_first_def)

lemma claims_store_row:
  assumes "claims_store U db" and "r \<in> set (cd_claims db)"
  obtains c where "stored_claim U db (yc_id c) = Some c" and "r = values_from_claim c"
proof -
  obtain c where "youtube_claim_post_init U c = Inr ()" "r = values_from_claim c"
    using claims.table_row [of U "cd_claims db" r] assms by (auto simp: claims_store_def)
  then show ?thesis using that [of c] assms(2) by (simp add: stored_claim_iff [OF assms(1)])
qed

lemma claims_store_others:
  assumes "cd_claims db' = cd_claims db"
  shows "claims_store U db' = claims_store U db" and "stored_claim U db' = stored_claim U db"
  using assms by (simp_all add: claims_store_def stored_claim_def)

lemma active_value_iff: "youtube_state_value s \<in> set ACTIVE_STATE_VALUES \<longleftrightarrow> s \<in> set ACTIVE_YOUTUBE_ACQUISITION_STATES"
  by (auto simp: ACTIVE_STATE_VALUES_def youtube_state_codec.print_eq_iff)

lemma success_value_iff:
  "youtube_state_value s \<in> set SUCCESS_STATE_VALUES \<longleftrightarrow> s \<in> set LIVE_CATALOG_YOUTUBE_ACQUISITION_STATES"
  by (cases s) (simp_all add: SUCCESS_STATE_VALUES_def LIVE_CATALOG_YOUTUBE_ACQUISITION_STATES_def lit_def)

lemma active_row_values: "active_row (values_from_claim c) \<longleftrightarrow> yc_state c \<in> set ACTIVE_YOUTUBE_ACQUISITION_STATES"
  by (simp add: active_row_def values_from_claim_simps active_value_iff)

lemma owns_source_clash:
  assumes "owns_source e v k c" and "owns_source e v k d"
  shows "youtube_rows_clash (values_from_claim c) (values_from_claim d)"
  using assms
  by (cases k) (simp_all add: owns_source_def youtube_rows_clash_def active_row_values same_source_def
      values_from_claim_simps)

lemma one_source_owner:
  assumes s: "claims_store U db" and c: "stored_claim U db i = Some c" "owns_source e v k c"
    and d: "stored_claim U db j = Some d" "owns_source e v k d"
  shows "c = d"
proof -
  have rows: "values_from_claim c \<in> set (cd_claims db)" "values_from_claim d \<in> set (cd_claims db)"
    using c(1) d(1) by (simp_all add: stored_claim_iff [OF s])
  have "yr_id (values_from_claim d) = yr_id (values_from_claim c)"
    using keyed_rows_okD(3) [OF s [unfolded claims_store_def] rows owns_source_clash [OF c(2) d(2)]] .
  then have "yc_id c = yc_id d" by (simp add: values_from_claim_simps)
  then have "stored_claim U db i = stored_claim U db j" using c(1) d(1) by (simp add: stored_claim_iff [OF s])
  then show ?thesis using c(1) d(1) by simp
qed

lemma active_row_by_source_stored:
  assumes s: "claims_store U db"
  shows "active_row_by_source e v k db = Some r
    \<longleftrightarrow> (\<exists>c. stored_claim U db (yc_id c) = Some c \<and> owns_source e v k c \<and> r = values_from_claim c)"
proof -
  let ?p = "\<lambda>r. yr_extractor_key r = e \<and> yr_youtube_video_id r = v \<and> yr_state r \<in> set ACTIVE_STATE_VALUES
     \<and> (case k of None \<Rightarrow> yr_created_by_login_key r = None | Some k \<Rightarrow> yr_created_by_login_key r = Some k)"
  have p: "?p (values_from_claim c) \<longleftrightarrow> owns_source e v k c" for c
    by (cases k) (auto simp: owns_source_def values_from_claim_simps active_value_iff)
  have a: "active_row_by_source e v k db = find ?p (cd_claims db)"
    by (simp add: active_row_by_source_def sql_first_def)
  show ?thesis
  proof
    assume "active_row_by_source e v k db = Some r"
    then have r: "r \<in> set (cd_claims db)" "?p r" unfolding a by (auto simp: find_Some_iff)
    obtain c where "stored_claim U db (yc_id c) = Some c" "r = values_from_claim c"
      by (rule claims_store_row [OF s r(1)])
    then show "\<exists>c. stored_claim U db (yc_id c) = Some c \<and> owns_source e v k c \<and> r = values_from_claim c"
      using r(2) p by blast
  next
    assume "\<exists>c. stored_claim U db (yc_id c) = Some c \<and> owns_source e v k c \<and> r = values_from_claim c"
    then obtain c where c: "stored_claim U db (yc_id c) = Some c" "owns_source e v k c" "r = values_from_claim c"
      by blast
    have mem: "values_from_claim c \<in> set (cd_claims db)" using c(1) by (simp add: stored_claim_iff [OF s])
    then obtain r' where r': "find ?p (cd_claims db) = Some r'" using p [of c] c(2) by (cases "find ?p (cd_claims db)") (auto simp: find_None_iff)
    then have m: "r' \<in> set (cd_claims db)" "?p r'" by (auto simp: find_Some_iff)
    obtain d where d: "stored_claim U db (yc_id d) = Some d" "r' = values_from_claim d"
      by (rule claims_store_row [OF s m(1)])
    then have "owns_source e v k d" using m(2) p by blast
    then have "d = c" using one_source_owner [OF s d(1) _ c(1,2)] by blast
    then show "active_row_by_source e v k db = Some r" using a r' d(2) c(3) by simp
  qed
qed

lemma no_active_row:
  assumes "claims_store U db"
  shows "active_row_by_source e v k db = None
    \<longleftrightarrow> (\<forall>i c. stored_claim U db i = Some c \<longrightarrow> \<not> owns_source e v k c)"
  using active_row_by_source_stored [OF assms, of e v k] stored_claim_iff [OF assms]
  by (metis not_None_eq)

lemma find_active_stored:
  assumes s: "claims_store U db"
  shows "stored_claim U db i = Some c \<Longrightarrow> owns_source e v k c \<Longrightarrow>
      find_active_by_source_identity U e v k db = (Inr (Some c), db)"
    and "(\<And>i c. stored_claim U db i = Some c \<Longrightarrow> \<not> owns_source e v k c) \<Longrightarrow>
      find_active_by_source_identity U e v k db = (Inr None, db)"
proof -
  show "find_active_by_source_identity U e v k db = (Inr (Some c), db)"
    if c: "stored_claim U db i = Some c" "owns_source e v k c"
  proof -
    have v: "youtube_claim_post_init U c = Inr ()" "yc_id c = i" using c(1) by (simp_all add: stored_claim_iff [OF s])
    have "active_row_by_source e v k db = Some (values_from_claim c)"
      using c v active_row_by_source_stored [OF s] by blast
    then show ?thesis
      using claim_from_values [OF v(1)]
      by (simp add: find_active_by_source_identity_def run_query_def claim_of_row_def)
  qed
  show "find_active_by_source_identity U e v k db = (Inr None, db)"
    if "\<And>i c. stored_claim U db i = Some c \<Longrightarrow> \<not> owns_source e v k c"
    using that no_active_row [OF s, of e v k]
    by (simp add: find_active_by_source_identity_def run_query_def claim_of_row_def)
qed

section \<open>Inserting and saving\<close>

lemma admissible_row:
  assumes "youtube_row_admissible db r"
  shows "youtube_row_ok r" and "list_all (\<lambda>s. yr_id s = yr_id r \<or> \<not> youtube_rows_clash r s) (cd_claims db)"
  using assms by (simp_all add: youtube_row_admissible_def)

lemma insert_stored:
  assumes s: "claims_store U db" and c: "youtube_claim_post_init U c = Inr ()"
    and n: "stored_claim U db (yc_id c) = None"
  shows "insert_claim_row (values_from_claim c) db =
      (if youtube_row_admissible db (values_from_claim c)
       then Inr (db\<lparr>cd_claims := cd_claims db @ [values_from_claim c]\<rparr>) else Inl IntegrityError)"
    and "youtube_row_admissible db (values_from_claim c) \<Longrightarrow>
      claims_store U (db\<lparr>cd_claims := cd_claims db @ [values_from_claim c]\<rparr>)"
    and "youtube_row_admissible db (values_from_claim c) \<Longrightarrow>
      stored_claim U (db\<lparr>cd_claims := cd_claims db @ [values_from_claim c]\<rparr>) = (stored_claim U db)(yc_id c \<mapsto> c)"
proof -
  have "claim_row_by_id (yc_id c) db = None" using n by (simp add: claim_row_by_id_stored [OF s])
  then have fresh: "uuid_to_text (yc_id c) \<notin> set (map yr_id (cd_claims db))"
    by (auto simp: claim_row_by_id_def sql_first_def find_None_iff)
  then show "insert_claim_row (values_from_claim c) db =
      (if youtube_row_admissible db (values_from_claim c)
       then Inr (db\<lparr>cd_claims := cd_claims db @ [values_from_claim c]\<rparr>) else Inl IntegrityError)"
    by (simp add: insert_claim_row_def values_from_claim_simps(1))
  note k = claims.stored_insert [OF s [unfolded claims_store_def] c fresh]
  show "claims_store U (db\<lparr>cd_claims := cd_claims db @ [values_from_claim c]\<rparr>)"
    "stored_claim U (db\<lparr>cd_claims := cd_claims db @ [values_from_claim c]\<rparr>) = (stored_claim U db)(yc_id c \<mapsto> c)"
    if "youtube_row_admissible db (values_from_claim c)"
    using k [OF admissible_row [OF that]] by (simp_all add: claims_store_def stored_claim_def)
qed

lemma update_stored:
  assumes s: "claims_store U db" and c: "youtube_claim_post_init U c = Inr ()"
    and hit: "hit \<longleftrightarrow> (\<exists>d. stored_claim U db (yc_id c) = Some d \<and> guard (values_from_claim d))"
    and upd: "upd = sql_update (youtube_row_admissible db) (\<lambda>r. yr_id r = uuid_to_text (yc_id c) \<and> guard r)
      (\<lambda>_. values_from_claim c) (cd_claims db)"
  shows "upd = None \<longleftrightarrow> hit \<and> \<not> youtube_row_admissible db (values_from_claim c)"
    and "upd = Some (rows', n) \<Longrightarrow> n = (if hit then 1 else 0)"
    and "upd = Some (rows', n) \<Longrightarrow> claims_store U (db\<lparr>cd_claims := rows'\<rparr>)"
    and "upd = Some (rows', n) \<Longrightarrow> \<not> hit \<Longrightarrow> db\<lparr>cd_claims := rows'\<rparr> = db"
    and "upd = Some (rows', n) \<Longrightarrow> stored_claim U (db\<lparr>cd_claims := rows'\<rparr>) =
      (if hit then (stored_claim U db)(yc_id c \<mapsto> c) else stored_claim U db)"
proof -
  note k = claims.stored_update [OF s [unfolded claims_store_def] c,
      where admissible = "youtube_row_admissible db" and hit = hit and guard = guard and upd = upd,
      OF conjI [OF admissible_row] hit [unfolded stored_claim_def] upd]
  show "upd = None \<longleftrightarrow> hit \<and> \<not> youtube_row_admissible db (values_from_claim c)"
    "upd = Some (rows', n) \<Longrightarrow> n = (if hit then 1 else 0)"
    using k(1,2) by blast+
  show "upd = Some (rows', n) \<Longrightarrow> claims_store U (db\<lparr>cd_claims := rows'\<rparr>)"
    "upd = Some (rows', n) \<Longrightarrow> stored_claim U (db\<lparr>cd_claims := rows'\<rparr>) =
      (if hit then (stored_claim U db)(yc_id c \<mapsto> c) else stored_claim U db)"
    using k(3,5) by (simp_all add: claims_store_def stored_claim_def)
  show "upd = Some (rows', n) \<Longrightarrow> \<not> hit \<Longrightarrow> db\<lparr>cd_claims := rows'\<rparr> = db"
    using k(4) by (metis claims_db.surjective claims_db.update_convs(1))
qed

end
