(* ===== verification/Youtube_Claim_History.thy ===== *)
theory Youtube_Claim_History
  imports Youtube_Claim_Store
begin

text \<open>
  The writing methods on the map of stored claims, the runs of the claim table, and what a run
  keeps: the uniqueness of the active owner of a source, and the history of every stored claim.
\<close>

section \<open>Outcomes of the writing methods\<close>

lemma create_or_get_outcome:
  assumes s: "claims_store U db" and c: "youtube_claim_post_init U c = Inr ()" and st: "yc_state c = YS_CLAIMED"
  shows "stored_claim U db (yc_id c) \<noteq> None \<Longrightarrow>
      create_or_get_active U reread c db = (Inl YouTubeClaimAlreadyExistsError, db)"
    and "stored_claim U db (yc_id c) = None \<Longrightarrow> stored_claim U db i = Some w \<Longrightarrow>
      owns_source (yc_extractor_key c) (yc_youtube_video_id c) (yc_created_by_login_key c) w \<Longrightarrow>
      create_or_get_active U reread c db = (Inr (w, False), db)"
    and "stored_claim U db (yc_id c) = None \<Longrightarrow>
      (\<And>i w. stored_claim U db i = Some w \<Longrightarrow>
        \<not> owns_source (yc_extractor_key c) (yc_youtube_video_id c) (yc_created_by_login_key c) w) \<Longrightarrow>
      create_or_get_active U reread c db =
        (if youtube_row_admissible db (values_from_claim c)
         then (Inr (c, True), db\<lparr>cd_claims := cd_claims db @ [values_from_claim c]\<rparr>)
         else (case find_active_by_source_identity U (yc_extractor_key c) (yc_youtube_video_id c)
                    (yc_created_by_login_key c) (reread db) of
                 (Inr (Some existing), db') \<Rightarrow> (Inr (existing, False), db')
               | (_, db') \<Rightarrow> (Inl FrameNestYouTubeClaimRepositoryError, db')))"
proof -
  note r = claim_row_by_id_stored [OF s]
  show "create_or_get_active U reread c db = (Inl YouTubeClaimAlreadyExistsError, db)"
    if "stored_claim U db (yc_id c) \<noteq> None"
    using that st by (auto simp: create_or_get_active_def create_or_get_active_in_def r)
  show "create_or_get_active U reread c db = (Inr (w, False), db)"
    if n: "stored_claim U db (yc_id c) = None" and w: "stored_claim U db i = Some w"
      "owns_source (yc_extractor_key c) (yc_youtube_video_id c) (yc_created_by_login_key c) w"
  proof -
    have v: "youtube_claim_post_init U w = Inr ()" "yc_id w = i" using w(1) by (simp_all add: stored_claim_iff [OF s])
    have "active_row_by_source (yc_extractor_key c) (yc_youtube_video_id c) (yc_created_by_login_key c) db
        = Some (values_from_claim w)"
      using w v active_row_by_source_stored [OF s] by blast
    then have "create_or_get_active_in U c db = Inr ((w, False), db)"
      using n claim_from_values [OF v(1)] by (simp add: create_or_get_active_in_def r)
    then show ?thesis using st by (simp add: create_or_get_active_def)
  qed
  show "create_or_get_active U reread c db =
        (if youtube_row_admissible db (values_from_claim c)
         then (Inr (c, True), db\<lparr>cd_claims := cd_claims db @ [values_from_claim c]\<rparr>)
         else (case find_active_by_source_identity U (yc_extractor_key c) (yc_youtube_video_id c)
                    (yc_created_by_login_key c) (reread db) of
                 (Inr (Some existing), db') \<Rightarrow> (Inr (existing, False), db')
               | (_, db') \<Rightarrow> (Inl FrameNestYouTubeClaimRepositoryError, db')))"
    if n: "stored_claim U db (yc_id c) = None" and none: "\<And>i w. stored_claim U db i = Some w \<Longrightarrow>
        \<not> owns_source (yc_extractor_key c) (yc_youtube_video_id c) (yc_created_by_login_key c) w"
  proof -
    have "active_row_by_source (yc_extractor_key c) (yc_youtube_video_id c) (yc_created_by_login_key c) db = None"
      using none by (simp add: no_active_row [OF s])
    then have "create_or_get_active_in U c db = (if youtube_row_admissible db (values_from_claim c)
        then Inr ((c, True), db\<lparr>cd_claims := cd_claims db @ [values_from_claim c]\<rparr>) else Inl IntegrityError)"
      using n by (simp add: create_or_get_active_in_def r insert_stored(1) [OF s c n])
    then show ?thesis using st by (simp add: create_or_get_active_def)
  qed
qed

lemma save_outcome:
  assumes s: "claims_store U db" and c: "youtube_claim_post_init U c = Inr ()"
    and v: "0 \<le> n" "yc_version c = n + 1"
    and t: "yc_state c = e \<or> yc_state c \<in> set (allowed_youtube_transitions e)"
  shows "stored_claim U db (yc_id c) = None \<Longrightarrow>
      save_claim U c e (PyInt n) db = (Inl YouTubeClaimNotFoundError, db)"
    and "stored_claim U db (yc_id c) = Some d \<Longrightarrow> yc_state d \<noteq> e \<or> yc_version d \<noteq> n \<Longrightarrow>
      save_claim U c e (PyInt n) db
        = ((if d = c then Inr c else Inl YouTubeClaimConcurrencyConflictError), db)"
    and "stored_claim U db (yc_id c) = Some d \<Longrightarrow> yc_state d = e \<Longrightarrow> yc_version d = n \<Longrightarrow>
      \<not> youtube_row_admissible db (values_from_claim c) \<Longrightarrow>
      save_claim U c e (PyInt n) db = (Inl YouTubeClaimSourceIdentityConflictError, db)"
    and "stored_claim U db (yc_id c) = Some d \<Longrightarrow> yc_state d = e \<Longrightarrow> yc_version d = n \<Longrightarrow>
      youtube_row_admissible db (values_from_claim c) \<Longrightarrow>
      \<exists>db'. save_claim U c e (PyInt n) db = (Inr c, db') \<and> claims_store U db'
        \<and> stored_claim U db' = (stored_claim U db)(yc_id c \<mapsto> c)"
proof -
  let ?g = "\<lambda>r. yr_state r = youtube_state_value e \<and> yr_version r = n"
  let ?hit = "\<exists>d. stored_claim U db (yc_id c) = Some d \<and> ?g (values_from_claim d)"
  define upd where "upd = sql_update (youtube_row_admissible db) (\<lambda>r. yr_id r = uuid_to_text (yc_id c) \<and> ?g r)
      (\<lambda>_. values_from_claim c) (cd_claims db)"
  note u = update_stored [OF s c refl upd_def]
  have g: "?g (values_from_claim d) \<longleftrightarrow> yc_state d = e \<and> yc_version d = n" for d
    by (simp add: values_from_claim_simps youtube_state_codec.print_eq_iff)
  have save: "save_claim U c e (PyInt n) db = map_prod (rescue (claim_error_or YouTubeClaimSourceIdentityConflictError)) id
        (run_in_immediate_transaction (save_claim_in U c e n) db)"
    using v t by (auto simp: save_claim_def ensure_youtube_transition_allowed_def)
  have in_def: "save_claim_in U c e n db = (case upd of None \<Rightarrow> Inl IntegrityError
      | Some (rows, rowcount) \<Rightarrow>
          if rowcount = 1 then Inr (c, db\<lparr>cd_claims := rows\<rparr>)
          else case claim_row_by_id (yc_id c) (db\<lparr>cd_claims := rows\<rparr>) of
            None \<Rightarrow> Inl (Raised YouTubeClaimNotFoundError)
          | Some r \<Rightarrow> and_then (rescue Raised (claim_from_row U r)) (\<lambda>current.
              if current = c then Inr (current, db\<lparr>cd_claims := rows\<rparr>)
              else Inl (Raised YouTubeClaimConcurrencyConflictError)))"
    by (simp only: save_claim_in_def upd_def)
  have miss: "save_claim_in U c e n db = (case claim_row_by_id (yc_id c) db of
            None \<Rightarrow> Inl (Raised YouTubeClaimNotFoundError)
          | Some r \<Rightarrow> and_then (rescue Raised (claim_from_row U r)) (\<lambda>current.
              if current = c then Inr (current, db) else Inl (Raised YouTubeClaimConcurrencyConflictError)))"
    if "\<not> ?hit"
  proof -
    have "upd \<noteq> None" using u(1) that by blast
    then obtain rows k where r: "upd = Some (rows, k)" by (cases upd) auto
    have k: "k = 0" "db\<lparr>cd_claims := rows\<rparr> = db" using u(2) [OF r] u(4) [OF r] that by auto
    show ?thesis unfolding in_def r option.case prod.case k by simp
  qed
  show "save_claim U c e (PyInt n) db = (Inl YouTubeClaimNotFoundError, db)" if n: "stored_claim U db (yc_id c) = None"
  proof -
    have "save_claim_in U c e n db = Inl (Raised YouTubeClaimNotFoundError)"
      using miss n by (simp add: claim_row_by_id_stored [OF s])
    then show ?thesis by (simp add: save)
  qed
  show "save_claim U c e (PyInt n) db = ((if d = c then Inr c else Inl YouTubeClaimConcurrencyConflictError), db)"
    if d: "stored_claim U db (yc_id c) = Some d" "yc_state d \<noteq> e \<or> yc_version d \<noteq> n"
  proof -
    have vd: "claim_from_row U (values_from_claim d) = Inr d"
      using d(1) by (intro claim_from_values) (simp add: stored_claim_iff [OF s])
    have "\<not> ?hit" using d by (simp add: g)
    from miss [OF this] have "save_claim_in U c e n db = (if d = c then Inr (c, db) else Inl (Raised YouTubeClaimConcurrencyConflictError))"
      by (simp add: claim_row_by_id_stored [OF s] d(1) vd)
    then show ?thesis by (simp add: save)
  qed
  show "save_claim U c e (PyInt n) db = (Inl YouTubeClaimSourceIdentityConflictError, db)"
    if d: "stored_claim U db (yc_id c) = Some d" "yc_state d = e" "yc_version d = n"
      and a: "\<not> youtube_row_admissible db (values_from_claim c)"
  proof -
    have "upd = None" using u(1) d a by (simp add: g)
    then have "save_claim_in U c e n db = Inl IntegrityError" by (simp add: in_def)
    then show ?thesis by (simp add: save)
  qed
  show "\<exists>db'. save_claim U c e (PyInt n) db = (Inr c, db') \<and> claims_store U db'
        \<and> stored_claim U db' = (stored_claim U db)(yc_id c \<mapsto> c)"
    if d: "stored_claim U db (yc_id c) = Some d" "yc_state d = e" "yc_version d = n"
      and a: "youtube_row_admissible db (values_from_claim c)"
  proof -
    have hit: ?hit using d by (simp add: g)
    have "upd \<noteq> None" using u(1) a by blast
    then obtain rows k where r: "upd = Some (rows, k)" by (cases upd) auto
    have "k = 1" using u(2) [OF r] hit by simp
    then have "save_claim_in U c e n db = Inr (c, db\<lparr>cd_claims := rows\<rparr>)" by (simp add: in_def r)
    then show ?thesis using u(3,5) [OF r] hit by (simp add: save)
  qed
qed

lemma save_refused:
  assumes "\<not> (\<exists>n. expected = PyInt n \<and> 0 \<le> n \<and> yc_version c = n + 1)
    \<or> \<not> (yc_state c = e \<or> yc_state c \<in> set (allowed_youtube_transitions e))"
  shows "save_claim U c e expected db = (Inl YouTubeClaimConcurrencyConflictError, db)"
proof (cases "expected_version_refused expected c")
  case False
  then obtain n where "expected = PyInt n" "0 \<le> n" "yc_version c = n + 1" by (cases expected) auto
  then show ?thesis using assms False by (simp add: save_claim_def ensure_youtube_transition_allowed_def raise_if_def)
qed (simp add: save_claim_def)

section \<open>Runs of the claim table\<close>

text \<open>
  One transaction of the program on the tables: a writing method on a valid claim, the claims'
  part of a catalog removal, or a change of other tables.  Refused and failing calls are steps too.
\<close>

inductive claims_step :: "unicode_tables \<Rightarrow> claims_db \<Rightarrow> claims_db \<Rightarrow> bool" for U where
  create_or_get_step: "youtube_claim_post_init U c = Inr () \<Longrightarrow>
    create_or_get_active U id c db = (result, db') \<Longrightarrow> claims_step U db db'"
| create_step: "youtube_claim_post_init U c = Inr () \<Longrightarrow>
    create_claim c db = (outcome, db') \<Longrightarrow> claims_step U db db'"
| save_step: "youtube_claim_post_init U c = Inr () \<Longrightarrow>
    save_claim U c expected_state expected_version db = (saved, db') \<Longrightarrow> claims_step U db db'"
| removal_step: "transition_youtube_claims U media_id now_ms db = Inr db' \<Longrightarrow> claims_step U db db'"
| elsewhere_step: "cd_claims db' = cd_claims db \<Longrightarrow> claims_step U db db'"

text \<open>What happened to a claim between two moments: a path of the transition table, no longer
  than the difference of the versions; the same version means the same claim.\<close>

definition claim_path :: "youtube_claim \<Rightarrow> youtube_claim \<Rightarrow> bool" where
  "claim_path c d \<longleftrightarrow> (yc_version d = yc_version c \<longrightarrow> d = c)
     \<and> (\<exists>ts. table_run allowed_youtube_transitions (yc_state c) ts \<and> last (yc_state c # ts) = yc_state d
          \<and> int (length ts) \<le> yc_version d - yc_version c)"

lemma claim_pathI:
  assumes "yc_version d = yc_version c \<Longrightarrow> d = c" and "table_run allowed_youtube_transitions (yc_state c) ts"
    and "last (yc_state c # ts) = yc_state d" and "int (length ts) \<le> yc_version d - yc_version c"
  shows "claim_path c d"
  using assms unfolding claim_path_def by blast

lemma claim_path_refl [simp]: "claim_path c c"
  by (rule claim_pathI [where ts = "[]"]) simp_all

lemma claim_path_one:
  assumes "yc_version d = yc_version c + 1"
    and "yc_state d = yc_state c \<or> yc_state d \<in> set (allowed_youtube_transitions (yc_state c))"
  shows "claim_path c d"
  using assms(2)
proof
  assume "yc_state d = yc_state c"
  then show ?thesis using assms(1) by (intro claim_pathI [where ts = "[]"]) simp_all
next
  assume "yc_state d \<in> set (allowed_youtube_transitions (yc_state c))"
  then show ?thesis using assms(1) by (intro claim_pathI [where ts = "[yc_state d]"]) simp_all
qed

lemma claim_path_trans:
  assumes "claim_path c d" and "claim_path d e"
  shows "claim_path c e"
proof -
  obtain ts where ts: "table_run allowed_youtube_transitions (yc_state c) ts" "last (yc_state c # ts) = yc_state d"
      "int (length ts) \<le> yc_version d - yc_version c" using assms(1) by (auto simp: claim_path_def)
  obtain us where us: "table_run allowed_youtube_transitions (yc_state d) us" "last (yc_state d # us) = yc_state e"
      "int (length us) \<le> yc_version e - yc_version d" using assms(2) by (auto simp: claim_path_def)
  have "table_run allowed_youtube_transitions (yc_state c) (ts @ us)" using ts us by (simp add: table_run_append)
  moreover have "last (yc_state c # ts @ us) = yc_state e"
    using ts(2) us(2) by (cases us) (auto split: if_splits)
  moreover have "int (length (ts @ us)) \<le> yc_version e - yc_version c" using ts(3) us(3) by simp
  moreover have "e = c" if "yc_version e = yc_version c"
  proof -
    have "yc_version d = yc_version c" "yc_version e = yc_version d" using that ts(3) us(3) by linarith+
    then show ?thesis using assms unfolding claim_path_def by blast
  qed
  ultimately show ?thesis by (intro claim_pathI [where ts = "ts @ us"]) blast+
qed

text \<open>What one transaction, or many, keep.\<close>

definition claims_kept :: "unicode_tables \<Rightarrow> claims_db \<Rightarrow> claims_db \<Rightarrow> bool" where
  "claims_kept U db db' \<longleftrightarrow> claims_store U db'
     \<and> (\<forall>i c. stored_claim U db i = Some c \<longrightarrow> (\<exists>d. stored_claim U db' i = Some d \<and> claim_path c d))"

lemma claims_kept_same:
  assumes "claims_store U db" and "cd_claims db' = cd_claims db"
  shows "claims_kept U db db'"
  unfolding claims_kept_def claims_store_others [OF assms(2), of U] using assms(1) claim_path_refl by blast

lemma claims_kept_trans:
  "claims_kept U db db' \<Longrightarrow> claims_kept U db' db'' \<Longrightarrow> claims_kept U db db''"
  unfolding claims_kept_def by (meson claim_path_trans)

lemma claims_kept_put:
  assumes "claims_store U db'" and "stored_claim U db' = (stored_claim U db)(i \<mapsto> c)"
    and "\<And>d. stored_claim U db i = Some d \<Longrightarrow> claim_path d c"
  shows "claims_kept U db db'"
  using assms by (auto simp: claims_kept_def)

lemma insert_keeps_claims:
  assumes "claims_store U db" and "youtube_claim_post_init U c = Inr ()" and "stored_claim U db (yc_id c) = None"
    and "youtube_row_admissible db (values_from_claim c)"
  shows "claims_kept U db (db\<lparr>cd_claims := cd_claims db @ [values_from_claim c]\<rparr>)"
  by (rule claims_kept_put [OF insert_stored(2,3) [OF assms]]) (simp add: assms(3))

lemma create_or_get_keeps:
  assumes "claims_store U db" and "youtube_claim_post_init U c = Inr ()"
    and "create_or_get_active U id c db = (result, db')"
  shows "claims_kept U db db'"
proof (cases "yc_state c = YS_CLAIMED")
  case False
  then show ?thesis using assms by (simp add: create_or_get_active_def claims_kept_same)
next
  case True
  note out = create_or_get_outcome [OF assms(1,2) True, where reread = id]
  let ?owns = "owns_source (yc_extractor_key c) (yc_youtube_video_id c) (yc_created_by_login_key c)"
  show ?thesis
  proof (cases "stored_claim U db (yc_id c)")
    case (Some d)
    then show ?thesis using out(1) assms by (simp add: claims_kept_same)
  next
    case None
    show ?thesis
    proof (cases "\<exists>i w. stored_claim U db i = Some w \<and> ?owns w")
      case True
      then have "db' = db" using out(2) [OF None] assms(3) by auto
      then show ?thesis using assms(1) by (simp add: claims_kept_same)
    next
      case False
      then have c: "create_or_get_active U id c db =
        (if youtube_row_admissible db (values_from_claim c)
         then (Inr (c, True), db\<lparr>cd_claims := cd_claims db @ [values_from_claim c]\<rparr>)
         else (Inl FrameNestYouTubeClaimRepositoryError, db))"
        using out(3) [OF None] find_active_stored(2) [OF assms(1)] by auto
      show ?thesis
        using c assms insert_keeps_claims [OF assms(1,2) None]
        by (cases "youtube_row_admissible db (values_from_claim c)") (auto simp: claims_kept_same)
    qed
  qed
qed

lemma create_keeps:
  assumes "claims_store U db" and "youtube_claim_post_init U c = Inr ()" and "create_claim c db = (outcome, db')"
  shows "claims_kept U db db'"
proof (cases "create_claim_in c db")
  case (Inl e)
  then have "db' = db" using assms(3) by (simp add: create_claim_def)
  then show ?thesis using assms(1) by (simp add: claims_kept_same)
next
  case (Inr x)
  then obtain db1 where i: "claim_row_by_id (yc_id c) db = None" "insert_claim_row (values_from_claim c) db = Inr db1"
      "x = ((), db1)"
    by (auto simp: create_claim_in_def and_then_Inr split: if_splits)
  then have n: "stored_claim U db (yc_id c) = None" by (simp add: claim_row_by_id_stored [OF assms(1)])
  have "db' = db1" using Inr i(3) assms(3) by (simp add: create_claim_def)
  then show ?thesis
    using insert_keeps_claims [OF assms(1,2) n] i(2) insert_stored(1) [OF assms(1,2) n]
    by (auto split: if_splits)
qed

lemma save_keeps:
  assumes "claims_store U db" and "youtube_claim_post_init U c = Inr ()"
    and "save_claim U c e expected db = (saved, db')"
  shows "claims_kept U db db'"
proof (cases "(\<exists>n. expected = PyInt n \<and> 0 \<le> n \<and> yc_version c = n + 1)
    \<and> (yc_state c = e \<or> yc_state c \<in> set (allowed_youtube_transitions e))")
  case False
  then have "db' = db" using save_refused [of expected c e U db] assms(3) by auto
  then show ?thesis using assms(1) by (simp add: claims_kept_same)
next
  case True
  then obtain n where n: "expected = PyInt n" "0 \<le> n" "yc_version c = n + 1" by blast
  note out = save_outcome [OF assms(1,2) n(2,3) True [THEN conjunct2]]
  show ?thesis
  proof (cases "stored_claim U db (yc_id c)")
    case None
    then show ?thesis using out(1) assms n(1) by (simp add: claims_kept_same)
  next
    case (Some d)
    show ?thesis
    proof (cases "yc_state d = e \<and> yc_version d = n \<and> youtube_row_admissible db (values_from_claim c)")
      case True
      then obtain db1 where "save_claim U c e (PyInt n) db = (Inr c, db1)" "claims_store U db1"
          "stored_claim U db1 = (stored_claim U db)(yc_id c \<mapsto> c)" using out(4) [OF Some] by blast
      moreover have "claim_path d c"
        using True n(3) \<open>(\<exists>n. expected = PyInt n \<and> 0 \<le> n \<and> yc_version c = n + 1)
          \<and> (yc_state c = e \<or> yc_state c \<in> set (allowed_youtube_transitions e))\<close>
        by (intro claim_path_one) auto
      ultimately show ?thesis using assms(3) n(1) Some by (auto intro: claims_kept_put)
    next
      case False
      then have "db' = db" using out(2,3) [OF Some] assms(3) n(1) by (auto split: if_splits)
      then show ?thesis using assms(1) by (simp add: claims_kept_same)
    qed
  qed
qed

lemma transition_keeps:
  assumes "claims_store U db" and "transition_youtube_claim U now row db = Inr db'"
  shows "claims_kept U db db'"
proof -
  obtain c r rows k where c: "claim_from_row U row = Inr c" "yc_state c \<in> set LIVE_CATALOG_YOUTUBE_ACQUISITION_STATES"
      "youtube_mark_catalog_removed U c (PyInt now) = Inr r"
    and u: "sql_update (youtube_row_admissible db) (\<lambda>r. yr_id r = uuid_to_text (yc_id c)
        \<and> (yr_version r = yc_version c \<and> yr_state r = youtube_state_value (yc_state c)))
        (\<lambda>_. values_from_claim r) (cd_claims db) = Some (rows, k)" "k = 1" "db' = db\<lparr>cd_claims := rows\<rparr>"
  proof -
    obtain c r where c: "claim_from_row U row = Inr c" "yc_state c \<in> set LIVE_CATALOG_YOUTUBE_ACQUISITION_STATES"
        "youtube_mark_catalog_removed U c (PyInt now) = Inr r"
      and u: "(case sql_update (youtube_row_admissible db) (\<lambda>r. yr_id r = uuid_to_text (yc_id c)
          \<and> (yr_version r = yc_version c \<and> yr_state r = youtube_state_value (yc_state c)))
          (\<lambda>_. values_from_claim r) (cd_claims db) of
        None \<Rightarrow> Inl (RemovalRepoError IntegrityError)
      | Some (rows, rowcount) \<Rightarrow> if rowcount \<noteq> 1 then Inl CatalogRemovalStateConflictError
          else Inr (db\<lparr>cd_claims := rows\<rparr>)) = Inr db'"
      using assms(2) unfolding transition_youtube_claim_def and_then_Inr raise_if_Inr rescue_Inr not_not by blast
    then obtain rows k where k: "sql_update (youtube_row_admissible db) (\<lambda>r. yr_id r = uuid_to_text (yc_id c)
          \<and> (yr_version r = yc_version c \<and> yr_state r = youtube_state_value (yc_state c)))
          (\<lambda>_. values_from_claim r) (cd_claims db) = Some (rows, k)"
      by (cases "sql_update (youtube_row_admissible db) (\<lambda>r. yr_id r = uuid_to_text (yc_id c)
          \<and> (yr_version r = yc_version c \<and> yr_state r = youtube_state_value (yc_state c)))
          (\<lambda>_. values_from_claim r) (cd_claims db)") auto
    have "k = 1" "db' = db\<lparr>cd_claims := rows\<rparr>"
      using u unfolding k option.case prod.case by (auto split: if_splits)
    then show ?thesis using that c k by blast
  qed
  have v: "youtube_claim_post_init U c = Inr ()" using c(1) by (simp add: claim_from_row_iff)
  have r: "r = removed_youtube_claim c now" "youtube_claim_post_init U r = Inr ()"
    using c(3) youtube_remove_eq [OF v c(2), of now] removed_claim_valid [OF v c(2), of now] by (auto split: if_splits)
  have id: "yc_id r = yc_id c" by (simp add: r(1) removed_youtube_claim_identity)
  let ?g = "\<lambda>r. yr_version r = yc_version c \<and> yr_state r = youtube_state_value (yc_state c)"
  let ?hit = "\<exists>d. stored_claim U db (yc_id r) = Some d \<and> ?g (values_from_claim d)"
  have "Some (rows, k) = sql_update (youtube_row_admissible db) (\<lambda>x. yr_id x = uuid_to_text (yc_id r) \<and> ?g x)
      (\<lambda>_. values_from_claim r) (cd_claims db)" using u(1) id by simp
  note up = update_stored [OF assms(1) r(2) refl this]
  have hit: ?hit
  proof (rule ccontr)
    assume "\<not> ?hit"
    then have "k = 0" by (rule trans [OF up(2) [OF refl] if_not_P])
    then show False using u(2) by simp
  qed
  then obtain d where d: "stored_claim U db (yc_id r) = Some d" "yc_version d = yc_version c" "yc_state d = yc_state c"
    by (auto simp: values_from_claim_simps youtube_state_codec.print_eq_iff)
  have "claim_path d r"
    using d(2,3) live_youtube_claim(5) [OF v c(2)]
    by (intro claim_path_one) (simp_all add: r(1) removed_youtube_claim_simps removed_youtube_claim_identity)
  then show ?thesis
    unfolding u(3) using trans [OF up(5) [OF refl] if_P [OF hit]] d(1)
    by (intro claims_kept_put [OF up(3) [OF refl]]) auto
qed

lemma transition_rows_keep:
  "claims_store U db \<Longrightarrow> transition_claim_rows U now rows db = Inr db' \<Longrightarrow> claims_kept U db db'"
proof (induction rows arbitrary: db)
  case Nil
  then show ?case by (simp add: claims_kept_same)
next
  case (Cons row rows)
  then obtain db1 where t: "transition_youtube_claim U now row db = Inr db1" "transition_claim_rows U now rows db1 = Inr db'"
    by (auto simp: and_then_Inr)
  have k: "claims_kept U db db1" by (rule transition_keeps [OF Cons.prems(1) t(1)])
  then have "claims_store U db1" by (simp add: claims_kept_def)
  then have "claims_kept U db1 db'" using Cons.IH t(2) by blast
  with k show ?case by (rule claims_kept_trans)
qed

lemma step_keeps:
  assumes "claims_step U db db'" and "claims_store U db"
  shows "claims_kept U db db'"
  using assms
proof cases
  case (create_or_get_step c result)
  then show ?thesis using create_or_get_keeps [OF assms(2)] by blast
next
  case (create_step c outcome)
  then show ?thesis using create_keeps [OF assms(2)] by blast
next
  case (save_step c e v saved)
  then show ?thesis using save_keeps [OF assms(2)] by blast
next
  case (removal_step media_id now)
  then show ?thesis using transition_rows_keep [OF assms(2)] unfolding transition_youtube_claims_def by blast
next
  case elsewhere_step
  then show ?thesis using claims_kept_same [OF assms(2)] by blast
qed

lemma run_keeps:
  assumes "(claims_step U)\<^sup>*\<^sup>* db db'" and "claims_store U db"
  shows "claims_kept U db db'"
  using assms
proof (induction rule: rtranclp_induct)
  case base
  then show ?case by (simp add: claims_kept_same)
next
  case (step db1 db2)
  then have k: "claims_kept U db db1" by blast
  then have "claims_kept U db1 db2" using step.hyps(2) by (intro step_keeps) (simp_all add: claims_kept_def)
  with k show ?case by (rule claims_kept_trans)
qed

text \<open>The empty table.\<close>

lemma claims_store_empty: "cd_claims db = [] \<Longrightarrow> claims_store U db"
  by (simp add: claims_store_def)

end
