(* ===== verification/Youtube_Claim_Properties.thy ===== *)
theory Youtube_Claim_Properties
  imports Youtube_Claim_History
begin

text \<open>
  What the claim repository promises: rows and claims correspond, one active claim per source
  and owner, the outcome of every call of \<open>create_or_get_active\<close>, \<open>save\<close> as compare-and-swap,
  the history of every stored claim and the pages of a requester's list.
\<close>

section \<open>Sample tables\<close>

definition empty_claims_db :: claims_db where
  "empty_claims_db = \<lparr>cd_claims = [], cd_upload_sessions = [], cd_logical_media = [uuid_to_text (sample_uuid 2)],
     cd_physical_media_locations = [uuid_to_text (sample_uuid 3)], cd_media_content_publications = [],
     cd_kronika_record_media = []\<rparr>"

definition sample_claims_db :: claims_db where
  "sample_claims_db = empty_claims_db\<lparr>cd_claims := [values_from_claim sample_claim]\<rparr>"

lemma sample_claim_state [simp]:
  "yc_state sample_claim = YS_CLAIMED" "yc_version sample_claim = 0"
  "yc_created_by_login_key sample_claim = Some (lit ''alice@example.org'')"
  "yc_extractor_key sample_claim = YOUTUBE_EXTRACTOR_KEY" "yc_youtube_video_id sample_claim = sample_video"
  "yc_id sample_claim = sample_uuid 1" "yc_created_at_ms sample_claim = 10"
  by (simp_all add: sample_claim_def fresh_youtube_claim_def video_identity_def del: One_nat_def)

lemma sample_claim_extra: "claim_row_extra sample_claim"
  by (simp add: claim_row_extra_def sample_claim_def fresh_youtube_claim_def del: One_nat_def)

lemma sample_claim_row_ok: "youtube_row_ok (values_from_claim sample_claim)"
  using claim_row_ok_iff [OF folds_case_ascii sample_claim_valid] sample_claim_extra by blast

lemma sample_admissible: "youtube_row_admissible empty_claims_db (values_from_claim sample_claim)"
proof -
  have "youtube_fks_hold empty_claims_db (values_from_claim sample_claim)"
    by (simp add: youtube_fks_hold_def values_from_claim_simps sample_claim_def fresh_youtube_claim_def del: One_nat_def)
  then show ?thesis using sample_claim_row_ok by (simp add: youtube_row_admissible_def empty_claims_db_def)
qed

lemma empty_store: "claims_store U empty_claims_db"
  by (rule claims_store_empty) (simp add: empty_claims_db_def)

lemma empty_stored [simp]: "stored_claim U empty_claims_db i = None"
  by (simp add: stored_claim_def stored_in_def empty_claims_db_def)

lemma sample_store: "claims_store ascii_tables sample_claims_db"
  and sample_stored: "stored_claim ascii_tables sample_claims_db = [sample_uuid 1 \<mapsto> sample_claim]"
proof -
  note k = insert_stored(2,3) [OF empty_store sample_claim_valid empty_stored sample_admissible]
  have e: "empty_claims_db\<lparr>cd_claims := cd_claims empty_claims_db @ [values_from_claim sample_claim]\<rparr> = sample_claims_db"
    by (simp add: sample_claims_db_def empty_claims_db_def)
  show "claims_store ascii_tables sample_claims_db" using k(1) unfolding e .
  show "stored_claim ascii_tables sample_claims_db = [sample_uuid 1 \<mapsto> sample_claim]"
    using k(2) unfolding e sample_claim_state(6) by (simp add: fun_eq_iff)
qed

lemma sample_create:
  "create_or_get_active ascii_tables id sample_claim empty_claims_db = (Inr (sample_claim, True), sample_claims_db)"
proof -
  have "create_or_get_active ascii_tables id sample_claim empty_claims_db = (Inr (sample_claim, True),
      empty_claims_db\<lparr>cd_claims := cd_claims empty_claims_db @ [values_from_claim sample_claim]\<rparr>)"
    using create_or_get_outcome(3) [OF empty_store sample_claim_valid sample_claim_state(1) empty_stored] sample_admissible
    by simp
  then show ?thesis by (simp add: sample_claims_db_def empty_claims_db_def)
qed

lemma sample_run: "(claims_step ascii_tables)\<^sup>*\<^sup>* empty_claims_db sample_claims_db"
  using create_or_get_step [OF sample_claim_valid sample_create] by blast

section \<open>Properties\<close>

text \<open>
   C40. A valid claim has exactly one row that reads back as it, the row the repository writes;
  and the table accepts this row exactly when the three conditions hold that the CHECK
  constraints make beyond the constructor (ASCII digits in the source date, no download or
  completion before the creation).
\<close>

theorem claim_row_schema:
  assumes "folds_case U" and "youtube_claim_post_init U c = Inr ()"
  shows "(\<forall>r. claim_from_row U r = Inr c \<longleftrightarrow> r = values_from_claim c)
    \<and> (youtube_row_ok (values_from_claim c) \<longleftrightarrow>
        pred_option (\<lambda>d. list_all (\<lambda>i. is_digit (d ! i)) [0, 1, 2, 3, 5, 6, 8, 9]) (yc_upstream_source_date c)
        \<and> pred_option (\<lambda>t. yc_created_at_ms c \<le> t) (yc_downloaded_at_ms c)
        \<and> pred_option (\<lambda>t. yc_created_at_ms c \<le> t) (yc_completed_at_ms c))"
  using claim_row_ok_iff [OF assms] assms(2) by (simp add: claim_from_row_iff claim_row_extra_def)

lemma claim_row_schema_witness:
  "claim_from_row ascii_tables (values_from_claim sample_claim) = Inr sample_claim"
  using claim_row_schema [OF folds_case_ascii sample_claim_valid] by blast

text \<open>
   C19. However the repository has been used since the table was empty, whatever was refused and
  whatever other transactions did elsewhere, a source has at most one active claim per requester
  and at most one of the administrators, and looking the active claim up finds it.
\<close>

theorem one_active_claim_per_source:
  assumes "(claims_step U)\<^sup>*\<^sup>* db0 db" and "cd_claims db0 = []"
  shows "(\<forall>i c. stored_claim U db i = Some c \<and> owns_source e v k c \<longrightarrow>
      (\<forall>j d. stored_claim U db j = Some d \<and> owns_source e v k d \<longrightarrow> i = j)
      \<and> find_active_by_source_identity U e v k db = (Inr (Some c), db))
    \<and> ((\<forall>i c. stored_claim U db i = Some c \<longrightarrow> \<not> owns_source e v k c) \<longrightarrow>
        find_active_by_source_identity U e v k db = (Inr None, db))"
proof -
  have s: "claims_store U db"
    using run_keeps [OF assms(1) claims_store_empty [OF assms(2)]] by (simp add: claims_kept_def)
  have "i = j" if "stored_claim U db i = Some c" "owns_source e v k c" "stored_claim U db j = Some d"
      "owns_source e v k d" for i j c d
    using one_source_owner [OF s that] that(1,3) by (simp add: stored_claim_iff [OF s])
  then show ?thesis using find_active_stored [OF s] by blast
qed

lemma one_active_claim_per_source_witness:
  "find_active_by_source_identity ascii_tables YOUTUBE_EXTRACTOR_KEY sample_video
     (Some (lit ''alice@example.org'')) sample_claims_db = (Inr (Some sample_claim), sample_claims_db)"
proof -
  have "owns_source YOUTUBE_EXTRACTOR_KEY sample_video (Some (lit ''alice@example.org'')) sample_claim"
    by (simp add: owns_source_def youtube_state_set_defs)
  moreover have "stored_claim ascii_tables sample_claims_db (sample_uuid 1) = Some sample_claim"
    unfolding sample_stored by simp
  moreover have "cd_claims empty_claims_db = []" by (simp add: empty_claims_db_def)
  ultimately show ?thesis using one_active_claim_per_source [OF sample_run] by blast
qed

text \<open>
   Submitting a claim: a known identifier is refused; otherwise the active claim of the same
  source and owner is the answer, whatever else the new claim holds, and nothing is stored;
  otherwise a claim the table admits is stored, as the last row, and is the answer.
\<close>

theorem create_or_get_active_outcome:
  assumes "claims_store U db" and "youtube_claim_post_init U c = Inr ()" and "yc_state c = YS_CLAIMED"
  shows "(stored_claim U db (yc_id c) \<noteq> None \<longrightarrow>
        create_or_get_active U reread c db = (Inl YouTubeClaimAlreadyExistsError, db))
    \<and> (\<forall>i w. stored_claim U db (yc_id c) = None \<and> stored_claim U db i = Some w
        \<and> owns_source (yc_extractor_key c) (yc_youtube_video_id c) (yc_created_by_login_key c) w \<longrightarrow>
        create_or_get_active U reread c db = (Inr (w, False), db))
    \<and> (stored_claim U db (yc_id c) = None
        \<and> (\<forall>i w. stored_claim U db i = Some w \<longrightarrow>
             \<not> owns_source (yc_extractor_key c) (yc_youtube_video_id c) (yc_created_by_login_key c) w)
        \<and> youtube_row_admissible db (values_from_claim c) \<longrightarrow>
        (\<exists>db'. create_or_get_active U reread c db = (Inr (c, True), db')
          \<and> stored_claim U db' = (stored_claim U db)(yc_id c \<mapsto> c) \<and> claims_store U db'
          \<and> cd_claims db' = cd_claims db @ [values_from_claim c]))"
proof -
  note out = create_or_get_outcome [OF assms, where reread = reread]
  have "\<exists>db'. create_or_get_active U reread c db = (Inr (c, True), db')
          \<and> stored_claim U db' = (stored_claim U db)(yc_id c \<mapsto> c) \<and> claims_store U db'
          \<and> cd_claims db' = cd_claims db @ [values_from_claim c]"
    if n: "stored_claim U db (yc_id c) = None" and w: "\<forall>i w. stored_claim U db i = Some w \<longrightarrow>
             \<not> owns_source (yc_extractor_key c) (yc_youtube_video_id c) (yc_created_by_login_key c) w"
      and a: "youtube_row_admissible db (values_from_claim c)"
    using out(3) [OF n] w a insert_stored(2,3) [OF assms(1,2) n a] by auto
  then show ?thesis using out(1,2) by blast
qed

lemma create_or_get_active_outcome_witness:
  "create_or_get_active ascii_tables (\<lambda>db. db) sample_claim sample_claims_db
    = (Inl YouTubeClaimAlreadyExistsError, sample_claims_db)"
  using create_or_get_active_outcome [OF sample_store sample_claim_valid sample_claim_state(1)] sample_stored
  by simp

text \<open>
   C18. \<open>save\<close> is a compare-and-swap on state and version, and replaying it is harmless.  It
  replaces the stored claim exactly when that one has the expected state and version and the
  table admits the new row; then saving it again changes nothing, and a rival that expected the
  same version is refused.  A claim that is missing, has moved on, or whose new row breaks a
  constraint (whichever constraint it is) is left as it is.
\<close>

theorem claim_save_compare_and_swap:
  assumes "claims_store U db" and "youtube_claim_post_init U c = Inr ()" and "0 \<le> n" and "yc_version c = n + 1"
    and "yc_state c = e \<or> yc_state c \<in> set (allowed_youtube_transitions e)"
  shows "(stored_claim U db (yc_id c) = None \<longrightarrow>
        save_claim U c e (PyInt n) db = (Inl YouTubeClaimNotFoundError, db))
    \<and> (\<forall>d. stored_claim U db (yc_id c) = Some d \<and> (yc_state d \<noteq> e \<or> yc_version d \<noteq> n) \<longrightarrow>
        save_claim U c e (PyInt n) db = ((if d = c then Inr c else Inl YouTubeClaimConcurrencyConflictError), db))
    \<and> (\<forall>d. stored_claim U db (yc_id c) = Some d \<and> yc_state d = e \<and> yc_version d = n
        \<and> \<not> youtube_row_admissible db (values_from_claim c) \<longrightarrow>
        save_claim U c e (PyInt n) db = (Inl YouTubeClaimSourceIdentityConflictError, db))
    \<and> (\<forall>d. stored_claim U db (yc_id c) = Some d \<and> yc_state d = e \<and> yc_version d = n
        \<and> youtube_row_admissible db (values_from_claim c) \<longrightarrow>
        (\<exists>db'. save_claim U c e (PyInt n) db = (Inr c, db') \<and> stored_claim U db' = (stored_claim U db)(yc_id c \<mapsto> c)
          \<and> save_claim U c e (PyInt n) db' = (Inr c, db')
          \<and> (\<forall>r s. youtube_claim_post_init U r = Inr () \<and> yc_id r = yc_id c \<and> r \<noteq> c \<longrightarrow>
               save_claim U r s (PyInt n) db' = (Inl YouTubeClaimConcurrencyConflictError, db'))))"
proof -
  note out = save_outcome [OF assms]
  have "\<exists>db'. save_claim U c e (PyInt n) db = (Inr c, db') \<and> stored_claim U db' = (stored_claim U db)(yc_id c \<mapsto> c)
          \<and> save_claim U c e (PyInt n) db' = (Inr c, db')
          \<and> (\<forall>r s. youtube_claim_post_init U r = Inr () \<and> yc_id r = yc_id c \<and> r \<noteq> c \<longrightarrow>
               save_claim U r s (PyInt n) db' = (Inl YouTubeClaimConcurrencyConflictError, db'))"
    if d: "stored_claim U db (yc_id c) = Some d" "yc_state d = e" "yc_version d = n"
      "youtube_row_admissible db (values_from_claim c)" for d
  proof -
    obtain db' where s: "save_claim U c e (PyInt n) db = (Inr c, db')" "claims_store U db'"
        "stored_claim U db' = (stored_claim U db)(yc_id c \<mapsto> c)" using out(4) [OF d] by blast
    have now: "stored_claim U db' (yc_id c) = Some c" by (simp add: s(3))
    have v: "yc_version c \<noteq> n" using assms(4) by simp
    have again: "save_claim U c e (PyInt n) db' = (Inr c, db')"
      using save_outcome(2) [OF s(2) assms(2-5) now] v by simp
    have "save_claim U r x (PyInt n) db' = (Inl YouTubeClaimConcurrencyConflictError, db')"
      if r: "youtube_claim_post_init U r = Inr ()" "yc_id r = yc_id c" "r \<noteq> c" for r x
    proof (cases "yc_version r = n + 1 \<and> (yc_state r = x \<or> yc_state r \<in> set (allowed_youtube_transitions x))")
      case True
      then show ?thesis
        using save_outcome(2) [OF s(2) r(1) assms(3), of x c] now r(2,3) v by auto
    qed (rule save_refused, auto)
    then show ?thesis using s again by blast
  qed
  then show ?thesis using out(1,2,3) by blast
qed

lemma sample_live_claim_simps:
  "yc_state sample_live_claim = YS_DUPLICATE_RESOLVED" "yc_version sample_live_claim = 1"
  "yc_id sample_live_claim = sample_uuid 1" "yc_media_id sample_live_claim = Some (sample_uuid 2)"
  "yc_media_location_id sample_live_claim = Some (sample_uuid 3)" "yc_created_at_ms sample_live_claim = 10"
  "yc_completed_at_ms sample_live_claim = Some 20" "yc_downloaded_at_ms sample_live_claim = None"
  "yc_upstream_source_date sample_live_claim = None" "yc_retry_of_claim_id sample_live_claim = None"
  "yc_resolved_claim_id sample_live_claim = None" "yc_upload_id sample_live_claim = None"
  by (simp_all add: sample_live_claim_def sample_claim_def fresh_youtube_claim_def del: One_nat_def)

lemma sample_live_admissible: "youtube_row_admissible sample_claims_db (values_from_claim sample_live_claim)"
proof -
  have "youtube_row_ok (values_from_claim sample_live_claim)"
    using claim_row_ok_iff [OF folds_case_ascii sample_live_claim_valid]
    by (simp add: claim_row_extra_def sample_live_claim_simps)
  moreover have "youtube_fks_hold sample_claims_db (values_from_claim sample_live_claim)"
    by (simp add: youtube_fks_hold_def values_from_claim_simps sample_live_claim_simps sample_claims_db_def
        empty_claims_db_def)
  ultimately show ?thesis
    by (simp add: youtube_row_admissible_def sample_claims_db_def values_from_claim_simps sample_live_claim_simps
        del: One_nat_def)
qed

lemma claim_save_compare_and_swap_witness:
  "\<exists>db'. save_claim ascii_tables sample_live_claim YS_CLAIMED (PyInt 0) sample_claims_db = (Inr sample_live_claim, db')
     \<and> stored_claim ascii_tables db' (sample_uuid 1) = Some sample_live_claim"
proof -
  have st: "stored_claim ascii_tables sample_claims_db (yc_id sample_live_claim) = Some sample_claim"
    unfolding sample_stored sample_live_claim_simps by simp
  have h: "yc_version sample_live_claim = 0 + 1" "yc_state sample_live_claim = YS_CLAIMED
      \<or> yc_state sample_live_claim \<in> set (allowed_youtube_transitions YS_CLAIMED)"
    by (simp_all add: sample_live_claim_simps)
  obtain db' where "save_claim ascii_tables sample_live_claim YS_CLAIMED (PyInt 0) sample_claims_db = (Inr sample_live_claim, db')"
      "stored_claim ascii_tables db' = (stored_claim ascii_tables sample_claims_db)(yc_id sample_live_claim \<mapsto> sample_live_claim)"
    using claim_save_compare_and_swap [OF sample_store sample_live_claim_valid order_refl h] st sample_claim_state(1,2)
      sample_live_admissible by blast
  then show ?thesis by (simp add: sample_live_claim_simps del: One_nat_def)
qed

text \<open>
   Nothing that happens to the tables loses a stored claim or rewrites its past: at any later
  moment it is still stored under its identifier, valid, its version has grown by at least the
  number of states it went through, these follow the transition table, and while the version is
  the same the claim is the same.
\<close>

theorem stored_claim_history:
  assumes "claims_store U db0" and "(claims_step U)\<^sup>*\<^sup>* db0 db" and "stored_claim U db0 i = Some c"
  shows "\<exists>d ts. stored_claim U db i = Some d \<and> youtube_claim_post_init U d = Inr () \<and> yc_id d = i
    \<and> (yc_version d = yc_version c \<longrightarrow> d = c)
    \<and> table_run allowed_youtube_transitions (yc_state c) ts \<and> last (yc_state c # ts) = yc_state d
    \<and> int (length ts) \<le> yc_version d - yc_version c"
proof -
  have k: "claims_kept U db0 db" by (rule run_keeps [OF assms(2,1)])
  then obtain d where d: "stored_claim U db i = Some d" "claim_path c d"
    using assms(3) unfolding claims_kept_def by blast
  have "claims_store U db" using k by (simp add: claims_kept_def)
  then have "youtube_claim_post_init U d = Inr ()" "yc_id d = i" using d(1) by (simp_all add: stored_claim_iff)
  then show ?thesis using d unfolding claim_path_def by blast
qed

lemma stored_claim_history_witness:
  "\<exists>d. stored_claim ascii_tables sample_claims_db (sample_uuid 1) = Some d \<and> yc_id d = sample_uuid 1"
proof -
  have "stored_claim ascii_tables sample_claims_db (sample_uuid 1) = Some sample_claim" unfolding sample_stored by simp
  from stored_claim_history [OF sample_store rtranclp.rtrancl_refl this] show ?thesis by blast
qed

section \<open>A requester's list\<close>

definition claim_list_key :: "youtube_claim \<Rightarrow> int \<times> pystr" where
  "claim_list_key c = (yc_created_at_ms c, uuid_to_text (yc_id c))"

lemma claims_listed:
  assumes "claims_store U db"
  obtains cs where "cd_claims db = map values_from_claim cs" and "distinct (map yc_id cs)"
    and "\<forall>c. c \<in> set cs \<longleftrightarrow> stored_claim U db (yc_id c) = Some c"
    and "\<forall>c \<in> set cs. claim_from_row U (values_from_claim c) = Inr c"
proof -
  have "\<forall>r \<in> set (cd_claims db). \<exists>c. stored_claim U db (yc_id c) = Some c \<and> r = values_from_claim c"
    using claims_store_row [OF assms] by metis
  then obtain g where g: "\<And>r. r \<in> set (cd_claims db) \<Longrightarrow> stored_claim U db (yc_id (g r)) = Some (g r) \<and> r = values_from_claim (g r)"
    by metis
  let ?cs = "map g (cd_claims db)"
  have e: "cd_claims db = map values_from_claim ?cs" using g by (simp add: map_idI)
  have v: "youtube_claim_post_init U c = Inr ()" if "stored_claim U db i = Some c" for i c
    using that by (simp add: stored_claim_iff [OF assms])
  have in_cs: "c \<in> set ?cs \<longleftrightarrow> stored_claim U db (yc_id c) = Some c" for c
  proof
    assume "stored_claim U db (yc_id c) = Some c"
    then have m: "values_from_claim c \<in> set (cd_claims db)" "youtube_claim_post_init U c = Inr ()"
      by (simp_all add: stored_claim_iff [OF assms])
    then have "g (values_from_claim c) = c" using g [OF m(1)] v values_from_claim_inj [OF m(2)] by metis
    then show "c \<in> set ?cs" using m(1) by force
  qed (use g in auto)
  have "distinct (map yr_id (cd_claims db))"
    using keyed_rows_okD(1) [OF assms [unfolded claims_store_def]] .
  then have "distinct (map (\<lambda>c. uuid_to_text (yc_id c)) ?cs)"
    by (subst (asm) e) (simp add: comp_def values_from_claim_simps)
  then have "distinct (map yc_id ?cs)" by (simp add: distinct_map inj_on_def)
  then show ?thesis using that [OF e] claim_from_values v in_cs by blast
qed

lemma claims_page:
  assumes s: "claims_store U db" and n: "0 < n" "n \<le> 1000"
  obtains all where "sorted (rev (map claim_list_key all))" and "distinct all"
    and "set all = {c. stored_claim U db (yc_id c) = Some c \<and> yc_created_by_login_key c = Some k}"
    and "list_owned U k (PyInt n) PyNone PyNone db = (Inr (take (nat n) all), db)"
    and "\<And>m. m < length all \<Longrightarrow>
      list_owned U k (PyInt n) (PyInt (yc_created_at_ms (all ! m))) (PyStr (uuid_to_text (yc_id (all ! m)))) db
      = (Inr (take (nat n) (drop (Suc m) all)), db)"
proof -
  obtain cs where cs: "cd_claims db = map values_from_claim cs" "distinct (map yc_id cs)"
      "\<forall>c. c \<in> set cs \<longleftrightarrow> stored_claim U db (yc_id c) = Some c"
      "\<forall>c \<in> set cs. claim_from_row U (values_from_claim c) = Inr c"
    by (rule claims_listed [OF s])
  let ?mine = "\<lambda>c. yc_created_by_login_key c = Some k"
  define xs where "xs = sort_key claim_list_key (filter ?mine cs)"
  have key: "(\<lambda>c. (yr_created_at_ms (values_from_claim c), yr_id (values_from_claim c))) = claim_list_key"
    by (rule ext) (simp add: claim_list_key_def values_from_claim_simps)
  have read: "map_results (claim_from_row U) (map values_from_claim ys) = Inr ys" if "set ys \<subseteq> set cs" for ys
    using that cs(4) by (induction ys) auto
  have page: "map_results (claim_from_row U) (sql_order_desc_limit (\<lambda>r. (yr_created_at_ms r, yr_id r)) n
        (filter p (cd_claims db))) = Inr (take (nat n) (rev (sort_key claim_list_key (filter (\<lambda>c. p (values_from_claim c)) cs))))" for p
  proof -
    have "sql_order_desc_limit (\<lambda>r. (yr_created_at_ms r, yr_id r)) n (filter p (cd_claims db))
        = map values_from_claim (take (nat n) (rev (sort_key claim_list_key (filter (\<lambda>c. p (values_from_claim c)) cs))))"
      by (simp add: cs(1) filter_map comp_def sql_order_desc_limit_def sort_key_map key take_map rev_map)
    moreover have "set (take (nat n) (rev (sort_key claim_list_key (filter (\<lambda>c. p (values_from_claim c)) cs)))) \<subseteq> set cs"
      by (auto dest!: in_set_takeD)
    ultimately show ?thesis using read by simp
  qed
  have dist: "distinct (map claim_list_key xs)"
  proof -
    have "inj_on yc_id (set cs)" "distinct cs" using cs(2) by (simp_all add: distinct_map)
    then show ?thesis by (simp add: xs_def distinct_map inj_on_def claim_list_key_def)
  qed
  have srt: "sorted (map claim_list_key xs)" by (simp add: xs_def)
  show ?thesis
  proof (rule that [of "rev xs"])
    show "sorted (rev (map claim_list_key (rev xs)))" using srt by (simp add: rev_map)
    show "distinct (rev xs)" using dist by (simp add: distinct_map)
    show "set (rev xs) = {c. stored_claim U db (yc_id c) = Some c \<and> yc_created_by_login_key c = Some k}"
      using cs(3) by (auto simp: xs_def)
    have "list_owned U k (PyInt n) PyNone PyNone db = (map_results (claim_from_row U)
       (sql_order_desc_limit (\<lambda>r. (yr_created_at_ms r, yr_id r)) n
         (filter (\<lambda>r. yr_created_by_login_key r = Some k) (cd_claims db))), db)"
      using n by (simp add: list_owned_def validate_claim_cursor_def run_query_def page)
    then show "list_owned U k (PyInt n) PyNone PyNone db = (Inr (take (nat n) (rev xs)), db)"
      by (simp add: page xs_def values_from_claim_simps)
    fix m assume m: "m < length (rev xs)"
    define c where "c = rev xs ! m"
    have "c \<in> set xs" using m nth_mem [of m "rev xs"] by (simp add: c_def)
    then have "stored_claim U db (yc_id c) = Some c" using cs(3) by (simp add: xs_def)
    then have t: "0 \<le> yc_created_at_ms c"
      by (auto simp: stored_claim_iff [OF s] youtube_post_init_parts youtube_identity_iff)
    have id: "uuid_to_text (yc_id c) \<noteq> []" using length_uuid_to_text [of "yc_id c"] by (metis list.size(3) zero_neq_numeral)
    have cx: "c = xs ! (length xs - Suc m)" using m by (simp add: c_def rev_nth)
    have less: "(yc_created_at_ms d < yc_created_at_ms c \<or> (yc_created_at_ms d = yc_created_at_ms c
        \<and> uuid_to_text (yc_id d) < uuid_to_text (yc_id c))) \<longleftrightarrow> claim_list_key d < claim_list_key c" for d
      by (auto simp: claim_list_key_def less_prod_def)
    have "sort_key claim_list_key (filter (\<lambda>d. ?mine d \<and> claim_list_key d < claim_list_key c) cs)
        = filter (\<lambda>d. claim_list_key d < claim_list_key c) xs"
      unfolding xs_def by (simp add: filter_sort conj_commute)
    also have "\<dots> = take (length xs - Suc m) xs"
      unfolding cx using m by (intro filter_less_take [OF srt dist]) simp
    finally have tail: "rev (sort_key claim_list_key (filter (\<lambda>d. ?mine d \<and> claim_list_key d < claim_list_key c) cs))
        = drop (Suc m) (rev xs)" using m by (simp add: rev_take)
    have "list_owned U k (PyInt n) (PyInt (yc_created_at_ms c)) (PyStr (uuid_to_text (yc_id c))) db
      = (map_results (claim_from_row U) (sql_order_desc_limit (\<lambda>r. (yr_created_at_ms r, yr_id r)) n
         (filter (\<lambda>r. yr_created_by_login_key r = Some k \<and> (yr_created_at_ms r < yc_created_at_ms c
            \<or> (yr_created_at_ms r = yc_created_at_ms c \<and> yr_id r < uuid_to_text (yc_id c)))) (cd_claims db))), db)"
      using n t id by (simp add: list_owned_def validate_claim_cursor_def run_query_def page)
    then show "list_owned U k (PyInt n) (PyInt (yc_created_at_ms (rev xs ! m))) (PyStr (uuid_to_text (yc_id (rev xs ! m)))) db
      = (Inr (take (nat n) (drop (Suc m) (rev xs))), db)"
      by (simp add: page values_from_claim_simps less tail flip: c_def)
  qed
qed

text \<open>
   A requester's list is the stored claims of that requester, newest first and by identifier
  among those of one instant; the first page is its beginning, and the page after any of its
  claims continues right behind it, so paging with the last claim of each page shows every claim
  once.
\<close>

theorem owned_list_pages:
  assumes "claims_store U db" and "0 < n" and "n \<le> 1000"
  shows "\<exists>all. sorted (rev (map (\<lambda>c. (yc_created_at_ms c, uuid_to_text (yc_id c))) all)) \<and> distinct all
    \<and> set all = {c. stored_claim U db (yc_id c) = Some c \<and> yc_created_by_login_key c = Some k}
    \<and> list_owned U k (PyInt n) PyNone PyNone db = (Inr (take (nat n) all), db)
    \<and> (\<forall>m < length all.
         list_owned U k (PyInt n) (PyInt (yc_created_at_ms (all ! m))) (PyStr (uuid_to_text (yc_id (all ! m)))) db
         = (Inr (take (nat n) (drop (Suc m) all)), db))"
proof -
  have key: "(\<lambda>c. (yc_created_at_ms c, uuid_to_text (yc_id c))) = claim_list_key"
    by (rule ext) (simp add: claim_list_key_def)
  show ?thesis unfolding key by (rule claims_page [OF assms, of k]) blast
qed

lemma owned_list_pages_witness:
  "\<exists>all. set all = {c. stored_claim ascii_tables sample_claims_db (yc_id c) = Some c
       \<and> yc_created_by_login_key c = Some (lit ''alice@example.org'')}
     \<and> list_owned ascii_tables (lit ''alice@example.org'') (PyInt 1) PyNone PyNone sample_claims_db
         = (Inr (take 1 all), sample_claims_db)"
  using owned_list_pages [OF sample_store, of 1 "lit ''alice@example.org''"] by auto

end
