(* ===== verification/X_Url.thy ===== *)
theory X_Url
  imports Youtube_Url
begin

text \<open>
  The source URL policy of \<open>domain/x_acquisition.py\<close>: \<open>_split_url\<close>, the source identity and
  \<open>accept_x_post_url\<close>.
\<close>

datatype x_error =
    FrameNestXUrlError
  | FrameNestXClaimError
  | FrameNestXAssetError
  | FrameNestXTransitionError

definition MAX_X_SUBMITTED_URL_CODE_POINTS :: nat where
  "MAX_X_SUBMITTED_URL_CODE_POINTS = 2048"

definition MAX_POST_ID_DIGITS :: nat where
  "MAX_POST_ID_DIGITS = 19"

definition X_EXTRACTOR_KEY :: pystr where
  "X_EXTRACTOR_KEY = lit ''X''"

definition X_HOSTS :: "pystr list" where
  "X_HOSTS = [lit ''x.com'', lit ''www.x.com'', lit ''twitter.com'', lit ''www.twitter.com'']"

definition post_id_pattern :: "pystr \<Rightarrow> bool" where
  "post_id_pattern s = matches_class is_digit 1 MAX_POST_ID_DIGITS s"

definition handle_pattern :: "pystr \<Rightarrow> bool" where
  "handle_pattern s = matches_class (\<lambda>c. is_alnum c \<or> c = 95) 1 64 s"

text \<open>The host, the handle and the post identifier of a status URL.\<close>

definition x_split_url :: "unicode_tables \<Rightarrow> pystr \<Rightarrow> (pystr \<times> pystr \<times> pystr) option" where
  "x_split_url U s =
     (if s = [] \<or> strip s \<noteq> s \<or> length s > MAX_X_SUBMITTED_URL_CODE_POINTS \<or> has_control_character s
      then None
      else case urlsplit U s of
        None \<Rightarrow> None
      | Some parsed \<Rightarrow>
          (case url_port parsed of
             None \<Rightarrow> None
           | Some port \<Rightarrow>
               (case url_hostname U parsed of
                  None \<Rightarrow> None
                | Some hostname \<Rightarrow>
                    if sr_scheme parsed \<noteq> lit ''https''
                       \<or> fst (url_userinfo parsed) \<noteq> None \<or> snd (url_userinfo parsed) \<noteq> None
                       \<or> (port \<noteq> None \<and> port \<noteq> Some 443) \<or> sr_fragment parsed \<noteq> []
                       \<or> sr_query parsed \<noteq> []
                    then None
                    else let host = uni_lower U hostname
                         in if host \<notin> set X_HOSTS then None
                            else if uni_lower U (sr_netloc parsed) \<notin> {host, host @ lit '':443''} then None
                            else let path_parts = filter (\<lambda>p. p \<noteq> []) (split_on 47 (sr_path parsed))
                                 in if length path_parts \<noteq> 3 \<or> path_parts ! 1 \<noteq> lit ''status'' then None
                                    else Some (host, path_parts ! 0, path_parts ! 2))))"

record x_source_identity =
  xsi_post_id :: pystr
  xsi_submitted_url :: pystr
  xsi_canonical_url :: pystr
  xsi_extractor_key :: pystr

definition x_source_identity_new ::
    "unicode_tables \<Rightarrow> pystr \<Rightarrow> pystr \<Rightarrow> pystr \<Rightarrow> pystr \<Rightarrow> x_error + x_source_identity" where
  "x_source_identity_new U post_id submitted_url canonical_url extractor_key =
     (if \<not> post_id_pattern post_id \<or> extractor_key \<noteq> X_EXTRACTOR_KEY then Inl FrameNestXUrlError
      else case x_split_url U canonical_url of
        None \<Rightarrow> Inl FrameNestXUrlError
      | Some (host, handle, raw_post_id) \<Rightarrow>
          if handle \<noteq> [] \<and> hd handle = 105 then Inl FrameNestXUrlError
          else if raw_post_id \<noteq> post_id then Inl FrameNestXUrlError
          else if host \<notin> set X_HOSTS then Inl FrameNestXUrlError
          else Inr \<lparr>xsi_post_id = post_id, xsi_submitted_url = submitted_url,
                    xsi_canonical_url = canonical_url, xsi_extractor_key = extractor_key\<rparr>)"

text \<open>\<open>handle.rstrip("_")\<close>\<close>

definition rstrip_underscores :: "pystr \<Rightarrow> pystr" where
  "rstrip_underscores s = rev (dropWhile (\<lambda>c. c = 95) (rev s))"

definition x_status_url :: "pystr \<Rightarrow> pystr \<Rightarrow> pystr" where
  "x_status_url handle post_id = lit ''https://x.com/'' @ handle @ lit ''/status/'' @ post_id"

definition accept_x_post_url :: "unicode_tables \<Rightarrow> pystr \<Rightarrow> x_error + x_source_identity" where
  "accept_x_post_url U url =
     (case x_split_url U url of
        None \<Rightarrow> Inl FrameNestXUrlError
      | Some (host, handle, post_id) \<Rightarrow>
          if \<not> post_id_pattern post_id then Inl FrameNestXUrlError
          else if \<not> handle_pattern handle then Inl FrameNestXUrlError
          else x_source_identity_new U post_id url (x_status_url (rstrip_underscores handle) post_id)
                 X_EXTRACTOR_KEY)"

section \<open>Splitting status URLs\<close>

text \<open>The generic part is that of the YouTube policy.\<close>

lemma x_split_url_youtube:
  "x_split_url U s =
     (case youtube_split U s of
        None \<Rightarrow> None
      | Some (host, parsed) \<Rightarrow>
          let path_parts = filter (\<lambda>p. p \<noteq> []) (split_on 47 (sr_path parsed))
          in if sr_query parsed = [] \<and> host \<in> set X_HOSTS \<and> length path_parts = 3
                \<and> path_parts ! 1 = lit ''status''
             then Some (host, path_parts ! 0, path_parts ! 2) else None)"
proof (cases "s = [] \<or> strip s \<noteq> s \<or> length s > 2048 \<or> has_control_character s")
  case True
  then show ?thesis
    by (simp add: x_split_url_def youtube_split_def MAX_X_SUBMITTED_URL_CODE_POINTS_def
        MAX_SUBMITTED_URL_CODE_POINTS_def)
next
  case False
  note plain = this
  show ?thesis
  proof (cases "urlsplit U s")
    case None
    then show ?thesis by (simp add: x_split_url_def youtube_split_def)
  next
    case (Some parsed)
    note parsed = this
    show ?thesis
    proof (cases "url_port parsed = None \<or> url_hostname U parsed = None")
      case True
      then show ?thesis
        by (cases "url_port parsed"; cases "url_hostname U parsed")
          (auto simp: x_split_url_def youtube_split_def parsed)
    next
      case False
      then obtain port hostname where p: "url_port parsed = Some port" "url_hostname U parsed = Some hostname"
        by auto
      define bad where "bad \<longleftrightarrow> sr_scheme parsed \<noteq> lit ''https''
        \<or> fst (url_userinfo parsed) \<noteq> None \<or> snd (url_userinfo parsed) \<noteq> None
        \<or> (port \<noteq> None \<and> port \<noteq> Some 443) \<or> sr_fragment parsed \<noteq> []"
      define other where "other \<longleftrightarrow> uni_lower U (sr_netloc parsed)
        \<notin> {uni_lower U hostname, uni_lower U hostname @ lit '':443''}"
      have x: "x_split_url U s = (if bad \<or> sr_query parsed \<noteq> [] then None
          else if uni_lower U hostname \<notin> set X_HOSTS then None else if other then None
          else let path_parts = filter (\<lambda>p. p \<noteq> []) (split_on 47 (sr_path parsed))
            in if length path_parts \<noteq> 3 \<or> path_parts ! 1 \<noteq> lit ''status'' then None
               else Some (uni_lower U hostname, path_parts ! 0, path_parts ! 2))"
        using plain unfolding x_split_url_def MAX_X_SUBMITTED_URL_CODE_POINTS_def bad_def other_def
        by (simp only: parsed p option.case Let_def if_False disj_assoc)
      have y: "youtube_split U s = (if bad then None else if other then None
          else Some (uni_lower U hostname, parsed))"
        using plain unfolding youtube_split_def MAX_SUBMITTED_URL_CODE_POINTS_def bad_def other_def
        by (simp only: parsed p option.case Let_def if_False disj_assoc)
      show ?thesis
        unfolding x y by (cases bad; cases other) (simp_all add: Let_def)
    qed
  qed
qed

lemma x_host: "host \<in> set X_HOSTS \<Longrightarrow> plain_host host \<and> length host \<le> 20"
  by (auto simp: X_HOSTS_def plain_host_def lit_def char_class_defs)

lemma post_id_facts:
  assumes "post_id_pattern p"
  shows "list_all plain_url_char p" "47 \<notin> set p" "p \<noteq> []" "length p \<le> 19"
  using assms by (auto simp: post_id_pattern_def matches_class_def list_all_iff plain_url_char_def
      is_digit_def MAX_POST_ID_DIGITS_def)

lemma handle_facts:
  assumes "list_all (\<lambda>c. is_alnum c \<or> c = 95) h"
  shows "list_all plain_url_char h" "47 \<notin> set h"
  using assms by (auto simp: list_all_iff plain_url_char_def is_alnum_def char_class_defs)

definition status_path :: "pystr \<Rightarrow> pystr \<Rightarrow> pystr" where
  "status_path handle post_id = 47 # handle @ 47 # lit ''status'' @ 47 # post_id"

lemma x_status_url_text: "x_status_url handle post_id = url_text (lit ''x.com'') False (status_path handle post_id) None"
  by (simp add: x_status_url_def url_text_def status_path_def lit_def)

lemma split_status_path:
  assumes "47 \<notin> set h" "47 \<notin> set p"
  shows "split_on 47 (status_path h p) = [[], h, lit ''status'', p]"
proof -
  have s: "split_on 47 (a @ 47 # b) = a # split_on 47 b" if "47 \<notin> set a" for a b
    using that by (induction a) auto
  have "47 \<notin> set (lit ''status'')" by (simp add: lit_def)
  then show ?thesis using s [OF assms(1)] s [of "lit ''status''"] assms(2) by (simp add: status_path_def)
qed

lemma x_split_status:
  assumes "ascii_lowering U" "host \<in> set X_HOSTS" "list_all (\<lambda>c. is_alnum c \<or> c = 95) h" "length h \<le> 64"
    and "post_id_pattern p"
  shows "x_split_url U (url_text host port (status_path h p) None)
    = (if h = [] then None else Some (host, h, p))"
proof -
  note hf = handle_facts [OF assms(3)] and pf = post_id_facts [OF assms(5)]
  have pl: "list_all plain_url_char (status_path h p)"
    using hf pf by (simp add: status_path_def plain_url_char_def lit_def)
  have len: "length (url_text host port (status_path h p) None) \<le> MAX_SUBMITTED_URL_CODE_POINTS"
    using x_host [OF assms(2)] assms(4) pf(4)
    by (simp add: url_text_def status_path_def MAX_SUBMITTED_URL_CODE_POINTS_def)
  have h: "plain_host host" using x_host [OF assms(2)] by blast
  obtain parsed where "youtube_split U (url_text host port (status_path h p) None) = Some (host, parsed)"
      "sr_path parsed = status_path h p" "sr_query parsed = []"
    using youtube_split_plain [OF assms(1) h pl _ _ len] by (auto simp: status_path_def)
  then show ?thesis
    using assms(2) pf(3) by (simp add: x_split_url_youtube split_status_path [OF hf(2) pf(2)] Let_def lit_def)
qed

lemma set_rstrip: "set (rstrip_underscores h) \<subseteq> set h"
  by (auto simp: rstrip_underscores_def dest: set_dropWhileD)

lemma length_rstrip: "length (rstrip_underscores h) \<le> length h"
  unfolding rstrip_underscores_def using length_dropWhile_le [of "\<lambda>c. c = 95" "rev h"] by simp

lemma rstrip_idem [simp]: "rstrip_underscores (rstrip_underscores h) = rstrip_underscores h"
proof -
  have "dropWhile (\<lambda>c. c = 95) (dropWhile (\<lambda>c. c = 95) (rev h)) = dropWhile (\<lambda>c. c = 95) (rev h)"
    using dropWhile_head_fails [of "\<lambda>c. c = 95" "rev h"] by (intro dropWhile_id) auto
  then show ?thesis by (simp add: rstrip_underscores_def)
qed

lemma rstrip_handle:
  assumes "handle_pattern h"
  shows "list_all (\<lambda>c. is_alnum c \<or> c = 95) (rstrip_underscores h)" "length (rstrip_underscores h) \<le> 64"
    "rstrip_underscores h \<noteq> [] \<Longrightarrow> handle_pattern (rstrip_underscores h)"
proof -
  show l: "list_all (\<lambda>c. is_alnum c \<or> c = 95) (rstrip_underscores h)"
    using assms set_rstrip [of h] by (auto simp: handle_pattern_def matches_class_def list_all_iff)
  show n: "length (rstrip_underscores h) \<le> 64"
    using assms length_rstrip [of h] by (simp add: handle_pattern_def matches_class_def)
  show "rstrip_underscores h \<noteq> [] \<Longrightarrow> handle_pattern (rstrip_underscores h)"
    using l n by (simp add: handle_pattern_def matches_class_def Suc_leI)
qed

definition post_identity :: "pystr \<Rightarrow> pystr \<Rightarrow> pystr \<Rightarrow> x_source_identity" where
  "post_identity url handle post_id = \<lparr>xsi_post_id = post_id, xsi_submitted_url = url,
     xsi_canonical_url = x_status_url handle post_id, xsi_extractor_key = X_EXTRACTOR_KEY\<rparr>"

text \<open>The answer for a text that splits.\<close>

lemma accept_split:
  assumes "ascii_lowering U" and "x_split_url U url = Some (host, h, p)"
    and "handle_pattern h" and "post_id_pattern p"
  shows "accept_x_post_url U url =
    (if rstrip_underscores h = [] \<or> hd (rstrip_underscores h) = 105 then Inl FrameNestXUrlError
     else Inr (post_identity url (rstrip_underscores h) p))"
proof -
  let ?h = "rstrip_underscores h"
  have x: "lit ''x.com'' \<in> set X_HOSTS" by (simp add: X_HOSTS_def)
  have "x_split_url U (x_status_url ?h p) = (if ?h = [] then None else Some (lit ''x.com'', ?h, p))"
    unfolding x_status_url_text by (rule x_split_status [OF assms(1) x rstrip_handle(1,2) [OF assms(3)] assms(4)])
  then show ?thesis
    using assms(2,3,4) x by (simp add: accept_x_post_url_def x_source_identity_new_def post_identity_def)
qed

lemma accept_Inr:
  assumes "ascii_lowering U" and "accept_x_post_url U url = Inr i"
  obtains host h p where "x_split_url U url = Some (host, h, p)" "handle_pattern h" "post_id_pattern p"
    "rstrip_underscores h \<noteq> []" "hd (rstrip_underscores h) \<noteq> 105"
    "i = post_identity url (rstrip_underscores h) p"
proof -
  from assms(2) obtain host h p where s: "x_split_url U url = Some (host, h, p)" "post_id_pattern p" "handle_pattern h"
    by (auto simp: accept_x_post_url_def split: option.splits if_splits)
  show thesis
    using assms(2) accept_split [OF assms(1) s(1,3,2)] s by (intro that [OF s(1,3,2)]) (auto split: if_splits)
qed

section \<open>Properties\<close>

definition sample_post_url :: pystr where
  "sample_post_url = url_text (lit ''twitter.com'') False (status_path (lit ''bob_'') (lit ''42'')) None"

lemma sample_post: "handle_pattern (lit ''bob_'')" "post_id_pattern (lit ''42'')"
  "rstrip_underscores (lit ''bob_'') = lit ''bob''"
  by (simp_all add: lit_def handle_pattern_def post_id_pattern_def matches_class_def is_alnum_def
      char_class_defs MAX_POST_ID_DIGITS_def rstrip_underscores_def)

text \<open>
   C38. What a status URL of an allowed host becomes, for every well-formed handle and post
  identifier: the handle loses its trailing underscores, and the URL is refused when nothing is
  left of it or what is left begins with the letter i; otherwise the post has the canonical URL
  on \<open>x.com\<close> with the shortened handle.
\<close>

theorem x_url_forms:
  assumes "ascii_lowering U" and "host \<in> set X_HOSTS" and "handle_pattern h" and "post_id_pattern p"
  shows "accept_x_post_url U (url_text host port (status_path h p) None) =
    (if rstrip_underscores h = [] \<or> hd (rstrip_underscores h) = 105 then Inl FrameNestXUrlError
     else Inr \<lparr>xsi_post_id = p, xsi_submitted_url = url_text host port (status_path h p) None,
       xsi_canonical_url = x_status_url (rstrip_underscores h) p, xsi_extractor_key = X_EXTRACTOR_KEY\<rparr>)"
proof -
  have "list_all (\<lambda>c. is_alnum c \<or> c = 95) h" "length h \<le> 64" "h \<noteq> []"
    using assms(3) by (auto simp: handle_pattern_def matches_class_def)
  then have "x_split_url U (url_text host port (status_path h p) None) = Some (host, h, p)"
    using x_split_status [OF assms(1,2) _ _ assms(4)] by simp
  then show ?thesis using accept_split [OF assms(1) _ assms(3,4)] by (simp add: post_identity_def)
qed

lemma x_url_forms_witness:
  "\<exists>i. accept_x_post_url ascii_tables sample_post_url = Inr i
    \<and> xsi_canonical_url i = lit ''https://x.com/bob/status/42''"
proof -
  have "lit ''twitter.com'' \<in> set X_HOSTS" by (simp add: X_HOSTS_def)
  from x_url_forms [OF ascii_lowering_ascii_tables this sample_post(1,2), of False] show ?thesis
    by (simp add: sample_post_url_def sample_post(3) x_status_url_def) (simp add: lit_def)
qed

text \<open>
   C39. An accepted submission is an \<open>https\<close> URL whose authority is one of the four X hosts; its
  identity holds a post identifier of at most nineteen digits and the canonical \<open>x.com\<close> URL,
  which is accepted in turn, for the same post and as its own canonical URL.
\<close>

theorem x_url_policy:
  assumes "ascii_lowering U" and "accept_x_post_url U url = Inr i"
  shows "post_id_pattern (xsi_post_id i) \<and> xsi_submitted_url i = url
    \<and> accept_x_post_url U (xsi_canonical_url i) = Inr (i\<lparr>xsi_submitted_url := xsi_canonical_url i\<rparr>)
    \<and> (\<exists>h n rest host. url = h @ lit ''://'' @ n @ rest \<and> ascii_lower h = lit ''https'' \<and> host \<in> set X_HOSTS
        \<and> (uni_lower U n = host \<or> uni_lower U n = host @ lit '':443'')
        \<and> (rest = [] \<or> hd rest \<in> {47, 63, 35}))"
proof -
  from assms obtain host h p where a: "x_split_url U url = Some (host, h, p)" "handle_pattern h"
      "post_id_pattern p" "rstrip_underscores h \<noteq> []" "hd (rstrip_underscores h) \<noteq> 105"
      "i = post_identity url (rstrip_underscores h) p"
    by (rule accept_Inr)
  have x: "lit ''x.com'' \<in> set X_HOSTS" by (simp add: X_HOSTS_def)
  have "x_split_url U (x_status_url (rstrip_underscores h) p) = Some (lit ''x.com'', rstrip_underscores h, p)"
    unfolding x_status_url_text
    using x_split_status [OF assms(1) x rstrip_handle(1,2) [OF a(2)] a(3)] a(4) by simp
  from accept_split [OF assms(1) this rstrip_handle(3) [OF a(2,4)] a(3)]
  have again: "accept_x_post_url U (xsi_canonical_url i) = Inr (i\<lparr>xsi_submitted_url := xsi_canonical_url i\<rparr>)"
    using a(4,5,6) by (simp add: post_identity_def)
  obtain parsed where y: "youtube_split U url = Some (host, parsed)" "host \<in> set X_HOSTS"
    using a(1) by (auto simp: x_split_url_youtube Let_def split: option.splits if_splits)
  from y(1) obtain s n rest where "url = s @ lit ''://'' @ n @ rest" "ascii_lower s = lit ''https''"
      "uni_lower U n = host \<or> uni_lower U n = host @ lit '':443''" "rest = [] \<or> hd rest \<in> {47, 63, 35}"
    by (rule youtube_split_text)
  then show ?thesis using a(3,6) again y(2) by (auto simp: post_identity_def)
qed

lemma sample_post_accepted:
  "accept_x_post_url ascii_tables sample_post_url = Inr (post_identity sample_post_url (lit ''bob'') (lit ''42''))"
proof -
  have x: "lit ''twitter.com'' \<in> set X_HOSTS" by (simp add: X_HOSTS_def)
  have h: "list_all (\<lambda>c. is_alnum c \<or> c = 95) (lit ''bob_'')" "length (lit ''bob_'') \<le> 64" "lit ''bob_'' \<noteq> []"
    using sample_post(1) by (auto simp: handle_pattern_def matches_class_def) (simp add: lit_def)
  have "x_split_url ascii_tables sample_post_url = Some (lit ''twitter.com'', lit ''bob_'', lit ''42'')"
    unfolding sample_post_url_def
    using x_split_status [OF ascii_lowering_ascii_tables x h(1,2) sample_post(2)] h(3) by simp
  from accept_split [OF ascii_lowering_ascii_tables this sample_post(1,2)] show ?thesis
    by (simp add: sample_post(3)) (simp add: lit_def)
qed

lemma x_url_policy_witness:
  "post_id_pattern (xsi_post_id (post_identity sample_post_url (lit ''bob'') (lit ''42'')))
    \<and> ok (accept_x_post_url ascii_tables (x_status_url (lit ''bob'') (lit ''42'')))"
  using x_url_policy [OF ascii_lowering_ascii_tables sample_post_accepted] by (simp add: post_identity_def)

end
