(* ===== verification/X_Claims.thy ===== *)
theory X_Claims
  imports X_Url Snapshots
begin

text \<open>
  The post claim and the asset of \<open>domain/x_acquisition.py\<close>: states, transition tables, failure
  codes, the constructors' \<open>__post_init__\<close>, and the operations that give new snapshots.  As for
  the YouTube claim, \<open>changes\<close> is the update the keyword arguments make.
\<close>

section \<open>Enumerations and tables\<close>

datatype x_state =
    XS_SUBMITTED | XS_QUEUED | XS_EXTRACTING | XS_ACQUIRING | XS_HANDING_OFF | XS_COMPLETED
  | XS_COMPLETED_PARTIAL | XS_FAILED | XS_DUPLICATE_RESOLVED | XS_CATALOG_REMOVED

fun x_state_value :: "x_state \<Rightarrow> pystr" where
  "x_state_value XS_SUBMITTED = lit ''submitted''"
| "x_state_value XS_QUEUED = lit ''queued''"
| "x_state_value XS_EXTRACTING = lit ''extracting''"
| "x_state_value XS_ACQUIRING = lit ''acquiring''"
| "x_state_value XS_HANDING_OFF = lit ''handing_off''"
| "x_state_value XS_COMPLETED = lit ''completed''"
| "x_state_value XS_COMPLETED_PARTIAL = lit ''completed_partial''"
| "x_state_value XS_FAILED = lit ''failed''"
| "x_state_value XS_DUPLICATE_RESOLVED = lit ''duplicate_resolved''"
| "x_state_value XS_CATALOG_REMOVED = lit ''catalog_removed''"

datatype x_asset_state =
    XA_PENDING | XA_EXTRACTED | XA_ACQUIRING | XA_STAGED | XA_HANDING_OFF | XA_CATALOGED | XA_FAILED

fun x_asset_state_value :: "x_asset_state \<Rightarrow> pystr" where
  "x_asset_state_value XA_PENDING = lit ''pending''"
| "x_asset_state_value XA_EXTRACTED = lit ''extracted''"
| "x_asset_state_value XA_ACQUIRING = lit ''acquiring''"
| "x_asset_state_value XA_STAGED = lit ''staged''"
| "x_asset_state_value XA_HANDING_OFF = lit ''handing_off''"
| "x_asset_state_value XA_CATALOGED = lit ''cataloged''"
| "x_asset_state_value XA_FAILED = lit ''failed''"

definition ACTIVE_X_ACQUISITION_STATES :: "x_state list" where
  "ACTIVE_X_ACQUISITION_STATES = [XS_SUBMITTED, XS_QUEUED, XS_EXTRACTING, XS_ACQUIRING, XS_HANDING_OFF]"

definition TERMINAL_X_ACQUISITION_STATES :: "x_state list" where
  "TERMINAL_X_ACQUISITION_STATES = [XS_COMPLETED, XS_COMPLETED_PARTIAL, XS_FAILED,
     XS_DUPLICATE_RESOLVED, XS_CATALOG_REMOVED]"

definition LIVE_CATALOG_X_ACQUISITION_STATES :: "x_state list" where
  "LIVE_CATALOG_X_ACQUISITION_STATES = [XS_COMPLETED, XS_COMPLETED_PARTIAL]"

definition SUCCESS_X_ASSET_STATES :: "x_asset_state list" where
  "SUCCESS_X_ASSET_STATES = [XA_CATALOGED]"

lemmas x_state_set_defs = ACTIVE_X_ACQUISITION_STATES_def TERMINAL_X_ACQUISITION_STATES_def
  LIVE_CATALOG_X_ACQUISITION_STATES_def SUCCESS_X_ASSET_STATES_def

fun allowed_post_transitions :: "x_state \<Rightarrow> x_state list" where
  "allowed_post_transitions XS_SUBMITTED = [XS_QUEUED, XS_DUPLICATE_RESOLVED, XS_FAILED]"
| "allowed_post_transitions XS_QUEUED = [XS_EXTRACTING, XS_FAILED]"
| "allowed_post_transitions XS_EXTRACTING = [XS_ACQUIRING, XS_FAILED]"
| "allowed_post_transitions XS_ACQUIRING = [XS_HANDING_OFF, XS_FAILED]"
| "allowed_post_transitions XS_HANDING_OFF =
     [XS_COMPLETED, XS_COMPLETED_PARTIAL, XS_DUPLICATE_RESOLVED, XS_FAILED]"
| "allowed_post_transitions XS_COMPLETED = [XS_CATALOG_REMOVED]"
| "allowed_post_transitions XS_COMPLETED_PARTIAL = [XS_CATALOG_REMOVED, XS_QUEUED, XS_ACQUIRING]"
| "allowed_post_transitions XS_DUPLICATE_RESOLVED = [XS_CATALOG_REMOVED]"
| "allowed_post_transitions XS_FAILED = [XS_QUEUED, XS_ACQUIRING]"
| "allowed_post_transitions XS_CATALOG_REMOVED = []"

fun allowed_asset_transitions :: "x_asset_state \<Rightarrow> x_asset_state list" where
  "allowed_asset_transitions XA_PENDING = [XA_EXTRACTED, XA_FAILED]"
| "allowed_asset_transitions XA_EXTRACTED = [XA_ACQUIRING, XA_FAILED]"
| "allowed_asset_transitions XA_ACQUIRING = [XA_STAGED, XA_FAILED]"
| "allowed_asset_transitions XA_STAGED = [XA_HANDING_OFF, XA_FAILED]"
| "allowed_asset_transitions XA_HANDING_OFF = [XA_CATALOGED, XA_FAILED]"
| "allowed_asset_transitions XA_CATALOGED = []"
| "allowed_asset_transitions XA_FAILED = [XA_PENDING]"

datatype x_cleanup_state = X_CLEANUP_PENDING | X_CLEANUP_COMPLETE

datatype x_failure_stage =
    XF_CONFIGURATION | XF_EXTRACTION | XF_ACQUISITION | XF_STAGING | XF_HANDOFF | XF_DOWNSTREAM
  | XF_CLEANUP | XF_INTERNAL

datatype x_media_type = XM_VIDEO | XM_ANIMATED_GIF | XM_IMAGE

definition MAX_POST_TEXT_CODE_POINTS :: nat where "MAX_POST_TEXT_CODE_POINTS = 500"
definition MAX_HANDLE_CODE_POINTS :: nat where "MAX_HANDLE_CODE_POINTS = 64"
definition MAX_AUTHOR_STABLE_ID_CODE_POINTS :: nat where "MAX_AUTHOR_STABLE_ID_CODE_POINTS = 128"
definition MAX_AUTHOR_DISPLAY_NAME_CODE_POINTS :: nat where "MAX_AUTHOR_DISPLAY_NAME_CODE_POINTS = 128"
definition MAX_SOURCE_MEDIA_KEY_CODE_POINTS :: nat where "MAX_SOURCE_MEDIA_KEY_CODE_POINTS = 300"
definition MAX_SELECTED_VARIANT_CODE_POINTS :: nat where "MAX_SELECTED_VARIANT_CODE_POINTS = 4096"
definition MAX_ASSETS_PER_POST :: int where "MAX_ASSETS_PER_POST = 4"
definition MAX_VIDEO_DURATION_SECONDS :: int where "MAX_VIDEO_DURATION_SECONDS = 300"

section \<open>The post claim\<close>

record x_claim =
  xc_id :: uuid
  xc_state :: x_state
  xc_submitted_url :: pystr
  xc_canonical_url :: pystr
  xc_x_post_id :: pystr
  xc_extractor_key :: pystr
  xc_created_at_ms :: int
  xc_updated_at_ms :: int
  xc_acquisition_source :: acquisition_source
  xc_created_by_login_key :: "pystr option"
  xc_retry_of_claim_id :: "uuid option"
  xc_resolved_claim_id :: "uuid option"
  xc_source_author_stable_id :: "pystr option"
  xc_source_author_handle :: "pystr option"
  xc_source_author_display_name :: "pystr option"
  xc_source_post_text :: "pystr option"
  xc_source_posted_at_ms :: "int option"
  xc_title :: "pystr option"
  xc_extractor_version :: "pystr option"
  xc_discovered_asset_count :: int
  xc_success_count :: int
  xc_failure_count :: int
  xc_completed_at_ms :: "int option"
  xc_catalog_removed_at_ms :: "int option"
  xc_failure_stage :: "x_failure_stage option"
  xc_failure_code :: "pystr option"
  xc_cleanup_state :: x_cleanup_state
  xc_cleanup_completed_at_ms :: "int option"
  xc_requested_content_category :: "content_category option"
  xc_version :: int

definition validate_display_url :: "unicode_tables \<Rightarrow> pystr \<Rightarrow> pystr \<Rightarrow> x_error + unit" where
  "validate_display_url U value post_id =
     (if value = [] then Inl FrameNestXClaimError
      else case x_split_url U value of
        None \<Rightarrow> Inl FrameNestXClaimError
      | Some (host, handle, raw_post_id) \<Rightarrow> all_checks [
          raise_if (handle \<noteq> [] \<and> hd handle = 105) FrameNestXClaimError,
          raise_if (raw_post_id \<noteq> post_id) FrameNestXClaimError])"

fun validate_count :: "pyobj \<Rightarrow> int \<Rightarrow> x_error + unit" where
  "validate_count (PyInt n) maximum = raise_if (n < 0 \<or> n > maximum) FrameNestXClaimError"
| "validate_count _ maximum = Inl FrameNestXClaimError"

definition x_claim_identity_checks :: "unicode_tables \<Rightarrow> x_claim \<Rightarrow> (x_error + unit) list" where
  "x_claim_identity_checks U c = [
     raise_if (\<not> is_uuid4 (xc_id c)) FrameNestXClaimError,
     and_then (accept_x_post_url U (xc_submitted_url c)) (\<lambda>identity.
       raise_if (xsi_post_id identity \<noteq> xc_x_post_id c \<or> xsi_extractor_key identity \<noteq> xc_extractor_key c
         \<or> xc_acquisition_source c \<noteq> AS_X_MANUAL_CLAIM) FrameNestXClaimError),
     validate_display_url U (xc_canonical_url c) (xc_x_post_id c),
     and_then (check_non_negative FrameNestXClaimError (PyInt (xc_created_at_ms c))) (\<lambda>_. Inr ()),
     and_then (check_non_negative FrameNestXClaimError (PyInt (xc_updated_at_ms c))) (\<lambda>_. Inr ()),
     and_then (check_non_negative FrameNestXClaimError (PyInt (xc_version c))) (\<lambda>_. Inr ()),
     raise_if (xc_updated_at_ms c < xc_created_at_ms c) FrameNestXClaimError,
     raise_if (xc_extractor_key c = []) FrameNestXClaimError,
     check_optional_claim_id FrameNestXClaimError (xc_retry_of_claim_id c) (xc_id c),
     check_optional_claim_id FrameNestXClaimError (xc_resolved_claim_id c) (xc_id c),
     check_created_by_login_key FrameNestXClaimError U (xc_created_by_login_key c)]"

definition x_claim_source_checks :: "unicode_tables \<Rightarrow> x_claim \<Rightarrow> (x_error + unit) list" where
  "x_claim_source_checks U c = [
     check_advisory FrameNestXClaimError U (xc_source_author_stable_id c) MAX_AUTHOR_STABLE_ID_CODE_POINTS False,
     check_advisory FrameNestXClaimError U (xc_source_author_display_name c)
       MAX_AUTHOR_DISPLAY_NAME_CODE_POINTS False,
     (case xc_source_author_handle c of None \<Rightarrow> Inr ()
      | Some h \<Rightarrow> all_checks [
          check_advisory FrameNestXClaimError U (Some h) MAX_HANDLE_CODE_POINTS False,
          raise_if (64 \<in> set h \<or> h \<noteq> uni_lower U h) FrameNestXClaimError]),
     check_advisory FrameNestXClaimError U (xc_source_post_text c) MAX_POST_TEXT_CODE_POINTS True,
     check_optional_non_negative FrameNestXClaimError (xc_source_posted_at_ms c) False,
     check_advisory FrameNestXClaimError U (xc_title c) MAX_DISPLAY_TITLE_CODE_POINTS False,
     check_token FrameNestXClaimError (xc_extractor_version c) (token_pattern 63)]"

definition x_claim_outcome_checks :: "x_claim \<Rightarrow> (x_error + unit) list" where
  "x_claim_outcome_checks c = [
     validate_count (PyInt (xc_discovered_asset_count c)) MAX_ASSETS_PER_POST,
     validate_count (PyInt (xc_success_count c)) MAX_ASSETS_PER_POST,
     validate_count (PyInt (xc_failure_count c)) MAX_ASSETS_PER_POST,
     raise_if (xc_success_count c + xc_failure_count c > xc_discovered_asset_count c) FrameNestXClaimError,
     check_optional_non_negative FrameNestXClaimError (xc_completed_at_ms c) False,
     check_optional_non_negative FrameNestXClaimError (xc_catalog_removed_at_ms c) False,
     raise_if ((xc_failure_stage c = None) \<noteq> (xc_failure_code c = None)) FrameNestXClaimError,
     raise_if (\<not> pred_option claim_failure_code_pattern (xc_failure_code c)) FrameNestXClaimError,
     raise_if ((xc_cleanup_state c = X_CLEANUP_PENDING \<and> xc_cleanup_completed_at_ms c \<noteq> None)
       \<or> (xc_cleanup_state c = X_CLEANUP_COMPLETE \<and> xc_cleanup_completed_at_ms c = None))
       FrameNestXClaimError,
     raise_if (xc_state c \<notin> set TERMINAL_X_ACQUISITION_STATES
       \<and> (xc_completed_at_ms c \<noteq> None \<or> xc_failure_code c \<noteq> None \<or> xc_catalog_removed_at_ms c \<noteq> None))
       FrameNestXClaimError]"

definition x_claim_post_init :: "unicode_tables \<Rightarrow> x_claim \<Rightarrow> x_error + unit" where
  "x_claim_post_init U c =
     all_checks (x_claim_identity_checks U c @ x_claim_source_checks U c @ x_claim_outcome_checks c)"

definition x_claim_make :: "unicode_tables \<Rightarrow> x_claim \<Rightarrow> x_error + x_claim" where
  "x_claim_make U c = and_then (x_claim_post_init U c) (\<lambda>_. Inr c)"

definition default_x_title :: "pystr \<Rightarrow> pystr" where
  "default_x_title post_id = lit ''X post '' @ post_id"

definition fresh_x_claim ::
    "uuid \<Rightarrow> pystr \<Rightarrow> x_source_identity \<Rightarrow> int \<Rightarrow> uuid option \<Rightarrow> pystr option \<Rightarrow> content_category option
     \<Rightarrow> x_claim" where
  "fresh_x_claim claim_id submitted_url identity now_ms retry_of owner category =
     \<lparr>xc_id = claim_id, xc_state = XS_SUBMITTED, xc_submitted_url = submitted_url,
      xc_canonical_url = xsi_canonical_url identity, xc_x_post_id = xsi_post_id identity,
      xc_extractor_key = xsi_extractor_key identity, xc_created_at_ms = now_ms,
      xc_updated_at_ms = now_ms, xc_acquisition_source = AS_X_MANUAL_CLAIM,
      xc_created_by_login_key = owner, xc_retry_of_claim_id = retry_of, xc_resolved_claim_id = None,
      xc_source_author_stable_id = None, xc_source_author_handle = None,
      xc_source_author_display_name = None, xc_source_post_text = None, xc_source_posted_at_ms = None,
      xc_title = Some (default_x_title (xsi_post_id identity)), xc_extractor_version = None,
      xc_discovered_asset_count = 0, xc_success_count = 0, xc_failure_count = 0,
      xc_completed_at_ms = None, xc_catalog_removed_at_ms = None, xc_failure_stage = None,
      xc_failure_code = None, xc_cleanup_state = X_CLEANUP_PENDING, xc_cleanup_completed_at_ms = None,
      xc_requested_content_category = category, xc_version = 0\<rparr>"

definition x_claim_new ::
    "unicode_tables \<Rightarrow> uuid \<Rightarrow> pystr \<Rightarrow> int \<Rightarrow> uuid option \<Rightarrow> pystr option \<Rightarrow> content_category option
     \<Rightarrow> x_error + x_claim" where
  "x_claim_new U claim_id submitted_url now_ms retry_of created_by category =
     and_then (accept_x_post_url U submitted_url) (\<lambda>identity.
     and_then (opt_map (\<lambda>k. rescue (\<lambda>_. FrameNestXClaimError) (normalize_login U (PyStr k))) created_by) (\<lambda>owner.
     x_claim_make U (fresh_x_claim claim_id submitted_url identity now_ms retry_of owner category)))"

definition ensure_x_transition_allowed :: "x_state \<Rightarrow> x_state \<Rightarrow> x_error + unit" where
  "ensure_x_transition_allowed source target =
     raise_if (target \<notin> set (allowed_post_transitions source)) FrameNestXTransitionError"

definition x_claim_advance ::
    "unicode_tables \<Rightarrow> x_claim \<Rightarrow> x_state \<Rightarrow> int \<Rightarrow> (x_claim \<Rightarrow> x_claim) \<Rightarrow> x_error + x_claim" where
  "x_claim_advance U c target_state updated_at_ms changes =
     and_then (ensure_x_transition_allowed (xc_state c) target_state) (\<lambda>_.
     x_claim_make U ((changes c)\<lparr>xc_state := target_state, xc_updated_at_ms := updated_at_ms,
       xc_version := xc_version c + 1\<rparr>))"

definition x_mark_catalog_removed :: "unicode_tables \<Rightarrow> x_claim \<Rightarrow> pyobj \<Rightarrow> x_error + x_claim" where
  "x_mark_catalog_removed U c now_ms =
     (if xc_state c \<notin> set LIVE_CATALOG_X_ACQUISITION_STATES then Inl FrameNestXTransitionError
      else and_then (check_non_negative FrameNestXClaimError now_ms) (\<lambda>n.
        if xc_completed_at_ms c \<noteq> None \<and> n < the (xc_completed_at_ms c) then Inl FrameNestXClaimError
        else x_claim_advance U c XS_CATALOG_REMOVED n (\<lambda>c. c\<lparr>xc_catalog_removed_at_ms := Some n\<rparr>)))"

definition x_claim_evolve ::
    "unicode_tables \<Rightarrow> x_claim \<Rightarrow> int \<Rightarrow> (x_claim \<Rightarrow> x_claim) \<Rightarrow> x_error + x_claim" where
  "x_claim_evolve U c updated_at_ms changes =
     x_claim_make U ((changes c)\<lparr>xc_updated_at_ms := updated_at_ms, xc_version := xc_version c + 1\<rparr>)"

text \<open>The phase the requester sees; the last branch is the final \<open>raise\<close>.\<close>

definition derive_x_requester_phase :: "x_claim \<Rightarrow> x_error + pystr" where
  "derive_x_requester_phase c =
     (if xc_state c = XS_FAILED then Inr (lit ''failed'')
      else if xc_state c = XS_CATALOG_REMOVED then Inr (lit ''unavailable'')
      else if xc_state c \<in> set ACTIVE_X_ACQUISITION_STATES
      then Inr (if xc_state c \<in> {XS_SUBMITTED, XS_QUEUED} then lit ''queued'' else lit ''processing'')
      else if xc_state c \<in> set LIVE_CATALOG_X_ACQUISITION_STATES then Inr (lit ''completed'')
      else if xc_state c = XS_DUPLICATE_RESOLVED then Inr (lit ''completed'')
      else Inl FrameNestXClaimError)"

section \<open>The asset\<close>

record x_asset =
  xa_id :: uuid
  xa_claim_id :: uuid
  xa_ordinal :: int
  xa_media_type :: x_media_type
  xa_expected_mime :: pystr
  xa_stage_key :: pystr
  xa_created_at_ms :: int
  xa_updated_at_ms :: int
  xa_source_media_key :: "pystr option"
  xa_width :: "int option"
  xa_height :: "int option"
  xa_duration_seconds :: "int option"
  xa_selected_variant :: "pystr option"
  xa_state :: x_asset_state
  xa_acquired_bytes :: "int option"
  xa_acquired_sha256 :: "pystr option"
  xa_media_id :: "uuid option"
  xa_media_location_id :: "uuid option"
  xa_upload_asset_key :: "pystr option"
  xa_completed_at_ms :: "int option"
  xa_failure_stage :: "x_failure_stage option"
  xa_failure_code :: "pystr option"
  xa_cleanup_state :: x_cleanup_state
  xa_cleanup_completed_at_ms :: "int option"
  xa_version :: int

text \<open>\<open>[A-Za-z0-9.+-]+/[A-Za-z0-9.+-]+\<close>: the class has no slash, so the first one separates.\<close>

definition standard_mime_pattern :: "pystr \<Rightarrow> bool" where
  "standard_mime_pattern s \<longleftrightarrow>
     (let (a, slash, b) = partition_on 47 s; p = (\<lambda>c. is_alnum c \<or> c = 46 \<or> c = 43 \<or> c = 45)
      in slash \<and> a \<noteq> [] \<and> b \<noteq> [] \<and> list_all p a \<and> list_all p b)"

definition asset_sha256_pattern :: "pystr \<Rightarrow> bool" where
  "asset_sha256_pattern s = matches_class is_lower_hex 64 64 s"

definition x_asset_source_checks :: "unicode_tables \<Rightarrow> x_asset \<Rightarrow> (x_error + unit) list" where
  "x_asset_source_checks U a = [
     raise_if (\<not> is_uuid4 (xa_id a)) FrameNestXAssetError,
     raise_if (\<not> is_uuid4 (xa_claim_id a)) FrameNestXAssetError,
     raise_if (\<not> (0 \<le> xa_ordinal a \<and> xa_ordinal a < MAX_ASSETS_PER_POST)) FrameNestXAssetError,
     check_advisory FrameNestXClaimError U (Some (xa_expected_mime a)) 120 False,
     raise_if (\<not> standard_mime_pattern (xa_expected_mime a)) FrameNestXAssetError,
     raise_if (\<not> staging_key_pattern (xa_stage_key a)) FrameNestXAssetError,
     and_then (check_non_negative FrameNestXClaimError (PyInt (xa_created_at_ms a))) (\<lambda>_. Inr ()),
     and_then (check_non_negative FrameNestXClaimError (PyInt (xa_updated_at_ms a))) (\<lambda>_. Inr ()),
     and_then (check_non_negative FrameNestXClaimError (PyInt (xa_version a))) (\<lambda>_. Inr ()),
     raise_if (xa_updated_at_ms a < xa_created_at_ms a) FrameNestXAssetError,
     check_advisory FrameNestXClaimError U (xa_source_media_key a) MAX_SOURCE_MEDIA_KEY_CODE_POINTS False,
     check_optional_non_negative FrameNestXClaimError (xa_width a) False,
     check_optional_non_negative FrameNestXClaimError (xa_height a) False,
     check_optional_non_negative FrameNestXClaimError (xa_duration_seconds a) False,
     raise_if (xa_duration_seconds a \<noteq> None \<and> the (xa_duration_seconds a) > MAX_VIDEO_DURATION_SECONDS)
       FrameNestXAssetError,
     check_advisory FrameNestXClaimError U (xa_selected_variant a) MAX_SELECTED_VARIANT_CODE_POINTS False]"

definition x_asset_outcome_checks :: "unicode_tables \<Rightarrow> x_asset \<Rightarrow> (x_error + unit) list" where
  "x_asset_outcome_checks U a = [
     check_optional_non_negative FrameNestXClaimError (xa_acquired_bytes a) True,
     raise_if (\<not> pred_option asset_sha256_pattern (xa_acquired_sha256 a)) FrameNestXAssetError,
     raise_if (\<not> pred_option is_uuid4 (xa_media_id a)) FrameNestXAssetError,
     raise_if (\<not> pred_option is_uuid4 (xa_media_location_id a)) FrameNestXAssetError,
     raise_if ((xa_media_id a = None) \<noteq> (xa_media_location_id a = None)) FrameNestXAssetError,
     check_advisory FrameNestXClaimError U (xa_upload_asset_key a) MAX_SOURCE_MEDIA_KEY_CODE_POINTS False,
     check_optional_non_negative FrameNestXClaimError (xa_completed_at_ms a) False,
     raise_if ((xa_failure_stage a = None) \<noteq> (xa_failure_code a = None)) FrameNestXAssetError,
     raise_if (\<not> pred_option claim_failure_code_pattern (xa_failure_code a)) FrameNestXAssetError,
     raise_if ((xa_cleanup_state a = X_CLEANUP_PENDING \<and> xa_cleanup_completed_at_ms a \<noteq> None)
       \<or> (xa_cleanup_state a = X_CLEANUP_COMPLETE \<and> xa_cleanup_completed_at_ms a = None)) FrameNestXAssetError,
     raise_if (xa_state a = XA_CATALOGED \<and> (xa_media_id a = None \<or> xa_media_location_id a = None
       \<or> xa_acquired_bytes a = None \<or> xa_acquired_sha256 a = None \<or> xa_completed_at_ms a = None))
       FrameNestXAssetError,
     raise_if (xa_state a = XA_FAILED \<and> xa_failure_code a = None) FrameNestXAssetError,
     raise_if (xa_state a \<in> set SUCCESS_X_ASSET_STATES \<and> xa_failure_code a \<noteq> None) FrameNestXAssetError]"

definition x_asset_post_init :: "unicode_tables \<Rightarrow> x_asset \<Rightarrow> x_error + unit" where
  "x_asset_post_init U a = all_checks (x_asset_source_checks U a @ x_asset_outcome_checks U a)"

definition x_asset_make :: "unicode_tables \<Rightarrow> x_asset \<Rightarrow> x_error + x_asset" where
  "x_asset_make U a = and_then (x_asset_post_init U a) (\<lambda>_. Inr a)"

definition fresh_x_asset ::
    "uuid \<Rightarrow> uuid \<Rightarrow> int \<Rightarrow> x_media_type \<Rightarrow> pystr \<Rightarrow> int \<Rightarrow> pystr option \<Rightarrow> int option \<Rightarrow> int option
     \<Rightarrow> int option \<Rightarrow> pystr option \<Rightarrow> x_asset" where
  "fresh_x_asset asset_id claim_id ordinal media_type expected_mime now_ms source_media_key width height
       duration_seconds selected_variant =
     \<lparr>xa_id = asset_id, xa_claim_id = claim_id, xa_ordinal = ordinal, xa_media_type = media_type,
      xa_expected_mime = expected_mime, xa_stage_key = uuid_hex asset_id, xa_created_at_ms = now_ms,
      xa_updated_at_ms = now_ms, xa_source_media_key = source_media_key, xa_width = width,
      xa_height = height, xa_duration_seconds = duration_seconds, xa_selected_variant = selected_variant,
      xa_state = XA_PENDING, xa_acquired_bytes = None, xa_acquired_sha256 = None, xa_media_id = None,
      xa_media_location_id = None, xa_upload_asset_key = None, xa_completed_at_ms = None,
      xa_failure_stage = None, xa_failure_code = None, xa_cleanup_state = X_CLEANUP_PENDING,
      xa_cleanup_completed_at_ms = None, xa_version = 0\<rparr>"

definition x_asset_new ::
    "unicode_tables \<Rightarrow> uuid \<Rightarrow> uuid \<Rightarrow> int \<Rightarrow> x_media_type \<Rightarrow> pystr \<Rightarrow> int \<Rightarrow> pystr option \<Rightarrow> int option
     \<Rightarrow> int option \<Rightarrow> int option \<Rightarrow> pystr option \<Rightarrow> x_error + x_asset" where
  "x_asset_new U asset_id claim_id ordinal media_type expected_mime now_ms source_media_key width height
       duration_seconds selected_variant =
     x_asset_make U (fresh_x_asset asset_id claim_id ordinal media_type expected_mime now_ms
       source_media_key width height duration_seconds selected_variant)"

definition ensure_x_asset_transition_allowed :: "x_asset_state \<Rightarrow> x_asset_state \<Rightarrow> x_error + unit" where
  "ensure_x_asset_transition_allowed source target =
     raise_if (target \<notin> set (allowed_asset_transitions source)) FrameNestXTransitionError"

definition x_asset_advance ::
    "unicode_tables \<Rightarrow> x_asset \<Rightarrow> x_asset_state \<Rightarrow> int \<Rightarrow> (x_asset \<Rightarrow> x_asset) \<Rightarrow> x_error + x_asset" where
  "x_asset_advance U a target_state updated_at_ms changes =
     and_then (ensure_x_asset_transition_allowed (xa_state a) target_state) (\<lambda>_.
     x_asset_make U ((changes a)\<lparr>xa_state := target_state, xa_updated_at_ms := updated_at_ms,
       xa_version := xa_version a + 1\<rparr>))"

definition x_asset_evolve ::
    "unicode_tables \<Rightarrow> x_asset \<Rightarrow> int \<Rightarrow> (x_asset \<Rightarrow> x_asset) \<Rightarrow> x_error + x_asset" where
  "x_asset_evolve U a updated_at_ms changes =
     x_asset_make U ((changes a)\<lparr>xa_updated_at_ms := updated_at_ms, xa_version := xa_version a + 1\<rparr>)"

section \<open>Commands\<close>

datatype x_command =
    XAdvance x_state int "x_claim \<Rightarrow> x_claim"
  | XEvolve int "x_claim \<Rightarrow> x_claim"
  | XRemove pyobj

fun x_exec :: "unicode_tables \<Rightarrow> x_command \<Rightarrow> x_claim \<Rightarrow> x_error + x_claim" where
  "x_exec U (XAdvance target t changes) c = x_claim_advance U c target t changes"
| "x_exec U (XEvolve t changes) c = x_claim_evolve U c t changes"
| "x_exec U (XRemove now) c = x_mark_catalog_removed U c now"

fun x_fair :: "x_command \<Rightarrow> bool" where
  "x_fair (XEvolve t changes) \<longleftrightarrow> (\<forall>c. xc_state (changes c) = xc_state c)"
| "x_fair _ \<longleftrightarrow> True"

datatype x_asset_command =
    AAdvance x_asset_state int "x_asset \<Rightarrow> x_asset"
  | AEvolve int "x_asset \<Rightarrow> x_asset"

fun x_asset_exec :: "unicode_tables \<Rightarrow> x_asset_command \<Rightarrow> x_asset \<Rightarrow> x_error + x_asset" where
  "x_asset_exec U (AAdvance target t changes) a = x_asset_advance U a target t changes"
| "x_asset_exec U (AEvolve t changes) a = x_asset_evolve U a t changes"

fun x_asset_fair :: "x_asset_command \<Rightarrow> bool" where
  "x_asset_fair (AEvolve t changes) \<longleftrightarrow> (\<forall>a. xa_state (changes a) = xa_state a)"
| "x_asset_fair _ \<longleftrightarrow> True"

lemma x_claim_make_Inr [check_simps]:
  "x_claim_make U c = Inr c' \<longleftrightarrow> x_claim_post_init U c = Inr () \<and> c' = c"
  by (auto simp: x_claim_make_def and_then_Inr)

lemma x_asset_make_Inr [check_simps]:
  "x_asset_make U a = Inr a' \<longleftrightarrow> x_asset_post_init U a = Inr () \<and> a' = a"
  by (auto simp: x_asset_make_def and_then_Inr)

lemma x_advance_Inr:
  "x_claim_advance U c target t changes = Inr c' \<longleftrightarrow>
     target \<in> set (allowed_post_transitions (xc_state c))
     \<and> c' = (changes c)\<lparr>xc_state := target, xc_updated_at_ms := t, xc_version := xc_version c + 1\<rparr>
     \<and> x_claim_post_init U c' = Inr ()"
  by (auto simp: x_claim_advance_def and_then_Inr ensure_x_transition_allowed_def x_claim_make_Inr)

lemma x_remove_advance:
  assumes "x_mark_catalog_removed U c now = Inr c'"
  obtains n changes where "x_claim_advance U c XS_CATALOG_REMOVED n changes = Inr c'"
  using assms by (auto simp: x_mark_catalog_removed_def and_then_Inr split: if_splits)

lemma x_exec_facts:
  assumes "x_exec U k c = Inr c'"
  shows "x_claim_post_init U c' = Inr ()" "xc_version c' = xc_version c + 1"
    "x_fair k \<Longrightarrow> xc_state c' = xc_state c \<or> xc_state c' \<in> set (allowed_post_transitions (xc_state c))"
proof -
  have "x_claim_post_init U c' = Inr () \<and> xc_version c' = xc_version c + 1
    \<and> (x_fair k \<longrightarrow> xc_state c' = xc_state c \<or> xc_state c' \<in> set (allowed_post_transitions (xc_state c)))"
  proof (cases k)
    case (XAdvance target t changes)
    then show ?thesis using assms by (auto simp: x_advance_Inr)
  next
    case (XEvolve t changes)
    then show ?thesis using assms by (auto simp: x_claim_evolve_def x_claim_make_Inr)
  next
    case (XRemove now)
    then have "x_mark_catalog_removed U c now = Inr c'" using assms by simp
    then obtain n changes where "x_claim_advance U c XS_CATALOG_REMOVED n changes = Inr c'"
      by (rule x_remove_advance)
    then show ?thesis by (auto simp: x_advance_Inr)
  qed
  then show "x_claim_post_init U c' = Inr ()" "xc_version c' = xc_version c + 1"
    "x_fair k \<Longrightarrow> xc_state c' = xc_state c \<or> xc_state c' \<in> set (allowed_post_transitions (xc_state c))"
    by blast+
qed

lemma x_asset_exec_facts:
  assumes "x_asset_exec U k a = Inr a'"
  shows "x_asset_post_init U a' = Inr ()" "xa_version a' = xa_version a + 1"
    "x_asset_fair k \<Longrightarrow> xa_state a' = xa_state a \<or> xa_state a' \<in> set (allowed_asset_transitions (xa_state a))"
  using assms
  by (cases k; auto simp: x_asset_advance_def x_asset_evolve_def and_then_Inr x_asset_make_Inr
      ensure_x_asset_transition_allowed_def)+

text \<open>Unlike the YouTube claim, nothing keeps \<open>changes\<close> from naming another owner.\<close>

interpretation x_snapshot: snapshot "x_exec U" x_fair "\<lambda>c. x_claim_post_init U c = Inr ()"
    xc_state xc_version "\<lambda>_. ()" allowed_post_transitions for U
  by unfold_locales (blast intro: x_exec_facts dest: x_exec_facts)+

interpretation x_asset_snapshot: snapshot "x_asset_exec U" x_asset_fair "\<lambda>a. x_asset_post_init U a = Inr ()"
    xa_state xa_version "\<lambda>_. ()" allowed_asset_transitions for U
  by unfold_locales (blast intro: x_asset_exec_facts dest: x_asset_exec_facts)+

interpretation x_post_lifecycle: lifecycle allowed_post_transitions "\<lambda>s. s = XS_CATALOG_REMOVED"
  by unfold_locales simp

interpretation x_asset_lifecycle: lifecycle allowed_asset_transitions "\<lambda>s. s = XA_CATALOGED"
  by unfold_locales simp

section \<open>What a valid claim and a valid asset hold\<close>

lemma x_post_init_parts:
  "x_claim_post_init U c = Inr () \<longleftrightarrow> all_checks (x_claim_identity_checks U c) = Inr ()
     \<and> all_checks (x_claim_source_checks U c) = Inr () \<and> all_checks (x_claim_outcome_checks c) = Inr ()"
  unfolding x_claim_post_init_def by (auto simp: all_checks_Inr)

lemma x_outcome_iff:
  "all_checks (x_claim_outcome_checks c) = Inr () \<longleftrightarrow>
     0 \<le> xc_success_count c \<and> 0 \<le> xc_failure_count c \<and> xc_discovered_asset_count c \<le> MAX_ASSETS_PER_POST
     \<and> xc_success_count c + xc_failure_count c \<le> xc_discovered_asset_count c
     \<and> (\<forall>n. xc_completed_at_ms c = Some n \<longrightarrow> 0 \<le> n) \<and> (\<forall>n. xc_catalog_removed_at_ms c = Some n \<longrightarrow> 0 \<le> n)
     \<and> (xc_failure_stage c = None \<longleftrightarrow> xc_failure_code c = None)
     \<and> pred_option claim_failure_code_pattern (xc_failure_code c)
     \<and> (xc_cleanup_state c = X_CLEANUP_COMPLETE \<longleftrightarrow> xc_cleanup_completed_at_ms c \<noteq> None)
     \<and> (xc_state c \<notin> set TERMINAL_X_ACQUISITION_STATES \<longrightarrow> xc_completed_at_ms c = None
         \<and> xc_failure_code c = None \<and> xc_catalog_removed_at_ms c = None)"
  unfolding x_claim_outcome_checks_def all_checks_Cons_Inr validate_count.simps raise_if_Inr
    check_optional_non_negative_Inr
  by (cases "xc_cleanup_state c") auto

lemma x_asset_parts:
  "x_asset_post_init U a = Inr () \<longleftrightarrow> all_checks (x_asset_source_checks U a) = Inr ()
     \<and> all_checks (x_asset_outcome_checks U a) = Inr ()"
  unfolding x_asset_post_init_def by (auto simp: all_checks_Inr)

lemma x_asset_outcome:
  assumes "all_checks (x_asset_outcome_checks U a) = Inr ()"
  shows "xa_state a = XA_CATALOGED \<Longrightarrow> xa_media_id a \<noteq> None \<and> xa_media_location_id a \<noteq> None
      \<and> xa_acquired_bytes a \<noteq> None \<and> xa_acquired_sha256 a \<noteq> None \<and> xa_completed_at_ms a \<noteq> None
      \<and> xa_failure_code a = None"
    and "xa_state a = XA_FAILED \<Longrightarrow> xa_failure_code a \<noteq> None"
    and "xa_media_id a = None \<longleftrightarrow> xa_media_location_id a = None"
  using assms unfolding x_asset_outcome_checks_def all_checks_Cons_Inr raise_if_Inr
  by (auto simp: x_state_set_defs)

lemma x_asset_source:
  assumes "all_checks (x_asset_source_checks U a) = Inr ()"
  shows "0 \<le> xa_ordinal a" "xa_ordinal a < 4" "pred_option (\<lambda>d. 0 \<le> d \<and> d \<le> 300) (xa_duration_seconds a)"
  using assms
  unfolding x_asset_source_checks_def all_checks_Cons_Inr raise_if_Inr check_optional_non_negative_Inr
  by (auto simp: MAX_ASSETS_PER_POST_def MAX_VIDEO_DURATION_SECONDS_def pred_option_def)

section \<open>Samples\<close>

lemma fresh_x_claim_simps [simp]:
  "xc_state (fresh_x_claim i url y now retry owner category) = XS_SUBMITTED"
  "xc_version (fresh_x_claim i url y now retry owner category) = 0"
  by (simp_all add: fresh_x_claim_def)

lemma x_new_Inr:
  assumes "x_claim_new U i url now retry owner category = Inr c"
  shows "x_claim_post_init U c = Inr ()" "xc_state c = XS_SUBMITTED" "xc_version c = 0"
proof -
  from assms obtain y key where "c = fresh_x_claim i url y now retry key category" "x_claim_post_init U c = Inr ()"
    unfolding x_claim_new_def and_then_Inr x_claim_make_Inr by blast
  then show "x_claim_post_init U c = Inr ()" "xc_state c = XS_SUBMITTED" "xc_version c = 0" by simp_all
qed

definition sample_x_claim :: x_claim where
  "sample_x_claim = fresh_x_claim (sample_uuid 1) sample_post_url
     (post_identity sample_post_url (lit ''bob'') (lit ''42'')) 10 None None None"

lemma sample_display_url: "validate_display_url ascii_tables (x_status_url (lit ''bob'') (lit ''42'')) (lit ''42'') = Inr ()"
proof -
  have x: "lit ''x.com'' \<in> set X_HOSTS" by (simp add: X_HOSTS_def)
  have h: "list_all (\<lambda>c. is_alnum c \<or> c = 95) (lit ''bob'')" "length (lit ''bob'') \<le> 64"
    by (simp_all add: lit_def is_alnum_def char_class_defs)
  have "lit ''bob'' \<noteq> []" "hd (lit ''bob'') \<noteq> 105" "x_status_url (lit ''bob'') (lit ''42'') \<noteq> []"
    by (simp_all add: lit_def x_status_url_def)
  then show ?thesis
    using x_split_status [OF ascii_lowering_ascii_tables x h sample_post(2), of False]
    by (simp add: validate_display_url_def x_status_url_text)
qed

lemma sample_x_title: "advisory_ok ascii_tables 240 False (default_x_title (lit ''42''))"
  by (simp add: advisory_ok_def default_x_title_def lit_def strip_def is_space_def is_cc_def)

lemma sample_x_claim_valid: "x_claim_post_init ascii_tables sample_x_claim = Inr ()"
  unfolding x_post_init_parts
proof (intro conjI)
  have e: "X_EXTRACTOR_KEY \<noteq> []" by (simp add: X_EXTRACTOR_KEY_def lit_def)
  show "all_checks (x_claim_identity_checks ascii_tables sample_x_claim) = Inr ()"
    using sample_display_url sample_post_accepted e
    by (simp add: x_claim_identity_checks_def sample_x_claim_def fresh_x_claim_def post_identity_def
        check_simps is_uuid4_sample del: One_nat_def)
  show "all_checks (x_claim_source_checks ascii_tables sample_x_claim) = Inr ()"
    using sample_x_title
    by (simp add: x_claim_source_checks_def sample_x_claim_def fresh_x_claim_def post_identity_def check_simps
        MAX_DISPLAY_TITLE_CODE_POINTS_def del: One_nat_def)
  show "all_checks (x_claim_outcome_checks sample_x_claim) = Inr ()"
    unfolding x_outcome_iff
    by (simp add: sample_x_claim_def fresh_x_claim_def MAX_ASSETS_PER_POST_def x_state_set_defs del: One_nat_def)
qed

lemma sample_x_claim_new:
  "x_claim_new ascii_tables (sample_uuid 1) sample_post_url 10 None None None = Inr sample_x_claim"
  using sample_x_claim_valid sample_post_accepted
  by (simp add: x_claim_new_def x_claim_make_def sample_x_claim_def del: One_nat_def)

definition sample_asset :: x_asset where
  "sample_asset = fresh_x_asset (sample_uuid 2) (sample_uuid 1) 0 XM_IMAGE (lit ''image/jpeg'') 10 None None
     None None None"

lemma sample_mime: "advisory_ok ascii_tables 120 False (lit ''image/jpeg'')" "standard_mime_pattern (lit ''image/jpeg'')"
  by (simp_all add: advisory_ok_def standard_mime_pattern_def partition_on_def lit_def strip_def is_space_def
      is_cc_def is_alnum_def char_class_defs)

lemma sample_asset_new:
  "x_asset_new ascii_tables (sample_uuid 2) (sample_uuid 1) 0 XM_IMAGE (lit ''image/jpeg'') 10 None None None None None
    = Inr sample_asset"
proof -
  have "staging_key_pattern (uuid_hex u)" for u
    using hex_digits_class by (auto simp: staging_key_pattern_def matches_class_def uuid_hex_def list_all_iff)
  then have "x_asset_post_init ascii_tables sample_asset = Inr ()"
    unfolding x_asset_parts x_asset_source_checks_def x_asset_outcome_checks_def
    using sample_mime
    by (simp add: sample_asset_def fresh_x_asset_def check_simps is_uuid4_sample MAX_ASSETS_PER_POST_def
        x_state_set_defs del: One_nat_def)
  then show ?thesis by (simp add: x_asset_new_def x_asset_make_def sample_asset_def)
qed

section \<open>Properties\<close>

text \<open>
   Whatever commands follow the creation of a post claim, provided no \<open>evolve\<close> sets the state, it passes the constructor's
  validation, its version counts the accepted commands, its state is reached along the transition
  table, its counts of assets add up to at most the discovered ones and at most four, and while it
  is active it carries no outcome.
\<close>

theorem x_claim_history:
  assumes "x_claim_new U i url now retry owner category = Inr c0" and "list_all x_fair ks"
    and "c = run_commands (x_exec U) ks c0"
  shows "x_claim_post_init U c = Inr () \<and> xc_version c = int (accepted_commands (x_exec U) ks c0)
    \<and> (\<exists>ts. table_run allowed_post_transitions XS_SUBMITTED ts \<and> last (XS_SUBMITTED # ts) = xc_state c)
    \<and> 0 \<le> xc_success_count c \<and> 0 \<le> xc_failure_count c
    \<and> xc_success_count c + xc_failure_count c \<le> xc_discovered_asset_count c \<and> xc_discovered_asset_count c \<le> 4
    \<and> (xc_state c \<in> set ACTIVE_X_ACQUISITION_STATES \<longrightarrow> xc_completed_at_ms c = None \<and> xc_failure_code c = None)"
proof -
  note c0 = x_new_Inr [OF assms(1)]
  have path: "\<exists>ts. table_run allowed_post_transitions XS_SUBMITTED ts \<and> last (XS_SUBMITTED # ts) = xc_state c"
    using x_snapshot.run_path [OF assms(2), where c = c0 and U = U] unfolding c0(2) assms(3) by blast
  have valid: "x_claim_post_init U c = Inr ()"
    using x_snapshot.run_valid [OF c0(1), of ks] unfolding assms(3) by simp
  then have out: "all_checks (x_claim_outcome_checks c) = Inr ()" by (simp add: x_post_init_parts)
  have version: "xc_version c = int (accepted_commands (x_exec U) ks c0)"
    using x_snapshot.run_version [of U ks c0] c0(3) unfolding assms(3) by simp
  have "xc_completed_at_ms c = None \<and> xc_failure_code c = None" if "xc_state c \<in> set ACTIVE_X_ACQUISITION_STATES"
  proof -
    have "xc_state c \<notin> set TERMINAL_X_ACQUISITION_STATES" using that by (auto simp: x_state_set_defs)
    then show ?thesis using out unfolding x_outcome_iff by blast
  qed
  then show ?thesis
    using valid version path out unfolding x_outcome_iff MAX_ASSETS_PER_POST_def by blast
qed

lemma x_claim_history_witness:
  "xc_version (run_commands (x_exec ascii_tables) [XRemove PyNone] sample_x_claim) = 0"
  using x_claim_history [OF sample_x_claim_new, of "[XRemove PyNone]"]
  by (simp add: x_mark_catalog_removed_def sample_x_claim_def x_state_set_defs del: One_nat_def)

text \<open>
   Whatever commands follow the creation of an asset, provided no \<open>evolve\<close> sets the state, it passes the constructor's validation
  with a version that counts them; a cataloged asset has its media, location, size, checksum and
  completion time and no failure, a failed one has a failure code; and a cataloged asset stays
  cataloged.
\<close>

theorem x_asset_history:
  assumes "x_asset_new U i claim n kind mime now key w h d variant = Inr a0" and "list_all x_asset_fair ks"
    and "a = run_commands (x_asset_exec U) ks a0" and "list_all x_asset_fair later"
  shows "x_asset_post_init U a = Inr () \<and> xa_version a = int (accepted_commands (x_asset_exec U) ks a0)
    \<and> (\<exists>ts. table_run allowed_asset_transitions XA_PENDING ts \<and> last (XA_PENDING # ts) = xa_state a)
    \<and> (xa_state a = XA_CATALOGED \<longrightarrow> xa_media_id a \<noteq> None \<and> xa_media_location_id a \<noteq> None
        \<and> xa_acquired_bytes a \<noteq> None \<and> xa_acquired_sha256 a \<noteq> None \<and> xa_completed_at_ms a \<noteq> None
        \<and> xa_failure_code a = None \<and> xa_state (run_commands (x_asset_exec U) later a) = XA_CATALOGED)
    \<and> (xa_state a = XA_FAILED \<longrightarrow> xa_failure_code a \<noteq> None)"
proof -
  have a0: "x_asset_post_init U a0 = Inr ()" "xa_state a0 = XA_PENDING" "xa_version a0 = 0"
    using assms(1) by (auto simp: x_asset_new_def x_asset_make_Inr fresh_x_asset_def)
  have path: "\<exists>ts. table_run allowed_asset_transitions XA_PENDING ts \<and> last (XA_PENDING # ts) = xa_state a"
    using x_asset_snapshot.run_path [OF assms(2), where c = a0 and U = U] unfolding a0(2) assms(3) by blast
  have valid: "x_asset_post_init U a = Inr ()"
    using x_asset_snapshot.run_valid [OF a0(1), of ks] unfolding assms(3) by simp
  then have out: "all_checks (x_asset_outcome_checks U a) = Inr ()" by (simp add: x_asset_parts)
  have version: "xa_version a = int (accepted_commands (x_asset_exec U) ks a0)"
    using x_asset_snapshot.run_version [of U ks a0] a0(3) unfolding assms(3) by simp
  have stay: "xa_state (run_commands (x_asset_exec U) later a) = XA_CATALOGED" if "xa_state a = XA_CATALOGED"
    using x_asset_snapshot.run_stuck [OF assms(4), of a U] that by simp
  show ?thesis using valid version path x_asset_outcome [OF out] stay by blast
qed

lemma x_asset_history_witness:
  "xa_version (run_commands (x_asset_exec ascii_tables) [AAdvance XA_STAGED 20 (\<lambda>a. a)] sample_asset) = 0"
  using x_asset_history [OF sample_asset_new, of "[AAdvance XA_STAGED 20 (\<lambda>a. a)]" _ "[]"]
  by (simp add: x_asset_advance_def ensure_x_asset_transition_allowed_def sample_asset_def fresh_x_asset_def)

end
