(* ===== verification/Media_User_Alias.thy ===== *)
theory Media_User_Alias
  imports Claim_Fields
begin

text \<open>
  \<open>domain/media_user_alias.py\<close>: a requester's private title, description and tags for a media
  item, and the pending one that is kept on an X claim before the item is in the catalog.
\<close>

datatype alias_error = FrameNestMediaUserAliasError

definition MAX_MEDIA_TAGS :: nat where "MAX_MEDIA_TAGS = 32"

record alias_content =
  ac_display_title :: "pystr option"
  ac_description :: "pystr option"
  ac_tag_keys :: "pystr list"

text \<open>The elements are titles, descriptions and tag keys their own constructors accepted.\<close>

definition alias_content_post_init :: "alias_content \<Rightarrow> alias_error + unit" where
  "alias_content_post_init c = all_checks [
     raise_if (length (ac_tag_keys c) > MAX_MEDIA_TAGS) FrameNestMediaUserAliasError,
     raise_if (card (set (ac_tag_keys c)) \<noteq> length (ac_tag_keys c)) FrameNestMediaUserAliasError]"

definition alias_is_empty :: "alias_content \<Rightarrow> bool" where
  "alias_is_empty c \<longleftrightarrow> ac_display_title c = None \<and> ac_description c = None \<and> ac_tag_keys c = []"

definition validate_alias_login_key :: "unicode_tables \<Rightarrow> pystr \<Rightarrow> alias_error + unit" where
  "validate_alias_login_key U s =
     (case normalize_login U (PyStr s) of
        Inl _ \<Rightarrow> Inl FrameNestMediaUserAliasError
      | Inr normalized \<Rightarrow> raise_if (normalized \<noteq> s) FrameNestMediaUserAliasError)"

fun validate_non_negative_ms :: "pyobj \<Rightarrow> alias_error + unit" where
  "validate_non_negative_ms (PyInt n) = raise_if (n < 0) FrameNestMediaUserAliasError"
| "validate_non_negative_ms _ = Inl FrameNestMediaUserAliasError"

record media_user_alias =
  mua_media_id :: uuid
  mua_login_key :: pystr
  mua_content :: alias_content
  mua_created_at_ms :: int
  mua_updated_at_ms :: int

definition media_user_alias_post_init :: "unicode_tables \<Rightarrow> media_user_alias \<Rightarrow> alias_error + unit" where
  "media_user_alias_post_init U a = all_checks [
     validate_alias_login_key U (mua_login_key a),
     raise_if (alias_is_empty (mua_content a)) FrameNestMediaUserAliasError,
     validate_non_negative_ms (PyInt (mua_created_at_ms a)),
     validate_non_negative_ms (PyInt (mua_updated_at_ms a)),
     raise_if (mua_updated_at_ms a < mua_created_at_ms a) FrameNestMediaUserAliasError]"

record pending_alias =
  pma_claim_id :: uuid
  pma_login_key :: pystr
  pma_content :: alias_content
  pma_created_at_ms :: int
  pma_updated_at_ms :: int

definition pending_alias_post_init :: "unicode_tables \<Rightarrow> pending_alias \<Rightarrow> alias_error + unit" where
  "pending_alias_post_init U a = all_checks [
     validate_alias_login_key U (pma_login_key a),
     raise_if (alias_is_empty (pma_content a)) FrameNestMediaUserAliasError,
     validate_non_negative_ms (PyInt (pma_created_at_ms a)),
     validate_non_negative_ms (PyInt (pma_updated_at_ms a)),
     raise_if (pma_updated_at_ms a < pma_created_at_ms a) FrameNestMediaUserAliasError]"

section \<open>Parsing\<close>

definition parse_alias_title :: "pystr option \<Rightarrow> media_error + pystr option" where
  "parse_alias_title value =
     (case value of None \<Rightarrow> Inr None
      | Some s \<Rightarrow> if strip s = [] then Inr None else and_then (media_display_title (PyStr s)) (\<lambda>t. Inr (Some t)))"

definition parse_alias_description :: "pystr option \<Rightarrow> media_error + pystr option" where
  "parse_alias_description value =
     (case value of None \<Rightarrow> Inr None
      | Some s \<Rightarrow> if strip s = [] then Inr None else and_then (media_description (PyStr s)) (\<lambda>t. Inr (Some t)))"

definition parse_alias_fields ::
    "pystr option \<Rightarrow> pystr option \<Rightarrow> pystr list option \<Rightarrow> media_error + alias_content" where
  "parse_alias_fields display_title description tag_keys =
     and_then (parse_alias_title display_title) (\<lambda>title.
     and_then (parse_alias_description description) (\<lambda>text.
     and_then (map_results (\<lambda>k. canonical_tag_key (PyStr k)) (case tag_keys of None \<Rightarrow> [] | Some ks \<Rightarrow> ks)) (\<lambda>keys.
     Inr \<lparr>ac_display_title = title, ac_description = text, ac_tag_keys = keys\<rparr>)))"

definition parse_alias_content ::
    "pystr option \<Rightarrow> pystr option \<Rightarrow> pystr list option \<Rightarrow> alias_error + alias_content" where
  "parse_alias_content display_title description tag_keys =
     and_then (rescue (\<lambda>_. FrameNestMediaUserAliasError) (parse_alias_fields display_title description tag_keys)) (\<lambda>c.
     and_then (alias_content_post_init c) (\<lambda>_. Inr c))"

section \<open>Valid contents\<close>

text \<open>What the constructors of the title, the description, the keys and the content accept.\<close>

definition alias_content_valid :: "alias_content \<Rightarrow> bool" where
  "alias_content_valid c \<longleftrightarrow> pred_option (\<lambda>s. media_display_title (PyStr s) = Inr s) (ac_display_title c)
     \<and> pred_option (\<lambda>s. media_description (PyStr s) = Inr s) (ac_description c)
     \<and> list_all (\<lambda>k. canonical_tag_key (PyStr k) = Inr k) (ac_tag_keys c)
     \<and> alias_content_post_init c = Inr ()"

lemma title_itself: "media_display_title (PyStr s) = Inr t \<Longrightarrow> media_display_title (PyStr t) = Inr t \<and> t = s"
  by (auto simp: media_display_title_def split: if_splits)

lemma description_itself: "media_description (PyStr s) = Inr t \<Longrightarrow> media_description (PyStr t) = Inr t \<and> t = s"
  by (auto simp: media_description_def split: if_splits)

lemma tag_key_itself: "canonical_tag_key (PyStr s) = Inr t \<Longrightarrow> t = s"
  by (auto simp: canonical_tag_key_def split: if_splits)

lemma tag_keys_themselves:
  "map_results (\<lambda>k. canonical_tag_key (PyStr k)) ks = Inr vs
     \<longleftrightarrow> vs = ks \<and> list_all (\<lambda>k. canonical_tag_key (PyStr k) = Inr k) ks"
  by (induction ks arbitrary: vs) (auto simp: and_then_Inr dest: tag_key_itself)

lemma content_post_init_iff [simp]:
  "alias_content_post_init c = Inr () \<longleftrightarrow> length (ac_tag_keys c) \<le> MAX_MEDIA_TAGS \<and> distinct (ac_tag_keys c)"
  unfolding alias_content_post_init_def all_checks_Cons_Inr raise_if_Inr by (auto simp: card_distinct distinct_card)

lemma parse_alias_content_valid:
  assumes "parse_alias_content title description keys = Inr c"
  shows "alias_content_valid c"
  using assms
  by (auto simp: parse_alias_content_def parse_alias_fields_def parse_alias_title_def parse_alias_description_def
      and_then_Inr rescue_Inr tag_keys_themselves alias_content_valid_def
      dest: title_itself description_itself split: option.splits if_splits)

end
