(* ===== verification/X_Claim_Rows.thy ===== *)
theory X_Claim_Rows
  imports X_Claims Youtube_Claim_Facts Media_User_Alias
begin

text \<open>
  The tables \<open>x_post_claims\<close>, \<open>x_assets\<close>, \<open>x_claim_pending_aliases\<close> and
  \<open>x_claim_pending_alias_tags\<close> of \<open>catalog_schema.py\<close>, and the conversions between their rows and
  claims, assets and pending aliases of \<open>x_acquisition_claim_repository.py\<close>.
\<close>

section \<open>Enumerations\<close>

fun x_cleanup_state_value :: "x_cleanup_state \<Rightarrow> pystr" where
  "x_cleanup_state_value X_CLEANUP_PENDING = lit ''pending''"
| "x_cleanup_state_value X_CLEANUP_COMPLETE = lit ''complete''"

fun x_failure_stage_value :: "x_failure_stage \<Rightarrow> pystr" where
  "x_failure_stage_value XF_CONFIGURATION = lit ''configuration''"
| "x_failure_stage_value XF_EXTRACTION = lit ''extraction''"
| "x_failure_stage_value XF_ACQUISITION = lit ''acquisition''"
| "x_failure_stage_value XF_STAGING = lit ''staging''"
| "x_failure_stage_value XF_HANDOFF = lit ''handoff''"
| "x_failure_stage_value XF_DOWNSTREAM = lit ''downstream''"
| "x_failure_stage_value XF_CLEANUP = lit ''cleanup''"
| "x_failure_stage_value XF_INTERNAL = lit ''internal''"

fun x_media_type_value :: "x_media_type \<Rightarrow> pystr" where
  "x_media_type_value XM_VIDEO = lit ''video''"
| "x_media_type_value XM_ANIMATED_GIF = lit ''animated_gif''"
| "x_media_type_value XM_IMAGE = lit ''image''"

section \<open>Rows\<close>

record x_post_row =
  xr_id :: pystr
  xr_state :: pystr
  xr_acquisition_source :: pystr
  xr_submitted_url :: pystr
  xr_canonical_url :: pystr
  xr_x_post_id :: pystr
  xr_extractor_key :: pystr
  xr_created_by_login_key :: "pystr option"
  xr_retry_of_claim_id :: "pystr option"
  xr_resolved_claim_id :: "pystr option"
  xr_source_author_stable_id :: "pystr option"
  xr_source_author_handle :: "pystr option"
  xr_source_author_display_name :: "pystr option"
  xr_source_post_text :: "pystr option"
  xr_source_posted_at_ms :: "int option"
  xr_title :: "pystr option"
  xr_extractor_version :: "pystr option"
  xr_discovered_asset_count :: int
  xr_success_count :: int
  xr_failure_count :: int
  xr_created_at_ms :: int
  xr_updated_at_ms :: int
  xr_completed_at_ms :: "int option"
  xr_catalog_removed_at_ms :: "int option"
  xr_failure_stage :: "pystr option"
  xr_failure_code :: "pystr option"
  xr_cleanup_state :: pystr
  xr_cleanup_completed_at_ms :: "int option"
  xr_requested_content_category :: "pystr option"
  xr_version :: int

record x_asset_row =
  xar_id :: pystr
  xar_claim_id :: pystr
  xar_ordinal :: int
  xar_media_type :: pystr
  xar_expected_mime :: pystr
  xar_source_media_key :: "pystr option"
  xar_width :: "int option"
  xar_height :: "int option"
  xar_duration_seconds :: "int option"
  xar_selected_variant :: "pystr option"
  xar_state :: pystr
  xar_stage_key :: pystr
  xar_acquired_bytes :: "int option"
  xar_acquired_sha256 :: "pystr option"
  xar_media_id :: "pystr option"
  xar_media_location_id :: "pystr option"
  xar_upload_asset_key :: "pystr option"
  xar_created_at_ms :: int
  xar_updated_at_ms :: int
  xar_completed_at_ms :: "int option"
  xar_failure_stage :: "pystr option"
  xar_failure_code :: "pystr option"
  xar_cleanup_state :: pystr
  xar_cleanup_completed_at_ms :: "int option"
  xar_version :: int

record pending_alias_row =
  par_claim_id :: pystr
  par_login_key :: pystr
  par_display_title :: "pystr option"
  par_description :: "pystr option"
  par_created_at_ms :: int
  par_updated_at_ms :: int

record pending_tag_row =
  ptr_claim_id :: pystr
  ptr_tag_key :: pystr
  ptr_position :: int

text \<open>The four tables and what their statements read of others: the keys the foreign keys refer
  to, and the media and the owner of each record.\<close>

record x_db =
  xd_posts :: "x_post_row list"
  xd_assets :: "x_asset_row list"
  xd_pending_aliases :: "pending_alias_row list"
  xd_pending_alias_tags :: "pending_tag_row list"
  xd_logical_media :: "pystr list"
  xd_physical_media_locations :: "pystr list"
  xd_canonical_tags :: "pystr list"
  xd_kronika_records :: "(pystr option \<times> pystr) list"

section \<open>Constraints\<close>

definition ck_failure_pair :: "pystr option \<Rightarrow> pystr option \<Rightarrow> sql_bool" where
  "ck_failure_pair stage code = sql_or (sql_and (sql_is_null stage) (sql_is_null code))
     (sql_and (sql_is_not_null stage) (sql_is_not_null code))"

definition ck_cleanup_pair :: "pystr \<Rightarrow> int option \<Rightarrow> sql_bool" where
  "ck_cleanup_pair state completed = Some ((state = lit ''pending'' \<and> completed = None)
     \<or> (state = lit ''complete'' \<and> completed \<noteq> None))"

definition x_post_row_checks :: "x_post_row \<Rightarrow> sql_bool list" where
  "x_post_row_checks r = [
     Some (sql_length (xr_id r) = 36),
     ck_owner_key (xr_created_by_login_key r),
     Some (xr_state r \<in> set (map lit [''submitted'', ''queued'', ''extracting'', ''acquiring'', ''handing_off'',
       ''completed'', ''completed_partial'', ''failed'', ''duplicate_resolved'', ''catalog_removed''])),
     Some (xr_acquisition_source r = lit ''x_manual_claim''),
     Some (1 \<le> sql_length (xr_submitted_url r) \<and> sql_length (xr_submitted_url r) \<le> 2048),
     Some (1 \<le> sql_length (xr_canonical_url r) \<and> sql_length (xr_canonical_url r) \<le> 2048),
     Some (1 \<le> sql_length (xr_x_post_id r) \<and> sql_length (xr_x_post_id r) \<le> 19
       \<and> not_glob_outside is_digit (xr_x_post_id r)),
     Some (xr_extractor_key r = lit ''X''),
     sql_or (sql_is_null (xr_source_author_handle r))
       (sql_test (\<lambda>h. 1 \<le> sql_length h \<and> sql_length h \<le> 64 \<and> h = sql_lower h \<and> take 1 h \<noteq> [64])
         (xr_source_author_handle r)),
     sql_or (sql_is_null (xr_source_posted_at_ms r)) (sql_test (\<lambda>t. t \<ge> 0) (xr_source_posted_at_ms r)),
     Some (0 \<le> xr_discovered_asset_count r \<and> xr_discovered_asset_count r \<le> 4),
     Some (0 \<le> xr_success_count r \<and> xr_success_count r \<le> 4
       \<and> 0 \<le> xr_failure_count r \<and> xr_failure_count r \<le> 4),
     Some (xr_success_count r + xr_failure_count r \<le> xr_discovered_asset_count r),
     sql_or (sql_is_null (xr_completed_at_ms r)) (sql_test (\<lambda>t. t \<ge> xr_created_at_ms r) (xr_completed_at_ms r)),
     sql_or (sql_is_null (xr_catalog_removed_at_ms r)) (sql_or (sql_is_null (xr_completed_at_ms r))
       (case xr_completed_at_ms r of None \<Rightarrow> None
        | Some done \<Rightarrow> sql_test (\<lambda>t. t \<ge> done) (xr_catalog_removed_at_ms r))),
     ck_failure_pair (xr_failure_stage r) (xr_failure_code r),
     sql_or (sql_is_null (xr_failure_stage r)) (sql_test (\<lambda>s. s \<in> set (map lit [''configuration'', ''extraction'',
       ''acquisition'', ''staging'', ''handoff'', ''downstream'', ''cleanup'', ''internal'']))
       (xr_failure_stage r)),
     Some (xr_cleanup_state r \<in> {lit ''pending'', lit ''complete''}),
     ck_cleanup_pair (xr_cleanup_state r) (xr_cleanup_completed_at_ms r),
     sql_or (sql_is_null (xr_requested_content_category r))
       (sql_test (\<lambda>s. s \<in> set (map lit [''general'', ''meme'', ''movie'', ''youtube'']))
         (xr_requested_content_category r))]"

definition x_post_row_ok :: "x_post_row \<Rightarrow> bool" where
  "x_post_row_ok r \<longleftrightarrow> list_all check_passes (x_post_row_checks r)"

text \<open>The partial unique index on the active claims of a requester.\<close>

definition X_ACTIVE_VALUES :: "pystr list" where
  "X_ACTIVE_VALUES = map x_state_value ACTIVE_X_ACQUISITION_STATES"

definition x_posts_clash :: "x_post_row \<Rightarrow> x_post_row \<Rightarrow> bool" where
  "x_posts_clash r s \<longleftrightarrow> xr_state r \<in> set X_ACTIVE_VALUES \<and> xr_state s \<in> set X_ACTIVE_VALUES
     \<and> xr_x_post_id r = xr_x_post_id s
     \<and> xr_created_by_login_key r \<noteq> None \<and> xr_created_by_login_key r = xr_created_by_login_key s"

definition x_post_fks_hold :: "x_db \<Rightarrow> x_post_row \<Rightarrow> bool" where
  "x_post_fks_hold db r \<longleftrightarrow>
     pred_option (\<lambda>i. i \<in> set (map xr_id (xd_posts db)) \<or> i = xr_id r) (xr_retry_of_claim_id r)
     \<and> pred_option (\<lambda>i. i \<in> set (map xr_id (xd_posts db)) \<or> i = xr_id r) (xr_resolved_claim_id r)"

definition x_post_admissible :: "x_db \<Rightarrow> x_post_row \<Rightarrow> bool" where
  "x_post_admissible db r \<longleftrightarrow> x_post_row_ok r \<and> x_post_fks_hold db r
     \<and> list_all (\<lambda>s. xr_id s = xr_id r \<or> \<not> x_posts_clash r s) (xd_posts db)"

definition x_asset_row_checks :: "x_asset_row \<Rightarrow> sql_bool list" where
  "x_asset_row_checks r = [
     Some (sql_length (xar_id r) = 36),
     Some (sql_length (xar_claim_id r) = 36),
     Some (0 \<le> xar_ordinal r \<and> xar_ordinal r \<le> 3),
     Some (xar_media_type r \<in> set (map lit [''video'', ''animated_gif'', ''image''])),
     Some (1 \<le> sql_length (xar_expected_mime r) \<and> sql_length (xar_expected_mime r) \<le> 120),
     sql_or (sql_is_null (xar_width r)) (sql_test (\<lambda>n. n \<ge> 0) (xar_width r)),
     sql_or (sql_is_null (xar_height r)) (sql_test (\<lambda>n. n \<ge> 0) (xar_height r)),
     sql_or (sql_is_null (xar_duration_seconds r)) (sql_test (\<lambda>n. n \<le> 300) (xar_duration_seconds r)),
     Some (xar_state r \<in> set (map lit [''pending'', ''extracted'', ''acquiring'', ''staged'', ''handing_off'',
       ''cataloged'', ''failed''])),
     Some (sql_length (xar_stage_key r) = 32 \<and> not_glob_outside is_lower_hex (xar_stage_key r)),
     sql_or (sql_is_null (xar_acquired_bytes r)) (sql_test (\<lambda>n. n > 0) (xar_acquired_bytes r)),
     sql_or (sql_is_null (xar_acquired_sha256 r)) (sql_test (\<lambda>s. sql_length s = 64 \<and> s = sql_lower s
       \<and> not_glob_outside is_lower_hex s) (xar_acquired_sha256 r)),
     sql_or (sql_is_null (xar_completed_at_ms r)) (sql_test (\<lambda>t. t \<ge> xar_created_at_ms r) (xar_completed_at_ms r)),
     ck_failure_pair (xar_failure_stage r) (xar_failure_code r),
     Some (xar_cleanup_state r \<in> {lit ''pending'', lit ''complete''}),
     ck_cleanup_pair (xar_cleanup_state r) (xar_cleanup_completed_at_ms r)]"

definition x_asset_row_ok :: "x_asset_row \<Rightarrow> bool" where
  "x_asset_row_ok r \<longleftrightarrow> list_all check_passes (x_asset_row_checks r)"

definition x_assets_clash :: "x_asset_row \<Rightarrow> x_asset_row \<Rightarrow> bool" where
  "x_assets_clash r s \<longleftrightarrow> xar_stage_key r = xar_stage_key s
     \<or> (xar_claim_id r = xar_claim_id s \<and> xar_ordinal r = xar_ordinal s)"

definition x_asset_fks_hold :: "x_db \<Rightarrow> x_asset_row \<Rightarrow> bool" where
  "x_asset_fks_hold db r \<longleftrightarrow> xar_claim_id r \<in> set (map xr_id (xd_posts db))
     \<and> pred_option (\<lambda>i. i \<in> set (xd_logical_media db)) (xar_media_id r)
     \<and> pred_option (\<lambda>i. i \<in> set (xd_physical_media_locations db)) (xar_media_location_id r)"

definition x_asset_admissible :: "x_db \<Rightarrow> x_asset_row \<Rightarrow> bool" where
  "x_asset_admissible db r \<longleftrightarrow> x_asset_row_ok r \<and> x_asset_fks_hold db r
     \<and> list_all (\<lambda>s. xar_id s = xar_id r \<or> \<not> x_assets_clash r s) (xd_assets db)"

definition pending_alias_row_checks :: "pending_alias_row \<Rightarrow> sql_bool list" where
  "pending_alias_row_checks r = [
     Some (sql_length (par_claim_id r) = 36),
     ck_owner_key (Some (par_login_key r)),
     optional_length 240 (par_display_title r),
     optional_length 10000 (par_description r),
     Some (par_created_at_ms r \<ge> 0),
     Some (par_updated_at_ms r \<ge> 0),
     Some (par_updated_at_ms r \<ge> par_created_at_ms r)]"

definition pending_alias_admissible :: "x_db \<Rightarrow> pending_alias_row \<Rightarrow> bool" where
  "pending_alias_admissible db r \<longleftrightarrow> list_all check_passes (pending_alias_row_checks r)
     \<and> par_claim_id r \<in> set (map xr_id (xd_posts db))"

definition pending_tag_row_checks :: "pending_tag_row \<Rightarrow> sql_bool list" where
  "pending_tag_row_checks r = [
     Some (sql_length (ptr_claim_id r) = 36),
     Some (1 \<le> sql_length (ptr_tag_key r) \<and> sql_length (ptr_tag_key r) \<le> 64),
     Some (0 \<le> ptr_position r \<and> ptr_position r < 32)]"

text \<open>With the primary key \<open>(claim_id, tag_key)\<close> and UNIQUE \<open>(claim_id, position)\<close>.\<close>

definition pending_tag_admissible :: "x_db \<Rightarrow> pending_tag_row \<Rightarrow> bool" where
  "pending_tag_admissible db r \<longleftrightarrow> list_all check_passes (pending_tag_row_checks r)
     \<and> ptr_claim_id r \<in> set (map par_claim_id (xd_pending_aliases db))
     \<and> ptr_tag_key r \<in> set (xd_canonical_tags db)
     \<and> list_all (\<lambda>s. ptr_claim_id s \<noteq> ptr_claim_id r
          \<or> (ptr_tag_key s \<noteq> ptr_tag_key r \<and> ptr_position s \<noteq> ptr_position r)) (xd_pending_alias_tags db)"

section \<open>Conversions\<close>

text \<open>The repository's errors, and those of the domain it lets through.\<close>

datatype x_repo_error =
    FrameNestXClaimRepositoryError
  | XClaimAlreadyExistsError
  | XClaimNotFoundError
  | XClaimConcurrencyConflictError
  | XClaimSourceIdentityConflictError
  | XDomainError x_error
  | XIdentityError
  | XEnumValueError
  | XAliasError
  | XMetadataError

definition x_states :: "x_state list" where
  "x_states = [XS_SUBMITTED, XS_QUEUED, XS_EXTRACTING, XS_ACQUIRING, XS_HANDING_OFF, XS_COMPLETED,
     XS_COMPLETED_PARTIAL, XS_FAILED, XS_DUPLICATE_RESOLVED, XS_CATALOG_REMOVED]"

definition x_asset_states :: "x_asset_state list" where
  "x_asset_states = [XA_PENDING, XA_EXTRACTED, XA_ACQUIRING, XA_STAGED, XA_HANDING_OFF, XA_CATALOGED, XA_FAILED]"

definition x_failure_stages :: "x_failure_stage list" where
  "x_failure_stages = [XF_CONFIGURATION, XF_EXTRACTION, XF_ACQUISITION, XF_STAGING, XF_HANDOFF, XF_DOWNSTREAM,
     XF_CLEANUP, XF_INTERNAL]"

abbreviation x_state_parse :: "pystr \<Rightarrow> x_repo_error + x_state" where
  "x_state_parse \<equiv> enum_parse XEnumValueError x_states x_state_value"

abbreviation x_asset_state_parse :: "pystr \<Rightarrow> x_repo_error + x_asset_state" where
  "x_asset_state_parse \<equiv> enum_parse XEnumValueError x_asset_states x_asset_state_value"

abbreviation x_failure_stage_parse :: "pystr \<Rightarrow> x_repo_error + x_failure_stage" where
  "x_failure_stage_parse \<equiv> enum_parse XEnumValueError x_failure_stages x_failure_stage_value"

abbreviation x_cleanup_state_parse :: "pystr \<Rightarrow> x_repo_error + x_cleanup_state" where
  "x_cleanup_state_parse \<equiv> enum_parse XEnumValueError [X_CLEANUP_PENDING, X_CLEANUP_COMPLETE] x_cleanup_state_value"

abbreviation x_media_type_parse :: "pystr \<Rightarrow> x_repo_error + x_media_type" where
  "x_media_type_parse \<equiv> enum_parse XEnumValueError [XM_VIDEO, XM_ANIMATED_GIF, XM_IMAGE] x_media_type_value"

abbreviation content_category_parse :: "pystr \<Rightarrow> x_repo_error + content_category" where
  "content_category_parse \<equiv>
     enum_parse XEnumValueError [CC_GENERAL, CC_MEME, CC_MOVIE, CC_YOUTUBE] content_category_value"

definition x_id_parse :: "pystr \<Rightarrow> x_repo_error + uuid" where
  "x_id_parse s = rescue (\<lambda>_. XIdentityError) (identity_from_string s)"

definition post_values :: "x_claim \<Rightarrow> x_post_row" where
  "post_values c =
     \<lparr>xr_id = uuid_to_text (xc_id c), xr_state = x_state_value (xc_state c),
      xr_acquisition_source = acquisition_source_value (xc_acquisition_source c),
      xr_submitted_url = xc_submitted_url c, xr_canonical_url = xc_canonical_url c,
      xr_x_post_id = xc_x_post_id c, xr_extractor_key = xc_extractor_key c,
      xr_created_by_login_key = xc_created_by_login_key c,
      xr_retry_of_claim_id = map_option uuid_to_text (xc_retry_of_claim_id c),
      xr_resolved_claim_id = map_option uuid_to_text (xc_resolved_claim_id c),
      xr_source_author_stable_id = xc_source_author_stable_id c,
      xr_source_author_handle = xc_source_author_handle c,
      xr_source_author_display_name = xc_source_author_display_name c,
      xr_source_post_text = xc_source_post_text c, xr_source_posted_at_ms = xc_source_posted_at_ms c,
      xr_title = xc_title c, xr_extractor_version = xc_extractor_version c,
      xr_discovered_asset_count = xc_discovered_asset_count c, xr_success_count = xc_success_count c,
      xr_failure_count = xc_failure_count c, xr_created_at_ms = xc_created_at_ms c,
      xr_updated_at_ms = xc_updated_at_ms c, xr_completed_at_ms = xc_completed_at_ms c,
      xr_catalog_removed_at_ms = xc_catalog_removed_at_ms c,
      xr_failure_stage = map_option x_failure_stage_value (xc_failure_stage c),
      xr_failure_code = xc_failure_code c, xr_cleanup_state = x_cleanup_state_value (xc_cleanup_state c),
      xr_cleanup_completed_at_ms = xc_cleanup_completed_at_ms c,
      xr_requested_content_category = map_option content_category_value (xc_requested_content_category c),
      xr_version = xc_version c\<rparr>"

text \<open>The acquisition source is not read: a claim made from a row has the default one.\<close>

definition post_from_row :: "unicode_tables \<Rightarrow> x_post_row \<Rightarrow> x_repo_error + x_claim" where
  "post_from_row U r =
     and_then (x_id_parse (xr_id r)) (\<lambda>claim_id.
     and_then (x_state_parse (xr_state r)) (\<lambda>state.
     and_then (opt_map x_id_parse (xr_retry_of_claim_id r)) (\<lambda>retry_of.
     and_then (opt_map x_id_parse (xr_resolved_claim_id r)) (\<lambda>resolved.
     and_then (opt_map x_failure_stage_parse (xr_failure_stage r)) (\<lambda>stage.
     and_then (x_cleanup_state_parse (xr_cleanup_state r)) (\<lambda>cleanup.
     and_then (opt_map content_category_parse (xr_requested_content_category r)) (\<lambda>category.
     rescue XDomainError (x_claim_make U
       \<lparr>xc_id = claim_id, xc_state = state, xc_submitted_url = xr_submitted_url r,
        xc_canonical_url = xr_canonical_url r, xc_x_post_id = xr_x_post_id r,
        xc_extractor_key = xr_extractor_key r, xc_created_at_ms = xr_created_at_ms r,
        xc_updated_at_ms = xr_updated_at_ms r, xc_acquisition_source = AS_X_MANUAL_CLAIM,
        xc_created_by_login_key = xr_created_by_login_key r, xc_retry_of_claim_id = retry_of,
        xc_resolved_claim_id = resolved, xc_source_author_stable_id = xr_source_author_stable_id r,
        xc_source_author_handle = xr_source_author_handle r,
        xc_source_author_display_name = xr_source_author_display_name r,
        xc_source_post_text = xr_source_post_text r, xc_source_posted_at_ms = xr_source_posted_at_ms r,
        xc_title = xr_title r, xc_extractor_version = xr_extractor_version r,
        xc_discovered_asset_count = xr_discovered_asset_count r, xc_success_count = xr_success_count r,
        xc_failure_count = xr_failure_count r, xc_completed_at_ms = xr_completed_at_ms r,
        xc_catalog_removed_at_ms = xr_catalog_removed_at_ms r, xc_failure_stage = stage,
        xc_failure_code = xr_failure_code r, xc_cleanup_state = cleanup,
        xc_cleanup_completed_at_ms = xr_cleanup_completed_at_ms r,
        xc_requested_content_category = category, xc_version = xr_version r\<rparr>))))))))"

definition asset_values :: "x_asset \<Rightarrow> x_asset_row" where
  "asset_values a =
     \<lparr>xar_id = uuid_to_text (xa_id a), xar_claim_id = uuid_to_text (xa_claim_id a), xar_ordinal = xa_ordinal a,
      xar_media_type = x_media_type_value (xa_media_type a), xar_expected_mime = xa_expected_mime a,
      xar_source_media_key = xa_source_media_key a, xar_width = xa_width a, xar_height = xa_height a,
      xar_duration_seconds = xa_duration_seconds a, xar_selected_variant = xa_selected_variant a,
      xar_state = x_asset_state_value (xa_state a), xar_stage_key = xa_stage_key a,
      xar_acquired_bytes = xa_acquired_bytes a, xar_acquired_sha256 = xa_acquired_sha256 a,
      xar_media_id = map_option uuid_to_text (xa_media_id a),
      xar_media_location_id = map_option uuid_to_text (xa_media_location_id a),
      xar_upload_asset_key = xa_upload_asset_key a, xar_created_at_ms = xa_created_at_ms a,
      xar_updated_at_ms = xa_updated_at_ms a, xar_completed_at_ms = xa_completed_at_ms a,
      xar_failure_stage = map_option x_failure_stage_value (xa_failure_stage a),
      xar_failure_code = xa_failure_code a, xar_cleanup_state = x_cleanup_state_value (xa_cleanup_state a),
      xar_cleanup_completed_at_ms = xa_cleanup_completed_at_ms a, xar_version = xa_version a\<rparr>"

definition asset_from_row :: "unicode_tables \<Rightarrow> x_asset_row \<Rightarrow> x_repo_error + x_asset" where
  "asset_from_row U r =
     and_then (x_id_parse (xar_id r)) (\<lambda>asset_id.
     and_then (x_id_parse (xar_claim_id r)) (\<lambda>claim_id.
     and_then (x_media_type_parse (xar_media_type r)) (\<lambda>media_type.
     and_then (x_asset_state_parse (xar_state r)) (\<lambda>state.
     and_then (opt_map x_id_parse (xar_media_id r)) (\<lambda>media.
     and_then (opt_map x_id_parse (xar_media_location_id r)) (\<lambda>location.
     and_then (opt_map x_failure_stage_parse (xar_failure_stage r)) (\<lambda>stage.
     and_then (x_cleanup_state_parse (xar_cleanup_state r)) (\<lambda>cleanup.
     rescue XDomainError (x_asset_make U
       \<lparr>xa_id = asset_id, xa_claim_id = claim_id, xa_ordinal = xar_ordinal r, xa_media_type = media_type,
        xa_expected_mime = xar_expected_mime r, xa_stage_key = xar_stage_key r,
        xa_created_at_ms = xar_created_at_ms r, xa_updated_at_ms = xar_updated_at_ms r,
        xa_source_media_key = xar_source_media_key r, xa_width = xar_width r, xa_height = xar_height r,
        xa_duration_seconds = xar_duration_seconds r, xa_selected_variant = xar_selected_variant r,
        xa_state = state, xa_acquired_bytes = xar_acquired_bytes r,
        xa_acquired_sha256 = xar_acquired_sha256 r, xa_media_id = media, xa_media_location_id = location,
        xa_upload_asset_key = xar_upload_asset_key r, xa_completed_at_ms = xar_completed_at_ms r,
        xa_failure_stage = stage, xa_failure_code = xar_failure_code r, xa_cleanup_state = cleanup,
        xa_cleanup_completed_at_ms = xar_cleanup_completed_at_ms r, xa_version = xar_version r\<rparr>)))))))))"

end
