(* ===== verification/X_Claim_Repository.thy ===== *)
theory X_Claim_Repository
  imports X_Claim_Rows Keyed_Rows "HOL-Library.Product_Lexorder"
begin

text \<open>
  \<open>infrastructure/persistence/x_acquisition_claim_repository.py\<close>, every method.  A method is a
  function from the tables to its outcome and the tables after its transaction.  Inside a
  transaction an error is an \<open>IntegrityError\<close> of the driver, which the method turns into the
  repository's base error, or an error that was raised, which leaves the method as it is.

  A statement without \<open>ORDER BY\<close> sees the rows in the order of the table.
\<close>

datatype x_failure = XIntegrityError | XRaised x_repo_error

fun x_failure_error :: "x_failure \<Rightarrow> x_repo_error" where
  "x_failure_error XIntegrityError = FrameNestXClaimRepositoryError"
| "x_failure_error (XRaised e) = e"

definition x_transaction ::
    "(x_db \<Rightarrow> x_failure + 'a \<times> x_db) \<Rightarrow> x_db \<Rightarrow> (x_repo_error + 'a) \<times> x_db" where
  "x_transaction operation db = map_prod (rescue x_failure_error) id (run_in_transaction operation db)"

definition x_query :: "(x_db \<Rightarrow> x_repo_error + 'a) \<Rightarrow> x_db \<Rightarrow> (x_repo_error + 'a) \<times> x_db" where
  "x_query query db = run_in_transaction (\<lambda>db. and_then (query db) (\<lambda>x. Inr (x, db))) db"

text \<open>\<open>LIMIT n\<close>: a negative number is no limit.\<close>

definition x_limit :: "int \<Rightarrow> 'r list \<Rightarrow> 'r list" where
  "x_limit n rows = (if n < 0 then rows else take (nat n) rows)"

section \<open>Rows\<close>

definition post_row_by_id :: "uuid \<Rightarrow> x_db \<Rightarrow> x_post_row option" where
  "post_row_by_id post_id db = sql_first (\<lambda>r. xr_id r = uuid_to_text post_id) (xd_posts db)"

definition active_post_row :: "pystr \<Rightarrow> pystr option \<Rightarrow> x_db \<Rightarrow> x_post_row option" where
  "active_post_row post_id_key created_by_login_key db = sql_first (\<lambda>r.
     xr_x_post_id r = post_id_key \<and> xr_state r \<in> set X_ACTIVE_VALUES
     \<and> xr_created_by_login_key r = created_by_login_key) (xd_posts db)"

definition asset_row_by_id :: "uuid \<Rightarrow> x_db \<Rightarrow> x_asset_row option" where
  "asset_row_by_id asset_id db = sql_first (\<lambda>r. xar_id r = uuid_to_text asset_id) (xd_assets db)"

definition X_LIVE_SUCCESS_VALUES :: "pystr list" where
  "X_LIVE_SUCCESS_VALUES = map x_state_value LIVE_CATALOG_X_ACQUISITION_STATES"

definition X_SUCCESS_POST_VALUES :: "pystr list" where
  "X_SUCCESS_POST_VALUES = map x_state_value [XS_COMPLETED, XS_COMPLETED_PARTIAL, XS_DUPLICATE_RESOLVED]"

definition X_ASSET_SUCCESS_VALUES :: "pystr list" where
  "X_ASSET_SUCCESS_VALUES = map x_asset_state_value SUCCESS_X_ASSET_STATES"

section \<open>Reading claims\<close>

definition x_get_post :: "unicode_tables \<Rightarrow> uuid \<Rightarrow> x_db \<Rightarrow> (x_repo_error + x_claim option) \<times> x_db" where
  "x_get_post U post_id = x_query (\<lambda>db. opt_map (post_from_row U) (post_row_by_id post_id db))"

definition x_find_active_by_post_id ::
    "unicode_tables \<Rightarrow> pystr \<Rightarrow> pystr option \<Rightarrow> x_db \<Rightarrow> (x_repo_error + x_claim option) \<times> x_db" where
  "x_find_active_by_post_id U post_id_key created_by_login_key =
     x_query (\<lambda>db. opt_map (post_from_row U) (active_post_row post_id_key created_by_login_key db))"

text \<open>\<open>ORDER BY updated_at_ms DESC LIMIT 1\<close>.\<close>

definition latest_post_row :: "(x_post_row \<Rightarrow> bool) \<Rightarrow> x_db \<Rightarrow> x_post_row option" where
  "latest_post_row p db = sql_first (\<lambda>_. True) (sql_order_limit (\<lambda>r. - xr_updated_at_ms r) 1 (filter p (xd_posts db)))"

definition x_find_owned_live_successful ::
    "unicode_tables \<Rightarrow> pystr \<Rightarrow> pystr \<Rightarrow> x_db \<Rightarrow> (x_repo_error + x_claim option) \<times> x_db" where
  "x_find_owned_live_successful U post_id_key created_by_login_key =
     x_query (\<lambda>db. opt_map (post_from_row U) (latest_post_row (\<lambda>r. xr_x_post_id r = post_id_key
       \<and> xr_created_by_login_key r = Some created_by_login_key \<and> xr_state r \<in> set X_LIVE_SUCCESS_VALUES) db))"

definition x_find_owned_successful ::
    "unicode_tables \<Rightarrow> pystr \<Rightarrow> pystr \<Rightarrow> x_db \<Rightarrow> (x_repo_error + x_claim option) \<times> x_db" where
  "x_find_owned_successful U post_id_key created_by_login_key =
     x_query (\<lambda>db. opt_map (post_from_row U) (latest_post_row (\<lambda>r. xr_x_post_id r = post_id_key
       \<and> xr_created_by_login_key r = Some created_by_login_key \<and> xr_state r \<in> set X_SUCCESS_POST_VALUES) db))"

text \<open>The upload session of an asset has the asset's identifier.\<close>

definition x_find_post_by_upload_id ::
    "unicode_tables \<Rightarrow> uuid \<Rightarrow> x_db \<Rightarrow> (x_repo_error + x_claim option) \<times> x_db" where
  "x_find_post_by_upload_id U upload_id = x_query (\<lambda>db. opt_map (post_from_row U)
     (sql_first (\<lambda>r. list_ex (\<lambda>a. xar_claim_id a = xr_id r \<and> xar_id a = uuid_to_text upload_id) (xd_assets db))
       (xd_posts db)))"

definition x_find_asset_by_upload_id ::
    "unicode_tables \<Rightarrow> uuid \<Rightarrow> x_db \<Rightarrow> (x_repo_error + x_asset option) \<times> x_db" where
  "x_find_asset_by_upload_id U upload_id = x_query (\<lambda>db. opt_map (asset_from_row U)
     (sql_first (\<lambda>r. xar_id r = uuid_to_text upload_id) (xd_assets db)))"

definition x_get_owned_post ::
    "unicode_tables \<Rightarrow> uuid \<Rightarrow> pystr \<Rightarrow> x_db \<Rightarrow> (x_repo_error + x_claim option) \<times> x_db" where
  "x_get_owned_post U post_id created_by_login_key = x_query (\<lambda>db. opt_map (post_from_row U)
     (sql_first (\<lambda>r. xr_id r = uuid_to_text post_id \<and> xr_created_by_login_key r = Some created_by_login_key)
       (xd_posts db)))"

section \<open>Listings\<close>

definition x_list_owned ::
    "unicode_tables \<Rightarrow> pystr \<Rightarrow> int \<Rightarrow> int option \<Rightarrow> pystr option \<Rightarrow> x_db
     \<Rightarrow> (x_repo_error + x_claim list) \<times> x_db" where
  "x_list_owned U created_by_login_key limit after_created_at_ms after_id = x_query (\<lambda>db.
     if after_created_at_ms \<noteq> None \<and> after_id = None then Inl FrameNestXClaimRepositoryError
     else map_results (post_from_row U) (x_limit limit (rev (sort_key (\<lambda>r. (xr_created_at_ms r, xr_id r))
       (filter (\<lambda>r. xr_created_by_login_key r = Some created_by_login_key
          \<and> (case (after_created_at_ms, after_id) of
               (Some t, Some i) \<Rightarrow> xr_created_at_ms r < t \<or> (xr_created_at_ms r = t \<and> xr_id r < i)
             | _ \<Rightarrow> True)) (xd_posts db))))))"

definition x_list_recovery_candidates ::
    "unicode_tables \<Rightarrow> int \<Rightarrow> int option \<Rightarrow> pystr option \<Rightarrow> x_db \<Rightarrow> (x_repo_error + x_claim list) \<times> x_db" where
  "x_list_recovery_candidates U limit after_updated_at_ms after_id = x_query (\<lambda>db.
     if after_updated_at_ms \<noteq> None \<and> after_id = None then Inl FrameNestXClaimRepositoryError
     else map_results (post_from_row U) (x_limit limit (sort_key (\<lambda>r. (xr_updated_at_ms r, xr_id r))
       (filter (\<lambda>r. xr_state r \<in> set X_ACTIVE_VALUES
          \<and> (case (after_updated_at_ms, after_id) of
               (Some t, Some i) \<Rightarrow> xr_updated_at_ms r > t \<or> (xr_updated_at_ms r = t \<and> xr_id r > i)
             | _ \<Rightarrow> True)) (xd_posts db)))))"

definition x_list_cleanup_candidates ::
    "unicode_tables \<Rightarrow> int \<Rightarrow> x_db \<Rightarrow> (x_repo_error + x_claim list) \<times> x_db" where
  "x_list_cleanup_candidates U limit = x_query (\<lambda>db. map_results (post_from_row U) (x_limit limit
     (filter (\<lambda>r. xr_state r \<in> set X_LIVE_SUCCESS_VALUES
        \<and> list_ex (\<lambda>a. xar_claim_id a = xr_id r
             \<and> xar_cleanup_state a = x_cleanup_state_value X_CLEANUP_PENDING) (xd_assets db)) (xd_posts db))))"

section \<open>Counts\<close>

definition x_count :: "(x_post_row \<Rightarrow> bool) \<Rightarrow> x_db \<Rightarrow> (x_repo_error + int) \<times> x_db" where
  "x_count p = x_query (\<lambda>db. Inr (int (length (filter p (xd_posts db)))))"

definition x_count_active_for_requester :: "pystr \<Rightarrow> x_db \<Rightarrow> (x_repo_error + int) \<times> x_db" where
  "x_count_active_for_requester created_by_login_key = x_count (\<lambda>r.
     xr_created_by_login_key r = Some created_by_login_key \<and> xr_state r \<in> set X_ACTIVE_VALUES)"

definition x_count_global_active_ordinary :: "x_db \<Rightarrow> (x_repo_error + int) \<times> x_db" where
  "x_count_global_active_ordinary = x_count (\<lambda>r.
     xr_created_by_login_key r \<noteq> None \<and> xr_state r \<in> set X_ACTIVE_VALUES)"

definition x_count_submits_since :: "pystr \<Rightarrow> int \<Rightarrow> x_db \<Rightarrow> (x_repo_error + int) \<times> x_db" where
  "x_count_submits_since created_by_login_key since_ms = x_count (\<lambda>r.
     xr_created_by_login_key r = Some created_by_login_key \<and> xr_created_at_ms r \<ge> since_ms)"

definition x_count_failed_transitions_since :: "pystr \<Rightarrow> int \<Rightarrow> x_db \<Rightarrow> (x_repo_error + int) \<times> x_db" where
  "x_count_failed_transitions_since created_by_login_key since_ms = x_count (\<lambda>r.
     xr_created_by_login_key r = Some created_by_login_key \<and> xr_state r = x_state_value XS_FAILED
     \<and> (case xr_completed_at_ms r of None \<Rightarrow> False | Some t \<Rightarrow> t \<ge> since_ms))"

text \<open>The assets of a requester's claims in a success state: the rows of the join.\<close>

definition x_successful_assets :: "pystr \<Rightarrow> x_db \<Rightarrow> x_asset_row list" where
  "x_successful_assets created_by_login_key db = filter (\<lambda>a. xar_state a \<in> set X_ASSET_SUCCESS_VALUES
     \<and> list_ex (\<lambda>r. xr_id r = xar_claim_id a \<and> xr_created_by_login_key r = Some created_by_login_key)
         (xd_posts db)) (xd_assets db)"

definition x_private_successful_quota :: "pystr \<Rightarrow> x_db \<Rightarrow> (x_repo_error + int \<times> int) \<times> x_db" where
  "x_private_successful_quota created_by_login_key = x_query (\<lambda>db.
     let rows = x_successful_assets created_by_login_key db
     in Inr (int (length rows),
       sum_list (map (\<lambda>a. case xar_acquired_bytes a of None \<Rightarrow> 0 | Some n \<Rightarrow> n) rows)))"

definition x_has_live_requester_media_access :: "uuid \<Rightarrow> pystr \<Rightarrow> x_db \<Rightarrow> (x_repo_error + bool) \<times> x_db" where
  "x_has_live_requester_media_access media_id login_key = x_query (\<lambda>db. Inr (
     length (filter (\<lambda>a. xar_media_id a = Some (uuid_to_text media_id)) (x_successful_assets login_key db)) > 0))"

definition x_media_ids_hidden_from_requester ::
    "pystr \<Rightarrow> pystr list \<Rightarrow> x_db \<Rightarrow> (x_repo_error + pystr set) \<times> x_db" where
  "x_media_ids_hidden_from_requester login_key media_ids db =
     (if media_ids = [] then (Inr {}, db)
      else x_query (\<lambda>db. Inr (set (concat (map (\<lambda>(media, owner). case media of None \<Rightarrow> []
             | Some m \<Rightarrow> if m \<in> set media_ids \<and> owner \<noteq> login_key then [m] else [])
           (xd_kronika_records db))))) db)"

section \<open>Writing claims\<close>

definition insert_post_row :: "x_post_row \<Rightarrow> x_db \<Rightarrow> x_failure + x_db" where
  "insert_post_row row db =
     (if xr_id row \<in> set (map xr_id (xd_posts db)) \<or> \<not> x_post_admissible db row
      then Inl XIntegrityError else Inr (db\<lparr>xd_posts := xd_posts db @ [row]\<rparr>))"

definition x_create_or_get_active_in ::
    "unicode_tables \<Rightarrow> x_claim \<Rightarrow> x_db \<Rightarrow> x_failure + (x_claim \<times> bool) \<times> x_db" where
  "x_create_or_get_active_in U claim db =
     (if post_row_by_id (xc_id claim) db \<noteq> None then Inl (XRaised XClaimAlreadyExistsError)
      else case active_post_row (xc_x_post_id claim) (xc_created_by_login_key claim) db of
        Some active \<Rightarrow> and_then (rescue XRaised (post_from_row U active)) (\<lambda>winner. Inr ((winner, False), db))
      | None \<Rightarrow> and_then (insert_post_row (post_values claim) db) (\<lambda>db'. Inr ((claim, True), db')))"

text \<open>After an \<open>IntegrityError\<close> the active claim is looked up in a second transaction, which sees
  the tables \<open>reread\<close> gives: other connections may have committed in between.\<close>

definition x_create_or_get_active ::
    "unicode_tables \<Rightarrow> (x_db \<Rightarrow> x_db) \<Rightarrow> x_claim \<Rightarrow> x_db \<Rightarrow> (x_repo_error + x_claim \<times> bool) \<times> x_db" where
  "x_create_or_get_active U reread claim db =
     (if xc_state claim \<noteq> XS_SUBMITTED then (Inl FrameNestXClaimRepositoryError, db)
      else case run_in_immediate_transaction (x_create_or_get_active_in U claim) db of
        (Inr result, db') \<Rightarrow> (Inr result, db')
      | (Inl (XRaised e), db') \<Rightarrow> (Inl e, db')
      | (Inl XIntegrityError, db') \<Rightarrow>
          (case x_find_active_by_post_id U (xc_x_post_id claim) (xc_created_by_login_key claim) (reread db') of
             (Inr (Some existing), db'') \<Rightarrow> (Inr (existing, False), db'')
           | (Inr None, db'') \<Rightarrow> (Inl FrameNestXClaimRepositoryError, db'')
           | (Inl e, db'') \<Rightarrow> (Inl e, db'')))"

definition x_create_post :: "x_claim \<Rightarrow> x_db \<Rightarrow> (x_repo_error + unit) \<times> x_db" where
  "x_create_post claim = x_transaction (\<lambda>db.
     if post_row_by_id (xc_id claim) db \<noteq> None then Inl (XRaised XClaimAlreadyExistsError)
     else and_then (insert_post_row (post_values claim) db) (\<lambda>db'. Inr ((), db')))"

text \<open>The state the row has is parsed again for the transition check; the row count of the
  \<open>UPDATE\<close> is not looked at.\<close>

definition x_save_post_in ::
    "unicode_tables \<Rightarrow> x_claim \<Rightarrow> x_state \<Rightarrow> int \<Rightarrow> x_db \<Rightarrow> x_failure + x_claim \<times> x_db" where
  "x_save_post_in U claim expected_state expected_version db =
     (case post_row_by_id (xc_id claim) db of
        None \<Rightarrow> Inl (XRaised XClaimNotFoundError)
      | Some row \<Rightarrow>
          if xr_state row \<noteq> x_state_value expected_state \<or> xr_version row \<noteq> expected_version
          then Inl (XRaised XClaimConcurrencyConflictError)
          else and_then (rescue XRaised (x_state_parse (xr_state row))) (\<lambda>stored.
            and_then (rescue (\<lambda>e. XRaised (XDomainError e)) (ensure_x_transition_allowed stored (xc_state claim))) (\<lambda>_.
            case sql_update (x_post_admissible db)
              (\<lambda>r. xr_id r = uuid_to_text (xc_id claim) \<and> xr_version r = expected_version)
              (\<lambda>_. post_values claim) (xd_posts db) of
              None \<Rightarrow> Inl XIntegrityError
            | Some (rows, _) \<Rightarrow> Inr (claim, db\<lparr>xd_posts := rows\<rparr>))))"

definition x_save_post ::
    "unicode_tables \<Rightarrow> x_claim \<Rightarrow> x_state \<Rightarrow> int \<Rightarrow> x_db \<Rightarrow> (x_repo_error + x_claim) \<times> x_db" where
  "x_save_post U claim expected_state expected_version =
     x_transaction (x_save_post_in U claim expected_state expected_version)"

section \<open>Assets\<close>

definition insert_asset_row :: "x_asset_row \<Rightarrow> x_db \<Rightarrow> x_failure + x_db" where
  "insert_asset_row row db =
     (if xar_id row \<in> set (map xar_id (xd_assets db)) \<or> \<not> x_asset_admissible db row
      then Inl XIntegrityError else Inr (db\<lparr>xd_assets := xd_assets db @ [row]\<rparr>))"

fun x_insert_assets :: "x_asset list \<Rightarrow> x_db \<Rightarrow> x_failure + x_db" where
  "x_insert_assets [] db = Inr db"
| "x_insert_assets (asset # assets) db =
     (if xa_state asset \<noteq> XA_PENDING then Inl (XRaised FrameNestXClaimRepositoryError)
      else and_then (insert_asset_row (asset_values asset) db) (x_insert_assets assets))"

definition x_create_assets :: "x_asset list \<Rightarrow> x_db \<Rightarrow> (x_repo_error + unit) \<times> x_db" where
  "x_create_assets assets = x_transaction (\<lambda>db. and_then (x_insert_assets assets db) (\<lambda>db'. Inr ((), db')))"

definition x_get_asset :: "unicode_tables \<Rightarrow> uuid \<Rightarrow> x_db \<Rightarrow> (x_repo_error + x_asset option) \<times> x_db" where
  "x_get_asset U asset_id = x_query (\<lambda>db. opt_map (asset_from_row U) (asset_row_by_id asset_id db))"

definition x_list_assets_for_post :: "unicode_tables \<Rightarrow> uuid \<Rightarrow> x_db \<Rightarrow> (x_repo_error + x_asset list) \<times> x_db" where
  "x_list_assets_for_post U post_id = x_query (\<lambda>db. map_results (asset_from_row U)
     (sort_key xar_ordinal (filter (\<lambda>r. xar_claim_id r = uuid_to_text post_id) (xd_assets db))))"

definition x_save_asset_in ::
    "unicode_tables \<Rightarrow> x_asset \<Rightarrow> x_asset_state \<Rightarrow> int \<Rightarrow> x_db \<Rightarrow> x_failure + x_asset \<times> x_db" where
  "x_save_asset_in U asset expected_state expected_version db =
     (case asset_row_by_id (xa_id asset) db of
        None \<Rightarrow> Inl (XRaised XClaimNotFoundError)
      | Some row \<Rightarrow>
          if xar_state row \<noteq> x_asset_state_value expected_state \<or> xar_version row \<noteq> expected_version
          then Inl (XRaised XClaimConcurrencyConflictError)
          else and_then (rescue XRaised (x_asset_state_parse (xar_state row))) (\<lambda>stored.
            and_then (rescue (\<lambda>e. XRaised (XDomainError e)) (ensure_x_asset_transition_allowed stored (xa_state asset))) (\<lambda>_.
            case sql_update (x_asset_admissible db)
              (\<lambda>r. xar_id r = uuid_to_text (xa_id asset) \<and> xar_version r = expected_version)
              (\<lambda>_. asset_values asset) (xd_assets db) of
              None \<Rightarrow> Inl XIntegrityError
            | Some (rows, _) \<Rightarrow> Inr (asset, db\<lparr>xd_assets := rows\<rparr>))))"

definition x_save_asset ::
    "unicode_tables \<Rightarrow> x_asset \<Rightarrow> x_asset_state \<Rightarrow> int \<Rightarrow> x_db \<Rightarrow> (x_repo_error + x_asset) \<times> x_db" where
  "x_save_asset U asset expected_state expected_version =
     x_transaction (x_save_asset_in U asset expected_state expected_version)"

section \<open>Pending aliases\<close>

text \<open>\<open>MediaDisplayTitle\<close>, \<open>MediaDescription\<close> and \<open>CanonicalTagKey\<close> may raise the metadata error,
  the two alias classes theirs.\<close>

definition pending_content :: "pystr option \<Rightarrow> pystr option \<Rightarrow> pystr list \<Rightarrow> x_repo_error + alias_content" where
  "pending_content title description keys =
     and_then (rescue (\<lambda>_. XMetadataError) (opt_map (\<lambda>s. media_display_title (PyStr s)) title)) (\<lambda>t.
     and_then (rescue (\<lambda>_. XMetadataError) (opt_map (\<lambda>s. media_description (PyStr s)) description)) (\<lambda>d.
     and_then (rescue (\<lambda>_. XMetadataError) (map_results (\<lambda>k. canonical_tag_key (PyStr k)) keys)) (\<lambda>ks.
     let c = \<lparr>ac_display_title = t, ac_description = d, ac_tag_keys = ks\<rparr>
     in and_then (rescue (\<lambda>_. XAliasError) (alias_content_post_init c)) (\<lambda>_. Inr c))))"

definition pending_alias_make :: "unicode_tables \<Rightarrow> pending_alias \<Rightarrow> x_repo_error + pending_alias" where
  "pending_alias_make U a = and_then (rescue (\<lambda>_. XAliasError) (pending_alias_post_init U a)) (\<lambda>_. Inr a)"

definition load_pending_alias :: "unicode_tables \<Rightarrow> uuid \<Rightarrow> x_db \<Rightarrow> x_repo_error + pending_alias option" where
  "load_pending_alias U claim_id db =
     (case sql_first (\<lambda>r. par_claim_id r = uuid_to_text claim_id) (xd_pending_aliases db) of
        None \<Rightarrow> Inr None
      | Some row \<Rightarrow>
          and_then (pending_content (par_display_title row) (par_description row)
            (map ptr_tag_key (sort_key ptr_position
              (filter (\<lambda>r. ptr_claim_id r = uuid_to_text claim_id) (xd_pending_alias_tags db))))) (\<lambda>content.
          and_then (pending_alias_make U \<lparr>pma_claim_id = claim_id, pma_login_key = par_login_key row,
             pma_content = content, pma_created_at_ms = par_created_at_ms row,
             pma_updated_at_ms = par_updated_at_ms row\<rparr>) (\<lambda>a. Inr (Some a))))"

definition x_get_pending_alias ::
    "unicode_tables \<Rightarrow> uuid \<Rightarrow> x_db \<Rightarrow> (x_repo_error + pending_alias option) \<times> x_db" where
  "x_get_pending_alias U claim_id = x_query (load_pending_alias U claim_id)"

definition delete_pending_tags :: "uuid \<Rightarrow> x_db \<Rightarrow> x_db" where
  "delete_pending_tags claim_id db = db\<lparr>xd_pending_alias_tags :=
     filter (\<lambda>r. ptr_claim_id r \<noteq> uuid_to_text claim_id) (xd_pending_alias_tags db)\<rparr>"

text \<open>The tags go first: no foreign key refers to the alias row any more.\<close>

definition delete_pending_alias_in :: "uuid \<Rightarrow> x_db \<Rightarrow> x_db" where
  "delete_pending_alias_in claim_id db = (delete_pending_tags claim_id db)\<lparr>xd_pending_aliases :=
     filter (\<lambda>r. par_claim_id r \<noteq> uuid_to_text claim_id) (xd_pending_aliases db)\<rparr>"

definition x_delete_pending_alias :: "uuid \<Rightarrow> x_db \<Rightarrow> (x_repo_error + unit) \<times> x_db" where
  "x_delete_pending_alias claim_id = x_transaction (\<lambda>db. Inr ((), delete_pending_alias_in claim_id db))"

fun insert_pending_tags :: "uuid \<Rightarrow> int \<Rightarrow> pystr list \<Rightarrow> x_db \<Rightarrow> x_failure + x_db" where
  "insert_pending_tags claim_id position [] db = Inr db"
| "insert_pending_tags claim_id position (key # keys) db =
     (let row = \<lparr>ptr_claim_id = uuid_to_text claim_id, ptr_tag_key = key, ptr_position = position\<rparr>
      in if pending_tag_admissible db row
         then insert_pending_tags claim_id (position + 1) keys
           (db\<lparr>xd_pending_alias_tags := xd_pending_alias_tags db @ [row]\<rparr>)
         else Inl XIntegrityError)"

text \<open>The \<open>INSERT\<close> of a new alias and the \<open>UPDATE\<close> of the stored one, with the creation time.\<close>

definition put_pending_alias ::
    "uuid \<Rightarrow> pystr \<Rightarrow> alias_content \<Rightarrow> int \<Rightarrow> pending_alias option \<Rightarrow> x_db \<Rightarrow> x_failure + int \<times> x_db" where
  "put_pending_alias claim_id login_key content now_ms current db =
     (case current of
        None \<Rightarrow>
          let row = \<lparr>par_claim_id = uuid_to_text claim_id, par_login_key = login_key,
                par_display_title = ac_display_title content, par_description = ac_description content,
                par_created_at_ms = now_ms, par_updated_at_ms = now_ms\<rparr>
          in if par_claim_id row \<in> set (map par_claim_id (xd_pending_aliases db))
                \<or> \<not> pending_alias_admissible db row then Inl XIntegrityError
             else Inr (now_ms, db\<lparr>xd_pending_aliases := xd_pending_aliases db @ [row]\<rparr>)
      | Some alias \<Rightarrow>
          (case sql_update (pending_alias_admissible db) (\<lambda>r. par_claim_id r = uuid_to_text claim_id)
             (\<lambda>r. r\<lparr>par_login_key := login_key, par_display_title := ac_display_title content,
                par_description := ac_description content, par_updated_at_ms := now_ms\<rparr>)
             (xd_pending_aliases db) of
             None \<Rightarrow> Inl XIntegrityError
           | Some (rows, _) \<Rightarrow> Inr (pma_created_at_ms alias, db\<lparr>xd_pending_aliases := rows\<rparr>)))"

definition upsert_pending_alias_in ::
    "unicode_tables \<Rightarrow> uuid \<Rightarrow> pystr \<Rightarrow> alias_content \<Rightarrow> int \<Rightarrow> x_db
     \<Rightarrow> x_failure + pending_alias option \<times> x_db" where
  "upsert_pending_alias_in U claim_id login_key content now_ms db =
     (if alias_is_empty content then Inr (None, delete_pending_alias_in claim_id db)
      else and_then (rescue XRaised (load_pending_alias U claim_id db)) (\<lambda>current.
        and_then (put_pending_alias claim_id login_key content now_ms current db) (\<lambda>(created_at_ms, db1).
        and_then (insert_pending_tags claim_id 0 (ac_tag_keys content) (delete_pending_tags claim_id db1)) (\<lambda>db2.
        and_then (rescue XRaised (pending_alias_make U \<lparr>pma_claim_id = claim_id, pma_login_key = login_key,
           pma_content = content, pma_created_at_ms = created_at_ms, pma_updated_at_ms = now_ms\<rparr>)) (\<lambda>a.
        Inr (Some a, db2))))))"

definition x_upsert_pending_alias ::
    "unicode_tables \<Rightarrow> uuid \<Rightarrow> pystr \<Rightarrow> alias_content \<Rightarrow> int \<Rightarrow> x_db
     \<Rightarrow> (x_repo_error + pending_alias option) \<times> x_db" where
  "x_upsert_pending_alias U claim_id login_key content now_ms =
     x_transaction (upsert_pending_alias_in U claim_id login_key content now_ms)"

end
