(* ===== verification/X_Claim_Facts.thy ===== *)
theory X_Claim_Facts
  imports X_Claim_Repository
begin

text \<open>
  Rows and X claims, and rows and assets, correspond one to one; the tables as tables of
  snapshots.
\<close>

section \<open>Text encodings\<close>

interpretation x_state_codec: enum_codec x_state_value x_state_parse
proof (rule enum_codec_enum_parse)
  show "distinct (map x_state_value x_states)" by (simp add: x_states_def lit_def)
  show "x \<in> set x_states" for x by (cases x) (simp_all add: x_states_def)
qed

interpretation x_asset_state_codec: enum_codec x_asset_state_value x_asset_state_parse
proof (rule enum_codec_enum_parse)
  show "distinct (map x_asset_state_value x_asset_states)" by (simp add: x_asset_states_def lit_def)
  show "x \<in> set x_asset_states" for x by (cases x) (simp_all add: x_asset_states_def)
qed

interpretation x_failure_stage_codec: enum_codec x_failure_stage_value x_failure_stage_parse
proof (rule enum_codec_enum_parse)
  show "distinct (map x_failure_stage_value x_failure_stages)" by (simp add: x_failure_stages_def lit_def)
  show "x \<in> set x_failure_stages" for x by (cases x) (simp_all add: x_failure_stages_def)
qed

interpretation x_cleanup_codec: enum_codec x_cleanup_state_value x_cleanup_state_parse
proof (rule enum_codec_enum_parse)
  show "distinct (map x_cleanup_state_value [X_CLEANUP_PENDING, X_CLEANUP_COMPLETE])" by (simp add: lit_def)
  show "x \<in> set [X_CLEANUP_PENDING, X_CLEANUP_COMPLETE]" for x by (cases x) simp_all
qed

interpretation x_media_type_codec: enum_codec x_media_type_value x_media_type_parse
proof (rule enum_codec_enum_parse)
  show "distinct (map x_media_type_value [XM_VIDEO, XM_ANIMATED_GIF, XM_IMAGE])" by (simp add: lit_def)
  show "x \<in> set [XM_VIDEO, XM_ANIMATED_GIF, XM_IMAGE]" for x by (cases x) simp_all
qed

interpretation content_category_codec: enum_codec content_category_value content_category_parse
proof (rule enum_codec_enum_parse)
  show "distinct (map content_category_value [CC_GENERAL, CC_MEME, CC_MOVIE, CC_YOUTUBE])" by (simp add: lit_def)
  show "x \<in> set [CC_GENERAL, CC_MEME, CC_MOVIE, CC_YOUTUBE]" for x by (cases x) simp_all
qed

interpretation x_identity: text_codec uuid_to_text x_id_parse is_uuid4
proof unfold_locales
  show "x_id_parse (uuid_to_text x) = Inr x" if "is_uuid4 x" for x
    using identity.parse_print [OF that] by (simp add: x_id_parse_def identity_to_string_def)
  show "uuid_to_text x = s \<and> is_uuid4 x" if "x_id_parse s = Inr x" for s x
    using that identity.parse_sound [of s x]
    by (simp add: x_id_parse_def identity_to_string_def rescue_Inr)
qed

lemma optional_code [simp]:
  "opt_map x_failure_stage_parse (map_option x_failure_stage_value x) = Inr x"
  "opt_map content_category_parse (map_option content_category_value y) = Inr y"
  by (rule x_failure_stage_codec.opt_map_parse_print, cases x; simp)
     (rule content_category_codec.opt_map_parse_print, cases y; simp)

section \<open>Posts\<close>

lemma x_post_ids:
  assumes "x_claim_post_init U c = Inr ()"
  shows "is_uuid4 (xc_id c)" "pred_option is_uuid4 (xc_retry_of_claim_id c)"
    "pred_option is_uuid4 (xc_resolved_claim_id c)" "xc_acquisition_source c = AS_X_MANUAL_CLAIM"
  using assms unfolding x_post_init_parts x_claim_identity_checks_def all_checks_Cons_Inr raise_if_Inr
  by (auto simp: check_optional_claim_id_Inr and_then_Inr raise_if_Inr pred_option_def)

text \<open>Every row the table takes names the one acquisition source of its constraint, which is the
  one a claim read from the row gets.\<close>

definition stored_post_from_row :: "unicode_tables \<Rightarrow> x_post_row \<Rightarrow> x_repo_error + x_claim" where
  "stored_post_from_row U r = (if xr_acquisition_source r = lit ''x_manual_claim'' then post_from_row U r
     else Inl XEnumValueError)"

lemma stored_post_from_row:
  "x_post_row_ok r \<Longrightarrow> stored_post_from_row U r = post_from_row U r"
  by (simp add: stored_post_from_row_def x_post_row_ok_def x_post_row_checks_def)

lemma post_from_values:
  assumes "x_claim_post_init U c = Inr ()"
  shows "post_from_row U (post_values c) = Inr c"
proof -
  note i = x_post_ids [OF assms]
  note p = x_identity.parse_print [OF i(1)] x_identity.opt_map_parse_print [OF i(2)]
    x_identity.opt_map_parse_print [OF i(3)] x_state_codec.parse_print_enum x_cleanup_codec.parse_print_enum
  show ?thesis
    unfolding post_from_row_def
    by (simp add: post_values_def p x_claim_make_Inr rescue_Inr flip: i(4))
       (rule trans [OF arg_cong [where f = "x_claim_post_init U"] assms], intro x_claim.equality, simp_all)
qed

lemma post_from_row_Inr:
  assumes "post_from_row U r = Inr c"
  shows "x_claim_post_init U c = Inr ()" and "post_values c = r\<lparr>xr_acquisition_source := lit ''x_manual_claim''\<rparr>"
proof -
  show "x_claim_post_init U c = Inr ()"
    using assms by (auto simp: post_from_row_def and_then_Inr rescue_Inr x_claim_make_Inr)
  show "post_values c = r\<lparr>xr_acquisition_source := lit ''x_manual_claim''\<rparr>"
    using assms
    by (intro x_post_row.equality)
       (auto simp: post_from_row_def and_then_Inr rescue_Inr x_claim_make_Inr post_values_def
         x_identity.parse_iff x_identity.opt_map_parse_iff x_state_codec.parse_iff x_cleanup_codec.parse_iff
         x_failure_stage_codec.opt_map_parse_iff content_category_codec.opt_map_parse_iff)
qed

lemma stored_post_from_row_iff:
  "stored_post_from_row U r = Inr c \<longleftrightarrow> x_claim_post_init U c = Inr () \<and> r = post_values c"
proof
  assume a: "stored_post_from_row U r = Inr c"
  then have s: "xr_acquisition_source r = lit ''x_manual_claim''" and c: "post_from_row U r = Inr c"
    by (simp_all add: stored_post_from_row_def split: if_splits)
  show "x_claim_post_init U c = Inr () \<and> r = post_values c"
    using post_from_row_Inr [OF c] s by (metis x_post_row.surjective x_post_row.update_convs(3))
next
  assume c: "x_claim_post_init U c = Inr () \<and> r = post_values c"
  then have "xr_acquisition_source r = lit ''x_manual_claim''"
    using x_post_ids(4) [of U c] by (simp add: post_values_def)
  then show "stored_post_from_row U r = Inr c" using c post_from_values by (simp add: stored_post_from_row_def)
qed

section \<open>Assets\<close>

lemma x_asset_ids:
  assumes "x_asset_post_init U a = Inr ()"
  shows "is_uuid4 (xa_id a)" "is_uuid4 (xa_claim_id a)" "pred_option is_uuid4 (xa_media_id a)"
    "pred_option is_uuid4 (xa_media_location_id a)"
  using assms unfolding x_asset_parts x_asset_source_checks_def x_asset_outcome_checks_def
    all_checks_Cons_Inr raise_if_Inr
  by blast+

lemma asset_from_values:
  assumes "x_asset_post_init U a = Inr ()"
  shows "asset_from_row U (asset_values a) = Inr a"
proof -
  note i = x_asset_ids [OF assms]
  note p = x_identity.parse_print [OF i(1)] x_identity.parse_print [OF i(2)]
    x_identity.opt_map_parse_print [OF i(3)] x_identity.opt_map_parse_print [OF i(4)]
    x_asset_state_codec.parse_print_enum x_cleanup_codec.parse_print_enum x_media_type_codec.parse_print_enum
  show ?thesis
    unfolding asset_from_row_def
    by (simp add: asset_values_def p x_asset_make_Inr rescue_Inr)
       (rule trans [OF arg_cong [where f = "x_asset_post_init U"] assms], intro x_asset.equality, simp_all)
qed

lemma asset_from_row_iff:
  "asset_from_row U r = Inr a \<longleftrightarrow> x_asset_post_init U a = Inr () \<and> r = asset_values a"
proof
  assume a: "asset_from_row U r = Inr a"
  then have i: "x_asset_post_init U a = Inr ()"
    by (auto simp: asset_from_row_def and_then_Inr rescue_Inr x_asset_make_Inr)
  have "r = asset_values a"
    using a
    by (intro x_asset_row.equality)
       (auto simp: asset_from_row_def and_then_Inr rescue_Inr x_asset_make_Inr asset_values_def
         x_identity.parse_iff x_identity.opt_map_parse_iff x_asset_state_codec.parse_iff
         x_cleanup_codec.parse_iff x_media_type_codec.parse_iff x_failure_stage_codec.opt_map_parse_iff)
  then show "x_asset_post_init U a = Inr () \<and> r = asset_values a" using i by blast
next
  assume "x_asset_post_init U a = Inr () \<and> r = asset_values a"
  then show "asset_from_row U r = Inr a" using asset_from_values by blast
qed

section \<open>The two tables\<close>

lemma x_posts_clash_sym: "x_posts_clash r s \<Longrightarrow> x_posts_clash s r"
  unfolding x_posts_clash_def by metis

lemma x_assets_clash_sym: "x_assets_clash r s \<Longrightarrow> x_assets_clash s r"
  by (auto simp: x_assets_clash_def)

interpretation posts: snapshot_table xr_id x_post_row_ok "stored_post_from_row U" x_posts_clash post_values
    "\<lambda>c. x_claim_post_init U c = Inr ()" xc_id for U
  by unfold_locales (simp_all add: x_posts_clash_sym stored_post_from_row_iff post_values_def)

interpretation assets: snapshot_table xar_id x_asset_row_ok "asset_from_row U" x_assets_clash asset_values
    "\<lambda>a. x_asset_post_init U a = Inr ()" xa_id for U
  by unfold_locales (simp_all add: x_assets_clash_sym asset_from_row_iff asset_values_def)

end
