(* ===== verification/X_Claim_Store.thy ===== *)
theory X_Claim_Store
  imports X_Claim_Facts
begin

text \<open>
  What the repository keeps of the stored claims and assets: rows that read back as valid claims
  and assets, one row per identifier, the uniqueness constraints, and an existing claim for every
  asset; inserting and saving are updates of the maps of stored claims and assets.
\<close>

definition posts_store :: "unicode_tables \<Rightarrow> x_db \<Rightarrow> bool" where
  "posts_store U db = keyed_rows_ok xr_id (\<lambda>r. x_post_row_ok r \<and> ok (stored_post_from_row U r))
     x_posts_clash (xd_posts db)"

definition assets_store :: "unicode_tables \<Rightarrow> x_db \<Rightarrow> bool" where
  "assets_store U db = keyed_rows_ok xar_id (\<lambda>r. x_asset_row_ok r \<and> ok (asset_from_row U r))
     x_assets_clash (xd_assets db)"

definition assets_have_posts :: "x_db \<Rightarrow> bool" where
  "assets_have_posts db \<longleftrightarrow> list_all (\<lambda>a. xar_claim_id a \<in> set (map xr_id (xd_posts db))) (xd_assets db)"

definition x_store :: "unicode_tables \<Rightarrow> x_db \<Rightarrow> bool" where
  "x_store U db \<longleftrightarrow> posts_store U db \<and> assets_store U db \<and> assets_have_posts db"

definition stored_post :: "unicode_tables \<Rightarrow> x_db \<Rightarrow> uuid \<Rightarrow> x_claim option" where
  "stored_post U db = stored_in xr_id (stored_post_from_row U) (xd_posts db)"

definition stored_asset :: "unicode_tables \<Rightarrow> x_db \<Rightarrow> uuid \<Rightarrow> x_asset option" where
  "stored_asset U db = stored_in xar_id (asset_from_row U) (xd_assets db)"

section \<open>Stored claims\<close>

lemma x_storeD:
  assumes "x_store U db"
  shows "posts_store U db" "assets_store U db" "assets_have_posts db"
  using assms by (simp_all add: x_store_def)

lemma x_store_others:
  assumes "xd_posts db' = xd_posts db" and "xd_assets db' = xd_assets db"
  shows "x_store U db' = x_store U db" "stored_post U db' = stored_post U db"
    "stored_asset U db' = stored_asset U db"
  using assms
  by (simp_all add: x_store_def posts_store_def assets_store_def assets_have_posts_def stored_post_def stored_asset_def)

lemma post_ids: "xr_id (post_values c) = uuid_to_text (xc_id c)" "xar_id (asset_values a) = uuid_to_text (xa_id a)"
  "xar_claim_id (asset_values a) = uuid_to_text (xa_claim_id a)"
  by (simp_all add: post_values_def asset_values_def)

lemma stored_post_iff:
  assumes "posts_store U db"
  shows "stored_post U db i = Some c
    \<longleftrightarrow> x_claim_post_init U c = Inr () \<and> xc_id c = i \<and> post_values c \<in> set (xd_posts db)"
  using posts.stored_iff [of U] assms by (simp add: posts_store_def stored_post_def)

lemma stored_asset_iff:
  assumes "assets_store U db"
  shows "stored_asset U db i = Some a
    \<longleftrightarrow> x_asset_post_init U a = Inr () \<and> xa_id a = i \<and> asset_values a \<in> set (xd_assets db)"
  using assets.stored_iff [of U] assms by (simp add: assets_store_def stored_asset_def)

lemma post_row_by_id_stored:
  assumes "posts_store U db"
  shows "post_row_by_id i db = map_option post_values (stored_post U db i)"
  using posts.find_stored [of U] assms
  by (simp add: posts_store_def stored_post_def post_row_by_id_def sql_first_def)

lemma asset_row_by_id_stored:
  assumes "assets_store U db"
  shows "asset_row_by_id i db = map_option asset_values (stored_asset U db i)"
  using assets.find_stored [of U] assms
  by (simp add: assets_store_def stored_asset_def asset_row_by_id_def sql_first_def)

lemma posts_store_row:
  assumes "posts_store U db" and "r \<in> set (xd_posts db)"
  obtains c where "stored_post U db (xc_id c) = Some c" and "r = post_values c" and "post_from_row U r = Inr c"
proof -
  obtain c where c: "x_claim_post_init U c = Inr ()" "r = post_values c"
    using posts.table_row [of U "xd_posts db" r] assms by (auto simp: posts_store_def)
  then show ?thesis
    using that [of c] assms(2) post_from_values by (simp add: stored_post_iff [OF assms(1)])
qed

lemma x_active_value_iff: "x_state_value s \<in> set X_ACTIVE_VALUES \<longleftrightarrow> s \<in> set ACTIVE_X_ACQUISITION_STATES"
  by (auto simp: X_ACTIVE_VALUES_def x_state_codec.print_eq_iff)

text \<open>A claim that is active for a post of a requester.\<close>

definition owns_post :: "pystr \<Rightarrow> pystr option \<Rightarrow> x_claim \<Rightarrow> bool" where
  "owns_post post_id owner c \<longleftrightarrow> xc_state c \<in> set ACTIVE_X_ACQUISITION_STATES
     \<and> xc_x_post_id c = post_id \<and> xc_created_by_login_key c = owner"

lemma one_post_owner:
  assumes s: "posts_store U db" and c: "stored_post U db i = Some c" "owns_post p (Some k) c"
    and d: "stored_post U db j = Some d" "owns_post p (Some k) d"
  shows "c = d"
proof -
  have rows: "post_values c \<in> set (xd_posts db)" "post_values d \<in> set (xd_posts db)"
    using c(1) d(1) by (simp_all add: stored_post_iff [OF s])
  have "x_posts_clash (post_values c) (post_values d)"
    using c(2) d(2) by (simp add: owns_post_def x_posts_clash_def post_values_def x_active_value_iff)
  then have "xr_id (post_values d) = xr_id (post_values c)"
    using keyed_rows_okD(3) [OF s [unfolded posts_store_def] rows] by blast
  then have "xc_id c = xc_id d" by (simp add: post_ids)
  then have "stored_post U db i = stored_post U db j" using c(1) d(1) by (simp add: stored_post_iff [OF s])
  then show ?thesis using c(1) d(1) by simp
qed

lemma active_post_row_stored:
  assumes s: "posts_store U db"
  shows "active_post_row p k db = Some r \<Longrightarrow>
      \<exists>c. stored_post U db (xc_id c) = Some c \<and> owns_post p k c \<and> post_from_row U r = Inr c"
    and "active_post_row p k db = None \<longleftrightarrow> (\<forall>i c. stored_post U db i = Some c \<longrightarrow> \<not> owns_post p k c)"
proof -
  let ?p = "\<lambda>r. xr_x_post_id r = p \<and> xr_state r \<in> set X_ACTIVE_VALUES \<and> xr_created_by_login_key r = k"
  have owns: "?p (post_values c) \<longleftrightarrow> owns_post p k c" for c
    by (auto simp: owns_post_def post_values_def x_active_value_iff)
  have a: "active_post_row p k db = find ?p (xd_posts db)" by (simp add: active_post_row_def sql_first_def)
  show "\<exists>c. stored_post U db (xc_id c) = Some c \<and> owns_post p k c \<and> post_from_row U r = Inr c"
    if "active_post_row p k db = Some r"
  proof -
    have r: "r \<in> set (xd_posts db)" "?p r" using that unfolding a by (auto simp: find_Some_iff)
    show ?thesis using posts_store_row [OF s r(1)] r(2) owns by metis
  qed
  show "active_post_row p k db = None \<longleftrightarrow> (\<forall>i c. stored_post U db i = Some c \<longrightarrow> \<not> owns_post p k c)"
  proof
    assume "active_post_row p k db = None"
    then show "\<forall>i c. stored_post U db i = Some c \<longrightarrow> \<not> owns_post p k c"
      unfolding a find_None_iff using owns stored_post_iff [OF s] by blast
  next
    assume none: "\<forall>i c. stored_post U db i = Some c \<longrightarrow> \<not> owns_post p k c"
    have "\<not> ?p r" if "r \<in> set (xd_posts db)" for r
      using posts_store_row [OF s that] none owns by metis
    then show "active_post_row p k db = None" unfolding a find_None_iff by blast
  qed
qed

section \<open>Inserting\<close>

lemma x_admissible:
  "x_post_admissible db r \<Longrightarrow> x_post_row_ok r \<and> list_all (\<lambda>s. xr_id s = xr_id r \<or> \<not> x_posts_clash r s) (xd_posts db)"
  "x_asset_admissible db a \<Longrightarrow> x_asset_row_ok a \<and> list_all (\<lambda>s. xar_id s = xar_id a \<or> \<not> x_assets_clash a s) (xd_assets db)"
  "x_asset_admissible db a \<Longrightarrow> xar_claim_id a \<in> set (map xr_id (xd_posts db))"
  by (simp_all add: x_post_admissible_def x_asset_admissible_def x_asset_fks_hold_def)

lemma insert_post_stored:
  assumes s: "x_store U db" and c: "x_claim_post_init U c = Inr ()"
    and i: "insert_post_row (post_values c) db = Inr db'"
  shows "x_store U db'" "stored_post U db' = (stored_post U db)(xc_id c \<mapsto> c)"
    "stored_asset U db' = stored_asset U db" "stored_post U db (xc_id c) = None"
proof -
  note p = x_storeD [OF s]
  have f: "uuid_to_text (xc_id c) \<notin> set (map xr_id (xd_posts db))" and a: "x_post_admissible db (post_values c)"
    and db': "db' = db\<lparr>xd_posts := xd_posts db @ [post_values c]\<rparr>"
    using i by (auto simp: insert_post_row_def post_ids split: if_splits)
  note k = posts.stored_insert [OF p(1) [unfolded posts_store_def] c f conjunct1 [OF x_admissible(1) [OF a]]
      conjunct2 [OF x_admissible(1) [OF a]]]
  show "stored_post U db' = (stored_post U db)(xc_id c \<mapsto> c)" "stored_asset U db' = stored_asset U db"
    using k(2) by (simp_all add: stored_post_def stored_asset_def db')
  show "x_store U db'"
    using k(1) p(2,3)
    by (auto simp: x_store_def posts_store_def assets_store_def assets_have_posts_def db' list_all_iff)
  show "stored_post U db (xc_id c) = None"
  proof (rule ccontr)
    assume "stored_post U db (xc_id c) \<noteq> None"
    then obtain d where "xc_id d = xc_id c" "post_values d \<in> set (xd_posts db)"
      using stored_post_iff [OF p(1)] by blast
    then show False using f by (metis image_eqI list.set_map post_ids(1))
  qed
qed

lemma insert_asset_stored:
  assumes s: "x_store U db" and v: "x_asset_post_init U v = Inr ()"
    and i: "insert_asset_row (asset_values v) db = Inr db'"
  shows "x_store U db'" "stored_asset U db' = (stored_asset U db)(xa_id v \<mapsto> v)"
    "stored_post U db' = stored_post U db" "stored_asset U db (xa_id v) = None"
proof -
  note p = x_storeD [OF s]
  have f: "uuid_to_text (xa_id v) \<notin> set (map xar_id (xd_assets db))" and a: "x_asset_admissible db (asset_values v)"
    and db': "db' = db\<lparr>xd_assets := xd_assets db @ [asset_values v]\<rparr>"
    using i by (auto simp: insert_asset_row_def post_ids split: if_splits)
  note k = assets.stored_insert [OF p(2) [unfolded assets_store_def] v f conjunct1 [OF x_admissible(2) [OF a]]
      conjunct2 [OF x_admissible(2) [OF a]]]
  show "stored_asset U db' = (stored_asset U db)(xa_id v \<mapsto> v)" "stored_post U db' = stored_post U db"
    using k(2) by (simp_all add: stored_post_def stored_asset_def db')
  show "x_store U db'"
    using k(1) p(1,3) x_admissible(3) [OF a]
    by (simp add: x_store_def posts_store_def assets_store_def assets_have_posts_def db')
  show "stored_asset U db (xa_id v) = None"
  proof (rule ccontr)
    assume "stored_asset U db (xa_id v) \<noteq> None"
    then obtain w where "xa_id w = xa_id v" "asset_values w \<in> set (xd_assets db)"
      using stored_asset_iff [OF p(2)] by blast
    then show False using f by (metis image_eqI list.set_map post_ids(2))
  qed
qed

section \<open>Saving\<close>

lemma update_post_stored:
  assumes s: "x_store U db" and c: "x_claim_post_init U c = Inr ()" and d: "stored_post U db (xc_id c) = Some d"
    and upd: "upd = sql_update (x_post_admissible db) (\<lambda>r. xr_id r = uuid_to_text (xc_id c) \<and> xr_version r = xc_version d)
      (\<lambda>_. post_values c) (xd_posts db)"
  shows "upd = None \<longleftrightarrow> \<not> x_post_admissible db (post_values c)"
    and "upd = Some (rows, n) \<Longrightarrow> x_store U (db\<lparr>xd_posts := rows\<rparr>)"
    and "upd = Some (rows, n) \<Longrightarrow> stored_post U (db\<lparr>xd_posts := rows\<rparr>) = (stored_post U db)(xc_id c \<mapsto> c)"
    and "upd = Some (rows, n) \<Longrightarrow> stored_asset U (db\<lparr>xd_posts := rows\<rparr>) = stored_asset U db"
proof -
  note p = x_storeD [OF s]
  have h: "True \<longleftrightarrow> (\<exists>e. stored_in xr_id (stored_post_from_row U) (xd_posts db) (xc_id c) = Some e
      \<and> xr_version (post_values e) = xc_version d)"
    using d by (auto simp: stored_post_def post_values_def)
  note k = posts.stored_update [OF p(1) [unfolded posts_store_def] c,
      where admissible = "x_post_admissible db" and guard = "\<lambda>r. xr_version r = xc_version d",
      OF x_admissible(1) h upd, simplified]
  show "upd = None \<longleftrightarrow> \<not> x_post_admissible db (post_values c)" using k(1) by blast
  show "upd = Some (rows, n) \<Longrightarrow> stored_post U (db\<lparr>xd_posts := rows\<rparr>) = (stored_post U db)(xc_id c \<mapsto> c)"
    "upd = Some (rows, n) \<Longrightarrow> stored_asset U (db\<lparr>xd_posts := rows\<rparr>) = stored_asset U db"
    using k(5) by (simp_all add: stored_post_def stored_asset_def)
  show "x_store U (db\<lparr>xd_posts := rows\<rparr>)" if u: "upd = Some (rows, n)"
  proof -
    have "rows = map (\<lambda>r. if xr_id r = uuid_to_text (xc_id c) \<and> xr_version r = xc_version d then post_values c
        else r) (xd_posts db)"
      using u unfolding upd by (auto simp: sql_update_def split: if_splits)
    then have "map xr_id rows = map xr_id (xd_posts db)" by (simp add: post_ids)
    then show ?thesis
      using k(3) [OF u] p(2,3)
      by (simp add: x_store_def posts_store_def assets_store_def assets_have_posts_def del: list.set_map)
  qed
qed

lemma update_asset_stored:
  assumes s: "x_store U db" and v: "x_asset_post_init U v = Inr ()" and d: "stored_asset U db (xa_id v) = Some w"
    and upd: "upd = sql_update (x_asset_admissible db) (\<lambda>r. xar_id r = uuid_to_text (xa_id v) \<and> xar_version r = xa_version w)
      (\<lambda>_. asset_values v) (xd_assets db)"
  shows "upd = None \<longleftrightarrow> \<not> x_asset_admissible db (asset_values v)"
    and "upd = Some (rows, n) \<Longrightarrow> x_store U (db\<lparr>xd_assets := rows\<rparr>)"
    and "upd = Some (rows, n) \<Longrightarrow> stored_asset U (db\<lparr>xd_assets := rows\<rparr>) = (stored_asset U db)(xa_id v \<mapsto> v)"
    and "upd = Some (rows, n) \<Longrightarrow> stored_post U (db\<lparr>xd_assets := rows\<rparr>) = stored_post U db"
proof -
  note p = x_storeD [OF s]
  have h: "True \<longleftrightarrow> (\<exists>e. stored_in xar_id (asset_from_row U) (xd_assets db) (xa_id v) = Some e
      \<and> xar_version (asset_values e) = xa_version w)"
    using d by (auto simp: stored_asset_def asset_values_def)
  note k = assets.stored_update [OF p(2) [unfolded assets_store_def] v,
      where admissible = "x_asset_admissible db" and guard = "\<lambda>r. xar_version r = xa_version w",
      OF x_admissible(2) h upd, simplified]
  show none: "upd = None \<longleftrightarrow> \<not> x_asset_admissible db (asset_values v)" using k(1) by blast
  show "upd = Some (rows, n) \<Longrightarrow> stored_asset U (db\<lparr>xd_assets := rows\<rparr>) = (stored_asset U db)(xa_id v \<mapsto> v)"
    "upd = Some (rows, n) \<Longrightarrow> stored_post U (db\<lparr>xd_assets := rows\<rparr>) = stored_post U db"
    using k(5) by (simp_all add: stored_post_def stored_asset_def)
  show "x_store U (db\<lparr>xd_assets := rows\<rparr>)" if u: "upd = Some (rows, n)"
  proof -
    have "x_asset_admissible db (asset_values v)" using none u by auto
    then have "xar_claim_id (asset_values v) \<in> set (map xr_id (xd_posts db))" by (rule x_admissible(3))
    moreover have "rows = map (\<lambda>r. if xar_id r = uuid_to_text (xa_id v) \<and> xar_version r = xa_version w
        then asset_values v else r) (xd_assets db)"
      using u unfolding upd by (auto simp: sql_update_def split: if_splits)
    ultimately have "assets_have_posts (db\<lparr>xd_assets := rows\<rparr>)"
      using p(3) by (auto simp: assets_have_posts_def list_all_iff simp del: list.set_map)
    then show ?thesis
      using k(3) [OF u] p(1) by (simp add: x_store_def posts_store_def assets_store_def)
  qed
qed

text \<open>A save compares the state and the version and requires an edge of the table; that the
  version grows, or that the owner stays, it does not.\<close>

lemma save_post_outcome:
  assumes s: "x_store U db" and c: "x_claim_post_init U c = Inr ()"
  shows "stored_post U db (xc_id c) = None \<Longrightarrow> x_save_post U c e v db = (Inl XClaimNotFoundError, db)"
    and "stored_post U db (xc_id c) = Some d \<Longrightarrow> xc_state d \<noteq> e \<or> xc_version d \<noteq> v \<Longrightarrow>
      x_save_post U c e v db = (Inl XClaimConcurrencyConflictError, db)"
    and "stored_post U db (xc_id c) = Some d \<Longrightarrow> xc_state d = e \<Longrightarrow> xc_version d = v \<Longrightarrow>
      xc_state c \<notin> set (allowed_post_transitions e) \<Longrightarrow>
      x_save_post U c e v db = (Inl (XDomainError FrameNestXTransitionError), db)"
    and "stored_post U db (xc_id c) = Some d \<Longrightarrow> xc_state d = e \<Longrightarrow> xc_version d = v \<Longrightarrow>
      xc_state c \<in> set (allowed_post_transitions e) \<Longrightarrow> \<not> x_post_admissible db (post_values c) \<Longrightarrow>
      x_save_post U c e v db = (Inl FrameNestXClaimRepositoryError, db)"
    and "stored_post U db (xc_id c) = Some d \<Longrightarrow> xc_state d = e \<Longrightarrow> xc_version d = v \<Longrightarrow>
      xc_state c \<in> set (allowed_post_transitions e) \<Longrightarrow> x_post_admissible db (post_values c) \<Longrightarrow>
      \<exists>db'. x_save_post U c e v db = (Inr c, db') \<and> x_store U db'
        \<and> stored_post U db' = (stored_post U db)(xc_id c \<mapsto> c) \<and> stored_asset U db' = stored_asset U db"
proof -
  note row = post_row_by_id_stored [OF x_storeD(1) [OF s]]
  show "stored_post U db (xc_id c) = None \<Longrightarrow> x_save_post U c e v db = (Inl XClaimNotFoundError, db)"
    by (simp add: x_save_post_def x_transaction_def x_save_post_in_def row)
  have in_eq: "x_save_post_in U c e v db =
      (if xc_state d \<noteq> e \<or> xc_version d \<noteq> v then Inl (XRaised XClaimConcurrencyConflictError)
       else if xc_state c \<notin> set (allowed_post_transitions e)
       then Inl (XRaised (XDomainError FrameNestXTransitionError))
       else case sql_update (x_post_admissible db)
           (\<lambda>r. xr_id r = uuid_to_text (xc_id c) \<and> xr_version r = xc_version d)
           (\<lambda>_. post_values c) (xd_posts db) of
         None \<Rightarrow> Inl XIntegrityError | Some (rows, _) \<Rightarrow> Inr (c, db\<lparr>xd_posts := rows\<rparr>))"
    if d: "stored_post U db (xc_id c) = Some d"
  proof -
    have "xr_state (post_values d) = x_state_value (xc_state d)" "xr_version (post_values d) = xc_version d"
      by (simp_all add: post_values_def)
    then show ?thesis
      using d by (simp add: x_save_post_in_def row x_state_codec.print_eq_iff x_state_codec.parse_print_enum
          ensure_x_transition_allowed_def)
  qed
  show "stored_post U db (xc_id c) = Some d \<Longrightarrow> xc_state d \<noteq> e \<or> xc_version d \<noteq> v \<Longrightarrow>
      x_save_post U c e v db = (Inl XClaimConcurrencyConflictError, db)"
    by (auto simp: x_save_post_def x_transaction_def in_eq run_in_transaction_def)
  show "stored_post U db (xc_id c) = Some d \<Longrightarrow> xc_state d = e \<Longrightarrow> xc_version d = v \<Longrightarrow>
      xc_state c \<notin> set (allowed_post_transitions e) \<Longrightarrow>
      x_save_post U c e v db = (Inl (XDomainError FrameNestXTransitionError), db)"
    by (simp add: x_save_post_def x_transaction_def in_eq)
  { assume d: "stored_post U db (xc_id c) = Some d" "xc_state d = e" "xc_version d = v"
      and t: "xc_state c \<in> set (allowed_post_transitions e)"
    note up = update_post_stored [OF s c d(1) refl]
    show "x_save_post U c e v db = (Inl FrameNestXClaimRepositoryError, db)"
      if "\<not> x_post_admissible db (post_values c)"
      using that up(1) by (simp add: x_save_post_def x_transaction_def in_eq [OF d(1)] d(2,3) t)
    show "\<exists>db'. x_save_post U c e v db = (Inr c, db') \<and> x_store U db'
        \<and> stored_post U db' = (stored_post U db)(xc_id c \<mapsto> c) \<and> stored_asset U db' = stored_asset U db"
      if adm: "x_post_admissible db (post_values c)"
    proof -
      obtain rows n where u: "sql_update (x_post_admissible db)
           (\<lambda>r. xr_id r = uuid_to_text (xc_id c) \<and> xr_version r = xc_version d)
           (\<lambda>_. post_values c) (xd_posts db) = Some (rows, n)"
        using up(1) adm by auto
      show ?thesis
        using up(2-4) [OF u] u t
        by (intro exI [of _ "db\<lparr>xd_posts := rows\<rparr>"])
           (simp add: x_save_post_def x_transaction_def in_eq [OF d(1)] d(2,3))
    qed }
qed

lemma save_asset_outcome:
  assumes s: "x_store U db" and a: "x_asset_post_init U a = Inr ()"
  shows "stored_asset U db (xa_id a) = None \<Longrightarrow> x_save_asset U a e v db = (Inl XClaimNotFoundError, db)"
    and "stored_asset U db (xa_id a) = Some d \<Longrightarrow> xa_state d \<noteq> e \<or> xa_version d \<noteq> v \<Longrightarrow>
      x_save_asset U a e v db = (Inl XClaimConcurrencyConflictError, db)"
    and "stored_asset U db (xa_id a) = Some d \<Longrightarrow> xa_state d = e \<Longrightarrow> xa_version d = v \<Longrightarrow>
      xa_state a \<notin> set (allowed_asset_transitions e) \<Longrightarrow>
      x_save_asset U a e v db = (Inl (XDomainError FrameNestXTransitionError), db)"
    and "stored_asset U db (xa_id a) = Some d \<Longrightarrow> xa_state d = e \<Longrightarrow> xa_version d = v \<Longrightarrow>
      xa_state a \<in> set (allowed_asset_transitions e) \<Longrightarrow> \<not> x_asset_admissible db (asset_values a) \<Longrightarrow>
      x_save_asset U a e v db = (Inl FrameNestXClaimRepositoryError, db)"
    and "stored_asset U db (xa_id a) = Some d \<Longrightarrow> xa_state d = e \<Longrightarrow> xa_version d = v \<Longrightarrow>
      xa_state a \<in> set (allowed_asset_transitions e) \<Longrightarrow> x_asset_admissible db (asset_values a) \<Longrightarrow>
      \<exists>db'. x_save_asset U a e v db = (Inr a, db') \<and> x_store U db'
        \<and> stored_asset U db' = (stored_asset U db)(xa_id a \<mapsto> a) \<and> stored_post U db' = stored_post U db"
proof -
  note row = asset_row_by_id_stored [OF x_storeD(2) [OF s]]
  show "stored_asset U db (xa_id a) = None \<Longrightarrow> x_save_asset U a e v db = (Inl XClaimNotFoundError, db)"
    by (simp add: x_save_asset_def x_transaction_def x_save_asset_in_def row)
  have in_eq: "x_save_asset_in U a e v db =
      (if xa_state d \<noteq> e \<or> xa_version d \<noteq> v then Inl (XRaised XClaimConcurrencyConflictError)
       else if xa_state a \<notin> set (allowed_asset_transitions e)
       then Inl (XRaised (XDomainError FrameNestXTransitionError))
       else case sql_update (x_asset_admissible db)
           (\<lambda>r. xar_id r = uuid_to_text (xa_id a) \<and> xar_version r = xa_version d)
           (\<lambda>_. asset_values a) (xd_assets db) of
         None \<Rightarrow> Inl XIntegrityError | Some (rows, _) \<Rightarrow> Inr (a, db\<lparr>xd_assets := rows\<rparr>))"
    if d: "stored_asset U db (xa_id a) = Some d"
  proof -
    have "xar_state (asset_values d) = x_asset_state_value (xa_state d)" "xar_version (asset_values d) = xa_version d"
      by (simp_all add: asset_values_def)
    then show ?thesis
      using d by (simp add: x_save_asset_in_def row x_asset_state_codec.print_eq_iff
          x_asset_state_codec.parse_print_enum ensure_x_asset_transition_allowed_def)
  qed
  show "stored_asset U db (xa_id a) = Some d \<Longrightarrow> xa_state d \<noteq> e \<or> xa_version d \<noteq> v \<Longrightarrow>
      x_save_asset U a e v db = (Inl XClaimConcurrencyConflictError, db)"
    by (auto simp: x_save_asset_def x_transaction_def in_eq run_in_transaction_def)
  show "stored_asset U db (xa_id a) = Some d \<Longrightarrow> xa_state d = e \<Longrightarrow> xa_version d = v \<Longrightarrow>
      xa_state a \<notin> set (allowed_asset_transitions e) \<Longrightarrow>
      x_save_asset U a e v db = (Inl (XDomainError FrameNestXTransitionError), db)"
    by (simp add: x_save_asset_def x_transaction_def in_eq)
  { assume d: "stored_asset U db (xa_id a) = Some d" "xa_state d = e" "xa_version d = v"
      and t: "xa_state a \<in> set (allowed_asset_transitions e)"
    note up = update_asset_stored [OF s a d(1) refl]
    show "x_save_asset U a e v db = (Inl FrameNestXClaimRepositoryError, db)"
      if "\<not> x_asset_admissible db (asset_values a)"
      using that up(1) by (simp add: x_save_asset_def x_transaction_def in_eq [OF d(1)] d(2,3) t)
    show "\<exists>db'. x_save_asset U a e v db = (Inr a, db') \<and> x_store U db'
        \<and> stored_asset U db' = (stored_asset U db)(xa_id a \<mapsto> a) \<and> stored_post U db' = stored_post U db"
      if adm: "x_asset_admissible db (asset_values a)"
    proof -
      obtain rows n where u: "sql_update (x_asset_admissible db)
           (\<lambda>r. xar_id r = uuid_to_text (xa_id a) \<and> xar_version r = xa_version d)
           (\<lambda>_. asset_values a) (xd_assets db) = Some (rows, n)"
        using up(1) adm by auto
      show ?thesis
        using up(2-4) [OF u] u t
        by (intro exI [of _ "db\<lparr>xd_assets := rows\<rparr>"])
           (simp add: x_save_asset_def x_transaction_def in_eq [OF d(1)] d(2,3))
    qed }
qed

end
