(* ===== verification/X_Claim_History.thy ===== *)
theory X_Claim_History
  imports X_Claim_Store
begin

text \<open>
  The transactions of the X claim repository as steps between the tables, and what they keep
  of every stored claim and asset; the pending aliases.
\<close>

section \<open>Steps\<close>

text \<open>One writing call of the repository, whatever its outcome, or a transaction that touches
  neither claims nor assets.  The arguments are objects their constructors accepted.  When the
  insert of \<open>create_or_get_active\<close> fails, the second transaction sees the same tables; what
  others commit in between are steps of their own.\<close>

inductive x_step :: "unicode_tables \<Rightarrow> x_db \<Rightarrow> x_db \<Rightarrow> bool" for U where
  x_create_or_get_step: "x_claim_post_init U c = Inr () \<Longrightarrow>
    x_create_or_get_active U id c db = (result, db') \<Longrightarrow> x_step U db db'"
| x_create_step: "x_claim_post_init U c = Inr () \<Longrightarrow> x_create_post c db = (outcome, db') \<Longrightarrow> x_step U db db'"
| x_save_step: "x_claim_post_init U c = Inr () \<Longrightarrow>
    x_save_post U c expected_state expected_version db = (saved, db') \<Longrightarrow> x_step U db db'"
| x_create_assets_step: "list_all (\<lambda>a. x_asset_post_init U a = Inr ()) assets \<Longrightarrow>
    x_create_assets assets db = (outcome, db') \<Longrightarrow> x_step U db db'"
| x_save_asset_step: "x_asset_post_init U a = Inr () \<Longrightarrow>
    x_save_asset U a expected_asset_state expected_version db = (saved_asset, db') \<Longrightarrow> x_step U db db'"
| x_elsewhere_step: "xd_posts db' = xd_posts db \<Longrightarrow> xd_assets db' = xd_assets db \<Longrightarrow> x_step U db db'"

text \<open>Between two moments a snapshot is unchanged or its state moved along the transition table.\<close>

definition same_or_moved :: "('s \<Rightarrow> 's list) \<Rightarrow> ('c \<Rightarrow> 's) \<Rightarrow> 'c \<Rightarrow> 'c \<Rightarrow> bool" where
  "same_or_moved allowed state c d \<longleftrightarrow> d = c \<or> (\<lambda>s t. t \<in> set (allowed s))\<^sup>+\<^sup>+ (state c) (state d)"

lemma same_or_moved_refl [simp]: "same_or_moved allowed state c c"
  by (simp add: same_or_moved_def)

lemma same_or_moved_one: "state d \<in> set (allowed (state c)) \<Longrightarrow> same_or_moved allowed state c d"
  by (simp add: same_or_moved_def tranclp.r_into_trancl)

lemma same_or_moved_trans:
  "same_or_moved allowed state c d \<Longrightarrow> same_or_moved allowed state d e \<Longrightarrow> same_or_moved allowed state c e"
  unfolding same_or_moved_def by (metis tranclp_trans)

lemma same_or_moved_final: "allowed (state c) = [] \<Longrightarrow> same_or_moved allowed state c d \<Longrightarrow> d = c"
  by (auto simp: same_or_moved_def dest: tranclpD)

definition x_kept :: "unicode_tables \<Rightarrow> x_db \<Rightarrow> x_db \<Rightarrow> bool" where
  "x_kept U db db' \<longleftrightarrow> x_store U db'
     \<and> (\<forall>i c. stored_post U db i = Some c \<longrightarrow>
          (\<exists>d. stored_post U db' i = Some d \<and> same_or_moved allowed_post_transitions xc_state c d))
     \<and> (\<forall>i a. stored_asset U db i = Some a \<longrightarrow>
          (\<exists>b. stored_asset U db' i = Some b \<and> same_or_moved allowed_asset_transitions xa_state a b))"

lemma x_kept_same:
  assumes "x_store U db" and "xd_posts db' = xd_posts db" and "xd_assets db' = xd_assets db"
  shows "x_kept U db db'"
  using assms(1) by (simp add: x_kept_def x_store_others [OF assms(2,3)])

lemma x_kept_refl: "x_store U db \<Longrightarrow> x_kept U db db"
  by (rule x_kept_same) simp_all

lemma x_kept_trans: "x_kept U db db' \<Longrightarrow> x_kept U db' db'' \<Longrightarrow> x_kept U db db''"
  unfolding x_kept_def by (meson same_or_moved_trans)

lemma x_kept_put_post:
  assumes "x_store U db'" "stored_post U db' = (stored_post U db)(i \<mapsto> c)" "stored_asset U db' = stored_asset U db"
    and "\<And>d. stored_post U db i = Some d \<Longrightarrow> same_or_moved allowed_post_transitions xc_state d c"
  shows "x_kept U db db'"
  using assms by (auto simp: x_kept_def)

lemma x_kept_put_asset:
  assumes "x_store U db'" "stored_asset U db' = (stored_asset U db)(i \<mapsto> a)" "stored_post U db' = stored_post U db"
    and "\<And>b. stored_asset U db i = Some b \<Longrightarrow> same_or_moved allowed_asset_transitions xa_state b a"
  shows "x_kept U db db'"
  using assms by (auto simp: x_kept_def)

lemma insert_post_keeps:
  assumes "x_store U db" and "x_claim_post_init U c = Inr ()" and "insert_post_row (post_values c) db = Inr db'"
  shows "x_kept U db db'"
  using insert_post_stored [OF assms] by (intro x_kept_put_post) auto

lemma insert_asset_keeps:
  assumes "x_store U db" and "x_asset_post_init U a = Inr ()" and "insert_asset_row (asset_values a) db = Inr db'"
  shows "x_kept U db db'"
  using insert_asset_stored [OF assms] by (intro x_kept_put_asset) auto

lemma x_transaction_keeps:
  assumes "x_store U db" and "x_transaction op db = (outcome, db')"
    and "\<And>x db1. op db = Inr (x, db1) \<Longrightarrow> x_kept U db db1"
  shows "x_kept U db db'"
proof (cases "op db")
  case (Inl e)
  then have "db' = db" using assms(2) by (simp add: x_transaction_def)
  then show ?thesis using x_kept_refl [OF assms(1)] by simp
next
  case (Inr r)
  then obtain x db1 where "op db = Inr (x, db1)" by (cases r) auto
  then show ?thesis using assms(2,3) by (simp add: x_transaction_def)
qed

lemma find_active_keeps_tables: "x_find_active_by_post_id U p k db = (outcome, db') \<Longrightarrow> db' = db"
  by (auto simp: x_find_active_by_post_id_def x_query_def run_in_transaction_def and_then_Inr
      split: sum.splits prod.splits)

lemma x_create_or_get_keeps:
  assumes "x_store U db" and "x_claim_post_init U c = Inr ()"
    and "x_create_or_get_active U id c db = (result, db')"
  shows "x_kept U db db'"
proof (cases "x_create_or_get_active_in U c db")
  case (Inl e)
  then have "db' = db"
    using assms(3) find_active_keeps_tables
    by (auto simp: x_create_or_get_active_def split: if_splits x_failure.splits prod.splits sum.splits option.splits)
  then show ?thesis using x_kept_refl [OF assms(1)] by simp
next
  case (Inr r)
  obtain x db1 where r: "r = (x, db1)" by (cases r)
  have "db1 = db \<or> insert_post_row (post_values c) db = Inr db1"
    using Inr r by (auto simp: x_create_or_get_active_in_def and_then_Inr split: if_splits option.splits)
  then have "x_kept U db db1" using x_kept_refl [OF assms(1)] insert_post_keeps [OF assms(1,2)] by blast
  moreover have "db' = db1 \<or> db' = db" using assms(3) Inr r by (auto simp: x_create_or_get_active_def split: if_splits)
  ultimately show ?thesis using x_kept_refl [OF assms(1)] by blast
qed

lemma x_save_post_keeps:
  assumes "x_store U db" and "x_claim_post_init U c = Inr ()" and "x_save_post U c e v db = (saved, db')"
  shows "x_kept U db db'"
proof -
  note out = save_post_outcome [OF assms(1,2)]
  consider "db' = db" | d where "stored_post U db (xc_id c) = Some d" "xc_state c \<in> set (allowed_post_transitions (xc_state d))"
      "x_store U db'" "stored_post U db' = (stored_post U db)(xc_id c \<mapsto> c)" "stored_asset U db' = stored_asset U db"
  proof (cases "stored_post U db (xc_id c)")
    case None
    then show ?thesis using out(1) assms(3) that(1) by auto
  next
    case (Some d)
    then show ?thesis using out(2-5) [OF Some] assms(3) that by (metis Pair_inject)
  qed
  then show ?thesis
  proof cases
    case 1
    then show ?thesis using x_kept_refl [OF assms(1)] by simp
  next
    case 2
    then show ?thesis by (intro x_kept_put_post) (auto intro: same_or_moved_one)
  qed
qed

lemma x_save_asset_keeps:
  assumes "x_store U db" and "x_asset_post_init U a = Inr ()" and "x_save_asset U a e v db = (saved, db')"
  shows "x_kept U db db'"
proof -
  note out = save_asset_outcome [OF assms(1,2)]
  consider "db' = db" | d where "stored_asset U db (xa_id a) = Some d" "xa_state a \<in> set (allowed_asset_transitions (xa_state d))"
      "x_store U db'" "stored_asset U db' = (stored_asset U db)(xa_id a \<mapsto> a)" "stored_post U db' = stored_post U db"
  proof (cases "stored_asset U db (xa_id a)")
    case None
    then show ?thesis using out(1) assms(3) that(1) by auto
  next
    case (Some d)
    then show ?thesis using out(2-5) [OF Some] assms(3) that by (metis Pair_inject)
  qed
  then show ?thesis
  proof cases
    case 1
    then show ?thesis using x_kept_refl [OF assms(1)] by simp
  next
    case 2
    then show ?thesis by (intro x_kept_put_asset) (auto intro: same_or_moved_one)
  qed
qed

lemma x_insert_assets_keep:
  assumes "x_store U db" and "list_all (\<lambda>a. x_asset_post_init U a = Inr ()) assets"
    and "x_insert_assets assets db = Inr db'"
  shows "x_kept U db db'"
  using assms
proof (induction assets arbitrary: db)
  case Nil
  then show ?case by (simp add: x_kept_refl)
next
  case (Cons a assets)
  then obtain db1 where i: "insert_asset_row (asset_values a) db = Inr db1" "x_insert_assets assets db1 = Inr db'"
    by (auto simp: and_then_Inr split: if_splits)
  have k: "x_kept U db db1" using Cons.prems i(1) by (intro insert_asset_keeps) simp_all
  then have "x_kept U db1 db'" using Cons.prems(2) i(2) by (intro Cons.IH) (simp_all add: x_kept_def)
  with k show ?case by (rule x_kept_trans)
qed

lemma x_step_keeps:
  assumes "x_step U db db'" and "x_store U db"
  shows "x_kept U db db'"
  using assms(1)
proof cases
  case (x_create_or_get_step c result)
  then show ?thesis using x_create_or_get_keeps [OF assms(2)] by blast
next
  case (x_create_step c outcome)
  show ?thesis
    using x_create_step(2) [unfolded x_create_post_def] insert_post_keeps [OF assms(2) x_create_step(1)]
    by (rule x_transaction_keeps [OF assms(2)]) (auto simp: and_then_Inr split: if_splits)
next
  case (x_save_step c e v saved)
  then show ?thesis using x_save_post_keeps [OF assms(2)] by blast
next
  case (x_create_assets_step assets outcome)
  show ?thesis
    using x_create_assets_step(2) [unfolded x_create_assets_def]
      x_insert_assets_keep [OF assms(2) x_create_assets_step(1)]
    by (rule x_transaction_keeps [OF assms(2)]) (auto simp: and_then_Inr)
next
  case (x_save_asset_step a e v saved)
  then show ?thesis using x_save_asset_keeps [OF assms(2)] by blast
next
  case x_elsewhere_step
  then show ?thesis using x_kept_same [OF assms(2)] by blast
qed

lemma x_run_keeps:
  assumes "(x_step U)\<^sup>*\<^sup>* db db'" and "x_store U db"
  shows "x_kept U db db'"
  using assms
proof (induction rule: rtranclp_induct)
  case base
  then show ?case by (simp add: x_kept_refl)
next
  case (step db1 db2)
  then have k: "x_kept U db db1" by blast
  then have "x_kept U db1 db2" using step.hyps(2) by (intro x_step_keeps) (simp_all add: x_kept_def)
  with k show ?case by (rule x_kept_trans)
qed

lemma x_store_empty: "xd_posts db = [] \<Longrightarrow> xd_assets db = [] \<Longrightarrow> x_store U db"
  by (simp add: x_store_def posts_store_def assets_store_def assets_have_posts_def)

end
