(* ===== verification/X_Pending_Aliases.thy ===== *)
theory X_Pending_Aliases
  imports X_Claim_Repository
begin

text \<open>
  What writing a pending alias does to the tables, and what reading it back gives.
\<close>

section \<open>The row and the tags of a claim\<close>

definition alias_row_of :: "x_db \<Rightarrow> uuid \<Rightarrow> pending_alias_row option" where
  "alias_row_of db i = find (\<lambda>r. par_claim_id r = uuid_to_text i) (xd_pending_aliases db)"

definition tags_of :: "x_db \<Rightarrow> uuid \<Rightarrow> pending_tag_row list" where
  "tags_of db i = filter (\<lambda>r. ptr_claim_id r = uuid_to_text i) (xd_pending_alias_tags db)"

lemma load_by_row:
  "load_pending_alias U i db = (case alias_row_of db i of None \<Rightarrow> Inr None
     | Some row \<Rightarrow> and_then (pending_content (par_display_title row) (par_description row)
          (map ptr_tag_key (sort_key ptr_position (tags_of db i)))) (\<lambda>content.
        and_then (pending_alias_make U \<lparr>pma_claim_id = i, pma_login_key = par_login_key row,
           pma_content = content, pma_created_at_ms = par_created_at_ms row,
           pma_updated_at_ms = par_updated_at_ms row\<rparr>) (\<lambda>a. Inr (Some a))))"
  unfolding load_pending_alias_def alias_row_of_def tags_of_def sql_first_def ..

lemma load_cong:
  assumes "alias_row_of db' i = alias_row_of db i" and "tags_of db' i = tags_of db i"
  shows "load_pending_alias U i db' = load_pending_alias U i db"
  unfolding load_by_row assms ..

lemma load_created:
  assumes "load_pending_alias U i db = Inr (Some a)"
  obtains row where "alias_row_of db i = Some row" and "par_created_at_ms row = pma_created_at_ms a"
  using assms by (auto simp: load_by_row and_then_Inr pending_alias_make_def split: option.splits)

lemma load_none: "load_pending_alias U i db = Inr None \<longleftrightarrow> alias_row_of db i = None"
  by (auto simp: load_by_row and_then_Inr split: option.splits)

section \<open>Deleting\<close>

lemma find_filter_other:
  "find p (filter q xs) = find p xs" if "\<And>x. x \<in> set xs \<Longrightarrow> p x \<Longrightarrow> q x"
  using that by (induction xs) auto

lemma delete_tags_facts:
  "alias_row_of (delete_pending_tags i db) j = alias_row_of db j"
  "tags_of (delete_pending_tags i db) j = (if j = i then [] else tags_of db j)"
  "xd_posts (delete_pending_tags i db) = xd_posts db" "xd_assets (delete_pending_tags i db) = xd_assets db"
  by (auto simp: delete_pending_tags_def alias_row_of_def tags_of_def filter_empty_conv intro: filter_cong)

lemma delete_alias_facts:
  "alias_row_of (delete_pending_alias_in i db) j = (if j = i then None else alias_row_of db j)"
  "tags_of (delete_pending_alias_in i db) j = (if j = i then [] else tags_of db j)"
  "xd_posts (delete_pending_alias_in i db) = xd_posts db" "xd_assets (delete_pending_alias_in i db) = xd_assets db"
proof -
  show "alias_row_of (delete_pending_alias_in i db) j = (if j = i then None else alias_row_of db j)"
    using find_filter_other [of "xd_pending_aliases db" "\<lambda>r. par_claim_id r = uuid_to_text j"
        "\<lambda>r. par_claim_id r \<noteq> uuid_to_text i"]
    by (auto simp: delete_pending_alias_in_def alias_row_of_def find_None_iff)
  show "tags_of (delete_pending_alias_in i db) j = (if j = i then [] else tags_of db j)"
    "xd_posts (delete_pending_alias_in i db) = xd_posts db" "xd_assets (delete_pending_alias_in i db) = xd_assets db"
    using delete_tags_facts(2,3,4) [of i db] by (simp_all add: delete_pending_alias_in_def tags_of_def)
qed

section \<open>Writing\<close>

fun pending_tag_rows :: "uuid \<Rightarrow> int \<Rightarrow> pystr list \<Rightarrow> pending_tag_row list" where
  "pending_tag_rows i p [] = []"
| "pending_tag_rows i p (k # ks) =
     \<lparr>ptr_claim_id = uuid_to_text i, ptr_tag_key = k, ptr_position = p\<rparr> # pending_tag_rows i (p + 1) ks"

lemma pending_tag_rows_own:
  "r \<in> set (pending_tag_rows i p ks) \<Longrightarrow> ptr_claim_id r = uuid_to_text i \<and> p \<le> ptr_position r"
  by (induction ks arbitrary: p) fastforce+

lemma pending_tag_rows_keys: "map ptr_tag_key (pending_tag_rows i p ks) = ks"
  by (induction ks arbitrary: p) simp_all

lemma pending_tag_rows_sorted: "sorted (map ptr_position (pending_tag_rows i p ks))"
  by (induction ks arbitrary: p) (fastforce dest: pending_tag_rows_own)+

lemma insert_tags_Inr:
  "insert_pending_tags i p ks db = Inr db' \<Longrightarrow>
     db' = db\<lparr>xd_pending_alias_tags := xd_pending_alias_tags db @ pending_tag_rows i p ks\<rparr>"
proof (induction ks arbitrary: p db)
  case (Cons k ks)
  then show ?case by (fastforce simp: Let_def split: if_splits)
qed simp

lemma put_alias_Inr:
  assumes l: "load_pending_alias U i db = Inr current"
    and p: "put_pending_alias i k content now current db = Inr (created, db')"
  shows "alias_row_of db' i = Some \<lparr>par_claim_id = uuid_to_text i, par_login_key = k,
           par_display_title = ac_display_title content, par_description = ac_description content,
           par_created_at_ms = created, par_updated_at_ms = now\<rparr>"
    and "j \<noteq> i \<Longrightarrow> alias_row_of db' j = alias_row_of db j"
    and "created = (case current of None \<Rightarrow> now | Some a \<Rightarrow> pma_created_at_ms a)"
    and "tags_of db' = tags_of db" "xd_posts db' = xd_posts db" "xd_assets db' = xd_assets db"
proof -
  let ?is = "\<lambda>j (r :: pending_alias_row). par_claim_id r = uuid_to_text j"
  have "alias_row_of db' i = Some \<lparr>par_claim_id = uuid_to_text i, par_login_key = k,
           par_display_title = ac_display_title content, par_description = ac_description content,
           par_created_at_ms = created, par_updated_at_ms = now\<rparr>
    \<and> (\<forall>j. j \<noteq> i \<longrightarrow> alias_row_of db' j = alias_row_of db j)
    \<and> created = (case current of None \<Rightarrow> now | Some a \<Rightarrow> pma_created_at_ms a)
    \<and> tags_of db' = tags_of db \<and> xd_posts db' = xd_posts db \<and> xd_assets db' = xd_assets db"
  proof (cases current)
    case None
    define row where "row = \<lparr>par_claim_id = uuid_to_text i, par_login_key = k,
           par_display_title = ac_display_title content, par_description = ac_description content,
           par_created_at_ms = now, par_updated_at_ms = now\<rparr>"
    have db': "db' = db\<lparr>xd_pending_aliases := xd_pending_aliases db @ [row]\<rparr>" "created = now"
      using p None by (auto simp: put_pending_alias_def row_def Let_def split: if_splits)
    have n: "uuid_to_text i \<notin> set (map par_claim_id (xd_pending_aliases db))"
      using l None load_none by (auto simp: alias_row_of_def find_None_iff)
    have "par_claim_id row \<notin> set (map par_claim_id (xd_pending_aliases db))" using n by (simp add: row_def)
    note f = find_after_insert [OF this]
    have "alias_row_of db' j = (if j = i then Some row else alias_row_of db j)" for j
      by (simp add: alias_row_of_def db'(1) f) (simp add: row_def)
    then show ?thesis using None by (simp add: row_def db' tags_of_def fun_eq_iff)
  next
    case (Some a)
    define g where "g = (\<lambda>r :: pending_alias_row. r\<lparr>par_login_key := k, par_display_title := ac_display_title content,
                par_description := ac_description content, par_updated_at_ms := now\<rparr>)"
    have db': "db' = db\<lparr>xd_pending_aliases := map (\<lambda>r. if ?is i r then g r else r) (xd_pending_aliases db)\<rparr>"
        "created = pma_created_at_ms a"
      using p Some by (auto simp: put_pending_alias_def sql_update_def g_def split: if_splits option.splits)
    obtain row where row: "alias_row_of db i = Some row" "par_created_at_ms row = pma_created_at_ms a"
      using l Some by (auto elim: load_created)
    have f: "find (?is j) (map (\<lambda>r. if ?is i r then g r else r) rs)
        = (if j = i then map_option g (find (?is i) rs) else find (?is j) rs)" for j rs
      by (induction rs) (auto simp: g_def)
    have own: "par_claim_id row = uuid_to_text i" using row(1) by (auto simp: alias_row_of_def find_Some_iff)
    have "alias_row_of db' j = (if j = i then Some (g row) else alias_row_of db j)" for j
      using row(1) by (simp add: alias_row_of_def db'(1) f)
    moreover have "g row = \<lparr>par_claim_id = uuid_to_text i, par_login_key = k,
           par_display_title = ac_display_title content, par_description = ac_description content,
           par_created_at_ms = created, par_updated_at_ms = now\<rparr>"
      using own row(2) db'(2) by (intro pending_alias_row.equality) (simp_all add: g_def)
    ultimately show ?thesis using Some by (simp add: db' tags_of_def fun_eq_iff)
  qed
  then show "alias_row_of db' i = Some \<lparr>par_claim_id = uuid_to_text i, par_login_key = k,
           par_display_title = ac_display_title content, par_description = ac_description content,
           par_created_at_ms = created, par_updated_at_ms = now\<rparr>"
    "j \<noteq> i \<Longrightarrow> alias_row_of db' j = alias_row_of db j"
    "created = (case current of None \<Rightarrow> now | Some a \<Rightarrow> pma_created_at_ms a)"
    "tags_of db' = tags_of db" "xd_posts db' = xd_posts db" "xd_assets db' = xd_assets db"
    by blast+
qed

lemma pending_content_valid:
  assumes "alias_content_valid c"
  shows "pending_content (ac_display_title c) (ac_description c) (ac_tag_keys c) = Inr c"
proof -
  have t: "opt_map (\<lambda>s. media_display_title (PyStr s)) (ac_display_title c) = Inr (ac_display_title c)"
    "opt_map (\<lambda>s. media_description (PyStr s)) (ac_description c) = Inr (ac_description c)"
    "map_results (\<lambda>k. canonical_tag_key (PyStr k)) (ac_tag_keys c) = Inr (ac_tag_keys c)"
    using assms
    by (cases "ac_display_title c"; cases "ac_description c";
        simp add: alias_content_valid_def tag_keys_themselves)+
  have c: "\<lparr>ac_display_title = ac_display_title c, ac_description = ac_description c,
      ac_tag_keys = ac_tag_keys c\<rparr> = c" by simp
  have "alias_content_post_init c = Inr ()" using assms unfolding alias_content_valid_def by blast
  then show ?thesis unfolding pending_content_def t Let_def and_then_def rescue_def sum.case c by (simp del: content_post_init_iff)
qed

text \<open>The outcome of writing a pending alias.\<close>

lemma upsert_alias_outcome:
  assumes u: "upsert_pending_alias_in U i k content now db = Inr (result, db')" and v: "alias_content_valid content"
  shows "load_pending_alias U i db' = Inr result"
    and "j \<noteq> i \<Longrightarrow> load_pending_alias U j db' = load_pending_alias U j db"
    and "result = None \<longleftrightarrow> alias_is_empty content"
    and "result = Some a \<Longrightarrow> \<exists>current. load_pending_alias U i db = Inr current
      \<and> a = \<lparr>pma_claim_id = i, pma_login_key = k, pma_content = content,
          pma_created_at_ms = (case current of None \<Rightarrow> now | Some old \<Rightarrow> pma_created_at_ms old),
          pma_updated_at_ms = now\<rparr>"
    and "xd_posts db' = xd_posts db" "xd_assets db' = xd_assets db"
proof -
  have "load_pending_alias U i db' = Inr result \<and> (\<forall>j. j \<noteq> i \<longrightarrow> load_pending_alias U j db' = load_pending_alias U j db)
    \<and> (result = None \<longleftrightarrow> alias_is_empty content)
    \<and> (\<forall>a. result = Some a \<longrightarrow> (\<exists>current. load_pending_alias U i db = Inr current
      \<and> a = \<lparr>pma_claim_id = i, pma_login_key = k, pma_content = content,
          pma_created_at_ms = (case current of None \<Rightarrow> now | Some old \<Rightarrow> pma_created_at_ms old),
          pma_updated_at_ms = now\<rparr>))
    \<and> xd_posts db' = xd_posts db \<and> xd_assets db' = xd_assets db"
  proof (cases "alias_is_empty content")
    case True
    then have r: "result = None" "db' = delete_pending_alias_in i db"
      using u by (simp_all add: upsert_pending_alias_in_def)
    have "load_pending_alias U i db' = Inr None" by (simp add: load_none r(2) delete_alias_facts)
    moreover have "load_pending_alias U j db' = load_pending_alias U j db" if "j \<noteq> i" for j
      using that by (intro load_cong) (simp_all add: r(2) delete_alias_facts)
    ultimately show ?thesis using True r by (simp add: delete_alias_facts)
  next
    case False
    obtain current created db1 a where
        l: "load_pending_alias U i db = Inr current" and
        p: "put_pending_alias i k content now current db = Inr (created, db1)" and
        t: "insert_pending_tags i 0 (ac_tag_keys content) (delete_pending_tags i db1) = Inr db'" and
        m: "pending_alias_make U \<lparr>pma_claim_id = i, pma_login_key = k, pma_content = content,
           pma_created_at_ms = created, pma_updated_at_ms = now\<rparr> = Inr a" and r: "result = Some a"
      using u False by (auto simp: upsert_pending_alias_in_def and_then_Inr rescue_Inr)
    note put = put_alias_Inr [OF l p]
    have db': "db' = (delete_pending_tags i db1)\<lparr>xd_pending_alias_tags :=
        xd_pending_alias_tags (delete_pending_tags i db1) @ pending_tag_rows i 0 (ac_tag_keys content)\<rparr>"
      using insert_tags_Inr [OF t] .
    have row: "alias_row_of db' j = alias_row_of db1 j" for j
      using delete_tags_facts(1) [of i db1 j] by (simp add: db' alias_row_of_def)
    have own: "filter (\<lambda>r. ptr_claim_id r = uuid_to_text j) (pending_tag_rows i 0 (ac_tag_keys content))
        = (if j = i then pending_tag_rows i 0 (ac_tag_keys content) else [])" for j
      using pending_tag_rows_own by (auto simp: filter_empty_conv filter_id_conv)
    have tags: "tags_of db' j = (if j = i then pending_tag_rows i 0 (ac_tag_keys content) else tags_of db j)" for j
      using delete_tags_facts(2) [of i db1 j] put(4) by (simp add: db' tags_of_def own)
    have a: "a = \<lparr>pma_claim_id = i, pma_login_key = k, pma_content = content,
           pma_created_at_ms = created, pma_updated_at_ms = now\<rparr>"
      using m by (auto simp: pending_alias_make_def and_then_Inr)
    have "load_pending_alias U i db' = Inr (Some a)"
      using m by (simp add: load_by_row row put(1) tags sort_key_id_if_sorted pending_tag_rows_keys pending_tag_rows_sorted
          pending_content_valid [OF v])
    moreover have "load_pending_alias U j db' = load_pending_alias U j db" if "j \<noteq> i" for j
      using that by (intro load_cong) (simp_all add: row put(2) tags)
    moreover have "xd_posts db' = xd_posts db" "xd_assets db' = xd_assets db"
      using put(5,6) delete_tags_facts(3,4) [of i db1] by (simp_all add: db')
    ultimately show ?thesis using False r a l put(3) by simp
  qed
  then show "load_pending_alias U i db' = Inr result"
    "j \<noteq> i \<Longrightarrow> load_pending_alias U j db' = load_pending_alias U j db"
    "result = None \<longleftrightarrow> alias_is_empty content"
    "result = Some a \<Longrightarrow> \<exists>current. load_pending_alias U i db = Inr current
      \<and> a = \<lparr>pma_claim_id = i, pma_login_key = k, pma_content = content,
          pma_created_at_ms = (case current of None \<Rightarrow> now | Some old \<Rightarrow> pma_created_at_ms old),
          pma_updated_at_ms = now\<rparr>"
    "xd_posts db' = xd_posts db" "xd_assets db' = xd_assets db"
    by blast+
qed

end
