(* ===== verification/X_Claim_Properties.thy ===== *)
theory X_Claim_Properties
  imports X_Claim_History X_Pending_Aliases
begin

text \<open>
  The properties of the X claim repository, with a claim, an asset and a pending alias as
  witnesses.
\<close>

section \<open>Samples\<close>

abbreviation sample_owner :: pystr where "sample_owner \<equiv> lit ''alice@example.org''"

definition owned_x_claim :: x_claim where
  "owned_x_claim = sample_x_claim\<lparr>xc_created_by_login_key := Some sample_owner\<rparr>"

definition queued_x_claim :: x_claim where
  "queued_x_claim = owned_x_claim\<lparr>xc_state := XS_QUEUED, xc_updated_at_ms := 20, xc_version := 1\<rparr>"

definition empty_x_db :: x_db where
  "empty_x_db = \<lparr>xd_posts = [], xd_assets = [], xd_pending_aliases = [], xd_pending_alias_tags = [],
     xd_logical_media = [], xd_physical_media_locations = [], xd_canonical_tags = [lit ''cat''],
     xd_kronika_records = []\<rparr>"

definition sample_x_db :: x_db where
  "sample_x_db = empty_x_db\<lparr>xd_posts := [post_values owned_x_claim]\<rparr>"

lemma sample_owner_checks:
  "(\<forall>s. Some sample_owner = Some s \<longrightarrow> s \<noteq> [] \<and> length s \<le> MAX_LOGIN_LENGTH \<and> normalize_login ascii_tables (PyStr s) = Inr s)"
  using sample_logins(2) by (simp add: lit_def MAX_LOGIN_LENGTH_def)

lemma owned_x_claim_fields [simp]:
  "xc_id owned_x_claim = sample_uuid 1" "xc_state owned_x_claim = XS_SUBMITTED" "xc_version owned_x_claim = 0"
  "xc_id queued_x_claim = sample_uuid 1" "xc_state queued_x_claim = XS_QUEUED"
  "xc_created_by_login_key owned_x_claim = Some sample_owner" "xc_x_post_id owned_x_claim = lit ''42''"
  by (simp_all add: owned_x_claim_def queued_x_claim_def sample_x_claim_def fresh_x_claim_def post_identity_def
      del: One_nat_def)

lemma owned_x_claim_valid: "x_claim_post_init ascii_tables owned_x_claim = Inr ()"
  and queued_x_claim_valid: "x_claim_post_init ascii_tables queued_x_claim = Inr ()"
proof -
  have v: "all_checks (x_claim_identity_checks ascii_tables sample_x_claim) = Inr ()"
    "all_checks (x_claim_source_checks ascii_tables sample_x_claim) = Inr ()"
    "all_checks (x_claim_outcome_checks sample_x_claim) = Inr ()"
    using sample_x_claim_valid by (simp_all add: x_post_init_parts)
  have t: "xc_created_at_ms sample_x_claim = 10" "xc_state sample_x_claim = XS_SUBMITTED"
    "xc_cleanup_state sample_x_claim = X_CLEANUP_PENDING"
    by (simp_all add: sample_x_claim_def fresh_x_claim_def del: One_nat_def)
  have i: "all_checks (x_claim_identity_checks ascii_tables owned_x_claim) = Inr ()"
    "all_checks (x_claim_identity_checks ascii_tables queued_x_claim) = Inr ()"
    using v(1) sample_owner_checks t(1)
    unfolding x_claim_identity_checks_def owned_x_claim_def queued_x_claim_def all_checks_Cons_Inr
      check_created_by_login_key_Inr
    by (simp_all add: check_simps)
  have s: "x_claim_source_checks ascii_tables owned_x_claim = x_claim_source_checks ascii_tables sample_x_claim"
    "x_claim_source_checks ascii_tables queued_x_claim = x_claim_source_checks ascii_tables sample_x_claim"
    by (simp_all add: x_claim_source_checks_def owned_x_claim_def queued_x_claim_def)
  have o: "all_checks (x_claim_outcome_checks owned_x_claim) = Inr ()"
    "all_checks (x_claim_outcome_checks queued_x_claim) = Inr ()"
    using v(3) t(2,3) unfolding x_outcome_iff
    by (simp_all add: owned_x_claim_def queued_x_claim_def x_state_set_defs)
  show "x_claim_post_init ascii_tables owned_x_claim = Inr ()" "x_claim_post_init ascii_tables queued_x_claim = Inr ()"
    unfolding x_post_init_parts s using i o v(2) by blast+
qed

lemma sample_post_admissible:
  "x_post_admissible empty_x_db (post_values owned_x_claim)"
  "x_post_admissible sample_x_db (post_values queued_x_claim)"
proof -
  have o: "check_passes (ck_owner_key (Some sample_owner))"
    by (simp add: ck_owner_key_def sql_lower_def sql_length_def ascii_lower_def ascii_lower_char_def lit_def is_upper_def)
  have u: "1 \<le> sql_length sample_post_url \<and> sql_length sample_post_url \<le> 2048"
    "1 \<le> sql_length (x_status_url (lit ''bob'') (lit ''42'')) \<and> sql_length (x_status_url (lit ''bob'') (lit ''42'')) \<le> 2048"
    by (simp_all add: sample_post_url_def x_status_url_def url_text_def status_path_def lit_def sql_length_def)
  have p: "sql_length (lit ''42'') = 2" "not_glob_outside is_digit (lit ''42'')"
    by (simp_all add: lit_def sql_length_def not_glob_outside_def is_digit_def)
  have "x_post_row_ok (post_values owned_x_claim)" "x_post_row_ok (post_values queued_x_claim)"
    using o u p
    unfolding x_post_row_ok_def x_post_row_checks_def list.pred_inject
    by (simp_all add: post_values_def owned_x_claim_def queued_x_claim_def sample_x_claim_def fresh_x_claim_def
        post_identity_def ck_failure_pair_def ck_cleanup_pair_def X_EXTRACTOR_KEY_def del: One_nat_def)
  moreover have "x_post_fks_hold db (post_values owned_x_claim)" "x_post_fks_hold db (post_values queued_x_claim)" for db
    by (simp_all add: x_post_fks_hold_def post_values_def owned_x_claim_def queued_x_claim_def sample_x_claim_def
        fresh_x_claim_def)
  ultimately show "x_post_admissible empty_x_db (post_values owned_x_claim)"
    "x_post_admissible sample_x_db (post_values queued_x_claim)"
    by (simp_all add: x_post_admissible_def empty_x_db_def sample_x_db_def post_ids del: One_nat_def)
qed

lemma sample_create_x:
  "x_create_or_get_active ascii_tables id owned_x_claim empty_x_db = (Inr (owned_x_claim, True), sample_x_db)"
proof -
  have i: "insert_post_row (post_values owned_x_claim) empty_x_db = Inr sample_x_db"
    using sample_post_admissible(1) by (simp add: insert_post_row_def sample_x_db_def empty_x_db_def)
  have "xd_posts empty_x_db = []" by (simp add: empty_x_db_def)
  then have "x_create_or_get_active_in ascii_tables owned_x_claim empty_x_db = Inr ((owned_x_claim, True), sample_x_db)"
    by (simp add: x_create_or_get_active_in_def post_row_by_id_def active_post_row_def sql_first_def i)
  then show ?thesis by (simp add: x_create_or_get_active_def)
qed

lemma sample_x_step: "(x_step ascii_tables)\<^sup>*\<^sup>* empty_x_db sample_x_db"
  using x_create_or_get_step [OF owned_x_claim_valid sample_create_x] by blast

lemma sample_x_store: "x_store ascii_tables sample_x_db"
  and sample_stored_post: "stored_post ascii_tables sample_x_db (sample_uuid 1) = Some owned_x_claim"
proof -
  have e: "x_store ascii_tables empty_x_db" by (rule x_store_empty) (simp_all add: empty_x_db_def)
  show s: "x_store ascii_tables sample_x_db" using x_run_keeps [OF sample_x_step e] by (simp add: x_kept_def)
  show "stored_post ascii_tables sample_x_db (sample_uuid 1) = Some owned_x_claim"
    unfolding stored_post_iff [OF x_storeD(1) [OF s]]
    by (simp add: owned_x_claim_valid sample_x_db_def del: One_nat_def)
qed

section \<open>Properties\<close>

text \<open>
  C21. Saving a claim is a compare-and-swap on its state and version along the transition table:
  each branch with its error, and on every error nothing changes.  Since the table has no edge
  from a state to itself, a save that keeps the state, as the completion of the cleanup is, is
  refused at every version.
\<close>

theorem x_claim_save_outcome:
  assumes "x_store U db" and "x_claim_post_init U c = Inr ()"
  shows "(stored_post U db (xc_id c) = None \<longrightarrow> x_save_post U c e v db = (Inl XClaimNotFoundError, db))
    \<and> (\<forall>d. stored_post U db (xc_id c) = Some d \<longrightarrow>
        (if xc_state d \<noteq> e \<or> xc_version d \<noteq> v
         then x_save_post U c e v db = (Inl XClaimConcurrencyConflictError, db)
         else if xc_state c \<notin> set (allowed_post_transitions e)
         then x_save_post U c e v db = (Inl (XDomainError FrameNestXTransitionError), db)
         else if \<not> x_post_admissible db (post_values c)
         then x_save_post U c e v db = (Inl FrameNestXClaimRepositoryError, db)
         else \<exists>db'. x_save_post U c e v db = (Inr c, db') \<and> x_store U db'
            \<and> stored_post U db' = (stored_post U db)(xc_id c \<mapsto> c) \<and> stored_asset U db' = stored_asset U db))
    \<and> (xc_state c = e \<longrightarrow> snd (x_save_post U c e v db) = db \<and> fst (x_save_post U c e v db) \<noteq> Inr c)"
proof -
  note out = save_post_outcome [OF assms]
  have self: "s \<notin> set (allowed_post_transitions s)" for s by (cases s) simp_all
  have "snd (x_save_post U c e v db) = db \<and> fst (x_save_post U c e v db) \<noteq> Inr c" if "xc_state c = e"
  proof (cases "stored_post U db (xc_id c)")
    case None
    then show ?thesis using out(1) by simp
  next
    case (Some d)
    then show ?thesis
      using out(2,3) [OF Some] self [of e] that by (cases "xc_state d \<noteq> e \<or> xc_version d \<noteq> v") auto
  qed
  then show ?thesis using out by auto
qed

lemma x_claim_save_outcome_witness:
  "fst (x_save_post ascii_tables queued_x_claim XS_SUBMITTED 0 sample_x_db) = Inr queued_x_claim"
  using x_claim_save_outcome [OF sample_x_store queued_x_claim_valid, of XS_SUBMITTED 0]
    sample_stored_post sample_post_admissible(2) by auto

text \<open>
  C20. However the repository has been used since its tables were empty, a requester has at most
  one active claim of a post, and the lookup finds it; the foreign key of every asset holds.
\<close>

theorem x_one_active_claim_per_post:
  assumes "(x_step U)\<^sup>*\<^sup>* db0 db" and "xd_posts db0 = []" and "xd_assets db0 = []"
  shows "(\<forall>i c. stored_post U db i = Some c \<and> owns_post p (Some k) c \<longrightarrow>
      (\<forall>j d. stored_post U db j = Some d \<and> owns_post p (Some k) d \<longrightarrow> i = j)
      \<and> x_find_active_by_post_id U p (Some k) db = (Inr (Some c), db))
    \<and> ((\<forall>i c. stored_post U db i = Some c \<longrightarrow> \<not> owns_post p (Some k) c) \<longrightarrow>
        x_find_active_by_post_id U p (Some k) db = (Inr None, db))
    \<and> (\<forall>i a. stored_asset U db i = Some a \<longrightarrow> stored_post U db (xa_claim_id a) \<noteq> None)"
proof -
  have "x_store U db"
    using x_run_keeps [OF assms(1) x_store_empty [OF assms(2,3)]] by (simp add: x_kept_def)
  then have s: "posts_store U db" "assets_store U db" "assets_have_posts db" by (simp_all add: x_store_def)
  note row = active_post_row_stored [OF s(1), of p "Some k"]
  have "i = j \<and> x_find_active_by_post_id U p (Some k) db = (Inr (Some c), db)"
    if c: "stored_post U db i = Some c" "owns_post p (Some k) c" and d: "stored_post U db j = Some d"
      "owns_post p (Some k) d" for i j c d
  proof
    show "i = j" using one_post_owner [OF s(1) c d] c(1) d(1) by (simp add: stored_post_iff [OF s(1)])
    obtain r where r: "active_post_row p (Some k) db = Some r" using row(2) c by fastforce
    obtain w where w: "stored_post U db (xc_id w) = Some w" "owns_post p (Some k) w" "post_from_row U r = Inr w"
      using row(1) [OF r] by blast
    have "w = c" using one_post_owner [OF s(1) w(1,2) c] .
    then show "x_find_active_by_post_id U p (Some k) db = (Inr (Some c), db)"
      using r w(3) by (simp add: x_find_active_by_post_id_def x_query_def)
  qed
  moreover have "x_find_active_by_post_id U p (Some k) db = (Inr None, db)"
    if "\<forall>i c. stored_post U db i = Some c \<longrightarrow> \<not> owns_post p (Some k) c"
    using row(2) that by (simp add: x_find_active_by_post_id_def x_query_def)
  moreover have "stored_post U db (xa_claim_id a) \<noteq> None" if a: "stored_asset U db i = Some a" for i a
  proof -
    have "asset_values a \<in> set (xd_assets db)" using a by (simp add: stored_asset_iff [OF s(2)])
    then obtain r where r: "r \<in> set (xd_posts db)" "xr_id r = uuid_to_text (xa_claim_id a)"
      using s(3) by (auto simp: assets_have_posts_def list_all_iff post_ids)
    obtain c where "stored_post U db (xc_id c) = Some c" "r = post_values c" by (rule posts_store_row [OF s(1) r(1)])
    then show ?thesis using r(2) by (simp add: post_ids)
  qed
  ultimately show ?thesis by blast
qed

lemma x_one_active_claim_per_post_witness:
  "x_find_active_by_post_id ascii_tables (lit ''42'') (Some sample_owner) sample_x_db = (Inr (Some owned_x_claim), sample_x_db)"
proof -
  have "owns_post (lit ''42'') (Some sample_owner) owned_x_claim" by (simp add: owns_post_def x_state_set_defs)
  moreover have "xd_posts empty_x_db = []" "xd_assets empty_x_db = []" by (simp_all add: empty_x_db_def)
  ultimately show ?thesis
    using x_one_active_claim_per_post [OF sample_x_step, of "lit ''42''" sample_owner] sample_stored_post by blast
qed

text \<open>
  C22. Whatever transactions follow, a stored claim and a stored asset stay stored, and when they
  change at all their states have moved along the transition tables.  So a cataloged asset and a
  claim removed from the catalog never change again, and of a completed claim nothing changes
  while it is completed.
\<close>

theorem x_stored_history:
  assumes "(x_step U)\<^sup>*\<^sup>* db db'" and "x_store U db"
  shows "(stored_post U db i = Some c \<longrightarrow> (\<exists>d. stored_post U db' i = Some d
        \<and> (d = c \<or> (\<lambda>s t. t \<in> set (allowed_post_transitions s))\<^sup>+\<^sup>+ (xc_state c) (xc_state d))
        \<and> (xc_state c = XS_COMPLETED \<and> xc_state d = XS_COMPLETED \<longrightarrow> d = c)))
    \<and> (stored_asset U db i = Some a \<longrightarrow> (\<exists>b. stored_asset U db' i = Some b
        \<and> (b = a \<or> (\<lambda>s t. t \<in> set (allowed_asset_transitions s))\<^sup>+\<^sup>+ (xa_state a) (xa_state b))))
    \<and> (stored_post U db i = Some c \<and> xc_state c = XS_CATALOG_REMOVED \<longrightarrow> stored_post U db' i = Some c)
    \<and> (stored_asset U db i = Some a \<and> xa_state a = XA_CATALOGED \<longrightarrow> stored_asset U db' i = Some a)"
proof -
  have k: "x_kept U db db'" using x_run_keeps [OF assms] .
  have removed: "\<not> (\<lambda>s t. t \<in> set (allowed_post_transitions s))\<^sup>+\<^sup>+ XS_CATALOG_REMOVED s" for s
    by (auto dest: tranclpD)
  have completed: "\<not> (\<lambda>s t. t \<in> set (allowed_post_transitions s))\<^sup>+\<^sup>+ XS_COMPLETED XS_COMPLETED"
  proof
    assume "(\<lambda>s t. t \<in> set (allowed_post_transitions s))\<^sup>+\<^sup>+ XS_COMPLETED XS_COMPLETED"
    then obtain t where t: "t \<in> set (allowed_post_transitions XS_COMPLETED)"
        "(\<lambda>s t. t \<in> set (allowed_post_transitions s))\<^sup>*\<^sup>* t XS_COMPLETED" by (blast dest: tranclpD)
    then show False by (auto elim: converse_rtranclpE)
  qed
  have "\<not> (\<lambda>s t. t \<in> set (allowed_asset_transitions s))\<^sup>+\<^sup>+ XA_CATALOGED s" for s
    by (auto dest: tranclpD)
  then show ?thesis
    using k removed completed unfolding x_kept_def same_or_moved_def by metis
qed

lemma x_stored_history_witness:
  "\<exists>d. stored_post ascii_tables (snd (x_save_post ascii_tables queued_x_claim XS_SUBMITTED 0 sample_x_db)) (sample_uuid 1)
       = Some d \<and> (d = owned_x_claim \<or>
         (\<lambda>s t. t \<in> set (allowed_post_transitions s))\<^sup>+\<^sup>+ XS_SUBMITTED (xc_state d))"
proof -
  have "(x_step ascii_tables)\<^sup>*\<^sup>* sample_x_db (snd (x_save_post ascii_tables queued_x_claim XS_SUBMITTED 0 sample_x_db))"
    by (rule r_into_rtranclp, rule x_save_step [OF queued_x_claim_valid prod.collapse [symmetric]])
  from x_stored_history [OF this sample_x_store, of "sample_uuid 1" owned_x_claim]
  show ?thesis using sample_stored_post unfolding owned_x_claim_fields(2) by blast
qed

text \<open>
  A pending alias that was written reads back as it was written, with the creation time of
  the one it replaced; an empty one is gone; what is pending for other claims, the claims and the
  assets are as before.
\<close>

theorem pending_alias_roundtrip:
  assumes "x_upsert_pending_alias U i k content now db = (Inr result, db')" and "alias_content_valid content"
  shows "x_get_pending_alias U i db' = (Inr result, db')
    \<and> (result = None \<longleftrightarrow> alias_is_empty content)
    \<and> (\<forall>a. result = Some a \<longrightarrow> (\<exists>earlier. x_get_pending_alias U i db = (Inr earlier, db)
        \<and> a = \<lparr>pma_claim_id = i, pma_login_key = k, pma_content = content,
            pma_created_at_ms = (case earlier of None \<Rightarrow> now | Some old \<Rightarrow> pma_created_at_ms old),
            pma_updated_at_ms = now\<rparr>))
    \<and> (\<forall>j. j \<noteq> i \<longrightarrow> x_get_pending_alias U j db' = (fst (x_get_pending_alias U j db), db'))
    \<and> xd_posts db' = xd_posts db \<and> xd_assets db' = xd_assets db"
proof -
  have u: "upsert_pending_alias_in U i k content now db = Inr (result, db')"
    using assms(1)
    by (auto simp: x_upsert_pending_alias_def x_transaction_def run_in_transaction_def rescue_Inr
        split: sum.splits prod.splits)
  note out = upsert_alias_outcome [OF u assms(2)]
  have get: "x_get_pending_alias U j d = (load_pending_alias U j d, d)" for j d
    by (cases "load_pending_alias U j d") (simp_all add: x_get_pending_alias_def x_query_def)
  show ?thesis unfolding get fst_conv using out by auto
qed

definition sample_alias_content :: alias_content where
  "sample_alias_content = \<lparr>ac_display_title = Some (lit ''Hi''), ac_description = None, ac_tag_keys = [lit ''cat'']\<rparr>"

lemma pending_alias_roundtrip_witness:
  "\<exists>a db'. x_upsert_pending_alias ascii_tables (sample_uuid 1) sample_owner sample_alias_content 30 sample_x_db
       = (Inr (Some a), db') \<and> x_get_pending_alias ascii_tables (sample_uuid 1) db' = (Inr (Some a), db')
     \<and> pma_content a = sample_alias_content"
proof -
  have v: "alias_content_valid sample_alias_content"
    by (simp add: alias_content_valid_def sample_alias_content_def media_display_title_def canonical_tag_key_def
        tag_key_pattern_def lit_def strip_def is_space_def char_class_defs
        has_control_character_def is_cc_def MAX_DISPLAY_TITLE_CODE_POINTS_def MAX_MEDIA_TAGS_def)
  define a where "a = \<lparr>pma_claim_id = sample_uuid 1, pma_login_key = sample_owner,
     pma_content = sample_alias_content, pma_created_at_ms = 30, pma_updated_at_ms = 30\<rparr>"
  have m: "pending_alias_make ascii_tables a = Inr a"
    using sample_logins(2)
    by (simp add: pending_alias_make_def pending_alias_post_init_def a_def validate_alias_login_key_def
        alias_is_empty_def sample_alias_content_def)
  have empty: "xd_pending_aliases sample_x_db = []" "xd_pending_alias_tags sample_x_db = []"
    "xd_canonical_tags sample_x_db = [lit ''cat'']" "map xr_id (xd_posts sample_x_db) = [uuid_to_text (sample_uuid 1)]"
    by (simp_all add: sample_x_db_def empty_x_db_def post_ids del: One_nat_def)
  have l: "load_pending_alias ascii_tables (sample_uuid 1) sample_x_db = Inr None"
    by (simp add: load_none alias_row_of_def empty)
  define row where "row = \<lparr>par_claim_id = uuid_to_text (sample_uuid 1), par_login_key = sample_owner,
     par_display_title = Some (lit ''Hi''), par_description = None, par_created_at_ms = 30, par_updated_at_ms = 30\<rparr>"
  have o: "check_passes (ck_owner_key (Some sample_owner))"
    by (simp add: ck_owner_key_def sql_lower_def sql_length_def ascii_lower_def ascii_lower_char_def lit_def is_upper_def)
  have n: "sql_length (lit ''Hi'') = 2" "sql_length (lit ''cat'') = 3" by (simp_all add: lit_def sql_length_def)
  have "pending_alias_admissible sample_x_db row"
    using o empty(4)
    by (simp add: pending_alias_admissible_def pending_alias_row_checks_def row_def optional_length_def n
        del: One_nat_def)
  then have p: "put_pending_alias (sample_uuid 1) sample_owner sample_alias_content 30 None sample_x_db
      = Inr (30, sample_x_db\<lparr>xd_pending_aliases := [row]\<rparr>)"
    by (simp add: put_pending_alias_def Let_def sample_alias_content_def row_def empty del: One_nat_def)
  have "pending_tag_admissible (sample_x_db\<lparr>xd_pending_aliases := [row], xd_pending_alias_tags := []\<rparr>)
      \<lparr>ptr_claim_id = uuid_to_text (sample_uuid 1), ptr_tag_key = lit ''cat'', ptr_position = 0\<rparr>"
    by (simp add: pending_tag_admissible_def pending_tag_row_checks_def empty row_def n
        del: One_nat_def)
  then have t: "\<exists>db'. insert_pending_tags (sample_uuid 1) 0 [lit ''cat'']
      (delete_pending_tags (sample_uuid 1) (sample_x_db\<lparr>xd_pending_aliases := [row]\<rparr>)) = Inr db'"
    by (simp add: delete_pending_tags_def empty Let_def)
  have "\<exists>db'. upsert_pending_alias_in ascii_tables (sample_uuid 1) sample_owner sample_alias_content 30 sample_x_db
      = Inr (Some a, db')"
  proof -
    obtain db' where d: "insert_pending_tags (sample_uuid 1) 0 (ac_tag_keys sample_alias_content)
        (delete_pending_tags (sample_uuid 1) (sample_x_db\<lparr>xd_pending_aliases := [row]\<rparr>)) = Inr db'"
      using t by (auto simp: sample_alias_content_def)
    have "\<not> alias_is_empty sample_alias_content" by (simp add: alias_is_empty_def sample_alias_content_def)
    then show ?thesis
      unfolding upsert_pending_alias_in_def l rescue_def sum.case and_then_def p prod.case d
        m [unfolded a_def] a_def by simp
  qed
  then obtain db' where "x_upsert_pending_alias ascii_tables (sample_uuid 1) sample_owner sample_alias_content 30
      sample_x_db = (Inr (Some a), db')"
    by (auto simp: x_upsert_pending_alias_def x_transaction_def)
  then show ?thesis using pending_alias_roundtrip [OF _ v] by (fastforce simp: a_def)
qed

end
