(* ===== verification/Upload_Session_Repository.thy ===== *)
theory Upload_Session_Repository
  imports Catalog_Schema "HOL-Library.Product_Lexorder"
begin

text \<open>
  \<open>infrastructure/persistence/upload_session_repository.py\<close>: the durable upload sessions.
  Every mutation is one guarded \<open>UPDATE\<close> (identity, expected state, expected version, and
  what the target state requires); when it changes no row, the row is read again to say
  which guard failed.  A method is a function from the database to its outcome and the
  database after the transaction.
\<close>

section \<open>Errors, rows and sessions\<close>

text \<open>
  The last two constructors are domain errors that no \<open>except\<close> clause of the repository
  translates.
\<close>

datatype session_repo_error =
    UploadSessionAlreadyExistsError
  | UploadStorageKeyAlreadyExistsError
  | UploadSessionNotFoundError
  | InvalidUploadSessionTransitionError
  | IncompleteUploadSessionError
  | UploadOffsetConflictError
  | UploadSizeLimitExceededError
  | UploadSessionConcurrencyConflictError
  | InvalidUploadChecksumError
  | InvalidUploadValidationEvidenceError
  | FrameNestUploadSessionRepositoryError
  | UncaughtIdentityError
  | UncaughtMediaByteIdentityError

definition values_from_session :: "upload_session \<Rightarrow> upload_row" where
  "values_from_session s = \<lparr>
     ur_id = uuid_to_text (us_id s),
     ur_state = upload_state_value (us_state s),
     ur_storage_key = us_storage_key s,
     ur_display_filename = us_display_filename s,
     ur_declared_size_bytes = us_declared_size_bytes s,
     ur_received_size_bytes = us_received_size_bytes s,
     ur_checksum_algorithm = us_checksum_algorithm s,
     ur_checksum_hex = us_checksum_hex s,
     ur_validated_media_kind = map_option validated_media_kind_value (us_validated_media_kind s),
     ur_validated_format = map_option validated_format_value (us_validated_format s),
     ur_byte_identity_id = map_option uuid_to_text (us_byte_identity_id s),
     ur_duplicate_disposition =
       map_option duplicate_disposition_value (us_duplicate_disposition s),
     ur_created_by_login_key = us_created_by_login_key s,
     ur_duplicate_resolution_mode =
       duplicate_resolution_mode_value (us_duplicate_resolution_mode s),
     ur_created_at_ms = us_created_at_ms s,
     ur_updated_at_ms = us_updated_at_ms s,
     ur_expires_at_ms = us_expires_at_ms s,
     ur_failure_code = us_failure_code s,
     ur_version = us_version s\<rparr>"

definition duplicate_resolution_mode_from_row :: "pyobj \<Rightarrow> duplicate_resolution_mode" where
  "duplicate_resolution_mode_from_row value =
     (case value of
        PyStr s \<Rightarrow> (case duplicate_resolution_mode_parse s of
            Inl _ \<Rightarrow> SILENT_KEEP_SEPARATE | Inr mode \<Rightarrow> mode)
      | _ \<Rightarrow> SILENT_KEEP_SEPARATE)"

definition session_from_row :: "upload_row \<Rightarrow> session_repo_error + upload_session" where
  "session_from_row r = rescue (\<lambda>_. FrameNestUploadSessionRepositoryError) (
     and_then (upload_session_id_from_string (ur_id r)) (\<lambda>sid.
     and_then (upload_state_parse (ur_state r)) (\<lambda>state.
     and_then (upload_storage_key (PyStr (ur_storage_key r))) (\<lambda>key.
     and_then (upload_display_filename (PyStr (ur_display_filename r))) (\<lambda>filename.
     and_then (opt_map validated_media_kind_parse (ur_validated_media_kind r)) (\<lambda>kind.
     and_then (opt_map validated_format_parse (ur_validated_format r)) (\<lambda>format.
     and_then (rescue (\<lambda>_. FrameNestUploadSessionError)
        (opt_map identity_from_string (ur_byte_identity_id r))) (\<lambda>byte_identity.
     and_then (opt_map duplicate_disposition_parse (ur_duplicate_disposition r)) (\<lambda>disposition.
     let s = \<lparr>us_id = sid, us_state = state, us_storage_key = key,
              us_display_filename = filename,
              us_declared_size_bytes = ur_declared_size_bytes r,
              us_received_size_bytes = ur_received_size_bytes r,
              us_checksum_algorithm = ur_checksum_algorithm r,
              us_checksum_hex = ur_checksum_hex r,
              us_created_at_ms = ur_created_at_ms r,
              us_updated_at_ms = ur_updated_at_ms r,
              us_expires_at_ms = ur_expires_at_ms r,
              us_failure_code = ur_failure_code r,
              us_version = ur_version r,
              us_validated_media_kind = kind,
              us_validated_format = format,
              us_byte_identity_id = byte_identity,
              us_duplicate_disposition = disposition,
              us_created_by_login_key = ur_created_by_login_key r,
              us_duplicate_resolution_mode =
                duplicate_resolution_mode_from_row (PyStr (ur_duplicate_resolution_mode r))\<rparr>
     in and_then (upload_session_post_init s) (\<lambda>_. Inr s))))))))))"

definition row_by_id :: "uuid \<Rightarrow> catalog_db \<Rightarrow> upload_row option" where
  "row_by_id session_id db = sql_first (\<lambda>r. ur_id r = uuid_to_text session_id) (upload_sessions db)"

definition row_by_storage_key :: "pystr \<Rightarrow> catalog_db \<Rightarrow> upload_row option" where
  "row_by_storage_key key db = sql_first (\<lambda>r. ur_storage_key r = key) (upload_sessions db)"

definition require_session :: "uuid \<Rightarrow> catalog_db \<Rightarrow> session_repo_error + upload_session" where
  "require_session session_id db =
     (case row_by_id session_id db of
        None \<Rightarrow> Inl UploadSessionNotFoundError
      | Some r \<Rightarrow> session_from_row r)"

definition row_has_matching_validation_success_evidence ::
    "upload_row \<Rightarrow> pystr \<Rightarrow> validated_media_kind \<Rightarrow> validated_format \<Rightarrow> bool" where
  "row_has_matching_validation_success_evidence r checksum_hex kind format \<longleftrightarrow>
     ur_state r \<in> set (map upload_state_value VALIDATED_UPLOAD_SESSION_STATES)
     \<and> ur_checksum_algorithm r = Some (lit ''sha256'')
     \<and> ur_checksum_hex r = Some checksum_hex
     \<and> ur_validated_media_kind r = Some (validated_media_kind_value kind)
     \<and> ur_validated_format r = Some (validated_format_value format)
     \<and> ur_byte_identity_id r \<noteq> None"

definition row_has_validation_evidence :: "upload_row \<Rightarrow> bool" where
  "row_has_validation_evidence r \<longleftrightarrow>
     ur_checksum_algorithm r = Some (lit ''sha256'') \<and> ur_checksum_hex r \<noteq> None
     \<and> ur_validated_media_kind r \<noteq> None \<and> ur_validated_format r \<noteq> None
     \<and> ur_byte_identity_id r \<noteq> None"

definition row_byte_identity_matches_upload_evidence :: "catalog_db \<Rightarrow> upload_row \<Rightarrow> bool" where
  "row_byte_identity_matches_upload_evidence db r =
     (case ur_byte_identity_id r of
        None \<Rightarrow> False
      | Some i \<Rightarrow>
          (case sql_first (\<lambda>b. ir_id b = i) (media_byte_identities db) of
             None \<Rightarrow> False
           | Some b \<Rightarrow> Some (ir_checksum_algorithm b) = ur_checksum_algorithm r
               \<and> ir_size_bytes b = ur_declared_size_bytes r
               \<and> Some (ir_checksum_hex b) = ur_checksum_hex r))"

section \<open>Guards on arguments\<close>

fun repo_validate_non_negative :: "pyobj \<Rightarrow> upload_error + unit" where
  "repo_validate_non_negative (PyInt n) = raise_if (n < 0) FrameNestUploadSessionError"
| "repo_validate_non_negative _ = Inl FrameNestUploadSessionError"

fun repo_validate_positive :: "pyobj \<Rightarrow> upload_error + unit" where
  "repo_validate_positive (PyInt n) = raise_if (n \<le> 0) FrameNestUploadSessionError"
| "repo_validate_positive _ = Inl FrameNestUploadSessionError"

fun validate_candidate_cursor :: "pyobj \<Rightarrow> pyobj \<Rightarrow> upload_error + unit" where
  "validate_candidate_cursor PyNone PyNone = Inr ()"
| "validate_candidate_cursor (PyInt after) (PyStr after_id) =
     raise_if (after < 0 \<or> after_id = []) FrameNestUploadSessionError"
| "validate_candidate_cursor _ _ = Inl FrameNestUploadSessionError"

text \<open>The error classes an \<open>except\<close> clause names, with their subclasses.\<close>

fun is_transition_error :: "upload_error \<Rightarrow> bool" where
  "is_transition_error FrameNestUploadSessionTransitionError = True"
| "is_transition_error FrameNestIncompleteUploadSessionError = True"
| "is_transition_error _ = False"

definition transition_or_concurrency :: "upload_error \<Rightarrow> session_repo_error" where
  "transition_or_concurrency e =
     (if is_transition_error e then InvalidUploadSessionTransitionError
      else UploadSessionConcurrencyConflictError)"

definition checksum_evidence_or_concurrency :: "upload_error \<Rightarrow> session_repo_error" where
  "checksum_evidence_or_concurrency e =
     (if e = FrameNestUploadChecksumError then InvalidUploadChecksumError
      else if e = FrameNestUploadValidationEvidenceError then InvalidUploadValidationEvidenceError
      else UploadSessionConcurrencyConflictError)"

section \<open>The guarded update\<close>

definition update_session_row ::
    "uuid \<Rightarrow> (upload_row \<Rightarrow> bool) \<Rightarrow> (upload_row \<Rightarrow> upload_row)
     \<Rightarrow> (upload_row option \<Rightarrow> session_repo_error + upload_session)
     \<Rightarrow> catalog_db \<Rightarrow> session_repo_error + upload_session \<times> catalog_db" where
  "update_session_row session_id guard change diagnose db =
     (case sql_update upload_row_ok (\<lambda>r. ur_id r = uuid_to_text session_id \<and> guard r) change
             (upload_sessions db) of
        None \<Rightarrow> Inl FrameNestUploadSessionRepositoryError
      | Some (rows, rowcount) \<Rightarrow>
          let db' = db\<lparr>upload_sessions := rows\<rparr>
          in if rowcount = 1 then and_then (require_session session_id db') (\<lambda>s. Inr (s, db'))
             else and_then (diagnose (row_by_id session_id db')) (\<lambda>s. Inr (s, db')))"

text \<open>\<open>raise_if_state\<close> and its kin spell out the diagnosis every method repeats.\<close>

definition diagnose_row ::
    "(upload_row \<Rightarrow> session_repo_error + upload_session) \<Rightarrow> upload_row option
     \<Rightarrow> session_repo_error + upload_session" where
  "diagnose_row f row =
     (case row of None \<Rightarrow> Inl UploadSessionNotFoundError | Some r \<Rightarrow> f r)"

section \<open>Reading\<close>

definition get_session ::
    "uuid \<Rightarrow> catalog_db \<Rightarrow> (session_repo_error + upload_session option) \<times> catalog_db" where
  "get_session session_id db = run_in_transaction (\<lambda>db.
     case row_by_id session_id db of
       None \<Rightarrow> Inr (None, db)
     | Some r \<Rightarrow> and_then (session_from_row r) (\<lambda>s. Inr (Some s, db))) db"

definition list_validation_candidates ::
    "upload_state list \<Rightarrow> pyobj \<Rightarrow> pyobj \<Rightarrow> pyobj \<Rightarrow> catalog_db
     \<Rightarrow> (session_repo_error + upload_session list) \<times> catalog_db" where
  "list_validation_candidates states limit after_updated_at_ms after_id db =
     (case all_checks [repo_validate_positive limit,
             validate_candidate_cursor after_updated_at_ms after_id] of
        Inl _ \<Rightarrow> (Inl FrameNestUploadSessionRepositoryError, db)
      | Inr _ \<Rightarrow> run_in_transaction (\<lambda>db.
          let rows = filter (\<lambda>r. ur_state r \<in> set (map upload_state_value states)
                 \<and> (case (after_updated_at_ms, after_id) of
                      (PyInt t, PyStr i) \<Rightarrow>
                        ur_updated_at_ms r > t \<or> (ur_updated_at_ms r = t \<and> ur_id r > i)
                    | _ \<Rightarrow> True)) (upload_sessions db);
              n = (case limit of PyInt n \<Rightarrow> n | _ \<Rightarrow> 0)
          in and_then (map_results session_from_row
                 (sql_order_limit (\<lambda>r. (ur_updated_at_ms r, ur_id r)) n rows))
               (\<lambda>sessions. Inr (sessions, db))) db)"

definition list_startup_validation_candidates ::
    "pyobj \<Rightarrow> pyobj \<Rightarrow> pyobj \<Rightarrow> catalog_db
     \<Rightarrow> (session_repo_error + upload_session list) \<times> catalog_db" where
  "list_startup_validation_candidates = list_validation_candidates [U_RECEIVED, U_VALIDATING]"

definition list_runtime_validation_candidates ::
    "pyobj \<Rightarrow> pyobj \<Rightarrow> pyobj \<Rightarrow> catalog_db
     \<Rightarrow> (session_repo_error + upload_session list) \<times> catalog_db" where
  "list_runtime_validation_candidates = list_validation_candidates [U_RECEIVED]"

section \<open>Byte identities\<close>

definition identity_from_identity_row ::
    "identity_row \<Rightarrow> session_repo_error + media_byte_identity" where
  "identity_from_identity_row r =
     and_then (rescue (\<lambda>_. UncaughtIdentityError) (identity_from_string (ir_id r))) (\<lambda>i.
       let b = \<lparr>bi_id = i, bi_checksum_algorithm = ir_checksum_algorithm r,
                bi_size_bytes = ir_size_bytes r, bi_checksum_hex = ir_checksum_hex r,
                bi_created_at_ms = ir_created_at_ms r\<rparr>
       in and_then (rescue (\<lambda>_. UncaughtMediaByteIdentityError) (media_byte_identity_post_init b))
            (\<lambda>_. Inr b))"

definition insert_identity_row ::
    "media_byte_identity \<Rightarrow> catalog_db \<Rightarrow> session_repo_error + catalog_db" where
  "insert_identity_row b db =
     (let row = \<lparr>ir_id = uuid_to_text (bi_id b), ir_checksum_algorithm = bi_checksum_algorithm b,
                 ir_size_bytes = bi_size_bytes b, ir_checksum_hex = bi_checksum_hex b,
                 ir_created_at_ms = bi_created_at_ms b\<rparr>
      in if identity_tuple row \<in> set (map identity_tuple (media_byte_identities db)) then Inr db
         else if ir_id row \<in> set (map ir_id (media_byte_identities db)) \<or> \<not> identity_row_ok row
              then Inl FrameNestUploadSessionRepositoryError
         else Inr (db\<lparr>media_byte_identities := media_byte_identities db @ [row]\<rparr>))"

definition get_or_create_byte_identity_in ::
    "media_byte_identity \<Rightarrow> catalog_db \<Rightarrow> session_repo_error + media_byte_identity \<times> catalog_db"
    where
  "get_or_create_byte_identity_in b db =
     and_then (rescue (\<lambda>_. UncaughtMediaByteIdentityError)
       (validate_media_byte_identity_evidence (PyStr (bi_checksum_algorithm b))
          (PyInt (bi_size_bytes b)) (PyStr (bi_checksum_hex b)))) (\<lambda>_.
     and_then (insert_identity_row b db) (\<lambda>db'.
       case sql_first (\<lambda>r. identity_tuple r
                = (bi_checksum_algorithm b, bi_size_bytes b, bi_checksum_hex b))
              (media_byte_identities db') of
         None \<Rightarrow> Inl FrameNestUploadSessionRepositoryError
       | Some r \<Rightarrow> and_then (identity_from_identity_row r) (\<lambda>i. Inr (i, db'))))"

definition get_or_create_byte_identity ::
    "media_byte_identity \<Rightarrow> catalog_db
     \<Rightarrow> (session_repo_error + media_byte_identity) \<times> catalog_db" where
  "get_or_create_byte_identity b db =
     (case run_in_transaction (get_or_create_byte_identity_in b) db of
        (Inl UncaughtMediaByteIdentityError, db') \<Rightarrow> (Inl InvalidUploadChecksumError, db')
      | r \<Rightarrow> r)"

section \<open>\<open>create\<close>\<close>

definition create_session_in ::
    "upload_session \<Rightarrow> catalog_db \<Rightarrow> session_repo_error + unit \<times> catalog_db" where
  "create_session_in s db =
     (if row_by_id (us_id s) db \<noteq> None then Inl UploadSessionAlreadyExistsError
      else if row_by_storage_key (us_storage_key s) db \<noteq> None
           then Inl UploadStorageKeyAlreadyExistsError
      else and_then
        (case us_byte_identity_id s of
           None \<Rightarrow> Inr (values_from_session s, db)
         | Some i \<Rightarrow>
             (case (us_checksum_algorithm s, us_checksum_hex s) of
                (Some a, Some h) \<Rightarrow>
                  let b = \<lparr>bi_id = i, bi_checksum_algorithm = a,
                           bi_size_bytes = us_declared_size_bytes s, bi_checksum_hex = h,
                           bi_created_at_ms = us_updated_at_ms s\<rparr>
                  in and_then (rescue (\<lambda>_. UncaughtMediaByteIdentityError)
                         (media_byte_identity_post_init b)) (\<lambda>_.
                     and_then (get_or_create_byte_identity_in b db) (\<lambda>(identity, db').
                       Inr ((values_from_session s)
                              \<lparr>ur_byte_identity_id := Some (uuid_to_text (bi_id identity))\<rparr>, db')))
              | _ \<Rightarrow> Inl UncaughtMediaByteIdentityError))
        (\<lambda>(row, db').
           if \<not> upload_row_ok row then Inl FrameNestUploadSessionRepositoryError
           else Inr ((), db'\<lparr>upload_sessions := upload_sessions db' @ [row]\<rparr>)))"

definition create_session ::
    "upload_session \<Rightarrow> catalog_db \<Rightarrow> (session_repo_error + unit) \<times> catalog_db" where
  "create_session s db = run_in_transaction (create_session_in s) db"


section \<open>Receiving bytes\<close>

definition raise_offset_guard_error ::
    "int \<Rightarrow> int \<Rightarrow> int \<Rightarrow> upload_row option \<Rightarrow> session_repo_error + upload_session" where
  "raise_offset_guard_error expected_received_size_bytes expected_version next_offset row =
     (case row of
        None \<Rightarrow> Inl UploadSessionNotFoundError
      | Some r \<Rightarrow>
          if ur_state r \<noteq> upload_state_value U_RECEIVING
          then Inl InvalidUploadSessionTransitionError
          else if ur_received_size_bytes r \<noteq> expected_received_size_bytes
          then Inl UploadOffsetConflictError
          else if ur_version r \<noteq> expected_version
          then Inl UploadSessionConcurrencyConflictError
          else if next_offset > ur_declared_size_bytes r then Inl UploadSizeLimitExceededError
          else Inl FrameNestUploadSessionRepositoryError)"

definition advance_received_offset ::
    "uuid \<Rightarrow> int \<Rightarrow> int \<Rightarrow> int \<Rightarrow> int \<Rightarrow> catalog_db
     \<Rightarrow> (session_repo_error + upload_session) \<times> catalog_db" where
  "advance_received_offset session_id expected_received_size_bytes accepted_size_bytes
       expected_version updated_at_ms db =
     (case and_then (validate_upload_offset_advance expected_received_size_bytes
               accepted_size_bytes (max (expected_received_size_bytes + accepted_size_bytes) 1))
             (\<lambda>_. all_checks [repo_validate_non_negative (PyInt expected_version),
                repo_validate_non_negative (PyInt updated_at_ms)]) of
        Inl _ \<Rightarrow> (Inl UploadOffsetConflictError, db)
      | Inr _ \<Rightarrow>
          let next_offset = expected_received_size_bytes + accepted_size_bytes
          in run_in_transaction (update_session_row session_id
               (\<lambda>r. ur_state r = upload_state_value U_RECEIVING
                  \<and> ur_received_size_bytes r = expected_received_size_bytes
                  \<and> ur_version r = expected_version
                  \<and> ur_declared_size_bytes r \<ge> next_offset)
               (\<lambda>r. r\<lparr>ur_received_size_bytes := next_offset, ur_updated_at_ms := updated_at_ms,
                      ur_version := ur_version r + 1\<rparr>)
               (raise_offset_guard_error expected_received_size_bytes expected_version
                  next_offset)) db)"

definition record_completed_checksum ::
    "uuid \<Rightarrow> upload_state \<Rightarrow> int \<Rightarrow> pystr \<Rightarrow> int \<Rightarrow> catalog_db
     \<Rightarrow> (session_repo_error + upload_session) \<times> catalog_db" where
  "record_completed_checksum session_id expected_state expected_version checksum_hex
       updated_at_ms db =
     (case and_then (validate_sha256_checksum_hex (PyStr checksum_hex)) (\<lambda>checksum.
             and_then (all_checks [repo_validate_non_negative (PyInt expected_version),
                repo_validate_non_negative (PyInt updated_at_ms)]) (\<lambda>_. Inr checksum)) of
        Inl e \<Rightarrow> (Inl (checksum_evidence_or_concurrency e), db)
      | Inr checksum \<Rightarrow> run_in_transaction (update_session_row session_id
          (\<lambda>r. ur_state r = upload_state_value expected_state
             \<and> ur_version r = expected_version
             \<and> ur_checksum_algorithm r = None \<and> ur_checksum_hex r = None)
          (\<lambda>r. r\<lparr>ur_checksum_algorithm := Some (lit ''sha256''),
                 ur_checksum_hex := Some checksum, ur_updated_at_ms := updated_at_ms,
                 ur_version := ur_version r + 1\<rparr>)
          (diagnose_row (\<lambda>r.
             if ur_state r \<noteq> upload_state_value expected_state
             then Inl InvalidUploadSessionTransitionError
             else if ur_version r \<noteq> expected_version
             then Inl UploadSessionConcurrencyConflictError
             else if ur_checksum_algorithm r = Some (lit ''sha256'')
                  \<and> ur_checksum_hex r = Some checksum
             then session_from_row r
             else Inl InvalidUploadChecksumError))) db)"

section \<open>State transitions\<close>

definition target_requires_complete_upload :: "upload_state \<Rightarrow> bool" where
  "target_requires_complete_upload target_state \<longleftrightarrow>
     target_state \<in> set COMPLETE_UPLOAD_SESSION_STATES"

definition FAILURE_STATES :: "upload_state list" where
  "FAILURE_STATES = [U_FAILED, U_REJECTED]"

definition transition_state_arguments ::
    "upload_state \<Rightarrow> upload_state \<Rightarrow> int \<Rightarrow> int \<Rightarrow> pystr option \<Rightarrow> upload_error + unit" where
  "transition_state_arguments expected_state target_state expected_version updated_at_ms
       failure_code =
     all_checks [
       ensure_upload_session_transition_allowed expected_state target_state,
       repo_validate_non_negative (PyInt expected_version),
       repo_validate_non_negative (PyInt updated_at_ms),
       (case failure_code of
          None \<Rightarrow> Inr ()
        | Some c \<Rightarrow> and_then (validate_upload_failure_code (PyStr c))
            (\<lambda>_. raise_if (target_state \<notin> set FAILURE_STATES)
               FrameNestUploadSessionTransitionError))]"

definition transition_state ::
    "uuid \<Rightarrow> upload_state \<Rightarrow> upload_state \<Rightarrow> int \<Rightarrow> int \<Rightarrow> pystr option \<Rightarrow> catalog_db
     \<Rightarrow> (session_repo_error + upload_session) \<times> catalog_db" where
  "transition_state session_id expected_state target_state expected_version updated_at_ms
       failure_code db =
     (case transition_state_arguments expected_state target_state expected_version updated_at_ms
             failure_code of
        Inl e \<Rightarrow> (Inl (transition_or_concurrency e), db)
      | Inr _ \<Rightarrow> run_in_transaction (update_session_row session_id
          (\<lambda>r. ur_state r = upload_state_value expected_state
             \<and> ur_version r = expected_version
             \<and> (target_requires_complete_upload target_state \<longrightarrow>
                  ur_received_size_bytes r = ur_declared_size_bytes r)
             \<and> (target_state \<in> set VALIDATED_UPLOAD_SESSION_STATES \<longrightarrow>
                  row_has_validation_evidence r))
          (\<lambda>r. r\<lparr>ur_state := upload_state_value target_state,
                 ur_updated_at_ms := updated_at_ms, ur_failure_code := failure_code,
                 ur_version := ur_version r + 1\<rparr>)
          (diagnose_row (\<lambda>r.
             if ur_state r \<noteq> upload_state_value expected_state
             then Inl InvalidUploadSessionTransitionError
             else if ur_version r \<noteq> expected_version
             then Inl UploadSessionConcurrencyConflictError
             else if target_requires_complete_upload target_state
                  \<and> ur_received_size_bytes r \<noteq> ur_declared_size_bytes r
             then Inl IncompleteUploadSessionError
             else if target_state \<in> set VALIDATED_UPLOAD_SESSION_STATES
                  \<and> \<not> row_has_validation_evidence r
             then Inl InvalidUploadValidationEvidenceError
             else Inl UploadSessionConcurrencyConflictError))) db)"

definition start_validation ::
    "uuid \<Rightarrow> int \<Rightarrow> int \<Rightarrow> catalog_db \<Rightarrow> (session_repo_error + upload_session) \<times> catalog_db" where
  "start_validation session_id expected_version updated_at_ms db =
     (case all_checks [repo_validate_non_negative (PyInt expected_version),
             repo_validate_non_negative (PyInt updated_at_ms)] of
        Inl _ \<Rightarrow> (Inl UploadSessionConcurrencyConflictError, db)
      | Inr _ \<Rightarrow> run_in_transaction (update_session_row session_id
          (\<lambda>r. ur_state r = upload_state_value U_RECEIVED
             \<and> ur_version r = expected_version
             \<and> ur_received_size_bytes r = ur_declared_size_bytes r)
          (\<lambda>r. r\<lparr>ur_state := upload_state_value U_VALIDATING,
                 ur_updated_at_ms := updated_at_ms, ur_version := ur_version r + 1\<rparr>)
          (diagnose_row (\<lambda>r.
             if ur_state r \<noteq> upload_state_value U_RECEIVED
             then Inl InvalidUploadSessionTransitionError
             else if ur_version r \<noteq> expected_version
             then Inl UploadSessionConcurrencyConflictError
             else if ur_received_size_bytes r \<noteq> ur_declared_size_bytes r
             then Inl IncompleteUploadSessionError
             else Inl UploadSessionConcurrencyConflictError))) db)"

definition reject_validation ::
    "uuid \<Rightarrow> int \<Rightarrow> pystr \<Rightarrow> int \<Rightarrow> catalog_db
     \<Rightarrow> (session_repo_error + upload_session) \<times> catalog_db" where
  "reject_validation session_id expected_version failure_code updated_at_ms db =
     (case and_then (validate_upload_failure_code (PyStr failure_code)) (\<lambda>code.
             and_then (all_checks [repo_validate_non_negative (PyInt expected_version),
                repo_validate_non_negative (PyInt updated_at_ms)]) (\<lambda>_. Inr code)) of
        Inl _ \<Rightarrow> (Inl UploadSessionConcurrencyConflictError, db)
      | Inr code \<Rightarrow> run_in_transaction (update_session_row session_id
          (\<lambda>r. ur_state r = upload_state_value U_VALIDATING \<and> ur_version r = expected_version)
          (\<lambda>r. r\<lparr>ur_state := upload_state_value U_REJECTED, ur_failure_code := Some code,
                 ur_updated_at_ms := updated_at_ms, ur_version := ur_version r + 1\<rparr>)
          (diagnose_row (\<lambda>r.
             if ur_state r \<noteq> upload_state_value U_VALIDATING
             then Inl InvalidUploadSessionTransitionError
             else Inl UploadSessionConcurrencyConflictError))) db)"

section \<open>Duplicates\<close>

definition disposition_target :: "duplicate_disposition \<Rightarrow> upload_state" where
  "disposition_target d = (if d = KEEP_SEPARATE then U_PUBLISH_PENDING else U_CANCELLED)"

definition record_duplicate_disposition ::
    "uuid \<Rightarrow> int \<Rightarrow> duplicate_disposition enum_arg \<Rightarrow> int \<Rightarrow> catalog_db
     \<Rightarrow> (session_repo_error + upload_session) \<times> catalog_db" where
  "record_duplicate_disposition session_id expected_version disposition updated_at_ms db =
     (case disposition of
        Raw _ \<Rightarrow> (Inl InvalidUploadSessionTransitionError, db)
      | Member d \<Rightarrow>
          (case all_checks [repo_validate_non_negative (PyInt expected_version),
                  repo_validate_non_negative (PyInt updated_at_ms)] of
             Inl _ \<Rightarrow> (Inl UploadSessionConcurrencyConflictError, db)
           | Inr _ \<Rightarrow> run_in_transaction (update_session_row session_id
               (\<lambda>r. ur_state r = upload_state_value U_DUPLICATE_PENDING
                  \<and> ur_version r = expected_version \<and> ur_duplicate_disposition r = None)
               (\<lambda>r. r\<lparr>ur_state := upload_state_value (disposition_target d),
                      ur_duplicate_disposition := Some (duplicate_disposition_value d),
                      ur_updated_at_ms := updated_at_ms, ur_version := ur_version r + 1\<rparr>)
               (diagnose_row (\<lambda>r.
                  if ur_state r \<noteq> upload_state_value U_DUPLICATE_PENDING
                  then Inl InvalidUploadSessionTransitionError
                  else if ur_duplicate_disposition r \<noteq> None
                  then Inl InvalidUploadSessionTransitionError
                  else Inl UploadSessionConcurrencyConflictError))) db))"

section \<open>Completing validation\<close>

text \<open>
  The left outer join of sessions and publications: another session with the same byte
  identity that is pending publication, published, or cataloged with its media row.
\<close>

definition canonical_exists :: "uuid \<Rightarrow> uuid \<Rightarrow> catalog_db \<Rightarrow> bool" where
  "canonical_exists session_id identity_id db \<longleftrightarrow>
     list_ex (\<lambda>r. ur_id r \<noteq> uuid_to_text session_id
        \<and> ur_byte_identity_id r = Some (uuid_to_text identity_id)
        \<and> (ur_state r \<in> set [upload_state_value U_PUBLISH_PENDING, upload_state_value U_PUBLISHED]
           \<or> (ur_state r = upload_state_value U_CATALOGED
              \<and> list_ex (\<lambda>p. pr_upload_id p = ur_id r \<and> pr_media_id p \<noteq> None)
                  (upload_publications db))))
       (upload_sessions db)"

definition success_target ::
    "bool \<Rightarrow> pystr \<Rightarrow> upload_state \<times> duplicate_disposition option" where
  "success_target canonical mode =
     (if canonical then
        if uses_explicit_duplicate_resolution (Raw (PyStr mode)) then (U_DUPLICATE_PENDING, None)
        else (U_PUBLISH_PENDING, Some KEEP_SEPARATE)
      else (U_PUBLISH_PENDING, None))"

definition complete_validation_guards ::
    "int \<Rightarrow> pystr \<Rightarrow> catalog_db \<Rightarrow> upload_row \<Rightarrow> session_repo_error + unit" where
  "complete_validation_guards expected_version checksum db r = all_checks [
     raise_if (ur_state r \<in> set (map upload_state_value VALIDATED_UPLOAD_SESSION_STATES))
       (if ur_checksum_algorithm r \<noteq> Some (lit ''sha256'') \<or> ur_checksum_hex r \<noteq> Some checksum
        then InvalidUploadChecksumError else InvalidUploadValidationEvidenceError),
     raise_if (ur_state r \<noteq> upload_state_value U_VALIDATING) InvalidUploadSessionTransitionError,
     raise_if (ur_version r \<noteq> expected_version) UploadSessionConcurrencyConflictError,
     raise_if (ur_received_size_bytes r \<noteq> ur_declared_size_bytes r) IncompleteUploadSessionError,
     raise_if (ur_checksum_algorithm r \<noteq> None \<or> ur_checksum_hex r \<noteq> None)
       InvalidUploadChecksumError,
     raise_if (ur_validated_media_kind r \<noteq> None \<or> ur_validated_format r \<noteq> None)
       InvalidUploadValidationEvidenceError]"

definition complete_validation_in ::
    "uuid \<Rightarrow> uuid \<Rightarrow> int \<Rightarrow> pystr \<Rightarrow> validated_media_kind \<Rightarrow> validated_format \<Rightarrow> int \<Rightarrow> catalog_db
     \<Rightarrow> session_repo_error + upload_session \<times> catalog_db" where
  "complete_validation_in new_identity_id session_id expected_version checksum media_kind
       media_format updated_at_ms db =
     (case row_by_id session_id db of
        None \<Rightarrow> Inl UploadSessionNotFoundError
      | Some r \<Rightarrow>
          if row_has_matching_validation_success_evidence r checksum media_kind media_format then
            if \<not> row_byte_identity_matches_upload_evidence db r
            then Inl InvalidUploadValidationEvidenceError
            else and_then (session_from_row r) (\<lambda>s. Inr (s, db))
          else and_then (complete_validation_guards expected_version checksum db r) (\<lambda>_.
            let b = \<lparr>bi_id = new_identity_id, bi_checksum_algorithm = lit ''sha256'',
                     bi_size_bytes = ur_declared_size_bytes r, bi_checksum_hex = checksum,
                     bi_created_at_ms = updated_at_ms\<rparr>
            in and_then (rescue (\<lambda>_. UncaughtMediaByteIdentityError)
                 (media_byte_identity_post_init b)) (\<lambda>_.
               and_then (get_or_create_byte_identity_in b db) (\<lambda>(identity, db').
                 let (target, disposition) = success_target
                       (canonical_exists session_id (bi_id identity) db')
                       (ur_duplicate_resolution_mode r)
                 in update_session_row session_id
                      (\<lambda>r. ur_state r = upload_state_value U_VALIDATING
                         \<and> ur_version r = expected_version
                         \<and> ur_received_size_bytes r = ur_declared_size_bytes r
                         \<and> ur_checksum_algorithm r = None \<and> ur_checksum_hex r = None
                         \<and> ur_validated_media_kind r = None \<and> ur_validated_format r = None
                         \<and> ur_byte_identity_id r = None)
                      (\<lambda>r. r\<lparr>ur_state := upload_state_value target,
                         ur_checksum_algorithm := Some (lit ''sha256''),
                         ur_checksum_hex := Some checksum,
                         ur_validated_media_kind := Some (validated_media_kind_value media_kind),
                         ur_validated_format := Some (validated_format_value media_format),
                         ur_byte_identity_id := Some (uuid_to_text (bi_id identity)),
                         ur_duplicate_disposition :=
                           map_option duplicate_disposition_value disposition,
                         ur_updated_at_ms := updated_at_ms, ur_version := ur_version r + 1\<rparr>)
                      (\<lambda>_. Inl UploadSessionConcurrencyConflictError) db'))))"

definition complete_validation_success ::
    "uuid \<Rightarrow> uuid \<Rightarrow> int \<Rightarrow> pystr \<Rightarrow> validated_media_kind enum_arg \<Rightarrow> validated_format enum_arg
     \<Rightarrow> int \<Rightarrow> catalog_db \<Rightarrow> (session_repo_error + upload_session) \<times> catalog_db" where
  "complete_validation_success new_identity_id session_id expected_version checksum_hex
       validated_media_kind validated_format updated_at_ms db =
     (case and_then (validate_sha256_checksum_hex (PyStr checksum_hex)) (\<lambda>checksum.
             and_then (validate_upload_validation_evidence validated_media_kind validated_format)
               (\<lambda>(kind, format).
             and_then (all_checks [repo_validate_non_negative (PyInt expected_version),
                repo_validate_non_negative (PyInt updated_at_ms)])
               (\<lambda>_. Inr (checksum, kind, format)))) of
        Inl e \<Rightarrow> (Inl (checksum_evidence_or_concurrency e), db)
      | Inr (checksum, kind, format) \<Rightarrow>
          run_in_immediate_transaction (complete_validation_in new_identity_id session_id
            expected_version checksum kind format updated_at_ms) db)"

end
