(* ===== verification/Upload_Session_Store.thy ===== *)
theory Upload_Session_Store
  imports Upload_Session_Repository
begin

text \<open>
  What the rows of \<open>upload_sessions\<close> mean: every row of a sound store is the encoding of a
  well-formed session, and every operation of the repository computes, on the map from
  identities to sessions the table stands for, the abstract operation the port describes.
\<close>

section \<open>Rows and sessions\<close>

lemma values_from_session_simps [simp]:
  "ur_id (values_from_session s) = uuid_to_text (us_id s)"
  "ur_state (values_from_session s) = upload_state_value (us_state s)"
  "ur_storage_key (values_from_session s) = us_storage_key s"
  "ur_display_filename (values_from_session s) = us_display_filename s"
  "ur_declared_size_bytes (values_from_session s) = us_declared_size_bytes s"
  "ur_received_size_bytes (values_from_session s) = us_received_size_bytes s"
  "ur_checksum_algorithm (values_from_session s) = us_checksum_algorithm s"
  "ur_checksum_hex (values_from_session s) = us_checksum_hex s"
  "ur_validated_media_kind (values_from_session s)
     = map_option validated_media_kind_value (us_validated_media_kind s)"
  "ur_validated_format (values_from_session s)
     = map_option validated_format_value (us_validated_format s)"
  "ur_byte_identity_id (values_from_session s) = map_option uuid_to_text (us_byte_identity_id s)"
  "ur_duplicate_disposition (values_from_session s)
     = map_option duplicate_disposition_value (us_duplicate_disposition s)"
  "ur_created_by_login_key (values_from_session s) = us_created_by_login_key s"
  "ur_duplicate_resolution_mode (values_from_session s)
     = duplicate_resolution_mode_value (us_duplicate_resolution_mode s)"
  "ur_created_at_ms (values_from_session s) = us_created_at_ms s"
  "ur_updated_at_ms (values_from_session s) = us_updated_at_ms s"
  "ur_expires_at_ms (values_from_session s) = us_expires_at_ms s"
  "ur_failure_code (values_from_session s) = us_failure_code s"
  "ur_version (values_from_session s) = us_version s"
  by (simp_all add: values_from_session_def)

lemma map_option_uuid_eq [simp]:
  "map_option uuid_to_text a = map_option uuid_to_text b \<longleftrightarrow> a = b"
  by (cases a; cases b) auto

lemma values_from_session_inj [simp]: "values_from_session s = values_from_session t \<longleftrightarrow> s = t"
proof
  assume a: "values_from_session s = values_from_session t"
  show "s = t"
  proof (rule upload_session.equality)
    show "us_id s = us_id t" using arg_cong [OF a, of ur_id] by simp
    show "us_state s = us_state t"
      using arg_cong [OF a, of ur_state] by (simp add: upload_state_codec.print_eq_iff)
    show "us_validated_media_kind s = us_validated_media_kind t"
      using arg_cong [OF a, of ur_validated_media_kind]
      by (simp add: media_kind_codec.map_option_print_eq_iff)
    show "us_validated_format s = us_validated_format t"
      using arg_cong [OF a, of ur_validated_format]
      by (simp add: format_codec.map_option_print_eq_iff)
    show "us_duplicate_disposition s = us_duplicate_disposition t"
      using arg_cong [OF a, of ur_duplicate_disposition]
      by (simp add: disposition_codec.map_option_print_eq_iff)
    show "us_duplicate_resolution_mode s = us_duplicate_resolution_mode t"
      using arg_cong [OF a, of ur_duplicate_resolution_mode]
      by (simp add: mode_codec.print_eq_iff)
    show "us_byte_identity_id s = us_byte_identity_id t"
      using arg_cong [OF a, of ur_byte_identity_id] by simp
  qed (use a in \<open>auto simp: values_from_session_def\<close>)
qed simp

lemma mode_from_value [simp]:
  "duplicate_resolution_mode_from_row (PyStr (duplicate_resolution_mode_value m)) = m"
  by (simp add: duplicate_resolution_mode_from_row_def mode_codec.parse_print)

lemma mode_from_row_iff:
  "t \<in> set [lit ''explicit'', lit ''silent_keep_separate''] \<Longrightarrow>
   duplicate_resolution_mode_value (duplicate_resolution_mode_from_row (PyStr t)) = t"
  by (auto simp: duplicate_resolution_mode_from_row_def enum_parse_def lit_def)

lemma opt_enum_parse:
  "opt_map validated_media_kind_parse (map_option validated_media_kind_value k) = Inr k"
  "opt_map validated_format_parse (map_option validated_format_value f) = Inr f"
  "opt_map duplicate_disposition_parse (map_option duplicate_disposition_value d) = Inr d"
  by (simp_all add: media_kind_codec.opt_map_parse_iff format_codec.opt_map_parse_iff
      disposition_codec.opt_map_parse_iff option.pred_set)

lemma identity_to_string_eq: "identity_to_string = uuid_to_text"
  by (rule ext) (simp add: identity_to_string_def)

lemma opt_identity_iff:
  "opt_map identity_from_string t = Inr x \<longleftrightarrow>
     pred_option is_uuid4 x \<and> t = map_option uuid_to_text x"
  by (simp add: identity.opt_map_parse_iff identity_to_string_eq)

lemma opt_identity_parse:
  "pred_option is_uuid4 i \<Longrightarrow> opt_map identity_from_string (map_option uuid_to_text i) = Inr i"
  by (simp add: opt_identity_iff)

lemma session_from_row_iff:
  assumes "ur_duplicate_resolution_mode r \<in> set [lit ''explicit'', lit ''silent_keep_separate'']"
  shows "session_from_row r = Inr s \<longleftrightarrow> upload_session_wf s \<and> r = values_from_session s"
proof
  assume "session_from_row r = Inr s"
  then show "upload_session_wf s \<and> r = values_from_session s"
    by (auto simp: session_from_row_def and_then_Inr upload_session_post_init_iff
        upload_session_id.parse_iff upload_state_codec.parse_iff upload_storage_key_iff
        upload_display_filename_iff media_kind_codec.opt_map_parse_iff
        format_codec.opt_map_parse_iff opt_identity_iff
        disposition_codec.opt_map_parse_iff Let_def values_from_session_def
        mode_from_row_iff [OF assms])
next
  assume a: "upload_session_wf s \<and> r = values_from_session s"
  then have w: "is_uuid4 (us_id s)" "storage_key_pattern (us_storage_key s)"
      "plain_filename (us_display_filename s)" and i: "pred_option is_uuid4 (us_byte_identity_id s)"
    by (auto simp: upload_wf_defs)
  have e: "upload_session_post_init s = Inr ()"
    using a by (simp add: upload_session_post_init_iff)
  note p = opt_enum_parse(1-3) opt_identity_parse [OF i]
    upload_session_id.parse_print [OF w(1)] upload_state_codec.parse_print [OF TrueI]
  have "upload_storage_key (PyStr (us_storage_key s)) = Inr (us_storage_key s)"
    and "upload_display_filename (PyStr (us_display_filename s)) = Inr (us_display_filename s)"
    using w by (simp_all add: upload_storage_key_iff upload_display_filename_iff)
  then show "session_from_row r = Inr s"
    using a e p(4-) by (cases s) (simp add: session_from_row_def opt_enum_parse Let_def)
qed


lemma session_from_values:
  "session_from_row (values_from_session s) =
     (if upload_session_wf s then Inr s else Inl FrameNestUploadSessionRepositoryError)"
proof -
  have m: "ur_duplicate_resolution_mode (values_from_session s)
      \<in> set [lit ''explicit'', lit ''silent_keep_separate'']"
    by (cases "us_duplicate_resolution_mode s") simp_all
  show ?thesis
  proof (cases "session_from_row (values_from_session s)")
    case (Inl e)
    then have "e = FrameNestUploadSessionRepositoryError"
      by (auto simp: session_from_row_def rescue_Inl)
    then show ?thesis using Inl session_from_row_iff [OF m, of s] by auto
  next
    case (Inr t)
    then show ?thesis using session_from_row_iff [OF m, of t] by auto
  qed
qed

lemma session_from_row_error:
  "session_from_row r = Inl e \<Longrightarrow> e = FrameNestUploadSessionRepositoryError"
  by (auto simp: session_from_row_def rescue_Inl)

section \<open>The constraints hold for every well-formed session\<close>

text \<open>The column constraint on the login key asks for one thing the constructor does not.\<close>

definition login_key_lower :: "upload_session \<Rightarrow> bool" where
  "login_key_lower s \<longleftrightarrow>
     pred_option (\<lambda>k. list_all (\<lambda>c. \<not> is_upper c) k) (us_created_by_login_key s)"

lemma class_plain:
  assumes "matches_class p lo hi s" and "\<not> p 0"
  shows "sql_length s = length s" and "lo \<le> length s" and "length s \<le> hi"
proof -
  have "0 \<notin> set s" using assms by (auto simp: matches_class_def list_all_iff)
  then show "sql_length s = length s" by (rule sql_length_no_nul)
qed (use assms in \<open>auto simp: matches_class_def\<close>)

lemma uuid_text_length [simp]: "sql_length (uuid_to_text u) = 36"
proof -
  have "0 \<notin> set (uuid_to_text u)"
    using hex_not_special [of 0] set_hyphenate [of "uuid_hex u"]
    by (auto simp: uuid_to_text_def uuid_hex_def dest!: subsetD hex_digits_class
        simp: char_class_defs)
  then show ?thesis by (simp add: sql_length_no_nul)
qed

lemma state_value_sets:
  "upload_state_value s \<in> set UPLOAD_SESSION_STATE_VALUES"
  "upload_state_value s \<in> set COMPLETE_UPLOAD_SESSION_STATE_VALUES
     \<longleftrightarrow> s \<in> set COMPLETE_UPLOAD_SESSION_STATES"
  "upload_state_value s \<in> set VALIDATED_UPLOAD_SESSION_STATE_VALUES
     \<longleftrightarrow> s \<in> set VALIDATED_UPLOAD_SESSION_STATES"
  by (cases s; simp add: UPLOAD_SESSION_STATE_VALUES_def COMPLETE_UPLOAD_SESSION_STATE_VALUES_def
      VALIDATED_UPLOAD_SESSION_STATE_VALUES_def upload_state_set_defs lit_def)+

lemma storage_key_checks:
  assumes "storage_key_pattern k"
  shows "16 \<le> sql_length k \<and> sql_length k \<le> 128"
    and "k = sql_lower k
       \<and> not_glob_outside (\<lambda>c. is_lower c \<or> is_digit c \<or> c = 46 \<or> c = 95 \<or> c = 45) k
       \<and> 47 \<notin> set k \<and> 92 \<notin> set k"
proof -
  have c: "list_all (\<lambda>c. is_lower c \<or> is_digit c \<or> c = 46 \<or> c = 95 \<or> c = 45) k"
    and l: "16 \<le> length k" "length k \<le> 128"
    using assms by (auto simp: storage_key_pattern_def matches_head_class_def matches_class_def
        split: list.splits)
  have "0 \<notin> set k" using c by (auto simp: list_all_iff char_class_defs)
  then show "16 \<le> sql_length k \<and> sql_length k \<le> 128" using l by (simp add: sql_length_no_nul)
  have "list_all (\<lambda>c. \<not> is_upper c) k" using c by (auto simp: list_all_iff char_class_defs)
  then show "k = sql_lower k
       \<and> not_glob_outside (\<lambda>c. is_lower c \<or> is_digit c \<or> c = 46 \<or> c = 95 \<or> c = 45) k
       \<and> 47 \<notin> set k \<and> 92 \<notin> set k"
    using c by (auto simp: sql_lower_def ascii_lower_id not_glob_outside_def list_all_iff
        char_class_defs)
qed

lemma filename_checks:
  assumes "plain_filename f"
  shows "1 \<le> sql_length f \<and> sql_length f \<le> 255" and "47 \<notin> set f \<and> 92 \<notin> set f"
  using class_plain [OF assms [unfolded plain_filename_def]] assms
  by (auto simp: plain_filename_def matches_class_def list_all_iff is_separator_def)

lemma failure_code_checks:
  "failure_code_pattern c \<Longrightarrow> 1 \<le> sql_length c \<and> sql_length c \<le> 80
     \<and> not_glob_outside (\<lambda>x. is_upper x \<or> is_digit x \<or> x = 95) c"
  using class_plain [of "\<lambda>x. is_upper x \<or> is_digit x \<or> x = 95" 1 80 c]
  by (auto simp: failure_code_pattern_def not_glob_outside_def matches_class_def char_class_defs)

lemma login_key_checks:
  assumes "login_key_ok k" and "list_all (\<lambda>c. \<not> is_upper c) k"
  shows "1 \<le> sql_length k \<and> sql_length k \<le> 254 \<and> k = sql_lower k
     \<and> 32 \<notin> set k \<and> 9 \<notin> set k \<and> 10 \<notin> set k \<and> 13 \<notin> set k"
proof -
  have a: "\<forall>c \<in> set k. \<not> is_space c \<and> 32 \<le> c \<and> c \<noteq> 127"
    and l: "1 \<le> length k" "length k \<le> 254"
    using assms(1)
    by (simp_all add: login_key_ok_def matches_class_def list_all_iff MAX_LOGIN_LENGTH_def)
  from a have c: "\<forall>c \<in> set k. \<not> is_space c" by blast
  from a have n: "0 \<notin> set k" using not_numeral_le_zero by blast
  have "32 \<notin> set k" "9 \<notin> set k" "10 \<notin> set k" "13 \<notin> set k"
    using bspec [OF c, of 32] bspec [OF c, of 9] bspec [OF c, of 10] bspec [OF c, of 13]
    by (auto simp: is_space_def)
  moreover have "sql_lower k = k" using assms(2) by (simp add: sql_lower_def ascii_lower_id)
  ultimately show ?thesis using l sql_length_no_nul [OF n] by simp
qed


lemma checksum_pair_checks:
  assumes "checksum_pair_ok a h"
  shows "check_passes (sql_or (sql_and (sql_is_null a) (sql_is_null h))
       (sql_and (sql_eq a (lit ''sha256'')) (sql_is_not_null h)))"
    and "pred_option ck_checksum_hex h"
  using assms by (auto simp: checksum_pair_ok_def sha256_pattern_ck)

lemma evidence_pair_check:
  assumes "evidence_pair_ok k f"
  shows "check_passes (ck_evidence_pair (map_option validated_media_kind_value k)
     (map_option validated_format_value f))"
  using assms
  by (auto simp: evidence_pair_ok_def upload_state_set_defs ck_evidence_pair_def lit_def)

lemma full_evidence_checks:
  assumes "full_evidence s"
  shows "sql_all (ck_row_evidence (values_from_session s)) = Some True"
proof -
  obtain h k f i where "us_checksum_algorithm s = Some (lit ''sha256'')" "us_checksum_hex s = Some h"
      "us_validated_media_kind s = Some k" "us_validated_format s = Some f"
      "us_byte_identity_id s = Some i"
    using assms unfolding full_evidence_def by blast
  then show ?thesis by (simp add: ck_row_evidence_def)
qed

lemma validated_state_check:
  assumes "upload_session_wf s"
  shows "check_passes (sql_or (Some (us_state s \<notin> set VALIDATED_UPLOAD_SESSION_STATES))
     (sql_all (Some (us_received_size_bytes s = us_declared_size_bytes s)
        # ck_row_evidence (values_from_session s))))"
proof (cases "us_state s \<in> set VALIDATED_UPLOAD_SESSION_STATES")
  case True
  then have "full_evidence s" "us_received_size_bytes s = us_declared_size_bytes s"
    using assms by (auto simp: upload_wf_defs state_requires_complete_upload_def
        upload_state_set_defs)
  then show ?thesis by (simp add: full_evidence_checks)
qed simp

lemma disposition_check:
  assumes "upload_session_wf s"
  shows "check_passes (sql_or (sql_is_null (ur_duplicate_disposition (values_from_session s)))
       (sql_all (ck_row_evidence (values_from_session s)
          @ [sql_or (sql_and (sql_eq (ur_duplicate_disposition (values_from_session s))
                        (lit ''keep_separate''))
                       (Some (ur_state (values_from_session s) \<in> set [lit ''publish_pending'',
                          lit ''published'', lit ''cataloged'', lit ''failed''])))
                    (sql_and (sql_eq (ur_duplicate_disposition (values_from_session s))
                        (lit ''discard''))
                       (Some (ur_state (values_from_session s) = lit ''cancelled'')))])))"
proof (cases "us_duplicate_disposition s")
  case None
  then show ?thesis by simp
next
  case (Some d)
  then have "full_evidence s" and "us_state s \<in> set (disposition_allowed_states d)"
    using assms by (auto simp: upload_wf_defs)
  then show ?thesis
    using Some by (cases d) (auto simp: sql_all_append full_evidence_checks lit_def)
qed

lemma optional_check:
  "check_passes (sql_or (sql_is_null x) (sql_test p x)) \<longleftrightarrow> pred_option p x"
  by (cases x) simp_all

lemma values_row_ok:
  assumes "upload_session_wf s"
  shows "upload_row_ok (values_from_session s) \<longleftrightarrow> login_key_lower s"
proof
  assume "upload_row_ok (values_from_session s)"
  then have "pred_option (\<lambda>k. k = sql_lower k) (us_created_by_login_key s)"
    by (auto simp: upload_row_ok_def upload_row_checks_def optional_check option.pred_set)
  then show "login_key_lower s"
    using ascii_lower_id_iff
    by (auto simp: login_key_lower_def sql_lower_def option.pred_set ) (metis ascii_lower_id_iff)
next
  assume l: "login_key_lower s"
  have w: "upload_names_ok s" "upload_sizes_ok s" "upload_times_ok s" "upload_evidence_ok s"
    using assms by (auto simp: upload_session_wf_def)
  have k: "storage_key_pattern (us_storage_key s)" and f: "plain_filename (us_display_filename s)"
    and e: "checksum_pair_ok (us_checksum_algorithm s) (us_checksum_hex s)"
       "evidence_pair_ok (us_validated_media_kind s) (us_validated_format s)"
    using w by (auto simp: upload_names_ok_def upload_evidence_ok_def)
  have login: "pred_option (\<lambda>k. 1 \<le> sql_length k \<and> sql_length k \<le> 254 \<and> k = sql_lower k
        \<and> 32 \<notin> set k \<and> 9 \<notin> set k \<and> 10 \<notin> set k \<and> 13 \<notin> set k) (us_created_by_login_key s)"
    using w(1) l login_key_checks
    by (cases "us_created_by_login_key s") (auto simp: upload_names_ok_def login_key_lower_def)
  have code: "pred_option (\<lambda>c. 1 \<le> sql_length c \<and> sql_length c \<le> 80
        \<and> not_glob_outside (\<lambda>x. is_upper x \<or> is_digit x \<or> x = 95) c) (us_failure_code s)"
    using w(1) failure_code_checks
    by (cases "us_failure_code s") (auto simp: upload_names_ok_def)
  have sizes: "us_declared_size_bytes s > 0" "us_received_size_bytes s \<ge> 0"
      "us_received_size_bytes s \<le> us_declared_size_bytes s"
      "upload_state_value (us_state s) \<noteq> lit ''created'' \<or> us_received_size_bytes s = 0"
      "us_state s \<notin> set COMPLETE_UPLOAD_SESSION_STATES
         \<or> us_received_size_bytes s = us_declared_size_bytes s"
    using w(2) upload_state_codec.print_eq_iff [of "us_state s" U_CREATED]
    by (auto simp: upload_sizes_ok_def state_requires_complete_upload_def)
  have times: "0 \<le> us_created_at_ms s" "0 \<le> us_updated_at_ms s"
      "us_created_at_ms s \<le> us_updated_at_ms s" "us_created_at_ms s < us_expires_at_ms s"
      "0 \<le> us_version s"
    using w(3) by (auto simp: upload_times_ok_def)
  have mode: "duplicate_resolution_mode_value (us_duplicate_resolution_mode s)
      \<in> set [lit ''explicit'', lit ''silent_keep_separate'']"
    by (cases "us_duplicate_resolution_mode s") simp_all
  note rules = storage_key_checks [OF k] filename_checks [OF f] sizes times login code mode
    checksum_pair_checks [OF e(1)] evidence_pair_check [OF e(2)] validated_state_check [OF assms]
  show "upload_row_ok (values_from_session s)"
    unfolding upload_row_ok_def upload_row_checks_def list.pred_inject
    apply (intro conjI TrueI disposition_check [OF assms])
    by (simp_all only: values_from_session_simps check_passes_Some state_value_sets uuid_text_length
        optional_check rules [THEN eqTrueI] simp_thms list.pred_inject(1))
qed


section \<open>Sound stores\<close>

type_synonym session_map = "uuid \<Rightarrow> upload_session option"

definition session_rows_ok :: "catalog_db \<Rightarrow> bool" where
  "session_rows_ok db \<longleftrightarrow> distinct (map ur_id (upload_sessions db))
     \<and> distinct (map ur_storage_key (upload_sessions db))
     \<and> list_all (\<lambda>r. upload_row_ok r \<and> ok (session_from_row r)) (upload_sessions db)"

definition stored_session :: "catalog_db \<Rightarrow> session_map" where
  "stored_session db i =
     (case row_by_id i db of
        None \<Rightarrow> None
      | Some r \<Rightarrow> (case session_from_row r of Inl _ \<Rightarrow> None | Inr s \<Rightarrow> Some s))"

definition sound_session :: "upload_session \<Rightarrow> bool" where
  "sound_session s \<longleftrightarrow> upload_session_wf s \<and> login_key_lower s"

lemma row_mode_ok:
  "upload_row_ok r \<Longrightarrow>
     ur_duplicate_resolution_mode r \<in> set [lit ''explicit'', lit ''silent_keep_separate'']"
  unfolding upload_row_ok_def upload_row_checks_def list.pred_inject check_passes_Some
  by blast

lemma sound_row_iff:
  "upload_row_ok r \<and> ok (session_from_row r) \<longleftrightarrow>
     (\<exists>s. sound_session s \<and> r = values_from_session s)"
proof
  assume a: "upload_row_ok r \<and> ok (session_from_row r)"
  then obtain s where "session_from_row r = Inr s" by (auto simp: ok_iff)
  then have "upload_session_wf s" "r = values_from_session s"
    using session_from_row_iff [OF row_mode_ok] a by blast+
  with a show "\<exists>s. sound_session s \<and> r = values_from_session s"
    by (auto simp: sound_session_def values_row_ok)
next
  assume "\<exists>s. sound_session s \<and> r = values_from_session s"
  then show "upload_row_ok r \<and> ok (session_from_row r)"
    by (auto simp: sound_session_def values_row_ok session_from_values)
qed

lemma session_rows_ok_iff:
  "session_rows_ok db \<longleftrightarrow> distinct (map ur_id (upload_sessions db))
     \<and> distinct (map ur_storage_key (upload_sessions db))
     \<and> (\<forall>r \<in> set (upload_sessions db). \<exists>s. sound_session s \<and> r = values_from_session s)"
  by (simp add: session_rows_ok_def list_all_iff sound_row_iff)

lemma row_by_id_some_iff:
  assumes "session_rows_ok db"
  shows "row_by_id i db = Some r \<longleftrightarrow> r \<in> set (upload_sessions db) \<and> ur_id r = uuid_to_text i"
  using assms find_key_Some_iff [of ur_id "upload_sessions db"]
  by (simp add: row_by_id_def sql_first_def session_rows_ok_def)

lemma stored_session_iff:
  assumes "session_rows_ok db"
  shows "stored_session db i = Some s \<longleftrightarrow>
    values_from_session s \<in> set (upload_sessions db) \<and> us_id s = i"
proof -
  have "values_from_session s \<in> set (upload_sessions db) \<Longrightarrow> sound_session s" for s
    using assms by (fastforce simp: session_rows_ok_iff)
  moreover have "row_by_id i db = Some r \<Longrightarrow> \<exists>s. sound_session s \<and> r = values_from_session s" for r
    using assms by (auto simp: row_by_id_some_iff [OF assms] session_rows_ok_iff)
  ultimately show ?thesis
    using row_by_id_some_iff [OF assms, of i "values_from_session s"]
    by (fastforce simp: stored_session_def sound_session_def session_from_values
        split: option.splits sum.splits)
qed

lemma stored_session_sound:
  assumes "session_rows_ok db" and "stored_session db i = Some s"
  shows "sound_session s" and "us_id s = i"
  using assms by (fastforce simp: stored_session_iff session_rows_ok_iff)+

lemma row_by_id_stored:
  assumes "session_rows_ok db"
  shows "row_by_id i db = map_option values_from_session (stored_session db i)"
proof (cases "row_by_id i db")
  case None
  then show ?thesis by (simp add: stored_session_def)
next
  case (Some r)
  then obtain s where "sound_session s" "r = values_from_session s"
    using assms by (auto simp: row_by_id_some_iff [OF assms] session_rows_ok_iff)
  then show ?thesis
    using Some by (simp add: stored_session_def session_from_values sound_session_def)
qed

lemma stored_session_of_row:
  "stored_session db i = (case row_by_id i db of None \<Rightarrow> None
     | Some r \<Rightarrow> (case session_from_row r of Inl _ \<Rightarrow> None | Inr s \<Rightarrow> Some s))"
  by (simp add: stored_session_def)

lemma require_session_stored:
  assumes "session_rows_ok db"
  shows "require_session i db =
    (case stored_session db i of None \<Rightarrow> Inl UploadSessionNotFoundError | Some s \<Rightarrow> Inr s)"
  using stored_session_sound [OF assms, of i]
  by (auto simp: require_session_def row_by_id_stored [OF assms] session_from_values
      sound_session_def split: option.splits)

theorem get_session_stored:
  "session_rows_ok db \<Longrightarrow> get_session i db = (Inr (stored_session db i), db)"
  using stored_session_sound [of db i]
  by (auto simp: get_session_def run_in_transaction_def row_by_id_stored session_from_values
      sound_session_def split: option.splits)

lemma upload_sessions_upd [simp]: "upload_sessions (db\<lparr>upload_sessions := rows\<rparr>) = rows"
  by simp

section \<open>The guarded update, once and for all\<close>

text \<open>The abstract operation: one session of the map changes, or the map stays.\<close>

definition spec_update ::
    "session_repo_error \<Rightarrow> (upload_session \<Rightarrow> bool) \<Rightarrow> (upload_session \<Rightarrow> upload_session)
     \<Rightarrow> (upload_session \<Rightarrow> session_repo_error + upload_session) \<Rightarrow> uuid \<Rightarrow> session_map
     \<Rightarrow> (session_repo_error + upload_session) \<times> session_map" where
  "spec_update missing guard change diagnose i m =
     (case m i of
        None \<Rightarrow> (Inl missing, m)
      | Some s \<Rightarrow>
          if guard s then
            if upload_session_wf (change s) then (Inr (change s), m(i \<mapsto> change s))
            else (Inl FrameNestUploadSessionRepositoryError, m)
          else (diagnose s, m))"

locale guarded_update =
  fixes row_guard :: "upload_row \<Rightarrow> bool"
    and row_change :: "upload_row \<Rightarrow> upload_row"
    and row_diagnose :: "upload_row option \<Rightarrow> session_repo_error + upload_session"
    and missing :: session_repo_error
    and guard :: "upload_session \<Rightarrow> bool"
    and change :: "upload_session \<Rightarrow> upload_session"
    and diagnose :: "upload_session \<Rightarrow> session_repo_error + upload_session"
  assumes row_change_id: "ur_id (row_change r) = ur_id r"
    and row_change_key: "ur_storage_key (row_change r) = ur_storage_key r"
    and change_login: "us_created_by_login_key (change s) = us_created_by_login_key s"
    and guard_eq: "upload_session_wf s \<Longrightarrow> row_guard (values_from_session s) = guard s"
    and change_eq: "row_change (values_from_session s) = values_from_session (change s)"
    and diagnose_eq: "upload_session_wf s \<Longrightarrow> \<not> guard s \<Longrightarrow>
      row_diagnose (Some (values_from_session s)) = diagnose s"
    and diagnose_missing: "row_diagnose None = Inl missing"
begin

abbreviation hit :: "uuid \<Rightarrow> upload_row \<Rightarrow> bool" where
  "hit i r \<equiv> ur_id r = uuid_to_text i \<and> row_guard r"

abbreviation new_rows :: "uuid \<Rightarrow> upload_row list \<Rightarrow> upload_row list" where
  "new_rows i rows \<equiv> map (\<lambda>r. if hit i r then row_change r else r) rows"

lemma change_id [simp]: "us_id (change s) = us_id s"
  using row_change_id [of "values_from_session s"] by (simp add: change_eq)

lemma change_sound: "sound_session s \<Longrightarrow> upload_session_wf (change s) \<Longrightarrow> sound_session (change s)"
  by (simp add: sound_session_def login_key_lower_def change_login)

lemma row_by_id_new:
  assumes "session_rows_ok db"
  shows "row_by_id j (db\<lparr>upload_sessions := new_rows i (upload_sessions db)\<rparr>) =
    (case row_by_id j db of None \<Rightarrow> None
     | Some r \<Rightarrow> Some (if hit i r then row_change r else r))"
  using assms find_key_update [of ur_id "upload_sessions db" row_change]
  by (simp add: row_by_id_def sql_first_def session_rows_ok_def row_change_id)

lemma no_hit_same:
  assumes "\<And>r. r \<in> set rows \<Longrightarrow> \<not> hit i r"
  shows "new_rows i rows = rows" and "filter (hit i) rows = []"
    and "\<not> list_ex (\<lambda>r. hit i r \<and> \<not> upload_row_ok (row_change r)) rows"
  using assms by (auto intro!: map_idI simp: list_ex_iff filter_empty_conv)

lemma update_no_hit:
  assumes "session_rows_ok db" and "\<And>s. stored_session db i = Some s \<Longrightarrow> \<not> guard s"
  shows "update_session_row i row_guard row_change row_diagnose db =
    and_then (row_diagnose (row_by_id i db)) (\<lambda>s. Inr (s, db))"
proof -
  have "\<not> hit i r" if r: "r \<in> set (upload_sessions db)" for r
  proof
    assume h: "hit i r"
    obtain s where s: "sound_session s" "r = values_from_session s"
      using assms(1) r by (auto simp: session_rows_ok_iff)
    then have "stored_session db i = Some s"
      using h r by (simp add: stored_session_iff [OF assms(1)])
    then show False using assms(2) h s by (auto simp: guard_eq sound_session_def)
  qed
  note n = no_hit_same [OF this, of "upload_sessions db"]
  show ?thesis
    by (simp only: update_session_row_def sql_update_def n if_False option.case prod.case Let_def
        list.size) simp
qed

lemma filter_hit:
  assumes "session_rows_ok db" and "stored_session db i = Some s" and "guard s"
  shows "filter (hit i) (upload_sessions db) = [values_from_session s]"
proof -
  have "find (\<lambda>r. ur_id r = uuid_to_text i) (upload_sessions db) = Some (values_from_session s)"
    using row_by_id_stored [OF assms(1), of i] assms(2) by (simp add: row_by_id_def sql_first_def)
  moreover have "upload_session_wf s"
    using stored_session_sound [OF assms(1,2)] by (simp add: sound_session_def)
  ultimately show ?thesis
    using filter_key_unique [of ur_id "upload_sessions db" "uuid_to_text i" "values_from_session s"
        row_guard] assms(1,3)
    by (simp add: session_rows_ok_def guard_eq)
qed

lemma rows_ok_new:
  assumes "session_rows_ok db" and "stored_session db i = Some s" and "guard s"
    and "upload_session_wf (change s)"
  shows "session_rows_ok (db\<lparr>upload_sessions := new_rows i (upload_sessions db)\<rparr>)"
proof -
  have h: "r = values_from_session s" if "r \<in> set (upload_sessions db)" "hit i r" for r
  proof -
    have "r \<in> set (filter (hit i) (upload_sessions db))" using that by simp
    then show ?thesis unfolding filter_hit [OF assms(1,2,3)] by simp
  qed
  have "sound_session (change s)"
    using change_sound [OF stored_session_sound(1) [OF assms(1,2)] assms(4)] .
  moreover have "row_change r = values_from_session (change s)"
    if "r \<in> set (upload_sessions db)" "hit i r" for r
    using h [OF that] by (simp add: change_eq)
  ultimately have "\<forall>r \<in> set (new_rows i (upload_sessions db)).
      \<exists>s. sound_session s \<and> r = values_from_session s"
    using assms(1) by (fastforce simp: session_rows_ok_iff)
  moreover have "map ur_id (new_rows i (upload_sessions db)) = map ur_id (upload_sessions db)"
    by (rule map_key_update) (rule row_change_id)
  moreover have "map ur_storage_key (new_rows i (upload_sessions db))
      = map ur_storage_key (upload_sessions db)"
    by (rule map_key_update) (rule row_change_key)
  ultimately show ?thesis
    using assms(1)
    by (simp only: session_rows_ok_iff catalog_db.select_convs catalog_db.update_convs
        upload_sessions_upd)
qed

lemma update_hit:
  assumes "session_rows_ok db" and "stored_session db i = Some s" and "guard s"
  shows "update_session_row i row_guard row_change row_diagnose db =
    (if upload_session_wf (change s)
     then Inr (change s, db\<lparr>upload_sessions := new_rows i (upload_sessions db)\<rparr>)
     else Inl FrameNestUploadSessionRepositoryError)"
proof -
  define db' where "db' = db\<lparr>upload_sessions := new_rows i (upload_sessions db)\<rparr>"
  have snd: "sound_session s" using stored_session_sound [OF assms(1,2)] by simp
  have row: "row_by_id i db = Some (values_from_session s)"
    using row_by_id_stored [OF assms(1)] assms(2) by simp
  have hit: "hit i (values_from_session s)"
    using stored_session_sound [OF assms(1,2)] assms(3) by (simp add: guard_eq sound_session_def)
  have row': "row_by_id i db' = Some (values_from_session (change s))"
    using row_by_id_new [OF assms(1), of i i] hit by (simp add: row db'_def change_eq)
  have ex: "list_ex (\<lambda>r. hit i r \<and> \<not> upload_row_ok (row_change r)) (upload_sessions db)
      \<longleftrightarrow> \<not> upload_row_ok (values_from_session (change s))"
  proof -
    have "list_ex (\<lambda>r. hit i r \<and> \<not> upload_row_ok (row_change r)) (upload_sessions db)
        \<longleftrightarrow> (\<exists>r \<in> set (filter (hit i) (upload_sessions db)). \<not> upload_row_ok (row_change r))"
      by (auto simp: list_ex_iff)
    then show ?thesis unfolding filter_hit [OF assms] by (simp add: change_eq)
  qed
  have "update_session_row i row_guard row_change row_diagnose db =
    (if \<not> upload_row_ok (values_from_session (change s))
     then Inl FrameNestUploadSessionRepositoryError
     else and_then (require_session i db') (\<lambda>s. Inr (s, db')))"
    by (simp only: update_session_row_def sql_update_def ex filter_hit [OF assms]
        Let_def) (simp add: db'_def)
  then show ?thesis
    using change_sound [OF snd]
    by (auto simp: require_session_def row' [unfolded db'_def] session_from_values db'_def
        sound_session_def values_row_ok)
qed

lemma stored_new:
  assumes "session_rows_ok db" and "stored_session db i = Some s" and "guard s"
    and "upload_session_wf (change s)"
  shows "stored_session (db\<lparr>upload_sessions := new_rows i (upload_sessions db)\<rparr>)
    = (stored_session db)(i \<mapsto> change s)"
proof
  fix j
  let ?db = "db\<lparr>upload_sessions := new_rows i (upload_sessions db)\<rparr>"
  have wf: "upload_session_wf s" and i: "us_id s = i"
    using stored_session_sound [OF assms(1,2)] by (auto simp: sound_session_def)
  show "stored_session ?db j = ((stored_session db)(i \<mapsto> change s)) j"
  proof (cases "j = i")
    case True
    then show ?thesis
      using row_by_id_stored [OF assms(1), of i] assms wf i
      by (simp add: stored_session_of_row [of ?db] row_by_id_new [OF assms(1)] guard_eq change_eq
          session_from_values)
  next
    case False
    have "row_by_id j ?db = row_by_id j db"
    proof (cases "row_by_id j db")
      case (Some r)
      then have "ur_id r = uuid_to_text j" by (simp add: row_by_id_some_iff [OF assms(1)])
      with False Some show ?thesis by (simp add: row_by_id_new [OF assms(1)])
    qed (simp add: row_by_id_new [OF assms(1)])
    with False show ?thesis by (simp add: stored_session_of_row)
  qed
qed

text \<open>The repository method computes the abstract operation and keeps the store sound.\<close>

lemma refines:
  assumes "session_rows_ok db"
    and "run_in_transaction (update_session_row i row_guard row_change row_diagnose) db
      = (result, db')"
  shows "spec_update missing guard change diagnose i (stored_session db)
      = (result, stored_session db')"
    and "session_rows_ok db'"
    and "\<exists>rows. db' = db\<lparr>upload_sessions := rows\<rparr>"
proof -
  have same: "\<exists>rows. db = db\<lparr>upload_sessions := rows\<rparr>"
    by (rule exI [of _ "upload_sessions db"]) simp
  consider (hit) s where "stored_session db i = Some s" "guard s"
    | (miss) "\<And>s. stored_session db i = Some s \<Longrightarrow> \<not> guard s"
    by (cases "stored_session db i") auto
  then have "spec_update missing guard change diagnose i (stored_session db)
      = (result, stored_session db') \<and> session_rows_ok db'
      \<and> (\<exists>rows. db' = db\<lparr>upload_sessions := rows\<rparr>)"
  proof cases
    case (hit s)
    then show ?thesis
      using assms rows_ok_new [OF assms(1) hit] stored_new [OF assms(1) hit] same
      by (auto simp: run_in_transaction_def update_hit [OF assms(1) hit] spec_update_def
          split: if_splits)
  next
    case miss
    have "spec_update missing guard change diagnose i (stored_session db)
        = (row_diagnose (row_by_id i db), stored_session db)"
      using miss stored_session_sound [OF assms(1), of i]
      by (auto simp: spec_update_def row_by_id_stored [OF assms(1)] diagnose_missing diagnose_eq
          sound_session_def split: option.splits)
    moreover have "result = row_diagnose (row_by_id i db)" "db' = db"
      using assms(2)
      by (auto simp: run_in_transaction_def update_no_hit [OF assms(1) miss] and_then_def
          split: sum.splits)
    ultimately show ?thesis using assms(1) same by simp
  qed
  then show "spec_update missing guard change diagnose i (stored_session db)
      = (result, stored_session db')" and "session_rows_ok db'"
    and "\<exists>rows. db' = db\<lparr>upload_sessions := rows\<rparr>" by blast+
qed

lemma refines_map:
  assumes "session_rows_ok db"
  shows "map_prod id stored_session
      (run_in_transaction (update_session_row i row_guard row_change row_diagnose) db)
    = spec_update missing guard change diagnose i (stored_session db)"
  using refines(1) [OF assms, of i]
  by (cases "run_in_transaction (update_session_row i row_guard row_change row_diagnose) db") simp

end

text \<open>
  Optimistic concurrency and evidence: the guard pins the version, the change raises it, and
  evidence that is there is not replaced.
\<close>

locale versioned_update = guarded_update +
  fixes expected_version :: int
  assumes guard_version: "guard s \<Longrightarrow> us_version s = expected_version"
    and change_version: "us_version (change s) = us_version s + 1"
    and diagnose_replays: "diagnose s = Inr t \<Longrightarrow> t = s"
    and change_identity: "us_byte_identity_id (change s) = us_byte_identity_id s"
    and change_declared: "us_declared_size_bytes (change s) = us_declared_size_bytes s"
    and change_evidence: "guard s \<Longrightarrow> us_checksum_algorithm s \<noteq> None \<Longrightarrow>
      us_checksum_algorithm (change s) = us_checksum_algorithm s
      \<and> us_checksum_hex (change s) = us_checksum_hex s"
begin

lemma stale:
  assumes "session_rows_ok db" and "\<And>s. stored_session db i = Some s \<Longrightarrow> us_version s \<noteq> expected_version"
    and "run_in_transaction (update_session_row i row_guard row_change row_diagnose) db
      = (result, db')"
  shows "db' = db"
proof -
  have "\<not> guard s" if "stored_session db i = Some s" for s
    using assms(2) [OF that] guard_version by blast
  from update_no_hit [OF assms(1) this] show ?thesis
    using assms(3) by (auto simp: run_in_transaction_def and_then_def split: sum.splits)
qed

lemma effect:
  assumes "spec_update missing guard change diagnose i m = (result, m')"
  shows "m' = m \<or> (\<exists>s. m i = Some s \<and> us_version s = expected_version \<and> guard s
      \<and> upload_session_wf (change s) \<and> m' = m(i \<mapsto> change s) \<and> result = Inr (change s))"
  using assms guard_version by (auto simp: spec_update_def split: option.splits if_splits)

lemma result_stored:
  assumes "spec_update missing guard change diagnose i m = (Inr t, m')"
  shows "m' i = Some t"
  using assms diagnose_replays by (auto simp: spec_update_def split: option.splits if_splits)

end

end
