(* ===== verification/Upload_Session_Contracts.thy ===== *)
theory Upload_Session_Contracts
  imports Upload_Session_Store
begin

text \<open>
  The contract of every mutation of the upload session repository: its guard, its effect and
  its diagnosis on sessions, and the proof (an interpretation of \<open>versioned_update\<close>) that
  the SQL the repository runs computes it.
\<close>

named_theorems update_law_simps "what discharges the laws of a guarded update"

lemmas [update_law_simps] = upload_state_codec.print_eq_iff diagnose_row_def
  row_has_validation_evidence_def values_from_session_def

lemma state_text_iff [update_law_simps]:
  "upload_state_value s = lit ''created'' \<longleftrightarrow> s = U_CREATED"
  "upload_state_value s = lit ''receiving'' \<longleftrightarrow> s = U_RECEIVING"
  "upload_state_value s = lit ''received'' \<longleftrightarrow> s = U_RECEIVED"
  "upload_state_value s = lit ''validating'' \<longleftrightarrow> s = U_VALIDATING"
  "upload_state_value s = lit ''duplicate_pending'' \<longleftrightarrow> s = U_DUPLICATE_PENDING"
  "upload_state_value s = lit ''publish_pending'' \<longleftrightarrow> s = U_PUBLISH_PENDING"
  "upload_state_value s = lit ''published'' \<longleftrightarrow> s = U_PUBLISHED"
  "upload_state_value s = lit ''cataloged'' \<longleftrightarrow> s = U_CATALOGED"
  "upload_state_value s = lit ''rejected'' \<longleftrightarrow> s = U_REJECTED"
  "upload_state_value s = lit ''cancelled'' \<longleftrightarrow> s = U_CANCELLED"
  "upload_state_value s = lit ''expired'' \<longleftrightarrow> s = U_EXPIRED"
  "upload_state_value s = lit ''failed'' \<longleftrightarrow> s = U_FAILED"
  by (cases s; simp add: lit_def)+

section \<open>Receiving bytes\<close>

definition advance_spec ::
    "int \<Rightarrow> int \<Rightarrow> int \<Rightarrow> int \<Rightarrow> uuid \<Rightarrow> session_map
     \<Rightarrow> (session_repo_error + upload_session) \<times> session_map" where
  "advance_spec expected v next_offset t = spec_update UploadSessionNotFoundError
     (\<lambda>s. us_state s = U_RECEIVING \<and> us_received_size_bytes s = expected \<and> us_version s = v
        \<and> next_offset \<le> us_declared_size_bytes s)
     (\<lambda>s. s\<lparr>us_received_size_bytes := next_offset, us_updated_at_ms := t,
            us_version := us_version s + 1\<rparr>)
     (\<lambda>s. if us_state s \<noteq> U_RECEIVING then Inl InvalidUploadSessionTransitionError
          else if us_received_size_bytes s \<noteq> expected then Inl UploadOffsetConflictError
          else if us_version s \<noteq> v then Inl UploadSessionConcurrencyConflictError
          else Inl UploadSizeLimitExceededError)"

interpretation advance_update: versioned_update
  "\<lambda>r. ur_state r = upload_state_value U_RECEIVING \<and> ur_received_size_bytes r = expected
     \<and> ur_version r = v \<and> ur_declared_size_bytes r \<ge> next_offset"
  "\<lambda>r. r\<lparr>ur_received_size_bytes := next_offset, ur_updated_at_ms := t,
         ur_version := ur_version r + 1\<rparr>"
  "raise_offset_guard_error expected v next_offset"
  UploadSessionNotFoundError
  "\<lambda>s. us_state s = U_RECEIVING \<and> us_received_size_bytes s = expected \<and> us_version s = v
     \<and> next_offset \<le> us_declared_size_bytes s"
  "\<lambda>s. s\<lparr>us_received_size_bytes := next_offset, us_updated_at_ms := t,
         us_version := us_version s + 1\<rparr>"
  "\<lambda>s. if us_state s \<noteq> U_RECEIVING then Inl InvalidUploadSessionTransitionError
       else if us_received_size_bytes s \<noteq> expected then Inl UploadOffsetConflictError
       else if us_version s \<noteq> v then Inl UploadSessionConcurrencyConflictError
       else Inl UploadSizeLimitExceededError"
  v
  for expected v next_offset t
  by unfold_locales
    (auto simp: raise_offset_guard_error_def update_law_simps split: if_splits)


definition checksum_spec ::
    "upload_state \<Rightarrow> int \<Rightarrow> pystr \<Rightarrow> int \<Rightarrow> uuid \<Rightarrow> session_map
     \<Rightarrow> (session_repo_error + upload_session) \<times> session_map" where
  "checksum_spec state v checksum t = spec_update UploadSessionNotFoundError
     (\<lambda>s. us_state s = state \<and> us_version s = v \<and> us_checksum_algorithm s = None
        \<and> us_checksum_hex s = None)
     (\<lambda>s. s\<lparr>us_checksum_algorithm := Some (lit ''sha256''), us_checksum_hex := Some checksum,
            us_updated_at_ms := t, us_version := us_version s + 1\<rparr>)
     (\<lambda>s. if us_state s \<noteq> state then Inl InvalidUploadSessionTransitionError
          else if us_version s \<noteq> v then Inl UploadSessionConcurrencyConflictError
          else if us_checksum_algorithm s = Some (lit ''sha256'')
               \<and> us_checksum_hex s = Some checksum then Inr s
          else Inl InvalidUploadChecksumError)"

interpretation checksum_update: versioned_update
  "\<lambda>r. ur_state r = upload_state_value state \<and> ur_version r = v
     \<and> ur_checksum_algorithm r = None \<and> ur_checksum_hex r = None"
  "\<lambda>r. r\<lparr>ur_checksum_algorithm := Some (lit ''sha256''), ur_checksum_hex := Some checksum,
         ur_updated_at_ms := t, ur_version := ur_version r + 1\<rparr>"
  "diagnose_row (\<lambda>r.
     if ur_state r \<noteq> upload_state_value state then Inl InvalidUploadSessionTransitionError
     else if ur_version r \<noteq> v then Inl UploadSessionConcurrencyConflictError
     else if ur_checksum_algorithm r = Some (lit ''sha256'') \<and> ur_checksum_hex r = Some checksum
     then session_from_row r
     else Inl InvalidUploadChecksumError)"
  UploadSessionNotFoundError
  "\<lambda>s. us_state s = state \<and> us_version s = v \<and> us_checksum_algorithm s = None
     \<and> us_checksum_hex s = None"
  "\<lambda>s. s\<lparr>us_checksum_algorithm := Some (lit ''sha256''), us_checksum_hex := Some checksum,
         us_updated_at_ms := t, us_version := us_version s + 1\<rparr>"
  "\<lambda>s. if us_state s \<noteq> state then Inl InvalidUploadSessionTransitionError
       else if us_version s \<noteq> v then Inl UploadSessionConcurrencyConflictError
       else if us_checksum_algorithm s = Some (lit ''sha256'')
            \<and> us_checksum_hex s = Some checksum then Inr s
       else Inl InvalidUploadChecksumError"
  v
  for state v checksum t
proof (unfold_locales, goal_cases)
  case (6 s)
  then show ?case
    by (simp add: diagnose_row_def session_from_values upload_state_codec.print_eq_iff)
qed (auto simp: update_law_simps split: if_splits)

section \<open>State transitions\<close>

definition transition_spec ::
    "upload_state \<Rightarrow> upload_state \<Rightarrow> int \<Rightarrow> int \<Rightarrow> pystr option \<Rightarrow> uuid \<Rightarrow> session_map
     \<Rightarrow> (session_repo_error + upload_session) \<times> session_map" where
  "transition_spec state target v t code = spec_update UploadSessionNotFoundError
     (\<lambda>s. us_state s = state \<and> us_version s = v
        \<and> (target \<in> set COMPLETE_UPLOAD_SESSION_STATES \<longrightarrow>
             us_received_size_bytes s = us_declared_size_bytes s)
        \<and> (target \<in> set VALIDATED_UPLOAD_SESSION_STATES \<longrightarrow> full_evidence s))
     (\<lambda>s. s\<lparr>us_state := target, us_updated_at_ms := t, us_failure_code := code,
            us_version := us_version s + 1\<rparr>)
     (\<lambda>s. if us_state s \<noteq> state then Inl InvalidUploadSessionTransitionError
          else if us_version s \<noteq> v then Inl UploadSessionConcurrencyConflictError
          else if target \<in> set COMPLETE_UPLOAD_SESSION_STATES
               \<and> us_received_size_bytes s \<noteq> us_declared_size_bytes s
          then Inl IncompleteUploadSessionError
          else Inl InvalidUploadValidationEvidenceError)"

lemma row_evidence_iff:
  assumes "upload_session_wf s"
  shows "row_has_validation_evidence (values_from_session s) \<longleftrightarrow> full_evidence s"
  using assms
  by (auto simp: row_has_validation_evidence_def full_evidence_def upload_wf_defs
      checksum_pair_ok_def evidence_pair_ok_def option.pred_set)

interpretation transition_update: versioned_update
  "\<lambda>r. ur_state r = upload_state_value state \<and> ur_version r = v
     \<and> (target_requires_complete_upload target \<longrightarrow>
          ur_received_size_bytes r = ur_declared_size_bytes r)
     \<and> (target \<in> set VALIDATED_UPLOAD_SESSION_STATES \<longrightarrow> row_has_validation_evidence r)"
  "\<lambda>r. r\<lparr>ur_state := upload_state_value target, ur_updated_at_ms := t,
         ur_failure_code := code, ur_version := ur_version r + 1\<rparr>"
  "diagnose_row (\<lambda>r.
     if ur_state r \<noteq> upload_state_value state then Inl InvalidUploadSessionTransitionError
     else if ur_version r \<noteq> v then Inl UploadSessionConcurrencyConflictError
     else if target_requires_complete_upload target
          \<and> ur_received_size_bytes r \<noteq> ur_declared_size_bytes r
     then Inl IncompleteUploadSessionError
     else if target \<in> set VALIDATED_UPLOAD_SESSION_STATES \<and> \<not> row_has_validation_evidence r
     then Inl InvalidUploadValidationEvidenceError
     else Inl UploadSessionConcurrencyConflictError)"
  UploadSessionNotFoundError
  "\<lambda>s. us_state s = state \<and> us_version s = v
     \<and> (target \<in> set COMPLETE_UPLOAD_SESSION_STATES \<longrightarrow>
          us_received_size_bytes s = us_declared_size_bytes s)
     \<and> (target \<in> set VALIDATED_UPLOAD_SESSION_STATES \<longrightarrow> full_evidence s)"
  "\<lambda>s. s\<lparr>us_state := target, us_updated_at_ms := t, us_failure_code := code,
         us_version := us_version s + 1\<rparr>"
  "\<lambda>s. if us_state s \<noteq> state then Inl InvalidUploadSessionTransitionError
       else if us_version s \<noteq> v then Inl UploadSessionConcurrencyConflictError
       else if target \<in> set COMPLETE_UPLOAD_SESSION_STATES
            \<and> us_received_size_bytes s \<noteq> us_declared_size_bytes s
       then Inl IncompleteUploadSessionError
       else Inl InvalidUploadValidationEvidenceError"
  v
  for state target v t code
proof (unfold_locales, goal_cases)
  case (4 s)
  then show ?case
    by (simp add: row_evidence_iff upload_state_codec.print_eq_iff
        target_requires_complete_upload_def)
next
  case (6 s)
  then show ?case
    by (auto simp: diagnose_row_def row_evidence_iff upload_state_codec.print_eq_iff
        target_requires_complete_upload_def)
qed (auto simp: values_from_session_def diagnose_row_def split: if_splits)


definition start_spec ::
    "int \<Rightarrow> int \<Rightarrow> uuid \<Rightarrow> session_map \<Rightarrow> (session_repo_error + upload_session) \<times> session_map" where
  "start_spec v t = spec_update UploadSessionNotFoundError
     (\<lambda>s. us_state s = U_RECEIVED \<and> us_version s = v)
     (\<lambda>s. s\<lparr>us_state := U_VALIDATING, us_updated_at_ms := t, us_version := us_version s + 1\<rparr>)
     (\<lambda>s. if us_state s \<noteq> U_RECEIVED then Inl InvalidUploadSessionTransitionError
          else Inl UploadSessionConcurrencyConflictError)"

text \<open>A received session has all its bytes: the completeness guard never fires.\<close>

lemma received_complete:
  "upload_session_wf s \<Longrightarrow> us_state s = U_RECEIVED \<Longrightarrow>
     us_received_size_bytes s = us_declared_size_bytes s"
  by (simp add: upload_wf_defs state_requires_complete_upload_def upload_state_set_defs)

interpretation start_update: versioned_update
  "\<lambda>r. ur_state r = upload_state_value U_RECEIVED \<and> ur_version r = v
     \<and> ur_received_size_bytes r = ur_declared_size_bytes r"
  "\<lambda>r. r\<lparr>ur_state := upload_state_value U_VALIDATING, ur_updated_at_ms := t,
         ur_version := ur_version r + 1\<rparr>"
  "diagnose_row (\<lambda>r.
     if ur_state r \<noteq> upload_state_value U_RECEIVED then Inl InvalidUploadSessionTransitionError
     else if ur_version r \<noteq> v then Inl UploadSessionConcurrencyConflictError
     else if ur_received_size_bytes r \<noteq> ur_declared_size_bytes r
     then Inl IncompleteUploadSessionError
     else Inl UploadSessionConcurrencyConflictError)"
  UploadSessionNotFoundError
  "\<lambda>s. us_state s = U_RECEIVED \<and> us_version s = v"
  "\<lambda>s. s\<lparr>us_state := U_VALIDATING, us_updated_at_ms := t, us_version := us_version s + 1\<rparr>"
  "\<lambda>s. if us_state s \<noteq> U_RECEIVED then Inl InvalidUploadSessionTransitionError
       else Inl UploadSessionConcurrencyConflictError"
  v
  for v t
  by unfold_locales
    (auto simp: update_law_simps received_complete split: if_splits)

definition reject_spec ::
    "int \<Rightarrow> pystr \<Rightarrow> int \<Rightarrow> uuid \<Rightarrow> session_map
     \<Rightarrow> (session_repo_error + upload_session) \<times> session_map" where
  "reject_spec v code t = spec_update UploadSessionNotFoundError
     (\<lambda>s. us_state s = U_VALIDATING \<and> us_version s = v)
     (\<lambda>s. s\<lparr>us_state := U_REJECTED, us_failure_code := Some code, us_updated_at_ms := t,
            us_version := us_version s + 1\<rparr>)
     (\<lambda>s. if us_state s \<noteq> U_VALIDATING then Inl InvalidUploadSessionTransitionError
          else Inl UploadSessionConcurrencyConflictError)"

interpretation reject_update: versioned_update
  "\<lambda>r. ur_state r = upload_state_value U_VALIDATING \<and> ur_version r = v"
  "\<lambda>r. r\<lparr>ur_state := upload_state_value U_REJECTED, ur_failure_code := Some code,
         ur_updated_at_ms := t, ur_version := ur_version r + 1\<rparr>"
  "diagnose_row (\<lambda>r.
     if ur_state r \<noteq> upload_state_value U_VALIDATING
     then Inl InvalidUploadSessionTransitionError
     else Inl UploadSessionConcurrencyConflictError)"
  UploadSessionNotFoundError
  "\<lambda>s. us_state s = U_VALIDATING \<and> us_version s = v"
  "\<lambda>s. s\<lparr>us_state := U_REJECTED, us_failure_code := Some code, us_updated_at_ms := t,
         us_version := us_version s + 1\<rparr>"
  "\<lambda>s. if us_state s \<noteq> U_VALIDATING then Inl InvalidUploadSessionTransitionError
       else Inl UploadSessionConcurrencyConflictError"
  v
  for v code t
  by unfold_locales (auto simp: update_law_simps split: if_splits)

section \<open>Duplicates\<close>

text \<open>A pending duplicate has no disposition yet: that guard never fires either.\<close>

lemma pending_undecided:
  "upload_session_wf s \<Longrightarrow> us_state s = U_DUPLICATE_PENDING \<Longrightarrow> us_duplicate_disposition s = None"
proof (cases "us_duplicate_disposition s")
  case (Some d)
  assume "upload_session_wf s" and "us_state s = U_DUPLICATE_PENDING"
  then have "U_DUPLICATE_PENDING \<in> set (disposition_allowed_states d)"
    using Some by (auto simp: upload_wf_defs)
  then show ?thesis by (cases d) simp_all
qed

definition disposition_spec ::
    "int \<Rightarrow> duplicate_disposition \<Rightarrow> int \<Rightarrow> uuid \<Rightarrow> session_map
     \<Rightarrow> (session_repo_error + upload_session) \<times> session_map" where
  "disposition_spec v d t = spec_update UploadSessionNotFoundError
     (\<lambda>s. us_state s = U_DUPLICATE_PENDING \<and> us_version s = v)
     (\<lambda>s. s\<lparr>us_state := disposition_target d, us_duplicate_disposition := Some d,
            us_updated_at_ms := t, us_version := us_version s + 1\<rparr>)
     (\<lambda>s. if us_state s \<noteq> U_DUPLICATE_PENDING then Inl InvalidUploadSessionTransitionError
          else Inl UploadSessionConcurrencyConflictError)"

interpretation disposition_update: versioned_update
  "\<lambda>r. ur_state r = upload_state_value U_DUPLICATE_PENDING \<and> ur_version r = v
     \<and> ur_duplicate_disposition r = None"
  "\<lambda>r. r\<lparr>ur_state := upload_state_value (disposition_target d),
         ur_duplicate_disposition := Some (duplicate_disposition_value d),
         ur_updated_at_ms := t, ur_version := ur_version r + 1\<rparr>"
  "diagnose_row (\<lambda>r.
     if ur_state r \<noteq> upload_state_value U_DUPLICATE_PENDING
     then Inl InvalidUploadSessionTransitionError
     else if ur_duplicate_disposition r \<noteq> None then Inl InvalidUploadSessionTransitionError
     else Inl UploadSessionConcurrencyConflictError)"
  UploadSessionNotFoundError
  "\<lambda>s. us_state s = U_DUPLICATE_PENDING \<and> us_version s = v"
  "\<lambda>s. s\<lparr>us_state := disposition_target d, us_duplicate_disposition := Some d,
         us_updated_at_ms := t, us_version := us_version s + 1\<rparr>"
  "\<lambda>s. if us_state s \<noteq> U_DUPLICATE_PENDING then Inl InvalidUploadSessionTransitionError
       else Inl UploadSessionConcurrencyConflictError"
  v
  for v d t
  by unfold_locales (auto simp: update_law_simps pending_undecided split: if_splits)

section \<open>The methods\<close>

declare upload_state_value.simps [simp del] duplicate_disposition_value.simps [simp del]

text \<open>The guard on the version and the clock that every method starts with.\<close>

lemma guards_iff:
  "all_checks [repo_validate_non_negative (PyInt v), repo_validate_non_negative (PyInt t)] =
     (if 0 \<le> v \<and> 0 \<le> t then Inr () else Inl FrameNestUploadSessionError)"
  by (simp add: all_checks.simps(2) raise_if_def)

lemma advance_arguments:
  "and_then (validate_upload_offset_advance e n (max (e + n) 1)) (\<lambda>_.
     all_checks [repo_validate_non_negative (PyInt v), repo_validate_non_negative (PyInt t)]) =
   (if 0 \<le> e \<and> 0 < n \<and> 0 \<le> v \<and> 0 \<le> t then Inr () else Inl FrameNestUploadSessionError)"
  unfolding guards_iff
  by (simp add: validate_upload_offset_advance_def all_checks.simps(2) raise_if_def Let_def)

lemma advance_refines:
  assumes "session_rows_ok db"
  shows "map_prod id stored_session (advance_received_offset i e n v t db) =
    (if 0 \<le> e \<and> 0 < n \<and> 0 \<le> v \<and> 0 \<le> t then advance_spec e v (e + n) t i (stored_session db)
     else (Inl UploadOffsetConflictError, stored_session db))"
  unfolding advance_received_offset_def advance_arguments
  by (simp add: advance_spec_def Let_def advance_update.refines_map [OF assms])

lemma checksum_arguments:
  "and_then (validate_sha256_checksum_hex (PyStr h)) (\<lambda>checksum.
     and_then (all_checks [repo_validate_non_negative (PyInt v), repo_validate_non_negative (PyInt t)])
       (\<lambda>_. Inr checksum)) =
   (if \<not> sha256_hex_pattern h then Inl FrameNestUploadChecksumError
    else if 0 \<le> v \<and> 0 \<le> t then Inr h else Inl FrameNestUploadSessionError)"
  unfolding guards_iff by simp

lemma checksum_refines:
  assumes "session_rows_ok db"
  shows "map_prod id stored_session (record_completed_checksum i state v h t db) =
    (if \<not> sha256_hex_pattern h then (Inl InvalidUploadChecksumError, stored_session db)
     else if 0 \<le> v \<and> 0 \<le> t then checksum_spec state v h t i (stored_session db)
     else (Inl UploadSessionConcurrencyConflictError, stored_session db))"
  unfolding record_completed_checksum_def checksum_arguments
  by (simp add: checksum_spec_def checksum_evidence_or_concurrency_def
      checksum_update.refines_map [OF assms])

definition transition_arguments_ok ::
    "upload_state \<Rightarrow> int \<Rightarrow> int \<Rightarrow> pystr option \<Rightarrow> bool" where
  "transition_arguments_ok target v t code \<longleftrightarrow> 0 \<le> v \<and> 0 \<le> t
     \<and> (\<forall>c. code = Some c \<longrightarrow> failure_code_pattern c)"

lemma transition_arguments:
  "transition_state_arguments state target v t code =
     (if target \<notin> set (allowed_upload_transitions state)
      then Inl FrameNestUploadSessionTransitionError
      else if \<not> transition_arguments_ok target v t code then Inl FrameNestUploadSessionError
      else if code \<noteq> None \<and> target \<notin> {U_FAILED, U_REJECTED}
      then Inl FrameNestUploadSessionTransitionError
      else Inr ())"
  by (auto simp: transition_state_arguments_def ensure_upload_session_transition_allowed_def
      all_checks.simps(2) raise_if_def transition_arguments_ok_def FAILURE_STATES_def
      split: option.splits)

lemma transition_refines:
  assumes "session_rows_ok db"
  shows "map_prod id stored_session (transition_state i state target v t code db) =
    (if target \<notin> set (allowed_upload_transitions state)
     then (Inl InvalidUploadSessionTransitionError, stored_session db)
     else if \<not> transition_arguments_ok target v t code
     then (Inl UploadSessionConcurrencyConflictError, stored_session db)
     else if code \<noteq> None \<and> target \<notin> {U_FAILED, U_REJECTED}
     then (Inl InvalidUploadSessionTransitionError, stored_session db)
     else transition_spec state target v t code i (stored_session db))"
  unfolding transition_state_def transition_arguments transition_spec_def
    transition_update.refines_map [OF assms, symmetric]
  by (simp add: transition_or_concurrency_def)

lemma start_refines:
  assumes "session_rows_ok db"
  shows "map_prod id stored_session (start_validation i v t db) =
    (if 0 \<le> v \<and> 0 \<le> t then start_spec v t i (stored_session db)
     else (Inl UploadSessionConcurrencyConflictError, stored_session db))"
  unfolding start_validation_def guards_iff
  by (simp add: start_spec_def start_update.refines_map [OF assms])

lemma reject_refines:
  assumes "session_rows_ok db"
  shows "map_prod id stored_session (reject_validation i v code t db) =
    (if failure_code_pattern code \<and> 0 \<le> v \<and> 0 \<le> t then reject_spec v code t i (stored_session db)
     else (Inl UploadSessionConcurrencyConflictError, stored_session db))"
  unfolding reject_validation_def guards_iff
  by (simp add: reject_spec_def reject_update.refines_map [OF assms])

lemma disposition_refines:
  assumes "session_rows_ok db"
  shows "map_prod id stored_session (record_duplicate_disposition i v (Member d) t db) =
    (if 0 \<le> v \<and> 0 \<le> t then disposition_spec v d t i (stored_session db)
     else (Inl UploadSessionConcurrencyConflictError, stored_session db))"
  unfolding record_duplicate_disposition_def guards_iff
  by (simp add: disposition_spec_def disposition_update.refines_map [OF assms])

end
