(* ===== verification/Upload_Evidence.thy ===== *)
theory Upload_Evidence
  imports Upload_Session_Contracts
begin

text \<open>
  Exact-byte identities and the evidence of an upload: the table of identities holds one row
  per (algorithm, size, checksum), every session that names an identity agrees with its
  evidence, and completing a validation assigns the identity of the bytes.
\<close>

section \<open>The identity table\<close>

definition byte_identity_wf :: "media_byte_identity \<Rightarrow> bool" where
  "byte_identity_wf b \<longleftrightarrow> is_uuid4 (bi_id b) \<and> bi_checksum_algorithm b = lit ''sha256''
     \<and> 0 < bi_size_bytes b \<and> sha256_hex_pattern (bi_checksum_hex b) \<and> 0 \<le> bi_created_at_ms b"

definition identity_values :: "media_byte_identity \<Rightarrow> identity_row" where
  "identity_values b = \<lparr>ir_id = uuid_to_text (bi_id b),
     ir_checksum_algorithm = bi_checksum_algorithm b, ir_size_bytes = bi_size_bytes b,
     ir_checksum_hex = bi_checksum_hex b, ir_created_at_ms = bi_created_at_ms b\<rparr>"

lemma identity_values_simps [simp]:
  "ir_id (identity_values b) = uuid_to_text (bi_id b)"
  "ir_checksum_algorithm (identity_values b) = bi_checksum_algorithm b"
  "ir_size_bytes (identity_values b) = bi_size_bytes b"
  "ir_checksum_hex (identity_values b) = bi_checksum_hex b"
  "ir_created_at_ms (identity_values b) = bi_created_at_ms b"
  by (simp_all add: identity_values_def)

lemma evidence_validator_iff:
  "validate_media_byte_identity_evidence (PyStr a) (PyInt n) (PyStr h) =
     (if a = lit ''sha256'' \<and> 0 < n \<and> sha256_hex_pattern h then Inr (lit ''sha256'', n, h)
      else Inl FrameNestMediaByteIdentityError)"
  by (simp add: validate_media_byte_identity_evidence_def not_le)

lemma byte_identity_post_init_iff:
  "media_byte_identity_post_init b = Inr u \<longleftrightarrow> byte_identity_wf b"
  by (auto simp: media_byte_identity_post_init_def byte_identity_wf_def evidence_validator_iff
      split: if_splits)

lemma identity_values_row_ok: "byte_identity_wf b \<Longrightarrow> identity_row_ok (identity_values b)"
  by (simp add: identity_row_ok_def identity_row_checks_def byte_identity_wf_def
      sha256_pattern_ck)

lemma identity_from_values:
  "byte_identity_wf b \<Longrightarrow> identity_from_identity_row (identity_values b) = Inr b"
proof -
  assume w: "byte_identity_wf b"
  then have "identity_from_string (uuid_to_text (bi_id b)) = Inr (bi_id b)"
    using identity.parse_print [of "bi_id b"]
    by (simp add: identity_to_string_eq byte_identity_wf_def)
  moreover have "media_byte_identity_post_init b = Inr ()"
    using w by (simp add: byte_identity_post_init_iff)
  ultimately show ?thesis by (cases b) (simp add: identity_from_identity_row_def Let_def)
qed

definition identity_rows_ok :: "catalog_db \<Rightarrow> bool" where
  "identity_rows_ok db \<longleftrightarrow> distinct (map ir_id (media_byte_identities db))
     \<and> distinct (map identity_tuple (media_byte_identities db))
     \<and> list_all (\<lambda>r. identity_row_ok r \<and> ok (identity_from_identity_row r))
         (media_byte_identities db)"

lemma identity_from_row_iff:
  "identity_from_identity_row r = Inr b \<longleftrightarrow> byte_identity_wf b \<and> r = identity_values b"
proof
  assume "identity_from_identity_row r = Inr b"
  then show "byte_identity_wf b \<and> r = identity_values b"
    by (auto simp: identity_from_identity_row_def and_then_Inr Let_def byte_identity_post_init_iff
        identity.parse_iff identity_to_string_eq identity_values_def)
qed (auto simp: identity_from_values)

lemma identity_rows_ok_iff:
  "identity_rows_ok db \<longleftrightarrow> distinct (map ir_id (media_byte_identities db))
     \<and> distinct (map identity_tuple (media_byte_identities db))
     \<and> (\<forall>r \<in> set (media_byte_identities db). \<exists>b. byte_identity_wf b \<and> r = identity_values b)"
  by (auto simp: identity_rows_ok_def list_all_iff ok_iff identity_from_row_iff
      identity_values_row_ok)

section \<open>Get or create\<close>

definition same_bytes :: "media_byte_identity \<Rightarrow> identity_row \<Rightarrow> bool" where
  "same_bytes b r \<longleftrightarrow>
     identity_tuple r = (bi_checksum_algorithm b, bi_size_bytes b, bi_checksum_hex b)"

lemma insert_identity_row_eq:
  "byte_identity_wf b \<Longrightarrow> insert_identity_row b db =
     (if \<exists>r \<in> set (media_byte_identities db). same_bytes b r then Inr db
      else if uuid_to_text (bi_id b) \<in> set (map ir_id (media_byte_identities db))
      then Inl FrameNestUploadSessionRepositoryError
      else Inr (db\<lparr>media_byte_identities := media_byte_identities db @ [identity_values b]\<rparr>))"
proof -
  assume w: "byte_identity_wf b"
  have "identity_tuple (identity_values b) \<in> set (map identity_tuple (media_byte_identities db))
      \<longleftrightarrow> (\<exists>r \<in> set (media_byte_identities db). same_bytes b r)"
    by (simp add: same_bytes_def image_iff identity_tuple_def) metis
  then show ?thesis
    using identity_values_row_ok [OF w]
    by (simp only: insert_identity_row_def identity_values_def [symmetric] Let_def) simp
qed

lemma get_or_create_spec:
  assumes "identity_rows_ok db" and "byte_identity_wf b"
  shows "get_or_create_byte_identity_in b db =
     (case find (same_bytes b) (media_byte_identities db) of
        Some r \<Rightarrow> and_then (identity_from_identity_row r) (\<lambda>i. Inr (i, db))
      | None \<Rightarrow>
          if uuid_to_text (bi_id b) \<in> set (map ir_id (media_byte_identities db))
          then Inl FrameNestUploadSessionRepositoryError
          else Inr (b, db\<lparr>media_byte_identities
                 := media_byte_identities db @ [identity_values b]\<rparr>))"
proof -
  have v: "validate_media_byte_identity_evidence (PyStr (bi_checksum_algorithm b))
      (PyInt (bi_size_bytes b)) (PyStr (bi_checksum_hex b))
      = Inr (lit ''sha256'', bi_size_bytes b, bi_checksum_hex b)"
    using assms(2) by (simp add: evidence_validator_iff byte_identity_wf_def)
  have s: "same_bytes b (identity_values b)" by (simp add: same_bytes_def identity_tuple_def)
  have m: "(\<lambda>r. identity_tuple r = (bi_checksum_algorithm b, bi_size_bytes b, bi_checksum_hex b))
      = same_bytes b" by (rule ext) (simp add: same_bytes_def)
  show ?thesis
  proof (cases "find (same_bytes b) (media_byte_identities db)")
    case None
    then have n: "\<not> (\<exists>r \<in> set (media_byte_identities db). same_bytes b r)"
      by (auto simp: find_None_iff)
    then have "find (same_bytes b) (media_byte_identities db @ [identity_values b])
        = Some (identity_values b)"
      using s None by (simp add: find_append_one)
    then show ?thesis
      using None n
      by (simp add: get_or_create_byte_identity_in_def v insert_identity_row_eq [OF assms(2)] m
          sql_first_def identity_from_values [OF assms(2)])
  next
    case (Some r)
    then have "\<exists>r \<in> set (media_byte_identities db). same_bytes b r"
      by (auto simp: find_Some_iff)
    then show ?thesis
      using Some
      by (simp add: get_or_create_byte_identity_in_def v insert_identity_row_eq [OF assms(2)] m
          sql_first_def)
  qed
qed


lemma get_or_create_sound:
  assumes "identity_rows_ok db" and "byte_identity_wf b"
    and "get_or_create_byte_identity_in b db = Inr (i, db')"
  shows "byte_identity_wf i" and "bi_size_bytes i = bi_size_bytes b"
    and "bi_checksum_hex i = bi_checksum_hex b" and "bi_checksum_algorithm i = lit ''sha256''"
    and "identity_values i \<in> set (media_byte_identities db')" and "identity_rows_ok db'"
    and "\<exists>rows. db' = db\<lparr>media_byte_identities := media_byte_identities db @ rows\<rparr>"
proof -
  have "byte_identity_wf i \<and> bi_size_bytes i = bi_size_bytes b
    \<and> bi_checksum_hex i = bi_checksum_hex b \<and> bi_checksum_algorithm i = lit ''sha256''
    \<and> identity_values i \<in> set (media_byte_identities db') \<and> identity_rows_ok db'
    \<and> (\<exists>rows. db' = db\<lparr>media_byte_identities := media_byte_identities db @ rows\<rparr>)"
  proof (cases "find (same_bytes b) (media_byte_identities db)")
    case None
    then have e: "i = b" "db' = db\<lparr>media_byte_identities
        := media_byte_identities db @ [identity_values b]\<rparr>"
      and f: "uuid_to_text (bi_id b) \<notin> set (map ir_id (media_byte_identities db))"
      using assms(3) by (auto simp: get_or_create_spec [OF assms(1,2)] split: if_splits)
    have "identity_tuple (identity_values b) \<notin> set (map identity_tuple (media_byte_identities db))"
      using None by (auto simp: find_None_iff same_bytes_def identity_tuple_def image_iff)
    with assms(1,2) f have "identity_rows_ok db'"
      unfolding e by (auto simp: identity_rows_ok_iff)
    then show ?thesis
      using assms(2) unfolding e
      by (intro conjI exI [of _ "[identity_values b]"]) (simp_all add: byte_identity_wf_def)
  next
    case (Some r)
    then have e: "identity_from_identity_row r = Inr i" "db' = db"
      using assms(3) by (auto simp: get_or_create_spec [OF assms(1,2)] and_then_Inr)
    moreover have "r \<in> set (media_byte_identities db)" "same_bytes b r"
      using Some by (auto simp: find_Some_iff)
    ultimately show ?thesis
      using assms(1,2)
      by (auto simp: identity_from_row_iff same_bytes_def identity_tuple_def byte_identity_wf_def
          intro!: exI [of _ "[]"])
  qed
  then show "byte_identity_wf i" and "bi_size_bytes i = bi_size_bytes b"
    and "bi_checksum_hex i = bi_checksum_hex b" and "bi_checksum_algorithm i = lit ''sha256''"
    and "identity_values i \<in> set (media_byte_identities db')" and "identity_rows_ok db'"
    and "\<exists>rows. db' = db\<lparr>media_byte_identities := media_byte_identities db @ rows\<rparr>" by blast+
qed

text \<open>It raises only when the new identity collides with one of other bytes.\<close>

lemma get_or_create_error:
  assumes "identity_rows_ok db" and "byte_identity_wf b"
    and "get_or_create_byte_identity_in b db = Inl e"
  shows "e = FrameNestUploadSessionRepositoryError"
    and "uuid_to_text (bi_id b) \<in> set (map ir_id (media_byte_identities db))"
proof -
  have "e = FrameNestUploadSessionRepositoryError
      \<and> uuid_to_text (bi_id b) \<in> set (map ir_id (media_byte_identities db))"
  proof (cases "find (same_bytes b) (media_byte_identities db)")
    case None
    then show ?thesis
      using assms(3) by (auto simp: get_or_create_spec [OF assms(1,2)] split: if_splits)
  next
    case (Some r)
    then have "r \<in> set (media_byte_identities db)" by (auto simp: find_Some_iff)
    then obtain i where "identity_from_identity_row r = Inr i"
      using assms(1) by (auto simp: identity_rows_ok_def list_all_iff ok_iff)
    then show ?thesis using assms(3) Some by (simp add: get_or_create_spec [OF assms(1,2)])
  qed
  then show "e = FrameNestUploadSessionRepositoryError"
    and "uuid_to_text (bi_id b) \<in> set (map ir_id (media_byte_identities db))" by blast+
qed

section \<open>Sessions agree with the identity they name\<close>

definition identity_links_ok :: "catalog_db \<Rightarrow> bool" where
  "identity_links_ok db \<longleftrightarrow> list_all (\<lambda>r. ur_byte_identity_id r = None
     \<or> row_byte_identity_matches_upload_evidence db r) (upload_sessions db)"

definition evidence_store_ok :: "catalog_db \<Rightarrow> bool" where
  "evidence_store_ok db \<longleftrightarrow> session_rows_ok db \<and> identity_rows_ok db \<and> identity_links_ok db"

lemma row_identity_matches_iff:
  assumes "identity_rows_ok db"
  shows "row_byte_identity_matches_upload_evidence db (values_from_session s) \<longleftrightarrow>
    (\<exists>i b. us_byte_identity_id s = Some i \<and> b \<in> set (media_byte_identities db)
       \<and> ir_id b = uuid_to_text i \<and> us_checksum_algorithm s = Some (ir_checksum_algorithm b)
       \<and> us_declared_size_bytes s = ir_size_bytes b
       \<and> us_checksum_hex s = Some (ir_checksum_hex b))"
proof (cases "us_byte_identity_id s")
  case None
  then show ?thesis by (simp add: row_byte_identity_matches_upload_evidence_def)
next
  case (Some i)
  have d: "distinct (map ir_id (media_byte_identities db))"
    using assms by (simp add: identity_rows_ok_def)
  show ?thesis
    using find_key_Some_iff [OF d, of "uuid_to_text i"] Some
    by (fastforce simp: row_byte_identity_matches_upload_evidence_def sql_first_def
        split: option.splits)
qed

lemma links_iff:
  assumes "session_rows_ok db" and "identity_rows_ok db"
  shows "identity_links_ok db \<longleftrightarrow>
    (\<forall>j s i. stored_session db j = Some s \<longrightarrow> us_byte_identity_id s = Some i \<longrightarrow>
       (\<exists>b. b \<in> set (media_byte_identities db) \<and> ir_id b = uuid_to_text i
          \<and> us_checksum_algorithm s = Some (ir_checksum_algorithm b)
          \<and> us_declared_size_bytes s = ir_size_bytes b
          \<and> us_checksum_hex s = Some (ir_checksum_hex b)))"
  (is "_ \<longleftrightarrow> ?R")
proof
  assume l: "identity_links_ok db"
  then show ?R
    using row_identity_matches_iff [OF assms(2)]
    by (fastforce simp: identity_links_ok_def list_all_iff stored_session_iff [OF assms(1)])
next
  assume r: ?R
  show "identity_links_ok db"
    unfolding identity_links_ok_def list_all_iff
  proof
    fix x assume x: "x \<in> set (upload_sessions db)"
    then obtain s where s: "x = values_from_session s"
      using assms(1) by (auto simp: session_rows_ok_iff)
    then have "stored_session db (us_id s) = Some s" using x by (simp add: stored_session_iff [OF assms(1)])
    then show "ur_byte_identity_id x = None \<or> row_byte_identity_matches_upload_evidence db x"
      using r s row_identity_matches_iff [OF assms(2), of s] by (cases "us_byte_identity_id s") auto
  qed
qed


section \<open>Completing a validation\<close>

definition complete_effect ::
    "pystr \<Rightarrow> validated_media_kind \<Rightarrow> validated_format \<Rightarrow> uuid \<Rightarrow> upload_state
     \<Rightarrow> duplicate_disposition option \<Rightarrow> int \<Rightarrow> upload_session \<Rightarrow> upload_session" where
  "complete_effect h k f i target d t s = s\<lparr>us_state := target,
     us_checksum_algorithm := Some (lit ''sha256''), us_checksum_hex := Some h,
     us_validated_media_kind := Some k, us_validated_format := Some f,
     us_byte_identity_id := Some i, us_duplicate_disposition := d,
     us_updated_at_ms := t, us_version := us_version s + 1\<rparr>"

interpretation complete_update: guarded_update
  "\<lambda>r. ur_state r = upload_state_value U_VALIDATING \<and> ur_version r = v
     \<and> ur_received_size_bytes r = ur_declared_size_bytes r
     \<and> ur_checksum_algorithm r = None \<and> ur_checksum_hex r = None
     \<and> ur_validated_media_kind r = None \<and> ur_validated_format r = None
     \<and> ur_byte_identity_id r = None"
  "\<lambda>r. r\<lparr>ur_state := upload_state_value target,
     ur_checksum_algorithm := Some (lit ''sha256''),
     ur_checksum_hex := Some h,
     ur_validated_media_kind := Some (validated_media_kind_value k),
     ur_validated_format := Some (validated_format_value f),
     ur_byte_identity_id := Some (uuid_to_text i),
     ur_duplicate_disposition := map_option duplicate_disposition_value d,
     ur_updated_at_ms := t, ur_version := ur_version r + 1\<rparr>"
  "\<lambda>_. Inl UploadSessionConcurrencyConflictError"
  UploadSessionConcurrencyConflictError
  "\<lambda>s. us_state s = U_VALIDATING \<and> us_version s = v
     \<and> us_received_size_bytes s = us_declared_size_bytes s
     \<and> us_checksum_algorithm s = None \<and> us_checksum_hex s = None
     \<and> us_validated_media_kind s = None \<and> us_validated_format s = None
     \<and> us_byte_identity_id s = None"
  "complete_effect h k f i target d t"
  "\<lambda>_. Inl UploadSessionConcurrencyConflictError"
  for v target h k f i d t
  by unfold_locales
    (auto simp: complete_effect_def upload_state_codec.print_eq_iff values_from_session_def)

text \<open>Another stored session that already claims the bytes.\<close>

definition bytes_claimed :: "uuid \<Rightarrow> uuid \<Rightarrow> catalog_db \<Rightarrow> bool" where
  "bytes_claimed j i db \<longleftrightarrow>
     (\<exists>j' s. j' \<noteq> j \<and> stored_session db j' = Some s \<and> us_byte_identity_id s = Some i
        \<and> (us_state s \<in> {U_PUBLISH_PENDING, U_PUBLISHED}
           \<or> (us_state s = U_CATALOGED
              \<and> (\<exists>p \<in> set (upload_publications db).
                   pr_upload_id p = uuid_to_text j' \<and> pr_media_id p \<noteq> None))))"

lemma canonical_exists_iff:
  assumes "session_rows_ok db"
  shows "canonical_exists j i db \<longleftrightarrow> bytes_claimed j i db"
proof -
  have "canonical_exists j i db \<longleftrightarrow>
    (\<exists>s. values_from_session s \<in> set (upload_sessions db) \<and> us_id s \<noteq> j
        \<and> us_byte_identity_id s = Some i
        \<and> (us_state s \<in> {U_PUBLISH_PENDING, U_PUBLISHED}
           \<or> (us_state s = U_CATALOGED
              \<and> (\<exists>p \<in> set (upload_publications db).
                   pr_upload_id p = uuid_to_text (us_id s) \<and> pr_media_id p \<noteq> None))))"
    (is "_ \<longleftrightarrow> ?E")
  proof
    assume "canonical_exists j i db"
    then obtain r where r: "r \<in> set (upload_sessions db)" "ur_id r \<noteq> uuid_to_text j"
        "ur_byte_identity_id r = Some (uuid_to_text i)"
        "ur_state r \<in> set [upload_state_value U_PUBLISH_PENDING, upload_state_value U_PUBLISHED]
           \<or> (ur_state r = upload_state_value U_CATALOGED
              \<and> list_ex (\<lambda>p. pr_upload_id p = ur_id r \<and> pr_media_id p \<noteq> None)
                  (upload_publications db))"
      by (auto simp: canonical_exists_def list_ex_iff)
    then obtain s where "r = values_from_session s"
      using assms by (auto simp: session_rows_ok_iff)
    then show ?E
      using r by (auto simp: upload_state_codec.print_eq_iff list_ex_iff intro!: exI [of _ s])
  next
    assume ?E
    then obtain s where "values_from_session s \<in> set (upload_sessions db)" "us_id s \<noteq> j"
        "us_byte_identity_id s = Some i"
        "us_state s \<in> {U_PUBLISH_PENDING, U_PUBLISHED}
           \<or> (us_state s = U_CATALOGED
              \<and> (\<exists>p \<in> set (upload_publications db).
                   pr_upload_id p = uuid_to_text (us_id s) \<and> pr_media_id p \<noteq> None))" by blast
    then show "canonical_exists j i db"
      unfolding canonical_exists_def list_ex_iff
      by (intro bexI [of _ "values_from_session s"])
        (auto simp: upload_state_codec.print_eq_iff)
  qed
  then show ?thesis by (auto simp: bytes_claimed_def stored_session_iff [OF assms])
qed

definition success_of ::
    "bool \<Rightarrow> duplicate_resolution_mode \<Rightarrow> upload_state \<times> duplicate_disposition option" where
  "success_of claimed mode =
     (if \<not> claimed then (U_PUBLISH_PENDING, None)
      else case mode of EXPLICIT \<Rightarrow> (U_DUPLICATE_PENDING, None)
         | SILENT_KEEP_SEPARATE \<Rightarrow> (U_PUBLISH_PENDING, Some KEEP_SEPARATE))"

lemma success_target_mode:
  "success_target claimed (duplicate_resolution_mode_value mode) = success_of claimed mode"
  by (cases mode)
    (simp_all add: success_target_def success_of_def uses_explicit_duplicate_resolution_def lit_def)

text \<open>What the method demands of the stored session, and which error each refusal is.\<close>

definition complete_refusal ::
    "int \<Rightarrow> pystr \<Rightarrow> upload_session \<Rightarrow> session_repo_error option" where
  "complete_refusal v h s =
     (if us_state s \<in> set VALIDATED_UPLOAD_SESSION_STATES then
        (if us_checksum_hex s \<noteq> Some h then Some InvalidUploadChecksumError
         else Some InvalidUploadValidationEvidenceError)
      else if us_state s \<noteq> U_VALIDATING then Some InvalidUploadSessionTransitionError
      else if us_version s \<noteq> v then Some UploadSessionConcurrencyConflictError
      else if us_checksum_hex s \<noteq> None then Some InvalidUploadChecksumError
      else if us_validated_media_kind s \<noteq> None then Some InvalidUploadValidationEvidenceError
      else None)"

definition replayed_success ::
    "pystr \<Rightarrow> validated_media_kind \<Rightarrow> validated_format \<Rightarrow> upload_session \<Rightarrow> bool" where
  "replayed_success h k f s \<longleftrightarrow> us_state s \<in> set VALIDATED_UPLOAD_SESSION_STATES
     \<and> us_checksum_hex s = Some h \<and> us_validated_media_kind s = Some k
     \<and> us_validated_format s = Some f"

lemma guards_complete:
  assumes "upload_session_wf s"
  shows "complete_validation_guards v h db (values_from_session s) =
    (case complete_refusal v h s of None \<Rightarrow> Inr () | Some e \<Rightarrow> Inl e)"
proof -
  have e: "upload_evidence_ok s" and z: "upload_sizes_ok s"
    using assms by (simp_all add: upload_session_wf_def)
  have "us_state s = U_VALIDATING \<Longrightarrow> us_received_size_bytes s = us_declared_size_bytes s"
    using z by (simp add: upload_sizes_ok_def state_requires_complete_upload_def
        COMPLETE_UPLOAD_SESSION_STATES_def)
  moreover have "us_state s \<in> set VALIDATED_UPLOAD_SESSION_STATES
      \<Longrightarrow> us_checksum_algorithm s = Some (lit ''sha256'')"
    using e by (simp add: upload_evidence_ok_def full_evidence_def)
  moreover have "us_checksum_algorithm s = None \<longleftrightarrow> us_checksum_hex s = None"
    using e unfolding upload_evidence_ok_def checksum_pair_ok_def by auto
  moreover have "us_validated_media_kind s = None \<longleftrightarrow> us_validated_format s = None"
    using e unfolding upload_evidence_ok_def evidence_pair_ok_def by auto
  moreover have "upload_state_value (us_state s)
        \<in> set (map upload_state_value VALIDATED_UPLOAD_SESSION_STATES)
      \<longleftrightarrow> us_state s \<in> set VALIDATED_UPLOAD_SESSION_STATES"
    by (auto simp: upload_state_codec.print_eq_iff)
  ultimately show ?thesis
    unfolding complete_validation_guards_def complete_refusal_def values_from_session_simps
      upload_state_codec.print_eq_iff
    by (cases "us_state s \<in> set VALIDATED_UPLOAD_SESSION_STATES";
        cases "us_state s = U_VALIDATING"; cases "us_version s = v";
        cases "us_checksum_hex s"; cases "us_validated_media_kind s") simp_all
qed

lemma replay_iff:
  assumes "upload_session_wf s"
  shows "row_has_matching_validation_success_evidence (values_from_session s) h k f
    \<longleftrightarrow> replayed_success h k f s"
proof -
  have "us_state s \<in> set VALIDATED_UPLOAD_SESSION_STATES \<Longrightarrow> full_evidence s"
    using assms by (auto simp: upload_wf_defs)
  then show ?thesis
    by (auto simp: row_has_matching_validation_success_evidence_def replayed_success_def
        full_evidence_def upload_state_codec.print_eq_iff media_kind_codec.print_eq_iff
        format_codec.print_eq_iff)
qed


lemma identities_update_simps [simp]:
  "stored_session (db\<lparr>media_byte_identities := rows\<rparr>) = stored_session db"
  "row_by_id i (db\<lparr>media_byte_identities := rows\<rparr>) = row_by_id i db"
  "session_rows_ok (db\<lparr>media_byte_identities := rows\<rparr>) = session_rows_ok db"
  "bytes_claimed j i (db\<lparr>media_byte_identities := rows\<rparr>) = bytes_claimed j i db"
proof -
  show r: "row_by_id i (db\<lparr>media_byte_identities := rows\<rparr>) = row_by_id i db" for i
    by (simp add: row_by_id_def)
  show s: "stored_session (db\<lparr>media_byte_identities := rows\<rparr>) = stored_session db"
    by (rule ext) (simp add: stored_session_def r)
  show "session_rows_ok (db\<lparr>media_byte_identities := rows\<rparr>) = session_rows_ok db"
    by (simp add: session_rows_ok_def)
  show "bytes_claimed j i (db\<lparr>media_byte_identities := rows\<rparr>) = bytes_claimed j i db"
    by (simp add: bytes_claimed_def s)
qed

lemma sessions_update_identities [simp]:
  "identity_rows_ok (db\<lparr>upload_sessions := rows\<rparr>) = identity_rows_ok db"
  by (simp add: identity_rows_ok_def)

text \<open>The identity the method asks for: the checksum of the bytes and their declared size.\<close>

definition wanted_identity :: "uuid \<Rightarrow> pystr \<Rightarrow> int \<Rightarrow> upload_session \<Rightarrow> media_byte_identity" where
  "wanted_identity new h t s = \<lparr>bi_id = new, bi_checksum_algorithm = lit ''sha256'',
     bi_size_bytes = us_declared_size_bytes s, bi_checksum_hex = h, bi_created_at_ms = t\<rparr>"

lemma wanted_identity_wf:
  "upload_session_wf s \<Longrightarrow> is_uuid4 new \<Longrightarrow> sha256_hex_pattern h \<Longrightarrow> 0 \<le> t \<Longrightarrow>
     byte_identity_wf (wanted_identity new h t s)"
  by (simp add: wanted_identity_def byte_identity_wf_def upload_wf_defs)

lemma links_no_checksum:
  assumes "evidence_store_ok db" and "stored_session db i = Some s" and "us_checksum_hex s = None"
  shows "us_byte_identity_id s = None"
  using assms links_iff [of db]
  by (cases "us_byte_identity_id s") (fastforce simp: evidence_store_ok_def)+

definition completed ::
    "pystr \<Rightarrow> validated_media_kind \<Rightarrow> validated_format \<Rightarrow> int \<Rightarrow> uuid \<Rightarrow> media_byte_identity
     \<Rightarrow> catalog_db \<Rightarrow> upload_session \<Rightarrow> upload_session" where
  "completed h k f t i b db s =
     (let (target, d) = success_of (bytes_claimed i (bi_id b) db) (us_duplicate_resolution_mode s)
      in complete_effect h k f (bi_id b) target d t s)"

lemma complete_in_refusals:
  assumes "evidence_store_ok db" and "is_uuid4 new" and "sha256_hex_pattern h" and "0 \<le> t"
  shows "stored_session db i = None \<Longrightarrow>
      complete_validation_in new i v h k f t db = Inl UploadSessionNotFoundError"
    and "stored_session db i = Some s \<Longrightarrow> replayed_success h k f s \<Longrightarrow>
      complete_validation_in new i v h k f t db = Inr (s, db)"
    and "stored_session db i = Some s \<Longrightarrow> \<not> replayed_success h k f s \<Longrightarrow>
      complete_refusal v h s = Some e \<Longrightarrow> complete_validation_in new i v h k f t db = Inl e"
proof -
  have r: "session_rows_ok db" and n: "identity_rows_ok db" and l: "identity_links_ok db"
    using assms(1) by (simp_all add: evidence_store_ok_def)
  show "stored_session db i = None \<Longrightarrow>
      complete_validation_in new i v h k f t db = Inl UploadSessionNotFoundError"
    by (simp add: complete_validation_in_def row_by_id_stored [OF r])
  show "stored_session db i = Some s \<Longrightarrow> \<not> replayed_success h k f s \<Longrightarrow>
      complete_refusal v h s = Some e \<Longrightarrow> complete_validation_in new i v h k f t db = Inl e"
    using stored_session_sound [OF r, of i s]
    by (simp add: complete_validation_in_def row_by_id_stored [OF r] replay_iff sound_session_def
        guards_complete)
  assume s: "stored_session db i = Some s" and p: "replayed_success h k f s"
  have wf: "upload_session_wf s" using stored_session_sound [OF r s] by (simp add: sound_session_def)
  have "us_byte_identity_id s \<noteq> None"
    using wf p by (auto simp: replayed_success_def upload_wf_defs full_evidence_def)
  moreover have "values_from_session s \<in> set (upload_sessions db)"
    using s by (simp add: stored_session_iff [OF r])
  ultimately have "row_byte_identity_matches_upload_evidence db (values_from_session s)"
    using l by (fastforce simp: identity_links_ok_def list_all_iff)
  then show "complete_validation_in new i v h k f t db = Inr (s, db)"
    using wf p s
    by (simp add: complete_validation_in_def row_by_id_stored [OF r] replay_iff session_from_values)
qed

lemma complete_guard:
  assumes "evidence_store_ok db" and s: "stored_session db i = Some s"
    and c: "complete_refusal v h s = None"
  shows "us_state s = U_VALIDATING \<and> us_version s = v
     \<and> us_received_size_bytes s = us_declared_size_bytes s
     \<and> us_checksum_algorithm s = None \<and> us_checksum_hex s = None
     \<and> us_validated_media_kind s = None \<and> us_validated_format s = None
     \<and> us_byte_identity_id s = None"
    and "\<not> replayed_success h k f s"
proof -
  have n: "us_checksum_hex s = None" "us_validated_media_kind s = None"
      "us_state s = U_VALIDATING" "us_version s = v"
    using c by (auto simp: complete_refusal_def split: if_splits)
  have "session_rows_ok db" using assms(1) by (simp add: evidence_store_ok_def)
  then have wf: "upload_session_wf s"
    using stored_session_sound s by (auto simp: sound_session_def)
  then have e: "upload_evidence_ok s" and z: "upload_sizes_ok s"
    by (simp_all add: upload_session_wf_def)
  have "us_received_size_bytes s = us_declared_size_bytes s"
    using z n by (simp add: upload_sizes_ok_def state_requires_complete_upload_def
        COMPLETE_UPLOAD_SESSION_STATES_def)
  moreover have "us_checksum_algorithm s = None" "us_validated_format s = None"
    using e n unfolding upload_evidence_ok_def checksum_pair_ok_def evidence_pair_ok_def by auto
  moreover have "us_byte_identity_id s = None"
    using links_no_checksum [OF assms(1) s n(1)] .
  ultimately show "us_state s = U_VALIDATING \<and> us_version s = v
     \<and> us_received_size_bytes s = us_declared_size_bytes s
     \<and> us_checksum_algorithm s = None \<and> us_checksum_hex s = None
     \<and> us_validated_media_kind s = None \<and> us_validated_format s = None
     \<and> us_byte_identity_id s = None"
    using n by blast
  show "\<not> replayed_success h k f s" using n by (simp add: replayed_success_def)
qed

lemma complete_in_update:
  assumes "evidence_store_ok db" and "is_uuid4 new" and "sha256_hex_pattern h" and "0 \<le> t"
    and s: "stored_session db i = Some s" and "complete_refusal v h s = None"
    and g: "get_or_create_byte_identity_in (wanted_identity new h t s) db = Inr (b, db')"
  shows "upload_session_wf (completed h k f t i b db s) \<Longrightarrow>
      \<exists>rows. complete_validation_in new i v h k f t db
          = Inr (completed h k f t i b db s, db'\<lparr>upload_sessions := rows\<rparr>)
        \<and> session_rows_ok (db'\<lparr>upload_sessions := rows\<rparr>)
        \<and> stored_session (db'\<lparr>upload_sessions := rows\<rparr>)
          = (stored_session db)(i \<mapsto> completed h k f t i b db s)"
    and "\<not> upload_session_wf (completed h k f t i b db s) \<Longrightarrow>
      complete_validation_in new i v h k f t db = Inl FrameNestUploadSessionRepositoryError"
proof -
  have r: "session_rows_ok db" and n: "identity_rows_ok db"
    using assms(1) by (simp_all add: evidence_store_ok_def)
  have wf: "upload_session_wf s" using stored_session_sound [OF r s] by (simp add: sound_session_def)
  note bwf = wanted_identity_wf [OF wf assms(2-4)]
  note guard = complete_guard [OF assms(1) s assms(6)]
  obtain ids where ids: "db' = db\<lparr>media_byte_identities := media_byte_identities db @ ids\<rparr>"
    using get_or_create_sound(7) [OF n bwf g] by blast
  have r': "session_rows_ok db'" and s': "stored_session db' i = Some s"
    and st: "stored_session db' = stored_session db"
    using r s by (simp_all add: ids)
  obtain target d where td: "success_of (bytes_claimed i (bi_id b) db)
      (us_duplicate_resolution_mode s) = (target, d)" by fastforce
  have tgt: "success_target (canonical_exists i (bi_id b) db')
      (ur_duplicate_resolution_mode (values_from_session s)) = (target, d)"
    unfolding canonical_exists_iff [OF r'] values_from_session_simps success_target_mode
    using td by (simp add: ids)
  have c: "completed h k f t i b db s = complete_effect h k f (bi_id b) target d t s"
    by (simp add: completed_def td)
  have p: "media_byte_identity_post_init (wanted_identity new h t s) = Inr ()"
    using bwf by (simp add: byte_identity_post_init_iff)
  have e: "complete_validation_in new i v h k f t db =
    update_session_row i
      (\<lambda>r. ur_state r = upload_state_value U_VALIDATING \<and> ur_version r = v
         \<and> ur_received_size_bytes r = ur_declared_size_bytes r
         \<and> ur_checksum_algorithm r = None \<and> ur_checksum_hex r = None
         \<and> ur_validated_media_kind r = None \<and> ur_validated_format r = None
         \<and> ur_byte_identity_id r = None)
      (\<lambda>r. r\<lparr>ur_state := upload_state_value target,
         ur_checksum_algorithm := Some (lit ''sha256''), ur_checksum_hex := Some h,
         ur_validated_media_kind := Some (validated_media_kind_value k),
         ur_validated_format := Some (validated_format_value f),
         ur_byte_identity_id := Some (uuid_to_text (bi_id b)),
         ur_duplicate_disposition := map_option duplicate_disposition_value d,
         ur_updated_at_ms := t, ur_version := ur_version r + 1\<rparr>)
      (\<lambda>_. Inl UploadSessionConcurrencyConflictError) db'"
    using s g p guard(2) [of k f] assms(6)
    by (simp add: complete_validation_in_def row_by_id_stored [OF r] replay_iff [OF wf]
        guards_complete [OF wf] wanted_identity_def [symmetric] Let_def tgt
        del: values_from_session_simps(14))
  note guard_s = guard(1)
  show "upload_session_wf (completed h k f t i b db s) \<Longrightarrow>
      \<exists>rows. complete_validation_in new i v h k f t db
          = Inr (completed h k f t i b db s, db'\<lparr>upload_sessions := rows\<rparr>)
        \<and> session_rows_ok (db'\<lparr>upload_sessions := rows\<rparr>)
        \<and> stored_session (db'\<lparr>upload_sessions := rows\<rparr>)
          = (stored_session db)(i \<mapsto> completed h k f t i b db s)"
    unfolding c e complete_update.update_hit [OF r' s' guard_s] st [symmetric]
    using complete_update.rows_ok_new [OF r' s' guard_s] complete_update.stored_new [OF r' s' guard_s]
    by auto
  show "\<not> upload_session_wf (completed h k f t i b db s) \<Longrightarrow>
      complete_validation_in new i v h k f t db = Inl FrameNestUploadSessionRepositoryError"
    unfolding c e complete_update.update_hit [OF r' s' guard_s] by simp
qed


section \<open>The evidence invariant\<close>

definition linked :: "catalog_db \<Rightarrow> upload_session \<Rightarrow> bool" where
  "linked db s \<longleftrightarrow> (\<forall>i. us_byte_identity_id s = Some i \<longrightarrow>
     (\<exists>b \<in> set (media_byte_identities db). ir_id b = uuid_to_text i
        \<and> us_checksum_algorithm s = Some (ir_checksum_algorithm b)
        \<and> us_declared_size_bytes s = ir_size_bytes b
        \<and> us_checksum_hex s = Some (ir_checksum_hex b)))"

lemma linked_iff:
  assumes "session_rows_ok db" and "identity_rows_ok db"
  shows "identity_links_ok db \<longleftrightarrow> (\<forall>j s. stored_session db j = Some s \<longrightarrow> linked db s)"
  by (simp add: links_iff [OF assms] linked_def) blast

lemma linked_mono:
  "linked db s \<Longrightarrow> set (media_byte_identities db) \<subseteq> set (media_byte_identities db') \<Longrightarrow> linked db' s"
  unfolding linked_def by blast

lemma linked_identity:
  "identity_values b \<in> set (media_byte_identities db) \<Longrightarrow> us_byte_identity_id s = Some (bi_id b) \<Longrightarrow>
   us_checksum_algorithm s = Some (bi_checksum_algorithm b) \<Longrightarrow>
   us_declared_size_bytes s = bi_size_bytes b \<Longrightarrow>
   us_checksum_hex s = Some (bi_checksum_hex b) \<Longrightarrow> linked db s"
  unfolding linked_def by (intro allI impI bexI [of _ "identity_values b"]) auto

lemma evidence_after_update:
  assumes "evidence_store_ok db" and "session_rows_ok db'" and "identity_rows_ok db'"
    and "set (media_byte_identities db) \<subseteq> set (media_byte_identities db')"
    and "stored_session db' = (stored_session db)(i \<mapsto> s)" and "linked db' s"
  shows "evidence_store_ok db'"
proof -
  have "linked db' u" if "stored_session db' j = Some u" for j u
  proof (cases "j = i")
    case True
    then show ?thesis using that assms(5,6) by simp
  next
    case False
    then have "linked db u"
      using that assms(1,5) linked_iff [of db] by (simp add: evidence_store_ok_def)
    then show ?thesis using linked_mono assms(4) by blast
  qed
  then show ?thesis
    using assms(2,3) linked_iff [of db'] by (simp add: evidence_store_ok_def)
qed

text \<open>Every versioned update keeps the evidence sound.\<close>

context versioned_update
begin

lemma keeps_evidence:
  assumes "evidence_store_ok db"
    and "run_in_transaction (update_session_row i row_guard row_change row_diagnose) db
      = (result, db')"
  shows "evidence_store_ok db'"
proof -
  have r: "session_rows_ok db" and n: "identity_rows_ok db"
    using assms(1) by (simp_all add: evidence_store_ok_def)
  note f = refines [OF r assms(2)]
  from f(3) obtain rows where rows: "db' = db\<lparr>upload_sessions := rows\<rparr>" by blast
  have ids: "media_byte_identities db' = media_byte_identities db" and n': "identity_rows_ok db'"
    using n by (simp_all add: rows)
  from effect [OF f(1)] consider (same) "stored_session db' = stored_session db"
    | (changed) s where "stored_session db i = Some s" "guard s"
        "stored_session db' = (stored_session db)(i \<mapsto> change s)" by blast
  then show ?thesis
  proof cases
    case same
    have "linked db' u" if "stored_session db' j = Some u" for j u
      using that assms(1) same linked_iff [OF r n] linked_mono [of db u db'] ids
      by (simp add: evidence_store_ok_def)
    then show ?thesis using f(2) n' linked_iff [of db'] by (simp add: evidence_store_ok_def)
  next
    case changed
    have l: "linked db s" using assms(1) changed(1) linked_iff [OF r n] by (simp add: evidence_store_ok_def)
    have "linked db' (change s)"
      unfolding linked_def
    proof (intro allI impI)
      fix j assume "us_byte_identity_id (change s) = Some j"
      then have j: "us_byte_identity_id s = Some j" by (simp add: change_identity)
      then obtain b where b: "b \<in> set (media_byte_identities db)" "ir_id b = uuid_to_text j"
          "us_checksum_algorithm s = Some (ir_checksum_algorithm b)"
          "us_declared_size_bytes s = ir_size_bytes b"
          "us_checksum_hex s = Some (ir_checksum_hex b)"
        using l unfolding linked_def by blast
      then show "\<exists>b \<in> set (media_byte_identities db'). ir_id b = uuid_to_text j
          \<and> us_checksum_algorithm (change s) = Some (ir_checksum_algorithm b)
          \<and> us_declared_size_bytes (change s) = ir_size_bytes b
          \<and> us_checksum_hex (change s) = Some (ir_checksum_hex b)"
        using change_evidence [OF changed(2)] by (intro bexI [of _ b]) (simp_all add: change_declared ids)
    qed
    then show ?thesis
      using evidence_after_update [OF assms(1) f(2) n' _ changed(3)] by (simp add: ids)
  qed
qed

end


lemma complete_keeps_evidence:
  assumes "evidence_store_ok db" and "is_uuid4 new" and "sha256_hex_pattern h" and "0 \<le> t"
    and "complete_validation_in new i v h k f t db = Inr (s', db')"
  shows "evidence_store_ok db'" and "stored_session db' i = Some s'"
    and "(db' = db \<and> replayed_success h k f s')
      \<or> (\<exists>s b ids rows. stored_session db i = Some s \<and> complete_refusal v h s = None
          \<and> s' = completed h k f t i b db s \<and> upload_session_wf s'
          \<and> bi_checksum_hex b = h \<and> bi_size_bytes b = us_declared_size_bytes s
          \<and> identity_values b \<in> set (media_byte_identities db')
          \<and> stored_session db' = (stored_session db)(i \<mapsto> s')
          \<and> db' = db\<lparr>media_byte_identities := media_byte_identities db @ ids,
                     upload_sessions := rows\<rparr>)" (is ?C)
proof -
  have r: "session_rows_ok db" and n: "identity_rows_ok db"
    using assms(1) by (simp_all add: evidence_store_ok_def)
  note refusals = complete_in_refusals [OF assms(1-4), of i]
  obtain s where s: "stored_session db i = Some s"
    using refusals(1) [of v k f] assms(5) by (cases "stored_session db i") auto
  have wf: "upload_session_wf s" using stored_session_sound [OF r s] by (simp add: sound_session_def)
  have "evidence_store_ok db' \<and> stored_session db' i = Some s' \<and> ?C"
  proof (cases "complete_refusal v h s")
    case (Some e)
    then have "replayed_success h k f s"
      using refusals(3) [OF s] assms(5) by (cases "replayed_success h k f s") auto
    then show ?thesis using refusals(2) [OF s, of k f v] assms(1,5) s by simp
  next
    case None
    note bwf = wanted_identity_wf [OF wf assms(2-4)]
    have p: "media_byte_identity_post_init (wanted_identity new h t s) = Inr ()"
      using bwf by (simp add: byte_identity_post_init_iff)
    note guard = complete_guard [OF assms(1) s None]
    obtain b db1 where g: "get_or_create_byte_identity_in (wanted_identity new h t s) db = Inr (b, db1)"
    proof (cases "get_or_create_byte_identity_in (wanted_identity new h t s) db")
      case (Inl e)
      then have "complete_validation_in new i v h k f t db = Inl e"
        using s guard(2) [of k f] None p
        by (simp add: complete_validation_in_def row_by_id_stored [OF r] replay_iff [OF wf]
            guards_complete [OF wf] wanted_identity_def [symmetric] Let_def)
      then show ?thesis using assms(5) by simp
    qed (use that in auto)
    note gs = get_or_create_sound [OF n bwf g]
    note up = complete_in_update [OF assms(1-4) s None g, of k f]
    have w: "upload_session_wf (completed h k f t i b db s)"
      using up(2) assms(5) by (cases "upload_session_wf (completed h k f t i b db s)") auto
    from up(1) [OF w] assms(5) obtain rows where e: "s' = completed h k f t i b db s"
        "db' = db1\<lparr>upload_sessions := rows\<rparr>" "session_rows_ok db'"
        "stored_session db' = (stored_session db)(i \<mapsto> s')" by auto
    have "linked db' s'"
    proof (rule linked_identity [of b])
      show "identity_values b \<in> set (media_byte_identities db')" using gs(5) e(2) by simp
    qed (use gs(2-4) in \<open>auto simp: e(1) completed_def complete_effect_def wanted_identity_def
          split: prod.splits\<close>)
    moreover have "identity_rows_ok db'" "set (media_byte_identities db)
        \<subseteq> set (media_byte_identities db')"
      using gs(6,7) by (auto simp: e(2))
    ultimately have "evidence_store_ok db'"
      using evidence_after_update [OF assms(1) e(3) _ _ e(4)] by blast
    moreover obtain ids where "db1 = db\<lparr>media_byte_identities := media_byte_identities db @ ids\<rparr>"
      using gs(7) by blast
    then have "db' = db\<lparr>media_byte_identities := media_byte_identities db @ ids,
        upload_sessions := rows\<rparr>" using e(2) by simp
    moreover have "bi_checksum_hex b = h" "bi_size_bytes b = us_declared_size_bytes s"
        "identity_values b \<in> set (media_byte_identities db')"
      using gs(2,3,5) by (simp_all add: wanted_identity_def e(2))
    moreover have "upload_session_wf s'" using w e(1) by simp
    moreover have "stored_session db' i = Some s'" using e(4) by simp
    ultimately show ?thesis using s None e(1,4) by blast
  qed
  then show "evidence_store_ok db'" and "stored_session db' i = Some s'" and ?C by blast+
qed

section \<open>Creating a session\<close>

lemma values_with_identity:
  "(values_from_session s)\<lparr>ur_byte_identity_id := Some (uuid_to_text i)\<rparr>
     = values_from_session (s\<lparr>us_byte_identity_id := Some i\<rparr>)"
  by (simp add: values_from_session_def)

lemma wf_with_identity:
  "upload_session_wf s \<Longrightarrow> us_byte_identity_id s \<noteq> None \<Longrightarrow> is_uuid4 i \<Longrightarrow>
   upload_session_wf (s\<lparr>us_byte_identity_id := Some i\<rparr>)"
  by (auto simp: upload_wf_defs full_evidence_def)

text \<open>What \<open>create\<close> stores: the session, with the identity its bytes already have.\<close>

lemma store_new_session:
  assumes "evidence_store_ok db" and "sound_session s" and "row_by_id (us_id s) db = None"
    and "row_by_storage_key (us_storage_key s) db = None" and "linked db s"
    and db': "db' = db\<lparr>upload_sessions := upload_sessions db @ [values_from_session s]\<rparr>"
  shows "evidence_store_ok db'" and "stored_session db' = (stored_session db)(us_id s \<mapsto> s)"
proof -
  have r: "session_rows_ok db" and n: "identity_rows_ok db"
    using assms(1) by (simp_all add: evidence_store_ok_def)
  have "uuid_to_text (us_id s) \<notin> set (map ur_id (upload_sessions db))"
      "us_storage_key s \<notin> set (map ur_storage_key (upload_sessions db))"
    using assms(3,4) by (auto simp: row_by_id_def row_by_storage_key_def sql_first_def find_None_iff)
  then have r': "session_rows_ok db'"
    using r assms(2) by (auto simp: session_rows_ok_iff db')
  show m: "stored_session db' = (stored_session db)(us_id s \<mapsto> s)"
  proof
    fix j
    have "row_by_id j db' = (if j = us_id s then Some (values_from_session s) else row_by_id j db)"
      using assms(3) by (auto simp: row_by_id_def sql_first_def db' find_append_one split: option.splits)
    then show "stored_session db' j = ((stored_session db)(us_id s \<mapsto> s)) j"
      using assms(2) by (simp add: stored_session_def session_from_values sound_session_def)
  qed
  show "evidence_store_ok db'"
  proof (rule evidence_after_update [OF assms(1) r' _ _ m])
    show "linked db' s" using assms(5) linked_mono [of db s db'] by (simp add: db')
  qed (use n in \<open>simp_all add: db'\<close>)
qed

lemma create_in_ok:
  assumes "evidence_store_ok db" and "upload_session_wf s"
    and c: "create_session_in s db = Inr (u, db')"
  shows "evidence_store_ok db'" and "stored_session db (us_id s) = None"
    and "\<exists>j. stored_session db' = (stored_session db)(us_id s \<mapsto> s\<lparr>us_byte_identity_id := j\<rparr>)
        \<and> (j = None \<longleftrightarrow> us_byte_identity_id s = None)"
proof -
  have r: "session_rows_ok db" and n: "identity_rows_ok db"
    using assms(1) by (simp_all add: evidence_store_ok_def)
  have i: "row_by_id (us_id s) db = None" and k: "row_by_storage_key (us_storage_key s) db = None"
    using c by (auto simp: create_session_in_def split: if_splits)
  show "stored_session db (us_id s) = None" by (simp add: stored_session_def i)
  have "evidence_store_ok db' \<and> (\<exists>j. stored_session db'
      = (stored_session db)(us_id s \<mapsto> s\<lparr>us_byte_identity_id := j\<rparr>)
        \<and> (j = None \<longleftrightarrow> us_byte_identity_id s = None))"
  proof (cases "us_byte_identity_id s")
    case None
    then have e: "upload_row_ok (values_from_session s)"
        "db' = db\<lparr>upload_sessions := upload_sessions db @ [values_from_session s]\<rparr>"
      using c by (auto simp: create_session_in_def i k split: if_splits)
    have "sound_session s" using e(1) assms(2) by (simp add: sound_session_def values_row_ok)
    note st = store_new_session [OF assms(1) this i k _ e(2)]
    have "s = s\<lparr>us_byte_identity_id := None\<rparr>" using None by (cases s) simp
    moreover have "linked db s" using None by (simp add: linked_def)
    ultimately show ?thesis using st None by auto
  next
    case (Some x)
    obtain a h where ah: "us_checksum_algorithm s = Some a" "us_checksum_hex s = Some h"
      using c Some by (auto simp: create_session_in_def i k split: option.splits)
    define b where "b = \<lparr>bi_id = x, bi_checksum_algorithm = a,
        bi_size_bytes = us_declared_size_bytes s, bi_checksum_hex = h,
        bi_created_at_ms = us_updated_at_ms s\<rparr>"
    have a: "a = lit ''sha256''"
      using assms(2) ah by (auto simp: upload_wf_defs checksum_pair_ok_def)
    obtain b' db1 where p: "media_byte_identity_post_init b = Inr ()"
        and g: "get_or_create_byte_identity_in b db = Inr (b', db1)"
        and o: "upload_row_ok (values_from_session (s\<lparr>us_byte_identity_id := Some (bi_id b')\<rparr>))"
        and d: "db' = db1\<lparr>upload_sessions := upload_sessions db1
              @ [values_from_session (s\<lparr>us_byte_identity_id := Some (bi_id b')\<rparr>)]\<rparr>"
      using c Some
      by (auto simp: create_session_in_def i k ah b_def [symmetric] Let_def and_then_Inr
          values_with_identity split: if_splits prod.splits)
    have bwf: "byte_identity_wf b" using p by (simp add: byte_identity_post_init_iff)
    note gs = get_or_create_sound [OF n bwf g]
    from gs(7) obtain rows where rows:
      "db1 = db\<lparr>media_byte_identities := media_byte_identities db @ rows\<rparr>" by blast
    let ?s = "s\<lparr>us_byte_identity_id := Some (bi_id b')\<rparr>"
    have "is_uuid4 (bi_id b')" using gs(1) by (simp add: byte_identity_wf_def)
    then have "sound_session ?s"
      using o wf_with_identity [OF assms(2)] Some by (simp add: sound_session_def values_row_ok)
    moreover have "evidence_store_ok db1"
    proof -
      have "linked db1 u" if "stored_session db1 j = Some u" for j u
        using that assms(1) linked_iff [OF r n] linked_mono [of db u db1]
        by (auto simp: rows evidence_store_ok_def)
      then show ?thesis
        using r gs(6) linked_iff [of db1] by (simp add: evidence_store_ok_def rows)
    qed
    moreover have "linked db1 ?s"
      using gs(2-5) ah a by (intro linked_identity [of b']) (simp_all add: b_def)
    moreover have "row_by_id (us_id ?s) db1 = None" "row_by_storage_key (us_storage_key ?s) db1 = None"
      using i k by (simp_all add: rows row_by_storage_key_def)
    ultimately have "evidence_store_ok db'" "stored_session db' = (stored_session db1)(us_id ?s \<mapsto> ?s)"
      using store_new_session [of db1 ?s db'] d by blast+
    then show ?thesis using Some by (auto simp: rows intro!: exI [of _ "Some (bi_id b')"])
  qed
  then show "evidence_store_ok db'"
    and "\<exists>j. stored_session db' = (stored_session db)(us_id s \<mapsto> s\<lparr>us_byte_identity_id := j\<rparr>)
        \<and> (j = None \<longleftrightarrow> us_byte_identity_id s = None)" by blast+
qed


lemma get_or_create_frame:
  assumes "get_or_create_byte_identity_in b db = Inr (i, db')"
  shows "\<exists>ids. db' = db\<lparr>media_byte_identities := media_byte_identities db @ ids\<rparr>"
proof -
  obtain db1 where "insert_identity_row b db = Inr db1" and e: "db' = db1"
    using assms
    by (auto simp: get_or_create_byte_identity_in_def and_then_Inr split: option.splits)
  then have "db1 = db \<or> (\<exists>r. db1 = db\<lparr>media_byte_identities := media_byte_identities db @ [r]\<rparr>)"
    by (auto simp: insert_identity_row_def Let_def split: if_splits)
  then show ?thesis unfolding e
  proof
    assume "db1 = db"
    then have "db1 = db\<lparr>media_byte_identities := media_byte_identities db @ []\<rparr>" by simp
    then show "\<exists>ids. db1 = db\<lparr>media_byte_identities := media_byte_identities db @ ids\<rparr>" by blast
  qed blast
qed

lemma create_in_frame:
  assumes c: "create_session_in s db = Inr (u, db')"
  shows "\<exists>ids rows. db' = db\<lparr>media_byte_identities := media_byte_identities db @ ids,
    upload_sessions := rows\<rparr>"
proof (cases "us_byte_identity_id s")
  case None
  then have "db' = db\<lparr>media_byte_identities := media_byte_identities db @ [],
      upload_sessions := upload_sessions db @ [values_from_session s]\<rparr>"
    using c by (auto simp: create_session_in_def split: if_splits)
  then show ?thesis by blast
next
  case (Some x)
  obtain a h where ah: "us_checksum_algorithm s = Some a" "us_checksum_hex s = Some h"
    using c Some by (auto simp: create_session_in_def split: option.splits if_splits)
  obtain b i db1 rows where "get_or_create_byte_identity_in b db = Inr (i, db1)"
      and d: "db' = db1\<lparr>upload_sessions := rows\<rparr>"
    using c Some
    by (auto simp: create_session_in_def ah Let_def and_then_Inr split: if_splits prod.splits)
  then obtain ids where "db1 = db\<lparr>media_byte_identities := media_byte_identities db @ ids\<rparr>"
    using get_or_create_frame by blast
  then show ?thesis unfolding d by auto
qed

end
