(* ===== verification/Upload_Publication_Repository.thy ===== *)
theory Upload_Publication_Repository
  imports Upload_Evidence
begin

text \<open>
  \<open>infrastructure/persistence/upload_publication_repository.py\<close>: the reservation of a
  target, the two commits that move an upload to published and to cataloged, and the
  candidate queries.  The commits change the publication row and the session row in one
  immediate transaction.
\<close>

datatype publication_repo_error =
    FrameNestUploadPublicationRepositoryError
  | UploadPublicationNotFoundError
  | UploadPublicationEvidenceConflictError
  | UploadPublicationStateConflictError
  | UploadPublicationConcurrencyConflictError
  | UploadPublicationTargetConflictError
  | UnsupportedLegacyUploadPublicationStateError
  | UploadCatalogStateConflictError
  | UploadCatalogInconsistencyError

record publication_candidate =
  pc_upload :: upload_session
  pc_publication :: "upload_publication option"

section \<open>Rows\<close>

definition publication_values :: "upload_publication \<Rightarrow> publication_row" where
  "publication_values p = \<lparr>
     pr_upload_id = uuid_to_text (up_upload_id p),
     pr_publication_id = uuid_to_text (up_publication_id p),
     pr_destination_id = uuid_to_text (up_destination_id p),
     pr_relative_target = up_relative_path p,
     pr_byte_identity_id = uuid_to_text (up_byte_identity_id p),
     pr_expected_size_bytes = up_expected_size_bytes p,
     pr_checksum_algorithm = up_checksum_algorithm p,
     pr_checksum_hex = up_checksum_hex p,
     pr_validated_media_kind = validated_media_kind_value (up_validated_media_kind p),
     pr_validated_format = validated_format_value (up_validated_format p),
     pr_state = publication_state_value (up_state p),
     pr_cleanup_state = cleanup_state_value (up_cleanup_state p),
     pr_created_at_ms = up_created_at_ms p,
     pr_updated_at_ms = up_updated_at_ms p,
     pr_verified_at_ms = up_verified_at_ms p,
     pr_cleanup_completed_at_ms = up_cleanup_completed_at_ms p,
     pr_version = up_version p,
     pr_media_id = map_option uuid_to_text (up_media_id p),
     pr_media_location_id = map_option uuid_to_text (up_media_location_id p)\<rparr>"

abbreviation rep :: "'e + 'a \<Rightarrow> publication_repo_error + 'a" where
  "rep m \<equiv> rescue (\<lambda>_. FrameNestUploadPublicationRepositoryError) m"

definition publication_from_row :: "publication_row \<Rightarrow> publication_repo_error + upload_publication"
    where
  "publication_from_row r =
     and_then (rep (upload_session_id_from_string (pr_upload_id r))) (\<lambda>upload.
     and_then (rep (upload_publication_id_from_string (pr_publication_id r))) (\<lambda>pid.
     and_then (rep (identity_from_string (pr_destination_id r))) (\<lambda>dest.
     and_then (rep (relative_path_new (pr_relative_target r))) (\<lambda>path.
     and_then (rep (identity_from_string (pr_byte_identity_id r))) (\<lambda>byte_identity.
     and_then (rep (validated_media_kind_parse (pr_validated_media_kind r))) (\<lambda>kind.
     and_then (rep (validated_format_parse (pr_validated_format r))) (\<lambda>format.
     and_then (rep (publication_state_parse (pr_state r))) (\<lambda>state.
     and_then (rep (cleanup_state_parse (pr_cleanup_state r))) (\<lambda>cleanup.
     and_then (rep (opt_map identity_from_string (pr_media_id r))) (\<lambda>media.
     and_then (rep (opt_map identity_from_string (pr_media_location_id r))) (\<lambda>location.
     let p = \<lparr>up_upload_id = upload, up_publication_id = pid, up_destination_id = dest,
              up_relative_path = path, up_byte_identity_id = byte_identity,
              up_expected_size_bytes = pr_expected_size_bytes r,
              up_checksum_algorithm = pr_checksum_algorithm r,
              up_checksum_hex = pr_checksum_hex r,
              up_validated_media_kind = kind, up_validated_format = format,
              up_state = state, up_cleanup_state = cleanup,
              up_created_at_ms = pr_created_at_ms r,
              up_updated_at_ms = pr_updated_at_ms r,
              up_verified_at_ms = pr_verified_at_ms r,
              up_cleanup_completed_at_ms = pr_cleanup_completed_at_ms r,
              up_version = pr_version r, up_media_id = media,
              up_media_location_id = location\<rparr>
     in and_then (rep (upload_publication_post_init p)) (\<lambda>_. Inr p))))))))))))"

text \<open>
  \<open>_upload_from_row\<close> builds the session of \<open>_session_from_row\<close> without the arguments
  \<open>created_by_login_key\<close> and \<open>duplicate_resolution_mode\<close>, which take their defaults.
\<close>

definition upload_from_row :: "upload_row \<Rightarrow> publication_repo_error + upload_session" where
  "upload_from_row r = rep (session_from_row
     (r\<lparr>ur_created_by_login_key := None,
        ur_duplicate_resolution_mode := duplicate_resolution_mode_value EXPLICIT\<rparr>))"

definition publication_row_of :: "uuid \<Rightarrow> catalog_db \<Rightarrow> publication_row option" where
  "publication_row_of upload_id db =
     sql_first (\<lambda>p. pr_upload_id p = uuid_to_text upload_id) (upload_publications db)"

definition candidate_from_rows ::
    "upload_row \<Rightarrow> publication_row option \<Rightarrow> publication_repo_error + publication_candidate" where
  "candidate_from_rows upload_row publication_row =
     and_then (upload_from_row upload_row) (\<lambda>upload.
     and_then (opt_map publication_from_row publication_row) (\<lambda>publication.
       Inr \<lparr>pc_upload = upload, pc_publication = publication\<rparr>))"

definition require_candidate ::
    "uuid \<Rightarrow> catalog_db \<Rightarrow> publication_repo_error + publication_candidate" where
  "require_candidate upload_id db =
     (case row_by_id upload_id db of
        None \<Rightarrow> Inl UploadPublicationNotFoundError
      | Some r \<Rightarrow> candidate_from_rows r (publication_row_of upload_id db))"

definition require_matching_evidence ::
    "upload_publication \<Rightarrow> upload_session \<Rightarrow> publication_repo_error + unit" where
  "require_matching_evidence publication upload =
     rescue (\<lambda>_. UploadPublicationEvidenceConflictError)
       (ensure_publication_matches_upload publication upload)"

definition require_publication_id ::
    "upload_publication \<Rightarrow> uuid \<Rightarrow> publication_repo_error + unit" where
  "require_publication_id publication expected =
     raise_if (up_publication_id publication \<noteq> expected) UploadPublicationEvidenceConflictError"

fun publication_repo_non_negative :: "pyobj \<Rightarrow> publication_repo_error + unit" where
  "publication_repo_non_negative (PyInt n) =
     raise_if (n < 0) UploadPublicationConcurrencyConflictError"
| "publication_repo_non_negative _ = Inl UploadPublicationConcurrencyConflictError"

definition validate_limit_and_cursor ::
    "pyobj \<Rightarrow> pyobj \<Rightarrow> pyobj \<Rightarrow> publication_repo_error + unit" where
  "validate_limit_and_cursor limit after_updated_at_ms after_id =
     (case limit of
        PyInt n \<Rightarrow>
          if n \<le> 0 then Inl FrameNestUploadPublicationRepositoryError
          else if after_updated_at_ms = PyNone \<and> after_id = PyNone then Inr ()
          else (case (after_updated_at_ms, after_id) of
              (PyInt t, PyStr i) \<Rightarrow>
                raise_if (t < 0 \<or> i = []) FrameNestUploadPublicationRepositoryError
            | _ \<Rightarrow> Inl FrameNestUploadPublicationRepositoryError)
      | _ \<Rightarrow> Inl FrameNestUploadPublicationRepositoryError)"

section \<open>Candidates\<close>

definition get_candidate ::
    "uuid \<Rightarrow> catalog_db
     \<Rightarrow> (publication_repo_error + publication_candidate option) \<times> catalog_db" where
  "get_candidate upload_id db = run_in_transaction (\<lambda>db.
     case row_by_id upload_id db of
       None \<Rightarrow> Inr (None, db)
     | Some r \<Rightarrow> and_then (candidate_from_rows r (publication_row_of upload_id db))
         (\<lambda>c. Inr (Some c, db))) db"

text \<open>
  The two listings share their cursor, order and limit; they differ in the condition on the
  session and its publication (\<open>upload_id\<close> is the primary key, so a join finds at most one).
\<close>

definition after_cursor :: "pyobj \<Rightarrow> pyobj \<Rightarrow> upload_row \<Rightarrow> bool" where
  "after_cursor after_updated_at_ms after_id r =
     (case (after_updated_at_ms, after_id) of
        (PyInt t, PyStr i) \<Rightarrow> ur_updated_at_ms r > t \<or> (ur_updated_at_ms r = t \<and> ur_id r > i)
      | _ \<Rightarrow> True)"

definition joined_publication :: "catalog_db \<Rightarrow> upload_row \<Rightarrow> publication_row option" where
  "joined_publication db r = sql_first (\<lambda>p. pr_upload_id p = ur_id r) (upload_publications db)"

definition load_candidate ::
    "catalog_db \<Rightarrow> pystr \<Rightarrow> publication_repo_error + publication_candidate" where
  "load_candidate db upload_id_text =
     and_then (rep (upload_session_id_from_string upload_id_text)) (\<lambda>upload_id.
       require_candidate upload_id db)"

definition list_joined ::
    "(upload_row \<Rightarrow> publication_row option \<Rightarrow> bool) \<Rightarrow> pyobj \<Rightarrow> pyobj \<Rightarrow> pyobj \<Rightarrow> catalog_db
     \<Rightarrow> (publication_repo_error + publication_candidate list) \<times> catalog_db" where
  "list_joined condition limit after_updated_at_ms after_id db =
     (case validate_limit_and_cursor limit after_updated_at_ms after_id of
        Inl e \<Rightarrow> (Inl e, db)
      | Inr _ \<Rightarrow> run_in_transaction (\<lambda>db.
          let rows = filter (\<lambda>r. condition r (joined_publication db r)
                 \<and> after_cursor after_updated_at_ms after_id r) (upload_sessions db);
              n = (case limit of PyInt n \<Rightarrow> n | _ \<Rightarrow> 0)
          in and_then (map_results (\<lambda>r. load_candidate db (ur_id r))
                 (sql_order_limit (\<lambda>r. (ur_updated_at_ms r, ur_id r)) n rows))
               (\<lambda>candidates. Inr (candidates, db))) db)"

definition publication_pending :: "upload_row \<Rightarrow> publication_row option \<Rightarrow> bool" where
  "publication_pending r p \<longleftrightarrow> ur_state r = upload_state_value U_PUBLISH_PENDING
     \<or> (ur_state r = upload_state_value U_PUBLISHED
        \<and> (case p of None \<Rightarrow> False
           | Some p \<Rightarrow> pr_state p = publication_state_value P_VERIFIED
               \<and> pr_cleanup_state p = cleanup_state_value C_PENDING))"

definition list_candidates ::
    "pyobj \<Rightarrow> pyobj \<Rightarrow> pyobj \<Rightarrow> catalog_db
     \<Rightarrow> (publication_repo_error + publication_candidate list) \<times> catalog_db" where
  "list_candidates = list_joined publication_pending"

definition catalog_pending :: "upload_row \<Rightarrow> publication_row option \<Rightarrow> bool" where
  "catalog_pending r p \<longleftrightarrow>
     (case p of None \<Rightarrow> False
      | Some p \<Rightarrow> ur_state r = upload_state_value U_PUBLISHED
          \<and> pr_state p = publication_state_value P_VERIFIED
          \<and> pr_cleanup_state p = cleanup_state_value C_COMPLETE
          \<and> pr_media_id p = None \<and> pr_media_location_id p = None)"

definition list_catalog_candidates ::
    "pyobj \<Rightarrow> pyobj \<Rightarrow> pyobj \<Rightarrow> catalog_db
     \<Rightarrow> (publication_repo_error + publication_candidate list) \<times> catalog_db" where
  "list_catalog_candidates = list_joined catalog_pending"

definition find_cataloged_by_byte_identity ::
    "uuid \<Rightarrow> uuid \<Rightarrow> catalog_db
     \<Rightarrow> (publication_repo_error + publication_candidate option) \<times> catalog_db" where
  "find_cataloged_by_byte_identity byte_identity_id exclude_upload_id db =
     run_in_transaction (\<lambda>db.
       let rows = filter (\<lambda>r. ur_id r \<noteq> uuid_to_text exclude_upload_id
              \<and> ur_byte_identity_id r = Some (uuid_to_text byte_identity_id)
              \<and> ur_state r = upload_state_value U_CATALOGED
              \<and> (case joined_publication db r of None \<Rightarrow> False
                 | Some p \<Rightarrow> pr_media_id p \<noteq> None \<and> pr_media_location_id p \<noteq> None))
            (upload_sessions db)
       in case sql_order_limit (\<lambda>r. (ur_updated_at_ms r, ur_id r)) 1 rows of
            [] \<Rightarrow> Inr (None, db)
          | r # _ \<Rightarrow> and_then (load_candidate db (ur_id r)) (\<lambda>c. Inr (Some c, db))) db"


section \<open>Writing the two tables\<close>

text \<open>The unique constraints and the foreign keys of \<open>upload_publications\<close>.\<close>

definition publication_keys_ok :: "publication_row list \<Rightarrow> bool" where
  "publication_keys_ok rows \<longleftrightarrow> distinct (map pr_upload_id rows)
     \<and> distinct (map pr_publication_id rows)
     \<and> distinct (map (\<lambda>r. (pr_destination_id r, pr_relative_target r)) rows)
     \<and> distinct (List.map_filter pr_media_id rows)
     \<and> distinct (List.map_filter pr_media_location_id rows)"

definition publication_references_ok :: "catalog_db \<Rightarrow> publication_row \<Rightarrow> bool" where
  "publication_references_ok db p \<longleftrightarrow>
     pr_upload_id p \<in> set (map ur_id (upload_sessions db))
     \<and> pr_destination_id p \<in> set (libraries db)
     \<and> pr_byte_identity_id p \<in> set (map ir_id (media_byte_identities db))
     \<and> (case pr_media_id p of None \<Rightarrow> True
        | Some i \<Rightarrow> i \<in> set (map mr_id (logical_media_rows db)))
     \<and> (case pr_media_location_id p of None \<Rightarrow> True
        | Some i \<Rightarrow> i \<in> set (map lr_id (physical_media_locations db)))"

definition update_publications ::
    "(publication_row \<Rightarrow> bool) \<Rightarrow> (publication_row \<Rightarrow> publication_row) \<Rightarrow> catalog_db
     \<Rightarrow> publication_repo_error + catalog_db" where
  "update_publications guard change db =
     (case sql_update (\<lambda>p. publication_row_ok p \<and> publication_references_ok db p) guard change
             (upload_publications db) of
        None \<Rightarrow> Inl FrameNestUploadPublicationRepositoryError
      | Some (rows, rowcount) \<Rightarrow>
          if \<not> publication_keys_ok rows then Inl FrameNestUploadPublicationRepositoryError
          else if rowcount \<noteq> 1 then Inl UploadPublicationConcurrencyConflictError
          else Inr (db\<lparr>upload_publications := rows\<rparr>))"

definition update_uploads ::
    "(upload_row \<Rightarrow> bool) \<Rightarrow> (upload_row \<Rightarrow> upload_row) \<Rightarrow> catalog_db
     \<Rightarrow> publication_repo_error + catalog_db" where
  "update_uploads guard change db =
     (case sql_update upload_row_ok guard change (upload_sessions db) of
        None \<Rightarrow> Inl FrameNestUploadPublicationRepositoryError
      | Some (rows, rowcount) \<Rightarrow>
          if rowcount \<noteq> 1 then Inl UploadPublicationConcurrencyConflictError
          else Inr (db\<lparr>upload_sessions := rows\<rparr>))"

section \<open>Reservation\<close>

definition get_or_create_reservation_in ::
    "upload_publication \<Rightarrow> int \<Rightarrow> catalog_db
     \<Rightarrow> publication_repo_error + publication_candidate \<times> catalog_db" where
  "get_or_create_reservation_in reservation expected_upload_version db =
     (case row_by_id (up_upload_id reservation) db of
        None \<Rightarrow> Inl UploadPublicationNotFoundError
      | Some r \<Rightarrow> and_then (upload_from_row r) (\<lambda>upload.
          case publication_row_of (up_upload_id reservation) db of
            Some existing_row \<Rightarrow>
              and_then (publication_from_row existing_row) (\<lambda>existing.
              and_then (require_matching_evidence existing upload) (\<lambda>_.
                Inr (\<lparr>pc_upload = upload, pc_publication = Some existing\<rparr>, db)))
          | None \<Rightarrow>
              and_then (rescue (\<lambda>_. UploadPublicationEvidenceConflictError)
                 (all_checks [ensure_upload_is_publication_candidate upload,
                    ensure_publication_matches_upload reservation upload])) (\<lambda>_.
              and_then (all_checks [
                 raise_if (us_version upload \<noteq> expected_upload_version)
                   UploadPublicationConcurrencyConflictError,
                 raise_if (up_state reservation \<noteq> P_RESERVED)
                   UploadPublicationStateConflictError]) (\<lambda>_.
              let row = publication_values reservation;
                  db' = db\<lparr>upload_publications := upload_publications db @ [row]\<rparr>
              in if \<not> publication_row_ok row \<or> \<not> publication_references_ok db row
                    \<or> \<not> publication_keys_ok (upload_publications db')
                 then Inl UploadPublicationTargetConflictError
                 else and_then (require_candidate (up_upload_id reservation) db')
                   (\<lambda>c. Inr (c, db'))))))"

definition get_or_create_reservation ::
    "upload_publication \<Rightarrow> int \<Rightarrow> catalog_db
     \<Rightarrow> (publication_repo_error + publication_candidate) \<times> catalog_db" where
  "get_or_create_reservation reservation expected_upload_version db =
     (case publication_repo_non_negative (PyInt expected_upload_version) of
        Inl e \<Rightarrow> (Inl e, db)
      | Inr _ \<Rightarrow> run_in_immediate_transaction
          (get_or_create_reservation_in reservation expected_upload_version) db)"

section \<open>Publishing\<close>

definition missing_publication :: "upload_session \<Rightarrow> publication_repo_error" where
  "missing_publication upload =
     (if us_state upload \<in> {U_PUBLISHED, U_CATALOGED}
      then UnsupportedLegacyUploadPublicationStateError
      else UploadPublicationNotFoundError)"

definition commit_verified_in ::
    "uuid \<Rightarrow> uuid \<Rightarrow> int \<Rightarrow> int \<Rightarrow> int \<Rightarrow> catalog_db
     \<Rightarrow> publication_repo_error + publication_candidate \<times> catalog_db" where
  "commit_verified_in upload_id publication_id expected_upload_version
       expected_publication_version updated_at_ms db =
     and_then (require_candidate upload_id db) (\<lambda>candidate.
     let upload = pc_upload candidate
     in case pc_publication candidate of
       None \<Rightarrow> Inl (missing_publication upload)
     | Some publication \<Rightarrow>
         and_then (all_checks [require_publication_id publication publication_id,
            require_matching_evidence publication upload]) (\<lambda>_.
         if us_state upload = U_PUBLISHED \<and> up_state publication = P_VERIFIED
         then Inr (candidate, db)
         else and_then (all_checks [
            raise_if (us_state upload \<noteq> U_PUBLISH_PENDING) UploadPublicationStateConflictError,
            raise_if (up_state publication \<noteq> P_RESERVED) UploadPublicationStateConflictError,
            raise_if (us_version upload \<noteq> expected_upload_version
                \<or> up_version publication \<noteq> expected_publication_version)
              UploadPublicationConcurrencyConflictError]) (\<lambda>_.
         and_then (update_publications
            (\<lambda>p. pr_upload_id p = uuid_to_text upload_id
               \<and> pr_publication_id p = uuid_to_text publication_id
               \<and> pr_state p = publication_state_value P_RESERVED
               \<and> pr_version p = expected_publication_version)
            (\<lambda>p. p\<lparr>pr_state := publication_state_value P_VERIFIED,
                   pr_cleanup_state := cleanup_state_value C_PENDING,
                   pr_verified_at_ms := Some updated_at_ms,
                   pr_updated_at_ms := updated_at_ms, pr_version := pr_version p + 1\<rparr>) db) (\<lambda>db1.
         and_then (update_uploads
            (\<lambda>r. ur_id r = uuid_to_text upload_id
               \<and> ur_state r = upload_state_value U_PUBLISH_PENDING
               \<and> ur_version r = expected_upload_version
               \<and> ur_received_size_bytes r = ur_declared_size_bytes r
               \<and> ur_declared_size_bytes r = up_expected_size_bytes publication
               \<and> ur_checksum_algorithm r = Some (up_checksum_algorithm publication)
               \<and> ur_checksum_hex r = Some (up_checksum_hex publication)
               \<and> ur_validated_media_kind r
                   = Some (validated_media_kind_value (up_validated_media_kind publication))
               \<and> ur_validated_format r
                   = Some (validated_format_value (up_validated_format publication))
               \<and> ur_byte_identity_id r
                   = Some (uuid_to_text (up_byte_identity_id publication)))
            (\<lambda>r. r\<lparr>ur_state := upload_state_value U_PUBLISHED,
                   ur_updated_at_ms := updated_at_ms, ur_failure_code := None,
                   ur_version := ur_version r + 1\<rparr>) db1) (\<lambda>db2.
         and_then (require_candidate upload_id db2) (\<lambda>c. Inr (c, db2)))))))"

definition commit_verified_publication ::
    "uuid \<Rightarrow> uuid \<Rightarrow> int \<Rightarrow> int \<Rightarrow> int \<Rightarrow> catalog_db
     \<Rightarrow> (publication_repo_error + publication_candidate) \<times> catalog_db" where
  "commit_verified_publication upload_id publication_id expected_upload_version
       expected_publication_version updated_at_ms db =
     (case all_checks [publication_repo_non_negative (PyInt expected_upload_version),
             publication_repo_non_negative (PyInt expected_publication_version),
             publication_repo_non_negative (PyInt updated_at_ms)] of
        Inl e \<Rightarrow> (Inl e, db)
      | Inr _ \<Rightarrow> run_in_immediate_transaction (commit_verified_in upload_id publication_id
          expected_upload_version expected_publication_version updated_at_ms) db)"

definition mark_cleanup_in ::
    "uuid \<Rightarrow> uuid \<Rightarrow> int \<Rightarrow> int \<Rightarrow> catalog_db
     \<Rightarrow> publication_repo_error + publication_candidate \<times> catalog_db" where
  "mark_cleanup_in upload_id publication_id expected_publication_version updated_at_ms db =
     and_then (require_candidate upload_id db) (\<lambda>candidate.
     let upload = pc_upload candidate
     in case pc_publication candidate of
       None \<Rightarrow> Inl (missing_publication upload)
     | Some publication \<Rightarrow>
         and_then (all_checks [require_publication_id publication publication_id,
            require_matching_evidence publication upload]) (\<lambda>_.
         if up_cleanup_state publication = C_COMPLETE then Inr (candidate, db)
         else and_then (all_checks [
            raise_if (us_state upload \<noteq> U_PUBLISHED \<or> up_state publication \<noteq> P_VERIFIED
                \<or> up_cleanup_state publication \<noteq> C_PENDING) UploadPublicationStateConflictError,
            raise_if (up_version publication \<noteq> expected_publication_version)
              UploadPublicationConcurrencyConflictError]) (\<lambda>_.
         and_then (update_publications
            (\<lambda>p. pr_upload_id p = uuid_to_text upload_id
               \<and> pr_publication_id p = uuid_to_text publication_id
               \<and> pr_state p = publication_state_value P_VERIFIED
               \<and> pr_cleanup_state p = cleanup_state_value C_PENDING
               \<and> pr_version p = expected_publication_version)
            (\<lambda>p. p\<lparr>pr_cleanup_state := cleanup_state_value C_COMPLETE,
                   pr_cleanup_completed_at_ms := Some updated_at_ms,
                   pr_updated_at_ms := updated_at_ms, pr_version := pr_version p + 1\<rparr>) db) (\<lambda>db1.
         and_then (require_candidate upload_id db1) (\<lambda>c. Inr (c, db1))))))"

definition mark_cleanup_complete ::
    "uuid \<Rightarrow> uuid \<Rightarrow> int \<Rightarrow> int \<Rightarrow> catalog_db
     \<Rightarrow> (publication_repo_error + publication_candidate) \<times> catalog_db" where
  "mark_cleanup_complete upload_id publication_id expected_publication_version updated_at_ms db =
     (case all_checks [publication_repo_non_negative (PyInt expected_publication_version),
             publication_repo_non_negative (PyInt updated_at_ms)] of
        Inl e \<Rightarrow> (Inl e, db)
      | Inr _ \<Rightarrow> run_in_immediate_transaction (mark_cleanup_in upload_id publication_id
          expected_publication_version updated_at_ms) db)"

section \<open>Cataloging\<close>

definition checks_pass :: "sql_bool list \<Rightarrow> bool" where
  "checks_pass cs \<longleftrightarrow> list_all check_passes cs"

text \<open>\<open>_insert_media\<close> and \<open>_insert_location\<close> of \<open>media_repository.py\<close>; every error of
  theirs becomes the repository error.\<close>

definition media_values :: "logical_media \<Rightarrow> media_row" where
  "media_values m = \<lparr>mr_id = uuid_to_text (lm_id m), mr_media_kind = media_kind_value (lm_kind m),
     mr_created_at_ms = lm_created_at_ms m, mr_updated_at_ms = lm_updated_at_ms m\<rparr>"

definition location_values :: "media_location \<Rightarrow> location_row" where
  "location_values l = \<lparr>lr_id = uuid_to_text (ml_id l), lr_media_id = uuid_to_text (ml_media_id l),
     lr_library_id = uuid_to_text (ml_library_id l), lr_relative_path = ml_relative_path l,
     lr_availability = availability_value (ml_availability l),
     lr_observed_size_bytes = ml_observed_size_bytes l,
     lr_observed_mtime_ns = ml_observed_mtime_ns l,
     lr_created_at_ms = ml_created_at_ms l, lr_updated_at_ms = ml_updated_at_ms l\<rparr>"

definition insert_media :: "logical_media \<Rightarrow> catalog_db \<Rightarrow> publication_repo_error + catalog_db" where
  "insert_media m db =
     (let row = media_values m
      in if mr_id row \<in> set (map mr_id (logical_media_rows db))
            \<or> \<not> checks_pass (media_row_checks row)
         then Inl FrameNestUploadPublicationRepositoryError
         else Inr (db\<lparr>logical_media_rows := logical_media_rows db @ [row]\<rparr>))"

definition insert_location ::
    "media_location \<Rightarrow> catalog_db \<Rightarrow> publication_repo_error + catalog_db" where
  "insert_location l db =
     (let row = location_values l
      in if lr_media_id row \<notin> set (map mr_id (logical_media_rows db))
            \<or> lr_library_id row \<notin> set (libraries db)
            \<or> lr_id row \<in> set (map lr_id (physical_media_locations db))
            \<or> (lr_library_id row, lr_relative_path row)
                \<in> set (map (\<lambda>r. (lr_library_id r, lr_relative_path r))
                     (physical_media_locations db))
            \<or> \<not> checks_pass (location_row_checks row)
         then Inl FrameNestUploadPublicationRepositoryError
         else Inr (db\<lparr>physical_media_locations := physical_media_locations db @ [row]\<rparr>))"

definition metadata_values :: "media_metadata \<Rightarrow> collection_state \<Rightarrow> metadata_row" where
  "metadata_values m collection = \<lparr>dr_media_id = uuid_to_text (mm_media_id m),
     dr_display_title = mm_display_title m, dr_description = mm_description m,
     dr_content_category = content_category_value (mm_content_category m),
     dr_acquisition_source = acquisition_source_value (mm_acquisition_source m),
     dr_creator_attribution_kind = map_option creator_kind_value (mm_creator_attribution_kind m),
     dr_creator_stable_id = mm_creator_stable_id m,
     dr_creator_handle = mm_creator_handle m,
     dr_creator_display_name = mm_creator_display_name m,
     dr_collection_key = cs_collection_key collection,
     dr_processed_at_ms = cs_processed_at_ms collection,
     dr_created_at_ms = mm_created_at_ms m, dr_updated_at_ms = mm_updated_at_ms m\<rparr>"

definition tag_values :: "media_metadata \<Rightarrow> tag_row list" where
  "tag_values m = map (\<lambda>(position, key). \<lparr>tr_media_id = uuid_to_text (mm_media_id m),
     tr_tag_key = key, tr_position = int position\<rparr>) (enumerate 0 (mm_tag_keys m))"

definition insert_metadata ::
    "media_metadata \<Rightarrow> catalog_db \<Rightarrow> publication_repo_error + catalog_db" where
  "insert_metadata m db =
     and_then (rep (derive_collection_state None None (mm_tag_keys m) (mm_updated_at_ms m)))
       (\<lambda>collection.
        let row = metadata_values m collection; tags = tag_values m
        in if dr_media_id row \<notin> set (map mr_id (logical_media_rows db))
              \<or> dr_media_id row \<in> set (map dr_media_id (media_metadata_rows db))
              \<or> \<not> checks_pass (metadata_row_checks row)
              \<or> \<not> list_all (\<lambda>t. tr_tag_key t \<in> set (canonical_tags db)
                     \<and> checks_pass (tag_row_checks t)) tags
              \<or> \<not> distinct (map (\<lambda>t. (tr_media_id t, tr_tag_key t))
                     (media_canonical_tags db @ tags))
              \<or> \<not> distinct (map (\<lambda>t. (tr_media_id t, tr_position t))
                     (media_canonical_tags db @ tags))
           then Inl FrameNestUploadPublicationRepositoryError
           else Inr (db\<lparr>media_metadata_rows := media_metadata_rows db @ [row],
                        media_canonical_tags := media_canonical_tags db @ tags\<rparr>))"

definition catalog_links_resolve :: "catalog_db \<Rightarrow> upload_publication \<Rightarrow> bool" where
  "catalog_links_resolve db publication =
     (case (up_media_id publication, up_media_location_id publication) of
        (Some media_id, Some location_id) \<Rightarrow>
          uuid_to_text media_id \<in> set (map mr_id (logical_media_rows db))
          \<and> (case sql_first (\<lambda>l. lr_id l = uuid_to_text location_id)
                  (physical_media_locations db) of
               None \<Rightarrow> False
             | Some l \<Rightarrow> lr_media_id l = uuid_to_text media_id
                 \<and> lr_library_id l = uuid_to_text (up_destination_id publication)
                 \<and> lr_relative_path l = up_relative_path publication)
      | _ \<Rightarrow> False)"

definition catalog_arguments ::
    "logical_media \<Rightarrow> media_location \<Rightarrow> media_metadata option \<Rightarrow> publication_repo_error + unit" where
  "catalog_arguments media location metadata = all_checks [
     raise_if (ml_media_id location \<noteq> lm_id media) UploadCatalogStateConflictError,
     raise_if (case metadata of None \<Rightarrow> False
         | Some m \<Rightarrow> mm_media_id m \<noteq> lm_id media \<or> mm_genre_keys m \<noteq> [])
       UploadCatalogStateConflictError]"

definition catalog_guards ::
    "publication_candidate \<Rightarrow> upload_publication \<Rightarrow> media_location \<Rightarrow> int \<Rightarrow> int
     \<Rightarrow> publication_repo_error + unit" where
  "catalog_guards candidate publication location expected_upload_version
       expected_publication_version = all_checks [
     raise_if (us_state (pc_upload candidate) = U_CATALOGED \<or> up_media_id publication \<noteq> None
         \<or> up_media_location_id publication \<noteq> None) UploadCatalogInconsistencyError,
     raise_if (us_state (pc_upload candidate) \<noteq> U_PUBLISHED \<or> up_state publication \<noteq> P_VERIFIED
         \<or> up_cleanup_state publication \<noteq> C_COMPLETE) UploadCatalogStateConflictError,
     raise_if (ml_library_id location \<noteq> up_destination_id publication
         \<or> ml_relative_path location \<noteq> up_relative_path publication
         \<or> ml_observed_size_bytes location \<noteq> Some (up_expected_size_bytes publication))
       UploadCatalogStateConflictError,
     raise_if (us_version (pc_upload candidate) \<noteq> expected_upload_version
         \<or> up_version publication \<noteq> expected_publication_version)
       UploadPublicationConcurrencyConflictError]"

definition commit_cataloged_in ::
    "uuid \<Rightarrow> logical_media \<Rightarrow> media_location \<Rightarrow> int \<Rightarrow> int \<Rightarrow> int \<Rightarrow> media_metadata option
     \<Rightarrow> catalog_db \<Rightarrow> publication_repo_error + publication_candidate \<times> catalog_db" where
  "commit_cataloged_in upload_id media location expected_upload_version
       expected_publication_version updated_at_ms metadata db =
     and_then (require_candidate upload_id db) (\<lambda>candidate.
     case pc_publication candidate of
       None \<Rightarrow> Inl UploadPublicationNotFoundError
     | Some publication \<Rightarrow>
         and_then (all_checks [
            require_matching_evidence publication (pc_upload candidate),
            raise_if ((up_media_id publication = None)
                \<noteq> (up_media_location_id publication = None)) UploadCatalogInconsistencyError]) (\<lambda>_.
         if us_state (pc_upload candidate) = U_CATALOGED \<and> up_media_id publication \<noteq> None
            \<and> up_media_location_id publication \<noteq> None
         then if \<not> catalog_links_resolve db publication then Inl UploadCatalogInconsistencyError
              else Inr (candidate, db)
         else
         and_then (catalog_guards candidate publication location expected_upload_version
            expected_publication_version) (\<lambda>_.
         and_then (insert_media media db) (\<lambda>db1.
         and_then (insert_location location db1) (\<lambda>db2.
         and_then (case metadata of None \<Rightarrow> Inr db2 | Some m \<Rightarrow> insert_metadata m db2) (\<lambda>db3.
         and_then (update_publications
            (\<lambda>p. pr_upload_id p = uuid_to_text upload_id
               \<and> pr_state p = publication_state_value P_VERIFIED
               \<and> pr_cleanup_state p = cleanup_state_value C_COMPLETE
               \<and> pr_media_id p = None \<and> pr_media_location_id p = None
               \<and> pr_version p = expected_publication_version)
            (\<lambda>p. p\<lparr>pr_media_id := Some (uuid_to_text (lm_id media)),
                   pr_media_location_id := Some (uuid_to_text (ml_id location)),
                   pr_updated_at_ms := updated_at_ms, pr_version := pr_version p + 1\<rparr>) db3) (\<lambda>db4.
         and_then (update_uploads
            (\<lambda>r. ur_id r = uuid_to_text upload_id
               \<and> ur_state r = upload_state_value U_PUBLISHED
               \<and> ur_version r = expected_upload_version)
            (\<lambda>r. r\<lparr>ur_state := upload_state_value U_CATALOGED,
                   ur_updated_at_ms := updated_at_ms, ur_failure_code := None,
                   ur_version := ur_version r + 1\<rparr>) db4) (\<lambda>db5.
         and_then (require_candidate upload_id db5) (\<lambda>c. Inr (c, db5))))))))))"

definition commit_cataloged_publication ::
    "uuid \<Rightarrow> logical_media \<Rightarrow> media_location \<Rightarrow> int \<Rightarrow> int \<Rightarrow> int \<Rightarrow> media_metadata option
     \<Rightarrow> catalog_db \<Rightarrow> (publication_repo_error + publication_candidate) \<times> catalog_db" where
  "commit_cataloged_publication upload_id media location expected_upload_version
       expected_publication_version updated_at_ms metadata db =
     (case and_then (all_checks [publication_repo_non_negative (PyInt expected_upload_version),
               publication_repo_non_negative (PyInt expected_publication_version),
               publication_repo_non_negative (PyInt updated_at_ms)])
             (\<lambda>_. catalog_arguments media location metadata) of
        Inl e \<Rightarrow> (Inl e, db)
      | Inr _ \<Rightarrow> run_in_immediate_transaction (commit_cataloged_in upload_id media location
          expected_upload_version expected_publication_version updated_at_ms metadata) db)"

end
