(* ===== verification/Publication_Store.thy ===== *)
theory Publication_Store
  imports Upload_Publication_Repository
begin

text \<open>
  What the rows of \<open>upload_publications\<close> mean, and the effect of the two kinds of update the
  publication repository runs on them and on the session they publish.
\<close>

section \<open>Rows and publications\<close>

lemma publication_values_simps [simp]:
  "pr_upload_id (publication_values p) = uuid_to_text (up_upload_id p)"
  "pr_publication_id (publication_values p) = uuid_to_text (up_publication_id p)"
  "pr_destination_id (publication_values p) = uuid_to_text (up_destination_id p)"
  "pr_relative_target (publication_values p) = up_relative_path p"
  "pr_byte_identity_id (publication_values p) = uuid_to_text (up_byte_identity_id p)"
  "pr_state (publication_values p) = publication_state_value (up_state p)"
  "pr_cleanup_state (publication_values p) = cleanup_state_value (up_cleanup_state p)"
  "pr_version (publication_values p) = up_version p"
  "pr_media_id (publication_values p) = map_option uuid_to_text (up_media_id p)"
  "pr_media_location_id (publication_values p) = map_option uuid_to_text (up_media_location_id p)"
  "pr_created_at_ms (publication_values p) = up_created_at_ms p"
  "pr_updated_at_ms (publication_values p) = up_updated_at_ms p"
  by (simp_all add: publication_values_def)

declare publication_state_value.simps [simp del] cleanup_state_value.simps [simp del]

lemma publication_from_row_iff:
  "publication_from_row r = Inr p \<longleftrightarrow> upload_publication_wf p \<and> r = publication_values p"
proof
  assume "publication_from_row r = Inr p"
  then show "upload_publication_wf p \<and> r = publication_values p"
    by (auto simp: publication_from_row_def and_then_Inr upload_publication_post_init_iff
        upload_session_id.parse_iff upload_publication_id.parse_iff identity.parse_iff
        identity_to_string_eq relative_path_new_def media_kind_codec.parse_iff
        format_codec.parse_iff publication_state_codec.parse_iff cleanup_state_codec.parse_iff
        opt_identity_iff Let_def publication_values_def split: if_splits)
next
  assume a: "upload_publication_wf p \<and> r = publication_values p"
  then have w: "is_uuid4 (up_upload_id p)" "is_uuid4 (up_publication_id p)"
      "is_uuid4 (up_destination_id p)" "is_uuid4 (up_byte_identity_id p)"
      "pred_option is_uuid4 (up_media_id p)" "pred_option is_uuid4 (up_media_location_id p)"
      and t: "relative_target_pattern (up_relative_path p)"
    by (auto simp: upload_publication_wf_def relative_target_of_publication)
  have i: "is_uuid4 x \<Longrightarrow> identity_from_string (uuid_to_text x) = Inr x" for x
    using identity.parse_print [of x] by (simp add: identity_to_string_eq)
  have e: "upload_publication_post_init p = Inr ()"
    using a by (simp add: upload_publication_post_init_iff)
  note facts = upload_session_id.parse_print [OF w(1)] upload_publication_id.parse_print [OF w(2)]
    i [OF w(3)] i [OF w(4)] opt_identity_parse [OF w(5)] opt_identity_parse [OF w(6)]
  show "publication_from_row r = Inr p"
    using a e facts t
    by (cases p) (simp add: publication_from_row_def publication_values_def Let_def
        relative_path_new_def media_kind_codec.parse_print format_codec.parse_print
        publication_state_codec.parse_print cleanup_state_codec.parse_print)
qed

lemma publication_from_values:
  "upload_publication_wf p \<Longrightarrow> publication_from_row (publication_values p) = Inr p"
  by (simp add: publication_from_row_iff)

lemma publication_values_inj [simp]: "publication_values p = publication_values q \<longleftrightarrow> p = q"
proof
  assume a: "publication_values p = publication_values q"
  show "p = q"
  proof (rule upload_publication.equality)
    show "up_upload_id p = up_upload_id q" using arg_cong [OF a, of pr_upload_id] by simp
    show "up_publication_id p = up_publication_id q"
      using arg_cong [OF a, of pr_publication_id] by simp
    show "up_destination_id p = up_destination_id q"
      using arg_cong [OF a, of pr_destination_id] by simp
    show "up_byte_identity_id p = up_byte_identity_id q"
      using arg_cong [OF a, of pr_byte_identity_id] by simp
    show "up_validated_media_kind p = up_validated_media_kind q"
      using arg_cong [OF a, of pr_validated_media_kind]
      by (simp add: publication_values_def media_kind_codec.print_eq_iff)
    show "up_validated_format p = up_validated_format q"
      using arg_cong [OF a, of pr_validated_format]
      by (simp add: publication_values_def format_codec.print_eq_iff)
    show "up_state p = up_state q"
      using arg_cong [OF a, of pr_state] by (simp add: publication_state_codec.print_eq_iff)
    show "up_cleanup_state p = up_cleanup_state q"
      using arg_cong [OF a, of pr_cleanup_state] by (simp add: cleanup_state_codec.print_eq_iff)
    show "up_media_id p = up_media_id q" using arg_cong [OF a, of pr_media_id] by simp
    show "up_media_location_id p = up_media_location_id q"
      using arg_cong [OF a, of pr_media_location_id] by simp
  qed (use a in \<open>auto simp: publication_values_def\<close>)
qed simp

lemma publication_from_row_error:
  "publication_from_row r = Inl e \<Longrightarrow> e = FrameNestUploadPublicationRepositoryError"
  by (auto simp: publication_from_row_def rescue_Inl and_then_Inl Let_def)

text \<open>The session a candidate carries: the stored one without its login and its mode.\<close>

definition candidate_view :: "upload_session \<Rightarrow> upload_session" where
  "candidate_view s = s\<lparr>us_created_by_login_key := None,
     us_duplicate_resolution_mode := EXPLICIT\<rparr>"

lemma upload_from_values:
  "upload_from_row (values_from_session s) =
     (if upload_session_wf (candidate_view s) then Inr (candidate_view s)
      else Inl FrameNestUploadPublicationRepositoryError)"
proof -
  have "(values_from_session s)\<lparr>ur_created_by_login_key := None,
      ur_duplicate_resolution_mode := duplicate_resolution_mode_value EXPLICIT\<rparr>
    = values_from_session (candidate_view s)"
    by (simp add: values_from_session_def candidate_view_def)
  then show ?thesis by (simp add: upload_from_row_def session_from_values)
qed

lemma candidate_view_wf: "upload_session_wf s \<Longrightarrow> upload_session_wf (candidate_view s)"
  by (auto simp: upload_wf_defs candidate_view_def full_evidence_def)

lemma candidate_view_wf_conv:
  "upload_session_wf (candidate_view s) \<Longrightarrow> pred_option login_key_ok (us_created_by_login_key s) \<Longrightarrow>
     upload_session_wf s"
  by (auto simp: upload_wf_defs candidate_view_def full_evidence_def)

lemma candidate_view_simps [simp]:
  "us_id (candidate_view s) = us_id s" "us_state (candidate_view s) = us_state s"
  "us_version (candidate_view s) = us_version s"
  "us_declared_size_bytes (candidate_view s) = us_declared_size_bytes s"
  "us_received_size_bytes (candidate_view s) = us_received_size_bytes s"
  "us_checksum_algorithm (candidate_view s) = us_checksum_algorithm s"
  "us_checksum_hex (candidate_view s) = us_checksum_hex s"
  "us_validated_media_kind (candidate_view s) = us_validated_media_kind s"
  "us_validated_format (candidate_view s) = us_validated_format s"
  "us_byte_identity_id (candidate_view s) = us_byte_identity_id s"
  by (simp_all add: candidate_view_def)

section \<open>Sound publication tables\<close>

definition publication_rows_ok :: "catalog_db \<Rightarrow> bool" where
  "publication_rows_ok db \<longleftrightarrow> publication_keys_ok (upload_publications db)
     \<and> list_all (\<lambda>r. publication_row_ok r \<and> ok (publication_from_row r)
          \<and> publication_references_ok db r) (upload_publications db)"

definition stored_publication :: "catalog_db \<Rightarrow> uuid \<Rightarrow> upload_publication option" where
  "stored_publication db i =
     (case publication_row_of i db of
        None \<Rightarrow> None
      | Some r \<Rightarrow> (case publication_from_row r of Inl _ \<Rightarrow> None | Inr p \<Rightarrow> Some p))"

lemma publication_row_some_iff:
  assumes "publication_rows_ok db"
  shows "publication_row_of i db = Some r \<longleftrightarrow>
    r \<in> set (upload_publications db) \<and> pr_upload_id r = uuid_to_text i"
  using assms find_key_Some_iff [of pr_upload_id "upload_publications db"]
  by (simp add: publication_row_of_def sql_first_def publication_rows_ok_def
      publication_keys_ok_def)

lemma publication_row_wf:
  assumes "publication_rows_ok db" and "r \<in> set (upload_publications db)"
  shows "\<exists>p. upload_publication_wf p \<and> r = publication_values p"
  using assms by (fastforce simp: publication_rows_ok_def list_all_iff ok_iff
      publication_from_row_iff)

lemma stored_publication_iff:
  assumes "publication_rows_ok db"
  shows "stored_publication db i = Some p \<longleftrightarrow>
    publication_values p \<in> set (upload_publications db) \<and> up_upload_id p = i"
proof -
  have w: "publication_values p \<in> set (upload_publications db) \<Longrightarrow> upload_publication_wf p" for p
    using publication_row_wf [OF assms] by fastforce
  show ?thesis
  proof
    assume "stored_publication db i = Some p"
    then obtain r where r: "publication_row_of i db = Some r" "publication_from_row r = Inr p"
      by (auto simp: stored_publication_def split: option.splits sum.splits)
    then show "publication_values p \<in> set (upload_publications db) \<and> up_upload_id p = i"
      by (auto simp: publication_from_row_iff publication_row_some_iff [OF assms])
  next
    assume a: "publication_values p \<in> set (upload_publications db) \<and> up_upload_id p = i"
    then have "publication_row_of i db = Some (publication_values p)"
      by (simp add: publication_row_some_iff [OF assms])
    moreover have "publication_from_row (publication_values p) = Inr p"
      using a w by (simp add: publication_from_row_iff)
    ultimately show "stored_publication db i = Some p" by (simp add: stored_publication_def)
  qed
qed

lemma stored_publication_wf:
  "publication_rows_ok db \<Longrightarrow> stored_publication db i = Some p \<Longrightarrow>
     upload_publication_wf p \<and> up_upload_id p = i"
  by (auto simp: stored_publication_def publication_from_row_iff publication_row_some_iff
      split: option.splits sum.splits)

lemma publication_row_stored:
  assumes "publication_rows_ok db"
  shows "publication_row_of i db = map_option publication_values (stored_publication db i)"
proof (cases "publication_row_of i db")
  case None
  then show ?thesis by (simp add: stored_publication_def)
next
  case (Some r)
  then obtain p where "upload_publication_wf p" "r = publication_values p"
    using publication_row_wf [OF assms] by (auto simp: publication_row_some_iff [OF assms])
  moreover have "publication_from_row (publication_values p) = Inr p"
    using calculation by (simp add: publication_from_row_iff)
  ultimately show ?thesis using Some by (simp add: stored_publication_def)
qed

text \<open>Reading a candidate.\<close>

lemma require_candidate_eq:
  assumes "session_rows_ok db" and "publication_rows_ok db"
  shows "require_candidate i db =
    (case stored_session db i of
       None \<Rightarrow> Inl UploadPublicationNotFoundError
     | Some s \<Rightarrow> Inr \<lparr>pc_upload = candidate_view s, pc_publication = stored_publication db i\<rparr>)"
proof (cases "stored_session db i")
  case None
  then show ?thesis by (simp add: require_candidate_def row_by_id_stored [OF assms(1)])
next
  case (Some s)
  have "upload_session_wf (candidate_view s)"
    using stored_session_sound [OF assms(1) Some] candidate_view_wf by (simp add: sound_session_def)
  moreover have "opt_map publication_from_row (map_option publication_values (stored_publication db i))
      = Inr (stored_publication db i)"
    using stored_publication_wf [OF assms(2), of i]
    by (cases "stored_publication db i") (simp_all add: publication_from_values)
  ultimately show ?thesis
    using Some
    by (simp add: require_candidate_def row_by_id_stored [OF assms(1)] candidate_from_rows_def
        upload_from_values publication_row_stored [OF assms(2)])
qed


section \<open>The constraints hold for every well-formed publication\<close>

lemma uuid_text_no_hyphen: "filter (\<lambda>c. c \<noteq> 45) (uuid_to_text u) = uuid_hex u"
proof -
  have "c \<in> set (uuid_hex u) \<Longrightarrow> c \<noteq> 45" for c
    using uuid_hex_class [of u] hex_not_special by (auto simp: list_all_iff)
  then show ?thesis by (simp add: uuid_to_text_def filter_hyphenate)
qed

lemma extension_cases:
  "lit ''.'' @ validated_format_value f
     \<in> {lit ''.gif'', lit ''.mp4'', lit ''.jpg'', lit ''.png''}"
  by (cases f) (simp_all add: lit_def)

lemma relative_target_checks:
  assumes t: "t = uuid_hex u @ lit ''.'' @ validated_format_value f"
  shows "sql_length t = 36" and "sql_lower t = t"
    and "not_glob_outside is_lower_hex (take 32 t)" and "47 \<notin> set t" and "92 \<notin> set t"
    and "take 32 t = uuid_hex u"
    and "(validated_format_value f, drop 32 t)
       \<in> set [(lit ''gif'', lit ''.gif''), (lit ''mp4'', lit ''.mp4''),
              (lit ''jpg'', lit ''.jpg''), (lit ''png'', lit ''.png'')]"
proof -
  have h: "\<forall>c \<in> set (uuid_hex u). is_lower_hex c"
    using uuid_hex_class [of u] by (simp add: list_all_iff)
  have e: "\<forall>c \<in> set (lit ''.'' @ validated_format_value f). c = 46 \<or> is_lower c \<or> is_digit c"
    using extension_cases [of f] by (auto simp: lit_def char_class_defs)
  have all: "\<forall>c \<in> set t. c = 46 \<or> is_lower c \<or> is_digit c"
    using h e unfolding t by (auto simp: is_lower_hex_def is_lower_def)
  have n: "0 \<notin> set t" using all by (auto simp: char_class_defs)
  show "47 \<notin> set t" "92 \<notin> set t" using all by (auto simp: char_class_defs)
  have "length t = 36" unfolding t by (cases f) (simp_all add: lit_def)
  then show "sql_length t = 36" using sql_length_no_nul [OF n] by simp
  have "list_all (\<lambda>c. \<not> is_upper c) t" using all by (auto simp: list_all_iff char_class_defs)
  then show "sql_lower t = t" by (simp add: sql_lower_def ascii_lower_id)
  show "take 32 t = uuid_hex u" by (simp add: t)
  then show "not_glob_outside is_lower_hex (take 32 t)"
    using uuid_hex_class [of u] by (simp add: not_glob_outside_def)
  show "(validated_format_value f, drop 32 t)
       \<in> set [(lit ''gif'', lit ''.gif''), (lit ''mp4'', lit ''.mp4''),
              (lit ''jpg'', lit ''.jpg''), (lit ''png'', lit ''.png'')]"
    unfolding t by (cases f) (simp_all add: lit_def)
qed

lemma publication_progress_check:
  assumes "publication_progress_ok p"
  shows "(publication_state_value (up_state p) = lit ''reserved''
        \<and> cleanup_state_value (up_cleanup_state p) = lit ''pending''
        \<and> up_verified_at_ms p = None \<and> up_cleanup_completed_at_ms p = None)
     \<or> (publication_state_value (up_state p) = lit ''verified'' \<and> up_verified_at_ms p \<noteq> None
        \<and> ((cleanup_state_value (up_cleanup_state p) = lit ''pending''
              \<and> up_cleanup_completed_at_ms p = None)
          \<or> (cleanup_state_value (up_cleanup_state p) = lit ''complete''
              \<and> up_cleanup_completed_at_ms p \<noteq> None)))"
  using assms unfolding publication_progress_ok_def
  by (cases "up_state p"; cases "up_cleanup_state p")
    (auto simp: publication_state_value.simps cleanup_state_value.simps)

lemma publication_times_check:
  assumes "publication_progress_ok p"
  shows "pred_option (\<lambda>v. up_created_at_ms p \<le> v) (up_verified_at_ms p)"
    and "check_passes (sql_or (sql_is_null (up_cleanup_completed_at_ms p))
       (case (up_cleanup_completed_at_ms p, up_verified_at_ms p) of
          (Some c, Some v) \<Rightarrow> Some (c \<ge> v) | _ \<Rightarrow> None))"
  using assms unfolding publication_progress_ok_def
  by (cases "up_state p"; cases "up_cleanup_state p"; auto)+

lemma evidence_pair_text:
  "(k, f) \<in> set ALLOWED_UPLOAD_VALIDATION_EVIDENCE_PAIRS \<Longrightarrow>
   (validated_media_kind_value k, validated_format_value f)
     \<in> set [(lit ''animated_image'', lit ''gif''), (lit ''video'', lit ''mp4''),
            (lit ''image'', lit ''jpg''), (lit ''image'', lit ''png'')]"
  by (auto simp: ALLOWED_UPLOAD_VALIDATION_EVIDENCE_PAIRS_def)

lemma publication_state_texts:
  "publication_state_value s \<in> set [lit ''reserved'', lit ''verified'']"
  "cleanup_state_value c \<in> set [lit ''pending'', lit ''complete'']"
  by (cases s; simp add: publication_state_value.simps) (cases c; simp add: cleanup_state_value.simps)

lemma publication_values_row_ok:
  assumes w: "upload_publication_wf p"
  shows "publication_row_ok (publication_values p)"
proof -
  have t: "up_relative_path p
      = uuid_hex (up_publication_id p) @ lit ''.'' @ validated_format_value (up_validated_format p)"
    and prog: "publication_progress_ok p"
    and pair: "(up_validated_media_kind p, up_validated_format p)
      \<in> set ALLOWED_UPLOAD_VALIDATION_EVIDENCE_PAIRS"
    and sha: "sha256_hex_pattern (up_checksum_hex p)"
    and rest: "up_checksum_algorithm p = lit ''sha256''" "0 < up_expected_size_bytes p"
      "0 \<le> up_created_at_ms p" "up_created_at_ms p \<le> up_updated_at_ms p" "0 \<le> up_version p"
    and media: "up_media_id p = None \<longleftrightarrow> up_media_location_id p = None"
    using w unfolding upload_publication_wf_def by blast+
  have link: "(map_option uuid_to_text (up_media_id p) = None
       \<and> map_option uuid_to_text (up_media_location_id p) = None)
     \<or> (map_option uuid_to_text (up_media_id p) \<noteq> None
       \<and> map_option uuid_to_text (up_media_location_id p) \<noteq> None)"
    using media by (cases "up_media_id p"; cases "up_media_location_id p") auto
  have len: "pred_option (\<lambda>i. sql_length i = 36) (map_option uuid_to_text i)" for i
    by (cases i) simp_all
  have "list_all check_passes (publication_row_checks (publication_values p))"
    unfolding publication_row_checks_def list.pred_inject check_passes_Some optional_check
    unfolding publication_values_def publication_row.simps relative_target_checks(2,6) [OF t]
      uuid_text_no_hyphen
    using relative_target_checks(1,3,4,5,7) [OF t] publication_progress_check [OF prog]
      publication_times_check [OF prog] evidence_pair_text [OF pair] sha256_pattern_ck [OF sha]
      rest link len publication_state_texts
      relative_target_checks(6) [OF t]
    by (intro conjI TrueI; (assumption | simp only: uuid_text_length list.pred_inject(1) relative_target_checks(6) [OF t]))
  then show ?thesis by (simp add: publication_row_ok_def)
qed


section \<open>Updating one publication\<close>

lemma references_update_simps [simp]:
  "publication_references_ok (db\<lparr>upload_publications := rows\<rparr>) p = publication_references_ok db p"
  by (simp add: publication_references_ok_def cong: option.case_cong)

lemma filter_publication_hit:
  assumes "publication_rows_ok db" and "stored_publication db i = Some p"
    and "g (publication_values p)"
  shows "filter (\<lambda>r. pr_upload_id r = uuid_to_text i \<and> g r) (upload_publications db)
    = [publication_values p]"
proof -
  have "find (\<lambda>r. pr_upload_id r = uuid_to_text i) (upload_publications db)
      = Some (publication_values p)"
    using publication_row_stored [OF assms(1), of i] assms(2)
    by (simp add: publication_row_of_def sql_first_def)
  then show ?thesis
    using filter_key_unique [of pr_upload_id "upload_publications db" "uuid_to_text i"
        "publication_values p" g] assms(1,3)
    by (simp add: publication_rows_ok_def publication_keys_ok_def)
qed

text \<open>An update that succeeds: it changed the one row, and the table is sound again.\<close>

lemma update_publications_ok:
  assumes "publication_rows_ok db" and p: "stored_publication db i = Some p"
    and "g (publication_values p)" and f: "f (publication_values p) = publication_values q"
    and id: "\<And>r. pr_upload_id (f r) = pr_upload_id r"
    and u: "update_publications (\<lambda>r. pr_upload_id r = uuid_to_text i \<and> g r) f db = Inr db'"
    and q: "upload_publication_wf q"
  shows "publication_rows_ok db'" and "stored_publication db' = (stored_publication db)(i \<mapsto> q)"
    and "\<exists>rows. db' = db\<lparr>upload_publications := rows\<rparr>"
proof -
  let ?hit = "\<lambda>r. pr_upload_id r = uuid_to_text i \<and> g r"
  define rows where "rows = map (\<lambda>r. if ?hit r then f r else r) (upload_publications db)"
  note hit = filter_publication_hit [where g = g, OF assms(1-3)]
  have db': "db' = db\<lparr>upload_publications := rows\<rparr>" and k: "publication_keys_ok rows"
    and c: "\<not> list_ex (\<lambda>r. ?hit r \<and> \<not> (publication_row_ok (f r)
              \<and> publication_references_ok db (f r))) (upload_publications db)"
    using u by (auto simp: update_publications_def sql_update_def rows_def split: if_splits)
  show "\<exists>rows. db' = db\<lparr>upload_publications := rows\<rparr>" using db' by blast
  have one: "r = publication_values p" if "r \<in> set (upload_publications db)" "?hit r" for r
  proof -
    have "r \<in> set (filter ?hit (upload_publications db))" using that by simp
    then show ?thesis unfolding hit by simp
  qed
  have row: "publication_row_ok r \<and> ok (publication_from_row r) \<and> publication_references_ok db r"
    if r: "r \<in> set rows" for r
  proof -
    obtain r0 where r0: "r0 \<in> set (upload_publications db)" "r = (if ?hit r0 then f r0 else r0)"
      using r unfolding rows_def set_map by blast
    show ?thesis
    proof (cases "?hit r0")
      case True
      then have "r = publication_values q" using one r0 f by simp
      then show ?thesis
        using c r0 True q publication_from_values by (auto simp: list_ex_iff)
    next
      case False
      then show ?thesis using assms(1) r0 by (auto simp: publication_rows_ok_def list_all_iff)
    qed
  qed
  then show s: "publication_rows_ok db'"
    using k by (simp add: publication_rows_ok_def list_all_iff db')
  have "up_upload_id p = i" using stored_publication_wf [OF assms(1) p] by simp
  then have qi: "up_upload_id q = i"
    using id [of "publication_values p"] f by simp
  show "stored_publication db' = (stored_publication db)(i \<mapsto> q)"
  proof
    fix j
    have e: "publication_row_of j db' = (case publication_row_of j db of None \<Rightarrow> None
        | Some r \<Rightarrow> Some (if ?hit r then f r else r))"
      using assms(1) find_key_update [of pr_upload_id "upload_publications db" f]
      by (simp add: publication_row_of_def sql_first_def publication_rows_ok_def
          publication_keys_ok_def id db' rows_def)
    show "stored_publication db' j = ((stored_publication db)(i \<mapsto> q)) j"
    proof (cases "j = i")
      case True
      then show ?thesis
        using e publication_row_stored [OF assms(1), of i] p assms(3) f q qi
          stored_publication_wf [OF assms(1) p]
        by (simp add: stored_publication_def [of db'] publication_from_values)
    next
      case False
      have "publication_row_of j db' = publication_row_of j db"
      proof (cases "publication_row_of j db")
        case (Some r)
        then have "pr_upload_id r = uuid_to_text j"
          by (simp add: publication_row_some_iff [OF assms(1)])
        then show ?thesis using False Some e by simp
      qed (simp add: e)
      then show ?thesis using False by (simp add: stored_publication_def)
    qed
  qed
qed

section \<open>Updating the session it publishes\<close>

context guarded_update
begin

lemma update_uploads_hit:
  assumes "session_rows_ok db" and "stored_session db i = Some s" and "guard s"
  shows "update_uploads (hit i) row_change db =
    (if upload_row_ok (values_from_session (change s))
     then Inr (db\<lparr>upload_sessions := new_rows i (upload_sessions db)\<rparr>)
     else Inl FrameNestUploadPublicationRepositoryError)"
proof -
  have "list_ex (\<lambda>r. hit i r \<and> \<not> upload_row_ok (row_change r)) (upload_sessions db)
        \<longleftrightarrow> (\<exists>r \<in> set (filter (hit i) (upload_sessions db)). \<not> upload_row_ok (row_change r))"
    by (auto simp: list_ex_iff)
  then have ex: "list_ex (\<lambda>r. hit i r \<and> \<not> upload_row_ok (row_change r)) (upload_sessions db)
      \<longleftrightarrow> \<not> upload_row_ok (values_from_session (change s))"
    unfolding filter_hit [OF assms] by (simp add: change_eq)
  show ?thesis
    unfolding update_uploads_def sql_update_def ex filter_hit [OF assms] by simp
qed

end

end
