(* ===== verification/Upload_Pipeline.thy ===== *)
theory Upload_Pipeline
  imports Publication_Store
begin

text \<open>
  The upload pipeline as a whole: what the commits of the publication repository do to the
  session and its publication, the invariant of the two tables, and the stores reachable by
  the operations of both repositories.
\<close>

section \<open>The effects of the commits\<close>

definition published :: "int \<Rightarrow> upload_session \<Rightarrow> upload_session" where
  "published t s = s\<lparr>us_state := U_PUBLISHED, us_updated_at_ms := t, us_failure_code := None,
     us_version := us_version s + 1\<rparr>"

definition cataloged :: "int \<Rightarrow> upload_session \<Rightarrow> upload_session" where
  "cataloged t s = s\<lparr>us_state := U_CATALOGED, us_updated_at_ms := t, us_failure_code := None,
     us_version := us_version s + 1\<rparr>"

definition verified :: "int \<Rightarrow> upload_publication \<Rightarrow> upload_publication" where
  "verified t p = p\<lparr>up_state := P_VERIFIED, up_cleanup_state := C_PENDING,
     up_verified_at_ms := Some t, up_updated_at_ms := t, up_version := up_version p + 1\<rparr>"

definition cleaned :: "int \<Rightarrow> upload_publication \<Rightarrow> upload_publication" where
  "cleaned t p = p\<lparr>up_cleanup_state := C_COMPLETE, up_cleanup_completed_at_ms := Some t,
     up_updated_at_ms := t, up_version := up_version p + 1\<rparr>"

definition linked_publication :: "uuid \<Rightarrow> uuid \<Rightarrow> int \<Rightarrow> upload_publication \<Rightarrow> upload_publication"
    where
  "linked_publication m l t p = p\<lparr>up_media_id := Some m, up_media_location_id := Some l,
     up_updated_at_ms := t, up_version := up_version p + 1\<rparr>"

text \<open>The evidence a publication shares with its upload.\<close>

definition evidence_matches :: "upload_publication \<Rightarrow> upload_session \<Rightarrow> bool" where
  "evidence_matches p s \<longleftrightarrow> up_upload_id p = us_id s
     \<and> us_byte_identity_id s = Some (up_byte_identity_id p)
     \<and> us_declared_size_bytes s = up_expected_size_bytes p
     \<and> us_checksum_algorithm s = Some (up_checksum_algorithm p)
     \<and> us_checksum_hex s = Some (up_checksum_hex p)
     \<and> us_validated_media_kind s = Some (up_validated_media_kind p)
     \<and> us_validated_format s = Some (up_validated_format p)"

lemma evidence_matches_iff:
  "ensure_publication_matches_upload p s = Inr u \<longleftrightarrow> evidence_matches p s"
  by (auto simp: ensure_publication_matches_upload_def evidence_matches_def)

lemma require_evidence_iff:
  "require_matching_evidence p s = Inr u \<longleftrightarrow> evidence_matches p s"
  by (simp add: require_matching_evidence_def evidence_matches_iff)

lemma evidence_matches_view [simp]: "evidence_matches p (candidate_view s) = evidence_matches p s"
  by (simp add: evidence_matches_def)

lemma evidence_matches_effects [simp]:
  "evidence_matches (verified t p) s = evidence_matches p s"
  "evidence_matches (cleaned t p) s = evidence_matches p s"
  "evidence_matches (linked_publication m l t p) s = evidence_matches p s"
  "evidence_matches p (published t s) = evidence_matches p s"
  "evidence_matches p (cataloged t s) = evidence_matches p s"
  by (simp_all add: evidence_matches_def verified_def cleaned_def linked_publication_def
      published_def cataloged_def)

interpretation publish_update: guarded_update
  "\<lambda>r. ur_state r = upload_state_value U_PUBLISH_PENDING
     \<and> ur_version r = v
     \<and> ur_received_size_bytes r = ur_declared_size_bytes r
     \<and> ur_declared_size_bytes r = up_expected_size_bytes p
     \<and> ur_checksum_algorithm r = Some (up_checksum_algorithm p)
     \<and> ur_checksum_hex r = Some (up_checksum_hex p)
     \<and> ur_validated_media_kind r = Some (validated_media_kind_value (up_validated_media_kind p))
     \<and> ur_validated_format r = Some (validated_format_value (up_validated_format p))
     \<and> ur_byte_identity_id r = Some (uuid_to_text (up_byte_identity_id p))"
  "\<lambda>r. r\<lparr>ur_state := upload_state_value U_PUBLISHED, ur_updated_at_ms := t,
         ur_failure_code := None, ur_version := ur_version r + 1\<rparr>"
  "\<lambda>_. Inl UploadSessionConcurrencyConflictError"
  UploadSessionConcurrencyConflictError
  "\<lambda>s. us_state s = U_PUBLISH_PENDING \<and> us_version s = v
     \<and> us_received_size_bytes s = us_declared_size_bytes s
     \<and> us_declared_size_bytes s = up_expected_size_bytes p
     \<and> us_checksum_algorithm s = Some (up_checksum_algorithm p)
     \<and> us_checksum_hex s = Some (up_checksum_hex p)
     \<and> us_validated_media_kind s = Some (up_validated_media_kind p)
     \<and> us_validated_format s = Some (up_validated_format p)
     \<and> us_byte_identity_id s = Some (up_byte_identity_id p)"
  "published t"
  "\<lambda>_. Inl UploadSessionConcurrencyConflictError"
  for v and p :: upload_publication and t
  by unfold_locales
    (auto simp: published_def upload_state_codec.print_eq_iff values_from_session_def
      media_kind_codec.print_eq_iff format_codec.print_eq_iff)

interpretation catalog_update: guarded_update
  "\<lambda>r. ur_state r = upload_state_value U_PUBLISHED \<and> ur_version r = v"
  "\<lambda>r. r\<lparr>ur_state := upload_state_value U_CATALOGED, ur_updated_at_ms := t,
         ur_failure_code := None, ur_version := ur_version r + 1\<rparr>"
  "\<lambda>_. Inl UploadSessionConcurrencyConflictError"
  UploadSessionConcurrencyConflictError
  "\<lambda>s. us_state s = U_PUBLISHED \<and> us_version s = v"
  "cataloged t"
  "\<lambda>_. Inl UploadSessionConcurrencyConflictError"
  for v t
  by unfold_locales
    (auto simp: cataloged_def upload_state_codec.print_eq_iff values_from_session_def)

lemma effect_values:
  "(publication_values p)\<lparr>pr_state := publication_state_value P_VERIFIED,
     pr_cleanup_state := cleanup_state_value C_PENDING, pr_verified_at_ms := Some t,
     pr_updated_at_ms := t, pr_version := pr_version (publication_values p) + 1\<rparr>
   = publication_values (verified t p)"
  "(publication_values p)\<lparr>pr_cleanup_state := cleanup_state_value C_COMPLETE,
     pr_cleanup_completed_at_ms := Some t, pr_updated_at_ms := t,
     pr_version := pr_version (publication_values p) + 1\<rparr>
   = publication_values (cleaned t p)"
  "(publication_values p)\<lparr>pr_media_id := Some (uuid_to_text m),
     pr_media_location_id := Some (uuid_to_text l), pr_updated_at_ms := t,
     pr_version := pr_version (publication_values p) + 1\<rparr>
   = publication_values (linked_publication m l t p)"
  by (simp_all add: publication_values_def verified_def cleaned_def linked_publication_def)

section \<open>When the effects are well formed\<close>

lemma disposition_keep:
  "upload_session_wf s \<Longrightarrow> us_state s \<in> {U_PUBLISH_PENDING, U_PUBLISHED} \<Longrightarrow>
   us_duplicate_disposition s = Some d \<Longrightarrow> d = KEEP_SEPARATE"
  by (cases d) (auto simp: upload_wf_defs)

lemma published_wf:
  assumes "upload_session_wf s" and "us_state s = U_PUBLISH_PENDING"
  shows "upload_session_wf (published t s) \<longleftrightarrow> us_created_at_ms s \<le> t"
proof -
  have e: "full_evidence s" and d: "us_duplicate_disposition s = Some d \<Longrightarrow> d = KEEP_SEPARATE"
    and c: "us_received_size_bytes s = us_declared_size_bytes s" for d
    using assms disposition_keep [OF assms(1)]
    by (auto simp: upload_wf_defs upload_state_set_defs state_requires_complete_upload_def)
  have f: "full_evidence (published t s)" using e by (simp add: full_evidence_def published_def)
  show ?thesis
    using assms c d f unfolding upload_wf_defs
    by (auto simp: published_def state_requires_complete_upload_def)
qed

lemma cataloged_wf:
  assumes "upload_session_wf s" and "us_state s = U_PUBLISHED"
  shows "upload_session_wf (cataloged t s) \<longleftrightarrow> us_created_at_ms s \<le> t"
proof -
  have e: "full_evidence s" and d: "us_duplicate_disposition s = Some d \<Longrightarrow> d = KEEP_SEPARATE"
    and c: "us_received_size_bytes s = us_declared_size_bytes s" for d
    using assms disposition_keep [OF assms(1)]
    by (auto simp: upload_wf_defs upload_state_set_defs state_requires_complete_upload_def)
  have f: "full_evidence (cataloged t s)" using e by (simp add: full_evidence_def cataloged_def)
  show ?thesis
    using assms c d f unfolding upload_wf_defs
    by (auto simp: cataloged_def state_requires_complete_upload_def)
qed

lemma verified_wf:
  "upload_publication_wf p \<Longrightarrow> up_state p = P_RESERVED \<Longrightarrow>
     upload_publication_wf (verified t p) \<longleftrightarrow> up_created_at_ms p \<le> t"
  by (auto simp: upload_publication_wf_def verified_def publication_progress_ok_def
      split: cleanup_state.splits)

lemma cleaned_wf:
  "upload_publication_wf p \<Longrightarrow> up_state p = P_VERIFIED \<Longrightarrow> up_cleanup_state p = C_PENDING \<Longrightarrow>
     upload_publication_wf (cleaned t p) \<longleftrightarrow> (\<exists>v. up_verified_at_ms p = Some v \<and> v \<le> t)"
  by (auto simp: upload_publication_wf_def cleaned_def publication_progress_ok_def)

lemma linked_publication_progress:
  "publication_progress_ok (linked_publication m l t p) = publication_progress_ok p"
  by (cases "up_state p"; cases "up_cleanup_state p")
    (simp_all add: publication_progress_ok_def linked_publication_def)

lemma linked_publication_wf:
  "upload_publication_wf p \<Longrightarrow> is_uuid4 m \<Longrightarrow> is_uuid4 l \<Longrightarrow>
     upload_publication_wf (linked_publication m l t p) \<longleftrightarrow> up_created_at_ms p \<le> t"
  unfolding upload_publication_wf_def linked_publication_progress
  by (auto simp: linked_publication_def)

text \<open>The column constraints that say the same of a row.\<close>

lemma upload_row_times: "upload_row_ok r \<Longrightarrow> ur_created_at_ms r \<le> ur_updated_at_ms r"
  unfolding upload_row_ok_def upload_row_checks_def list.pred_inject check_passes_Some by blast

lemma publication_row_times:
  assumes "publication_row_ok r"
  shows "pr_created_at_ms r \<le> pr_updated_at_ms r"
    and "pr_cleanup_completed_at_ms r = Some c \<Longrightarrow> pr_verified_at_ms r = Some v \<Longrightarrow> v \<le> c"
proof -
  have "check_passes (sql_or (sql_is_null (pr_cleanup_completed_at_ms r))
       (case (pr_cleanup_completed_at_ms r, pr_verified_at_ms r) of
          (Some c, Some v) \<Rightarrow> Some (c \<ge> v) | _ \<Rightarrow> None))"
    and "pr_created_at_ms r \<le> pr_updated_at_ms r"
    using assms
    unfolding publication_row_ok_def publication_row_checks_def list.pred_inject check_passes_Some
    by blast+
  then show "pr_created_at_ms r \<le> pr_updated_at_ms r"
    and "pr_cleanup_completed_at_ms r = Some c \<Longrightarrow> pr_verified_at_ms r = Some v \<Longrightarrow> v \<le> c"
    by simp_all
qed


lemma update_publications_row_ok:
  assumes "publication_rows_ok db" and "stored_publication db i = Some p"
    and "g (publication_values p)"
    and "update_publications (\<lambda>r. pr_upload_id r = uuid_to_text i \<and> g r) f db = Inr db'"
  shows "publication_row_ok (f (publication_values p))"
proof -
  have "publication_values p \<in> set (upload_publications db)" "up_upload_id p = i"
    using assms(2) by (auto simp: stored_publication_iff [OF assms(1)])
  then show ?thesis
    using assms(3,4) by (auto simp: update_publications_def sql_update_def list_ex_iff split: if_splits)
qed

section \<open>Frames\<close>

text \<open>Each table is read by its own functions only.\<close>

lemma publications_frame [simp]:
  "stored_session (db\<lparr>upload_publications := rows\<rparr>) = stored_session db"
  "session_rows_ok (db\<lparr>upload_publications := rows\<rparr>) = session_rows_ok db"
  "identity_rows_ok (db\<lparr>upload_publications := rows\<rparr>) = identity_rows_ok db"
  "identity_links_ok (db\<lparr>upload_publications := rows\<rparr>) = identity_links_ok db"
proof -
  show "stored_session (db\<lparr>upload_publications := rows\<rparr>) = stored_session db"
    by (rule ext) (simp add: stored_session_def row_by_id_def)
  show "identity_links_ok (db\<lparr>upload_publications := rows\<rparr>) = identity_links_ok db"
    by (simp add: identity_links_ok_def row_byte_identity_matches_upload_evidence_def
        cong: option.case_cong)
qed (simp_all add: session_rows_ok_def identity_rows_ok_def)

lemma stored_publication_frame:
  "upload_publications db' = upload_publications db \<Longrightarrow>
     stored_publication db' = stored_publication db"
  by (rule ext) (simp add: stored_publication_def publication_row_of_def)

lemma references_frame:
  assumes "publication_references_ok db r"
    and "set (map ur_id (upload_sessions db)) \<subseteq> set (map ur_id (upload_sessions db'))"
    and "set (libraries db) \<subseteq> set (libraries db')"
    and "set (map ir_id (media_byte_identities db)) \<subseteq> set (map ir_id (media_byte_identities db'))"
    and "set (map mr_id (logical_media_rows db)) \<subseteq> set (map mr_id (logical_media_rows db'))"
    and "set (map lr_id (physical_media_locations db)) \<subseteq> set (map lr_id (physical_media_locations db'))"
  shows "publication_references_ok db' r"
  using assms unfolding publication_references_ok_def by (auto split: option.splits)

lemma publication_rows_frame:
  assumes "publication_rows_ok db" and "upload_publications db' = upload_publications db"
    and "\<And>r. publication_references_ok db r \<Longrightarrow> publication_references_ok db' r"
  shows "publication_rows_ok db'"
  using assms by (auto simp: publication_rows_ok_def list_all_iff)

lemma session_ids_kept:
  assumes "session_rows_ok db" and "session_rows_ok db'"
    and "dom (stored_session db) \<subseteq> dom (stored_session db')"
  shows "set (map ur_id (upload_sessions db)) \<subseteq> set (map ur_id (upload_sessions db'))"
proof
  fix x assume "x \<in> set (map ur_id (upload_sessions db))"
  then obtain r where r: "r \<in> set (upload_sessions db)" "x = ur_id r" by auto
  then obtain s where s: "r = values_from_session s" using assms(1) by (auto simp: session_rows_ok_iff)
  then have "stored_session db (us_id s) = Some s" using r by (simp add: stored_session_iff [OF assms(1)])
  then obtain s' where "stored_session db' (us_id s) = Some s'" using assms(3) by blast
  then have "values_from_session s' \<in> set (upload_sessions db')" "us_id s' = us_id s"
    by (auto simp: stored_session_iff [OF assms(2)])
  then show "x \<in> set (map ur_id (upload_sessions db'))" using r s by force
qed

section \<open>Publishing\<close>

lemma commit_verified_ok:
  assumes ss: "session_rows_ok db" and ps: "publication_rows_ok db"
    and c: "commit_verified_in i pid v pv t db = Inr (c, db')"
  shows "\<exists>s p. stored_session db i = Some s \<and> stored_publication db i = Some p
    \<and> up_publication_id p = pid \<and> evidence_matches p s
    \<and> ((us_state s = U_PUBLISHED \<and> up_state p = P_VERIFIED \<and> db' = db
          \<and> c = \<lparr>pc_upload = candidate_view s, pc_publication = Some p\<rparr>)
      \<or> (us_state s = U_PUBLISH_PENDING \<and> up_state p = P_RESERVED
          \<and> us_version s = v \<and> up_version p = pv
          \<and> upload_session_wf (published t s) \<and> upload_publication_wf (verified t p)
          \<and> session_rows_ok db' \<and> publication_rows_ok db'
          \<and> stored_session db' = (stored_session db)(i \<mapsto> published t s)
          \<and> stored_publication db' = (stored_publication db)(i \<mapsto> verified t p)
          \<and> (\<exists>ps ss. db' = db\<lparr>upload_publications := ps, upload_sessions := ss\<rparr>)
          \<and> c = \<lparr>pc_upload = candidate_view (published t s),
                 pc_publication = Some (verified t p)\<rparr>))"
proof -
  obtain s p where s: "stored_session db i = Some s" and p: "stored_publication db i = Some p"
    using c by (cases "stored_session db i"; cases "stored_publication db i")
      (auto simp: commit_verified_in_def require_candidate_eq [OF ss ps])
  have m: "up_publication_id p = pid" "evidence_matches p s"
    using c by (auto simp: commit_verified_in_def require_candidate_eq [OF ss ps] s p and_then_Inr
        require_publication_id_def require_evidence_iff Let_def)
  have wf: "upload_session_wf s" and id: "us_id s = i"
    using stored_session_sound [OF ss s] by (auto simp: sound_session_def)
  have pwf: "upload_publication_wf p" using stored_publication_wf [OF ps p] by simp
  show ?thesis
  proof (cases "us_state s = U_PUBLISHED \<and> up_state p = P_VERIFIED")
    case True
    then have "db' = db \<and> c = \<lparr>pc_upload = candidate_view s, pc_publication = Some p\<rparr>"
      using c
      by (auto simp: commit_verified_in_def require_candidate_eq [OF ss ps] s p and_then_Inr Let_def)
    then show ?thesis using s p m True by blast
  next
    case False
    let ?g = "\<lambda>r. pr_publication_id r = uuid_to_text pid
        \<and> pr_state r = publication_state_value P_RESERVED \<and> pr_version r = pv"
    let ?f = "\<lambda>r. r\<lparr>pr_state := publication_state_value P_VERIFIED,
        pr_cleanup_state := cleanup_state_value C_PENDING,
        pr_verified_at_ms := Some t, pr_updated_at_ms := t, pr_version := pr_version r + 1\<rparr>"
    from c False obtain db1 db2 where st: "us_state s = U_PUBLISH_PENDING" "up_state p = P_RESERVED"
        "us_version s = v" "up_version p = pv"
      and u1: "update_publications (\<lambda>r. pr_upload_id r = uuid_to_text i \<and> ?g r) ?f db = Inr db1"
      and u2: "update_uploads (publish_update.hit v p i)
          (\<lambda>r. r\<lparr>ur_state := upload_state_value U_PUBLISHED, ur_updated_at_ms := t,
            ur_failure_code := None, ur_version := ur_version r + 1\<rparr>) db1 = Inr db2"
      and r: "require_candidate i db2 = Inr c" "db' = db2"
      by (auto simp: commit_verified_in_def require_candidate_eq [OF ss ps] s p and_then_Inr Let_def)
    have g: "?g (publication_values p)" using m st by simp
    have f: "?f (publication_values p) = publication_values (verified t p)"
      by (rule effect_values)
    have "publication_row_ok (publication_values (verified t p))"
      using update_publications_row_ok [where g = ?g, OF ps p g u1] unfolding f .
    then have "up_created_at_ms p \<le> t"
      using publication_row_times(1) [of "publication_values (verified t p)"] by (simp add: verified_def)
    then have vwf: "upload_publication_wf (verified t p)" using verified_wf [OF pwf st(2)] by simp
    note up = update_publications_ok [where g = ?g and f = ?f, OF ps p g f _ u1 vwf]
    have up1: "publication_rows_ok db1" "stored_publication db1 = (stored_publication db)(i \<mapsto> verified t p)"
      using up by simp_all
    obtain ps' where db1: "db1 = db\<lparr>upload_publications := ps'\<rparr>" using up(3) by auto
    have ss1: "session_rows_ok db1" and s1: "stored_session db1 i = Some s"
      using ss s by (simp_all add: db1)
    have guard: "us_state s = U_PUBLISH_PENDING \<and> us_version s = v
       \<and> us_received_size_bytes s = us_declared_size_bytes s
       \<and> us_declared_size_bytes s = up_expected_size_bytes p
       \<and> us_checksum_algorithm s = Some (up_checksum_algorithm p)
       \<and> us_checksum_hex s = Some (up_checksum_hex p)
       \<and> us_validated_media_kind s = Some (up_validated_media_kind p)
       \<and> us_validated_format s = Some (up_validated_format p)
       \<and> us_byte_identity_id s = Some (up_byte_identity_id p)"
      using m st wf by (auto simp: evidence_matches_def upload_wf_defs
          state_requires_complete_upload_def upload_state_set_defs)
    note hit = publish_update.update_uploads_hit [OF ss1 s1 guard, of t]
    have row: "upload_row_ok (values_from_session (published t s))"
      and db2: "db2 = db1\<lparr>upload_sessions := publish_update.new_rows v p t i (upload_sessions db1)\<rparr>"
      using u2 unfolding hit by (auto split: if_splits)
    have swf: "upload_session_wf (published t s)"
      using upload_row_times [OF row] published_wf [OF wf st(1)] by (simp add: published_def)
    note st2 = publish_update.rows_ok_new [OF ss1 s1 guard swf]
      publish_update.stored_new [OF ss1 s1 guard swf]
    have ss2: "session_rows_ok db2" "stored_session db2 = (stored_session db)(i \<mapsto> published t s)"
      using st2 unfolding db2 by (simp_all add: db1)
    have ids: "set (map ur_id (upload_sessions db1)) \<subseteq> set (map ur_id (upload_sessions db2))"
      by (rule session_ids_kept [OF ss1 ss2(1)]) (auto simp: ss2(2) db1)
    have "publication_references_ok db2 r" if "publication_references_ok db1 r" for r
      using that by (rule references_frame [OF _ ids]) (simp_all add: db2)
    then have ps2: "publication_rows_ok db2"
      by (intro publication_rows_frame [OF up1(1)]) (simp_all add: db2)
    have pp2: "stored_publication db2 = (stored_publication db)(i \<mapsto> verified t p)"
      using up1(2) stored_publication_frame [of db2 db1] by (simp add: db2)
    have "c = \<lparr>pc_upload = candidate_view (published t s), pc_publication = Some (verified t p)\<rparr>"
      using r(1) by (simp add: require_candidate_eq [OF ss2(1) ps2] ss2(2) pp2)
    then show ?thesis
      using s p m st vwf swf ss2 ps2 pp2 r(2) db1 db2 by blast
  qed
qed


lemma mark_cleanup_ok:
  assumes ss: "session_rows_ok db" and ps: "publication_rows_ok db"
    and c: "mark_cleanup_in i pid pv t db = Inr (c, db')"
  shows "\<exists>s p. stored_session db i = Some s \<and> stored_publication db i = Some p
    \<and> up_publication_id p = pid \<and> evidence_matches p s
    \<and> ((up_cleanup_state p = C_COMPLETE \<and> db' = db
          \<and> c = \<lparr>pc_upload = candidate_view s, pc_publication = Some p\<rparr>)
      \<or> (us_state s = U_PUBLISHED \<and> up_state p = P_VERIFIED \<and> up_cleanup_state p = C_PENDING
          \<and> up_version p = pv \<and> upload_publication_wf (cleaned t p)
          \<and> publication_rows_ok db'
          \<and> stored_publication db' = (stored_publication db)(i \<mapsto> cleaned t p)
          \<and> (\<exists>ps. db' = db\<lparr>upload_publications := ps\<rparr>)
          \<and> c = \<lparr>pc_upload = candidate_view s, pc_publication = Some (cleaned t p)\<rparr>))"
proof -
  obtain s p where s: "stored_session db i = Some s" and p: "stored_publication db i = Some p"
    using c by (cases "stored_session db i"; cases "stored_publication db i")
      (auto simp: mark_cleanup_in_def require_candidate_eq [OF ss ps])
  have m: "up_publication_id p = pid" "evidence_matches p s"
    using c by (auto simp: mark_cleanup_in_def require_candidate_eq [OF ss ps] s p and_then_Inr
        require_publication_id_def require_evidence_iff Let_def)
  have pwf: "upload_publication_wf p" using stored_publication_wf [OF ps p] by simp
  show ?thesis
  proof (cases "up_cleanup_state p = C_COMPLETE")
    case True
    then have "db' = db \<and> c = \<lparr>pc_upload = candidate_view s, pc_publication = Some p\<rparr>"
      using c
      by (auto simp: mark_cleanup_in_def require_candidate_eq [OF ss ps] s p and_then_Inr Let_def)
    then show ?thesis using s p m True by blast
  next
    case False
    let ?g = "\<lambda>r. pr_publication_id r = uuid_to_text pid
        \<and> pr_state r = publication_state_value P_VERIFIED
        \<and> pr_cleanup_state r = cleanup_state_value C_PENDING \<and> pr_version r = pv"
    let ?f = "\<lambda>r. r\<lparr>pr_cleanup_state := cleanup_state_value C_COMPLETE,
        pr_cleanup_completed_at_ms := Some t, pr_updated_at_ms := t,
        pr_version := pr_version r + 1\<rparr>"
    from c False have st: "us_state s = U_PUBLISHED" "up_state p = P_VERIFIED"
        "up_cleanup_state p = C_PENDING" "up_version p = pv"
      and u: "update_publications (\<lambda>r. pr_upload_id r = uuid_to_text i \<and> ?g r) ?f db = Inr db'"
      and r: "require_candidate i db' = Inr c"
      by (auto simp: mark_cleanup_in_def require_candidate_eq [OF ss ps] s p and_then_Inr Let_def)
    have g: "?g (publication_values p)" using m st by simp
    have f: "?f (publication_values p) = publication_values (cleaned t p)"
      by (rule effect_values)
    obtain vt where vt: "up_verified_at_ms p = Some vt"
      using pwf st by (auto simp: upload_publication_wf_def publication_progress_ok_def)
    have "publication_row_ok (publication_values (cleaned t p))"
      using update_publications_row_ok [where g = ?g, OF ps p g u] unfolding f .
    then have "vt \<le> t"
      using publication_row_times(2) [of "publication_values (cleaned t p)" t vt] vt
      by (simp add: publication_values_def cleaned_def)
    then have cwf: "upload_publication_wf (cleaned t p)"
      using cleaned_wf [OF pwf st(2,3)] vt by simp
    note up = update_publications_ok [where g = ?g and f = ?f, OF ps p g f _ u cwf]
    have up1: "publication_rows_ok db'"
        "stored_publication db' = (stored_publication db)(i \<mapsto> cleaned t p)"
      using up by simp_all
    obtain ps' where db': "db' = db\<lparr>upload_publications := ps'\<rparr>" using up(3) by auto
    have "session_rows_ok db'" "stored_session db' i = Some s" using ss s by (simp_all add: db')
    then have "c = \<lparr>pc_upload = candidate_view s, pc_publication = Some (cleaned t p)\<rparr>"
      using r by (simp add: require_candidate_eq [OF _ up1(1)] up1(2))
    then show ?thesis using s p m st cwf up1 db' by blast
  qed
qed

section \<open>Reserving\<close>

lemma reservation_ok:
  assumes ss: "session_rows_ok db" and ps: "publication_rows_ok db" and w: "upload_publication_wf p"
    and c: "get_or_create_reservation_in p v db = Inr (c, db')"
  shows "\<exists>s. stored_session db (up_upload_id p) = Some s
    \<and> ((\<exists>q. stored_publication db (up_upload_id p) = Some q \<and> evidence_matches q s \<and> db' = db
          \<and> c = \<lparr>pc_upload = candidate_view s, pc_publication = Some q\<rparr>)
      \<or> (stored_publication db (up_upload_id p) = None \<and> evidence_matches p s
          \<and> us_state s = U_PUBLISH_PENDING \<and> us_version s = v \<and> up_state p = P_RESERVED
          \<and> publication_rows_ok db'
          \<and> stored_publication db' = (stored_publication db)(up_upload_id p \<mapsto> p)
          \<and> (\<exists>ps. db' = db\<lparr>upload_publications := ps\<rparr>)
          \<and> c = \<lparr>pc_upload = candidate_view s, pc_publication = Some p\<rparr>))"
proof -
  let ?i = "up_upload_id p"
  obtain s where s: "stored_session db ?i = Some s"
    using c by (cases "stored_session db ?i")
      (auto simp: get_or_create_reservation_in_def row_by_id_stored [OF ss])
  have "upload_session_wf (candidate_view s)"
    using stored_session_sound [OF ss s] candidate_view_wf by (simp add: sound_session_def)
  then have u: "upload_from_row (values_from_session s) = Inr (candidate_view s)"
    by (simp add: upload_from_values)
  show ?thesis
  proof (cases "stored_publication db ?i")
    case (Some q)
    then have "publication_row_of ?i db = Some (publication_values q)"
      using publication_row_stored [OF ps, of ?i] by simp
    moreover have "publication_from_row (publication_values q) = Inr q"
      using stored_publication_wf [OF ps Some] publication_from_values by simp
    ultimately have "evidence_matches q s \<and> db' = db
        \<and> c = \<lparr>pc_upload = candidate_view s, pc_publication = Some q\<rparr>"
      using c s u
      by (auto simp: get_or_create_reservation_in_def row_by_id_stored [OF ss] and_then_Inr
          require_evidence_iff)
    then show ?thesis using s Some by blast
  next
    case None
    then have n: "publication_row_of ?i db = None"
      using publication_row_stored [OF ps, of ?i] by simp
    from c s u n have st: "us_state s = U_PUBLISH_PENDING" "evidence_matches p s" "us_version s = v"
        "up_state p = P_RESERVED"
      and row: "publication_row_ok (publication_values p)"
        "publication_references_ok db (publication_values p)"
        "publication_keys_ok (upload_publications db @ [publication_values p])"
      and db': "db' = db\<lparr>upload_publications := upload_publications db @ [publication_values p]\<rparr>"
      and r: "require_candidate ?i db' = Inr c"
      by (auto simp: get_or_create_reservation_in_def row_by_id_stored [OF ss] and_then_Inr Let_def
          ensure_upload_is_publication_candidate_def evidence_matches_iff split: if_splits)
    have ps': "publication_rows_ok db'"
      using ps row publication_from_values [OF w] by (auto simp: publication_rows_ok_def db' list_all_iff)
    have st': "stored_publication db' = (stored_publication db)(?i \<mapsto> p)"
    proof
      fix j
      have "publication_row_of j db' = (if j = ?i then Some (publication_values p)
          else publication_row_of j db)"
        using n by (auto simp: publication_row_of_def sql_first_def db' find_append_one
            split: option.splits)
      then show "stored_publication db' j = ((stored_publication db)(?i \<mapsto> p)) j"
        by (simp add: stored_publication_def publication_from_values [OF w])
    qed
    have "session_rows_ok db'" "stored_session db' ?i = Some s" using ss s by (simp_all add: db')
    then have "c = \<lparr>pc_upload = candidate_view s, pc_publication = Some p\<rparr>"
      using r by (simp add: require_candidate_eq [OF _ ps'] st')
    then show ?thesis using s None st ps' st' db' by blast
  qed
qed

section \<open>Cataloging\<close>

lemma insert_media_ok:
  "insert_media m db = Inr db' \<Longrightarrow>
     db' = db\<lparr>logical_media_rows := logical_media_rows db @ [media_values m]\<rparr>
     \<and> uuid_to_text (lm_id m) \<notin> set (map mr_id (logical_media_rows db))"
  by (auto simp: insert_media_def Let_def media_values_def split: if_splits)

lemma insert_location_ok:
  "insert_location l db = Inr db' \<Longrightarrow>
     db' = db\<lparr>physical_media_locations := physical_media_locations db @ [location_values l]\<rparr>
     \<and> uuid_to_text (ml_id l) \<notin> set (map lr_id (physical_media_locations db))"
  by (auto simp: insert_location_def Let_def location_values_def split: if_splits)

lemma insert_metadata_ok:
  "insert_metadata m db = Inr db' \<Longrightarrow>
     \<exists>rows tags. db' = db\<lparr>media_metadata_rows := rows, media_canonical_tags := tags\<rparr>"
  by (auto simp: insert_metadata_def Let_def and_then_Inr split: if_splits)

text \<open>The catalog rows only grow.\<close>

definition catalog_grown :: "catalog_db \<Rightarrow> logical_media \<Rightarrow> media_location \<Rightarrow> catalog_db \<Rightarrow> bool" where
  "catalog_grown db m l db' \<longleftrightarrow>
     (\<exists>rows tags. db' = db\<lparr>logical_media_rows := logical_media_rows db @ [media_values m],
        physical_media_locations := physical_media_locations db @ [location_values l],
        media_metadata_rows := rows, media_canonical_tags := tags\<rparr>)
     \<and> uuid_to_text (lm_id m) \<notin> set (map mr_id (logical_media_rows db))
     \<and> uuid_to_text (ml_id l) \<notin> set (map lr_id (physical_media_locations db))"

lemma catalog_inserts_ok:
  assumes "insert_media m db = Inr db1" and "insert_location l db1 = Inr db2"
    and "(case metadata of None \<Rightarrow> Inr db2 | Some d \<Rightarrow> insert_metadata d db2) = Inr db3"
  shows "catalog_grown db m l db3"
proof -
  obtain rows tags where "db3 = db2\<lparr>media_metadata_rows := rows, media_canonical_tags := tags\<rparr>"
  proof (cases metadata)
    case None
    then have "db3 = db2\<lparr>media_metadata_rows := media_metadata_rows db2,
        media_canonical_tags := media_canonical_tags db2\<rparr>" using assms(3) by simp
    then show ?thesis by (rule that)
  next
    case (Some d)
    then show ?thesis using assms(3) insert_metadata_ok that by fastforce
  qed
  then show ?thesis
    using insert_media_ok [OF assms(1)] insert_location_ok [OF assms(2)]
    unfolding catalog_grown_def by auto
qed

lemma catalog_grown_frame:
  assumes "catalog_grown db m l db'"
  shows "stored_session db' = stored_session db" and "session_rows_ok db' = session_rows_ok db"
    and "stored_publication db' = stored_publication db"
    and "upload_sessions db' = upload_sessions db"
    and "media_byte_identities db' = media_byte_identities db"
    and "libraries db' = libraries db"
    and "publication_rows_ok db \<Longrightarrow> publication_rows_ok db'"
proof -
  obtain rows tags where e: "db' = db\<lparr>logical_media_rows := logical_media_rows db @ [media_values m],
        physical_media_locations := physical_media_locations db @ [location_values l],
        media_metadata_rows := rows, media_canonical_tags := tags\<rparr>"
    using assms by (auto simp: catalog_grown_def)
  show u: "upload_sessions db' = upload_sessions db"
    and "media_byte_identities db' = media_byte_identities db" and "libraries db' = libraries db"
    by (simp_all add: e)
  show "stored_session db' = stored_session db"
    by (rule ext) (simp add: stored_session_def row_by_id_def u)
  show "session_rows_ok db' = session_rows_ok db" by (simp add: session_rows_ok_def u)
  show "stored_publication db' = stored_publication db"
    by (rule stored_publication_frame) (simp add: e)
  have "publication_references_ok db r \<Longrightarrow> publication_references_ok db' r" for r
    by (rule references_frame) (auto simp: e)
  then show "publication_rows_ok db \<Longrightarrow> publication_rows_ok db'"
    by (rule publication_rows_frame [rotated 2]) (simp_all add: e)
qed


lemma links_of_grown:
  assumes "catalog_grown db m l db'"
  shows "catalog_links_resolve db p \<Longrightarrow> catalog_links_resolve db' p"
    and "up_media_id p = Some (lm_id m) \<Longrightarrow> up_media_location_id p = Some (ml_id l) \<Longrightarrow>
      ml_media_id l = lm_id m \<Longrightarrow> ml_library_id l = up_destination_id p \<Longrightarrow>
      ml_relative_path l = up_relative_path p \<Longrightarrow> catalog_links_resolve db' p"
proof -
  obtain rows tags where e: "db' = db\<lparr>logical_media_rows := logical_media_rows db @ [media_values m],
        physical_media_locations := physical_media_locations db @ [location_values l],
        media_metadata_rows := rows, media_canonical_tags := tags\<rparr>"
    and n: "uuid_to_text (ml_id l) \<notin> set (map lr_id (physical_media_locations db))"
    using assms by (auto simp: catalog_grown_def)
  have old: "find q (physical_media_locations db) = Some x \<Longrightarrow>
      find q (physical_media_locations db') = Some x" for q x
    by (simp add: e find_append_one)
  show "catalog_links_resolve db p \<Longrightarrow> catalog_links_resolve db' p"
    using old by (auto simp: catalog_links_resolve_def sql_first_def e split: option.splits)
  have "find (\<lambda>x. lr_id x = uuid_to_text (ml_id l)) (physical_media_locations db) = None"
    using n by (simp add: find_key_None_iff)
  then have "find (\<lambda>x. lr_id x = uuid_to_text (ml_id l)) (physical_media_locations db')
      = Some (location_values l)"
    by (simp add: e find_append_one location_values_def)
  moreover have "uuid_to_text (lm_id m) \<in> set (map mr_id (logical_media_rows db'))"
    by (simp add: e media_values_def)
  ultimately show "up_media_id p = Some (lm_id m) \<Longrightarrow> up_media_location_id p = Some (ml_id l) \<Longrightarrow>
      ml_media_id l = lm_id m \<Longrightarrow> ml_library_id l = up_destination_id p \<Longrightarrow>
      ml_relative_path l = up_relative_path p \<Longrightarrow> catalog_links_resolve db' p"
    by (simp add: catalog_links_resolve_def sql_first_def location_values_def)
qed

lemma commit_cataloged_ok:
  assumes ss: "session_rows_ok db" and ps: "publication_rows_ok db"
    and valid: "is_uuid4 (lm_id m)" "is_uuid4 (ml_id l)"
    and c: "commit_cataloged_in i m l v pv t metadata db = Inr (c, db')"
  shows "\<exists>s p. stored_session db i = Some s \<and> stored_publication db i = Some p
    \<and> evidence_matches p s
    \<and> ((us_state s = U_CATALOGED \<and> up_media_id p \<noteq> None \<and> catalog_links_resolve db p
          \<and> db' = db \<and> c = \<lparr>pc_upload = candidate_view s, pc_publication = Some p\<rparr>)
      \<or> (us_state s = U_PUBLISHED \<and> up_state p = P_VERIFIED \<and> up_cleanup_state p = C_COMPLETE
          \<and> up_media_id p = None \<and> us_version s = v \<and> up_version p = pv
          \<and> ml_library_id l = up_destination_id p \<and> ml_relative_path l = up_relative_path p
          \<and> ml_observed_size_bytes l = Some (up_expected_size_bytes p)
          \<and> upload_session_wf (cataloged t s)
          \<and> upload_publication_wf (linked_publication (lm_id m) (ml_id l) t p)
          \<and> session_rows_ok db' \<and> publication_rows_ok db'
          \<and> stored_session db' = (stored_session db)(i \<mapsto> cataloged t s)
          \<and> stored_publication db'
              = (stored_publication db)(i \<mapsto> linked_publication (lm_id m) (ml_id l) t p)
          \<and> (\<exists>db1 ps ss. catalog_grown db m l db1
               \<and> db' = db1\<lparr>upload_publications := ps, upload_sessions := ss\<rparr>)
          \<and> c = \<lparr>pc_upload = candidate_view (cataloged t s),
                 pc_publication = Some (linked_publication (lm_id m) (ml_id l) t p)\<rparr>))"
proof -
  obtain s p where s: "stored_session db i = Some s" and p: "stored_publication db i = Some p"
    using c by (cases "stored_session db i"; cases "stored_publication db i")
      (auto simp: commit_cataloged_in_def require_candidate_eq [OF ss ps])
  have m: "evidence_matches p s"
    using c by (auto simp: commit_cataloged_in_def require_candidate_eq [OF ss ps] s p and_then_Inr
        require_evidence_iff)
  have wf: "upload_session_wf s"
    using stored_session_sound [OF ss s] by (auto simp: sound_session_def)
  have pwf: "upload_publication_wf p" using stored_publication_wf [OF ps p] by simp
  show ?thesis
  proof (cases "us_state s = U_CATALOGED \<and> up_media_id p \<noteq> None \<and> up_media_location_id p \<noteq> None")
    case True
    then have "catalog_links_resolve db p \<and> db' = db
        \<and> c = \<lparr>pc_upload = candidate_view s, pc_publication = Some p\<rparr>"
      using c by (auto simp: commit_cataloged_in_def require_candidate_eq [OF ss ps] s p and_then_Inr
          split: if_splits)
    then show ?thesis using s p m True by blast
  next
    case False
    let ?g = "\<lambda>r. pr_state r = publication_state_value P_VERIFIED
        \<and> pr_cleanup_state r = cleanup_state_value C_COMPLETE
        \<and> pr_media_id r = None \<and> pr_media_location_id r = None \<and> pr_version r = pv"
    let ?f = "\<lambda>r. r\<lparr>pr_media_id := Some (uuid_to_text (lm_id m)),
        pr_media_location_id := Some (uuid_to_text (ml_id l)), pr_updated_at_ms := t,
        pr_version := pr_version r + 1\<rparr>"
    let ?q = "linked_publication (lm_id m) (ml_id l) t p"
    from c False obtain db1 db2 db3 db4 db5 where
        guards: "catalog_guards \<lparr>pc_upload = candidate_view s, pc_publication = Some p\<rparr> p l v pv = Inr ()"
      and ins: "insert_media m db = Inr db1" "insert_location l db1 = Inr db2"
        "(case metadata of None \<Rightarrow> Inr db2 | Some d \<Rightarrow> insert_metadata d db2) = Inr db3"
      and u1: "update_publications (\<lambda>r. pr_upload_id r = uuid_to_text i \<and> ?g r) ?f db3 = Inr db4"
      and u2: "update_uploads (catalog_update.hit v i)
          (\<lambda>r. r\<lparr>ur_state := upload_state_value U_CATALOGED, ur_updated_at_ms := t,
            ur_failure_code := None, ur_version := ur_version r + 1\<rparr>) db4 = Inr db5"
      and r: "require_candidate i db5 = Inr c" "db' = db5"
      by (auto simp: commit_cataloged_in_def require_candidate_eq [OF ss ps] s p and_then_Inr
          split: if_splits)
    have st: "us_state s = U_PUBLISHED" "up_state p = P_VERIFIED" "up_cleanup_state p = C_COMPLETE"
        "up_media_id p = None" "up_media_location_id p = None" "us_version s = v"
        "up_version p = pv" "ml_library_id l = up_destination_id p"
        "ml_relative_path l = up_relative_path p"
        "ml_observed_size_bytes l = Some (up_expected_size_bytes p)"
      using guards by (auto simp: catalog_guards_def)
    note gr = catalog_inserts_ok [OF ins]
    note fr = catalog_grown_frame [OF gr]
    have ss3: "session_rows_ok db3" and s3: "stored_session db3 i = Some s"
      and ps3: "publication_rows_ok db3" and p3: "stored_publication db3 i = Some p"
      using ss s ps p fr by simp_all
    have g: "?g (publication_values p)" using st by simp
    have f: "?f (publication_values p) = publication_values ?q" by (rule effect_values)
    have "publication_row_ok (publication_values ?q)"
      using update_publications_row_ok [where g = ?g, OF ps3 p3 g u1] unfolding f .
    then have "up_created_at_ms p \<le> t"
      using publication_row_times(1) [of "publication_values ?q"] by (simp add: linked_publication_def)
    then have lwf: "upload_publication_wf ?q" using linked_publication_wf [OF pwf valid] by simp
    note up = update_publications_ok [where g = ?g and f = ?f, OF ps3 p3 g f _ u1 lwf]
    have up1: "publication_rows_ok db4" "stored_publication db4 = (stored_publication db)(i \<mapsto> ?q)"
      using up fr(3) by simp_all
    obtain ps' where db4: "db4 = db3\<lparr>upload_publications := ps'\<rparr>" using up(3) by auto
    have ss4: "session_rows_ok db4" and s4: "stored_session db4 i = Some s"
      using ss3 s3 by (simp_all add: db4)
    have guard: "us_state s = U_PUBLISHED \<and> us_version s = v" using st by simp
    note hit = catalog_update.update_uploads_hit [OF ss4 s4 guard, of t]
    have row: "upload_row_ok (values_from_session (cataloged t s))"
      and db5: "db5 = db4\<lparr>upload_sessions := catalog_update.new_rows v t i (upload_sessions db4)\<rparr>"
      using u2 unfolding hit by (auto split: if_splits)
    have swf: "upload_session_wf (cataloged t s)"
      using upload_row_times [OF row] cataloged_wf [OF wf st(1)] by (simp add: cataloged_def)
    note st5 = catalog_update.rows_ok_new [OF ss4 s4 guard swf]
      catalog_update.stored_new [OF ss4 s4 guard swf]
    have ss5: "session_rows_ok db5" "stored_session db5 = (stored_session db)(i \<mapsto> cataloged t s)"
      using st5 fr(1) unfolding db5 by (simp_all add: db4)
    have ids: "set (map ur_id (upload_sessions db4)) \<subseteq> set (map ur_id (upload_sessions db5))"
      by (rule session_ids_kept [OF ss4 ss5(1)]) (auto simp: ss5(2) db4 fr(1))
    have "publication_references_ok db5 r" if "publication_references_ok db4 r" for r
      using that by (rule references_frame [OF _ ids]) (simp_all add: db5)
    then have ps5: "publication_rows_ok db5"
      by (intro publication_rows_frame [OF up1(1)]) (simp_all add: db5)
    have pp5: "stored_publication db5 = (stored_publication db)(i \<mapsto> ?q)"
      using up1(2) stored_publication_frame [of db5 db4] by (simp add: db5)
    have "c = \<lparr>pc_upload = candidate_view (cataloged t s), pc_publication = Some ?q\<rparr>"
      using r(1) by (simp add: require_candidate_eq [OF ss5(1) ps5] ss5(2) pp5)
    moreover have "\<exists>db1 ps ss. catalog_grown db m l db1
        \<and> db' = db1\<lparr>upload_publications := ps, upload_sessions := ss\<rparr>"
      using gr unfolding r(2) db5 db4 by blast
    ultimately show ?thesis using s p m st swf lwf ss5 ps5 pp5 r(2) by blast
  qed
qed


section \<open>The invariant of the pipeline\<close>

text \<open>A cataloged upload's publication names its media until the media is removed from the catalog.\<close>

definition phase_matches :: "upload_publication \<Rightarrow> upload_session \<Rightarrow> bool" where
  "phase_matches p s \<longleftrightarrow>
     (if up_state p = P_RESERVED then us_state s \<in> {U_PUBLISH_PENDING, U_FAILED} \<and> up_media_id p = None
      else us_state s = U_PUBLISHED \<and> up_media_id p = None
        \<or> us_state s = U_CATALOGED \<and> up_cleanup_state p = C_COMPLETE)"

definition publication_linked :: "catalog_db \<Rightarrow> upload_publication \<Rightarrow> bool" where
  "publication_linked db p \<longleftrightarrow>
     (\<exists>s. stored_session db (up_upload_id p) = Some s \<and> evidence_matches p s \<and> phase_matches p s)
     \<and> (up_media_id p \<noteq> None \<longrightarrow> catalog_links_resolve db p)"

definition pipeline_ok :: "catalog_db \<Rightarrow> bool" where
  "pipeline_ok db \<longleftrightarrow> evidence_store_ok db \<and> publication_rows_ok db
     \<and> (\<forall>i p. stored_publication db i = Some p \<longrightarrow> publication_linked db p)
     \<and> (\<forall>i s. stored_session db i = Some s \<longrightarrow> us_state s \<in> {U_PUBLISHED, U_CATALOGED} \<longrightarrow>
          stored_publication db i \<noteq> None)"

lemma pipeline_ok_empty: "pipeline_ok empty_catalog"
proof -
  have "stored_session empty_catalog = Map.empty" "stored_publication empty_catalog = Map.empty"
    by (rule ext, simp add: stored_session_def row_by_id_def sql_first_def empty_catalog_def
        stored_publication_def publication_row_of_def)+
  then show ?thesis
    by (simp add: pipeline_ok_def evidence_store_ok_def session_rows_ok_def identity_rows_ok_def
        identity_links_ok_def publication_rows_ok_def publication_keys_ok_def empty_catalog_def
        List.map_filter_def)
qed

text \<open>
  A session may change without its publication when it keeps the evidence the publication
  copied and stays within the publication's phase.
\<close>

definition keeps_evidence :: "upload_session \<Rightarrow> upload_session \<Rightarrow> bool" where
  "keeps_evidence s s' \<longleftrightarrow> us_id s' = us_id s
     \<and> us_declared_size_bytes s' = us_declared_size_bytes s
     \<and> us_byte_identity_id s' = us_byte_identity_id s
     \<and> (us_checksum_algorithm s \<noteq> None \<longrightarrow>
          us_checksum_algorithm s' = us_checksum_algorithm s
          \<and> us_checksum_hex s' = us_checksum_hex s)
     \<and> us_validated_media_kind s' = us_validated_media_kind s
     \<and> us_validated_format s' = us_validated_format s"

lemma keeps_evidence_matches:
  "keeps_evidence s s' \<Longrightarrow> evidence_matches p s \<Longrightarrow> evidence_matches p s'"
  by (simp add: keeps_evidence_def evidence_matches_def)

definition harmless_state :: "upload_state \<Rightarrow> upload_state \<Rightarrow> bool" where
  "harmless_state a b \<longleftrightarrow> (b \<in> {U_PUBLISHED, U_CATALOGED} \<longrightarrow> b = a)
     \<and> (a \<in> {U_PUBLISH_PENDING, U_PUBLISHED, U_CATALOGED, U_FAILED} \<longrightarrow>
          b = a \<or> (a = U_PUBLISH_PENDING \<and> b = U_FAILED))"

definition harmless_change :: "upload_session \<Rightarrow> upload_session \<Rightarrow> bool" where
  "harmless_change s s' \<longleftrightarrow> harmless_state (us_state s) (us_state s')
     \<and> (us_state s \<in> {U_PUBLISH_PENDING, U_PUBLISHED, U_CATALOGED, U_FAILED} \<longrightarrow>
          keeps_evidence s s')"

lemma harmless_state_phase:
  assumes "harmless_state a b"
  shows "a \<in> {U_PUBLISH_PENDING, U_FAILED} \<Longrightarrow> b \<in> {U_PUBLISH_PENDING, U_FAILED}"
    and "a = U_PUBLISHED \<Longrightarrow> b = U_PUBLISHED" and "a = U_CATALOGED \<Longrightarrow> b = U_CATALOGED"
    and "b \<in> {U_PUBLISHED, U_CATALOGED} \<Longrightarrow> b = a"
  using assms by (cases a; cases b; simp add: harmless_state_def)+

lemma harmless_phase:
  "harmless_change s s' \<Longrightarrow> phase_matches p s \<Longrightarrow> phase_matches p s'"
  unfolding phase_matches_def harmless_change_def
  by (cases "up_state p = P_RESERVED"; cases "up_media_id p = None")
    (simp_all only: if_True if_False simp_thms, (blast dest: harmless_state_phase)+)

lemma phase_states:
  "phase_matches p s \<Longrightarrow> us_state s \<in> {U_PUBLISH_PENDING, U_PUBLISHED, U_CATALOGED, U_FAILED}"
  by (auto simp: phase_matches_def split: if_splits)

lemma harmless_evidence:
  "harmless_change s s' \<Longrightarrow> phase_matches p s \<Longrightarrow> evidence_matches p s \<Longrightarrow> evidence_matches p s'"
  using phase_states keeps_evidence_matches unfolding harmless_change_def by blast

lemma pipeline_session_change:
  assumes ok: "pipeline_ok db" and ev: "evidence_store_ok db'"
    and pubs: "upload_publications db' = upload_publications db"
    and libs: "libraries db' = libraries db" and media: "logical_media_rows db' = logical_media_rows db"
    and locs: "physical_media_locations db' = physical_media_locations db"
    and ids: "set (media_byte_identities db) \<subseteq> set (media_byte_identities db')"
    and st: "stored_session db' = stored_session db
      \<or> (\<exists>i s s'. stored_session db i = Some s \<and> harmless_change s s'
           \<and> stored_session db' = (stored_session db)(i \<mapsto> s'))
      \<or> (\<exists>i s'. stored_session db i = None \<and> us_state s' \<notin> {U_PUBLISHED, U_CATALOGED}
           \<and> stored_session db' = (stored_session db)(i \<mapsto> s'))"
  shows "pipeline_ok db'"
proof -
  have ss: "session_rows_ok db" and ss': "session_rows_ok db'"
    using ok ev by (auto simp: pipeline_ok_def evidence_store_ok_def)
  have ps: "publication_rows_ok db" using ok by (simp add: pipeline_ok_def)
  have dom: "dom (stored_session db) \<subseteq> dom (stored_session db')" using st by auto
  have sp: "stored_publication db' = stored_publication db" by (rule stored_publication_frame [OF pubs])
  have "publication_references_ok db' r" if "publication_references_ok db r" for r
    using that ids session_ids_kept [OF ss ss' dom]
    by (rule_tac references_frame) (auto simp: libs media locs)
  then have ps': "publication_rows_ok db'" using publication_rows_frame [OF ps pubs] by blast
  have links: "catalog_links_resolve db' p = catalog_links_resolve db p" for p
    unfolding catalog_links_resolve_def media locs ..
  have linked: "publication_linked db' p" if p: "stored_publication db' i = Some p" for i p
  proof -
    have p0: "stored_publication db i = Some p" using p by (simp add: sp)
    then have pl: "publication_linked db p" and pid: "up_upload_id p = i"
      using ok stored_publication_wf [OF ps] unfolding pipeline_ok_def by blast+
    from pl pid obtain s where s: "stored_session db i = Some s" "evidence_matches p s"
        "phase_matches p s"
      and l: "up_media_id p \<noteq> None \<longrightarrow> catalog_links_resolve db p"
      unfolding publication_linked_def by blast
    have "\<exists>s'. stored_session db' i = Some s' \<and> evidence_matches p s' \<and> phase_matches p s'"
      using st
    proof (elim disjE exE conjE)
      fix j u u' assume h: "stored_session db j = Some u" "harmless_change u u'"
        "stored_session db' = (stored_session db)(j \<mapsto> u')"
      show ?thesis
      proof (cases "j = i")
        case True
        then have "u = s" using h(1) s(1) by simp
        then have "evidence_matches p u'" "phase_matches p u'"
          using h(2) s harmless_phase harmless_evidence by blast+
        then show ?thesis using h(3) True by simp
      next
        case False
        then show ?thesis using h(3) s by simp
      qed
    next
      fix j u' assume h: "stored_session db j = None"
        "stored_session db' = (stored_session db)(j \<mapsto> u')"
      then have "j \<noteq> i" using s(1) by auto
      then show ?thesis using h s by simp
    next
      assume "stored_session db' = stored_session db"
      then show ?thesis using s by simp
    qed
    then show ?thesis using l links pid unfolding publication_linked_def by blast
  qed
  have "stored_publication db' i \<noteq> None"
    if s: "stored_session db' i = Some s" "us_state s \<in> {U_PUBLISHED, U_CATALOGED}" for i s
  proof -
    have "\<exists>s0. stored_session db i = Some s0 \<and> us_state s0 \<in> {U_PUBLISHED, U_CATALOGED}"
      using st
    proof (elim disjE exE conjE)
      fix j u u' assume h: "stored_session db j = Some u" "harmless_change u u'"
        "stored_session db' = (stored_session db)(j \<mapsto> u')"
      show ?thesis
      proof (cases "j = i")
        case True
        then have "us_state u = us_state s"
          using h(2,3) s harmless_state_phase(4) [of "us_state u" "us_state u'"]
          by (simp add: harmless_change_def)
        then show ?thesis using h(1) True s(2) by simp
      next
        case False
        then show ?thesis using h(3) s by simp
      qed
    next
      fix j u' assume h: "us_state u' \<notin> {U_PUBLISHED, U_CATALOGED}"
        "stored_session db' = (stored_session db)(j \<mapsto> u')"
      have "j \<noteq> i"
      proof
        assume "j = i"
        then have "s = u'" using h(2) s(1) by simp
        then show False using h(1) s(2) by blast
      qed
      then show ?thesis using h(2) s by simp
    next
      assume "stored_session db' = stored_session db"
      then show ?thesis using s by simp
    qed
    then show ?thesis using ok unfolding pipeline_ok_def sp by blast
  qed
  then show ?thesis using ev ps' linked unfolding pipeline_ok_def by blast
qed

end
