(* ===== verification/Catalog_Removal.thy ===== *)
theory Catalog_Removal
  imports Upload_Pipeline
begin

text \<open>
  The other writers of the catalog tables that an upload ends in: the insertions of
  \<open>infrastructure/persistence/media_repository.py\<close> and the removal of media of
  \<open>catalog_removal_repository.py\<close>, which detaches the upload's publication and deletes the
  media with its locations and metadata.  Both keep the invariant of the pipeline.
\<close>

section \<open>Adding media and locations\<close>

datatype media_repo_error =
    MediaAlreadyExistsError
  | MediaLocationAlreadyExistsError
  | MediaLocationNotUniqueError
  | MediaLocationReferenceNotFoundError
  | FrameNestMediaRepositoryError

definition media_id_taken :: "pystr \<Rightarrow> catalog_db \<Rightarrow> bool" where
  "media_id_taken i db \<longleftrightarrow> i \<in> set (map mr_id (logical_media_rows db))"

text \<open>\<open>add_media\<close> reports every \<open>IntegrityError\<close> of its insert as an existing media.\<close>

definition add_media_in :: "logical_media \<Rightarrow> catalog_db \<Rightarrow> media_repo_error + unit \<times> catalog_db" where
  "add_media_in media db =
     (let row = media_values media
      in if media_id_taken (mr_id row) db \<or> \<not> checks_pass (media_row_checks row)
         then Inl MediaAlreadyExistsError
         else Inr ((), db\<lparr>logical_media_rows := logical_media_rows db @ [row]\<rparr>))"

definition location_refusal :: "location_row \<Rightarrow> catalog_db \<Rightarrow> media_repo_error option" where
  "location_refusal row db =
     (if \<not> media_id_taken (lr_media_id row) db \<or> lr_library_id row \<notin> set (libraries db)
      then Some MediaLocationReferenceNotFoundError
      else if lr_id row \<in> set (map lr_id (physical_media_locations db))
      then Some MediaLocationAlreadyExistsError
      else if (lr_library_id row, lr_relative_path row)
          \<in> set (map (\<lambda>r. (lr_library_id r, lr_relative_path r)) (physical_media_locations db))
      then Some MediaLocationNotUniqueError
      else if \<not> checks_pass (location_row_checks row) then Some FrameNestMediaRepositoryError
      else None)"

definition add_location_in ::
    "media_location \<Rightarrow> catalog_db \<Rightarrow> media_repo_error + unit \<times> catalog_db" where
  "add_location_in location db =
     (let row = location_values location
      in case location_refusal row db of
           Some e \<Rightarrow> Inl e
         | None \<Rightarrow> Inr ((), db\<lparr>physical_media_locations := physical_media_locations db @ [row]\<rparr>))"

text \<open>\<open>_insert_media\<close> of \<open>add_media_with_location\<close>, whose other \<open>IntegrityError\<close> is sanitized.\<close>

definition add_media_with_location_in ::
    "logical_media \<Rightarrow> media_location \<Rightarrow> catalog_db \<Rightarrow> media_repo_error + unit \<times> catalog_db" where
  "add_media_with_location_in media location db =
     (let row = media_values media
      in if media_id_taken (mr_id row) db then Inl MediaAlreadyExistsError
         else if \<not> checks_pass (media_row_checks row) then Inl FrameNestMediaRepositoryError
         else add_location_in location (db\<lparr>logical_media_rows := logical_media_rows db @ [row]\<rparr>))"

definition add_media :: "logical_media \<Rightarrow> catalog_db \<Rightarrow> (media_repo_error + unit) \<times> catalog_db" where
  "add_media media db = run_in_transaction (add_media_in media) db"

definition add_location ::
    "media_location \<Rightarrow> catalog_db \<Rightarrow> (media_repo_error + unit) \<times> catalog_db" where
  "add_location location db = run_in_transaction (add_location_in location) db"

definition add_media_with_location ::
    "logical_media \<Rightarrow> media_location \<Rightarrow> catalog_db \<Rightarrow> (media_repo_error + unit) \<times> catalog_db" where
  "add_media_with_location media location db =
     (if ml_media_id location \<noteq> lm_id media then (Inl MediaLocationReferenceNotFoundError, db)
      else run_in_transaction (add_media_with_location_in media location) db)"

section \<open>Removing media\<close>

datatype catalog_removal_error =
    RemovalError
  | RemovalNotFoundError
  | RemovalStateConflictError
  | RemovalBoundRecordError

text \<open>
  What the tables outside this store decide: whether a record is bound to the media, and what the
  comparison of the fingerprint, the insert of the receipt, the step of the YouTube claims and
  the foreign keys of the other tables (X assets, claims) raise, if anything.
\<close>

record removal_outside =
  ro_media_bound :: bool
  ro_refusal :: "catalog_removal_error option"

definition detach_upload_publications ::
    "pystr \<Rightarrow> catalog_db \<Rightarrow> catalog_removal_error + catalog_db" where
  "detach_upload_publications media_id db =
     (case sql_update (\<lambda>p. publication_row_ok p \<and> publication_references_ok db p)
             (\<lambda>p. pr_media_id p = Some media_id)
             (\<lambda>p. p\<lparr>pr_media_id := None, pr_media_location_id := None\<rparr>) (upload_publications db) of
        None \<Rightarrow> Inl RemovalError
      | Some (rows, _) \<Rightarrow>
          if publication_keys_ok rows then Inr (db\<lparr>upload_publications := rows\<rparr>)
          else Inl RemovalError)"

definition delete_metadata_graph :: "pystr \<Rightarrow> catalog_db \<Rightarrow> catalog_db" where
  "delete_metadata_graph media_id db =
     db\<lparr>media_canonical_tags := filter (\<lambda>t. tr_media_id t \<noteq> media_id) (media_canonical_tags db),
        media_metadata_rows := filter (\<lambda>d. dr_media_id d \<noteq> media_id) (media_metadata_rows db)\<rparr>"

text \<open>A row that is still referred to cannot be deleted (\<open>ON DELETE RESTRICT\<close>).\<close>

definition delete_locations :: "pystr \<Rightarrow> catalog_db \<Rightarrow> catalog_removal_error + catalog_db" where
  "delete_locations media_id db =
     (if list_ex (\<lambda>l. lr_media_id l = media_id
            \<and> Some (lr_id l) \<in> set (map pr_media_location_id (upload_publications db)))
          (physical_media_locations db)
      then Inl RemovalError
      else Inr (db\<lparr>physical_media_locations :=
        filter (\<lambda>l. lr_media_id l \<noteq> media_id) (physical_media_locations db)\<rparr>))"

definition delete_media :: "pystr \<Rightarrow> catalog_db \<Rightarrow> catalog_removal_error + catalog_db" where
  "delete_media media_id db =
     (if media_id_taken media_id db
          \<and> (Some media_id \<in> set (map pr_media_id (upload_publications db))
             \<or> media_id \<in> set (map lr_media_id (physical_media_locations db))
             \<or> media_id \<in> set (map dr_media_id (media_metadata_rows db)))
      then Inl RemovalError
      else if length (filter (\<lambda>m. mr_id m = media_id) (logical_media_rows db)) \<noteq> 1
      then Inl RemovalNotFoundError
      else Inr (db\<lparr>logical_media_rows :=
        filter (\<lambda>m. mr_id m \<noteq> media_id) (logical_media_rows db)\<rparr>))"

text \<open>The result is the receipt's count of detached publications.\<close>

definition remove_catalog_media_in ::
    "removal_outside \<Rightarrow> uuid \<Rightarrow> catalog_db \<Rightarrow> catalog_removal_error + nat \<times> catalog_db" where
  "remove_catalog_media_in outside media_id db =
     (let i = uuid_to_text media_id
      in if ro_media_bound outside then Inl RemovalBoundRecordError
         else if \<not> media_id_taken i db then Inl RemovalNotFoundError
         else case ro_refusal outside of
           Some e \<Rightarrow> Inl e
         | None \<Rightarrow>
             and_then (detach_upload_publications i db) (\<lambda>db1.
             and_then (delete_locations i (delete_metadata_graph i db1)) (\<lambda>db2.
             and_then (delete_media i db2) (\<lambda>db3.
             Inr (length (filter (\<lambda>p. pr_media_id p = Some i) (upload_publications db)), db3)))))"

definition remove_catalog_media ::
    "removal_outside \<Rightarrow> uuid \<Rightarrow> catalog_db \<Rightarrow> (catalog_removal_error + nat) \<times> catalog_db" where
  "remove_catalog_media outside media_id db =
     run_in_immediate_transaction (remove_catalog_media_in outside media_id) db"

section \<open>What the insertions keep\<close>

lemma links_appended:
  assumes "logical_media_rows db' = logical_media_rows db @ ms"
    and "physical_media_locations db' = physical_media_locations db @ ls"
    and "catalog_links_resolve db p"
  shows "catalog_links_resolve db' p"
proof -
  have "find q xs = Some x \<Longrightarrow> find q (xs @ ys) = Some x" for q :: "location_row \<Rightarrow> bool" and xs ys x
    by (induction xs) (auto split: if_splits)
  then show ?thesis
    using assms by (auto simp: catalog_links_resolve_def sql_first_def split: option.splits)
qed

lemma catalog_tables_ok:
  assumes ok: "pipeline_ok db" and f: "upload_sessions db' = upload_sessions db"
      "media_byte_identities db' = media_byte_identities db" and ps: "publication_rows_ok db'"
    and old: "\<And>i p. stored_publication db' i = Some p \<Longrightarrow> \<exists>q. stored_publication db i = Some q
      \<and> up_upload_id p = up_upload_id q \<and> (\<forall>s. evidence_matches q s \<longrightarrow> evidence_matches p s)
      \<and> (\<forall>s. phase_matches q s \<longrightarrow> phase_matches p s)
      \<and> (up_media_id p \<noteq> None \<longrightarrow> up_media_id q \<noteq> None
          \<and> (catalog_links_resolve db q \<longrightarrow> catalog_links_resolve db' p))"
    and dom: "\<And>i. stored_publication db i \<noteq> None \<Longrightarrow> stored_publication db' i \<noteq> None"
  shows "pipeline_ok db'" and "stored_session db' = stored_session db"
proof -
  show s: "stored_session db' = stored_session db"
    by (rule ext) (simp add: stored_session_def row_by_id_def f)
  have "identity_links_ok db' = identity_links_ok db"
    by (simp add: identity_links_ok_def row_byte_identity_matches_upload_evidence_def f cong: option.case_cong)
  then have "evidence_store_ok db'"
    using ok by (simp add: pipeline_ok_def evidence_store_ok_def session_rows_ok_def identity_rows_ok_def f)
  moreover have "publication_linked db' p" if p: "stored_publication db' i = Some p" for i p
  proof -
    obtain q where q: "stored_publication db i = Some q" "up_upload_id p = up_upload_id q"
        "\<And>s. evidence_matches q s \<Longrightarrow> evidence_matches p s" "\<And>s. phase_matches q s \<Longrightarrow> phase_matches p s"
        "up_media_id p \<noteq> None \<longrightarrow> up_media_id q \<noteq> None
          \<and> (catalog_links_resolve db q \<longrightarrow> catalog_links_resolve db' p)"
      using old [OF p] by blast
    have "publication_linked db q" using ok q(1) unfolding pipeline_ok_def by blast
    then show ?thesis using q(2-5) unfolding publication_linked_def s by metis
  qed
  ultimately show "pipeline_ok db'"
    using ok ps dom unfolding pipeline_ok_def s by blast
qed

lemma catalog_appended_ok:
  assumes ok: "pipeline_ok db"
    and e: "db' = db\<lparr>logical_media_rows := logical_media_rows db @ ms,
      physical_media_locations := physical_media_locations db @ ls\<rparr>"
  shows "pipeline_ok db'" and "stored_session db' = stored_session db"
proof -
  have sp: "stored_publication db' = stored_publication db"
    by (rule stored_publication_frame) (simp add: e)
  have "publication_references_ok db r \<Longrightarrow> publication_references_ok db' r" for r
    by (rule references_frame) (auto simp: e)
  then have ps: "publication_rows_ok db'"
    using ok publication_rows_frame [of db db'] by (simp add: pipeline_ok_def e)
  have l: "catalog_links_resolve db p \<Longrightarrow> catalog_links_resolve db' p" for p
    by (rule links_appended) (simp_all add: e)
  have f: "upload_sessions db' = upload_sessions db" "media_byte_identities db' = media_byte_identities db"
    by (simp_all add: e)
  show "pipeline_ok db'" "stored_session db' = stored_session db"
    by (rule catalog_tables_ok [OF ok f ps]; use l in \<open>force simp: sp\<close>)+
qed

definition appends_media :: "catalog_db \<Rightarrow> catalog_db \<Rightarrow> bool" where
  "appends_media db db' \<longleftrightarrow> (\<exists>ms ls. db' = db\<lparr>logical_media_rows := logical_media_rows db @ ms,
      physical_media_locations := physical_media_locations db @ ls\<rparr>
    \<and> (distinct (map mr_id (logical_media_rows db)) \<longrightarrow> distinct (map mr_id (logical_media_rows db @ ms)))
    \<and> (distinct (map lr_id (physical_media_locations db)) \<longrightarrow>
         distinct (map lr_id (physical_media_locations db @ ls))))"

lemma appends_refl: "appends_media db db"
  unfolding appends_media_def by (intro exI [of _ "[]"]) simp

lemma location_appends:
  assumes "add_location_in l db = Inr (u, db')"
  shows "\<exists>r. db' = db\<lparr>physical_media_locations := physical_media_locations db @ [r]\<rparr>
    \<and> lr_id r \<notin> set (map lr_id (physical_media_locations db))"
  using assms by (auto simp: add_location_in_def Let_def location_refusal_def split: option.splits if_splits)

lemma appends_one:
  "mr_id r \<notin> set (map mr_id (logical_media_rows db)) \<Longrightarrow>
     appends_media db (db\<lparr>logical_media_rows := logical_media_rows db @ [r]\<rparr>)"
  "lr_id l \<notin> set (map lr_id (physical_media_locations db)) \<Longrightarrow>
     appends_media db (db\<lparr>physical_media_locations := physical_media_locations db @ [l]\<rparr>)"
  unfolding appends_media_def
  by (rule exI [of _ "[r]"], rule exI [of _ "[]"], simp) (rule exI [of _ "[]"], rule exI [of _ "[l]"], simp)

lemma appends_both:
  "mr_id r \<notin> set (map mr_id (logical_media_rows db)) \<Longrightarrow>
   lr_id l \<notin> set (map lr_id (physical_media_locations db)) \<Longrightarrow>
     appends_media db (db\<lparr>logical_media_rows := logical_media_rows db @ [r],
       physical_media_locations := physical_media_locations db @ [l]\<rparr>)"
  unfolding appends_media_def by (rule exI [of _ "[r]"], rule exI [of _ "[l]"], simp)

lemma transaction_appends:
  assumes "\<And>u db'. f db = Inr (u, db') \<Longrightarrow> appends_media db db'"
  shows "appends_media db (snd (run_in_transaction f db))"
  using assms by (cases "f db") (auto simp: run_in_transaction_def appends_refl split: prod.split)

lemma insertions_append:
  "appends_media db (snd (add_media m db))" "appends_media db (snd (add_location l db))"
  "appends_media db (snd (add_media_with_location m l db))"
proof -
  show "appends_media db (snd (add_media m db))"
    unfolding add_media_def
    by (rule transaction_appends)
      (auto simp: add_media_in_def Let_def media_id_taken_def intro!: appends_one split: if_splits)
  show "appends_media db (snd (add_location l db))"
    unfolding add_location_def
    by (rule transaction_appends) (auto dest!: location_appends intro!: appends_one)
  have "appends_media db db'" if "add_media_with_location_in m l db = Inr (u, db')" for u db'
  proof -
    let ?r = "media_values m"
    let ?db1 = "db\<lparr>logical_media_rows := logical_media_rows db @ [?r]\<rparr>"
    have a: "mr_id ?r \<notin> set (map mr_id (logical_media_rows db))" "add_location_in l ?db1 = Inr (u, db')"
      using that by (simp_all add: add_media_with_location_in_def Let_def media_id_taken_def split: if_splits)
    show ?thesis using location_appends [OF a(2)] appends_both [OF a(1)] by auto
  qed
  then show "appends_media db (snd (add_media_with_location m l db))"
    unfolding add_media_with_location_def
    by (cases "ml_media_id l = lm_id m") (simp_all add: appends_refl transaction_appends)
qed

lemma appends_ok:
  assumes "pipeline_ok db" and "appends_media db db'"
  shows "pipeline_ok db'" and "stored_session db' = stored_session db"
    and "stored_publication db' = stored_publication db"
proof -
  obtain ms ls where e: "db' = db\<lparr>logical_media_rows := logical_media_rows db @ ms,
      physical_media_locations := physical_media_locations db @ ls\<rparr>"
    using assms(2) unfolding appends_media_def by blast
  show "pipeline_ok db'" "stored_session db' = stored_session db"
    by (rule catalog_appended_ok [OF assms(1) e])+
  show "stored_publication db' = stored_publication db"
    by (rule stored_publication_frame) (simp add: e)
qed

section \<open>What the removal does\<close>

definition detached :: "uuid \<Rightarrow> upload_publication \<Rightarrow> upload_publication" where
  "detached m p = (if up_media_id p = Some m
     then p\<lparr>up_media_id := None, up_media_location_id := None\<rparr> else p)"

lemma detached_fields [simp]:
  "up_upload_id (detached m p) = up_upload_id p" "up_state (detached m p) = up_state p"
  "up_publication_id (detached m p) = up_publication_id p"
  "up_cleanup_state (detached m p) = up_cleanup_state p"
  "up_media_id (detached m p) = (if up_media_id p = Some m then None else up_media_id p)"
  "evidence_matches (detached m p) s = evidence_matches p s"
  by (simp_all add: detached_def evidence_matches_def)

lemma detached_phase: "phase_matches p s \<Longrightarrow> phase_matches (detached m p) s"
  by (auto simp: phase_matches_def split: if_splits)

lemma detached_wf: "upload_publication_wf p \<Longrightarrow> upload_publication_wf (detached m p)"
  by (auto simp: detached_def upload_publication_wf_def publication_progress_ok_def
      split: publication_state.splits cleanup_state.splits)

lemma detached_values:
  "publication_values (detached m p) =
    (if pr_media_id (publication_values p) = Some (uuid_to_text m)
     then (publication_values p)\<lparr>pr_media_id := None, pr_media_location_id := None\<rparr>
     else publication_values p)"
  by (auto simp: detached_def publication_values_def)

definition catalog_without :: "uuid \<Rightarrow> catalog_db \<Rightarrow> catalog_db" where
  "catalog_without m db = (let i = uuid_to_text m in db\<lparr>
     upload_publications := map (\<lambda>p. if pr_media_id p = Some i
       then p\<lparr>pr_media_id := None, pr_media_location_id := None\<rparr> else p) (upload_publications db),
     logical_media_rows := filter (\<lambda>r. mr_id r \<noteq> i) (logical_media_rows db),
     physical_media_locations := filter (\<lambda>l. lr_media_id l \<noteq> i) (physical_media_locations db),
     media_metadata_rows := filter (\<lambda>d. dr_media_id d \<noteq> i) (media_metadata_rows db),
     media_canonical_tags := filter (\<lambda>t. tr_media_id t \<noteq> i) (media_canonical_tags db)\<rparr>)"

lemma removal_effect:
  assumes "remove_catalog_media_in outside m db = Inr (n, db')"
  shows "db' = catalog_without m db" and "publication_keys_ok (upload_publications db')"
    and "\<And>l. l \<in> set (physical_media_locations db) \<Longrightarrow> lr_media_id l = uuid_to_text m \<Longrightarrow>
      Some (lr_id l) \<notin> set (map pr_media_location_id (upload_publications db'))"
    and "n = length (filter (\<lambda>p. pr_media_id p = Some (uuid_to_text m)) (upload_publications db))"
proof -
  let ?i = "uuid_to_text m"
  obtain db1 db2 where d: "detach_upload_publications ?i db = Inr db1"
      and l: "delete_locations ?i (delete_metadata_graph ?i db1) = Inr db2"
      and m: "delete_media ?i db2 = Inr db'"
      and n: "n = length (filter (\<lambda>p. pr_media_id p = Some ?i) (upload_publications db))"
    using assms by (auto simp: remove_catalog_media_in_def and_then_Inr Let_def split: if_splits option.splits)
  let ?rows = "map (\<lambda>p. if pr_media_id p = Some ?i
      then p\<lparr>pr_media_id := None, pr_media_location_id := None\<rparr> else p) (upload_publications db)"
  have 1: "db1 = db\<lparr>upload_publications := ?rows\<rparr>" "publication_keys_ok ?rows"
    using d by (auto simp: detach_upload_publications_def sql_update_def split: if_splits)
  have 2: "db2 = (delete_metadata_graph ?i db1)\<lparr>physical_media_locations :=
      filter (\<lambda>l. lr_media_id l \<noteq> ?i) (physical_media_locations db)\<rparr>"
    and r: "\<And>l. l \<in> set (physical_media_locations db) \<Longrightarrow> lr_media_id l = ?i \<Longrightarrow>
      Some (lr_id l) \<notin> set (map pr_media_location_id ?rows)"
    using l by (auto simp: delete_locations_def delete_metadata_graph_def 1(1) list_ex_iff
        simp del: set_map map_map split: if_splits)
  have 3: "db' = db2\<lparr>logical_media_rows := filter (\<lambda>r. mr_id r \<noteq> ?i) (logical_media_rows db)\<rparr>"
    using m by (auto simp: delete_media_def 2 delete_metadata_graph_def 1(1) split: if_splits)
  show "db' = catalog_without m db"
    by (simp add: 3 2 1(1) catalog_without_def delete_metadata_graph_def Let_def)
  have u: "upload_publications db' = ?rows" by (simp add: 3 2 1(1) delete_metadata_graph_def)
  show "publication_keys_ok (upload_publications db')" unfolding u by (rule 1(2))
  show "Some (lr_id l) \<notin> set (map pr_media_location_id (upload_publications db'))"
    if "l \<in> set (physical_media_locations db)" "lr_media_id l = ?i" for l
    unfolding u by (rule r [OF that])
  show "n = length (filter (\<lambda>p. pr_media_id p = Some ?i) (upload_publications db))" by (rule n)
qed

lemma without_rows:
  assumes "publication_rows_ok db"
  shows "set (upload_publications (catalog_without m db))
    = publication_values ` detached m ` {p. publication_values p \<in> set (upload_publications db)}"
proof -
  have r: "set (upload_publications db) = publication_values ` {p. publication_values p \<in> set (upload_publications db)}"
    using publication_row_wf [OF assms] by blast
  have "set (upload_publications (catalog_without m db))
    = (\<lambda>r. if pr_media_id r = Some (uuid_to_text m)
        then r\<lparr>pr_media_id := None, pr_media_location_id := None\<rparr> else r) ` set (upload_publications db)"
    by (simp add: catalog_without_def Let_def)
  also have "\<dots> = (\<lambda>p. publication_values (detached m p)) ` {p. publication_values p \<in> set (upload_publications db)}"
    by (subst r) (simp only: image_image detached_values)
  finally show ?thesis by (simp add: image_image)
qed

lemma references_without:
  assumes "pr_media_id r \<noteq> Some m" and "publication_references_ok db r"
    and "\<And>l. l \<in> set (physical_media_locations db) \<Longrightarrow> lr_media_id l = m \<Longrightarrow>
      Some (lr_id l) \<noteq> pr_media_location_id r"
    and "upload_sessions db' = upload_sessions db" and "media_byte_identities db' = media_byte_identities db"
    and "libraries db' = libraries db"
    and "logical_media_rows db' = filter (\<lambda>r. mr_id r \<noteq> m) (logical_media_rows db)"
    and "physical_media_locations db' = filter (\<lambda>l. lr_media_id l \<noteq> m) (physical_media_locations db)"
  shows "publication_references_ok db' r"
proof -
  have "j \<in> set (map mr_id (logical_media_rows db'))"
    if "pr_media_id r = Some j" "j \<in> set (map mr_id (logical_media_rows db))" for j
    using that assms(1,7) by auto
  moreover have "j \<in> set (map lr_id (physical_media_locations db'))"
    if "pr_media_location_id r = Some j" "j \<in> set (map lr_id (physical_media_locations db))" for j
    using that assms(3,8) by force
  ultimately show ?thesis
    using assms(2) unfolding publication_references_ok_def assms(4-6) by (auto split: option.splits)
qed

lemma removal_ok:
  assumes ok: "pipeline_ok db" and r: "remove_catalog_media_in outside m db = Inr (n, db')"
  shows "pipeline_ok db'" and "stored_session db' = stored_session db"
    and "stored_publication db' i = map_option (detached m) (stored_publication db i)"
proof -
  have ps: "publication_rows_ok db" using ok by (simp add: pipeline_ok_def)
  note e = removal_effect [OF r]
  have f: "upload_sessions db' = upload_sessions db" "media_byte_identities db' = media_byte_identities db"
      "libraries db' = libraries db"
    by (simp_all add: e(1) catalog_without_def Let_def)
  have t: "logical_media_rows db' = filter (\<lambda>r. mr_id r \<noteq> uuid_to_text m) (logical_media_rows db)"
      "physical_media_locations db' = filter (\<lambda>l. lr_media_id l \<noteq> uuid_to_text m) (physical_media_locations db)"
    by (simp_all add: e(1) catalog_without_def Let_def)
  have rows: "set (upload_publications db')
      = publication_values ` detached m ` {p. publication_values p \<in> set (upload_publications db)}"
    unfolding e(1) by (rule without_rows [OF ps])
  have row: "publication_row_ok r \<and> ok (publication_from_row r) \<and> publication_references_ok db' r"
    if mem: "r \<in> set (upload_publications db')" for r
  proof -
    obtain p where p: "r = publication_values (detached m p)" "publication_values p \<in> set (upload_publications db)"
      using mem unfolding rows by (elim imageE CollectE) simp
    then have w: "upload_publication_wf (detached m p)"
      using publication_row_wf [OF ps p(2)] detached_wf by auto
    have old: "publication_references_ok db (publication_values p)"
      using ps p(2) by (simp add: publication_rows_ok_def list_all_iff)
    have loc: "Some (lr_id l) \<noteq> pr_media_location_id r"
      if "l \<in> set (physical_media_locations db)" "lr_media_id l = uuid_to_text m" for l
      using e(3) [OF that] \<open>r \<in> set (upload_publications db')\<close> by auto
    have "publication_references_ok db' r"
    proof (cases "up_media_id p = Some m")
      case True
      then show ?thesis
        using old by (simp add: p(1) publication_references_ok_def f detached_def)
    next
      case False
      then have "r = publication_values p" using p(1) by (simp add: detached_def)
      moreover have "pr_media_id r \<noteq> Some (uuid_to_text m)" using False calculation by simp
      moreover have "publication_references_ok db r" using old calculation(1) by simp
      ultimately show ?thesis by (intro references_without [OF _ _ loc f t])
    qed
    then show ?thesis
      using publication_values_row_ok [OF w] publication_from_values [OF w] p(1) by simp
  qed
  have ps': "publication_rows_ok db'"
    using e(2) row by (simp add: publication_rows_ok_def list_all_iff)
  have sp: "stored_publication db' i = map_option (detached m) (stored_publication db i)" for i
  proof (cases "stored_publication db i")
    case (Some p)
    then have p: "publication_values p \<in> set (upload_publications db)" "up_upload_id p = i"
      by (simp_all add: stored_publication_iff [OF ps])
    then have "stored_publication db' i = Some (detached m p)"
      unfolding stored_publication_iff [OF ps'] rows by (auto simp del: publication_values_inj)
    then show ?thesis using Some by simp
  next
    case None
    have "stored_publication db' i \<noteq> Some q" for q
    proof
      assume "stored_publication db' i = Some q"
      then have "publication_values q \<in> publication_values ` detached m `
          {p. publication_values p \<in> set (upload_publications db)}" "up_upload_id q = i"
        unfolding stored_publication_iff [OF ps'] rows by simp_all
      then obtain p where "q = detached m p" "publication_values p \<in> set (upload_publications db)" by auto
      then have "stored_publication db i = Some p"
        using \<open>up_upload_id q = i\<close> by (simp add: stored_publication_iff [OF ps])
      then show False using None by simp
    qed
    then have "stored_publication db' i = None" by (metis option.exhaust)
    then show ?thesis using None by simp
  qed
  then show "stored_publication db' i = map_option (detached m) (stored_publication db i)" .
  have links: "catalog_links_resolve db' p" if res: "catalog_links_resolve db p" "up_media_id p \<noteq> Some m" for p
  proof -
    have find_kept: "find q xs = Some x \<Longrightarrow> g x \<Longrightarrow> find q (filter g xs) = Some x"
      for q g xs and x :: location_row
      by (induction xs) (auto split: if_splits)
    obtain k l r where k: "up_media_id p = Some k" "up_media_location_id p = Some l" "k \<noteq> m"
        "uuid_to_text k \<in> set (map mr_id (logical_media_rows db))"
        "find (\<lambda>x. lr_id x = uuid_to_text l) (physical_media_locations db) = Some r"
        "lr_media_id r = uuid_to_text k" "lr_library_id r = uuid_to_text (up_destination_id p)"
        "lr_relative_path r = up_relative_path p"
      using res by (auto simp: catalog_links_resolve_def sql_first_def split: option.splits)
    have "find (\<lambda>x. lr_id x = uuid_to_text l) (physical_media_locations db') = Some r"
      unfolding t by (rule find_kept [OF k(5)]) (simp add: k(3,6))
    moreover have "uuid_to_text k \<in> set (map mr_id (logical_media_rows db'))"
      using k(3,4) by (auto simp: t)
    ultimately show ?thesis using k by (simp add: catalog_links_resolve_def sql_first_def)
  qed
  have "\<exists>q. stored_publication db i = Some q \<and> up_upload_id p = up_upload_id q
      \<and> (\<forall>s. evidence_matches q s \<longrightarrow> evidence_matches p s) \<and> (\<forall>s. phase_matches q s \<longrightarrow> phase_matches p s)
      \<and> (up_media_id p \<noteq> None \<longrightarrow> up_media_id q \<noteq> None
          \<and> (catalog_links_resolve db q \<longrightarrow> catalog_links_resolve db' p))"
    if p: "stored_publication db' i = Some p" for i p
  proof -
    obtain q where q: "stored_publication db i = Some q" "p = detached m q" using p by (auto simp: sp)
    have "catalog_links_resolve db' p" if "up_media_id p \<noteq> None" "catalog_links_resolve db q"
      using that links [of q] by (auto simp: q(2) detached_def split: if_splits)
    moreover have "up_media_id p \<noteq> None \<longrightarrow> up_media_id q \<noteq> None" by (simp add: q(2))
    moreover have "phase_matches q s \<Longrightarrow> phase_matches p s" for s unfolding q(2) by (rule detached_phase)
    ultimately show ?thesis using q by (intro exI [of _ q]) simp
  qed
  note fin = catalog_tables_ok [OF ok f(1,2) ps' this]
  show "pipeline_ok db'" "stored_session db' = stored_session db" by (rule fin; simp add: sp)+
qed

definition catalog_keys_ok :: "catalog_db \<Rightarrow> bool" where
  "catalog_keys_ok db \<longleftrightarrow> distinct (map mr_id (logical_media_rows db))
     \<and> distinct (map lr_id (physical_media_locations db))"

lemma set_map_filter: "x \<in> set (List.map_filter k rows) \<longleftrightarrow> (\<exists>r \<in> set rows. k r = Some x)"
  by (induction rows) (auto simp: List.map_filter_simps split: option.splits)

lemma distinct_map_filter_dropped:
  assumes "distinct (List.map_filter f xs)" and "\<And>x. f (g x) = f x \<or> f (g x) = None"
  shows "distinct (List.map_filter f (map g xs))"
  using assms(1)
proof (induction xs)
  case (Cons x xs)
  have "set (List.map_filter f (map g xs)) \<subseteq> set (List.map_filter f xs)"
    using assms(2) by (auto simp: set_map_filter) (metis option.discI)
  then show ?case
    using Cons assms(2) [of x] by (cases "f x"; cases "f (g x)") auto
qed simp

lemma detach_succeeds:
  assumes "publication_rows_ok db"
  shows "detach_upload_publications (uuid_to_text m) db
    = Inr (db\<lparr>upload_publications := upload_publications (catalog_without m db)\<rparr>)"
proof -
  let ?i = "uuid_to_text m"
  let ?f = "\<lambda>p. p\<lparr>pr_media_id := None, pr_media_location_id := None\<rparr>"
  have "publication_row_ok (?f r) \<and> publication_references_ok db (?f r)"
    if r: "r \<in> set (upload_publications db)" "pr_media_id r = Some ?i" for r
  proof -
    obtain p where p: "upload_publication_wf p" "r = publication_values p"
      using publication_row_wf [OF assms r(1)] by blast
    have "?f r = publication_values (detached m p)" using r(2) p(2) by (simp add: detached_values)
    then have "publication_row_ok (?f r)"
      using publication_values_row_ok [OF detached_wf [OF p(1)]] by simp
    moreover have "publication_references_ok db r"
      using assms r(1) by (simp add: publication_rows_ok_def list_all_iff)
    ultimately show ?thesis by (simp add: publication_references_ok_def)
  qed
  then have "\<not> list_ex (\<lambda>p. pr_media_id p = Some ?i \<and> \<not> (publication_row_ok (?f p)
      \<and> publication_references_ok db (?f p))) (upload_publications db)"
    by (auto simp: list_ex_iff)
  moreover have "publication_keys_ok (map (\<lambda>p. if pr_media_id p = Some ?i then ?f p else p) (upload_publications db))"
    using assms unfolding publication_rows_ok_def publication_keys_ok_def
    by (auto simp: comp_def if_distrib cong: if_cong intro!: distinct_map_filter_dropped)
  ultimately show ?thesis
    by (simp add: detach_upload_publications_def sql_update_def catalog_without_def Let_def)
qed

lemma nothing_refers:
  assumes ok: "pipeline_ok db" and keys: "catalog_keys_ok db"
    and l: "l \<in> set (physical_media_locations db)" "lr_media_id l = uuid_to_text m"
  shows "Some (lr_id l) \<notin> set (map pr_media_location_id (upload_publications (catalog_without m db)))"
proof
  assume "Some (lr_id l) \<in> set (map pr_media_location_id (upload_publications (catalog_without m db)))"
  moreover have ps: "publication_rows_ok db" using ok by (simp add: pipeline_ok_def)
  ultimately obtain p where p: "publication_values p \<in> set (upload_publications db)"
      and d: "map_option uuid_to_text (up_media_location_id (detached m p)) = Some (lr_id l)"
    using without_rows [OF ps, of m] by (auto simp del: publication_values_inj dest: sym)
  have nm: "up_media_id p \<noteq> Some m" using d by (auto simp: detached_def)
  then obtain k where k: "up_media_location_id p = Some k" "uuid_to_text k = lr_id l"
    using d by (auto simp: detached_def)
  have "upload_publication_wf p" using publication_row_wf [OF ps p] by auto
  then have "up_media_id p \<noteq> None" using k(1) by (auto simp: upload_publication_wf_def)
  then obtain n where n: "up_media_id p = Some n" "n \<noteq> m" using nm by auto
  have "stored_publication db (up_upload_id p) = Some p" using p by (simp add: stored_publication_iff [OF ps])
  then have "catalog_links_resolve db p" using ok n(1) unfolding pipeline_ok_def publication_linked_def by blast
  moreover have "find (\<lambda>x. lr_id x = uuid_to_text k) (physical_media_locations db) = Some l"
    using keys l(1) k(2) by (simp add: catalog_keys_ok_def find_key_Some_iff)
  ultimately show False using n k(1) l(2) by (simp add: catalog_links_resolve_def sql_first_def)
qed

lemma removal_succeeds:
  assumes ok: "pipeline_ok db" and keys: "catalog_keys_ok db"
    and m: "uuid_to_text m \<in> set (map mr_id (logical_media_rows db))"
  shows "remove_catalog_media_in \<lparr>ro_media_bound = False, ro_refusal = None\<rparr> m db
    = Inr (length (filter (\<lambda>p. pr_media_id p = Some (uuid_to_text m)) (upload_publications db)),
        catalog_without m db)"
proof -
  let ?i = "uuid_to_text m"
  let ?db1 = "db\<lparr>upload_publications := upload_publications (catalog_without m db)\<rparr>"
  let ?db2 = "(delete_metadata_graph ?i ?db1)\<lparr>physical_media_locations :=
      filter (\<lambda>l. lr_media_id l \<noteq> ?i) (physical_media_locations db)\<rparr>"
  have ps: "publication_rows_ok db" using ok by (simp add: pipeline_ok_def)
  have 2: "delete_locations ?i (delete_metadata_graph ?i ?db1) = Inr ?db2"
    using nothing_refers [OF ok keys] by (auto simp: delete_locations_def delete_metadata_graph_def list_ex_iff)
  have "length (filter (\<lambda>r. mr_id r = ?i) (logical_media_rows db)) = 1"
  proof -
    obtain r where r: "r \<in> set (logical_media_rows db)" "mr_id r = ?i" using m by auto
    then have "filter (\<lambda>x. mr_id x = mr_id r) (logical_media_rows db) = [r]"
      using keys filter_key_unique [of mr_id "logical_media_rows db" "mr_id r" r "\<lambda>_. True"]
      by (simp add: catalog_keys_ok_def find_key_Some_iff)
    then show ?thesis by (simp add: r(2))
  qed
  then have 3: "delete_media ?i ?db2 = Inr (?db2\<lparr>logical_media_rows :=
      filter (\<lambda>r. mr_id r \<noteq> ?i) (logical_media_rows db)\<rparr>)"
    by (auto simp: delete_media_def delete_metadata_graph_def catalog_without_def Let_def split: if_splits)
  show ?thesis
    using m unfolding remove_catalog_media_in_def
    by (simp add: Let_def media_id_taken_def detach_succeeds [OF ps] 2 3)
      (simp add: catalog_without_def Let_def delete_metadata_graph_def)
qed

lemma appends_keys: "appends_media db db' \<Longrightarrow> catalog_keys_ok db \<Longrightarrow> catalog_keys_ok db'"
  by (auto simp: appends_media_def catalog_keys_ok_def)

lemma without_keys: "catalog_keys_ok db \<Longrightarrow> catalog_keys_ok (catalog_without m db)"
  by (simp add: catalog_keys_ok_def catalog_without_def Let_def distinct_map_filter)

end
