(* ===== verification/Upload_History.thy ===== *)
theory Upload_History
  imports Catalog_Removal
begin

text \<open>
  Histories of the upload pipeline: the operations of both upload repositories, the insertions of
  the media repository and the removal of media as commands, the stores they reach, and what every
  command may do to a stored session.
\<close>

section \<open>Commands\<close>

datatype pipeline_command =
    CreateUpload upload_session
  | AdvanceOffset uuid int int int int
  | RecordChecksum uuid upload_state int pystr int
  | TransitionUpload uuid upload_state upload_state int int "pystr option"
  | StartValidation uuid int int
  | CompleteValidation uuid uuid int pystr
      "validated_media_kind enum_arg" "validated_format enum_arg" int
  | RejectValidation uuid int pystr int
  | RecordDisposition uuid int "duplicate_disposition enum_arg" int
  | ReserveTarget upload_publication int
  | CommitVerified uuid uuid int int int
  | MarkCleanup uuid uuid int int
  | CommitCataloged uuid logical_media media_location int int int "media_metadata option"
  | AddMedia logical_media
  | AddLocation media_location
  | AddMediaWithLocation logical_media media_location
  | RemoveMedia removal_outside uuid

fun run_command :: "pipeline_command \<Rightarrow> catalog_db \<Rightarrow> catalog_db" where
  "run_command (CreateUpload s) db = snd (create_session s db)"
| "run_command (AdvanceOffset i e n v t) db = snd (advance_received_offset i e n v t db)"
| "run_command (RecordChecksum i st v h t) db = snd (record_completed_checksum i st v h t db)"
| "run_command (TransitionUpload i st tg v t code) db = snd (transition_state i st tg v t code db)"
| "run_command (StartValidation i v t) db = snd (start_validation i v t db)"
| "run_command (CompleteValidation new i v h k f t) db =
     snd (complete_validation_success new i v h k f t db)"
| "run_command (RejectValidation i v code t) db = snd (reject_validation i v code t db)"
| "run_command (RecordDisposition i v d t) db = snd (record_duplicate_disposition i v d t db)"
| "run_command (ReserveTarget p v) db = snd (get_or_create_reservation p v db)"
| "run_command (CommitVerified i pid v pv t) db = snd (commit_verified_publication i pid v pv t db)"
| "run_command (MarkCleanup i pid pv t) db = snd (mark_cleanup_complete i pid pv t db)"
| "run_command (CommitCataloged i m l v pv t d) db =
     snd (commit_cataloged_publication i m l v pv t d db)"
| "run_command (AddMedia m) db = snd (add_media m db)"
| "run_command (AddLocation l) db = snd (add_location l db)"
| "run_command (AddMediaWithLocation m l) db = snd (add_media_with_location m l db)"
| "run_command (RemoveMedia outside m) db = snd (remove_catalog_media outside m db)"

text \<open>
  An argument that is an object satisfies its constructor; a session enters the store
  before it is published, and a reservation has no catalog row yet (as
  \<open>new_upload_publication_reservation\<close> builds it).
\<close>

fun valid_command :: "pipeline_command \<Rightarrow> bool" where
  "valid_command (CreateUpload s) \<longleftrightarrow>
     upload_session_wf s \<and> us_state s \<notin> {U_PUBLISHED, U_CATALOGED}"
| "valid_command (CompleteValidation new i v h k f t) \<longleftrightarrow> is_uuid4 new"
| "valid_command (ReserveTarget p v) \<longleftrightarrow> upload_publication_wf p \<and> up_media_id p = None"
| "valid_command (CommitCataloged i m l v pv t d) \<longleftrightarrow> is_uuid4 (lm_id m) \<and> is_uuid4 (ml_id l)"
| "valid_command _ \<longleftrightarrow> True"

inductive pipeline_reachable :: "catalog_db \<Rightarrow> bool" where
  start: "pipeline_reachable (empty_catalog\<lparr>libraries := libs, canonical_tags := tags\<rparr>)"
| step: "pipeline_reachable db \<Longrightarrow> valid_command c \<Longrightarrow> pipeline_reachable (run_command c db)"

inductive_cases pipeline_reachableE: "pipeline_reachable db"

section \<open>How a stored session evolves\<close>

fun lifecycle_moves :: "upload_state \<Rightarrow> upload_state list" where
  "lifecycle_moves U_PUBLISH_PENDING = [U_FAILED, U_PUBLISHED]"
| "lifecycle_moves U_PUBLISHED = [U_CATALOGED]"
| "lifecycle_moves s = allowed_upload_transitions s"

definition session_evolves :: "upload_session \<Rightarrow> upload_session \<Rightarrow> bool" where
  "session_evolves s s' \<longleftrightarrow>
     us_id s' = us_id s \<and> us_storage_key s' = us_storage_key s
     \<and> us_display_filename s' = us_display_filename s
     \<and> us_declared_size_bytes s' = us_declared_size_bytes s
     \<and> us_created_at_ms s' = us_created_at_ms s \<and> us_expires_at_ms s' = us_expires_at_ms s
     \<and> us_created_by_login_key s' = us_created_by_login_key s
     \<and> us_duplicate_resolution_mode s' = us_duplicate_resolution_mode s
     \<and> us_version s' = us_version s + 1
     \<and> us_received_size_bytes s \<le> us_received_size_bytes s'
     \<and> (us_state s' = us_state s \<or> us_state s' \<in> set (lifecycle_moves (us_state s)))
     \<and> (us_checksum_algorithm s \<noteq> None \<longrightarrow>
          us_checksum_algorithm s' = us_checksum_algorithm s
          \<and> us_checksum_hex s' = us_checksum_hex s)
     \<and> (us_byte_identity_id s \<noteq> None \<longrightarrow> us_byte_identity_id s' = us_byte_identity_id s)"

text \<open>A session becomes cataloged only together with the media its publication names.\<close>

definition catalogs_with_media :: "catalog_db \<Rightarrow> catalog_db \<Rightarrow> bool" where
  "catalogs_with_media db db' \<longleftrightarrow>
     (\<forall>i s'. stored_session db' i = Some s' \<longrightarrow> us_state s' = U_CATALOGED \<longrightarrow>
        (\<exists>s. stored_session db i = Some s \<and> us_state s = U_CATALOGED)
        \<or> (\<exists>p. stored_publication db' i = Some p \<and> up_media_id p \<noteq> None))"

lemma catalogs_same: "stored_session db' = stored_session db \<Longrightarrow> catalogs_with_media db db'"
  by (simp add: catalogs_with_media_def)

lemma catalogs_update:
  "stored_session db' = (stored_session db)(i \<mapsto> s') \<Longrightarrow>
   us_state s' = U_CATALOGED \<longrightarrow> (\<exists>s. stored_session db i = Some s \<and> us_state s = U_CATALOGED)
     \<or> (\<exists>p. stored_publication db' i = Some p \<and> up_media_id p \<noteq> None) \<Longrightarrow> catalogs_with_media db db'"
  by (simp add: catalogs_with_media_def)

definition step_ok :: "catalog_db \<Rightarrow> catalog_db \<Rightarrow> bool" where
  "step_ok db db' \<longleftrightarrow> pipeline_ok db'
     \<and> (\<forall>i s. stored_session db i = Some s \<longrightarrow>
          (\<exists>s'. stored_session db' i = Some s' \<and> (s' = s \<or> session_evolves s s')))
     \<and> catalogs_with_media db db'"

lemma step_ok_refl: "pipeline_ok db \<Longrightarrow> step_ok db db"
  by (simp add: step_ok_def catalogs_same)

lemma step_from_effect:
  assumes ok: "pipeline_ok db" and ev: "evidence_store_ok db'"
    and db': "db' = db\<lparr>upload_sessions := rows\<rparr>"
    and st: "stored_session db' = stored_session db
      \<or> (\<exists>s. stored_session db i = Some s \<and> harmless_change s (f s) \<and> session_evolves s (f s)
          \<and> stored_session db' = (stored_session db)(i \<mapsto> f s))"
  shows "step_ok db db'"
proof -
  have "pipeline_ok db'"
    by (rule pipeline_session_change [OF ok ev]) (use st in \<open>auto simp: db'\<close>)
  moreover have "\<exists>s'. stored_session db' j = Some s' \<and> (s' = s \<or> session_evolves s s')"
    if "stored_session db j = Some s" for j s
    using st that by (cases "j = i") auto
  moreover have "catalogs_with_media db db'"
    using st
  proof (elim disjE exE conjE)
    fix s assume s: "stored_session db i = Some s" "harmless_change s (f s)"
      "stored_session db' = (stored_session db)(i \<mapsto> f s)"
    have "us_state (f s) = U_CATALOGED \<Longrightarrow> us_state s = U_CATALOGED"
      using s(2) by (auto simp: harmless_change_def harmless_state_def)
    then show ?thesis by (intro catalogs_update [OF s(3)]) (use s(1) in blast)
  qed (rule catalogs_same)
  ultimately show ?thesis unfolding step_ok_def by blast
qed

context versioned_update
begin

lemma run_effect:
  assumes "evidence_store_ok db"
    and "run_in_transaction (update_session_row i row_guard row_change row_diagnose) db
      = (result, db')"
  shows "evidence_store_ok db'" and "\<exists>rows. db' = db\<lparr>upload_sessions := rows\<rparr>"
    and "stored_session db' = stored_session db
      \<or> (\<exists>s. stored_session db i = Some s \<and> guard s \<and> upload_session_wf (change s)
          \<and> stored_session db' = (stored_session db)(i \<mapsto> change s))"
proof -
  have r: "session_rows_ok db" using assms(1) by (simp add: evidence_store_ok_def)
  show "evidence_store_ok db'" by (rule keeps_evidence [OF assms])
  show "\<exists>rows. db' = db\<lparr>upload_sessions := rows\<rparr>" by (rule refines(3) [OF r assms(2)])
  show "stored_session db' = stored_session db
      \<or> (\<exists>s. stored_session db i = Some s \<and> guard s \<and> upload_session_wf (change s)
          \<and> stored_session db' = (stored_session db)(i \<mapsto> change s))"
    using effect [OF refines(1) [OF r assms(2)]] by blast
qed

lemma run_step:
  assumes "pipeline_ok db"
    and "run_in_transaction (update_session_row i row_guard row_change row_diagnose) db
      = (result, db')"
    and "\<And>s. stored_session db i = Some s \<Longrightarrow> upload_session_wf s \<Longrightarrow> guard s \<Longrightarrow>
      upload_session_wf (change s) \<Longrightarrow> harmless_change s (change s) \<and> session_evolves s (change s)"
  shows "step_ok db db'"
proof -
  have ev: "evidence_store_ok db" and r: "session_rows_ok db"
    using assms(1) by (auto simp: pipeline_ok_def evidence_store_ok_def)
  note run = run_effect [OF ev assms(2)]
  obtain rows where db': "db' = db\<lparr>upload_sessions := rows\<rparr>" using run(2) by blast
  have "stored_session db' = stored_session db
      \<or> (\<exists>s. stored_session db i = Some s \<and> harmless_change s (change s)
          \<and> session_evolves s (change s) \<and> stored_session db' = (stored_session db)(i \<mapsto> change s))"
    using run(3) assms(3) stored_session_sound [OF r] unfolding sound_session_def by blast
  then show ?thesis by (rule step_from_effect [OF assms(1) run(1) db'])
qed

end

lemma snd_run:
  "snd (run_in_transaction f db) = db' \<Longrightarrow> run_in_transaction f db = (fst (run_in_transaction f db), db')"
  by auto

lemma advance_step:
  assumes ok: "pipeline_ok db"
  shows "step_ok db (run_command (AdvanceOffset i e n v t) db)"
proof (cases "0 \<le> e \<and> 0 < n \<and> 0 \<le> v \<and> 0 \<le> t")
  case False
  show ?thesis
    unfolding run_command.simps advance_received_offset_def advance_arguments if_not_P [OF False]
      sum.case snd_conv
    by (rule step_ok_refl [OF ok])
next
  case True
  then have n: "0 < n" by simp
  show ?thesis
    unfolding run_command.simps advance_received_offset_def advance_arguments if_P [OF True]
      sum.case Let_def
    by (rule advance_update.run_step [OF ok snd_run [OF refl]])
      (use n in \<open>auto simp: harmless_change_def harmless_state_def session_evolves_def\<close>)
qed

lemma checksum_step:
  assumes ok: "pipeline_ok db"
  shows "step_ok db (run_command (RecordChecksum i st v h t) db)"
proof (cases "and_then (validate_sha256_checksum_hex (PyStr h)) (\<lambda>checksum.
    and_then (all_checks [repo_validate_non_negative (PyInt v), repo_validate_non_negative (PyInt t)])
      (\<lambda>_. Inr checksum))")
  case (Inl e)
  show ?thesis
    unfolding run_command.simps record_completed_checksum_def Inl sum.case snd_conv
    by (rule step_ok_refl [OF ok])
next
  case (Inr x)
  show ?thesis
    unfolding run_command.simps record_completed_checksum_def Inr sum.case
    by (rule checksum_update.run_step [OF ok snd_run [OF refl]])
      (auto simp: harmless_change_def harmless_state_def session_evolves_def keeps_evidence_def)
qed

lemma transition_step:
  assumes ok: "pipeline_ok db"
  shows "step_ok db (run_command (TransitionUpload i st tg v t code) db)"
proof (cases "transition_state_arguments st tg v t code")
  case (Inl e)
  show ?thesis
    unfolding run_command.simps transition_state_def Inl sum.case snd_conv
    by (rule step_ok_refl [OF ok])
next
  case (Inr x)
  then have tg: "tg \<in> set (allowed_upload_transitions st)"
    by (auto simp: transition_arguments split: if_splits)
  have "harmless_state st tg" "tg \<in> set (lifecycle_moves st)"
    using tg by (cases st; auto simp: harmless_state_def)+
  then show ?thesis
    unfolding run_command.simps transition_state_def Inr sum.case
    by (intro transition_update.run_step [OF ok snd_run [OF refl]])
      (simp add: harmless_change_def session_evolves_def keeps_evidence_def)
qed

lemma start_step:
  assumes ok: "pipeline_ok db"
  shows "step_ok db (run_command (StartValidation i v t) db)"
proof (cases "all_checks [repo_validate_non_negative (PyInt v), repo_validate_non_negative (PyInt t)]")
  case (Inl e)
  show ?thesis
    unfolding run_command.simps start_validation_def Inl sum.case snd_conv
    by (rule step_ok_refl [OF ok])
next
  case (Inr x)
  show ?thesis
    unfolding run_command.simps start_validation_def Inr sum.case
    by (rule start_update.run_step [OF ok snd_run [OF refl]])
      (simp add: harmless_change_def harmless_state_def session_evolves_def)
qed

lemma reject_step:
  assumes ok: "pipeline_ok db"
  shows "step_ok db (run_command (RejectValidation i v code t) db)"
proof (cases "and_then (validate_upload_failure_code (PyStr code)) (\<lambda>code.
    and_then (all_checks [repo_validate_non_negative (PyInt v), repo_validate_non_negative (PyInt t)])
      (\<lambda>_. Inr code))")
  case (Inl e)
  show ?thesis
    unfolding run_command.simps reject_validation_def Inl sum.case snd_conv
    by (rule step_ok_refl [OF ok])
next
  case (Inr x)
  show ?thesis
    unfolding run_command.simps reject_validation_def Inr sum.case
    by (rule reject_update.run_step [OF ok snd_run [OF refl]])
      (simp add: harmless_change_def harmless_state_def session_evolves_def)
qed

lemma disposition_step:
  assumes ok: "pipeline_ok db"
  shows "step_ok db (run_command (RecordDisposition i v d t) db)"
proof (cases d)
  case (Raw x)
  show ?thesis
    unfolding run_command.simps record_duplicate_disposition_def Raw enum_arg.case snd_conv
    by (rule step_ok_refl [OF ok])
next
  case (Member m)
  show ?thesis
  proof (cases "all_checks [repo_validate_non_negative (PyInt v), repo_validate_non_negative (PyInt t)]")
    case (Inl e)
    show ?thesis
      unfolding run_command.simps record_duplicate_disposition_def Member enum_arg.case Inl sum.case
        snd_conv
      by (rule step_ok_refl [OF ok])
  next
    case (Inr x)
    show ?thesis
      unfolding run_command.simps record_duplicate_disposition_def Member enum_arg.case Inr sum.case
      by (rule disposition_update.run_step [OF ok snd_run [OF refl]])
        (simp add: harmless_change_def harmless_state_def session_evolves_def disposition_target_def)
  qed
qed


section \<open>The commands that also insert\<close>

lemma success_state: "success_of c m = (st, d) \<Longrightarrow> st \<in> {U_PUBLISH_PENDING, U_DUPLICATE_PENDING}"
  by (cases m) (auto simp: success_of_def split: if_splits)

lemma completed_simps:
  "us_id (completed h k f t i b db s) = us_id s"
  "us_storage_key (completed h k f t i b db s) = us_storage_key s"
  "us_display_filename (completed h k f t i b db s) = us_display_filename s"
  "us_declared_size_bytes (completed h k f t i b db s) = us_declared_size_bytes s"
  "us_received_size_bytes (completed h k f t i b db s) = us_received_size_bytes s"
  "us_created_at_ms (completed h k f t i b db s) = us_created_at_ms s"
  "us_expires_at_ms (completed h k f t i b db s) = us_expires_at_ms s"
  "us_created_by_login_key (completed h k f t i b db s) = us_created_by_login_key s"
  "us_duplicate_resolution_mode (completed h k f t i b db s) = us_duplicate_resolution_mode s"
  "us_version (completed h k f t i b db s) = us_version s + 1"
  "us_state (completed h k f t i b db s) \<in> {U_PUBLISH_PENDING, U_DUPLICATE_PENDING}"
  "us_byte_identity_id (completed h k f t i b db s) = Some (bi_id b)"
  "us_checksum_hex (completed h k f t i b db s) = Some h"
  using success_state
  by (auto simp: completed_def complete_effect_def split: prod.splits)

lemma complete_step:
  assumes ok: "pipeline_ok db" and v: "is_uuid4 new"
  shows "step_ok db (run_command (CompleteValidation new i v h k f t) db)"
proof (cases "and_then (validate_sha256_checksum_hex (PyStr h)) (\<lambda>checksum.
    and_then (validate_upload_validation_evidence k f) (\<lambda>(kind, format).
    and_then (all_checks [repo_validate_non_negative (PyInt v), repo_validate_non_negative (PyInt t)])
      (\<lambda>_. Inr (checksum, kind, format))))")
  case (Inl e)
  show ?thesis
    unfolding run_command.simps complete_validation_success_def Inl sum.case snd_conv
    by (rule step_ok_refl [OF ok])
next
  case (Inr x)
  then obtain k' f' where x: "x = (h, k', f')" and h: "sha256_hex_pattern h" and t: "0 \<le> t"
    by (auto simp: and_then_Inr split: if_splits prod.splits)
  let ?op = "complete_validation_in new i v h k' f' t"
  have run: "run_command (CompleteValidation new i v h k f t) db = snd (run_in_immediate_transaction ?op db)"
    unfolding run_command.simps complete_validation_success_def Inr sum.case x prod.case ..
  show ?thesis
  proof (cases "?op db")
    case (Inl e)
    then show ?thesis unfolding run using step_ok_refl [OF ok] by simp
  next
    case (Inr y)
    obtain s' db' where y: "y = (s', db')" by (cases y)
    have ev: "evidence_store_ok db" using ok by (simp add: pipeline_ok_def)
    note keeps = complete_keeps_evidence [OF ev v h t Inr [unfolded y]]
    have db': "run_command (CompleteValidation new i v h k f t) db = db'"
      unfolding run using Inr y by simp
    from keeps(3) show ?thesis
    proof (elim disjE conjE exE)
      assume "db' = db"
      then show ?thesis unfolding db' using step_ok_refl [OF ok] by simp
    next
      fix s b ids rows
      assume s: "stored_session db i = Some s" and n: "complete_refusal v h s = None"
        and s': "s' = completed h k' f' t i b db s"
        and st: "stored_session db' = (stored_session db)(i \<mapsto> s')"
        and d: "db' = db\<lparr>media_byte_identities := media_byte_identities db @ ids,
                     upload_sessions := rows\<rparr>"
      note g = complete_guard(1) [OF ev s n]
      have ns: "us_state s' \<in> {U_PUBLISH_PENDING, U_DUPLICATE_PENDING}"
        using completed_simps(11) [of h k' f' t i b db s] unfolding s' .
      have harm: "harmless_change s s'"
        using g ns by (auto simp: harmless_change_def harmless_state_def)
      have evo: "session_evolves s s'"
        using g ns by (auto simp: session_evolves_def s' completed_simps(1-10,12,13))
      have "pipeline_ok db'"
        by (rule pipeline_session_change [OF ok keeps(1)])
          (use s harm st in \<open>auto simp: d\<close>)
      moreover have "\<exists>u'. stored_session db' j = Some u' \<and> (u' = u \<or> session_evolves u u')"
        if "stored_session db j = Some u" for j u
        using st that s evo by (cases "j = i") auto
      moreover have "catalogs_with_media db db'" by (rule catalogs_update [OF st]) (use ns in auto)
      ultimately show ?thesis unfolding db' step_ok_def by blast
    qed
  qed
qed

lemma create_step:
  assumes ok: "pipeline_ok db" and w: "upload_session_wf s"
    and n: "us_state s \<notin> {U_PUBLISHED, U_CATALOGED}"
  shows "step_ok db (run_command (CreateUpload s) db)"
proof (cases "create_session_in s db")
  case (Inl e)
  then show ?thesis using step_ok_refl [OF ok] by (simp add: create_session_def)
next
  case (Inr y)
  obtain db' where y: "y = ((), db')" by (cases y) auto
  have db': "run_command (CreateUpload s) db = db'" using Inr y by (simp add: create_session_def)
  have ev: "evidence_store_ok db" using ok by (simp add: pipeline_ok_def)
  note c = create_in_ok [OF ev w Inr [unfolded y]]
  obtain j where st: "stored_session db' = (stored_session db)(us_id s \<mapsto> s\<lparr>us_byte_identity_id := j\<rparr>)"
    using c(3) by blast
  obtain ids rows where d: "db' = db\<lparr>media_byte_identities := media_byte_identities db @ ids,
    upload_sessions := rows\<rparr>" using create_in_frame [OF Inr [unfolded y]] by blast
  have "\<exists>i s'. stored_session db i = None \<and> us_state s' \<notin> {U_PUBLISHED, U_CATALOGED}
           \<and> stored_session db' = (stored_session db)(i \<mapsto> s')"
    using c(2) st n by (intro exI [of _ "us_id s"] exI [of _ "s\<lparr>us_byte_identity_id := j\<rparr>"]) simp
  then have "pipeline_ok db'"
    by (intro pipeline_session_change [OF ok c(1)]) (simp_all add: d)
  moreover have "\<exists>u'. stored_session db' i = Some u' \<and> (u' = u \<or> session_evolves u u')"
    if "stored_session db i = Some u" for i u
    using st that c(2) by (cases "i = us_id s") auto
  moreover have "catalogs_with_media db db'" by (rule catalogs_update [OF st]) (use n in simp)
  ultimately show ?thesis unfolding db' step_ok_def by blast
qed


section \<open>The commands of the publication repository\<close>

lemma linked_keeps:
  assumes "linked db s" and "keeps_evidence s s'"
    and "media_byte_identities db' = media_byte_identities db"
  shows "linked db' s'"
  using assms unfolding linked_def keeps_evidence_def by (metis option.discI)

lemma pipeline_commit:
  assumes ok: "pipeline_ok db" and ss': "session_rows_ok db'" and ps': "publication_rows_ok db'"
    and ids: "media_byte_identities db' = media_byte_identities db"
    and s: "stored_session db i = Some s"
    and st: "stored_session db' = (stored_session db)(i \<mapsto> s')"
    and pt: "stored_publication db' = (stored_publication db)(i \<mapsto> p')"
    and k: "keeps_evidence s s'" and m: "evidence_matches p' s'" and ph: "phase_matches p' s'"
    and id: "up_upload_id p' = i"
    and new: "up_media_id p' \<noteq> None \<Longrightarrow> catalog_links_resolve db' p'"
    and old: "\<And>p. catalog_links_resolve db p \<Longrightarrow> catalog_links_resolve db' p"
  shows "pipeline_ok db'"
proof -
  have ev: "evidence_store_ok db" and ss: "session_rows_ok db" and n: "identity_rows_ok db"
    and ps: "publication_rows_ok db"
    using ok by (auto simp: pipeline_ok_def evidence_store_ok_def)
  have n': "identity_rows_ok db'" using n by (simp add: identity_rows_ok_def ids)
  have "linked db s" using ev s linked_iff [OF ss n] by (auto simp: evidence_store_ok_def)
  then have "linked db' s'" using linked_keeps k ids by blast
  then have ev': "evidence_store_ok db'"
    using evidence_after_update [OF ev ss' n' _ st] by (simp add: ids)
  have "publication_linked db' q" if q: "stored_publication db' j = Some q" for j q
  proof (cases "j = i")
    case True
    then have "q = p'" using q pt by simp
    then show ?thesis using st m ph id new unfolding publication_linked_def by simp
  next
    case False
    then have q0: "stored_publication db j = Some q" using q pt by simp
    then have "up_upload_id q = j" "publication_linked db q"
      using ok stored_publication_wf [OF ps q0] unfolding pipeline_ok_def by blast+
    then show ?thesis using st False old unfolding publication_linked_def by auto
  qed
  moreover have "stored_publication db' j \<noteq> None"
    if "stored_session db' j = Some u" "us_state u \<in> {U_PUBLISHED, U_CATALOGED}" for j u
  proof (cases "j = i")
    case False
    then have "stored_session db j = Some u" using that(1) st by simp
    then have "stored_publication db j \<noteq> None"
      using ok that(2) unfolding pipeline_ok_def by blast
    then show ?thesis using False pt by simp
  qed (simp add: pt)
  ultimately show ?thesis using ev' ps' unfolding pipeline_ok_def by blast
qed

lemma keeps_evidence_refl [simp]: "keeps_evidence s s"
  by (simp add: keeps_evidence_def)

lemma keeps_evidence_effects [simp]:
  "keeps_evidence s (published t s)" "keeps_evidence s (cataloged t s)"
  by (simp_all add: keeps_evidence_def published_def cataloged_def)

lemma step_okI:
  assumes "pipeline_ok db'" and "stored_session db i = Some s"
    and "stored_session db' = (stored_session db)(i \<mapsto> s')" and "s' = s \<or> session_evolves s s'"
    and "us_state s' = U_CATALOGED \<longrightarrow> us_state s = U_CATALOGED
      \<or> (\<exists>p. stored_publication db' i = Some p \<and> up_media_id p \<noteq> None)"
  shows "step_ok db db'"
  unfolding step_ok_def
proof (intro conjI allI impI)
  show "catalogs_with_media db db'" by (rule catalogs_update [OF assms(3)]) (use assms(2,5) in blast)
next
  fix j u assume "stored_session db j = Some u"
  then show "\<exists>u'. stored_session db' j = Some u' \<and> (u' = u \<or> session_evolves u u')"
    using assms by (cases "j = i") auto
qed (rule assms(1))

lemma published_evolves: "us_state s = U_PUBLISH_PENDING \<Longrightarrow> session_evolves s (published t s)"
  by (simp add: session_evolves_def published_def)

lemma cataloged_evolves: "us_state s = U_PUBLISHED \<Longrightarrow> session_evolves s (cataloged t s)"
  by (simp add: session_evolves_def cataloged_def)

lemma publication_effect_fields [simp]:
  "up_upload_id (verified t p) = up_upload_id p" "up_upload_id (cleaned t p) = up_upload_id p"
  "up_upload_id (linked_publication m l t p) = up_upload_id p"
  "up_state (verified t p) = P_VERIFIED" "up_media_id (verified t p) = up_media_id p"
  "up_state (cleaned t p) = up_state p" "up_media_id (cleaned t p) = up_media_id p"
  "up_cleanup_state (linked_publication m l t p) = up_cleanup_state p"
  "up_state (linked_publication m l t p) = up_state p"
  "up_media_id (linked_publication m l t p) = Some m"
  "up_media_location_id (linked_publication m l t p) = Some l"
  "up_destination_id (linked_publication m l t p) = up_destination_id p"
  "up_relative_path (linked_publication m l t p) = up_relative_path p"
  "us_state (published t s) = U_PUBLISHED" "us_state (cataloged t s) = U_CATALOGED"
  by (simp_all add: verified_def cleaned_def linked_publication_def published_def cataloged_def)

lemma pipeline_stored_publication:
  assumes "pipeline_ok db" and "stored_publication db i = Some p" and "stored_session db i = Some s"
  shows "phase_matches p s" and "evidence_matches p s" and "up_upload_id p = i"
    and "up_media_id p \<noteq> None \<Longrightarrow> catalog_links_resolve db p"
proof -
  have "publication_rows_ok db" using assms(1) by (simp add: pipeline_ok_def)
  then show i: "up_upload_id p = i" using stored_publication_wf assms(2) by blast
  have "publication_linked db p" using assms(1,2) unfolding pipeline_ok_def by blast
  then show "phase_matches p s" and "evidence_matches p s"
    and "up_media_id p \<noteq> None \<Longrightarrow> catalog_links_resolve db p"
    using assms(3) i unfolding publication_linked_def by auto
qed

lemma run_immediate_cases:
  obtains (error) "snd (run_in_immediate_transaction f db) = db"
    | (result) x db' where "f db = Inr (x, db')" "snd (run_in_immediate_transaction f db) = db'"
  by (cases "f db") (auto simp: run_in_immediate_transaction_def split: prod.splits)

lemma links_frame:
  "logical_media_rows db' = logical_media_rows db \<Longrightarrow>
   physical_media_locations db' = physical_media_locations db \<Longrightarrow>
   catalog_links_resolve db' p = catalog_links_resolve db p"
  by (simp only: catalog_links_resolve_def)

lemma verified_step:
  assumes ok: "pipeline_ok db"
  shows "step_ok db (snd (run_in_immediate_transaction (commit_verified_in i pid v pv t) db))"
proof (cases rule: run_immediate_cases [of "commit_verified_in i pid v pv t" db])
  case error
  then show ?thesis using step_ok_refl [OF ok] by simp
next
  case (result c db')
  have ss: "session_rows_ok db" and ps: "publication_rows_ok db"
    using ok by (auto simp: pipeline_ok_def evidence_store_ok_def)
  from commit_verified_ok [OF ss ps result(1)] obtain s p where
      s: "stored_session db i = Some s" and p: "stored_publication db i = Some p"
    and alt: "db' = db \<or> (us_state s = U_PUBLISH_PENDING \<and> up_state p = P_RESERVED
          \<and> session_rows_ok db' \<and> publication_rows_ok db'
          \<and> stored_session db' = (stored_session db)(i \<mapsto> published t s)
          \<and> stored_publication db' = (stored_publication db)(i \<mapsto> verified t p)
          \<and> (\<exists>ps ss. db' = db\<lparr>upload_publications := ps, upload_sessions := ss\<rparr>))"
    by blast
  note facts = pipeline_stored_publication [OF ok p s]
  from alt show ?thesis
  proof (elim disjE conjE exE)
    assume "db' = db"
    then show ?thesis using step_ok_refl [OF ok] result(2) by simp
  next
    fix ps' ss'
    assume a: "us_state s = U_PUBLISH_PENDING" "up_state p = P_RESERVED"
      and b: "session_rows_ok db'" "publication_rows_ok db'"
        "stored_session db' = (stored_session db)(i \<mapsto> published t s)"
        "stored_publication db' = (stored_publication db)(i \<mapsto> verified t p)"
      and d: "db' = db\<lparr>upload_publications := ps', upload_sessions := ss'\<rparr>"
    have mn: "up_media_id p = None" using facts(1) a(2) by (simp add: phase_matches_def)
    have "pipeline_ok db'"
    proof (rule pipeline_commit [OF ok b(1,2) _ s b(3,4)])
      show "catalog_links_resolve db q \<Longrightarrow> catalog_links_resolve db' q" for q
        using links_frame [of db' db q] by (simp add: d)
    qed (use facts mn in \<open>auto simp: d phase_matches_def\<close>)
    then show ?thesis
      using step_okI [OF _ s b(3)] published_evolves [OF a(1)] result(2) by simp
  qed
qed


lemma cleanup_step:
  assumes ok: "pipeline_ok db"
  shows "step_ok db (snd (run_in_immediate_transaction (mark_cleanup_in i pid pv t) db))"
proof (cases rule: run_immediate_cases [of "mark_cleanup_in i pid pv t" db])
  case error
  then show ?thesis using step_ok_refl [OF ok] by simp
next
  case (result c db')
  have ss: "session_rows_ok db" and ps: "publication_rows_ok db"
    using ok by (auto simp: pipeline_ok_def evidence_store_ok_def)
  from mark_cleanup_ok [OF ss ps result(1)] obtain s p where
      s: "stored_session db i = Some s" and p: "stored_publication db i = Some p"
    and alt: "db' = db \<or> (us_state s = U_PUBLISHED \<and> up_state p = P_VERIFIED
          \<and> publication_rows_ok db'
          \<and> stored_publication db' = (stored_publication db)(i \<mapsto> cleaned t p)
          \<and> (\<exists>ps. db' = db\<lparr>upload_publications := ps\<rparr>))"
    by blast
  note facts = pipeline_stored_publication [OF ok p s]
  from alt show ?thesis
  proof (elim disjE conjE exE)
    assume "db' = db"
    then show ?thesis using step_ok_refl [OF ok] result(2) by simp
  next
    fix ps'
    assume a: "us_state s = U_PUBLISHED" "up_state p = P_VERIFIED"
      and b: "publication_rows_ok db'"
        "stored_publication db' = (stored_publication db)(i \<mapsto> cleaned t p)"
      and d: "db' = db\<lparr>upload_publications := ps'\<rparr>"
    have ss': "session_rows_ok db'" using ss by (simp add: d)
    have st: "stored_session db' = (stored_session db)(i \<mapsto> s)" using s by (auto simp: d)
    have mn: "up_media_id p = None"
      using facts(1) a by (simp add: phase_matches_def split: if_splits)
    have "pipeline_ok db'"
    proof (rule pipeline_commit [OF ok ss' b(1) _ s st b(2)])
      show "catalog_links_resolve db q \<Longrightarrow> catalog_links_resolve db' q" for q
        using links_frame [of db' db q] by (simp add: d)
    qed (use facts mn a in \<open>auto simp: d phase_matches_def\<close>)
    then show ?thesis using step_okI [OF _ s st] result(2) by simp
  qed
qed

lemma reserve_step:
  assumes ok: "pipeline_ok db" and w: "upload_publication_wf r" and n: "up_media_id r = None"
  shows "step_ok db (snd (run_in_immediate_transaction (get_or_create_reservation_in r v) db))"
proof (cases rule: run_immediate_cases [of "get_or_create_reservation_in r v" db])
  case error
  then show ?thesis using step_ok_refl [OF ok] by simp
next
  case (result c db')
  have ss: "session_rows_ok db" and ps: "publication_rows_ok db"
    using ok by (auto simp: pipeline_ok_def evidence_store_ok_def)
  from reservation_ok [OF ss ps w result(1)] obtain s where
      s: "stored_session db (up_upload_id r) = Some s"
    and alt: "db' = db \<or> (evidence_matches r s \<and> us_state s = U_PUBLISH_PENDING
          \<and> up_state r = P_RESERVED \<and> publication_rows_ok db'
          \<and> stored_publication db' = (stored_publication db)(up_upload_id r \<mapsto> r)
          \<and> (\<exists>ps. db' = db\<lparr>upload_publications := ps\<rparr>)
          \<and> c = \<lparr>pc_upload = candidate_view s, pc_publication = Some r\<rparr>)"
    by blast
  from alt show ?thesis
  proof (elim disjE conjE exE)
    assume "db' = db"
    then show ?thesis using step_ok_refl [OF ok] result(2) by simp
  next
    fix ps'
    assume a: "evidence_matches r s" "us_state s = U_PUBLISH_PENDING" "up_state r = P_RESERVED"
      and b: "publication_rows_ok db'"
        "stored_publication db' = (stored_publication db)(up_upload_id r \<mapsto> r)"
      and d: "db' = db\<lparr>upload_publications := ps'\<rparr>"
    have ss': "session_rows_ok db'" using ss by (simp add: d)
    have st: "stored_session db' = (stored_session db)(up_upload_id r \<mapsto> s)" using s by (auto simp: d)
    have "pipeline_ok db'"
    proof (rule pipeline_commit [OF ok ss' b(1) _ s st b(2)])
      show "catalog_links_resolve db q \<Longrightarrow> catalog_links_resolve db' q" for q
        using links_frame [of db' db q] by (simp add: d)
    qed (use a n in \<open>auto simp: d phase_matches_def\<close>)
    then show ?thesis using step_okI [OF _ s st] result(2) by simp
  qed
qed

lemma grown_links:
  assumes "catalog_grown db m l db1"
    and "db' = db1\<lparr>upload_publications := ps, upload_sessions := ss\<rparr>"
  shows "catalog_links_resolve db' q = catalog_links_resolve db1 q"
  using assms(2) links_frame [of db' db1 q] by simp

lemma cataloged_step:
  assumes ok: "pipeline_ok db" and v: "is_uuid4 (lm_id m)" "is_uuid4 (ml_id l)"
    and ml: "ml_media_id l = lm_id m"
  shows "step_ok db (snd (run_in_immediate_transaction (commit_cataloged_in i m l v pv t d) db))"
proof (cases rule: run_immediate_cases [of "commit_cataloged_in i m l v pv t d" db])
  case error
  then show ?thesis using step_ok_refl [OF ok] by simp
next
  case (result c db')
  have ss: "session_rows_ok db" and ps: "publication_rows_ok db"
    using ok by (auto simp: pipeline_ok_def evidence_store_ok_def)
  let ?q = "\<lambda>p. linked_publication (lm_id m) (ml_id l) t p"
  from commit_cataloged_ok [OF ss ps v result(1)] obtain s p where
      s: "stored_session db i = Some s" and p: "stored_publication db i = Some p"
    and alt: "db' = db \<or> (us_state s = U_PUBLISHED \<and> up_state p = P_VERIFIED
          \<and> up_cleanup_state p = C_COMPLETE
          \<and> ml_library_id l = up_destination_id p \<and> ml_relative_path l = up_relative_path p
          \<and> session_rows_ok db' \<and> publication_rows_ok db'
          \<and> stored_session db' = (stored_session db)(i \<mapsto> cataloged t s)
          \<and> stored_publication db' = (stored_publication db)(i \<mapsto> ?q p)
          \<and> (\<exists>db1 ps ss. catalog_grown db m l db1
               \<and> db' = db1\<lparr>upload_publications := ps, upload_sessions := ss\<rparr>))"
    by blast
  note facts = pipeline_stored_publication [OF ok p s]
  from alt show ?thesis
  proof (elim disjE conjE exE)
    assume "db' = db"
    then show ?thesis using step_ok_refl [OF ok] result(2) by simp
  next
    fix db1 ps' ss'
    assume a: "us_state s = U_PUBLISHED" "up_state p = P_VERIFIED" "up_cleanup_state p = C_COMPLETE"
        "ml_library_id l = up_destination_id p" "ml_relative_path l = up_relative_path p"
      and b: "session_rows_ok db'" "publication_rows_ok db'"
        "stored_session db' = (stored_session db)(i \<mapsto> cataloged t s)"
        "stored_publication db' = (stored_publication db)(i \<mapsto> ?q p)"
      and g: "catalog_grown db m l db1"
      and d: "db' = db1\<lparr>upload_publications := ps', upload_sessions := ss'\<rparr>"
    have ids: "media_byte_identities db' = media_byte_identities db"
      using catalog_grown_frame(5) [OF g] by (simp add: d)
    have "pipeline_ok db'"
    proof (rule pipeline_commit [OF ok b(1,2) ids s b(3,4)])
      show "catalog_links_resolve db q \<Longrightarrow> catalog_links_resolve db' q" for q
        unfolding grown_links [OF g d] by (rule links_of_grown(1) [OF g])
      show "catalog_links_resolve db' (?q p)"
        unfolding grown_links [OF g d] by (rule links_of_grown(2) [OF g]) (simp_all add: ml a)
    qed (use facts a in \<open>auto simp: phase_matches_def\<close>)
    then show ?thesis
      using step_okI [OF _ s b(3)] cataloged_evolves [OF a(1)] result(2) by (simp add: b(4))
  qed
qed

lemma append_step: "pipeline_ok db \<Longrightarrow> appends_media db db' \<Longrightarrow> step_ok db db'"
  using appends_ok unfolding step_ok_def by (auto simp: catalogs_same)

lemma removal_step:
  assumes ok: "pipeline_ok db"
  shows "step_ok db (snd (remove_catalog_media outside m db))"
  unfolding remove_catalog_media_def
proof (cases rule: run_immediate_cases [of "remove_catalog_media_in outside m" db])
  case error
  then show "step_ok db (snd (run_in_immediate_transaction (remove_catalog_media_in outside m) db))"
    using step_ok_refl [OF ok] by simp
next
  case (result n db')
  then show "step_ok db (snd (run_in_immediate_transaction (remove_catalog_media_in outside m) db))"
    using removal_ok(1,2) [OF ok result(1)] by (simp add: step_ok_def catalogs_same)
qed

section \<open>Every command\<close>

lemma command_step:
  assumes ok: "pipeline_ok db" and v: "valid_command c"
  shows "step_ok db (run_command c db)"
proof (cases c)
  case (CreateUpload s)
  then show ?thesis using create_step [OF ok] v by simp
next
  case (AdvanceOffset i e n v t)
  then show ?thesis using advance_step [OF ok] by simp
next
  case (RecordChecksum i st v h t)
  then show ?thesis using checksum_step [OF ok] by simp
next
  case (TransitionUpload i st tg v t code)
  then show ?thesis using transition_step [OF ok] by simp
next
  case (StartValidation i v t)
  then show ?thesis using start_step [OF ok] by simp
next
  case (CompleteValidation new i v h k f t)
  then show ?thesis using complete_step [OF ok] assms(2) by simp
next
  case (RejectValidation i v code t)
  then show ?thesis using reject_step [OF ok] by simp
next
  case (RecordDisposition i v d t)
  then show ?thesis using disposition_step [OF ok] by simp
next
  case (ReserveTarget p v)
  then show ?thesis
    using reserve_step [OF ok, of p v] assms(2) step_ok_refl [OF ok]
    by (simp add: get_or_create_reservation_def split: sum.split)
next
  case (CommitVerified i pid v pv t)
  then show ?thesis
    using verified_step [OF ok, of i pid v pv t] step_ok_refl [OF ok]
    by (simp add: commit_verified_publication_def del: publication_repo_non_negative.simps
        split: sum.split)
next
  case (MarkCleanup i pid pv t)
  then show ?thesis
    using cleanup_step [OF ok, of i pid pv t] step_ok_refl [OF ok]
    by (simp add: mark_cleanup_complete_def del: publication_repo_non_negative.simps
        split: sum.split)
next
  case (AddMedia m)
  then show ?thesis using append_step [OF ok] insertions_append(1) by simp
next
  case (AddLocation l)
  then show ?thesis using append_step [OF ok] insertions_append(2) by simp
next
  case (AddMediaWithLocation m l)
  then show ?thesis using append_step [OF ok] insertions_append(3) by simp
next
  case (RemoveMedia outside m)
  then show ?thesis using removal_step [OF ok] by simp
next
  case (CommitCataloged i m l v pv t d)
  show ?thesis
  proof (cases "and_then (all_checks [publication_repo_non_negative (PyInt v),
      publication_repo_non_negative (PyInt pv), publication_repo_non_negative (PyInt t)])
      (\<lambda>_. catalog_arguments m l d)")
    case (Inl e)
    show ?thesis
      unfolding CommitCataloged run_command.simps commit_cataloged_publication_def Inl sum.case
        snd_conv
      by (rule step_ok_refl [OF ok])
  next
    case (Inr x)
    then have "ml_media_id l = lm_id m" by (auto simp: and_then_Inr catalog_arguments_def)
    then show ?thesis
      unfolding CommitCataloged run_command.simps commit_cataloged_publication_def Inr sum.case
      using v CommitCataloged by (intro cataloged_step [OF ok]) simp_all
  qed
qed

lemma pipeline_ok_start: "pipeline_ok (empty_catalog\<lparr>libraries := libs, canonical_tags := tags\<rparr>)"
proof -
  let ?db = "empty_catalog\<lparr>libraries := libs, canonical_tags := tags\<rparr>"
  have "stored_session ?db = Map.empty" "stored_publication ?db = Map.empty"
    by (rule ext, simp add: stored_session_def row_by_id_def sql_first_def empty_catalog_def
        stored_publication_def publication_row_of_def)+
  then show ?thesis
    by (simp add: pipeline_ok_def evidence_store_ok_def session_rows_ok_def identity_rows_ok_def
        identity_links_ok_def publication_rows_ok_def publication_keys_ok_def empty_catalog_def
        List.map_filter_def)
qed

lemma reachable_pipeline_ok: "pipeline_reachable db \<Longrightarrow> pipeline_ok db"
proof (induction rule: pipeline_reachable.induct)
  case (start libs tags)
  show ?case by (rule pipeline_ok_start)
next
  case (step db c)
  then show ?case using command_step step_ok_def by blast
qed


section \<open>Many commands\<close>

fun lifecycle_rank :: "upload_state \<Rightarrow> nat" where
  "lifecycle_rank U_PUBLISHED = 6"
| "lifecycle_rank U_CREATED = 0"
| "lifecycle_rank U_RECEIVING = 1"
| "lifecycle_rank U_RECEIVED = 2"
| "lifecycle_rank U_VALIDATING = 3"
| "lifecycle_rank U_DUPLICATE_PENDING = 4"
| "lifecycle_rank U_PUBLISH_PENDING = 5"
| "lifecycle_rank _ = 7"

interpretation pipeline_lifecycle:
  ranked_lifecycle lifecycle_moves is_terminal_upload_session_state lifecycle_rank
proof unfold_locales
  show "is_terminal_upload_session_state s \<Longrightarrow> lifecycle_moves s = []" for s
    by (cases s) (simp_all add: terminal_upload_state_iff)
  show "t \<in> set (lifecycle_moves s) \<Longrightarrow> lifecycle_rank s < lifecycle_rank t" for s t
    by (cases s) auto
qed

definition lifecycle_reaches :: "upload_state \<Rightarrow> upload_state \<Rightarrow> bool" where
  "lifecycle_reaches a b \<longleftrightarrow> (\<exists>ts. table_run lifecycle_moves a ts \<and> last (a # ts) = b)"

definition session_keeps :: "upload_session \<Rightarrow> upload_session \<Rightarrow> bool" where
  "session_keeps s s' \<longleftrightarrow>
     us_id s' = us_id s \<and> us_storage_key s' = us_storage_key s
     \<and> us_display_filename s' = us_display_filename s
     \<and> us_declared_size_bytes s' = us_declared_size_bytes s
     \<and> us_created_at_ms s' = us_created_at_ms s \<and> us_expires_at_ms s' = us_expires_at_ms s
     \<and> us_created_by_login_key s' = us_created_by_login_key s
     \<and> us_duplicate_resolution_mode s' = us_duplicate_resolution_mode s
     \<and> us_received_size_bytes s \<le> us_received_size_bytes s'
     \<and> (us_checksum_algorithm s \<noteq> None \<longrightarrow>
          us_checksum_algorithm s' = us_checksum_algorithm s
          \<and> us_checksum_hex s' = us_checksum_hex s)
     \<and> (us_byte_identity_id s \<noteq> None \<longrightarrow> us_byte_identity_id s' = us_byte_identity_id s)"

definition session_later :: "upload_session \<Rightarrow> upload_session \<Rightarrow> bool" where
  "session_later s s' \<longleftrightarrow> session_keeps s s' \<and> lifecycle_reaches (us_state s) (us_state s')
     \<and> us_version s \<le> us_version s' \<and> (us_version s' = us_version s \<longrightarrow> s' = s)"

lemma lifecycle_reaches_refl: "lifecycle_reaches a a"
  unfolding lifecycle_reaches_def by (rule exI [of _ "[]"]) simp

lemma lifecycle_reaches_step:
  assumes "lifecycle_reaches a b" and "c = b \<or> c \<in> set (lifecycle_moves b)"
  shows "lifecycle_reaches a c"
proof -
  obtain ts where ts: "table_run lifecycle_moves a ts" "last (a # ts) = b"
    using assms(1) by (auto simp: lifecycle_reaches_def)
  show ?thesis
  proof (cases "c = b")
    case True
    then show ?thesis using assms(1) by simp
  next
    case False
    then show ?thesis using assms(2) ts unfolding lifecycle_reaches_def
      by (intro exI [of _ "ts @ [c]"]) (simp add: table_run_append)
  qed
qed

lemma session_keeps_evolves:
  assumes a: "session_keeps s s'" and b: "session_evolves s' s''"
  shows "session_keeps s s''"
proof -
  note d = a [unfolded session_keeps_def] b [unfolded session_evolves_def]
  show ?thesis
    unfolding session_keeps_def
    by (intro conjI impI) (insert d, (elim conjE, simp)+)
qed

lemma session_later_refl: "session_later s s"
  unfolding session_later_def session_keeps_def by (simp add: lifecycle_reaches_refl)

lemma session_later_evolves:
  assumes a: "session_later s s'" and b: "session_evolves s' s''"
  shows "session_later s s''"
proof -
  have "lifecycle_reaches (us_state s) (us_state s'')"
    using a b lifecycle_reaches_step unfolding session_later_def session_evolves_def by blast
  moreover have "us_version s'' = us_version s' + 1" using b by (simp only: session_evolves_def)
  moreover have "session_keeps s s''" using a b session_keeps_evolves unfolding session_later_def by blast
  moreover have "us_version s \<le> us_version s'" using a by (simp only: session_later_def)
  ultimately show ?thesis unfolding session_later_def by simp
qed

lemma fold_commands:
  assumes "pipeline_ok db" and "list_all valid_command cs" and "stored_session db i = Some s"
  shows "\<exists>s'. stored_session (fold run_command cs db) i = Some s' \<and> session_later s s'"
proof -
  have "\<exists>s'. stored_session (fold run_command cs db) i = Some s' \<and> session_later s0 s'"
    if "pipeline_ok db" "list_all valid_command cs" "stored_session db i = Some s1"
      "session_later s0 s1" for s0 s1 db
    using that
  proof (induction cs arbitrary: db s1)
    case Nil
    then show ?case by auto
  next
    case (Cons c cs)
    have v: "valid_command c" "list_all valid_command cs" using Cons.prems(2) by simp_all
    have "step_ok db (run_command c db)" using command_step Cons.prems(1) v(1) by blast
    then obtain s2 where ok: "pipeline_ok (run_command c db)"
        and s2: "stored_session (run_command c db) i = Some s2" "s2 = s1 \<or> session_evolves s1 s2"
      using Cons.prems(3) unfolding step_ok_def by blast
    have "session_later s0 s2" using s2(2) session_later_evolves Cons.prems(4) by blast
    then show ?case using Cons.IH [OF ok v(2) s2(1)] by simp
  qed
  then show ?thesis using assms session_later_refl by blast
qed

lemma later_terminal:
  assumes "session_later s s'" and "is_terminal_upload_session_state (us_state s)"
  shows "us_state s' = us_state s"
proof -
  obtain ts where "table_run lifecycle_moves (us_state s) ts" "last (us_state s # ts) = us_state s'"
    using assms(1) unfolding session_later_def lifecycle_reaches_def by blast
  then show ?thesis using pipeline_lifecycle.run_from_final [OF assms(2)] by fastforce
qed

end
