(* ===== verification/Upload_Liveness.thy ===== *)
theory Upload_Liveness
  imports Upload_History
begin

text \<open>
  The operations succeed: whenever the session and its publication are in the expected
  phase at the expected versions and the clock does not run backwards, the commits of the
  publication repository return, and the tables then hold their effect.
\<close>

section \<open>Updates that hit\<close>

lemma map_filter_same:
  "(\<And>r. r \<in> set rows \<Longrightarrow> k (f r) = k r) \<Longrightarrow> List.map_filter k (map f rows) = List.map_filter k rows"
  by (induction rows) (auto simp: List.map_filter_def)

lemma publication_keys_same:
  assumes "publication_keys_ok rows"
    and "\<And>r. pr_upload_id (f r) = pr_upload_id r" and "\<And>r. pr_publication_id (f r) = pr_publication_id r"
    and "\<And>r. pr_destination_id (f r) = pr_destination_id r"
    and "\<And>r. pr_relative_target (f r) = pr_relative_target r"
    and "\<And>r. pr_media_id (f r) = pr_media_id r"
    and "\<And>r. pr_media_location_id (f r) = pr_media_location_id r"
  shows "publication_keys_ok (map f rows)"
proof -
  have "List.map_filter pr_media_id (map f rows) = List.map_filter pr_media_id rows"
      "List.map_filter pr_media_location_id (map f rows) = List.map_filter pr_media_location_id rows"
    using assms(6,7) by (simp_all add: map_filter_same)
  then show ?thesis
    using assms(1) unfolding publication_keys_ok_def by (simp add: assms(2-5) comp_def)
qed

lemma update_publications_hit:
  assumes "publication_rows_ok db" and "stored_publication db i = Some p"
    and "g (publication_values p)" and f: "f (publication_values p) = publication_values q"
    and "upload_publication_wf q" and "publication_references_ok db (publication_values q)"
    and "publication_keys_ok (map (\<lambda>r. if pr_upload_id r = uuid_to_text i \<and> g r then f r else r)
      (upload_publications db))"
  shows "\<exists>db'. update_publications (\<lambda>r. pr_upload_id r = uuid_to_text i \<and> g r) f db = Inr db'"
proof -
  let ?hit = "\<lambda>r. pr_upload_id r = uuid_to_text i \<and> g r"
  note hit = filter_publication_hit [where g = g, OF assms(1-3)]
  have "\<not> list_ex (\<lambda>r. ?hit r \<and> \<not> (publication_row_ok (f r) \<and> publication_references_ok db (f r)))
      (upload_publications db)"
  proof
    assume "list_ex (\<lambda>r. ?hit r \<and> \<not> (publication_row_ok (f r)
        \<and> publication_references_ok db (f r))) (upload_publications db)"
    then obtain r where "r \<in> set (filter ?hit (upload_publications db))"
        "\<not> (publication_row_ok (f r) \<and> publication_references_ok db (f r))"
      by (auto simp: list_ex_iff)
    then show False
      using assms(6) publication_values_row_ok [OF assms(5)] unfolding hit by (simp add: f)
  qed
  then show ?thesis
    using assms(7) by (simp only: update_publications_def sql_update_def hit if_False option.case
        prod.case) simp
qed

lemma references_of_stored:
  assumes "publication_rows_ok db" and "stored_publication db i = Some p"
  shows "publication_references_ok db (publication_values p)"
  using assms by (auto simp: stored_publication_iff publication_rows_ok_def list_all_iff)

section \<open>Publishing\<close>

lemma commit_verified_succeeds:
  assumes ok: "pipeline_ok db" and s: "stored_session db i = Some s"
    and p: "stored_publication db i = Some p" and st: "us_state s = U_PUBLISH_PENDING"
    and t: "us_created_at_ms s \<le> t" "up_created_at_ms p \<le> t"
  shows "\<exists>c db'. commit_verified_in i (up_publication_id p) (us_version s) (up_version p) t db
    = Inr (c, db')"
proof -
  have ss: "session_rows_ok db" and ps: "publication_rows_ok db"
    using ok by (auto simp: pipeline_ok_def evidence_store_ok_def)
  note facts = pipeline_stored_publication [OF ok p s]
  have pr: "up_state p = P_RESERVED"
    using facts(1) st by (auto simp: phase_matches_def split: if_splits)
  have wf: "upload_session_wf s" using stored_session_sound [OF ss s] by (simp add: sound_session_def)
  have pwf: "upload_publication_wf p" using stored_publication_wf [OF ps p] by simp
  have vwf: "upload_publication_wf (verified t p)" using verified_wf [OF pwf pr] t by simp
  let ?g = "\<lambda>r. pr_publication_id r = uuid_to_text (up_publication_id p)
      \<and> pr_state r = publication_state_value P_RESERVED \<and> pr_version r = up_version p"
  let ?f = "\<lambda>r. r\<lparr>pr_state := publication_state_value P_VERIFIED,
      pr_cleanup_state := cleanup_state_value C_PENDING,
      pr_verified_at_ms := Some t, pr_updated_at_ms := t, pr_version := pr_version r + 1\<rparr>"
  have g: "?g (publication_values p)" using pr by simp
  have f: "?f (publication_values p) = publication_values (verified t p)" by (rule effect_values)
  have refs: "publication_references_ok db (publication_values (verified t p))"
    using references_of_stored [OF ps p]
    by (simp add: publication_references_ok_def verified_def publication_values_def
        cong: option.case_cong)
  have keys: "publication_keys_ok (map (\<lambda>r. if pr_upload_id r = uuid_to_text i \<and> ?g r then ?f r else r)
      (upload_publications db))"
    by (rule publication_keys_same) (use ps in \<open>simp_all add: publication_rows_ok_def\<close>)
  obtain db1 where u1: "update_publications (\<lambda>r. pr_upload_id r = uuid_to_text i \<and> ?g r) ?f db = Inr db1"
    using update_publications_hit [where g = ?g and f = ?f, OF ps p g f vwf refs keys] by blast
  note up = update_publications_ok [where g = ?g and f = ?f, OF ps p g f _ u1 vwf]
  have ps1: "publication_rows_ok db1" using up(1) by simp
  obtain ps' where db1: "db1 = db\<lparr>upload_publications := ps'\<rparr>" using up(3) by auto
  have ss1: "session_rows_ok db1" and s1: "stored_session db1 i = Some s"
    using ss s by (simp_all add: db1)
  have guard: "us_state s = U_PUBLISH_PENDING \<and> us_version s = us_version s
       \<and> us_received_size_bytes s = us_declared_size_bytes s
       \<and> us_declared_size_bytes s = up_expected_size_bytes p
       \<and> us_checksum_algorithm s = Some (up_checksum_algorithm p)
       \<and> us_checksum_hex s = Some (up_checksum_hex p)
       \<and> us_validated_media_kind s = Some (up_validated_media_kind p)
       \<and> us_validated_format s = Some (up_validated_format p)
       \<and> us_byte_identity_id s = Some (up_byte_identity_id p)"
    using facts(2) st wf by (auto simp: evidence_matches_def upload_wf_defs
        state_requires_complete_upload_def upload_state_set_defs)
  have swf: "upload_session_wf (published t s)" using published_wf [OF wf st] t by simp
  have snd: "sound_session (published t s)"
    using publish_update.change_sound [OF stored_session_sound(1) [OF ss s] swf] .
  then have row: "upload_row_ok (values_from_session (published t s))"
    by (simp add: sound_session_def values_row_ok)
  define db2 where "db2 = db1\<lparr>upload_sessions
      := publish_update.new_rows (us_version s) p t i (upload_sessions db1)\<rparr>"
  have u2: "update_uploads (publish_update.hit (us_version s) p i)
      (\<lambda>r. r\<lparr>ur_state := upload_state_value U_PUBLISHED, ur_updated_at_ms := t,
        ur_failure_code := None, ur_version := ur_version r + 1\<rparr>) db1 = Inr db2"
    using publish_update.update_uploads_hit [OF ss1 s1 guard, of t] row by (simp add: db2_def)
  have ss2: "session_rows_ok db2" and st2: "stored_session db2 i = Some (published t s)"
    using publish_update.rows_ok_new [OF ss1 s1 guard swf]
      publish_update.stored_new [OF ss1 s1 guard swf] by (simp_all add: db2_def)
  have "dom (stored_session db1) \<subseteq> dom (stored_session db2)"
    using publish_update.stored_new [OF ss1 s1 guard swf] by (auto simp: db2_def)
  note ids = session_ids_kept [OF ss1 ss2 this]
  have "publication_references_ok db2 r" if "publication_references_ok db1 r" for r
    using that by (rule references_frame [OF _ ids]) (simp_all add: db2_def)
  then have ps2: "publication_rows_ok db2"
    by (intro publication_rows_frame [OF ps1]) (simp_all add: db2_def)
  have "\<exists>c. require_candidate i db2 = Inr c"
    by (simp add: require_candidate_eq [OF ss2 ps2] st2)
  then show ?thesis
    using u1 u2 st pr facts(2)
    by (auto simp: commit_verified_in_def require_candidate_eq [OF ss ps] s p Let_def
        require_publication_id_def require_matching_evidence_def
        evidence_matches_iff [of p s "()", symmetric] ensure_publication_matches_upload_def)
qed


lemma mark_cleanup_succeeds:
  assumes ok: "pipeline_ok db" and s: "stored_session db i = Some s"
    and p: "stored_publication db i = Some p" and st: "us_state s = U_PUBLISHED"
    and c: "up_cleanup_state p = C_PENDING" and v: "up_verified_at_ms p = Some v" and t: "v \<le> t"
  shows "\<exists>c db'. mark_cleanup_in i (up_publication_id p) (up_version p) t db = Inr (c, db')"
proof -
  have ss: "session_rows_ok db" and ps: "publication_rows_ok db"
    using ok by (auto simp: pipeline_ok_def evidence_store_ok_def)
  note facts = pipeline_stored_publication [OF ok p s]
  have pwf: "upload_publication_wf p" using stored_publication_wf [OF ps p] by simp
  have pv: "up_state p = P_VERIFIED"
    using facts(1) st by (cases "up_state p") (auto simp: phase_matches_def)
  have cwf: "upload_publication_wf (cleaned t p)" using cleaned_wf [OF pwf pv c] v t by simp
  let ?g = "\<lambda>r. pr_publication_id r = uuid_to_text (up_publication_id p)
      \<and> pr_state r = publication_state_value P_VERIFIED
      \<and> pr_cleanup_state r = cleanup_state_value C_PENDING \<and> pr_version r = up_version p"
  let ?f = "\<lambda>r. r\<lparr>pr_cleanup_state := cleanup_state_value C_COMPLETE,
      pr_cleanup_completed_at_ms := Some t, pr_updated_at_ms := t,
      pr_version := pr_version r + 1\<rparr>"
  have g: "?g (publication_values p)" using pv c by simp
  have f: "?f (publication_values p) = publication_values (cleaned t p)" by (rule effect_values)
  have refs: "publication_references_ok db (publication_values (cleaned t p))"
    using references_of_stored [OF ps p]
    by (simp add: publication_references_ok_def cleaned_def publication_values_def
        cong: option.case_cong)
  have keys: "publication_keys_ok (map (\<lambda>r. if pr_upload_id r = uuid_to_text i \<and> ?g r then ?f r else r)
      (upload_publications db))"
    by (rule publication_keys_same) (use ps in \<open>simp_all add: publication_rows_ok_def\<close>)
  obtain db1 where u: "update_publications (\<lambda>r. pr_upload_id r = uuid_to_text i \<and> ?g r) ?f db = Inr db1"
    using update_publications_hit [where g = ?g and f = ?f, OF ps p g f cwf refs keys] by blast
  note up = update_publications_ok [where g = ?g and f = ?f, OF ps p g f _ u cwf]
  have ps1: "publication_rows_ok db1" using up(1) by simp
  obtain ps' where db1: "db1 = db\<lparr>upload_publications := ps'\<rparr>" using up(3) by auto
  have "session_rows_ok db1" "stored_session db1 i = Some s" using ss s by (simp_all add: db1)
  then have "\<exists>c. require_candidate i db1 = Inr c" by (simp add: require_candidate_eq [OF _ ps1])
  then show ?thesis
    using u st pv c facts(2)
    by (auto simp: mark_cleanup_in_def require_candidate_eq [OF ss ps] s p Let_def
        require_publication_id_def require_matching_evidence_def
        evidence_matches_iff [of p s "()", symmetric] ensure_publication_matches_upload_def)
qed

section \<open>Reserving\<close>

lemma reservation_succeeds:
  assumes ok: "pipeline_ok db" and s: "stored_session db (up_upload_id p) = Some s"
    and n: "stored_publication db (up_upload_id p) = None" and st: "us_state s = U_PUBLISH_PENDING"
    and w: "upload_publication_wf p" and m: "evidence_matches p s" and pr: "up_state p = P_RESERVED"
    and media: "up_media_id p = None" and lib: "uuid_to_text (up_destination_id p) \<in> set (libraries db)"
    and fresh: "uuid_to_text (up_publication_id p)
        \<notin> set (map pr_publication_id (upload_publications db))"
      "(uuid_to_text (up_destination_id p), up_relative_path p)
        \<notin> set (map (\<lambda>r. (pr_destination_id r, pr_relative_target r)) (upload_publications db))"
  shows "\<exists>c db'. get_or_create_reservation_in p (us_version s) db = Inr (c, db')"
proof -
  have ss: "session_rows_ok db" and ps: "publication_rows_ok db" and ids: "identity_rows_ok db"
    and ev: "evidence_store_ok db"
    using ok by (auto simp: pipeline_ok_def evidence_store_ok_def)
  have wf: "upload_session_wf s" using stored_session_sound [OF ss s] by (simp add: sound_session_def)
  have n': "publication_row_of (up_upload_id p) db = None"
    using publication_row_stored [OF ps, of "up_upload_id p"] n by simp
  have u: "upload_from_row (values_from_session s) = Inr (candidate_view s)"
    using candidate_view_wf [OF wf] by (simp add: upload_from_values)
  let ?row = "publication_values p"
  have "linked db s" using ev s linked_iff [OF ss ids] by (simp add: evidence_store_ok_def)
  then have "uuid_to_text (up_byte_identity_id p) \<in> set (map ir_id (media_byte_identities db))"
    using m by (auto simp: linked_def evidence_matches_def intro: rev_image_eqI)
  moreover have "uuid_to_text (up_upload_id p) \<in> set (map ur_id (upload_sessions db))"
    using s by (auto simp: stored_session_iff [OF ss] intro: rev_image_eqI)
  moreover have mediaN: "up_media_location_id p = None" using w media by (simp add: upload_publication_wf_def)
  ultimately have refs: "publication_references_ok db ?row"
    using lib media by (simp add: publication_references_ok_def publication_values_def)
  have "uuid_to_text (up_upload_id p) \<notin> set (map pr_upload_id (upload_publications db))"
    using n' by (simp add: publication_row_of_def sql_first_def find_key_None_iff)
  then have keys: "publication_keys_ok (upload_publications db @ [?row])"
    using ps fresh media mediaN
    by (simp add: publication_rows_ok_def publication_keys_ok_def List.map_filter_def)
  have row: "publication_row_ok ?row" by (rule publication_values_row_ok [OF w])
  define db' where "db' = db\<lparr>upload_publications := upload_publications db @ [?row]\<rparr>"
  have ps': "publication_rows_ok db'"
    using ps row refs keys publication_from_values [OF w]
    by (auto simp: publication_rows_ok_def db'_def list_all_iff)
  have "session_rows_ok db'" "stored_session db' (up_upload_id p) = Some s"
    using ss s by (simp_all add: db'_def)
  then have "\<exists>c. require_candidate (up_upload_id p) db' = Inr c"
    by (simp add: require_candidate_eq [OF _ ps'])
  moreover have "ensure_upload_is_publication_candidate (candidate_view s) = Inr ()"
    using m st wf by (auto simp: ensure_upload_is_publication_candidate_def evidence_matches_def
        upload_wf_defs state_requires_complete_upload_def upload_state_set_defs full_evidence_def)
  moreover have "ensure_publication_matches_upload p (candidate_view s) = Inr ()"
    using m by (simp add: evidence_matches_iff)
  ultimately show ?thesis
    using s u n' row refs keys pr
    by (auto simp: get_or_create_reservation_in_def row_by_id_stored [OF ss] Let_def
        db'_def [symmetric])
qed


section \<open>Cataloging\<close>

lemma media_values_checks: "logical_media_post_init m = Inr () \<Longrightarrow> checks_pass (media_row_checks (media_values m))"
  by (cases "lm_kind m")
    (auto simp: logical_media_post_init_def checks_pass_def media_row_checks_def media_values_def
      and_then_Inr lit_def split: if_splits)

lemma insert_media_succeeds:
  assumes "logical_media_post_init m = Inr ()"
    and "uuid_to_text (lm_id m) \<notin> set (map mr_id (logical_media_rows db))"
  shows "\<exists>db'. insert_media m db = Inr db'"
  using assms media_values_checks [OF assms(1)]
  by (auto simp: insert_media_def Let_def media_values_def)

lemma map_no_hit: "a \<notin> set (map key rows) \<Longrightarrow>
    map (\<lambda>r. if key r = a \<and> g r then f r else r) rows = rows"
  by (induction rows) auto

lemma map_filter_fresh:
  assumes "distinct (List.map_filter k rows)" and "\<And>r. r \<in> set rows \<Longrightarrow> k r \<noteq> Some x"
    and "distinct (map key rows)" and f: "\<And>r. k (f r) = Some x"
  shows "distinct (List.map_filter k (map (\<lambda>r. if key r = a \<and> g r then f r else r) rows))"
  using assms(1-3)
proof (induction rows)
  case Nil
  then show ?case by simp
next
  case (Cons r rows)
  let ?h = "\<lambda>r. if key r = a \<and> g r then f r else r"
  have IH: "distinct (List.map_filter k rows)" "\<And>r. r \<in> set rows \<Longrightarrow> k r \<noteq> Some x"
      "distinct (map key rows)"
    using Cons.prems by (auto simp: List.map_filter_simps split: option.splits)
  have nx: "x \<notin> set (List.map_filter k rows)"
    using IH(2) by (simp add: set_map_filter)
  show ?case
  proof (cases "key r = a \<and> g r")
    case True
    then have "map ?h rows = rows" using Cons.prems(3) by (intro map_no_hit) auto
    then show ?thesis using True nx IH(1) f by (simp add: List.map_filter_simps)
  next
    case False
    show ?thesis
    proof (cases "k r")
      case None
      then show ?thesis using False Cons.IH [OF IH] by (auto simp: List.map_filter_simps)
    next
      case (Some y)
      then have "y \<noteq> x" "y \<notin> set (List.map_filter k rows)"
        using Cons.prems(1,2) by (auto simp: List.map_filter_simps)
      then have "y \<notin> set (List.map_filter k (map ?h rows))"
        using f by (auto simp: set_map_filter)
      then show ?thesis using False Some Cons.IH [OF IH] by (auto simp: List.map_filter_simps)
    qed
  qed
qed

lemma catalog_keys:
  assumes ps: "publication_rows_ok db"
    and m: "m \<notin> set (map mr_id (logical_media_rows db))"
    and l: "l \<notin> set (map lr_id (physical_media_locations db))"
    and f: "\<And>r. pr_upload_id (f r) = pr_upload_id r" "\<And>r. pr_publication_id (f r) = pr_publication_id r"
      "\<And>r. pr_destination_id (f r) = pr_destination_id r"
      "\<And>r. pr_relative_target (f r) = pr_relative_target r"
      "\<And>r. pr_media_id (f r) = Some m" "\<And>r. pr_media_location_id (f r) = Some l"
  shows "publication_keys_ok (map (\<lambda>r. if pr_upload_id r = a \<and> g r then f r else r)
    (upload_publications db))"
proof -
  let ?rows = "upload_publications db"
  let ?h = "\<lambda>r. if pr_upload_id r = a \<and> g r then f r else r"
  have keys: "publication_keys_ok ?rows" using ps by (simp add: publication_rows_ok_def)
  have "pr_media_id r \<noteq> Some m \<and> pr_media_location_id r \<noteq> Some l" if "r \<in> set ?rows" for r
    using ps that m l
    by (auto simp: publication_rows_ok_def list_all_iff publication_references_ok_def)
  then have fresh: "\<And>r. r \<in> set ?rows \<Longrightarrow> pr_media_id r \<noteq> Some m"
      "\<And>r. r \<in> set ?rows \<Longrightarrow> pr_media_location_id r \<noteq> Some l" by auto
  have d: "distinct (List.map_filter pr_media_id ?rows)"
      "distinct (List.map_filter pr_media_location_id ?rows)" "distinct (map pr_upload_id ?rows)"
    using keys by (simp_all add: publication_keys_ok_def)
  have "distinct (List.map_filter pr_media_id (map ?h ?rows))"
    using map_filter_fresh [OF d(1) fresh(1) d(3), of f] f(5) by blast
  moreover have "distinct (List.map_filter pr_media_location_id (map ?h ?rows))"
    using map_filter_fresh [OF d(2) fresh(2) d(3), of f] f(6) by blast
  moreover have "map pr_upload_id (map ?h ?rows) = map pr_upload_id ?rows"
      "map pr_publication_id (map ?h ?rows) = map pr_publication_id ?rows"
      "map (\<lambda>r. (pr_destination_id r, pr_relative_target r)) (map ?h ?rows)
        = map (\<lambda>r. (pr_destination_id r, pr_relative_target r)) ?rows"
    using f(1-4) by (simp_all add: comp_def)
  ultimately show ?thesis using keys unfolding publication_keys_ok_def by (simp only:)
qed


lemma location_values_checks:
  assumes "media_location_post_init l = Inr ()" and "normalize_relative_path (PyStr (ml_relative_path l)) = Inr (ml_relative_path l)"
  shows "checks_pass (location_row_checks (location_values l))"
proof -
  have p: "ml_relative_path l \<noteq> []" "0 \<notin> set (ml_relative_path l)"
      "length (ml_relative_path l) \<le> 4096"
    using assms(2) by (auto simp: normalize_relative_path_iff MAX_RELATIVE_PATH_CODE_POINTS_def)
  then have "1 \<le> length (ml_relative_path l)" by (cases "ml_relative_path l") auto
  then show ?thesis
    using assms(1) p
    by (cases "ml_availability l"; cases "ml_observed_size_bytes l"; cases "ml_observed_mtime_ns l")
      (auto simp: media_location_post_init_def checks_pass_def location_row_checks_def
        location_values_def and_then_Inr lit_def sql_length_no_nul split: if_splits)
qed

lemma location_path: "media_location_post_init l = Inr () \<Longrightarrow>
    normalize_relative_path (PyStr (ml_relative_path l)) = Inr (ml_relative_path l)"
  by (simp add: media_location_post_init_def)

lemma insert_location_succeeds:
  assumes "media_location_post_init l = Inr ()"
    and "uuid_to_text (ml_media_id l) \<in> set (map mr_id (logical_media_rows db))"
    and "uuid_to_text (ml_library_id l) \<in> set (libraries db)"
    and "uuid_to_text (ml_id l) \<notin> set (map lr_id (physical_media_locations db))"
    and "(uuid_to_text (ml_library_id l), ml_relative_path l)
      \<notin> set (map (\<lambda>r. (lr_library_id r, lr_relative_path r)) (physical_media_locations db))"
  shows "\<exists>db'. insert_location l db = Inr db'"
  using assms location_values_checks [OF assms(1) location_path [OF assms(1)]]
  by (simp add: insert_location_def Let_def location_values_def)

lemma commit_cataloged_succeeds:
  assumes ok: "pipeline_ok db" and s: "stored_session db i = Some s"
    and p: "stored_publication db i = Some p" and st: "us_state s = U_PUBLISHED"
    and c: "up_cleanup_state p = C_COMPLETE"
    and l: "ml_library_id l = up_destination_id p" "ml_relative_path l = up_relative_path p"
      "ml_observed_size_bytes l = Some (up_expected_size_bytes p)"
    and t: "us_created_at_ms s \<le> t" "up_created_at_ms p \<le> t"
    and valid: "is_uuid4 (lm_id m)" "is_uuid4 (ml_id l)"
    and ins: "insert_media m db = Inr db1" "insert_location l db1 = Inr db2"
      "(case metadata of None \<Rightarrow> Inr db2 | Some d \<Rightarrow> insert_metadata d db2) = Inr db3"
  shows "\<exists>c db'. commit_cataloged_in i m l (us_version s) (up_version p) t metadata db
    = Inr (c, db')"
proof -
  have ss: "session_rows_ok db" and ps: "publication_rows_ok db"
    using ok by (auto simp: pipeline_ok_def evidence_store_ok_def)
  note facts = pipeline_stored_publication [OF ok p s]
  have wf: "upload_session_wf s" using stored_session_sound [OF ss s] by (simp add: sound_session_def)
  have pwf: "upload_publication_wf p" using stored_publication_wf [OF ps p] by simp
  have pv: "up_state p = P_VERIFIED" and pm: "up_media_id p = None" "up_media_location_id p = None"
    using facts(1) st pwf
    by (cases "up_state p"; auto simp: phase_matches_def upload_publication_wf_def split: if_splits)+
  let ?q = "linked_publication (lm_id m) (ml_id l) t p"
  let ?g = "\<lambda>r. pr_state r = publication_state_value P_VERIFIED
      \<and> pr_cleanup_state r = cleanup_state_value C_COMPLETE
      \<and> pr_media_id r = None \<and> pr_media_location_id r = None \<and> pr_version r = up_version p"
  let ?f = "\<lambda>r. r\<lparr>pr_media_id := Some (uuid_to_text (lm_id m)),
      pr_media_location_id := Some (uuid_to_text (ml_id l)), pr_updated_at_ms := t,
      pr_version := pr_version r + 1\<rparr>"
  note gr = catalog_inserts_ok [OF ins]
  note fr = catalog_grown_frame [OF gr]
  obtain rows tags where e: "db3 = db\<lparr>logical_media_rows := logical_media_rows db @ [media_values m],
      physical_media_locations := physical_media_locations db @ [location_values l],
      media_metadata_rows := rows, media_canonical_tags := tags\<rparr>"
    and ln: "uuid_to_text (ml_id l) \<notin> set (map lr_id (physical_media_locations db))"
    using gr by (auto simp: catalog_grown_def)
  have mn: "uuid_to_text (lm_id m) \<notin> set (map mr_id (logical_media_rows db))"
    using ins(1) by (auto simp: insert_media_def Let_def media_values_def split: if_splits)
  have ss3: "session_rows_ok db3" and s3: "stored_session db3 i = Some s"
    and ps3: "publication_rows_ok db3" and p3: "stored_publication db3 i = Some p"
    using ss s ps p fr by simp_all
  have g: "?g (publication_values p)" using pv c pm by simp
  have f: "?f (publication_values p) = publication_values ?q" by (rule effect_values)
  have qwf: "upload_publication_wf ?q" using linked_publication_wf [OF pwf valid] t by simp
  have refs: "publication_references_ok db3 (publication_values ?q)"
    using references_of_stored [OF ps p]
    by (simp add: e publication_references_ok_def linked_publication_def publication_values_def
        media_values_def location_values_def)
  have "upload_publications db3 = upload_publications db" by (simp add: e)
  then have keys: "publication_keys_ok (map (\<lambda>r. if pr_upload_id r = uuid_to_text i \<and> ?g r then ?f r else r)
      (upload_publications db3))"
    using catalog_keys [OF ps mn ln, of ?f "uuid_to_text i" ?g] by simp
  obtain db4 where u1: "update_publications (\<lambda>r. pr_upload_id r = uuid_to_text i \<and> ?g r) ?f db3 = Inr db4"
    using update_publications_hit [where g = ?g and f = ?f, OF ps3 p3 g f qwf refs keys] by blast
  note up = update_publications_ok [where g = ?g and f = ?f, OF ps3 p3 g f _ u1 qwf]
  have ps4: "publication_rows_ok db4" using up(1) by simp
  obtain ps' where db4: "db4 = db3\<lparr>upload_publications := ps'\<rparr>" using up(3) by auto
  have ss4: "session_rows_ok db4" and s4: "stored_session db4 i = Some s"
    using ss3 s3 by (simp_all add: db4)
  have guard: "us_state s = U_PUBLISHED \<and> us_version s = us_version s" using st by simp
  have swf: "upload_session_wf (cataloged t s)" using cataloged_wf [OF wf st] t by simp
  have "sound_session (cataloged t s)"
    using catalog_update.change_sound [OF stored_session_sound(1) [OF ss s] swf] .
  then have row: "upload_row_ok (values_from_session (cataloged t s))"
    by (simp add: sound_session_def values_row_ok)
  define db5 where "db5 = db4\<lparr>upload_sessions
      := catalog_update.new_rows (us_version s) t i (upload_sessions db4)\<rparr>"
  have u2: "update_uploads (catalog_update.hit (us_version s) i)
      (\<lambda>r. r\<lparr>ur_state := upload_state_value U_CATALOGED, ur_updated_at_ms := t,
        ur_failure_code := None, ur_version := ur_version r + 1\<rparr>) db4 = Inr db5"
    using catalog_update.update_uploads_hit [OF ss4 s4 guard, of t] row by (simp add: db5_def)
  note new = catalog_update.stored_new [OF ss4 s4 guard swf]
  have ss5: "session_rows_ok db5" and st5: "stored_session db5 i = Some (cataloged t s)"
    using catalog_update.rows_ok_new [OF ss4 s4 guard swf] new by (simp_all add: db5_def)
  have "dom (stored_session db4) \<subseteq> dom (stored_session db5)" using new by (auto simp: db5_def)
  note ids = session_ids_kept [OF ss4 ss5 this]
  have "publication_references_ok db5 r" if "publication_references_ok db4 r" for r
    using that by (rule references_frame [OF _ ids]) (simp_all add: db5_def)
  then have ps5: "publication_rows_ok db5"
    by (intro publication_rows_frame [OF ps4]) (simp_all add: db5_def)
  have "\<exists>c. require_candidate i db5 = Inr c"
    by (simp add: require_candidate_eq [OF ss5 ps5] st5)
  moreover have "catalog_guards \<lparr>pc_upload = candidate_view s, pc_publication = Some p\<rparr> p l
      (us_version s) (up_version p) = Inr ()"
    using st pv c pm l by (simp add: catalog_guards_def)
  moreover have "require_matching_evidence p (candidate_view s) = Inr ()"
    using facts(2) by (simp add: require_evidence_iff)
  ultimately show ?thesis
    using u1 u2 ins pm
    by (auto simp: commit_cataloged_in_def require_candidate_eq [OF ss ps] s p)
qed


section \<open>The four commands in order\<close>

lemma run_command_checked:
  "0 \<le> v \<Longrightarrow> get_or_create_reservation_in p v db = Inr (c, db') \<Longrightarrow>
     run_command (ReserveTarget p v) db = db'"
  "0 \<le> v \<Longrightarrow> 0 \<le> pv \<Longrightarrow> 0 \<le> t \<Longrightarrow> commit_verified_in i pid v pv t db = Inr (c, db') \<Longrightarrow>
     run_command (CommitVerified i pid v pv t) db = db'"
  "0 \<le> pv \<Longrightarrow> 0 \<le> t \<Longrightarrow> mark_cleanup_in i pid pv t db = Inr (c, db') \<Longrightarrow>
     run_command (MarkCleanup i pid pv t) db = db'"
  "0 \<le> v \<Longrightarrow> 0 \<le> pv \<Longrightarrow> 0 \<le> t \<Longrightarrow> catalog_arguments m l d = Inr () \<Longrightarrow>
     commit_cataloged_in i m l v pv t d db = Inr (c, db') \<Longrightarrow>
     run_command (CommitCataloged i m l v pv t d) db = db'"
  by (simp_all add: get_or_create_reservation_def commit_verified_publication_def
      mark_cleanup_complete_def commit_cataloged_publication_def)

lemma stored_nonneg:
  "pipeline_ok db \<Longrightarrow> stored_session db i = Some s \<Longrightarrow> 0 \<le> us_version s \<and> 0 \<le> us_created_at_ms s \<and> us_id s = i"
  "pipeline_ok db \<Longrightarrow> stored_publication db i = Some p \<Longrightarrow>
     0 \<le> up_version p \<and> 0 \<le> up_created_at_ms p \<and> up_upload_id p = i"
proof -
  assume ok: "pipeline_ok db"
  then have ss: "session_rows_ok db" and ps: "publication_rows_ok db"
    by (auto simp: pipeline_ok_def evidence_store_ok_def)
  show "0 \<le> us_version s \<and> 0 \<le> us_created_at_ms s \<and> us_id s = i" if "stored_session db i = Some s"
    using stored_session_sound [OF ss that] by (simp add: sound_session_def upload_wf_defs)
  show "0 \<le> up_version p \<and> 0 \<le> up_created_at_ms p \<and> up_upload_id p = i"
    if "stored_publication db i = Some p"
    using stored_publication_wf [OF ps that] by (simp add: upload_publication_wf_def)
qed

lemma reserve_effect:
  assumes ok: "pipeline_ok db" and s: "stored_session db (up_upload_id p) = Some s"
    and n: "stored_publication db (up_upload_id p) = None" and st: "us_state s = U_PUBLISH_PENDING"
    and w: "upload_publication_wf p" and m: "evidence_matches p s" and pr: "up_state p = P_RESERVED"
    and media: "up_media_id p = None" and lib: "uuid_to_text (up_destination_id p) \<in> set (libraries db)"
    and fresh: "uuid_to_text (up_publication_id p)
        \<notin> set (map pr_publication_id (upload_publications db))"
      "(uuid_to_text (up_destination_id p), up_relative_path p)
        \<notin> set (map (\<lambda>r. (pr_destination_id r, pr_relative_target r)) (upload_publications db))"
    and db': "db' = run_command (ReserveTarget p (us_version s)) db"
  shows "pipeline_ok db'" and "stored_session db' = stored_session db"
    and "stored_publication db' = (stored_publication db)(up_upload_id p \<mapsto> p)"
    and "\<exists>ps. db' = db\<lparr>upload_publications := ps\<rparr>"
proof -
  have ss: "session_rows_ok db" and ps: "publication_rows_ok db"
    using ok by (auto simp: pipeline_ok_def evidence_store_ok_def)
  obtain c db1 where c: "get_or_create_reservation_in p (us_version s) db = Inr (c, db1)"
    using reservation_succeeds [OF ok s n st w m pr media lib fresh] by blast
  have "db' = db1" using run_command_checked(1) [OF _ c] stored_nonneg(1) [OF ok s] db' by simp
  with reservation_ok [OF ss ps w c] n
  show "stored_publication db' = (stored_publication db)(up_upload_id p \<mapsto> p)"
    and frame: "\<exists>ps. db' = db\<lparr>upload_publications := ps\<rparr>" by auto
  then show "stored_session db' = stored_session db" by auto
  show "pipeline_ok db'"
    using command_step [OF ok, of "ReserveTarget p (us_version s)"] w media db'
    by (simp add: step_ok_def del: run_command.simps)
qed

lemma publish_effect:
  assumes ok: "pipeline_ok db" and s: "stored_session db i = Some s"
    and p: "stored_publication db i = Some p" and st: "us_state s = U_PUBLISH_PENDING"
    and t: "us_created_at_ms s \<le> t" "up_created_at_ms p \<le> t"
    and db': "db' = run_command (CommitVerified i (up_publication_id p) (us_version s) (up_version p) t) db"
  shows "pipeline_ok db'" and "stored_session db' = (stored_session db)(i \<mapsto> published t s)"
    and "stored_publication db' = (stored_publication db)(i \<mapsto> verified t p)"
    and "\<exists>ps ss. db' = db\<lparr>upload_publications := ps, upload_sessions := ss\<rparr>"
proof -
  have ss: "session_rows_ok db" and ps: "publication_rows_ok db"
    using ok by (auto simp: pipeline_ok_def evidence_store_ok_def)
  obtain c db1 where c: "commit_verified_in i (up_publication_id p) (us_version s) (up_version p) t db
      = Inr (c, db1)"
    using commit_verified_succeeds [OF ok s p st t] by blast
  have "db' = db1"
    using run_command_checked(2) [OF _ _ _ c] stored_nonneg(1) [OF ok s] stored_nonneg(2) [OF ok p]
      t db' by simp
  with commit_verified_ok [OF ss ps c] s p st
  show "stored_session db' = (stored_session db)(i \<mapsto> published t s)"
    and "stored_publication db' = (stored_publication db)(i \<mapsto> verified t p)"
    and "\<exists>ps ss. db' = db\<lparr>upload_publications := ps, upload_sessions := ss\<rparr>" by auto
  show "pipeline_ok db'"
    using command_step [OF ok, of "CommitVerified i (up_publication_id p) (us_version s) (up_version p) t"]
      db' by (simp add: step_ok_def del: run_command.simps)
qed

lemma cleanup_effect:
  assumes ok: "pipeline_ok db" and s: "stored_session db i = Some s"
    and p: "stored_publication db i = Some p" and st: "us_state s = U_PUBLISHED"
    and c: "up_cleanup_state p = C_PENDING" and v: "up_verified_at_ms p = Some v" and t: "v \<le> t" "0 \<le> t"
    and db': "db' = run_command (MarkCleanup i (up_publication_id p) (up_version p) t) db"
  shows "pipeline_ok db'" and "stored_session db' = stored_session db"
    and "stored_publication db' = (stored_publication db)(i \<mapsto> cleaned t p)"
    and "\<exists>ps. db' = db\<lparr>upload_publications := ps\<rparr>"
proof -
  have ss: "session_rows_ok db" and ps: "publication_rows_ok db"
    using ok by (auto simp: pipeline_ok_def evidence_store_ok_def)
  obtain r db1 where r: "mark_cleanup_in i (up_publication_id p) (up_version p) t db = Inr (r, db1)"
    using mark_cleanup_succeeds [OF ok s p st c v t(1)] by blast
  have "db' = db1"
    using run_command_checked(3) [OF _ _ r] stored_nonneg(2) [OF ok p] t db' by simp
  with mark_cleanup_ok [OF ss ps r] s p c
  show "stored_publication db' = (stored_publication db)(i \<mapsto> cleaned t p)"
    and frame: "\<exists>ps. db' = db\<lparr>upload_publications := ps\<rparr>" by auto
  then show "stored_session db' = stored_session db" by auto
  show "pipeline_ok db'"
    using command_step [OF ok, of "MarkCleanup i (up_publication_id p) (up_version p) t"] db'
    by (simp add: step_ok_def del: run_command.simps)
qed

lemma catalog_effect:
  assumes ok: "pipeline_ok db" and s: "stored_session db i = Some s"
    and p: "stored_publication db i = Some p" and st: "us_state s = U_PUBLISHED"
    and c: "up_cleanup_state p = C_COMPLETE"
    and l: "ml_library_id l = up_destination_id p" "ml_relative_path l = up_relative_path p"
      "ml_observed_size_bytes l = Some (up_expected_size_bytes p)" "ml_media_id l = lm_id m"
    and t: "us_created_at_ms s \<le> t" "up_created_at_ms p \<le> t"
    and init: "logical_media_post_init m = Inr ()" "media_location_post_init l = Inr ()"
    and lib: "uuid_to_text (up_destination_id p) \<in> set (libraries db)"
    and fresh: "uuid_to_text (lm_id m) \<notin> set (map mr_id (logical_media_rows db))"
      "uuid_to_text (ml_id l) \<notin> set (map lr_id (physical_media_locations db))"
      "(uuid_to_text (up_destination_id p), up_relative_path p)
        \<notin> set (map (\<lambda>r. (lr_library_id r, lr_relative_path r)) (physical_media_locations db))"
    and db': "db' = run_command (CommitCataloged i m l (us_version s) (up_version p) t None) db"
  shows "pipeline_ok db'" and "stored_session db' = (stored_session db)(i \<mapsto> cataloged t s)"
    and "stored_publication db'
      = (stored_publication db)(i \<mapsto> linked_publication (lm_id m) (ml_id l) t p)"
proof -
  have ss: "session_rows_ok db" and ps: "publication_rows_ok db"
    using ok by (auto simp: pipeline_ok_def evidence_store_ok_def)
  have valid: "is_uuid4 (lm_id m)" "is_uuid4 (ml_id l)"
    using init by (auto simp: logical_media_post_init_def media_location_post_init_def)
  obtain db1 where m: "insert_media m db = Inr db1"
    using insert_media_succeeds [OF init(1) fresh(1)] by blast
  have e: "db1 = db\<lparr>logical_media_rows := logical_media_rows db @ [media_values m]\<rparr>"
    using insert_media_ok [OF m] by blast
  obtain db2 where l2: "insert_location l db1 = Inr db2"
    using insert_location_succeeds [OF init(2), of db1] fresh lib l
    by (auto simp: e media_values_def)
  obtain r dbn where r: "commit_cataloged_in i m l (us_version s) (up_version p) t None db
      = Inr (r, dbn)"
    using commit_cataloged_succeeds [OF ok s p st c l(1-3) t valid m l2, of None] by auto
  have "catalog_arguments m l None = Inr ()" by (simp add: catalog_arguments_def l)
  then have "db' = dbn"
    using run_command_checked(4) [OF _ _ _ _ r] stored_nonneg(1) [OF ok s]
      stored_nonneg(2) [OF ok p] t db' by simp
  with commit_cataloged_ok [OF ss ps valid r] s p st
  show "stored_session db' = (stored_session db)(i \<mapsto> cataloged t s)"
    and "stored_publication db'
      = (stored_publication db)(i \<mapsto> linked_publication (lm_id m) (ml_id l) t p)" by auto
  show "pipeline_ok db'"
    using command_step [OF ok, of "CommitCataloged i m l (us_version s) (up_version p) t None"]
      valid db' by (simp add: step_ok_def del: run_command.simps)
qed


text \<open>A new reservation for a waiting upload, and catalog rows that fit it.\<close>

definition reservation_fits :: "catalog_db \<Rightarrow> upload_session \<Rightarrow> upload_publication \<Rightarrow> bool" where
  "reservation_fits db s p \<longleftrightarrow> upload_publication_wf p \<and> evidence_matches p s
     \<and> up_state p = P_RESERVED \<and> up_media_id p = None
     \<and> stored_publication db (up_upload_id p) = None
     \<and> uuid_to_text (up_destination_id p) \<in> set (libraries db)
     \<and> uuid_to_text (up_publication_id p) \<notin> set (map pr_publication_id (upload_publications db))
     \<and> (uuid_to_text (up_destination_id p), up_relative_path p)
        \<notin> set (map (\<lambda>r. (pr_destination_id r, pr_relative_target r)) (upload_publications db))"

definition catalog_entry_fits ::
    "catalog_db \<Rightarrow> upload_publication \<Rightarrow> logical_media \<Rightarrow> media_location \<Rightarrow> bool" where
  "catalog_entry_fits db p m l \<longleftrightarrow> logical_media_post_init m = Inr () \<and> media_location_post_init l = Inr ()
     \<and> ml_media_id l = lm_id m \<and> ml_library_id l = up_destination_id p
     \<and> ml_relative_path l = up_relative_path p
     \<and> ml_observed_size_bytes l = Some (up_expected_size_bytes p)
     \<and> uuid_to_text (lm_id m) \<notin> set (map mr_id (logical_media_rows db))
     \<and> uuid_to_text (ml_id l) \<notin> set (map lr_id (physical_media_locations db))
     \<and> (uuid_to_text (up_destination_id p), up_relative_path p)
        \<notin> set (map (\<lambda>r. (lr_library_id r, lr_relative_path r)) (physical_media_locations db))"

definition publish_commands ::
    "upload_session \<Rightarrow> upload_publication \<Rightarrow> logical_media \<Rightarrow> media_location \<Rightarrow> int \<Rightarrow> int \<Rightarrow> int
     \<Rightarrow> pipeline_command list" where
  "publish_commands s p m l t1 t2 t3 =
     [ReserveTarget p (us_version s),
      CommitVerified (us_id s) (up_publication_id p) (us_version s) (up_version p) t1,
      MarkCleanup (us_id s) (up_publication_id p) (up_version p + 1) t2,
      CommitCataloged (us_id s) m l (us_version s + 1) (up_version p + 2) t3 None]"

lemma publish_path:
  assumes ok: "pipeline_ok db" and s: "stored_session db i = Some s" and st: "us_state s = U_PUBLISH_PENDING"
    and r: "reservation_fits db s p" and e: "catalog_entry_fits db p m l"
    and t: "us_created_at_ms s \<le> t1" "up_created_at_ms p \<le> t1" "t1 \<le> t2" "t1 \<le> t3"
    and db': "db' = fold run_command (publish_commands s p m l t1 t2 t3) db"
  shows "pipeline_ok db'"
    and "stored_session db' = (stored_session db)(i \<mapsto> cataloged t3 (published t1 s))"
    and "stored_publication db' = (stored_publication db)
      (i \<mapsto> linked_publication (lm_id m) (ml_id l) t3 (cleaned t2 (verified t1 p)))"
proof -
  have i: "us_id s = i" "0 \<le> us_created_at_ms s" using stored_nonneg(1) [OF ok s] by auto
  have pi: "up_upload_id p = i" using r i by (simp add: reservation_fits_def evidence_matches_def)
  define db1 where "db1 = run_command (ReserveTarget p (us_version s)) db"
  define db2 where "db2 = run_command (CommitVerified i (up_publication_id p) (us_version s)
      (up_version p) t1) db1"
  define db3 where "db3 = run_command (MarkCleanup i (up_publication_id p) (up_version p + 1) t2) db2"
  have last: "db' = run_command (CommitCataloged i m l (us_version s + 1) (2 + up_version p) t3 None) db3"
    by (simp add: db' publish_commands_def i db1_def db2_def db3_def add.commute del: run_command.simps)
  have s0: "stored_session db (up_upload_id p) = Some s" using s pi by simp
  have rd: "stored_publication db (up_upload_id p) = None" "upload_publication_wf p"
      "evidence_matches p s" "up_state p = P_RESERVED" "up_media_id p = None"
      "uuid_to_text (up_destination_id p) \<in> set (libraries db)"
      "uuid_to_text (up_publication_id p) \<notin> set (map pr_publication_id (upload_publications db))"
      "(uuid_to_text (up_destination_id p), up_relative_path p)
        \<notin> set (map (\<lambda>r. (pr_destination_id r, pr_relative_target r)) (upload_publications db))"
    using r by (auto simp: reservation_fits_def)
  note e1 = reserve_effect [OF ok s0 rd(1) st rd(2-8) db1_def]
  have s1: "stored_session db1 i = Some s" and p1: "stored_publication db1 i = Some p"
    using e1 s pi by simp_all
  note e2 = publish_effect [OF e1(1) s1 p1 st t(1,2) db2_def]
  have s2: "stored_session db2 i = Some (published t1 s)"
    and p2: "stored_publication db2 i = Some (verified t1 p)" using e2 by simp_all
  have c2: "up_cleanup_state (verified t1 p) = C_PENDING" "up_verified_at_ms (verified t1 p) = Some t1"
      "db3 = run_command (MarkCleanup i (up_publication_id (verified t1 p))
        (up_version (verified t1 p)) t2) db2"
    by (simp_all add: verified_def db3_def)
  have t2: "0 \<le> t2" using t i by simp
  note e3 = cleanup_effect [OF e2(1) s2 p2 publication_effect_fields(14) c2(1,2) t(3) t2 c2(3)]
  have s3: "stored_session db3 i = Some (published t1 s)"
    and p3: "stored_publication db3 i = Some (cleaned t2 (verified t1 p))" using e3 s2 by simp_all
  obtain ps1 ps2 ss2 ps3 where f: "db1 = db\<lparr>upload_publications := ps1\<rparr>"
      "db2 = db1\<lparr>upload_publications := ps2, upload_sessions := ss2\<rparr>"
      "db3 = db2\<lparr>upload_publications := ps3\<rparr>"
    using e1(4) e2(4) e3(4) by blast
  let ?p = "cleaned t2 (verified t1 p)"
  have q: "up_cleanup_state ?p = C_COMPLETE" "ml_library_id l = up_destination_id ?p"
      "ml_relative_path l = up_relative_path ?p"
      "ml_observed_size_bytes l = Some (up_expected_size_bytes ?p)" "ml_media_id l = lm_id m"
      "us_created_at_ms (published t1 s) \<le> t3" "up_created_at_ms ?p \<le> t3"
      "logical_media_post_init m = Inr ()" "media_location_post_init l = Inr ()"
      "uuid_to_text (up_destination_id ?p) \<in> set (libraries db3)"
      "uuid_to_text (lm_id m) \<notin> set (map mr_id (logical_media_rows db3))"
      "uuid_to_text (ml_id l) \<notin> set (map lr_id (physical_media_locations db3))"
      "(uuid_to_text (up_destination_id ?p), up_relative_path ?p)
        \<notin> set (map (\<lambda>r. (lr_library_id r, lr_relative_path r)) (physical_media_locations db3))"
      "db' = run_command (CommitCataloged i m l (us_version (published t1 s)) (up_version ?p) t3 None) db3"
    using e rd(6) t last
    by (simp_all add: f catalog_entry_fits_def cleaned_def verified_def published_def
        del: run_command.simps)
  note e4 = catalog_effect [OF e3(1) s3 p3 publication_effect_fields(14) q]
  show "pipeline_ok db'" by (rule e4(1))
  show "stored_session db' = (stored_session db)(i \<mapsto> cataloged t3 (published t1 s))"
    and "stored_publication db' = (stored_publication db)
      (i \<mapsto> linked_publication (lm_id m) (ml_id l) t3 (cleaned t2 (verified t1 p)))"
    using e4(2,3) e3(2,3) e2(2,3) e1(2,3) pi by simp_all
qed

end
