(* ===== verification/Publication_History.thy ===== *)
theory Publication_History
  imports Upload_Liveness
begin

text \<open>
  What the commands of the pipeline do to a stored publication and to the rows of the catalog, and
  how the publication of a cataloged upload loses its media.
\<close>

section \<open>How a stored publication evolves\<close>

definition same_target :: "upload_publication \<Rightarrow> upload_publication \<Rightarrow> bool" where
  "same_target p q \<longleftrightarrow> up_upload_id q = up_upload_id p \<and> up_publication_id q = up_publication_id p
     \<and> up_destination_id q = up_destination_id p \<and> up_relative_path q = up_relative_path p
     \<and> up_byte_identity_id q = up_byte_identity_id p
     \<and> up_expected_size_bytes q = up_expected_size_bytes p
     \<and> up_checksum_hex q = up_checksum_hex p"

lemma same_target_refl [simp]: "same_target p p"
  by (simp add: same_target_def)

lemma same_target_trans: "same_target p q \<Longrightarrow> same_target q r \<Longrightarrow> same_target p r"
  by (simp add: same_target_def)

lemma same_target_sym: "same_target p q \<Longrightarrow> same_target q p"
  by (simp add: same_target_def)

lemma same_target_effects [simp]:
  "same_target p (verified t p)" "same_target p (cleaned t p)" "same_target p (linked_publication m l t p)"
  by (simp_all add: same_target_def verified_def cleaned_def linked_publication_def)

lemma effect_states [simp]:
  "up_state (cleaned t p) = up_state p" "up_state (linked_publication m l t p) = up_state p"
  by (simp_all add: cleaned_def linked_publication_def)

fun commits :: "pipeline_command \<Rightarrow> (uuid \<times> uuid) option" where
  "commits (CommitVerified i pid v pv t) = Some (i, pid)"
| "commits _ = None"

text \<open>A command leaves a publication alone, adds a reservation, keeps its target and state, or is
  the commit of that publication.\<close>

definition publication_step ::
    "(uuid \<times> uuid) option \<Rightarrow> uuid \<Rightarrow> upload_publication option \<Rightarrow> upload_publication option \<Rightarrow> bool" where
  "publication_step commit i old new \<longleftrightarrow> new = old
     \<or> (old = None \<and> (\<exists>r. new = Some r \<and> up_state r = P_RESERVED))
     \<or> (\<exists>p q. old = Some p \<and> new = Some q \<and> same_target p q
          \<and> (up_state q = up_state p \<or> commit = Some (i, up_publication_id p)))"

lemma publication_step_refl: "publication_step c i p p"
  by (simp add: publication_step_def)

lemma publication_step_frame:
  "upload_publications db' = upload_publications db \<Longrightarrow>
     publication_step c i (stored_publication db i) (stored_publication db' i)"
  using stored_publication_frame [of db' db] by (simp add: publication_step_refl)

text \<open>The tables the session repository does not write.\<close>

definition catalog_tables ::
    "catalog_db \<Rightarrow> publication_row list \<times> media_row list \<times> location_row list" where
  "catalog_tables db = (upload_publications db, logical_media_rows db, physical_media_locations db)"

lemma catalog_tables_update [simp]:
  "catalog_tables (db\<lparr>upload_sessions := us\<rparr>) = catalog_tables db"
  "catalog_tables (db\<lparr>media_byte_identities := ids\<rparr>) = catalog_tables db"
  by (simp_all add: catalog_tables_def)

abbreviation keeps_catalog :: "(catalog_db \<Rightarrow> 'e + 'a \<times> catalog_db) \<Rightarrow> bool" where
  "keeps_catalog f \<equiv>
     \<forall>db r db'. f db = Inr (r, db') \<longrightarrow> catalog_tables db' = catalog_tables db"

lemma transaction_frame:
  assumes "keeps_catalog f"
  shows "catalog_tables (snd (run_in_transaction f db)) = catalog_tables db"
    and "catalog_tables (snd (run_in_immediate_transaction f db)) = catalog_tables db"
  using assms
  by (cases "f db"; simp add: run_in_transaction_def run_in_immediate_transaction_def split: prod.split)+

lemma update_session_row_frame:
  "update_session_row i g f d db = Inr (s, db') \<Longrightarrow> catalog_tables db' = catalog_tables db"
proof (cases "sql_update upload_row_ok (\<lambda>r. ur_id r = uuid_to_text i \<and> g r) f (upload_sessions db)")
  case (Some x)
  then show "update_session_row i g f d db = Inr (s, db') \<Longrightarrow> ?thesis"
    by (cases x) (auto simp: update_session_row_def and_then_Inr Let_def split: if_splits)
qed (simp add: update_session_row_def)

lemma byte_identity_frame:
  assumes "get_or_create_byte_identity_in b db = Inr (r, db')"
  shows "catalog_tables db' = catalog_tables db"
proof -
  obtain db1 where "insert_identity_row b db = Inr db1" "db' = db1"
    using assms by (auto simp: get_or_create_byte_identity_in_def and_then_Inr split: option.splits)
  then show ?thesis by (auto simp: insert_identity_row_def Let_def split: if_splits)
qed

lemma create_frame: "keeps_catalog (create_session_in s)"
proof (intro allI impI)
  fix db r db'
  assume "create_session_in s db = Inr (r, db')"
  then show "catalog_tables db' = catalog_tables db"
    unfolding create_session_in_def
    by (auto simp: and_then_Inr Let_def case_prod_beta dest: byte_identity_frame
        split: option.splits if_splits)
qed

lemma update_row_frame: "keeps_catalog (update_session_row i g f d)"
  using update_session_row_frame by blast

lemma complete_frame: "keeps_catalog (complete_validation_in new i v h k f t)"
proof (intro allI impI)
  fix db r db'
  assume a: "complete_validation_in new i v h k f t db = Inr (r, db')"
  then obtain row where row: "row_by_id i db = Some row"
    by (cases "row_by_id i db") (simp_all add: complete_validation_in_def)
  show "catalog_tables db' = catalog_tables db"
  proof (cases "row_has_matching_validation_success_evidence row h k f")
    case True
    with a row show ?thesis by (simp add: complete_validation_in_def and_then_Inr split: if_splits)
  next
    case False
    with a row show ?thesis
      unfolding complete_validation_in_def
      by (auto simp: and_then_Inr Let_def case_prod_beta dest!: update_session_row_frame byte_identity_frame)
  qed
qed

lemma argument_frame:
  "(\<And>x. catalog_tables (snd (g x)) = catalog_tables db) \<Longrightarrow>
     catalog_tables (snd (case m of Inl e \<Rightarrow> (h e, db) | Inr x \<Rightarrow> g x)) = catalog_tables db"
  by (cases m) simp_all

lemmas row_frames = transaction_frame(1) [OF update_row_frame]

lemma session_command_tables:
  "catalog_tables (run_command (CreateUpload s) db) = catalog_tables db"
  "catalog_tables (run_command (AdvanceOffset i e n v t) db) = catalog_tables db"
  "catalog_tables (run_command (RecordChecksum i st v h t) db) = catalog_tables db"
  "catalog_tables (run_command (TransitionUpload i st tg v t code) db) = catalog_tables db"
  "catalog_tables (run_command (StartValidation i v t) db) = catalog_tables db"
  "catalog_tables (run_command (CompleteValidation new i v h k f t) db) = catalog_tables db"
  "catalog_tables (run_command (RejectValidation i v rcode t) db) = catalog_tables db"
  "catalog_tables (run_command (RecordDisposition i v d t) db) = catalog_tables db"
proof -
  show "catalog_tables (run_command (CreateUpload s) db) = catalog_tables db"
    unfolding run_command.simps create_session_def by (rule transaction_frame(1) [OF create_frame])
  show "catalog_tables (run_command (CompleteValidation new i v h k f t) db) = catalog_tables db"
    unfolding run_command.simps complete_validation_success_def
    by (rule argument_frame) (simp only: case_prod_beta transaction_frame(2) [OF complete_frame])
  show "catalog_tables (run_command (RecordDisposition i v d t) db) = catalog_tables db"
    unfolding run_command.simps record_duplicate_disposition_def
    by (cases d) (simp_all only: enum_arg.case snd_conv argument_frame [OF row_frames])
qed (unfold run_command.simps advance_received_offset_def record_completed_checksum_def
      transition_state_def start_validation_def reject_validation_def Let_def,
    (rule argument_frame, rule row_frames)+)

lemma tables_publications:
  "catalog_tables db' = catalog_tables db \<Longrightarrow> upload_publications db' = upload_publications db"
  by (simp add: catalog_tables_def)

lemmas session_command_frame = session_command_tables [THEN tables_publications]

lemma pipeline_rows: "pipeline_ok db \<Longrightarrow> session_rows_ok db \<and> publication_rows_ok db"
  by (simp add: pipeline_ok_def evidence_store_ok_def)

text \<open>What a command does to the stored publications: nothing; it adds a reservation of a pending
  upload; it changes the publication of an upload that is not cataloged yet, keeping its target
  and, unless it commits it, its state; or it detaches the publication of removed media.\<close>

definition publications_change ::
    "pipeline_command \<Rightarrow> catalog_db \<Rightarrow> (uuid \<Rightarrow> upload_publication option) \<Rightarrow> bool" where
  "publications_change c db new \<longleftrightarrow> new = stored_publication db
     \<or> (\<exists>j s r. stored_session db j = Some s \<and> us_state s = U_PUBLISH_PENDING
          \<and> stored_publication db j = None \<and> up_state r = P_RESERVED
          \<and> new = (stored_publication db)(j \<mapsto> r))
     \<or> (\<exists>j s p q. stored_session db j = Some s \<and> us_state s \<in> {U_PUBLISH_PENDING, U_PUBLISHED}
          \<and> stored_publication db j = Some p \<and> same_target p q
          \<and> (up_state q = up_state p \<or> commits c = Some (j, up_publication_id p))
          \<and> new = (stored_publication db)(j \<mapsto> q))
     \<or> (\<exists>outside m n. c = RemoveMedia outside m \<and> fst (remove_catalog_media outside m db) = Inr n
          \<and> new = (\<lambda>i. map_option (detached m) (stored_publication db i)))"

lemma publications_unchanged: "publications_change c db (stored_publication db)"
  by (simp add: publications_change_def)

lemma publications_framed:
  "upload_publications db' = upload_publications db \<Longrightarrow> publications_change c db (stored_publication db')"
  using stored_publication_frame [of db' db] publications_unchanged by metis

lemma publications_updated:
  "stored_session db j = Some s \<Longrightarrow> us_state s \<in> {U_PUBLISH_PENDING, U_PUBLISHED} \<Longrightarrow>
   stored_publication db j = Some p \<Longrightarrow> new = (stored_publication db)(j \<mapsto> q) \<Longrightarrow> same_target p q \<Longrightarrow>
   up_state q = up_state p \<or> commits c = Some (j, up_publication_id p) \<Longrightarrow> publications_change c db new"
  unfolding publications_change_def by blast

lemma immediate_change:
  assumes "\<And>r db'. f db = Inr (r, db') \<Longrightarrow> publications_change c db (stored_publication db')"
  shows "publications_change c db (stored_publication (snd (run_in_immediate_transaction f db)))"
  using assms by (cases rule: run_immediate_cases [of f db]) (simp_all add: publications_unchanged)

lemma appended_publications:
  "pipeline_ok db \<Longrightarrow> appends_media db db' \<Longrightarrow> publications_change c db (stored_publication db')"
  using appends_ok(3) publications_unchanged by metis

lemma insertion_appends:
  "appends_media db (run_command (AddMedia m) db)" "appends_media db (run_command (AddLocation l) db)"
  "appends_media db (run_command (AddMediaWithLocation m l) db)"
  by (simp_all only: run_command.simps insertions_append)

lemma command_changes_publications:
  assumes ok: "pipeline_ok db" and v: "valid_command c"
  shows "publications_change c db (stored_publication (run_command c db))"
proof -
  have ss: "session_rows_ok db" and ps: "publication_rows_ok db" using pipeline_rows [OF ok] by auto
  show ?thesis
  proof (cases c)
    case (ReserveTarget r n)
    have "publications_change c db
        (stored_publication (snd (run_in_immediate_transaction (get_or_create_reservation_in r n) db)))"
    proof (rule immediate_change)
      fix x db' assume "get_or_create_reservation_in r n db = Inr (x, db')"
      from reservation_ok [OF ss ps _ this] v ReserveTarget
      show "publications_change c db (stored_publication db')"
        unfolding publications_change_def by auto
    qed
    then show ?thesis
      by (cases "0 \<le> n") (simp_all add: ReserveTarget get_or_create_reservation_def publications_unchanged)
  next
    case (CommitVerified j pid n m t)
    have "publications_change c db
        (stored_publication (snd (run_in_immediate_transaction (commit_verified_in j pid n m t) db)))"
    proof (rule immediate_change)
      fix x db' assume "commit_verified_in j pid n m t db = Inr (x, db')"
      from commit_verified_ok [OF ss ps this] CommitVerified
      show "publications_change c db (stored_publication db')"
        by (auto simp: publications_unchanged intro: publications_updated)
    qed
    then show ?thesis
      unfolding CommitVerified run_command.simps commit_verified_publication_def
      by (simp add: publications_unchanged del: publication_repo_non_negative.simps split: sum.split)
  next
    case (MarkCleanup j pid m t)
    have "publications_change c db
        (stored_publication (snd (run_in_immediate_transaction (mark_cleanup_in j pid m t) db)))"
    proof (rule immediate_change)
      fix x db' assume "mark_cleanup_in j pid m t db = Inr (x, db')"
      from mark_cleanup_ok [OF ss ps this]
      show "publications_change c db (stored_publication db')"
        by (auto simp: publications_unchanged intro: publications_updated)
    qed
    then show ?thesis
      unfolding MarkCleanup run_command.simps mark_cleanup_complete_def
      by (simp add: publications_unchanged del: publication_repo_non_negative.simps split: sum.split)
  next
    case (CommitCataloged j m l n k t d)
    have "publications_change c db
        (stored_publication (snd (run_in_immediate_transaction (commit_cataloged_in j m l n k t d) db)))"
    proof (rule immediate_change)
      fix x db' assume "commit_cataloged_in j m l n k t d db = Inr (x, db')"
      from commit_cataloged_ok [OF ss ps _ _ this] v CommitCataloged
      show "publications_change c db (stored_publication db')"
        by (auto simp: publications_unchanged intro: publications_updated)
    qed
    then show ?thesis
      unfolding CommitCataloged run_command.simps commit_cataloged_publication_def
      by (simp add: publications_unchanged del: publication_repo_non_negative.simps all_checks_Cons_Inr
          split: sum.split)
  next
    case (RemoveMedia outside m)
    show ?thesis
    proof (cases "remove_catalog_media_in outside m db")
      case (Inl e)
      then show ?thesis
        by (simp add: RemoveMedia remove_catalog_media_def run_in_immediate_transaction_def publications_unchanged)
    next
      case (Inr x)
      obtain n db' where x: "x = (n, db')" by (cases x)
      have "stored_publication db' = (\<lambda>i. map_option (detached m) (stored_publication db i))"
        using removal_ok(3) [OF ok Inr [unfolded x]] by blast
      then show ?thesis
        using Inr x by (auto simp: RemoveMedia remove_catalog_media_def run_in_immediate_transaction_def
            publications_change_def)
    qed
  qed (simp_all only: publications_framed [OF session_command_frame(1)]
      publications_framed [OF session_command_frame(2)] publications_framed [OF session_command_frame(3)]
      publications_framed [OF session_command_frame(4)] publications_framed [OF session_command_frame(5)]
      publications_framed [OF session_command_frame(6)] publications_framed [OF session_command_frame(7)]
      publications_framed [OF session_command_frame(8)]
      appended_publications [OF ok insertion_appends(1)] appended_publications [OF ok insertion_appends(2)]
      appended_publications [OF ok insertion_appends(3)])
qed

lemma publication_command_step:
  assumes ok: "pipeline_ok db" and v: "valid_command c"
  shows "publication_step (commits c) i (stored_publication db i) (stored_publication (run_command c db) i)"
proof -
  have d: "same_target p (detached m p)" for m p by (simp add: same_target_def detached_def)
  show ?thesis
    using command_changes_publications [OF ok v] unfolding publications_change_def
  proof (elim disjE exE conjE)
    fix outside m n
    assume "stored_publication (run_command c db) = (\<lambda>i. map_option (detached m) (stored_publication db i))"
    then show ?thesis using d by (cases "stored_publication db i") (auto simp: publication_step_def)
  qed (auto simp: publication_step_def)
qed

text \<open>The publication of a cataloged upload stays as it is until its media is removed.\<close>

lemma cataloged_publication_step:
  assumes ok: "pipeline_ok db" and v: "valid_command c"
    and s: "stored_session db i = Some s" "us_state s = U_CATALOGED" and p: "stored_publication db i = Some p"
  shows "stored_publication (run_command c db) i = Some p
    \<or> (\<exists>outside m n. c = RemoveMedia outside m \<and> fst (remove_catalog_media outside m db) = Inr n
         \<and> up_media_id p = Some m \<and> stored_publication (run_command c db) i = Some (detached m p))"
  using command_changes_publications [OF ok v] unfolding publications_change_def
proof (elim disjE exE conjE)
  fix outside m n
  assume a: "c = RemoveMedia outside m" "fst (remove_catalog_media outside m db) = Inr n"
    "stored_publication (run_command c db) = (\<lambda>i. map_option (detached m) (stored_publication db i))"
  show ?thesis
  proof (cases "up_media_id p = Some m")
    case False
    then show ?thesis using a(3) p by (simp add: detached_def)
  qed (use a p in auto)
qed (use s p in auto)

section \<open>The keys of the catalog rows\<close>

lemma tables_keys: "catalog_tables db' = catalog_tables db \<Longrightarrow> catalog_keys_ok db \<Longrightarrow> catalog_keys_ok db'"
  by (simp add: catalog_tables_def catalog_keys_ok_def)

lemma publications_keys [simp]:
  "catalog_keys_ok (db\<lparr>upload_publications := ps\<rparr>) = catalog_keys_ok db"
  "catalog_keys_ok (db\<lparr>upload_sessions := us\<rparr>) = catalog_keys_ok db"
  by (simp_all add: catalog_keys_ok_def)

lemma grown_keys: "catalog_grown db m l db' \<Longrightarrow> catalog_keys_ok db \<Longrightarrow> catalog_keys_ok db'"
  by (auto simp: catalog_grown_def catalog_keys_ok_def media_values_def location_values_def)

lemma immediate_keys:
  assumes "\<And>r db'. f db = Inr (r, db') \<Longrightarrow> catalog_keys_ok db'" and "catalog_keys_ok db"
  shows "catalog_keys_ok (snd (run_in_immediate_transaction f db))"
  using assms by (cases rule: run_immediate_cases [of f db]) simp_all

lemma command_keys:
  assumes ok: "pipeline_ok db" and v: "valid_command c" and k: "catalog_keys_ok db"
  shows "catalog_keys_ok (run_command c db)"
proof -
  have ss: "session_rows_ok db" and ps: "publication_rows_ok db" using pipeline_rows [OF ok] by auto
  show ?thesis
  proof (cases c)
    case (ReserveTarget r n)
    have "catalog_keys_ok (snd (run_in_immediate_transaction (get_or_create_reservation_in r n) db))"
      using reservation_ok [OF ss ps] v ReserveTarget k by (intro immediate_keys) force+
    then show ?thesis
      using k by (cases "0 \<le> n") (simp_all add: ReserveTarget get_or_create_reservation_def)
  next
    case (CommitVerified j pid n m t)
    have "catalog_keys_ok (snd (run_in_immediate_transaction (commit_verified_in j pid n m t) db))"
      using commit_verified_ok [OF ss ps] k by (intro immediate_keys) force+
    then show ?thesis
      using k unfolding CommitVerified run_command.simps commit_verified_publication_def
      by (simp del: publication_repo_non_negative.simps split: sum.split)
  next
    case (MarkCleanup j pid m t)
    have "catalog_keys_ok (snd (run_in_immediate_transaction (mark_cleanup_in j pid m t) db))"
      using mark_cleanup_ok [OF ss ps] k by (intro immediate_keys) force+
    then show ?thesis
      using k unfolding MarkCleanup run_command.simps mark_cleanup_complete_def
      by (simp del: publication_repo_non_negative.simps split: sum.split)
  next
    case (CommitCataloged j m l n q t d)
    have "catalog_keys_ok db'" if "commit_cataloged_in j m l n q t d db = Inr (x, db')" for x db'
      using commit_cataloged_ok [OF ss ps _ _ that] v CommitCataloged k grown_keys by fastforce
    then have "catalog_keys_ok (snd (run_in_immediate_transaction (commit_cataloged_in j m l n q t d) db))"
      using k by (intro immediate_keys)
    then show ?thesis
      using k unfolding CommitCataloged run_command.simps commit_cataloged_publication_def
      by (simp del: publication_repo_non_negative.simps all_checks_Cons_Inr split: sum.split)
  next
    case (RemoveMedia outside m)
    have "catalog_keys_ok (snd (run_in_immediate_transaction (remove_catalog_media_in outside m) db))"
      using removal_effect(1) without_keys [OF k] k by (intro immediate_keys) metis+
    then show ?thesis by (simp add: RemoveMedia remove_catalog_media_def)
  qed (simp_all only: appends_keys [OF insertion_appends(1) k] appends_keys [OF insertion_appends(2) k]
      appends_keys [OF insertion_appends(3) k] tables_keys [OF session_command_tables(1) k]
      tables_keys [OF session_command_tables(2) k] tables_keys [OF session_command_tables(3) k]
      tables_keys [OF session_command_tables(4) k] tables_keys [OF session_command_tables(5) k]
      tables_keys [OF session_command_tables(6) k] tables_keys [OF session_command_tables(7) k]
      tables_keys [OF session_command_tables(8) k])
qed

lemma reachable_keys: "pipeline_reachable db \<Longrightarrow> catalog_keys_ok db"
proof (induction rule: pipeline_reachable.induct)
  case (step db c)
  then show ?case using command_keys reachable_pipeline_ok by blast
qed (simp add: catalog_keys_ok_def empty_catalog_def)

section \<open>How a cataloged upload loses its media\<close>

definition pipeline_run :: "pystr list \<Rightarrow> pystr list \<Rightarrow> pipeline_command list \<Rightarrow> catalog_db" where
  "pipeline_run libs tags cs =
     fold run_command cs (empty_catalog\<lparr>libraries := libs, canonical_tags := tags\<rparr>)"

lemma pipeline_run_snoc: "pipeline_run libs tags (cs @ [c]) = run_command c (pipeline_run libs tags cs)"
  by (simp add: pipeline_run_def)

lemma run_reachable: "list_all valid_command cs \<Longrightarrow> pipeline_reachable (pipeline_run libs tags cs)"
proof (induction cs rule: rev_induct)
  case Nil
  then show ?case by (simp add: pipeline_run_def pipeline_reachable.start)
next
  case (snoc c cs)
  then show ?case by (simp add: pipeline_run_snoc pipeline_reachable.step)
qed

text \<open>A removal in the run that succeeded and took the media the upload's publication named.\<close>

definition removed_in_run ::
    "pystr list \<Rightarrow> pystr list \<Rightarrow> pipeline_command list \<Rightarrow> uuid \<Rightarrow> bool" where
  "removed_in_run libs tags cs i \<longleftrightarrow>
     (\<exists>before outside m n after p. cs = before @ RemoveMedia outside m # after
        \<and> fst (remove_catalog_media outside m (pipeline_run libs tags before)) = Inr n
        \<and> stored_publication (pipeline_run libs tags before) i = Some p \<and> up_media_id p = Some m)"

lemma removed_later: "removed_in_run libs tags cs i \<Longrightarrow> removed_in_run libs tags (cs @ ds) i"
  unfolding removed_in_run_def by (metis append.assoc append_Cons)

lemma cataloged_without_media:
  "list_all valid_command cs \<Longrightarrow> stored_session (pipeline_run libs tags cs) i = Some s \<Longrightarrow>
   us_state s = U_CATALOGED \<Longrightarrow> stored_publication (pipeline_run libs tags cs) i = Some p \<Longrightarrow>
   up_media_id p = None \<Longrightarrow> removed_in_run libs tags cs i"
proof (induction cs arbitrary: s p rule: rev_induct)
  case Nil
  have "stored_session (empty_catalog\<lparr>libraries := libs, canonical_tags := tags\<rparr>) i = None"
    by (simp add: stored_session_def row_by_id_def sql_first_def empty_catalog_def)
  then show ?case using Nil by (simp add: pipeline_run_def)
next
  case (snoc c cs)
  let ?db = "pipeline_run libs tags cs"
  have v: "list_all valid_command cs" "valid_command c" using snoc.prems(1) by simp_all
  have ok: "pipeline_ok ?db" by (rule reachable_pipeline_ok [OF run_reachable [OF v(1)]])
  note after = snoc.prems(2,4) [unfolded pipeline_run_snoc]
  obtain s0 where s0: "stored_session ?db i = Some s0" "us_state s0 = U_CATALOGED"
    using command_step [OF ok v(2)] after snoc.prems(3,5)
    unfolding step_ok_def catalogs_with_media_def by fastforce
  obtain p0 where p0: "stored_publication ?db i = Some p0"
    using ok s0 unfolding pipeline_ok_def by blast
  from cataloged_publication_step [OF ok v(2) s0 p0] show ?case
  proof (elim disjE exE conjE)
    assume "stored_publication (run_command c ?db) i = Some p0"
    then have "p = p0" using after(2) by simp
    then show ?thesis using removed_later snoc.IH [OF v(1) s0 p0] snoc.prems(5) by blast
  next
    fix outside m n
    assume "c = RemoveMedia outside m" "fst (remove_catalog_media outside m ?db) = Inr n"
      "up_media_id p0 = Some m"
    then show ?thesis using p0 unfolding removed_in_run_def by blast
  qed
qed

text \<open>
  In a reachable store the removal of media that nothing outside the store refuses succeeds: the
  media, its locations and its metadata are gone, every upload and every other row stays, and
  exactly the publications that named the media are detached.
\<close>

theorem removal_detaches:
  assumes "pipeline_reachable db" and "uuid_to_text m \<in> set (map mr_id (logical_media_rows db))"
  shows "\<exists>n. remove_catalog_media \<lparr>ro_media_bound = False, ro_refusal = None\<rparr> m db = (Inr n, catalog_without m db)
    \<and> n = length (filter (\<lambda>p. pr_media_id p = Some (uuid_to_text m)) (upload_publications db))
    \<and> stored_session (catalog_without m db) = stored_session db
    \<and> stored_publication (catalog_without m db) i = map_option (detached m) (stored_publication db i)"
proof -
  have ok: "pipeline_ok db" by (rule reachable_pipeline_ok [OF assms(1)])
  note r = removal_succeeds [OF ok reachable_keys [OF assms(1)] assms(2)]
  show ?thesis
    using r removal_ok(2,3) [OF ok r] by (simp add: remove_catalog_media_def run_in_immediate_transaction_def)
qed

end
