(* ===== verification/Pipeline_Samples.thy ===== *)
theory Pipeline_Samples
  imports Publication_History
begin

text \<open>
  Concrete values for the witnesses: a verified upload waiting for publication, the
  reservation, media and location that take it to the catalog, and the stores before and
  after it is created.
\<close>

definition sample_hex :: pystr where
  "sample_hex = replicate 64 97"

definition sample_upload :: upload_session where
  "sample_upload = \<lparr>us_id = sample_uuid 0, us_state = U_PUBLISH_PENDING,
     us_storage_key = lit ''abcdefghijklmnop'', us_display_filename = lit ''clip.mp4'',
     us_declared_size_bytes = 10, us_received_size_bytes = 10,
     us_checksum_algorithm = Some (lit ''sha256''), us_checksum_hex = Some sample_hex,
     us_created_at_ms = 1, us_updated_at_ms = 2, us_expires_at_ms = 1000,
     us_failure_code = None, us_version = 0, us_validated_media_kind = Some VIDEO,
     us_validated_format = Some MP4, us_byte_identity_id = Some (sample_uuid 1),
     us_duplicate_disposition = None, us_created_by_login_key = None,
     us_duplicate_resolution_mode = EXPLICIT\<rparr>"

definition sample_reservation :: upload_publication where
  "sample_reservation = \<lparr>up_upload_id = sample_uuid 0, up_publication_id = sample_uuid 2,
     up_destination_id = sample_uuid 3,
     up_relative_path = uuid_hex (sample_uuid 2) @ lit ''.mp4'',
     up_byte_identity_id = sample_uuid 1, up_expected_size_bytes = 10,
     up_checksum_algorithm = lit ''sha256'', up_checksum_hex = sample_hex,
     up_validated_media_kind = VIDEO, up_validated_format = MP4, up_state = P_RESERVED,
     up_cleanup_state = C_PENDING, up_created_at_ms = 3, up_updated_at_ms = 3,
     up_verified_at_ms = None, up_cleanup_completed_at_ms = None, up_version = 0,
     up_media_id = None, up_media_location_id = None\<rparr>"

definition sample_media :: logical_media where
  "sample_media = \<lparr>lm_id = sample_uuid 4, lm_kind = MK_VIDEO, lm_created_at_ms = 6,
     lm_updated_at_ms = 6\<rparr>"

definition sample_location :: media_location where
  "sample_location = \<lparr>ml_id = sample_uuid 1, ml_media_id = sample_uuid 4,
     ml_library_id = sample_uuid 3, ml_relative_path = uuid_hex (sample_uuid 2) @ lit ''.mp4'',
     ml_availability = AVAILABLE, ml_observed_size_bytes = Some 10, ml_observed_mtime_ns = None,
     ml_created_at_ms = 6, ml_updated_at_ms = 6\<rparr>"

definition sample_start :: catalog_db where
  "sample_start = empty_catalog\<lparr>libraries := [uuid_to_text (sample_uuid 3)], canonical_tags := []\<rparr>"

definition sample_pending :: catalog_db where
  "sample_pending = run_command (CreateUpload sample_upload) sample_start"

lemma is_uuid4_sample_one [simp]: "is_uuid4 (sample_uuid (Suc 0))"
  using is_uuid4_sample(2) by simp

lemma plain_name_normal:
  assumes "s \<noteq> []" and "0 \<notin> set s" and "47 \<notin> set s" and "92 \<notin> set s"
    and "length s \<le> 4096" and "s \<noteq> [46]" and "s \<noteq> [46, 46]"
  shows "normalize_relative_path (PyStr s) = Inr s"
proof -
  have a: "\<not> posix_is_absolute s" "\<not> windows_is_absolute s"
    using no_separator_not_absolute assms(3,4) by blast+
  then have "pure_posix_str s = s"
    using assms by (simp add: pure_posix_str_def posix_absolute_root Let_def)
  then show ?thesis
    using a assms by (simp add: normalize_relative_path_iff MAX_RELATIVE_PATH_CODE_POINTS_def
        map_backslash_id)
qed

lemma publication_path_normal:
  "normalize_relative_path (PyStr (uuid_hex u @ lit ''.'' @ validated_format_value f))
     = Inr (uuid_hex u @ lit ''.'' @ validated_format_value f)"
proof (rule plain_name_normal)
  have "list_all is_lower_hex (uuid_hex u)" by (rule uuid_hex_class)
  then show "0 \<notin> set (uuid_hex u @ lit ''.'' @ validated_format_value f)"
    "47 \<notin> set (uuid_hex u @ lit ''.'' @ validated_format_value f)"
    "92 \<notin> set (uuid_hex u @ lit ''.'' @ validated_format_value f)"
    by (cases f; auto simp: list_all_iff char_class_defs lit_def)+
  have "length (uuid_hex u @ lit ''.'' @ validated_format_value f) > 2" by simp
  then show "uuid_hex u @ lit ''.'' @ validated_format_value f \<noteq> [46]"
    "uuid_hex u @ lit ''.'' @ validated_format_value f \<noteq> [46, 46]" by fastforce+
qed (cases f; simp add: lit_def)+

lemma sample_hex_ok: "sha256_hex_pattern sample_hex"
  by (simp add: sha256_hex_pattern_def sample_hex_def matches_class_def list_all_iff
      char_class_defs)

lemma sample_upload_wf: "upload_session_wf sample_upload"
proof -
  have "upload_names_ok sample_upload"
    by (simp add: upload_names_ok_def sample_upload_def) code_simp
  moreover have "full_evidence sample_upload"
    using sample_hex_ok by (auto simp: full_evidence_def sample_upload_def
        ALLOWED_UPLOAD_VALIDATION_EVIDENCE_PAIRS_def)
  ultimately show ?thesis
    using sample_hex_ok
    by (auto simp: upload_wf_defs sample_upload_def checksum_pair_ok_def evidence_pair_ok_def
        ALLOWED_UPLOAD_VALIDATION_EVIDENCE_PAIRS_def)
qed

lemma sample_reservation_wf: "upload_publication_wf sample_reservation"
  using sample_hex_ok
  by (simp add: upload_publication_wf_def sample_reservation_def publication_progress_ok_def
      ALLOWED_UPLOAD_VALIDATION_EVIDENCE_PAIRS_def lit_def)

lemma sample_media_init: "logical_media_post_init sample_media = Inr ()"
  by (simp add: logical_media_post_init_def sample_media_def)

lemma sample_location_init: "media_location_post_init sample_location = Inr ()"
  using publication_path_normal [of "sample_uuid 2" MP4]
  by (simp add: media_location_post_init_def sample_location_def lit_def)

definition sample_identity :: media_byte_identity where
  "sample_identity = \<lparr>bi_id = sample_uuid 1, bi_checksum_algorithm = lit ''sha256'',
     bi_size_bytes = 10, bi_checksum_hex = sample_hex, bi_created_at_ms = 2\<rparr>"

lemma sample_identity_wf: "byte_identity_wf sample_identity"
  using sample_hex_ok by (simp add: byte_identity_wf_def sample_identity_def)

lemma sample_start_tables [simp]:
  "upload_sessions sample_start = []" "media_byte_identities sample_start = []"
  "upload_publications sample_start = []" "logical_media_rows sample_start = []"
  "physical_media_locations sample_start = []"
  "libraries sample_start = [uuid_to_text (sample_uuid 3)]"
  by (simp_all add: sample_start_def empty_catalog_def)

lemma sample_pending_eq:
  "sample_pending = sample_start\<lparr>media_byte_identities := [identity_values sample_identity],
     upload_sessions := [values_from_session sample_upload]\<rparr>"
proof -
  have row: "upload_row_ok (values_from_session sample_upload)"
    using values_row_ok [OF sample_upload_wf] by (simp add: login_key_lower_def sample_upload_def)
  have "identity_rows_ok sample_start" by (simp add: identity_rows_ok_def)
  from get_or_create_spec [OF this sample_identity_wf]
  have "get_or_create_byte_identity_in sample_identity sample_start = Inr (sample_identity,
      sample_start\<lparr>media_byte_identities := [identity_values sample_identity]\<rparr>)"
    by simp
  moreover have "media_byte_identity_post_init sample_identity = Inr ()"
    using sample_identity_wf by (simp add: byte_identity_post_init_iff)
  moreover have same: "(values_from_session sample_upload)\<lparr>ur_byte_identity_id
      := Some (uuid_to_text (sample_uuid 1))\<rparr> = values_from_session sample_upload"
    by (simp add: values_from_session_def sample_upload_def)
  moreover have fields: "us_byte_identity_id sample_upload = Some (sample_uuid 1)"
      "us_checksum_algorithm sample_upload = Some (lit ''sha256'')"
      "us_checksum_hex sample_upload = Some sample_hex" "bi_id sample_identity = sample_uuid 1"
      "\<lparr>bi_id = sample_uuid 1, bi_checksum_algorithm = lit ''sha256'',
         bi_size_bytes = us_declared_size_bytes sample_upload, bi_checksum_hex = sample_hex,
         bi_created_at_ms = us_updated_at_ms sample_upload\<rparr> = sample_identity"
    by (simp_all add: sample_upload_def sample_identity_def)
  ultimately have "create_session_in sample_upload sample_start = Inr ((), sample_start\<lparr>
      media_byte_identities := [identity_values sample_identity],
      upload_sessions := [values_from_session sample_upload]\<rparr>)"
    using row
    by (simp add: create_session_in_def row_by_id_def row_by_storage_key_def sql_first_def
        fields same Let_def del: One_nat_def)
  then show ?thesis by (simp add: sample_pending_def create_session_def)
qed

lemma sample_pending_reachable: "pipeline_reachable sample_pending"
proof -
  have "valid_command (CreateUpload sample_upload)"
    using sample_upload_wf by (simp add: sample_upload_def)
  then show ?thesis
    unfolding sample_pending_def sample_start_def
    by (intro pipeline_reachable.step pipeline_reachable.start)
qed

lemma sample_pending_session: "stored_session sample_pending (sample_uuid 0) = Some sample_upload"
proof -
  have "session_from_row (values_from_session sample_upload) = Inr sample_upload"
    by (simp add: session_from_values sample_upload_wf)
  moreover have "ur_id (values_from_session sample_upload) = uuid_to_text (sample_uuid 0)"
    by (simp add: sample_upload_def)
  ultimately show ?thesis
    by (simp add: stored_session_def row_by_id_def sql_first_def sample_pending_eq)
qed


section \<open>The store after the four publishing commands\<close>

lemma sample_pending_tables [simp]:
  "upload_publications sample_pending = []" "logical_media_rows sample_pending = []"
  "physical_media_locations sample_pending = []"
  "libraries sample_pending = [uuid_to_text (sample_uuid 3)]"
  by (simp_all add: sample_pending_eq)

lemma sample_no_publication: "stored_publication sample_pending i = None"
  by (simp add: stored_publication_def publication_row_of_def sql_first_def)

lemma sample_reservation_fits: "reservation_fits sample_pending sample_upload sample_reservation"
  using sample_reservation_wf sample_no_publication
  by (simp add: reservation_fits_def evidence_matches_def sample_reservation_def sample_upload_def)

lemma sample_entry_fits:
  "catalog_entry_fits sample_pending sample_reservation sample_media sample_location"
  using sample_media_init sample_location_init
  by (simp add: catalog_entry_fits_def sample_reservation_def sample_media_def sample_location_def)

definition sample_commands :: "pipeline_command list" where
  "sample_commands = publish_commands sample_upload sample_reservation sample_media sample_location 4 5 6"

definition sample_cataloged :: catalog_db where
  "sample_cataloged = fold run_command sample_commands sample_pending"

lemma sample_times: "us_created_at_ms sample_upload \<le> 4" "up_created_at_ms sample_reservation \<le> 4"
    "(4::int) \<le> 5" "(4::int) \<le> 6" "us_state sample_upload = U_PUBLISH_PENDING"
  by (simp_all add: sample_upload_def sample_reservation_def)

lemma sample_commands_valid: "list_all valid_command sample_commands"
  using sample_reservation_wf
  by (simp add: sample_commands_def publish_commands_def sample_reservation_def sample_media_def
      sample_location_def)

lemma reachable_fold:
  "pipeline_reachable db \<Longrightarrow> list_all valid_command cs \<Longrightarrow> pipeline_reachable (fold run_command cs db)"
  by (induction cs arbitrary: db) (auto intro: pipeline_reachable.step)

lemma sample_cataloged_reachable: "pipeline_reachable sample_cataloged"
  unfolding sample_cataloged_def
  by (rule reachable_fold [OF sample_pending_reachable sample_commands_valid])

lemma sample_cataloged_stored:
  "stored_session sample_cataloged (sample_uuid 0) = Some (cataloged 6 (published 4 sample_upload))"
  "stored_publication sample_cataloged (sample_uuid 0) = Some (linked_publication (sample_uuid 4)
     (sample_uuid 1) 6 (cleaned 5 (verified 4 sample_reservation)))"
proof -
  have "lm_id sample_media = sample_uuid 4" "ml_id sample_location = sample_uuid 1"
    by (simp_all add: sample_media_def sample_location_def)
  then show "stored_session sample_cataloged (sample_uuid 0) = Some (cataloged 6 (published 4 sample_upload))"
    "stored_publication sample_cataloged (sample_uuid 0) = Some (linked_publication (sample_uuid 4)
     (sample_uuid 1) 6 (cleaned 5 (verified 4 sample_reservation)))"
    using publish_path(2,3) [OF reachable_pipeline_ok [OF sample_pending_reachable]
        sample_pending_session sample_times(5) sample_reservation_fits sample_entry_fits
        sample_times(1-4) sample_cataloged_def [unfolded sample_commands_def]]
    by simp_all
qed

section \<open>The store after the media is removed\<close>

definition sample_run :: "pipeline_command list" where
  "sample_run = CreateUpload sample_upload # sample_commands"

definition sample_removal :: "pipeline_command list" where
  "sample_removal = sample_run @ [RemoveMedia \<lparr>ro_media_bound = False, ro_refusal = None\<rparr> (sample_uuid 4)]"

lemma sample_run_valid: "list_all valid_command sample_run" "list_all valid_command sample_removal"
  using sample_commands_valid sample_upload_wf
  by (simp_all add: sample_run_def sample_removal_def sample_upload_def)

lemma sample_run_cataloged: "pipeline_run [uuid_to_text (sample_uuid 3)] [] sample_run = sample_cataloged"
  by (simp add: pipeline_run_def sample_run_def sample_cataloged_def sample_pending_def sample_start_def)

lemma sample_removed_stored:
  "stored_session (pipeline_run [uuid_to_text (sample_uuid 3)] [] sample_removal) (sample_uuid 0)
    = Some (cataloged 6 (published 4 sample_upload))"
  "stored_publication (pipeline_run [uuid_to_text (sample_uuid 3)] [] sample_removal) (sample_uuid 0)
    = Some (detached (sample_uuid 4) (linked_publication (sample_uuid 4) (sample_uuid 1) 6
        (cleaned 5 (verified 4 sample_reservation))))"
proof -
  have "catalog_links_resolve sample_cataloged (linked_publication (sample_uuid 4) (sample_uuid 1) 6
      (cleaned 5 (verified 4 sample_reservation)))"
    using pipeline_stored_publication(4) [OF reachable_pipeline_ok [OF sample_cataloged_reachable]
        sample_cataloged_stored(2,1)] by simp
  then have "uuid_to_text (sample_uuid 4) \<in> set (map mr_id (logical_media_rows sample_cataloged))"
    by (simp add: catalog_links_resolve_def)
  note r = removal_detaches [OF sample_cataloged_reachable this, of "sample_uuid 0"]
  have "pipeline_run [uuid_to_text (sample_uuid 3)] [] sample_removal
      = catalog_without (sample_uuid 4) sample_cataloged"
    using r by (auto simp: sample_removal_def pipeline_run_snoc sample_run_cataloged)
  then show "stored_session (pipeline_run [uuid_to_text (sample_uuid 3)] [] sample_removal) (sample_uuid 0)
    = Some (cataloged 6 (published 4 sample_upload))"
    "stored_publication (pipeline_run [uuid_to_text (sample_uuid 3)] [] sample_removal) (sample_uuid 0)
    = Some (detached (sample_uuid 4) (linked_publication (sample_uuid 4) (sample_uuid 1) 6
        (cleaned 5 (verified 4 sample_reservation))))"
    using r sample_cataloged_stored by auto
qed

section \<open>A store with one unchecked session\<close>

definition sample_unchecked :: upload_session where
  "sample_unchecked = sample_upload\<lparr>us_state := U_VALIDATING, us_checksum_algorithm := None,
     us_checksum_hex := None, us_validated_media_kind := None, us_validated_format := None,
     us_byte_identity_id := None\<rparr>"

definition sample_checking :: catalog_db where
  "sample_checking = run_command (CreateUpload sample_unchecked) sample_start"

lemma sample_unchecked_wf: "upload_session_wf sample_unchecked"
proof -
  have "upload_names_ok sample_unchecked"
    using sample_upload_wf by (simp add: upload_session_wf_def upload_names_ok_def sample_unchecked_def)
  then show ?thesis
    by (simp add: upload_wf_defs sample_unchecked_def sample_upload_def checksum_pair_ok_def
        evidence_pair_ok_def VALIDATED_UPLOAD_SESSION_STATES_def upload_names_ok_def)
qed

lemma create_plain:
  assumes "upload_session_wf s" and "us_byte_identity_id s = None" and "us_created_by_login_key s = None"
  shows "create_session s sample_start
    = (Inr (), sample_start\<lparr>upload_sessions := [values_from_session s]\<rparr>)"
  using values_row_ok [OF assms(1)] assms
  by (simp add: create_session_def create_session_in_def row_by_id_def row_by_storage_key_def
      sql_first_def login_key_lower_def)

lemma stored_plain:
  assumes "upload_session_wf s"
  shows "stored_session (sample_start\<lparr>upload_sessions := [values_from_session s]\<rparr>) (us_id s) = Some s"
  by (simp add: stored_session_def row_by_id_def sql_first_def session_from_values assms)

lemma sample_checking_reachable: "pipeline_reachable sample_checking"
proof -
  have "valid_command (CreateUpload sample_unchecked)"
    using sample_unchecked_wf by (simp add: sample_unchecked_def)
  then show ?thesis
    unfolding sample_checking_def sample_start_def
    by (intro pipeline_reachable.step pipeline_reachable.start)
qed

lemma sample_checking_eq:
  "sample_checking = sample_start\<lparr>upload_sessions := [values_from_session sample_unchecked]\<rparr>"
  using create_plain [OF sample_unchecked_wf]
  by (simp add: sample_checking_def sample_unchecked_def sample_upload_def)

lemma sample_checking_session: "stored_session sample_checking (sample_uuid 0) = Some sample_unchecked"
  using stored_plain [OF sample_unchecked_wf]
  by (simp add: sample_checking_eq sample_unchecked_def sample_upload_def)

lemma sample_checking_identities: "media_byte_identities sample_checking = []"
  by (simp add: sample_checking_eq)

end
