(* ===== verification/Upload_Concurrency.thy ===== *)
theory Upload_Concurrency
  imports Upload_History
begin

text \<open>
  Optimistic concurrency: every command that carries an expected session version changes
  nothing when the stored session has another one, so of two commands prepared against the
  same version at most one takes effect.
\<close>

fun expected_session_version :: "pipeline_command \<Rightarrow> (uuid \<times> int) option" where
  "expected_session_version (CreateUpload s) = None"
| "expected_session_version (AdvanceOffset i e n v t) = Some (i, v)"
| "expected_session_version (RecordChecksum i st v h t) = Some (i, v)"
| "expected_session_version (TransitionUpload i st tg v t code) = Some (i, v)"
| "expected_session_version (StartValidation i v t) = Some (i, v)"
| "expected_session_version (CompleteValidation new i v h k f t) = Some (i, v)"
| "expected_session_version (RejectValidation i v code t) = Some (i, v)"
| "expected_session_version (RecordDisposition i v d t) = Some (i, v)"
| "expected_session_version (ReserveTarget p v) = Some (up_upload_id p, v)"
| "expected_session_version (CommitVerified i pid v pv t) = Some (i, v)"
| "expected_session_version (MarkCleanup i pid pv t) = None"
| "expected_session_version (CommitCataloged i m l v pv t d) = Some (i, v)"
| "expected_session_version _ = None"

context versioned_update
begin

lemma stale_snd:
  assumes "pipeline_ok db" and "stored_session db i = Some s" and "us_version s \<noteq> expected_version"
  shows "snd (run_in_transaction (update_session_row i row_guard row_change row_diagnose) db) = db"
  using stale [of db i "fst (run_in_transaction (update_session_row i row_guard row_change
      row_diagnose) db)" "snd (run_in_transaction (update_session_row i row_guard row_change
      row_diagnose) db)"] assms
  by (auto simp: pipeline_ok_def evidence_store_ok_def)

end

lemma run_immediate_snd:
  "(\<And>c db'. f db = Inr (c, db') \<Longrightarrow> db' = db) \<Longrightarrow> snd (run_in_immediate_transaction f db) = db"
  by (cases rule: run_immediate_cases [of f db]) auto

lemma stale_complete:
  assumes ok: "pipeline_ok db" and s: "stored_session db i = Some s" and v: "us_version s \<noteq> v"
    and new: "is_uuid4 new"
  shows "snd (complete_validation_success new i v h k f t db) = db"
proof (cases "and_then (validate_sha256_checksum_hex (PyStr h)) (\<lambda>checksum.
    and_then (validate_upload_validation_evidence k f) (\<lambda>(kind, format).
    and_then (all_checks [repo_validate_non_negative (PyInt v), repo_validate_non_negative (PyInt t)])
      (\<lambda>_. Inr (checksum, kind, format))))")
  case (Inl e)
  show ?thesis unfolding complete_validation_success_def Inl sum.case snd_conv ..
next
  case (Inr x)
  then obtain k' f' where x: "x = (h, k', f')" and h: "sha256_hex_pattern h" and t: "0 \<le> t"
    by (auto simp: and_then_Inr split: if_splits prod.splits)
  have ev: "evidence_store_ok db" using ok by (simp add: pipeline_ok_def)
  have "complete_refusal v h s \<noteq> None" using v by (simp add: complete_refusal_def)
  then have "db' = db" if "complete_validation_in new i v h k' f' t db = Inr (c, db')" for c db'
    using complete_in_refusals(2,3) [OF ev new h t s, where k = k' and f = f' and v = v] that
    by (cases "replayed_success h k' f' s") auto
  then show ?thesis
    unfolding complete_validation_success_def Inr sum.case x prod.case by (rule run_immediate_snd)
qed

lemma stale_publication_commands:
  assumes ok: "pipeline_ok db" and s: "stored_session db i = Some s" and v: "us_version s \<noteq> v"
  shows "snd (commit_verified_publication i pid v pv t db) = db"
    and "is_uuid4 (lm_id m) \<Longrightarrow> is_uuid4 (ml_id l) \<Longrightarrow>
      snd (commit_cataloged_publication i m l v pv t d db) = db"
    and "upload_publication_wf p \<Longrightarrow> up_upload_id p = i \<Longrightarrow>
      snd (get_or_create_reservation p v db) = db"
proof -
  have ss: "session_rows_ok db" and ps: "publication_rows_ok db"
    using ok by (auto simp: pipeline_ok_def evidence_store_ok_def)
  have "db' = db" if "commit_verified_in i pid v pv t db = Inr (c, db')" for c db'
    using commit_verified_ok [OF ss ps that] s v by force
  then show "snd (commit_verified_publication i pid v pv t db) = db"
    unfolding commit_verified_publication_def
    by (auto split: sum.split simp del: publication_repo_non_negative.simps intro: run_immediate_snd)
  show "snd (commit_cataloged_publication i m l v pv t d db) = db"
    if "is_uuid4 (lm_id m)" "is_uuid4 (ml_id l)"
  proof -
    have "db' = db" if r: "commit_cataloged_in i m l v pv t d db = Inr (c, db')" for c db'
      using commit_cataloged_ok [OF ss ps \<open>is_uuid4 (lm_id m)\<close> \<open>is_uuid4 (ml_id l)\<close> r] s v by force
    then show ?thesis
      unfolding commit_cataloged_publication_def
      by (auto split: sum.split simp del: publication_repo_non_negative.simps intro: run_immediate_snd)
  qed
  show "snd (get_or_create_reservation p v db) = db"
    if w: "upload_publication_wf p" and i: "up_upload_id p = i"
  proof -
    have "db' = db" if r: "get_or_create_reservation_in p v db = Inr (c, db')" for c db'
      using reservation_ok [OF ss ps w r] s v i by force
    then show ?thesis
      unfolding get_or_create_reservation_def
      by (auto split: sum.split simp del: publication_repo_non_negative.simps intro: run_immediate_snd)
  qed
qed

lemma stale_session_commands:
  assumes ok: "pipeline_ok db" and s: "stored_session db i = Some s" and v: "us_version s \<noteq> v"
  shows "snd (advance_received_offset i e n v t db) = db"
    and "snd (record_completed_checksum i st v h t db) = db"
    and "snd (transition_state i st tg v t code db) = db"
    and "snd (start_validation i v t db) = db"
    and "snd (reject_validation i v c t db) = db"
    and "snd (record_duplicate_disposition i v d t db) = db"
proof -
  show "snd (advance_received_offset i e n v t db) = db"
    unfolding advance_received_offset_def Let_def
    by (auto split: sum.split intro: advance_update.stale_snd [OF ok s v])
  show "snd (record_completed_checksum i st v h t db) = db"
    unfolding record_completed_checksum_def
    by (auto split: sum.split intro: checksum_update.stale_snd [OF ok s v])
  show "snd (transition_state i st tg v t code db) = db"
    unfolding transition_state_def
    by (auto split: sum.split intro: transition_update.stale_snd [OF ok s v])
  show "snd (start_validation i v t db) = db"
    unfolding start_validation_def
    by (auto split: sum.split intro: start_update.stale_snd [OF ok s v])
  show "snd (reject_validation i v c t db) = db"
    unfolding reject_validation_def
    by (auto split: sum.split intro: reject_update.stale_snd [OF ok s v])
  show "snd (record_duplicate_disposition i v d t db) = db"
    unfolding record_duplicate_disposition_def
    by (cases d; auto split: sum.split intro: disposition_update.stale_snd [OF ok s v])
qed

lemma stale_command:
  assumes ok: "pipeline_ok db" and s: "stored_session db i = Some s"
    and c: "expected_session_version c = Some (i, v)" and v: "us_version s \<noteq> v" and w: "valid_command c"
  shows "run_command c db = db"
  using c w stale_session_commands [OF ok s v] stale_complete [OF ok s v]
    stale_publication_commands [OF ok s v]
  by (cases c) simp_all

end
