(* ===== verification/Upload_Validation_Outcome.thy ===== *)
theory Upload_Validation_Outcome
  imports Upload_History
begin

text \<open>
  What a successful validation decides: equal bytes have one identity, and the verdict
  (publish, or ask what to do with a duplicate) depends on whether another stored session
  with the same size and checksum is on its way to the catalog or in it.
\<close>

lemma linked_row:
  assumes "evidence_store_ok db" and "stored_session db i = Some s" and "us_byte_identity_id s = Some j"
  shows "\<exists>r \<in> set (media_byte_identities db). ir_id r = uuid_to_text j
    \<and> us_checksum_algorithm s = Some (lit ''sha256'') \<and> ir_checksum_algorithm r = lit ''sha256''
    \<and> us_declared_size_bytes s = ir_size_bytes r \<and> us_checksum_hex s = Some (ir_checksum_hex r)"
proof -
  have ss: "session_rows_ok db" and ids: "identity_rows_ok db"
    using assms(1) by (simp_all add: evidence_store_ok_def)
  have "linked db s" using assms linked_iff [OF ss ids] by (simp add: evidence_store_ok_def)
  moreover have "checksum_pair_ok (us_checksum_algorithm s) (us_checksum_hex s)"
    using stored_session_sound [OF ss assms(2)] by (simp add: sound_session_def upload_wf_defs)
  ultimately show ?thesis
    using assms(3) unfolding linked_def checksum_pair_ok_def by fastforce
qed

lemma identity_row_unique:
  assumes "identity_rows_ok db" and "r \<in> set (media_byte_identities db)"
    and "q \<in> set (media_byte_identities db)"
  shows "ir_id r = ir_id q \<Longrightarrow> r = q" and "identity_tuple r = identity_tuple q \<Longrightarrow> r = q"
  using assms by (auto simp: identity_rows_ok_def distinct_map inj_on_def)

lemma same_bytes_iff:
  assumes ev: "evidence_store_ok db"
    and s: "stored_session db i = Some s" "us_byte_identity_id s = Some j"
    and s': "stored_session db i' = Some s'" "us_byte_identity_id s' = Some j'"
  shows "j = j' \<longleftrightarrow> us_declared_size_bytes s = us_declared_size_bytes s'
    \<and> us_checksum_hex s = us_checksum_hex s'"
proof -
  obtain r where r: "r \<in> set (media_byte_identities db)" "ir_id r = uuid_to_text j"
      "ir_checksum_algorithm r = lit ''sha256''" "us_declared_size_bytes s = ir_size_bytes r"
      "us_checksum_hex s = Some (ir_checksum_hex r)"
    using linked_row [OF ev s] by blast
  obtain q where q: "q \<in> set (media_byte_identities db)" "ir_id q = uuid_to_text j'"
      "ir_checksum_algorithm q = lit ''sha256''" "us_declared_size_bytes s' = ir_size_bytes q"
      "us_checksum_hex s' = Some (ir_checksum_hex q)"
    using linked_row [OF ev s'] by blast
  have "identity_rows_ok db" using ev by (simp add: evidence_store_ok_def)
  note u = identity_row_unique [OF this r(1) q(1)]
  show ?thesis
  proof
    assume "j = j'"
    then have "r = q" using u(1) r(2) q(2) by simp
    then show "us_declared_size_bytes s = us_declared_size_bytes s'
        \<and> us_checksum_hex s = us_checksum_hex s'" using r q by simp
  next
    assume "us_declared_size_bytes s = us_declared_size_bytes s'
        \<and> us_checksum_hex s = us_checksum_hex s'"
    then have "r = q" using u(2) r q by (simp add: identity_tuple_def)
    then show "j = j'" using r(2) q(2) by simp
  qed
qed

section \<open>The verdict\<close>

text \<open>The publication of an upload names its media: the media was not removed from the catalog.\<close>

definition names_media :: "catalog_db \<Rightarrow> uuid \<Rightarrow> bool" where
  "names_media db j \<longleftrightarrow> (\<exists>p. stored_publication db j = Some p \<and> up_media_id p \<noteq> None)"

definition duplicate_bytes :: "uuid \<Rightarrow> int \<Rightarrow> pystr \<Rightarrow> catalog_db \<Rightarrow> bool" where
  "duplicate_bytes i n h db \<longleftrightarrow>
     (\<exists>j u. j \<noteq> i \<and> stored_session db j = Some u \<and> us_declared_size_bytes u = n
        \<and> us_checksum_hex u = Some h
        \<and> (us_state u \<in> {U_PUBLISH_PENDING, U_PUBLISHED}
           \<or> (us_state u = U_CATALOGED \<and> names_media db j)))"

lemma bytes_claimed_iff:
  assumes ok: "pipeline_ok db" and wf: "byte_identity_wf b" and ids: "identity_rows_ok db'"
    and b: "identity_values b \<in> set (media_byte_identities db')"
    and sub: "set (media_byte_identities db) \<subseteq> set (media_byte_identities db')"
  shows "bytes_claimed i (bi_id b) db \<longleftrightarrow> duplicate_bytes i (bi_size_bytes b) (bi_checksum_hex b) db"
proof -
  have ev: "evidence_store_ok db" and ss: "session_rows_ok db" and ps: "publication_rows_ok db"
    using ok by (auto simp: pipeline_ok_def evidence_store_ok_def)
  have alg: "bi_checksum_algorithm b = lit ''sha256''" using wf by (simp add: byte_identity_wf_def)
  have same: "us_byte_identity_id u = Some (bi_id b)
      \<longleftrightarrow> us_declared_size_bytes u = bi_size_bytes b \<and> us_checksum_hex u = Some (bi_checksum_hex b)"
    if u: "stored_session db j = Some u" and x: "us_byte_identity_id u = Some x" for j u x
  proof -
    obtain r where r: "r \<in> set (media_byte_identities db')" "ir_id r = uuid_to_text x"
        "ir_checksum_algorithm r = lit ''sha256''" "us_declared_size_bytes u = ir_size_bytes r"
        "us_checksum_hex u = Some (ir_checksum_hex r)"
      using linked_row [OF ev u x] sub by blast
    note uq = identity_row_unique [OF ids r(1) b]
    show ?thesis
    proof
      assume "us_byte_identity_id u = Some (bi_id b)"
      then have "r = identity_values b" using uq(1) r(2) x by simp
      then show "us_declared_size_bytes u = bi_size_bytes b
          \<and> us_checksum_hex u = Some (bi_checksum_hex b)" using r by simp
    next
      assume "us_declared_size_bytes u = bi_size_bytes b \<and> us_checksum_hex u = Some (bi_checksum_hex b)"
      then have "r = identity_values b" using uq(2) r alg by (simp add: identity_tuple_def)
      then show "us_byte_identity_id u = Some (bi_id b)" using r(2) x by simp
    qed
  qed
  have full: "\<exists>x. us_byte_identity_id u = Some x"
    if "stored_session db j = Some u" "us_state u \<in> {U_PUBLISH_PENDING, U_PUBLISHED, U_CATALOGED}" for j u
    using stored_session_sound [OF ss that(1)] that(2)
    unfolding sound_session_def upload_session_wf_def upload_evidence_ok_def
      VALIDATED_UPLOAD_SESSION_STATES_def full_evidence_def by fastforce
  have media: "(\<exists>p \<in> set (upload_publications db). pr_upload_id p = uuid_to_text j \<and> pr_media_id p \<noteq> None)
      \<longleftrightarrow> names_media db j" for j
  proof
    assume "\<exists>p \<in> set (upload_publications db). pr_upload_id p = uuid_to_text j \<and> pr_media_id p \<noteq> None"
    then obtain r where r: "r \<in> set (upload_publications db)" "pr_upload_id r = uuid_to_text j"
        "pr_media_id r \<noteq> None" by blast
    obtain p where "r = publication_values p" using publication_row_wf [OF ps r(1)] by blast
    then show "names_media db j"
      using r by (auto simp: names_media_def stored_publication_iff [OF ps] intro!: exI [of _ p])
  next
    assume "names_media db j"
    then show "\<exists>p \<in> set (upload_publications db). pr_upload_id p = uuid_to_text j \<and> pr_media_id p \<noteq> None"
      by (auto simp: names_media_def stored_publication_iff [OF ps] intro!: bexI [of _ "publication_values _"])
  qed
  have claim: "us_byte_identity_id u = Some (bi_id b)
      \<longleftrightarrow> us_declared_size_bytes u = bi_size_bytes b \<and> us_checksum_hex u = Some (bi_checksum_hex b)"
    if "stored_session db j = Some u" "us_state u \<in> {U_PUBLISH_PENDING, U_PUBLISHED, U_CATALOGED}" for j u
    using same [OF that(1)] full [OF that] by blast
  show ?thesis
    unfolding bytes_claimed_def duplicate_bytes_def media using claim by blast
qed

lemma completed_wf:
  assumes wf: "upload_session_wf s" and st: "us_state s = U_VALIDATING"
    and h: "sha256_hex_pattern h" and e: "(k, f) \<in> set ALLOWED_UPLOAD_VALIDATION_EVIDENCE_PAIRS"
    and b: "byte_identity_wf b" and t: "us_created_at_ms s \<le> t"
  shows "upload_session_wf (completed h k f t i b db s)"
proof -
  obtain target d where o: "success_of (bytes_claimed i (bi_id b) db) (us_duplicate_resolution_mode s)
      = (target, d)" by force
  have td: "(target = U_PUBLISH_PENDING \<and> (d = None \<or> d = Some KEEP_SEPARATE))
      \<or> (target = U_DUPLICATE_PENDING \<and> d = None)"
    using o by (cases "us_duplicate_resolution_mode s") (auto simp: success_of_def split: if_splits)
  have c: "completed h k f t i b db s = complete_effect h k f (bi_id b) target d t s"
    by (simp add: completed_def o)
  have "full_evidence (complete_effect h k f (bi_id b) target d t s)"
    using h e b by (simp add: full_evidence_def complete_effect_def byte_identity_wf_def)
  moreover have "upload_names_ok (complete_effect h k f (bi_id b) target d t s)"
    using wf by (simp add: upload_session_wf_def upload_names_ok_def complete_effect_def)
  moreover have "upload_times_ok (complete_effect h k f (bi_id b) target d t s)"
    using wf t by (simp add: upload_session_wf_def upload_times_ok_def complete_effect_def)
  moreover have "upload_sizes_ok (complete_effect h k f (bi_id b) target d t s)"
    using wf st td by (auto simp: upload_session_wf_def upload_sizes_ok_def complete_effect_def
        state_requires_complete_upload_def COMPLETE_UPLOAD_SESSION_STATES_def)
  ultimately show ?thesis
    using td h e b unfolding c upload_session_wf_def upload_evidence_ok_def
    by (auto simp: complete_effect_def checksum_pair_ok_def evidence_pair_ok_def byte_identity_wf_def)
qed


lemma validation_outcome:
  assumes ok: "pipeline_ok db" and s: "stored_session db i = Some s"
    and st: "us_state s = U_VALIDATING" "us_checksum_hex s = None" "us_validated_media_kind s = None"
    and new: "is_uuid4 new" "uuid_to_text new \<notin> set (map ir_id (media_byte_identities db))"
    and h: "sha256_hex_pattern h" and e: "(k, f) \<in> set ALLOWED_UPLOAD_VALIDATION_EVIDENCE_PAIRS"
    and t: "us_created_at_ms s \<le> t"
  shows "\<exists>s' db' j. complete_validation_success new i (us_version s) h (Member k) (Member f) t db
      = (Inr s', db') \<and> stored_session db' = (stored_session db)(i \<mapsto> s')
    \<and> s' = s\<lparr>us_state := fst (success_of (duplicate_bytes i (us_declared_size_bytes s) h db)
          (us_duplicate_resolution_mode s)),
        us_duplicate_disposition := snd (success_of (duplicate_bytes i (us_declared_size_bytes s) h db)
          (us_duplicate_resolution_mode s)),
        us_checksum_algorithm := Some (lit ''sha256''), us_checksum_hex := Some h,
        us_validated_media_kind := Some k, us_validated_format := Some f,
        us_byte_identity_id := Some j, us_updated_at_ms := t, us_version := us_version s + 1\<rparr>"
proof -
  have ev: "evidence_store_ok db" and ids: "identity_rows_ok db" and ss: "session_rows_ok db"
    using ok by (auto simp: pipeline_ok_def evidence_store_ok_def)
  have wf: "upload_session_wf s" using stored_session_sound [OF ss s] by (simp add: sound_session_def)
  have nn: "0 \<le> us_version s" "0 \<le> t" using wf t by (auto simp: upload_wf_defs)
  have ref: "complete_refusal (us_version s) h s = None" using st
    by (simp add: complete_refusal_def VALIDATED_UPLOAD_SESSION_STATES_def)
  let ?w = "wanted_identity new h t s"
  have wwf: "byte_identity_wf ?w" by (rule wanted_identity_wf [OF wf new(1) h nn(2)])
  obtain b db1 where g: "get_or_create_byte_identity_in ?w db = Inr (b, db1)"
    using get_or_create_error(2) [OF ids wwf] new(2)
    by (cases "get_or_create_byte_identity_in ?w db") (auto simp: wanted_identity_def)
  note gs = get_or_create_sound [OF ids wwf g]
  have sub: "set (media_byte_identities db) \<subseteq> set (media_byte_identities db1)" using gs(7) by auto
  let ?d = "duplicate_bytes i (us_declared_size_bytes s) h db"
  have cl: "bytes_claimed i (bi_id b) db = ?d"
    using bytes_claimed_iff [OF ok gs(1) gs(6) gs(5) sub, of i] gs(2,3)
    by (simp add: wanted_identity_def)
  note cwf = completed_wf [OF wf st(1) h e gs(1) t, of i db]
  obtain rows where run: "complete_validation_in new i (us_version s) h k f t db
        = Inr (completed h k f t i b db s, db1\<lparr>upload_sessions := rows\<rparr>)"
      and new': "stored_session (db1\<lparr>upload_sessions := rows\<rparr>)
        = (stored_session db)(i \<mapsto> completed h k f t i b db s)"
    using complete_in_update(1) [OF ev new(1) h nn(2) s ref g cwf] by blast
  have "complete_validation_success new i (us_version s) h (Member k) (Member f) t db
      = (Inr (completed h k f t i b db s), db1\<lparr>upload_sessions := rows\<rparr>)"
    using run h e nn by (simp add: complete_validation_success_def validate_upload_validation_evidence_def)
  moreover have "completed h k f t i b db s = s\<lparr>us_state := fst (success_of ?d
          (us_duplicate_resolution_mode s)),
        us_duplicate_disposition := snd (success_of ?d (us_duplicate_resolution_mode s)),
        us_checksum_algorithm := Some (lit ''sha256''), us_checksum_hex := Some h,
        us_validated_media_kind := Some k, us_validated_format := Some f,
        us_byte_identity_id := Some (bi_id b), us_updated_at_ms := t, us_version := us_version s + 1\<rparr>"
    by (cases "success_of ?d (us_duplicate_resolution_mode s)")
      (simp add: completed_def cl complete_effect_def)
  ultimately show ?thesis using new' by blast
qed

lemma validation_replay:
  assumes ok: "pipeline_ok db" and new: "is_uuid4 new" "is_uuid4 new2" and t: "0 \<le> t2" "0 \<le> v2"
    and run: "complete_validation_success new i v h (Member k) (Member f) t db = (Inr s', db')"
  shows "complete_validation_success new2 i v2 h (Member k) (Member f) t2 db' = (Inr s', db')"
proof -
  have ev: "evidence_store_ok db" using ok by (simp add: pipeline_ok_def)
  from run have h: "sha256_hex_pattern h" and e: "(k, f) \<in> set ALLOWED_UPLOAD_VALIDATION_EVIDENCE_PAIRS"
      and nn: "0 \<le> t" and r: "complete_validation_in new i v h k f t db = Inr (s', db')"
    by (auto simp: complete_validation_success_def validate_upload_validation_evidence_def
        run_in_transaction_Inr and_then_def split: sum.splits if_splits)
  note k' = complete_keeps_evidence [OF ev new(1) h nn r]
  have "replayed_success h k f s'"
  proof (rule disjE [OF k'(3)])
    assume "\<exists>s b ids rows. stored_session db i = Some s \<and> complete_refusal v h s = None
          \<and> s' = completed h k f t i b db s \<and> upload_session_wf s'
          \<and> bi_checksum_hex b = h \<and> bi_size_bytes b = us_declared_size_bytes s
          \<and> identity_values b \<in> set (media_byte_identities db')
          \<and> stored_session db' = (stored_session db)(i \<mapsto> s')
          \<and> db' = db\<lparr>media_byte_identities := media_byte_identities db @ ids,
                     upload_sessions := rows\<rparr>"
    then obtain s b where s': "s' = completed h k f t i b db s" by blast
    have "us_state s' \<in> {U_PUBLISH_PENDING, U_DUPLICATE_PENDING}"
      unfolding s' by (rule completed_simps(11))
    moreover have "us_validated_media_kind s' = Some k \<and> us_validated_format s' = Some f"
      unfolding s' by (simp add: completed_def complete_effect_def split: prod.split)
    ultimately show ?thesis
      unfolding replayed_success_def using completed_simps(13) [of h k f t i b db s] s'
      by (auto simp: VALIDATED_UPLOAD_SESSION_STATES_def)
  qed blast
  then have "complete_validation_in new2 i v2 h k f t2 db' = Inr (s', db')"
    using complete_in_refusals(2) [OF k'(1) new(2) h t(1) k'(2)] by blast
  then show ?thesis
    using h e t by (simp add: complete_validation_success_def validate_upload_validation_evidence_def)
qed

end
