(* ===== verification/Upload_Listing.thy ===== *)
theory Upload_Listing
  imports Upload_History Keyed_Rows
begin

text \<open>
  The candidate listings of the session repository: pages of the stored sessions in the
  listed states, ordered by update time and identifier, strictly after the cursor.
\<close>

lemma map_results_values:
  "list_all upload_session_wf ss \<Longrightarrow> map_results session_from_row (map values_from_session ss) = Inr ss"
  by (induction ss) (simp_all add: session_from_values)

definition listed_key :: "upload_session \<Rightarrow> int \<times> pystr" where
  "listed_key s = (us_updated_at_ms s, uuid_to_text (us_id s))"

definition listed_after :: "upload_state list \<Rightarrow> int \<Rightarrow> pystr \<Rightarrow> upload_session \<Rightarrow> bool" where
  "listed_after states t i s \<longleftrightarrow> us_state s \<in> set states \<and> (t, i) < listed_key s"

lemma session_list:
  assumes "session_rows_ok db"
  obtains ss where "upload_sessions db = map values_from_session ss" and "list_all upload_session_wf ss"
    and "distinct (map us_id ss)"
proof -
  have "\<forall>r \<in> set (upload_sessions db). \<exists>s. sound_session s \<and> r = values_from_session s"
    using assms by (simp add: session_rows_ok_iff)
  then obtain g where g: "\<And>r. r \<in> set (upload_sessions db) \<Longrightarrow> sound_session (g r) \<and> r = values_from_session (g r)"
    by metis
  let ?ss = "map g (upload_sessions db)"
  have e: "upload_sessions db = map values_from_session ?ss"
    using g by (simp add: map_idI)
  moreover have "list_all upload_session_wf ?ss" using g by (auto simp: list_all_iff sound_session_def)
  moreover have "distinct (map us_id ?ss)"
  proof -
    have "distinct (map ur_id (upload_sessions db))" using assms by (simp add: session_rows_ok_iff)
    then have "distinct (map (\<lambda>s. uuid_to_text (us_id s)) ?ss)"
      by (subst (asm) e) (simp add: comp_def)
    then show ?thesis by (simp add: distinct_map inj_on_def)
  qed
  ultimately show ?thesis by (rule that)
qed

lemma listing_page:
  assumes ss: "session_rows_ok db" and n: "0 < n" and c: "validate_candidate_cursor (PyInt t) (PyStr i) = Inr ()"
  obtains all where "list_validation_candidates states (PyInt n) (PyInt t) (PyStr i) db
      = (Inr (take (nat n) all), db)"
    and "sorted (map listed_key all)" and "distinct all"
    and "set all = {s. listed_after states t i s \<and> (\<exists>j. stored_session db j = Some s)}"
proof -
  obtain xs where xs: "upload_sessions db = map values_from_session xs" "list_all upload_session_wf xs"
      "distinct (map us_id xs)" by (rule session_list [OF ss])
  let ?all = "sort_key listed_key (filter (listed_after states t i) xs)"
  have k: "(\<lambda>s. (ur_updated_at_ms (values_from_session s), ur_id (values_from_session s))) = listed_key"
    by (rule ext) (simp add: listed_key_def)
  have f: "(\<lambda>s. ur_state (values_from_session s) \<in> set (map upload_state_value states)
      \<and> (ur_updated_at_ms (values_from_session s) > t
         \<or> (ur_updated_at_ms (values_from_session s) = t \<and> ur_id (values_from_session s) > i)))
    = listed_after states t i"
    by (rule ext) (auto simp: listed_after_def listed_key_def upload_state_codec.print_eq_iff less_prod_def)
  have "map_results session_from_row (map values_from_session (take (nat n) ?all)) = Inr (take (nat n) ?all)"
    using xs(2) by (intro map_results_values) (auto simp: list_all_iff dest!: in_set_takeD)
  then have "list_validation_candidates states (PyInt n) (PyInt t) (PyStr i) db = (Inr (take (nat n) ?all), db)"
    using n c k f
    by (simp add: list_validation_candidates_def xs(1) filter_map comp_def sql_order_limit_def
        sort_key_map take_map)
  moreover have "distinct ?all" using xs(3) by (simp add: distinct_map)
  moreover have "set ?all = {s. listed_after states t i s \<and> (\<exists>j. stored_session db j = Some s)}"
    using xs(1) by (auto simp: stored_session_iff [OF ss] inj_on_def)
  ultimately show ?thesis using that [of ?all] by simp
qed

end
