(* ===== verification/Programs.thy ===== *)
theory Programs
  imports Prelude
begin

text \<open>
  Programs that share a world: a program is finished or takes one atomic step and continues.
  A step is a transaction, a call of a provider or a reading of the clock.  Programs run alone
  (\<open>run\<close>) or interleaved (\<open>par_step\<close>), where a step of any thread may come between two steps of
  another, a thread may start at any time and the process may stop at any time.
\<close>

section \<open>Programs and their sequential runs\<close>

datatype ('w, 'a) prog = Ret 'a | Atomic "'w \<Rightarrow> ('w, 'a) prog \<times> 'w"

primrec bind :: "('w, 'a) prog \<Rightarrow> ('a \<Rightarrow> ('w, 'b) prog) \<Rightarrow> ('w, 'b) prog" where
  "bind (Ret a) k = k a"
| "bind (Atomic f) k = Atomic (\<lambda>w. map_prod (\<lambda>p. bind p k) id (f w))"

primrec run :: "('w, 'a) prog \<Rightarrow> 'w \<Rightarrow> 'a \<times> 'w" where
  "run (Ret a) w = (a, w)"
| "run (Atomic f) w = (\<lambda>(r, w'). r w') (map_prod run id (f w))"

definition atomic :: "('w \<Rightarrow> 'a \<times> 'w) \<Rightarrow> ('w, 'a) prog" where
  "atomic f = Atomic (\<lambda>w. map_prod Ret id (f w))"

lemma run_Atomic: "run (Atomic f) w = run (fst (f w)) (snd (f w))"
  by (cases "f w") simp

lemma run_atomic [simp]: "run (atomic f) w = f w"
  by (cases "f w") (simp add: atomic_def)

lemma run_bind [simp]: "run (bind m k) w = (case run m w of (a, w') \<Rightarrow> run (k a) w')"
proof (induction m arbitrary: w)
  case (Ret a)
  then show ?case by simp
next
  case (Atomic f)
  obtain p w' where f: "f w = (p, w')" by (cases "f w")
  have "run (bind p k) w' = (case run p w' of (a, w'') \<Rightarrow> run (k a) w'')"
    using f rangeI [of f w] by (intro Atomic.IH [of "f w"]) (auto simp: fsts.simps)
  then show ?case by (simp add: f)
qed

declare run.simps(2) [simp del]

text \<open>Programs that may raise.\<close>

type_synonym ('w, 'e, 'a) eprog = "('w, 'e + 'a) prog"

definition ret :: "'a \<Rightarrow> ('w, 'e, 'a) eprog" where
  "ret a = Ret (Inr a)"

definition raise :: "'e \<Rightarrow> ('w, 'e, 'a) eprog" where
  "raise e = Ret (Inl e)"

definition bindE :: "('w, 'e, 'a) eprog \<Rightarrow> ('a \<Rightarrow> ('w, 'e, 'b) eprog) \<Rightarrow> ('w, 'e, 'b) eprog" where
  "bindE m k = bind m (\<lambda>r. case r of Inl e \<Rightarrow> Ret (Inl e) | Inr a \<Rightarrow> k a)"

text \<open>\<open>try ... except Exception\<close>.\<close>

definition catch :: "('w, 'e, 'a) eprog \<Rightarrow> ('e \<Rightarrow> ('w, 'f, 'b) eprog) \<Rightarrow> ('a \<Rightarrow> ('w, 'f, 'b) eprog)
    \<Rightarrow> ('w, 'f, 'b) eprog" where
  "catch m handler k = bind m (\<lambda>r. case r of Inl e \<Rightarrow> handler e | Inr a \<Rightarrow> k a)"

definition lift :: "'e + 'a \<Rightarrow> ('w, 'e, 'a) eprog" where
  "lift r = Ret r"

lemma run_ret [simp]: "run (ret a) w = (Inr a, w)"
  by (simp add: ret_def)

lemma run_raise [simp]: "run (raise e) w = (Inl e, w)"
  by (simp add: raise_def)

lemma run_lift [simp]: "run (lift r) w = (r, w)"
  by (simp add: lift_def)

lemma run_bindE [simp]:
  "run (bindE m k) w = (case run m w of (Inl e, w') \<Rightarrow> (Inl e, w') | (Inr a, w') \<Rightarrow> run (k a) w')"
  by (cases "run m w") (simp add: bindE_def split: sum.splits)

lemma run_catch [simp]:
  "run (catch m handler k) w =
    (case run m w of (Inl e, w') \<Rightarrow> run (handler e) w' | (Inr a, w') \<Rightarrow> run (k a) w')"
  by (cases "run m w") (simp add: catch_def split: sum.splits)

text \<open>A loop over a list that collects the results that are not \<open>None\<close> (\<open>continue\<close>).\<close>

fun each :: "('x \<Rightarrow> ('w, 'e, 'b option) eprog) \<Rightarrow> 'x list \<Rightarrow> ('w, 'e, 'b list) eprog" where
  "each body [] = ret []"
| "each body (x # xs) = bindE (body x) (\<lambda>r. bindE (each body xs) (\<lambda>rs.
     ret (case r of None \<Rightarrow> rs | Some b \<Rightarrow> b # rs)))"

section \<open>Interleavings\<close>

inductive par_step ::
    "(('w, 'a) prog \<Rightarrow> bool) \<Rightarrow> ('w, 'a) prog list \<times> 'w \<Rightarrow> ('w, 'a) prog list \<times> 'w \<Rightarrow> bool"
  for startable where
  step: "i < length ps \<Longrightarrow> ps ! i = Atomic f \<Longrightarrow> f w = (p, w') \<Longrightarrow> par_step startable (ps, w) (ps[i := p], w')"
| start: "startable p \<Longrightarrow> par_step startable (ps, w) (ps @ [p], w)"
| crash: "par_step startable (ps, w) ([], w)"

text \<open>
  What a thread guarantees.  A thread holds a ghost value; \<open>allowed g w g' w'\<close> says that a thread
  holding \<open>g\<close> may change the world from \<open>w\<close> to \<open>w'\<close> and hold \<open>g'\<close> afterwards.
\<close>

inductive guarantees :: "('g \<Rightarrow> 'w \<Rightarrow> 'g \<Rightarrow> 'w \<Rightarrow> bool) \<Rightarrow> 'g \<Rightarrow> ('w, 'a) prog \<Rightarrow> ('a \<Rightarrow> 'g \<Rightarrow> bool) \<Rightarrow> bool"
  for allowed where
  Ret: "post a g \<Longrightarrow> guarantees allowed g (Ret a) post"
| Atomic: "(\<And>w. \<exists>g'. allowed g w g' (snd (f w)) \<and> guarantees allowed g' (fst (f w)) post)
    \<Longrightarrow> guarantees allowed g (Atomic f) post"

inductive_simps guarantees_simps [simp]:
  "guarantees allowed g (Ret a) post"
  "guarantees allowed g (Atomic f) post"

lemma guarantees_mono:
  assumes "guarantees allowed g p post" and "\<And>a g. post a g \<Longrightarrow> post' a g"
  shows "guarantees allowed g p post'"
  using assms
proof (induction rule: guarantees.induct)
  case (Atomic g f post)
  then show ?case by (intro guarantees.Atomic) blast
qed simp

lemma guarantees_bind:
  assumes "guarantees allowed g m mid" and "\<And>a g. mid a g \<Longrightarrow> guarantees allowed g (k a) post"
  shows "guarantees allowed g (bind m k) post"
  using assms
proof (induction rule: guarantees.induct)
  case (Atomic g f mid)
  show ?case
    unfolding bind.simps guarantees_simps fst_map_prod snd_map_prod id_def
    using Atomic.IH Atomic.prems by blast
qed simp

lemma guarantees_bindE:
  assumes "guarantees allowed g m mid"
    and "\<And>a g. mid (Inr a) g \<Longrightarrow> guarantees allowed g (k a) post" and "\<And>e g. mid (Inl e) g \<Longrightarrow> post (Inl e) g"
  shows "guarantees allowed g (bindE m k) post"
  unfolding bindE_def using assms by (intro guarantees_bind [OF assms(1)]) (auto split: sum.splits)

lemma guarantees_catch:
  assumes "guarantees allowed g m mid"
    and "\<And>a g. mid (Inr a) g \<Longrightarrow> guarantees allowed g (k a) post"
    and "\<And>e g. mid (Inl e) g \<Longrightarrow> guarantees allowed g (h e) post"
  shows "guarantees allowed g (catch m h k) post"
  unfolding catch_def using assms by (intro guarantees_bind [OF assms(1)]) (auto split: sum.splits)

lemma guarantees_atomic:
  assumes "\<And>w. \<exists>g'. allowed g w g' (snd (f w)) \<and> post (fst (f w)) g'"
  shows "guarantees allowed g (atomic f) post"
  unfolding atomic_def using assms by simp

lemma guarantees_ret: "post (Inr a) g \<Longrightarrow> guarantees allowed g (ret a) post"
  by (simp add: ret_def)

lemma guarantees_each:
  assumes "\<And>x. x \<in> set xs \<Longrightarrow> guarantees allowed g (body x) (\<lambda>_ g'. g' = g)"
  shows "guarantees allowed g (each body xs) (\<lambda>_ g'. g' = g)"
  using assms
proof (induction xs)
  case (Cons x xs)
  then have h: "guarantees allowed g (body x) (\<lambda>_ g'. g' = g)" "guarantees allowed g (each body xs) (\<lambda>_ g'. g' = g)"
    by simp_all
  show ?case unfolding each.simps
    by (rule guarantees_bindE [OF h(1)]) (auto intro!: guarantees_bindE [OF h(2)] simp: ret_def)
qed (simp add: ret_def)

text \<open>
  An invariant of the world and the ghosts of all threads that every allowed move keeps holds in
  every interleaving of threads with the guarantee.
\<close>

locale shared_invariant =
  fixes allowed :: "'g \<Rightarrow> 'w \<Rightarrow> 'g \<Rightarrow> 'w \<Rightarrow> bool" and idle :: "'g" and inv :: "'g list \<Rightarrow> 'w \<Rightarrow> bool"
    and startable :: "('w, 'a) prog \<Rightarrow> bool"
  assumes move: "inv gs w \<Longrightarrow> i < length gs \<Longrightarrow> allowed (gs ! i) w g' w' \<Longrightarrow> inv (gs[i := g']) w'"
    and new_thread: "inv gs w \<Longrightarrow> inv (gs @ [idle]) w"
    and stopped: "inv gs w \<Longrightarrow> inv [] w"
    and startable: "startable p \<Longrightarrow> guarantees allowed idle p (\<lambda>_ _. True)"
begin

definition config_ok :: "('w, 'a) prog list \<times> 'w \<Rightarrow> bool" where
  "config_ok c \<longleftrightarrow> (\<exists>gs. length gs = length (fst c) \<and> inv gs (snd c)
     \<and> (\<forall>i < length (fst c). guarantees allowed (gs ! i) (fst c ! i) (\<lambda>_ _. True)))"

lemma step_ok:
  assumes "par_step startable c c'" and "config_ok c"
  shows "config_ok c'"
proof -
  obtain ps w where c: "c = (ps, w)" by (cases c)
  obtain gs where gs: "length gs = length ps" "inv gs w"
      "\<And>i. i < length ps \<Longrightarrow> guarantees allowed (gs ! i) (ps ! i) (\<lambda>_ _. True)"
    using assms(2) by (auto simp: config_ok_def c)
  show ?thesis
    using assms(1) unfolding c
  proof (cases rule: par_step.cases)
    case (step i f p w')
    have "guarantees allowed (gs ! i) (Atomic f) (\<lambda>_ _. True)" using gs(3) [OF step(2)] step(3) by simp
    then have "\<exists>g'. allowed (gs ! i) w g' (snd (f w)) \<and> guarantees allowed g' (fst (f w)) (\<lambda>_ _. True)"
      unfolding guarantees_simps by blast
    then obtain g' where g: "allowed (gs ! i) w g' w'" "guarantees allowed g' p (\<lambda>_ _. True)"
      using step(4) by auto
    have "inv (gs[i := g']) w'" by (rule move [OF gs(2) _ g(1)]) (simp add: gs(1) step(2))
    moreover have "guarantees allowed (gs[i := g'] ! j) (ps[i := p] ! j) (\<lambda>_ _. True)" if "j < length ps" for j
      using gs(1,3) g(2) that by (cases "j = i") simp_all
    ultimately show ?thesis
      using gs(1) unfolding config_ok_def step(1) by (intro exI [of _ "gs[i := g']"]) simp
  next
    case (start p)
    then show ?thesis
      using gs new_thread [OF gs(2)] startable [OF start(2)] unfolding config_ok_def
      by (intro exI [of _ "gs @ [idle]"]) (auto simp: nth_append less_Suc_eq)
  next
    case crash
    then show ?thesis using stopped [OF gs(2)] by (auto simp: config_ok_def)
  qed
qed

lemma reachable_inv:
  assumes "(par_step startable)\<^sup>*\<^sup>* (ps, w) (ps', w')" and "config_ok (ps, w)"
  shows "\<exists>gs. inv gs w'"
proof -
  have "config_ok c'" if "(par_step startable)\<^sup>*\<^sup>* (ps, w) c'" for c'
    using that assms(2) by (induction rule: rtranclp_induct) (auto dest: step_ok)
  then have "config_ok (ps', w')" using assms(1) by blast
  then show ?thesis by (auto simp: config_ok_def)
qed

end

end
