(* ===== verification/Upload_Services.thy ===== *)
theory Upload_Services
  imports Upload_Publication_Repository Programs
begin

text \<open>
  The application services that move one upload from received bytes to the catalog:
  \<open>application/upload_validation.py\<close> (\<open>ValidateReceivedUpload\<close>),
  \<open>application/upload_publication.py\<close> (\<open>PublishPendingUpload\<close>) and
  \<open>application/upload_catalog.py\<close> (\<open>CatalogPublishedUpload\<close>).

  A method is a program of atomic steps over a world: a transaction of one of the two
  repositories on the database, a call of a port (storage, validator, clock, identities), which
  sees and changes an environment of its own, or the reading of a stop event.  The ports are the
  constructor arguments of the services and parameters of the model.
\<close>

section \<open>Exceptions\<close>

text \<open>The classes of \<open>ports/published_media_storage.py\<close> and \<open>ports/quarantine_storage.py\<close>.\<close>

datatype published_storage_error =
    PublishedMediaStorageError
  | PublishedMediaStorageUnavailableError
  | PublishedMediaInsufficientSpaceError
  | PublishedMediaTargetCollisionError
  | PublishedMediaVerificationError
  | PublishedMediaWriteError

datatype quarantine_error =
    QuarantineStorageUnavailableError
  | QuarantineStorageInsufficientSpaceError
  | QuarantineStateInconsistentError
  | QuarantineWriteFailedError

text \<open>The classes of \<open>ports/upload_media_validation.py\<close>, with the failure code they carry.\<close>

datatype media_validation_error =
    UploadMediaValidationRejectedError pystr
  | UploadMediaValidationInfrastructureError pystr
  | UploadMediaValidationInterruptedError

text \<open>The errors of the three services (a class that shares its name with a repository's has the
  service's name added).\<close>

datatype publication_service_error =
    UploadPublicationNotFoundServiceError
  | UploadPublicationStateError
  | UploadPublicationConfigurationError
  | UploadPublicationSourceError
  | UploadPublicationInfrastructureError
  | UploadPublicationInsufficientSpaceError
  | UploadPublicationCleanupPendingError

datatype catalog_service_error =
    UploadCatalogNotFoundError
  | UploadCatalogStateError
  | UploadCatalogInconsistencyServiceError
  | UploadCatalogInfrastructureError

datatype validation_service_error =
    UploadValidationNotFoundError
  | UploadValidationStateConflictError
  | UploadValidationQuarantineInconsistentError
  | UploadValidationUnavailableError
  | UploadValidationConcurrencyError
  | UploadValidationInterruptedError

text \<open>The errors of the transport, \<open>application/upload_transport.py\<close>.\<close>

datatype transport_error =
    UploadCapabilityNotConfiguredError
  | UploadSessionNotFoundTransportError
  | UploadInvalidMetadataError
  | UploadTooLargeError
  | UploadChunkTooLargeError
  | UploadInvalidOffsetError
  | UploadOffsetConflictTransportError int
  | UploadSessionStateConflictError
  | UploadSessionExpiredError
  | UploadInsufficientStorageError
  | UploadBodyLengthMismatchError
  | UploadQuarantineUnavailableError
  | UploadQuarantineStateInconsistentError
  | UploadConcurrencyConflictError

text \<open>
  Everything a service may raise or see raised.  \<open>OtherException\<close> is an exception of none of
  these classes; \<open>Unfinished\<close> is not an exception: it says that a loop used up its rounds.
\<close>

datatype upload_exn =
    PublicationRepo publication_repo_error
  | SessionRepo session_repo_error
  | PublishedStorage published_storage_error
  | Quarantine quarantine_error
  | MediaValidation media_validation_error
  | UploadDomain upload_error
  | PublicationDomain publication_error
  | MediaDomain media_error
  | PublicationService publication_service_error
  | CatalogService catalog_service_error
  | ValidationService validation_service_error
  | TransportService transport_error
  | AssertionError
  | OtherException
  | Unfinished

text \<open>The two domain errors that the session repository lets through are not of its classes.\<close>

fun is_session_repository_error :: "upload_exn \<Rightarrow> bool" where
  "is_session_repository_error (SessionRepo e) \<longleftrightarrow>
     e \<noteq> UncaughtIdentityError \<and> e \<noteq> UncaughtMediaByteIdentityError"
| "is_session_repository_error _ \<longleftrightarrow> False"

section \<open>The world and the ports\<close>

type_synonym bytes = "8 word list"

text \<open>\<open>UploadMediaValidationEvidence\<close>; the service reads its attributes as any object.\<close>

record media_evidence =
  me_media_kind :: "validated_media_kind enum_arg"
  me_media_format :: "validated_format enum_arg"

record upload_classification =
  uc_content_category :: content_category
  uc_acquisition_source :: acquisition_source
  uc_display_title :: "pystr option"
  uc_creator_attribution_kind :: "creator_kind option"
  uc_creator_stable_id :: "pystr option"
  uc_creator_handle :: "pystr option"
  uc_creator_display_name :: "pystr option"
  uc_description :: "pystr option"
  uc_tag_keys :: "pystr list"

text \<open>
  The database, the environment of the ports, and a record of the calls that matter for
  durability: a target that the storage confirmed or published, and a source whose removal was
  asked for.
\<close>

datatype upload_event =
    TargetConfirmed upload_publication
  | RemovalRequested pystr

record 's upload_world =
  uw_db :: catalog_db
  uw_env :: 's
  uw_events :: "upload_event list"

type_synonym ('s, 'a) uprog = "('s upload_world, upload_exn, 'a) eprog"

record ('s, 'h) upload_ports =
  po_now_ms :: "'s \<Rightarrow> int \<times> 's"
  po_new_uuid :: "'s \<Rightarrow> uuid \<times> 's"
  po_publication_stop :: "'s \<Rightarrow> bool \<times> 's"
  po_validation_stop :: "'s \<Rightarrow> bool \<times> 's"
  po_destination_id :: uuid
  po_verify_target :: "upload_publication \<Rightarrow> 's \<Rightarrow> (upload_exn + bool) \<times> 's"
  po_publish_from_reader :: "upload_publication \<Rightarrow> 'h \<Rightarrow> 's \<Rightarrow> (upload_exn + unit) \<times> 's"
  po_open_reader :: "pystr \<Rightarrow> int \<Rightarrow> 's \<Rightarrow> (upload_exn + 'h) \<times> 's"
  po_read :: "'h \<Rightarrow> int \<Rightarrow> 's \<Rightarrow> (upload_exn + bytes) \<times> 's"
  po_seek_start :: "'h \<Rightarrow> 's \<Rightarrow> (upload_exn + unit) \<times> 's"
  po_verify_consistent :: "'h \<Rightarrow> 's \<Rightarrow> (upload_exn + unit) \<times> 's"
  po_close :: "'h \<Rightarrow> 's \<Rightarrow> (upload_exn + unit) \<times> 's"
  po_remove :: "pystr \<Rightarrow> 's \<Rightarrow> (upload_exn + unit) \<times> 's"
  po_validate_media :: "'h \<Rightarrow> 's \<Rightarrow> (upload_exn + media_evidence) \<times> 's"
  po_sha256 :: "bytes \<Rightarrow> pystr"
  po_classification :: "(uuid \<Rightarrow> 's \<Rightarrow> (upload_exn + upload_classification option) \<times> 's) option"
  po_tables :: unicode_tables

text \<open>Steps.\<close>

definition port :: "('s \<Rightarrow> (upload_exn + 'a) \<times> 's) \<Rightarrow> ('s, 'a) uprog" where
  "port f = atomic (\<lambda>w. case f (uw_env w) of (r, s) \<Rightarrow> (r, w\<lparr>uw_env := s\<rparr>))"

definition pure_port :: "('s \<Rightarrow> 'a \<times> 's) \<Rightarrow> ('s, 'a) uprog" where
  "pure_port f = port (\<lambda>s. case f s of (a, s') \<Rightarrow> (Inr a, s'))"

definition transaction ::
    "('e \<Rightarrow> upload_exn) \<Rightarrow> (catalog_db \<Rightarrow> ('e + 'a) \<times> catalog_db) \<Rightarrow> ('s, 'a) uprog" where
  "transaction wrap f = atomic (\<lambda>w. case f (uw_db w) of (r, db) \<Rightarrow> (rescue wrap r, w\<lparr>uw_db := db\<rparr>))"

abbreviation publications :: "(catalog_db \<Rightarrow> (publication_repo_error + 'a) \<times> catalog_db) \<Rightarrow> ('s, 'a) uprog" where
  "publications \<equiv> transaction PublicationRepo"

abbreviation sessions :: "(catalog_db \<Rightarrow> (session_repo_error + 'a) \<times> catalog_db) \<Rightarrow> ('s, 'a) uprog" where
  "sessions \<equiv> transaction SessionRepo"

text \<open>The same step, with an event of the record when the call returns (\<open>confirm\<close>) or whatever
  it does (\<open>request_removal\<close>).\<close>

definition confirm :: "(bool \<Rightarrow> bool) \<Rightarrow> upload_publication \<Rightarrow> ('s \<Rightarrow> (upload_exn + bool) \<times> 's) \<Rightarrow> ('s, bool) uprog" where
  "confirm counts p f = atomic (\<lambda>w. case f (uw_env w) of (r, s) \<Rightarrow>
     (r, w\<lparr>uw_env := s, uw_events := uw_events w
        @ (case r of Inl e \<Rightarrow> [] | Inr b \<Rightarrow> if counts b then [TargetConfirmed p] else [])\<rparr>))"

definition request_removal ::
    "(pystr \<Rightarrow> 's \<Rightarrow> (upload_exn + unit) \<times> 's) \<Rightarrow> pystr \<Rightarrow> ('s, unit) uprog" where
  "request_removal remove key = atomic (\<lambda>w. case remove key (uw_env w) of (r, s) \<Rightarrow>
     (r, w\<lparr>uw_env := s, uw_events := uw_events w @ [RemovalRequested key]\<rparr>))"

definition verify_target :: "('s, 'h) upload_ports \<Rightarrow> upload_publication \<Rightarrow> ('s, bool) uprog" where
  "verify_target P p = confirm (\<lambda>b. b) p (po_verify_target P p)"

definition publish_from_reader ::
    "('s, 'h) upload_ports \<Rightarrow> upload_publication \<Rightarrow> 'h \<Rightarrow> ('s, bool) uprog" where
  "publish_from_reader P p h = confirm (\<lambda>_. True) p
     (\<lambda>s. case po_publish_from_reader P p h s of (r, s') \<Rightarrow> (map_sum id (\<lambda>_. True) r, s'))"

text \<open>\<open>try: m except ...: handler\<close> and \<open>try: m finally: cleanup\<close>.\<close>

definition try_except ::
    "('s, 'a) uprog \<Rightarrow> (upload_exn \<Rightarrow> ('s, 'a) uprog) \<Rightarrow> ('s, 'a) uprog" where
  "try_except m handler = catch m handler ret"

definition try_finally :: "('s, 'a) uprog \<Rightarrow> ('s, unit) uprog \<Rightarrow> ('s, 'a) uprog" where
  "try_finally m cleanup = bind m (\<lambda>r. bindE cleanup (\<lambda>_. lift r))"

text \<open>\<open>except FrameNestUploadSessionRepositoryError\<close> around a transaction of the session
  repository.\<close>

definition session_errors ::
    "('s, 'a) uprog \<Rightarrow> (session_repo_error \<Rightarrow> ('s, 'a) uprog) \<Rightarrow> ('s, 'a) uprog" where
  "session_errors m handler = try_except m (\<lambda>e.
     case e of SessionRepo r \<Rightarrow> if is_session_repository_error e then handler r else raise e
     | _ \<Rightarrow> raise e)"

section \<open>Publication\<close>

record publication_result =
  prs_upload_id :: pystr
  prs_state :: pystr
  prs_cleanup_state :: "pystr option"

definition publication_result_of :: "publication_candidate \<Rightarrow> publication_result" where
  "publication_result_of c = \<lparr>prs_upload_id = uuid_to_text (us_id (pc_upload c)),
     prs_state = upload_state_value (us_state (pc_upload c)),
     prs_cleanup_state = map_option (\<lambda>p. cleanup_state_value (up_cleanup_state p)) (pc_publication c)\<rparr>"

definition ensure_reservation ::
    "('s, 'h) upload_ports \<Rightarrow> publication_candidate \<Rightarrow> ('s, publication_candidate) uprog" where
  "ensure_reservation P c =
     (let upload = pc_upload c in
      if pc_publication c \<noteq> None then ret c
      else if us_state upload \<in> {U_PUBLISHED, U_CATALOGED}
        then raise (PublicationService UploadPublicationStateError)
      else if us_state upload \<noteq> U_PUBLISH_PENDING
        then raise (PublicationService UploadPublicationStateError)
      else
        bindE (pure_port (po_now_ms P)) (\<lambda>now.
        bindE (pure_port (po_new_uuid P)) (\<lambda>pid.
        bindE (lift (rescue PublicationDomain
            (new_upload_publication_reservation pid upload (po_destination_id P) now))) (\<lambda>reservation.
        publications (get_or_create_reservation reservation (us_version upload))))))"

text \<open>The storage calls of \<open>_publish_pending\<close>, and what their exceptions become.\<close>

definition materialize_target ::
    "('s, 'h) upload_ports \<Rightarrow> upload_session \<Rightarrow> upload_publication \<Rightarrow> ('s, bool) uprog" where
  "materialize_target P upload p =
     bindE (verify_target P p) (\<lambda>verified.
       if verified then ret True
       else bindE (port (po_open_reader P (us_storage_key upload) (up_expected_size_bytes p))) (\<lambda>reader.
         try_finally (publish_from_reader P p reader) (port (po_close P reader))))"

fun source_error :: "upload_exn \<Rightarrow> upload_exn" where
  "source_error (Quarantine QuarantineStateInconsistentError) = PublicationService UploadPublicationSourceError"
| "source_error (Quarantine QuarantineStorageUnavailableError) =
     PublicationService UploadPublicationInfrastructureError"
| "source_error e = e"

definition published_concurrently ::
    "upload_publication \<Rightarrow> publication_candidate option \<Rightarrow> bool" where
  "published_concurrently p current =
     (case current of
        None \<Rightarrow> False
      | Some c \<Rightarrow> us_state (pc_upload c) = U_PUBLISHED
          \<and> (case pc_publication c of
               None \<Rightarrow> False
             | Some q \<Rightarrow> up_publication_id q = up_publication_id p \<and> up_state q = P_VERIFIED))"

text \<open>\<open>except UploadPublicationConcurrencyConflictError\<close>: read again, accept what a rival
  committed, or raise the same exception.\<close>

definition reload_after_conflict ::
    "uuid \<Rightarrow> (publication_candidate option \<Rightarrow> bool) \<Rightarrow> ('s, publication_candidate) uprog
     \<Rightarrow> ('s, publication_candidate) uprog" where
  "reload_after_conflict upload_id accept m =
     try_except m (\<lambda>e.
       if e = PublicationRepo UploadPublicationConcurrencyConflictError then
         bindE (publications (get_candidate upload_id)) (\<lambda>current.
           if accept current then ret (the current) else raise e)
       else raise e)"

definition publish_pending ::
    "('s, 'h) upload_ports \<Rightarrow> publication_candidate \<Rightarrow> ('s, publication_candidate) uprog" where
  "publish_pending P c =
     (case pc_publication c of
        None \<Rightarrow> raise AssertionError
      | Some p \<Rightarrow>
          if up_state p \<noteq> P_RESERVED then raise (PublicationService UploadPublicationStateError)
          else
            bindE (try_except (materialize_target P (pc_upload c) p) (\<lambda>e. raise (source_error e))) (\<lambda>_.
            reload_after_conflict (us_id (pc_upload c)) (published_concurrently p)
              (bindE (pure_port (po_now_ms P)) (\<lambda>now.
               publications (commit_verified_publication (us_id (pc_upload c)) (up_publication_id p)
                 (us_version (pc_upload c)) (up_version p) now)))))"

fun cleanup_error :: "upload_exn \<Rightarrow> upload_exn" where
  "cleanup_error (Quarantine QuarantineWriteFailedError) =
     PublicationService UploadPublicationCleanupPendingError"
| "cleanup_error (Quarantine QuarantineStorageUnavailableError) =
     PublicationService UploadPublicationCleanupPendingError"
| "cleanup_error e = e"

definition cleaned_concurrently ::
    "upload_publication \<Rightarrow> publication_candidate option \<Rightarrow> bool" where
  "cleaned_concurrently p current =
     (case current of
        None \<Rightarrow> False
      | Some c \<Rightarrow> (case pc_publication c of
            None \<Rightarrow> False
          | Some q \<Rightarrow> up_publication_id q = up_publication_id p \<and> up_cleanup_state q = C_COMPLETE))"

definition finish_cleanup ::
    "('s, 'h) upload_ports \<Rightarrow> publication_candidate \<Rightarrow> ('s, publication_result) uprog" where
  "finish_cleanup P c =
     (case pc_publication c of
        None \<Rightarrow> raise (PublicationService UploadPublicationStateError)
      | Some p \<Rightarrow>
          if us_state (pc_upload c) \<noteq> U_PUBLISHED \<or> up_state p \<noteq> P_VERIFIED
          then raise (PublicationService UploadPublicationStateError)
          else if up_cleanup_state p = C_COMPLETE then ret (publication_result_of c)
          else
            bindE (try_except (request_removal (po_remove P) (us_storage_key (pc_upload c)))
              (\<lambda>e. raise (cleanup_error e))) (\<lambda>_.
            bindE (reload_after_conflict (us_id (pc_upload c)) (cleaned_concurrently p)
              (bindE (pure_port (po_now_ms P)) (\<lambda>now.
               publications (mark_cleanup_complete (us_id (pc_upload c)) (up_publication_id p)
                 (up_version p) now)))) (\<lambda>completed.
            ret (publication_result_of completed))))"

text \<open>The \<open>except\<close> clauses of \<open>publish_owned_blocking\<close>, in their order.\<close>

fun publication_outer_error :: "upload_exn \<Rightarrow> upload_exn" where
  "publication_outer_error (PublicationRepo UnsupportedLegacyUploadPublicationStateError) =
     PublicationService UploadPublicationStateError"
| "publication_outer_error (PublicationRepo e) = PublicationService UploadPublicationInfrastructureError"
| "publication_outer_error (PublishedStorage PublishedMediaInsufficientSpaceError) =
     PublicationService UploadPublicationInsufficientSpaceError"
| "publication_outer_error (PublishedStorage e) = PublicationService UploadPublicationInfrastructureError"
| "publication_outer_error e = e"

definition publish_owned_blocking ::
    "('s, 'h) upload_ports \<Rightarrow> uuid \<Rightarrow> ('s, publication_result) uprog" where
  "publish_owned_blocking P upload_id =
     bindE (pure_port (po_publication_stop P)) (\<lambda>stopped.
     if stopped then raise (PublicationService UploadPublicationInfrastructureError)
     else try_except
       (bindE (publications (get_candidate upload_id)) (\<lambda>found.
        case found of
          None \<Rightarrow> raise (PublicationService UploadPublicationNotFoundServiceError)
        | Some candidate \<Rightarrow>
            bindE (ensure_reservation P candidate) (\<lambda>c.
            case pc_publication c of
              None \<Rightarrow> raise AssertionError
            | Some p \<Rightarrow>
                if up_destination_id p \<noteq> po_destination_id P
                then raise (PublicationService UploadPublicationConfigurationError)
                else if us_state (pc_upload c) = U_PUBLISH_PENDING
                  then bindE (publish_pending P c) (finish_cleanup P)
                else finish_cleanup P c)))
       (\<lambda>e. raise (publication_outer_error e)))"

end
