(* ===== verification/Upload_Completion.thy ===== *)
theory Upload_Completion
  imports Upload_Services
begin

text \<open>
  The other two services: \<open>application/upload_catalog.py\<close>, which creates the catalog rows of a
  published upload, and \<open>application/upload_validation.py\<close>, which hashes a received upload twice
  around the media validator and stores the outcome.
\<close>

section \<open>Cataloging\<close>

record catalog_result =
  crs_upload_id :: pystr
  crs_state :: pystr
  crs_media_id :: "pystr option"
  crs_media_location_id :: "pystr option"

definition catalog_linked :: "publication_candidate \<Rightarrow> (uuid \<times> uuid) option" where
  "catalog_linked c =
     (case pc_publication c of
        None \<Rightarrow> None
      | Some p \<Rightarrow> (case (up_media_id p, up_media_location_id p) of
            (Some m, Some l) \<Rightarrow> if us_state (pc_upload c) = U_CATALOGED then Some (m, l) else None
          | _ \<Rightarrow> None))"

definition catalog_result_of :: "publication_candidate \<Rightarrow> catalog_result" where
  "catalog_result_of c = \<lparr>crs_upload_id = uuid_to_text (us_id (pc_upload c)),
     crs_state = upload_state_value (us_state (pc_upload c)),
     crs_media_id = map_option (\<lambda>(m, _). uuid_to_text m) (catalog_linked c),
     crs_media_location_id = map_option (\<lambda>(_, l). uuid_to_text l) (catalog_linked c)\<rparr>"

text \<open>The guards before the first row is built; \<open>Inr None\<close> says that the work is done already.\<close>

definition catalog_work ::
    "publication_candidate option
     \<Rightarrow> upload_exn + (upload_session \<times> upload_publication \<times> validated_media_kind) option" where
  "catalog_work found =
     (case found of
        None \<Rightarrow> Inl (CatalogService UploadCatalogNotFoundError)
      | Some c \<Rightarrow> (case pc_publication c of
          None \<Rightarrow> Inl (CatalogService UploadCatalogNotFoundError)
        | Some p \<Rightarrow>
            if (up_media_id p = None) \<noteq> (up_media_location_id p = None)
            then Inl (CatalogService UploadCatalogInconsistencyServiceError)
            else if us_state (pc_upload c) = U_CATALOGED \<and> up_media_id p \<noteq> None
              \<and> up_media_location_id p \<noteq> None
            then Inr None
            else if us_state (pc_upload c) = U_CATALOGED \<or> up_media_id p \<noteq> None
              \<or> up_media_location_id p \<noteq> None
            then Inl (CatalogService UploadCatalogInconsistencyServiceError)
            else (case us_validated_media_kind (pc_upload c) of
                None \<Rightarrow> Inl (CatalogService UploadCatalogStateError)
              | Some kind \<Rightarrow>
                  if us_state (pc_upload c) \<noteq> U_PUBLISHED \<or> up_state p \<noteq> P_VERIFIED
                    \<or> up_cleanup_state p \<noteq> C_COMPLETE
                  then Inl (CatalogService UploadCatalogStateError)
                  else Inr (Some (pc_upload c, p, kind)))))"

text \<open>\<open>MediaKind(candidate.upload.validated_media_kind.value)\<close>: the member with the same value.\<close>

fun media_kind_of_validated :: "validated_media_kind \<Rightarrow> media_kind" where
  "media_kind_of_validated VIDEO = MK_VIDEO"
| "media_kind_of_validated ANIMATED_IMAGE = MK_ANIMATED_IMAGE"
| "media_kind_of_validated IMAGE = MK_IMAGE"

definition checked :: "('a \<Rightarrow> media_error + unit) \<Rightarrow> 'a \<Rightarrow> upload_exn + 'a" where
  "checked post_init x = and_then (rescue MediaDomain (post_init x)) (\<lambda>_. Inr x)"

definition catalog_media :: "uuid \<Rightarrow> validated_media_kind \<Rightarrow> int \<Rightarrow> upload_exn + logical_media" where
  "catalog_media media_id kind now = checked logical_media_post_init
     \<lparr>lm_id = media_id, lm_kind = media_kind_of_validated kind, lm_created_at_ms = now,
       lm_updated_at_ms = now\<rparr>"

definition catalog_location ::
    "uuid \<Rightarrow> logical_media \<Rightarrow> upload_publication \<Rightarrow> int \<Rightarrow> upload_exn + media_location" where
  "catalog_location location_id media p now =
     and_then (rescue MediaDomain (normalize_relative_path (PyStr (up_relative_path p)))) (\<lambda>path.
     checked media_location_post_init
       \<lparr>ml_id = location_id, ml_media_id = lm_id media, ml_library_id = up_destination_id p,
         ml_relative_path = path, ml_availability = AVAILABLE,
         ml_observed_size_bytes = Some (up_expected_size_bytes p), ml_observed_mtime_ns = None,
         ml_created_at_ms = now, ml_updated_at_ms = now\<rparr>)"

definition catalog_metadata ::
    "unicode_tables \<Rightarrow> logical_media \<Rightarrow> int \<Rightarrow> upload_classification option
     \<Rightarrow> upload_exn + media_metadata option" where
  "catalog_metadata U media now classification =
     (case classification of
        None \<Rightarrow> Inr None
      | Some k \<Rightarrow> and_then (rescue MediaDomain (media_metadata_init U
          \<lparr>mm_media_id = lm_id media, mm_display_title = uc_display_title k,
            mm_description = uc_description k, mm_tag_keys = uc_tag_keys k,
            mm_created_at_ms = now, mm_updated_at_ms = now,
            mm_content_category = uc_content_category k,
            mm_acquisition_source = uc_acquisition_source k, mm_genre_keys = [],
            mm_creator_attribution_kind = uc_creator_attribution_kind k,
            mm_creator_stable_id = uc_creator_stable_id k, mm_creator_handle = uc_creator_handle k,
            mm_creator_display_name = uc_creator_display_name k\<rparr>)) (\<lambda>m. Inr (Some m)))"

definition classify ::
    "('s, 'h) upload_ports \<Rightarrow> uuid \<Rightarrow> ('s, upload_classification option) uprog" where
  "classify P upload_id =
     (case po_classification P of None \<Rightarrow> ret None | Some f \<Rightarrow> port (f upload_id))"

definition cataloged_concurrently :: "publication_candidate option \<Rightarrow> bool" where
  "cataloged_concurrently current =
     (case current of
        None \<Rightarrow> False
      | Some c \<Rightarrow> us_state (pc_upload c) = U_CATALOGED
          \<and> (case pc_publication c of
               None \<Rightarrow> False
             | Some q \<Rightarrow> up_media_id q \<noteq> None \<and> up_media_location_id q \<noteq> None))"

fun catalog_outer_error :: "upload_exn \<Rightarrow> upload_exn" where
  "catalog_outer_error (PublicationRepo UploadCatalogInconsistencyError) =
     CatalogService UploadCatalogInconsistencyServiceError"
| "catalog_outer_error (PublicationRepo UploadCatalogStateConflictError) =
     CatalogService UploadCatalogStateError"
| "catalog_outer_error (PublicationRepo UploadPublicationNotFoundError) =
     CatalogService UploadCatalogNotFoundError"
| "catalog_outer_error (PublicationRepo e) = CatalogService UploadCatalogInfrastructureError"
| "catalog_outer_error e = e"

definition catalog_rows ::
    "('s, 'h) upload_ports \<Rightarrow> uuid \<Rightarrow> upload_session \<Rightarrow> upload_publication \<Rightarrow> validated_media_kind
     \<Rightarrow> ('s, catalog_result) uprog" where
  "catalog_rows P upload_id upload p kind =
     bindE (pure_port (po_now_ms P)) (\<lambda>now.
     bindE (pure_port (po_new_uuid P)) (\<lambda>media_id.
     bindE (lift (catalog_media media_id kind now)) (\<lambda>media.
     bindE (pure_port (po_new_uuid P)) (\<lambda>location_id.
     bindE (lift (catalog_location location_id media p now)) (\<lambda>location.
     bindE (classify P upload_id) (\<lambda>classification.
     bindE (lift (catalog_metadata (po_tables P) media now classification)) (\<lambda>metadata.
     bindE (reload_after_conflict upload_id cataloged_concurrently
       (publications (commit_cataloged_publication upload_id media location (us_version upload)
          (up_version p) now metadata))) (\<lambda>committed.
     ret (catalog_result_of committed)))))))))"

definition catalog_owned_blocking ::
    "('s, 'h) upload_ports \<Rightarrow> uuid \<Rightarrow> ('s, catalog_result) uprog" where
  "catalog_owned_blocking P upload_id = try_except
     (bindE (publications (get_candidate upload_id)) (\<lambda>found.
      bindE (lift (catalog_work found)) (\<lambda>work.
      case work of
        None \<Rightarrow> ret (catalog_result_of (the found))
      | Some (upload, p, kind) \<Rightarrow> catalog_rows P upload_id upload p kind)))
     (\<lambda>e. raise (catalog_outer_error e))"

section \<open>Validation\<close>

definition UPLOAD_VALIDATION_QUARANTINE_INCONSISTENT :: pystr where
  "UPLOAD_VALIDATION_QUARANTINE_INCONSISTENT = lit ''QUARANTINE_INCONSISTENT''"
definition UPLOAD_VALIDATION_IO_ERROR :: pystr where
  "UPLOAD_VALIDATION_IO_ERROR = lit ''VALIDATION_IO_ERROR''"
definition UPLOAD_VALIDATION_INTERNAL_ERROR :: pystr where
  "UPLOAD_VALIDATION_INTERNAL_ERROR = lit ''VALIDATION_INTERNAL_ERROR''"
definition HASH_CHUNK_SIZE :: int where
  "HASH_CHUNK_SIZE = 1024 * 1024"

record validation_result =
  vrs_upload_id :: pystr
  vrs_state :: pystr
  vrs_checksum_algorithm :: "pystr option"
  vrs_checksum_hex :: "pystr option"
  vrs_validated_media_kind :: "pystr option"
  vrs_validated_format :: "pystr option"
  vrs_failure_code :: "pystr option"

definition validation_result_of :: "upload_session \<Rightarrow> validation_result" where
  "validation_result_of s = \<lparr>vrs_upload_id = uuid_to_text (us_id s),
     vrs_state = upload_state_value (us_state s),
     vrs_checksum_algorithm = us_checksum_algorithm s, vrs_checksum_hex = us_checksum_hex s,
     vrs_validated_media_kind = map_option validated_media_kind_value (us_validated_media_kind s),
     vrs_validated_format = map_option validated_format_value (us_validated_format s),
     vrs_failure_code = us_failure_code s\<rparr>"

text \<open>\<open>==\<close> between a stored member and what the validator returned: a \<open>StrEnum\<close> member equals the
  string of its value.\<close>

definition member_equals :: "('a \<Rightarrow> pystr) \<Rightarrow> 'a option \<Rightarrow> 'a enum_arg \<Rightarrow> bool" where
  "member_equals value stored given =
     (case given of
        Member m \<Rightarrow> stored = Some m
      | Raw PyNone \<Rightarrow> stored = None
      | Raw (PyStr t) \<Rightarrow> (case stored of None \<Rightarrow> False | Some m \<Rightarrow> value m = t)
      | Raw _ \<Rightarrow> False)"

definition matches_success :: "upload_session \<Rightarrow> pystr \<Rightarrow> media_evidence \<Rightarrow> bool" where
  "matches_success s checksum_hex evidence \<longleftrightarrow>
     us_state s \<in> {U_DUPLICATE_PENDING, U_PUBLISH_PENDING}
     \<and> us_checksum_algorithm s = Some (lit ''sha256'') \<and> us_checksum_hex s = Some checksum_hex
     \<and> member_equals validated_media_kind_value (us_validated_media_kind s) (me_media_kind evidence)
     \<and> member_equals validated_format_value (us_validated_format s) (me_media_format evidence)"

definition validation_infrastructure_error :: "pystr \<Rightarrow> upload_exn" where
  "validation_infrastructure_error code =
     (if code = UPLOAD_VALIDATION_QUARANTINE_INCONSISTENT
      then ValidationService UploadValidationQuarantineInconsistentError
      else ValidationService UploadValidationUnavailableError)"

definition load_for_validation :: "uuid \<Rightarrow> ('s, upload_session) uprog" where
  "load_for_validation session_id =
     bindE (session_errors (sessions (get_session session_id))
       (\<lambda>_. raise (ValidationService UploadValidationUnavailableError))) (\<lambda>found.
     case found of
       None \<Rightarrow> raise (ValidationService UploadValidationNotFoundError)
     | Some s \<Rightarrow> ret s)"

definition fail_if_possible ::
    "('s, 'h) upload_ports \<Rightarrow> upload_session \<Rightarrow> pystr \<Rightarrow> ('s, bool) uprog" where
  "fail_if_possible P session code =
     (if us_state session \<noteq> U_VALIDATING then ret False
      else session_errors
        (bindE (pure_port (po_now_ms P)) (\<lambda>now.
         bindE (sessions (transition_state (us_id session) U_VALIDATING U_FAILED
            (us_version session) now (Some code))) (\<lambda>_. ret True)))
        (\<lambda>_. session_errors
           (bindE (sessions (get_session (us_id session))) (\<lambda>current.
            ret (case current of None \<Rightarrow> False
              | Some s \<Rightarrow> us_state s = U_FAILED \<and> us_failure_code s = Some code)))
           (\<lambda>_. ret False)))"

text \<open>The current session when it is in one of the given states, otherwise the given error: how
  the three writers below answer a refused write.\<close>

definition accept_current ::
    "uuid \<Rightarrow> (upload_session \<Rightarrow> bool) \<Rightarrow> validation_service_error \<Rightarrow> ('s, upload_session) uprog" where
  "accept_current session_id accept e =
     bindE (load_for_validation session_id) (\<lambda>current.
       if accept current then ret current else raise (ValidationService e))"

definition AFTER_START_STATES :: "upload_state list" where
  "AFTER_START_STATES = [U_VALIDATING, U_DUPLICATE_PENDING, U_PUBLISH_PENDING, U_REJECTED]"

definition start_validation_service ::
    "('s, 'h) upload_ports \<Rightarrow> upload_session \<Rightarrow> ('s, upload_session) uprog" where
  "start_validation_service P session = session_errors
     (bindE (pure_port (po_now_ms P)) (\<lambda>now.
      sessions (start_validation (us_id session) (us_version session) now)))
     (\<lambda>e. case e of
        UploadSessionNotFoundError \<Rightarrow> raise (ValidationService UploadValidationNotFoundError)
      | IncompleteUploadSessionError \<Rightarrow>
          bindE (fail_if_possible P session UPLOAD_VALIDATION_QUARANTINE_INCONSISTENT) (\<lambda>_.
          raise (ValidationService UploadValidationQuarantineInconsistentError))
      | InvalidUploadSessionTransitionError \<Rightarrow>
          accept_current (us_id session) (\<lambda>s. us_state s \<in> set AFTER_START_STATES)
            UploadValidationStateConflictError
      | UploadSessionConcurrencyConflictError \<Rightarrow>
          accept_current (us_id session) (\<lambda>s. us_state s \<in> set AFTER_START_STATES)
            UploadValidationConcurrencyError
      | _ \<Rightarrow> raise (ValidationService UploadValidationUnavailableError))"

definition complete_success ::
    "('s, 'h) upload_ports \<Rightarrow> upload_session \<Rightarrow> pystr \<Rightarrow> media_evidence \<Rightarrow> ('s, upload_session) uprog" where
  "complete_success P session checksum_hex evidence = session_errors
     (bindE (pure_port (po_now_ms P)) (\<lambda>now.
      bindE (pure_port (po_new_uuid P)) (\<lambda>identity_id.
      sessions (complete_validation_success identity_id (us_id session) (us_version session)
        checksum_hex (me_media_kind evidence) (me_media_format evidence) now))))
     (\<lambda>e. if e \<in> {InvalidUploadChecksumError, InvalidUploadValidationEvidenceError} then
          bindE (fail_if_possible P session UPLOAD_VALIDATION_INTERNAL_ERROR) (\<lambda>_.
          raise (ValidationService UploadValidationUnavailableError))
        else if e = InvalidUploadSessionTransitionError then
          accept_current (us_id session) (\<lambda>s. matches_success s checksum_hex evidence)
            UploadValidationStateConflictError
        else if e = UploadSessionConcurrencyConflictError then
          accept_current (us_id session) (\<lambda>s. matches_success s checksum_hex evidence)
            UploadValidationConcurrencyError
        else raise (ValidationService UploadValidationUnavailableError))"

definition reject_upload ::
    "('s, 'h) upload_ports \<Rightarrow> upload_session \<Rightarrow> pystr \<Rightarrow> ('s, upload_session) uprog" where
  "reject_upload P session code = session_errors
     (bindE (pure_port (po_now_ms P)) (\<lambda>now.
      sessions (reject_validation (us_id session) (us_version session) code now)))
     (\<lambda>e. case e of
        UploadSessionNotFoundError \<Rightarrow> raise (ValidationService UploadValidationNotFoundError)
      | InvalidUploadSessionTransitionError \<Rightarrow>
          accept_current (us_id session) (\<lambda>s. us_state s = U_REJECTED) UploadValidationStateConflictError
      | UploadSessionConcurrencyConflictError \<Rightarrow>
          accept_current (us_id session) (\<lambda>s. us_state s = U_REJECTED) UploadValidationConcurrencyError
      | _ \<Rightarrow> raise (ValidationService UploadValidationUnavailableError))"

text \<open>\<open>_sha256\<close>: the stop event is read before every chunk.  \<open>rounds\<close> bounds the loop of the
  model; the loop of the code ends when the reader returns no bytes.\<close>

fun hash_chunks :: "('s, 'h) upload_ports \<Rightarrow> 'h \<Rightarrow> nat \<Rightarrow> bytes \<Rightarrow> ('s, pystr) uprog" where
  "hash_chunks P reader 0 seen = raise Unfinished"
| "hash_chunks P reader (Suc rounds) seen =
     bindE (pure_port (po_validation_stop P)) (\<lambda>stopped.
     if stopped then raise (ValidationService UploadValidationInterruptedError)
     else bindE (port (po_read P reader HASH_CHUNK_SIZE)) (\<lambda>chunk.
       if chunk = [] then ret (po_sha256 P seen) else hash_chunks P reader rounds (seen @ chunk)))"

definition sha256_of_reader :: "('s, 'h) upload_ports \<Rightarrow> nat \<Rightarrow> 'h \<Rightarrow> ('s, pystr) uprog" where
  "sha256_of_reader P rounds reader =
     bindE (port (po_seek_start P reader)) (\<lambda>_. hash_chunks P reader rounds [])"

definition open_validation_reader ::
    "('s, 'h) upload_ports \<Rightarrow> upload_session \<Rightarrow> ('s, 'h) uprog" where
  "open_validation_reader P session = try_except
     (port (po_open_reader P (us_storage_key session) (us_declared_size_bytes session)))
     (\<lambda>e. if e = Quarantine QuarantineStateInconsistentError then
          bindE (fail_if_possible P session UPLOAD_VALIDATION_QUARANTINE_INCONSISTENT) (\<lambda>_.
          raise (ValidationService UploadValidationQuarantineInconsistentError))
        else if e = Quarantine QuarantineStorageUnavailableError then
          bindE (fail_if_possible P session UPLOAD_VALIDATION_IO_ERROR) (\<lambda>_.
          raise (ValidationService UploadValidationUnavailableError))
        else raise e)"

text \<open>The call of the validator with its \<open>except\<close> clauses; \<open>Inl\<close> is the rejected session that is
  the result of the method.\<close>

definition judge_media ::
    "('s, 'h) upload_ports \<Rightarrow> upload_session \<Rightarrow> 'h \<Rightarrow> ('s, upload_session + media_evidence) uprog" where
  "judge_media P session reader = try_except
     (bindE (port (po_validate_media P reader)) (\<lambda>evidence. ret (Inr evidence)))
     (\<lambda>e. case e of
        MediaValidation UploadMediaValidationInterruptedError \<Rightarrow>
          raise (ValidationService UploadValidationInterruptedError)
      | ValidationService UploadValidationInterruptedError \<Rightarrow> raise e
      | MediaValidation (UploadMediaValidationRejectedError code) \<Rightarrow>
          bindE (reject_upload P session code) (\<lambda>rejected. ret (Inl rejected))
      | MediaValidation (UploadMediaValidationInfrastructureError code) \<Rightarrow>
          bindE (fail_if_possible P session code) (\<lambda>_. raise (validation_infrastructure_error code))
      | Unfinished \<Rightarrow> raise e
      | _ \<Rightarrow>
          bindE (fail_if_possible P session UPLOAD_VALIDATION_INTERNAL_ERROR) (\<lambda>_.
          raise (ValidationService UploadValidationUnavailableError)))"

definition hash_and_judge ::
    "('s, 'h) upload_ports \<Rightarrow> nat \<Rightarrow> upload_session \<Rightarrow> 'h \<Rightarrow> ('s, validation_result) uprog" where
  "hash_and_judge P rounds session reader =
     bindE (sha256_of_reader P rounds reader) (\<lambda>checksum_hex.
     bindE (port (po_verify_consistent P reader)) (\<lambda>_.
     bindE (port (po_seek_start P reader)) (\<lambda>_.
     bindE (judge_media P session reader) (\<lambda>judged.
     case judged of
       Inl rejected \<Rightarrow> ret (validation_result_of rejected)
     | Inr evidence \<Rightarrow>
         bindE (port (po_verify_consistent P reader)) (\<lambda>_.
         bindE (port (po_seek_start P reader)) (\<lambda>_.
         bindE (sha256_of_reader P rounds reader) (\<lambda>second_checksum_hex.
         if second_checksum_hex \<noteq> checksum_hex then
           bindE (fail_if_possible P session UPLOAD_VALIDATION_QUARANTINE_INCONSISTENT) (\<lambda>_.
           raise (ValidationService UploadValidationQuarantineInconsistentError))
         else
           bindE (port (po_verify_consistent P reader)) (\<lambda>_.
           bindE (complete_success P session checksum_hex evidence) (\<lambda>completed.
           ret (validation_result_of completed))))))))))"

definition validate_stable_quarantine_object ::
    "('s, 'h) upload_ports \<Rightarrow> nat \<Rightarrow> upload_session \<Rightarrow> ('s, validation_result) uprog" where
  "validate_stable_quarantine_object P rounds session =
     (if us_received_size_bytes session \<noteq> us_declared_size_bytes session then
        bindE (fail_if_possible P session UPLOAD_VALIDATION_QUARANTINE_INCONSISTENT) (\<lambda>_.
        raise (ValidationService UploadValidationQuarantineInconsistentError))
      else
        bindE (open_validation_reader P session) (\<lambda>reader.
        try_finally
          (try_except (hash_and_judge P rounds session reader)
             (\<lambda>e. if e = Quarantine QuarantineStateInconsistentError then
                  bindE (fail_if_possible P session UPLOAD_VALIDATION_QUARANTINE_INCONSISTENT) (\<lambda>_.
                  raise (ValidationService UploadValidationQuarantineInconsistentError))
                else raise e))
          (port (po_close P reader))))"

text \<open>The states in which both entry points return at once.\<close>

definition VALIDATION_SETTLED_STATES :: "upload_state list" where
  "VALIDATION_SETTLED_STATES = [U_DUPLICATE_PENDING, U_PUBLISH_PENDING, U_REJECTED]"

definition validate_loaded ::
    "('s, 'h) upload_ports \<Rightarrow> nat \<Rightarrow> upload_session \<Rightarrow> ('s, validation_result) uprog" where
  "validate_loaded P rounds session =
     (if us_state session \<noteq> U_VALIDATING
      then raise (ValidationService UploadValidationStateConflictError)
      else validate_stable_quarantine_object P rounds session)"

definition validate_owned_blocking ::
    "('s, 'h) upload_ports \<Rightarrow> nat \<Rightarrow> uuid \<Rightarrow> ('s, validation_result) uprog" where
  "validate_owned_blocking P rounds session_id =
     bindE (load_for_validation session_id) (\<lambda>session.
     if us_state session \<in> set VALIDATION_SETTLED_STATES then ret (validation_result_of session)
     else bindE (if us_state session = U_RECEIVED then start_validation_service P session
                 else ret session) (validate_loaded P rounds))"

definition recover_abandoned_validating_owned_blocking ::
    "('s, 'h) upload_ports \<Rightarrow> nat \<Rightarrow> uuid \<Rightarrow> ('s, validation_result) uprog" where
  "recover_abandoned_validating_owned_blocking P rounds session_id =
     bindE (load_for_validation session_id) (\<lambda>session.
     if us_state session \<in> set VALIDATION_SETTLED_STATES then ret (validation_result_of session)
     else validate_loaded P rounds session)"

end
