(* ===== verification/Upload_Transport.thy ===== *)
theory Upload_Transport
  imports Upload_Services
begin

text \<open>
  \<open>application/upload_transport.py\<close>: \<open>UploadTransportService\<close> creates upload sessions, receives
  their bytes in chunks, completes and cancels them and resolves duplicates.  The size of the
  quarantine file is reconciled with the stored offset before every write and after every write
  that failed.  The lease of the session lock is not modelled: a program may be interleaved with
  any other.
\<close>

section \<open>Ports and limits\<close>

type_synonym path_parts = "pystr list"

record upload_limits =
  tl_max_total_bytes :: int
  tl_max_patch_bytes :: int
  tl_session_ttl_seconds :: int
  tl_min_free_space_reserve_bytes :: int

text \<open>
  A path is the list of the parts of what \<open>Path.resolve\<close> returns; \<open>tp_library_roots\<close> are the roots
  of POSIX flavour that \<open>list_all\<close> of the library repository returns.
\<close>

record ('s, 'h) transport_ports = "('s, 'h) upload_ports" +
  tp_limits :: upload_limits
  tp_storage_configured :: bool
  tp_root_available :: "'s \<Rightarrow> bool \<times> 's"
  tp_available_bytes :: "'s \<Rightarrow> (upload_exn + int) \<times> 's"
  tp_file_size :: "pystr \<Rightarrow> 's \<Rightarrow> (upload_exn + int option) \<times> 's"
  tp_open_writer :: "pystr \<Rightarrow> int \<Rightarrow> bool \<Rightarrow> 's \<Rightarrow> (upload_exn + 'h) \<times> 's"
  tp_truncate :: "pystr \<Rightarrow> int \<Rightarrow> 's \<Rightarrow> (upload_exn + unit) \<times> 's"
  tp_write :: "'h \<Rightarrow> bytes \<Rightarrow> 's \<Rightarrow> (upload_exn + int) \<times> 's"
  tp_truncate_and_fsync :: "'h \<Rightarrow> int \<Rightarrow> 's \<Rightarrow> (upload_exn + unit) \<times> 's"
  tp_flush_and_fsync :: "'h \<Rightarrow> 's \<Rightarrow> (upload_exn + unit) \<times> 's"
  tp_next_chunk :: "'s \<Rightarrow> (upload_exn + bytes option) \<times> 's"
  tp_quarantine_root :: "path_parts option"
  tp_preview_cache_root :: "path_parts option"
  tp_library_roots :: "'s \<Rightarrow> (upload_exn + path_parts list) \<times> 's"

record upload_snapshot =
  sn_id :: pystr
  sn_state :: pystr
  sn_display_filename :: pystr
  sn_declared_size_bytes :: int
  sn_received_size_bytes :: int
  sn_expires_at :: int
  sn_failure_code :: "pystr option"

definition snapshot_of :: "upload_session \<Rightarrow> upload_snapshot" where
  "snapshot_of s = \<lparr>sn_id = uuid_to_text (us_id s), sn_state = upload_state_value (us_state s),
     sn_display_filename = us_display_filename s, sn_declared_size_bytes = us_declared_size_bytes s,
     sn_received_size_bytes = us_received_size_bytes s, sn_expires_at = us_expires_at_ms s,
     sn_failure_code = us_failure_code s\<rparr>"

abbreviation fails :: "transport_error \<Rightarrow> ('s, 'a) uprog" where
  "fails e \<equiv> raise (TransportService e)"

definition UPLOAD_FAILED_STORAGE_INCONSISTENT :: pystr where
  "UPLOAD_FAILED_STORAGE_INCONSISTENT = lit ''QUARANTINE_STATE_INCONSISTENT''"

section \<open>Roots and space\<close>

definition path_contains :: "path_parts \<Rightarrow> path_parts \<Rightarrow> bool" where
  "path_contains parent child \<longleftrightarrow> take (length parent) child = parent"

definition roots_overlap :: "path_parts \<Rightarrow> path_parts \<Rightarrow> bool" where
  "roots_overlap left right \<longleftrightarrow> path_contains left right \<or> path_contains right left"

definition require_storage :: "('s, 'h) transport_ports \<Rightarrow> ('s, unit) uprog" where
  "require_storage P =
     (if \<not> tp_storage_configured P then fails UploadCapabilityNotConfiguredError
      else bindE (pure_port (tp_root_available P)) (\<lambda>available.
        if available then ret () else fails UploadCapabilityNotConfiguredError))"

definition ensure_root_separation :: "('s, 'h) transport_ports \<Rightarrow> ('s, unit) uprog" where
  "ensure_root_separation P =
     (case tp_quarantine_root P of
        None \<Rightarrow> fails UploadCapabilityNotConfiguredError
      | Some root \<Rightarrow>
          if (case tp_preview_cache_root P of None \<Rightarrow> False | Some c \<Rightarrow> roots_overlap root c)
          then fails UploadCapabilityNotConfiguredError
          else bindE (port (tp_library_roots P)) (\<lambda>roots.
            if list_ex (roots_overlap root) roots then fails UploadCapabilityNotConfiguredError
            else ret ()))"

definition ensure_space :: "('s, 'h) transport_ports \<Rightarrow> int \<Rightarrow> ('s, unit) uprog" where
  "ensure_space P requested_bytes =
     bindE (try_except (bindE (require_storage P) (\<lambda>_. port (tp_available_bytes P)))
       (\<lambda>e. if e \<in> {Quarantine QuarantineStorageUnavailableError,
                    Quarantine QuarantineStorageInsufficientSpaceError}
            then fails UploadInsufficientStorageError else raise e)) (\<lambda>available.
     if requested_bytes + tl_min_free_space_reserve_bytes (tp_limits P) > available
     then fails UploadInsufficientStorageError else ret ())"

record upload_capability =
  cp_uploads_enabled :: bool
  cp_max_total_size_bytes :: int
  cp_max_chunk_size_bytes :: int
  cp_session_ttl_seconds :: int

definition get_capability :: "('s, 'h) transport_ports \<Rightarrow> ('s, upload_capability) uprog" where
  "get_capability P =
     bindE (try_except
       (bindE (require_storage P) (\<lambda>_. bindE (ensure_root_separation P) (\<lambda>_. ret True)))
       (\<lambda>e. case e of TransportService _ \<Rightarrow> ret False | _ \<Rightarrow> raise e)) (\<lambda>enabled.
     ret \<lparr>cp_uploads_enabled = enabled, cp_max_total_size_bytes = tl_max_total_bytes (tp_limits P),
          cp_max_chunk_size_bytes = tl_max_patch_bytes (tp_limits P),
          cp_session_ttl_seconds = tl_session_ttl_seconds (tp_limits P)\<rparr>)"

section \<open>Loading and changing a session\<close>

definition load_session :: "uuid \<Rightarrow> ('s, upload_session) uprog" where
  "load_session session_id =
     bindE (session_errors (sessions (get_session session_id))
       (\<lambda>_. fails UploadQuarantineUnavailableError)) (\<lambda>found.
     case found of None \<Rightarrow> fails UploadSessionNotFoundTransportError | Some s \<Rightarrow> ret s)"

definition get_status :: "uuid \<Rightarrow> ('s, upload_snapshot) uprog" where
  "get_status session_id = bindE (load_session session_id) (\<lambda>s. ret (snapshot_of s))"

fun transition_failure :: "session_repo_error \<Rightarrow> transport_error" where
  "transition_failure UploadSessionNotFoundError = UploadSessionNotFoundTransportError"
| "transition_failure IncompleteUploadSessionError = UploadQuarantineStateInconsistentError"
| "transition_failure InvalidUploadSessionTransitionError = UploadSessionStateConflictError"
| "transition_failure UploadSessionConcurrencyConflictError = UploadConcurrencyConflictError"
| "transition_failure _ = UploadQuarantineUnavailableError"

definition transport_transition ::
    "('s, 'h) transport_ports \<Rightarrow> upload_session \<Rightarrow> upload_state \<Rightarrow> pystr option
     \<Rightarrow> ('s, upload_session) uprog" where
  "transport_transition P session target failure_code = session_errors
     (bindE (pure_port (po_now_ms P)) (\<lambda>now.
      sessions (transition_state (us_id session) (us_state session) target (us_version session) now
        failure_code)))
     (\<lambda>e. fails (transition_failure e))"

fun disposition_failure :: "session_repo_error \<Rightarrow> transport_error" where
  "disposition_failure UploadSessionNotFoundError = UploadSessionNotFoundTransportError"
| "disposition_failure InvalidUploadSessionTransitionError = UploadSessionStateConflictError"
| "disposition_failure UploadSessionConcurrencyConflictError = UploadConcurrencyConflictError"
| "disposition_failure _ = UploadQuarantineUnavailableError"

definition transport_disposition ::
    "('s, 'h) transport_ports \<Rightarrow> upload_session \<Rightarrow> duplicate_disposition \<Rightarrow> ('s, upload_session) uprog"
    where
  "transport_disposition P session disposition = session_errors
     (bindE (pure_port (po_now_ms P)) (\<lambda>now.
      sessions (record_duplicate_disposition (us_id session) (us_version session)
        (Member disposition) now)))
     (\<lambda>e. fails (disposition_failure e))"

definition EXPIRY_EXEMPT_STATES :: "upload_state list" where
  "EXPIRY_EXEMPT_STATES = [U_CATALOGED, U_REJECTED, U_CANCELLED, U_EXPIRED, U_FAILED]"

definition expire_if_needed ::
    "('s, 'h) transport_ports \<Rightarrow> upload_session \<Rightarrow> ('s, upload_session) uprog" where
  "expire_if_needed P session =
     (if us_state session \<in> set EXPIRY_EXEMPT_STATES then ret session
      else bindE (pure_port (po_now_ms P)) (\<lambda>now.
        if now \<le> us_expires_at_ms session then ret session
        else bindE (transport_transition P session U_EXPIRED None) (\<lambda>_.
          fails UploadSessionExpiredError)))"

definition fail_inconsistent_session ::
    "('s, 'h) transport_ports \<Rightarrow> upload_session \<Rightarrow> ('s, 'a) uprog" where
  "fail_inconsistent_session P session =
     bindE (try_except
       (bindE (transport_transition P session U_FAILED (Some UPLOAD_FAILED_STORAGE_INCONSISTENT))
          (\<lambda>_. ret ()))
       (\<lambda>e. if e = TransportService UploadSessionStateConflictError then ret () else raise e)) (\<lambda>_.
     fails UploadQuarantineStateInconsistentError)"

definition remove_cancelled_file ::
    "('s, 'h) transport_ports \<Rightarrow> upload_session \<Rightarrow> ('s, unit) uprog" where
  "remove_cancelled_file P session =
     try_except (request_removal (po_remove P) (us_storage_key session))
       (\<lambda>e. if e = Quarantine QuarantineWriteFailedError then fails UploadQuarantineUnavailableError
            else raise e)"

section \<open>Creating a session\<close>

definition checked_identity ::
    "pyobj \<Rightarrow> pyobj \<Rightarrow> uuid enum_arg option \<Rightarrow> pystr enum_arg option
     \<Rightarrow> duplicate_resolution_mode enum_arg
     \<Rightarrow> upload_error + pystr \<times> int \<times> uuid option \<times> pystr option \<times> duplicate_resolution_mode" where
  "checked_identity display_filename declared_size_bytes session_id storage_key mode =
     and_then (upload_display_filename display_filename) (\<lambda>filename.
     and_then (case declared_size_bytes of
         PyInt n \<Rightarrow> if n \<le> 0 then Inl FrameNestUploadSessionError else Inr n
       | _ \<Rightarrow> Inl FrameNestUploadSessionError) (\<lambda>total_bytes.
     and_then (opt_map (\<lambda>a. case a of Member u \<Rightarrow> Inr u | Raw _ \<Rightarrow> Inl FrameNestUploadSessionError) session_id)
       (\<lambda>sid.
     and_then (opt_map (\<lambda>a. case a of Member k \<Rightarrow> Inr k | Raw _ \<Rightarrow> Inl FrameNestUploadSessionError) storage_key)
       (\<lambda>key.
     case mode of Member m \<Rightarrow> Inr (filename, total_bytes, sid, key, m)
     | Raw _ \<Rightarrow> Inl FrameNestUploadSessionError))))"

text \<open>\<open>x or draw()\<close> for an identity that is an object.\<close>

definition given_or_new :: "('s, 'h) transport_ports \<Rightarrow> (uuid \<Rightarrow> 'a) \<Rightarrow> 'a option \<Rightarrow> ('s, 'a) uprog" where
  "given_or_new P build given =
     (case given of Some x \<Rightarrow> ret x | None \<Rightarrow> bindE (pure_port (po_new_uuid P)) (\<lambda>u. ret (build u)))"

definition new_session ::
    "upload_limits \<Rightarrow> uuid \<Rightarrow> pystr \<Rightarrow> pystr \<Rightarrow> int \<Rightarrow> int \<Rightarrow> pystr option
     \<Rightarrow> duplicate_resolution_mode \<Rightarrow> upload_session" where
  "new_session limits sid key filename total_bytes now login mode =
     \<lparr>us_id = sid, us_state = U_CREATED, us_storage_key = key, us_display_filename = filename,
       us_declared_size_bytes = total_bytes, us_received_size_bytes = 0, us_checksum_algorithm = None,
       us_checksum_hex = None, us_created_at_ms = now, us_updated_at_ms = now,
       us_expires_at_ms = now + tl_session_ttl_seconds limits * 1000, us_failure_code = None,
       us_version = 0, us_validated_media_kind = None, us_validated_format = None,
       us_byte_identity_id = None, us_duplicate_disposition = None,
       us_created_by_login_key = login, us_duplicate_resolution_mode = mode\<rparr>"

definition same_upload ::
    "upload_session \<Rightarrow> pystr \<Rightarrow> pystr \<Rightarrow> int \<Rightarrow> pystr option \<Rightarrow> duplicate_resolution_mode \<Rightarrow> bool" where
  "same_upload s key filename total_bytes login mode \<longleftrightarrow>
     us_storage_key s = key \<and> us_display_filename s = filename \<and> us_declared_size_bytes s = total_bytes
     \<and> us_created_by_login_key s = login \<and> us_duplicate_resolution_mode s = mode"

text \<open>The branch of \<open>create_session\<close> for an identity or a storage key that is taken.\<close>

definition resume_existing ::
    "uuid option \<Rightarrow> pystr option \<Rightarrow> (pystr \<Rightarrow> upload_session \<Rightarrow> bool)
     \<Rightarrow> ('s, upload_snapshot) uprog" where
  "resume_existing sid key same =
     (case (sid, key) of
        (Some i, Some k) \<Rightarrow>
          bindE (session_errors (sessions (get_session i)) (\<lambda>_. fails UploadQuarantineUnavailableError))
            (\<lambda>existing. case existing of
               None \<Rightarrow> fails UploadQuarantineUnavailableError
             | Some s \<Rightarrow> if same k s then ret (snapshot_of s)
                         else fails UploadQuarantineUnavailableError)
      | _ \<Rightarrow> fails UploadQuarantineUnavailableError)"

definition transport_create_session ::
    "('s, 'h) transport_ports \<Rightarrow> pyobj \<Rightarrow> pyobj \<Rightarrow> uuid enum_arg option \<Rightarrow> pystr enum_arg option
     \<Rightarrow> pystr option \<Rightarrow> duplicate_resolution_mode enum_arg \<Rightarrow> ('s, upload_snapshot) uprog" where
  "transport_create_session P display_filename declared_size_bytes session_id storage_key login mode =
     bindE (require_storage P) (\<lambda>_.
     bindE (lift (rescue (\<lambda>_. TransportService UploadInvalidMetadataError)
       (checked_identity display_filename declared_size_bytes session_id storage_key mode)))
       (\<lambda>(filename, total_bytes, sid, key, m).
     if total_bytes > tl_max_total_bytes (tp_limits P) then fails UploadTooLargeError
     else
     bindE (ensure_root_separation P) (\<lambda>_.
     bindE (ensure_space P total_bytes) (\<lambda>_.
     bindE (pure_port (po_now_ms P)) (\<lambda>now.
     bindE (given_or_new P (\<lambda>u. u) sid) (\<lambda>i.
     bindE (given_or_new P uuid_hex key) (\<lambda>k.
     let s = new_session (tp_limits P) i k filename total_bytes now login m in
     bindE (lift (rescue UploadDomain (upload_session_post_init s))) (\<lambda>_.
     session_errors
       (bindE (sessions (create_session s)) (\<lambda>_. ret (snapshot_of s)))
       (\<lambda>e. if e \<in> {UploadSessionAlreadyExistsError, UploadStorageKeyAlreadyExistsError}
            then resume_existing sid key (\<lambda>k s. same_upload s k filename total_bytes login m)
            else fails UploadQuarantineUnavailableError)))))))))"

section \<open>The quarantine file\<close>

text \<open>Before a write: bytes past the stored offset, left by a write that was never acknowledged, are
  cut off.\<close>

definition reconcile_file_before_write ::
    "('s, 'h) transport_ports \<Rightarrow> upload_session \<Rightarrow> ('s, unit) uprog" where
  "reconcile_file_before_write P session =
     bindE (try_except (port (tp_file_size P (us_storage_key session)))
       (\<lambda>e. if e = Quarantine QuarantineStateInconsistentError
            then fails UploadQuarantineStateInconsistentError
            else if e = Quarantine QuarantineStorageUnavailableError
            then fails UploadQuarantineUnavailableError else raise e)) (\<lambda>found.
     case found of
       None \<Rightarrow> if us_received_size_bytes session = 0 then ret ()
               else fail_inconsistent_session P session
     | Some n \<Rightarrow>
         if n = us_received_size_bytes session then ret ()
         else if n > us_received_size_bytes session then
           try_except (port (tp_truncate P (us_storage_key session) (us_received_size_bytes session)))
             (\<lambda>e. if e = Quarantine QuarantineWriteFailedError
                  then fails UploadQuarantineUnavailableError else raise e)
         else fail_inconsistent_session P session)"

text \<open>The last statements of the two checks below: a file that is too long is cut back, and the
  session fails either way.\<close>

definition cut_and_fail ::
    "('s, 'h) transport_ports \<Rightarrow> upload_session \<Rightarrow> int option \<Rightarrow> ('s, unit) uprog" where
  "cut_and_fail P session found =
     bindE (case found of
         Some n \<Rightarrow> if n > us_received_size_bytes session
           then port (tp_truncate P (us_storage_key session) (us_received_size_bytes session))
           else ret ()
       | None \<Rightarrow> ret ()) (\<lambda>_.
     fail_inconsistent_session P session)"

definition ensure_complete_file ::
    "('s, 'h) transport_ports \<Rightarrow> upload_session \<Rightarrow> ('s, unit) uprog" where
  "ensure_complete_file P session =
     bindE (try_except (port (tp_file_size P (us_storage_key session)))
       (\<lambda>e. if e = Quarantine QuarantineStateInconsistentError
            then fail_inconsistent_session P session else raise e)) (\<lambda>found.
     if found \<noteq> Some (us_declared_size_bytes session) \<or> found \<noteq> Some (us_received_size_bytes session)
     then cut_and_fail P session found else ret ())"

definition ensure_file_matches_received_size ::
    "('s, 'h) transport_ports \<Rightarrow> upload_session \<Rightarrow> ('s, unit) uprog" where
  "ensure_file_matches_received_size P session =
     bindE (try_except (port (tp_file_size P (us_storage_key session)))
       (\<lambda>e. if e = Quarantine QuarantineStateInconsistentError
            then fail_inconsistent_session P session
            else if e = Quarantine QuarantineStorageUnavailableError
            then fails UploadQuarantineUnavailableError else raise e)) (\<lambda>found.
     if found \<noteq> Some (us_received_size_bytes session) then cut_and_fail P session found else ret ())"

section \<open>Completing, cancelling and resolving duplicates\<close>

definition transport_complete :: "('s, 'h) transport_ports \<Rightarrow> uuid \<Rightarrow> ('s, upload_snapshot) uprog" where
  "transport_complete P session_id =
     bindE (require_storage P) (\<lambda>_.
     bindE (load_session session_id) (\<lambda>loaded.
     bindE (expire_if_needed P loaded) (\<lambda>session.
     if us_state session = U_RECEIVED then
       bindE (ensure_complete_file P session) (\<lambda>_. ret (snapshot_of session))
     else if us_state session \<noteq> U_RECEIVING then fails UploadSessionStateConflictError
     else if us_received_size_bytes session \<noteq> us_declared_size_bytes session then
       bindE (ensure_file_matches_received_size P session) (\<lambda>_. fails UploadSessionStateConflictError)
     else
       bindE (ensure_complete_file P session) (\<lambda>_.
       bindE (transport_transition P session U_RECEIVED None) (\<lambda>updated.
       ret (snapshot_of updated))))))"

definition NOT_CANCELLABLE_STATES :: "upload_state list" where
  "NOT_CANCELLABLE_STATES = [U_EXPIRED, U_FAILED, U_CATALOGED, U_REJECTED]"

definition cancel_owned ::
    "('s, 'h) transport_ports \<Rightarrow> upload_session \<Rightarrow> ('s, upload_session) uprog" where
  "cancel_owned P session =
     (if us_state session = U_CANCELLED then
        bindE (remove_cancelled_file P session) (\<lambda>_. ret session)
      else if us_state session \<in> set NOT_CANCELLABLE_STATES then fails UploadSessionStateConflictError
      else
        bindE (transport_transition P session U_CANCELLED None) (\<lambda>cancelled.
        bindE (remove_cancelled_file P cancelled) (\<lambda>_. ret cancelled)))"

definition transport_cancel :: "('s, 'h) transport_ports \<Rightarrow> uuid \<Rightarrow> ('s, upload_snapshot) uprog" where
  "transport_cancel P session_id =
     bindE (require_storage P) (\<lambda>_.
     bindE (load_session session_id) (\<lambda>session.
     bindE (cancel_owned P session) (\<lambda>cancelled. ret (snapshot_of cancelled))))"

text \<open>\<open>UploadDuplicateResolution\<close>.\<close>

datatype duplicate_resolution = RESOLVE_KEEP_SEPARATE | RESOLVE_DISCARD

definition keep_duplicate ::
    "('s, 'h) transport_ports \<Rightarrow> upload_session \<Rightarrow> ('s, upload_snapshot) uprog" where
  "keep_duplicate P session =
     (if us_duplicate_disposition session = Some KEEP_SEPARATE
         \<and> us_state session \<in> {U_PUBLISH_PENDING, U_PUBLISHED, U_CATALOGED}
      then ret (snapshot_of session)
      else if us_state session \<noteq> U_DUPLICATE_PENDING \<or> us_duplicate_disposition session \<noteq> None
      then fails UploadSessionStateConflictError
      else bindE (transport_disposition P session KEEP_SEPARATE) (\<lambda>kept. ret (snapshot_of kept)))"

definition discard_duplicate ::
    "('s, 'h) transport_ports \<Rightarrow> upload_session \<Rightarrow> ('s, upload_snapshot) uprog" where
  "discard_duplicate P session =
     (if us_state session = U_CANCELLED \<and> us_duplicate_disposition session = Some DISCARD then
        bindE (remove_cancelled_file P session) (\<lambda>_. ret (snapshot_of session))
      else if us_state session \<noteq> U_DUPLICATE_PENDING \<or> us_duplicate_disposition session \<noteq> None
      then fails UploadSessionStateConflictError
      else
        bindE (transport_disposition P session DISCARD) (\<lambda>discarded.
        bindE (remove_cancelled_file P discarded) (\<lambda>_. ret (snapshot_of discarded))))"

definition transport_resolve_duplicate ::
    "('s, 'h) transport_ports \<Rightarrow> uuid \<Rightarrow> duplicate_resolution enum_arg \<Rightarrow> ('s, upload_snapshot) uprog"
    where
  "transport_resolve_duplicate P session_id resolution =
     bindE (require_storage P) (\<lambda>_.
     bindE (load_session session_id) (\<lambda>session.
     if \<not> uses_explicit_duplicate_resolution (Member (us_duplicate_resolution_mode session))
     then fails UploadSessionStateConflictError
     else case resolution of
         Member RESOLVE_KEEP_SEPARATE \<Rightarrow> keep_duplicate P session
       | Member RESOLVE_DISCARD \<Rightarrow> discard_duplicate P session
       | Raw _ \<Rightarrow> fails UploadSessionStateConflictError))"

end
