(* ===== verification/Upload_Receiving.thy ===== *)
theory Upload_Receiving
  imports Upload_Transport
begin

text \<open>
  \<open>receive_chunk\<close> of \<open>application/upload_transport.py\<close>: one PATCH of an upload, and what it does to
  the quarantine file and the session when the write or the transaction fails.
\<close>

section \<open>Recovering from a failed write\<close>

definition close_quietly :: "('s, 'h) transport_ports \<Rightarrow> 'h \<Rightarrow> bool \<Rightarrow> ('s, unit) uprog" where
  "close_quietly P writer close_attempted =
     (if close_attempted then ret ()
      else try_except (port (po_close P writer)) (\<lambda>_. ret ()))"

definition transport_errors_pass :: "('s, unit) uprog \<Rightarrow> ('s, unit) uprog" where
  "transport_errors_pass m =
     try_except m (\<lambda>e. case e of TransportService _ \<Rightarrow> ret () | _ \<Rightarrow> raise e)"

definition fail_authoritative_inconsistent_session ::
    "('s, 'h) transport_ports \<Rightarrow> upload_session \<Rightarrow> ('s, 'a) uprog" where
  "fail_authoritative_inconsistent_session P current =
     bindE (transport_errors_pass (bindE
       (transport_transition P current U_FAILED (Some UPLOAD_FAILED_STORAGE_INCONSISTENT)) (\<lambda>_. ret ())))
     (\<lambda>_. fails UploadQuarantineStateInconsistentError)"

definition ROLLBACK_EXEMPT_STATES :: "upload_state list" where
  "ROLLBACK_EXEMPT_STATES =
     [U_CANCELLED, U_EXPIRED, U_FAILED, U_CATALOGED, U_REJECTED, U_PUBLISHED]"

definition fail_session_after_unverified_rollback ::
    "('s, 'h) transport_ports \<Rightarrow> uuid \<Rightarrow> ('s, unit) uprog" where
  "fail_session_after_unverified_rollback P session_id =
     bindE (session_errors (sessions (get_session session_id)) (\<lambda>_. ret None)) (\<lambda>current.
     case current of
       None \<Rightarrow> ret ()
     | Some s \<Rightarrow>
         if us_state s \<in> set ROLLBACK_EXEMPT_STATES then ret ()
         else transport_errors_pass (bindE
           (transport_transition P s U_FAILED (Some UPLOAD_FAILED_STORAGE_INCONSISTENT)) (\<lambda>_. ret ())))"

text \<open>The stored offset is past the one this write started from: another write was acknowledged.\<close>

definition recover_advanced_patch ::
    "('s, 'h) transport_ports \<Rightarrow> 'h \<Rightarrow> upload_session \<Rightarrow> bool \<Rightarrow> ('s, 'a) uprog" where
  "recover_advanced_patch P writer current close_attempted =
     bindE (close_quietly P writer close_attempted) (\<lambda>_.
     bindE (try_except (port (tp_file_size P (us_storage_key current)))
       (\<lambda>e. if e \<in> {Quarantine QuarantineStateInconsistentError,
                    Quarantine QuarantineStorageUnavailableError}
            then fails UploadQuarantineStateInconsistentError else raise e)) (\<lambda>found.
     let stored = us_received_size_bytes current in
     case found of
       None \<Rightarrow> fail_authoritative_inconsistent_session P current
     | Some n \<Rightarrow>
         if n = stored then fails (UploadOffsetConflictTransportError stored)
         else if n < stored then fail_authoritative_inconsistent_session P current
         else
           bindE (try_except
             (bindE (port (tp_truncate P (us_storage_key current) stored)) (\<lambda>_.
              port (tp_file_size P (us_storage_key current))))
             (\<lambda>e. if e \<in> {Quarantine QuarantineWriteFailedError,
                          Quarantine QuarantineStateInconsistentError,
                          Quarantine QuarantineStorageUnavailableError}
                  then fails UploadQuarantineStateInconsistentError else raise e)) (\<lambda>verified.
           if verified \<noteq> Some stored then fails UploadQuarantineStateInconsistentError
           else fails (UploadOffsetConflictTransportError stored))))"

text \<open>The last handler: close the writer if that was not tried, fail the session, raise.\<close>

definition abandon_rollback ::
    "('s, 'h) transport_ports \<Rightarrow> 'h \<Rightarrow> uuid \<Rightarrow> bool \<Rightarrow> ('s, 'a) uprog" where
  "abandon_rollback P writer session_id close_attempted =
     bindE (close_quietly P writer close_attempted) (\<lambda>_.
     bindE (fail_session_after_unverified_rollback P session_id) (\<lambda>_.
     fails UploadQuarantineStateInconsistentError))"

fun is_offset_conflict :: "upload_exn \<Rightarrow> bool" where
  "is_offset_conflict (TransportService (UploadOffsetConflictTransportError n)) \<longleftrightarrow> True"
| "is_offset_conflict _ \<longleftrightarrow> False"

text \<open>The bytes of the failed write are cut off and the stored offset is read again; \<open>Unfinished\<close>
  does not arise here.\<close>

definition roll_back ::
    "('s, 'h) transport_ports \<Rightarrow> 'h \<Rightarrow> upload_session \<Rightarrow> int \<Rightarrow> bool \<Rightarrow> ('s, unit) uprog" where
  "roll_back P writer session original_offset close_attempted =
     bindE (try_except
       (bindE (port (tp_truncate_and_fsync P writer original_offset)) (\<lambda>_.
        bindE (port (tp_file_size P (us_storage_key session))) (\<lambda>found.
        if found \<noteq> Some original_offset then fails UploadQuarantineStateInconsistentError
        else
        bindE (sessions (get_session (us_id session))) (\<lambda>after.
        case after of
          None \<Rightarrow> fails UploadQuarantineStateInconsistentError
        | Some s \<Rightarrow> if us_received_size_bytes s \<noteq> original_offset
            then fails UploadQuarantineStateInconsistentError else ret ()))))
       (\<lambda>e. if is_offset_conflict e then raise e
            else abandon_rollback P writer (us_id session) close_attempted)) (\<lambda>_.
     try_except (port (po_close P writer))
       (\<lambda>e. if is_offset_conflict e then raise e
            else abandon_rollback P writer (us_id session) True))"

text \<open>The stored offset is before the one this write started from.\<close>

definition refuse_moved_offset ::
    "('s, 'h) transport_ports \<Rightarrow> 'h \<Rightarrow> upload_session \<Rightarrow> upload_session \<Rightarrow> bool \<Rightarrow> bool
     \<Rightarrow> ('s, 'a) uprog" where
  "refuse_moved_offset P writer session current allow_advanced close_attempted =
     try_except
       (bindE (if close_attempted then ret () else port (po_close P writer)) (\<lambda>_.
        if allow_advanced
        then fails (UploadOffsetConflictTransportError (us_received_size_bytes current))
        else fails UploadQuarantineStateInconsistentError))
       (\<lambda>e. if is_offset_conflict e then raise e
            else bindE (fail_session_after_unverified_rollback P (us_id session)) (\<lambda>_.
              fails UploadQuarantineStateInconsistentError))"

definition recover_failed_patch ::
    "('s, 'h) transport_ports \<Rightarrow> 'h \<Rightarrow> upload_session \<Rightarrow> int \<Rightarrow> transport_error \<Rightarrow> bool \<Rightarrow> bool
     \<Rightarrow> ('s, 'a) uprog" where
  "recover_failed_patch P writer session original_offset original_error allow_advanced close_attempted =
     bindE (session_errors (sessions (get_session (us_id session))) (\<lambda>_. ret None)) (\<lambda>found.
     case found of
       None \<Rightarrow> abandon_rollback P writer (us_id session) close_attempted
     | Some current \<Rightarrow>
         if us_storage_key current \<noteq> us_storage_key session then
           abandon_rollback P writer (us_id session) close_attempted
         else if us_received_size_bytes current > original_offset then
           recover_advanced_patch P writer current close_attempted
         else if us_received_size_bytes current \<noteq> original_offset then
           refuse_moved_offset P writer session current allow_advanced close_attempted
         else
           bindE (roll_back P writer session original_offset close_attempted) (\<lambda>_.
           fails original_error))"

section \<open>Receiving one chunk\<close>

text \<open>\<open>async for chunk in body\<close>; \<open>rounds\<close> bounds the chunks the model reads.\<close>

fun write_body ::
    "('s, 'h) transport_ports \<Rightarrow> 'h \<Rightarrow> int \<Rightarrow> nat \<Rightarrow> int \<Rightarrow> ('s, int) uprog" where
  "write_body P writer content_length 0 actual = raise Unfinished"
| "write_body P writer content_length (Suc rounds) actual =
     bindE (port (tp_next_chunk P)) (\<lambda>next.
     case next of
       None \<Rightarrow> ret actual
     | Some chunk \<Rightarrow>
         if chunk = [] then write_body P writer content_length rounds actual
         else if actual + int (length chunk) > content_length
           then fails UploadBodyLengthMismatchError
         else bindE (port (tp_write P writer chunk)) (\<lambda>written.
           if written \<noteq> int (length chunk) then fails UploadQuarantineUnavailableError
           else write_body P writer content_length rounds (actual + int (length chunk))))"

text \<open>The \<open>except\<close> clauses around the write: the error the client sees when the rollback is
  complete, and whether an offset that moved is reported as such.\<close>

fun patch_error :: "int \<Rightarrow> upload_exn \<Rightarrow> transport_error \<times> bool" where
  "patch_error original_offset (TransportService e) =
     (if e \<in> {UploadBodyLengthMismatchError, UploadQuarantineUnavailableError, UploadChunkTooLargeError}
      then (e, False) else (UploadBodyLengthMismatchError, False))"
| "patch_error original_offset (Quarantine QuarantineWriteFailedError) =
     (UploadQuarantineUnavailableError, False)"
| "patch_error original_offset (SessionRepo e) =
     (if e = UploadOffsetConflictError then (UploadOffsetConflictTransportError original_offset, True)
      else if e = UploadSizeLimitExceededError then (UploadChunkTooLargeError, False)
      else if is_session_repository_error (SessionRepo e) then (UploadConcurrencyConflictError, False)
      else (UploadBodyLengthMismatchError, False))"
| "patch_error original_offset _ = (UploadBodyLengthMismatchError, False)"

definition write_and_advance ::
    "('s, 'h) transport_ports \<Rightarrow> nat \<Rightarrow> upload_session \<Rightarrow> 'h \<Rightarrow> int \<Rightarrow> ('s, upload_session) uprog" where
  "write_and_advance P rounds session writer content_length =
     (let original_offset = us_received_size_bytes session in
      try_except
        (bindE (write_body P writer content_length rounds 0) (\<lambda>actual.
         if actual \<noteq> content_length then fails UploadBodyLengthMismatchError
         else
         bindE (port (tp_flush_and_fsync P writer)) (\<lambda>_.
         bindE (pure_port (po_now_ms P)) (\<lambda>now.
         sessions (advance_received_offset (us_id session) original_offset actual
           (us_version session) now)))))
        (\<lambda>e. if e = Unfinished then raise e
             else case patch_error original_offset e of (reported, allow_advanced) \<Rightarrow>
               recover_failed_patch P writer session original_offset reported allow_advanced False))"

definition open_receiving_session ::
    "('s, 'h) transport_ports \<Rightarrow> uuid \<Rightarrow> int \<Rightarrow> ('s, upload_session) uprog" where
  "open_receiving_session P session_id upload_offset =
     bindE (load_session session_id) (\<lambda>loaded.
     bindE (expire_if_needed P loaded) (\<lambda>session.
     if us_received_size_bytes session \<noteq> upload_offset
     then fails (UploadOffsetConflictTransportError (us_received_size_bytes session))
     else if us_state session = U_CREATED then
       (if upload_offset \<noteq> 0
        then fails (UploadOffsetConflictTransportError (us_received_size_bytes session))
        else transport_transition P session U_RECEIVING None)
     else ret session))"

definition open_patch_writer ::
    "('s, 'h) transport_ports \<Rightarrow> upload_session \<Rightarrow> ('s, 'h) uprog" where
  "open_patch_writer P session =
     (let offset = us_received_size_bytes session in
      bindE (if offset = 0
        then bindE (port (tp_file_size P (us_storage_key session))) (\<lambda>found. ret (found = None))
        else ret False) (\<lambda>create.
      port (tp_open_writer P (us_storage_key session) offset create)))"

definition receive_chunk ::
    "('s, 'h) transport_ports \<Rightarrow> nat \<Rightarrow> uuid \<Rightarrow> int \<Rightarrow> int \<Rightarrow> ('s, upload_snapshot) uprog" where
  "receive_chunk P rounds session_id upload_offset content_length =
     bindE (require_storage P) (\<lambda>_.
     if upload_offset < 0 then fails UploadInvalidOffsetError
     else if content_length \<le> 0 then fails UploadBodyLengthMismatchError
     else if content_length > tl_max_patch_bytes (tp_limits P) then fails UploadChunkTooLargeError
     else
     bindE (ensure_space P content_length) (\<lambda>_.
     bindE (open_receiving_session P session_id upload_offset) (\<lambda>session.
     if us_state session \<noteq> U_RECEIVING then fails UploadSessionStateConflictError
     else if upload_offset + content_length > us_declared_size_bytes session
       then fails UploadChunkTooLargeError
     else
     bindE (reconcile_file_before_write P session) (\<lambda>_.
     bindE (open_patch_writer P session) (\<lambda>writer.
     bindE (write_and_advance P rounds session writer content_length) (\<lambda>updated.
     bindE (try_except (port (po_close P writer))
       (\<lambda>_. recover_failed_patch P writer session (us_received_size_bytes session)
          UploadQuarantineUnavailableError False True)) (\<lambda>_.
     ret (snapshot_of updated))))))))"

end
