(* ===== verification/Upload_Service_Steps.thy ===== *)
theory Upload_Service_Steps
  imports Publication_History Upload_Completion Upload_Receiving
begin

text \<open>
  What a service knows while it runs, and the moves it may make: a thread holds a set of facts
  that no move of another thread can take back (\<open>upload_fact\<close>); it commits a publication only when
  it knows the publication and the storage has confirmed its target, and it asks for the removal
  of a source only when the upload of that source is published, cataloged or cancelled.
\<close>

section \<open>Facts\<close>

datatype upload_fact =
    KnownPublication uuid upload_publication
  | ConfirmedTarget upload_publication
  | ReleasedSource pystr

definition RELEASED_STATES :: "upload_state list" where
  "RELEASED_STATES = [U_PUBLISHED, U_CATALOGED, U_CANCELLED]"

text \<open>The upload that owns a source no longer needs it.\<close>

definition source_released :: "catalog_db \<Rightarrow> pystr \<Rightarrow> bool" where
  "source_released db key \<longleftrightarrow> (\<exists>i s. stored_session db i = Some s \<and> us_storage_key s = key
     \<and> us_state s \<in> set RELEASED_STATES)"

fun db_fact :: "catalog_db \<Rightarrow> upload_fact \<Rightarrow> bool" where
  "db_fact db (KnownPublication i p) \<longleftrightarrow> (\<exists>q. stored_publication db i = Some q \<and> same_target p q)"
| "db_fact db (ConfirmedTarget p) \<longleftrightarrow> False"
| "db_fact db (ReleasedSource key) \<longleftrightarrow> source_released db key"

fun fact_holds :: "'s upload_world \<Rightarrow> upload_fact \<Rightarrow> bool" where
  "fact_holds w (ConfirmedTarget p) \<longleftrightarrow> TargetConfirmed p \<in> set (uw_events w)"
| "fact_holds w f \<longleftrightarrow> db_fact (uw_db w) f"

lemma db_fact_holds: "db_fact (uw_db w) f \<Longrightarrow> fact_holds w f"
  by (cases f) auto

lemma source_released_step:
  assumes "step_ok db db'" and "source_released db key"
  shows "source_released db' key"
proof -
  obtain i s where s: "stored_session db i = Some s" "us_storage_key s = key" "us_state s \<in> set RELEASED_STATES"
    using assms(2) by (auto simp: source_released_def)
  then obtain s' where s': "stored_session db' i = Some s'" "s' = s \<or> session_evolves s s'"
    using assms(1) unfolding step_ok_def by blast
  have "us_storage_key s' = key" "us_state s' \<in> set RELEASED_STATES"
    using s'(2) s(2,3) by (auto simp: session_evolves_def RELEASED_STATES_def)
  then show ?thesis using s'(1) unfolding source_released_def by blast
qed

lemma known_publication_step:
  "publication_step c i (stored_publication db i) (stored_publication db' i) \<Longrightarrow>
     db_fact db (KnownPublication i p) \<Longrightarrow> db_fact db' (KnownPublication i p)"
  by (auto simp: publication_step_def dest: same_target_trans)

lemma db_fact_command:
  assumes ok: "pipeline_ok db" and v: "valid_command c" and f: "db_fact db f"
  shows "db_fact (run_command c db) f"
proof (cases f)
  case (KnownPublication i p)
  then show ?thesis using known_publication_step [OF publication_command_step [OF ok v]] f by blast
next
  case (ReleasedSource key)
  then show ?thesis using source_released_step [OF command_step [OF ok v]] f by simp
qed (use f in simp)

section \<open>Moves\<close>

text \<open>What a thread that knows \<open>g\<close> may do to the database.\<close>

definition db_move :: "upload_fact set \<Rightarrow> catalog_db \<Rightarrow> catalog_db \<Rightarrow> bool" where
  "db_move g db db' \<longleftrightarrow> db' = db
     \<or> (\<exists>c. valid_command c \<and> db' = run_command c db
          \<and> (\<forall>i pid. commits c = Some (i, pid) \<longrightarrow>
               (\<exists>p. up_publication_id p = pid \<and> KnownPublication i p \<in> g \<and> ConfirmedTarget p \<in> g)))"

definition service_move :: "upload_fact set \<Rightarrow> 's upload_world \<Rightarrow> 's upload_world \<Rightarrow> bool" where
  "service_move g w w' \<longleftrightarrow>
     (uw_events w' = uw_events w \<and> db_move g (uw_db w) (uw_db w'))
     \<or> (uw_db w' = uw_db w \<and> (\<exists>p. uw_events w' = uw_events w @ [TargetConfirmed p]))
     \<or> (uw_db w' = uw_db w \<and> (\<exists>key. ReleasedSource key \<in> g
          \<and> uw_events w' = uw_events w @ [RemovalRequested key]))"

definition service_allowed ::
    "upload_fact set \<Rightarrow> 's upload_world \<Rightarrow> upload_fact set \<Rightarrow> 's upload_world \<Rightarrow> bool" where
  "service_allowed g w g' w' \<longleftrightarrow> service_move g w w'
     \<and> (\<forall>f \<in> g'. f \<in> g \<or> (pipeline_ok (uw_db w) \<longrightarrow> fact_holds w' f))"

definition targets_confirmed :: "'s upload_world \<Rightarrow> bool" where
  "targets_confirmed w \<longleftrightarrow> (\<forall>i p. stored_publication (uw_db w) i = Some p \<longrightarrow> up_state p = P_VERIFIED \<longrightarrow>
     (\<exists>q. TargetConfirmed q \<in> set (uw_events w) \<and> same_target q p))"

definition removals_released :: "'s upload_world \<Rightarrow> bool" where
  "removals_released w \<longleftrightarrow> (\<forall>key. RemovalRequested key \<in> set (uw_events w) \<longrightarrow>
     source_released (uw_db w) key)"

definition upload_inv :: "upload_fact set list \<Rightarrow> 's upload_world \<Rightarrow> bool" where
  "upload_inv gs w \<longleftrightarrow> pipeline_reachable (uw_db w) \<and> targets_confirmed w \<and> removals_released w
     \<and> (\<forall>g \<in> set gs. \<forall>f \<in> g. fact_holds w f)"

lemma db_move_reachable:
  "pipeline_reachable db \<Longrightarrow> db_move g db db' \<Longrightarrow> pipeline_reachable db'"
  by (auto simp: db_move_def intro: pipeline_reachable.step)

lemma db_move_fact:
  "pipeline_ok db \<Longrightarrow> db_move g db db' \<Longrightarrow> db_fact db f \<Longrightarrow> db_fact db' f"
  by (auto simp: db_move_def intro: db_fact_command)

lemma move_keeps_facts:
  assumes ok: "pipeline_ok (uw_db w)" and m: "service_move g w w'" and f: "fact_holds w f"
  shows "fact_holds w' f"
proof -
  have e: "set (uw_events w) \<subseteq> set (uw_events w')" using m by (auto simp: service_move_def)
  have d: "db_move g (uw_db w) (uw_db w')" using m by (auto simp: service_move_def db_move_def)
  show ?thesis
  proof (cases f)
    case (ConfirmedTarget p)
    then show ?thesis using e f by auto
  next
    case (KnownPublication i p)
    then show ?thesis using db_move_fact [OF ok d, of f] f by simp
  next
    case (ReleasedSource key)
    then show ?thesis using db_move_fact [OF ok d, of f] f by simp
  qed
qed

lemma move_keeps_targets:
  assumes ok: "pipeline_ok (uw_db w)" and m: "service_move g w w'" and t: "targets_confirmed w"
    and g: "\<forall>f \<in> g. fact_holds w f"
  shows "targets_confirmed w'"
  unfolding targets_confirmed_def
proof (intro allI impI)
  fix i q assume q: "stored_publication (uw_db w') i = Some q" "up_state q = P_VERIFIED"
  have e: "set (uw_events w) \<subseteq> set (uw_events w')" using m by (auto simp: service_move_def)
  have old: "\<exists>r. TargetConfirmed r \<in> set (uw_events w') \<and> same_target r q"
    if "stored_publication (uw_db w) i = Some p" "up_state p = P_VERIFIED" "same_target p q" for p
    using t that e same_target_trans unfolding targets_confirmed_def by blast
  show "\<exists>r. TargetConfirmed r \<in> set (uw_events w') \<and> same_target r q"
  proof (cases "uw_db w' = uw_db w")
    case True
    then show ?thesis using old q by simp
  next
    case False
    then obtain c where c: "valid_command c" "uw_db w' = run_command c (uw_db w)"
        and k: "\<And>j pid. commits c = Some (j, pid) \<Longrightarrow>
          \<exists>p. up_publication_id p = pid \<and> KnownPublication j p \<in> g \<and> ConfirmedTarget p \<in> g"
      using m by (auto simp: service_move_def db_move_def)
    have "publication_step (commits c) i (stored_publication (uw_db w) i) (Some q)"
      using publication_command_step [OF ok c(1), of i] c(2) q(1) by simp
    then consider (same) "Some q = stored_publication (uw_db w) i"
      | (changed) p where "stored_publication (uw_db w) i = Some p" "same_target p q" "up_state p = P_VERIFIED"
      | (commit) p where "stored_publication (uw_db w) i = Some p" "same_target p q"
          "commits c = Some (i, up_publication_id p)"
      using q(2) by (auto simp: publication_step_def)
    then show ?thesis
    proof cases
      case same
      then show ?thesis using old [of q] q(2) by simp
    next
      case changed
      then show ?thesis using old by blast
    next
      case commit
      then obtain r where r: "KnownPublication i r \<in> g" "ConfirmedTarget r \<in> g" using k by blast
      have "same_target r p" using g r(1) commit(1) by force
      moreover have "TargetConfirmed r \<in> set (uw_events w')" using g r(2) e by force
      ultimately show ?thesis using commit(2) same_target_trans by blast
    qed
  qed
qed

lemma move_keeps_removals:
  assumes ok: "pipeline_ok (uw_db w)" and m: "service_move g w w'" and r: "removals_released w"
    and g: "\<forall>f \<in> g. fact_holds w f"
  shows "removals_released w'"
  unfolding removals_released_def
proof (intro allI impI)
  fix key assume key: "RemovalRequested key \<in> set (uw_events w')"
  have d: "db_move g (uw_db w) (uw_db w')" using m by (auto simp: service_move_def db_move_def)
  have "RemovalRequested key \<in> set (uw_events w) \<or> ReleasedSource key \<in> g"
    using m key by (auto simp: service_move_def)
  then have "source_released (uw_db w) key" using r g unfolding removals_released_def by force
  then show "source_released (uw_db w') key" using db_move_fact [OF ok d, of "ReleasedSource key"] by simp
qed

lemma upload_inv_move:
  assumes i: "upload_inv gs w" and n: "n < length gs" and a: "service_allowed (gs ! n) w g' w'"
  shows "upload_inv (gs[n := g']) w'"
proof -
  have r: "pipeline_reachable (uw_db w)" and t: "targets_confirmed w" and rel: "removals_released w"
    and f: "\<And>g. g \<in> set gs \<Longrightarrow> \<forall>x \<in> g. fact_holds w x"
    using i by (auto simp: upload_inv_def)
  have ok: "pipeline_ok (uw_db w)" using r by (rule reachable_pipeline_ok)
  have m: "service_move (gs ! n) w w'" and l: "\<And>x. x \<in> g' \<Longrightarrow> x \<in> gs ! n \<or> fact_holds w' x"
    using a ok by (auto simp: service_allowed_def)
  have own: "\<forall>x \<in> gs ! n. fact_holds w x" by (rule f [OF nth_mem [OF n]])
  have "pipeline_reachable (uw_db w')"
    using m r db_move_reachable by (auto simp: service_move_def)
  moreover have "targets_confirmed w'" by (rule move_keeps_targets [OF ok m t own])
  moreover have "removals_released w'" by (rule move_keeps_removals [OF ok m rel own])
  moreover have "fact_holds w' x" if "g \<in> set (gs[n := g'])" "x \<in> g" for g x
    using that f l own move_keeps_facts [OF ok m] set_update_subset_insert [of gs n g'] by blast
  ultimately show ?thesis by (simp add: upload_inv_def)
qed

section \<open>What a program guarantees\<close>

text \<open>\<open>gives g m Q\<close>: every step of \<open>m\<close>, started with the facts \<open>g\<close>, is an allowed move, no fact is
  forgotten, and a result satisfies \<open>Q\<close> with the facts known at the end.\<close>

definition gives ::
    "upload_fact set \<Rightarrow> ('s, 'a) uprog \<Rightarrow> ('a \<Rightarrow> upload_fact set \<Rightarrow> bool) \<Rightarrow> bool" where
  "gives g m Q \<longleftrightarrow> guarantees service_allowed g m
     (\<lambda>r g'. g \<subseteq> g' \<and> (\<forall>a. r = Inr a \<longrightarrow> Q a g'))"

named_theorems gives_rules "the guarantee of a program, from those of its parts"

lemma gives_mono: "gives g m Q \<Longrightarrow> (\<And>a g'. g \<subseteq> g' \<Longrightarrow> Q a g' \<Longrightarrow> R a g') \<Longrightarrow> gives g m R"
  unfolding gives_def by (erule guarantees_mono) blast

lemma gives_ret: "Q a g \<Longrightarrow> gives g (ret a) Q"
  by (simp add: gives_def ret_def)

lemma gives_raise [gives_rules]: "gives g (raise e) Q"
  by (simp add: gives_def raise_def)

lemma gives_lift: "(\<And>a. m = Inr a \<Longrightarrow> Q a g) \<Longrightarrow> gives g (lift m) Q"
  by (simp add: gives_def lift_def)

lemma gives_bindE:
  assumes "gives g m R" and "\<And>a g'. g \<subseteq> g' \<Longrightarrow> R a g' \<Longrightarrow> gives g' (k a) Q"
  shows "gives g (bindE m k) Q"
  unfolding gives_def
proof (rule guarantees_bindE [OF assms(1) [unfolded gives_def]])
  fix a g' assume h: "g \<subseteq> g' \<and> (\<forall>b. Inr a = Inr b \<longrightarrow> R b g')"
  then have "gives g' (k a) Q" using assms(2) by blast
  then show "guarantees service_allowed g' (k a) (\<lambda>r g''. g \<subseteq> g'' \<and> (\<forall>b. r = Inr b \<longrightarrow> Q b g''))"
    unfolding gives_def by (rule guarantees_mono) (use h in blast)
qed simp

lemma gives_bindE_any: "gives g m (\<lambda>_ _. True) \<Longrightarrow> (\<And>a g'. g \<subseteq> g' \<Longrightarrow> gives g' (k a) Q) \<Longrightarrow> gives g (bindE m k) Q"
  by (rule gives_bindE) auto

lemma gives_try:
  assumes "gives g m Q" and "\<And>e g'. g \<subseteq> g' \<Longrightarrow> gives g' (h e) Q"
  shows "gives g (try_except m h) Q"
  unfolding gives_def try_except_def
proof (rule guarantees_catch [OF assms(1) [unfolded gives_def]])
  fix e :: upload_exn and g' assume h: "g \<subseteq> g' \<and> (\<forall>b. Inl e = Inr b \<longrightarrow> Q b g')"
  then have "gives g' (h e) Q" using assms(2) by blast
  then show "guarantees service_allowed g' (h e) (\<lambda>r g''. g \<subseteq> g'' \<and> (\<forall>b. r = Inr b \<longrightarrow> Q b g''))"
    unfolding gives_def by (rule guarantees_mono) (use h in blast)
qed (auto intro: guarantees_ret)

lemma gives_finally:
  assumes "gives g m Q" and "\<And>g'. g \<subseteq> g' \<Longrightarrow> gives g' c (\<lambda>_ _. True)"
    and "\<And>a g' g''. Q a g' \<Longrightarrow> g' \<subseteq> g'' \<Longrightarrow> Q a g''"
  shows "gives g (try_finally m c) Q"
  unfolding gives_def try_finally_def
proof (rule guarantees_bind [OF assms(1) [unfolded gives_def]])
  fix r :: "upload_exn + 'b" and g' assume h: "g \<subseteq> g' \<and> (\<forall>b. r = Inr b \<longrightarrow> Q b g')"
  have "gives g' (bindE c (\<lambda>_. lift r)) Q"
    by (rule gives_bindE [OF assms(2)], use h in blast, rule gives_lift) (use h assms(3) in blast)
  then show "guarantees service_allowed g' (bindE c (\<lambda>_. lift r))
      (\<lambda>r g''. g \<subseteq> g'' \<and> (\<forall>b. r = Inr b \<longrightarrow> Q b g''))"
    unfolding gives_def by (rule guarantees_mono) (use h in blast)
qed

lemma gives_atomic:
  assumes "\<And>w. service_allowed g w (g \<union> learned (fst (f w))) (snd (f w))"
    and "\<And>a. Q a (g \<union> learned (Inr a))"
  shows "gives g (atomic f) Q"
  unfolding gives_def
proof (rule guarantees_atomic)
  fix w
  show "\<exists>g'. service_allowed g w g' (snd (f w)) \<and> (g \<subseteq> g' \<and> (\<forall>a. fst (f w) = Inr a \<longrightarrow> Q a g'))"
    using assms by (intro exI [of _ "g \<union> learned (fst (f w))"]) auto
qed

lemma allowed_same:
  "uw_db w' = uw_db w \<Longrightarrow> uw_events w' = uw_events w \<Longrightarrow> service_allowed g w (g \<union> {}) w'"
  by (simp add: service_allowed_def service_move_def db_move_def)

lemma gives_port [gives_rules]: "gives g (port f) (\<lambda>_ _. True)"
  unfolding port_def
  by (rule gives_atomic [where learned = "\<lambda>_. {}"]) (auto intro!: allowed_same [simplified] split: prod.split)

lemma gives_pure_port: "gives g (pure_port f) (\<lambda>a _. \<exists>s. a = fst (f s))"
proof -
  have "gives g (pure_port f) (\<lambda>a g'. \<exists>s. a = fst (f s))"
    unfolding gives_def pure_port_def port_def
    by (rule guarantees_atomic)
      (auto intro!: exI [of _ g] allowed_same [simplified] split: prod.split, metis fst_conv)
  then show ?thesis .
qed

lemma gives_now [gives_rules]: "gives g (pure_port f) (\<lambda>_ _. True)"
  by (rule gives_mono [OF gives_pure_port]) simp

text \<open>A transaction: the move it makes, and what its result tells.\<close>

lemma gives_transaction:
  assumes "\<And>db. db_move g db (snd (f db))"
    and "\<And>db a x. pipeline_ok db \<Longrightarrow> fst (f db) = Inr a \<Longrightarrow> x \<in> learned a \<Longrightarrow> db_fact (snd (f db)) x"
  shows "gives g (transaction wrap f) (\<lambda>a g'. learned a \<subseteq> g')"
  unfolding transaction_def
proof (rule gives_atomic [where learned = "case_sum (\<lambda>_. {}) learned"])
  fix w :: "'s upload_world"
  obtain r db where f: "f (uw_db w) = (r, db)" by (cases "f (uw_db w)")
  have m: "db_move g (uw_db w) db" using assms(1) [of "uw_db w"] f by simp
  have "db_fact db x" if "pipeline_ok (uw_db w)" "r = Inr a" "x \<in> learned a" for a x
    using assms(2) [OF that(1), of a x] that f by simp
  then show "service_allowed g w (g \<union> case_sum (\<lambda>_. {}) learned
      (fst (case f (uw_db w) of (r, db) \<Rightarrow> (rescue wrap r, w\<lparr>uw_db := db\<rparr>))))
      (snd (case f (uw_db w) of (r, db) \<Rightarrow> (rescue wrap r, w\<lparr>uw_db := db\<rparr>)))"
    using m by (cases r) (auto simp: f service_allowed_def service_move_def intro!: db_fact_holds)
qed simp

lemma gives_confirm:
  "gives g (confirm counts p f) (\<lambda>b g'. counts b \<longrightarrow> ConfirmedTarget p \<in> g')"
  unfolding confirm_def
  by (rule gives_atomic [where learned = "case_sum (\<lambda>_. {}) (\<lambda>b. if counts b then {ConfirmedTarget p} else {})"])
    (auto simp: service_allowed_def service_move_def db_move_def split: prod.split sum.split)

lemma gives_removal: "ReleasedSource key \<in> g \<Longrightarrow> gives g (request_removal f key) (\<lambda>_ _. True)"
  unfolding request_removal_def
  by (rule gives_atomic [where learned = "\<lambda>_. {}"])
    (auto simp: service_allowed_def service_move_def db_move_def split: prod.split)

end
