(* ===== verification/Upload_Service_Safety.thy ===== *)
theory Upload_Service_Safety
  imports Upload_Service_Steps
begin

text \<open>
  Every service keeps to the allowed moves, and with them the invariant of all interleavings.
\<close>

section \<open>What the transactions tell\<close>

definition state_facts :: "upload_state \<Rightarrow> upload_session \<Rightarrow> upload_fact set" where
  "state_facts st s = (if st \<in> set RELEASED_STATES then {ReleasedSource (us_storage_key s)} else {})"

abbreviation session_facts :: "upload_session \<Rightarrow> upload_fact set" where
  "session_facts s \<equiv> state_facts (us_state s) s"

definition candidate_facts :: "publication_candidate \<Rightarrow> upload_fact set" where
  "candidate_facts c = session_facts (pc_upload c)
     \<union> (case pc_publication c of None \<Rightarrow> {} | Some p \<Rightarrow> {KnownPublication (us_id (pc_upload c)) p})"

definition candidate_stored :: "uuid \<Rightarrow> publication_candidate \<Rightarrow> catalog_db \<Rightarrow> bool" where
  "candidate_stored i c db \<longleftrightarrow> (\<exists>s. stored_session db i = Some s \<and> us_id s = i
     \<and> pc_upload c = candidate_view s \<and> pc_publication c = stored_publication db i)"

lemma session_facts_hold:
  "stored_session db i = Some s \<Longrightarrow> x \<in> session_facts s \<Longrightarrow> db_fact db x"
  by (auto simp: state_facts_def source_released_def split: if_splits)

lemma state_facts_view [simp]: "state_facts st (candidate_view s) = state_facts st s"
  by (simp add: state_facts_def candidate_view_def)

lemma candidate_facts_hold:
  "candidate_stored i c db \<Longrightarrow> x \<in> candidate_facts c \<Longrightarrow> db_fact db x"
  by (auto simp: candidate_stored_def candidate_facts_def dest: session_facts_hold split: option.splits)

lemma require_candidate_stored:
  "pipeline_ok db \<Longrightarrow> require_candidate i db = Inr c \<Longrightarrow> candidate_stored i c db"
  using stored_nonneg(1) [of db i] pipeline_rows [of db]
  by (auto simp: require_candidate_eq candidate_stored_def split: option.splits)

lemma get_candidate_unchanged [simp]: "snd (get_candidate i db) = db"
  by (cases "row_by_id i db"; cases "candidate_from_rows (the (row_by_id i db)) (publication_row_of i db)")
    (simp_all add: get_candidate_def run_in_transaction_def)

lemma get_candidate_result:
  "fst (get_candidate i db) = Inr (Some c) \<Longrightarrow> require_candidate i db = Inr c"
  by (cases "row_by_id i db"; cases "candidate_from_rows (the (row_by_id i db)) (publication_row_of i db)")
    (simp_all add: get_candidate_def run_in_transaction_def require_candidate_def)

lemma get_session_unchanged [simp]: "snd (get_session i db) = db"
  by (cases "row_by_id i db"; cases "session_from_row (the (row_by_id i db))")
    (simp_all add: get_session_def run_in_transaction_def)

lemma get_session_result: "fst (get_session i db) = Inr (Some s) \<Longrightarrow> stored_session db i = Some s"
  by (cases "row_by_id i db"; cases "session_from_row (the (row_by_id i db))")
    (simp_all add: get_session_def run_in_transaction_def stored_session_def)

lemma db_move_refl [simp]: "db_move g db db"
  by (simp add: db_move_def)

lemma db_move_command: "valid_command c \<Longrightarrow> commits c = None \<Longrightarrow> db_move g db (run_command c db)"
  by (auto simp: db_move_def)

definition found_facts :: "publication_candidate option \<Rightarrow> upload_fact set" where
  "found_facts found = (case found of None \<Rightarrow> {} | Some c \<Rightarrow> candidate_facts c)"

lemma gives_get_candidate:
  "gives g (publications (get_candidate i)) (\<lambda>found g'. found_facts found \<subseteq> g')"
  by (rule gives_transaction)
    (auto simp: found_facts_def split: option.splits
      dest: get_candidate_result intro: candidate_facts_hold require_candidate_stored)

lemma gives_get_session:
  "gives g (sessions (get_session i)) (\<lambda>found g'. (case found of None \<Rightarrow> {} | Some s \<Rightarrow> session_facts s) \<subseteq> g')"
  by (rule gives_transaction)
    (auto split: option.splits dest: get_session_result intro: session_facts_hold)

lemma immediate_result:
  "run_in_immediate_transaction f db = (Inr a, db') \<Longrightarrow> f db = Inr (a, db')"
  by (auto simp: run_in_immediate_transaction_def split: sum.splits prod.splits)

lemma transaction_result:
  "run_in_transaction f db = (Inr a, db') \<Longrightarrow> f db = Inr (a, db')"
  by (auto simp: run_in_transaction_def split: sum.splits prod.splits)

text \<open>The result of a commit is the candidate the store then holds.\<close>

lemma gives_publication_command:
  assumes v: "valid_command c" and m: "commits c = None \<or> (\<exists>i p. commits c = Some (i, up_publication_id p)
      \<and> KnownPublication i p \<in> g \<and> ConfirmedTarget p \<in> g)"
    and f: "\<And>db. snd (f db) = run_command c db"
    and r: "\<And>db a db'. pipeline_ok db \<Longrightarrow> f db = (Inr a, db') \<Longrightarrow> candidate_stored i a db'"
  shows "gives g (publications f) (\<lambda>a g'. candidate_facts a \<subseteq> g')"
proof (rule gives_transaction)
  fix db show "db_move g db (snd (f db))"
    unfolding f db_move_def by (intro disjI2 exI [of _ c]) (use v m in auto)
next
  fix db a x assume h: "pipeline_ok db" "fst (f db) = Inr a" "x \<in> candidate_facts a"
  have "f db = (Inr a, snd (f db))" using h(2) by (simp add: prod_eq_iff)
  then show "db_fact (snd (f db)) x" using r h(1,3) candidate_facts_hold by blast
qed

lemma gives_reserve:
  assumes "upload_publication_wf p" and "up_media_id p = None"
  shows "gives g (publications (get_or_create_reservation p v)) (\<lambda>a g'. candidate_facts a \<subseteq> g')"
proof (rule gives_publication_command [where c = "ReserveTarget p v" and i = "up_upload_id p"])
  fix db a db' assume h: "pipeline_ok db" "get_or_create_reservation p v db = (Inr a, db')"
  then have "get_or_create_reservation_in p v db = Inr (a, db')"
    by (cases "0 \<le> v") (auto simp: get_or_create_reservation_def dest: immediate_result)
  from reservation_ok [OF _ _ assms(1) this] pipeline_rows [OF h(1)] stored_nonneg(1) [OF h(1)]
  show "candidate_stored (up_upload_id p) a db'" unfolding candidate_stored_def by force
qed (use assms in simp_all)

lemma gives_commit_verified:
  assumes "KnownPublication i p \<in> g" and "ConfirmedTarget p \<in> g"
  shows "gives g (publications (commit_verified_publication i (up_publication_id p) v pv t))
    (\<lambda>a g'. candidate_facts a \<subseteq> g')"
proof (rule gives_publication_command
    [where c = "CommitVerified i (up_publication_id p) v pv t" and i = i])
  fix db a db' assume h: "pipeline_ok db"
      "commit_verified_publication i (up_publication_id p) v pv t db = (Inr a, db')"
  then have "commit_verified_in i (up_publication_id p) v pv t db = Inr (a, db')"
    by (auto simp: commit_verified_publication_def simp del: publication_repo_non_negative.simps
        dest: immediate_result split: sum.splits)
  from commit_verified_ok [OF _ _ this] pipeline_rows [OF h(1)] stored_nonneg(1) [OF h(1)]
  show "candidate_stored i a db'" unfolding candidate_stored_def by (force simp: published_def)
qed (use assms in auto)

lemma gives_mark_cleanup:
  "gives g (publications (mark_cleanup_complete i pid pv t)) (\<lambda>a g'. candidate_facts a \<subseteq> g')"
proof (rule gives_publication_command [where c = "MarkCleanup i pid pv t" and i = i])
  fix db a db' assume h: "pipeline_ok db" "mark_cleanup_complete i pid pv t db = (Inr a, db')"
  then have "mark_cleanup_in i pid pv t db = Inr (a, db')"
    by (auto simp: mark_cleanup_complete_def simp del: publication_repo_non_negative.simps
        dest: immediate_result split: sum.splits)
  from mark_cleanup_ok [OF _ _ this] pipeline_rows [OF h(1)] stored_nonneg(1) [OF h(1)]
  show "candidate_stored i a db'" unfolding candidate_stored_def by force
qed auto

lemma gives_commit_cataloged:
  assumes "is_uuid4 (lm_id m)" and "is_uuid4 (ml_id l)"
  shows "gives g (publications (commit_cataloged_publication i m l v pv t d)) (\<lambda>a g'. candidate_facts a \<subseteq> g')"
proof (rule gives_publication_command [where c = "CommitCataloged i m l v pv t d" and i = i])
  fix db a db' assume h: "pipeline_ok db" "commit_cataloged_publication i m l v pv t d db = (Inr a, db')"
  then have "commit_cataloged_in i m l v pv t d db = Inr (a, db')"
    by (auto simp: commit_cataloged_publication_def dest: immediate_result
        simp del: publication_repo_non_negative.simps all_checks_Cons_Inr split: sum.splits)
  from commit_cataloged_ok [OF _ _ assms this] pipeline_rows [OF h(1)] stored_nonneg(1) [OF h(1)]
  show "candidate_stored i a db'" unfolding candidate_stored_def by (force simp: cataloged_def)
qed (use assms in auto)

text \<open>A command of the session repository.\<close>

lemma gives_session_command:
  assumes "valid_command c" and "commits c = None" and "\<And>db. snd (f db) = run_command c db"
  shows "gives g (sessions f) (\<lambda>_ _. True)"
  by (rule gives_mono [OF gives_transaction [where learned = "\<lambda>_. {}"]])
    (use assms db_move_command in auto)

lemma gives_session_result:
  assumes "valid_command c" and "commits c = None" and "\<And>db. snd (f db) = run_command c db"
    and "\<And>db a db'. session_rows_ok db \<Longrightarrow> f db = (Inr a, db') \<Longrightarrow>
      stored_session db' i = Some a \<and> us_state a = tg"
  shows "gives g (sessions f) (\<lambda>a g'. state_facts tg a \<subseteq> g')"
proof (rule gives_transaction)
  fix db show "db_move g db (snd (f db))" using assms db_move_command by auto
next
  fix db a x assume h: "pipeline_ok db" "fst (f db) = Inr a" "x \<in> state_facts tg a"
  have "f db = (Inr a, snd (f db))" using h(2) by (simp add: prod_eq_iff)
  then show "db_fact (snd (f db)) x" using assms(4) h(1,3) pipeline_rows session_facts_hold by blast
qed

text \<open>A transition that returns a session has brought it to the target state.\<close>

lemma spec_update_result:
  assumes "spec_update missing guard change diagnose i m = (Inr a, m')"
    and "\<And>s. us_state (change s) = tg" and "\<And>s b. diagnose s \<noteq> Inr b"
  shows "m' i = Some a \<and> us_state a = tg"
  using assms by (auto simp: spec_update_def split: option.splits if_splits)

lemma transition_result:
  assumes "session_rows_ok db" and "transition_state i st tg v t code db = (Inr a, db')"
  shows "stored_session db' i = Some a \<and> us_state a = tg"
proof -
  have l: "map_prod id stored_session (transition_state i st tg v t code db) = (Inr a, stored_session db')"
    using assms(2) by simp
  have "transition_spec st tg v t code i (stored_session db) = (Inr a, stored_session db')"
    using transition_refines [OF assms(1), of i st tg v t code, unfolded l, THEN sym]
    by (simp split: if_splits)
  then show ?thesis unfolding transition_spec_def by (rule spec_update_result) simp_all
qed

lemma disposition_result:
  assumes "session_rows_ok db" and "record_duplicate_disposition i v (Member d) t db = (Inr a, db')"
  shows "stored_session db' i = Some a \<and> us_state a = disposition_target d"
proof -
  have l: "map_prod id stored_session (record_duplicate_disposition i v (Member d) t db)
      = (Inr a, stored_session db')"
    using assms(2) by simp
  have "disposition_spec v d t i (stored_session db) = (Inr a, stored_session db')"
    using disposition_refines [OF assms(1), of i v d t, unfolded l, THEN sym]
    by (simp split: if_splits)
  then show ?thesis unfolding disposition_spec_def by (rule spec_update_result) simp_all
qed

lemma gives_transition_state:
  "gives g (sessions (transition_state i st tg v t code)) (\<lambda>a g'. state_facts tg a \<subseteq> g')"
  by (rule gives_session_result [where c = "TransitionUpload i st tg v t code" and i = i])
    (use transition_result in auto)

lemma gives_disposition:
  "gives g (sessions (record_duplicate_disposition i v (Member d) t))
     (\<lambda>a g'. state_facts (disposition_target d) a \<subseteq> g')"
  by (rule gives_session_result [where c = "RecordDisposition i v (Member d) t" and i = i])
    (use disposition_result in auto)

end
