(* ===== verification/Upload_Service_Guarantees.thy ===== *)
theory Upload_Service_Guarantees
  imports Upload_Service_Safety
begin

text \<open>
  The guarantee of every method of the four services, and the invariant of all their
  interleavings.
\<close>

abbreviation gives_candidate :: "upload_fact set \<Rightarrow> ('s, publication_candidate) uprog \<Rightarrow> bool" where
  "gives_candidate g m \<equiv> gives g m (\<lambda>c g'. candidate_facts c \<subseteq> g')"

abbreviation gives_session :: "upload_fact set \<Rightarrow> ('s, upload_session) uprog \<Rightarrow> bool" where
  "gives_session g m \<equiv> gives g m (\<lambda>s g'. session_facts s \<subseteq> g')"

abbreviation safe :: "upload_fact set \<Rightarrow> ('s, 'a) uprog \<Rightarrow> bool" where
  "safe g m \<equiv> gives g m (\<lambda>_ _. True)"

lemma safe_of_gives: "gives g m Q \<Longrightarrow> safe g m"
  by (erule gives_mono) simp

lemma gives_if: "(b \<Longrightarrow> gives g m Q) \<Longrightarrow> (\<not> b \<Longrightarrow> gives g n Q) \<Longrightarrow> gives g (if b then m else n) Q"
  by simp

lemma gives_session_errors:
  assumes "gives g m Q" and "\<And>e g'. g \<subseteq> g' \<Longrightarrow> gives g' (h e) Q"
  shows "gives g (session_errors m h) Q"
  unfolding session_errors_def
  by (rule gives_try [OF assms(1)]) (auto intro: assms(2) gives_raise split: upload_exn.split)

lemmas after_port = gives_bindE_any [OF gives_port]
lemmas after_draw = gives_bindE_any [OF gives_now]

section \<open>Publication\<close>

lemma gives_reload:
  assumes "gives_candidate g m" and "\<not> accept None"
  shows "gives_candidate g (reload_after_conflict i accept m)"
  unfolding reload_after_conflict_def
proof (rule gives_try [OF assms(1)], rule gives_if [OF gives_bindE [OF gives_get_candidate] gives_raise])
  fix e :: upload_exn and current and g'' :: "upload_fact set"
  assume "found_facts current \<subseteq> g''"
  then show "gives_candidate g'' (if accept current then ret (the current) else raise e)"
    using assms(2) by (cases current) (auto simp: found_facts_def intro: gives_ret gives_raise)
qed

lemma gives_ensure_reservation:
  assumes "candidate_facts c \<subseteq> g"
  shows "gives_candidate g (ensure_reservation P c)"
proof -
  have "gives_candidate g' (bindE (lift (rescue PublicationDomain
      (new_upload_publication_reservation pid u d now))) (\<lambda>r. publications (get_or_create_reservation r v)))"
    for pid u d now v and g' :: "upload_fact set"
  proof (rule gives_bindE)
    show "gives g' (lift (rescue PublicationDomain (new_upload_publication_reservation pid u d now)))
        (\<lambda>r _. upload_publication_wf r \<and> up_media_id r = None)"
      by (rule gives_lift)
        (auto simp: new_upload_publication_reservation_def and_then_Inr Let_def upload_publication_post_init_iff)
  qed (auto intro: gives_reserve)
  then show ?thesis
    unfolding ensure_reservation_def Let_def
    using assms by (auto intro!: gives_ret gives_raise after_draw)
qed

lemma gives_materialize: "gives g (materialize_target P u p) (\<lambda>_ g'. ConfirmedTarget p \<in> g')"
  unfolding materialize_target_def verify_target_def
proof (rule gives_bindE [OF gives_confirm])
  fix b and g' :: "upload_fact set" assume b: "b \<longrightarrow> ConfirmedTarget p \<in> g'"
  have "gives g'' (try_finally (publish_from_reader P p h) (port (po_close P h)))
      (\<lambda>_ g'. ConfirmedTarget p \<in> g')" for h and g'' :: "upload_fact set"
    unfolding publish_from_reader_def
    by (rule gives_finally [OF gives_mono [OF gives_confirm] gives_port]) auto
  then show "gives g' (if b then ret True
      else bindE (port (po_open_reader P (us_storage_key u) (up_expected_size_bytes p)))
        (\<lambda>reader. try_finally (publish_from_reader P p reader) (port (po_close P reader))))
      (\<lambda>_ g'. ConfirmedTarget p \<in> g')"
    using b by (auto intro!: gives_ret after_port)
qed

lemma gives_publish_pending:
  assumes c: "candidate_facts c \<subseteq> g"
  shows "gives_candidate g (publish_pending P c)"
proof (cases "pc_publication c")
  case None
  then show ?thesis by (simp add: publish_pending_def gives_raise)
next
  case (Some p)
  let ?i = "us_id (pc_upload c)"
  have k: "KnownPublication ?i p \<in> g" using c Some by (simp add: candidate_facts_def)
  have m: "gives g (try_except (materialize_target P (pc_upload c) p) (\<lambda>e. raise (source_error e)))
      (\<lambda>_ g'. ConfirmedTarget p \<in> g')"
    by (rule gives_try [OF gives_materialize gives_raise])
  have "gives_candidate g (bindE (try_except (materialize_target P (pc_upload c) p)
        (\<lambda>e. raise (source_error e)))
      (\<lambda>_. reload_after_conflict ?i (published_concurrently p) (bindE (pure_port (po_now_ms P))
        (\<lambda>now. publications (commit_verified_publication ?i (up_publication_id p)
          (us_version (pc_upload c)) (up_version p) now)))))"
  proof (rule gives_bindE [OF m])
    fix b and g' :: "upload_fact set" assume g': "g \<subseteq> g'" "ConfirmedTarget p \<in> g'"
    show "gives_candidate g' (reload_after_conflict ?i (published_concurrently p)
      (bindE (pure_port (po_now_ms P))
        (\<lambda>now. publications (commit_verified_publication ?i (up_publication_id p)
          (us_version (pc_upload c)) (up_version p) now))))"
      by (rule gives_reload, rule after_draw, rule gives_commit_verified)
        (use g' k in \<open>auto simp: published_concurrently_def\<close>)
  qed
  then show ?thesis by (simp add: publish_pending_def Some gives_raise)
qed

lemma safe_finish_cleanup:
  assumes c: "candidate_facts c \<subseteq> g"
  shows "safe g (finish_cleanup P c)"
proof (cases "pc_publication c")
  case None
  then show ?thesis by (simp add: finish_cleanup_def gives_raise)
next
  case (Some p)
  let ?i = "us_id (pc_upload c)" and ?key = "us_storage_key (pc_upload c)"
  have r: "ReleasedSource ?key \<in> g" if "us_state (pc_upload c) = U_PUBLISHED"
    using c that by (auto simp: candidate_facts_def state_facts_def RELEASED_STATES_def)
  have "safe g (bindE (try_except (request_removal (po_remove P) ?key) (\<lambda>e. raise (cleanup_error e)))
      (\<lambda>_. bindE (reload_after_conflict ?i (cleaned_concurrently p) (bindE (pure_port (po_now_ms P))
        (\<lambda>now. publications (mark_cleanup_complete ?i (up_publication_id p) (up_version p) now))))
      (\<lambda>completed. ret (publication_result_of completed))))"
    if "us_state (pc_upload c) = U_PUBLISHED"
    by (intro gives_bindE_any gives_try gives_removal [OF r [OF that]] gives_raise gives_ret
        safe_of_gives [OF gives_reload] after_draw gives_mark_cleanup TrueI)
      (simp add: cleaned_concurrently_def)
  then show ?thesis by (simp add: finish_cleanup_def Some gives_raise gives_ret)
qed

lemma safe_publish: "safe g (publish_owned_blocking P i)"
proof -
  have one: "safe g' (case pc_publication c of None \<Rightarrow> raise AssertionError
      | Some p \<Rightarrow> if up_destination_id p \<noteq> po_destination_id P
          then raise (PublicationService UploadPublicationConfigurationError)
          else if us_state (pc_upload c) = U_PUBLISH_PENDING
            then bindE (publish_pending P c) (finish_cleanup P) else finish_cleanup P c)"
    if "candidate_facts c \<subseteq> g'" for c and g' :: "upload_fact set"
    using that
    by (auto intro!: gives_raise safe_finish_cleanup gives_bindE [OF gives_publish_pending]
        split: option.split)
  have "safe g' (case found of None \<Rightarrow> raise (PublicationService UploadPublicationNotFoundServiceError)
      | Some candidate \<Rightarrow> bindE (ensure_reservation P candidate) (\<lambda>c.
          case pc_publication c of None \<Rightarrow> raise AssertionError
          | Some p \<Rightarrow> if up_destination_id p \<noteq> po_destination_id P
              then raise (PublicationService UploadPublicationConfigurationError)
              else if us_state (pc_upload c) = U_PUBLISH_PENDING
                then bindE (publish_pending P c) (finish_cleanup P) else finish_cleanup P c))"
    if "found_facts found \<subseteq> g'" for found and g' :: "upload_fact set"
    using that
    by (cases found) (auto simp: found_facts_def
        intro!: gives_raise gives_bindE [OF gives_ensure_reservation] intro: one)
  then show ?thesis
    unfolding publish_owned_blocking_def
    by (intro after_draw gives_if gives_raise gives_try gives_bindE [OF gives_get_candidate])
qed

section \<open>Cataloging\<close>

lemma checked_result:
  "checked post_init x = Inr y \<Longrightarrow> y = x \<and> post_init x = Inr ()"
  by (auto simp: checked_def and_then_Inr)

lemma safe_catalog: "safe g (catalog_owned_blocking P i)"
proof -
  have commit: "safe g' (bindE (lift (catalog_metadata (po_tables P) media now cl)) (\<lambda>metadata.
      bindE (reload_after_conflict i cataloged_concurrently (publications
        (commit_cataloged_publication i media location v pv now metadata)))
      (\<lambda>committed. ret (catalog_result_of committed))))"
    if "is_uuid4 (lm_id media)" "is_uuid4 (ml_id location)"
    for media location cl v pv now and g' :: "upload_fact set"
    by (intro gives_bindE_any gives_lift gives_ret safe_of_gives [OF gives_reload]
        gives_commit_cataloged that TrueI) (simp add: cataloged_concurrently_def)
  have rows: "safe g' (catalog_rows P i u p kind)" for u p kind and g' :: "upload_fact set"
    unfolding catalog_rows_def
  proof (intro after_draw, rule gives_bindE)
    fix now and media_id and g1 :: "upload_fact set"
    show "gives g1 (lift (catalog_media media_id kind now)) (\<lambda>m _. is_uuid4 (lm_id m))"
      by (rule gives_lift) (auto simp: catalog_media_def logical_media_post_init_def dest!: checked_result)
    fix media :: logical_media and g2 :: "upload_fact set" assume m: "is_uuid4 (lm_id media)"
    have l: "gives g3 (lift (catalog_location l media p now)) (\<lambda>x _. is_uuid4 (ml_id x))"
      for l and g3 :: "upload_fact set"
      by (rule gives_lift)
        (auto simp: catalog_location_def and_then_Inr media_location_post_init_def dest!: checked_result)
    have c: "safe g3 (classify P i)" for g3 :: "upload_fact set"
      unfolding classify_def by (auto intro: gives_ret gives_port split: option.split)
    show "safe g2 (bindE (pure_port (po_new_uuid P)) (\<lambda>location_id.
        bindE (lift (catalog_location location_id media p now)) (\<lambda>location.
        bindE (classify P i) (\<lambda>classification.
        bindE (lift (catalog_metadata (po_tables P) media now classification)) (\<lambda>metadata.
        bindE (reload_after_conflict i cataloged_concurrently
          (publications (commit_cataloged_publication i media location (us_version u) (up_version p) now
            metadata))) (\<lambda>committed. ret (catalog_result_of committed)))))))"
      by (intro after_draw gives_bindE [OF l] gives_bindE_any [OF c] commit m)
  qed
  show ?thesis
    unfolding catalog_owned_blocking_def
    by (intro gives_try gives_bindE_any safe_of_gives [OF gives_get_candidate] gives_lift gives_raise TrueI)
      (auto intro: gives_ret rows split: option.split)
qed

end
