(* ===== verification/Upload_Service_Interleavings.thy ===== *)
theory Upload_Service_Interleavings
  imports Upload_Service_Guarantees
begin

text \<open>
  Validation and transport, and the invariant of every interleaving of all services.
\<close>

section \<open>Validation\<close>

lemma safe_load: "safe g (load_for_validation i)"
  unfolding load_for_validation_def
  by (intro gives_bindE_any gives_session_errors safe_of_gives [OF gives_get_session] gives_raise)
    (auto intro: gives_raise gives_ret split: option.split)

lemma safe_fail_if_possible: "safe g (fail_if_possible P s code)"
  unfolding fail_if_possible_def
  by (intro gives_if gives_session_errors gives_ret gives_bindE_any after_draw
      safe_of_gives [OF gives_transition_state] safe_of_gives [OF gives_get_session] TrueI)

lemma safe_fail_then: "safe g (bindE (fail_if_possible P s code) (\<lambda>_. raise e))"
  by (intro gives_bindE_any safe_fail_if_possible gives_raise)

lemma safe_accept: "safe g (accept_current i accept e)"
  unfolding accept_current_def by (intro gives_bindE_any safe_load gives_if gives_ret gives_raise TrueI)

lemma safe_start: "safe g (sessions (start_validation i v t))"
  by (rule gives_session_command [where c = "StartValidation i v t"]) simp_all

lemma safe_reject: "safe g (sessions (reject_validation i v code t))"
  by (rule gives_session_command [where c = "RejectValidation i v code t"]) simp_all

lemma safe_complete: "is_uuid4 new \<Longrightarrow> safe g (sessions (complete_validation_success new i v h k f t))"
  by (rule gives_session_command [where c = "CompleteValidation new i v h k f t"]) simp_all

lemma safe_start_service: "safe g (start_validation_service P s)"
  unfolding start_validation_service_def
  by (intro gives_session_errors after_draw safe_start)
    (auto intro: gives_raise safe_accept safe_fail_then split: session_repo_error.split)

lemma safe_reject_upload: "safe g (reject_upload P s code)"
  unfolding reject_upload_def
  by (intro gives_session_errors after_draw safe_reject)
    (auto intro: gives_raise safe_accept split: session_repo_error.split)

lemma safe_complete_success:
  assumes "\<And>s. is_uuid4 (fst (po_new_uuid P s))"
  shows "safe g (complete_success P session h evidence)"
  unfolding complete_success_def
proof (rule gives_session_errors, rule after_draw)
  fix now and g' :: "upload_fact set"
  show "safe g' (bindE (pure_port (po_new_uuid P)) (\<lambda>new. sessions (complete_validation_success new
      (us_id session) (us_version session) h (me_media_kind evidence) (me_media_format evidence) now)))"
    by (rule gives_bindE [OF gives_pure_port], rule safe_complete) (use assms in auto)
qed (intro gives_if safe_fail_then safe_accept gives_raise)

lemma safe_hash: "safe g (hash_chunks P h rounds seen)"
proof (induction rounds arbitrary: g seen)
  case (Suc rounds)
  show ?case unfolding hash_chunks.simps
    by (intro after_draw gives_if gives_raise after_port gives_ret Suc.IH TrueI)
qed (simp add: gives_raise)

lemma safe_sha256: "safe g (sha256_of_reader P rounds h)"
  unfolding sha256_of_reader_def by (intro after_port safe_hash)

lemma safe_judge: "safe g (judge_media P s h)"
  unfolding judge_media_def
  by (rule gives_try, intro after_port gives_ret TrueI)
    (auto intro: gives_raise safe_fail_then gives_bindE_any [OF safe_reject_upload] gives_ret
      split: upload_exn.split media_validation_error.split validation_service_error.split)

lemma safe_hash_and_judge:
  assumes "\<And>s. is_uuid4 (fst (po_new_uuid P s))"
  shows "safe g (hash_and_judge P rounds s h)"
proof -
  have "safe g' (case judged of Inl rejected \<Rightarrow> ret (validation_result_of rejected)
     | Inr evidence \<Rightarrow>
         bindE (port (po_verify_consistent P h)) (\<lambda>_.
         bindE (port (po_seek_start P h)) (\<lambda>_.
         bindE (sha256_of_reader P rounds h) (\<lambda>second.
         if second \<noteq> checksum then
           bindE (fail_if_possible P s UPLOAD_VALIDATION_QUARANTINE_INCONSISTENT) (\<lambda>_.
           raise (ValidationService UploadValidationQuarantineInconsistentError))
         else
           bindE (port (po_verify_consistent P h)) (\<lambda>_.
           bindE (complete_success P s checksum evidence) (\<lambda>completed.
           ret (validation_result_of completed)))))))" for judged checksum and g' :: "upload_fact set"
    by (cases judged) (simp_all add: gives_ret after_port gives_bindE_any [OF safe_sha256] safe_fail_then
        gives_bindE_any [OF safe_complete_success [OF assms]])
  then show ?thesis
    unfolding hash_and_judge_def
    by (intro gives_bindE_any [OF safe_sha256] after_port gives_bindE_any [OF safe_judge])
qed

lemma safe_validate_stable:
  assumes "\<And>s. is_uuid4 (fst (po_new_uuid P s))"
  shows "safe g (validate_stable_quarantine_object P rounds s)"
proof -
  have "safe g' (open_validation_reader P s)" for g' :: "upload_fact set"
    unfolding open_validation_reader_def
    by (intro gives_try gives_port gives_if safe_fail_then gives_raise)
  then show ?thesis
    unfolding validate_stable_quarantine_object_def
    by (intro gives_if safe_fail_then gives_bindE_any gives_finally gives_try gives_port gives_raise
        safe_hash_and_judge assms TrueI)
qed

lemma safe_validate_loaded:
  "(\<And>s. is_uuid4 (fst (po_new_uuid P s))) \<Longrightarrow> safe g (validate_loaded P rounds s)"
  unfolding validate_loaded_def by (intro gives_if gives_raise safe_validate_stable)

lemma safe_validate:
  "(\<And>s. is_uuid4 (fst (po_new_uuid P s))) \<Longrightarrow> safe g (validate_owned_blocking P rounds i)"
  unfolding validate_owned_blocking_def
  by (intro gives_bindE_any safe_load gives_if gives_ret safe_start_service safe_validate_loaded TrueI)

lemma safe_recover:
  "(\<And>s. is_uuid4 (fst (po_new_uuid P s))) \<Longrightarrow>
     safe g (recover_abandoned_validating_owned_blocking P rounds i)"
  unfolding recover_abandoned_validating_owned_blocking_def
  by (intro gives_bindE_any safe_load gives_if gives_ret safe_validate_loaded TrueI)

section \<open>Transport\<close>

lemma safe_require: "safe g (require_storage P)"
  unfolding require_storage_def by (intro gives_if gives_raise after_draw gives_ret TrueI)

lemma safe_separation: "safe g (ensure_root_separation P)"
  unfolding ensure_root_separation_def
  by (auto intro!: gives_if gives_raise after_port gives_ret split: option.split)

lemma safe_space: "safe g (ensure_space P n)"
  unfolding ensure_space_def
  by (intro gives_bindE_any gives_try safe_require gives_port gives_if gives_raise gives_ret TrueI)

lemma gives_load: "gives_session g (load_session i)"
  unfolding load_session_def
proof (rule gives_bindE)
  show "gives g (session_errors (sessions (get_session i)) (\<lambda>_. fails UploadQuarantineUnavailableError))
      (\<lambda>found g'. (case found of None \<Rightarrow> {} | Some s \<Rightarrow> session_facts s) \<subseteq> g')"
    by (intro gives_session_errors gives_get_session gives_raise)
qed (auto intro: gives_raise gives_ret split: option.splits)

lemma gives_transport_transition:
  "gives g (transport_transition P s tg code) (\<lambda>a g'. state_facts tg a \<subseteq> g')"
  unfolding transport_transition_def
  by (intro gives_session_errors after_draw gives_transition_state gives_raise)

lemma gives_transport_disposition:
  "gives g (transport_disposition P s d) (\<lambda>a g'. state_facts (disposition_target d) a \<subseteq> g')"
  unfolding transport_disposition_def
  by (intro gives_session_errors after_draw gives_disposition gives_raise)

lemma gives_expire: "session_facts s \<subseteq> g \<Longrightarrow> gives_session g (expire_if_needed P s)"
  unfolding expire_if_needed_def
  by (auto intro!: gives_if gives_ret after_draw gives_bindE_any safe_of_gives [OF gives_transport_transition]
      gives_raise)

lemma gives_fail_inconsistent: "gives g (fail_inconsistent_session P s) Q"
  unfolding fail_inconsistent_session_def
  by (intro gives_bindE_any gives_try gives_bindE_any [OF safe_of_gives [OF gives_transport_transition]]
      gives_ret gives_if gives_raise TrueI)

lemma safe_remove_file: "state_facts U_CANCELLED s \<subseteq> g \<Longrightarrow> safe g (remove_cancelled_file P s)"
  unfolding remove_cancelled_file_def
  by (intro gives_try gives_removal gives_if gives_raise)
    (auto simp: state_facts_def RELEASED_STATES_def)

lemma safe_given_or_new: "safe g (given_or_new P build x)"
  unfolding given_or_new_def by (auto intro!: gives_ret after_draw split: option.split)

lemma safe_create_service:
  "safe g (transport_create_session P f n sid key login mode)"
proof -
  have resume: "safe g' (resume_existing i k same)" for i k same and g' :: "upload_fact set"
    unfolding resume_existing_def
    by (auto intro!: gives_raise gives_ret gives_bindE_any gives_session_errors
        safe_of_gives [OF gives_get_session] split: option.split)
  have create: "safe g' (bindE (lift (rescue UploadDomain (upload_session_post_init s)))
      (\<lambda>_. session_errors (bindE (sessions (create_session s)) (\<lambda>_. ret (snapshot_of s)))
        (\<lambda>e. if e \<in> {UploadSessionAlreadyExistsError, UploadStorageKeyAlreadyExistsError}
          then resume_existing a b same else fails UploadQuarantineUnavailableError)))"
    if "us_state s = U_CREATED" for s a b same and g' :: "upload_fact set"
  proof (rule gives_bindE)
    show "gives g' (lift (rescue UploadDomain (upload_session_post_init s))) (\<lambda>_ _. upload_session_wf s)"
      by (rule gives_lift) (simp add: upload_session_post_init_iff)
    fix u and g'' :: "upload_fact set" assume w: "upload_session_wf s"
    have "safe g'' (sessions (create_session s))"
      by (rule gives_session_command [where c = "CreateUpload s"]) (use w that in simp_all)
    then show "safe g'' (session_errors (bindE (sessions (create_session s)) (\<lambda>_. ret (snapshot_of s)))
        (\<lambda>e. if e \<in> {UploadSessionAlreadyExistsError, UploadStorageKeyAlreadyExistsError}
          then resume_existing a b same else fails UploadQuarantineUnavailableError))"
      by (intro gives_session_errors gives_bindE_any gives_ret gives_if resume gives_raise TrueI)
  qed
  have new: "us_state (new_session L i k fn m now lg md) = U_CREATED" for L i k fn m now lg md
    by (simp add: new_session_def)
  show ?thesis
    unfolding transport_create_session_def Let_def case_prod_beta
    by (rule gives_bindE_any [OF safe_require], rule gives_bindE_any, rule gives_lift, rule TrueI, rule gives_if,
        rule gives_raise, rule gives_bindE_any [OF safe_separation], rule gives_bindE_any [OF safe_space],
        rule after_draw, rule gives_bindE_any [OF safe_given_or_new], rule gives_bindE_any [OF safe_given_or_new], rule create,
        rule new)
qed

lemma safe_cut: "safe g (cut_and_fail P s found)"
  unfolding cut_and_fail_def
  by (intro gives_bindE_any gives_fail_inconsistent) (auto intro: gives_port gives_ret split: option.split)

lemma safe_ensure_complete: "safe g (ensure_complete_file P s)"
  unfolding ensure_complete_file_def
  by (intro gives_bindE_any gives_try gives_port gives_if gives_fail_inconsistent gives_raise safe_cut
      gives_ret TrueI)

lemma safe_ensure_matches: "safe g (ensure_file_matches_received_size P s)"
  unfolding ensure_file_matches_received_size_def
  by (intro gives_bindE_any gives_try gives_port gives_if gives_fail_inconsistent gives_raise safe_cut
      gives_ret TrueI)

lemma safe_complete_service: "safe g (transport_complete P i)"
  unfolding transport_complete_def
  by (intro gives_bindE_any [OF safe_require] gives_bindE [OF gives_load] gives_if gives_ret gives_raise
      gives_bindE_any [OF safe_of_gives [OF gives_expire]] gives_bindE_any [OF safe_ensure_complete]
      gives_bindE_any [OF safe_ensure_matches]
      gives_bindE_any [OF safe_of_gives [OF gives_transport_transition]] TrueI)

lemma safe_cancel_owned: "session_facts s \<subseteq> g \<Longrightarrow> safe g (cancel_owned P s)"
  unfolding cancel_owned_def
  by (intro gives_if gives_bindE_any [OF safe_remove_file] gives_bindE [OF gives_transport_transition]
      gives_ret gives_raise TrueI) auto

lemma safe_cancel: "safe g (transport_cancel P i)"
  unfolding transport_cancel_def
  by (intro gives_bindE_any [OF safe_require] gives_bindE [OF gives_load]
      gives_bindE_any [OF safe_cancel_owned] gives_ret TrueI)

lemma safe_discard: "session_facts s \<subseteq> g \<Longrightarrow> safe g (discard_duplicate P s)"
  unfolding discard_duplicate_def
  by (intro gives_if gives_bindE_any [OF safe_remove_file] gives_bindE [OF gives_transport_disposition]
      gives_ret gives_raise TrueI) (auto simp: disposition_target_def)

lemma safe_keep: "safe g (keep_duplicate P s)"
  unfolding keep_duplicate_def
  by (intro gives_if gives_bindE_any [OF safe_of_gives [OF gives_transport_disposition]] gives_ret
      gives_raise TrueI)

lemma safe_resolve: "safe g (transport_resolve_duplicate P i resolution)"
  unfolding transport_resolve_duplicate_def
  by (intro gives_bindE_any [OF safe_require] gives_bindE [OF gives_load] gives_if gives_raise)
    (auto intro: gives_raise safe_keep safe_discard split: enum_arg.split duplicate_resolution.split)

section \<open>Receiving\<close>

lemma safe_close: "safe g (close_quietly P h b)"
  unfolding close_quietly_def by (intro gives_if gives_ret gives_try gives_port TrueI)

lemma safe_errors_pass: "safe g m \<Longrightarrow> safe g (transport_errors_pass m)"
  unfolding transport_errors_pass_def
  by (erule gives_try) (auto intro: gives_ret gives_raise split: upload_exn.split)

lemma safe_transition_then: "safe g (bindE (transport_transition P s tg code) (\<lambda>_. ret ()))"
  by (intro gives_bindE_any [OF safe_of_gives [OF gives_transport_transition]] gives_ret TrueI)

lemma gives_fail_authoritative: "gives g (fail_authoritative_inconsistent_session P s) Q"
  unfolding fail_authoritative_inconsistent_session_def
  by (intro gives_bindE_any safe_errors_pass safe_transition_then gives_raise)

lemma safe_fail_rollback: "safe g (fail_session_after_unverified_rollback P i)"
  unfolding fail_session_after_unverified_rollback_def
  by (intro gives_bindE_any gives_session_errors safe_of_gives [OF gives_get_session] gives_ret TrueI)
    (auto intro: gives_ret safe_errors_pass safe_transition_then split: option.split)

lemma gives_abandon: "gives g (abandon_rollback P h i b) Q"
  unfolding abandon_rollback_def by (intro gives_bindE_any safe_close safe_fail_rollback gives_raise)

lemma gives_recover_advanced: "gives g (recover_advanced_patch P h s b) Q"
  unfolding recover_advanced_patch_def Let_def
proof (rule gives_bindE_any [OF safe_close], rule gives_bindE_any)
  fix g' :: "upload_fact set"
  show "safe g' (try_except (port (tp_file_size P (us_storage_key s)))
       (\<lambda>e. if e \<in> {Quarantine QuarantineStateInconsistentError,
                    Quarantine QuarantineStorageUnavailableError}
            then fails UploadQuarantineStateInconsistentError else raise e))"
    by (intro gives_try gives_port gives_if gives_raise)
next
  fix found and g' :: "upload_fact set"
  show "gives g' (case found of
       None \<Rightarrow> fail_authoritative_inconsistent_session P s
     | Some n \<Rightarrow>
         if n = us_received_size_bytes s then fails (UploadOffsetConflictTransportError (us_received_size_bytes s))
         else if n < us_received_size_bytes s then fail_authoritative_inconsistent_session P s
         else
           bindE (try_except
             (bindE (port (tp_truncate P (us_storage_key s) (us_received_size_bytes s))) (\<lambda>_.
              port (tp_file_size P (us_storage_key s))))
             (\<lambda>e. if e \<in> {Quarantine QuarantineWriteFailedError,
                          Quarantine QuarantineStateInconsistentError,
                          Quarantine QuarantineStorageUnavailableError}
                  then fails UploadQuarantineStateInconsistentError else raise e)) (\<lambda>verified.
           if verified \<noteq> Some (us_received_size_bytes s) then fails UploadQuarantineStateInconsistentError
           else fails (UploadOffsetConflictTransportError (us_received_size_bytes s)))) Q"
    by (cases found; simp only: option.case)
      (intro gives_fail_authoritative gives_if gives_raise gives_bindE_any gives_try after_port gives_port)+
qed

lemma safe_roll_back: "safe g (roll_back P h s n b)"
  unfolding roll_back_def
  by (intro gives_bindE_any gives_try gives_port gives_if gives_raise gives_abandon
      safe_of_gives [OF gives_get_session])
    (auto intro: gives_raise gives_ret split: option.split)

lemma gives_refuse: "gives g (refuse_moved_offset P h s c a b) Q"
  unfolding refuse_moved_offset_def
  by (intro gives_try gives_bindE_any gives_if gives_port gives_ret gives_raise safe_fail_rollback TrueI)

lemma gives_recover: "gives g (recover_failed_patch P h s n e a b) Q"
  unfolding recover_failed_patch_def
  by (intro gives_bindE_any gives_session_errors safe_of_gives [OF gives_get_session] gives_ret TrueI)
    (auto intro!: gives_abandon gives_recover_advanced gives_refuse gives_bindE_any [OF safe_roll_back]
      gives_raise split: option.split)

lemma safe_write_body: "safe g (write_body P h n rounds actual)"
proof (induction rounds arbitrary: g actual)
  case (Suc rounds)
  show ?case unfolding write_body.simps
    by (rule after_port) (auto intro!: gives_ret gives_raise Suc.IH after_port split: option.split)
qed (simp add: gives_raise)

lemma safe_advance: "safe g (sessions (advance_received_offset i e n v t))"
  by (rule gives_session_command [where c = "AdvanceOffset i e n v t"]) simp_all

lemma safe_write_and_advance: "safe g (write_and_advance P rounds s h n)"
  unfolding write_and_advance_def Let_def case_prod_beta
  by (intro gives_try gives_bindE_any [OF safe_write_body] gives_if gives_raise after_port after_draw
      safe_advance gives_recover)

lemma safe_open_receiving: "safe g (open_receiving_session P i n)"
  unfolding open_receiving_session_def
  by (intro gives_bindE [OF gives_load] gives_bindE_any [OF safe_of_gives [OF gives_expire]] gives_if
      gives_raise gives_ret safe_of_gives [OF gives_transport_transition] TrueI)

lemma safe_reconcile: "safe g (reconcile_file_before_write P s)"
proof -
  have "safe g' (case found of
       None \<Rightarrow> if us_received_size_bytes s = 0 then ret () else fail_inconsistent_session P s
     | Some n \<Rightarrow>
         if n = us_received_size_bytes s then ret ()
         else if n > us_received_size_bytes s then
           try_except (port (tp_truncate P (us_storage_key s) (us_received_size_bytes s)))
             (\<lambda>e. if e = Quarantine QuarantineWriteFailedError
                  then fails UploadQuarantineUnavailableError else raise e)
         else fail_inconsistent_session P s)" for found and g' :: "upload_fact set"
    by (auto intro!: gives_if gives_ret gives_fail_inconsistent gives_try gives_port gives_raise
        split: option.split)
  then show ?thesis
    unfolding reconcile_file_before_write_def
    by (intro gives_bindE_any gives_try gives_port gives_if gives_raise)
qed

lemma safe_open_writer: "safe g (open_patch_writer P s)"
  unfolding open_patch_writer_def Let_def
  by (intro gives_bindE_any gives_if after_port gives_port gives_ret TrueI)

lemma safe_receive: "safe g (receive_chunk P rounds i offset n)"
  unfolding receive_chunk_def
  by (intro gives_bindE_any [OF safe_require] gives_if gives_raise gives_bindE_any [OF safe_space]
      gives_bindE_any [OF safe_open_receiving] gives_bindE_any [OF safe_reconcile]
      gives_bindE_any [OF safe_open_writer] gives_bindE_any [OF safe_write_and_advance]
      gives_bindE_any [OF gives_try [OF gives_port gives_recover]] gives_ret TrueI)

end
