(* ===== verification/Upload_Service_Runs.thy ===== *)
theory Upload_Service_Runs
  imports Upload_Service_Interleavings Pipeline_Samples
begin

text \<open>
  All services at work on one database: any number of calls of any methods run interleaved, step
  by step, beside any other writer of the repositories, and the process may stop at any time.
\<close>

section \<open>Calls\<close>

datatype upload_call =
    PublishCall uuid
  | CatalogCall uuid
  | ValidateCall uuid
  | RecoverValidationCall uuid
  | CreateCall pyobj pyobj "uuid enum_arg option" "pystr enum_arg option" "pystr option"
      "duplicate_resolution_mode enum_arg"
  | ReceiveCall uuid int int
  | CompleteCall uuid
  | CancelCall uuid
  | ResolveDuplicateCall uuid "duplicate_resolution enum_arg"
  | StatusCall uuid
  | CapabilityCall
  | OtherCommand pipeline_command

definition as_call :: "('s, 'a) uprog \<Rightarrow> ('s upload_world, unit) prog" where
  "as_call m = bind m (\<lambda>_. Ret ())"

text \<open>Another client of the repositories; only the publication service commits publications.\<close>

definition other_command :: "pipeline_command \<Rightarrow> ('s, unit) uprog" where
  "other_command c =
     (if valid_command c \<and> commits c = None
      then atomic (\<lambda>w. (Inr (), w\<lparr>uw_db := run_command c (uw_db w)\<rparr>)) else ret ())"

fun call_program ::
    "('s, 'h) transport_ports \<Rightarrow> nat \<Rightarrow> upload_call \<Rightarrow> ('s upload_world, unit) prog" where
  "call_program P rounds (PublishCall i) = as_call (publish_owned_blocking (upload_ports.truncate P) i)"
| "call_program P rounds (CatalogCall i) = as_call (catalog_owned_blocking (upload_ports.truncate P) i)"
| "call_program P rounds (ValidateCall i) =
     as_call (validate_owned_blocking (upload_ports.truncate P) rounds i)"
| "call_program P rounds (RecoverValidationCall i) =
     as_call (recover_abandoned_validating_owned_blocking (upload_ports.truncate P) rounds i)"
| "call_program P rounds (CreateCall f n i k l m) = as_call (transport_create_session P f n i k l m)"
| "call_program P rounds (ReceiveCall i offset n) = as_call (receive_chunk P rounds i offset n)"
| "call_program P rounds (CompleteCall i) = as_call (transport_complete P i)"
| "call_program P rounds (CancelCall i) = as_call (transport_cancel P i)"
| "call_program P rounds (ResolveDuplicateCall i d) = as_call (transport_resolve_duplicate P i d)"
| "call_program P rounds (StatusCall i) = as_call (get_status i)"
| "call_program P rounds CapabilityCall = as_call (get_capability P)"
| "call_program P rounds (OtherCommand c) = as_call (other_command c)"

text \<open>The calls that may start: \<open>uuid4()\<close> draws identities of version 4.\<close>

definition draws_uuid4 :: "('s, 'h) transport_ports \<Rightarrow> bool" where
  "draws_uuid4 P \<longleftrightarrow> (\<forall>s. is_uuid4 (fst (po_new_uuid P s)))"

definition upload_service_thread ::
    "('s, 'h) transport_ports \<Rightarrow> nat \<Rightarrow> ('s upload_world, unit) prog \<Rightarrow> bool" where
  "upload_service_thread P rounds p \<longleftrightarrow> draws_uuid4 P \<and> (\<exists>c. p = call_program P rounds c)"

section \<open>The invariant of all runs\<close>

lemma safe_status: "safe g (get_status i)"
  unfolding get_status_def by (intro gives_bindE_any safe_of_gives [OF gives_load] gives_ret TrueI)

lemma safe_capability: "safe g (get_capability P)"
  unfolding get_capability_def
  by (rule gives_bindE_any, rule gives_try,
      intro gives_bindE_any safe_require safe_separation gives_ret TrueI)
    (auto intro: gives_ret gives_raise split: upload_exn.split)

lemma safe_other: "safe g (other_command c)"
  unfolding other_command_def
  by (intro gives_if gives_ret gives_atomic [where learned = "\<lambda>_. {}"] TrueI)
    (auto simp: service_allowed_def service_move_def db_move_def)

lemma guarantees_as_call:
  "safe g m \<Longrightarrow> guarantees service_allowed g (as_call m) (\<lambda>_ _. True)"
  unfolding as_call_def gives_def by (rule guarantees_bind) auto

lemma call_guarantee:
  assumes "draws_uuid4 P"
  shows "guarantees service_allowed g (call_program P rounds c) (\<lambda>_ _. True)"
proof -
  have "is_uuid4 (fst (po_new_uuid (upload_ports.truncate P) s))" for s
    using assms by (simp add: draws_uuid4_def upload_ports.truncate_def)
  then show ?thesis
    by (cases c) (simp_all add: guarantees_as_call safe_publish safe_catalog safe_validate safe_recover
        safe_create_service safe_receive safe_complete_service safe_cancel safe_resolve safe_status
        safe_capability safe_other)
qed

interpretation upload_services: shared_invariant service_allowed "{}" upload_inv
  "upload_service_thread P rounds" for P rounds
proof
  show "upload_inv gs w \<Longrightarrow> i < length gs \<Longrightarrow> service_allowed (gs ! i) w g' w' \<Longrightarrow>
      upload_inv (gs[i := g']) w'" for gs i g' and w w' :: "'a upload_world"
    by (rule upload_inv_move)
  show "upload_inv gs w \<Longrightarrow> upload_inv (gs @ [{}]) w" for gs and w :: "'a upload_world"
    by (auto simp: upload_inv_def)
  show "upload_inv gs w \<Longrightarrow> upload_inv [] w" for gs and w :: "'a upload_world"
    by (simp add: upload_inv_def)
  show "upload_service_thread P rounds p \<Longrightarrow> guarantees service_allowed {} p (\<lambda>_ _. True)" for p
    by (auto simp: upload_service_thread_def call_guarantee)
qed

definition first_world :: "pystr list \<Rightarrow> pystr list \<Rightarrow> 's \<Rightarrow> 's upload_world" where
  "first_world libs tags s =
     \<lparr>uw_db = empty_catalog\<lparr>libraries := libs, canonical_tags := tags\<rparr>, uw_env = s, uw_events = []\<rparr>"

definition upload_runs ::
    "('s, 'h) transport_ports \<Rightarrow> nat \<Rightarrow> 's upload_world \<Rightarrow> 's upload_world \<Rightarrow> bool" where
  "upload_runs P rounds w w' \<longleftrightarrow>
     (\<exists>ps. (par_step (upload_service_thread P rounds))\<^sup>*\<^sup>* ([], w) (ps, w'))"

lemma first_world_inv: "upload_inv [] (first_world libs tags s)"
proof -
  have r: "pipeline_reachable (uw_db (first_world libs tags s))"
    by (simp add: first_world_def pipeline_reachable.start)
  have "stored_publication (uw_db (first_world libs tags s)) i = None" for i
    by (simp add: first_world_def empty_catalog_def stored_publication_def publication_row_of_def sql_first_def)
  then show ?thesis
    using r by (simp add: upload_inv_def targets_confirmed_def removals_released_def)
      (simp add: first_world_def)
qed

lemma upload_runs_inv:
  assumes "upload_runs P rounds (first_world libs tags s) w"
  shows "\<exists>gs. upload_inv gs w"
proof -
  have "upload_services.config_ok ([], first_world libs tags s)"
    using first_world_inv by (auto simp: upload_services.config_ok_def)
  then show ?thesis
    using assms upload_services.reachable_inv unfolding upload_runs_def by blast
qed

end
