(* ===== verification/Upload_Service_Progress.thy ===== *)
theory Upload_Service_Progress
  imports Upload_Service_Runs
begin

text \<open>
  The publication service makes progress: when the storage answers, one call of
  \<open>publish_owned_blocking\<close> takes a waiting upload to a published one with a removed source,
  whatever point an earlier call had reached when the process stopped.
\<close>

section \<open>What the transactions return\<close>

lemma get_candidate_stored:
  assumes "pipeline_ok db" and "stored_session db i = Some s"
  shows "get_candidate i db
    = (Inr (Some \<lparr>pc_upload = candidate_view s, pc_publication = stored_publication db i\<rparr>), db)"
proof -
  have "require_candidate i db = Inr \<lparr>pc_upload = candidate_view s, pc_publication = stored_publication db i\<rparr>"
    using assms pipeline_rows by (simp add: require_candidate_eq)
  then show ?thesis
    by (cases "row_by_id i db"; cases "candidate_from_rows (the (row_by_id i db)) (publication_row_of i db)")
      (simp_all add: get_candidate_def require_candidate_def run_in_transaction_def)
qed

lemma commit_verified_returns:
  assumes ok: "pipeline_ok db" and s: "stored_session db i = Some s" and p: "stored_publication db i = Some p"
    and st: "us_state s = U_PUBLISH_PENDING" and t: "us_created_at_ms s \<le> t" "up_created_at_ms p \<le> t"
  shows "\<exists>db'. commit_verified_publication i (up_publication_id p) (us_version s) (up_version p) t db
      = (Inr \<lparr>pc_upload = candidate_view (published t s), pc_publication = Some (verified t p)\<rparr>, db')
    \<and> pipeline_ok db' \<and> stored_session db' = (stored_session db)(i \<mapsto> published t s)
    \<and> stored_publication db' = (stored_publication db)(i \<mapsto> verified t p)"
proof -
  obtain c db' where c: "commit_verified_in i (up_publication_id p) (us_version s) (up_version p) t db
      = Inr (c, db')"
    using commit_verified_succeeds [OF ok s p st t] by blast
  have n: "0 \<le> us_version s" "0 \<le> up_version p" "0 \<le> t"
    using stored_nonneg(1) [OF ok s] stored_nonneg(2) [OF ok p] t by simp_all
  have r: "commit_verified_publication i (up_publication_id p) (us_version s) (up_version p) t db = (Inr c, db')"
    using n c by (simp add: commit_verified_publication_def run_in_immediate_transaction_def)
  have cmd: "db' = run_command (CommitVerified i (up_publication_id p) (us_version s) (up_version p) t) db"
    by (simp add: r)
  note e = publish_effect [OF ok s p st t cmd]
  have "c = \<lparr>pc_upload = candidate_view (published t s), pc_publication = Some (verified t p)\<rparr>"
    using commit_verified_ok [OF _ _ c] pipeline_rows [OF ok] s p st by force
  then show ?thesis using r e(1-3) by blast
qed

lemma mark_cleanup_returns:
  assumes ok: "pipeline_ok db" and s: "stored_session db i = Some s" and p: "stored_publication db i = Some p"
    and st: "us_state s = U_PUBLISHED" and c: "up_cleanup_state p = C_PENDING"
    and t: "\<forall>v. up_verified_at_ms p = Some v \<longrightarrow> v \<le> t"
  shows "\<exists>db'. mark_cleanup_complete i (up_publication_id p) (up_version p) t db
      = (Inr \<lparr>pc_upload = candidate_view s, pc_publication = Some (cleaned t p)\<rparr>, db')
    \<and> pipeline_ok db' \<and> stored_session db' = stored_session db
    \<and> stored_publication db' = (stored_publication db)(i \<mapsto> cleaned t p)"
proof -
  have pwf: "upload_publication_wf p" using pipeline_rows [OF ok] stored_publication_wf p by blast
  have pv: "up_state p = P_VERIFIED"
    using pipeline_stored_publication(1) [OF ok p s] st by (cases "up_state p") (auto simp: phase_matches_def)
  then obtain v where v: "up_verified_at_ms p = Some v" "up_created_at_ms p \<le> v"
    using pwf c by (auto simp: upload_publication_wf_def publication_progress_ok_def)
  have n: "0 \<le> up_version p" "0 \<le> t"
    using stored_nonneg(2) [OF ok p] v t by auto
  obtain r db' where r: "mark_cleanup_in i (up_publication_id p) (up_version p) t db = Inr (r, db')"
    using mark_cleanup_succeeds [OF ok s p st c v(1), of t] v(1) t by blast
  have m: "mark_cleanup_complete i (up_publication_id p) (up_version p) t db = (Inr r, db')"
    using n r by (simp add: mark_cleanup_complete_def run_in_immediate_transaction_def)
  have cmd: "db' = run_command (MarkCleanup i (up_publication_id p) (up_version p) t) db"
    by (simp add: m)
  have vt: "v \<le> t" using v(1) t by simp
  note e = cleanup_effect [OF ok s p st c v(1) vt n(2) cmd]
  have "r = \<lparr>pc_upload = candidate_view s, pc_publication = Some (cleaned t p)\<rparr>"
    using mark_cleanup_ok [OF _ _ r] pipeline_rows [OF ok] s p c by force
  then show ?thesis using m e(1-3) by blast
qed

section \<open>A storage that answers\<close>

text \<open>
  Every call of the storage returns, no stop is asked for, and the clock (of which \<open>time\<close> is the
  reading a call leaves behind) does not run backwards.
\<close>

definition storage_answers :: "('s, 'h) upload_ports \<Rightarrow> ('s \<Rightarrow> int) \<Rightarrow> bool" where
  "storage_answers P time \<longleftrightarrow> (\<forall>s.
     (\<exists>s'. po_publication_stop P s = (False, s') \<and> time s \<le> time s')
     \<and> (\<exists>s'. po_now_ms P s = (time s', s') \<and> time s \<le> time s')
     \<and> (\<forall>p. \<exists>b s'. po_verify_target P p s = (Inr b, s') \<and> time s \<le> time s')
     \<and> (\<forall>key n. \<exists>h s'. po_open_reader P key n s = (Inr h, s') \<and> time s \<le> time s')
     \<and> (\<forall>p h. \<exists>s'. po_publish_from_reader P p h s = (Inr (), s') \<and> time s \<le> time s')
     \<and> (\<forall>h. \<exists>s'. po_close P h s = (Inr (), s') \<and> time s \<le> time s')
     \<and> (\<forall>key. \<exists>s'. po_remove P key s = (Inr (), s') \<and> time s \<le> time s'))"

lemma storage_answersD:
  assumes "storage_answers P time"
  shows "\<exists>s'. po_publication_stop P s = (False, s') \<and> time s \<le> time s'"
    and "\<exists>s'. po_now_ms P s = (time s', s') \<and> time s \<le> time s'"
    and "\<exists>b s'. po_verify_target P p s = (Inr b, s') \<and> time s \<le> time s'"
    and "\<exists>h s'. po_open_reader P key n s = (Inr h, s') \<and> time s \<le> time s'"
    and "\<exists>s'. po_publish_from_reader P p h s = (Inr (), s') \<and> time s \<le> time s'"
    and "\<exists>s'. po_close P h s = (Inr (), s') \<and> time s \<le> time s'"
    and "\<exists>s'. po_remove P key s = (Inr (), s') \<and> time s \<le> time s'"
  using assms unfolding storage_answers_def by blast+

lemma run_port: "run (port f) w = (case f (uw_env w) of (r, s) \<Rightarrow> (r, w\<lparr>uw_env := s\<rparr>))"
  by (simp add: port_def)

lemma run_pure_port: "run (pure_port f) w = (case f (uw_env w) of (a, s) \<Rightarrow> (Inr a, w\<lparr>uw_env := s\<rparr>))"
  by (simp add: pure_port_def run_port split: prod.split)

lemma run_transaction:
  "run (transaction wrap f) w = (case f (uw_db w) of (r, db) \<Rightarrow> (rescue wrap r, w\<lparr>uw_db := db\<rparr>))"
  by (simp add: transaction_def)

lemma run_try_except:
  "run (try_except m h) w = (case run m w of (Inl e, w') \<Rightarrow> run (h e) w' | (Inr a, w') \<Rightarrow> (Inr a, w'))"
  by (simp add: try_except_def split: prod.split sum.split)

lemma run_try_finally_Inr:
  "run m w = (Inr a, w1) \<Longrightarrow> run c w1 = (Inr (), w2) \<Longrightarrow> run (try_finally m c) w = (Inr a, w2)"
  by (simp add: try_finally_def)

lemmas run_steps = run_port run_pure_port run_transaction run_try_except

lemma materialize_answers:
  assumes "storage_answers P time"
  shows "\<exists>s'. run (materialize_target P u p) w
      = (Inr True, w\<lparr>uw_env := s', uw_events := uw_events w @ [TargetConfirmed p]\<rparr>) \<and> time (uw_env w) \<le> time s'"
proof -
  obtain b s1 where v: "po_verify_target P p (uw_env w) = (Inr b, s1)" "time (uw_env w) \<le> time s1"
    using storage_answersD(3) [OF assms] by blast
  show ?thesis
  proof (cases b)
    case True
    then show ?thesis using v by (auto simp: materialize_target_def verify_target_def confirm_def)
  next
    case False
    obtain h s2 where o: "po_open_reader P (us_storage_key u) (up_expected_size_bytes p) s1 = (Inr h, s2)"
        "time s1 \<le> time s2"
      using storage_answersD(4) [OF assms] by blast
    obtain s3 where q: "po_publish_from_reader P p h s2 = (Inr (), s3)" "time s2 \<le> time s3"
      using storage_answersD(5) [OF assms] by blast
    obtain s4 where c: "po_close P h s3 = (Inr (), s4)" "time s3 \<le> time s4"
      using storage_answersD(6) [OF assms] by blast
    have "run (materialize_target P u p) w
        = (Inr True, w\<lparr>uw_env := s4, uw_events := uw_events w @ [TargetConfirmed p]\<rparr>)"
      using False v o q c
      by (simp add: materialize_target_def verify_target_def publish_from_reader_def confirm_def
          try_finally_def run_port)
    then show ?thesis using v o q c by auto
  qed
qed

lemma publish_pending_answers:
  assumes a: "storage_answers P time" and ok: "pipeline_ok (uw_db w)"
    and s: "stored_session (uw_db w) i = Some s" and p: "stored_publication (uw_db w) i = Some p"
    and st: "us_state s = U_PUBLISH_PENDING"
    and t: "us_created_at_ms s \<le> time (uw_env w)" "up_created_at_ms p \<le> time (uw_env w)"
  shows "\<exists>t1 w'. run (publish_pending P \<lparr>pc_upload = candidate_view s, pc_publication = Some p\<rparr>) w
      = (Inr \<lparr>pc_upload = candidate_view (published t1 s), pc_publication = Some (verified t1 p)\<rparr>, w')
    \<and> pipeline_ok (uw_db w') \<and> stored_session (uw_db w') i = Some (published t1 s)
    \<and> stored_publication (uw_db w') i = Some (verified t1 p) \<and> t1 \<le> time (uw_env w')
    \<and> uw_events w' = uw_events w @ [TargetConfirmed p]"
proof -
  have i: "us_id s = i" using stored_nonneg(1) [OF ok s] by simp
  have r: "up_state p = P_RESERVED"
    using pipeline_stored_publication(1) [OF ok p s] st by (auto simp: phase_matches_def split: if_splits)
  obtain s1 where m: "run (materialize_target P (candidate_view s) p) w
      = (Inr True, w\<lparr>uw_env := s1, uw_events := uw_events w @ [TargetConfirmed p]\<rparr>)"
      "time (uw_env w) \<le> time s1"
    using materialize_answers [OF a] by blast
  obtain s2 where n: "po_now_ms P s1 = (time s2, s2)" "time s1 \<le> time s2"
    using storage_answersD(2) [OF a] by blast
  have le: "us_created_at_ms s \<le> time s2" "up_created_at_ms p \<le> time s2" using t m(2) n(2) by simp_all
  obtain db' where c: "commit_verified_publication i (up_publication_id p) (us_version s) (up_version p)
        (time s2) (uw_db w) = (Inr \<lparr>pc_upload = candidate_view (published (time s2) s),
          pc_publication = Some (verified (time s2) p)\<rparr>, db')"
      and db': "pipeline_ok db'" "stored_session db' = (stored_session (uw_db w))(i \<mapsto> published (time s2) s)"
        "stored_publication db' = (stored_publication (uw_db w))(i \<mapsto> verified (time s2) p)"
    using commit_verified_returns [OF ok s p st le] by blast
  let ?w = "w\<lparr>uw_env := s2, uw_events := uw_events w @ [TargetConfirmed p], uw_db := db'\<rparr>"
  have "run (publish_pending P \<lparr>pc_upload = candidate_view s, pc_publication = Some p\<rparr>) w
      = (Inr \<lparr>pc_upload = candidate_view (published (time s2) s),
          pc_publication = Some (verified (time s2) p)\<rparr>, ?w)"
    by (simp add: publish_pending_def r m(1) n(1) c i reload_after_conflict_def run_steps)
  then show ?thesis using db' by (intro exI [of _ "time s2"] exI [of _ ?w]) simp
qed

lemma finish_cleanup_answers:
  assumes a: "storage_answers P time" and ok: "pipeline_ok (uw_db w)"
    and s: "stored_session (uw_db w) i = Some s" and p: "stored_publication (uw_db w) i = Some p"
    and st: "us_state s = U_PUBLISHED" and t: "\<forall>v. up_verified_at_ms p = Some v \<longrightarrow> v \<le> time (uw_env w)"
  shows "\<exists>w' p'. run (finish_cleanup P \<lparr>pc_upload = candidate_view s, pc_publication = Some p\<rparr>) w
      = (Inr \<lparr>prs_upload_id = uuid_to_text i, prs_state = upload_state_value U_PUBLISHED,
          prs_cleanup_state = Some (cleanup_state_value C_COMPLETE)\<rparr>, w')
    \<and> stored_session (uw_db w') i = Some s \<and> stored_publication (uw_db w') i = Some p'
    \<and> same_target p p' \<and> up_state p' = P_VERIFIED \<and> up_cleanup_state p' = C_COMPLETE
    \<and> uw_events w' = uw_events w @ (if up_cleanup_state p = C_COMPLETE then [] else [RemovalRequested (us_storage_key s)])"
proof -
  have i: "us_id s = i" using stored_nonneg(1) [OF ok s] by simp
  have v: "up_state p = P_VERIFIED"
    using pipeline_stored_publication(1) [OF ok p s] st by (cases "up_state p") (auto simp: phase_matches_def)
  show ?thesis
  proof (cases "up_cleanup_state p")
    case C_COMPLETE
    have "run (finish_cleanup P \<lparr>pc_upload = candidate_view s, pc_publication = Some p\<rparr>) w
        = (Inr \<lparr>prs_upload_id = uuid_to_text i, prs_state = upload_state_value U_PUBLISHED,
            prs_cleanup_state = Some (cleanup_state_value C_COMPLETE)\<rparr>, w)"
      using C_COMPLETE st v i by (simp add: finish_cleanup_def publication_result_of_def)
    then show ?thesis
      using C_COMPLETE s p v by (intro exI [of _ w] exI [of _ p]) simp
  next
    case C_PENDING
    obtain s1 where r: "po_remove P (us_storage_key s) (uw_env w) = (Inr (), s1)" "time (uw_env w) \<le> time s1"
      using storage_answersD(7) [OF a] by blast
    obtain s2 where n: "po_now_ms P s1 = (time s2, s2)" "time s1 \<le> time s2"
      using storage_answersD(2) [OF a] by blast
    have le: "\<forall>v. up_verified_at_ms p = Some v \<longrightarrow> v \<le> time s2" using t r(2) n(2) by force
    obtain db' where c: "mark_cleanup_complete i (up_publication_id p) (up_version p) (time s2) (uw_db w)
          = (Inr \<lparr>pc_upload = candidate_view s, pc_publication = Some (cleaned (time s2) p)\<rparr>, db')"
        and db': "stored_session db' = stored_session (uw_db w)"
          "stored_publication db' = (stored_publication (uw_db w))(i \<mapsto> cleaned (time s2) p)"
      using mark_cleanup_returns [OF ok s p st C_PENDING le] by blast
    let ?w = "w\<lparr>uw_env := s2, uw_events := uw_events w @ [RemovalRequested (us_storage_key s)], uw_db := db'\<rparr>"
    have f: "up_cleanup_state (cleaned (time s2) p) = C_COMPLETE" by (simp add: cleaned_def)
    have key: "us_storage_key (candidate_view s) = us_storage_key s" by (simp add: candidate_view_def)
    have "run (finish_cleanup P \<lparr>pc_upload = candidate_view s, pc_publication = Some p\<rparr>) w
        = (Inr \<lparr>prs_upload_id = uuid_to_text i, prs_state = upload_state_value U_PUBLISHED,
            prs_cleanup_state = Some (cleanup_state_value C_COMPLETE)\<rparr>, ?w)"
      using st v i r n c C_PENDING f
      by (simp add: finish_cleanup_def publication_result_of_def request_removal_def key
          reload_after_conflict_def run_steps)
    then show ?thesis
      using C_PENDING s db' v f by (intro exI [of _ ?w] exI [of _ "cleaned (time s2) p"]) simp
  qed
qed

section \<open>A new reservation\<close>

definition draws_new_publication :: "('s, 'h) upload_ports \<Rightarrow> ('s \<Rightarrow> int) \<Rightarrow> catalog_db \<Rightarrow> bool" where
  "draws_new_publication P time db \<longleftrightarrow> (\<forall>s. \<exists>u s'. po_new_uuid P s = (u, s') \<and> time s \<le> time s'
     \<and> is_uuid4 u \<and> uuid_to_text u \<notin> set (map pr_publication_id (upload_publications db)))"

lemma new_publication_path:
  assumes "publication_rows_ok db" and "uuid_to_text u \<notin> set (map pr_publication_id (upload_publications db))"
  shows "(d, uuid_hex u @ lit ''.'' @ validated_format_value f)
    \<notin> set (map (\<lambda>r. (pr_destination_id r, pr_relative_target r)) (upload_publications db))"
proof
  assume "(d, uuid_hex u @ lit ''.'' @ validated_format_value f)
    \<in> set (map (\<lambda>r. (pr_destination_id r, pr_relative_target r)) (upload_publications db))"
  then obtain r where r: "r \<in> set (upload_publications db)"
      "pr_relative_target r = uuid_hex u @ lit ''.'' @ validated_format_value f" by auto
  then obtain p where p: "upload_publication_wf p" "r = publication_values p"
    using assms(1) by (cases "publication_from_row r")
      (auto simp: publication_rows_ok_def list_all_iff publication_from_row_iff ok_def)
  have "uuid_hex (up_publication_id p) @ lit ''.'' @ validated_format_value (up_validated_format p)
      = uuid_hex u @ lit ''.'' @ validated_format_value f"
    using r(2) p by (simp add: publication_values_def upload_publication_wf_def)
  then have "uuid_hex (up_publication_id p) = uuid_hex u" by (simp add: append_eq_append_conv)
  then have "pr_publication_id r = uuid_to_text u"
    by (simp add: p(2) publication_values_def uuid_to_text_def)
  then show False using assms(2) r(1) by (auto intro: rev_image_eqI)
qed

lemma new_reservation_returns:
  assumes ok: "pipeline_ok db" and s: "stored_session db i = Some s" and st: "us_state s = U_PUBLISH_PENDING"
    and n: "stored_publication db i = None" and d: "is_uuid4 d" "uuid_to_text d \<in> set (libraries db)"
    and u: "is_uuid4 u" "uuid_to_text u \<notin> set (map pr_publication_id (upload_publications db))"
    and t: "0 \<le> t"
  shows "\<exists>r db'. new_upload_publication_reservation u (candidate_view s) d t = Inr r
    \<and> get_or_create_reservation r (us_version s) db
      = (Inr \<lparr>pc_upload = candidate_view s, pc_publication = Some r\<rparr>, db')
    \<and> pipeline_ok db' \<and> stored_session db' = stored_session db
    \<and> stored_publication db' = (stored_publication db)(i \<mapsto> r)
    \<and> up_destination_id r = d \<and> up_created_at_ms r = t \<and> up_verified_at_ms r = None"
proof -
  have i: "us_id s = i" "0 \<le> us_version s" using stored_nonneg(1) [OF ok s] by auto
  have wf: "upload_session_wf s"
    using stored_session_sound pipeline_rows [OF ok] s unfolding sound_session_def by blast
  have id: "is_uuid4 (us_id s)" using wf by (simp add: upload_wf_defs)
  obtain h k f b where e: "us_checksum_algorithm s = Some (lit ''sha256'')" "us_checksum_hex s = Some h"
      "sha256_hex_pattern h" "us_validated_media_kind s = Some k" "us_validated_format s = Some f"
      "(k, f) \<in> set ALLOWED_UPLOAD_VALIDATION_EVIDENCE_PAIRS" "us_byte_identity_id s = Some b" "is_uuid4 b"
    and size: "us_received_size_bytes s = us_declared_size_bytes s" "0 < us_declared_size_bytes s"
    using wf st by (auto simp: upload_wf_defs state_requires_complete_upload_def upload_state_set_defs
        full_evidence_def)
  define r where "r = \<lparr>up_upload_id = i, up_publication_id = u, up_destination_id = d,
     up_relative_path = uuid_hex u @ lit ''.'' @ validated_format_value f, up_byte_identity_id = b,
     up_expected_size_bytes = us_declared_size_bytes s, up_checksum_algorithm = lit ''sha256'',
     up_checksum_hex = h, up_validated_media_kind = k, up_validated_format = f, up_state = P_RESERVED,
     up_cleanup_state = C_PENDING, up_created_at_ms = t, up_updated_at_ms = t, up_verified_at_ms = None,
     up_cleanup_completed_at_ms = None, up_version = 0, up_media_id = None, up_media_location_id = None\<rparr>"
  have w: "upload_publication_wf r"
    using e u(1) d(1) id i t size(2) by (simp add: upload_publication_wf_def r_def publication_progress_ok_def)
  have "ensure_upload_is_publication_candidate (candidate_view s) = Inr ()"
    using e size st by (simp add: ensure_upload_is_publication_candidate_def)
  then have new: "new_upload_publication_reservation u (candidate_view s) d t = Inr r"
    using w e u t i upload_publication_post_init_iff [of r]
    by (simp add: new_upload_publication_reservation_def for_publication_eq r_def)
  have m: "evidence_matches r s" using e i by (simp add: evidence_matches_def r_def)
  have f: "up_state r = P_RESERVED" "up_media_id r = None" "up_upload_id r = i" by (simp_all add: r_def)
  have lib: "uuid_to_text (up_destination_id r) \<in> set (libraries db)" using d(2) by (simp add: r_def)
  have fresh: "uuid_to_text (up_publication_id r) \<notin> set (map pr_publication_id (upload_publications db))"
      "(uuid_to_text (up_destination_id r), up_relative_path r)
        \<notin> set (map (\<lambda>r. (pr_destination_id r, pr_relative_target r)) (upload_publications db))"
    using u(2) new_publication_path [OF conjunct2 [OF pipeline_rows [OF ok]] u(2)]
    by (simp_all only: r_def upload_publication.simps not_False_eq_True)
  have s': "stored_session db (up_upload_id r) = Some s" and n': "stored_publication db (up_upload_id r) = None"
    using s n f(3) by simp_all
  obtain c db' where c: "get_or_create_reservation_in r (us_version s) db = Inr (c, db')"
    using reservation_succeeds [OF ok s' n' st w m f(1,2) lib fresh] by blast
  have g: "get_or_create_reservation r (us_version s) db = (Inr c, db')"
    using i c by (simp add: get_or_create_reservation_def run_in_immediate_transaction_def)
  have cmd: "db' = run_command (ReserveTarget r (us_version s)) db" by (simp add: g)
  note eff = reserve_effect [OF ok s' n' st w m f(1,2) lib fresh cmd]
  have "c = \<lparr>pc_upload = candidate_view s, pc_publication = Some r\<rparr>"
    using reservation_ok [OF _ _ w c] pipeline_rows [OF ok] s' n' by force
  then show ?thesis using new g eff(1-3) f(3) by (auto simp: r_def)
qed

section \<open>The whole call\<close>

text \<open>Where an upload may stand when a call starts: nothing reserved yet, reserved, or published
  with the source still there.\<close>

definition publication_may_resume ::
    "('s, 'h) upload_ports \<Rightarrow> ('s \<Rightarrow> int) \<Rightarrow> 's upload_world \<Rightarrow> uuid \<Rightarrow> upload_session \<Rightarrow> bool" where
  "publication_may_resume P time w i s \<longleftrightarrow> us_created_at_ms s \<le> time (uw_env w)
     \<and> (case stored_publication (uw_db w) i of
          None \<Rightarrow> us_state s = U_PUBLISH_PENDING \<and> is_uuid4 (po_destination_id P)
            \<and> uuid_to_text (po_destination_id P) \<in> set (libraries (uw_db w))
            \<and> draws_new_publication P time (uw_db w)
        | Some p \<Rightarrow> us_state s \<in> {U_PUBLISH_PENDING, U_PUBLISHED}
            \<and> up_destination_id p = po_destination_id P \<and> up_created_at_ms p \<le> time (uw_env w)
            \<and> pred_option (\<lambda>v. v \<le> time (uw_env w)) (up_verified_at_ms p))"

definition published_and_cleaned :: "catalog_db \<Rightarrow> uuid \<Rightarrow> bool" where
  "published_and_cleaned db i \<longleftrightarrow> (\<exists>s p. stored_session db i = Some s \<and> us_state s = U_PUBLISHED
     \<and> stored_publication db i = Some p \<and> up_state p = P_VERIFIED \<and> up_cleanup_state p = C_COMPLETE)"

definition done_result :: "uuid \<Rightarrow> publication_result" where
  "done_result i = \<lparr>prs_upload_id = uuid_to_text i, prs_state = upload_state_value U_PUBLISHED,
     prs_cleanup_state = Some (cleanup_state_value C_COMPLETE)\<rparr>"

lemma publish_owned_candidate:
  assumes "po_publication_stop P (uw_env w) = (False, s0)"
    and "get_candidate i (uw_db w) = (Inr (Some c), uw_db w)"
    and "run (ensure_reservation P c) (w\<lparr>uw_env := s0\<rparr>) = (Inr c1, w1)" and "pc_publication c1 = Some p"
    and "up_destination_id p = po_destination_id P"
    and "run (if us_state (pc_upload c1) = U_PUBLISH_PENDING then bindE (publish_pending P c1) (finish_cleanup P)
      else finish_cleanup P c1) w1 = (Inr r, w2)"
  shows "run (publish_owned_blocking P i) w = (Inr r, w2)"
proof -
  have "w\<lparr>uw_env := s0, uw_db := uw_db w\<rparr> = w\<lparr>uw_env := s0\<rparr>" by simp
  then show ?thesis
    using assms by (simp add: publish_owned_blocking_def run_steps)
qed

lemma reserved_answers:
  assumes a: "storage_answers P time" and ok: "pipeline_ok (uw_db w)"
    and s: "stored_session (uw_db w) i = Some s" and p: "stored_publication (uw_db w) i = Some p"
    and st: "us_state s \<in> {U_PUBLISH_PENDING, U_PUBLISHED}"
    and t: "us_created_at_ms s \<le> time (uw_env w)" "up_created_at_ms p \<le> time (uw_env w)"
      "pred_option (\<lambda>v. v \<le> time (uw_env w)) (up_verified_at_ms p)"
  shows "\<exists>w'. run (if us_state s = U_PUBLISH_PENDING
      then bindE (publish_pending P \<lparr>pc_upload = candidate_view s, pc_publication = Some p\<rparr>) (finish_cleanup P)
      else finish_cleanup P \<lparr>pc_upload = candidate_view s, pc_publication = Some p\<rparr>) w = (Inr (done_result i), w')
    \<and> published_and_cleaned (uw_db w') i
    \<and> (us_state s = U_PUBLISH_PENDING \<longrightarrow> RemovalRequested (us_storage_key s) \<in> set (uw_events w'))"
proof (cases "us_state s = U_PUBLISH_PENDING")
  case True
  obtain t1 w1 where r: "run (publish_pending P \<lparr>pc_upload = candidate_view s, pc_publication = Some p\<rparr>) w
      = (Inr \<lparr>pc_upload = candidate_view (published t1 s), pc_publication = Some (verified t1 p)\<rparr>, w1)"
      and w1: "pipeline_ok (uw_db w1)" "stored_session (uw_db w1) i = Some (published t1 s)"
        "stored_publication (uw_db w1) i = Some (verified t1 p)" "t1 \<le> time (uw_env w1)"
    using publish_pending_answers [OF a ok s p True t(1,2)] by blast
  have v: "us_state (published t1 s) = U_PUBLISHED"
      "\<forall>v. up_verified_at_ms (verified t1 p) = Some v \<longrightarrow> v \<le> time (uw_env w1)"
    using w1(4) by (simp_all add: published_def verified_def)
  have f: "up_cleanup_state (verified t1 p) = C_PENDING" "us_storage_key (published t1 s) = us_storage_key s"
    by (simp_all add: published_def verified_def)
  show ?thesis
    using finish_cleanup_answers [OF a w1(1-3) v] True r v(1) f
    by (fastforce simp: done_result_def published_and_cleaned_def)
next
  case False
  then have v: "us_state s = U_PUBLISHED" using st by simp
  have "\<forall>v. up_verified_at_ms p = Some v \<longrightarrow> v \<le> time (uw_env w)" using t(3) by auto
  from finish_cleanup_answers [OF a ok s p v this] False v show ?thesis
    by (fastforce simp: done_result_def published_and_cleaned_def)
qed

lemma publish_resumes_from:
  assumes a: "storage_answers P time" and ok: "pipeline_ok (uw_db w)"
    and s: "stored_session (uw_db w) i = Some s" and c: "publication_may_resume P time w i s"
  shows "\<exists>w'. run (publish_owned_blocking P i) w = (Inr (done_result i), w')
    \<and> published_and_cleaned (uw_db w') i
    \<and> (us_state s = U_PUBLISH_PENDING \<longrightarrow> RemovalRequested (us_storage_key s) \<in> set (uw_events w'))"
proof -
  obtain s0 where s0: "po_publication_stop P (uw_env w) = (False, s0)" "time (uw_env w) \<le> time s0"
    using storage_answersD(1) [OF a] by blast
  note g = get_candidate_stored [OF ok s]
  show ?thesis
  proof (cases "stored_publication (uw_db w) i")
    case (Some p)
    let ?w = "w\<lparr>uw_env := s0\<rparr>"
    have t: "us_created_at_ms s \<le> time s0" "up_created_at_ms p \<le> time s0"
        "pred_option (\<lambda>v. v \<le> time s0) (up_verified_at_ms p)"
      using c s0(2) Some by (auto simp: publication_may_resume_def pred_option_def)
    have st: "us_state s \<in> {U_PUBLISH_PENDING, U_PUBLISHED}" and d: "up_destination_id p = po_destination_id P"
      using c Some by (simp_all add: publication_may_resume_def)
    have e: "run (ensure_reservation P \<lparr>pc_upload = candidate_view s, pc_publication = Some p\<rparr>) ?w
        = (Inr \<lparr>pc_upload = candidate_view s, pc_publication = Some p\<rparr>, ?w)"
      by (simp add: ensure_reservation_def)
    from reserved_answers [OF a, of ?w i s p] ok s Some st t
    obtain w' where "run (if us_state s = U_PUBLISH_PENDING
        then bindE (publish_pending P \<lparr>pc_upload = candidate_view s, pc_publication = Some p\<rparr>) (finish_cleanup P)
        else finish_cleanup P \<lparr>pc_upload = candidate_view s, pc_publication = Some p\<rparr>) ?w = (Inr (done_result i), w')"
        "published_and_cleaned (uw_db w') i"
        "us_state s = U_PUBLISH_PENDING \<longrightarrow> RemovalRequested (us_storage_key s) \<in> set (uw_events w')" by auto
    then show ?thesis
      using publish_owned_candidate [OF s0(1) g [unfolded Some] e, of p] d by auto
  next
    case None
    have st: "us_state s = U_PUBLISH_PENDING" and d: "is_uuid4 (po_destination_id P)"
        "uuid_to_text (po_destination_id P) \<in> set (libraries (uw_db w))"
        and dr: "draws_new_publication P time (uw_db w)" and t: "us_created_at_ms s \<le> time (uw_env w)"
      using c None by (simp_all add: publication_may_resume_def)
    obtain s1 where n: "po_now_ms P s0 = (time s1, s1)" "time s0 \<le> time s1"
      using storage_answersD(2) [OF a] by blast
    obtain u s2 where u: "po_new_uuid P s1 = (u, s2)" "time s1 \<le> time s2" "is_uuid4 u"
        "uuid_to_text u \<notin> set (map pr_publication_id (upload_publications (uw_db w)))"
      using dr unfolding draws_new_publication_def by blast
    have t1: "0 \<le> time s1" using stored_nonneg(1) [OF ok s] t s0(2) n(2) by simp
    obtain r db' where r: "new_upload_publication_reservation u (candidate_view s) (po_destination_id P) (time s1) = Inr r"
        "get_or_create_reservation r (us_version s) (uw_db w)
          = (Inr \<lparr>pc_upload = candidate_view s, pc_publication = Some r\<rparr>, db')"
        and db': "pipeline_ok db'" "stored_session db' = stored_session (uw_db w)"
          "stored_publication db' = (stored_publication (uw_db w))(i \<mapsto> r)"
        and rf: "up_destination_id r = po_destination_id P" "up_created_at_ms r = time s1" "up_verified_at_ms r = None"
      using new_reservation_returns [OF ok s st None d u(3,4) t1] by blast
    let ?w = "w\<lparr>uw_env := s2, uw_db := db'\<rparr>"
    have e: "run (ensure_reservation P \<lparr>pc_upload = candidate_view s, pc_publication = None\<rparr>) (w\<lparr>uw_env := s0\<rparr>)
        = (Inr \<lparr>pc_upload = candidate_view s, pc_publication = Some r\<rparr>, ?w)"
      using st n(1) u(1) r by (simp add: ensure_reservation_def run_steps)
    have le: "us_created_at_ms s \<le> time s2" "up_created_at_ms r \<le> time s2"
      using t s0(2) n(2) u(2) rf(2) by simp_all
    from reserved_answers [OF a, of ?w i s r] db' s st le rf(3)
    obtain w' where "run (if us_state s = U_PUBLISH_PENDING
        then bindE (publish_pending P \<lparr>pc_upload = candidate_view s, pc_publication = Some r\<rparr>) (finish_cleanup P)
        else finish_cleanup P \<lparr>pc_upload = candidate_view s, pc_publication = Some r\<rparr>) ?w = (Inr (done_result i), w')"
        "published_and_cleaned (uw_db w') i"
        "us_state s = U_PUBLISH_PENDING \<longrightarrow> RemovalRequested (us_storage_key s) \<in> set (uw_events w')" by auto
    then show ?thesis
      using publish_owned_candidate [OF s0(1) g [unfolded None] e, of r] rf(1) by auto
  qed
qed

end
