(* ===== verification/Upload_Service_Outcomes.thy ===== *)
theory Upload_Service_Outcomes
  imports Upload_Service_Progress Upload_Validation_Outcome
begin

text \<open>
  What the validation service stores: the hash of the bytes that the quarantine file holds, in
  both its entry points, with rounds enough for the hashing loop.
\<close>

section \<open>Hashing\<close>

text \<open>
  A reader of \<open>content\<close>: \<open>rest\<close> are the bytes it has still to give; a read gives some of them and
  none only at the end, and no stop is asked for.
\<close>

definition reader_gives ::
    "('s, 'h) upload_ports \<Rightarrow> bytes \<Rightarrow> ('s \<Rightarrow> bytes) \<Rightarrow> bool" where
  "reader_gives P content rest \<longleftrightarrow> (\<forall>s.
     (\<exists>s'. po_validation_stop P s = (False, s') \<and> rest s' = rest s)
     \<and> (\<forall>key n. \<exists>h s'. po_open_reader P key n s = (Inr h, s'))
     \<and> (\<forall>h. \<exists>s'. po_seek_start P h s = (Inr (), s') \<and> rest s' = content)
     \<and> (\<forall>h. \<exists>m s'. po_read P h HASH_CHUNK_SIZE s = (Inr (take m (rest s)), s') \<and> 0 < m
          \<and> rest s' = drop m (rest s))
     \<and> (\<forall>h. \<exists>s'. po_verify_consistent P h s = (Inr (), s'))
     \<and> (\<forall>h. \<exists>s'. po_close P h s = (Inr (), s')))"

lemma reader_givesD:
  assumes "reader_gives P content rest"
  shows "\<exists>s'. po_validation_stop P s = (False, s') \<and> rest s' = rest s"
    and "\<exists>h s'. po_open_reader P key n s = (Inr h, s')"
    and "\<exists>s'. po_seek_start P h s = (Inr (), s') \<and> rest s' = content"
    and "\<exists>m s'. po_read P h HASH_CHUNK_SIZE s = (Inr (take m (rest s)), s') \<and> 0 < m
          \<and> rest s' = drop m (rest s)"
    and "\<exists>s'. po_verify_consistent P h s = (Inr (), s')"
    and "\<exists>s'. po_close P h s = (Inr (), s')"
  using assms unfolding reader_gives_def by blast+

lemma hash_chunks_gives:
  assumes "reader_gives P content rest" and "length (rest (uw_env w)) < rounds"
  shows "\<exists>s'. run (hash_chunks P h rounds seen) w
    = (Inr (po_sha256 P (seen @ rest (uw_env w))), w\<lparr>uw_env := s'\<rparr>)"
  using assms(2)
proof (induction rounds arbitrary: seen w)
  case (Suc rounds)
  obtain s1 where s1: "po_validation_stop P (uw_env w) = (False, s1)" "rest s1 = rest (uw_env w)"
    using reader_givesD(1) [OF assms(1)] by blast
  obtain m s2 where s2: "po_read P h HASH_CHUNK_SIZE s1 = (Inr (take m (rest s1)), s2)" "0 < m"
      "rest s2 = drop m (rest s1)"
    using reader_givesD(4) [OF assms(1)] by blast
  show ?case
  proof (cases "rest s1 = []")
    case True
    then show ?thesis using s1 s2(1) by (auto simp: run_steps)
  next
    case False
    then have c: "take m (rest s1) \<noteq> []" using s2(2) by simp
    have "length (rest s2) < length (rest s1)" using s2(2,3) False by simp
    then have "length (rest s2) < rounds" using Suc.prems s1(2) by simp
    then obtain s3 where "run (hash_chunks P h rounds (seen @ take m (rest s1))) (w\<lparr>uw_env := s2\<rparr>)
        = (Inr (po_sha256 P ((seen @ take m (rest s1)) @ rest s2)), w\<lparr>uw_env := s3\<rparr>)"
      using Suc.IH [of "w\<lparr>uw_env := s2\<rparr>" "seen @ take m (rest s1)"] by auto
    then show ?thesis using s1 s2(1,3) c by (auto simp: run_steps)
  qed
qed simp

lemma sha256_gives:
  assumes "reader_gives P content rest" and "length content < rounds"
  shows "\<exists>s'. run (sha256_of_reader P rounds h) w = (Inr (po_sha256 P content), w\<lparr>uw_env := s'\<rparr>)"
proof -
  obtain s1 where s1: "po_seek_start P h (uw_env w) = (Inr (), s1)" "rest s1 = content"
    using reader_givesD(3) [OF assms(1)] by blast
  have "length (rest (uw_env (w\<lparr>uw_env := s1\<rparr>))) < rounds" using assms(2) s1(2) by simp
  from hash_chunks_gives [OF assms(1) this, of h "[]"] show ?thesis
    using s1 by (auto simp: sha256_of_reader_def run_steps)
qed

section \<open>The outcome that is stored\<close>

text \<open>The validator accepts the file, identities drawn are new, the clock is past \<open>t0\<close>.\<close>

definition validator_accepts ::
    "('s, 'h) upload_ports \<Rightarrow> validated_media_kind \<Rightarrow> validated_format \<Rightarrow> bool" where
  "validator_accepts P k f \<longleftrightarrow> (k, f) \<in> set ALLOWED_UPLOAD_VALIDATION_EVIDENCE_PAIRS
     \<and> (\<forall>h s. \<exists>s'. po_validate_media P h s
          = (Inr \<lparr>me_media_kind = Member k, me_media_format = Member f\<rparr>, s'))"

definition draws_new_identity :: "('s, 'h) upload_ports \<Rightarrow> catalog_db \<Rightarrow> bool" where
  "draws_new_identity P db \<longleftrightarrow> (\<forall>s. is_uuid4 (fst (po_new_uuid P s))
     \<and> uuid_to_text (fst (po_new_uuid P s)) \<notin> set (map ir_id (media_byte_identities db)))"

definition clock_after :: "('s, 'h) upload_ports \<Rightarrow> int \<Rightarrow> bool" where
  "clock_after P t0 \<longleftrightarrow> (\<forall>s. t0 \<le> fst (po_now_ms P s))"

text \<open>The session of an upload whose bytes have the hash \<open>h\<close>.\<close>

definition hash_stored ::
    "catalog_db \<Rightarrow> upload_session \<Rightarrow> pystr \<Rightarrow> validated_media_kind \<Rightarrow> validated_format \<Rightarrow> upload_session
     \<Rightarrow> bool" where
  "hash_stored db s h k f s' \<longleftrightarrow> us_id s' = us_id s \<and> us_checksum_algorithm s' = Some (lit ''sha256'')
     \<and> us_checksum_hex s' = Some h \<and> us_validated_media_kind s' = Some k \<and> us_validated_format s' = Some f
     \<and> us_state s' = fst (success_of (duplicate_bytes (us_id s) (us_declared_size_bytes s) h db)
          (us_duplicate_resolution_mode s))"

lemma complete_success_gives:
  assumes ok: "pipeline_ok (uw_db w)" and s: "stored_session (uw_db w) i = Some s"
    and st: "us_state s = U_VALIDATING" "us_checksum_hex s = None" "us_validated_media_kind s = None"
    and h: "sha256_hex_pattern h" and e: "(k, f) \<in> set ALLOWED_UPLOAD_VALIDATION_EVIDENCE_PAIRS"
    and d: "draws_new_identity P (uw_db w)" and t: "clock_after P (us_created_at_ms s)"
  shows "\<exists>s' w'. run (complete_success P s h \<lparr>me_media_kind = Member k, me_media_format = Member f\<rparr>) w
      = (Inr s', w') \<and> stored_session (uw_db w') i = Some s' \<and> hash_stored (uw_db w) s h k f s'"
proof -
  have i: "us_id s = i" using stored_nonneg(1) [OF ok s] by simp
  obtain now s1 where n: "po_now_ms P (uw_env w) = (now, s1)" by (cases "po_now_ms P (uw_env w)")
  obtain new s2 where u: "po_new_uuid P s1 = (new, s2)" by (cases "po_new_uuid P s1")
  have now: "us_created_at_ms s \<le> now" using t n unfolding clock_after_def by (metis fst_conv)
  have new: "is_uuid4 new" "uuid_to_text new \<notin> set (map ir_id (media_byte_identities (uw_db w)))"
    using d u unfolding draws_new_identity_def by (metis fst_conv)+
  obtain s' db' j where r: "complete_validation_success new i (us_version s) h (Member k) (Member f) now
        (uw_db w) = (Inr s', db')" "stored_session db' = (stored_session (uw_db w))(i \<mapsto> s')"
      "s' = s\<lparr>us_state := fst (success_of (duplicate_bytes i (us_declared_size_bytes s) h (uw_db w))
          (us_duplicate_resolution_mode s)),
        us_duplicate_disposition := snd (success_of (duplicate_bytes i (us_declared_size_bytes s) h (uw_db w))
          (us_duplicate_resolution_mode s)),
        us_checksum_algorithm := Some (lit ''sha256''), us_checksum_hex := Some h,
        us_validated_media_kind := Some k, us_validated_format := Some f,
        us_byte_identity_id := Some j, us_updated_at_ms := now, us_version := us_version s + 1\<rparr>"
    using validation_outcome [OF ok s st new h e now] by blast
  have "run (complete_success P s h \<lparr>me_media_kind = Member k, me_media_format = Member f\<rparr>) w
      = (Inr s', w\<lparr>uw_env := s2, uw_db := db'\<rparr>)"
    using n u r(1) i by (simp add: complete_success_def session_errors_def run_steps)
  moreover have "hash_stored (uw_db w) s h k f s'" using r(3) i by (simp add: hash_stored_def)
  ultimately show ?thesis using r(2)
    by (intro exI [of _ s'] exI [of _ "w\<lparr>uw_env := s2, uw_db := db'\<rparr>"]) simp
qed

lemma validate_loaded_gives:
  assumes ok: "pipeline_ok (uw_db w)" and s: "stored_session (uw_db w) i = Some s"
    and st: "us_state s = U_VALIDATING" "us_checksum_hex s = None" "us_validated_media_kind s = None"
    and rd: "reader_gives P content rest" and len: "length content < rounds"
    and v: "validator_accepts P k f" and h: "sha256_hex_pattern (po_sha256 P content)"
    and d: "draws_new_identity P (uw_db w)" and t: "clock_after P (us_created_at_ms s)"
  shows "\<exists>s' w'. run (validate_loaded P rounds s) w = (Inr (validation_result_of s'), w')
      \<and> stored_session (uw_db w') i = Some s' \<and> hash_stored (uw_db w) s (po_sha256 P content) k f s'"
proof -
  have e: "(k, f) \<in> set ALLOWED_UPLOAD_VALIDATION_EVIDENCE_PAIRS" using v by (simp add: validator_accepts_def)
  have size: "us_received_size_bytes s = us_declared_size_bytes s"
    using stored_session_sound [of "uw_db w" i s] pipeline_rows [OF ok] s st(1)
    by (auto simp: sound_session_def upload_wf_defs state_requires_complete_upload_def upload_state_set_defs)
  let ?sha = "po_sha256 P content" and ?e = "\<lparr>me_media_kind = Member k, me_media_format = Member f\<rparr>"
  have step: "\<exists>s'. run (port (po_verify_consistent P r)) w0 = (Inr (), w0\<lparr>uw_env := s'\<rparr>)"
    "\<exists>s'. run (port (po_seek_start P r)) w0 = (Inr (), w0\<lparr>uw_env := s'\<rparr>)"
    "\<exists>s'. run (judge_media P s r) w0 = (Inr (Inr ?e), w0\<lparr>uw_env := s'\<rparr>)" for r w0
  proof -
    show "\<exists>s'. run (port (po_verify_consistent P r)) w0 = (Inr (), w0\<lparr>uw_env := s'\<rparr>)"
      using reader_givesD(5) [OF rd, of r "uw_env w0"] by (auto simp: run_port)
    show "\<exists>s'. run (port (po_seek_start P r)) w0 = (Inr (), w0\<lparr>uw_env := s'\<rparr>)"
      using reader_givesD(3) [OF rd, of r "uw_env w0"] by (auto simp: run_port)
    obtain s' where "po_validate_media P r (uw_env w0) = (Inr ?e, s')"
      using v unfolding validator_accepts_def by blast
    then show "\<exists>s'. run (judge_media P s r) w0 = (Inr (Inr ?e), w0\<lparr>uw_env := s'\<rparr>)"
      by (intro exI [of _ s']) (simp add: judge_media_def run_steps)
  qed
  obtain r s0 where o: "po_open_reader P (us_storage_key s) (us_declared_size_bytes s) (uw_env w) = (Inr r, s0)"
    using reader_givesD(2) [OF rd] by blast
  obtain s1 where s1: "run (sha256_of_reader P rounds r) (w\<lparr>uw_env := s0\<rparr>) = (Inr ?sha, w\<lparr>uw_env := s1\<rparr>)"
    using sha256_gives [OF rd len, of r "w\<lparr>uw_env := s0\<rparr>"] by auto
  obtain s2 where s2: "run (port (po_verify_consistent P r)) (w\<lparr>uw_env := s1\<rparr>) = (Inr (), w\<lparr>uw_env := s2\<rparr>)"
    using step(1) [of r "w\<lparr>uw_env := s1\<rparr>"] by auto
  obtain s3 where s3: "run (port (po_seek_start P r)) (w\<lparr>uw_env := s2\<rparr>) = (Inr (), w\<lparr>uw_env := s3\<rparr>)"
    using step(2) [of r "w\<lparr>uw_env := s2\<rparr>"] by auto
  obtain s4 where s4: "run (judge_media P s r) (w\<lparr>uw_env := s3\<rparr>) = (Inr (Inr ?e), w\<lparr>uw_env := s4\<rparr>)"
    using step(3) [of r "w\<lparr>uw_env := s3\<rparr>"] by auto
  obtain s5 where s5: "run (port (po_verify_consistent P r)) (w\<lparr>uw_env := s4\<rparr>) = (Inr (), w\<lparr>uw_env := s5\<rparr>)"
    using step(1) [of r "w\<lparr>uw_env := s4\<rparr>"] by auto
  obtain s6 where s6: "run (port (po_seek_start P r)) (w\<lparr>uw_env := s5\<rparr>) = (Inr (), w\<lparr>uw_env := s6\<rparr>)"
    using step(2) [of r "w\<lparr>uw_env := s5\<rparr>"] by auto
  obtain s7 where s7: "run (sha256_of_reader P rounds r) (w\<lparr>uw_env := s6\<rparr>) = (Inr ?sha, w\<lparr>uw_env := s7\<rparr>)"
    using sha256_gives [OF rd len, of r "w\<lparr>uw_env := s6\<rparr>"] by auto
  obtain s8 where s8: "run (port (po_verify_consistent P r)) (w\<lparr>uw_env := s7\<rparr>) = (Inr (), w\<lparr>uw_env := s8\<rparr>)"
    using step(1) [of r "w\<lparr>uw_env := s7\<rparr>"] by auto
  obtain s' w' where c: "run (complete_success P s ?sha ?e) (w\<lparr>uw_env := s8\<rparr>) = (Inr s', w')"
      "stored_session (uw_db w') i = Some s'" "hash_stored (uw_db w) s ?sha k f s'"
    using complete_success_gives [of "w\<lparr>uw_env := s8\<rparr>" i s ?sha k f P, OF _ _ st h e] ok s d t by auto
  obtain s9 where s9: "po_close P r (uw_env w') = (Inr (), s9)" using reader_givesD(6) [OF rd] by blast
  have hj: "run (hash_and_judge P rounds s r) (w\<lparr>uw_env := s0\<rparr>) = (Inr (validation_result_of s'), w')"
    by (simp add: hash_and_judge_def s1 s2 s3 s4 s5 s6 s7 s8 c(1))
  have "run (validate_loaded P rounds s) w = (Inr (validation_result_of s'), w'\<lparr>uw_env := s9\<rparr>)"
    using hj o s9 size st(1)
    by (simp add: validate_loaded_def validate_stable_quarantine_object_def open_validation_reader_def
        try_finally_def run_steps)
  then show ?thesis using c(2,3) by (intro exI [of _ s'] exI [of _ "w'\<lparr>uw_env := s9\<rparr>"]) simp
qed

text \<open>Starting a validation.\<close>

lemma update_row_identities:
  "update_session_row i g f d db = Inr (s, db') \<Longrightarrow> media_byte_identities db' = media_byte_identities db"
proof (cases "sql_update upload_row_ok (\<lambda>r. ur_id r = uuid_to_text i \<and> g r) f (upload_sessions db)")
  case (Some x)
  then show "update_session_row i g f d db = Inr (s, db') \<Longrightarrow> ?thesis"
    by (cases x) (auto simp: update_session_row_def and_then_Inr Let_def split: if_splits)
qed (simp add: update_session_row_def)

lemma start_returns:
  assumes ok: "pipeline_ok db" and s: "stored_session db i = Some s" and st: "us_state s = U_RECEIVED"
    and t: "us_created_at_ms s \<le> t"
  shows "\<exists>s1 db'. start_validation i (us_version s) t db = (Inr s1, db') \<and> pipeline_ok db'
    \<and> stored_session db' = (stored_session db)(i \<mapsto> s1) \<and> media_byte_identities db' = media_byte_identities db
    \<and> s1 = s\<lparr>us_state := U_VALIDATING, us_updated_at_ms := t, us_version := us_version s + 1\<rparr>"
proof -
  let ?s = "s\<lparr>us_state := U_VALIDATING, us_updated_at_ms := t, us_version := us_version s + 1\<rparr>"
  have ss: "session_rows_ok db" using pipeline_rows [OF ok] by simp
  have wf: "upload_session_wf s" using stored_session_sound [OF ss s] by (simp add: sound_session_def)
  have n: "0 \<le> us_version s" "0 \<le> t" using wf t by (auto simp: upload_wf_defs)
  have "us_duplicate_disposition s = None"
    using wf st by (cases "us_duplicate_disposition s"; cases "the (us_duplicate_disposition s)")
      (auto simp: upload_wf_defs)
  then have "upload_session_wf ?s"
    using wf st t by (auto simp: upload_wf_defs state_requires_complete_upload_def upload_state_set_defs
        VALIDATED_UPLOAD_SESSION_STATES_def)
  then have sp: "start_spec (us_version s) t i (stored_session db) = (Inr ?s, (stored_session db)(i \<mapsto> ?s))"
    using s st by (simp add: start_spec_def spec_update_def)
  obtain r db' where r: "start_validation i (us_version s) t db = (r, db')"
    by (cases "start_validation i (us_version s) t db")
  have e: "r = Inr ?s" "stored_session db' = (stored_session db)(i \<mapsto> ?s)"
    using start_refines [OF ss, of i "us_version s" t] n sp r by simp_all
  have "pipeline_ok (run_command (StartValidation i (us_version s) t) db)"
    using command_step [OF ok, of "StartValidation i (us_version s) t"]
    by (simp add: step_ok_def del: run_command.simps)
  then have "pipeline_ok db'" using r by simp
  moreover have "media_byte_identities db' = media_byte_identities db"
    using r e(1) unfolding start_validation_def guards_iff
    by (auto simp: n dest: transaction_result update_row_identities)
  ultimately show ?thesis using r e by blast
qed

lemma duplicate_bytes_cong:
  "(\<And>j. j \<noteq> i \<Longrightarrow> stored_session db' j = stored_session db j) \<Longrightarrow>
   upload_publications db' = upload_publications db \<Longrightarrow>
     duplicate_bytes i n h db' \<longleftrightarrow> duplicate_bytes i n h db"
  using stored_publication_frame [of db' db] by (auto simp: duplicate_bytes_def names_media_def)

lemma validate_gives:
  assumes ok: "pipeline_ok (uw_db w)" and s: "stored_session (uw_db w) i = Some s"
    and st: "us_state s \<in> {U_RECEIVED, U_VALIDATING}" "us_checksum_hex s = None" "us_validated_media_kind s = None"
    and rd: "reader_gives P content rest" and len: "length content < rounds"
    and v: "validator_accepts P k f" and h: "sha256_hex_pattern (po_sha256 P content)"
    and d: "draws_new_identity P (uw_db w)" and t: "clock_after P (us_created_at_ms s)"
  shows "\<exists>s' w'. run (validate_owned_blocking P rounds i) w = (Inr (validation_result_of s'), w')
      \<and> stored_session (uw_db w') i = Some s' \<and> hash_stored (uw_db w) s (po_sha256 P content) k f s'"
proof -
  have g: "run (load_for_validation i) w = (Inr s, w)"
  proof -
    have "get_session i (uw_db w) = (Inr (Some s), uw_db w)"
      using s by (cases "row_by_id i (uw_db w)"; cases "session_from_row (the (row_by_id i (uw_db w)))")
        (simp_all add: stored_session_def get_session_def run_in_transaction_def)
    then show ?thesis by (simp add: load_for_validation_def session_errors_def run_steps)
  qed
  show ?thesis
  proof (cases "us_state s = U_VALIDATING")
    case True
    then have "run (validate_owned_blocking P rounds i) w = run (validate_loaded P rounds s) w"
      by (simp add: validate_owned_blocking_def g VALIDATION_SETTLED_STATES_def)
    then show ?thesis using validate_loaded_gives [OF ok s True st(2,3) rd len v h d t] by simp
  next
    case False
    then have r: "us_state s = U_RECEIVED" using st(1) by simp
    obtain now s0 where n: "po_now_ms P (uw_env w) = (now, s0)" by (cases "po_now_ms P (uw_env w)")
    have now: "us_created_at_ms s \<le> now" using t n unfolding clock_after_def by (metis fst_conv)
    have i: "us_id s = i" using stored_nonneg(1) [OF ok s] by simp
    obtain s1 db' where a: "start_validation i (us_version s) now (uw_db w) = (Inr s1, db')" "pipeline_ok db'"
        "stored_session db' = (stored_session (uw_db w))(i \<mapsto> s1)"
        "media_byte_identities db' = media_byte_identities (uw_db w)"
      and s1: "s1 = s\<lparr>us_state := U_VALIDATING, us_updated_at_ms := now, us_version := us_version s + 1\<rparr>"
      using start_returns [OF ok s r now] by blast
    let ?w = "w\<lparr>uw_env := s0, uw_db := db'\<rparr>"
    have "run (validate_owned_blocking P rounds i) w = run (validate_loaded P rounds s1) ?w"
      using r n a(1) i
      by (simp add: validate_owned_blocking_def g VALIDATION_SETTLED_STATES_def start_validation_service_def
          session_errors_def run_steps)
    moreover have "hash_stored db' s1 h' k f s' = hash_stored (uw_db w) s h' k f s'" for h' s'
      using duplicate_bytes_cong [of i db' "uw_db w"] a(1,3) i
        session_command_frame(5) [of i "us_version s" now "uw_db w"]
      by (simp add: hash_stored_def s1)
    moreover have "draws_new_identity P db'" "clock_after P (us_created_at_ms s1)"
        "stored_session db' i = Some s1" "us_state s1 = U_VALIDATING" "us_checksum_hex s1 = None"
        "us_validated_media_kind s1 = None"
      using d t a(3,4) st(2,3) by (simp_all add: draws_new_identity_def s1)
    ultimately show ?thesis
      using validate_loaded_gives [of ?w i s1 P content rest rounds k f] a(2) rd len v h by simp
  qed
qed

end
