(* ===== verification/Upload_Chunk_Outcome.thy ===== *)
theory Upload_Chunk_Outcome
  imports Upload_Service_Outcomes
begin

text \<open>
  What an acknowledged chunk means: when \<open>receive_chunk\<close> returns, the quarantine file holds the
  bytes before the offset followed by the body of the request, and the stored offset is its length.
\<close>

section \<open>Results of a run\<close>

definition yields :: "('s, 'a) uprog \<Rightarrow> 's upload_world \<Rightarrow> ('a \<Rightarrow> 's upload_world \<Rightarrow> bool) \<Rightarrow> bool" where
  "yields m w Q \<longleftrightarrow> (\<forall>a w'. run m w = (Inr a, w') \<longrightarrow> Q a w')"

lemma yields_mono: "yields m w Q \<Longrightarrow> (\<And>a w'. Q a w' \<Longrightarrow> R a w') \<Longrightarrow> yields m w R"
  by (auto simp: yields_def)

lemma yields_ret [simp]: "yields (ret a) w Q \<longleftrightarrow> Q a w"
  by (simp add: yields_def)

lemma yields_raise [simp]: "yields (raise e) w Q"
  by (simp add: yields_def)

lemma yields_bindE:
  "yields m w R \<Longrightarrow> (\<And>a w1. R a w1 \<Longrightarrow> yields (k a) w1 Q) \<Longrightarrow> yields (bindE m k) w Q"
  by (fastforce simp: yields_def split: prod.splits sum.splits)

lemma yields_if: "(b \<Longrightarrow> yields m w Q) \<Longrightarrow> (\<not> b \<Longrightarrow> yields n w Q) \<Longrightarrow> yields (if b then m else n) w Q"
  by simp

lemma yields_try:
  "yields m w Q \<Longrightarrow> (\<And>e w1. yields (h e) w1 Q) \<Longrightarrow> yields (try_except m h) w Q"
  by (fastforce simp: yields_def run_try_except split: prod.splits sum.splits)

lemma yields_port:
  "(\<And>a s. f (uw_env w) = (Inr a, s) \<Longrightarrow> Q a (w\<lparr>uw_env := s\<rparr>)) \<Longrightarrow> yields (port f) w Q"
  by (auto simp: yields_def run_port split: prod.splits)

lemma yields_pure_port:
  "(\<And>a s. f (uw_env w) = (a, s) \<Longrightarrow> Q a (w\<lparr>uw_env := s\<rparr>)) \<Longrightarrow> yields (pure_port f) w Q"
  by (auto simp: yields_def run_pure_port split: prod.splits)

lemma yields_sessions:
  "(\<And>a db. f (uw_db w) = (Inr a, db) \<Longrightarrow> Q a (w\<lparr>uw_db := db\<rparr>)) \<Longrightarrow> yields (sessions f) w Q"
  by (auto simp: yields_def run_transaction split: prod.splits sum.splits)

lemma yields_session_errors:
  "yields m w Q \<Longrightarrow> (\<And>e w1. yields (h e) w1 Q) \<Longrightarrow> yields (session_errors m h) w Q"
  unfolding session_errors_def by (rule yields_try) (auto split: upload_exn.split)

text \<open>A program that guarantees everything about its result has none.\<close>

lemma guarantees_run: "guarantees allowed g m post \<Longrightarrow> \<exists>g'. post (fst (run m w)) g'"
proof (induction arbitrary: w rule: guarantees.induct)
  case (Atomic g f post)
  obtain g' where "\<exists>g''. post (fst (run (fst (f w)) (snd (f w)))) g''" using Atomic by blast
  then show ?case by (simp add: run_Atomic)
qed auto

lemma yields_never: "(\<And>g. gives g m (\<lambda>_ _. False)) \<Longrightarrow> yields m w Q"
  using guarantees_run [of service_allowed "{}" m _ w] unfolding gives_def yields_def by fastforce

section \<open>The quarantine file\<close>

text \<open>
  A storage that keeps the bytes of one key: \<open>file\<close> are its bytes, \<open>pos\<close> the position of the open
  writer and \<open>body\<close> the chunks of the request that have not been read.  The calls that succeed do
  what they are documented to do; any call may fail.
\<close>

definition quarantine_file ::
    "('s, 'h) transport_ports \<Rightarrow> pystr \<Rightarrow> ('s \<Rightarrow> bytes) \<Rightarrow> ('s \<Rightarrow> nat) \<Rightarrow> ('s \<Rightarrow> bytes list) \<Rightarrow> bool" where
  "quarantine_file P key file pos body \<longleftrightarrow> (\<forall>s s'.
     let same = file s' = file s \<and> pos s' = pos s \<and> body s' = body s in
     (\<forall>r. tp_root_available P s = (r, s') \<longrightarrow> same)
     \<and> (\<forall>r. tp_available_bytes P s = (r, s') \<longrightarrow> same)
     \<and> (\<forall>r. po_now_ms P s = (r, s') \<longrightarrow> same)
     \<and> (\<forall>h r. tp_flush_and_fsync P h s = (r, s') \<longrightarrow> same)
     \<and> (\<forall>h r. po_close P h s = (r, s') \<longrightarrow> same)
     \<and> (tp_file_size P key s = (Inr None, s') \<longrightarrow> same \<and> file s = [])
     \<and> (\<forall>n. tp_file_size P key s = (Inr (Some n), s') \<longrightarrow> same \<and> n = int (length (file s)))
     \<and> (\<forall>n. tp_truncate P key n s = (Inr (), s') \<longrightarrow> file s' = take (nat n) (file s) \<and> body s' = body s)
     \<and> (\<forall>n new h. tp_open_writer P key n new s = (Inr h, s') \<longrightarrow>
          file s' = file s \<and> body s' = body s \<and> pos s' = nat n)
     \<and> (\<forall>chunk. tp_next_chunk P s = (Inr (Some chunk), s') \<longrightarrow>
          file s' = file s \<and> pos s' = pos s \<and> body s = chunk # body s')
     \<and> (tp_next_chunk P s = (Inr None, s') \<longrightarrow> file s' = file s \<and> pos s' = pos s \<and> body s = [] \<and> body s' = [])
     \<and> (\<forall>h chunk. tp_write P h chunk s = (Inr (int (length chunk)), s') \<longrightarrow>
          file s' = take (pos s) (file s) @ chunk @ drop (pos s + length chunk) (file s)
          \<and> pos s' = pos s + length chunk \<and> body s' = body s))"

lemma quarantine_fileD:
  assumes "quarantine_file P key file pos body"
  shows "tp_root_available P s = (r, s') \<Longrightarrow> file s' = file s \<and> pos s' = pos s \<and> body s' = body s"
    and "tp_available_bytes P s = (r1, s') \<Longrightarrow> file s' = file s \<and> pos s' = pos s \<and> body s' = body s"
    and "po_now_ms P s = (t, s') \<Longrightarrow> file s' = file s \<and> pos s' = pos s \<and> body s' = body s"
    and "tp_flush_and_fsync P h s = (r2, s') \<Longrightarrow> file s' = file s \<and> pos s' = pos s \<and> body s' = body s"
    and "po_close P h s = (r2, s') \<Longrightarrow> file s' = file s \<and> pos s' = pos s \<and> body s' = body s"
    and "tp_file_size P key s = (Inr None, s') \<Longrightarrow> file s' = file s \<and> pos s' = pos s \<and> body s' = body s
      \<and> file s = []"
    and "tp_file_size P key s = (Inr (Some n), s') \<Longrightarrow> file s' = file s \<and> pos s' = pos s \<and> body s' = body s
      \<and> n = int (length (file s))"
    and "tp_truncate P key n s = (Inr (), s') \<Longrightarrow> file s' = take (nat n) (file s) \<and> body s' = body s"
    and "tp_open_writer P key n new s = (Inr h, s') \<Longrightarrow> file s' = file s \<and> body s' = body s \<and> pos s' = nat n"
    and "tp_next_chunk P s = (Inr (Some chunk), s') \<Longrightarrow>
      file s' = file s \<and> pos s' = pos s \<and> body s = chunk # body s'"
    and "tp_next_chunk P s = (Inr None, s') \<Longrightarrow>
      file s' = file s \<and> pos s' = pos s \<and> body s = [] \<and> body s' = []"
    and "tp_write P h chunk s = (Inr (int (length chunk)), s') \<Longrightarrow>
      file s' = take (pos s) (file s) @ chunk @ drop (pos s + length chunk) (file s)
      \<and> pos s' = pos s + length chunk \<and> body s' = body s"
  using assms [unfolded quarantine_file_def Let_def, THEN spec [of _ s], THEN spec [of _ s']]
  by blast+

section \<open>The steps of a request\<close>

text \<open>The database, the file and the body are as they were.\<close>

definition untouched ::
    "('s \<Rightarrow> bytes) \<Rightarrow> ('s \<Rightarrow> bytes list) \<Rightarrow> 's upload_world \<Rightarrow> 's upload_world \<Rightarrow> bool" where
  "untouched file body w w' \<longleftrightarrow> uw_db w' = uw_db w \<and> file (uw_env w') = file (uw_env w)
     \<and> body (uw_env w') = body (uw_env w)"

lemma untouched_refl [simp]: "untouched file body w w"
  by (simp add: untouched_def)

lemma untouched_trans: "untouched file body w w1 \<Longrightarrow> untouched file body w1 w2 \<Longrightarrow> untouched file body w w2"
  by (simp add: untouched_def)

lemma require_yields:
  assumes "quarantine_file P key file pos body"
  shows "yields (require_storage P) w (\<lambda>_ w'. untouched file body w w')"
  unfolding require_storage_def
  by (intro yields_if yields_raise yields_bindE [OF yields_pure_port [where Q = "\<lambda>_. untouched file body w"]])
    (use quarantine_fileD(1) [OF assms] in \<open>auto simp: untouched_def\<close>)

lemma space_yields:
  assumes q: "quarantine_file P key file pos body"
  shows "yields (ensure_space P n) w (\<lambda>_ w'. untouched file body w w')"
proof -
  have "yields (bindE (require_storage P) (\<lambda>_. port (tp_available_bytes P))) w (\<lambda>_. untouched file body w)"
    by (rule yields_bindE [OF require_yields [OF q]], rule yields_port)
      (use quarantine_fileD(2) [OF q] in \<open>auto simp: untouched_def\<close>)
  then show ?thesis
    unfolding ensure_space_def
    by (rule yields_bindE [OF yields_try]) (auto intro: yields_if)
qed

lemma transition_yields:
  assumes q: "quarantine_file P key file pos body" and ok: "pipeline_ok (uw_db w)"
    and s: "stored_session (uw_db w) i = Some s"
  shows "yields (transport_transition P s tg code) w (\<lambda>a w'.
    pipeline_ok (uw_db w') \<and> stored_session (uw_db w') i = Some a \<and> us_state a = tg
    \<and> us_storage_key a = us_storage_key s \<and> us_received_size_bytes a = us_received_size_bytes s
    \<and> us_id a = i \<and> file (uw_env w') = file (uw_env w) \<and> body (uw_env w') = body (uw_env w))"
proof -
  have i: "us_id s = i" using stored_nonneg(1) [OF ok s] by simp
  have ss: "session_rows_ok (uw_db w)" using pipeline_rows [OF ok] by simp
  have t: "pipeline_ok db \<and> stored_session db i = Some a \<and> us_state a = tg
      \<and> us_storage_key a = us_storage_key s \<and> us_received_size_bytes a = us_received_size_bytes s \<and> us_id a = i"
    if r: "transition_state i (us_state s) tg (us_version s) now code (uw_db w) = (Inr a, db)" for now a db
  proof -
    have e: "stored_session db i = Some a" "us_state a = tg" using transition_result [OF ss r] by simp_all
    have v: "step_ok (uw_db w) (run_command (TransitionUpload i (us_state s) tg (us_version s) now code) (uw_db w))"
      by (rule command_step [OF ok]) simp
    then have st: "step_ok (uw_db w) db" using r by simp
    have l: "map_prod id stored_session (transition_state i (us_state s) tg (us_version s) now code (uw_db w))
        = (Inr a, stored_session db)" using r by simp
    have "transition_spec (us_state s) tg (us_version s) now code i (stored_session (uw_db w))
        = (Inr a, stored_session db)"
      using transition_refines [OF ss, of i "us_state s" tg "us_version s" now code, unfolded l, THEN sym]
      by (simp split: if_splits)
    then have "us_storage_key a = us_storage_key s \<and> us_received_size_bytes a = us_received_size_bytes s
        \<and> us_id a = us_id s"
      using s by (auto simp: transition_spec_def spec_update_def split: if_splits)
    then show ?thesis using e st i by (simp add: step_ok_def)
  qed
  show ?thesis
    unfolding transport_transition_def i
    by (rule yields_session_errors, rule yields_bindE [OF yields_pure_port
        [where Q = "\<lambda>_ w1. untouched file body w w1"]])
      (use quarantine_fileD(3) [OF q] t in \<open>auto simp: untouched_def intro!: yields_sessions\<close>)
qed

lemma load_yields:
  "yields (load_session i) w (\<lambda>a w'. w' = w \<and> stored_session (uw_db w) i = Some a)"
  unfolding load_session_def
proof (rule yields_bindE)
  show "yields (session_errors (sessions (get_session i)) (\<lambda>_. fails UploadQuarantineUnavailableError)) w
      (\<lambda>found w'. w' = w \<and> (\<forall>a. found = Some a \<longrightarrow> stored_session (uw_db w) i = Some a))"
  proof (rule yields_session_errors, rule yields_sessions)
    fix found db assume g: "get_session i (uw_db w) = (Inr found, db)"
    then have "db = uw_db w" using get_session_unchanged [of i "uw_db w"] by simp
    then show "w\<lparr>uw_db := db\<rparr> = w \<and> (\<forall>a. found = Some a \<longrightarrow> stored_session (uw_db w) i = Some a)"
      using g get_session_result [of i "uw_db w"] by simp
  qed simp
qed (auto split: option.split)

text \<open>The session a chunk is written for.\<close>

lemma open_receiving_yields:
  assumes q: "quarantine_file P (us_storage_key s) file pos body" and ok: "pipeline_ok (uw_db w)"
    and s: "stored_session (uw_db w) i = Some s"
  shows "yields (open_receiving_session P i offset) w (\<lambda>a w'.
    pipeline_ok (uw_db w') \<and> stored_session (uw_db w') i = Some a \<and> us_received_size_bytes s = offset
    \<and> us_storage_key a = us_storage_key s \<and> us_received_size_bytes a = offset
    \<and> us_id a = i \<and> file (uw_env w') = file (uw_env w) \<and> body (uw_env w') = body (uw_env w))"
proof -
  have i: "us_id s = i" using stored_nonneg(1) [OF ok s] by simp
  have x: "yields (expire_if_needed P s) w (\<lambda>a w'. a = s \<and> untouched file body w w')"
    unfolding expire_if_needed_def
    by (intro yields_if yields_bindE [OF yields_pure_port [where Q = "\<lambda>_. untouched file body w"]]
        yields_bindE [where R = "\<lambda>_ _. True"])
      (use quarantine_fileD(3) [OF q] in \<open>auto simp: untouched_def yields_def\<close>)
  show ?thesis
    unfolding open_receiving_session_def
  proof (rule yields_bindE [OF load_yields], rule yields_bindE)
    fix a w1 assume "w1 = w \<and> stored_session (uw_db w) i = Some a"
    then show "yields (expire_if_needed P a) w1 (\<lambda>a w'. a = s \<and> untouched file body w w')" using x s by simp
  next
    fix a w1 b w2 assume h: "b = s \<and> untouched file body w w2"
    then have db: "uw_db w2 = uw_db w" "file (uw_env w2) = file (uw_env w)" "body (uw_env w2) = body (uw_env w)"
      by (simp_all add: untouched_def)
    note t = transition_yields [OF q, where w = w2 and i = i and s = s and tg = U_RECEIVING and code = None,
        unfolded db, OF ok s]
    show "yields (if us_received_size_bytes b \<noteq> offset
         then fails (UploadOffsetConflictTransportError (us_received_size_bytes b))
         else if us_state b = U_CREATED
           then if offset \<noteq> 0 then fails (UploadOffsetConflictTransportError (us_received_size_bytes b))
             else transport_transition P b U_RECEIVING None
           else ret b) w2 (\<lambda>a w'.
       pipeline_ok (uw_db w') \<and> stored_session (uw_db w') i = Some a \<and> us_received_size_bytes s = offset
       \<and> us_storage_key a = us_storage_key s \<and> us_received_size_bytes a = offset
       \<and> us_id a = i \<and> file (uw_env w') = file (uw_env w) \<and> body (uw_env w') = body (uw_env w))"
      using h ok s i db by (intro yields_if yields_raise) (auto intro!: yields_mono [OF t])
  qed
qed

text \<open>After the reconciliation the file ends at the stored offset.\<close>

lemma reconcile_yields:
  assumes q: "quarantine_file P (us_storage_key s) file pos body" and n: "0 \<le> us_received_size_bytes s"
  shows "yields (reconcile_file_before_write P s) w (\<lambda>_ w'. uw_db w' = uw_db w
    \<and> body (uw_env w') = body (uw_env w) \<and> int (length (file (uw_env w'))) = us_received_size_bytes s
    \<and> file (uw_env w') = take (nat (us_received_size_bytes s)) (file (uw_env w)))"
  unfolding reconcile_file_before_write_def
proof (rule yields_bindE)
  show "yields (try_except (port (tp_file_size P (us_storage_key s)))
       (\<lambda>e. if e = Quarantine QuarantineStateInconsistentError
            then fails UploadQuarantineStateInconsistentError
            else if e = Quarantine QuarantineStorageUnavailableError
            then fails UploadQuarantineUnavailableError else raise e)) w
      (\<lambda>found w'. untouched file body w w' \<and> int (length (file (uw_env w))) = (case found of None \<Rightarrow> 0 | Some n \<Rightarrow> n))"
  proof (intro yields_try yields_port yields_if yields_raise)
    fix found e assume "tp_file_size P (us_storage_key s) (uw_env w) = (Inr found, e)"
    then show "untouched file body w (w\<lparr>uw_env := e\<rparr>)
        \<and> int (length (file (uw_env w))) = (case found of None \<Rightarrow> 0 | Some n \<Rightarrow> n)"
      using quarantine_fileD(6,7) [OF q] by (cases found) (auto simp: untouched_def)
  qed
next
  fix found w1
  assume h: "untouched file body w w1 \<and> int (length (file (uw_env w))) = (case found of None \<Rightarrow> 0 | Some n \<Rightarrow> n)"
  have never: "yields (fail_inconsistent_session P s) w1 Q" for Q :: "unit \<Rightarrow> 'a upload_world \<Rightarrow> bool"
    by (rule yields_never) (rule gives_fail_inconsistent)
  have t: "yields (try_except (port (tp_truncate P (us_storage_key s) (us_received_size_bytes s)))
       (\<lambda>e. if e = Quarantine QuarantineWriteFailedError then fails UploadQuarantineUnavailableError else raise e))
      w1 (\<lambda>_ w'. uw_db w' = uw_db w1 \<and> body (uw_env w') = body (uw_env w1)
        \<and> file (uw_env w') = take (nat (us_received_size_bytes s)) (file (uw_env w1)))"
    by (intro yields_try yields_port yields_if yields_raise)
      (use quarantine_fileD(8) [OF q] in auto)
  show "yields (case found of
         None \<Rightarrow> if us_received_size_bytes s = 0 then ret () else fail_inconsistent_session P s
       | Some n \<Rightarrow>
           if n = us_received_size_bytes s then ret ()
           else if n > us_received_size_bytes s then
             try_except (port (tp_truncate P (us_storage_key s) (us_received_size_bytes s)))
               (\<lambda>e. if e = Quarantine QuarantineWriteFailedError
                    then fails UploadQuarantineUnavailableError else raise e)
           else fail_inconsistent_session P s) w1 (\<lambda>_ w'. uw_db w' = uw_db w
    \<and> body (uw_env w') = body (uw_env w) \<and> int (length (file (uw_env w'))) = us_received_size_bytes s
    \<and> file (uw_env w') = take (nat (us_received_size_bytes s)) (file (uw_env w)))"
    using h n
    by (cases found) (auto intro!: yields_if never yields_mono [OF t] simp: untouched_def)
qed

lemma open_writer_yields:
  assumes q: "quarantine_file P (us_storage_key s) file pos body"
  shows "yields (open_patch_writer P s) w (\<lambda>_ w'. untouched file body w w'
    \<and> pos (uw_env w') = nat (us_received_size_bytes s))"
proof -
  have z: "yields (bindE (port (tp_file_size P (us_storage_key s))) (\<lambda>found. ret (found = None))) w
      (\<lambda>_ w'. untouched file body w w')"
  proof (rule yields_bindE [OF yields_port [where Q = "\<lambda>_. untouched file body w"]])
    fix found e assume "tp_file_size P (us_storage_key s) (uw_env w) = (Inr found, e)"
    then show "untouched file body w (w\<lparr>uw_env := e\<rparr>)"
      using quarantine_fileD(6,7) [OF q] by (cases found) (auto simp: untouched_def)
  qed simp
  show ?thesis
    unfolding open_patch_writer_def Let_def
    by (rule yields_bindE [where R = "\<lambda>_. untouched file body w"], rule yields_if, rule z)
      (use quarantine_fileD(9) [OF q] in \<open>auto intro!: yields_port simp: untouched_def\<close>)
qed

lemma write_body_yields:
  assumes q: "quarantine_file P key file pos body" and "pos (uw_env w) = length (file (uw_env w))"
  shows "yields (write_body P h n rounds actual) w (\<lambda>r w'. uw_db w' = uw_db w
    \<and> file (uw_env w') = file (uw_env w) @ concat (body (uw_env w))
    \<and> r = actual + int (length (concat (body (uw_env w)))))"
  using assms(2)
proof (induction rounds arbitrary: actual w)
  case (Suc rounds)
  show ?case unfolding write_body.simps
  proof (rule yields_bindE [OF yields_port [where
        Q = "\<lambda>next w1. \<exists>e. tp_next_chunk P (uw_env w) = (Inr next, e) \<and> w1 = w\<lparr>uw_env := e\<rparr>"]])
    fix next' w1 assume "\<exists>e. tp_next_chunk P (uw_env w) = (Inr next', e) \<and> w1 = w\<lparr>uw_env := e\<rparr>"
    then obtain e where e: "tp_next_chunk P (uw_env w) = (Inr next', e)" "w1 = w\<lparr>uw_env := e\<rparr>" by blast
    show "yields (case next' of
         None \<Rightarrow> ret actual
       | Some chunk \<Rightarrow>
           if chunk = [] then write_body P h n rounds actual
           else if actual + int (length chunk) > n then fails UploadBodyLengthMismatchError
           else bindE (port (tp_write P h chunk)) (\<lambda>written.
             if written \<noteq> int (length chunk) then fails UploadQuarantineUnavailableError
             else write_body P h n rounds (actual + int (length chunk)))) w1
        (\<lambda>r w'. uw_db w' = uw_db w \<and> file (uw_env w') = file (uw_env w) @ concat (body (uw_env w))
          \<and> r = actual + int (length (concat (body (uw_env w)))))"
    proof (cases next')
      case None
      then show ?thesis using quarantine_fileD(11) [OF q] e by auto
    next
      case (Some chunk)
      have f: "file e = file (uw_env w)" "pos e = pos (uw_env w)" "body (uw_env w) = chunk # body e"
        using quarantine_fileD(10) [OF q] e(1) Some by auto
      have w: "yields (port (tp_write P h chunk)) w1 (\<lambda>r w2. r = int (length chunk) \<longrightarrow> uw_db w2 = uw_db w
          \<and> file (uw_env w2) = file (uw_env w) @ chunk \<and> pos (uw_env w2) = length (file (uw_env w2))
          \<and> body (uw_env w2) = body e)"
      proof (intro yields_port impI)
        fix r e2 assume "tp_write P h chunk (uw_env w1) = (Inr r, e2)" "r = int (length chunk)"
        then have "file e2 = take (pos e) (file e) @ chunk @ drop (pos e + length chunk) (file e)"
            "pos e2 = pos e + length chunk" "body e2 = body e"
          using quarantine_fileD(12) [OF q, where s = e and s' = e2] e(2) by auto
        then show "uw_db (w1\<lparr>uw_env := e2\<rparr>) = uw_db w
            \<and> file (uw_env (w1\<lparr>uw_env := e2\<rparr>)) = file (uw_env w) @ chunk
            \<and> pos (uw_env (w1\<lparr>uw_env := e2\<rparr>)) = length (file (uw_env (w1\<lparr>uw_env := e2\<rparr>)))
            \<and> body (uw_env (w1\<lparr>uw_env := e2\<rparr>)) = body e"
          using f(1,2) Suc.prems e(2) by simp
      qed
      have r1: "yields (write_body P h n rounds actual) w1 (\<lambda>r w'. uw_db w' = uw_db w
          \<and> file (uw_env w') = file (uw_env w) @ concat (body (uw_env w))
          \<and> r = actual + int (length (concat (body (uw_env w)))))" if "chunk = []"
        using Suc.IH [of w1 actual] Suc.prems f e(2) that by simp
      have r2: "yields (write_body P h n rounds (actual + int (length chunk))) w2 (\<lambda>r w'. uw_db w' = uw_db w
          \<and> file (uw_env w') = file (uw_env w) @ concat (body (uw_env w))
          \<and> r = actual + int (length (concat (body (uw_env w)))))"
        if "uw_db w2 = uw_db w" "file (uw_env w2) = file (uw_env w) @ chunk"
          "pos (uw_env w2) = length (file (uw_env w2))" "body (uw_env w2) = body e" for w2
        by (rule yields_mono [OF Suc.IH [of w2 "actual + int (length chunk)"]]) (use that f(3) in auto)
      show ?thesis
        unfolding Some option.case
        by (rule yields_if, erule r1, rule yields_if, rule yields_raise, rule yields_bindE [OF w])
          (auto intro!: yields_if r2)
    qed
  qed blast
qed simp

lemma advance_yields:
  assumes ok: "pipeline_ok (uw_db w)" and s: "stored_session (uw_db w) i = Some s"
  shows "yields (sessions (advance_received_offset i e n (us_version s) t)) w (\<lambda>a w'.
    stored_session (uw_db w') i = Some a \<and> us_state a = U_RECEIVING \<and> us_received_size_bytes a = e + n
    \<and> us_id a = i \<and> uw_env w' = uw_env w)"
proof (rule yields_sessions)
  fix a db assume r: "advance_received_offset i e n (us_version s) t (uw_db w) = (Inr a, db)"
  have ss: "session_rows_ok (uw_db w)" using pipeline_rows [OF ok] by simp
  have l: "map_prod id stored_session (advance_received_offset i e n (us_version s) t (uw_db w))
      = (Inr a, stored_session db)" using r by simp
  have "advance_spec e (us_version s) (e + n) t i (stored_session (uw_db w)) = (Inr a, stored_session db)"
    using advance_refines [OF ss, of i e n "us_version s" t, unfolded l, THEN sym] by (simp split: if_splits)
  then show "stored_session (uw_db (w\<lparr>uw_db := db\<rparr>)) i = Some a \<and> us_state a = U_RECEIVING
      \<and> us_received_size_bytes a = e + n \<and> us_id a = i \<and> uw_env (w\<lparr>uw_db := db\<rparr>) = uw_env w"
    using s stored_nonneg(1) [OF ok s]
    by (auto simp: advance_spec_def spec_update_def split: if_splits dest!: sym [where t = "stored_session db"])
qed

lemma never_recovers:
  "yields (recover_failed_patch P h s n e a b) w Q"
  by (rule yields_never) (rule gives_recover)

lemma write_and_advance_yields:
  assumes q: "quarantine_file P key file pos body" and ok: "pipeline_ok (uw_db w)"
    and s: "stored_session (uw_db w) i = Some s" and p: "pos (uw_env w) = length (file (uw_env w))"
  shows "yields (write_and_advance P rounds s h n) w (\<lambda>a w'.
    stored_session (uw_db w') i = Some a \<and> us_state a = U_RECEIVING
    \<and> us_received_size_bytes a = us_received_size_bytes s + n \<and> us_id a = i
    \<and> file (uw_env w') = file (uw_env w) @ concat (body (uw_env w))
    \<and> int (length (concat (body (uw_env w)))) = n)"
proof -
  have i: "us_id s = i" using stored_nonneg(1) [OF ok s] by simp
  let ?R = "\<lambda>_ w'. uw_db w' = uw_db w \<and> file (uw_env w') = file (uw_env w) @ concat (body (uw_env w))
      \<and> int (length (concat (body (uw_env w)))) = n"
  have f: "yields (port (tp_flush_and_fsync P h)) w1 ?R" if "?R () w1" for w1
    by (rule yields_port) (use quarantine_fileD(4) [OF q] that in auto)
  have c: "yields (pure_port (po_now_ms P)) w1 ?R" if "?R () w1" for w1
    by (rule yields_pure_port) (use quarantine_fileD(3) [OF q] that in auto)
  have d: "yields (sessions (advance_received_offset (us_id s) (us_received_size_bytes s) n (us_version s) t)) w1
      (\<lambda>a w'. stored_session (uw_db w') i = Some a \<and> us_state a = U_RECEIVING
        \<and> us_received_size_bytes a = us_received_size_bytes s + n \<and> us_id a = i
        \<and> file (uw_env w') = file (uw_env w) @ concat (body (uw_env w))
        \<and> int (length (concat (body (uw_env w)))) = n)" if "?R () w1" for w1 t
    unfolding i by (rule yields_mono [OF advance_yields]) (use that ok s in auto)
  have h: "yields (if e = Unfinished then raise e
       else case patch_error m e of (reported, allow) \<Rightarrow> recover_failed_patch P h s m reported allow False) w1 Q"
    for e m w1 and Q :: "upload_session \<Rightarrow> 'a upload_world \<Rightarrow> bool"
    by (auto intro: never_recovers split: prod.split)
  show ?thesis
    unfolding write_and_advance_def Let_def
  proof (rule yields_try [OF yields_bindE [OF write_body_yields [OF q p]] h], rule yields_if, rule yields_raise)
    fix actual and w1 :: "'a upload_world"
    assume "uw_db w1 = uw_db w \<and> file (uw_env w1) = file (uw_env w) @ concat (body (uw_env w))
        \<and> actual = 0 + int (length (concat (body (uw_env w))))" and "\<not> actual \<noteq> n"
    then have r: "?R () w1" and a: "actual = n" by simp_all
    show "yields (bindE (port (tp_flush_and_fsync P h)) (\<lambda>_.
         bindE (pure_port (po_now_ms P)) (\<lambda>now.
         sessions (advance_received_offset (us_id s) (us_received_size_bytes s) actual (us_version s) now)))) w1
      (\<lambda>a w'. stored_session (uw_db w') i = Some a \<and> us_state a = U_RECEIVING
        \<and> us_received_size_bytes a = us_received_size_bytes s + n \<and> us_id a = i
        \<and> file (uw_env w') = file (uw_env w) @ concat (body (uw_env w))
        \<and> int (length (concat (body (uw_env w)))) = n)"
      unfolding a by (rule yields_bindE [OF f [OF r]], rule yields_bindE [OF c], assumption, rule d)
  qed
qed

text \<open>The whole request.\<close>

definition chunk_stored ::
    "('s \<Rightarrow> bytes) \<Rightarrow> ('s \<Rightarrow> bytes list) \<Rightarrow> 's upload_world \<Rightarrow> uuid \<Rightarrow> int \<Rightarrow> int
     \<Rightarrow> upload_snapshot \<Rightarrow> 's upload_world \<Rightarrow> bool" where
  "chunk_stored file body w i offset n sn w' \<longleftrightarrow>
     (\<exists>s. stored_session (uw_db w') i = Some s \<and> sn = snapshot_of s \<and> us_state s = U_RECEIVING
        \<and> us_received_size_bytes s = offset + n)
     \<and> file (uw_env w') = take (nat offset) (file (uw_env w)) @ concat (body (uw_env w))
     \<and> int (length (concat (body (uw_env w)))) = n \<and> int (length (file (uw_env w'))) = offset + n"

lemma receive_yields:
  assumes q: "quarantine_file P (us_storage_key s) file pos body" and ok: "pipeline_ok (uw_db w)"
    and s: "stored_session (uw_db w) i = Some s"
  shows "yields (receive_chunk P rounds i offset n) w (\<lambda>sn w'.
    us_received_size_bytes s = offset \<and> chunk_stored file body w i offset n sn w')"
  unfolding receive_chunk_def
proof (rule yields_bindE [OF require_yields [OF q]], rule yields_if, rule yields_raise, rule yields_if,
    rule yields_raise, rule yields_if, rule yields_raise, rule yields_bindE [OF space_yields [OF q]])
  fix w1 w2 :: "'a upload_world"
  assume h: "untouched file body w w1" "untouched file body w1 w2" and o: "\<not> offset < 0"
  have u: "uw_db w2 = uw_db w" "file (uw_env w2) = file (uw_env w)" "body (uw_env w2) = body (uw_env w)"
    using h by (simp_all add: untouched_def)
  have rest: "yields (bindE (reconcile_file_before_write P a) (\<lambda>_.
      bindE (open_patch_writer P a) (\<lambda>writer.
      bindE (write_and_advance P rounds a writer n) (\<lambda>updated.
      bindE (try_except (port (po_close P writer))
        (\<lambda>_. recover_failed_patch P writer a (us_received_size_bytes a)
           UploadQuarantineUnavailableError False True)) (\<lambda>_.
      ret (snapshot_of updated)))))) w3 (\<lambda>sn w'. us_received_size_bytes s = offset
        \<and> chunk_stored file body w i offset n sn w')"
    if a: "pipeline_ok (uw_db w3)" "stored_session (uw_db w3) i = Some a" "us_received_size_bytes s = offset"
      "us_storage_key a = us_storage_key s" "us_received_size_bytes a = offset" "us_id a = i"
      "file (uw_env w3) = file (uw_env w)" "body (uw_env w3) = body (uw_env w)" for a w3
  proof -
    have qa: "quarantine_file P (us_storage_key a) file pos body" using q a(4) by simp
    show ?thesis
    proof (rule yields_bindE [OF reconcile_yields [OF qa]], goal_cases)
      case 1
      show ?case using a(5) o by simp
    next
      case (2 u4 w4)
      then have w4: "uw_db w4 = uw_db w3" "body (uw_env w4) = body (uw_env w)"
          "int (length (file (uw_env w4))) = offset" "file (uw_env w4) = take (nat offset) (file (uw_env w))"
        using a(5,7,8) by auto
      show ?case
      proof (rule yields_bindE [OF open_writer_yields [OF qa]], goal_cases)
        case (1 writer w5)
        then have w5: "uw_db w5 = uw_db w3" "body (uw_env w5) = body (uw_env w)"
            "pos (uw_env w5) = length (file (uw_env w5))" "int (length (file (uw_env w5))) = offset"
            "file (uw_env w5) = take (nat offset) (file (uw_env w))"
          using w4 a(5) by (auto simp: untouched_def)
        show ?case
        proof (rule yields_bindE [OF write_and_advance_yields [OF q, of w5 i a]], goal_cases)
          case (4 updated w6)
          have cl: "yields (try_except (port (po_close P writer))
              (\<lambda>_. recover_failed_patch P writer a (us_received_size_bytes a)
                 UploadQuarantineUnavailableError False True)) w6
              (\<lambda>_ w'. uw_db w' = uw_db w6 \<and> file (uw_env w') = file (uw_env w6))"
            by (rule yields_try [OF yields_port never_recovers]) (use quarantine_fileD(5) [OF q] in auto)
          show ?case
            by (rule yields_bindE [OF cl]) (use 4 w5 a(3,5) in \<open>auto simp: chunk_stored_def\<close>)
        qed (use a w5 in simp_all)
      qed
    qed
  qed
  show "yields (bindE (open_receiving_session P i offset) (\<lambda>session.
     if us_state session \<noteq> U_RECEIVING then fails UploadSessionStateConflictError
     else if offset + n > us_declared_size_bytes session then fails UploadChunkTooLargeError
     else
     bindE (reconcile_file_before_write P session) (\<lambda>_.
     bindE (open_patch_writer P session) (\<lambda>writer.
     bindE (write_and_advance P rounds session writer n) (\<lambda>updated.
     bindE (try_except (port (po_close P writer))
       (\<lambda>_. recover_failed_patch P writer session (us_received_size_bytes session)
          UploadQuarantineUnavailableError False True)) (\<lambda>_.
     ret (snapshot_of updated))))))) w2 (\<lambda>sn w'. us_received_size_bytes s = offset
       \<and> chunk_stored file body w i offset n sn w')"
    by (rule yields_bindE [OF open_receiving_yields [OF q, of w2 i offset, unfolded u, OF ok s]],
        rule yields_if, rule yields_raise, rule yields_if, rule yields_raise, rule rest) auto
qed

end
