(* ===== verification/Upload_Service_Samples.thy ===== *)
theory Upload_Service_Samples
  imports Upload_Chunk_Outcome
begin

text \<open>
  Concrete ports and worlds for the witnesses of the upload services: a storage that answers every
  call, a reader of ten bytes, and a quarantine file that is a list of bytes.
\<close>

section \<open>Runs of one thread\<close>

lemma thread_runs:
  "(par_step st)\<^sup>*\<^sup>* (ps @ [p], w) (ps @ [Ret (fst (run p w))], snd (run p w))"
proof (induction p arbitrary: w)
  case (Atomic f)
  have "par_step st (ps @ [Atomic f], w) ((ps @ [Atomic f])[length ps := fst (f w)], snd (f w))"
    by (rule par_step.step) simp_all
  then have "par_step st (ps @ [Atomic f], w) (ps @ [fst (f w)], snd (f w))" by simp
  moreover have "(par_step st)\<^sup>*\<^sup>* (ps @ [fst (f w)], snd (f w))
      (ps @ [Ret (fst (run (fst (f w)) (snd (f w))))], snd (run (fst (f w)) (snd (f w))))"
    using rangeI [of f w] by (intro Atomic.IH [of "f w"]) (auto simp: fsts.simps prod_eq_iff)
  ultimately show ?case by (simp add: run_Atomic)
qed simp

lemma call_runs:
  assumes "upload_runs P rounds w0 w" and "draws_uuid4 P"
  shows "upload_runs P rounds w0 (snd (run (call_program P rounds c) w))"
proof -
  let ?st = "upload_service_thread P rounds" and ?p = "call_program P rounds c"
  obtain ps where r: "(par_step ?st)\<^sup>*\<^sup>* ([], w0) (ps, w)" using assms(1) by (auto simp: upload_runs_def)
  have "?st ?p" using assms(2) by (auto simp: upload_service_thread_def)
  then have "par_step ?st (ps, w) (ps @ [?p], w)" by (rule par_step.start)
  with r thread_runs [of ?st ps ?p w]
  have "(par_step ?st)\<^sup>*\<^sup>* ([], w0) (ps @ [Ret (fst (run ?p w))], snd (run ?p w))" by (meson rtranclp.rtrancl_into_rtrancl rtranclp_trans)
  then show ?thesis by (auto simp: upload_runs_def)
qed

lemma no_calls: "upload_runs P rounds w w"
  by (auto simp: upload_runs_def)

lemma run_as_call: "snd (run (as_call m) w) = snd (run m w)"
  by (simp add: as_call_def split: prod.split)

section \<open>A storage that answers\<close>

definition sample_limits :: upload_limits where
  "sample_limits = \<lparr>tl_max_total_bytes = 100, tl_max_patch_bytes = 10, tl_session_ttl_seconds = 60,
     tl_min_free_space_reserve_bytes = 0\<rparr>"

type_synonym file_env = "bytes \<times> nat \<times> bytes list"

text \<open>The file of one key, the position of its writer and the chunks of the request; the clock
  stands at 10.\<close>

definition sample_ports :: "(file_env, unit) transport_ports" where
  "sample_ports = \<lparr>po_now_ms = \<lambda>s. (10, s), po_new_uuid = \<lambda>s. (sample_uuid 2, s),
     po_publication_stop = \<lambda>s. (False, s), po_validation_stop = \<lambda>s. (False, s),
     po_destination_id = sample_uuid 3, po_verify_target = \<lambda>_ s. (Inr False, s),
     po_publish_from_reader = \<lambda>_ _ s. (Inr (), s), po_open_reader = \<lambda>_ _ s. (Inr (), s),
     po_read = \<lambda>_ _ s. (Inr [], s), po_seek_start = \<lambda>_ s. (Inr (), s),
     po_verify_consistent = \<lambda>_ s. (Inr (), s), po_close = \<lambda>_ s. (Inr (), s),
     po_remove = \<lambda>_ s. (Inr (), s),
     po_validate_media = \<lambda>_ s. (Inr \<lparr>me_media_kind = Member VIDEO, me_media_format = Member MP4\<rparr>, s),
     po_sha256 = \<lambda>_. sample_hex, po_classification = None, po_tables = ascii_tables,
     tp_limits = sample_limits, tp_storage_configured = True, tp_root_available = \<lambda>s. (True, s),
     tp_available_bytes = \<lambda>s. (Inr 1000, s),
     tp_file_size = \<lambda>_ (file, rest). (Inr (Some (int (length file))), file, rest),
     tp_open_writer = \<lambda>_ n _ (file, pos, body). (Inr (), file, nat n, body),
     tp_truncate = \<lambda>_ n (file, rest). (Inr (), take (nat n) file, rest),
     tp_write = \<lambda>_ chunk (file, pos, body). (Inr (int (length chunk)),
       take pos file @ chunk @ drop (pos + length chunk) file, pos + length chunk, body),
     tp_truncate_and_fsync = \<lambda>_ n (file, rest). (Inr (), take (nat n) file, rest),
     tp_flush_and_fsync = \<lambda>_ s. (Inr (), s),
     tp_next_chunk = \<lambda>(file, pos, body). (case body of [] \<Rightarrow> (Inr None, file, pos, [])
       | chunk # rest \<Rightarrow> (Inr (Some chunk), file, pos, rest)),
     tp_quarantine_root = Some [lit ''q''], tp_preview_cache_root = None,
     tp_library_roots = \<lambda>s. (Inr [], s)\<rparr>"

lemma sample_ports_fields [simp]:
  "po_now_ms sample_ports = (\<lambda>s. (10, s))" "po_new_uuid sample_ports = (\<lambda>s. (sample_uuid 2, s))"
  "po_close sample_ports h s = (Inr (), s)" "tp_limits sample_ports = sample_limits"
  "tp_storage_configured sample_ports" "tp_root_available sample_ports = (\<lambda>s. (True, s))"
  "tp_available_bytes sample_ports = (\<lambda>s. (Inr 1000, s))"
  "tp_file_size sample_ports key (f, r) = (Inr (Some (int (length f))), f, r)"
  "tp_open_writer sample_ports key n new (f, p, b) = (Inr (), f, nat n, b)"
  "tp_truncate sample_ports key n (f, r) = (Inr (), take (nat n) f, r)"
  "tp_write sample_ports h c (f, p, b) = (Inr (int (length c)), take p f @ c @ drop (p + length c) f, p + length c, b)"
  "tp_flush_and_fsync sample_ports h s = (Inr (), s)"
  "tp_next_chunk sample_ports (f, p, []) = (Inr None, f, p, [])"
  "tp_next_chunk sample_ports (f, p, c # b) = (Inr (Some c), f, p, b)"
  by (simp_all add: sample_ports_def)

end
