(* ===== verification/Upload_Service_Properties.thy ===== *)
theory Upload_Service_Properties
  imports Upload_Service_Samples
begin

text \<open>
  The properties of the upload services, with their witnesses.
\<close>

section \<open>What every run keeps\<close>

lemma released_upload:
  assumes "upload_inv gs w" and "RemovalRequested key \<in> set (uw_events w)"
  shows "\<exists>i s. stored_session (uw_db w) i = Some s \<and> us_storage_key s = key
    \<and> (us_state s = U_CANCELLED
       \<or> (\<exists>q. TargetConfirmed q \<in> set (uw_events w) \<and> up_upload_id q = i
            \<and> us_checksum_hex s = Some (up_checksum_hex q)
            \<and> us_declared_size_bytes s = up_expected_size_bytes q))"
proof -
  have ok: "pipeline_ok (uw_db w)"
    using assms(1) reachable_pipeline_ok by (auto simp: upload_inv_def)
  have "source_released (uw_db w) key" using assms by (simp add: upload_inv_def removals_released_def)
  then obtain i s where s: "stored_session (uw_db w) i = Some s" "us_storage_key s = key"
      "us_state s \<in> {U_PUBLISHED, U_CATALOGED, U_CANCELLED}"
    by (auto simp: source_released_def RELEASED_STATES_def)
  show ?thesis
  proof (cases "us_state s = U_CANCELLED")
    case False
    then have st: "us_state s \<in> {U_PUBLISHED, U_CATALOGED}" using s(3) by simp
    then obtain p where p: "stored_publication (uw_db w) i = Some p"
      using ok s(1) unfolding pipeline_ok_def by blast
    note f = pipeline_stored_publication [OF ok p s(1)]
    have "up_state p = P_VERIFIED"
      using f(1) st by (cases "up_state p") (auto simp: phase_matches_def)
    then obtain q where "TargetConfirmed q \<in> set (uw_events w)" "same_target q p"
      using assms(1) p unfolding upload_inv_def targets_confirmed_def by blast
    moreover have "up_upload_id q = i" "us_checksum_hex s = Some (up_checksum_hex q)"
        "us_declared_size_bytes s = up_expected_size_bytes q"
      using calculation(2) f(2,3) by (simp_all add: same_target_def evidence_matches_def)
    ultimately show ?thesis using s(1,2) by blast
  qed (use s in blast)
qed

text \<open>C1. No upload is lost.  In every interleaving of calls of the services, with stops at any
  time, the removal of a received file is only asked for when its upload is cancelled or when the
  storage has confirmed a published file of the size and checksum that the upload records.\<close>

theorem upload_bytes_survive:
  assumes "upload_runs P rounds (first_world libs tags env) w"
    and "RemovalRequested key \<in> set (uw_events w)"
  shows "\<exists>i s. stored_session (uw_db w) i = Some s \<and> us_storage_key s = key
    \<and> (us_state s = U_CANCELLED
       \<or> (\<exists>q. TargetConfirmed q \<in> set (uw_events w) \<and> up_upload_id q = i
            \<and> us_checksum_hex s = Some (up_checksum_hex q)
            \<and> us_declared_size_bytes s = up_expected_size_bytes q))"
  using upload_runs_inv [OF assms(1)] released_upload assms(2) by blast

text \<open>C5. In every interleaving the store stays one that the repositories can reach, and a
  publication is stored as verified only when the storage has confirmed its target.\<close>

theorem verified_targets_confirmed:
  assumes "upload_runs P rounds (first_world libs tags env) w"
  shows "pipeline_reachable (uw_db w)
    \<and> (\<forall>i p. stored_publication (uw_db w) i = Some p \<longrightarrow> up_state p = P_VERIFIED \<longrightarrow>
         (\<exists>q. TargetConfirmed q \<in> set (uw_events w) \<and> same_target q p))"
  using upload_runs_inv [OF assms] by (auto simp: upload_inv_def targets_confirmed_def)

section \<open>What a call does\<close>

text \<open>C10. One call of \<open>publish_owned_blocking\<close> with a storage that answers finishes the work: from a
  waiting upload without a reservation, with one, or from a published upload whose source is still
  there, it returns the published result, the stored upload is published, its publication
  verified and cleaned up.\<close>

theorem publish_call_completes:
  assumes "storage_answers P time" and "pipeline_reachable (uw_db w)"
    and "stored_session (uw_db w) i = Some s" and "publication_may_resume P time w i s"
  shows "\<exists>w'. run (publish_owned_blocking P i) w = (Inr (done_result i), w')
    \<and> published_and_cleaned (uw_db w') i
    \<and> (us_state s = U_PUBLISH_PENDING \<longrightarrow> RemovalRequested (us_storage_key s) \<in> set (uw_events w'))"
  by (rule publish_resumes_from [OF assms(1) reachable_pipeline_ok [OF assms(2)] assms(3,4)])

text \<open>C16. Validation stores the hash of the bytes in the quarantine file: with a reader that serves
  them in chunks of any size, an accepting validator and more rounds than bytes, the call returns
  and the stored upload carries the hash of all of them, the validator's kind and format, and the
  state that the duplicate check decides.\<close>

theorem validation_stores_hash:
  assumes "pipeline_reachable (uw_db w)" and "stored_session (uw_db w) i = Some s"
    and "us_state s \<in> {U_RECEIVED, U_VALIDATING}" and "us_checksum_hex s = None"
    and "us_validated_media_kind s = None" and "reader_gives P content rest" and "length content < rounds"
    and "validator_accepts P k f" and "sha256_hex_pattern (po_sha256 P content)"
    and "draws_new_identity P (uw_db w)" and "clock_after P (us_created_at_ms s)"
  shows "\<exists>s' w'. run (validate_owned_blocking P rounds i) w = (Inr (validation_result_of s'), w')
    \<and> stored_session (uw_db w') i = Some s' \<and> hash_stored (uw_db w) s (po_sha256 P content) k f s'"
  by (rule validate_gives [OF reachable_pipeline_ok [OF assms(1)] assms(2-11)])

text \<open>C9. An acknowledged chunk is stored: when \<open>receive_chunk\<close> returns, the offset of the request was
  the stored one, the file holds its first \<open>offset\<close> bytes followed by the body of the request, the
  body has the announced length, and the stored offset is the length of the file.\<close>

theorem acknowledged_chunk_stored:
  assumes "pipeline_reachable (uw_db w)" and "stored_session (uw_db w) i = Some s"
    and "quarantine_file P (us_storage_key s) file pos body"
    and "run (receive_chunk P rounds i offset n) w = (Inr sn, w')"
  shows "us_received_size_bytes s = offset \<and> chunk_stored file body w i offset n sn w'"
  using receive_yields [OF assms(3) reachable_pipeline_ok [OF assms(1)] assms(2)] assms(4)
  unfolding yields_def by blast

section \<open>Witnesses\<close>

lemma sample_ports_answer: "storage_answers (upload_ports.truncate sample_ports) (\<lambda>_. 10)"
  by (simp add: storage_answers_def sample_ports_def upload_ports.truncate_def) blast

lemma sample_ports_uuid4: "draws_uuid4 sample_ports"
  by (simp add: draws_uuid4_def sample_ports_def)

definition sample_world :: "file_env upload_world" where
  "sample_world = first_world [uuid_to_text (sample_uuid 3)] [] ([], 0, [])"

definition sample_pending_world :: "file_env upload_world" where
  "sample_pending_world = sample_world\<lparr>uw_db := sample_pending\<rparr>"

lemma sample_pending_runs: "upload_runs sample_ports 1 sample_world sample_pending_world"
proof -
  have v: "valid_command (CreateUpload sample_upload)"
    using sample_upload_wf by (simp add: sample_upload_def)
  have "uw_db sample_world = sample_start"
    by (simp add: sample_world_def first_world_def sample_start_def)
  then have "snd (run (call_program sample_ports 1 (OtherCommand (CreateUpload sample_upload))) sample_world)
      = sample_pending_world"
    using v by (simp add: run_as_call other_command_def sample_pending_world_def sample_pending_def
        del: run_command.simps valid_command.simps)
  then show ?thesis
    using call_runs [OF no_calls sample_ports_uuid4, of 1 sample_world "OtherCommand (CreateUpload sample_upload)"]
    by simp
qed

lemma sample_pending_resumes:
  "publication_may_resume (upload_ports.truncate sample_ports) (\<lambda>_. 10) sample_pending_world (sample_uuid 0)
     sample_upload"
proof -
  have "us_created_at_ms sample_upload = 1" "us_state sample_upload = U_PUBLISH_PENDING"
    by (simp_all add: sample_upload_def)
  then show ?thesis
    by (simp add: publication_may_resume_def sample_pending_world_def sample_no_publication
        draws_new_publication_def sample_ports_def upload_ports.truncate_def)
qed

lemma sample_pending_call:
  "\<exists>w'. run (publish_owned_blocking (upload_ports.truncate sample_ports) (sample_uuid 0)) sample_pending_world
      = (Inr (done_result (sample_uuid 0)), w')
    \<and> published_and_cleaned (uw_db w') (sample_uuid 0)
    \<and> RemovalRequested (us_storage_key sample_upload) \<in> set (uw_events w')"
  using publish_resumes_from [OF sample_ports_answer _ _ sample_pending_resumes]
    reachable_pipeline_ok [OF sample_pending_reachable] sample_pending_session
  by (simp add: sample_pending_world_def sample_upload_def)

lemma sample_published_world:
  "\<exists>w. upload_runs sample_ports 1 sample_world w \<and> published_and_cleaned (uw_db w) (sample_uuid 0)
    \<and> RemovalRequested (us_storage_key sample_upload) \<in> set (uw_events w)"
proof -
  obtain w' where w: "run (publish_owned_blocking (upload_ports.truncate sample_ports) (sample_uuid 0))
        sample_pending_world = (Inr (done_result (sample_uuid 0)), w')"
      "published_and_cleaned (uw_db w') (sample_uuid 0)"
      "RemovalRequested (us_storage_key sample_upload) \<in> set (uw_events w')"
    using sample_pending_call by blast
  have "snd (run (call_program sample_ports 1 (PublishCall (sample_uuid 0))) sample_pending_world) = w'"
    using w(1) by (simp add: run_as_call)
  then have "upload_runs sample_ports 1 sample_world w'"
    using call_runs [OF sample_pending_runs sample_ports_uuid4, of "PublishCall (sample_uuid 0)"] by simp
  then show ?thesis using w(2,3) by blast
qed

theorem upload_bytes_survive_witness:
  "\<exists>(w :: file_env upload_world) i s. RemovalRequested (us_storage_key sample_upload) \<in> set (uw_events w)
     \<and> stored_session (uw_db w) i = Some s \<and> us_storage_key s = us_storage_key sample_upload"
proof -
  obtain w where w: "upload_runs sample_ports 1 sample_world w"
      "RemovalRequested (us_storage_key sample_upload) \<in> set (uw_events w)"
    using sample_published_world by blast
  with upload_bytes_survive [OF w(1) [unfolded sample_world_def] w(2)] show ?thesis by blast
qed

theorem verified_targets_confirmed_witness:
  "\<exists>(w :: file_env upload_world) q. published_and_cleaned (uw_db w) (sample_uuid 0)
     \<and> TargetConfirmed q \<in> set (uw_events w)"
proof -
  obtain w where w: "upload_runs sample_ports 1 sample_world w"
      "published_and_cleaned (uw_db w) (sample_uuid 0)"
    using sample_published_world by blast
  obtain p where "stored_publication (uw_db w) (sample_uuid 0) = Some p" "up_state p = P_VERIFIED"
    using w(2) by (auto simp: published_and_cleaned_def)
  with verified_targets_confirmed [OF w(1) [unfolded sample_world_def]] w(2) show ?thesis by blast
qed

theorem publish_call_completes_witness:
  "\<exists>w'. run (publish_owned_blocking (upload_ports.truncate sample_ports) (sample_uuid 0)) sample_pending_world
      = (Inr (done_result (sample_uuid 0)), w') \<and> published_and_cleaned (uw_db w') (sample_uuid 0)"
proof -
  have "pipeline_reachable (uw_db sample_pending_world)"
      "stored_session (uw_db sample_pending_world) (sample_uuid 0) = Some sample_upload"
    using sample_pending_reachable sample_pending_session by (simp_all add: sample_pending_world_def)
  from publish_call_completes [OF sample_ports_answer this sample_pending_resumes] show ?thesis by blast
qed

text \<open>A reader of two bytes, one at a time.\<close>

definition sample_reader :: "(bytes, unit) upload_ports" where
  "sample_reader = \<lparr>po_now_ms = \<lambda>s. (10, s), po_new_uuid = \<lambda>s. (sample_uuid 2, s),
     po_publication_stop = \<lambda>s. (False, s), po_validation_stop = \<lambda>s. (False, s),
     po_destination_id = sample_uuid 3, po_verify_target = \<lambda>_ s. (Inr False, s),
     po_publish_from_reader = \<lambda>_ _ s. (Inr (), s), po_open_reader = \<lambda>_ _ s. (Inr (), s),
     po_read = \<lambda>_ _ rest. (Inr (take 1 rest), drop 1 rest), po_seek_start = \<lambda>_ _. (Inr (), [1, 2]),
     po_verify_consistent = \<lambda>_ s. (Inr (), s), po_close = \<lambda>_ s. (Inr (), s),
     po_remove = \<lambda>_ s. (Inr (), s),
     po_validate_media = \<lambda>_ s. (Inr \<lparr>me_media_kind = Member VIDEO, me_media_format = Member MP4\<rparr>, s),
     po_sha256 = \<lambda>_. sample_hex, po_classification = None, po_tables = ascii_tables\<rparr>"

theorem validation_stores_hash_witness:
  "\<exists>s'. fst (run (validate_owned_blocking sample_reader 3 (sample_uuid 0))
      \<lparr>uw_db = sample_checking, uw_env = [], uw_events = []\<rparr>) = Inr (validation_result_of s')
    \<and> us_checksum_hex s' = Some sample_hex"
proof -
  let ?w = "\<lparr>uw_db = sample_checking, uw_env = [], uw_events = []\<rparr> :: bytes upload_world"
  have s: "us_state sample_unchecked \<in> {U_RECEIVED, U_VALIDATING}" "us_checksum_hex sample_unchecked = None"
      "us_validated_media_kind sample_unchecked = None" "us_created_at_ms sample_unchecked = 1"
    by (simp_all add: sample_unchecked_def sample_upload_def)
  have rd: "reader_gives sample_reader [1, 2] (\<lambda>rest. rest)"
    unfolding reader_gives_def sample_reader_def by (auto intro: exI [of _ "Suc 0"])
  have v: "validator_accepts sample_reader VIDEO MP4"
    by (simp add: validator_accepts_def sample_reader_def ALLOWED_UPLOAD_VALIDATION_EVIDENCE_PAIRS_def)
  have h: "sha256_hex_pattern (po_sha256 sample_reader [1, 2])"
    using sample_hex_ok by (simp add: sample_reader_def)
  have d: "draws_new_identity sample_reader (uw_db ?w)"
    by (simp add: draws_new_identity_def sample_reader_def sample_checking_eq)
  have t: "clock_after sample_reader (us_created_at_ms sample_unchecked)"
    by (simp add: clock_after_def sample_reader_def s(4))
  have r: "pipeline_reachable (uw_db ?w)" "stored_session (uw_db ?w) (sample_uuid 0) = Some sample_unchecked"
    using sample_checking_reachable sample_checking_session by simp_all
  obtain s' w' where "run (validate_owned_blocking sample_reader 3 (sample_uuid 0)) ?w
        = (Inr (validation_result_of s'), w')"
      "hash_stored (uw_db ?w) sample_unchecked (po_sha256 sample_reader [1, 2]) VIDEO MP4 s'"
    using validation_stores_hash [OF r s(1-3) rd _ v h d t, of 3] by auto
  then show ?thesis by (intro exI [of _ s']) (simp add: hash_stored_def sample_reader_def)
qed

text \<open>A session that has received nothing, and a file with two bytes of an earlier write that was
  never acknowledged.\<close>

definition sample_receiving :: upload_session where
  "sample_receiving = sample_unchecked\<lparr>us_state := U_RECEIVING, us_received_size_bytes := 0\<rparr>"

definition sample_received_four :: upload_session where
  "sample_received_four = sample_receiving\<lparr>us_received_size_bytes := 4, us_updated_at_ms := 10, us_version := 1\<rparr>"

definition sample_chunk_world :: "file_env upload_world" where
  "sample_chunk_world = \<lparr>uw_db = run_command (CreateUpload sample_receiving) sample_start,
     uw_env = ([7, 7], 0, [[1, 2, 3], [], [4]]), uw_events = []\<rparr>"

lemma sample_receiving_wf: "upload_session_wf sample_receiving" "upload_session_wf sample_received_four"
proof -
  have "upload_names_ok sample_unchecked" using sample_unchecked_wf by (simp add: upload_session_wf_def)
  then show "upload_session_wf sample_receiving" "upload_session_wf sample_received_four"
    by (simp_all add: upload_wf_defs sample_received_four_def sample_receiving_def sample_unchecked_def
        sample_upload_def checksum_pair_ok_def evidence_pair_ok_def VALIDATED_UPLOAD_SESSION_STATES_def
        upload_names_ok_def state_requires_complete_upload_def COMPLETE_UPLOAD_SESSION_STATES_def)
qed

lemma sample_chunk_reachable: "pipeline_reachable (uw_db sample_chunk_world)"
proof -
  have "valid_command (CreateUpload sample_receiving)"
    using sample_receiving_wf(1)
    by (simp add: sample_receiving_def sample_unchecked_def sample_upload_def)
  then show ?thesis
    unfolding sample_chunk_world_def sample_start_def upload_world.simps
    by (intro pipeline_reachable.step pipeline_reachable.start)
qed

lemma sample_chunk_session:
  "stored_session (uw_db sample_chunk_world) (sample_uuid 0) = Some sample_receiving"
proof -
  have f: "us_byte_identity_id sample_receiving = None" "us_created_by_login_key sample_receiving = None"
      "us_id sample_receiving = sample_uuid 0"
    by (simp_all add: sample_receiving_def sample_unchecked_def sample_upload_def)
  have "uw_db sample_chunk_world = sample_start\<lparr>upload_sessions := [values_from_session sample_receiving]\<rparr>"
    using create_plain [OF sample_receiving_wf(1) f(1,2)] by (simp add: sample_chunk_world_def)
  then show ?thesis using stored_plain [OF sample_receiving_wf(1)] f(3) by simp
qed

lemma sample_file: "quarantine_file sample_ports key fst (\<lambda>s. fst (snd s)) (\<lambda>s. snd (snd s))"
  unfolding quarantine_file_def sample_ports_def Let_def
  by (auto split: list.splits)

lemma sample_advance:
  "\<exists>db. advance_received_offset (sample_uuid 0) 0 4 0 10 (uw_db sample_chunk_world)
    = (Inr sample_received_four, db)"
proof -
  let ?db = "uw_db sample_chunk_world"
  have ss: "session_rows_ok ?db" using pipeline_rows [OF reachable_pipeline_ok [OF sample_chunk_reachable]] by simp
  have f: "us_state sample_receiving = U_RECEIVING" "us_received_size_bytes sample_receiving = 0"
      "us_version sample_receiving = 0" "us_declared_size_bytes sample_receiving = 10"
      "sample_receiving\<lparr>us_received_size_bytes := 4, us_updated_at_ms := 10, us_version := 1\<rparr> = sample_received_four"
    by (simp_all add: sample_receiving_def sample_unchecked_def sample_upload_def sample_received_four_def)
  have "advance_spec 0 0 4 10 (sample_uuid 0) (stored_session ?db)
      = (Inr sample_received_four, (stored_session ?db)(sample_uuid 0 \<mapsto> sample_received_four))"
    using sample_chunk_session sample_receiving_wf(2) f by (simp add: advance_spec_def spec_update_def)
  then show ?thesis
    using advance_refines [OF ss, of "sample_uuid 0" 0 4 0 10]
    by (cases "advance_received_offset (sample_uuid 0) 0 4 0 10 ?db") auto
qed

lemma sample_chunk_run:
  "\<exists>w'. run (receive_chunk sample_ports 9 (sample_uuid 0) 0 4) sample_chunk_world
    = (Inr (snapshot_of sample_received_four), w')"
proof -
  have g: "run (load_session (sample_uuid 0)) w = (Inr sample_receiving, w)"
    if "uw_db w = uw_db sample_chunk_world" for w :: "file_env upload_world"
  proof -
    have "get_session (sample_uuid 0) (uw_db w) = (Inr (Some sample_receiving), uw_db w)"
      using sample_chunk_session that
      by (cases "row_by_id (sample_uuid 0) (uw_db w)";
          cases "session_from_row (the (row_by_id (sample_uuid 0) (uw_db w)))")
        (simp_all add: stored_session_def get_session_def run_in_transaction_def)
    then show ?thesis by (simp add: load_session_def session_errors_def run_steps)
  qed
  have f: "us_state sample_receiving = U_RECEIVING" "us_received_size_bytes sample_receiving = 0"
      "us_version sample_receiving = 0" "us_declared_size_bytes sample_receiving = 10"
      "us_expires_at_ms sample_receiving = 1000" "us_id sample_receiving = sample_uuid 0"
    by (simp_all add: sample_receiving_def sample_unchecked_def sample_upload_def)
  have e: "uw_env sample_chunk_world = ([7, 7], 0, [[1, 2, 3], [], [4]])"
    by (simp add: sample_chunk_world_def)
  obtain db where a: "advance_received_offset (sample_uuid 0) 0 4 0 10 (uw_db sample_chunk_world)
      = (Inr sample_received_four, db)" using sample_advance by blast
  have k: "expire_if_needed sample_ports sample_receiving
      = bindE (pure_port (po_now_ms sample_ports)) (\<lambda>now.
        if now \<le> 1000 then ret sample_receiving
        else bindE (transport_transition sample_ports sample_receiving U_EXPIRED None) (\<lambda>_. fails UploadSessionExpiredError))"
    by (simp add: expire_if_needed_def EXPIRY_EXEMPT_STATES_def f)
  have o: "run (open_receiving_session sample_ports (sample_uuid 0) 0) w = (Inr sample_receiving, w)"
    if "uw_db w = uw_db sample_chunk_world" for w
    using that by (simp add: open_receiving_session_def g k f run_steps)
  show ?thesis
    by (simp add: receive_chunk_def require_storage_def ensure_space_def o reconcile_file_before_write_def
        open_patch_writer_def write_and_advance_def Let_def run_steps f e a sample_limits_def
        numeral_eq_Suc)
qed

theorem acknowledged_chunk_stored_witness:
  "\<exists>w'. run (receive_chunk sample_ports 9 (sample_uuid 0) 0 4) sample_chunk_world
      = (Inr (snapshot_of sample_received_four), w') \<and> fst (uw_env w') = [1, 2, 3, 4]"
proof -
  obtain w' where r: "run (receive_chunk sample_ports 9 (sample_uuid 0) 0 4) sample_chunk_world
      = (Inr (snapshot_of sample_received_four), w')"
    using sample_chunk_run by blast
  from acknowledged_chunk_stored [OF sample_chunk_reachable sample_chunk_session sample_file r] r
  show ?thesis by (auto simp: chunk_stored_def sample_chunk_world_def)
qed

end
