(* ===== verification/Session_Locks.thy ===== *)
theory Session_Locks
  imports Prelude
begin

text \<open>
  \<open>UploadSessionLockRegistry\<close> of \<open>application/upload_transport.py\<close>: one lock for every session that
  has a lease, shared by the leases of that session and dropped with the last of them.  Entries are
  objects: a lease keeps the address of the entry it found or made, whatever the registry holds
  later.  A lease that is cancelled while it waits leaves without having acquired.
\<close>

section \<open>The registry and its steps\<close>

record lock_entry =
  le_locked :: bool
  le_references :: int

datatype lease_phase = Entered | Acquired | Released | Gone

record lease =
  ls_key :: pystr
  ls_entry :: nat
  ls_phase :: lease_phase

record lock_registry =
  lk_locks :: "pystr \<rightharpoonup> nat"
  lk_entries :: "lock_entry list"
  lk_leases :: "lease list"

definition empty_registry :: lock_registry where
  "empty_registry = \<lparr>lk_locks = Map.empty, lk_entries = [], lk_leases = []\<rparr>"

definition add_reference :: "int \<Rightarrow> lock_entry \<Rightarrow> lock_entry" where
  "add_reference n e = e\<lparr>le_references := le_references e + n\<rparr>"

text \<open>The first block under the guard.\<close>

definition lease_enter :: "pystr \<Rightarrow> lock_registry \<Rightarrow> lock_registry" where
  "lease_enter key r =
     (let (a, r') = (case lk_locks r key of
          Some a \<Rightarrow> (a, r)
        | None \<Rightarrow> (length (lk_entries r), r\<lparr>lk_locks := (lk_locks r)(key \<mapsto> length (lk_entries r)),
            lk_entries := lk_entries r @ [\<lparr>le_locked = False, le_references = 0\<rparr>]\<rparr>))
      in r'\<lparr>lk_entries := (lk_entries r')[a := add_reference 1 (lk_entries r' ! a)],
            lk_leases := lk_leases r' @ [\<lparr>ls_key = key, ls_entry = a, ls_phase = Entered\<rparr>]\<rparr>)"

text \<open>\<open>await entry.lock.acquire()\<close> returns; \<open>None\<close>: it waits.\<close>

definition set_lease :: "nat \<Rightarrow> lease_phase \<Rightarrow> bool \<Rightarrow> lock_registry \<Rightarrow> lock_registry" where
  "set_lease t phase locked r =
     (let l = lk_leases r ! t; a = ls_entry l in
      r\<lparr>lk_entries := (lk_entries r)[a := (lk_entries r ! a)\<lparr>le_locked := locked\<rparr>],
        lk_leases := (lk_leases r)[t := l\<lparr>ls_phase := phase\<rparr>]\<rparr>)"

definition lease_acquire :: "nat \<Rightarrow> lock_registry \<Rightarrow> lock_registry option" where
  "lease_acquire t r =
     (if ls_phase (lk_leases r ! t) = Entered \<and> \<not> le_locked (lk_entries r ! ls_entry (lk_leases r ! t))
      then Some (set_lease t Acquired True r) else None)"

definition lease_release :: "nat \<Rightarrow> lock_registry \<Rightarrow> lock_registry option" where
  "lease_release t r =
     (if ls_phase (lk_leases r ! t) = Acquired then Some (set_lease t Released False r) else None)"

text \<open>The last block under the guard, after the release or after a cancelled wait.\<close>

definition lease_leave :: "nat \<Rightarrow> lock_registry \<Rightarrow> lock_registry option" where
  "lease_leave t r =
     (let l = lk_leases r ! t; a = ls_entry l; e = add_reference (- 1) (lk_entries r ! a) in
      if ls_phase l \<in> {Entered, Released} then
        Some (r\<lparr>lk_entries := (lk_entries r)[a := e],
                lk_leases := (lk_leases r)[t := l\<lparr>ls_phase := Gone\<rparr>],
                lk_locks := (if le_references e = 0 \<and> \<not> le_locked e
                  then (lk_locks r)(ls_key l := None) else lk_locks r)\<rparr>)
      else None)"

inductive lease_step :: "lock_registry \<Rightarrow> lock_registry \<Rightarrow> bool" where
  enter: "lease_step r (lease_enter key r)"
| acquire: "t < length (lk_leases r) \<Longrightarrow> lease_acquire t r = Some r' \<Longrightarrow> lease_step r r'"
| release: "t < length (lk_leases r) \<Longrightarrow> lease_release t r = Some r' \<Longrightarrow> lease_step r r'"
| leave: "t < length (lk_leases r) \<Longrightarrow> lease_leave t r = Some r' \<Longrightarrow> lease_step r r'"

definition registry_size :: "lock_registry \<Rightarrow> nat" where
  "registry_size r = card (dom (lk_locks r))"

section \<open>The invariant\<close>

definition leases_with :: "(lease \<Rightarrow> bool) \<Rightarrow> lock_registry \<Rightarrow> int" where
  "leases_with P r = int (length (filter P (lk_leases r)))"

text \<open>A live lease uses the registered entry of its key; an entry counts its live leases, and is
  locked exactly when one of them has acquired it; a registered entry has a live lease.\<close>

definition registry_inv :: "lock_registry \<Rightarrow> bool" where
  "registry_inv r \<longleftrightarrow>
     (\<forall>l \<in> set (lk_leases r). ls_phase l \<noteq> Gone \<longrightarrow> lk_locks r (ls_key l) = Some (ls_entry l))
     \<and> (\<forall>l \<in> set (lk_leases r). ls_entry l < length (lk_entries r))
     \<and> (\<forall>key a. lk_locks r key = Some a \<longrightarrow> a < length (lk_entries r) \<and> 0 < le_references (lk_entries r ! a))
     \<and> (\<forall>k k' a. lk_locks r k = Some a \<longrightarrow> lk_locks r k' = Some a \<longrightarrow> k = k')
     \<and> (\<forall>a < length (lk_entries r).
          le_references (lk_entries r ! a) = leases_with (\<lambda>l. ls_entry l = a \<and> ls_phase l \<noteq> Gone) r
        \<and> leases_with (\<lambda>l. ls_entry l = a \<and> ls_phase l = Acquired) r = of_bool (le_locked (lk_entries r ! a)))"

lemma filter_update:
  "t < length xs \<Longrightarrow> int (length (filter P (xs[t := x])))
     = int (length (filter P xs)) - of_bool (P (xs ! t)) + of_bool (P x)"
proof (induction xs arbitrary: t)
  case (Cons y ys)
  then show ?case by (cases t) auto
qed simp

lemma filter_positive: "x \<in> set xs \<Longrightarrow> P x \<Longrightarrow> 0 < int (length (filter P xs))"
  by (induction xs) auto

lemma registry_inv_empty: "registry_inv empty_registry"
  by (simp add: registry_inv_def empty_registry_def leases_with_def)

text \<open>A lease moves to another phase, and its entry and the registry follow.\<close>

lemma registry_inv_update:
  assumes i: "registry_inv r" and t: "t < length (lk_leases r)"
    and l: "l = lk_leases r ! t" "ls_phase l \<noteq> Gone" and a: "a = ls_entry l"
    and refs: "le_references e = le_references (lk_entries r ! a) - of_bool (ph = Gone)"
    and lock: "of_bool (le_locked e)
      = (of_bool (le_locked (lk_entries r ! a)) - of_bool (ls_phase l = Acquired) + of_bool (ph = Acquired) :: int)"
    and fields: "lk_entries r' = (lk_entries r)[a := e]" "lk_leases r' = (lk_leases r)[t := l\<lparr>ls_phase := ph\<rparr>]"
    and locks': "lk_locks r' = (if le_references e = 0 then (lk_locks r)(ls_key l := None) else lk_locks r)"
  shows "registry_inv r'"
proof -
  let ?l = "l\<lparr>ls_phase := ph\<rparr>"
  have lm: "l \<in> set (lk_leases r)" using l(1) t by simp
  have reg: "lk_locks r (ls_key l) = Some a" and al: "a < length (lk_entries r)"
    using i lm l(2) a by (auto simp: registry_inv_def)
  have live: "lk_locks r (ls_key m) = Some (ls_entry m)" if "m \<in> set (lk_leases r)" "ls_phase m \<noteq> Gone" for m
    using i that by (simp add: registry_inv_def)
  have ent: "ls_entry m < length (lk_entries r)" if "m \<in> set (lk_leases r)" for m
    using i that by (simp add: registry_inv_def)
  have lk: "b < length (lk_entries r) \<and> 0 < le_references (lk_entries r ! b)" if "lk_locks r k = Some b" for k b
    using i that unfolding registry_inv_def by blast
  have uq: "k = k'" if "lk_locks r k = Some b" "lk_locks r k' = Some b" for k k' b
    using i that unfolding registry_inv_def by blast
  have cnt: "le_references (lk_entries r ! b) = leases_with (\<lambda>m. ls_entry m = b \<and> ls_phase m \<noteq> Gone) r"
      "leases_with (\<lambda>m. ls_entry m = b \<and> ls_phase m = Acquired) r = of_bool (le_locked (lk_entries r ! b))"
    if "b < length (lk_entries r)" for b
    using i that by (auto simp: registry_inv_def)
  have upd: "leases_with P r' = leases_with P r - of_bool (P l) + of_bool (P ?l)" for P
    using filter_update [OF t, of P ?l] l(1) by (simp add: leases_with_def fields)
  have in_new: "m = ?l \<or> m \<in> set (lk_leases r)" if "m \<in> set (lk_leases r')" for m
    using that set_update_subset_insert [of "lk_leases r" t ?l] by (auto simp: fields)
  have new_refs: "le_references e = leases_with (\<lambda>m. ls_entry m = a \<and> ls_phase m \<noteq> Gone) r'"
    using refs cnt(1) [OF al] l(2) a by (simp add: upd)
  have counts: "le_references (lk_entries r' ! b) = leases_with (\<lambda>m. ls_entry m = b \<and> ls_phase m \<noteq> Gone) r'
      \<and> leases_with (\<lambda>m. ls_entry m = b \<and> ls_phase m = Acquired) r' = of_bool (le_locked (lk_entries r' ! b))"
    if "b < length (lk_entries r')" for b
  proof (cases "b = a")
    case True
    have "leases_with (\<lambda>m. ls_entry m = a \<and> ls_phase m = Acquired) r' = of_bool (le_locked e)"
      using lock cnt(2) [OF al] a by (simp add: upd)
    then show ?thesis using True new_refs al by (simp add: fields)
  next
    case False
    then show ?thesis using cnt [of b] that a by (simp add: upd fields)
  qed
  have locks: "lk_locks r' k = Some b \<Longrightarrow> lk_locks r k = Some b" for k b
    by (auto simp: locks' split: if_splits)
  have kept: "lk_locks r' (ls_key m) = Some (ls_entry m)" if m: "m \<in> set (lk_leases r')" "ls_phase m \<noteq> Gone" for m
  proof -
    have old: "lk_locks r (ls_key m) = Some (ls_entry m)"
      using in_new [OF m(1)] live m(2) reg a by auto
    have "le_references e \<noteq> 0" if "ls_key m = ls_key l"
    proof -
      have "ls_entry m = a" using old reg that by simp
      then show ?thesis using new_refs filter_positive [OF m(1)] m(2) by (simp add: leases_with_def)
    qed
    then show ?thesis using old by (auto simp: locks')
  qed
  have refs_pos: "b < length (lk_entries r') \<and> 0 < le_references (lk_entries r' ! b)"
    if k: "lk_locks r' k = Some b" for k b
  proof (cases "b = a")
    case True
    have "le_references e \<noteq> 0" using k uq [OF _ reg, of k] True locks [OF k] by (auto simp: locks' split: if_splits)
    moreover have "0 \<le> le_references e" by (simp add: new_refs leases_with_def)
    ultimately show ?thesis using al True by (simp add: fields)
  next
    case False
    then show ?thesis using lk [OF locks [OF k]] by (simp add: fields)
  qed
  have "ls_entry m < length (lk_entries r')" if "m \<in> set (lk_leases r')" for m
    using in_new [OF that] ent al a by (auto simp: fields)
  moreover have "k = k'" if "lk_locks r' k = Some b" "lk_locks r' k' = Some b" for k k' b
    using uq locks that by blast
  ultimately show ?thesis
    unfolding registry_inv_def using kept refs_pos counts by blast
qed

lemma live_references:
  assumes "registry_inv r" and "t < length (lk_leases r)" and "ls_phase (lk_leases r ! t) \<noteq> Gone"
  shows "0 < le_references (lk_entries r ! ls_entry (lk_leases r ! t))"
  using assms unfolding registry_inv_def by (metis nth_mem)

lemma set_lease_inv:
  assumes i: "registry_inv r" and t: "t < length (lk_leases r)" and g: "ls_phase (lk_leases r ! t) \<noteq> Gone" "ph \<noteq> Gone"
    and lock: "of_bool b = (of_bool (le_locked (lk_entries r ! ls_entry (lk_leases r ! t)))
      - of_bool (ls_phase (lk_leases r ! t) = Acquired) + of_bool (ph = Acquired) :: int)"
  shows "registry_inv (set_lease t ph b r)"
  by (rule registry_inv_update [OF i t refl g(1) refl,
        where e = "(lk_entries r ! ls_entry (lk_leases r ! t))\<lparr>le_locked := b\<rparr>" and ph = ph])
    (use g(2) lock live_references [OF i t g(1)] in \<open>simp_all add: set_lease_def Let_def\<close>)

lemma acquired_locked:
  assumes i: "registry_inv r" and t: "t < length (lk_leases r)" and p: "ls_phase (lk_leases r ! t) = Acquired"
  shows "le_locked (lk_entries r ! ls_entry (lk_leases r ! t))"
proof -
  have m: "lk_leases r ! t \<in> set (lk_leases r)" using t by simp
  have "ls_entry (lk_leases r ! t) < length (lk_entries r)" using i m by (simp add: registry_inv_def)
  then have "leases_with (\<lambda>m. ls_entry m = ls_entry (lk_leases r ! t) \<and> ls_phase m = Acquired) r
      = of_bool (le_locked (lk_entries r ! ls_entry (lk_leases r ! t)))"
    using i unfolding registry_inv_def by blast
  moreover have "0 < leases_with (\<lambda>m. ls_entry m = ls_entry (lk_leases r ! t) \<and> ls_phase m = Acquired) r"
    using filter_positive [OF m] p by (simp add: leases_with_def)
  ultimately show ?thesis by (simp split: if_splits)
qed

lemma leave_inv:
  assumes i: "registry_inv r" and t: "t < length (lk_leases r)" and s: "lease_leave t r = Some r'"
  shows "registry_inv r'"
proof -
  define l where "l = lk_leases r ! t"
  define e where "e = add_reference (- 1) (lk_entries r ! ls_entry l)"
  have p: "ls_phase l \<in> {Entered, Released}"
    and f: "lk_entries r' = (lk_entries r)[ls_entry l := e]" "lk_leases r' = (lk_leases r)[t := l\<lparr>ls_phase := Gone\<rparr>]"
      "lk_locks r' = (if le_references e = 0 \<and> \<not> le_locked e then (lk_locks r)(ls_key l := None) else lk_locks r)"
    using s by (auto simp: lease_leave_def Let_def l_def e_def split: if_splits)
  have lm: "l \<in> set (lk_leases r)" using t by (simp add: l_def)
  have al: "ls_entry l < length (lk_entries r)" using i lm by (simp add: registry_inv_def)
  have "\<not> le_locked e" if z: "le_references e = 0"
  proof
    assume "le_locked e"
    then have k: "le_locked (lk_entries r ! ls_entry l)" by (simp add: e_def add_reference_def)
    have c: "le_references (lk_entries r ! ls_entry l) = leases_with (\<lambda>m. ls_entry m = ls_entry l \<and> ls_phase m \<noteq> Gone) r"
        "leases_with (\<lambda>m. ls_entry m = ls_entry l \<and> ls_phase m = Acquired) r = 1"
      using i al k by (simp_all add: registry_inv_def)
    have "leases_with (\<lambda>m. ls_entry m = ls_entry l \<and> ls_phase m \<noteq> Gone) r
        \<ge> leases_with (\<lambda>m. ls_entry m = ls_entry l \<and> ls_phase m = Acquired) r
          + leases_with (\<lambda>m. ls_entry m = ls_entry l \<and> ls_phase m \<in> {Entered, Released}) r"
    proof -
      have n: "length (filter (\<lambda>m. P m \<and> ls_phase m \<noteq> Gone) xs) \<ge> length (filter (\<lambda>m. P m \<and> ls_phase m = Acquired) xs)
          + length (filter (\<lambda>m. P m \<and> ls_phase m \<in> {Entered, Released}) xs)" for P and xs :: "lease list"
        by (induction xs) auto
      show ?thesis unfolding leases_with_def of_nat_add [symmetric] of_nat_le_iff by (rule n)
    qed
    moreover have "0 < leases_with (\<lambda>m. ls_entry m = ls_entry l \<and> ls_phase m \<in> {Entered, Released}) r"
      unfolding leases_with_def by (rule filter_positive [OF lm]) (use p in simp)
    ultimately show False using z c by (simp add: e_def add_reference_def)
  qed
  then have locks: "lk_locks r' = (if le_references e = 0 then (lk_locks r)(ls_key l := None) else lk_locks r)"
    using f(3) by auto
  show ?thesis
    by (rule registry_inv_update [OF i t l_def _ refl _ _ f(1,2) locks])
      (use p in \<open>auto simp: e_def add_reference_def\<close>)
qed

text \<open>A new lease.\<close>

lemma enter_fields:
  assumes i: "registry_inv r"
  obtains a es where "lk_locks (lease_enter key r) = (lk_locks r)(key \<mapsto> a)"
    "lk_entries (lease_enter key r) = es[a := add_reference 1 (es ! a)]"
    "lk_leases (lease_enter key r) = lk_leases r @ [\<lparr>ls_key = key, ls_entry = a, ls_phase = Entered\<rparr>]"
    "a < length es" "\<And>b. b < length es \<Longrightarrow> le_references (es ! b) = leases_with (\<lambda>m. ls_entry m = b \<and> ls_phase m \<noteq> Gone) r
      \<and> leases_with (\<lambda>m. ls_entry m = b \<and> ls_phase m = Acquired) r = of_bool (le_locked (es ! b))"
    "length (lk_entries r) \<le> length es" "\<And>b. b < length (lk_entries r) \<Longrightarrow> es ! b = lk_entries r ! b"
    "\<And>k. lk_locks r k = Some a \<Longrightarrow> k = key" "\<And>b. lk_locks r key = Some b \<Longrightarrow> b = a"
proof -
  have cnt: "\<And>b. b < length (lk_entries r) \<Longrightarrow>
        le_references (lk_entries r ! b) = leases_with (\<lambda>m. ls_entry m = b \<and> ls_phase m \<noteq> Gone) r
      \<and> leases_with (\<lambda>m. ls_entry m = b \<and> ls_phase m = Acquired) r = of_bool (le_locked (lk_entries r ! b))"
    and lk: "\<And>k b. lk_locks r k = Some b \<Longrightarrow> b < length (lk_entries r)"
    and uq: "\<And>k k' b. lk_locks r k = Some b \<Longrightarrow> lk_locks r k' = Some b \<Longrightarrow> k = k'"
    and ent: "\<And>m. m \<in> set (lk_leases r) \<Longrightarrow> ls_entry m < length (lk_entries r)"
    using i unfolding registry_inv_def by blast+
  show ?thesis
  proof (cases "lk_locks r key")
    case (Some a)
    show ?thesis
      by (rule that [of a "lk_entries r"]) (use Some cnt lk [OF Some] uq in \<open>auto simp: lease_enter_def\<close>)
  next
    case None
    let ?n = "length (lk_entries r)"
    have z: "leases_with (\<lambda>m. ls_entry m = ?n \<and> Q m) r = 0" for Q
      using ent by (fastforce simp: leases_with_def filter_empty_conv)
    show ?thesis
      by (rule that [of ?n "lk_entries r @ [\<lparr>le_locked = False, le_references = 0\<rparr>]"])
        (use None cnt z lk in \<open>force simp: lease_enter_def nth_append less_Suc_eq\<close>)+
  qed
qed

lemma enter_inv:
  assumes i: "registry_inv r"
  shows "registry_inv (lease_enter key r)"
proof -
  let ?r = "lease_enter key r"
  obtain a es where f: "lk_locks ?r = (lk_locks r)(key \<mapsto> a)" "lk_entries ?r = es[a := add_reference 1 (es ! a)]"
      "lk_leases ?r = lk_leases r @ [\<lparr>ls_key = key, ls_entry = a, ls_phase = Entered\<rparr>]"
    and a: "a < length es" and cnt: "\<And>b. b < length es \<Longrightarrow>
        le_references (es ! b) = leases_with (\<lambda>m. ls_entry m = b \<and> ls_phase m \<noteq> Gone) r
      \<and> leases_with (\<lambda>m. ls_entry m = b \<and> ls_phase m = Acquired) r = of_bool (le_locked (es ! b))"
    and ext: "length (lk_entries r) \<le> length es" "\<And>b. b < length (lk_entries r) \<Longrightarrow> es ! b = lk_entries r ! b"
    and key: "\<And>k. lk_locks r k = Some a \<Longrightarrow> k = key" "\<And>b. lk_locks r key = Some b \<Longrightarrow> b = a"
    by (rule enter_fields [OF i, of key]) (rule that)
  have live: "\<And>m. m \<in> set (lk_leases r) \<Longrightarrow> ls_phase m \<noteq> Gone \<Longrightarrow> lk_locks r (ls_key m) = Some (ls_entry m)"
    and ent: "\<And>m. m \<in> set (lk_leases r) \<Longrightarrow> ls_entry m < length (lk_entries r)"
    and lk: "\<And>k b. lk_locks r k = Some b \<Longrightarrow> b < length (lk_entries r) \<and> 0 < le_references (lk_entries r ! b)"
    and uq: "\<And>k k' b. lk_locks r k = Some b \<Longrightarrow> lk_locks r k' = Some b \<Longrightarrow> k = k'"
    using i unfolding registry_inv_def by blast+
  have w: "leases_with P ?r = leases_with P r + of_bool (P \<lparr>ls_key = key, ls_entry = a, ls_phase = Entered\<rparr>)" for P
    by (simp add: leases_with_def f(3))
  have "lk_locks ?r (ls_key m) = Some (ls_entry m)" if "m \<in> set (lk_leases ?r)" "ls_phase m \<noteq> Gone" for m
    using that live key(2) by (auto simp: f)
  moreover have "ls_entry m < length (lk_entries ?r)" if "m \<in> set (lk_leases ?r)" for m
    using that ent a ext(1) by (fastforce simp: f)
  moreover have "b < length (lk_entries ?r) \<and> 0 < le_references (lk_entries ?r ! b)" if "lk_locks ?r k = Some b" for k b
  proof (cases "b = a")
    case True
    have "0 \<le> le_references (es ! a)" using cnt [OF a] by (simp add: leases_with_def)
    then show ?thesis using True a by (simp add: f add_reference_def)
  next
    case False
    then have "lk_locks r k = Some b" using that by (auto simp: f split: if_splits)
    then show ?thesis using lk ext False by (fastforce simp: f)
  qed
  moreover have "k = k'" if "lk_locks ?r k = Some b" "lk_locks ?r k' = Some b" for k k' b
  proof -
    have "lk_locks r j = Some b \<or> j = key \<and> b = a" if "lk_locks ?r j = Some b" for j
      using that by (cases "j = key") (simp_all add: f)
    then show ?thesis using that uq [of k b k'] key(1) by blast
  qed
  moreover have "le_references (lk_entries ?r ! b) = leases_with (\<lambda>m. ls_entry m = b \<and> ls_phase m \<noteq> Gone) ?r
      \<and> leases_with (\<lambda>m. ls_entry m = b \<and> ls_phase m = Acquired) ?r = of_bool (le_locked (lk_entries ?r ! b))"
    if "b < length (lk_entries ?r)" for b
    using that cnt [of b] a by (cases "b = a") (auto simp: w f add_reference_def)
  ultimately show ?thesis unfolding registry_inv_def by blast
qed

lemma step_inv: "lease_step r r' \<Longrightarrow> registry_inv r \<Longrightarrow> registry_inv r'"
proof (induction rule: lease_step.induct)
  case (acquire t r r')
  then show ?case by (auto simp: lease_acquire_def split: if_splits intro!: set_lease_inv)
next
  case (release t r r')
  then show ?case
    using acquired_locked [of r t] by (auto simp: lease_release_def split: if_splits intro!: set_lease_inv)
qed (auto intro: enter_inv leave_inv)

lemma reachable_registry_inv: "lease_step\<^sup>*\<^sup>* empty_registry r \<Longrightarrow> registry_inv r"
  by (induction rule: rtranclp_induct) (auto intro: step_inv registry_inv_empty)

section \<open>What the registry guarantees\<close>

lemma filter_two:
  "t < length xs \<Longrightarrow> u < length xs \<Longrightarrow> t \<noteq> u \<Longrightarrow> P (xs ! t) \<Longrightarrow> P (xs ! u) \<Longrightarrow> 2 \<le> length (filter P xs)"
proof (induction xs arbitrary: t u)
  case (Cons x xs)
  have one: "1 \<le> length (filter P xs)" if "j < length xs" "P (xs ! j)" for j
    using filter_positive [of "xs ! j" xs P] that by (simp add: Suc_leI)
  show ?case
  proof (cases t; cases u)
    fix t' u' assume "t = Suc t'" "u = Suc u'"
    then show ?thesis using Cons.IH [of t' u'] Cons.prems by simp
  qed (use Cons.prems one in \<open>force simp: nth_Cons'\<close>)+
qed simp

lemma same_key_same_entry:
  assumes "registry_inv r" and "l \<in> set (lk_leases r)" "m \<in> set (lk_leases r)"
    and "ls_phase l \<noteq> Gone" "ls_phase m \<noteq> Gone" and "ls_key l = ls_key m"
  shows "ls_entry l = ls_entry m"
  using assms unfolding registry_inv_def by (metis option.inject)

lemma acquired_once:
  assumes i: "registry_inv r" and t: "t < length (lk_leases r)" "u < length (lk_leases r)"
    and p: "ls_phase (lk_leases r ! t) = Acquired" "ls_phase (lk_leases r ! u) = Acquired"
    and k: "ls_key (lk_leases r ! t) = ls_key (lk_leases r ! u)"
  shows "t = u"
proof (rule ccontr)
  assume d: "t \<noteq> u"
  let ?P = "\<lambda>m. ls_entry m = ls_entry (lk_leases r ! t) \<and> ls_phase m = Acquired"
  have e: "ls_entry (lk_leases r ! t) = ls_entry (lk_leases r ! u)"
    by (rule same_key_same_entry [OF i]) (use t p k in simp_all)
  have "ls_entry (lk_leases r ! t) < length (lk_entries r)" using i t by (simp add: registry_inv_def)
  then have "leases_with ?P r = of_bool (le_locked (lk_entries r ! ls_entry (lk_leases r ! t)))"
    using i unfolding registry_inv_def by blast
  moreover have "2 \<le> length (filter ?P (lk_leases r))"
    by (rule filter_two [OF t d]) (use p e in simp_all)
  ultimately show False by (cases "le_locked (lk_entries r ! ls_entry (lk_leases r ! t))") (simp_all add: leases_with_def)
qed

lemma registered_keys:
  assumes i: "registry_inv r"
  shows "dom (lk_locks r) = ls_key ` {l \<in> set (lk_leases r). ls_phase l \<noteq> Gone}"
proof
  show "ls_key ` {l \<in> set (lk_leases r). ls_phase l \<noteq> Gone} \<subseteq> dom (lk_locks r)"
    using i by (auto simp: registry_inv_def)
  show "dom (lk_locks r) \<subseteq> ls_key ` {l \<in> set (lk_leases r). ls_phase l \<noteq> Gone}"
  proof
    fix k assume "k \<in> dom (lk_locks r)"
    then obtain a where a: "lk_locks r k = Some a" by blast
    then have "a < length (lk_entries r)" "0 < le_references (lk_entries r ! a)"
      using i unfolding registry_inv_def by blast+
    then have "0 < leases_with (\<lambda>m. ls_entry m = a \<and> ls_phase m \<noteq> Gone) r"
      using i unfolding registry_inv_def by metis
    then obtain l where l: "l \<in> set (lk_leases r)" "ls_entry l = a" "ls_phase l \<noteq> Gone"
      by (auto simp: leases_with_def filter_empty_conv)
    then have "lk_locks r (ls_key l) = Some a" using i by (simp add: registry_inv_def)
    then have "ls_key l = k" using i a unfolding registry_inv_def by blast
    then show "k \<in> ls_key ` {l \<in> set (lk_leases r). ls_phase l \<noteq> Gone}" using l by blast
  qed
qed

lemma free_lease_acquires:
  assumes i: "registry_inv r" and t: "t < length (lk_leases r)" and p: "ls_phase (lk_leases r ! t) = Entered"
    and free: "\<And>l. l \<in> set (lk_leases r) \<Longrightarrow> ls_key l = ls_key (lk_leases r ! t) \<Longrightarrow> ls_phase l \<noteq> Acquired"
  shows "lease_acquire t r \<noteq> None"
proof -
  let ?a = "ls_entry (lk_leases r ! t)"
  have m: "lk_leases r ! t \<in> set (lk_leases r)" using t by simp
  have al: "?a < length (lk_entries r)" and reg: "lk_locks r (ls_key (lk_leases r ! t)) = Some ?a"
    using i m p by (simp_all add: registry_inv_def)
  have "ls_phase l \<noteq> Acquired" if "l \<in> set (lk_leases r)" "ls_entry l = ?a" for l
  proof
    assume q: "ls_phase l = Acquired"
    then have "lk_locks r (ls_key l) = Some ?a" using i that by (simp add: registry_inv_def)
    then have "ls_key l = ls_key (lk_leases r ! t)" using i reg unfolding registry_inv_def by blast
    then show False using free that(1) q by blast
  qed
  then have "leases_with (\<lambda>l. ls_entry l = ?a \<and> ls_phase l = Acquired) r = 0"
    by (auto simp: leases_with_def filter_empty_conv)
  then have "\<not> le_locked (lk_entries r ! ?a)" using i al by (simp add: registry_inv_def split: if_splits)
  then show ?thesis using p by (simp add: lease_acquire_def)
qed

text \<open>C17. The lock registry serves every session one lease at a time and keeps no entry too long: in
  every state that its steps can reach, at most one lease of a session has acquired, a waiting
  lease of a session that nobody has acquired can acquire, and the registered sessions are those
  with a lease that has not left.\<close>

theorem session_lease_exclusive:
  assumes "lease_step\<^sup>*\<^sup>* empty_registry r"
  shows "(\<forall>t u. t < length (lk_leases r) \<longrightarrow> u < length (lk_leases r) \<longrightarrow>
        ls_phase (lk_leases r ! t) = Acquired \<longrightarrow> ls_phase (lk_leases r ! u) = Acquired \<longrightarrow>
        ls_key (lk_leases r ! t) = ls_key (lk_leases r ! u) \<longrightarrow> t = u)
    \<and> (\<forall>t. t < length (lk_leases r) \<longrightarrow> ls_phase (lk_leases r ! t) = Entered \<longrightarrow>
        (\<forall>l \<in> set (lk_leases r). ls_key l = ls_key (lk_leases r ! t) \<longrightarrow> ls_phase l \<noteq> Acquired) \<longrightarrow>
        lease_acquire t r \<noteq> None)
    \<and> dom (lk_locks r) = ls_key ` {l \<in> set (lk_leases r). ls_phase l \<noteq> Gone}"
  using reachable_registry_inv [OF assms] acquired_once free_lease_acquires registered_keys by blast

theorem session_lease_exclusive_witness:
  "\<exists>r :: lock_registry. lk_leases r = [\<lparr>ls_key = lit ''a'', ls_entry = 0, ls_phase = Acquired\<rparr>,
      \<lparr>ls_key = lit ''a'', ls_entry = 0, ls_phase = Entered\<rparr>] \<and> dom (lk_locks r) = {lit ''a''}"
proof -
  let ?one = "lease_enter (lit ''a'') empty_registry"
  let ?two = "set_lease 0 Acquired True ?one"
  let ?three = "lease_enter (lit ''a'') ?two"
  have "lease_acquire 0 ?one = Some ?two" "0 < length (lk_leases ?one)"
    by (simp_all add: lease_acquire_def lease_enter_def empty_registry_def add_reference_def)
  then have "lease_step ?one ?two" by (metis lease_step.acquire)
  then have r: "lease_step\<^sup>*\<^sup>* empty_registry ?three"
    using lease_step.enter [of empty_registry] lease_step.enter [of ?two]
    by (meson rtranclp.rtrancl_into_rtrancl rtranclp.rtrancl_refl)
  have l: "lk_leases ?three = [\<lparr>ls_key = lit ''a'', ls_entry = 0, ls_phase = Acquired\<rparr>,
      \<lparr>ls_key = lit ''a'', ls_entry = 0, ls_phase = Entered\<rparr>]"
    by (simp add: lease_enter_def set_lease_def empty_registry_def add_reference_def Let_def)
  have d: "dom (lk_locks ?three) = ls_key ` {l \<in> set (lk_leases ?three). ls_phase l \<noteq> Gone}"
    using session_lease_exclusive [OF r] by blast
  have "{l \<in> set (lk_leases ?three). ls_phase l \<noteq> Gone} = set (lk_leases ?three)" unfolding l by auto
  then have k: "dom (lk_locks ?three) = {lit ''a''}" unfolding d by (simp add: l)
  show ?thesis by (rule exI [of _ ?three], rule conjI, rule l, rule k)
qed

end
