(* ===== verification/Research_Values.thy ===== *)
theory Research_Values
  imports Claim_Fields
begin

text \<open>
  \<open>src/framenest/domain/research.py\<close>: limits, enumerations, value objects with their
  \<open>__post_init__\<close> checks, completion evidence and usage cost.

  A value object is a record; its \<open>__post_init__\<close> is a function to \<open>research_exn + unit\<close>.  The
  \<open>isinstance\<close> tests of a field whose model type has no other values are not repeated.  A field
  tested with \<open>type(value) is int\<close> is handed to the test as a \<open>pyobj\<close>.
\<close>

section \<open>Limits\<close>

definition MICRO_USD_SCALE :: int where "MICRO_USD_SCALE = 1000000"
definition MAX_PROMPT_UTF8_BYTES :: int where "MAX_PROMPT_UTF8_BYTES = 16384"
definition MAX_PROVIDER_RESPONSE_BYTES :: int where "MAX_PROVIDER_RESPONSE_BYTES = 8388608"
definition MAX_ANSWER_UTF8_BYTES :: int where "MAX_ANSWER_UTF8_BYTES = 2097152"
definition MAX_CITATION_COUNT :: int where "MAX_CITATION_COUNT = 200"
definition MAX_CITATION_URL_BYTES :: int where "MAX_CITATION_URL_BYTES = 2048"
definition MAX_CITATION_TITLE_BYTES :: int where "MAX_CITATION_TITLE_BYTES = 300"
definition MAX_SEARCH_TOOL_CALLS :: int where "MAX_SEARCH_TOOL_CALLS = 3"
definition MAX_RESEARCH_TOOL_CALLS :: int where "MAX_RESEARCH_TOOL_CALLS = 20"
definition MAX_SEARCH_OUTPUT_TOKENS :: int where "MAX_SEARCH_OUTPUT_TOKENS = 4096"
definition MAX_RESEARCH_OUTPUT_TOKENS :: int where "MAX_RESEARCH_OUTPUT_TOKENS = 32768"
definition MAX_SEARCH_DEADLINE_SECONDS :: int where "MAX_SEARCH_DEADLINE_SECONDS = 180"
definition MAX_RESEARCH_DEADLINE_SECONDS :: int where "MAX_RESEARCH_DEADLINE_SECONDS = 1800"
definition MAX_SEARCH_RESERVATION_MICRO_USD :: int where "MAX_SEARCH_RESERVATION_MICRO_USD = 500000"
definition MAX_RESEARCH_RESERVATION_MICRO_USD :: int where "MAX_RESEARCH_RESERVATION_MICRO_USD = 5000000"
definition MAX_DAILY_BUDGET_MICRO_USD :: int where "MAX_DAILY_BUDGET_MICRO_USD = 10000000"
definition MAX_MONTHLY_BUDGET_MICRO_USD :: int where "MAX_MONTHLY_BUDGET_MICRO_USD = 30000000"

lemmas research_limits = MICRO_USD_SCALE_def MAX_PROMPT_UTF8_BYTES_def MAX_PROVIDER_RESPONSE_BYTES_def
  MAX_ANSWER_UTF8_BYTES_def MAX_CITATION_COUNT_def MAX_CITATION_URL_BYTES_def MAX_CITATION_TITLE_BYTES_def
  MAX_SEARCH_TOOL_CALLS_def MAX_RESEARCH_TOOL_CALLS_def MAX_SEARCH_OUTPUT_TOKENS_def
  MAX_RESEARCH_OUTPUT_TOKENS_def MAX_SEARCH_DEADLINE_SECONDS_def MAX_RESEARCH_DEADLINE_SECONDS_def
  MAX_SEARCH_RESERVATION_MICRO_USD_def MAX_RESEARCH_RESERVATION_MICRO_USD_def
  MAX_DAILY_BUDGET_MICRO_USD_def MAX_MONTHLY_BUDGET_MICRO_USD_def

definition WEB_SEARCH_TOOL :: pystr where "WEB_SEARCH_TOOL = lit ''web_search''"
definition ALLOWED_RESEARCH_TOOLS :: "pystr list" where "ALLOWED_RESEARCH_TOOLS = [WEB_SEARCH_TOOL]"
definition ALLOWED_REASONING_EFFORTS :: "pystr list" where
  "ALLOWED_REASONING_EFFORTS = [lit ''low'', lit ''high'']"
definition OPENAI_RESPONSES_PROVIDER_ID :: pystr where "OPENAI_RESPONSES_PROVIDER_ID = lit ''openai-responses''"
definition CHATGPT_PAGE_PROVIDER_ID :: pystr where "CHATGPT_PAGE_PROVIDER_ID = lit ''chatgpt-page''"
definition FIXED_OPENAI_RESPONSES_MODEL_ID :: pystr where
  "FIXED_OPENAI_RESPONSES_MODEL_ID = lit ''gpt-5.5-2026-04-23''"
definition RESEARCH_CONFIGURATION_VERSION :: pystr where "RESEARCH_CONFIGURATION_VERSION = lit ''3''"
definition UNSHIPPED_ADAPTER_VERSION :: pystr where "UNSHIPPED_ADAPTER_VERSION = lit ''0''"

section \<open>Enumerations\<close>

datatype research_kind = SEARCH | RESEARCH

fun research_kind_value :: "research_kind \<Rightarrow> pystr" where
  "research_kind_value SEARCH = lit ''search''"
| "research_kind_value RESEARCH = lit ''research''"

datatype research_state = R_ADMITTED | R_SUBMITTING | R_RUNNING | R_VALIDATING | R_SAVED | R_REFUSED
  | R_FAILED | R_INCOMPLETE | R_CANCEL_REQUESTED | R_CANCELLED | R_TIMEOUT | R_SUBMISSION_UNKNOWN

fun research_state_value :: "research_state \<Rightarrow> pystr" where
  "research_state_value R_ADMITTED = lit ''admitted''"
| "research_state_value R_SUBMITTING = lit ''submitting''"
| "research_state_value R_RUNNING = lit ''running''"
| "research_state_value R_VALIDATING = lit ''validating''"
| "research_state_value R_SAVED = lit ''saved''"
| "research_state_value R_REFUSED = lit ''refused''"
| "research_state_value R_FAILED = lit ''failed''"
| "research_state_value R_INCOMPLETE = lit ''incomplete''"
| "research_state_value R_CANCEL_REQUESTED = lit ''cancel_requested''"
| "research_state_value R_CANCELLED = lit ''cancelled''"
| "research_state_value R_TIMEOUT = lit ''timeout''"
| "research_state_value R_SUBMISSION_UNKNOWN = lit ''submission_unknown''"

definition research_states :: "research_state list" where
  "research_states = [R_ADMITTED, R_SUBMITTING, R_RUNNING, R_VALIDATING, R_SAVED, R_REFUSED, R_FAILED,
     R_INCOMPLETE, R_CANCEL_REQUESTED, R_CANCELLED, R_TIMEOUT, R_SUBMISSION_UNKNOWN]"

definition NONTERMINAL_RESEARCH_LIFECYCLE_STATES :: "research_state set" where
  "NONTERMINAL_RESEARCH_LIFECYCLE_STATES =
     {R_ADMITTED, R_SUBMITTING, R_RUNNING, R_VALIDATING, R_CANCEL_REQUESTED}"

definition TERMINAL_RESEARCH_LIFECYCLE_STATES :: "research_state set" where
  "TERMINAL_RESEARCH_LIFECYCLE_STATES =
     {R_SAVED, R_REFUSED, R_FAILED, R_INCOMPLETE, R_CANCELLED, R_TIMEOUT, R_SUBMISSION_UNKNOWN}"

datatype research_cleanup = RC_NOT_REQUIRED | RC_PENDING | RC_DELETED | RC_FAILED | RC_UNKNOWN

fun research_cleanup_value :: "research_cleanup \<Rightarrow> pystr" where
  "research_cleanup_value RC_NOT_REQUIRED = lit ''not_required''"
| "research_cleanup_value RC_PENDING = lit ''pending''"
| "research_cleanup_value RC_DELETED = lit ''deleted''"
| "research_cleanup_value RC_FAILED = lit ''failed''"
| "research_cleanup_value RC_UNKNOWN = lit ''unknown''"

datatype research_accounting = RA_RESERVED | RA_RECONCILED | RA_UNKNOWN

fun research_accounting_value :: "research_accounting \<Rightarrow> pystr" where
  "research_accounting_value RA_RESERVED = lit ''reserved''"
| "research_accounting_value RA_RECONCILED = lit ''reconciled''"
| "research_accounting_value RA_UNKNOWN = lit ''unknown''"

datatype provider_availability = PA_DISABLED | PA_PARKED | PA_UNCONFIGURED | PA_CONFIGURED
datatype execution_location = EL_PROVIDER_NATIVE | EL_PARKED
datatype retention_posture = STANDARD_REMOTE_DELETE | NOT_APPLICABLE
datatype submission_idempotency = NOT_GUARANTEED | GUARANTEED
datatype observation_kind = O_PENDING | O_RUNNING | O_COMPLETE | O_REFUSED | O_FAILED | O_CANCELLED | O_UNCERTAIN

datatype research_code = E_DISABLED | E_NOT_CONFIGURED | E_CAPABILITY_UNAVAILABLE | E_INVALID_REQUEST
  | E_BUSY | E_IDEMPOTENCY_CONFLICT | E_AUTH | E_RATE_LIMIT | E_PROVIDER_QUOTA | E_PROVIDER_UNAVAILABLE
  | E_REFUSED | E_INVALID_RESULT | E_INCOMPLETE_RESULT | E_RESULT_TOO_LARGE | E_NO_WEB_EVIDENCE
  | E_TIMEOUT | E_CANCELLED | E_SUBMISSION_UNKNOWN | E_RESULT_EXPIRED | E_ACCOUNTING_UNKNOWN
  | E_BUDGET_EXCEEDED | E_STORAGE

fun research_code_value :: "research_code \<Rightarrow> pystr" where
  "research_code_value E_DISABLED = lit ''E_DISABLED''"
| "research_code_value E_NOT_CONFIGURED = lit ''E_NOT_CONFIGURED''"
| "research_code_value E_CAPABILITY_UNAVAILABLE = lit ''E_CAPABILITY_UNAVAILABLE''"
| "research_code_value E_INVALID_REQUEST = lit ''E_INVALID_REQUEST''"
| "research_code_value E_BUSY = lit ''E_BUSY''"
| "research_code_value E_IDEMPOTENCY_CONFLICT = lit ''E_IDEMPOTENCY_CONFLICT''"
| "research_code_value E_AUTH = lit ''E_AUTH''"
| "research_code_value E_RATE_LIMIT = lit ''E_RATE_LIMIT''"
| "research_code_value E_PROVIDER_QUOTA = lit ''E_PROVIDER_QUOTA''"
| "research_code_value E_PROVIDER_UNAVAILABLE = lit ''E_PROVIDER_UNAVAILABLE''"
| "research_code_value E_REFUSED = lit ''E_REFUSED''"
| "research_code_value E_INVALID_RESULT = lit ''E_INVALID_RESULT''"
| "research_code_value E_INCOMPLETE_RESULT = lit ''E_INCOMPLETE_RESULT''"
| "research_code_value E_RESULT_TOO_LARGE = lit ''E_RESULT_TOO_LARGE''"
| "research_code_value E_NO_WEB_EVIDENCE = lit ''E_NO_WEB_EVIDENCE''"
| "research_code_value E_TIMEOUT = lit ''E_TIMEOUT''"
| "research_code_value E_CANCELLED = lit ''E_CANCELLED''"
| "research_code_value E_SUBMISSION_UNKNOWN = lit ''E_SUBMISSION_UNKNOWN''"
| "research_code_value E_RESULT_EXPIRED = lit ''E_RESULT_EXPIRED''"
| "research_code_value E_ACCOUNTING_UNKNOWN = lit ''E_ACCOUNTING_UNKNOWN''"
| "research_code_value E_BUDGET_EXCEEDED = lit ''E_BUDGET_EXCEEDED''"
| "research_code_value E_STORAGE = lit ''E_STORAGE''"

definition research_codes :: "research_code list" where
  "research_codes = [E_DISABLED, E_NOT_CONFIGURED, E_CAPABILITY_UNAVAILABLE, E_INVALID_REQUEST, E_BUSY,
     E_IDEMPOTENCY_CONFLICT, E_AUTH, E_RATE_LIMIT, E_PROVIDER_QUOTA, E_PROVIDER_UNAVAILABLE, E_REFUSED,
     E_INVALID_RESULT, E_INCOMPLETE_RESULT, E_RESULT_TOO_LARGE, E_NO_WEB_EVIDENCE, E_TIMEOUT, E_CANCELLED,
     E_SUBMISSION_UNKNOWN, E_RESULT_EXPIRED, E_ACCOUNTING_UNKNOWN, E_BUDGET_EXCEEDED, E_STORAGE]"

definition RESEARCH_ERROR_CODES :: "pystr set" where
  "RESEARCH_ERROR_CODES = research_code_value ` set research_codes"

definition is_terminal_lifecycle :: "research_state \<Rightarrow> bool" where
  "is_terminal_lifecycle state \<longleftrightarrow> state \<in> TERMINAL_RESEARCH_LIFECYCLE_STATES"

lemma is_terminal_simps [simp]:
  "\<not> is_terminal_lifecycle R_ADMITTED" "\<not> is_terminal_lifecycle R_SUBMITTING"
  "\<not> is_terminal_lifecycle R_RUNNING" "\<not> is_terminal_lifecycle R_VALIDATING"
  "\<not> is_terminal_lifecycle R_CANCEL_REQUESTED" "is_terminal_lifecycle R_SAVED"
  "is_terminal_lifecycle R_REFUSED" "is_terminal_lifecycle R_FAILED" "is_terminal_lifecycle R_INCOMPLETE"
  "is_terminal_lifecycle R_CANCELLED" "is_terminal_lifecycle R_TIMEOUT"
  "is_terminal_lifecycle R_SUBMISSION_UNKNOWN"
  by (simp_all add: is_terminal_lifecycle_def TERMINAL_RESEARCH_LIFECYCLE_STATES_def)

lemma terminal_partition:
  "state \<in> NONTERMINAL_RESEARCH_LIFECYCLE_STATES \<longleftrightarrow> \<not> is_terminal_lifecycle state"
  by (cases state) (simp_all add: NONTERMINAL_RESEARCH_LIFECYCLE_STATES_def)

section \<open>Exceptions and checks\<close>

text \<open>What the subsystem raises: its own errors, and those of the runtime it lets through.\<close>

datatype research_exn =
    ResearchValueError
  | UnicodeEncodeError
  | RecordValueError
  | RecordStorageIntegrityError
  | ValueError
  | KeyError
  | TypeError
  | AttributeError
  | IntegrityError
  | ResearchStoreError research_code

fun research_require_bool :: "pyobj \<Rightarrow> research_exn + bool" where
  "research_require_bool (PyBool b) = Inr b"
| "research_require_bool _ = Inl ResearchValueError"

definition require_non_negative_int :: "pyobj \<Rightarrow> research_exn + int" where
  "require_non_negative_int value =
     (case value of PyInt n \<Rightarrow> if n < 0 then Inl ResearchValueError else Inr n | _ \<Rightarrow> Inl ResearchValueError)"

definition require_positive_int :: "pyobj \<Rightarrow> int \<Rightarrow> research_exn + int" where
  "require_positive_int value maximum =
     (case value of
        PyInt n \<Rightarrow> if n < 1 \<or> n > maximum then Inl ResearchValueError else Inr n
      | _ \<Rightarrow> Inl ResearchValueError)"

text \<open>\<open>len(value.encode("utf-8"))\<close>: a lone surrogate cannot be encoded.\<close>

definition utf8_char_size :: "nat \<Rightarrow> int" where
  "utf8_char_size c = (if c < 128 then 1 else if c < 2048 then 2 else if c < 65536 then 3 else 4)"

definition encodable :: "pystr \<Rightarrow> bool" where
  "encodable s \<longleftrightarrow> list_all (\<lambda>c. \<not> (55296 \<le> c \<and> c \<le> 57343)) s"

definition utf8_size :: "pystr \<Rightarrow> int" where
  "utf8_size s = sum_list (map utf8_char_size s)"

definition utf8_length :: "pystr \<Rightarrow> research_exn + int" where
  "utf8_length s = (if encodable s then Inr (utf8_size s) else Inl UnicodeEncodeError)"

definition require_token :: "pyobj \<Rightarrow> nat \<Rightarrow> research_exn + pystr" where
  "require_token value maximum =
     (case value of
        PyStr s \<Rightarrow> if s = [] \<or> length s > maximum \<or> list_ex is_space s
                   then Inl ResearchValueError else Inr s
      | _ \<Rightarrow> Inl ResearchValueError)"

text \<open>A statement whose value is not used.\<close>

definition discard :: "'e + 'a \<Rightarrow> 'e + unit" where
  "discard m = (case m of Inl e \<Rightarrow> Inl e | Inr _ \<Rightarrow> Inr ())"

lemma discard_Inr [simp]: "discard m = Inr u \<longleftrightarrow> ok m"
  by (cases m) (simp_all add: discard_def)

lemma ok_all_checks [simp]:
  "ok (all_checks [])" "ok (all_checks (c # cs)) \<longleftrightarrow> c = Inr () \<and> ok (all_checks cs)"
  by (simp, cases c) (simp_all add: ok_def)

lemma ok_unit: "ok m \<longleftrightarrow> m = Inr ()"
  by (cases m) simp_all

lemma ok_require_int [simp]:
  "ok (require_non_negative_int (PyInt n)) \<longleftrightarrow> 0 \<le> n"
  "ok (require_positive_int (PyInt n) maximum) \<longleftrightarrow> 1 \<le> n \<and> n \<le> maximum"
  by (auto simp: require_non_negative_int_def require_positive_int_def)

lemma require_non_negative_int_eval [simp]:
  "0 \<le> n \<Longrightarrow> require_non_negative_int (PyInt n) = Inr n"
  by (simp add: require_non_negative_int_def)

lemma ok_require_token [simp]:
  "ok (require_token (PyStr s) maximum) \<longleftrightarrow> s \<noteq> [] \<and> length s \<le> maximum \<and> \<not> list_ex is_space s"
  by (auto simp: require_token_def)

lemma utf8_size_simps [simp]:
  "utf8_size [] = 0" "utf8_size (c # s) = utf8_char_size c + utf8_size s" "utf8_size (s @ t) = utf8_size s + utf8_size t"
  by (simp_all add: utf8_size_def)

lemma utf8_char_size_bounds: "1 \<le> utf8_char_size c" "utf8_char_size c \<le> 4"
  by (simp_all add: utf8_char_size_def)

lemma utf8_size_ge_length: "int (length s) \<le> utf8_size s"
  using utf8_char_size_bounds(1) by (induction s) (simp_all add: add_mono_thms_linordered_semiring(1))

section \<open>Provider descriptions and selected profiles\<close>

record provider_capabilities =
  cap_search :: bool
  cap_research :: bool
  cap_native_research :: bool
  cap_cancellation :: bool
  cap_remote_retrieval :: bool
  cap_remote_deletion :: bool

fun provider_supports :: "provider_capabilities \<Rightarrow> research_kind \<Rightarrow> bool" where
  "provider_supports c SEARCH = cap_search c"
| "provider_supports c RESEARCH = cap_research c"

record accounting_capabilities =
  reports_token_usage :: bool
  reports_cached_input_separately :: bool
  reports_web_tool_calls :: bool
  missing_usage_is_visible_failure :: bool

record provider_descriptor =
  pd_provider_id :: pystr
  pd_adapter_version :: pystr
  pd_configuration_version :: pystr
  pd_capabilities :: provider_capabilities
  pd_execution_location :: execution_location
  pd_retention_posture :: retention_posture
  pd_accounting :: accounting_capabilities
  pd_submission_idempotency :: submission_idempotency
  pd_availability :: provider_availability

definition provider_descriptor_post_init :: "provider_descriptor \<Rightarrow> research_exn + unit" where
  "provider_descriptor_post_init d = all_checks [
     discard (require_token (PyStr (pd_provider_id d)) 64),
     discard (require_token (PyStr (pd_adapter_version d)) 32),
     discard (require_token (PyStr (pd_configuration_version d)) 32)]"

record selected_profile =
  sp_provider_id :: pystr
  sp_model_id :: pystr
  sp_configuration_version :: pystr
  sp_reasoning_effort :: pystr
  sp_tool_allowlist :: "pystr list"
  sp_background :: bool
  sp_max_tool_calls :: int
  sp_max_output_tokens :: int
  sp_deadline_seconds :: int
  sp_budget_reservation_usd_micros :: int

definition selected_profile_post_init :: "selected_profile \<Rightarrow> research_exn + unit" where
  "selected_profile_post_init p = all_checks [
     discard (require_token (PyStr (sp_provider_id p)) 64),
     discard (require_token (PyStr (sp_model_id p)) 120),
     discard (require_token (PyStr (sp_configuration_version p)) 32),
     raise_if (sp_reasoning_effort p \<notin> set ALLOWED_REASONING_EFFORTS) ResearchValueError,
     raise_if (sp_tool_allowlist p = []) ResearchValueError,
     raise_if (list_ex (\<lambda>tool. tool \<notin> set ALLOWED_RESEARCH_TOOLS) (sp_tool_allowlist p)) ResearchValueError,
     discard (require_positive_int (PyInt (sp_max_tool_calls p)) MAX_RESEARCH_TOOL_CALLS),
     discard (require_positive_int (PyInt (sp_max_output_tokens p)) MAX_RESEARCH_OUTPUT_TOKENS),
     discard (require_positive_int (PyInt (sp_deadline_seconds p)) MAX_RESEARCH_DEADLINE_SECONDS),
     discard (require_positive_int (PyInt (sp_budget_reservation_usd_micros p))
       MAX_RESEARCH_RESERVATION_MICRO_USD)]"

record resource_limits =
  rl_max_tool_calls :: int
  rl_max_output_tokens :: int
  rl_budget_reservation_usd_micros :: int
  rl_prompt_max_utf8_bytes :: int
  rl_answer_max_utf8_bytes :: int
  rl_citation_count_max :: int

definition resource_limits_post_init :: "resource_limits \<Rightarrow> research_exn + unit" where
  "resource_limits_post_init l = all_checks [
     discard (require_positive_int (PyInt (rl_max_tool_calls l)) MAX_RESEARCH_TOOL_CALLS),
     discard (require_positive_int (PyInt (rl_max_output_tokens l)) MAX_RESEARCH_OUTPUT_TOKENS),
     discard (require_positive_int (PyInt (rl_budget_reservation_usd_micros l))
       MAX_RESEARCH_RESERVATION_MICRO_USD),
     discard (require_positive_int (PyInt (rl_prompt_max_utf8_bytes l)) MAX_PROMPT_UTF8_BYTES),
     discard (require_positive_int (PyInt (rl_answer_max_utf8_bytes l)) MAX_ANSWER_UTF8_BYTES),
     discard (require_positive_int (PyInt (rl_citation_count_max l)) MAX_CITATION_COUNT)]"

record provider_request =
  pr_operation_id :: pystr
  pr_kind :: research_kind
  pr_prompt :: pystr
  pr_profile :: selected_profile
  pr_deadline_seconds :: int
  pr_resource_limits :: resource_limits

definition provider_request_post_init :: "provider_request \<Rightarrow> research_exn + unit" where
  "provider_request_post_init r = all_checks [
     discard (require_token (PyStr (pr_operation_id r)) 128),
     raise_if (strip (pr_prompt r) = []) ResearchValueError,
     discard (require_positive_int (PyInt (pr_deadline_seconds r)) MAX_RESEARCH_DEADLINE_SECONDS),
     and_then (utf8_length (pr_prompt r)) (\<lambda>n.
       raise_if (n > rl_prompt_max_utf8_bytes (pr_resource_limits r)) ResearchValueError)]"

text \<open>A \<open>ProviderHandle\<close> is its text.\<close>

definition provider_handle_new :: "pystr \<Rightarrow> research_exn + pystr" where
  "provider_handle_new v = require_token (PyStr v) 256"

section \<open>Usage and prices\<close>

record research_usage =
  ru_input_tokens :: int
  ru_cached_input_tokens :: int
  ru_output_tokens :: int
  ru_reasoning_tokens :: int
  ru_web_tool_calls :: int
  ru_cache_write_input_tokens :: "int option"

definition research_usage_post_init :: "research_usage \<Rightarrow> research_exn + unit" where
  "research_usage_post_init u = all_checks [
     discard (require_non_negative_int (PyInt (ru_input_tokens u))),
     discard (require_non_negative_int (PyInt (ru_cached_input_tokens u))),
     discard (require_non_negative_int (PyInt (ru_output_tokens u))),
     discard (require_non_negative_int (PyInt (ru_reasoning_tokens u))),
     discard (require_non_negative_int (PyInt (ru_web_tool_calls u))),
     (case ru_cache_write_input_tokens u of None \<Rightarrow> Inr ()
      | Some w \<Rightarrow> discard (require_non_negative_int (PyInt w))),
     raise_if (ru_cached_input_tokens u > ru_input_tokens u) ResearchValueError,
     raise_if (ru_reasoning_tokens u > ru_output_tokens u) ResearchValueError,
     (case ru_cache_write_input_tokens u of None \<Rightarrow> Inr ()
      | Some w \<Rightarrow> raise_if (ru_cached_input_tokens u + w > ru_input_tokens u) ResearchValueError)]"

record token_prices =
  tp_input :: int
  tp_cached_input :: int
  tp_cache_write_input :: int
  tp_output :: int

definition token_prices_post_init :: "token_prices \<Rightarrow> research_exn + unit" where
  "token_prices_post_init t = all_checks [
     discard (require_non_negative_int (PyInt (tp_input t))),
     discard (require_non_negative_int (PyInt (tp_cached_input t))),
     discard (require_non_negative_int (PyInt (tp_cache_write_input t))),
     discard (require_non_negative_int (PyInt (tp_output t)))]"

record price_schedule =
  ps_input :: int
  ps_cached_input :: int
  ps_output :: int
  ps_web_search_per_thousand :: int
  ps_cache_write_input :: "int option"
  ps_long_context_threshold_tokens :: "int option"
  ps_long_context :: "token_prices option"

definition price_schedule_post_init :: "price_schedule \<Rightarrow> research_exn + unit" where
  "price_schedule_post_init s = all_checks [
     discard (require_non_negative_int (PyInt (ps_input s))),
     discard (require_non_negative_int (PyInt (ps_cached_input s))),
     discard (require_non_negative_int (PyInt (ps_output s))),
     discard (require_non_negative_int (PyInt (ps_web_search_per_thousand s))),
     (case ps_cache_write_input s of None \<Rightarrow> Inr ()
      | Some w \<Rightarrow> discard (require_non_negative_int (PyInt w))),
     (case ps_long_context_threshold_tokens s of None \<Rightarrow> Inr ()
      | Some t \<Rightarrow> discard (require_non_negative_int (PyInt t)))]"

section \<open>Answers and observations\<close>

record citation =
  ct_url :: pystr
  ct_title :: pystr

definition citation_post_init :: "citation \<Rightarrow> research_exn + unit" where
  "citation_post_init c = all_checks [
     raise_if (ct_url c = [] \<or> list_ex is_space (ct_url c)) ResearchValueError,
     and_then (utf8_length (ct_url c)) (\<lambda>n. raise_if (n > MAX_CITATION_URL_BYTES) ResearchValueError),
     and_then (utf8_length (ct_title c)) (\<lambda>n. raise_if (n > MAX_CITATION_TITLE_BYTES) ResearchValueError)]"

record completion_evidence =
  ce_provider_terminal :: bool
  ce_answer_complete :: bool
  ce_web_search_executed :: bool
  ce_refusal_marker :: bool
  ce_incomplete_marker :: bool

definition completion_error :: "completion_evidence \<Rightarrow> research_code option" where
  "completion_error e =
     (if ce_refusal_marker e then Some E_REFUSED
      else if ce_incomplete_marker e \<or> \<not> ce_answer_complete e \<or> \<not> ce_provider_terminal e
      then Some E_INCOMPLETE_RESULT
      else if \<not> ce_web_search_executed e then Some E_NO_WEB_EVIDENCE
      else None)"

record research_answer =
  an_text :: pystr
  an_citations :: "citation list"
  an_evidence :: completion_evidence
  an_usage :: "research_usage option"

definition research_answer_post_init :: "research_answer \<Rightarrow> research_exn + unit" where
  "research_answer_post_init a = all_checks [
     raise_if (an_text a = []) ResearchValueError,
     and_then (utf8_length (an_text a)) (\<lambda>n. raise_if (n > MAX_ANSWER_UTF8_BYTES) ResearchValueError),
     raise_if (int (length (an_citations a)) > MAX_CITATION_COUNT) ResearchValueError]"

record observation =
  ob_kind :: observation_kind
  ob_remote_handle :: "pystr option"
  ob_answer :: "research_answer option"
  ob_error_code :: "research_code option"

definition observation_post_init :: "observation \<Rightarrow> research_exn + unit" where
  "observation_post_init b =
     (if ob_kind b = O_COMPLETE
      then (case ob_answer b of
          None \<Rightarrow> Inl ResearchValueError
        | Some a \<Rightarrow>
            if ob_remote_handle b = None \<or> ob_error_code b \<noteq> None then Inl ResearchValueError
            else raise_if (completion_error (an_evidence a) \<noteq> None) ResearchValueError)
      else if ob_answer b \<noteq> None then Inl ResearchValueError
      else if ob_kind b \<in> {O_PENDING, O_RUNNING}
      then raise_if (ob_error_code b \<noteq> None) ResearchValueError
      else raise_if (ob_error_code b = None) ResearchValueError)"

record cleanup_outcome =
  co_state :: research_cleanup
  co_error_code :: "research_code option"

definition cleanup_outcome_post_init :: "cleanup_outcome \<Rightarrow> research_exn + unit" where
  "cleanup_outcome_post_init c = all_checks [
     raise_if (co_state c = RC_FAILED \<and> co_error_code c = None) ResearchValueError,
     raise_if (co_state c = RC_DELETED \<and> co_error_code c \<noteq> None) ResearchValueError]"

section \<open>Requests, reservations and completions\<close>

record research_request =
  rq_operation_id :: pystr
  rq_kind :: research_kind
  rq_prompt :: pystr
  rq_profile :: selected_profile
  rq_deadline_seconds :: int
  rq_resource_limits :: resource_limits
  rq_state :: research_state
  rq_cleanup_state :: research_cleanup
  rq_accounting_state :: research_accounting
  rq_remote_handle :: "pystr option"
  rq_error_code :: "research_code option"

definition research_request_post_init :: "research_request \<Rightarrow> research_exn + unit" where
  "research_request_post_init r = all_checks [
     discard (require_token (PyStr (rq_operation_id r)) 128),
     raise_if (strip (rq_prompt r) = []) ResearchValueError,
     discard (require_positive_int (PyInt (rq_deadline_seconds r)) MAX_RESEARCH_DEADLINE_SECONDS)]"

record budget_reservation =
  br_operation_id :: pystr
  br_kind :: research_kind
  br_reserved_usd_micros :: int
  br_daily_limit_usd_micros :: int
  br_monthly_limit_usd_micros :: int

definition budget_reservation_post_init :: "budget_reservation \<Rightarrow> research_exn + unit" where
  "budget_reservation_post_init b = all_checks [
     discard (require_token (PyStr (br_operation_id b)) 128),
     discard (require_positive_int (PyInt (br_reserved_usd_micros b)) MAX_RESEARCH_RESERVATION_MICRO_USD),
     discard (require_positive_int (PyInt (br_daily_limit_usd_micros b)) MAX_DAILY_BUDGET_MICRO_USD),
     discard (require_positive_int (PyInt (br_monthly_limit_usd_micros b)) MAX_MONTHLY_BUDGET_MICRO_USD),
     raise_if (br_daily_limit_usd_micros b > br_monthly_limit_usd_micros b) ResearchValueError]"

record budget_hold =
  bh_operation_id :: pystr
  bh_reserved_usd_micros :: int
  bh_state :: research_accounting

definition budget_hold_post_init :: "budget_hold \<Rightarrow> research_exn + unit" where
  "budget_hold_post_init h = all_checks [
     discard (require_token (PyStr (bh_operation_id h)) 128),
     discard (require_positive_int (PyInt (bh_reserved_usd_micros h)) MAX_RESEARCH_RESERVATION_MICRO_USD)]"

record budget_reconciliation =
  bc_operation_id :: pystr
  bc_usage :: "research_usage option"
  bc_calculated_cost_usd_micros :: "int option"
  bc_state :: research_accounting

definition budget_reconciliation_post_init :: "budget_reconciliation \<Rightarrow> research_exn + unit" where
  "budget_reconciliation_post_init b = all_checks [
     discard (require_token (PyStr (bc_operation_id b)) 128),
     (case bc_calculated_cost_usd_micros b of None \<Rightarrow> Inr ()
      | Some c \<Rightarrow> discard (require_non_negative_int (PyInt c))),
     raise_if (bc_state b = RA_RECONCILED
       \<and> (bc_usage b = None \<or> bc_calculated_cost_usd_micros b = None)) ResearchValueError,
     raise_if (bc_state b = RA_UNKNOWN \<and> bc_calculated_cost_usd_micros b \<noteq> None) ResearchValueError]"

record result_completion =
  rc_operation_id :: pystr
  rc_answer :: research_answer
  rc_remote_handle :: pystr

definition result_completion_post_init :: "result_completion \<Rightarrow> research_exn + unit" where
  "result_completion_post_init c = all_checks [
     discard (require_token (PyStr (rc_operation_id c)) 128),
     raise_if (completion_error (an_evidence (rc_answer c)) \<noteq> None) ResearchValueError]"

record completion_receipt =
  cr_operation_id :: pystr
  cr_state :: research_state

definition completion_receipt_post_init :: "completion_receipt \<Rightarrow> research_exn + unit" where
  "completion_receipt_post_init c = all_checks [
     discard (require_token (PyStr (cr_operation_id c)) 128),
     raise_if (cr_state c \<noteq> R_SAVED) ResearchValueError]"

section \<open>The cost of a usage report\<close>

definition ceiling_div :: "int \<Rightarrow> int \<Rightarrow> research_exn + int" where
  "ceiling_div numerator denominator =
     (if numerator < 0 \<or> denominator \<le> 0 then Inl ResearchValueError
      else if numerator = 0 then Inr 0
      else Inr ((numerator + denominator - 1) div denominator))"

definition token_cost_micro_usd :: "int \<Rightarrow> int \<Rightarrow> research_exn + int" where
  "token_cost_micro_usd token_count micro_usd_per_million =
     and_then (require_non_negative_int (PyInt token_count)) (\<lambda>_.
     and_then (require_non_negative_int (PyInt micro_usd_per_million)) (\<lambda>_.
     ceiling_div (token_count * micro_usd_per_million) MICRO_USD_SCALE))"

fun add_micro_usd_from :: "int \<Rightarrow> int list \<Rightarrow> research_exn + int" where
  "add_micro_usd_from acc [] = Inr acc"
| "add_micro_usd_from acc (amount # amounts) =
     and_then (require_non_negative_int (PyInt amount)) (\<lambda>n. add_micro_usd_from (acc + n) amounts)"

definition add_micro_usd :: "int list \<Rightarrow> research_exn + int" where
  "add_micro_usd amounts = add_micro_usd_from 0 amounts"

definition token_prices_new :: "int \<Rightarrow> int \<Rightarrow> int \<Rightarrow> int \<Rightarrow> research_exn + token_prices" where
  "token_prices_new input cached write output =
     (let t = \<lparr>tp_input = input, tp_cached_input = cached, tp_cache_write_input = write, tp_output = output\<rparr>
      in and_then (token_prices_post_init t) (\<lambda>_. Inr t))"

definition select_token_prices :: "price_schedule \<Rightarrow> int \<Rightarrow> research_exn + token_prices option" where
  "select_token_prices schedule input_tokens =
     and_then (require_non_negative_int (PyInt input_tokens)) (\<lambda>_.
     (case ps_long_context_threshold_tokens schedule of
        Some threshold \<Rightarrow>
          if input_tokens > threshold then Inr (ps_long_context schedule)
          else and_then (token_prices_new (ps_input schedule) (ps_cached_input schedule)
            (case ps_cache_write_input schedule of None \<Rightarrow> ps_input schedule | Some w \<Rightarrow> w)
            (ps_output schedule)) (\<lambda>t. Inr (Some t))
      | None \<Rightarrow> and_then (token_prices_new (ps_input schedule) (ps_cached_input schedule)
            (case ps_cache_write_input schedule of None \<Rightarrow> ps_input schedule | Some w \<Rightarrow> w)
            (ps_output schedule)) (\<lambda>t. Inr (Some t))))"

definition usage_cost_micro_usd :: "research_usage \<Rightarrow> price_schedule \<Rightarrow> research_exn + int" where
  "usage_cost_micro_usd usage schedule =
     and_then (select_token_prices schedule (ru_input_tokens usage)) (\<lambda>selected.
     (case selected of
        None \<Rightarrow> Inl ResearchValueError
      | Some prices \<Rightarrow>
          and_then
            (case ru_cache_write_input_tokens usage of
               None \<Rightarrow> if tp_cache_write_input prices \<noteq> tp_input prices then Inl ResearchValueError else Inr 0
             | Some w \<Rightarrow> Inr w) (\<lambda>write_tokens.
          if ru_cached_input_tokens usage + write_tokens > ru_input_tokens usage then Inl ResearchValueError
          else
          and_then (ceiling_div (ru_web_tool_calls usage * ps_web_search_per_thousand schedule) 1000) (\<lambda>tool_cost.
          and_then (token_cost_micro_usd (ru_input_tokens usage - ru_cached_input_tokens usage - write_tokens)
            (tp_input prices)) (\<lambda>uncached_cost.
          and_then (token_cost_micro_usd (ru_cached_input_tokens usage) (tp_cached_input prices)) (\<lambda>cached_cost.
          and_then (token_cost_micro_usd write_tokens (tp_cache_write_input prices)) (\<lambda>write_cost.
          and_then (token_cost_micro_usd (ru_output_tokens usage) (tp_output prices)) (\<lambda>output_cost.
          add_micro_usd [uncached_cost, cached_cost, write_cost, output_cost, tool_cost]))))))))"

definition usage_cost_micro_usd_or_none :: "research_usage option \<Rightarrow> price_schedule option \<Rightarrow> int option" where
  "usage_cost_micro_usd_or_none usage schedule =
     (case (usage, schedule) of
        (Some u, Some s) \<Rightarrow> (case usage_cost_micro_usd u s of Inr cost \<Rightarrow> Some cost | Inl _ \<Rightarrow> None)
      | _ \<Rightarrow> None)"

section \<open>Costs are never understated\<close>

definition usage_valid :: "research_usage \<Rightarrow> bool" where
  "usage_valid u \<longleftrightarrow> ok (research_usage_post_init u)"

definition schedule_valid :: "price_schedule \<Rightarrow> bool" where
  "schedule_valid s \<longleftrightarrow> ok (price_schedule_post_init s)
     \<and> (case ps_long_context s of None \<Rightarrow> True | Some t \<Rightarrow> ok (token_prices_post_init t))"

text \<open>The prices of the tier the usage falls into; \<open>None\<close> when the schedule has no such tier.\<close>

definition tier_prices :: "price_schedule \<Rightarrow> int \<Rightarrow> token_prices option" where
  "tier_prices s n =
     (if (case ps_long_context_threshold_tokens s of None \<Rightarrow> False | Some t \<Rightarrow> t < n) then ps_long_context s
      else Some \<lparr>tp_input = ps_input s, tp_cached_input = ps_cached_input s,
        tp_cache_write_input = (case ps_cache_write_input s of None \<Rightarrow> ps_input s | Some w \<Rightarrow> w),
        tp_output = ps_output s\<rparr>)"

definition write_tokens_of :: "research_usage \<Rightarrow> int" where
  "write_tokens_of u = (case ru_cache_write_input_tokens u of None \<Rightarrow> 0 | Some w \<Rightarrow> w)"

text \<open>The exact cost in millionths of a micro-dollar.\<close>

definition exact_cost :: "research_usage \<Rightarrow> price_schedule \<Rightarrow> token_prices \<Rightarrow> int" where
  "exact_cost u s t =
     (ru_input_tokens u - ru_cached_input_tokens u - write_tokens_of u) * tp_input t
     + ru_cached_input_tokens u * tp_cached_input t
     + write_tokens_of u * tp_cache_write_input t
     + ru_output_tokens u * tp_output t
     + 1000 * (ru_web_tool_calls u * ps_web_search_per_thousand s)"

text \<open>Whether the report determines the cost: the tier is priced, and the number of cache-write
  tokens is known or costs the same as other input.\<close>

definition cost_known :: "research_usage \<Rightarrow> price_schedule \<Rightarrow> bool" where
  "cost_known u s \<longleftrightarrow> (case tier_prices s (ru_input_tokens u) of None \<Rightarrow> False
     | Some t \<Rightarrow> ru_cache_write_input_tokens u \<noteq> None \<or> tp_cache_write_input t = tp_input t)"

lemma ceiling_div_eq:
  assumes "0 \<le> n" and "0 < d"
  shows "\<exists>c. ceiling_div n d = Inr c \<and> 0 \<le> c \<and> n \<le> d * c \<and> d * c < n + d"
proof -
  have e: "d * ((n + d - 1) div d) + (n + d - 1) mod d = n + d - 1" by (rule mult_div_mod_eq)
  have m: "0 \<le> (n + d - 1) mod d" "(n + d - 1) mod d < d" using assms(2) by simp_all
  have p: "0 \<le> (n + d - 1) div d" using assms by (intro pos_imp_zdiv_nonneg_iff [THEN iffD2]) simp_all
  have "n \<le> d * ((n + d - 1) div d)" "d * ((n + d - 1) div d) < n + d" using e m by linarith+
  then show ?thesis using assms p by (cases "n = 0") (simp_all add: ceiling_div_def)
qed

lemma token_cost_eq:
  assumes "0 \<le> n" and "0 \<le> p"
  shows "\<exists>c. token_cost_micro_usd n p = Inr c \<and> 0 \<le> c \<and> n * p \<le> 1000000 * c \<and> 1000000 * c < n * p + 1000000"
  using ceiling_div_eq [of "n * p" 1000000] assms by (simp add: token_cost_micro_usd_def MICRO_USD_SCALE_def)

lemma add_micro_usd_nonneg:
  "list_all (\<lambda>n. 0 \<le> n) ns \<Longrightarrow> add_micro_usd_from acc ns = Inr (acc + sum_list ns)"
  by (induction ns arbitrary: acc) (simp_all add: algebra_simps)

lemma usage_validD:
  assumes "usage_valid u"
  shows "0 \<le> ru_input_tokens u" "0 \<le> ru_cached_input_tokens u" "0 \<le> ru_output_tokens u"
    "0 \<le> ru_web_tool_calls u" "0 \<le> write_tokens_of u"
    "ru_cached_input_tokens u + write_tokens_of u \<le> ru_input_tokens u"
  using assms
  by (auto simp: usage_valid_def research_usage_post_init_def write_tokens_of_def split: option.splits)

lemma schedule_validD:
  assumes "schedule_valid s" and "tier_prices s n = Some t"
  shows "0 \<le> tp_input t" "0 \<le> tp_cached_input t" "0 \<le> tp_cache_write_input t" "0 \<le> tp_output t"
    "0 \<le> ps_web_search_per_thousand s"
  using assms
  by (auto simp: schedule_valid_def price_schedule_post_init_def token_prices_post_init_def tier_prices_def
      split: option.splits if_splits)

lemma select_tier:
  assumes "schedule_valid s" and "0 \<le> n"
  shows "select_token_prices s n = Inr (tier_prices s n)"
proof -
  have "token_prices_new (ps_input s) (ps_cached_input s)
      (case ps_cache_write_input s of None \<Rightarrow> ps_input s | Some w \<Rightarrow> w) (ps_output s)
    = Inr \<lparr>tp_input = ps_input s, tp_cached_input = ps_cached_input s,
        tp_cache_write_input = (case ps_cache_write_input s of None \<Rightarrow> ps_input s | Some w \<Rightarrow> w),
        tp_output = ps_output s\<rparr>"
    using assms(1)
    by (auto simp: schedule_valid_def price_schedule_post_init_def token_prices_new_def Let_def
        and_then_Inr ok_unit [symmetric] token_prices_post_init_def split: option.splits)
  then show ?thesis using assms(2) by (auto simp: select_token_prices_def tier_prices_def split: option.splits)
qed

lemma usage_cost_unknown:
  assumes "usage_valid u" and "schedule_valid s" and "\<not> cost_known u s"
  shows "usage_cost_micro_usd u s = Inl ResearchValueError"
  using assms(3) usage_validD(1) [OF assms(1)]
  by (auto simp: usage_cost_micro_usd_def select_tier [OF assms(2)] cost_known_def split: option.splits)

lemma usage_cost_bounds:
  assumes u: "usage_valid u" and s: "schedule_valid s" and t: "tier_prices s (ru_input_tokens u) = Some t"
    and k: "cost_known u s"
  shows "\<exists>c. usage_cost_micro_usd u s = Inr c \<and> exact_cost u s t \<le> 1000000 * c
    \<and> 1000000 * c < exact_cost u s t + 5000000"
proof -
  note uv = usage_validD [OF u]
  note sv = schedule_validD [OF s t]
  let ?w = "write_tokens_of u"
  let ?n = "ru_input_tokens u - ru_cached_input_tokens u - ?w"
  have n: "0 \<le> ?n" using uv(6) by simp
  obtain a where a: "token_cost_micro_usd ?n (tp_input t) = Inr a" "0 \<le> a" "?n * tp_input t \<le> 1000000 * a"
      "1000000 * a < ?n * tp_input t + 1000000" using token_cost_eq [OF n sv(1)] by blast
  obtain b where b: "token_cost_micro_usd (ru_cached_input_tokens u) (tp_cached_input t) = Inr b" "0 \<le> b"
      "ru_cached_input_tokens u * tp_cached_input t \<le> 1000000 * b"
      "1000000 * b < ru_cached_input_tokens u * tp_cached_input t + 1000000"
    using token_cost_eq [OF uv(2) sv(2)] by blast
  obtain c where c: "token_cost_micro_usd ?w (tp_cache_write_input t) = Inr c" "0 \<le> c"
      "?w * tp_cache_write_input t \<le> 1000000 * c" "1000000 * c < ?w * tp_cache_write_input t + 1000000"
    using token_cost_eq [OF uv(5) sv(3)] by blast
  obtain d where d: "token_cost_micro_usd (ru_output_tokens u) (tp_output t) = Inr d" "0 \<le> d"
      "ru_output_tokens u * tp_output t \<le> 1000000 * d"
      "1000000 * d < ru_output_tokens u * tp_output t + 1000000"
    using token_cost_eq [OF uv(3) sv(4)] by blast
  let ?q = "ru_web_tool_calls u * ps_web_search_per_thousand s"
  have "0 \<le> ?q" using uv(4) sv(5) by simp
  then obtain e where e: "ceiling_div ?q 1000 = Inr e" "0 \<le> e" "?q \<le> 1000 * e" "1000 * e < ?q + 1000"
    using ceiling_div_eq [of ?q 1000] by auto
  have w: "(case ru_cache_write_input_tokens u of
      None \<Rightarrow> if tp_cache_write_input t \<noteq> tp_input t then Inl ResearchValueError else Inr 0
    | Some w \<Rightarrow> Inr w) = Inr ?w"
    using k by (auto simp: cost_known_def t write_tokens_of_def split: option.splits)
  have "usage_cost_micro_usd u s = Inr (a + b + c + d + e)"
    unfolding usage_cost_micro_usd_def select_tier [OF s uv(1)] t and_then_simps option.case w
    using uv(6) by (simp add: a(1,2) b(1,2) c(1,2) d(1,2) e(1,2) add_micro_usd_def add_micro_usd_nonneg)
  then show ?thesis using a(3,4) b(3,4) c(3,4) d(3,4) e(3,4) unfolding exact_cost_def by auto
qed

end
