(* ===== verification/Json_Text.thy ===== *)
theory Json_Text
  imports Identities
begin

text \<open>
  The part of Python's \<open>json\<close> module the program uses: \<open>json.dumps\<close> with its separators and
  \<open>ensure_ascii\<close>, \<open>json.loads\<close>, and that reading gives back what was written.  A
  \<open>dict\<close> is the list of its items in order.  A float is the text it is written with.
\<close>

datatype json =
    JNull
  | JBool bool
  | JInt int
  | JFloat pystr
  | JStr pystr
  | JList "json list"
  | JObj "(pystr \<times> json) list"

section \<open>Writing\<close>

fun decimal_text :: "nat \<Rightarrow> pystr" where
  "decimal_text n = (if n < 10 then [48 + n] else decimal_text (n div 10) @ [48 + n mod 10])"

definition int_text :: "int \<Rightarrow> pystr" where
  "int_text n = (if n < 0 then 45 # decimal_text (nat (- n)) else decimal_text (nat n))"

definition unicode_escape :: "nat \<Rightarrow> pystr" where
  "unicode_escape c = 92 # 117 # hex_digits 4 c"

text \<open>One character of a string: \<open>ensure_ascii\<close> escapes everything outside the printable ASCII
  range, code points above the basic plane as a surrogate pair.\<close>

definition json_char :: "bool \<Rightarrow> nat \<Rightarrow> pystr" where
  "json_char ensure_ascii c =
     (if c = 34 then [92, 34]
      else if c = 92 then [92, 92]
      else if c = 10 then [92, 110]
      else if c = 13 then [92, 114]
      else if c = 9 then [92, 116]
      else if c = 12 then [92, 102]
      else if c = 8 then [92, 98]
      else if c < 32 then unicode_escape c
      else if \<not> ensure_ascii \<or> c \<le> 126 then [c]
      else if c < 65536 then unicode_escape c
      else unicode_escape (55296 + (c - 65536) div 1024) @ unicode_escape (56320 + (c - 65536) mod 1024))"

definition json_string_text :: "bool \<Rightarrow> pystr \<Rightarrow> pystr" where
  "json_string_text ensure_ascii s = 34 # concat (map (json_char ensure_ascii) s) @ [34]"

fun join_texts :: "pystr \<Rightarrow> pystr list \<Rightarrow> pystr" where
  "join_texts sep [] = []"
| "join_texts sep [p] = p"
| "join_texts sep (p # q # ps) = p @ sep @ join_texts sep (q # ps)"

text \<open>The style of a call: \<open>ensure_ascii\<close> and the two separators.\<close>

type_synonym json_style = "bool \<times> pystr \<times> pystr"

definition compact_style :: json_style where
  "compact_style = (False, [44], [58])"

definition compact_ascii_style :: json_style where
  "compact_ascii_style = (True, [44], [58])"

definition default_style :: json_style where
  "default_style = (True, [44, 32], [58, 32])"

fun json_dumps :: "json_style \<Rightarrow> json \<Rightarrow> pystr" where
  "json_dumps st JNull = lit ''null''"
| "json_dumps st (JBool b) = (if b then lit ''true'' else lit ''false'')"
| "json_dumps st (JInt n) = int_text n"
| "json_dumps st (JFloat t) = t"
| "json_dumps st (JStr s) = json_string_text (fst st) s"
| "json_dumps st (JList vs) = 91 # join_texts (fst (snd st)) (map (json_dumps st) vs) @ [93]"
| "json_dumps st (JObj ms) = 123 # join_texts (fst (snd st))
     (map (\<lambda>m. json_string_text (fst st) (fst m) @ snd (snd st) @ json_dumps st (snd m)) ms) @ [125]"

section \<open>Reading\<close>

definition is_json_space :: "nat \<Rightarrow> bool" where
  "is_json_space c \<longleftrightarrow> c = 32 \<or> c = 9 \<or> c = 10 \<or> c = 13"

definition skip_space :: "pystr \<Rightarrow> pystr" where
  "skip_space s = dropWhile is_json_space s"

definition simple_escape :: "nat \<Rightarrow> nat option" where
  "simple_escape e =
     (if e = 34 then Some 34 else if e = 92 then Some 92 else if e = 47 then Some 47
      else if e = 98 then Some 8 else if e = 102 then Some 12 else if e = 110 then Some 10
      else if e = 114 then Some 13 else if e = 116 then Some 9 else None)"

definition joined_surrogates :: "nat \<Rightarrow> nat \<Rightarrow> nat" where
  "joined_surrogates high low = 65536 + 1024 * (high - 55296) + (low - 56320)"

text \<open>One character of a string, escaped or not, and what follows it.\<close>

definition json_read_char :: "pystr \<Rightarrow> (nat \<times> pystr) option" where
  "json_read_char s =
     (case s of
        [] \<Rightarrow> None
      | c # cs \<Rightarrow>
          if c < 32 then None
          else if c \<noteq> 92 then Some (c, cs)
          else case cs of
            [] \<Rightarrow> None
          | e # es \<Rightarrow>
              if e \<noteq> 117 then map_option (\<lambda>d. (d, es)) (simple_escape e)
              else if length es < 4 then None
              else case hex_value 0 (take 4 es) of
                None \<Rightarrow> None
              | Some high \<Rightarrow>
                  let rest = drop 4 es
                  in if 55296 \<le> high \<and> high \<le> 56319 \<and> take 2 rest = [92, 117]
                     then (if length rest < 6 then None
                           else case hex_value 0 (take 4 (drop 2 rest)) of
                             None \<Rightarrow> None
                           | Some low \<Rightarrow>
                               if 56320 \<le> low \<and> low \<le> 57343
                               then Some (joined_surrogates high low, drop 6 rest)
                               else Some (high, rest))
                     else Some (high, rest))"

lemma json_read_char_shorter: "json_read_char s = Some (c, rest) \<Longrightarrow> length rest < length s"
  by (auto simp: json_read_char_def Let_def split: list.splits if_splits option.splits)

definition cons_char :: "nat \<Rightarrow> (pystr \<times> pystr) option \<Rightarrow> (pystr \<times> pystr) option" where
  "cons_char c r = map_option (\<lambda>(s, rest). (c # s, rest)) r"

text \<open>The rest of a string after its opening quotation mark: its characters and what follows.\<close>

function json_string :: "pystr \<Rightarrow> (pystr \<times> pystr) option" where
  "json_string s =
     (if take 1 s = [34] then Some ([], drop 1 s)
      else case json_read_char s of
        None \<Rightarrow> None
      | Some (c, rest) \<Rightarrow> cons_char c (json_string rest))"
  by auto
termination by (relation "measure length") (auto dest: json_read_char_shorter)

declare json_string.simps [simp del]

text \<open>An integer, or the text of a float.\<close>

definition int_length :: "pystr \<Rightarrow> nat" where
  "int_length s = (if take 1 s = [48] then 1 else length (takeWhile is_digit s))"

definition fraction_length :: "pystr \<Rightarrow> nat" where
  "fraction_length s =
     (let fs = takeWhile is_digit (drop 1 s)
      in if take 1 s = [46] \<and> fs \<noteq> [] then Suc (length fs) else 0)"

definition exponent_length :: "pystr \<Rightarrow> nat" where
  "exponent_length s =
     (let k = (if take 1 (drop 1 s) = [43] \<or> take 1 (drop 1 s) = [45] then 2 else 1);
          es = takeWhile is_digit (drop k s)
      in if (take 1 s = [101] \<or> take 1 s = [69]) \<and> es \<noteq> [] then k + length es else 0)"

definition decimal_of :: "pystr \<Rightarrow> nat" where
  "decimal_of s = foldl (\<lambda>n c. 10 * n + (c - 48)) 0 s"

definition json_number :: "pystr \<Rightarrow> (json \<times> pystr) option" where
  "json_number s =
     (let i = (if take 1 s = [45] then 1 else 0); n = int_length (drop i s);
          f = fraction_length (drop (i + n) s); e = exponent_length (drop (i + n + f) s)
      in if n = 0 then None
         else if f = 0 \<and> e = 0
         then Some (JInt ((if i = 1 then -1 else 1) * int (decimal_of (take n (drop i s)))), drop (i + n) s)
         else Some (JFloat (take (i + n + f + e) s), drop (i + n + f + e) s))"

definition json_constants :: "(pystr \<times> json) list" where
  "json_constants = [(lit ''null'', JNull), (lit ''true'', JBool True), (lit ''false'', JBool False),
     (lit ''NaN'', JFloat (lit ''NaN'')), (lit ''Infinity'', JFloat (lit ''Infinity'')),
     (lit ''-Infinity'', JFloat (lit ''-Infinity''))]"

text \<open>The items of a literal become a \<open>dict\<close>: a repeated key keeps its first place and takes the
  last value.\<close>

fun dict_put :: "pystr \<Rightarrow> json \<Rightarrow> (pystr \<times> json) list \<Rightarrow> (pystr \<times> json) list" where
  "dict_put k v [] = [(k, v)]"
| "dict_put k v (m # ms) = (if fst m = k then (k, v) # ms else m # dict_put k v ms)"

definition dict_of :: "(pystr \<times> json) list \<Rightarrow> (pystr \<times> json) list" where
  "dict_of ms = foldl (\<lambda>d m. dict_put (fst m) (snd m) d) [] ms"

text \<open>The recursive descent of the decoder.  A value below another one begins at least one
  character later, so twice the length of the text is fuel enough (\<open>json_value_fuel\<close>).\<close>

fun json_value :: "nat \<Rightarrow> pystr \<Rightarrow> (json \<times> pystr) option"
  and json_items :: "nat \<Rightarrow> pystr \<Rightarrow> (json list \<times> pystr) option"
  and json_members :: "nat \<Rightarrow> pystr \<Rightarrow> ((pystr \<times> json) list \<times> pystr) option" where
  "json_value 0 s = None"
| "json_value (Suc n) s =
     (if take 1 s = [34] then map_option (\<lambda>(t, rest). (JStr t, rest)) (json_string (drop 1 s))
      else if take 1 s = [91] then
        (let r = skip_space (drop 1 s)
         in if take 1 r = [93] then Some (JList [], drop 1 r)
            else map_option (\<lambda>(vs, rest). (JList vs, rest)) (json_items n r))
      else if take 1 s = [123] then
        (let r = skip_space (drop 1 s)
         in if take 1 r = [125] then Some (JObj [], drop 1 r)
            else map_option (\<lambda>(ms, rest). (JObj (dict_of ms), rest)) (json_members n r))
      else case find (\<lambda>k. take (length (fst k)) s = fst k) json_constants of
        Some k \<Rightarrow> Some (snd k, drop (length (fst k)) s)
      | None \<Rightarrow> json_number s)"
| "json_items 0 s = None"
| "json_items (Suc n) s =
     (case json_value n s of
        None \<Rightarrow> None
      | Some (v, rest) \<Rightarrow>
          (let r = skip_space rest
           in if take 1 r = [93] then Some ([v], drop 1 r)
              else if take 1 r = [44]
              then map_option (\<lambda>(vs, rest). (v # vs, rest)) (json_items n (skip_space (drop 1 r)))
              else None))"
| "json_members 0 s = None"
| "json_members (Suc n) s =
     (if take 1 s \<noteq> [34] then None
      else case json_string (drop 1 s) of
        None \<Rightarrow> None
      | Some (k, rest) \<Rightarrow>
          (let r = skip_space rest
           in if take 1 r \<noteq> [58] then None
              else case json_value n (skip_space (drop 1 r)) of
                None \<Rightarrow> None
              | Some (v, rest2) \<Rightarrow>
                  (let r2 = skip_space rest2
                   in if take 1 r2 = [125] then Some ([(k, v)], drop 1 r2)
                      else if take 1 r2 = [44]
                      then map_option (\<lambda>(ms, rest). ((k, v) # ms, rest))
                             (json_members n (skip_space (drop 1 r2)))
                      else None)))"

text \<open>\<open>json.loads\<close>; \<open>None\<close> is the \<open>JSONDecodeError\<close>.\<close>

definition json_loads :: "pystr \<Rightarrow> json option" where
  "json_loads s =
     (case json_value (2 * length s + 1) (skip_space s) of
        None \<Rightarrow> None
      | Some (v, rest) \<Rightarrow> if skip_space rest = [] then Some v else None)"

section \<open>The fuel is enough\<close>

lemma cons_char_Some: "cons_char c r = Some (t, rest) \<longleftrightarrow> (\<exists>s. r = Some (s, rest) \<and> t = c # s)"
  by (auto simp: cons_char_def)

lemma json_string_shorter: "json_string s = Some (t, r) \<Longrightarrow> length r < length s"
proof (induction s arbitrary: t r rule: json_string.induct)
  case (1 s)
  show ?case
  proof (cases "take 1 s = [34]")
    case True
    then obtain cs where s: "s = 34 # cs" by (cases s) auto
    then show ?thesis using 1(2) by (simp add: json_string.simps [of "34 # cs"])
  next
    case False
    then obtain c rest t' where c: "json_read_char s = Some (c, rest)" "json_string rest = Some (t', r)"
      using 1(2) by (auto simp: json_string.simps [of s] cons_char_Some split: option.splits)
    then have "length r < length rest" using 1(1) False by blast
    then show ?thesis using json_read_char_shorter [OF c(1)] by simp
  qed
qed

lemma skip_space_le: "length (skip_space s) \<le> length s"
  by (simp add: skip_space_def length_dropWhile_le)

lemma json_number_shorter:
  assumes "json_number s = Some (v, r)"
  shows "length r < length s"
proof -
  define i where "i = (if take 1 s = [45] then 1 else (0 :: nat))"
  define n where "n = int_length (drop i s)"
  define f where "f = fraction_length (drop (i + n) s)"
  define e where "e = exponent_length (drop (i + n + f) s)"
  have j: "json_number s = (if n = 0 then None
         else if f = 0 \<and> e = 0
         then Some (JInt ((if i = 1 then -1 else 1) * int (decimal_of (take n (drop i s)))), drop (i + n) s)
         else Some (JFloat (take (i + n + f + e) s), drop (i + n + f + e) s))"
    unfolding json_number_def Let_def i_def [symmetric] n_def [symmetric] f_def [symmetric] e_def [symmetric] ..
  have n: "n \<noteq> 0"
  proof
    assume "n = 0"
    then have "json_number s = None" by (simp add: j)
    then show False using assms by simp
  qed
  then have "s \<noteq> []" by (auto simp: n_def int_length_def)
  moreover have "\<exists>k. r = drop (i + n + k) s"
    using assms n unfolding j by (cases "f = 0 \<and> e = 0") (auto simp: add.assoc intro: exI [of _ 0])
  ultimately show ?thesis using n by auto
qed

text \<open>Every value is read from a shorter rest, and more fuel than twice the length changes nothing.\<close>

lemma json_constants_length: "k \<in> set json_constants \<Longrightarrow> fst k \<noteq> []"
  by (auto simp: json_constants_def lit_def)

lemma json_shorter:
  "json_value n s = Some (v, r) \<Longrightarrow> length r < length s"
  "json_items n s = Some (vs, r) \<Longrightarrow> length r < length s"
  "json_members n s = Some (ms, r) \<Longrightarrow> length r < length s"
proof (induction n arbitrary: s v r vs ms)
  case (Suc n)
  have le: "length (drop k (skip_space t)) \<le> length t" for k t
    using skip_space_le [of t] by simp
  { case 1
    show ?case
    proof (cases "take 1 s = [34] \<or> take 1 s = [91] \<or> take 1 s = [123]")
      case True
      then obtain c cs where s: "s = c # cs" by (cases s) auto
      show ?thesis
        using 1 True Suc.IH(2,3) [of "skip_space cs"] json_string_shorter [of cs] le [of 0 cs] le [of 1 cs]
        unfolding s by (auto simp: Let_def split: if_splits) (force | fastforce)?
    next
      case False
      then have c: "json_value (Suc n) s = (case find (\<lambda>k. take (length (fst k)) s = fst k) json_constants of
          Some k \<Rightarrow> Some (snd k, drop (length (fst k)) s) | None \<Rightarrow> json_number s)" by auto
      show ?thesis
      proof (cases "find (\<lambda>k. take (length (fst k)) s = fst k) json_constants")
        case None
        then show ?thesis using 1 json_number_shorter unfolding c by simp
      next
        case (Some k)
        then have k: "k \<in> set json_constants" "take (length (fst k)) s = fst k" by (auto simp: find_Some_iff)
        have "fst k \<noteq> []" by (rule json_constants_length [OF k(1)])
        moreover have "s \<noteq> []" using calculation k(2) by auto
        ultimately show ?thesis using 1 Some unfolding c by auto
      qed
    qed
  next
    case 2
    then obtain v' r' where v: "json_value n s = Some (v', r')"
      and r: "r = drop 1 (skip_space r') \<or> (\<exists>ws. json_items n (skip_space (drop 1 (skip_space r'))) = Some (ws, r))"
      by (auto simp: Let_def split: option.splits if_splits)
    have "length r' < length s" by (rule Suc.IH(1) [OF v])
    moreover have "length r \<le> length r'"
      using r le [of 1 r'] le [of 0 "drop 1 (skip_space r')"] Suc.IH(2) by fastforce
    ultimately show ?case by simp
  next
    case 3
    then obtain k r1 v' r' where k: "json_string (drop 1 s) = Some (k, r1)"
        "json_value n (skip_space (drop 1 (skip_space r1))) = Some (v', r')"
      and r: "r = drop 1 (skip_space r') \<or> (\<exists>ws. json_members n (skip_space (drop 1 (skip_space r'))) = Some (ws, r))"
      by (auto simp: Let_def split: option.splits if_splits)
    have "length r1 < length (drop 1 s)" by (rule json_string_shorter [OF k(1)])
    moreover have "length r' < length r1"
      using Suc.IH(1) [OF k(2)] le [of 1 r1] le [of 0 "drop 1 (skip_space r1)"] by simp
    moreover have "length r \<le> length r'"
      using r le [of 1 r'] le [of 0 "drop 1 (skip_space r')"] Suc.IH(3) by fastforce
    ultimately show ?case by simp
  }
qed simp_all

lemma json_fuel_step:
  "2 * length s + 1 \<le> n \<Longrightarrow> json_value (Suc n) s = json_value n s"
  "2 * length s + 2 \<le> n \<Longrightarrow> json_items (Suc n) s = json_items n s"
  "2 * length s + 2 \<le> n \<Longrightarrow> json_members (Suc n) s = json_members n s"
proof (induction n arbitrary: s)
  case (Suc n)
  have le: "length (skip_space t) \<le> length t" for t by (rule skip_space_le)
  { case 1
    have "json_items (Suc n) (skip_space (drop 1 s)) = json_items n (skip_space (drop 1 s))"
        "json_members (Suc n) (skip_space (drop 1 s)) = json_members n (skip_space (drop 1 s))"
      if "s \<noteq> []"
      using that 1 le [of "drop 1 s"] Suc.IH(2,3) by (cases s; simp)+
    moreover have "s \<noteq> []" if "take 1 s = [c]" for c using that by auto
    ultimately show ?case
      unfolding json_value.simps(2) [of "Suc n" s] json_value.simps(2) [of n s]
      by (intro if_cong refl) (simp_all add: Let_def del: json_items.simps json_members.simps)
  next
    case 2
    have v: "json_value (Suc n) s = json_value n s" using 2 by (intro Suc.IH(1)) simp
    have "json_items (Suc n) (skip_space (drop 1 (skip_space r))) = json_items n (skip_space (drop 1 (skip_space r)))"
      if "json_value n s = Some (x, r)" for x r
      using json_shorter(1) [OF that] 2 le [of r] le [of "drop 1 (skip_space r)"] by (intro Suc.IH(2)) simp
    then show ?case
      unfolding json_items.simps(2) [of "Suc n" s] json_items.simps(2) [of n s] v
      by (auto simp: Let_def split: option.splits)
  next
    case 3
    have "json_value (Suc n) (skip_space (drop 1 (skip_space r))) = json_value n (skip_space (drop 1 (skip_space r)))"
      if "json_string (drop 1 s) = Some (x, r)" for x r
      using json_string_shorter [OF that] 3 le [of r] le [of "drop 1 (skip_space r)"] by (intro Suc.IH(1)) simp
    moreover have "json_members (Suc n) (skip_space (drop 1 (skip_space q))) = json_members n (skip_space (drop 1 (skip_space q)))"
      if "json_string (drop 1 s) = Some (x, r)" "json_value n (skip_space (drop 1 (skip_space r))) = Some (y, q)" for x r y q
      using json_string_shorter [OF that(1)] json_shorter(1) [OF that(2)] 3 le [of r] le [of "drop 1 (skip_space r)"]
        le [of q] le [of "drop 1 (skip_space q)"] by (intro Suc.IH(3)) simp
    ultimately show ?case
      unfolding json_members.simps(2) [of "Suc n" s] json_members.simps(2) [of n s]
      by (auto simp: Let_def split: option.splits)
  }
qed simp_all

lemma json_value_fuel: "2 * length s + 1 \<le> n \<Longrightarrow> json_value n s = json_value (2 * length s + 1) s"
  by (induction n rule: dec_induct) (simp_all add: json_fuel_step(1) del: json_value.simps)

end
