(* ===== verification/Json_Roundtrip.thy ===== *)
theory Json_Roundtrip
  imports Json_Text
begin

text \<open>
  Reading gives back what was written: \<open>json.loads (json.dumps v) = v\<close> for every value without floats,
  with distinct keys, in each of the styles the program writes.
\<close>

section \<open>Reading what was written\<close>

definition text_ok :: "bool \<Rightarrow> pystr \<Rightarrow> bool" where
  "text_ok ascii s \<longleftrightarrow> list_all (\<lambda>c. c < 1114112 \<and> (ascii \<longrightarrow> \<not> (55296 \<le> c \<and> c \<le> 57343))) s"

text \<open>Values without floats whose objects have distinct keys and whose text the style can carry
  (\<open>ensure_ascii\<close> cannot tell a surrogate pair from the character it stands for).\<close>

fun json_ok :: "bool \<Rightarrow> json \<Rightarrow> bool" where
  "json_ok ascii (JFloat t) = False"
| "json_ok ascii (JStr s) = text_ok ascii s"
| "json_ok ascii (JList vs) = list_all (json_ok ascii) vs"
| "json_ok ascii (JObj ms) = (distinct (map fst ms)
     \<and> list_all (\<lambda>m. text_ok ascii (fst m) \<and> json_ok ascii (snd m)) ms)"
| "json_ok ascii _ = True"

definition style_ok :: "json_style \<Rightarrow> bool" where
  "style_ok st \<longleftrightarrow> take 1 (fst (snd st)) = [44] \<and> list_all is_json_space (drop 1 (fst (snd st)))
     \<and> take 1 (snd (snd st)) = [58] \<and> list_all is_json_space (drop 1 (snd (snd st)))"

lemma style_ok_styles [simp]: "style_ok compact_style" "style_ok compact_ascii_style" "style_ok default_style"
  by (simp_all add: style_ok_def compact_style_def compact_ascii_style_def default_style_def is_json_space_def)

lemma hex4: "c < 65536 \<Longrightarrow> hex_value 0 (hex_digits 4 c) = Some c"
  by (rule hex_value_hex_digits) simp

lemma length_hex4: "length (hex_digits 4 c) = 4"
  by (rule length_hex_digits)

lemma read_plain: "32 \<le> c \<Longrightarrow> c \<noteq> 92 \<Longrightarrow> json_read_char (c # cs) = Some (c, cs)"
  by (simp add: json_read_char_def)

lemma read_simple: "e \<noteq> 117 \<Longrightarrow> json_read_char (92 # e # es) = map_option (\<lambda>d. (d, es)) (simple_escape e)"
  by (simp add: json_read_char_def)

lemma read_hex:
  assumes "c < 65536"
  shows "json_read_char (unicode_escape c @ rest) =
    (if 55296 \<le> c \<and> c \<le> 56319 \<and> take 2 rest = [92, 117]
     then (if length rest < 6 then None
           else case hex_value 0 (take 4 (drop 2 rest)) of
             None \<Rightarrow> None
           | Some low \<Rightarrow>
               if 56320 \<le> low \<and> low \<le> 57343
               then Some (joined_surrogates c low, drop 6 rest)
               else Some (c, rest))
     else Some (c, rest))"
proof -
  define es where "es = hex_digits 4 c @ rest"
  have e: "length es < 4 \<longleftrightarrow> False" "take 4 es = hex_digits 4 c" "drop 4 es = rest"
    by (simp_all add: es_def length_hex4)
  have u: "unicode_escape c @ rest = 92 # 117 # es" by (simp add: unicode_escape_def es_def)
  have n: "(92 :: nat) < 32 \<longleftrightarrow> False" "(92 :: nat) \<noteq> 92 \<longleftrightarrow> False" "(117 :: nat) \<noteq> 117 \<longleftrightarrow> False"
    by simp_all
  show ?thesis
    unfolding u by (simp only: json_read_char_def list.case e n if_False hex4 [OF assms] option.case Let_def)
qed

lemma read_escape:
  assumes "c < 65536" and "\<not> (55296 \<le> c \<and> c \<le> 56319)"
  shows "json_read_char (unicode_escape c @ rest) = Some (c, rest)"
proof -
  have "(55296 \<le> c \<and> c \<le> 56319 \<and> take 2 rest = [92, 117]) \<longleftrightarrow> False" using assms(2) by blast
  then show ?thesis by (simp only: read_hex [OF assms(1)] if_False)
qed

lemma surrogate_split:
  assumes "65536 \<le> c" and "c < 1114112"
  shows "(c - 65536) div 1024 < 1024" and "joined_surrogates (55296 + (c - 65536) div 1024) (56320 + (c - 65536) mod 1024) = c"
proof -
  show "(c - 65536) div 1024 < 1024" using assms by (intro less_mult_imp_div_less) simp
  have "1024 * ((c - 65536) div 1024) + (c - 65536) mod 1024 = c - 65536" by (rule mult_div_mod_eq)
  then show "joined_surrogates (55296 + (c - 65536) div 1024) (56320 + (c - 65536) mod 1024) = c"
    using assms(1) by (simp add: joined_surrogates_def)
qed

lemma read_pair:
  assumes "65536 \<le> c" and "c < 1114112"
  shows "json_read_char ((unicode_escape (55296 + (c - 65536) div 1024)
    @ unicode_escape (56320 + (c - 65536) mod 1024)) @ rest) = Some (c, rest)"
proof -
  define h where "h = 55296 + (c - 65536) div 1024"
  define l where "l = 56320 + (c - 65536) mod 1024"
  note b = surrogate_split [OF assms]
  have "(c - 65536) mod 1024 < 1024" by (rule mod_less_divisor) simp
  then have r: "55296 \<le> h" "h \<le> 56319" "56320 \<le> l" "l \<le> 57343" "h < 65536" "l < 65536"
    using b(1) unfolding h_def l_def by linarith+
  define es where "es = hex_digits 4 l @ rest"
  have e: "take 4 es = hex_digits 4 l" "drop 4 es = rest" "4 \<le> length es"
    by (simp_all add: es_def length_hex4)
  have u: "unicode_escape l @ rest = 92 # 117 # es" by (simp add: unicode_escape_def es_def)
  have d: "take 2 (92 # 117 # es) = [92, 117]" "drop 2 (92 # 117 # es) = es" "drop 6 (92 # 117 # es) = drop 4 es"
      "length (92 # 117 # es) < 6 \<longleftrightarrow> False"
    using e(3) by simp_all
  have c: "(55296 \<le> h \<and> h \<le> 56319 \<and> [92, 117] = [92, 117 :: nat]) \<longleftrightarrow> True"
      "(56320 \<le> l \<and> l \<le> 57343) \<longleftrightarrow> True"
    using r by simp_all
  have "json_read_char ((unicode_escape h @ unicode_escape l) @ rest) = Some (joined_surrogates h l, rest)"
    by (simp only: append_assoc u read_hex [OF r(5)] d e c if_True if_False hex4 [OF r(6)] option.case)
  then show ?thesis unfolding h_def l_def b(2) .
qed

lemma json_char_cases:
  obtains e where "c \<in> {34, 92, 10, 13, 9, 12, 8}" "json_char ascii c = [92, e]" "e \<noteq> 117" "simple_escape e = Some c"
  | "c \<notin> {34, 92}" "32 \<le> c" "json_char ascii c = [c]"
  | "c < 32 \<or> ascii \<and> c < 65536" "json_char ascii c = unicode_escape c"
  | "65536 \<le> c" "json_char ascii c
      = unicode_escape (55296 + (c - 65536) div 1024) @ unicode_escape (56320 + (c - 65536) mod 1024)"
proof (cases "c \<in> {34, 92, 10, 13, 9, 12, 8}")
  case True
  then have "\<exists>e. json_char ascii c = [92, e] \<and> e \<noteq> 117 \<and> simple_escape e = Some c"
    by (elim insertE emptyE) (simp_all add: json_char_def simple_escape_def)
  then show ?thesis using that(1) True by blast
next
  case False
  then have "json_char ascii c = (if c < 32 then unicode_escape c
      else if \<not> ascii \<or> c \<le> 126 then [c]
      else if c < 65536 then unicode_escape c
      else unicode_escape (55296 + (c - 65536) div 1024) @ unicode_escape (56320 + (c - 65536) mod 1024))"
    by (simp only: json_char_def insert_iff empty_iff de_Morgan_disj if_False simp_thms)
  then show ?thesis
    using that(2-4) False by (auto split: if_splits simp: not_less)
qed

lemma read_char:
  assumes "c < 1114112" and "ascii \<longrightarrow> \<not> (55296 \<le> c \<and> c \<le> 57343)"
  shows "json_read_char (json_char ascii c @ rest) = Some (c, rest)"
proof (rule json_char_cases [of c ascii])
  fix e assume "json_char ascii c = [92, e]" "e \<noteq> 117" "simple_escape e = Some c"
  then show ?thesis by (simp add: read_simple)
next
  assume "c \<notin> {34, 92}" "32 \<le> c" "json_char ascii c = [c]"
  then show ?thesis by (simp add: read_plain)
next
  assume a: "c < 32 \<or> ascii \<and> c < 65536" and j: "json_char ascii c = unicode_escape c"
  have "c < 65536" "\<not> (55296 \<le> c \<and> c \<le> 56319)" using a assms(2) by auto
  then show ?thesis unfolding j by (rule read_escape)
next
  assume "65536 \<le> c" and j: "json_char ascii c
      = unicode_escape (55296 + (c - 65536) div 1024) @ unicode_escape (56320 + (c - 65536) mod 1024)"
  then show ?thesis unfolding j by (intro read_pair assms(1))
qed

lemma json_char_no_quote: "take 1 (json_char ascii c @ rest) \<noteq> [34]"
  by (rule json_char_cases [of c ascii]) (simp_all add: unicode_escape_def)

lemma read_string:
  assumes "text_ok ascii s"
  shows "json_string (concat (map (json_char ascii) s) @ 34 # rest) = Some (s, rest)"
  using assms
proof (induction s)
  case Nil
  then show ?case by (simp add: json_string.simps [of "34 # rest"])
next
  case (Cons c s)
  then have c: "c < 1114112" "ascii \<longrightarrow> \<not> (55296 \<le> c \<and> c \<le> 57343)" "text_ok ascii s" by (simp_all add: text_ok_def)
  let ?r = "concat (map (json_char ascii) s) @ 34 # rest"
  have "json_string (json_char ascii c @ ?r) = cons_char c (json_string ?r)"
    using read_char [OF c(1,2), of ?r] json_char_no_quote [of ascii c ?r] by (simp add: json_string.simps [of "json_char ascii c @ ?r"])
  then show ?case using Cons.IH [OF c(3)] by (simp add: cons_char_def)
qed

section \<open>Numbers\<close>

text \<open>What may follow a value: nothing, or a character that cannot continue a number.\<close>

definition value_end :: "pystr \<Rightarrow> bool" where
  "value_end rest \<longleftrightarrow> rest = [] \<or> hd rest \<in> {44, 93, 125}"

declare decimal_text.simps [simp del]

lemma decimal_text_digits: "list_all is_digit (decimal_text n)"
proof (induction n rule: decimal_text.induct)
  case (1 n)
  have "n mod 10 \<le> 9" using mod_less_divisor [of 10 n] by linarith
  then show ?case using 1 by (simp add: decimal_text.simps [of n] is_digit_def)
qed

lemma decimal_text_nonempty: "decimal_text n \<noteq> []"
  by (simp add: decimal_text.simps [of n])

lemma decimal_text_zero: "decimal_text 0 = [48]"
  by (simp add: decimal_text.simps [of 0])

lemma take_one_append: "xs \<noteq> [] \<Longrightarrow> take (Suc 0) (xs @ ys) = take (Suc 0) xs"
  by (cases xs) auto

lemma decimal_text_leading: "0 < n \<Longrightarrow> take 1 (decimal_text n) \<noteq> [48]"
proof (induction n rule: decimal_text.induct)
  case (1 n)
  then show ?case
    by (cases "n < 10")
      (simp_all add: decimal_text.simps [of n] take_one_append decimal_text_nonempty del: take_append)
qed

lemma decimal_of_text: "decimal_of (decimal_text n) = n"
proof (induction n rule: decimal_text.induct)
  case (1 n)
  then show ?case by (simp add: decimal_text.simps [of n] decimal_of_def)
qed

lemma takeWhile_digits:
  assumes "list_all is_digit ds" and "value_end rest"
  shows "takeWhile is_digit (ds @ rest) = ds"
proof -
  have "takeWhile is_digit rest = []"
    using assms(2) by (cases rest) (auto simp: value_end_def is_digit_def)
  then show ?thesis using assms(1) by (simp add: takeWhile_append2 list_all_iff)
qed

lemma int_length_decimal:
  assumes "value_end rest"
  shows "int_length (decimal_text n @ rest) = length (decimal_text n)"
proof (cases "n = 0")
  case True
  then show ?thesis by (simp add: decimal_text_zero int_length_def)
next
  case False
  then show ?thesis
    using decimal_text_leading [of n] takeWhile_digits [OF decimal_text_digits assms, of n]
    by (simp add: int_length_def take_one_append decimal_text_nonempty del: take_append)
qed

lemma value_end_no_fraction:
  assumes "value_end rest"
  shows "fraction_length rest = 0" and "exponent_length rest = 0"
  using assms by (cases rest; auto simp: value_end_def fraction_length_def exponent_length_def Let_def)+

lemma read_int:
  assumes "value_end rest"
  shows "json_number (int_text n @ rest) = Some (JInt n, rest)"
proof -
  define d where "d = decimal_text (nat \<bar>n\<bar>)"
  define i where "i = (if n < 0 then 1 else (0 :: nat))"
  have t: "int_text n = (if n < 0 then 45 # d else d)" by (auto simp: int_text_def d_def)
  have d: "d \<noteq> []" "take 1 d \<noteq> [45]" "decimal_of d = nat \<bar>n\<bar>"
    using decimal_text_nonempty [of "nat \<bar>n\<bar>"] decimal_text_digits [of "nat \<bar>n\<bar>"] decimal_of_text [of "nat \<bar>n\<bar>"]
    unfolding d_def [symmetric] by (cases d; simp add: is_digit_def)+
  have s: "(if take 1 (int_text n @ rest) = [45] then 1 else 0) = i"
      "drop i (int_text n @ rest) = d @ rest"
      "drop (i + length d) (int_text n @ rest) = rest"
    using d(1,2) by (auto simp: t i_def take_one_append simp del: take_append)
  have l: "int_length (d @ rest) = length d" unfolding d_def by (rule int_length_decimal [OF assms])
  have g: "(if i = 1 then -1 else 1) * int (decimal_of (take (length d) (d @ rest))) = n"
    using d(3) by (simp add: i_def)
  have e: "i + length d + 0 = i + length d" by simp
  show ?thesis
    unfolding json_number_def Let_def s l value_end_no_fraction [OF assms] e g using d(1) by simp
qed

lemma int_text_start:
  obtains c cs where "int_text n = c # cs" "c = 45 \<or> is_digit c" "c = 45 \<longrightarrow> (\<exists>x xs. cs = x # xs \<and> is_digit x)"
proof -
  have "\<exists>x xs. decimal_text m = x # xs \<and> is_digit x" for m
    using decimal_text_nonempty [of m] decimal_text_digits [of m] by (cases "decimal_text m") auto
  then show ?thesis using that by (fastforce simp: int_text_def is_digit_def split: if_splits)
qed

section \<open>Values\<close>

definition solid :: "pystr \<Rightarrow> bool" where
  "solid s \<longleftrightarrow> s \<noteq> [] \<and> \<not> is_json_space (hd s)"

lemma skip_space_solid: "solid s \<Longrightarrow> skip_space s = s"
  by (cases s) (auto simp: solid_def skip_space_def)

lemma skip_space_pad: "list_all is_json_space w \<Longrightarrow> solid s \<Longrightarrow> skip_space (w @ s) = s"
  using skip_space_solid [of s] by (simp add: skip_space_def dropWhile_append2 list_all_iff)

lemma solid_append: "solid s \<Longrightarrow> solid (s @ t)"
  by (cases s) (auto simp: solid_def)

lemma solid_char: "c \<in> {34, 44, 58, 91, 93, 123, 125} \<Longrightarrow> solid (c # s)"
  by (auto simp: solid_def is_json_space_def)

lemma solid_dumps:
  assumes "json_ok a v"
  shows "solid (json_dumps st v)"
proof (cases v)
  case (JInt n)
  then show ?thesis
    by (cases rule: int_text_start [of n]) (auto simp: solid_def is_json_space_def is_digit_def)
qed (use assms in \<open>simp_all add: solid_def is_json_space_def lit_def json_string_text_def\<close>)

lemma dumps_start:
  assumes "json_ok a v"
  shows "take (Suc 0) (json_dumps st v @ t) \<noteq> [93]"
proof (cases v)
  case (JInt n)
  then show ?thesis by (cases rule: int_text_start [of n]) (auto simp: is_digit_def)
qed (use assms in \<open>simp_all add: lit_def json_string_text_def\<close>)

lemma items_start:
  assumes "json_ok a w"
  shows "solid (join_texts sep (map (json_dumps st) (w # ws)) @ t)"
    and "take (Suc 0) (join_texts sep (map (json_dumps st) (w # ws)) @ t) \<noteq> [93]"
proof -
  obtain u where u: "join_texts sep (map (json_dumps st) (w # ws)) = json_dumps st w @ u" by (cases ws) auto
  show "solid (join_texts sep (map (json_dumps st) (w # ws)) @ t)"
    unfolding u append_assoc by (rule solid_append [OF solid_dumps [OF assms]])
  show "take (Suc 0) (join_texts sep (map (json_dumps st) (w # ws)) @ t) \<noteq> [93]"
    unfolding u append_assoc by (rule dumps_start [OF assms])
qed

lemma value_end_char: "c \<in> {44, 93, 125} \<Longrightarrow> value_end (c # s)"
  by (simp add: value_end_def)

lemma style_parts:
  assumes "style_ok st"
  obtains sw kw where "fst (snd st) = 44 # sw" "snd (snd st) = 58 # kw"
    "list_all is_json_space sw" "list_all is_json_space kw"
  using assms by (cases "fst (snd st)"; cases "snd (snd st)") (auto simp: style_ok_def)

text \<open>The text of a value is read as that value, with any fuel that covers it.\<close>

definition reads :: "json_style \<Rightarrow> json \<Rightarrow> bool" where
  "reads st v \<longleftrightarrow> (\<forall>n rest. value_end rest \<longrightarrow> 2 * length (json_dumps st v @ rest) + 1 \<le> n
     \<longrightarrow> json_value n (json_dumps st v @ rest) = Some (v, rest))"

lemma readsD:
  "reads st v \<Longrightarrow> value_end rest \<Longrightarrow> 2 * length (json_dumps st v @ rest) + 1 \<le> n
    \<Longrightarrow> json_value n (json_dumps st v @ rest) = Some (v, rest)"
  unfolding reads_def by blast

lemma readsI:
  assumes "\<And>n rest. value_end rest \<Longrightarrow> 2 * length (json_dumps st v @ rest) \<le> n
    \<Longrightarrow> json_value (Suc n) (json_dumps st v @ rest) = Some (v, rest)"
  shows "reads st v"
  unfolding reads_def
proof (intro allI impI)
  fix n rest
  assume "value_end rest" "2 * length (json_dumps st v @ rest) + 1 \<le> n"
  then show "json_value n (json_dumps st v @ rest) = Some (v, rest)"
    using assms [of rest "n - 1"] by (cases n) (simp_all del: json_value.simps)
qed

lemma read_items:
  assumes "vs \<noteq> []" and "style_ok st" and "list_all (reads st) vs" and "list_all (json_ok a) vs"
  shows "2 * length (join_texts (fst (snd st)) (map (json_dumps st) vs) @ 93 # rest) + 2 \<le> n
    \<Longrightarrow> json_items n (join_texts (fst (snd st)) (map (json_dumps st) vs) @ 93 # rest) = Some (vs, rest)"
  using assms
proof (induction vs arbitrary: n rule: induct_list012)
  case (2 v)
  then obtain m where n: "n = Suc m" by (cases n) auto
  have "json_value m (json_dumps st v @ 93 # rest) = Some (v, 93 # rest)"
    using 2 unfolding n by (intro readsD value_end_char) simp_all
  then show ?case by (simp add: n skip_space_solid solid_char)
next
  case (3 v w vs)
  then obtain m where n: "n = Suc m" by (cases n) auto
  obtain sw kw where st: "fst (snd st) = 44 # sw" "list_all is_json_space sw"
    using style_parts [OF "3.prems"(3)] by blast
  let ?t = "join_texts (fst (snd st)) (map (json_dumps st) (w # vs)) @ 93 # rest"
  have e: "join_texts (fst (snd st)) (map (json_dumps st) (v # w # vs)) @ 93 # rest
      = json_dumps st v @ 44 # sw @ ?t" by (simp add: st(1))
  have "json_value m (json_dumps st v @ 44 # sw @ ?t) = Some (v, 44 # sw @ ?t)"
    using "3.prems"(1,4) unfolding n e by (intro readsD value_end_char) (simp_all add: st(1))
  moreover have "json_items m ?t = Some (w # vs, rest)"
    using "3.prems" unfolding n e by (intro "3.IH"(2)) (simp_all add: st(1))
  moreover have "solid ?t"
    using solid_dumps [of a w st] "3.prems"(5) by (cases vs) (simp_all add: solid_append)
  ultimately show ?case
    unfolding e n by (simp add: skip_space_solid solid_char skip_space_pad st(2) del: join_texts.simps)
qed simp

abbreviation member_text :: "json_style \<Rightarrow> pystr \<times> json \<Rightarrow> pystr" where
  "member_text st m \<equiv> json_string_text (fst st) (fst m) @ snd (snd st) @ json_dumps st (snd m)"

text \<open>One member, up to what is read behind its value.\<close>

lemma read_member:
  assumes st: "style_ok st" and k: "text_ok (fst st) k" and v: "json_ok a v" "reads st v"
    and stop: "value_end (c # rest)" "c \<in> {44, 125}"
    and n: "2 * length (json_dumps st v @ c # rest) + 1 \<le> n"
  shows "json_members (Suc n) (member_text st (k, v) @ c # rest) =
    (if c = 125 then Some ([(k, v)], rest)
     else map_option (\<lambda>(ms, rest). ((k, v) # ms, rest)) (json_members n (skip_space rest)))"
proof -
  obtain sw kw where kw: "snd (snd st) = 58 # kw" "list_all is_json_space kw"
    using style_parts [OF st] by blast
  let ?r = "json_dumps st v @ c # rest"
  have s: "json_string (concat (map (json_char (fst st)) k) @ 34 # 58 # kw @ ?r) = Some (k, 58 # kw @ ?r)"
    by (rule read_string [OF k])
  have "solid ?r" by (rule solid_append [OF solid_dumps [OF v(1)]])
  then have j: "skip_space (kw @ ?r) = ?r" "skip_space (58 # kw @ ?r) = 58 # kw @ ?r" "skip_space (c # rest) = c # rest"
    using stop(2) by (auto intro: skip_space_solid skip_space_pad solid_char kw(2))
  have "json_value n ?r = Some (v, c # rest)" by (rule readsD [OF v(2) stop(1) n])
  then show ?thesis using s stop(2) by (auto simp: json_string_text_def kw(1) j)
qed

lemma read_members:
  assumes "ms \<noteq> []" and "style_ok st"
    and "list_all (\<lambda>m. text_ok (fst st) (fst m) \<and> json_ok a (snd m) \<and> reads st (snd m)) ms"
  shows "2 * length (join_texts (fst (snd st)) (map (member_text st) ms) @ 125 # rest) + 2 \<le> n
    \<Longrightarrow> json_members n (join_texts (fst (snd st)) (map (member_text st) ms) @ 125 # rest) = Some (ms, rest)"
  using assms
proof (induction ms arbitrary: n rule: induct_list012)
  case (2 m)
  then obtain i where n: "n = Suc i" by (cases n) auto
  obtain k v where m: "m = (k, v)" by (cases m)
  have "json_members (Suc i) (member_text st (k, v) @ 125 # rest) = Some ([(k, v)], rest)"
    using 2 unfolding n m
    by (subst read_member [of st k a v]) (simp_all add: value_end_char)
  then show ?case by (simp add: n m)
next
  case (3 m m' ms)
  then obtain i where n: "n = Suc i" by (cases n) auto
  obtain k v where m: "m = (k, v)" by (cases m)
  obtain sw kw where st: "fst (snd st) = 44 # sw" "list_all is_json_space sw"
    using style_parts [OF "3.prems"(3)] by blast
  let ?t = "join_texts (fst (snd st)) (map (member_text st) (m' # ms)) @ 125 # rest"
  have e: "join_texts (fst (snd st)) (map (member_text st) (m # m' # ms)) @ 125 # rest
      = member_text st (k, v) @ 44 # sw @ ?t" by (simp add: st(1) m)
  have "solid ?t" by (cases ms) (simp_all add: json_string_text_def solid_char)
  then have "skip_space (sw @ ?t) = ?t" by (rule skip_space_pad [OF st(2)])
  moreover have "json_members i ?t = Some (m' # ms, rest)"
    using "3.prems" unfolding n e by (intro "3.IH"(2)) (simp_all add: st(1))
  moreover have "json_members (Suc i) (member_text st (k, v) @ 44 # sw @ ?t) =
    (if 44 = (125 :: nat) then Some ([(k, v)], sw @ ?t)
     else map_option (\<lambda>(ms, rest). ((k, v) # ms, rest)) (json_members i (skip_space (sw @ ?t))))"
    using "3.prems" unfolding n e
    by (intro read_member [where a = a] value_end_char) (simp_all add: m st(1))
  ultimately show ?case
    unfolding e unfolding n m by (simp del: json_members.simps join_texts.simps)
qed simp

lemma dict_put_new: "k \<notin> fst ` set d \<Longrightarrow> dict_put k v d = d @ [(k, v)]"
  by (induction d) auto

lemma dict_of_distinct: "distinct (map fst ms) \<Longrightarrow> dict_of ms = ms"
proof (induction ms rule: rev_induct)
  case (snoc m ms)
  then show ?case by (simp add: dict_of_def dict_put_new image_iff)
qed (simp add: dict_of_def)

lemma reads_int: "reads st (JInt n)"
proof (rule readsI)
  fix m rest
  assume r: "value_end rest"
  obtain c cs where c: "int_text n = c # cs" "c = 45 \<or> is_digit c" "c = 45 \<longrightarrow> (\<exists>x xs. cs = x # xs \<and> is_digit x)"
    by (rule int_text_start)
  have "\<forall>k \<in> set json_constants. take (length (fst k)) (int_text n @ rest) \<noteq> fst k"
    using c by (auto simp: json_constants_def lit_def is_digit_def)
  then have "find (\<lambda>k. take (length (fst k)) (int_text n @ rest) = fst k) json_constants = None"
    unfolding find_None_iff by blast
  moreover have "take 1 (int_text n @ rest) \<notin> {[34], [91], [123]}" using c(1,2) by (auto simp: is_digit_def)
  ultimately show "json_value (Suc m) (json_dumps st (JInt n) @ rest) = Some (JInt n, rest)"
    using read_int [OF r, of n] by simp
qed

lemma reads_all:
  assumes "style_ok st"
  shows "json_ok (fst st) v \<Longrightarrow> reads st v"
proof (induction v)
  case JNull
  show ?case by (rule readsI) (simp add: json_constants_def lit_def)
next
  case (JBool b)
  show ?case by (rule readsI) (simp add: json_constants_def lit_def)
next
  case (JInt n)
  show ?case by (rule reads_int)
next
  case (JStr s)
  then show ?case by (intro readsI) (simp add: json_string_text_def read_string)
next
  case (JList vs)
  then have vs: "list_all (reads st) vs" "list_all (json_ok (fst st)) vs" by (auto simp: list_all_iff)
  show ?case
  proof (rule readsI)
    fix n rest
    assume n: "2 * length (json_dumps st (JList vs) @ rest) \<le> n"
    show "json_value (Suc n) (json_dumps st (JList vs) @ rest) = Some (JList vs, rest)"
    proof (cases vs)
      case Nil
      then show ?thesis by (simp add: skip_space_solid solid_char)
    next
      case (Cons w ws)
      let ?t = "join_texts (fst (snd st)) (map (json_dumps st) vs) @ 93 # rest"
      have "json_items n ?t = Some (vs, rest)"
        using n Cons by (intro read_items [OF _ assms vs]) simp_all
      moreover have "solid ?t" "take (Suc 0) ?t \<noteq> [93]"
        using vs(2) items_start [of "fst st" w "fst (snd st)" st ws "93 # rest"] unfolding Cons by simp_all
      ultimately show ?thesis by (simp add: skip_space_solid)
    qed
  qed
next
  case (JObj ms)
  then have ms: "list_all (\<lambda>m. text_ok (fst st) (fst m) \<and> json_ok (fst st) (snd m) \<and> reads st (snd m)) ms"
      "distinct (map fst ms)"
    by (auto simp: list_all_iff)
  show ?case
  proof (rule readsI)
    fix n rest
    assume n: "2 * length (json_dumps st (JObj ms) @ rest) \<le> n"
    show "json_value (Suc n) (json_dumps st (JObj ms) @ rest) = Some (JObj ms, rest)"
    proof (cases ms)
      case Nil
      then show ?thesis by (simp add: skip_space_solid solid_char)
    next
      case (Cons m ms')
      let ?t = "join_texts (fst (snd st)) (map (member_text st) ms) @ 125 # rest"
      have "json_members n ?t = Some (ms, rest)"
        using n Cons by (intro read_members [OF _ assms ms(1)]) simp_all
      moreover have "solid ?t" "take (Suc 0) ?t \<noteq> [125]"
        unfolding Cons by (cases ms'; simp add: json_string_text_def solid_char)+
      ultimately show ?thesis using ms(2) by (simp add: skip_space_solid dict_of_distinct)
    qed
  qed
qed simp

theorem json_text_roundtrip:
  assumes "json_ok (fst st) v" and "style_ok st"
  shows "json_loads (json_dumps st v) = Some v"
proof -
  have "json_value (2 * length (json_dumps st v) + 1) (json_dumps st v @ []) = Some (v, [])"
    by (rule readsD [OF reads_all [OF assms(2,1)]]) (simp_all add: value_end_def)
  moreover have "skip_space (json_dumps st v) = json_dumps st v" "skip_space [] = []"
    using skip_space_solid [OF solid_dumps [OF assms(1)]] by (simp_all add: skip_space_def)
  ultimately show ?thesis by (simp add: json_loads_def del: json_value.simps)
qed

end
