(* ===== verification/Research_Rows.thy ===== *)
theory Research_Rows
  imports Research_Values Youtube_Claim_Rows Json_Roundtrip Keyed_Rows
begin

text \<open>
  The tables of the research runtime in \<open>catalog_schema.py\<close> (\<open>research_requests\<close>,
  \<open>research_active_slot\<close>, \<open>research_budget_holds\<close>, and the documents and records a completion
  writes) with their CHECK constraints, the row type of
  \<open>application/ports/research.py\<close>, and \<open>_row_to_values\<close> / \<open>_row_from_mapping\<close> of
  \<open>research_request_repository.py\<close>.
\<close>

section \<open>Request rows of the application\<close>

record research_row =
  rw_record :: research_request
  rw_owner_login_key :: pystr
  rw_client_request_id :: pystr
  rw_request_fingerprint :: pystr
  rw_checkpoint_json :: "pystr option"
  rw_checkpoint_sha256 :: "pystr option"
  rw_record_id :: "pystr option"
  rw_created_at_ms :: int
  rw_admitted_at_ms :: int
  rw_submitted_at_ms :: "int option"
  rw_finished_at_ms :: "int option"
  rw_updated_at_ms :: int
  rw_cancel_requested_at_ms :: "int option"
  rw_cancellation_confirmed_at_ms :: "int option"

abbreviation row_id :: "research_row \<Rightarrow> pystr" where
  "row_id r \<equiv> rq_operation_id (rw_record r)"

abbreviation row_state :: "research_row \<Rightarrow> research_state" where
  "row_state r \<equiv> rq_state (rw_record r)"

abbreviation row_handle :: "research_row \<Rightarrow> pystr option" where
  "row_handle r \<equiv> rq_remote_handle (rw_record r)"

section \<open>The table of requests\<close>

record request_columns =
  rt_operation_id :: pystr
  rt_owner_login_key :: pystr
  rt_client_request_id :: pystr
  rt_request_fingerprint :: pystr
  rt_kind :: pystr
  rt_prompt_text :: pystr
  rt_prompt_utf8_bytes :: int
  rt_lifecycle_state :: pystr
  rt_provider_id :: pystr
  rt_model_id :: pystr
  rt_configuration_version :: pystr
  rt_reasoning_effort :: pystr
  rt_max_tool_calls :: int
  rt_max_output_tokens :: int
  rt_deadline_seconds :: int
  rt_reservation_micro_usd :: int
  rt_tool_allowlist_json :: pystr
  rt_background :: int
  rt_prompt_max_utf8_bytes :: int
  rt_answer_max_utf8_bytes :: int
  rt_citation_count_max :: int
  rt_remote_handle_json :: "pystr option"
  rt_checkpoint_json :: "pystr option"
  rt_checkpoint_sha256 :: "pystr option"
  rt_record_id :: "pystr option"
  rt_error_code :: "pystr option"
  rt_cancel_requested_at_ms :: "int option"
  rt_cancellation_confirmed_at_ms :: "int option"
  rt_cleanup_state :: pystr
  rt_accounting_state :: pystr
  rt_created_at_ms :: int
  rt_admitted_at_ms :: int
  rt_submitted_at_ms :: "int option"
  rt_finished_at_ms :: "int option"
  rt_updated_at_ms :: int

text \<open>\<open>length(CAST(c AS BLOB))\<close> counts the bytes of the UTF-8 text; \<open>trim\<close> removes spaces only.\<close>

definition kronika_bytes :: "int \<Rightarrow> int \<Rightarrow> pystr \<Rightarrow> bool" where
  "kronika_bytes low high s \<longleftrightarrow> low \<le> utf8_size s \<and> utf8_size s \<le> high"

definition glob_uuid :: "pystr \<Rightarrow> bool" where
  "glob_uuid s \<longleftrightarrow> map length (split_on 45 s) = [8, 4, 4, 4, 12]
     \<and> list_all (list_all is_lower_hex) (split_on 45 s)"

definition sql_trim :: "pystr \<Rightarrow> pystr" where
  "sql_trim s = rev (dropWhile (\<lambda>c. c = 32) (rev (dropWhile (\<lambda>c. c = 32) s)))"

definition lower_hex_64 :: "pystr \<Rightarrow> bool" where
  "lower_hex_64 s \<longleftrightarrow> sql_length s = 64 \<and> s = sql_lower s \<and> not_glob_outside is_lower_hex s"

definition operation_token_check :: "pystr \<Rightarrow> bool" where
  "operation_token_check s \<longleftrightarrow> kronika_bytes 1 128 s \<and> \<not> glob_uuid s"

definition request_identity_checks :: "request_columns \<Rightarrow> sql_bool list" where
  "request_identity_checks c = [
     Some (operation_token_check (rt_operation_id c)),
     ck_owner_key (Some (rt_owner_login_key c)),
     Some (kronika_bytes 1 128 (rt_client_request_id c)),
     Some (lower_hex_64 (rt_request_fingerprint c)),
     Some (rt_kind c \<in> {lit ''search'', lit ''research''}),
     Some (kronika_bytes 1 16384 (rt_prompt_text c) \<and> sql_length (sql_trim (rt_prompt_text c)) > 0),
     Some (rt_prompt_utf8_bytes c \<ge> 1 \<and> rt_prompt_utf8_bytes c \<le> 16384
       \<and> rt_prompt_utf8_bytes c = utf8_size (rt_prompt_text c)),
     Some (rt_lifecycle_state c \<in> set (map lit [''admitted'', ''submitting'', ''running'', ''validating'',
       ''saved'', ''refused'', ''failed'', ''incomplete'', ''cancel_requested'', ''cancelled'', ''timeout'',
       ''submission_unknown''])),
     Some (kronika_bytes 1 64 (rt_provider_id c)),
     Some (kronika_bytes 1 128 (rt_model_id c)),
     Some (kronika_bytes 1 16 (rt_configuration_version c)),
     Some (rt_reasoning_effort c \<in> {lit ''low'', lit ''high''})]"

definition request_limit_checks :: "request_columns \<Rightarrow> sql_bool list" where
  "request_limit_checks c = [
     Some (rt_max_tool_calls c \<ge> 1 \<and> rt_max_tool_calls c \<le> 20),
     Some (rt_max_output_tokens c \<ge> 1 \<and> rt_max_output_tokens c \<le> 32768),
     Some (rt_deadline_seconds c \<ge> 1 \<and> rt_deadline_seconds c \<le> 1800),
     Some (rt_reservation_micro_usd c \<ge> 1 \<and> rt_reservation_micro_usd c \<le> 5000000),
     Some (rt_tool_allowlist_json c = lit ''[\"web_search\"]''),
     Some (rt_background c \<in> {0, 1}),
     Some (rt_prompt_max_utf8_bytes c \<ge> 1 \<and> rt_prompt_max_utf8_bytes c \<le> 16384),
     Some (rt_answer_max_utf8_bytes c \<ge> 1 \<and> rt_answer_max_utf8_bytes c \<le> 2097152),
     Some (rt_citation_count_max c \<ge> 1 \<and> rt_citation_count_max c \<le> 200)]"

definition request_progress_checks :: "request_columns \<Rightarrow> sql_bool list" where
  "request_progress_checks c = [
     sql_or (sql_is_null (rt_remote_handle_json c))
       (sql_test (\<lambda>s. sql_length s \<ge> 2 \<and> sql_length s \<le> 65536) (rt_remote_handle_json c)),
     sql_or (sql_is_null (rt_checkpoint_json c))
       (sql_test (\<lambda>s. sql_length s \<ge> 2 \<and> sql_length s \<le> 2097152) (rt_checkpoint_json c)),
     sql_or (sql_is_null (rt_checkpoint_sha256 c)) (sql_test lower_hex_64 (rt_checkpoint_sha256 c)),
     sql_or (sql_is_null (rt_record_id c)) (sql_test (\<lambda>s. sql_length s = 36) (rt_record_id c)),
     sql_or (sql_is_null (rt_error_code c)) (sql_test (kronika_bytes 1 64) (rt_error_code c)),
     sql_or (sql_is_null (rt_cancel_requested_at_ms c)) (sql_test (\<lambda>n. n \<ge> 0) (rt_cancel_requested_at_ms c)),
     sql_or (sql_is_null (rt_cancellation_confirmed_at_ms c))
       (sql_and (sql_is_not_null (rt_cancel_requested_at_ms c))
         (case rt_cancel_requested_at_ms c of None \<Rightarrow> None
          | Some r \<Rightarrow> sql_test (\<lambda>n. n \<ge> r) (rt_cancellation_confirmed_at_ms c))),
     Some (rt_cleanup_state c \<in> set (map lit [''not_required'', ''pending'', ''deleted'', ''failed'', ''unknown''])),
     Some (rt_accounting_state c \<in> set (map lit [''reserved'', ''reconciled'', ''unknown''])),
     Some (rt_created_at_ms c \<ge> 0),
     Some (rt_admitted_at_ms c \<ge> rt_created_at_ms c),
     sql_or (sql_is_null (rt_submitted_at_ms c)) (sql_test (\<lambda>n. n \<ge> rt_admitted_at_ms c) (rt_submitted_at_ms c)),
     sql_or (sql_is_null (rt_finished_at_ms c)) (sql_test (\<lambda>n. n \<ge> rt_admitted_at_ms c) (rt_finished_at_ms c)),
     Some (rt_updated_at_ms c \<ge> rt_created_at_ms c)]"

definition request_checks_ok :: "request_columns \<Rightarrow> bool" where
  "request_checks_ok c \<longleftrightarrow> list_all check_passes
     (request_identity_checks c @ request_limit_checks c @ request_progress_checks c)"

text \<open>UNIQUE \<open>(owner_login_key, client_request_id)\<close> and UNIQUE \<open>record_id\<close>.\<close>

definition request_rows_clash :: "request_columns \<Rightarrow> request_columns \<Rightarrow> bool" where
  "request_rows_clash c d \<longleftrightarrow>
     (rt_owner_login_key c = rt_owner_login_key d \<and> rt_client_request_id c = rt_client_request_id d)
     \<or> (rt_record_id c \<noteq> None \<and> rt_record_id c = rt_record_id d)"

section \<open>The other tables\<close>

text \<open>\<open>research_active_slot\<close> has \<open>id\<close> as its primary key and \<open>CHECK (id = 1)\<close>: at most one row.\<close>

record slot_row =
  sl_operation_id :: "pystr option"
  sl_held_since_ms :: "int option"

definition slot_row_ok :: "slot_row \<Rightarrow> bool" where
  "slot_row_ok s \<longleftrightarrow> check_passes (sql_or
     (sql_and (sql_is_null (sl_operation_id s)) (sql_is_null (sl_held_since_ms s)))
     (sql_and (sql_is_not_null (sl_operation_id s))
       (sql_and (sql_is_not_null (sl_held_since_ms s)) (sql_test (\<lambda>n. n \<ge> 0) (sl_held_since_ms s)))))"

record hold_row =
  hd_operation_id :: pystr
  hd_day_key :: pystr
  hd_month_key :: pystr
  hd_reserved_usd_micros :: int
  hd_accounted_usd_micros :: "int option"
  hd_state :: pystr
  hd_created_at_ms :: int
  hd_reconciled_at_ms :: "int option"

definition glob_month :: "pystr \<Rightarrow> bool" where
  "glob_month s \<longleftrightarrow> length s = 7 \<and> s ! 4 = 45 \<and> list_all (\<lambda>i. is_digit (s ! i)) [0, 1, 2, 3, 5, 6]"

definition hold_row_checks :: "hold_row \<Rightarrow> sql_bool list" where
  "hold_row_checks h = [
     Some (glob_date (hd_day_key h)),
     Some (glob_month (hd_month_key h)),
     Some (hd_reserved_usd_micros h \<ge> 1 \<and> hd_reserved_usd_micros h \<le> 5000000),
     sql_or (sql_is_null (hd_accounted_usd_micros h)) (sql_test (\<lambda>n. n \<ge> 0) (hd_accounted_usd_micros h)),
     Some (hd_state h \<in> set (map lit [''reserved'', ''reconciled'', ''unknown''])),
     Some ((hd_state h = lit ''reserved'' \<and> hd_accounted_usd_micros h = None \<and> hd_reconciled_at_ms h = None)
       \<or> (hd_state h \<in> {lit ''reconciled'', lit ''unknown''}
          \<and> hd_accounted_usd_micros h \<noteq> None \<and> hd_reconciled_at_ms h \<noteq> None)),
     Some (hd_created_at_ms h \<ge> 0),
     sql_or (sql_is_null (hd_reconciled_at_ms h))
       (sql_test (\<lambda>n. n \<ge> hd_created_at_ms h) (hd_reconciled_at_ms h))]"

definition hold_row_ok :: "hold_row \<Rightarrow> bool" where
  "hold_row_ok h \<longleftrightarrow> list_all check_passes (hold_row_checks h)"

section \<open>Writing a row\<close>

definition handle_json :: "pystr \<Rightarrow> pystr" where
  "handle_json v = json_dumps default_style (JObj [(lit ''value'', JStr v)])"

definition tools_json :: "pystr list \<Rightarrow> pystr" where
  "tools_json tools = json_dumps default_style (JList (map JStr tools))"

definition row_columns :: "int \<Rightarrow> research_row \<Rightarrow> request_columns" where
  "row_columns prompt_bytes r =
     (let record = rw_record r; profile = rq_profile record; limits = rq_resource_limits record
      in \<lparr>rt_operation_id = rq_operation_id record, rt_owner_login_key = rw_owner_login_key r,
         rt_client_request_id = rw_client_request_id r, rt_request_fingerprint = rw_request_fingerprint r,
         rt_kind = research_kind_value (rq_kind record), rt_prompt_text = rq_prompt record,
         rt_prompt_utf8_bytes = prompt_bytes, rt_lifecycle_state = research_state_value (rq_state record),
         rt_provider_id = sp_provider_id profile, rt_model_id = sp_model_id profile,
         rt_configuration_version = sp_configuration_version profile,
         rt_reasoning_effort = sp_reasoning_effort profile, rt_max_tool_calls = rl_max_tool_calls limits,
         rt_max_output_tokens = rl_max_output_tokens limits, rt_deadline_seconds = rq_deadline_seconds record,
         rt_reservation_micro_usd = sp_budget_reservation_usd_micros profile,
         rt_tool_allowlist_json = tools_json (sp_tool_allowlist profile),
         rt_background = (if sp_background profile then 1 else 0),
         rt_prompt_max_utf8_bytes = rl_prompt_max_utf8_bytes limits,
         rt_answer_max_utf8_bytes = rl_answer_max_utf8_bytes limits,
         rt_citation_count_max = rl_citation_count_max limits,
         rt_remote_handle_json = map_option handle_json (rq_remote_handle record),
         rt_checkpoint_json = rw_checkpoint_json r, rt_checkpoint_sha256 = rw_checkpoint_sha256 r,
         rt_record_id = rw_record_id r, rt_error_code = map_option research_code_value (rq_error_code record),
         rt_cancel_requested_at_ms = rw_cancel_requested_at_ms r,
         rt_cancellation_confirmed_at_ms = rw_cancellation_confirmed_at_ms r,
         rt_cleanup_state = research_cleanup_value (rq_cleanup_state record),
         rt_accounting_state = research_accounting_value (rq_accounting_state record),
         rt_created_at_ms = rw_created_at_ms r, rt_admitted_at_ms = rw_admitted_at_ms r,
         rt_submitted_at_ms = rw_submitted_at_ms r, rt_finished_at_ms = rw_finished_at_ms r,
         rt_updated_at_ms = rw_updated_at_ms r\<rparr>)"

definition row_to_values :: "research_row \<Rightarrow> research_exn + request_columns" where
  "row_to_values r = and_then (utf8_length (rq_prompt (rw_record r))) (\<lambda>n. Inr (row_columns n r))"

text \<open>\<open>_MUTABLE_COLUMNS\<close>: what an \<open>UPDATE\<close> of \<open>save\<close> writes.\<close>

definition set_mutable_columns :: "request_columns \<Rightarrow> request_columns \<Rightarrow> request_columns" where
  "set_mutable_columns v c = c
     \<lparr>rt_lifecycle_state := rt_lifecycle_state v, rt_cleanup_state := rt_cleanup_state v,
      rt_accounting_state := rt_accounting_state v, rt_remote_handle_json := rt_remote_handle_json v,
      rt_checkpoint_json := rt_checkpoint_json v, rt_checkpoint_sha256 := rt_checkpoint_sha256 v,
      rt_record_id := rt_record_id v, rt_error_code := rt_error_code v,
      rt_submitted_at_ms := rt_submitted_at_ms v, rt_finished_at_ms := rt_finished_at_ms v,
      rt_updated_at_ms := rt_updated_at_ms v, rt_cancel_requested_at_ms := rt_cancel_requested_at_ms v,
      rt_cancellation_confirmed_at_ms := rt_cancellation_confirmed_at_ms v\<rparr>"

section \<open>Reading a row\<close>

text \<open>\<open>str\<close> of a JSON value; of a float or a container it is not modelled.\<close>

fun py_str :: "json \<Rightarrow> pystr option" where
  "py_str (JStr s) = Some s"
| "py_str (JInt n) = Some (int_text n)"
| "py_str (JBool b) = Some (if b then lit ''True'' else lit ''False'')"
| "py_str JNull = Some (lit ''None'')"
| "py_str _ = None"

text \<open>\<open>tuple(json.loads(t))\<close>: the items of a list, the keys of an object, the characters of a
  string.  A profile refuses an item that is not a string.\<close>

definition tools_from_json :: "pystr \<Rightarrow> research_exn + pystr list" where
  "tools_from_json t =
     (case json_loads t of
        None \<Rightarrow> Inl ValueError
      | Some (JList vs) \<Rightarrow> map_results (\<lambda>v. case v of JStr s \<Rightarrow> Inr s | _ \<Rightarrow> Inl ResearchValueError) vs
      | Some (JObj ms) \<Rightarrow> Inr (map fst ms)
      | Some (JStr s) \<Rightarrow> Inr (map (\<lambda>c. [c]) s)
      | Some _ \<Rightarrow> Inl TypeError)"

text \<open>\<open>ProviderHandle(str(json.loads(t)["value"]))\<close>.\<close>

definition handle_from_json :: "pystr \<Rightarrow> research_exn + pystr" where
  "handle_from_json t =
     (case json_loads t of
        None \<Rightarrow> Inl ValueError
      | Some (JObj ms) \<Rightarrow>
          (case map_of ms (lit ''value'') of
             None \<Rightarrow> Inl KeyError
           | Some v \<Rightarrow> (case py_str v of Some s \<Rightarrow> provider_handle_new s | None \<Rightarrow> Inl TypeError))
      | Some _ \<Rightarrow> Inl TypeError)"

abbreviation kind_parse :: "pystr \<Rightarrow> research_exn + research_kind" where
  "kind_parse \<equiv> enum_parse ValueError [SEARCH, RESEARCH] research_kind_value"

abbreviation state_parse :: "pystr \<Rightarrow> research_exn + research_state" where
  "state_parse \<equiv> enum_parse ValueError research_states research_state_value"

abbreviation cleanup_parse :: "pystr \<Rightarrow> research_exn + research_cleanup" where
  "cleanup_parse \<equiv> enum_parse ValueError [RC_NOT_REQUIRED, RC_PENDING, RC_DELETED, RC_FAILED, RC_UNKNOWN]
     research_cleanup_value"

abbreviation accounting_parse :: "pystr \<Rightarrow> research_exn + research_accounting" where
  "accounting_parse \<equiv> enum_parse ValueError [RA_RESERVED, RA_RECONCILED, RA_UNKNOWN] research_accounting_value"

abbreviation code_parse :: "pystr \<Rightarrow> research_exn + research_code" where
  "code_parse \<equiv> enum_parse ValueError research_codes research_code_value"

definition profile_from_columns :: "request_columns \<Rightarrow> pystr list \<Rightarrow> selected_profile" where
  "profile_from_columns c tools =
     \<lparr>sp_provider_id = rt_provider_id c, sp_model_id = rt_model_id c,
      sp_configuration_version = rt_configuration_version c, sp_reasoning_effort = rt_reasoning_effort c,
      sp_tool_allowlist = tools, sp_background = (rt_background c \<noteq> 0),
      sp_max_tool_calls = rt_max_tool_calls c, sp_max_output_tokens = rt_max_output_tokens c,
      sp_deadline_seconds = rt_deadline_seconds c,
      sp_budget_reservation_usd_micros = rt_reservation_micro_usd c\<rparr>"

definition limits_from_columns :: "request_columns \<Rightarrow> resource_limits" where
  "limits_from_columns c =
     \<lparr>rl_max_tool_calls = rt_max_tool_calls c, rl_max_output_tokens = rt_max_output_tokens c,
      rl_budget_reservation_usd_micros = rt_reservation_micro_usd c,
      rl_prompt_max_utf8_bytes = rt_prompt_max_utf8_bytes c,
      rl_answer_max_utf8_bytes = rt_answer_max_utf8_bytes c,
      rl_citation_count_max = rt_citation_count_max c\<rparr>"

definition row_from_mapping :: "request_columns \<Rightarrow> research_exn + research_row" where
  "row_from_mapping c =
     and_then (tools_from_json (rt_tool_allowlist_json c)) (\<lambda>tools.
     and_then (selected_profile_post_init (profile_from_columns c tools)) (\<lambda>_.
     and_then (resource_limits_post_init (limits_from_columns c)) (\<lambda>_.
     and_then (kind_parse (rt_kind c)) (\<lambda>kind.
     and_then (state_parse (rt_lifecycle_state c)) (\<lambda>state.
     and_then (cleanup_parse (rt_cleanup_state c)) (\<lambda>cleanup.
     and_then (accounting_parse (rt_accounting_state c)) (\<lambda>accounting.
     and_then (opt_map handle_from_json (rt_remote_handle_json c)) (\<lambda>handle.
     and_then (opt_map code_parse (rt_error_code c)) (\<lambda>code.
     let record = \<lparr>rq_operation_id = rt_operation_id c, rq_kind = kind, rq_prompt = rt_prompt_text c,
           rq_profile = profile_from_columns c tools, rq_deadline_seconds = rt_deadline_seconds c,
           rq_resource_limits = limits_from_columns c, rq_state = state, rq_cleanup_state = cleanup,
           rq_accounting_state = accounting, rq_remote_handle = handle, rq_error_code = code\<rparr>
     in and_then (research_request_post_init record) (\<lambda>_. Inr
       \<lparr>rw_record = record, rw_owner_login_key = rt_owner_login_key c,
        rw_client_request_id = rt_client_request_id c, rw_request_fingerprint = rt_request_fingerprint c,
        rw_checkpoint_json = rt_checkpoint_json c, rw_checkpoint_sha256 = rt_checkpoint_sha256 c,
        rw_record_id = rt_record_id c, rw_created_at_ms = rt_created_at_ms c,
        rw_admitted_at_ms = rt_admitted_at_ms c, rw_submitted_at_ms = rt_submitted_at_ms c,
        rw_finished_at_ms = rt_finished_at_ms c, rw_updated_at_ms = rt_updated_at_ms c,
        rw_cancel_requested_at_ms = rt_cancel_requested_at_ms c,
        rw_cancellation_confirmed_at_ms = rt_cancellation_confirmed_at_ms c\<rparr>))))))))))"

section \<open>Rows read back\<close>

abbreviation columns_of :: "research_row \<Rightarrow> request_columns" where
  "columns_of r \<equiv> row_columns (utf8_size (rq_prompt (rw_record r))) r"

lemma row_columns_simps [simp]:
  "rt_operation_id (row_columns n r) = rq_operation_id (rw_record r)"
  "rt_owner_login_key (row_columns n r) = rw_owner_login_key r"
  "rt_client_request_id (row_columns n r) = rw_client_request_id r"
  "rt_request_fingerprint (row_columns n r) = rw_request_fingerprint r"
  "rt_kind (row_columns n r) = research_kind_value (rq_kind (rw_record r))"
  "rt_prompt_text (row_columns n r) = rq_prompt (rw_record r)"
  "rt_prompt_utf8_bytes (row_columns n r) = n"
  "rt_lifecycle_state (row_columns n r) = research_state_value (rq_state (rw_record r))"
  "rt_provider_id (row_columns n r) = sp_provider_id (rq_profile (rw_record r))"
  "rt_model_id (row_columns n r) = sp_model_id (rq_profile (rw_record r))"
  "rt_configuration_version (row_columns n r) = sp_configuration_version (rq_profile (rw_record r))"
  "rt_reasoning_effort (row_columns n r) = sp_reasoning_effort (rq_profile (rw_record r))"
  "rt_max_tool_calls (row_columns n r) = rl_max_tool_calls (rq_resource_limits (rw_record r))"
  "rt_max_output_tokens (row_columns n r) = rl_max_output_tokens (rq_resource_limits (rw_record r))"
  "rt_deadline_seconds (row_columns n r) = rq_deadline_seconds (rw_record r)"
  "rt_reservation_micro_usd (row_columns n r) = sp_budget_reservation_usd_micros (rq_profile (rw_record r))"
  "rt_tool_allowlist_json (row_columns n r) = tools_json (sp_tool_allowlist (rq_profile (rw_record r)))"
  "rt_background (row_columns n r) = (if sp_background (rq_profile (rw_record r)) then 1 else 0)"
  "rt_prompt_max_utf8_bytes (row_columns n r) = rl_prompt_max_utf8_bytes (rq_resource_limits (rw_record r))"
  "rt_answer_max_utf8_bytes (row_columns n r) = rl_answer_max_utf8_bytes (rq_resource_limits (rw_record r))"
  "rt_citation_count_max (row_columns n r) = rl_citation_count_max (rq_resource_limits (rw_record r))"
  "rt_remote_handle_json (row_columns n r) = map_option handle_json (rq_remote_handle (rw_record r))"
  "rt_checkpoint_json (row_columns n r) = rw_checkpoint_json r"
  "rt_checkpoint_sha256 (row_columns n r) = rw_checkpoint_sha256 r"
  "rt_record_id (row_columns n r) = rw_record_id r"
  "rt_error_code (row_columns n r) = map_option research_code_value (rq_error_code (rw_record r))"
  "rt_cancel_requested_at_ms (row_columns n r) = rw_cancel_requested_at_ms r"
  "rt_cancellation_confirmed_at_ms (row_columns n r) = rw_cancellation_confirmed_at_ms r"
  "rt_cleanup_state (row_columns n r) = research_cleanup_value (rq_cleanup_state (rw_record r))"
  "rt_accounting_state (row_columns n r) = research_accounting_value (rq_accounting_state (rw_record r))"
  "rt_created_at_ms (row_columns n r) = rw_created_at_ms r"
  "rt_admitted_at_ms (row_columns n r) = rw_admitted_at_ms r"
  "rt_submitted_at_ms (row_columns n r) = rw_submitted_at_ms r"
  "rt_finished_at_ms (row_columns n r) = rw_finished_at_ms r"
  "rt_updated_at_ms (row_columns n r) = rw_updated_at_ms r"
  by (simp_all add: row_columns_def Let_def)

text \<open>What the constructors of a row guarantee, and that its profile, limits and deadline agree
  (the table has one column for each).\<close>

definition handle_ok :: "pystr \<Rightarrow> bool" where
  "handle_ok v \<longleftrightarrow> ok (provider_handle_new v) \<and> text_ok True v"

definition limits_agree :: "research_request \<Rightarrow> bool" where
  "limits_agree q \<longleftrightarrow> sp_max_tool_calls (rq_profile q) = rl_max_tool_calls (rq_resource_limits q)
     \<and> sp_max_output_tokens (rq_profile q) = rl_max_output_tokens (rq_resource_limits q)
     \<and> sp_budget_reservation_usd_micros (rq_profile q) = rl_budget_reservation_usd_micros (rq_resource_limits q)
     \<and> sp_deadline_seconds (rq_profile q) = rq_deadline_seconds q"

definition research_row_valid :: "research_row \<Rightarrow> bool" where
  "research_row_valid r \<longleftrightarrow> ok (research_request_post_init (rw_record r))
     \<and> ok (selected_profile_post_init (rq_profile (rw_record r)))
     \<and> ok (resource_limits_post_init (rq_resource_limits (rw_record r)))
     \<and> limits_agree (rw_record r) \<and> encodable (rq_prompt (rw_record r))
     \<and> (case row_handle r of None \<Rightarrow> True | Some v \<Rightarrow> handle_ok v)"

lemma row_to_values_valid: "research_row_valid r \<Longrightarrow> row_to_values r = Inr (columns_of r)"
  by (simp add: row_to_values_def utf8_length_def research_row_valid_def)

lemma tools_json_read:
  assumes "list_all (text_ok True) tools"
  shows "tools_from_json (tools_json tools) = Inr tools"
proof -
  have "json_loads (json_dumps default_style (JList (map JStr tools))) = Some (JList (map JStr tools))"
    using assms by (intro json_text_roundtrip) (simp_all add: default_style_def list.pred_map comp_def style_ok_styles(3) [unfolded default_style_def])
  moreover have "map_results (\<lambda>v. case v of JStr s \<Rightarrow> Inr s | _ \<Rightarrow> Inl ResearchValueError) (map JStr tools) = Inr tools"
    by (induction tools) simp_all
  ultimately show ?thesis by (simp add: tools_from_json_def tools_json_def)
qed

lemma handle_json_read:
  assumes "handle_ok v"
  shows "handle_from_json (handle_json v) = Inr v"
proof -
  have "text_ok True (lit ''value'')" by (simp add: text_ok_def lit_def)
  then have "json_loads (json_dumps default_style (JObj [(lit ''value'', JStr v)])) = Some (JObj [(lit ''value'', JStr v)])"
    using assms by (intro json_text_roundtrip) (simp_all add: default_style_def handle_ok_def style_ok_styles(3) [unfolded default_style_def])
  then show ?thesis using assms by (auto simp: handle_from_json_def handle_json_def handle_ok_def provider_handle_new_def require_token_def split: if_splits)
qed

lemma enum_reads [simp]:
  "kind_parse (research_kind_value k) = Inr k"
  "state_parse (research_state_value s) = Inr s"
  "cleanup_parse (research_cleanup_value c) = Inr c"
  "accounting_parse (research_accounting_value a) = Inr a"
  "code_parse (research_code_value e) = Inr e"
proof -
  show "kind_parse (research_kind_value k) = Inr k" by (cases k) (simp_all add: enum_parse_def lit_def)
  show "state_parse (research_state_value s) = Inr s"
    by (cases s) (simp_all add: enum_parse_def research_states_def lit_def)
  show "cleanup_parse (research_cleanup_value c) = Inr c" by (cases c) (simp_all add: enum_parse_def lit_def)
  show "accounting_parse (research_accounting_value a) = Inr a" by (cases a) (simp_all add: enum_parse_def lit_def)
  show "code_parse (research_code_value e) = Inr e"
    by (cases e) (simp_all add: enum_parse_def research_codes_def lit_def)
qed

lemma value_inj [simp]:
  "research_kind_value k = research_kind_value k' \<longleftrightarrow> k = k'"
  "research_state_value s = research_state_value s' \<longleftrightarrow> s = s'"
  "research_cleanup_value c = research_cleanup_value c' \<longleftrightarrow> c = c'"
  "research_accounting_value a = research_accounting_value a' \<longleftrightarrow> a = a'"
  "research_code_value e = research_code_value e' \<longleftrightarrow> e = e'"
  using enum_reads by (metis sum.inject(2))+

declare research_kind_value.simps [simp del] research_state_value.simps [simp del]
  research_cleanup_value.simps [simp del] research_accounting_value.simps [simp del]
  research_code_value.simps [simp del]

lemma row_read_back:
  assumes v: "research_row_valid r"
  shows "row_from_mapping (columns_of r) = Inr r"
proof -
  let ?q = "rw_record r"
  have a: "limits_agree ?q" and p: "selected_profile_post_init (rq_profile ?q) = Inr ()"
    and l: "resource_limits_post_init (rq_resource_limits ?q) = Inr ()"
    and q: "research_request_post_init ?q = Inr ()"
    and h: "case row_handle r of None \<Rightarrow> True | Some v \<Rightarrow> handle_ok v"
    using v by (simp_all add: research_row_valid_def ok_unit)
  have "\<forall>t \<in> set (sp_tool_allowlist (rq_profile ?q)). t = WEB_SEARCH_TOOL"
    using p by (simp add: selected_profile_post_init_def ALLOWED_RESEARCH_TOOLS_def list_ex_iff)
  moreover have "text_ok True WEB_SEARCH_TOOL" by (simp add: text_ok_def WEB_SEARCH_TOOL_def lit_def)
  ultimately have "list_all (text_ok True) (sp_tool_allowlist (rq_profile ?q))"
    unfolding list_all_iff by metis
  then have t: "tools_from_json (tools_json (sp_tool_allowlist (rq_profile ?q))) = Inr (sp_tool_allowlist (rq_profile ?q))"
    by (simp add: tools_json_read)
  have pr: "profile_from_columns (columns_of r) (sp_tool_allowlist (rq_profile ?q)) = rq_profile ?q"
    using a by (simp add: profile_from_columns_def limits_agree_def)
  have lr: "limits_from_columns (columns_of r) = rq_resource_limits ?q"
    using a by (simp add: limits_from_columns_def limits_agree_def)
  have hr: "opt_map handle_from_json (map_option handle_json (rq_remote_handle ?q)) = Inr (rq_remote_handle ?q)"
    using h by (cases "row_handle r") (simp_all add: handle_json_read)
  have er: "opt_map code_parse (map_option research_code_value (rq_error_code ?q)) = Inr (rq_error_code ?q)"
    by (cases "rq_error_code ?q") simp_all
  have rec: "\<lparr>rq_operation_id = rq_operation_id ?q, rq_kind = rq_kind ?q, rq_prompt = rq_prompt ?q,
      rq_profile = rq_profile ?q, rq_deadline_seconds = rq_deadline_seconds ?q,
      rq_resource_limits = rq_resource_limits ?q, rq_state = rq_state ?q, rq_cleanup_state = rq_cleanup_state ?q,
      rq_accounting_state = rq_accounting_state ?q, rq_remote_handle = rq_remote_handle ?q,
      rq_error_code = rq_error_code ?q\<rparr> = ?q" by simp
  show ?thesis
    unfolding row_from_mapping_def t and_then_simps pr p lr l hr er row_columns_simps enum_reads Let_def rec q
    by simp
qed

end
