(* ===== verification/Record_Documents.thy ===== *)
theory Record_Documents
  imports Research_Rows Identity_Access
begin

text \<open>
  Completed documents of \<open>src/framenest/domain/records.py\<close> with their JSON columns, the tables
  \<open>kronika_documents\<close> and \<open>kronika_records\<close>, and \<open>SqliteResearchResultCompletion.complete\<close> of
  \<open>record_repository.py\<close>: the document, the record and the binding of the request in one
  transaction.
\<close>

section \<open>Documents\<close>

definition MAX_OPERATION_TOKEN_LENGTH :: nat where "MAX_OPERATION_TOKEN_LENGTH = 128"

fun record_kind_value :: "record_kind \<Rightarrow> pystr" where
  "record_kind_value RK_MEDIA = lit ''media''"
| "record_kind_value RK_SEARCH = lit ''search''"
| "record_kind_value RK_RESEARCH = lit ''research''"

definition record_kind_parse :: "pyobj \<Rightarrow> research_exn + record_kind" where
  "record_kind_parse value =
     (case value of PyStr s \<Rightarrow> enum_parse ValueError [RK_MEDIA, RK_SEARCH, RK_RESEARCH] record_kind_value s
      | _ \<Rightarrow> Inl ValueError)"

definition record_uuid_from_string :: "pyobj \<Rightarrow> research_exn + uuid" where
  "record_uuid_from_string value =
     (case value of PyStr s \<Rightarrow> rescue (\<lambda>_. RecordValueError) (identity_from_string s)
      | _ \<Rightarrow> Inl RecordValueError)"

definition parse_operation_token :: "unicode_tables \<Rightarrow> pystr \<Rightarrow> research_exn + pystr" where
  "parse_operation_token U value =
     and_then (all_checks [
       raise_if (value = [] \<or> length value > MAX_OPERATION_TOKEN_LENGTH) RecordValueError,
       raise_if (list_ex is_cc value) RecordValueError,
       raise_if (glob_uuid (uni_casefold U value)) RecordValueError]) (\<lambda>_.
     and_then (utf8_length value) (\<lambda>n.
     if 1 \<le> n \<and> n \<le> int MAX_OPERATION_TOKEN_LENGTH then Inr value else Inl RecordValueError))"

definition parse_owner_login_key :: "unicode_tables \<Rightarrow> pystr \<Rightarrow> research_exn + pystr" where
  "parse_owner_login_key U value = rescue (\<lambda>_. RecordValueError) (normalize_login U (PyStr value))"

definition nonblank_text :: "pystr \<Rightarrow> int \<Rightarrow> research_exn + pystr" where
  "nonblank_text value maximum =
     (if strip value = [] then Inl RecordValueError
      else and_then (utf8_length value) (\<lambda>size.
        if size < 1 \<or> size > maximum then Inl RecordValueError else Inr value))"

text \<open>\<open>NormalizedCitation\<close>: a \<open>ResearchCitation\<close> whose \<open>ResearchValueError\<close> is replaced.\<close>

definition normalized_citation :: "citation \<Rightarrow> research_exn + citation" where
  "normalized_citation c =
     (case citation_post_init c of
        Inl ResearchValueError \<Rightarrow> Inl RecordValueError
      | Inl e \<Rightarrow> Inl e
      | Inr _ \<Rightarrow> Inr c)"

definition require_timestamp :: "pyobj \<Rightarrow> research_exn + int" where
  "require_timestamp value =
     (case value of PyInt n \<Rightarrow> if n < 0 then Inl RecordValueError else Inr n | _ \<Rightarrow> Inl RecordValueError)"

record completed_document =
  cdoc_document_id :: uuid
  cdoc_operation_id :: pystr
  cdoc_kind :: record_kind
  cdoc_question_text :: pystr
  cdoc_answer_text :: pystr
  cdoc_citations :: "citation list"
  cdoc_evidence :: completion_evidence
  cdoc_created_at_ms :: int
  cdoc_completed_at_ms :: int

definition document_post_init :: "unicode_tables \<Rightarrow> completed_document \<Rightarrow> research_exn + unit" where
  "document_post_init U d = all_checks [
     discard (parse_operation_token U (cdoc_operation_id d)),
     raise_if (cdoc_kind d \<notin> {RK_SEARCH, RK_RESEARCH}) RecordValueError,
     discard (nonblank_text (cdoc_question_text d) MAX_PROMPT_UTF8_BYTES),
     discard (nonblank_text (cdoc_answer_text d) MAX_ANSWER_UTF8_BYTES),
     raise_if (int (length (cdoc_citations d)) > MAX_CITATION_COUNT) RecordValueError,
     raise_if (completion_error (cdoc_evidence d) \<noteq> None) RecordValueError,
     discard (require_timestamp (PyInt (cdoc_created_at_ms d))),
     discard (require_timestamp (PyInt (cdoc_completed_at_ms d))),
     raise_if (cdoc_completed_at_ms d < cdoc_created_at_ms d) RecordValueError]"

text \<open>\<open>sort_keys\<close>: the keys of the literals, in order.\<close>

definition citation_json :: "citation \<Rightarrow> json" where
  "citation_json c = JObj [(lit ''title'', JStr (ct_title c)), (lit ''url'', JStr (ct_url c))]"

definition citations_json :: "citation list \<Rightarrow> pystr" where
  "citations_json cs = json_dumps compact_style (JList (map citation_json cs))"

definition evidence_object :: "completion_evidence \<Rightarrow> json" where
  "evidence_object e = JObj [
     (lit ''answer_complete'', JBool (ce_answer_complete e)),
     (lit ''incomplete_marker'', JBool (ce_incomplete_marker e)),
     (lit ''provider_terminal'', JBool (ce_provider_terminal e)),
     (lit ''refusal_marker'', JBool (ce_refusal_marker e)),
     (lit ''web_search_executed'', JBool (ce_web_search_executed e))]"

definition evidence_json :: "completion_evidence \<Rightarrow> pystr" where
  "evidence_json e = json_dumps compact_ascii_style (evidence_object e)"

section \<open>Documents read from storage\<close>

definition citation_from_json :: "json \<Rightarrow> research_exn + citation" where
  "citation_from_json item =
     (case item of
        JObj ms \<Rightarrow>
          if set (map fst ms) \<noteq> {lit ''url'', lit ''title''} then Inl RecordValueError
          else (case (map_of ms (lit ''url''), map_of ms (lit ''title'')) of
            (Some (JStr url), Some (JStr title)) \<Rightarrow>
              and_then (utf8_length url) (\<lambda>n.
              if n > MAX_CITATION_URL_BYTES then Inl RecordValueError else
              and_then (utf8_length title) (\<lambda>m.
              if m > MAX_CITATION_TITLE_BYTES then Inl RecordValueError else
              normalized_citation \<lparr>ct_url = url, ct_title = title\<rparr>))
          | _ \<Rightarrow> Inl RecordValueError)
      | _ \<Rightarrow> Inl RecordValueError)"

definition citations_from_json :: "pyobj \<Rightarrow> research_exn + citation list" where
  "citations_from_json value =
     (case value of
        PyStr s \<Rightarrow>
          (case json_loads s of
             Some (JList items) \<Rightarrow>
               if int (length items) > MAX_CITATION_COUNT then Inl RecordValueError
               else and_then (map_results citation_from_json items) (\<lambda>cs.
                 if citations_json cs \<noteq> s then Inl RecordValueError else Inr cs)
           | _ \<Rightarrow> Inl RecordValueError)
      | _ \<Rightarrow> Inl RecordValueError)"

definition json_bool :: "(pystr \<times> json) list \<Rightarrow> string \<Rightarrow> bool" where
  "json_bool ms k = (map_of ms (lit k) = Some (JBool True))"

definition evidence_keys :: "pystr list" where
  "evidence_keys = map lit [''answer_complete'', ''incomplete_marker'', ''provider_terminal'',
     ''refusal_marker'', ''web_search_executed'']"

text \<open>The canonical text is that of the same five values in sorted order.\<close>

definition evidence_from_json :: "pyobj \<Rightarrow> research_exn + completion_evidence" where
  "evidence_from_json value =
     (case value of
        PyStr s \<Rightarrow>
          (case json_loads s of
             Some (JObj ms) \<Rightarrow>
               if set (map fst ms) \<noteq> set evidence_keys then Inl RecordValueError
               else if list_ex (\<lambda>m. case snd m of JBool b \<Rightarrow> False | _ \<Rightarrow> True) ms then Inl RecordValueError
               else let e = \<lparr>ce_provider_terminal = json_bool ms ''provider_terminal'',
                     ce_answer_complete = json_bool ms ''answer_complete'',
                     ce_web_search_executed = json_bool ms ''web_search_executed'',
                     ce_refusal_marker = json_bool ms ''refusal_marker'',
                     ce_incomplete_marker = json_bool ms ''incomplete_marker''\<rparr>
                    in if evidence_json e \<noteq> s then Inl RecordValueError else Inr e
           | _ \<Rightarrow> Inl RecordValueError)
      | _ \<Rightarrow> Inl RecordValueError)"

definition document_from_storage ::
    "unicode_tables \<Rightarrow> pyobj \<Rightarrow> pyobj \<Rightarrow> pyobj \<Rightarrow> pyobj \<Rightarrow> pyobj \<Rightarrow> pyobj \<Rightarrow> pyobj \<Rightarrow> pyobj \<Rightarrow> pyobj
      \<Rightarrow> research_exn + completed_document" where
  "document_from_storage U document_id operation_id kind question answer citations evidence created completed =
     rescue (\<lambda>_. RecordStorageIntegrityError) (
     and_then (record_kind_parse kind) (\<lambda>parsed_kind.
     and_then (citations_from_json citations) (\<lambda>cs.
     and_then (evidence_from_json evidence) (\<lambda>e.
     and_then (record_uuid_from_string document_id) (\<lambda>did.
     let text = (\<lambda>v. case v of PyStr s \<Rightarrow> s | _ \<Rightarrow> []);
         time = (\<lambda>v. case v of PyInt n \<Rightarrow> n | _ \<Rightarrow> -1);
         d = \<lparr>cdoc_document_id = did, cdoc_operation_id = text operation_id, cdoc_kind = parsed_kind,
              cdoc_question_text = text question, cdoc_answer_text = text answer, cdoc_citations = cs,
              cdoc_evidence = e, cdoc_created_at_ms = time created, cdoc_completed_at_ms = time completed\<rparr>
     in and_then (document_post_init U d) (\<lambda>_. Inr d))))))"

section \<open>The tables of documents and records\<close>

record document_row =
  dr_id :: pystr
  dr_operation_id :: pystr
  dr_kind :: pystr
  dr_question_text :: pystr
  dr_answer_text :: pystr
  dr_citations_json :: pystr
  dr_completion_evidence_json :: pystr
  dr_created_at_ms :: int
  dr_completed_at_ms :: int

definition document_row_checks :: "document_row \<Rightarrow> sql_bool list" where
  "document_row_checks d = [
     Some (sql_length (dr_id d) = 36),
     Some (operation_token_check (dr_operation_id d)),
     Some (dr_kind d \<in> {lit ''search'', lit ''research''}),
     Some (kronika_bytes 1 16384 (dr_question_text d) \<and> sql_length (sql_trim (dr_question_text d)) > 0),
     Some (kronika_bytes 1 2097152 (dr_answer_text d) \<and> sql_length (sql_trim (dr_answer_text d)) > 0),
     Some (sql_length (dr_citations_json d) \<ge> 2),
     Some (sql_length (dr_completion_evidence_json d) \<ge> 2),
     Some (dr_created_at_ms d \<ge> 0),
     Some (dr_completed_at_ms d \<ge> dr_created_at_ms d)]"

definition document_row_ok :: "document_row \<Rightarrow> bool" where
  "document_row_ok d \<longleftrightarrow> list_all check_passes (document_row_checks d)"

record record_row =
  kr_id :: pystr
  kr_kind :: pystr
  kr_owner_login_key :: pystr
  kr_visibility :: pystr
  kr_media_id :: "pystr option"
  kr_document_id :: "pystr option"
  kr_final_operation_id :: "pystr option"
  kr_created_at_ms :: int
  kr_completed_at_ms :: "int option"
  kr_timeline_entered_at_ms :: "int option"
  kr_version :: int
  kr_latest_successful_analysis_run_id :: "pystr option"
  kr_approved_analysis_run_id :: "pystr option"
  kr_approved_by_login_key :: "pystr option"
  kr_approved_at_ms :: "int option"
  kr_approved_record_version :: "int option"
  kr_approved_projection_json :: "pystr option"

abbreviation at_least :: "int option \<Rightarrow> int option \<Rightarrow> sql_bool" where
  "at_least x y \<equiv> (case y of None \<Rightarrow> None | Some b \<Rightarrow> sql_test (\<lambda>a. a \<ge> b) x)"

definition record_shape_check :: "record_row \<Rightarrow> sql_bool" where
  "record_shape_check r = sql_or
     (sql_all [Some (kr_kind r = lit ''media''), sql_is_not_null (kr_media_id r),
        sql_test (\<lambda>i. sql_length i = 36) (kr_media_id r), sql_is_null (kr_document_id r),
        sql_is_null (kr_final_operation_id r)])
     (sql_all [Some (kr_kind r \<in> {lit ''search'', lit ''research''}), sql_is_null (kr_media_id r),
        sql_is_not_null (kr_document_id r), sql_test (\<lambda>i. sql_length i = 36) (kr_document_id r),
        sql_is_not_null (kr_final_operation_id r), sql_test operation_token_check (kr_final_operation_id r),
        sql_is_not_null (kr_completed_at_ms r), sql_is_null (kr_latest_successful_analysis_run_id r),
        sql_is_null (kr_approved_analysis_run_id r)])"

definition record_approval_check :: "record_row \<Rightarrow> sql_bool" where
  "record_approval_check r = sql_or
     (sql_all [sql_is_null (kr_approved_by_login_key r), sql_is_null (kr_approved_at_ms r),
        sql_is_null (kr_approved_record_version r), sql_is_null (kr_approved_projection_json r)])
     (sql_all [sql_is_not_null (kr_approved_by_login_key r),
        (if kr_approved_by_login_key r = None then None else ck_owner_key (kr_approved_by_login_key r)),
        sql_is_not_null (kr_approved_at_ms r), sql_is_not_null (kr_approved_record_version r),
        sql_is_not_null (kr_approved_projection_json r), sql_is_not_null (kr_completed_at_ms r),
        sql_is_not_null (kr_timeline_entered_at_ms r),
        at_least (kr_approved_at_ms r) (kr_completed_at_ms r),
        at_least (kr_approved_at_ms r) (kr_timeline_entered_at_ms r),
        sql_test (\<lambda>v. v \<ge> 1 \<and> v \<le> kr_version r) (kr_approved_record_version r),
        sql_or (sql_and (Some (kr_kind r = lit ''media'')) (sql_is_not_null (kr_approved_analysis_run_id r)))
          (sql_and (Some (kr_kind r \<in> {lit ''search'', lit ''research''}))
             (sql_is_null (kr_approved_analysis_run_id r)))])"

definition record_row_checks :: "record_row \<Rightarrow> sql_bool list" where
  "record_row_checks r = [
     Some (sql_length (kr_id r) = 36),
     Some (kr_kind r \<in> {lit ''media'', lit ''search'', lit ''research''}),
     ck_owner_key (Some (kr_owner_login_key r)),
     Some (kr_visibility r \<in> {lit ''private'', lit ''family''}),
     record_shape_check r,
     Some (kr_created_at_ms r \<ge> 0),
     sql_or (sql_is_null (kr_completed_at_ms r)) (sql_test (\<lambda>n. n \<ge> kr_created_at_ms r) (kr_completed_at_ms r)),
     sql_or (sql_is_null (kr_timeline_entered_at_ms r))
       (sql_and (sql_is_not_null (kr_completed_at_ms r))
          (at_least (kr_timeline_entered_at_ms r) (kr_completed_at_ms r))),
     Some (kr_version r \<ge> 1),
     sql_or (sql_is_null (kr_latest_successful_analysis_run_id r))
       (sql_test (\<lambda>i. sql_length i = 36) (kr_latest_successful_analysis_run_id r)),
     sql_or (sql_is_null (kr_approved_analysis_run_id r))
       (sql_test (\<lambda>i. sql_length i = 36) (kr_approved_analysis_run_id r)),
     record_approval_check r,
     Some (kr_visibility r = lit ''private''
       \<or> (kr_visibility r = lit ''family'' \<and> kr_approved_by_login_key r \<noteq> None))]"

definition record_row_ok :: "record_row \<Rightarrow> bool" where
  "record_row_ok r \<longleftrightarrow> list_all check_passes (record_row_checks r)"

definition record_rows_clash :: "record_row \<Rightarrow> record_row \<Rightarrow> bool" where
  "record_rows_clash r s \<longleftrightarrow> (kr_media_id r \<noteq> None \<and> kr_media_id r = kr_media_id s)
     \<or> (kr_document_id r \<noteq> None \<and> kr_document_id r = kr_document_id s)
     \<or> (kr_final_operation_id r \<noteq> None \<and> kr_final_operation_id r = kr_final_operation_id s)"

section \<open>The database of the research runtime\<close>

record research_db =
  rd_requests :: "request_columns list"
  rd_slot :: "slot_row option"
  rd_holds :: "hold_row list"
  rd_documents :: "document_row list"
  rd_records :: "record_row list"

definition empty_research_db :: research_db where
  "empty_research_db = \<lparr>rd_requests = [], rd_slot = None, rd_holds = [], rd_documents = [], rd_records = []\<rparr>"

text \<open>The foreign key of a request to its record.\<close>

definition request_fk_ok :: "research_db \<Rightarrow> request_columns \<Rightarrow> bool" where
  "request_fk_ok db c \<longleftrightarrow> (case rt_record_id c of None \<Rightarrow> True | Some i \<Rightarrow> i \<in> set (map kr_id (rd_records db)))"

definition request_admissible :: "research_db \<Rightarrow> request_columns \<Rightarrow> bool" where
  "request_admissible db c \<longleftrightarrow> request_checks_ok c \<and> request_fk_ok db c
     \<and> list_all (\<lambda>d. rt_operation_id d = rt_operation_id c \<or> \<not> request_rows_clash c d) (rd_requests db)"

definition insert_document :: "document_row \<Rightarrow> research_db \<Rightarrow> research_exn + research_db" where
  "insert_document d db =
     (if document_row_ok d \<and> dr_id d \<notin> set (map dr_id (rd_documents db))
        \<and> dr_operation_id d \<notin> set (map dr_operation_id (rd_documents db))
      then Inr (db\<lparr>rd_documents := rd_documents db @ [d]\<rparr>) else Inl IntegrityError)"

text \<open>The foreign key to \<open>kronika_documents (id, operation_id, kind)\<close> applies when no column of
  it is null; a record of a completed document names no media and no analysis run.\<close>

definition insert_record :: "record_row \<Rightarrow> research_db \<Rightarrow> research_exn + research_db" where
  "insert_record r db =
     (if record_row_ok r \<and> kr_id r \<notin> set (map kr_id (rd_records db))
        \<and> list_all (\<lambda>s. \<not> record_rows_clash r s) (rd_records db)
        \<and> (kr_document_id r = None \<or> kr_final_operation_id r = None
           \<or> list_ex (\<lambda>d. kr_document_id r = Some (dr_id d) \<and> kr_final_operation_id r = Some (dr_operation_id d)
                \<and> kr_kind r = dr_kind d) (rd_documents db))
      then Inr (db\<lparr>rd_records := rd_records db @ [r]\<rparr>) else Inl IntegrityError)"

section \<open>Completion\<close>

definition document_values :: "completed_document \<Rightarrow> document_row" where
  "document_values d =
     \<lparr>dr_id = uuid_to_text (cdoc_document_id d), dr_operation_id = cdoc_operation_id d,
      dr_kind = record_kind_value (cdoc_kind d), dr_question_text = cdoc_question_text d,
      dr_answer_text = cdoc_answer_text d, dr_citations_json = citations_json (cdoc_citations d),
      dr_completion_evidence_json = evidence_json (cdoc_evidence d),
      dr_created_at_ms = cdoc_created_at_ms d, dr_completed_at_ms = cdoc_completed_at_ms d\<rparr>"

definition completion_record :: "completed_document \<Rightarrow> uuid \<Rightarrow> pystr \<Rightarrow> record_row" where
  "completion_record d record_id owner =
     \<lparr>kr_id = uuid_to_text record_id, kr_kind = record_kind_value (cdoc_kind d), kr_owner_login_key = owner,
      kr_visibility = lit ''private'', kr_media_id = None,
      kr_document_id = Some (uuid_to_text (cdoc_document_id d)),
      kr_final_operation_id = Some (cdoc_operation_id d), kr_created_at_ms = cdoc_created_at_ms d,
      kr_completed_at_ms = Some (cdoc_completed_at_ms d), kr_timeline_entered_at_ms = None, kr_version = 1,
      kr_latest_successful_analysis_run_id = None, kr_approved_analysis_run_id = None,
      kr_approved_by_login_key = None, kr_approved_at_ms = None, kr_approved_record_version = None,
      kr_approved_projection_json = None\<rparr>"

definition completion_document ::
    "unicode_tables \<Rightarrow> uuid \<Rightarrow> int \<Rightarrow> request_columns \<Rightarrow> research_answer \<Rightarrow> research_exn + completed_document" where
  "completion_document U document_id now_ms request answer =
     and_then (record_kind_parse (PyStr (rt_kind request))) (\<lambda>kind.
     and_then (map_results normalized_citation (an_citations answer)) (\<lambda>cs.
     let d = \<lparr>cdoc_document_id = document_id, cdoc_operation_id = rt_operation_id request, cdoc_kind = kind,
              cdoc_question_text = rt_prompt_text request, cdoc_answer_text = an_text answer,
              cdoc_citations = cs, cdoc_evidence = an_evidence answer,
              cdoc_created_at_ms = rt_created_at_ms request,
              cdoc_completed_at_ms = max now_ms (rt_created_at_ms request)\<rparr>
     in and_then (document_post_init U d) (\<lambda>_. Inr d)))"

definition bind_record ::
    "pystr \<Rightarrow> uuid \<Rightarrow> int \<Rightarrow> research_db \<Rightarrow> research_exn + research_db" where
  "bind_record operation_id record_id now_ms db =
     (case sql_update (request_admissible db) (\<lambda>c. rt_operation_id c = operation_id)
        (\<lambda>c. c\<lparr>rt_record_id := Some (uuid_to_text record_id), rt_updated_at_ms := now_ms\<rparr>) (rd_requests db) of
        None \<Rightarrow> Inl IntegrityError
      | Some (rows, _) \<Rightarrow> Inr (db\<lparr>rd_requests := rows\<rparr>))"

definition complete_operation ::
    "unicode_tables \<Rightarrow> uuid \<Rightarrow> uuid \<Rightarrow> int \<Rightarrow> result_completion \<Rightarrow> research_db
      \<Rightarrow> research_exn + completion_receipt \<times> research_db" where
  "complete_operation U document_id record_id now_ms completion db =
     (let receipt = \<lparr>cr_operation_id = rc_operation_id completion, cr_state = R_SAVED\<rparr>
      in case find (\<lambda>c. rt_operation_id c = rc_operation_id completion) (rd_requests db) of
        None \<Rightarrow> Inl (ResearchStoreError E_STORAGE)
      | Some request \<Rightarrow>
          if rt_record_id request \<noteq> None
          then and_then (completion_receipt_post_init receipt) (\<lambda>_. Inr (receipt, db))
          else and_then (completion_document U document_id now_ms request (rc_answer completion)) (\<lambda>d.
            and_then (insert_document (document_values d) db) (\<lambda>db1.
            and_then (parse_owner_login_key U (rt_owner_login_key request)) (\<lambda>owner.
            and_then (insert_record (completion_record d record_id owner) db1) (\<lambda>db2.
            and_then (bind_record (rc_operation_id completion) record_id now_ms db2) (\<lambda>db3.
            and_then (completion_receipt_post_init receipt) (\<lambda>_. Inr (receipt, db3))))))))"

definition result_complete ::
    "unicode_tables \<Rightarrow> uuid \<Rightarrow> uuid \<Rightarrow> int \<Rightarrow> result_completion \<Rightarrow> research_db
      \<Rightarrow> (research_exn + completion_receipt) \<times> research_db" where
  "result_complete U document_id record_id now_ms completion db =
     run_in_immediate_transaction (complete_operation U document_id record_id now_ms completion) db"

end
