(* ===== verification/Research_Repository.thy ===== *)
theory Research_Repository
  imports Record_Documents "HOL-Library.Product_Lexorder"
begin

text \<open>
  \<open>research_budget_repository.py\<close> and \<open>research_request_repository.py\<close>: the UTC keys of the
  budget periods, reservations and reconciliations of the ledger, and admission, saves and the
  submission claim of the request repository, each one transaction on the database.
\<close>

section \<open>UTC days\<close>

text \<open>\<open>datetime.fromtimestamp(ms / 1000, tz=UTC)\<close>: the proleptic Gregorian date, years 1 to 9999.
  The arithmetic is that of the \<open>datetime\<close> module (ordinal 1 is 0001-01-01).\<close>

definition is_leap :: "int \<Rightarrow> bool" where
  "is_leap y \<longleftrightarrow> y mod 4 = 0 \<and> (y mod 100 \<noteq> 0 \<or> y mod 400 = 0)"

definition days_before_year :: "int \<Rightarrow> int" where
  "days_before_year y = (let p = y - 1 in p * 365 + p div 4 - p div 100 + p div 400)"

definition month_lengths :: "bool \<Rightarrow> int list" where
  "month_lengths leap = [31, if leap then 29 else 28, 31, 30, 31, 30, 31, 31, 30, 31, 30, 31]"

text \<open>The month and the day from the days passed in the year.\<close>

fun month_day :: "int \<Rightarrow> int list \<Rightarrow> int \<Rightarrow> int \<times> int" where
  "month_day m [] d = (m, d + 1)"
| "month_day m (l # ls) d = (if d < l then (m, d + 1) else month_day (m + 1) ls (d - l))"

definition civil_date :: "int \<Rightarrow> int \<times> int \<times> int" where
  "civil_date ordinal =
     (let n = ordinal - 1; n400 = n div 146097; r400 = n mod 146097;
          n100 = r400 div 36524; r100 = r400 mod 36524;
          n4 = r100 div 1461; r4 = r100 mod 1461;
          n1 = r4 div 365; r1 = r4 mod 365;
          year = n400 * 400 + 1 + n100 * 100 + n4 * 4 + n1
      in if n1 = 4 \<or> n100 = 4 then (year - 1, 12, 31)
         else (year, month_day 1 (month_lengths (n1 = 3 \<and> (n4 \<noteq> 24 \<or> n100 = 3))) r1))"

definition two_digits :: "int \<Rightarrow> pystr" where
  "two_digits n = [48 + nat (n div 10), 48 + nat (n mod 10)]"

definition EPOCH_ORDINAL :: int where "EPOCH_ORDINAL = 719163"

definition utc_keys :: "int \<Rightarrow> research_exn + pystr \<times> pystr" where
  "utc_keys at_ms =
     (let ordinal = at_ms div 86400000 + EPOCH_ORDINAL
      in if ordinal < 1 \<or> ordinal > 3652059 then Inl ValueError
         else (case civil_date ordinal of (y, m, d) \<Rightarrow>
           let month_key = int_text y @ 45 # two_digits m
           in Inr (month_key @ 45 # two_digits d, month_key)))"

section \<open>The budget ledger\<close>

definition hold_consumption :: "hold_row \<Rightarrow> int" where
  "hold_consumption h =
     (if hd_state h = research_accounting_value RA_RESERVED then hd_reserved_usd_micros h
      else case hd_accounted_usd_micros h of None \<Rightarrow> 0 | Some n \<Rightarrow> n)"

definition consumed_where :: "(hold_row \<Rightarrow> pystr) \<Rightarrow> pystr \<Rightarrow> research_db \<Rightarrow> int" where
  "consumed_where column key db = sum_list (map hold_consumption (filter (\<lambda>h. column h = key) (rd_holds db)))"

definition insert_hold :: "hold_row \<Rightarrow> research_db \<Rightarrow> research_exn + research_db" where
  "insert_hold h db =
     (if hold_row_ok h \<and> hd_operation_id h \<notin> set (map hd_operation_id (rd_holds db))
        \<and> hd_operation_id h \<in> set (map rt_operation_id (rd_requests db))
      then Inr (db\<lparr>rd_holds := rd_holds db @ [h]\<rparr>) else Inl IntegrityError)"

definition budget_hold_new :: "pystr \<Rightarrow> int \<Rightarrow> research_accounting \<Rightarrow> research_exn + budget_hold" where
  "budget_hold_new operation_id reserved state =
     (let h = \<lparr>bh_operation_id = operation_id, bh_reserved_usd_micros = reserved, bh_state = state\<rparr>
      in and_then (budget_hold_post_init h) (\<lambda>_. Inr h))"

definition reserve_hold ::
    "budget_reservation \<Rightarrow> int \<Rightarrow> research_db \<Rightarrow> research_exn + budget_hold \<times> research_db" where
  "reserve_hold reservation now_ms db =
     and_then (utc_keys now_ms) (\<lambda>(day_key, month_key).
     if consumed_where hd_day_key day_key db + br_reserved_usd_micros reservation
          > br_daily_limit_usd_micros reservation
     then Inl (ResearchStoreError E_BUDGET_EXCEEDED)
     else if consumed_where hd_month_key month_key db + br_reserved_usd_micros reservation
          > br_monthly_limit_usd_micros reservation
     then Inl (ResearchStoreError E_BUDGET_EXCEEDED)
     else and_then (insert_hold
         \<lparr>hd_operation_id = br_operation_id reservation, hd_day_key = day_key, hd_month_key = month_key,
          hd_reserved_usd_micros = br_reserved_usd_micros reservation, hd_accounted_usd_micros = None,
          hd_state = research_accounting_value RA_RESERVED, hd_created_at_ms = now_ms,
          hd_reconciled_at_ms = None\<rparr> db) (\<lambda>db'.
       and_then (budget_hold_new (br_operation_id reservation) (br_reserved_usd_micros reservation) RA_RESERVED)
         (\<lambda>hold. Inr (hold, db'))))"

definition reconcile_hold ::
    "budget_reconciliation \<Rightarrow> int \<Rightarrow> research_db \<Rightarrow> research_exn + budget_hold \<times> research_db" where
  "reconcile_hold reconciliation now_ms db =
     (case find (\<lambda>h. hd_operation_id h = bc_operation_id reconciliation) (rd_holds db) of
        None \<Rightarrow> Inl (ResearchStoreError E_STORAGE)
      | Some row \<Rightarrow>
          let reserved = hd_reserved_usd_micros row
          in if hd_state row \<noteq> research_accounting_value RA_RESERVED
             then and_then (accounting_parse (hd_state row)) (\<lambda>state.
               and_then (budget_hold_new (bc_operation_id reconciliation) reserved state) (\<lambda>hold. Inr (hold, db)))
             else and_then
               (case bc_state reconciliation of
                  RA_RECONCILED \<Rightarrow> Inr (case bc_calculated_cost_usd_micros reconciliation of None \<Rightarrow> 0 | Some n \<Rightarrow> n)
                | RA_UNKNOWN \<Rightarrow> Inr reserved
                | RA_RESERVED \<Rightarrow> Inl (ResearchStoreError E_INVALID_REQUEST)) (\<lambda>accounted.
               case sql_update hold_row_ok (\<lambda>h. hd_operation_id h = bc_operation_id reconciliation)
                 (\<lambda>h. h\<lparr>hd_accounted_usd_micros := Some accounted,
                        hd_state := research_accounting_value (bc_state reconciliation),
                        hd_reconciled_at_ms := Some now_ms\<rparr>) (rd_holds db) of
                 None \<Rightarrow> Inl IntegrityError
               | Some (holds, _) \<Rightarrow>
                   and_then (budget_hold_new (bc_operation_id reconciliation) reserved (bc_state reconciliation))
                     (\<lambda>hold. Inr (hold, db\<lparr>rd_holds := holds\<rparr>))))"

definition ledger_reserve ::
    "int \<Rightarrow> budget_reservation \<Rightarrow> research_db \<Rightarrow> (research_exn + budget_hold) \<times> research_db" where
  "ledger_reserve now_ms reservation db =
     run_in_immediate_transaction (reserve_hold reservation now_ms) db"

definition ledger_reconcile ::
    "int \<Rightarrow> budget_reconciliation \<Rightarrow> research_db \<Rightarrow> (research_exn + budget_hold) \<times> research_db" where
  "ledger_reconcile now_ms reconciliation db =
     run_in_immediate_transaction (reconcile_hold reconciliation now_ms) db"

definition terminal_values :: "pystr set" where
  "terminal_values = research_state_value ` TERMINAL_RESEARCH_LIFECYCLE_STATES"

text \<open>The first hold, in the order of the table, whose accounting blocks new work.\<close>

fun blocking_hold :: "hold_row list \<Rightarrow> research_code option" where
  "blocking_hold [] = None"
| "blocking_hold (h # hs) =
     (if hd_state h = research_accounting_value RA_UNKNOWN then Some E_ACCOUNTING_UNKNOWN
      else if (case hd_accounted_usd_micros h of None \<Rightarrow> False | Some n \<Rightarrow> n > hd_reserved_usd_micros h) then Some E_BUDGET_EXCEEDED
      else blocking_hold hs)"

definition blocking_accounting_state :: "research_db \<Rightarrow> research_code option" where
  "blocking_accounting_state db =
     (case blocking_hold (rd_holds db) of
        Some code \<Rightarrow> Some code
      | None \<Rightarrow>
          if list_ex (\<lambda>h. hd_state h = research_accounting_value RA_RESERVED
               \<and> list_ex (\<lambda>c. rt_operation_id c = hd_operation_id h
                    \<and> rt_lifecycle_state c \<in> terminal_values) (rd_requests db)) (rd_holds db)
          then Some E_ACCOUNTING_UNKNOWN else None)"

definition ledger_consumed_micros :: "pystr \<Rightarrow> pystr \<Rightarrow> research_db \<Rightarrow> int \<times> int" where
  "ledger_consumed_micros day_key month_key db =
     (consumed_where hd_day_key day_key db, consumed_where hd_month_key month_key db)"

section \<open>The request repository\<close>

text \<open>A text parameter of a statement is encoded when it is bound.\<close>

definition bind_texts :: "pystr list \<Rightarrow> research_exn + unit" where
  "bind_texts ts = (if list_all encodable ts then Inr () else Inl UnicodeEncodeError)"

definition read_row :: "request_columns option \<Rightarrow> research_exn + research_row option" where
  "read_row = opt_map row_from_mapping"

definition select_request :: "pystr \<Rightarrow> research_db \<Rightarrow> request_columns option" where
  "select_request operation_id db = find (\<lambda>c. rt_operation_id c = operation_id) (rd_requests db)"

definition select_client :: "pystr \<Rightarrow> pystr \<Rightarrow> research_db \<Rightarrow> request_columns option" where
  "select_client owner client db =
     find (\<lambda>c. rt_owner_login_key c = owner \<and> rt_client_request_id c = client) (rd_requests db)"

definition get_request :: "pystr \<Rightarrow> research_db \<Rightarrow> (research_exn + research_row option) \<times> research_db" where
  "get_request operation_id db = run_in_transaction (\<lambda>db.
     and_then (bind_texts [operation_id]) (\<lambda>_.
     and_then (read_row (select_request operation_id db)) (\<lambda>r. Inr (r, db)))) db"

definition find_by_client ::
    "pystr \<Rightarrow> pystr \<Rightarrow> research_db \<Rightarrow> (research_exn + research_row option) \<times> research_db" where
  "find_by_client owner client db = run_in_transaction (\<lambda>db.
     and_then (bind_texts [owner, client]) (\<lambda>_.
     and_then (read_row (select_client owner client db)) (\<lambda>r. Inr (r, db)))) db"

text \<open>The columns whose text comes from outside: those an \<open>UPDATE\<close> binds, and all.\<close>

definition mutable_texts :: "request_columns \<Rightarrow> pystr list" where
  "mutable_texts c = rt_operation_id c
     # (case rt_checkpoint_json c of None \<Rightarrow> [] | Some s \<Rightarrow> [s])
     @ (case rt_checkpoint_sha256 c of None \<Rightarrow> [] | Some s \<Rightarrow> [s])
     @ (case rt_record_id c of None \<Rightarrow> [] | Some s \<Rightarrow> [s])"

definition row_texts :: "request_columns \<Rightarrow> pystr list" where
  "row_texts c = mutable_texts c @ [rt_owner_login_key c, rt_client_request_id c, rt_request_fingerprint c,
     rt_prompt_text c, rt_provider_id c, rt_model_id c, rt_configuration_version c, rt_reasoning_effort c]"

definition insert_request :: "request_columns \<Rightarrow> research_db \<Rightarrow> research_exn + research_db" where
  "insert_request c db =
     and_then (bind_texts (row_texts c)) (\<lambda>_.
     if request_admissible db c \<and> rt_operation_id c \<notin> set (map rt_operation_id (rd_requests db))
     then Inr (db\<lparr>rd_requests := rd_requests db @ [c]\<rparr>) else Inl IntegrityError)"

definition held_operation :: "research_db \<Rightarrow> pystr option" where
  "held_operation db = (case rd_slot db of None \<Rightarrow> None | Some s \<Rightarrow> sl_operation_id s)"

definition ensure_slot :: "research_db \<Rightarrow> research_db" where
  "ensure_slot db = (case rd_slot db of
     None \<Rightarrow> db\<lparr>rd_slot := Some \<lparr>sl_operation_id = None, sl_held_since_ms = None\<rparr>\<rparr> | Some _ \<Rightarrow> db)"

text \<open>The foreign key of the slot, and its shape.\<close>

definition set_slot :: "slot_row \<Rightarrow> research_db \<Rightarrow> research_exn + research_db" where
  "set_slot s db =
     (if rd_slot db = None then Inr db
      else if slot_row_ok s \<and> (case sl_operation_id s of None \<Rightarrow> True
             | Some i \<Rightarrow> i \<in> set (map rt_operation_id (rd_requests db)))
      then Inr (db\<lparr>rd_slot := Some s\<rparr>) else Inl IntegrityError)"

definition admit_operation ::
    "research_row \<Rightarrow> budget_reservation \<Rightarrow> research_db \<Rightarrow> research_exn + research_row \<times> research_db" where
  "admit_operation row reservation db =
     and_then (bind_texts [rw_owner_login_key row, rw_client_request_id row]) (\<lambda>_.
     (case select_client (rw_owner_login_key row) (rw_client_request_id row) db of
        Some existing \<Rightarrow>
          if rt_request_fingerprint existing = rw_request_fingerprint row
          then and_then (row_from_mapping existing) (\<lambda>r. Inr (r, db))
          else Inl (ResearchStoreError E_IDEMPOTENCY_CONFLICT)
      | None \<Rightarrow>
          let db0 = ensure_slot db
          in if held_operation db \<noteq> None then Inl (ResearchStoreError E_BUSY)
             else and_then (row_to_values row) (\<lambda>values.
               and_then (insert_request values db0) (\<lambda>db1.
               and_then (reserve_hold reservation (rw_admitted_at_ms row) db1) (\<lambda>(hold, db2).
               and_then (set_slot \<lparr>sl_operation_id = Some (row_id row),
                   sl_held_since_ms = Some (rw_admitted_at_ms row)\<rparr> db2) (\<lambda>db3. Inr (row, db3)))))))"

definition repository_admit ::
    "research_row \<Rightarrow> budget_reservation \<Rightarrow> research_db \<Rightarrow> (research_exn + research_row) \<times> research_db" where
  "repository_admit row reservation db =
     (if br_operation_id reservation \<noteq> row_id row
        \<or> br_reserved_usd_micros reservation \<noteq> sp_budget_reservation_usd_micros (rq_profile (rw_record row))
      then (Inl (ResearchStoreError E_INVALID_REQUEST), db)
      else run_in_immediate_transaction (admit_operation row reservation) db)"

definition release_slot :: "pystr \<Rightarrow> research_db \<Rightarrow> research_db" where
  "release_slot operation_id db =
     (case rd_slot db of
        Some s \<Rightarrow> if sl_operation_id s = Some operation_id
                  then db\<lparr>rd_slot := Some \<lparr>sl_operation_id = None, sl_held_since_ms = None\<rparr>\<rparr> else db
      | None \<Rightarrow> db)"

definition save_operation ::
    "research_row \<Rightarrow> request_columns \<Rightarrow> research_db \<Rightarrow> research_exn + research_row \<times> research_db" where
  "save_operation row values db =
     and_then (bind_texts (mutable_texts values)) (\<lambda>_.
     (case sql_update (request_admissible db) (\<lambda>c. rt_operation_id c = row_id row)
        (set_mutable_columns values) (rd_requests db) of
        None \<Rightarrow> Inl IntegrityError
      | Some (rows, rowcount) \<Rightarrow>
          if rowcount \<noteq> 1 then Inl (ResearchStoreError E_STORAGE)
          else let db1 = db\<lparr>rd_requests := rows\<rparr>
               in Inr (row, if is_terminal_lifecycle (row_state row) then release_slot (row_id row) db1 else db1)))"

definition repository_save :: "research_row \<Rightarrow> research_db \<Rightarrow> (research_exn + research_row) \<times> research_db" where
  "repository_save row db =
     (case row_to_values row of
        Inl e \<Rightarrow> (Inl e, db)
      | Inr values \<Rightarrow> run_in_immediate_transaction (save_operation row values) db)"

definition claim_operation ::
    "pystr \<Rightarrow> int \<Rightarrow> research_db \<Rightarrow> research_exn + research_row option \<times> research_db" where
  "claim_operation operation_id now_ms db =
     and_then (bind_texts [operation_id]) (\<lambda>_.
     (case sql_update (request_admissible db)
        (\<lambda>c. rt_operation_id c = operation_id \<and> rt_lifecycle_state c = research_state_value R_ADMITTED)
        (\<lambda>c. c\<lparr>rt_lifecycle_state := research_state_value R_SUBMITTING, rt_updated_at_ms := now_ms\<rparr>)
        (rd_requests db) of
        None \<Rightarrow> Inl IntegrityError
      | Some (rows, rowcount) \<Rightarrow>
          if rowcount \<noteq> 1 then Inr (None, db)
          else let db1 = db\<lparr>rd_requests := rows\<rparr>
               in and_then (read_row (select_request operation_id db1)) (\<lambda>r. Inr (r, db1))))"

definition claim_submission ::
    "int \<Rightarrow> pystr \<Rightarrow> research_db \<Rightarrow> (research_exn + research_row option) \<times> research_db" where
  "claim_submission now_ms operation_id db =
     run_in_immediate_transaction (claim_operation operation_id now_ms) db"

definition active_slot_operation_id :: "research_db \<Rightarrow> (research_exn + pystr option) \<times> research_db" where
  "active_slot_operation_id db = run_in_transaction (\<lambda>db. Inr (held_operation db, db)) db"

section \<open>Listings\<close>

definition list_cleanup_pending ::
    "int \<Rightarrow> research_db \<Rightarrow> (research_exn + research_row list) \<times> research_db" where
  "list_cleanup_pending limit db = run_in_transaction (\<lambda>db.
     and_then (map_results row_from_mapping
       (sql_order_limit (\<lambda>c. (rt_updated_at_ms c, rt_operation_id c)) (max 0 limit)
         (filter (\<lambda>c. rt_cleanup_state c = research_cleanup_value RC_PENDING \<and> rt_remote_handle_json c \<noteq> None
            \<and> rt_lifecycle_state c \<in> terminal_values) (rd_requests db)))) (\<lambda>rs. Inr (rs, db))) db"

definition page_of_requests :: "(request_columns \<Rightarrow> bool) \<Rightarrow> int \<Rightarrow> int \<Rightarrow> research_db \<Rightarrow> request_columns list" where
  "page_of_requests p limit offset db =
     take (nat (max 0 limit)) (drop (nat (max 0 offset))
       (sort_key (\<lambda>c. (- rt_created_at_ms c, rt_operation_id c)) (filter p (rd_requests db))))"

definition list_for_owner ::
    "pystr \<Rightarrow> int \<Rightarrow> int \<Rightarrow> research_db \<Rightarrow> (research_exn + research_row list) \<times> research_db" where
  "list_for_owner owner limit offset db = run_in_transaction (\<lambda>db.
     and_then (bind_texts [owner]) (\<lambda>_.
     and_then (map_results row_from_mapping
       (page_of_requests (\<lambda>c. rt_owner_login_key c = owner) limit offset db)) (\<lambda>rs. Inr (rs, db)))) db"

definition count_for_owner :: "pystr \<Rightarrow> research_db \<Rightarrow> (research_exn + nat) \<times> research_db" where
  "count_for_owner owner db = run_in_transaction (\<lambda>db.
     and_then (bind_texts [owner]) (\<lambda>_.
     Inr (length (filter (\<lambda>c. rt_owner_login_key c = owner) (rd_requests db)), db))) db"

definition list_all_requests ::
    "int \<Rightarrow> int \<Rightarrow> research_db \<Rightarrow> (research_exn + research_row list) \<times> research_db" where
  "list_all_requests limit offset db = run_in_transaction (\<lambda>db.
     and_then (map_results row_from_mapping (page_of_requests (\<lambda>_. True) limit offset db)) (\<lambda>rs. Inr (rs, db))) db"

definition count_all_requests :: "research_db \<Rightarrow> (research_exn + nat) \<times> research_db" where
  "count_all_requests db = run_in_transaction (\<lambda>db. Inr (length (rd_requests db), db)) db"

end
