(* ===== verification/Research_Store.thy ===== *)
theory Research_Store
  imports Research_Repository
begin

text \<open>
  What the research database keeps and what its transactions do to the requests it stores:
  the abstraction of the table as a map from operation ids to rows, the invariant of the
  tables, and each repository operation as an update of the map.
\<close>

section \<open>The stored requests\<close>

definition stored_row :: "request_columns \<Rightarrow> bool" where
  "stored_row c \<longleftrightarrow> (case row_from_mapping c of
     Inl _ \<Rightarrow> False | Inr r \<Rightarrow> research_row_valid r \<and> columns_of r = c)"

lemma stored_row_columns [simp]: "research_row_valid r \<Longrightarrow> stored_row (columns_of r)"
  by (simp add: stored_row_def row_read_back)

lemma stored_rowE:
  assumes "stored_row c"
  obtains r where "research_row_valid r" and "c = columns_of r"
  using assms by (auto simp: stored_row_def split: sum.splits)

definition request_map :: "research_db \<Rightarrow> pystr \<Rightarrow> research_row option" where
  "request_map db operation_id =
     (case select_request operation_id db of
        None \<Rightarrow> None
      | Some c \<Rightarrow> (case row_from_mapping c of Inl _ \<Rightarrow> None | Inr r \<Rightarrow> Some r))"

text \<open>The columns a save leaves alone are those of the stored row.\<close>

definition merge_row :: "research_row \<Rightarrow> research_row \<Rightarrow> research_row" where
  "merge_row r0 r = r0
     \<lparr>rw_record := (rw_record r0)
        \<lparr>rq_state := rq_state (rw_record r), rq_cleanup_state := rq_cleanup_state (rw_record r),
         rq_accounting_state := rq_accounting_state (rw_record r),
         rq_remote_handle := rq_remote_handle (rw_record r), rq_error_code := rq_error_code (rw_record r)\<rparr>,
      rw_checkpoint_json := rw_checkpoint_json r, rw_checkpoint_sha256 := rw_checkpoint_sha256 r,
      rw_record_id := rw_record_id r, rw_submitted_at_ms := rw_submitted_at_ms r,
      rw_finished_at_ms := rw_finished_at_ms r, rw_updated_at_ms := rw_updated_at_ms r,
      rw_cancel_requested_at_ms := rw_cancel_requested_at_ms r,
      rw_cancellation_confirmed_at_ms := rw_cancellation_confirmed_at_ms r\<rparr>"

text \<open>The same request at another moment of its life.\<close>

definition same_request :: "research_row \<Rightarrow> research_row \<Rightarrow> bool" where
  "same_request r0 r \<longleftrightarrow> merge_row r0 r = r"

lemma merge_row_simps [simp]:
  "row_id (merge_row r0 r) = row_id r0" "row_state (merge_row r0 r) = row_state r"
  "row_handle (merge_row r0 r) = row_handle r" "rq_prompt (rw_record (merge_row r0 r)) = rq_prompt (rw_record r0)"
  "rq_profile (rw_record (merge_row r0 r)) = rq_profile (rw_record r0)"
  "rq_resource_limits (rw_record (merge_row r0 r)) = rq_resource_limits (rw_record r0)"
  "rq_deadline_seconds (rw_record (merge_row r0 r)) = rq_deadline_seconds (rw_record r0)"
  "rw_record_id (merge_row r0 r) = rw_record_id r"
  "rw_owner_login_key (merge_row r0 r) = rw_owner_login_key r0"
  "rw_client_request_id (merge_row r0 r) = rw_client_request_id r0"
  "rw_request_fingerprint (merge_row r0 r) = rw_request_fingerprint r0"
  "rw_created_at_ms (merge_row r0 r) = rw_created_at_ms r0" "rw_admitted_at_ms (merge_row r0 r) = rw_admitted_at_ms r0"
  "rq_kind (rw_record (merge_row r0 r)) = rq_kind (rw_record r0)"
  by (simp_all add: merge_row_def)

lemma merge_columns: "set_mutable_columns (row_columns n r) (columns_of r0) = columns_of (merge_row r0 r)"
  by (rule request_columns.equality)
    (simp_all add: set_mutable_columns_def merge_row_def)

lemma same_request_refl [simp]: "same_request r r"
  by (simp add: same_request_def merge_row_def)

lemma same_request_id: "same_request r0 r \<Longrightarrow> row_id r = row_id r0"
  unfolding same_request_def by (metis merge_row_simps(1))

lemma merge_valid:
  assumes "research_row_valid r0" and "case row_handle r of None \<Rightarrow> True | Some v \<Rightarrow> handle_ok v"
  shows "research_row_valid (merge_row r0 r)"
  using assms
  by (simp add: research_row_valid_def limits_agree_def research_request_post_init_def)

section \<open>The invariant of the tables\<close>

interpretation request_table: keyed_rows rt_operation_id "\<lambda>c. request_checks_ok c \<and> stored_row c" request_rows_clash
  by unfold_locales (auto simp: request_rows_clash_def)

definition requests_ok :: "request_columns list \<Rightarrow> bool" where
  "requests_ok rows \<longleftrightarrow> keyed_rows_ok rt_operation_id (\<lambda>c. request_checks_ok c \<and> stored_row c) request_rows_clash rows"

definition request_ids :: "research_db \<Rightarrow> pystr list" where
  "request_ids db = map rt_operation_id (rd_requests db)"

definition slot_ok :: "research_db \<Rightarrow> bool" where
  "slot_ok db \<longleftrightarrow> (case rd_slot db of None \<Rightarrow> True | Some s \<Rightarrow> slot_row_ok s)
     \<and> (case held_operation db of None \<Rightarrow> True | Some i \<Rightarrow> i \<in> set (request_ids db))"

definition holds_ok :: "research_db \<Rightarrow> bool" where
  "holds_ok db \<longleftrightarrow> distinct (map hd_operation_id (rd_holds db)) \<and> list_all hold_row_ok (rd_holds db)
     \<and> set (map hd_operation_id (rd_holds db)) = set (request_ids db)"

definition db_ok :: "research_db \<Rightarrow> bool" where
  "db_ok db \<longleftrightarrow> requests_ok (rd_requests db) \<and> list_all (request_fk_ok db) (rd_requests db)
     \<and> list_all (\<lambda>c. list_all encodable (row_texts c)) (rd_requests db) \<and> slot_ok db \<and> holds_ok db"

lemma db_okD:
  assumes "db_ok db"
  shows "requests_ok (rd_requests db)" "slot_ok db" "holds_ok db"
    "c \<in> set (rd_requests db) \<Longrightarrow> request_fk_ok db c"
    "c \<in> set (rd_requests db) \<Longrightarrow> x \<in> set (row_texts c) \<Longrightarrow> encodable x"
  using assms by (auto simp: db_ok_def list_all_iff)

lemma empty_db_ok: "db_ok empty_research_db"
  by (simp add: db_ok_def empty_research_db_def requests_ok_def slot_ok_def holds_ok_def held_operation_def
      request_ids_def)

lemma requests_distinct: "requests_ok rows \<Longrightarrow> distinct (map rt_operation_id rows)"
  unfolding requests_ok_def by (rule keyed_rows_okD(1))

lemma requests_stored: "requests_ok rows \<Longrightarrow> c \<in> set rows \<Longrightarrow> request_checks_ok c \<and> stored_row c"
  unfolding requests_ok_def by (rule keyed_rows_okD(2))

text \<open>Each stored row stands for one valid row.\<close>

lemma select_request_map:
  assumes "requests_ok (rd_requests db)"
  shows "select_request i db = map_option columns_of (request_map db i)"
    and "request_map db i = Some r \<Longrightarrow> research_row_valid r \<and> row_id r = i"
    and "request_map db i = None \<longleftrightarrow> i \<notin> set (request_ids db)"
proof -
  have f: "select_request i db = Some c \<longleftrightarrow> c \<in> set (rd_requests db) \<and> rt_operation_id c = i" for c
    unfolding select_request_def by (rule find_key_Some_iff [OF requests_distinct [OF assms]])
  have v: "\<exists>r. research_row_valid r \<and> c = columns_of r \<and> request_map db i = Some r"
    if "select_request i db = Some c" for c
  proof -
    have "stored_row c" using that requests_stored [OF assms] f by blast
    then obtain r where "research_row_valid r" "c = columns_of r" by (rule stored_rowE)
    then show ?thesis using that by (simp add: request_map_def row_read_back)
  qed
  show "select_request i db = map_option columns_of (request_map db i)"
  proof (cases "select_request i db")
    case None
    then show ?thesis by (simp add: request_map_def)
  next
    case (Some c)
    then show ?thesis using v by fastforce
  qed
  show "request_map db i = Some r \<Longrightarrow> research_row_valid r \<and> row_id r = i"
  proof -
    assume r: "request_map db i = Some r"
    then obtain c where c: "select_request i db = Some c" by (auto simp: request_map_def split: option.splits)
    then obtain r' where "research_row_valid r'" "c = columns_of r'" "request_map db i = Some r'" using v by blast
    then show ?thesis using r c f by auto
  qed
  have "request_map db i = None \<longleftrightarrow> select_request i db = None"
    using v by (cases "select_request i db") (auto simp: request_map_def)
  then show "request_map db i = None \<longleftrightarrow> i \<notin> set (request_ids db)"
    by (simp add: select_request_def find_None_iff request_ids_def image_iff) metis
qed

lemma request_map_row:
  assumes "requests_ok (rd_requests db)" and "request_map db i = Some r"
  shows "columns_of r \<in> set (rd_requests db)"
  using select_request_map(1) [OF assms(1), of i] assms(2)
  by (auto simp: select_request_def find_Some_iff)

lemma row_in_map:
  assumes "requests_ok (rd_requests db)" and "c \<in> set (rd_requests db)"
  shows "\<exists>r. c = columns_of r \<and> research_row_valid r \<and> request_map db (rt_operation_id c) = Some r"
proof -
  have f: "select_request (rt_operation_id c) db = Some c"
    unfolding select_request_def using find_key_Some_iff [OF requests_distinct [OF assms(1)]] assms(2) by blast
  obtain r where "research_row_valid r" "c = columns_of r"
    using requests_stored [OF assms] by (auto elim: stored_rowE)
  then show ?thesis using f by (auto simp: request_map_def row_read_back)
qed

lemma get_request_eval:
  assumes "db_ok db" and "encodable i"
  shows "get_request i db = (Inr (request_map db i), db)"
proof -
  have "read_row (select_request i db) = Inr (request_map db i)"
    using select_request_map(1,2) [OF db_okD(1) [OF assms(1)], of i]
    by (cases "request_map db i") (simp_all add: read_row_def row_read_back)
  then show ?thesis using assms(2) by (simp add: get_request_def bind_texts_def run_in_transaction_def)
qed

lemma encodable_id:
  assumes "db_ok db" and "request_map db i \<noteq> None"
  shows "encodable i"
proof -
  obtain c where "c \<in> set (rd_requests db)" "rt_operation_id c = i"
    using assms select_request_map(3) [OF db_okD(1) [OF assms(1)], of i] by (auto simp: request_ids_def)
  then show ?thesis using db_okD(5) [OF assms(1), of c "rt_operation_id c"] by (simp add: row_texts_def mutable_texts_def)
qed

section \<open>Replacing a stored request\<close>

definition put_request :: "research_row \<Rightarrow> research_db \<Rightarrow> research_db" where
  "put_request r db = db\<lparr>rd_requests :=
     map (\<lambda>c. if rt_operation_id c = row_id r then columns_of r else c) (rd_requests db)\<rparr>"

lemma put_request_simps [simp]:
  "rd_slot (put_request r db) = rd_slot db" "rd_holds (put_request r db) = rd_holds db"
  "rd_documents (put_request r db) = rd_documents db" "rd_records (put_request r db) = rd_records db"
  "held_operation (put_request r db) = held_operation db"
  by (simp_all add: put_request_def held_operation_def)

lemma rd_requests_put:
  "rd_requests (put_request r db) = map (\<lambda>c. if rt_operation_id c = row_id r then columns_of r else c) (rd_requests db)"
  by (simp add: put_request_def)

lemma put_request_ids [simp]: "request_ids (put_request r db) = request_ids db"
  by (simp add: put_request_def request_ids_def)

lemma select_put:
  assumes "requests_ok (rd_requests db)" and "request_map db (row_id r) \<noteq> None"
  shows "select_request i (put_request r db) = (if i = row_id r then Some (columns_of r) else select_request i db)"
proof -
  obtain r0 where r0: "request_map db (row_id r) = Some r0" using assms(2) by blast
  have p: "select_request (row_id r) db = Some (columns_of r0)"
    using select_request_map(1) [OF assms(1), of "row_id r"] r0 by simp
  have q: "rt_operation_id (columns_of r0) = row_id r"
    using select_request_map(2) [OF assms(1) r0] by simp
  have f: "select_request i (put_request r db) = (case select_request i db of None \<Rightarrow> None
      | Some c \<Rightarrow> Some (if rt_operation_id c = row_id r \<and> True then columns_of r else c))"
    using find_after_replace [of rt_operation_id "rd_requests db" "columns_of r" "row_id r" i "\<lambda>_. True"]
      requests_distinct [OF assms(1)]
    unfolding select_request_def put_request_def by simp
  show ?thesis
  proof (cases "i = row_id r")
    case True
    then show ?thesis unfolding f using p q by simp
  next
    case False
    have "rt_operation_id c \<noteq> row_id r" if "select_request i db = Some c" for c
      using that False by (auto simp: select_request_def find_Some_iff)
    then show ?thesis unfolding f using False by (simp split: option.splits)
  qed
qed

lemma request_map_put:
  assumes "requests_ok (rd_requests db)" and "research_row_valid r" and "request_map db (row_id r) \<noteq> None"
  shows "request_map (put_request r db) = (request_map db)(row_id r \<mapsto> r)"
  by (rule ext) (simp add: request_map_def select_put [OF assms(1,3)] row_read_back [OF assms(2)])

lemma put_request_ok:
  assumes ok: "db_ok db" and v: "research_row_valid r" and a: "request_admissible db (columns_of r)"
    and t: "list_all encodable (row_texts (columns_of r))"
  shows "db_ok (put_request r db)"
proof -
  let ?rows = "map (\<lambda>c. if rt_operation_id c = row_id r then columns_of r else c) (rd_requests db)"
  have "keyed_rows_ok rt_operation_id (\<lambda>c. request_checks_ok c \<and> stored_row c) request_rows_clash
      (map (\<lambda>c. if rt_operation_id c = rt_operation_id (columns_of r) \<and> True then columns_of r else c) (rd_requests db))"
    using db_okD(1) [OF ok] v a
    by (intro request_table.replace_keeps) (simp_all add: requests_ok_def request_admissible_def)
  then have "requests_ok ?rows" by (simp add: requests_ok_def)
  moreover have "request_fk_ok (put_request r db) c = request_fk_ok db c" for c
    by (simp add: request_fk_ok_def split: option.splits)
  then have "list_all (request_fk_ok (put_request r db)) ?rows"
    using db_okD(4) [OF ok] a by (auto simp: list_all_iff request_admissible_def)
  moreover have "list_all (\<lambda>c. list_all encodable (row_texts c)) ?rows"
    using db_okD(5) [OF ok] t by (auto simp: list_all_iff)
  moreover have "slot_ok (put_request r db)" "holds_ok (put_request r db)"
    using db_okD(2,3) [OF ok] by (simp_all add: slot_ok_def holds_ok_def split: option.splits)
  ultimately show ?thesis by (simp add: db_ok_def put_request_def)
qed

section \<open>The repository operations\<close>

text \<open>An \<open>UPDATE\<close> by operation id touches the one stored row.\<close>

lemma update_request:
  assumes ok: "requests_ok (rd_requests db)"
  shows "request_map db i = Some r0 \<Longrightarrow>
      sql_update adm (\<lambda>c. rt_operation_id c = i \<and> g c) f (rd_requests db) =
      (if \<not> g (columns_of r0) then Some (rd_requests db, 0)
       else if adm (f (columns_of r0))
       then Some (map (\<lambda>c. if rt_operation_id c = i then f (columns_of r0) else c) (rd_requests db), 1)
       else None)"
    and "request_map db i = None \<Longrightarrow>
      sql_update adm (\<lambda>c. rt_operation_id c = i \<and> g c) f (rd_requests db) = Some (rd_requests db, 0)"
proof -
  let ?rows = "rd_requests db"
  assume r0: "request_map db i = Some r0"
  have f: "find (\<lambda>c. rt_operation_id c = i) ?rows = Some (columns_of r0)"
    using select_request_map(1) [OF ok, of i] r0 by (simp add: select_request_def)
  have u: "c = columns_of r0" if "c \<in> set ?rows" "rt_operation_id c = i" for c
    using find_key_Some_iff [OF requests_distinct [OF ok], of i c] f that by simp
  have m: "columns_of r0 \<in> set ?rows" "rt_operation_id (columns_of r0) = i"
    using request_map_row [OF ok r0] select_request_map(2) [OF ok r0] by simp_all
  have n: "length (filter (\<lambda>c. rt_operation_id c = i \<and> g c) ?rows) = (if g (columns_of r0) then 1 else 0)"
    using count_key_unique [OF requests_distinct [OF ok], of i g] f by simp
  show "sql_update adm (\<lambda>c. rt_operation_id c = i \<and> g c) f ?rows =
      (if \<not> g (columns_of r0) then Some (?rows, 0)
       else if adm (f (columns_of r0))
       then Some (map (\<lambda>c. if rt_operation_id c = i then f (columns_of r0) else c) ?rows, 1)
       else None)"
  proof (cases "g (columns_of r0)")
    case False
    then have no: "\<not> (rt_operation_id c = i \<and> g c)" if "c \<in> set ?rows" for c using u that by blast
    then have "list_ex (\<lambda>c. (rt_operation_id c = i \<and> g c) \<and> \<not> adm (f c)) ?rows \<longleftrightarrow> False"
      by (auto simp: list_ex_iff)
    moreover have "map (\<lambda>c. if rt_operation_id c = i \<and> g c then f c else c) ?rows = ?rows"
      using no by (intro map_idI) auto
    ultimately show ?thesis using False n by (simp add: sql_update_def)
  next
    case True
    have "list_ex (\<lambda>c. (rt_operation_id c = i \<and> g c) \<and> \<not> adm (f c)) ?rows \<longleftrightarrow> \<not> adm (f (columns_of r0))"
      unfolding list_ex_iff using u m True by metis
    moreover have "map (\<lambda>c. if rt_operation_id c = i \<and> g c then f c else c) ?rows
        = map (\<lambda>c. if rt_operation_id c = i then f (columns_of r0) else c) ?rows"
    proof (intro map_cong refl)
      fix c assume c: "c \<in> set ?rows"
      show "(if rt_operation_id c = i \<and> g c then f c else c) = (if rt_operation_id c = i then f (columns_of r0) else c)"
        using u [OF c] True by (cases "rt_operation_id c = i") simp_all
    qed
    ultimately show ?thesis using True n by (simp add: sql_update_def)
  qed
next
  assume "request_map db i = None"
  then have no: "rt_operation_id c \<noteq> i" if "c \<in> set (rd_requests db)" for c
    using that select_request_map(3) [OF ok, of i] by (auto simp: request_ids_def)
  have "list_ex (\<lambda>c. (rt_operation_id c = i \<and> g c) \<and> \<not> adm (f c)) (rd_requests db) \<longleftrightarrow> False"
    using no by (auto simp: list_ex_iff)
  moreover have "map (\<lambda>c. if rt_operation_id c = i \<and> g c then f c else c) (rd_requests db) = rd_requests db"
    using no by (intro map_idI) auto
  moreover have "filter (\<lambda>c. rt_operation_id c = i \<and> g c) (rd_requests db) = []"
    using no by (auto simp: filter_empty_conv)
  ultimately show "sql_update adm (\<lambda>c. rt_operation_id c = i \<and> g c) f (rd_requests db) = Some (rd_requests db, 0)"
    by (simp add: sql_update_def)
qed

definition finished_slot :: "research_row \<Rightarrow> research_db \<Rightarrow> research_db" where
  "finished_slot r db = (if is_terminal_lifecycle (row_state r) then release_slot (row_id r) db else db)"

lemma mutable_texts_columns: "mutable_texts (row_columns n r) = mutable_texts (columns_of r)"
  by (simp add: mutable_texts_def)

lemma save_eval:
  assumes ok: "db_ok db" and p: "encodable (rq_prompt (rw_record r))"
  shows "repository_save r db =
    (if \<not> list_all encodable (mutable_texts (columns_of r)) then (Inl UnicodeEncodeError, db)
     else case request_map db (row_id r) of
       None \<Rightarrow> (Inl (ResearchStoreError E_STORAGE), db)
     | Some r0 \<Rightarrow>
         if request_admissible db (columns_of (merge_row r0 r))
         then (Inr r, finished_slot r (put_request (merge_row r0 r) db))
         else (Inl IntegrityError, db))"
proof -
  have v: "row_to_values r = Inr (columns_of r)" using p by (simp add: row_to_values_def utf8_length_def)
  let ?u = "sql_update (request_admissible db) (\<lambda>c. rt_operation_id c = row_id r) (set_mutable_columns (columns_of r))
      (rd_requests db)"
  show ?thesis
  proof (cases "request_map db (row_id r)")
    case None
    then have "?u = Some (rd_requests db, 0)"
      using update_request(2) [OF db_okD(1) [OF ok] None, of "request_admissible db" "\<lambda>_. True"] by simp
    then show ?thesis using None
      by (simp add: repository_save_def v save_operation_def bind_texts_def run_in_immediate_transaction_def)
  next
    case (Some r0)
    have i: "row_id r0 = row_id r" using select_request_map(2) [OF db_okD(1) [OF ok] Some] by simp
    have "?u = (if request_admissible db (columns_of (merge_row r0 r))
        then Some (rd_requests (put_request (merge_row r0 r) db), 1) else None)"
      using update_request(1) [OF db_okD(1) [OF ok] Some, of "request_admissible db" "\<lambda>_. True" "set_mutable_columns (columns_of r)"]
      unfolding merge_columns rd_requests_put merge_row_simps(1) i by simp
    then have u: "?u = (if request_admissible db (columns_of (merge_row r0 r))
        then Some (rd_requests (put_request (merge_row r0 r) db), 1) else None)" .
    have d: "db\<lparr>rd_requests := rd_requests (put_request (merge_row r0 r) db)\<rparr> = put_request (merge_row r0 r) db"
      by (simp add: put_request_def)
    show ?thesis
      unfolding repository_save_def v sum.case run_in_immediate_transaction_def save_operation_def u Some option.case
        bind_texts_def
      by (cases "list_all encodable (mutable_texts (columns_of r))";
          cases "request_admissible db (columns_of (merge_row r0 r))")
        (simp_all only: if_True if_False and_then_simps option.case prod.case sum.case Let_def d finished_slot_def
          not_True_eq_False not_False_eq_True simp_thms)
  qed
qed

definition saves :: "research_db \<Rightarrow> research_row \<Rightarrow> bool" where
  "saves db r \<longleftrightarrow> list_all encodable (mutable_texts (columns_of r)) \<and> request_admissible db (columns_of r)"

lemma release_slot_simps [simp]:
  "rd_requests (release_slot i db) = rd_requests db" "rd_holds (release_slot i db) = rd_holds db"
  "rd_documents (release_slot i db) = rd_documents db" "rd_records (release_slot i db) = rd_records db"
  by (simp_all add: release_slot_def split: option.splits)

lemma held_release: "held_operation (release_slot i db) = (if held_operation db = Some i then None else held_operation db)"
  by (simp add: release_slot_def held_operation_def split: option.splits)

lemma request_map_slot: "rd_requests db' = rd_requests db \<Longrightarrow> request_map db' = request_map db"
  by (rule ext) (simp add: request_map_def select_request_def)

lemma request_ids_slot: "rd_requests db' = rd_requests db \<Longrightarrow> request_ids db' = request_ids db"
  by (simp add: request_ids_def)

lemma release_slot_ok:
  assumes "db_ok db"
  shows "db_ok (release_slot i db)"
proof -
  have "request_fk_ok (release_slot i db) = request_fk_ok db"
    by (rule ext) (simp add: request_fk_ok_def split: option.splits)
  moreover have "slot_ok (release_slot i db)"
    using db_okD(2) [OF assms] request_ids_slot [of "release_slot i db" db]
    unfolding slot_ok_def held_release
    by (auto simp: release_slot_def slot_row_ok_def split: option.splits if_splits)
  moreover have "holds_ok (release_slot i db)"
    using db_okD(3) [OF assms] request_ids_slot [of "release_slot i db" db] by (simp add: holds_ok_def)
  ultimately show ?thesis using assms by (simp add: db_ok_def)
qed

lemma finished_slot_simps [simp]:
  "rd_requests (finished_slot r db) = rd_requests db" "rd_holds (finished_slot r db) = rd_holds db"
  "rd_documents (finished_slot r db) = rd_documents db" "rd_records (finished_slot r db) = rd_records db"
  by (simp_all add: finished_slot_def)

lemma held_finished:
  "held_operation (finished_slot r db) =
    (if is_terminal_lifecycle (row_state r) \<and> held_operation db = Some (row_id r) then None else held_operation db)"
  by (simp add: finished_slot_def held_release)

lemma finished_slot_ok: "db_ok db \<Longrightarrow> db_ok (finished_slot r db)"
  by (simp add: finished_slot_def release_slot_ok)

text \<open>Saving the stored request at another moment of its life: an error changes nothing; otherwise
  the row is replaced, and a terminal row gives up the slot it holds.\<close>

lemma save_step:
  assumes ok: "db_ok db" and r0: "request_map db (row_id r) = Some r0" and s: "same_request r0 r"
    and v: "research_row_valid r"
  shows "repository_save r db = (if saves db r then (Inr r, finished_slot r (put_request r db))
      else (Inl (if list_all encodable (mutable_texts (columns_of r)) then IntegrityError else UnicodeEncodeError), db))"
    and "saves db r \<Longrightarrow> db_ok (finished_slot r (put_request r db))"
    and "request_map (finished_slot r (put_request r db)) = (request_map db)(row_id r \<mapsto> r)"
proof -
  have m: "merge_row r0 r = r" using s by (simp add: same_request_def)
  have p: "encodable (rq_prompt (rw_record r))" using v by (simp add: research_row_valid_def)
  show "repository_save r db = (if saves db r then (Inr r, finished_slot r (put_request r db))
      else (Inl (if list_all encodable (mutable_texts (columns_of r)) then IntegrityError else UnicodeEncodeError), db))"
    unfolding save_eval [OF ok p] r0 option.case m saves_def by simp
  have q: "rq_prompt (rw_record r) = rq_prompt (rw_record r0)" "rq_profile (rw_record r) = rq_profile (rw_record r0)"
      "rw_owner_login_key r = rw_owner_login_key r0" "rw_client_request_id r = rw_client_request_id r0"
      "rw_request_fingerprint r = rw_request_fingerprint r0"
    using m by (metis merge_row_simps)+
  show "db_ok (finished_slot r (put_request r db))" if a: "saves db r"
  proof (rule finished_slot_ok [OF put_request_ok [OF ok v]])
    show "request_admissible db (columns_of r)" using a by (simp add: saves_def)
    have "list_all encodable (row_texts (columns_of r0))"
      using db_okD(5) [OF ok request_map_row [OF db_okD(1) [OF ok] r0]] by (simp add: list_all_iff)
    then show "list_all encodable (row_texts (columns_of r))"
      using a q by (simp add: row_texts_def saves_def)
  qed
  show "request_map (finished_slot r (put_request r db)) = (request_map db)(row_id r \<mapsto> r)"
    using request_map_put [OF db_okD(1) [OF ok] v] r0
    by (simp add: request_map_slot [of "finished_slot r (put_request r db)" "put_request r db"])
qed

lemma claim_step:
  assumes ok: "db_ok db" and i: "encodable i"
  shows "(\<And>r. request_map db i = Some r \<Longrightarrow> row_state r \<noteq> R_ADMITTED) \<Longrightarrow> claim_submission now i db = (Inr None, db)"
    and "request_map db i = Some r \<Longrightarrow> row_state r = R_ADMITTED \<Longrightarrow>
      r' = r\<lparr>rw_record := (rw_record r)\<lparr>rq_state := R_SUBMITTING\<rparr>, rw_updated_at_ms := now\<rparr> \<Longrightarrow>
      claim_submission now i db = (if request_admissible db (columns_of r') then (Inr (Some r'), put_request r' db)
        else (Inl IntegrityError, db))"
proof -
  let ?g = "\<lambda>c. rt_lifecycle_state c = research_state_value R_ADMITTED"
  let ?f = "\<lambda>c. c\<lparr>rt_lifecycle_state := research_state_value R_SUBMITTING, rt_updated_at_ms := now\<rparr>"
  note u = update_request [OF db_okD(1) [OF ok], where i = i and adm = "request_admissible db" and g = ?g and f = ?f]
  { assume n: "\<And>r. request_map db i = Some r \<Longrightarrow> row_state r \<noteq> R_ADMITTED"
    have "sql_update (request_admissible db) (\<lambda>c. rt_operation_id c = i \<and> ?g c) ?f (rd_requests db) = Some (rd_requests db, 0)"
    proof (cases "request_map db i")
      case None
      then show ?thesis by (rule u(2))
    next
      case (Some r)
      have "\<not> ?g (columns_of r)" using n [OF Some] by simp
      then show ?thesis using u(1) [OF Some] by (simp only: if_True not_False_eq_True)
    qed
    then show "claim_submission now i db = (Inr None, db)"
      using i by (simp add: claim_submission_def claim_operation_def bind_texts_def run_in_immediate_transaction_def) }
  { assume r: "request_map db i = Some r" and st: "row_state r = R_ADMITTED"
      and r': "r' = r\<lparr>rw_record := (rw_record r)\<lparr>rq_state := R_SUBMITTING\<rparr>, rw_updated_at_ms := now\<rparr>"
    note rv = select_request_map(2) [OF db_okD(1) [OF ok] r]
    have v': "research_row_valid r'" and id': "row_id r' = i"
      using rv unfolding r' by (auto simp: research_row_valid_def limits_agree_def research_request_post_init_def)
    have f: "?f (columns_of r) = columns_of r'"
      unfolding r' by (rule request_columns.equality) simp_all
    have up: "sql_update (request_admissible db) (\<lambda>c. rt_operation_id c = i \<and> ?g c) ?f (rd_requests db)
        = (if request_admissible db (columns_of r') then Some (rd_requests (put_request r' db), 1) else None)"
      using u(1) [OF r] unfolding f rd_requests_put id' by (simp add: st)
    have d: "db\<lparr>rd_requests := rd_requests (put_request r' db)\<rparr> = put_request r' db"
      by (simp add: put_request_def)
    have sel: "read_row (select_request i (put_request r' db)) = Inr (Some r')"
      using select_put [OF db_okD(1) [OF ok], of r' i] r id' v' by (simp add: read_row_def row_read_back)
    show "claim_submission now i db = (if request_admissible db (columns_of r') then (Inr (Some r'), put_request r' db)
        else (Inl IntegrityError, db))"
      using i unfolding claim_submission_def claim_operation_def run_in_immediate_transaction_def up
      by (simp add: bind_texts_def Let_def d sel) }
qed

end
