(* ===== verification/Research_Coordinator.thy ===== *)
theory Research_Coordinator
  imports Research_Store Programs
begin

text \<open>
  \<open>src/framenest/application/research.py\<close> and the port values of
  \<open>application/ports/research.py\<close>.  Each method of \<open>ResearchCoordinator\<close> is a program whose
  steps are the transactions of the repository, of the ledger and of the completion store, the
  calls of the provider and the readings of the clock, in the order of the source.

  What the coordinator is given is an environment: the answers of the provider as a function of
  the calls made so far, the clock, fresh operation ids and UUIDs, the selection of a provider,
  the price schedules, SHA-256, and the Unicode tables.  The provider, its clock and its network
  are not part of the source.
\<close>

section \<open>Environment and world\<close>

record selection_snapshot =
  ss_provider_id :: pystr
  ss_model_id :: pystr
  ss_kind :: research_kind
  ss_profile :: selected_profile
  ss_resource_limits :: resource_limits
  ss_deadline_seconds :: int
  ss_descriptor :: provider_descriptor
  ss_live_ready :: bool
  ss_daily_budget_usd_micros :: int
  ss_monthly_budget_usd_micros :: int

record admission_receipt =
  ar_row :: research_row
  ar_newly_admitted :: bool

datatype provider_call = PSubmit provider_request | PPoll pystr | PCancel pystr | PRelease pystr

record research_env =
  en_observe :: "provider_call list \<Rightarrow> unit + observation"
  en_cleanup :: "provider_call list \<Rightarrow> unit + cleanup_outcome"
  en_clock :: "nat \<Rightarrow> int"
  en_operation_id :: "nat \<Rightarrow> pystr"
  en_document_id :: "nat \<Rightarrow> uuid"
  en_record_id :: "nat \<Rightarrow> uuid"
  en_select :: "nat \<Rightarrow> research_kind \<Rightarrow> research_code + selection_snapshot"
  en_admission_guard :: "(selection_snapshot \<Rightarrow> int \<Rightarrow> research_code option) option"
  en_accounting_blocker :: bool
  en_submission_enabled :: "(nat \<Rightarrow> bool) option"
  en_price_schedule :: "(pystr \<Rightarrow> pystr \<Rightarrow> pystr \<Rightarrow> price_schedule option) option"
  en_sha256 :: "pystr \<Rightarrow> pystr"
  en_tables :: unicode_tables

record research_world =
  wd_db :: research_db
  wd_calls :: "provider_call list"
  wd_ticks :: nat

type_synonym 'a rprog = "(research_world, research_exn, 'a) eprog"

definition tx :: "(research_db \<Rightarrow> (research_exn + 'a) \<times> research_db) \<Rightarrow> 'a rprog" where
  "tx f = atomic (\<lambda>w. case f (wd_db w) of (r, db) \<Rightarrow> (r, w\<lparr>wd_db := db\<rparr>))"

definition tick :: "(nat \<Rightarrow> 'a) \<Rightarrow> 'a rprog" where
  "tick f = atomic (\<lambda>w. (Inr (f (wd_ticks w)), w\<lparr>wd_ticks := Suc (wd_ticks w)\<rparr>))"

definition clock_ms :: "research_env \<Rightarrow> int rprog" where
  "clock_ms env = tick (en_clock env)"

text \<open>A provider call whose exception is handled by its caller.\<close>

definition provider_call_prog ::
    "(provider_call list \<Rightarrow> unit + 'a) \<Rightarrow> provider_call \<Rightarrow> (research_world, unit, 'a) eprog" where
  "provider_call_prog answer c =
     atomic (\<lambda>w. let calls = wd_calls w @ [c] in (answer calls, w\<lparr>wd_calls := calls\<rparr>))"

section \<open>Fingerprints and checkpoints\<close>

definition FINGERPRINT_VERSION :: int where "FINGERPRINT_VERSION = 2"
definition LEGACY_RESEARCH_PROFILE_VERSION :: pystr where "LEGACY_RESEARCH_PROFILE_VERSION = lit ''3''"

definition fingerprint_object :: "pystr \<Rightarrow> research_kind \<Rightarrow> pystr \<Rightarrow> pystr \<Rightarrow> json" where
  "fingerprint_object owner kind prompt consent = JObj [
     (lit ''consent_version'', JStr consent), (lit ''fingerprint_version'', JInt FINGERPRINT_VERSION),
     (lit ''kind'', JStr (research_kind_value kind)), (lit ''owner'', JStr owner), (lit ''prompt'', JStr prompt)]"

definition sha256_text :: "research_env \<Rightarrow> pystr \<Rightarrow> research_exn + pystr" where
  "sha256_text env s = (if encodable s then Inr (en_sha256 env s) else Inl UnicodeEncodeError)"

definition research_request_fingerprint ::
    "research_env \<Rightarrow> pystr \<Rightarrow> research_kind \<Rightarrow> pystr \<Rightarrow> pystr \<Rightarrow> research_exn + pystr" where
  "research_request_fingerprint env owner kind prompt consent =
     sha256_text env (json_dumps compact_style (fingerprint_object owner kind prompt consent))"

definition optional_int_json :: "int option \<Rightarrow> json" where
  "optional_int_json n = (case n of None \<Rightarrow> JNull | Some k \<Rightarrow> JInt k)"

definition usage_json :: "research_usage \<Rightarrow> json" where
  "usage_json u = JObj [
     (lit ''cache_write_input_tokens'', optional_int_json (ru_cache_write_input_tokens u)),
     (lit ''cached_input_tokens'', JInt (ru_cached_input_tokens u)),
     (lit ''input_tokens'', JInt (ru_input_tokens u)), (lit ''output_tokens'', JInt (ru_output_tokens u)),
     (lit ''reasoning_tokens'', JInt (ru_reasoning_tokens u)),
     (lit ''web_tool_calls'', JInt (ru_web_tool_calls u))]"

definition answer_object :: "research_answer \<Rightarrow> json" where
  "answer_object a = JObj [
     (lit ''citations'', JList (map citation_json (an_citations a))),
     (lit ''evidence'', evidence_object (an_evidence a)),
     (lit ''text'', JStr (an_text a)),
     (lit ''usage'', case an_usage a of None \<Rightarrow> JNull | Some u \<Rightarrow> usage_json u)]"

definition answer_checkpoint :: "research_answer \<Rightarrow> pystr" where
  "answer_checkpoint a = json_dumps compact_style (answer_object a)"

text \<open>
  Reading a checkpoint.  \<open>KeyError\<close>, \<open>TypeError\<close> and \<open>ValueError\<close> give \<open>None\<close>; a payload that is
  not an object has no \<open>get\<close>.  \<open>str\<close>, \<open>int\<close> and \<open>bool\<close> of a JSON value are modelled for the
  values \<open>_answer_checkpoint\<close> writes (strings, integers, booleans and null) and for the truth of
  any value; \<open>str\<close> of a float or container and \<open>int\<close> of a string or float count as unreadable.
\<close>

definition json_field :: "json \<Rightarrow> string \<Rightarrow> json option" where
  "json_field v k = (case v of JObj ms \<Rightarrow> map_of ms (lit k) | _ \<Rightarrow> None)"

fun py_int :: "json \<Rightarrow> int option" where
  "py_int (JInt n) = Some n"
| "py_int (JBool b) = Some (if b then 1 else 0)"
| "py_int _ = None"

fun py_bool :: "json \<Rightarrow> bool" where
  "py_bool JNull = False"
| "py_bool (JBool b) = b"
| "py_bool (JInt n) = (n \<noteq> 0)"
| "py_bool (JFloat t) = list_ex (\<lambda>c. c \<noteq> 48 \<and> c \<noteq> 46 \<and> c \<noteq> 45) (takeWhile (\<lambda>c. c \<noteq> 101 \<and> c \<noteq> 69) t)"
| "py_bool (JStr s) = (s \<noteq> [])"
| "py_bool (JList vs) = (vs \<noteq> [])"
| "py_bool (JObj ms) = (ms \<noteq> [])"

definition checkpoint_citation :: "json \<Rightarrow> citation option" where
  "checkpoint_citation item =
     (case (Option.bind (json_field item ''url'') py_str, Option.bind (json_field item ''title'') py_str) of
        (Some url, Some title) \<Rightarrow>
          let c = \<lparr>ct_url = url, ct_title = title\<rparr>
          in if ok (citation_post_init c) then Some c else None
      | _ \<Rightarrow> None)"

fun all_or_none :: "'a option list \<Rightarrow> 'a list option" where
  "all_or_none [] = Some []"
| "all_or_none (x # xs) = (case x of None \<Rightarrow> None | Some y \<Rightarrow> map_option ((#) y) (all_or_none xs))"

definition checkpoint_citations :: "json option \<Rightarrow> citation list option" where
  "checkpoint_citations v =
     (case v of
        None \<Rightarrow> Some []
      | Some (JList items) \<Rightarrow> all_or_none (map checkpoint_citation items)
      | Some (JObj []) \<Rightarrow> Some []
      | Some (JStr []) \<Rightarrow> Some []
      | Some _ \<Rightarrow> None)"

definition checkpoint_usage :: "json \<Rightarrow> research_usage option" where
  "checkpoint_usage v =
     (case (Option.bind (json_field v ''input_tokens'') py_int, Option.bind (json_field v ''cached_input_tokens'') py_int,
        Option.bind (json_field v ''output_tokens'') py_int, Option.bind (json_field v ''reasoning_tokens'') py_int,
        Option.bind (json_field v ''web_tool_calls'') py_int,
        (case json_field v ''cache_write_input_tokens'' of
           None \<Rightarrow> Some None | Some JNull \<Rightarrow> Some None | Some w \<Rightarrow> map_option Some (py_int w))) of
        (Some i, Some c, Some t, Some r, Some s, Some w) \<Rightarrow>
          let u = \<lparr>ru_input_tokens = i, ru_cached_input_tokens = c, ru_output_tokens = t,
             ru_reasoning_tokens = r, ru_web_tool_calls = s, ru_cache_write_input_tokens = w\<rparr>
          in if ok (research_usage_post_init u) then Some u else None
      | _ \<Rightarrow> None)"

definition checkpoint_evidence :: "json \<Rightarrow> completion_evidence option" where
  "checkpoint_evidence v =
     (case (json_field v ''provider_terminal'', json_field v ''answer_complete'',
        json_field v ''web_search_executed'', json_field v ''refusal_marker'', json_field v ''incomplete_marker'') of
        (Some p, Some a, Some s, Some r, Some i) \<Rightarrow>
          Some \<lparr>ce_provider_terminal = py_bool p, ce_answer_complete = py_bool a,
             ce_web_search_executed = py_bool s, ce_refusal_marker = py_bool r, ce_incomplete_marker = py_bool i\<rparr>
      | _ \<Rightarrow> None)"

definition checkpoint_answer ::
    "json \<Rightarrow> research_usage option \<Rightarrow> citation list \<Rightarrow> research_answer option" where
  "checkpoint_answer v usage citations =
     (case (Option.bind (json_field v ''text'') py_str, Option.bind (json_field v ''evidence'') checkpoint_evidence) of
        (Some text, Some evidence) \<Rightarrow>
          let a = \<lparr>an_text = text, an_citations = citations, an_evidence = evidence, an_usage = usage\<rparr>
          in if ok (research_answer_post_init a) then Some a else None
      | _ \<Rightarrow> None)"

definition is_object :: "json \<Rightarrow> bool" where
  "is_object v = (case v of JObj ms \<Rightarrow> True | _ \<Rightarrow> False)"

definition answer_from_checkpoint :: "research_row \<Rightarrow> research_exn + research_answer option" where
  "answer_from_checkpoint row =
     (case rw_checkpoint_json row of
        None \<Rightarrow> Inr None
      | Some [] \<Rightarrow> Inr None
      | Some payload \<Rightarrow>
          (case json_loads payload of
             None \<Rightarrow> Inr None
           | Some v \<Rightarrow>
               if \<not> is_object v then Inl AttributeError
               else case checkpoint_citations (json_field v ''citations'') of
                 None \<Rightarrow> Inr None
               | Some citations \<Rightarrow>
                   if json_field v ''evidence'' = None then Inr None
                   else case json_field v ''usage'' of
                     None \<Rightarrow> Inr (checkpoint_answer v None citations)
                   | Some usage \<Rightarrow>
                       if usage = JNull then Inr (checkpoint_answer v None citations)
                       else if \<not> is_object usage then Inl AttributeError
                       else case checkpoint_usage usage of
                         None \<Rightarrow> Inr None
                       | Some u \<Rightarrow> Inr (checkpoint_answer v (Some u) citations)))"

section \<open>Shared helpers\<close>

definition active_request :: "research_row option rprog" where
  "active_request = bindE (tx active_slot_operation_id) (\<lambda>i. case i of
     None \<Rightarrow> ret None | Some operation_id \<Rightarrow> tx (get_request operation_id))"

definition reconcile :: "research_env \<Rightarrow> research_row \<Rightarrow> research_accounting \<Rightarrow> research_usage option
    \<Rightarrow> int option \<Rightarrow> unit rprog" where
  "reconcile env row accounting usage cost =
     (let reconciliation =
        (if accounting = RA_RECONCILED \<and> usage \<noteq> None \<and> cost \<noteq> None
         then \<lparr>bc_operation_id = row_id row, bc_usage = usage, bc_calculated_cost_usd_micros = cost,
               bc_state = RA_RECONCILED\<rparr>
         else \<lparr>bc_operation_id = row_id row, bc_usage = None, bc_calculated_cost_usd_micros = None,
               bc_state = RA_UNKNOWN\<rparr>)
      in bindE (lift (budget_reconciliation_post_init reconciliation)) (\<lambda>_.
         bindE (clock_ms env) (\<lambda>now_ms.
         bindE (tx (ledger_reconcile now_ms reconciliation)) (\<lambda>_. ret ()))))"

definition finished_row :: "research_row \<Rightarrow> research_state \<Rightarrow> research_code option \<Rightarrow> research_accounting
    \<Rightarrow> bool \<Rightarrow> int \<Rightarrow> research_row" where
  "finished_row row state code accounting keep_handle now_ms =
     (let handle = (if keep_handle then row_handle row else None);
          cleanup = (if handle \<noteq> None then RC_PENDING else RC_NOT_REQUIRED)
      in row\<lparr>rw_record := (rw_record row)\<lparr>rq_state := state, rq_error_code := code,
               rq_cleanup_state := cleanup, rq_accounting_state := accounting\<rparr>,
             rw_finished_at_ms := Some now_ms, rw_updated_at_ms := now_ms\<rparr>)"

definition finish :: "research_env \<Rightarrow> research_row \<Rightarrow> research_state \<Rightarrow> research_code option
    \<Rightarrow> research_accounting \<Rightarrow> research_usage option \<Rightarrow> int option \<Rightarrow> research_row rprog" where
  "finish env row state code accounting usage cost =
     bindE (clock_ms env) (\<lambda>now_ms.
     bindE (tx (repository_save (finished_row row state code accounting True now_ms))) (\<lambda>saved.
     bindE (reconcile env saved accounting usage cost) (\<lambda>_. ret saved)))"

abbreviation finish_unknown :: "research_env \<Rightarrow> research_row \<Rightarrow> research_state \<Rightarrow> research_code
    \<Rightarrow> research_row rprog" where
  "finish_unknown env row state code \<equiv> finish env row state (Some code) RA_UNKNOWN None None"

section \<open>Admission\<close>

definition replay_matches :: "research_env \<Rightarrow> research_row \<Rightarrow> pystr \<Rightarrow> research_kind \<Rightarrow> pystr \<Rightarrow> pystr
    \<Rightarrow> research_exn + bool" where
  "replay_matches env existing owner kind prompt consent =
     (if rw_owner_login_key existing \<noteq> owner then Inr False
      else if rq_kind (rw_record existing) \<noteq> kind \<or> rq_prompt (rw_record existing) \<noteq> prompt then Inr False
      else if sp_configuration_version (rq_profile (rw_record existing)) = LEGACY_RESEARCH_PROFILE_VERSION
      then Inr True
      else and_then (research_request_fingerprint env owner kind prompt consent) (\<lambda>fingerprint.
        Inr (rw_request_fingerprint existing = fingerprint)))"

definition admitted_request :: "selection_snapshot \<Rightarrow> pystr \<Rightarrow> research_kind \<Rightarrow> pystr \<Rightarrow> research_request" where
  "admitted_request snap operation_id kind prompt =
     \<lparr>rq_operation_id = operation_id, rq_kind = kind, rq_prompt = prompt, rq_profile = ss_profile snap,
      rq_deadline_seconds = ss_deadline_seconds snap, rq_resource_limits = ss_resource_limits snap,
      rq_state = R_ADMITTED, rq_cleanup_state = RC_NOT_REQUIRED, rq_accounting_state = RA_RESERVED,
      rq_remote_handle = None, rq_error_code = None\<rparr>"

definition admitted_row :: "research_request \<Rightarrow> pystr \<Rightarrow> pystr \<Rightarrow> pystr \<Rightarrow> int \<Rightarrow> research_row" where
  "admitted_row record owner client fingerprint now_ms =
     \<lparr>rw_record = record, rw_owner_login_key = owner, rw_client_request_id = client,
      rw_request_fingerprint = fingerprint, rw_checkpoint_json = None, rw_checkpoint_sha256 = None,
      rw_record_id = None, rw_created_at_ms = now_ms, rw_admitted_at_ms = now_ms, rw_submitted_at_ms = None,
      rw_finished_at_ms = None, rw_updated_at_ms = now_ms, rw_cancel_requested_at_ms = None,
      rw_cancellation_confirmed_at_ms = None\<rparr>"

definition admission_reservation :: "research_request \<Rightarrow> research_kind \<Rightarrow> selection_snapshot \<Rightarrow> budget_reservation" where
  "admission_reservation record kind snap =
     \<lparr>br_operation_id = rq_operation_id record, br_kind = kind,
      br_reserved_usd_micros = sp_budget_reservation_usd_micros (rq_profile record),
      br_daily_limit_usd_micros = ss_daily_budget_usd_micros snap,
      br_monthly_limit_usd_micros = ss_monthly_budget_usd_micros snap\<rparr>"

definition store_admission :: "research_env \<Rightarrow> selection_snapshot \<Rightarrow> int \<Rightarrow> pystr \<Rightarrow> pystr \<Rightarrow> research_kind
    \<Rightarrow> pystr \<Rightarrow> pystr \<Rightarrow> pystr \<Rightarrow> admission_receipt rprog" where
  "store_admission env snap now_ms owner client kind prompt fingerprint operation_id =
     (let rec = admitted_request snap operation_id kind prompt;
          reservation = admission_reservation rec kind snap
      in bindE (lift (research_request_post_init rec)) (\<lambda>_.
         bindE (lift (budget_reservation_post_init reservation)) (\<lambda>_.
         bindE (tx (repository_admit (admitted_row rec owner client fingerprint now_ms) reservation)) (\<lambda>stored.
         ret \<lparr>ar_row = stored, ar_newly_admitted =
           (row_id stored = operation_id \<and> rw_request_fingerprint stored = fingerprint)\<rparr>))))"

definition admission_blocker :: "research_env \<Rightarrow> research_code option rprog" where
  "admission_blocker env =
     (if en_accounting_blocker env
      then tx (run_in_transaction (\<lambda>db. Inr (blocking_accounting_state db, db)))
      else ret None)"

definition admission_denial :: "research_env \<Rightarrow> selection_snapshot \<Rightarrow> int \<Rightarrow> research_code option" where
  "admission_denial env snap now_ms =
     (case en_admission_guard env of None \<Rightarrow> None | Some guard \<Rightarrow> guard snap now_ms)"

definition admit_new :: "research_env \<Rightarrow> pystr \<Rightarrow> pystr \<Rightarrow> research_kind \<Rightarrow> pystr \<Rightarrow> pystr
    \<Rightarrow> admission_receipt rprog" where
  "admit_new env owner client kind prompt consent =
     bindE (admission_blocker env) (\<lambda>blocker.
     case blocker of Some code \<Rightarrow> raise (ResearchStoreError code) | None \<Rightarrow>
     bindE (tick (\<lambda>t. en_select env t kind)) (\<lambda>selected.
     case selected of Inl code \<Rightarrow> raise (ResearchStoreError code) | Inr snap \<Rightarrow>
     bindE (clock_ms env) (\<lambda>now_ms.
     case admission_denial env snap now_ms of Some denial \<Rightarrow> raise (ResearchStoreError denial) | None \<Rightarrow>
     bindE (lift (research_request_fingerprint env owner kind prompt consent)) (\<lambda>fingerprint.
     bindE (tick (en_operation_id env)) (\<lambda>operation_id.
     store_admission env snap now_ms owner client kind prompt fingerprint operation_id)))))"

definition admit :: "research_env \<Rightarrow> pystr \<Rightarrow> pystr \<Rightarrow> research_kind \<Rightarrow> pystr \<Rightarrow> pystr
    \<Rightarrow> admission_receipt rprog" where
  "admit env owner client kind prompt consent =
     (if strip prompt = [] \<or> owner = [] \<or> client = [] then raise (ResearchStoreError E_INVALID_REQUEST)
      else bindE (tx (find_by_client owner client)) (\<lambda>existing.
        case existing of
          Some row \<Rightarrow>
            bindE (lift (replay_matches env row owner kind prompt consent)) (\<lambda>same.
            if same then ret \<lparr>ar_row = row, ar_newly_admitted = False\<rparr>
            else raise (ResearchStoreError E_IDEMPOTENCY_CONFLICT))
        | None \<Rightarrow> admit_new env owner client kind prompt consent))"

section \<open>Completion\<close>

definition schedule_for :: "research_env \<Rightarrow> research_row \<Rightarrow> price_schedule option" where
  "schedule_for env row =
     (case en_price_schedule env of
        None \<Rightarrow> None
      | Some resolve \<Rightarrow>
          let profile = rq_profile (rw_record row)
          in resolve (sp_provider_id profile) (sp_model_id profile) (sp_configuration_version profile))"

text \<open>\<open>complete\<close> reads the clock and draws its identifiers inside the transaction.\<close>

definition completion_call :: "research_env \<Rightarrow> result_completion \<Rightarrow> completion_receipt rprog" where
  "completion_call env completion = atomic (\<lambda>w. let t = wd_ticks w in
     case result_complete (en_tables env) (en_document_id env t) (en_record_id env t) (en_clock env t) completion (wd_db w) of
       (r, db) \<Rightarrow> (r, w\<lparr>wd_db := db, wd_ticks := Suc t\<rparr>))"

definition complete_from_checkpoint :: "research_env \<Rightarrow> research_row \<Rightarrow> research_answer option
    \<Rightarrow> research_row rprog" where
  "complete_from_checkpoint env row answer =
     (case (row_handle row, answer) of
        (Some handle, Some a) \<Rightarrow>
          let completion = \<lparr>rc_operation_id = row_id row, rc_answer = a, rc_remote_handle = handle\<rparr>
          in catch (bindE (lift (result_completion_post_init completion)) (\<lambda>_. completion_call env completion))
            (\<lambda>_. bindE (clock_ms env) (\<lambda>now_ms. tx (repository_save (row\<lparr>rw_updated_at_ms := now_ms\<rparr>))))
            (\<lambda>receipt.
              if cr_state receipt \<noteq> R_SAVED then ret row
              else bindE (tx (get_request (row_id row))) (\<lambda>reloaded.
                let current = (case reloaded of None \<Rightarrow> row | Some r \<Rightarrow> r);
                    cost = usage_cost_micro_usd_or_none (an_usage a) (schedule_for env current)
                in case cost of
                     None \<Rightarrow> finish env current R_SAVED None RA_UNKNOWN None None
                   | Some c \<Rightarrow> finish env current R_SAVED None RA_RECONCILED (an_usage a) (Some c)))
      | _ \<Rightarrow> ret row)"

fun terminal_by_error :: "research_code \<Rightarrow> research_state" where
  "terminal_by_error E_REFUSED = R_REFUSED"
| "terminal_by_error E_INCOMPLETE_RESULT = R_INCOMPLETE"
| "terminal_by_error _ = R_FAILED"

text \<open>An observation of kind \<open>COMPLETE\<close> has an answer and a handle (its \<open>__post_init__\<close>), which is
  what the \<open>assert\<close> relies on.\<close>

definition validating_row :: "research_row \<Rightarrow> pystr option \<Rightarrow> pystr \<Rightarrow> pystr \<Rightarrow> int \<Rightarrow> research_row" where
  "validating_row row handle checkpoint sha now_ms =
     row\<lparr>rw_record := (rw_record row)\<lparr>rq_state := R_VALIDATING, rq_remote_handle := handle\<rparr>,
         rw_checkpoint_json := Some checkpoint, rw_checkpoint_sha256 := Some sha, rw_updated_at_ms := now_ms\<rparr>"

definition accept_completion :: "research_env \<Rightarrow> research_row \<Rightarrow> observation \<Rightarrow> research_row rprog" where
  "accept_completion env row obs =
     bindE (clock_ms env) (\<lambda>now_ms.
     if rw_cancel_requested_at_ms row \<noteq> None then finish_unknown env row R_CANCELLED E_CANCELLED
     else case ob_answer obs of
       None \<Rightarrow> raise ValueError
     | Some answer \<Rightarrow>
         (case completion_error (an_evidence answer) of
            Some error \<Rightarrow> finish_unknown env row (terminal_by_error error) error
          | None \<Rightarrow>
              bindE (lift (sha256_text env (answer_checkpoint answer))) (\<lambda>sha.
              bindE (tx (repository_save
                (validating_row row (ob_remote_handle obs) (answer_checkpoint answer) sha now_ms))) (\<lambda>validating.
              complete_from_checkpoint env validating (Some answer)))))"

section \<open>Submission\<close>

definition failure_state :: "research_code \<Rightarrow> research_state" where
  "failure_state code = (if code = E_INCOMPLETE_RESULT then R_INCOMPLETE else R_FAILED)"

definition or_default :: "'a option \<Rightarrow> 'a \<Rightarrow> 'a" where
  "or_default x d = (case x of None \<Rightarrow> d | Some y \<Rightarrow> y)"

definition apply_submit_observation :: "research_env \<Rightarrow> research_row \<Rightarrow> observation \<Rightarrow> research_row rprog" where
  "apply_submit_observation env row obs =
     bindE (clock_ms env) (\<lambda>now_ms.
     case ob_kind obs of
       O_COMPLETE \<Rightarrow> accept_completion env row obs
     | O_REFUSED \<Rightarrow> finish_unknown env row R_REFUSED (or_default (ob_error_code obs) E_REFUSED)
     | O_FAILED \<Rightarrow>
         (let code = or_default (ob_error_code obs) E_PROVIDER_UNAVAILABLE
          in finish_unknown env row (failure_state code) code)
     | O_CANCELLED \<Rightarrow> finish_unknown env row R_CANCELLED E_CANCELLED
     | O_UNCERTAIN \<Rightarrow> finish_unknown env row R_SUBMISSION_UNKNOWN E_SUBMISSION_UNKNOWN
     | _ \<Rightarrow>
         let handle = (if ob_remote_handle obs \<noteq> None then ob_remote_handle obs else row_handle row)
         in tx (repository_save (row\<lparr>rw_record := (rw_record row)\<lparr>rq_state := R_RUNNING, rq_remote_handle := handle\<rparr>,
              rw_submitted_at_ms := Some (case rw_submitted_at_ms row of Some t \<Rightarrow> if t = 0 then now_ms else t
                | None \<Rightarrow> now_ms),
              rw_updated_at_ms := now_ms\<rparr>)))"

definition provider_request_of :: "research_row \<Rightarrow> provider_request" where
  "provider_request_of row =
     \<lparr>pr_operation_id = row_id row, pr_kind = rq_kind (rw_record row), pr_prompt = rq_prompt (rw_record row),
      pr_profile = rq_profile (rw_record row), pr_deadline_seconds = rq_deadline_seconds (rw_record row),
      pr_resource_limits = rq_resource_limits (rw_record row)\<rparr>"

text \<open>The claimed request: the provider request is built outside the \<open>try\<close>.\<close>

definition submit_claimed :: "research_env \<Rightarrow> research_row \<Rightarrow> research_row rprog" where
  "submit_claimed env claimed =
     (let request = provider_request_of claimed
      in bindE (lift (provider_request_post_init request)) (\<lambda>_.
         catch (provider_call_prog (en_observe env) (PSubmit request))
           (\<lambda>_. finish_unknown env claimed R_SUBMISSION_UNKNOWN E_SUBMISSION_UNKNOWN)
           (apply_submit_observation env claimed)))"

definition submission_enabled :: "research_env \<Rightarrow> bool rprog" where
  "submission_enabled env = (case en_submission_enabled env of None \<Rightarrow> ret True | Some f \<Rightarrow> tick f)"

definition submit_pending :: "research_env \<Rightarrow> research_row option rprog" where
  "submit_pending env =
     bindE (submission_enabled env) (\<lambda>enabled.
     if \<not> enabled then ret None
     else bindE active_request (\<lambda>active.
       case active of
         None \<Rightarrow> ret None
       | Some row \<Rightarrow>
           if row_state row \<noteq> R_ADMITTED then ret None
           else bindE (clock_ms env) (\<lambda>now_ms.
             bindE (tx (claim_submission now_ms (row_id row))) (\<lambda>claimed.
             case claimed of
               None \<Rightarrow> ret None
             | Some c \<Rightarrow> bindE (submit_claimed env c) (\<lambda>r. ret (Some r))))))"

definition recover :: "research_env \<Rightarrow> research_row option rprog" where
  "recover env =
     bindE active_request (\<lambda>active.
     case active of
       None \<Rightarrow> ret None
     | Some row \<Rightarrow>
         if row_state row = R_SUBMITTING
         then bindE (finish_unknown env row R_SUBMISSION_UNKNOWN E_SUBMISSION_UNKNOWN) (\<lambda>r. ret (Some r))
         else ret (Some row))"

section \<open>Polling\<close>

definition apply_poll_observation :: "research_env \<Rightarrow> research_row \<Rightarrow> int \<Rightarrow> observation
    \<Rightarrow> research_row rprog" where
  "apply_poll_observation env row now_ms obs =
     (case ob_kind obs of
        O_COMPLETE \<Rightarrow> accept_completion env row obs
      | O_REFUSED \<Rightarrow> finish_unknown env row R_REFUSED (or_default (ob_error_code obs) E_REFUSED)
      | O_FAILED \<Rightarrow>
          (let code = or_default (ob_error_code obs) E_PROVIDER_UNAVAILABLE
           in finish_unknown env row (failure_state code) code)
      | O_CANCELLED \<Rightarrow> finish_unknown env row R_CANCELLED E_CANCELLED
      | O_UNCERTAIN \<Rightarrow> ret row
      | _ \<Rightarrow> tx (repository_save (row\<lparr>rw_updated_at_ms := now_ms\<rparr>)))"

definition poll_remote :: "research_env \<Rightarrow> research_row \<Rightarrow> pystr \<Rightarrow> research_row rprog" where
  "poll_remote env row handle =
     bindE (clock_ms env) (\<lambda>now_ms.
     if now_ms - rw_admitted_at_ms row \<ge> rq_deadline_seconds (rw_record row) * 1000
     then catch (provider_call_prog (en_observe env) (PCancel handle))
       (\<lambda>_. finish_unknown env row R_TIMEOUT E_TIMEOUT) (\<lambda>_. finish_unknown env row R_TIMEOUT E_TIMEOUT)
     else catch (provider_call_prog (en_observe env) (PPoll handle))
       (\<lambda>_. ret row) (apply_poll_observation env row now_ms))"

definition poll_once :: "research_env \<Rightarrow> research_row option rprog" where
  "poll_once env =
     bindE active_request (\<lambda>active.
     case active of
       None \<Rightarrow> ret None
     | Some row \<Rightarrow>
         if row_state row \<in> {R_ADMITTED, R_SUBMITTING} then ret None
         else if row_state row = R_VALIDATING
         then bindE (lift (answer_from_checkpoint row)) (\<lambda>answer.
           case answer of
             None \<Rightarrow> ret (Some row)
           | Some a \<Rightarrow> bindE (complete_from_checkpoint env row (Some a)) (\<lambda>r. ret (Some r)))
         else case row_handle row of
           None \<Rightarrow> ret None
         | Some handle \<Rightarrow> bindE (poll_remote env row handle) (\<lambda>r. ret (Some r)))"

section \<open>Cancellation and cleanup\<close>

definition cancel_requested_row :: "research_row \<Rightarrow> int \<Rightarrow> research_row" where
  "cancel_requested_row row now_ms =
     row\<lparr>rw_record := (rw_record row)\<lparr>rq_state := R_CANCEL_REQUESTED\<rparr>,
         rw_cancel_requested_at_ms := Some now_ms, rw_updated_at_ms := now_ms\<rparr>"

definition apply_cancel_observation :: "research_env \<Rightarrow> research_row \<Rightarrow> observation \<Rightarrow> research_row rprog" where
  "apply_cancel_observation env row obs =
     (case ob_kind obs of
        O_CANCELLED \<Rightarrow>
          bindE (finish_unknown env row R_CANCELLED E_CANCELLED) (\<lambda>confirmed.
          bindE (clock_ms env) (\<lambda>confirmed_at.
          bindE (clock_ms env) (\<lambda>updated_at.
          tx (repository_save (confirmed\<lparr>rw_cancellation_confirmed_at_ms := Some confirmed_at,
            rw_updated_at_ms := updated_at\<rparr>)))))
      | O_COMPLETE \<Rightarrow> finish_unknown env row R_CANCELLED E_CANCELLED
      | O_REFUSED \<Rightarrow> finish_unknown env row R_REFUSED (or_default (ob_error_code obs) E_REFUSED)
      | O_FAILED \<Rightarrow>
          (let code = or_default (ob_error_code obs) E_PROVIDER_UNAVAILABLE
           in finish_unknown env row (failure_state code) code)
      | _ \<Rightarrow> ret row)"

definition cancel_remote :: "research_env \<Rightarrow> research_row \<Rightarrow> research_row rprog" where
  "cancel_remote env row =
     (case row_handle row of
        None \<Rightarrow> ret row
      | Some handle \<Rightarrow>
          catch (provider_call_prog (en_observe env) (PCancel handle)) (\<lambda>_. ret row)
            (apply_cancel_observation env row))"

definition cancel :: "research_env \<Rightarrow> pystr \<Rightarrow> research_row rprog" where
  "cancel env operation_id =
     bindE (tx (get_request operation_id)) (\<lambda>found.
     case found of
       None \<Rightarrow> raise (ResearchStoreError E_INVALID_REQUEST)
     | Some row \<Rightarrow>
         if is_terminal_lifecycle (row_state row) then ret row
         else bindE (clock_ms env) (\<lambda>now_ms.
           bindE (if rw_cancel_requested_at_ms row = None
                  then tx (repository_save (cancel_requested_row row now_ms)) else ret row)
             (cancel_remote env)))"

definition released_row :: "research_row \<Rightarrow> research_cleanup \<Rightarrow> int \<Rightarrow> research_row" where
  "released_row row cleanup now_ms =
     row\<lparr>rw_record := (rw_record row)\<lparr>rq_cleanup_state := cleanup\<rparr>, rw_updated_at_ms := now_ms\<rparr>"

fun cleanup_of :: "research_cleanup \<Rightarrow> research_cleanup" where
  "cleanup_of RC_DELETED = RC_DELETED"
| "cleanup_of RC_FAILED = RC_FAILED"
| "cleanup_of _ = RC_UNKNOWN"

definition release_one :: "research_env \<Rightarrow> research_row \<Rightarrow> research_row option rprog" where
  "release_one env row =
     (case row_handle row of
        None \<Rightarrow> ret None
      | Some handle \<Rightarrow>
          catch (provider_call_prog (en_cleanup env) (PRelease handle)) (\<lambda>_. ret None)
            (\<lambda>outcome. bindE (clock_ms env) (\<lambda>now_ms.
              bindE (tx (repository_save (released_row row (cleanup_of (co_state outcome)) now_ms)))
                (\<lambda>saved. ret (Some saved)))))"

definition release_remote_pending :: "research_env \<Rightarrow> int \<Rightarrow> research_row list rprog" where
  "release_remote_pending env limit =
     bindE (tx (list_cleanup_pending limit)) (each (release_one env))"

end
