(* ===== verification/Research_Steps.thy ===== *)
theory Research_Steps
  imports Research_Coordinator
begin

text \<open>
  Threads that run coordinator operations interleaved, and the interface between the transactions
  of the database and what a thread may do: a relation between databases that every transaction
  of the coordinator respects is respected by every step of every thread.
\<close>

section \<open>Threads\<close>

datatype coordinator_call =
    CAdmit pystr pystr research_kind pystr pystr
  | CSubmit
  | CRecover
  | CPoll
  | CCancel pystr
  | CRelease int

definition as_thread :: "('w, 'a) prog \<Rightarrow> ('w, unit) prog" where
  "as_thread p = bind p (\<lambda>_. Ret ())"

fun perform :: "research_env \<Rightarrow> coordinator_call \<Rightarrow> (research_world, unit) prog" where
  "perform env (CAdmit owner client kind prompt consent) = as_thread (admit env owner client kind prompt consent)"
| "perform env CSubmit = as_thread (submit_pending env)"
| "perform env CRecover = as_thread (recover env)"
| "perform env CPoll = as_thread (poll_once env)"
| "perform env (CCancel i) = as_thread (cancel env i)"
| "perform env (CRelease limit) = as_thread (release_remote_pending env limit)"

definition coordinator_thread :: "research_env \<Rightarrow> (research_world, unit) prog \<Rightarrow> bool" where
  "coordinator_thread env p \<longleftrightarrow> (\<exists>c. p = perform env c)"

fun submitted_id :: "provider_call \<Rightarrow> pystr option" where
  "submitted_id (PSubmit r) = Some (pr_operation_id r)"
| "submitted_id _ = None"

text \<open>The operations the provider was asked to create, in order.\<close>

definition submitted :: "research_world \<Rightarrow> pystr list" where
  "submitted w = map the (filter (\<lambda>x. x \<noteq> None) (map submitted_id (wd_calls w)))"

lemma submitted_db [simp]:
  "submitted (w\<lparr>wd_db := db\<rparr>) = submitted w" "submitted (w\<lparr>wd_ticks := t\<rparr>) = submitted w"
  "submitted (w\<lparr>wd_db := db, wd_ticks := t\<rparr>) = submitted w"
  by (simp_all add: submitted_def)

section \<open>What the transactions return\<close>

lemma save_returns:
  assumes "repository_save r db = (x, db')" and "x = Inr r'"
  shows "r' = r"
  using assms
  by (auto simp: repository_save_def run_in_immediate_transaction_def save_operation_def and_then_Inr Let_def
      split: sum.splits prod.splits option.splits if_splits)

lemma row_state_read:
  assumes "row_from_mapping c = Inr r"
  shows "rt_lifecycle_state c = research_state_value (row_state r)"
proof -
  obtain st where "state_parse (rt_lifecycle_state c) = Inr st" "row_state r = st"
    using assms by (auto simp: row_from_mapping_def and_then_Inr Let_def)
  then show ?thesis by (auto simp: enum_parse_def find_Some_iff split: option.splits)
qed

lemma map_results_in: "map_results f xs = Inr ys \<Longrightarrow> y \<in> set ys \<Longrightarrow> \<exists>x \<in> set xs. f x = Inr y"
  by (induction xs arbitrary: ys) (auto simp: and_then_Inr)

lemma pending_terminal:
  assumes "list_cleanup_pending limit db = (Inr rs, db')" and "r \<in> set rs"
  shows "is_terminal_lifecycle (row_state r)"
proof -
  let ?xs = "sql_order_limit (\<lambda>c. (rt_updated_at_ms c, rt_operation_id c)) (max 0 limit)
         (filter (\<lambda>c. rt_cleanup_state c = research_cleanup_value RC_PENDING \<and> rt_remote_handle_json c \<noteq> None
            \<and> rt_lifecycle_state c \<in> terminal_values) (rd_requests db))"
  have m: "map_results row_from_mapping ?xs = Inr rs"
    using assms(1) unfolding list_cleanup_pending_def run_in_transaction_Inr and_then_Inr
    by (elim exE conjE) (simp only: sum.inject prod.inject)
  obtain c where c: "c \<in> set ?xs" "row_from_mapping c = Inr r" using map_results_in [OF m assms(2)] by blast
  have "set (take n (sort_key k xs)) \<subseteq> set xs" for n and k :: "request_columns \<Rightarrow> int \<times> pystr" and xs
    using set_take_subset [of n "sort_key k xs"] by simp
  then have "c \<in> set (filter (\<lambda>c. rt_cleanup_state c = research_cleanup_value RC_PENDING \<and> rt_remote_handle_json c \<noteq> None
            \<and> rt_lifecycle_state c \<in> terminal_values) (rd_requests db))"
    using c(1) unfolding sql_order_limit_def by blast
  then have "rt_lifecycle_state c \<in> terminal_values" by simp
  then show ?thesis
    using row_state_read [OF c(2)] by (auto simp: terminal_values_def is_terminal_lifecycle_def)
qed

lemma terminal_by_error_state [simp]: "terminal_by_error e \<noteq> R_ADMITTED" "failure_state e \<noteq> R_ADMITTED"
  by (cases e; simp) (simp add: failure_state_def)

section \<open>What each program guarantees\<close>

locale coordinator_steps =
  fixes allowed :: "'g \<Rightarrow> research_world \<Rightarrow> 'g \<Rightarrow> research_world \<Rightarrow> bool"
    and related :: "research_db \<Rightarrow> research_db \<Rightarrow> bool"
  assumes quiet: "submitted w' = submitted w \<Longrightarrow> related (wd_db w) (wd_db w') \<Longrightarrow> allowed g w g w'"
    and unchanged: "related db db"
    and saving: "repository_save r db = (x, db') \<Longrightarrow> row_state r \<noteq> R_ADMITTED \<Longrightarrow> related db db'"
    and admitting: "repository_admit row b db = (x, db') \<Longrightarrow> budget_reservation_post_init b = Inr ()
      \<Longrightarrow> related db db'"
    and reconciling: "ledger_reconcile now c db = (held, db') \<Longrightarrow> related db db'"
    and completing: "result_complete U d i now completion db = (receipt, db') \<Longrightarrow> related db db'"
begin

definition keeps :: "'g \<Rightarrow> (research_world, 'a) prog \<Rightarrow> ('a \<Rightarrow> bool) \<Rightarrow> bool" where
  "keeps g p post \<longleftrightarrow> guarantees allowed g p (\<lambda>a g'. g' = g \<and> post a)"

lemma keeps_ret [simp]: "keeps g (ret a) post \<longleftrightarrow> post (Inr a)" "keeps g (raise e) post \<longleftrightarrow> post (Inl e)"
  "keeps g (lift r) post \<longleftrightarrow> post r"
  by (simp_all add: keeps_def ret_def raise_def lift_def)

lemma keeps_bindE:
  assumes "keeps g m mid" and "\<And>a. mid (Inr a) \<Longrightarrow> keeps g (k a) post" and "\<And>e. post (Inl e)"
  shows "keeps g (bindE m k) post"
  using assms unfolding keeps_def by (intro guarantees_bindE [OF assms(1) [unfolded keeps_def]]) auto

lemma keeps_catch:
  assumes "keeps g m mid" and "\<And>a. mid (Inr a) \<Longrightarrow> keeps g (k a) post" and "\<And>e. keeps g (h e) post"
  shows "keeps g (catch m h k) post"
  using assms unfolding keeps_def by (intro guarantees_catch [OF assms(1) [unfolded keeps_def]]) auto

lemma keeps_mono: "keeps g p post \<Longrightarrow> (\<And>a. post a \<Longrightarrow> post' a) \<Longrightarrow> keeps g p post'"
  unfolding keeps_def by (erule guarantees_mono) auto

lemma keeps_tx:
  assumes "\<And>db x db'. f db = (x, db') \<Longrightarrow> related db db' \<and> post x"
  shows "keeps g (tx f) post"
  unfolding tx_def keeps_def
proof (rule guarantees_atomic)
  fix w :: research_world
  obtain x db' where f: "f (wd_db w) = (x, db')" by (cases "f (wd_db w)")
  then have "related (wd_db w) db'" "post x" using assms by blast+
  then show "\<exists>g'. allowed g w g' (snd (case f (wd_db w) of (r, db) \<Rightarrow> (r, w\<lparr>wd_db := db\<rparr>)))
      \<and> g' = g \<and> post (fst (case f (wd_db w) of (r, db) \<Rightarrow> (r, w\<lparr>wd_db := db\<rparr>)))"
    by (simp add: f quiet)
qed

lemma keeps_tick: "keeps g (tick f) (\<lambda>_. True)"
  unfolding tick_def keeps_def by (rule guarantees_atomic) (simp add: quiet unchanged)

lemma keeps_clock: "keeps g (clock_ms env) (\<lambda>_. True)"
  unfolding clock_ms_def by (rule keeps_tick)

lemma keeps_call:
  assumes "submitted_id c = None"
  shows "keeps g (provider_call_prog answer c) (\<lambda>_. True)"
  unfolding provider_call_prog_def keeps_def
  by (rule guarantees_atomic) (use assms in \<open>simp add: Let_def quiet unchanged submitted_def\<close>)

lemma read_only_keeps:
  assumes "\<And>db x d. op db = Inr (x, d) \<Longrightarrow> d = db"
  shows "keeps g (tx (run_in_transaction op)) (\<lambda>_. True)"
proof (rule keeps_tx)
  fix db x db' assume "run_in_transaction op db = (x, db')"
  then have "db' = db" using assms [of db] by (auto simp: run_in_transaction_def split: sum.splits prod.splits)
  then show "related db db' \<and> True" by (simp add: unchanged)
qed

lemma keeps_get: "keeps g (tx (get_request i)) (\<lambda>_. True)"
  unfolding get_request_def by (rule read_only_keeps) (auto simp: and_then_Inr)

lemma keeps_save:
  assumes "row_state r \<noteq> R_ADMITTED"
  shows "keeps g (tx (repository_save r)) (\<lambda>x. \<forall>r'. x = Inr r' \<longrightarrow> r' = r)"
  by (rule keeps_tx) (use saving save_returns assms in blast)

lemma keeps_active: "keeps g active_request (\<lambda>_. True)"
  unfolding active_request_def
proof (rule keeps_bindE)
  show "keeps g (tx active_slot_operation_id) (\<lambda>_. True)"
    unfolding active_slot_operation_id_def by (rule read_only_keeps) simp
qed (auto simp: keeps_get split: option.splits)

lemma ledger_keeps: "keeps g (tx (ledger_reconcile now b)) (\<lambda>_. True)"
  by (rule keeps_tx) (use reconciling in blast)

lemma keeps_reconcile: "keeps g (reconcile env row a u c) (\<lambda>_. True)"
  unfolding reconcile_def Let_def
  by (intro keeps_bindE [where mid = "\<lambda>_. True"] keeps_clock ledger_keeps) simp_all

lemma keeps_finish:
  assumes "state \<noteq> R_ADMITTED"
  shows "keeps g (finish env row state code a u c) (\<lambda>x. \<forall>r. x = Inr r \<longrightarrow> row_state r = state)"
proof -
  have s: "row_state (finished_row row state code a k t) = state" for k t
    by (simp add: finished_row_def Let_def)
  show ?thesis
    unfolding finish_def
    by (intro keeps_bindE [OF keeps_clock] keeps_bindE [OF keeps_save] keeps_bindE [OF keeps_reconcile])
      (use assms s in auto)
qed

lemma keeps_weaken: "keeps g p post \<Longrightarrow> keeps g p (\<lambda>_. True)"
  by (erule keeps_mono) simp

lemma keeps_completion: "keeps g (completion_call env c) (\<lambda>_. True)"
  unfolding completion_call_def keeps_def
proof (rule guarantees_atomic)
  fix w :: research_world
  let ?f = "result_complete (en_tables env) (en_document_id env (wd_ticks w)) (en_record_id env (wd_ticks w))
      (en_clock env (wd_ticks w)) c (wd_db w)"
  obtain x db' where f: "?f = (x, db')" by (cases ?f)
  then show "\<exists>g'. allowed g w g' (snd (let t = wd_ticks w in
     case result_complete (en_tables env) (en_document_id env t) (en_record_id env t) (en_clock env t) c (wd_db w) of
       (r, db) \<Rightarrow> (r, w\<lparr>wd_db := db, wd_ticks := Suc t\<rparr>))) \<and> g' = g \<and> True"
    using completing [OF f] by (simp add: Let_def quiet)
qed

lemma keeps_complete:
  assumes "row_state row \<noteq> R_ADMITTED"
  shows "keeps g (complete_from_checkpoint env row answer) (\<lambda>_. True)"
proof (cases "row_handle row = None \<or> answer = None")
  case True
  then show ?thesis by (auto simp: complete_from_checkpoint_def split: option.splits)
next
  case False
  then obtain h a where h: "row_handle row = Some h" "answer = Some a" by auto
  have s: "keeps g (tx (repository_save (row\<lparr>rw_updated_at_ms := t\<rparr>))) (\<lambda>_. True)" for t
    using assms by (intro keeps_weaken [OF keeps_save]) simp
  have f: "keeps g (finish env r R_SAVED code b u c) (\<lambda>_. True)" for r code b u c
    by (rule keeps_weaken [OF keeps_finish]) simp
  show ?thesis
    unfolding complete_from_checkpoint_def h prod.case option.case Let_def
    by (intro keeps_catch [OF keeps_bindE [OF _ keeps_completion]] keeps_bindE [OF keeps_clock s] keeps_bindE [OF keeps_get])
      (auto intro: keeps_bindE [OF keeps_get] simp: f split: option.splits)
qed

lemma keeps_finish_any:
  assumes "state \<noteq> R_ADMITTED"
  shows "keeps g (finish env row state code a u c) (\<lambda>_. True)"
  by (rule keeps_weaken [OF keeps_finish [OF assms]])

lemma keeps_accept: "keeps g (accept_completion env row obs) (\<lambda>_. True)"
  unfolding accept_completion_def
proof (rule keeps_bindE [OF keeps_clock])
  fix t
  have s: "keeps g (bindE (tx (repository_save (validating_row row h c x t))) (\<lambda>v. complete_from_checkpoint env v a))
      (\<lambda>_. True)" for h c x a
    by (rule keeps_bindE [OF keeps_save]) (auto simp: validating_row_def intro: keeps_complete)
  show "keeps g (if rw_cancel_requested_at_ms row \<noteq> None then finish_unknown env row R_CANCELLED E_CANCELLED
     else case ob_answer obs of None \<Rightarrow> raise ValueError
     | Some answer \<Rightarrow> (case completion_error (an_evidence answer) of
         Some error \<Rightarrow> finish_unknown env row (terminal_by_error error) error
       | None \<Rightarrow> bindE (lift (sha256_text env (answer_checkpoint answer))) (\<lambda>sha.
           bindE (tx (repository_save (validating_row row (ob_remote_handle obs) (answer_checkpoint answer) sha t)))
             (\<lambda>validating. complete_from_checkpoint env validating (Some answer))))) (\<lambda>_. True)"
    using s by (auto intro: keeps_finish_any keeps_bindE split: option.splits)
qed simp

lemma keeps_submit_observation: "keeps g (apply_submit_observation env row obs) (\<lambda>_. True)"
  unfolding apply_submit_observation_def Let_def
  by (rule keeps_bindE [OF keeps_clock])
    (auto intro: keeps_finish_any keeps_accept keeps_weaken [OF keeps_save]
      split: observation_kind.splits)

lemma keeps_poll_observation:
  assumes "row_state row \<noteq> R_ADMITTED"
  shows "keeps g (apply_poll_observation env row t obs) (\<lambda>_. True)"
  unfolding apply_poll_observation_def Let_def using assms
  by (auto intro: keeps_finish_any keeps_accept keeps_weaken [OF keeps_save]
      split: observation_kind.splits)

lemma keeps_poll_remote:
  assumes "row_state row \<noteq> R_ADMITTED"
  shows "keeps g (poll_remote env row handle) (\<lambda>_. True)"
proof -
  have t: "keeps g (catch (provider_call_prog (en_observe env) (PCancel handle))
       (\<lambda>_. finish_unknown env row R_TIMEOUT E_TIMEOUT) (\<lambda>_. finish_unknown env row R_TIMEOUT E_TIMEOUT)) (\<lambda>_. True)"
    by (rule keeps_catch [OF keeps_call]) (simp_all add: keeps_finish_any)
  have p: "keeps g (catch (provider_call_prog (en_observe env) (PPoll handle))
       (\<lambda>_. ret row) (apply_poll_observation env row n)) (\<lambda>_. True)" for n
    by (rule keeps_catch [OF keeps_call]) (simp_all add: keeps_poll_observation assms)
  show ?thesis unfolding poll_remote_def by (rule keeps_bindE [OF keeps_clock]) (simp_all add: t p)
qed

lemma keeps_poll: "keeps g (poll_once env) (\<lambda>_. True)"
  unfolding poll_once_def
proof (rule keeps_bindE [OF keeps_active])
  fix active :: "research_row option"
  show "keeps g (case active of None \<Rightarrow> ret None
     | Some row \<Rightarrow>
         if row_state row \<in> {R_ADMITTED, R_SUBMITTING} then ret None
         else if row_state row = R_VALIDATING
         then bindE (lift (answer_from_checkpoint row)) (\<lambda>answer.
           case answer of None \<Rightarrow> ret (Some row)
           | Some a \<Rightarrow> bindE (complete_from_checkpoint env row (Some a)) (\<lambda>r. ret (Some r)))
         else case row_handle row of None \<Rightarrow> ret None
         | Some handle \<Rightarrow> bindE (poll_remote env row handle) (\<lambda>r. ret (Some r))) (\<lambda>_. True)"
    by (auto intro!: keeps_bindE [where mid = "\<lambda>_. True"] keeps_complete keeps_poll_remote split: option.splits)
qed simp

lemma keeps_recover: "keeps g (recover env) (\<lambda>_. True)"
  unfolding recover_def
  by (rule keeps_bindE [OF keeps_active])
    (auto intro!: keeps_bindE [where mid = "\<lambda>_. True"] keeps_finish_any split: option.splits)

lemma keeps_cancel_remote: "keeps g (cancel_remote env row) (\<lambda>_. True)"
proof -
  have o: "keeps g (apply_cancel_observation env row obs) (\<lambda>_. True)" for obs
  proof -
    have c: "keeps g (bindE (finish_unknown env row R_CANCELLED E_CANCELLED) (\<lambda>confirmed.
          bindE (clock_ms env) (\<lambda>confirmed_at. bindE (clock_ms env) (\<lambda>updated_at.
          tx (repository_save (confirmed\<lparr>rw_cancellation_confirmed_at_ms := Some confirmed_at,
            rw_updated_at_ms := updated_at\<rparr>)))))) (\<lambda>_. True)"
      by (rule keeps_bindE [OF keeps_finish])
        (auto intro!: keeps_bindE [OF keeps_clock] keeps_weaken [OF keeps_save])
    show ?thesis
      unfolding apply_cancel_observation_def Let_def using c
      by (auto intro: keeps_finish_any split: observation_kind.splits)
  qed
  show ?thesis
    unfolding cancel_remote_def
    by (auto intro!: keeps_catch [OF keeps_call] o split: option.splits)
qed

lemma keeps_cancel: "keeps g (cancel env i) (\<lambda>_. True)"
proof -
  have s: "keeps g (if b then tx (repository_save (cancel_requested_row row t)) else ret row) (\<lambda>_. True)" for b row t
    by (auto intro!: keeps_weaken [OF keeps_save] simp: cancel_requested_row_def)
  show ?thesis
    unfolding cancel_def
    by (rule keeps_bindE [OF keeps_get])
      (auto intro!: keeps_bindE [OF keeps_clock] keeps_bindE [OF s] keeps_cancel_remote split: option.splits)
qed

lemma keeps_each:
  assumes "\<And>x. x \<in> set xs \<Longrightarrow> keeps g (body x) (\<lambda>_. True)"
  shows "keeps g (each body xs) (\<lambda>_. True)"
  using assms
proof (induction xs)
  case (Cons x xs)
  have "keeps g (bindE (each body xs) (\<lambda>rs. ret (case r of None \<Rightarrow> rs | Some b \<Rightarrow> b # rs))) (\<lambda>_. True)" for r
    by (rule keeps_bindE [OF Cons.IH]) (simp_all add: Cons.prems)
  then show ?case unfolding each.simps by (intro keeps_bindE [OF Cons.prems]) simp_all
qed simp

lemma keeps_release: "keeps g (release_remote_pending env limit) (\<lambda>_. True)"
proof -
  have b: "keeps g (release_one env row) (\<lambda>_. True)" if "row_state row \<noteq> R_ADMITTED" for row
    unfolding release_one_def using that
    by (auto intro!: keeps_catch [OF keeps_call] keeps_bindE [OF keeps_clock] keeps_bindE [OF keeps_save]
        simp: released_row_def split: option.splits)
  have l: "keeps g (tx (list_cleanup_pending limit))
      (\<lambda>x. \<forall>rs. x = Inr rs \<longrightarrow> (\<forall>r \<in> set rs. is_terminal_lifecycle (row_state r)))"
  proof (rule keeps_tx)
    fix db x db' assume e: "list_cleanup_pending limit db = (x, db')"
    then have "db' = db"
      by (auto simp: list_cleanup_pending_def run_in_transaction_def and_then_Inr split: sum.splits prod.splits)
    then have "related db db'" by (simp add: unchanged)
    then show "related db db' \<and> (\<forall>rs. x = Inr rs \<longrightarrow> (\<forall>r \<in> set rs. is_terminal_lifecycle (row_state r)))"
      using e pending_terminal by auto
  qed
  show ?thesis
    unfolding release_remote_pending_def
  proof (rule keeps_bindE [OF l])
    fix rs assume "\<forall>rs'. Inr rs = Inr rs' \<longrightarrow> (\<forall>r \<in> set rs'. is_terminal_lifecycle (row_state r))"
    then have "row_state r \<noteq> R_ADMITTED" if "r \<in> set rs" for r using that is_terminal_simps(1) by metis
    then show "keeps g (each (release_one env) rs) (\<lambda>_. True)" by (intro keeps_each b)
  qed simp
qed

lemma keeps_admit_new: "keeps g (admit_new env owner client kind prompt consent) (\<lambda>_. True)"
proof -
  have b: "keeps g (admission_blocker env) (\<lambda>_. True)"
    unfolding admission_blocker_def
    using read_only_keeps [where op = "\<lambda>db. Inr (blocking_accounting_state db, db)"]
    by (simp del: run_in_transaction_eval)
  have a: "keeps g (tx (repository_admit row reservation)) (\<lambda>_. True)"
    if "budget_reservation_post_init reservation = Inr ()" for row reservation
    by (rule keeps_tx) (use admitting that in blast)
  have r: "keeps g (store_admission env snap now_ms owner client kind prompt fingerprint operation_id) (\<lambda>_. True)"
    for snap now_ms fingerprint operation_id
    unfolding store_admission_def Let_def
    by (intro keeps_bindE [where mid = "\<lambda>_. True"] keeps_bindE [where mid = "\<lambda>x. x = budget_reservation_post_init
          (admission_reservation (admitted_request snap operation_id kind prompt) kind snap)"] a) simp_all
  have f: "keeps g (bindE (lift (research_request_fingerprint env owner kind prompt consent)) (\<lambda>fingerprint.
     bindE (tick (en_operation_id env)) (store_admission env snap now_ms owner client kind prompt fingerprint)))
     (\<lambda>_. True)" for snap now_ms
    by (intro keeps_bindE [where mid = "\<lambda>_. True"] keeps_tick r) simp_all
  show ?thesis
    unfolding admit_new_def
    by (rule keeps_bindE [OF b])
      (auto intro!: keeps_bindE [OF keeps_tick] keeps_bindE [OF keeps_clock] f split: option.splits sum.splits)
qed

lemma keeps_admit: "keeps g (admit env owner client kind prompt consent) (\<lambda>_. True)"
proof -
  have f: "keeps g (tx (find_by_client owner client)) (\<lambda>_. True)"
    unfolding find_by_client_def by (rule read_only_keeps) (auto simp: and_then_Inr)
  have r: "keeps g (bindE (lift (replay_matches env row owner kind prompt consent)) (\<lambda>same.
      if same then ret \<lparr>ar_row = row, ar_newly_admitted = False\<rparr>
      else raise (ResearchStoreError E_IDEMPOTENCY_CONFLICT))) (\<lambda>_. True)" for row
    by (intro keeps_bindE [where mid = "\<lambda>_. True"]) simp_all
  show ?thesis
    unfolding admit_def by (auto intro!: keeps_bindE [OF f] r keeps_admit_new split: option.splits)
qed

end

section \<open>Invariants of the database\<close>

text \<open>
  An invariant that every transaction of the coordinator keeps holds whatever operations run, in
  every interleaving of their steps, and wherever the process stops.
\<close>

locale database_invariant =
  fixes inv :: "research_db \<Rightarrow> bool"
  assumes save_inv: "repository_save r db = (x, db') \<Longrightarrow> inv db \<Longrightarrow> inv db'"
    and admit_inv: "repository_admit row b db = (x, db') \<Longrightarrow> budget_reservation_post_init b = Inr ()
      \<Longrightarrow> inv db \<Longrightarrow> inv db'"
    and reconcile_inv: "ledger_reconcile now c db = (held, db') \<Longrightarrow> inv db \<Longrightarrow> inv db'"
    and complete_inv: "result_complete U d i now completion db = (receipt, db') \<Longrightarrow> inv db \<Longrightarrow> inv db'"
    and claim_inv: "claim_submission now j db = (claimed, db') \<Longrightarrow> inv db \<Longrightarrow> inv db'"
begin

definition safe_step :: "unit \<Rightarrow> research_world \<Rightarrow> unit \<Rightarrow> research_world \<Rightarrow> bool" where
  "safe_step g w g' w' \<longleftrightarrow> (inv (wd_db w) \<longrightarrow> inv (wd_db w'))"

end

sublocale database_invariant \<subseteq> coordinator_steps safe_step "\<lambda>db db'. inv db \<longrightarrow> inv db'"
  using save_inv admit_inv reconcile_inv complete_inv by unfold_locales (auto simp: safe_step_def)

context database_invariant begin

lemma safe_call: "keeps () (provider_call_prog answer c) (\<lambda>_. True)"
  unfolding provider_call_prog_def keeps_def
  by (rule guarantees_atomic) (simp add: Let_def safe_step_def)

lemma safe_submit: "keeps () (submit_pending env) (\<lambda>_. True)"
proof -
  have e: "keeps () (submission_enabled env) (\<lambda>_. True)"
    by (simp add: submission_enabled_def keeps_tick split: option.splits)
  have t: "keeps () (tx (claim_submission t i)) (\<lambda>_. True)" for t i
    by (rule keeps_tx) (use claim_inv in blast)
  have s: "keeps () (submit_claimed env row) (\<lambda>_. True)" for row
    unfolding submit_claimed_def Let_def
    by (intro keeps_bindE [where mid = "\<lambda>_. True"] keeps_catch [OF safe_call])
      (auto intro: keeps_submit_observation keeps_finish_any)
  have c: "keeps () (bindE (tx (claim_submission t i)) (\<lambda>claimed.
      case claimed of None \<Rightarrow> ret None | Some c \<Rightarrow> bindE (submit_claimed env c) (\<lambda>r. ret (Some r)))) (\<lambda>_. True)" for t i
    by (rule keeps_bindE [OF t]) (auto intro!: keeps_bindE [OF s] split: option.splits)
  have a: "keeps () (bindE (clock_ms env) (\<lambda>now_ms. bindE (tx (claim_submission now_ms i)) (\<lambda>claimed.
      case claimed of None \<Rightarrow> ret None | Some c \<Rightarrow> bindE (submit_claimed env c) (\<lambda>r. ret (Some r))))) (\<lambda>_. True)" for i
    by (rule keeps_bindE [OF keeps_clock c]) simp
  show ?thesis
    unfolding submit_pending_def
    by (rule keeps_bindE [OF e]) (auto intro!: keeps_bindE [OF keeps_active] a split: option.splits)
qed

lemma safe_thread: "guarantees safe_step () (perform env c) (\<lambda>_ _. True)"
proof -
  have t: "guarantees safe_step () (as_thread p) (\<lambda>_ _. True)" if "keeps () p (\<lambda>_. True)"
    for p :: "(research_world, 'a) prog"
    unfolding as_thread_def by (rule guarantees_bind [OF that [unfolded keeps_def]]) simp
  show ?thesis
    by (cases c) (simp_all add: t keeps_admit safe_submit keeps_recover keeps_poll keeps_cancel keeps_release)
qed

end

sublocale database_invariant \<subseteq>
  threads: shared_invariant safe_step "()" "\<lambda>gs w. inv (wd_db w)" "coordinator_thread env" for env
  by unfold_locales (auto simp: safe_step_def coordinator_thread_def safe_thread)

context database_invariant begin

lemma reachable_database:
  assumes "(par_step (coordinator_thread env))\<^sup>*\<^sup>* ([], w) (ps, w')" and "inv (wd_db w)"
  shows "inv (wd_db w')"
proof -
  have "threads.config_ok ([], w)" using assms(2) by (simp add: threads.config_ok_def)
  then show ?thesis using threads.reachable_inv [OF assms(1)] by blast
qed

end

end
