(* ===== verification/Research_Moves.thy ===== *)
theory Research_Moves
  imports Research_Steps
begin

text \<open>
  What the transactions of the coordinator do to the tables, as the moves of a state machine:
  a request is replaced, the slot is freed, a request is admitted with its hold, a hold is
  settled, a result is stored.  The tables stay consistent and the budgets stay within their
  ceilings along every sequence of moves, so in every interleaving of coordinator operations.
\<close>

section \<open>Moves of the tables\<close>

text \<open>The columns that no statement assigns after the insertion.\<close>

definition request_key :: "request_columns \<Rightarrow> pystr \<times> pystr \<times> pystr \<times> pystr \<times> pystr \<times> int" where
  "request_key c = (rt_operation_id c, rt_owner_login_key c, rt_client_request_id c, rt_request_fingerprint c,
     rt_prompt_text c, rt_created_at_ms c)"

inductive table_move :: "research_db \<Rightarrow> research_db \<Rightarrow> bool" where
  update: "sql_update (request_admissible db) (\<lambda>c. rt_operation_id c = i \<and> g c) f (rd_requests db) = Some (rows, n)
    \<Longrightarrow> (\<And>c. request_key (f c) = request_key c) \<Longrightarrow> table_move db (db\<lparr>rd_requests := rows\<rparr>)"
| release: "table_move db (release_slot i db)"
| admit: "select_client (rt_owner_login_key c) (rt_client_request_id c) db = None \<Longrightarrow> held_operation db = None
    \<Longrightarrow> insert_request c (ensure_slot db) = Inr db1
    \<Longrightarrow> reserve_hold b now db1 = Inr (h, db2) \<Longrightarrow> br_operation_id b = rt_operation_id c
    \<Longrightarrow> budget_reservation_post_init b = Inr ()
    \<Longrightarrow> set_slot \<lparr>sl_operation_id = Some (rt_operation_id c), sl_held_since_ms = since\<rparr> db2 = Inr db'
    \<Longrightarrow> table_move db db'"
| settle: "reconcile_hold b now db = Inr (h, db') \<Longrightarrow> table_move db db'"
| store: "c \<in> set (rd_requests db) \<Longrightarrow> insert_document (document_values d) db = Inr db1
    \<Longrightarrow> cdoc_operation_id d = rt_operation_id c
    \<Longrightarrow> insert_record (completion_record d record_id owner) db1 = Inr db2
    \<Longrightarrow> bind_record (rt_operation_id c) record_id now db2 = Inr db' \<Longrightarrow> table_move db db'"

text \<open>Every transaction is a sequence of moves.\<close>

lemma immediate_moves:
  assumes "run_in_immediate_transaction op db = (x, db')" and "\<And>y d. op db = Inr (y, d) \<Longrightarrow> R\<^sup>*\<^sup>* db d"
  shows "R\<^sup>*\<^sup>* db db'"
  using assms by (auto simp: run_in_immediate_transaction_def split: sum.splits prod.splits)

lemma save_moves:
  assumes "repository_save r db = (x, db')"
  shows "table_move\<^sup>*\<^sup>* db db'"
proof (cases "row_to_values r")
  case (Inl e)
  then show ?thesis using assms by (simp add: repository_save_def)
next
  case (Inr v)
  then obtain n where n: "v = row_columns n r" by (auto simp: row_to_values_def and_then_Inr)
  have t: "run_in_immediate_transaction (save_operation r v) db = (x, db')"
    using assms Inr by (simp add: repository_save_def)
  show ?thesis
  proof (rule immediate_moves [OF t])
    fix y d assume s: "save_operation r v db = Inr (y, d)"
    let ?u = "sql_update (request_admissible db) (\<lambda>c. rt_operation_id c = row_id r) (set_mutable_columns v) (rd_requests db)"
    obtain rows k where u: "?u = Some (rows, k)" and d: "d = finished_slot r (db\<lparr>rd_requests := rows\<rparr>)"
    proof (cases ?u)
      case None
      then show ?thesis using s by (simp add: save_operation_def and_then_Inr)
    next
      case (Some p)
      then show ?thesis using s that [of "fst p" "snd p"]
        by (cases p) (auto simp: save_operation_def and_then_Inr Let_def finished_slot_def split: if_splits)
    qed
    have k: "request_key (set_mutable_columns v c) = request_key c" for c
      by (simp add: request_key_def set_mutable_columns_def)
    have "sql_update (request_admissible db) (\<lambda>c. rt_operation_id c = row_id r \<and> True) (set_mutable_columns v) (rd_requests db)
        = Some (rows, k)" using u by simp
    then have "table_move db (db\<lparr>rd_requests := rows\<rparr>)" by (rule table_move.update) (rule k)
    moreover have "table_move\<^sup>*\<^sup>* (db\<lparr>rd_requests := rows\<rparr>) d"
      unfolding d finished_slot_def by (auto intro: table_move.release)
    ultimately show "table_move\<^sup>*\<^sup>* db d" by (rule converse_rtranclp_into_rtranclp)
  qed
qed

lemma claim_moves:
  assumes "claim_submission now i db = (x, db')"
  shows "table_move\<^sup>*\<^sup>* db db'"
proof (rule immediate_moves [OF assms [unfolded claim_submission_def]])
  fix y d assume s: "claim_operation i now db = Inr (y, d)"
  let ?g = "\<lambda>c. rt_lifecycle_state c = research_state_value R_ADMITTED"
  let ?f = "\<lambda>c. c\<lparr>rt_lifecycle_state := research_state_value R_SUBMITTING, rt_updated_at_ms := now\<rparr>"
  let ?u = "sql_update (request_admissible db) (\<lambda>c. rt_operation_id c = i \<and> ?g c) ?f (rd_requests db)"
  show "table_move\<^sup>*\<^sup>* db d"
  proof (cases ?u)
    case None
    then show ?thesis using s by (simp add: claim_operation_def and_then_Inr)
  next
    case (Some p)
    then have "d = db \<or> d = db\<lparr>rd_requests := fst p\<rparr>"
      using s by (cases p; cases "snd p = 1") (auto simp: claim_operation_def and_then_Inr Let_def)
    moreover have "table_move db (db\<lparr>rd_requests := fst p\<rparr>)"
      using Some by (intro table_move.update [of db i ?g ?f "fst p" "snd p"]) (simp_all add: request_key_def)
    ultimately show ?thesis by auto
  qed
qed

lemma reconcile_moves: "ledger_reconcile now b db = (x, db') \<Longrightarrow> table_move\<^sup>*\<^sup>* db db'"
  unfolding ledger_reconcile_def by (erule immediate_moves) (auto intro: table_move.settle)

lemma ensure_slot_simps [simp]:
  "rd_requests (ensure_slot db) = rd_requests db" "rd_holds (ensure_slot db) = rd_holds db"
  "rd_documents (ensure_slot db) = rd_documents db" "rd_records (ensure_slot db) = rd_records db"
  by (simp_all add: ensure_slot_def split: option.splits)

lemma admit_moves:
  assumes "repository_admit row b db = (x, db')" and "budget_reservation_post_init b = Inr ()"
  shows "table_move\<^sup>*\<^sup>* db db'"
proof (cases "br_operation_id b \<noteq> row_id row
    \<or> br_reserved_usd_micros b \<noteq> sp_budget_reservation_usd_micros (rq_profile (rw_record row))")
  case True
  then show ?thesis using assms(1) by (simp add: repository_admit_def)
next
  case False
  then have t: "run_in_immediate_transaction (admit_operation row b) db = (x, db')" and i: "br_operation_id b = row_id row"
    using assms(1) by (simp_all add: repository_admit_def)
  show ?thesis
  proof (rule immediate_moves [OF t])
    fix y d assume s: "admit_operation row b db = Inr (y, d)"
    show "table_move\<^sup>*\<^sup>* db d"
    proof (cases "select_client (rw_owner_login_key row) (rw_client_request_id row) db")
      case (Some c)
      then have "d = db" using s by (auto simp: admit_operation_def and_then_Inr split: if_splits)
      then show ?thesis by simp
    next
      case None
      then obtain v d1 h d2 where v: "row_to_values row = Inr v" "insert_request v (ensure_slot db) = Inr d1"
        and h: "reserve_hold b (rw_admitted_at_ms row) d1 = Inr (h, d2)" and l: "held_operation db = None"
        and t: "set_slot \<lparr>sl_operation_id = Some (row_id row), sl_held_since_ms = Some (rw_admitted_at_ms row)\<rparr> d2 = Inr d"
        using s by (auto simp: admit_operation_def and_then_Inr Let_def split: if_splits prod.splits)
      have c: "rt_operation_id v = row_id row" "rt_owner_login_key v = rw_owner_login_key row"
          "rt_client_request_id v = rw_client_request_id row"
        using v(1) by (auto simp: row_to_values_def and_then_Inr)
      have "table_move db d"
        by (rule table_move.admit [OF _ l v(2) h _ assms(2) t [folded c(1)]]) (simp_all add: c i None)
      then show ?thesis by simp
    qed
  qed
qed

lemma complete_moves:
  assumes "result_complete U did rid now completion db = (x, db')"
  shows "table_move\<^sup>*\<^sup>* db db'"
proof (rule immediate_moves [OF assms [unfolded result_complete_def]])
  fix y d assume s: "complete_operation U did rid now completion db = Inr (y, d)"
  show "table_move\<^sup>*\<^sup>* db d"
  proof (cases "find (\<lambda>c. rt_operation_id c = rc_operation_id completion) (rd_requests db)")
    case None
    then show ?thesis using s by (simp add: complete_operation_def Let_def)
  next
    case (Some c)
    then have c: "c \<in> set (rd_requests db)" "rt_operation_id c = rc_operation_id completion"
      by (auto simp: find_Some_iff)
    show ?thesis
    proof (cases "rt_record_id c = None")
      case False
      then show ?thesis using s Some by (auto simp: complete_operation_def Let_def and_then_Inr)
    next
      case True
      then obtain e d1 owner d2 where e: "completion_document U did now c (rc_answer completion) = Inr e"
        and d1: "insert_document (document_values e) db = Inr d1"
        and d2: "insert_record (completion_record e rid owner) d1 = Inr d2"
        and b: "bind_record (rc_operation_id completion) rid now d2 = Inr d"
        using s Some by (auto simp: complete_operation_def Let_def and_then_Inr)
      have "cdoc_operation_id e = rt_operation_id c"
        using e by (auto simp: completion_document_def and_then_Inr Let_def)
      then have "table_move db d" using table_move.store [OF c(1) d1 _ d2] b c(2) by simp
      then show ?thesis by simp
    qed
  qed
qed

text \<open>An invariant of the moves is an invariant of the database.\<close>

locale move_invariant =
  fixes inv :: "research_db \<Rightarrow> bool"
  assumes move_inv: "table_move db db' \<Longrightarrow> inv db \<Longrightarrow> inv db'"
begin

lemma moves_inv: "table_move\<^sup>*\<^sup>* db db' \<Longrightarrow> inv db \<Longrightarrow> inv db'"
  by (induction rule: rtranclp_induct) (auto intro: move_inv)

end

sublocale move_invariant \<subseteq> database_invariant inv
proof
  show "repository_save r db = (x, db') \<Longrightarrow> inv db \<Longrightarrow> inv db'" for r db x db'
    by (rule moves_inv [OF save_moves])
  show "repository_admit row b db = (x, db') \<Longrightarrow> budget_reservation_post_init b = Inr () \<Longrightarrow> inv db \<Longrightarrow> inv db'"
    for row b db x db' by (rule moves_inv [OF admit_moves])
  show "ledger_reconcile now c db = (x, db') \<Longrightarrow> inv db \<Longrightarrow> inv db'" for now c db x db'
    by (rule moves_inv [OF reconcile_moves])
  show "result_complete U d i now completion db = (x, db') \<Longrightarrow> inv db \<Longrightarrow> inv db'" for U d i now completion db x db'
    by (rule moves_inv [OF complete_moves])
  show "claim_submission now j db = (x, db') \<Longrightarrow> inv db \<Longrightarrow> inv db'" for now j db x db'
    by (rule moves_inv [OF claim_moves])
qed

end
