(* ===== verification/Research_Invariants.thy ===== *)
theory Research_Invariants
  imports Research_Moves
begin

text \<open>
  Invariants of the research tables along every sequence of moves: the constraints and references
  of the tables, one hold per request, and the ceilings of the budget.
\<close>

section \<open>Consistent tables\<close>

definition documents_ok :: "document_row list \<Rightarrow> bool" where
  "documents_ok ds \<longleftrightarrow> distinct (map dr_id ds) \<and> distinct (map dr_operation_id ds) \<and> list_all document_row_ok ds"

text \<open>A record of a completed document names it together with its operation and its kind.\<close>

definition record_resolves :: "document_row list \<Rightarrow> record_row \<Rightarrow> bool" where
  "record_resolves ds r \<longleftrightarrow> kr_document_id r = None \<or> kr_final_operation_id r = None
     \<or> list_ex (\<lambda>d. kr_document_id r = Some (dr_id d) \<and> kr_final_operation_id r = Some (dr_operation_id d)
          \<and> kr_kind r = dr_kind d) ds"

definition results_ok :: "research_db \<Rightarrow> bool" where
  "results_ok db \<longleftrightarrow> documents_ok (rd_documents db)
     \<and> keyed_rows_ok kr_id record_row_ok record_rows_clash (rd_records db)
     \<and> list_all (record_resolves (rd_documents db)) (rd_records db)"

definition tables_ok :: "research_db \<Rightarrow> bool" where
  "tables_ok db \<longleftrightarrow> keyed_rows_ok rt_operation_id request_checks_ok request_rows_clash (rd_requests db)
     \<and> list_all (request_fk_ok db) (rd_requests db) \<and> slot_ok db \<and> holds_ok db \<and> results_ok db"

interpretation plain_requests: keyed_rows rt_operation_id request_checks_ok request_rows_clash
  by unfold_locales (auto simp: request_rows_clash_def)

interpretation record_table: keyed_rows kr_id record_row_ok record_rows_clash
  by unfold_locales (simp add: record_rows_clash_def, metis)

lemma request_fk_cong: "rd_records db' = rd_records db \<Longrightarrow> request_fk_ok db' = request_fk_ok db"
  by (rule ext) (simp add: request_fk_ok_def split: option.splits)

lemma request_fk_more:
  assumes "set (rd_records db) \<subseteq> set (rd_records db')" and "request_fk_ok db c"
  shows "request_fk_ok db' c"
proof (cases "rt_record_id c")
  case (Some i)
  then show ?thesis using assms image_mono [OF assms(1), of kr_id] by (auto simp: request_fk_ok_def)
qed (simp add: request_fk_ok_def)

lemma results_cong: "rd_documents db' = rd_documents db \<Longrightarrow> rd_records db' = rd_records db \<Longrightarrow> results_ok db' = results_ok db"
  by (simp add: results_ok_def)

text \<open>An update by operation id replaces the one row that has it.\<close>

lemma update_table:
  assumes u: "sql_update (request_admissible db) (\<lambda>c. rt_operation_id c = i \<and> g c) f (rd_requests db) = Some (rows, n)"
    and k: "\<And>c. rt_operation_id (f c) = rt_operation_id c"
    and inv: "keyed_rows_ok rt_operation_id request_checks_ok request_rows_clash (rd_requests db)"
    and fk: "list_all (request_fk_ok db) (rd_requests db)"
  shows "keyed_rows_ok rt_operation_id request_checks_ok request_rows_clash rows"
    and "map rt_operation_id rows = map rt_operation_id (rd_requests db)"
    and "list_all (request_fk_ok db) rows"
proof -
  let ?p = "\<lambda>c. rt_operation_id c = i \<and> g c"
  have rows: "rows = map (\<lambda>c. if ?p c then f c else c) (rd_requests db)"
    and adm: "\<And>c. c \<in> set (rd_requests db) \<Longrightarrow> ?p c \<Longrightarrow> request_admissible db (f c)"
    using u by (auto simp: sql_update_def list_ex_iff split: if_splits)
  show ids: "map rt_operation_id rows = map rt_operation_id (rd_requests db)"
    unfolding rows using k by simp
  show "list_all (request_fk_ok db) rows"
    using fk adm unfolding rows by (auto simp: list_all_iff request_admissible_def)
  show "keyed_rows_ok rt_operation_id request_checks_ok request_rows_clash rows"
  proof (cases "\<exists>c \<in> set (rd_requests db). ?p c")
    case False
    then have "rows = rd_requests db" unfolding rows by (intro map_idI) auto
    then show ?thesis using inv by simp
  next
    case True
    then obtain c0 where c0: "c0 \<in> set (rd_requests db)" "?p c0" by blast
    have "c = c0" if "c \<in> set (rd_requests db)" "rt_operation_id c = i" for c
      using that c0 keyed_rows_okD(1) [OF inv] by (metis inj_onD distinct_map)
    then have "rows = map (\<lambda>c. if rt_operation_id c = rt_operation_id (f c0) \<and> g c then f c0 else c) (rd_requests db)"
      unfolding rows using k c0(2) by (intro map_cong refl) auto
    then show ?thesis
      using plain_requests.replace_keeps [OF inv, of "f c0" g] adm [OF c0] by (simp add: request_admissible_def)
  qed
qed

lemma insert_table:
  assumes "insert_request c db = Inr db'" and inv: "keyed_rows_ok rt_operation_id request_checks_ok request_rows_clash (rd_requests db)"
  shows "keyed_rows_ok rt_operation_id request_checks_ok request_rows_clash (rd_requests db')"
    and "db' = db\<lparr>rd_requests := rd_requests db @ [c]\<rparr>" and "request_fk_ok db c"
    and "rt_operation_id c \<notin> set (request_ids db)"
proof -
  have i: "request_admissible db c" "rt_operation_id c \<notin> set (map rt_operation_id (rd_requests db))"
    and db': "db' = db\<lparr>rd_requests := rd_requests db @ [c]\<rparr>"
    using assms(1) by (auto simp: insert_request_def and_then_Inr split: if_splits)
  show "keyed_rows_ok rt_operation_id request_checks_ok request_rows_clash (rd_requests db')"
    unfolding db' using plain_requests.insert_keeps [OF inv _ i(2)] i(1) by (simp add: request_admissible_def)
  show "db' = db\<lparr>rd_requests := rd_requests db @ [c]\<rparr>" "request_fk_ok db c" "rt_operation_id c \<notin> set (request_ids db)"
    using db' i by (simp_all add: request_admissible_def request_ids_def)
qed

section \<open>The holds\<close>

lemma hold_reserve_effect:
  assumes "reserve_hold b now db = Inr (h, db')"
  obtains d m where "utc_keys now = Inr (d, m)"
    and "consumed_where hd_day_key d db + br_reserved_usd_micros b \<le> br_daily_limit_usd_micros b"
    and "consumed_where hd_month_key m db + br_reserved_usd_micros b \<le> br_monthly_limit_usd_micros b"
    and "insert_hold \<lparr>hd_operation_id = br_operation_id b, hd_day_key = d, hd_month_key = m,
          hd_reserved_usd_micros = br_reserved_usd_micros b, hd_accounted_usd_micros = None,
          hd_state = research_accounting_value RA_RESERVED, hd_created_at_ms = now,
          hd_reconciled_at_ms = None\<rparr> db = Inr db'"
  using assms by (auto simp: reserve_hold_def and_then_Inr split: if_splits prod.splits)

lemma settle_effect:
  assumes "reconcile_hold b now db = Inr (h, db')"
  shows "db' = db \<or> (\<exists>h0 accounted st holds n. find (\<lambda>h. hd_operation_id h = bc_operation_id b) (rd_holds db) = Some h0
    \<and> hd_state h0 = research_accounting_value RA_RESERVED
    \<and> sql_update hold_row_ok (\<lambda>h. hd_operation_id h = bc_operation_id b)
        (\<lambda>h. h\<lparr>hd_accounted_usd_micros := Some accounted, hd_state := research_accounting_value st,
           hd_reconciled_at_ms := Some now\<rparr>) (rd_holds db) = Some (holds, n)
    \<and> db' = db\<lparr>rd_holds := holds\<rparr>)"
proof (cases "find (\<lambda>h. hd_operation_id h = bc_operation_id b) (rd_holds db)")
  case None
  then show ?thesis using assms by (simp add: reconcile_hold_def)
next
  case (Some h0)
  show ?thesis
  proof (cases "hd_state h0 = research_accounting_value RA_RESERVED")
    case False
    then show ?thesis using assms Some by (auto simp: reconcile_hold_def and_then_Inr Let_def)
  next
    case True
    then obtain accounted holds n where "sql_update hold_row_ok (\<lambda>h. hd_operation_id h = bc_operation_id b)
        (\<lambda>h. h\<lparr>hd_accounted_usd_micros := Some accounted, hd_state := research_accounting_value (bc_state b),
           hd_reconciled_at_ms := Some now\<rparr>) (rd_holds db) = Some (holds, n)" "db' = db\<lparr>rd_holds := holds\<rparr>"
      using assms Some by (auto simp: reconcile_hold_def and_then_Inr Let_def split: option.splits)
    then show ?thesis using Some True by blast
  qed
qed

lemma insert_hold_effect:
  assumes "insert_hold h db = Inr db'" and "distinct (map hd_operation_id (rd_holds db))" and "list_all hold_row_ok (rd_holds db)"
  shows "db' = db\<lparr>rd_holds := rd_holds db @ [h]\<rparr>" and "distinct (map hd_operation_id (rd_holds db'))"
    and "list_all hold_row_ok (rd_holds db')"
  using assms by (auto simp: insert_hold_def split: if_splits)

section \<open>Moves keep the tables consistent\<close>

lemma tables_okD:
  assumes "tables_ok db"
  shows "keyed_rows_ok rt_operation_id request_checks_ok request_rows_clash (rd_requests db)"
    "list_all (request_fk_ok db) (rd_requests db)" "slot_ok db" "holds_ok db" "results_ok db"
  using assms by (simp_all add: tables_ok_def)

lemma slot_cong:
  "rd_slot db' = rd_slot db \<Longrightarrow> set (request_ids db) \<subseteq> set (request_ids db') \<Longrightarrow> slot_ok db \<Longrightarrow> slot_ok db'"
  by (auto simp: slot_ok_def held_operation_def split: option.splits)

lemma release_tables:
  assumes "tables_ok db"
  shows "tables_ok (release_slot i db)"
proof -
  have ids: "request_ids (release_slot i db) = request_ids db" by (rule request_ids_slot) simp
  have "slot_ok (release_slot i db)"
    using tables_okD(3) [OF assms] unfolding slot_ok_def held_release ids
    by (auto simp: release_slot_def slot_row_ok_def split: option.splits if_splits)
  moreover have "holds_ok (release_slot i db)" using tables_okD(4) [OF assms] ids by (simp add: holds_ok_def)
  moreover have "results_ok (release_slot i db)" using tables_okD(5) [OF assms] by (simp add: results_ok_def)
  moreover have "request_fk_ok (release_slot i db) = request_fk_ok db" by (rule request_fk_cong) simp
  ultimately show ?thesis using assms by (simp add: tables_ok_def)
qed

lemma update_tables:
  assumes ok: "tables_ok db"
    and u: "sql_update (request_admissible db) (\<lambda>c. rt_operation_id c = i \<and> g c) f (rd_requests db) = Some (rows, n)"
    and k: "\<And>c. rt_operation_id (f c) = rt_operation_id c"
  shows "tables_ok (db\<lparr>rd_requests := rows\<rparr>)"
proof -
  let ?db = "db\<lparr>rd_requests := rows\<rparr>"
  note t = update_table [OF u k tables_okD(1,2) [OF ok]]
  have ids: "request_ids ?db = request_ids db" using t(2) by (simp add: request_ids_def)
  have "request_fk_ok ?db = request_fk_ok db" by (rule request_fk_cong) simp
  moreover have "slot_ok ?db" using slot_cong [of ?db db] tables_okD(3) [OF ok] ids by simp
  moreover have "holds_ok ?db" using tables_okD(4) [OF ok] ids by (simp add: holds_ok_def)
  moreover have "results_ok ?db" using tables_okD(5) [OF ok] by (simp add: results_ok_def)
  ultimately show ?thesis using t(1,3) by (simp add: tables_ok_def)
qed

lemma set_slot_effect:
  assumes "set_slot s db = Inr db'"
  shows "db' = db \<and> rd_slot db = None \<or> db' = db\<lparr>rd_slot := Some s\<rparr> \<and> slot_row_ok s
    \<and> (case sl_operation_id s of None \<Rightarrow> True | Some i \<Rightarrow> i \<in> set (request_ids db))"
  using assms by (cases "sl_operation_id s") (auto simp: set_slot_def request_ids_def split: if_splits)

lemma ensure_slot_ok: "slot_ok db \<Longrightarrow> slot_ok (ensure_slot db)"
  using request_ids_slot [of "ensure_slot db" db]
  by (auto simp: slot_ok_def ensure_slot_def held_operation_def slot_row_ok_def split: option.splits)

lemma admit_parts:
  assumes slot: "slot_ok db" and holds: "holds_ok db" and c: "insert_request c (ensure_slot db) = Inr db1"
    and h: "reserve_hold b now db1 = Inr (h, db2)" and i: "br_operation_id b = rt_operation_id c"
    and s: "set_slot \<lparr>sl_operation_id = Some (rt_operation_id c), sl_held_since_ms = since\<rparr> db2 = Inr db'"
  shows "slot_ok db'" "holds_ok db'" "rd_requests db' = rd_requests db @ [c]" "rd_records db' = rd_records db"
    "rd_documents db' = rd_documents db" "held_operation db' = Some (rt_operation_id c)"
proof -
  let ?e = "ensure_slot db"
  have t: "db1 = ?e\<lparr>rd_requests := rd_requests ?e @ [c]\<rparr>"
    using c by (auto simp: insert_request_def and_then_Inr split: if_splits)
  obtain h0 where h0: "insert_hold h0 db1 = Inr db2" "hd_operation_id h0 = rt_operation_id c"
    using hold_reserve_effect [OF h] i by (metis hold_row.select_convs(1))
  have old: "distinct (map hd_operation_id (rd_holds db1))" "list_all hold_row_ok (rd_holds db1)"
      "set (map hd_operation_id (rd_holds db)) = set (request_ids db)"
    using holds t by (simp_all add: holds_ok_def)
  note e = insert_hold_effect [OF h0(1) old(1,2)]
  have d2: "rd_requests db2 = rd_requests db1" "rd_slot db2 = rd_slot ?e" "rd_records db2 = rd_records db"
      "rd_documents db2 = rd_documents db" "rd_holds db2 = rd_holds db @ [h0]"
    using e(1) t by simp_all
  have ids: "request_ids db2 = request_ids db @ [rt_operation_id c]"
    using d2(1) t by (simp add: request_ids_def)
  have sl: "slot_ok db2"
    using slot_cong [OF d2(2) _ ensure_slot_ok [OF slot]] ids request_ids_slot [of "ensure_slot db" db] by auto
  have d': "rd_requests db' = rd_requests db1" "rd_records db' = rd_records db" "rd_documents db' = rd_documents db"
      "rd_holds db' = rd_holds db @ [h0]" "request_ids db' = request_ids db2"
    using set_slot_effect [OF s] d2 by (auto simp: request_ids_def)
  show "slot_ok db'"
    using set_slot_effect [OF s] sl
    by (auto simp: slot_ok_def held_operation_def request_ids_def rev_image_eqI split: option.splits)
  show "holds_ok db'"
    using e(2,3) old(3) ids unfolding holds_ok_def d' d2(5) [symmetric] by (simp add: d2(5) h0(2))
  show "rd_requests db' = rd_requests db @ [c]" "rd_records db' = rd_records db" "rd_documents db' = rd_documents db"
    using d' t by simp_all
  have "rd_slot db2 \<noteq> None" unfolding d2(2) by (simp add: ensure_slot_def split: option.split)
  then show "held_operation db' = Some (rt_operation_id c)"
    using set_slot_effect [OF s] by (auto simp: held_operation_def)
qed

lemma admit_tables:
  assumes ok: "tables_ok db" and c: "insert_request c (ensure_slot db) = Inr db1"
    and h: "reserve_hold b now db1 = Inr (h, db2)" and i: "br_operation_id b = rt_operation_id c"
    and s: "set_slot \<lparr>sl_operation_id = Some (rt_operation_id c), sl_held_since_ms = since\<rparr> db2 = Inr db'"
  shows "tables_ok db'"
proof -
  let ?e = "ensure_slot db"
  have rows: "keyed_rows_ok rt_operation_id request_checks_ok request_rows_clash (rd_requests ?e)"
    using tables_okD(1) [OF ok] by simp
  note t = insert_table [OF c rows]
  note a = admit_parts [OF tables_okD(3,4) [OF ok] c h i s]
  have "rd_requests db1 = rd_requests db @ [c]" using t(2) by simp
  moreover have "request_fk_ok db' = request_fk_ok db" "request_fk_ok ?e = request_fk_ok db"
    using request_fk_cong [of db' db] request_fk_cong [of ?e db] a(4) by simp_all
  moreover have "results_ok db'" using tables_okD(5) [OF ok] a(4,5) by (simp add: results_ok_def)
  ultimately show ?thesis using t(1,3) tables_okD(2) [OF ok] a(1,2,3) by (simp add: tables_ok_def)
qed

lemma holds_update:
  assumes u: "sql_update hold_row_ok p f hs = Some (hs', n)" and k: "\<And>h. hd_operation_id (f h) = hd_operation_id h"
    and "list_all hold_row_ok hs"
  shows "map hd_operation_id hs' = map hd_operation_id hs" and "list_all hold_row_ok hs'"
    and "hs' = map (\<lambda>h. if p h then f h else h) hs" and "h \<in> set hs \<Longrightarrow> p h \<Longrightarrow> hold_row_ok (f h)"
proof -
  show r: "hs' = map (\<lambda>h. if p h then f h else h) hs" and a: "h \<in> set hs \<Longrightarrow> p h \<Longrightarrow> hold_row_ok (f h)" for h
    using u by (auto simp: sql_update_def list_ex_iff split: if_splits)
  show "map hd_operation_id hs' = map hd_operation_id hs" unfolding r using k by simp
  show "list_all hold_row_ok hs'" unfolding r using a assms(3) by (auto simp: list_all_iff)
qed

lemma settle_holds:
  assumes ok: "holds_ok db" and s: "reconcile_hold b now db = Inr (h, db')"
  shows "holds_ok db'" and "db' = db\<lparr>rd_holds := rd_holds db'\<rparr>"
proof -
  have "holds_ok db' \<and> db' = db\<lparr>rd_holds := rd_holds db'\<rparr>"
    using settle_effect [OF s]
  proof (elim disjE exE conjE)
    assume "db' = db" then show ?thesis using ok by simp
  next
    fix h0 accounted st holds n
    assume u: "sql_update hold_row_ok (\<lambda>h. hd_operation_id h = bc_operation_id b)
          (\<lambda>h. h\<lparr>hd_accounted_usd_micros := Some accounted, hd_state := research_accounting_value st,
             hd_reconciled_at_ms := Some now\<rparr>) (rd_holds db) = Some (holds, n)"
      and d: "db' = db\<lparr>rd_holds := holds\<rparr>"
    have o: "list_all hold_row_ok (rd_holds db)" using ok by (simp add: holds_ok_def)
    have e: "map hd_operation_id holds = map hd_operation_id (rd_holds db)" "list_all hold_row_ok holds"
      using holds_update(1,2) [OF u _ o] by simp_all
    have "request_ids db' = request_ids db" unfolding d by (rule request_ids_slot) simp
    moreover have "set (map hd_operation_id holds) = set (map hd_operation_id (rd_holds db))"
      "distinct (map hd_operation_id holds) = distinct (map hd_operation_id (rd_holds db))" by (simp_all only: e(1))
    ultimately have "holds_ok db'"
      using e(2) ok by (simp only: holds_ok_def d research_db.select_convs research_db.update_convs simp_thms) simp
    then show ?thesis by (simp add: d)
  qed
  then show "holds_ok db'" "db' = db\<lparr>rd_holds := rd_holds db'\<rparr>" by simp_all
qed

lemma settle_tables:
  assumes ok: "tables_ok db" and s: "reconcile_hold b now db = Inr (h, db')"
  shows "tables_ok db'"
proof -
  note h = settle_holds [OF tables_okD(4) [OF ok] s]
  obtain hs where d: "db' = db\<lparr>rd_holds := hs\<rparr>" using h(2) by blast
  have "request_ids db' = request_ids db" unfolding d by (rule request_ids_slot) simp
  then show ?thesis using h(1) ok request_fk_cong [of db' db] slot_cong [of db' db]
    unfolding tables_ok_def by (simp add: d results_ok_def)
qed

lemma store_tables:
  assumes ok: "tables_ok db" and d: "insert_document dr db = Inr db1" and r: "insert_record kr db1 = Inr db2"
    and b: "bind_record i record_id now db2 = Inr db'"
  shows "tables_ok db'"
proof -
  have d1: "db1 = db\<lparr>rd_documents := rd_documents db @ [dr]\<rparr>" "document_row_ok dr"
      "dr_id dr \<notin> set (map dr_id (rd_documents db))" "dr_operation_id dr \<notin> set (map dr_operation_id (rd_documents db))"
    using d by (auto simp: insert_document_def split: if_splits)
  have r1: "db2 = db1\<lparr>rd_records := rd_records db @ [kr]\<rparr>" "record_row_ok kr" "kr_id kr \<notin> set (map kr_id (rd_records db))"
      "list_all (\<lambda>s. \<not> record_rows_clash kr s) (rd_records db)" "record_resolves (rd_documents db1) kr"
    using r d1(1) by (auto simp: insert_record_def record_resolves_def split: if_splits)
  have docs: "documents_ok (rd_documents db2)"
    using tables_okD(5) [OF ok] d1 r1(1) by (simp add: results_ok_def documents_ok_def)
  have recs: "keyed_rows_ok kr_id record_row_ok record_rows_clash (rd_records db2)"
    using record_table.insert_keeps [of "rd_records db" kr] tables_okD(5) [OF ok] r1
    by (simp add: results_ok_def list_all_iff)
  have more: "record_resolves (rd_documents db) s \<Longrightarrow> record_resolves (rd_documents db @ [dr]) s" for s
    by (auto simp: record_resolves_def)
  have "results_ok db2"
    using docs recs tables_okD(5) [OF ok] r1(5) more by (auto simp: results_ok_def r1(1) d1(1) list_all_iff)
  moreover have ids: "request_ids db2 = request_ids db" by (rule request_ids_slot) (simp add: r1(1) d1(1))
  moreover have "slot_ok db2" using slot_cong [of db2 db] tables_okD(3) [OF ok] ids by (simp add: r1(1) d1(1))
  moreover have "holds_ok db2" using tables_okD(4) [OF ok] ids by (simp add: holds_ok_def r1(1) d1(1))
  moreover have "list_all (request_fk_ok db2) (rd_requests db2)"
    using tables_okD(2) [OF ok] request_fk_more [of db db2] by (auto simp: list_all_iff r1(1) d1(1))
  ultimately have ok2: "tables_ok db2"
    using tables_okD(1) [OF ok] by (simp add: tables_ok_def r1(1) d1(1))
  let ?u = "sql_update (request_admissible db2) (\<lambda>c. rt_operation_id c = i)
      (\<lambda>c. c\<lparr>rt_record_id := Some (uuid_to_text record_id), rt_updated_at_ms := now\<rparr>) (rd_requests db2)"
  obtain rows n where u: "?u = Some (rows, n)" "db' = db2\<lparr>rd_requests := rows\<rparr>"
    using b by (auto simp: bind_record_def split: option.splits)
  have "sql_update (request_admissible db2) (\<lambda>c. rt_operation_id c = i \<and> True)
      (\<lambda>c. c\<lparr>rt_record_id := Some (uuid_to_text record_id), rt_updated_at_ms := now\<rparr>) (rd_requests db2) = Some (rows, n)"
    using u(1) by simp
  then have "tables_ok (db2\<lparr>rd_requests := rows\<rparr>)" by (rule update_tables [OF ok2]) simp
  then show ?thesis using u(2) by simp
qed

lemma move_tables:
  assumes "table_move db db'" and "tables_ok db"
  shows "tables_ok db'"
  using assms
proof (cases rule: table_move.cases)
  case (update i g f rows n)
  have "rt_operation_id (f c) = rt_operation_id c" for c using update(3) [of c] by (simp add: request_key_def)
  then show ?thesis using update_tables [OF assms(2) update(2)] update(1) by blast
next
  case (release i)
  then show ?thesis using release_tables [OF assms(2)] by simp
next
  case (admit c db1 b now h db2 since)
  then show ?thesis using admit_tables [OF assms(2)] by blast
next
  case (settle b now h)
  then show ?thesis using settle_tables [OF assms(2)] by blast
next
  case (store c d db1 record_id owner db2 now)
  then show ?thesis using store_tables [OF assms(2)] by blast
qed

interpretation consistent: move_invariant tables_ok
  using move_tables by unfold_locales

section \<open>The budget\<close>

text \<open>What a hold takes of the budget, up to what it reserved.\<close>

definition charge :: "hold_row \<Rightarrow> int" where
  "charge h = min (hd_reserved_usd_micros h) (hold_consumption h)"

definition charged :: "(hold_row \<Rightarrow> pystr) \<Rightarrow> pystr \<Rightarrow> hold_row list \<Rightarrow> int" where
  "charged column key hs = sum_list (map charge (filter (\<lambda>h. column h = key) hs))"

definition within_budget :: "research_db \<Rightarrow> bool" where
  "within_budget db \<longleftrightarrow> (\<forall>day. charged hd_day_key day (rd_holds db) \<le> MAX_DAILY_BUDGET_MICRO_USD)
     \<and> (\<forall>month. charged hd_month_key month (rd_holds db) \<le> MAX_MONTHLY_BUDGET_MICRO_USD)"

lemma charged_consumed: "charged column key (rd_holds db) \<le> consumed_where column key db"
proof -
  have "sum_list (map charge hs) \<le> sum_list (map hold_consumption hs)" for hs
    by (rule sum_list_mono) (simp add: charge_def)
  then show ?thesis by (simp add: charged_def consumed_where_def)
qed

lemma charged_update:
  assumes "\<And>h. h \<in> set hs \<Longrightarrow> charge (f h) \<le> charge h" and "\<And>h. column (f h) = column h"
  shows "charged column key (map f hs) \<le> charged column key hs"
  using assms by (induction hs) (auto simp: charged_def intro: add_mono)

lemma limits_of_reservation:
  assumes "budget_reservation_post_init b = Inr ()"
  shows "br_daily_limit_usd_micros b \<le> MAX_DAILY_BUDGET_MICRO_USD" "br_monthly_limit_usd_micros b \<le> MAX_MONTHLY_BUDGET_MICRO_USD"
    "1 \<le> br_reserved_usd_micros b"
  using assms
  by (auto simp: budget_reservation_post_init_def)

lemma settle_charge:
  assumes ok: "holds_ok db" and s: "reconcile_hold b now db = Inr (h, db')"
    and c: "\<And>h x y z. column (h\<lparr>hd_accounted_usd_micros := x, hd_state := y, hd_reconciled_at_ms := z\<rparr>) = column h"
  shows "charged column key (rd_holds db') \<le> charged column key (rd_holds db)"
  using settle_effect [OF s]
proof (elim disjE exE conjE)
  fix h0 accounted st holds n
  let ?p = "\<lambda>h. hd_operation_id h = bc_operation_id b"
  let ?f = "\<lambda>h. h\<lparr>hd_accounted_usd_micros := Some accounted, hd_state := research_accounting_value st,
           hd_reconciled_at_ms := Some now\<rparr>"
  assume f: "find ?p (rd_holds db) = Some h0" and r: "hd_state h0 = research_accounting_value RA_RESERVED"
    and u: "sql_update hold_row_ok ?p ?f (rd_holds db) = Some (holds, n)" and d: "db' = db\<lparr>rd_holds := holds\<rparr>"
  have holds: "holds = map (\<lambda>h. if ?p h then ?f h else h) (rd_holds db)"
    using holds_update(3) [OF u] ok by (simp add: holds_ok_def)
  have "charge (if ?p h then ?f h else h) \<le> charge h" if h: "h \<in> set (rd_holds db)" for h
  proof (cases "?p h")
    case True
    then have "h = h0"
      using find_key_Some_iff [of hd_operation_id "rd_holds db" "bc_operation_id b" h] f h ok by (simp add: holds_ok_def)
    then show ?thesis using r True by (simp add: charge_def hold_consumption_def)
  qed simp
  then show ?thesis unfolding d holds by (simp add: charged_update c)
qed simp

lemma admit_charge:
  assumes "insert_request c (ensure_slot db) = Inr db1" and h: "reserve_hold b now db1 = Inr (h, db2)"
    and b: "budget_reservation_post_init b = Inr ()" and s: "set_slot sl db2 = Inr db'" and w: "within_budget db"
  shows "within_budget db'"
proof -
  have d1: "rd_holds db1 = rd_holds db" using assms(1) by (auto simp: insert_request_def and_then_Inr split: if_splits)
  have d': "rd_holds db' = rd_holds db2" using set_slot_effect [OF s] by auto
  obtain d m where k: "consumed_where hd_day_key d db1 + br_reserved_usd_micros b \<le> br_daily_limit_usd_micros b"
      "consumed_where hd_month_key m db1 + br_reserved_usd_micros b \<le> br_monthly_limit_usd_micros b"
    and i: "insert_hold \<lparr>hd_operation_id = br_operation_id b, hd_day_key = d, hd_month_key = m,
          hd_reserved_usd_micros = br_reserved_usd_micros b, hd_accounted_usd_micros = None,
          hd_state = research_accounting_value RA_RESERVED, hd_created_at_ms = now,
          hd_reconciled_at_ms = None\<rparr> db1 = Inr db2"
    using hold_reserve_effect [OF h] by metis
  obtain h0 where h0: "rd_holds db2 = rd_holds db @ [h0]" "hd_day_key h0 = d" "hd_month_key h0 = m"
      "charge h0 = br_reserved_usd_micros b"
    using i d1 by (auto simp: insert_hold_def charge_def hold_consumption_def split: if_splits)
  note l = limits_of_reservation [OF b]
  have a: "charged column key (rd_holds db') = charged column key (rd_holds db)
      + (if column h0 = key then br_reserved_usd_micros b else 0)" for column key
    unfolding d' h0(1) by (simp add: charged_def h0(4))
  have "charged hd_day_key d (rd_holds db) + br_reserved_usd_micros b \<le> MAX_DAILY_BUDGET_MICRO_USD"
      "charged hd_month_key m (rd_holds db) + br_reserved_usd_micros b \<le> MAX_MONTHLY_BUDGET_MICRO_USD"
    using k l charged_consumed [of hd_day_key d db1] charged_consumed [of hd_month_key m db1] d1 by simp_all
  then show ?thesis using w unfolding within_budget_def a h0(2,3) by auto
qed

lemma move_budget:
  assumes "table_move db db'" and "tables_ok db" and "within_budget db"
  shows "within_budget db'"
  using assms(1)
proof (cases rule: table_move.cases)
  case (update i g f rows n)
  then show ?thesis using assms(3) by (simp add: within_budget_def)
next
  case (release i)
  then show ?thesis using assms(3) by (simp add: within_budget_def)
next
  case (admit c db1 b now h db2 since)
  then show ?thesis using admit_charge assms(3) by blast
next
  case (settle b now h)
  have "charged hd_day_key k (rd_holds db') \<le> charged hd_day_key k (rd_holds db)"
      "charged hd_month_key k (rd_holds db') \<le> charged hd_month_key k (rd_holds db)" for k
    by (rule settle_charge [OF tables_okD(4) [OF assms(2)] settle]; simp)+
  then show ?thesis using assms(3) unfolding within_budget_def by (meson order_trans)
next
  case (store c d db1 record_id owner db2 now)
  then have "rd_holds db' = rd_holds db"
    by (auto simp: insert_document_def insert_record_def bind_record_def split: if_splits option.splits)
  then show ?thesis using assms(3) by (simp add: within_budget_def)
qed

interpretation budgeted: move_invariant "\<lambda>db. tables_ok db \<and> within_budget db"
  using move_tables move_budget by unfold_locales blast

lemma empty_tables_ok [simp]: "tables_ok empty_research_db"
  by (simp add: tables_ok_def empty_research_db_def slot_ok_def holds_ok_def held_operation_def request_ids_def
      results_ok_def documents_ok_def)

lemma empty_within_budget [simp]: "within_budget empty_research_db"
  by (simp add: within_budget_def empty_research_db_def charged_def MAX_DAILY_BUDGET_MICRO_USD_def
      MAX_MONTHLY_BUDGET_MICRO_USD_def)

end
