(* ===== verification/Research_Documents.thy ===== *)
theory Research_Documents
  imports Research_Coordinator
begin

text \<open>
  What is written as JSON is read back: the checkpoint of an answer, the columns of a completed
  document, and the fingerprint of a request as the hash of a text that determines the request.
\<close>

section \<open>Checkpoints\<close>

text \<open>The values the constructors admit, over Unicode text.\<close>

definition citation_valid :: "citation \<Rightarrow> bool" where
  "citation_valid c \<longleftrightarrow> ok (citation_post_init c) \<and> text_ok False (ct_url c) \<and> text_ok False (ct_title c)"

definition answer_valid :: "research_answer \<Rightarrow> bool" where
  "answer_valid a \<longleftrightarrow> ok (research_answer_post_init a) \<and> text_ok False (an_text a)
     \<and> list_all citation_valid (an_citations a)
     \<and> (case an_usage a of None \<Rightarrow> True | Some u \<Rightarrow> ok (research_usage_post_init u))"

lemma lit_text_ok [simp]: "text_ok a (lit s) \<longleftrightarrow> list_all (\<lambda>c. of_char c < (1114112 :: nat)
    \<and> (a \<longrightarrow> \<not> (55296 \<le> (of_char c :: nat) \<and> of_char c \<le> (57343 :: nat)))) s"
  by (simp add: text_ok_def lit_def list_all_iff)

lemma char_small: "(of_char c :: nat) < 256"
  using nat_of_char_less_256 by simp

lemma lit_ok [simp]: "text_ok a (lit s)"
proof -
  have "(of_char c :: nat) < 1114112 \<and> \<not> 55296 \<le> (of_char c :: nat)" for c
    using char_small [of c] by linarith
  then show ?thesis by (simp add: list_all_iff)
qed

declare lit_text_ok [simp del]

lemma lit_inj [simp]: "lit s = lit t \<longleftrightarrow> s = t"
  by (auto simp: lit_def inj_map_eq_map inj_def)

lemma record_etas [simp]:
  "\<lparr>ct_url = ct_url c, ct_title = ct_title c\<rparr> = c"
  "\<lparr>an_text = an_text a, an_citations = an_citations a, an_evidence = an_evidence a, an_usage = an_usage a\<rparr> = a"
  "\<lparr>ru_input_tokens = ru_input_tokens u, ru_cached_input_tokens = ru_cached_input_tokens u,
     ru_output_tokens = ru_output_tokens u, ru_reasoning_tokens = ru_reasoning_tokens u,
     ru_web_tool_calls = ru_web_tool_calls u, ru_cache_write_input_tokens = ru_cache_write_input_tokens u\<rparr> = u"
  by simp_all

lemma citation_json_read: "citation_valid c \<Longrightarrow> checkpoint_citation (citation_json c) = Some c"
  by (simp add: checkpoint_citation_def citation_json_def json_field_def citation_valid_def Let_def)

lemma citations_json_read:
  "list_all citation_valid cs \<Longrightarrow> all_or_none (map checkpoint_citation (map citation_json cs)) = Some cs"
  by (induction cs) (simp_all add: citation_json_read)

lemma usage_json_read:
  assumes "ok (research_usage_post_init u)"
  shows "checkpoint_usage (usage_json u) = Some u"
proof -
  have "(case optional_int_json (ru_cache_write_input_tokens u) of JNull \<Rightarrow> Some None | w \<Rightarrow> map_option Some (py_int w))
      = Some (ru_cache_write_input_tokens u)"
    by (simp add: optional_int_json_def split: option.split)
  then show ?thesis using assms by (simp add: checkpoint_usage_def usage_json_def json_field_def Let_def)
qed

lemma evidence_json_read: "checkpoint_evidence (evidence_object e) = Some e"
  by (simp add: checkpoint_evidence_def evidence_object_def json_field_def)

lemma citation_json_ok: "citation_valid c \<Longrightarrow> json_ok False (citation_json c)"
  by (simp add: citation_json_def citation_valid_def)

lemma answer_object_ok: "answer_valid a \<Longrightarrow> json_ok False (answer_object a)"
  by (auto simp: answer_object_def answer_valid_def evidence_object_def usage_json_def optional_int_json_def
      list.pred_map comp_def list_all_iff citation_json_ok split: option.splits)

lemma answer_text_read: "answer_valid a \<Longrightarrow> json_loads (answer_checkpoint a) = Some (answer_object a)"
  unfolding answer_checkpoint_def
  by (rule json_text_roundtrip [OF _ style_ok_styles(1)]) (simp add: compact_style_def answer_object_ok)

lemma checkpoint_nonempty: "answer_checkpoint a \<noteq> []"
  by (simp add: answer_checkpoint_def answer_object_def)

lemma checkpoint_read:
  assumes a: "answer_valid a" and c: "rw_checkpoint_json row = Some (answer_checkpoint a)"
  shows "answer_from_checkpoint row = Inr (Some a)"
proof -
  have f: "json_field (answer_object a) ''citations'' = Some (JList (map citation_json (an_citations a)))"
      "json_field (answer_object a) ''evidence'' = Some (evidence_object (an_evidence a))"
      "json_field (answer_object a) ''text'' = Some (JStr (an_text a))"
      "json_field (answer_object a) ''usage'' = Some (case an_usage a of None \<Rightarrow> JNull | Some u \<Rightarrow> usage_json u)"
    by (simp_all add: json_field_def answer_object_def)
  have o: "is_object (answer_object a)" "is_object (usage_json u)" "usage_json u \<noteq> JNull" for u
    by (simp_all add: is_object_def answer_object_def usage_json_def)
  have cs: "checkpoint_citations (json_field (answer_object a) ''citations'') = Some (an_citations a)"
    using a citations_json_read [of "an_citations a"] by (simp add: f checkpoint_citations_def answer_valid_def)
  have ans: "checkpoint_answer (answer_object a) (an_usage a) (an_citations a) = Some a"
    using a by (simp add: checkpoint_answer_def f evidence_json_read answer_valid_def Let_def)
  obtain x xs where p: "answer_checkpoint a = x # xs" using checkpoint_nonempty by (cases "answer_checkpoint a") auto
  have l: "json_loads (x # xs) = Some (answer_object a)" using answer_text_read [OF a] p by simp
  show ?thesis
  proof (cases "an_usage a")
    case None
    then show ?thesis using cs ans by (simp add: answer_from_checkpoint_def c p l o f(2,4))
  next
    case (Some u)
    then have "checkpoint_usage (usage_json u) = Some u" using a usage_json_read by (simp add: answer_valid_def)
    then show ?thesis using Some cs ans by (simp add: answer_from_checkpoint_def c p l o f(2,4))
  qed
qed

section \<open>Documents\<close>

definition document_valid :: "unicode_tables \<Rightarrow> completed_document \<Rightarrow> bool" where
  "document_valid U d \<longleftrightarrow> ok (document_post_init U d) \<and> is_uuid4 (cdoc_document_id d)
     \<and> list_all citation_valid (cdoc_citations d)"

lemma citation_from_json_read:
  assumes "citation_valid c"
  shows "citation_from_json (citation_json c) = Inr c"
proof -
  have o: "citation_post_init c = Inr ()" using assms by (simp add: citation_valid_def ok_unit)
  obtain n m where u: "utf8_length (ct_url c) = Inr n" "\<not> n > MAX_CITATION_URL_BYTES"
      "utf8_length (ct_title c) = Inr m" "\<not> m > MAX_CITATION_TITLE_BYTES"
    using o by (auto simp: citation_post_init_def and_then_Inr)
  have n: "normalized_citation c = Inr c" by (simp add: normalized_citation_def o)
  have k: "set (map fst [(lit ''title'', JStr (ct_title c)), (lit ''url'', JStr (ct_url c))]) = {lit ''url'', lit ''title''}"
    by auto
  show ?thesis
    using u n k by (simp add: citation_from_json_def citation_json_def)
qed

lemma citations_results: "list_all citation_valid cs \<Longrightarrow> map_results citation_from_json (map citation_json cs) = Inr cs"
  by (induction cs) (simp_all add: citation_from_json_read)

lemma citations_column_read:
  assumes "list_all citation_valid cs" and "int (length cs) \<le> MAX_CITATION_COUNT"
  shows "citations_from_json (PyStr (citations_json cs)) = Inr cs"
proof -
  have "json_loads (citations_json cs) = Some (JList (map citation_json cs))"
    unfolding citations_json_def
    by (rule json_text_roundtrip [OF _ style_ok_styles(1)])
      (use assms(1) in \<open>auto simp: compact_style_def list_all_iff citation_json_ok\<close>)
  then show ?thesis using assms citations_results [of cs] by (simp add: citations_from_json_def)
qed

lemma evidence_column_read: "evidence_from_json (PyStr (evidence_json e)) = Inr e"
proof -
  have "json_ok True (evidence_object e)" by (simp add: evidence_object_def)
  then have l: "json_loads (evidence_json e) = Some (evidence_object e)"
    unfolding evidence_json_def by (intro json_text_roundtrip [OF _ style_ok_styles(2)]) (simp add: compact_ascii_style_def)
  define ms where "ms = [(lit ''answer_complete'', JBool (ce_answer_complete e)),
     (lit ''incomplete_marker'', JBool (ce_incomplete_marker e)),
     (lit ''provider_terminal'', JBool (ce_provider_terminal e)),
     (lit ''refusal_marker'', JBool (ce_refusal_marker e)),
     (lit ''web_search_executed'', JBool (ce_web_search_executed e))]"
  have o: "evidence_object e = JObj ms" by (simp add: evidence_object_def ms_def)
  have k: "set (map fst ms) = set evidence_keys" by (simp add: ms_def evidence_keys_def)
  have b: "\<not> list_ex (\<lambda>m. case snd m of JBool b \<Rightarrow> False | _ \<Rightarrow> True) ms" by (simp add: ms_def)
  have v: "\<lparr>ce_provider_terminal = json_bool ms ''provider_terminal'',
                     ce_answer_complete = json_bool ms ''answer_complete'',
                     ce_web_search_executed = json_bool ms ''web_search_executed'',
                     ce_refusal_marker = json_bool ms ''refusal_marker'',
                     ce_incomplete_marker = json_bool ms ''incomplete_marker''\<rparr> = e"
    by (simp add: json_bool_def ms_def)
  show ?thesis
    unfolding evidence_from_json_def pyobj.case l option.case o json.case k Let_def v using b by simp
qed

lemma document_read:
  assumes "document_valid U d"
  shows "(let r = document_values d in document_from_storage U (PyStr (dr_id r)) (PyStr (dr_operation_id r))
      (PyStr (dr_kind r)) (PyStr (dr_question_text r)) (PyStr (dr_answer_text r)) (PyStr (dr_citations_json r))
      (PyStr (dr_completion_evidence_json r)) (PyInt (dr_created_at_ms r)) (PyInt (dr_completed_at_ms r))) = Inr d"
proof -
  have p: "document_post_init U d = Inr ()" using assms by (simp add: document_valid_def ok_unit)
  have n: "int (length (cdoc_citations d)) \<le> MAX_CITATION_COUNT" using p by (simp add: document_post_init_def)
  have k: "record_kind_parse (PyStr (record_kind_value (cdoc_kind d))) = Inr (cdoc_kind d)"
    by (cases "cdoc_kind d") (simp_all add: record_kind_parse_def enum_parse_def)
  have u: "record_uuid_from_string (PyStr (uuid_to_text (cdoc_document_id d))) = Inr (cdoc_document_id d)"
    using identity.parse_print [of "cdoc_document_id d"] assms
    by (simp add: record_uuid_from_string_def document_valid_def identity_to_string_def)
  have c: "citations_from_json (PyStr (citations_json (cdoc_citations d))) = Inr (cdoc_citations d)"
    using assms n by (intro citations_column_read) (simp_all add: document_valid_def)
  have d: "\<lparr>cdoc_document_id = cdoc_document_id d, cdoc_operation_id = cdoc_operation_id d, cdoc_kind = cdoc_kind d,
      cdoc_question_text = cdoc_question_text d, cdoc_answer_text = cdoc_answer_text d,
      cdoc_citations = cdoc_citations d, cdoc_evidence = cdoc_evidence d,
      cdoc_created_at_ms = cdoc_created_at_ms d, cdoc_completed_at_ms = cdoc_completed_at_ms d\<rparr> = d" by simp
  show ?thesis
    unfolding document_from_storage_def document_values_def Let_def document_row.select_convs k c u
      evidence_column_read and_then_simps pyobj.case d p by simp
qed

section \<open>Fingerprints\<close>

lemma fingerprint_text_inj:
  assumes "list_all (text_ok False) [o1, p1, c1, o2, p2, c2]"
    and "json_dumps compact_style (fingerprint_object o1 k1 p1 c1) = json_dumps compact_style (fingerprint_object o2 k2 p2 c2)"
  shows "o1 = o2 \<and> k1 = k2 \<and> p1 = p2 \<and> c1 = c2"
proof -
  have k: "text_ok False (research_kind_value k)" for k
    by (cases k) (simp_all only: research_kind_value.simps lit_ok)
  have r: "json_loads (json_dumps compact_style (fingerprint_object x k p c)) = Some (fingerprint_object x k p c)"
    if "text_ok False x" "text_ok False p" "text_ok False c" for x p c k
    by (rule json_text_roundtrip [OF _ style_ok_styles(1)])
      (use that in \<open>simp add: compact_style_def fingerprint_object_def k FINGERPRINT_VERSION_def\<close>)
  have "text_ok False o1" "text_ok False p1" "text_ok False c1" "text_ok False o2" "text_ok False p2" "text_ok False c2"
    using assms(1) by simp_all
  note r [OF this(1,2,3), of k1] r [OF this(4,5,6), of k2]
  from this [unfolded assms(2)] have "Some (fingerprint_object o1 k1 p1 c1) = Some (fingerprint_object o2 k2 p2 c2)"
    by (rule trans [OF sym])
  then have "fingerprint_object o1 k1 p1 c1 = fingerprint_object o2 k2 p2 c2" by (rule option.inject [THEN iffD1])
  then show ?thesis by (simp add: fingerprint_object_def)
qed

end
