(* ===== verification/Research_Runs.thy ===== *)
theory Research_Runs
  imports Research_Invariants Research_Documents
begin

text \<open>
  Operations of the coordinator that run one after the other: a request that is not finished
  holds the active slot and every other request is finished.  The triples speak about the
  database before and after a program that runs alone.
\<close>

section \<open>Triples\<close>

definition triple :: "(research_db \<Rightarrow> bool) \<Rightarrow> (research_world, 'a) prog \<Rightarrow> ('a \<Rightarrow> research_db \<Rightarrow> bool) \<Rightarrow> bool" where
  "triple P p Q \<longleftrightarrow> (\<forall>w. P (wd_db w) \<longrightarrow> (case run p w of (x, w') \<Rightarrow> Q x (wd_db w')))"

named_theorems triples

lemma triple_weaken: "triple P p Q \<Longrightarrow> (\<And>db. P' db \<Longrightarrow> P db) \<Longrightarrow> (\<And>x db. Q x db \<Longrightarrow> Q' x db) \<Longrightarrow> triple P' p Q'"
  unfolding triple_def by (fastforce split: prod.splits)

lemma triple_post: "triple P p Q \<Longrightarrow> (\<And>x db. Q x db \<Longrightarrow> Q' x db) \<Longrightarrow> triple P p Q'"
  by (erule triple_weaken) simp_all

lemma triple_ret [simp]:
  "triple P (ret a) Q \<longleftrightarrow> (\<forall>db. P db \<longrightarrow> Q (Inr a) db)" "triple P (raise e) Q \<longleftrightarrow> (\<forall>db. P db \<longrightarrow> Q (Inl e) db)"
  "triple P (lift r) Q \<longleftrightarrow> (\<forall>db. P db \<longrightarrow> Q r db)"
proof -
  have w: "(\<forall>w. R (wd_db w)) \<longleftrightarrow> (\<forall>db. R db)" for R by (metis research_world.select_convs(1))
  show "triple P (ret a) Q \<longleftrightarrow> (\<forall>db. P db \<longrightarrow> Q (Inr a) db)" "triple P (raise e) Q \<longleftrightarrow> (\<forall>db. P db \<longrightarrow> Q (Inl e) db)"
    "triple P (lift r) Q \<longleftrightarrow> (\<forall>db. P db \<longrightarrow> Q r db)"
    using w [of "\<lambda>db. P db \<longrightarrow> Q (Inr a) db"] w [of "\<lambda>db. P db \<longrightarrow> Q (Inl e) db"] w [of "\<lambda>db. P db \<longrightarrow> Q r db"]
    by (simp_all add: triple_def)
qed

lemma triple_bindE:
  assumes "triple P m M" and "\<And>a. triple (M (Inr a)) (k a) Q" and "\<And>e db. M (Inl e) db \<Longrightarrow> Q (Inl e) db"
  shows "triple P (bindE m k) Q"
  unfolding triple_def
proof (intro allI impI)
  fix w :: research_world assume "P (wd_db w)"
  then obtain x w' where r: "run m w = (x, w')" and m: "M x (wd_db w')"
    using assms(1) by (cases "run m w") (auto simp: triple_def)
  show "case run (bindE m k) w of (x, w') \<Rightarrow> Q x (wd_db w')"
    using m assms(2,3) by (cases x) (auto simp: r triple_def)
qed

lemma triple_catch:
  assumes "triple P m M" and "\<And>a. triple (M (Inr a)) (k a) Q" and "\<And>e. triple (M (Inl e)) (h e) Q"
  shows "triple P (catch m h k) Q"
  unfolding triple_def
proof (intro allI impI)
  fix w :: research_world assume "P (wd_db w)"
  then obtain x w' where r: "run m w = (x, w')" and m: "M x (wd_db w')"
    using assms(1) by (cases "run m w") (auto simp: triple_def)
  show "case run (catch m h k) w of (x, w') \<Rightarrow> Q x (wd_db w')"
    using m assms(2,3) by (cases x) (auto simp: r triple_def)
qed

lemma triple_tx: "(\<And>db x db'. P db \<Longrightarrow> f db = (x, db') \<Longrightarrow> Q x db') \<Longrightarrow> triple P (tx f) Q"
  by (auto simp: triple_def tx_def split: prod.splits)

lemma triple_txD:
  assumes "triple P (tx f) Q" and "P db" and "f db = (x, db')"
  shows "Q x db'"
proof -
  let ?w = "\<lparr>wd_db = db, wd_calls = [], wd_ticks = 0\<rparr>"
  have "run (tx f) ?w = (x, \<lparr>wd_db = db', wd_calls = [], wd_ticks = 0\<rparr>)" by (simp add: tx_def assms(3))
  then show ?thesis using assms(1,2) unfolding triple_def
    by (metis (no_types, lifting) case_prod_conv research_world.select_convs(1))
qed

lemma triple_tick: "(\<And>t db. P db \<Longrightarrow> Q (Inr (f t)) db) \<Longrightarrow> triple P (tick f) Q"
  by (simp add: triple_def tick_def)

lemma triple_clock: "(\<And>t db. P db \<Longrightarrow> Q (Inr t) db) \<Longrightarrow> triple P (clock_ms env) Q"
  unfolding clock_ms_def by (rule triple_tick) simp

lemma triple_call:
  "(\<And>calls db. P db \<Longrightarrow> Q (answer calls) db) \<Longrightarrow> triple P (provider_call_prog answer c) Q"
  by (simp add: triple_def provider_call_prog_def Let_def)

lemma triple_clock_bind:
  assumes "\<And>t. triple P (k t) Q"
  shows "triple P (bindE (clock_ms env) k) Q"
  by (rule triple_bindE [where M = "\<lambda>x db. P db \<and> (\<exists>t. x = Inr t)"], rule triple_clock)
    (auto intro: triple_weaken [OF assms])

lemma triple_tick_bind:
  assumes "\<And>t. triple P (k (f t)) Q"
  shows "triple P (bindE (tick f) k) Q"
proof (rule triple_bindE [where M = "\<lambda>x db. P db \<and> (\<exists>t. x = Inr (f t))"])
  fix a
  show "triple (\<lambda>db. P db \<and> (\<exists>t. Inr a = Inr (f t))) (k a) Q"
    using assms unfolding triple_def by (metis sum.inject(2))
qed (auto intro: triple_tick)

lemma triple_lift_bind:
  assumes "\<And>a. r = Inr a \<Longrightarrow> triple P (k a) Q" and "\<And>e db. r = Inl e \<Longrightarrow> P db \<Longrightarrow> Q (Inl e) db"
  shows "triple P (bindE (lift r) k) Q"
proof (rule triple_bindE [where M = "\<lambda>x db. P db \<and> x = r"])
  fix a
  show "triple (\<lambda>db. P db \<and> Inr a = r) (k a) Q" using assms(1) [of a] unfolding triple_def by metis
qed (use assms(2) in auto)

lemma triple_call_catch:
  assumes "\<And>calls a. answer calls = Inr a \<Longrightarrow> triple P (k a) Q" and "\<And>e. triple P (h e) Q"
  shows "triple P (catch (provider_call_prog answer c) h k) Q"
proof (rule triple_catch [where M = "\<lambda>x db. P db \<and> (\<exists>calls. x = answer calls)"])
  fix a
  show "triple (\<lambda>db. P db \<and> (\<exists>calls. Inr a = answer calls)) (k a) Q"
    using assms(1) [of _ a] unfolding triple_def by metis
qed (auto intro: triple_call triple_weaken [OF assms(2)])

lemma triple_read:
  assumes "\<And>db. P db \<Longrightarrow> \<exists>x. f db = (x, db) \<and> Q x db"
  shows "triple P (tx f) Q"
  by (rule triple_tx) (use assms in fastforce)

section \<open>One request in flight\<close>

definition flight_ok :: "research_db \<Rightarrow> bool" where
  "flight_ok db \<longleftrightarrow> db_ok db
     \<and> (\<forall>i r. request_map db i = Some r \<longrightarrow> (is_terminal_lifecycle (row_state r) \<longleftrightarrow> held_operation db \<noteq> Some i))"

definition stored :: "research_row \<Rightarrow> research_db \<Rightarrow> bool" where
  "stored r db \<longleftrightarrow> flight_ok db \<and> request_map db (row_id r) = Some r"

lemma flight_okD:
  assumes "flight_ok db"
  shows "db_ok db" and "request_map db i = Some r \<Longrightarrow> is_terminal_lifecycle (row_state r) \<longleftrightarrow> held_operation db \<noteq> Some i"
  using assms by (auto simp: flight_ok_def)

lemma storedD:
  assumes "stored r db"
  shows "flight_ok db" "db_ok db" "request_map db (row_id r) = Some r" "research_row_valid r"
    "is_terminal_lifecycle (row_state r) \<longleftrightarrow> held_operation db \<noteq> Some (row_id r)"
proof -
  show f: "flight_ok db" "db_ok db" and m: "request_map db (row_id r) = Some r"
    using assms flight_okD(1) by (auto simp: stored_def)
  show "research_row_valid r" using select_request_map(2) [OF db_okD(1) [OF f(2)] m] by simp
  show "is_terminal_lifecycle (row_state r) \<longleftrightarrow> held_operation db \<noteq> Some (row_id r)" by (rule flight_okD(2) [OF f(1) m])
qed

lemma empty_flight_ok: "flight_ok empty_research_db"
  using empty_db_ok by (auto simp: flight_ok_def request_map_def select_request_def empty_research_db_def)

lemma save_triple:
  assumes s: "same_request r0 r" and v: "research_row_valid r"
    and t: "is_terminal_lifecycle (row_state r0) \<longrightarrow> is_terminal_lifecycle (row_state r)"
  shows "triple (stored r0) (tx (repository_save r)) (\<lambda>x db. case x of Inl e \<Rightarrow> stored r0 db | Inr r' \<Rightarrow> r' = r \<and> stored r db)"
proof (rule triple_tx)
  fix db x db' assume st: "stored r0 db" and x: "repository_save r db = (x, db')"
  have id: "row_id r = row_id r0" by (rule same_request_id [OF s])
  have m: "request_map db (row_id r) = Some r0" using storedD(3) [OF st] id by simp
  note step = save_step [OF storedD(2) [OF st] m s v]
  show "case x of Inl e \<Rightarrow> stored r0 db' | Inr r' \<Rightarrow> r' = r \<and> stored r db'"
  proof (cases "saves db r")
    case False
    then show ?thesis using x step(1) st by auto
  next
    case True
    let ?d = "finished_slot r (put_request r db)"
    have xd: "x = Inr r" "db' = ?d" using x step(1) True by simp_all
    have "is_terminal_lifecycle (row_state q) \<longleftrightarrow> held_operation ?d \<noteq> Some i" if "request_map ?d i = Some q" for i q
      using that flight_okD(2) [OF storedD(1) [OF st], of i q] flight_okD(2) [OF storedD(1) [OF st] m] t
      unfolding step(3) held_finished put_request_simps
      by (cases "i = row_id r") auto
    then have "flight_ok ?d" using step(2) [OF True] by (simp add: flight_ok_def)
    then show ?thesis using step(3) by (simp add: xd stored_def)
  qed
qed

lemma settle_ok:
  assumes ok: "db_ok db" and s: "reconcile_hold b now db = Inr (h, db')"
  shows "db_ok db'" and "request_map db' = request_map db" and "held_operation db' = held_operation db"
proof -
  note h = settle_holds [OF db_okD(3) [OF ok] s]
  obtain hs where d: "db' = db\<lparr>rd_holds := hs\<rparr>" using h(2) by blast
  have r: "request_ids db' = request_ids db" unfolding d by (rule request_ids_slot) simp
  show "request_map db' = request_map db" unfolding d by (rule request_map_slot) simp
  show "held_operation db' = held_operation db" unfolding d by (simp add: held_operation_def)
  have "slot_ok db'" using db_okD(2) [OF ok] slot_cong [of db' db] r by (simp add: d)
  moreover have "request_fk_ok db' = request_fk_ok db" by (rule request_fk_cong) (simp add: d)
  moreover have "rd_requests db' = rd_requests db" by (simp add: d)
  ultimately show "db_ok db'" using ok h(1) by (simp only: db_ok_def simp_thms)
qed

text \<open>The row an operation leaves behind is the stored one.\<close>

definition ending :: "research_exn + research_row \<Rightarrow> research_db \<Rightarrow> bool" where
  "ending x db \<longleftrightarrow> flight_ok db \<and> (\<forall>r. x = Inr r \<longrightarrow> stored r db)"

lemma ending_flight: "ending x db \<Longrightarrow> flight_ok db"
  by (simp add: ending_def)

lemma ending_simps [simp]: "ending (Inr r) db \<longleftrightarrow> stored r db" "ending (Inl e) db \<longleftrightarrow> flight_ok db"
  using storedD(1) by (auto simp: ending_def)

lemma triple_flight: "triple P p ending \<Longrightarrow> triple P p (\<lambda>_. flight_ok)"
  by (erule triple_post) (rule ending_flight)

text \<open>A save, and whatever follows it.\<close>

lemma save_then:
  assumes s: "same_request r0 r" and v: "research_row_valid r"
    and t: "is_terminal_lifecycle (row_state r0) \<longrightarrow> is_terminal_lifecycle (row_state r)"
    and k: "triple (stored r) (k r) Q" and e: "\<And>e db. stored r0 db \<Longrightarrow> Q (Inl e) db"
  shows "triple (stored r0) (bindE (tx (repository_save r)) k) Q"
proof (rule triple_bindE [OF save_triple [OF s v t]])
  fix a
  show "triple (\<lambda>db. case Inr a of Inl e \<Rightarrow> stored r0 db | Inr r' \<Rightarrow> r' = r \<and> stored r db) (k a) Q"
    using k unfolding triple_def by auto
qed (use e in auto)

lemma save_ending:
  assumes "same_request r0 r" and "research_row_valid r"
    and "is_terminal_lifecycle (row_state r0) \<longrightarrow> is_terminal_lifecycle (row_state r)"
  shows "triple (stored r0) (tx (repository_save r)) ending"
  by (rule triple_post [OF save_triple [OF assms]]) (auto split: sum.splits dest: storedD(1))

lemma reconcile_triple: "triple (stored r) (reconcile env row a u c) (\<lambda>_. stored r)"
proof -
  have t: "triple (stored r) (tx (ledger_reconcile now b)) (\<lambda>_. stored r)" for now b
  proof (rule triple_tx)
    fix db x db' assume st: "stored r db" and x: "ledger_reconcile now b db = (x, db')"
    show "stored r db'"
    proof (cases "reconcile_hold b now db")
      case (Inl e)
      then show ?thesis using st x by (simp add: ledger_reconcile_def run_in_immediate_transaction_def)
    next
      case (Inr p)
      then obtain h where "reconcile_hold b now db = Inr (h, db')"
        using x by (cases p) (simp add: ledger_reconcile_def run_in_immediate_transaction_def)
      note s = settle_ok [OF storedD(2) [OF st] this]
      show ?thesis using st s by (simp add: stored_def flight_ok_def)
    qed
  qed
  show ?thesis
    unfolding reconcile_def Let_def
    by (rule triple_lift_bind) (auto intro!: triple_clock_bind triple_bindE [OF t])
qed

lemma finish_triple:
  assumes t: "is_terminal_lifecycle state" and v: "research_row_valid row"
  shows "triple (stored row) (finish env row state code a u c) ending"
proof -
  have s: "same_request row (finished_row row state code a True t)" for t
    by (simp add: same_request_def merge_row_def finished_row_def Let_def)
  have w: "research_row_valid (finished_row row state code a True t)" for t
    using v by (simp add: research_row_valid_def finished_row_def Let_def limits_agree_def research_request_post_init_def)
  have st: "row_state (finished_row row state code a True t) = state" for t by (simp add: finished_row_def Let_def)
  have k: "triple (stored r) (bindE (reconcile env r a u c) (\<lambda>_. ret r)) ending" for r
    by (rule triple_bindE [OF reconcile_triple]) (auto dest: storedD(1))
  show ?thesis
    unfolding finish_def
    by (rule triple_clock_bind, rule save_then [OF s w]) (use t st k in \<open>auto dest: storedD(1)\<close>)
qed

section \<open>Completion\<close>

lemma encodable_uuid [simp]: "encodable (uuid_to_text u)"
proof -
  have "c = 45 \<or> is_lower_hex c" if "c \<in> set (uuid_to_text u)" for c
    using that set_hyphenate [of "uuid_hex u"] hex_digits_class unfolding uuid_to_text_def uuid_hex_def by fastforce
  then show ?thesis by (fastforce simp: encodable_def list_all_iff is_lower_hex_def is_digit_def)
qed

lemma result_tables_ok:
  assumes ok: "db_ok db" and d: "insert_document dr db = Inr db1" and r: "insert_record kr db1 = Inr db2"
  shows "db_ok db2" "request_map db2 = request_map db" "held_operation db2 = held_operation db"
    "rd_requests db2 = rd_requests db"
proof -
  have d1: "db1 = db\<lparr>rd_documents := rd_documents db @ [dr]\<rparr>"
    using d by (auto simp: insert_document_def split: if_splits)
  have d2: "db2 = db\<lparr>rd_documents := rd_documents db @ [dr], rd_records := rd_records db @ [kr]\<rparr>"
    using r by (auto simp: insert_record_def d1 split: if_splits)
  show q: "rd_requests db2 = rd_requests db" by (simp add: d2)
  show "request_map db2 = request_map db" by (rule request_map_slot [OF q])
  show "held_operation db2 = held_operation db" by (simp add: d2 held_operation_def)
  have ids: "request_ids db2 = request_ids db" by (rule request_ids_slot [OF q])
  have "slot_ok db2" using slot_cong [of db2 db] db_okD(2) [OF ok] ids by (simp add: d2)
  moreover have "holds_ok db2" using db_okD(3) [OF ok] ids by (simp add: holds_ok_def d2)
  moreover have "list_all (request_fk_ok db2) (rd_requests db)"
    using request_fk_more [of db db2] db_okD(4) [OF ok] by (auto simp: list_all_iff d2)
  ultimately show "db_ok db2" using ok by (simp only: db_ok_def q simp_thms)
qed

lemma bind_step:
  assumes ok: "db_ok db" and r: "request_map db i = Some r" and b: "bind_record i rid now db = Inr db'"
    and r': "r' = r\<lparr>rw_record_id := Some (uuid_to_text rid), rw_updated_at_ms := now\<rparr>"
  shows "db' = put_request r' db" and "db_ok db'" and "request_map db' = (request_map db)(i \<mapsto> r')"
proof -
  let ?f = "\<lambda>c. c\<lparr>rt_record_id := Some (uuid_to_text rid), rt_updated_at_ms := now\<rparr>"
  note rv = select_request_map(2) [OF db_okD(1) [OF ok] r]
  have v: "research_row_valid r'" and id: "row_id r' = i"
    using rv unfolding r' by (auto simp: research_row_valid_def)
  have f: "?f (columns_of r) = columns_of r'" unfolding r' by (rule request_columns.equality) simp_all
  have u: "sql_update (request_admissible db) (\<lambda>c. rt_operation_id c = i) ?f (rd_requests db)
      = (if request_admissible db (columns_of r') then Some (rd_requests (put_request r' db), 1) else None)"
    using update_request(1) [OF db_okD(1) [OF ok] r, of "request_admissible db" "\<lambda>_. True" ?f]
    unfolding f rd_requests_put id by simp
  have a: "request_admissible db (columns_of r')"
    using b unfolding bind_record_def u by (cases "request_admissible db (columns_of r')") simp_all
  show d: "db' = put_request r' db"
    using b a unfolding bind_record_def u by (simp add: put_request_def)
  have "list_all encodable (row_texts (columns_of r))"
    using db_okD(5) [OF ok request_map_row [OF db_okD(1) [OF ok] r]] by (simp add: list_all_iff)
  then have "list_all encodable (row_texts (columns_of r'))"
    by (simp add: r' row_texts_def mutable_texts_def)
  then show "db_ok db'" unfolding d by (rule put_request_ok [OF ok v a])
  show "request_map db' = (request_map db)(i \<mapsto> r')"
    unfolding d using request_map_put [OF db_okD(1) [OF ok] v] r id by simp
qed

lemma completion_triple:
  assumes i: "rc_operation_id c = row_id row"
  shows "triple (stored row) (completion_call env c)
    (\<lambda>x db. case x of Inl _ \<Rightarrow> stored row db
       | Inr _ \<Rightarrow> \<exists>r. stored r db \<and> row_id r = row_id row \<and> row_state r = row_state row)"
  unfolding triple_def
proof (intro allI impI)
  fix w :: research_world assume st: "stored row (wd_db w)"
  let ?t = "wd_ticks w" let ?db = "wd_db w"
  let ?op = "complete_operation (en_tables env) (en_document_id env ?t) (en_record_id env ?t) (en_clock env ?t) c"
  have e: "run (completion_call env c) w = (case run_in_immediate_transaction ?op ?db of
      (r, db) \<Rightarrow> (r, w\<lparr>wd_db := db, wd_ticks := Suc ?t\<rparr>))"
    by (simp add: completion_call_def result_complete_def Let_def)
  show "case run (completion_call env c) w of (x, w') \<Rightarrow> (case x of Inl _ \<Rightarrow> stored row (wd_db w')
       | Inr _ \<Rightarrow> \<exists>r. stored r (wd_db w') \<and> row_id r = row_id row \<and> row_state r = row_state row)"
  proof (cases "?op ?db")
    case (Inl e')
    then show ?thesis using st by (simp add: e run_in_immediate_transaction_def)
  next
    case (Inr p)
    obtain y d where p: "p = (y, d)" by (cases p)
    have c: "?op ?db = Inr (y, d)" using Inr p by simp
    have "\<exists>r. stored r d \<and> row_id r = row_id row \<and> row_state r = row_state row"
    proof -
      consider "d = ?db" | dr d1 kr d2 where "insert_document dr ?db = Inr d1" "insert_record kr d1 = Inr d2"
          "bind_record (row_id row) (en_record_id env ?t) (en_clock env ?t) d2 = Inr d"
        using c i by (auto simp: complete_operation_def Let_def and_then_Inr split: option.splits if_splits)
      then show ?thesis
      proof cases
        case 1
        then show ?thesis using st by blast
      next
        case (2 dr d1 kr d2)
        note t = result_tables_ok [OF storedD(2) [OF st] 2(1,2)]
        have m: "request_map d2 (row_id row) = Some row" using storedD(3) [OF st] t(2) by simp
        let ?r = "row\<lparr>rw_record_id := Some (uuid_to_text (en_record_id env ?t)), rw_updated_at_ms := en_clock env ?t\<rparr>"
        note b = bind_step [OF t(1) m 2(3) refl]
        have h: "held_operation d = held_operation ?db" using b(1) t(3) by simp
        have "is_terminal_lifecycle (row_state q) \<longleftrightarrow> held_operation d \<noteq> Some j" if "request_map d j = Some q" for j q
          using that flight_okD(2) [OF storedD(1) [OF st], of j q] storedD(5) [OF st]
          unfolding b(3) t(2) h by (cases "j = row_id row") auto
        then have "stored ?r d" using b(2,3) by (simp add: stored_def flight_ok_def)
        then show ?thesis by (intro exI [of _ ?r]) simp
      qed
    qed
    then show ?thesis using c p by (simp add: e run_in_immediate_transaction_def)
  qed
qed

lemma get_triple:
  "triple (stored r) (tx (get_request (row_id r))) (\<lambda>x db. x = Inr (Some r) \<and> stored r db)"
proof (rule triple_read)
  fix db assume st: "stored r db"
  have "encodable (row_id r)" using storedD(3) [OF st] by (intro encodable_id [OF storedD(2) [OF st]]) simp
  then show "\<exists>x. get_request (row_id r) db = (x, db) \<and> x = Inr (Some r) \<and> stored r db"
    using get_request_eval [OF storedD(2) [OF st]] storedD(3) [OF st] st by simp
qed

lemma triple_ex: "(\<And>x. triple (P x) p Q) \<Longrightarrow> triple (\<lambda>db. \<exists>x. P x db) p Q"
  unfolding triple_def by metis

lemma complete_triple:
  assumes v: "research_row_valid row"
  shows "triple (stored row) (complete_from_checkpoint env row answer) (\<lambda>_. flight_ok)"
proof (cases "row_handle row = None \<or> answer = None")
  case True
  then show ?thesis by (auto simp: complete_from_checkpoint_def dest: storedD(1) split: option.splits)
next
  case False
  then obtain h a where h: "row_handle row = Some h" "answer = Some a" by auto
  let ?c = "\<lparr>rc_operation_id = row_id row, rc_answer = a, rc_remote_handle = h\<rparr>"
  let ?M = "\<lambda>x db. case x of Inl _ \<Rightarrow> stored row db
       | Inr _ \<Rightarrow> \<exists>r. stored r db \<and> row_id r = row_id row \<and> row_state r = row_state row"
  have m: "triple (stored row) (bindE (lift (result_completion_post_init ?c)) (\<lambda>_. completion_call env ?c)) ?M"
    by (rule triple_lift_bind) (auto intro: completion_triple)
  have s: "triple (stored row) (bindE (clock_ms env) (\<lambda>t. tx (repository_save (row\<lparr>rw_updated_at_ms := t\<rparr>)))) ending"
    by (rule triple_clock_bind, rule save_ending)
      (use v in \<open>simp_all add: same_request_def merge_row_def research_row_valid_def\<close>)
  have f: "triple (stored r) (bindE (tx (get_request (row_id row))) (\<lambda>reloaded.
                let current = (case reloaded of None \<Rightarrow> row | Some r \<Rightarrow> r);
                    cost = usage_cost_micro_usd_or_none (an_usage a) (schedule_for env current)
                in case cost of
                     None \<Rightarrow> finish env current R_SAVED None RA_UNKNOWN None None
                   | Some c \<Rightarrow> finish env current R_SAVED None RA_RECONCILED (an_usage a) (Some c))) ending"
    if i: "row_id r = row_id row" for r
  proof (rule triple_bindE [OF get_triple [of r, unfolded i]])
    fix x
    have fin: "triple (stored r) (finish env r R_SAVED None acc u c) ending" if "research_row_valid r" for acc u c
      using that by (rule finish_triple [rotated]) simp
    have "triple (stored r) (let current = r; cost = usage_cost_micro_usd_or_none (an_usage a) (schedule_for env current)
        in case cost of None \<Rightarrow> finish env current R_SAVED None RA_UNKNOWN None None
         | Some c \<Rightarrow> finish env current R_SAVED None RA_RECONCILED (an_usage a) (Some c)) ending"
    proof (cases "research_row_valid r")
      case True
      then show ?thesis using fin by (simp add: Let_def split: option.split)
    next
      case False
      then have "\<not> stored r db" for db using storedD(4) by blast
      then show ?thesis by (simp add: triple_def)
    qed
    then show "triple (\<lambda>db. Inr x = Inr (Some r) \<and> stored r db) (let current = (case x of None \<Rightarrow> row | Some r \<Rightarrow> r);
                    cost = usage_cost_micro_usd_or_none (an_usage a) (schedule_for env current)
                in case cost of
                     None \<Rightarrow> finish env current R_SAVED None RA_UNKNOWN None None
                   | Some c \<Rightarrow> finish env current R_SAVED None RA_RECONCILED (an_usage a) (Some c)) ending"
      by (cases "x = Some r") (simp_all add: triple_def)
  qed simp
  have g: "triple (\<lambda>db. \<exists>r. stored r db \<and> row_id r = row_id row \<and> row_state r = row_state row)
      (bindE (tx (get_request (row_id row))) (\<lambda>reloaded.
                let current = (case reloaded of None \<Rightarrow> row | Some r \<Rightarrow> r);
                    cost = usage_cost_micro_usd_or_none (an_usage a) (schedule_for env current)
                in case cost of
                     None \<Rightarrow> finish env current R_SAVED None RA_UNKNOWN None None
                   | Some c \<Rightarrow> finish env current R_SAVED None RA_RECONCILED (an_usage a) (Some c))) (\<lambda>_. flight_ok)"
  proof (rule triple_ex)
    fix r
    show "triple (\<lambda>db. stored r db \<and> row_id r = row_id row \<and> row_state r = row_state row)
      (bindE (tx (get_request (row_id row))) (\<lambda>reloaded.
                let current = (case reloaded of None \<Rightarrow> row | Some r \<Rightarrow> r);
                    cost = usage_cost_micro_usd_or_none (an_usage a) (schedule_for env current)
                in case cost of
                     None \<Rightarrow> finish env current R_SAVED None RA_UNKNOWN None None
                   | Some c \<Rightarrow> finish env current R_SAVED None RA_RECONCILED (an_usage a) (Some c))) (\<lambda>_. flight_ok)"
    proof (cases "row_id r = row_id row")
      case True
      show ?thesis by (rule triple_flight, rule triple_weaken [OF f [OF True]]) simp_all
    qed (simp add: triple_def)
  qed
  show ?thesis
    unfolding complete_from_checkpoint_def h prod.case option.case Let_def [of ?c]
    by (rule triple_catch [OF m])
      (use s g in \<open>auto intro: triple_flight dest: storedD(1)\<close>)
qed

section \<open>Observations\<close>

definition observation_ok :: "observation \<Rightarrow> bool" where
  "observation_ok obs \<longleftrightarrow> (case ob_remote_handle obs of None \<Rightarrow> True | Some h \<Rightarrow> handle_ok h)"

lemma flight_after_finish:
  "is_terminal_lifecycle state \<Longrightarrow> research_row_valid row \<Longrightarrow>
    triple (stored row) (finish env row state code a u c) (\<lambda>_. flight_ok)"
  by (rule triple_flight [OF finish_triple])

lemma terminal_error_states [simp]:
  "is_terminal_lifecycle (terminal_by_error e)" "is_terminal_lifecycle (failure_state e)"
  by (cases e; simp) (simp add: failure_state_def)

lemma validating_row_facts:
  assumes "research_row_valid row" and "case h of None \<Rightarrow> True | Some v \<Rightarrow> handle_ok v"
  shows "same_request row (validating_row row h cp sha t)" "research_row_valid (validating_row row h cp sha t)"
  using assms
  by (simp_all add: same_request_def merge_row_def validating_row_def research_row_valid_def limits_agree_def
      research_request_post_init_def)

lemma accept_triple:
  assumes v: "research_row_valid row" and n: "\<not> is_terminal_lifecycle (row_state row)" and o: "observation_ok obs"
  shows "triple (stored row) (accept_completion env row obs) (\<lambda>_. flight_ok)"
proof -
  have h: "case ob_remote_handle obs of None \<Rightarrow> True | Some v \<Rightarrow> handle_ok v" using o by (simp add: observation_ok_def)
  have s: "triple (stored row) (bindE (tx (repository_save (validating_row row (ob_remote_handle obs) cp sha t)))
      (\<lambda>validating. complete_from_checkpoint env validating a)) (\<lambda>_. flight_ok)" for cp sha t a
    by (rule save_then [OF validating_row_facts [OF v h]])
      (use n in \<open>auto intro: complete_triple validating_row_facts [OF v h] dest: storedD(1)\<close>)
  have e: "triple (stored row) (bindE (lift (sha256_text env cp)) (\<lambda>sha.
      bindE (tx (repository_save (validating_row row (ob_remote_handle obs) cp sha t)))
        (\<lambda>validating. complete_from_checkpoint env validating a))) (\<lambda>_. flight_ok)" for cp t a
    by (rule triple_lift_bind) (auto intro: s dest: storedD(1))
  show ?thesis
    unfolding accept_completion_def
    by (rule triple_clock_bind) (auto intro: flight_after_finish v e dest: storedD(1) split: option.splits)
qed

lemma running_row_facts:
  assumes "research_row_valid row" and "case h of None \<Rightarrow> True | Some v \<Rightarrow> handle_ok v"
  shows "same_request row (row\<lparr>rw_record := (rw_record row)\<lparr>rq_state := R_RUNNING, rq_remote_handle := h\<rparr>,
      rw_submitted_at_ms := s, rw_updated_at_ms := t\<rparr>)"
    "research_row_valid (row\<lparr>rw_record := (rw_record row)\<lparr>rq_state := R_RUNNING, rq_remote_handle := h\<rparr>,
      rw_submitted_at_ms := s, rw_updated_at_ms := t\<rparr>)"
  using assms
  by (simp_all add: same_request_def merge_row_def research_row_valid_def limits_agree_def
      research_request_post_init_def)

lemma valid_handle: "research_row_valid row \<Longrightarrow> case row_handle row of None \<Rightarrow> True | Some v \<Rightarrow> handle_ok v"
  by (simp add: research_row_valid_def)

lemma touched_row_facts:
  "research_row_valid row \<Longrightarrow> same_request row (row\<lparr>rw_updated_at_ms := t\<rparr>)"
  "research_row_valid row \<Longrightarrow> research_row_valid (row\<lparr>rw_updated_at_ms := t\<rparr>)"
  by (simp_all add: same_request_def merge_row_def research_row_valid_def)

lemma submit_observation_triple:
  assumes v: "research_row_valid row" and n: "\<not> is_terminal_lifecycle (row_state row)" and o: "observation_ok obs"
  shows "triple (stored row) (apply_submit_observation env row obs) (\<lambda>_. flight_ok)"
proof -
  let ?h = "if ob_remote_handle obs \<noteq> None then ob_remote_handle obs else row_handle row"
  have h: "case ?h of None \<Rightarrow> True | Some v \<Rightarrow> handle_ok v"
    using o valid_handle [OF v] by (simp add: observation_ok_def)
  have r: "triple (stored row) (tx (repository_save (row\<lparr>rw_record := (rw_record row)\<lparr>rq_state := R_RUNNING,
      rq_remote_handle := ?h\<rparr>, rw_submitted_at_ms := s, rw_updated_at_ms := t\<rparr>))) (\<lambda>_. flight_ok)" for s t
    by (rule triple_flight, rule save_ending [OF running_row_facts [OF v h]]) (simp add: n)
  show ?thesis
    unfolding apply_submit_observation_def Let_def
    by (rule triple_clock_bind)
      (cases "ob_kind obs"; simp add: r [simplified] flight_after_finish v accept_triple n o)
qed

lemma poll_observation_triple:
  assumes v: "research_row_valid row" and n: "\<not> is_terminal_lifecycle (row_state row)" and o: "observation_ok obs"
  shows "triple (stored row) (apply_poll_observation env row t obs) (\<lambda>_. flight_ok)"
proof -
  have s: "triple (stored row) (tx (repository_save (row\<lparr>rw_updated_at_ms := t\<rparr>))) (\<lambda>_. flight_ok)"
    by (rule triple_flight, rule save_ending [OF touched_row_facts [OF v]]) simp
  show ?thesis
    unfolding apply_poll_observation_def Let_def
    by (cases "ob_kind obs") (auto simp: s flight_after_finish v accept_triple n o dest: storedD(1))
qed

section \<open>Operations\<close>

text \<open>What the environment hands over went through the constructors of the domain.\<close>

definition snapshot_ok :: "selection_snapshot \<Rightarrow> bool" where
  "snapshot_ok s \<longleftrightarrow> ok (selected_profile_post_init (ss_profile s)) \<and> ok (resource_limits_post_init (ss_resource_limits s))
     \<and> sp_max_tool_calls (ss_profile s) = rl_max_tool_calls (ss_resource_limits s)
     \<and> sp_max_output_tokens (ss_profile s) = rl_max_output_tokens (ss_resource_limits s)
     \<and> sp_budget_reservation_usd_micros (ss_profile s) = rl_budget_reservation_usd_micros (ss_resource_limits s)
     \<and> sp_deadline_seconds (ss_profile s) = ss_deadline_seconds s"

definition env_ok :: "research_env \<Rightarrow> bool" where
  "env_ok env \<longleftrightarrow> (\<forall>calls obs. en_observe env calls = Inr obs \<longrightarrow> observation_ok obs)
     \<and> (\<forall>t kind s. en_select env t kind = Inr s \<longrightarrow> snapshot_ok s)"

lemma active_triple:
  "triple flight_ok active_request (\<lambda>x db. flight_ok db \<and> (\<forall>r. x = Inr (Some r) \<longrightarrow>
     stored r db \<and> \<not> is_terminal_lifecycle (row_state r)))"
proof -
  have a: "triple flight_ok (tx active_slot_operation_id) (\<lambda>x db. flight_ok db \<and> x = Inr (held_operation db))"
    by (rule triple_read) (simp add: active_slot_operation_id_def run_in_transaction_def)
  have g: "triple (\<lambda>db. flight_ok db \<and> Inr (Some i) = (Inr (held_operation db) :: research_exn + pystr option))
      (tx (get_request i)) (\<lambda>x db. flight_ok db \<and> (\<forall>r. x = Inr (Some r) \<longrightarrow>
     stored r db \<and> \<not> is_terminal_lifecycle (row_state r)))" for i
  proof (rule triple_read)
    fix db assume "flight_ok db \<and> Inr (Some i) = (Inr (held_operation db) :: research_exn + pystr option)"
    then have f: "flight_ok db" and h: "held_operation db = Some i" by simp_all
    have "i \<in> set (request_ids db)" using db_okD(2) [OF flight_okD(1) [OF f]] h by (simp add: slot_ok_def)
    then obtain r where r: "request_map db i = Some r"
      using select_request_map(3) [OF db_okD(1) [OF flight_okD(1) [OF f]], of i] by fastforce
    have id: "row_id r = i" using select_request_map(2) [OF db_okD(1) [OF flight_okD(1) [OF f]] r] by simp
    have e: "encodable i" using encodable_id [OF flight_okD(1) [OF f], of i] r by simp
    show "\<exists>x. get_request i db = (x, db) \<and> flight_ok db \<and> (\<forall>r. x = Inr (Some r) \<longrightarrow>
        stored r db \<and> \<not> is_terminal_lifecycle (row_state r))"
      using get_request_eval [OF flight_okD(1) [OF f] e] r f id flight_okD(2) [OF f r] h
      by (simp add: stored_def)
  qed
  show ?thesis
    unfolding active_request_def
  proof (rule triple_bindE [OF a])
    fix i :: "pystr option"
    show "triple (\<lambda>db. flight_ok db \<and> Inr i = (Inr (held_operation db) :: research_exn + pystr option))
        (case i of None \<Rightarrow> ret None | Some operation_id \<Rightarrow> tx (get_request operation_id))
        (\<lambda>x db. flight_ok db \<and> (\<forall>r. x = Inr (Some r) \<longrightarrow> stored r db \<and> \<not> is_terminal_lifecycle (row_state r)))"
      using g by (cases i) simp_all
  qed simp
qed

text \<open>An operation that starts from the active row.\<close>

lemma active_then:
  assumes "triple flight_ok (k None) Q"
    and "\<And>r. research_row_valid r \<Longrightarrow> \<not> is_terminal_lifecycle (row_state r) \<Longrightarrow> triple (stored r) (k (Some r)) Q"
    and "\<And>e db. flight_ok db \<Longrightarrow> Q (Inl e) db"
  shows "triple flight_ok (bindE active_request k) Q"
proof (rule triple_bindE [OF active_triple])
  fix a
  show "triple (\<lambda>db. flight_ok db \<and> (\<forall>r. Inr a = Inr (Some r) \<longrightarrow>
     stored r db \<and> \<not> is_terminal_lifecycle (row_state r))) (k a) Q"
  proof (cases a)
    case None
    then show ?thesis using assms(1) by simp
  next
    case (Some r)
    show ?thesis
    proof (cases "research_row_valid r \<and> \<not> is_terminal_lifecycle (row_state r)")
      case True
      then show ?thesis using assms(2) [of r] Some by (auto intro: triple_weaken)
    next
      case False
      then have "\<not> (stored r db \<and> \<not> is_terminal_lifecycle (row_state r))" for db using storedD(4) by blast
      then show ?thesis using Some by (auto simp: triple_def)
    qed
  qed
qed (use assms(3) in auto)

lemma triple_then_ret: "triple P m (\<lambda>_. flight_ok) \<Longrightarrow> triple P (bindE m (\<lambda>r. ret (f r))) (\<lambda>_. flight_ok)"
  by (rule triple_bindE) simp_all

lemma recover_triple: "triple flight_ok (recover env) (\<lambda>_. flight_ok)"
  unfolding recover_def
  by (rule active_then) (auto intro!: triple_then_ret flight_after_finish dest: storedD(1))

lemma poll_triple:
  assumes "env_ok env"
  shows "triple flight_ok (poll_once env) (\<lambda>_. flight_ok)"
proof -
  have p: "triple (stored row) (poll_remote env row h) (\<lambda>_. flight_ok)"
    if "research_row_valid row" "\<not> is_terminal_lifecycle (row_state row)" for row h
  proof -
    have o: "observation_ok obs" if "en_observe env calls = Inr obs" for calls obs
      using assms that unfolding env_ok_def by blast
    have a: "triple (stored row) (catch (provider_call_prog (en_observe env) (PCancel h))
         (\<lambda>_. finish_unknown env row R_TIMEOUT E_TIMEOUT) (\<lambda>_. finish_unknown env row R_TIMEOUT E_TIMEOUT)) (\<lambda>_. flight_ok)"
      by (rule triple_call_catch) (simp_all add: flight_after_finish that)
    have b: "triple (stored row) (catch (provider_call_prog (en_observe env) (PPoll h))
         (\<lambda>_. ret row) (apply_poll_observation env row t)) (\<lambda>_. flight_ok)" for t
      by (rule triple_call_catch) (auto simp: poll_observation_triple that o dest: storedD(1))
    show ?thesis
      unfolding poll_remote_def by (rule triple_clock_bind) (simp add: a b)
  qed
  show ?thesis
    unfolding poll_once_def
  proof (rule active_then)
    fix row assume v: "research_row_valid row" "\<not> is_terminal_lifecycle (row_state row)"
    have c: "triple (stored row) (bindE (lift (answer_from_checkpoint row)) (\<lambda>answer.
           case answer of None \<Rightarrow> ret (Some row)
           | Some a \<Rightarrow> bindE (complete_from_checkpoint env row (Some a)) (\<lambda>r. ret (Some r)))) (\<lambda>_. flight_ok)"
      by (rule triple_lift_bind)
        (auto intro!: triple_then_ret complete_triple [OF v(1)] dest: storedD(1) split: option.splits)
    have h: "triple (stored row) (case row_handle row of None \<Rightarrow> ret None
         | Some handle \<Rightarrow> bindE (poll_remote env row handle) (\<lambda>r. ret (Some r))) (\<lambda>_. flight_ok)"
      by (cases "row_handle row") (auto simp: triple_then_ret p v dest: storedD(1))
    show "triple (stored row) (case Some row of None \<Rightarrow> ret None
       | Some row \<Rightarrow>
         if row_state row \<in> {R_ADMITTED, R_SUBMITTING} then ret None
         else if row_state row = R_VALIDATING
         then bindE (lift (answer_from_checkpoint row)) (\<lambda>answer.
           case answer of None \<Rightarrow> ret (Some row)
           | Some a \<Rightarrow> bindE (complete_from_checkpoint env row (Some a)) (\<lambda>r. ret (Some r)))
         else case row_handle row of None \<Rightarrow> ret None
         | Some handle \<Rightarrow> bindE (poll_remote env row handle) (\<lambda>r. ret (Some r))) (\<lambda>_. flight_ok)"
      using c h by (auto dest: storedD(1))
  qed simp_all
qed

lemma row_lookup_triple:
  "triple flight_ok (tx (get_request i)) (\<lambda>x db. flight_ok db \<and> (\<forall>r. x = Inr (Some r) \<longrightarrow> stored r db))"
proof (rule triple_read)
  fix db assume f: "flight_ok db"
  show "\<exists>x. get_request i db = (x, db) \<and> flight_ok db \<and> (\<forall>r. x = Inr (Some r) \<longrightarrow> stored r db)"
  proof (cases "encodable i")
    case True
    have "stored r db" if "request_map db i = Some r" for r
      using that f select_request_map(2) [OF db_okD(1) [OF flight_okD(1) [OF f]] that] by (simp add: stored_def)
    then show ?thesis using get_request_eval [OF flight_okD(1) [OF f] True] f by simp
  next
    case False
    then show ?thesis using f by (simp add: get_request_def run_in_transaction_def bind_texts_def)
  qed
qed

lemma cancel_row_facts:
  assumes "research_row_valid row"
  shows "same_request row (cancel_requested_row row t)" "research_row_valid (cancel_requested_row row t)"
    "row_state (cancel_requested_row row t) = R_CANCEL_REQUESTED"
  using assms
  by (simp_all add: same_request_def merge_row_def cancel_requested_row_def research_row_valid_def limits_agree_def
      research_request_post_init_def)

lemma cancel_observation_triple:
  assumes v: "research_row_valid row" and n: "\<not> is_terminal_lifecycle (row_state row)"
  shows "triple (stored row) (apply_cancel_observation env row obs) (\<lambda>_. flight_ok)"
proof -
  have k: "triple (ending (Inr confirmed)) (bindE (clock_ms env) (\<lambda>confirmed_at. bindE (clock_ms env) (\<lambda>updated_at.
          tx (repository_save (confirmed\<lparr>rw_cancellation_confirmed_at_ms := Some confirmed_at,
            rw_updated_at_ms := updated_at\<rparr>))))) (\<lambda>_. flight_ok)" for confirmed
  proof (cases "research_row_valid confirmed")
    case True
    have "triple (stored confirmed) (tx (repository_save (confirmed\<lparr>rw_cancellation_confirmed_at_ms := Some s,
            rw_updated_at_ms := t\<rparr>))) (\<lambda>_. flight_ok)" for s t
      by (rule triple_flight, rule save_ending)
        (use True in \<open>simp_all add: same_request_def merge_row_def research_row_valid_def\<close>)
    then show ?thesis unfolding ending_simps by (intro triple_clock_bind)
  next
    case False
    then have "\<not> stored confirmed db" for db using storedD(4) by blast
    then show ?thesis by (simp add: triple_def)
  qed
  have c: "triple (stored row) (bindE (finish_unknown env row R_CANCELLED E_CANCELLED) (\<lambda>confirmed.
          bindE (clock_ms env) (\<lambda>confirmed_at. bindE (clock_ms env) (\<lambda>updated_at.
          tx (repository_save (confirmed\<lparr>rw_cancellation_confirmed_at_ms := Some confirmed_at,
            rw_updated_at_ms := updated_at\<rparr>)))))) (\<lambda>_. flight_ok)"
    by (rule triple_bindE [OF finish_triple [OF _ v] k]) simp_all
  show ?thesis
    unfolding apply_cancel_observation_def Let_def
    by (cases "ob_kind obs") (auto simp: c flight_after_finish v dest: storedD(1))
qed

lemma cancel_triple: "triple flight_ok (cancel env i) (\<lambda>_. flight_ok)"
proof -
  have r: "triple (stored row) (cancel_remote env row) (\<lambda>_. flight_ok)"
    if "research_row_valid row" "\<not> is_terminal_lifecycle (row_state row)" for row
    unfolding cancel_remote_def
    by (cases "row_handle row")
      (auto intro!: triple_call_catch simp: cancel_observation_triple that dest: storedD(1))
  have s: "triple (stored row) (bindE (if b then tx (repository_save (cancel_requested_row row t)) else ret row)
      (cancel_remote env)) (\<lambda>_. flight_ok)"
    if v: "research_row_valid row" "\<not> is_terminal_lifecycle (row_state row)" for row t b
  proof (cases b)
    case True
    show ?thesis
      unfolding if_P [OF True]
      by (rule save_then [OF cancel_row_facts(1,2) [OF v(1)]])
        (use v in \<open>auto intro: r cancel_row_facts(2) simp: cancel_row_facts(3) dest: storedD(1)\<close>)
  next
    case False
    then have "(if b then tx (repository_save (cancel_requested_row row t)) else ret row) = ret row" by simp
    then show ?thesis by (simp add: bindE_def ret_def r v)
  qed
  show ?thesis
    unfolding cancel_def
  proof (rule triple_bindE [OF row_lookup_triple])
    fix found
    show "triple (\<lambda>db. flight_ok db \<and> (\<forall>r. Inr found = Inr (Some r) \<longrightarrow> stored r db)) (case found of
       None \<Rightarrow> raise (ResearchStoreError E_INVALID_REQUEST)
     | Some row \<Rightarrow>
         if is_terminal_lifecycle (row_state row) then ret row
         else bindE (clock_ms env) (\<lambda>now_ms.
           bindE (if rw_cancel_requested_at_ms row = None
                  then tx (repository_save (cancel_requested_row row now_ms)) else ret row)
             (cancel_remote env))) (\<lambda>_. flight_ok)"
    proof (cases found)
      case None
      then show ?thesis by simp
    next
      case (Some row)
      show ?thesis
      proof (cases "research_row_valid row \<and> \<not> is_terminal_lifecycle (row_state row)")
        case True
        have "triple (stored row) (bindE (clock_ms env) (\<lambda>now_ms.
           bindE (if rw_cancel_requested_at_ms row = None
                  then tx (repository_save (cancel_requested_row row now_ms)) else ret row)
             (cancel_remote env))) (\<lambda>_. flight_ok)"
          by (rule triple_clock_bind, rule s) (use True in auto)
        then show ?thesis using Some True by (auto intro: triple_weaken)
      next
        case False
        then have "stored row db \<Longrightarrow> is_terminal_lifecycle (row_state row)" for db using storedD(4) by blast
        then show ?thesis using Some by (auto simp: triple_def)
      qed
    qed
  qed simp
qed

text \<open>Saving one row leaves the others stored.\<close>

lemma save_others:
  assumes "stored r0 db" and s: "same_request r0 r" and v: "research_row_valid r"
    and t: "is_terminal_lifecycle (row_state r0) \<longrightarrow> is_terminal_lifecycle (row_state r)"
    and x: "repository_save r db = (x, db')"
  shows "flight_ok db'" and "stored q db \<Longrightarrow> row_id q \<noteq> row_id r0 \<Longrightarrow> stored q db'"
proof -
  have id: "row_id r = row_id r0" by (rule same_request_id [OF s])
  have m: "request_map db (row_id r) = Some r0" using storedD(3) [OF assms(1)] id by simp
  note step = save_step [OF storedD(2) [OF assms(1)] m s v]
  have "case x of Inl e \<Rightarrow> stored r0 db' | Inr r' \<Rightarrow> r' = r \<and> stored r db'"
    by (rule triple_txD [OF save_triple [OF s v t] assms(1) x])
  then show f: "flight_ok db'" by (auto split: sum.splits dest: storedD(1))
  show "stored q db'" if q: "stored q db" "row_id q \<noteq> row_id r0"
    using f q step(1,3) x id by (cases "saves db r") (auto simp: stored_def)
qed

lemma list_pending_rows:
  assumes f: "flight_ok db" and l: "list_cleanup_pending limit db = (Inr rs, db')"
  shows "db' = db" and "distinct (map row_id rs)" and "\<And>r. r \<in> set rs \<Longrightarrow> stored r db"
proof -
  let ?F = "filter (\<lambda>c. rt_cleanup_state c = research_cleanup_value RC_PENDING \<and> rt_remote_handle_json c \<noteq> None
            \<and> rt_lifecycle_state c \<in> terminal_values) (rd_requests db)"
  let ?xs = "sql_order_limit (\<lambda>c. (rt_updated_at_ms c, rt_operation_id c)) (max 0 limit) ?F"
  have m: "map_results row_from_mapping ?xs = Inr rs" and d: "db' = db"
    using l unfolding list_cleanup_pending_def run_in_transaction_Inr and_then_Inr by auto
  show "db' = db" by (rule d)
  note ok = db_okD(1) [OF flight_okD(1) [OF f]]
  have sub: "set ?xs \<subseteq> set (rd_requests db)"
    unfolding sql_order_limit_def using set_take_subset [of _ "sort_key (\<lambda>c. (rt_updated_at_ms c, rt_operation_id c)) ?F"]
    by fastforce
  have "distinct (map rt_operation_id ?F)" using requests_distinct [OF ok] by (rule distinct_map_filter)
  then have "distinct (map rt_operation_id (sort_key (\<lambda>c. (rt_updated_at_ms c, rt_operation_id c)) ?F))"
    by (simp add: distinct_map)
  then have dx: "distinct (map rt_operation_id ?xs)"
    unfolding sql_order_limit_def by (simp add: take_map [symmetric])
  have rd: "row_from_mapping c = Inr r \<Longrightarrow> c \<in> set (rd_requests db) \<Longrightarrow> stored r db \<and> row_id r = rt_operation_id c" for c r
    using row_in_map [OF ok, of c] f by (auto simp: stored_def row_read_back)
  have "\<And>xs rs. map_results row_from_mapping xs = Inr rs \<Longrightarrow> set xs \<subseteq> set (rd_requests db) \<Longrightarrow>
      map row_id rs = map rt_operation_id xs \<and> (\<forall>r \<in> set rs. stored r db)"
  proof -
    fix xs show "\<And>rs. map_results row_from_mapping xs = Inr rs \<Longrightarrow> set xs \<subseteq> set (rd_requests db) \<Longrightarrow>
      map row_id rs = map rt_operation_id xs \<and> (\<forall>r \<in> set rs. stored r db)"
      by (induction xs) (auto simp: and_then_Inr dest: rd)
  qed
  from this [OF m sub] dx show "distinct (map row_id rs)" "\<And>r. r \<in> set rs \<Longrightarrow> stored r db" by auto
qed

lemma released_row_facts:
  assumes "research_row_valid row"
  shows "same_request row (released_row row c t)" "research_row_valid (released_row row c t)"
    "row_state (released_row row c t) = row_state row"
  using assms
  by (simp_all add: same_request_def merge_row_def released_row_def research_row_valid_def limits_agree_def
      research_request_post_init_def)

definition all_stored :: "research_row list \<Rightarrow> research_db \<Rightarrow> bool" where
  "all_stored rs db \<longleftrightarrow> flight_ok db \<and> (\<forall>r \<in> set rs. stored r db)"

lemma release_one_triple:
  assumes d: "row_id row \<notin> set (map row_id rs)"
  shows "triple (all_stored (row # rs)) (release_one env row) (\<lambda>_. all_stored rs)"
proof (cases "row_handle row = None \<or> \<not> research_row_valid row")
  case True
  then show ?thesis
  proof
    assume "row_handle row = None"
    then show ?thesis by (simp add: release_one_def all_stored_def)
  next
    assume "\<not> research_row_valid row"
    then have "\<not> all_stored (row # rs) db" for db using storedD(4) by (auto simp: all_stored_def)
    then show ?thesis by (simp add: triple_def)
  qed
next
  case False
  then obtain h where h: "row_handle row = Some h" and v: "research_row_valid row" by auto
  have s: "triple (all_stored (row # rs)) (tx (repository_save (released_row row c t))) (\<lambda>_. all_stored rs)" for c t
  proof (rule triple_tx)
    fix db x db' assume a: "all_stored (row # rs) db" and x: "repository_save (released_row row c t) db = (x, db')"
    then have st: "stored row db" by (simp add: all_stored_def)
    note o = save_others [OF st released_row_facts(1,2) [OF v] _ x]
    show "all_stored rs db'"
      using o a d released_row_facts(3) [OF v] unfolding all_stored_def by (auto simp: image_iff)
  qed
  have w: "all_stored (row # rs) db \<Longrightarrow> all_stored rs db" for db by (simp add: all_stored_def)
  have k: "triple (all_stored (row # rs)) (bindE (clock_ms env) (\<lambda>now_ms.
              bindE (tx (repository_save (released_row row c now_ms))) (\<lambda>saved. ret (Some saved)))) (\<lambda>_. all_stored rs)" for c
    by (rule triple_clock_bind, rule triple_bindE [OF s]) simp_all
  show ?thesis
    unfolding release_one_def h option.case by (rule triple_call_catch) (simp_all add: k w)
qed

lemma each_triple: "distinct (map row_id rs) \<Longrightarrow> triple (all_stored rs) (each (release_one env) rs) (\<lambda>_. flight_ok)"
proof (induction rs)
  case (Cons r rs)
  show ?case
    unfolding each.simps
    by (rule triple_bindE [OF release_one_triple]; (rule triple_then_ret [OF Cons.IH])?)
      (use Cons.prems in \<open>auto simp: all_stored_def\<close>)
qed (simp add: all_stored_def)

lemma release_triple: "triple flight_ok (release_remote_pending env limit) (\<lambda>_. flight_ok)"
  unfolding release_remote_pending_def
proof (rule triple_bindE [where M = "\<lambda>x db. flight_ok db \<and> (\<forall>rs. x = Inr rs \<longrightarrow> all_stored rs db \<and> distinct (map row_id rs))"])
  show "triple flight_ok (tx (list_cleanup_pending limit))
      (\<lambda>x db. flight_ok db \<and> (\<forall>rs. x = Inr rs \<longrightarrow> all_stored rs db \<and> distinct (map row_id rs)))"
  proof (rule triple_tx)
    fix db x db' assume f: "flight_ok db" and l: "list_cleanup_pending limit db = (x, db')"
    have "db' = db"
      using l by (auto simp: list_cleanup_pending_def run_in_transaction_def and_then_Inr split: sum.splits prod.splits)
    moreover have "all_stored rs db \<and> distinct (map row_id rs)" if "x = Inr rs" for rs
      using list_pending_rows [OF f l [unfolded that]] f by (simp add: all_stored_def)
    ultimately show "flight_ok db' \<and> (\<forall>rs. x = Inr rs \<longrightarrow> all_stored rs db' \<and> distinct (map row_id rs))" using f by simp
  qed
  fix rs
  show "triple (\<lambda>db. flight_ok db \<and> (\<forall>rs'. Inr rs = Inr rs' \<longrightarrow> all_stored rs' db \<and> distinct (map row_id rs')))
      (each (release_one env) rs) (\<lambda>_. flight_ok)"
  proof (cases "distinct (map row_id rs)")
    case True
    show ?thesis by (rule triple_weaken [OF each_triple [OF True]]) auto
  qed (simp add: triple_def)
qed simp

section \<open>Submission and admission\<close>

lemma claim_triple:
  "triple (stored row) (tx (claim_submission t (row_id row))) (\<lambda>x db. flight_ok db \<and>
     (\<forall>r. x = Inr (Some r) \<longrightarrow> stored r db \<and> \<not> is_terminal_lifecycle (row_state r)))"
proof (rule triple_tx)
  fix db x db' assume st: "stored row db" and x: "claim_submission t (row_id row) db = (x, db')"
  have e: "encodable (row_id row)" using storedD(3) [OF st] by (intro encodable_id [OF storedD(2) [OF st]]) simp
  note c = claim_step [OF storedD(2) [OF st] e]
  show "flight_ok db' \<and> (\<forall>r. x = Inr (Some r) \<longrightarrow> stored r db' \<and> \<not> is_terminal_lifecycle (row_state r))"
  proof (cases "row_state row = R_ADMITTED")
    case False
    have "claim_submission t (row_id row) db = (Inr None, db)" using storedD(3) [OF st] False by (intro c(1)) simp
    then show ?thesis using x storedD(1) [OF st] by simp
  next
    case True
    let ?r = "row\<lparr>rw_record := (rw_record row)\<lparr>rq_state := R_SUBMITTING\<rparr>, rw_updated_at_ms := t\<rparr>"
    note d = c(2) [OF storedD(3) [OF st] True refl]
    show ?thesis
    proof (cases "request_admissible db (columns_of ?r)")
      case False
      then have "x = Inl IntegrityError \<and> db' = db" using d x by simp
      then show ?thesis using storedD(1) [OF st] by simp
    next
      case adm: True
      then have xd: "x = Inr (Some ?r)" "db' = put_request ?r db" using d x by simp_all
      have v: "research_row_valid ?r"
        using storedD(4) [OF st] by (simp add: research_row_valid_def limits_agree_def research_request_post_init_def)
      have "list_all encodable (row_texts (columns_of row))"
        using db_okD(5) [OF storedD(2) [OF st] request_map_row [OF db_okD(1) [OF storedD(2) [OF st]] storedD(3) [OF st]]]
        by (simp add: list_all_iff)
      then have t: "list_all encodable (row_texts (columns_of ?r))" by (simp add: row_texts_def mutable_texts_def)
      have m: "request_map db' = (request_map db)(row_id row \<mapsto> ?r)"
        unfolding xd(2) using request_map_put [OF db_okD(1) [OF storedD(2) [OF st]] v] storedD(3) [OF st] by simp
      have hh: "held_operation db' = held_operation db" by (simp add: xd(2))
      have "is_terminal_lifecycle (row_state q) \<longleftrightarrow> held_operation db' \<noteq> Some j" if "request_map db' j = Some q" for j q
        using that flight_okD(2) [OF storedD(1) [OF st], of j q] storedD(5) [OF st] True
        unfolding m hh by (cases "j = row_id row") auto
      then have "stored ?r db'" using put_request_ok [OF storedD(2) [OF st] v adm t] m xd(2)
        by (simp add: stored_def flight_ok_def)
      then show ?thesis using xd(1) storedD(1) by auto
    qed
  qed
qed

lemma submit_claimed_triple:
  assumes env: "env_ok env" and v: "research_row_valid row" "\<not> is_terminal_lifecycle (row_state row)"
  shows "triple (stored row) (submit_claimed env row) (\<lambda>_. flight_ok)"
proof -
  have o: "observation_ok obs" if "en_observe env calls = Inr obs" for calls obs
    using env that unfolding env_ok_def by blast
  have c: "triple (stored row) (catch (provider_call_prog (en_observe env) (PSubmit r))
      (\<lambda>_. finish_unknown env row R_SUBMISSION_UNKNOWN E_SUBMISSION_UNKNOWN) (apply_submit_observation env row)) (\<lambda>_. flight_ok)" for r
    by (rule triple_call_catch) (simp_all add: submit_observation_triple flight_after_finish v o)
  show ?thesis
    unfolding submit_claimed_def Let_def by (rule triple_lift_bind) (auto intro: c dest: storedD(1))
qed

lemma submit_triple:
  assumes env: "env_ok env"
  shows "triple flight_ok (submit_pending env) (\<lambda>_. flight_ok)"
proof -
  have k: "triple (stored row) (bindE (clock_ms env) (\<lambda>now_ms. bindE (tx (claim_submission now_ms (row_id row))) (\<lambda>claimed.
             case claimed of None \<Rightarrow> ret None | Some c \<Rightarrow> bindE (submit_claimed env c) (\<lambda>r. ret (Some r))))) (\<lambda>_. flight_ok)" for row
  proof (rule triple_clock_bind, rule triple_bindE [OF claim_triple])
    fix claimed
    show "triple (\<lambda>db. flight_ok db \<and> (\<forall>r. Inr claimed = Inr (Some r) \<longrightarrow> stored r db \<and> \<not> is_terminal_lifecycle (row_state r)))
      (case claimed of None \<Rightarrow> ret None | Some c \<Rightarrow> bindE (submit_claimed env c) (\<lambda>r. ret (Some r))) (\<lambda>_. flight_ok)"
    proof (cases claimed)
      case (Some c)
      show ?thesis
      proof (cases "research_row_valid c \<and> \<not> is_terminal_lifecycle (row_state c)")
        case True
        then have "triple (stored c) (bindE (submit_claimed env c) (\<lambda>r. ret (Some r))) (\<lambda>_. flight_ok)"
          by (intro triple_then_ret submit_claimed_triple env) simp_all
        then show ?thesis using Some by (auto intro: triple_weaken)
      next
        case False
        then have "stored c db \<Longrightarrow> is_terminal_lifecycle (row_state c)" for db using storedD(4) by blast
        then show ?thesis using Some by (auto simp: triple_def)
      qed
    qed simp
  qed simp
  have a: "triple flight_ok (bindE active_request (\<lambda>active. case active of None \<Rightarrow> ret None
       | Some row \<Rightarrow>
           if row_state row \<noteq> R_ADMITTED then ret None
           else bindE (clock_ms env) (\<lambda>now_ms. bindE (tx (claim_submission now_ms (row_id row))) (\<lambda>claimed.
             case claimed of None \<Rightarrow> ret None | Some c \<Rightarrow> bindE (submit_claimed env c) (\<lambda>r. ret (Some r)))))) (\<lambda>_. flight_ok)"
    by (rule active_then) (use k in \<open>auto dest: storedD(1)\<close>)
  have e: "triple flight_ok (submission_enabled env) (\<lambda>_. flight_ok)"
    unfolding submission_enabled_def by (cases "en_submission_enabled env") (simp_all add: triple_tick)
  show ?thesis
    unfolding submit_pending_def by (rule triple_bindE [OF e]) (use a in auto)
qed

text \<open>The row of an admission, before its prompt is known to be encodable.\<close>

lemma admit_step:
  assumes f: "flight_ok db" and x: "repository_admit row b db = (x, db')"
    and st: "row_state row = R_ADMITTED" and h: "row_handle row = None"
    and v: "ok (research_request_post_init (rw_record row))" "ok (selected_profile_post_init (rq_profile (rw_record row)))"
      "ok (resource_limits_post_init (rq_resource_limits (rw_record row)))" "limits_agree (rw_record row)"
  shows "flight_ok db'"
proof -
  have "flight_ok d" if s: "admit_operation row b db = Inr (y, d)" and i: "br_operation_id b = row_id row" for y d
  proof (cases "select_client (rw_owner_login_key row) (rw_client_request_id row) db")
    case (Some c)
    then have "d = db" using s by (auto simp: admit_operation_def and_then_Inr split: if_splits)
    then show ?thesis using f by simp
  next
    case None
    then obtain c d1 hd d2 where c: "row_to_values row = Inr c" "insert_request c (ensure_slot db) = Inr d1"
      and r: "reserve_hold b (rw_admitted_at_ms row) d1 = Inr (hd, d2)" and l: "held_operation db = None"
      and t: "set_slot \<lparr>sl_operation_id = Some (row_id row), sl_held_since_ms = Some (rw_admitted_at_ms row)\<rparr> d2 = Inr d"
      using s by (auto simp: admit_operation_def and_then_Inr Let_def split: if_splits prod.splits)
    have p: "encodable (rq_prompt (rw_record row))" and cc: "c = columns_of row"
      using c(1) by (auto simp: row_to_values_def and_then_Inr utf8_length_def split: if_splits)
    have v: "research_row_valid row" using v h p by (simp add: research_row_valid_def)
    note ok = flight_okD(1) [OF f]
    have id: "row_id row = rt_operation_id c" by (simp add: cc)
    note a = admit_parts [OF db_okD(2,3) [OF ok] c(2) r i [unfolded id] t [unfolded id]]
    have ins: "request_checks_ok c" "request_fk_ok db c" "list_all encodable (row_texts c)"
        "rt_operation_id c \<notin> set (map rt_operation_id (rd_requests db))"
        "list_all (\<lambda>d. rt_operation_id d = rt_operation_id c \<or> \<not> request_rows_clash c d) (rd_requests db)"
      using c(2) request_fk_cong [of "ensure_slot db" db]
      by (auto simp: insert_request_def and_then_Inr bind_texts_def request_admissible_def split: if_splits)
    have rows: "requests_ok (rd_requests d)"
      unfolding a(3) requests_ok_def
      by (rule request_table.insert_keeps) (use db_okD(1) [OF ok] ins v in \<open>simp_all add: requests_ok_def cc\<close>)
    have "request_fk_ok d = request_fk_ok db" by (rule request_fk_cong [OF a(4)])
    then have "db_ok d"
      using ok rows a(1,2) ins(2,3) by (simp add: db_ok_def a(3))
    moreover have "is_terminal_lifecycle (row_state q) \<longleftrightarrow> held_operation d \<noteq> Some j" if q: "request_map d j = Some q" for j q
    proof -
      have sel: "select_request j d = (if j = row_id row then Some c else select_request j db)"
        unfolding select_request_def a(3)
        using find_after_insert [OF ins(4), of j] by (simp add: cc)
      show ?thesis
      proof (cases "j = row_id row")
        case True
        then have "q = row" using q sel by (simp add: request_map_def cc row_read_back [OF v])
        then show ?thesis using True a(6) st by (simp add: cc)
      next
        case False
        then have "request_map db j = Some q" using q sel by (simp add: request_map_def)
        then show ?thesis using flight_okD(2) [OF f] l a(6) False by (auto simp: cc)
      qed
    qed
    ultimately show ?thesis by (simp add: flight_ok_def)
  qed
  then show ?thesis
    using f x by (auto simp: repository_admit_def run_in_immediate_transaction_def split: sum.splits prod.splits if_splits)
qed

lemma admit_triple:
  assumes env: "env_ok env"
  shows "triple flight_ok (admit env owner client kind prompt consent) (\<lambda>_. flight_ok)"
proof -
  have t: "triple flight_ok (tx (repository_admit (admitted_row (admitted_request snap i kind prompt) owner client fp now)
        (admission_reservation (admitted_request snap i kind prompt) kind snap))) (\<lambda>_. flight_ok)"
    if "ok (research_request_post_init (admitted_request snap i kind prompt))" "snapshot_ok snap" for snap i fp now
  proof (rule triple_tx)
    fix db x db' assume "flight_ok db" and "repository_admit (admitted_row (admitted_request snap i kind prompt) owner client fp now)
        (admission_reservation (admitted_request snap i kind prompt) kind snap) db = (x, db')"
    then show "flight_ok db'"
      by (rule admit_step) (use that in \<open>simp_all add: admitted_row_def admitted_request_def snapshot_ok_def limits_agree_def\<close>)
  qed
  have s: "triple flight_ok (store_admission env snap now owner client kind prompt fp i) (\<lambda>_. flight_ok)"
    if "snapshot_ok snap" for snap now fp i
  proof -
    let ?q = "admitted_request snap i kind prompt"
    have r: "triple flight_ok (bindE (lift (budget_reservation_post_init (admission_reservation ?q kind snap))) (\<lambda>_.
         bindE (tx (repository_admit (admitted_row ?q owner client fp now) (admission_reservation ?q kind snap))) (\<lambda>stored.
         ret \<lparr>ar_row = stored, ar_newly_admitted = (row_id stored = i \<and> rw_request_fingerprint stored = fp)\<rparr>))) (\<lambda>_. flight_ok)"
      if "ok (research_request_post_init ?q)"
      by (rule triple_lift_bind, rule triple_then_ret, rule t [OF that \<open>snapshot_ok snap\<close>]) simp
    show ?thesis
      unfolding store_admission_def Let_def by (rule triple_lift_bind) (use r in \<open>auto simp: ok_unit\<close>)
  qed
  have sel: "snapshot_ok snap" if "en_select env t kind = Inr snap" for t snap
    using env that unfolding env_ok_def by blast
  have b: "triple flight_ok (admission_blocker env) (\<lambda>_. flight_ok)"
    unfolding admission_blocker_def by (auto intro: triple_read simp: run_in_transaction_def)
  have n: "triple flight_ok (admit_new env owner client kind prompt consent) (\<lambda>_. flight_ok)"
    unfolding admit_new_def
    by (rule triple_bindE [OF b])
      (auto intro!: triple_tick_bind triple_clock_bind triple_lift_bind s sel split: option.splits sum.splits)
  have c: "triple flight_ok (tx (find_by_client owner client)) (\<lambda>_. flight_ok)"
    by (rule triple_tx) (auto simp: find_by_client_def run_in_transaction_def and_then_Inr split: sum.splits prod.splits)
  have r: "triple flight_ok (bindE (lift (replay_matches env row owner kind prompt consent)) (\<lambda>same.
      if same then ret \<lparr>ar_row = row, ar_newly_admitted = False\<rparr>
      else raise (ResearchStoreError E_IDEMPOTENCY_CONFLICT))) (\<lambda>_. flight_ok)" for row
    by (rule triple_lift_bind) simp_all
  show ?thesis
    unfolding admit_def by (auto intro!: triple_bindE [OF c] n r split: option.splits)
qed

lemma perform_triple:
  assumes "env_ok env"
  shows "triple flight_ok (perform env c) (\<lambda>_. flight_ok)"
proof -
  have t: "triple flight_ok (as_thread p) (\<lambda>_. flight_ok)" if "triple flight_ok p (\<lambda>_. flight_ok)" for p :: "(research_world, 'a) prog"
    using that by (auto simp: triple_def as_thread_def split: prod.splits)
  show ?thesis
    by (cases c) (simp_all add: t admit_triple submit_triple recover_triple poll_triple cancel_triple release_triple assms)
qed

text \<open>Operations performed one after the other.\<close>

fun run_calls :: "research_env \<Rightarrow> coordinator_call list \<Rightarrow> research_world \<Rightarrow> research_world" where
  "run_calls env [] w = w"
| "run_calls env (c # cs) w = run_calls env cs (snd (run (perform env c) w))"

lemma run_calls_flight: "env_ok env \<Longrightarrow> flight_ok (wd_db w) \<Longrightarrow> flight_ok (wd_db (run_calls env cs w))"
proof (induction cs arbitrary: w)
  case (Cons c cs)
  have "flight_ok (wd_db (snd (run (perform env c) w)))"
    using perform_triple [OF Cons.prems(1), of c] Cons.prems(2) unfolding triple_def by (metis (no_types, lifting) case_prod_beta)
  then show ?case using Cons by simp
qed simp

end
