(* ===== verification/Research_Outcomes.thy ===== *)
theory Research_Outcomes
  imports Research_Runs
begin

text \<open>
  What the operations of the coordinator leave behind: a finished request frees the slot, an
  admission stores everything or nothing, and the requests that no operation moves any more.
\<close>

section \<open>Finishing\<close>

text \<open>The clock has not gone back behind the admission: then the table accepts the finished row.\<close>

lemma code_bytes: "kronika_bytes 1 64 (research_code_value e)"
  by (cases e) (simp_all add: research_code_value.simps kronika_bytes_def utf8_size_def lit_def utf8_char_size_def)

lemma finished_saves:
  assumes st: "stored row db" and t: "rw_admitted_at_ms row \<le> t"
  shows "saves db (finished_row row state code a True t)"
proof -
  let ?c = "columns_of row" and ?f = "columns_of (finished_row row state code a True t)"
  have m: "?c \<in> set (rd_requests db)" by (rule request_map_row [OF db_okD(1) [OF storedD(2) [OF st]] storedD(3) [OF st]])
  have k: "request_checks_ok ?c" using requests_stored [OF db_okD(1) [OF storedD(2) [OF st]] m] by simp
  have same: "rt_operation_id ?f = rt_operation_id ?c" "rt_owner_login_key ?f = rt_owner_login_key ?c"
      "rt_client_request_id ?f = rt_client_request_id ?c" "rt_record_id ?f = rt_record_id ?c"
    by (simp_all add: finished_row_def Let_def)
  have ids: "list_all check_passes (request_identity_checks ?f)"
  proof -
    have "request_identity_checks ?f = (request_identity_checks ?c)[7 := Some (research_state_value state \<in> set (map lit [''admitted'', ''submitting'', ''running'', ''validating'',
       ''saved'', ''refused'', ''failed'', ''incomplete'', ''cancel_requested'', ''cancelled'', ''timeout'',
       ''submission_unknown'']))]"
      by (simp add: request_identity_checks_def finished_row_def Let_def)
    moreover have "research_state_value state \<in> set (map lit [''admitted'', ''submitting'', ''running'', ''validating'',
       ''saved'', ''refused'', ''failed'', ''incomplete'', ''cancel_requested'', ''cancelled'', ''timeout'',
       ''submission_unknown''])" by (cases state) (simp_all add: research_state_value.simps)
    ultimately show ?thesis
      using k set_update_subset_insert [of "request_identity_checks ?c" 7 "Some True"]
      by (auto simp: request_checks_ok_def list_all_iff)
  qed
  have lim: "request_limit_checks ?f = request_limit_checks ?c"
    by (simp add: request_limit_checks_def finished_row_def Let_def)
  have vals: "research_cleanup_value x \<in> set (map lit [''not_required'', ''pending'', ''deleted'', ''failed'', ''unknown''])"
      "research_accounting_value y \<in> set (map lit [''reserved'', ''reconciled'', ''unknown''])" for x y
    by (cases x; simp add: research_cleanup_value.simps) (cases y; simp add: research_accounting_value.simps)
  have code_ok: "check_passes (sql_or (sql_is_null (map_option research_code_value e))
      (sql_test (kronika_bytes 1 64) (map_option research_code_value e)))" for e
    using code_bytes by (cases e) simp_all
  have "list_all check_passes (request_progress_checks ?c)" using k by (simp add: request_checks_ok_def)
  moreover have old: "rt_remote_handle_json ?f = rt_remote_handle_json ?c" "rt_checkpoint_json ?f = rt_checkpoint_json ?c"
      "rt_checkpoint_sha256 ?f = rt_checkpoint_sha256 ?c" "rt_cancel_requested_at_ms ?f = rt_cancel_requested_at_ms ?c"
      "rt_cancellation_confirmed_at_ms ?f = rt_cancellation_confirmed_at_ms ?c" "rt_created_at_ms ?f = rt_created_at_ms ?c"
      "rt_admitted_at_ms ?f = rt_admitted_at_ms ?c" "rt_submitted_at_ms ?f = rt_submitted_at_ms ?c"
    by (simp_all add: finished_row_def Let_def)
  moreover have "rt_finished_at_ms ?f = Some t" "rt_updated_at_ms ?f = t"
      "rt_error_code ?f = map_option research_code_value code"
      "rt_accounting_state ?f = research_accounting_value a" "\<exists>x. rt_cleanup_state ?f = research_cleanup_value x"
    by (simp_all add: finished_row_def Let_def)
  ultimately have prog: "list_all check_passes (request_progress_checks ?f)"
    unfolding request_progress_checks_def old same(4) using vals code_ok [of code] t by auto
  have "request_admissible db ?f"
  proof -
    have "request_checks_ok ?f" using ids lim prog k by (simp add: request_checks_ok_def)
    moreover have "request_fk_ok db ?f"
      using db_okD(4) [OF storedD(2) [OF st] m] same(4) by (simp add: request_fk_ok_def)
    moreover have "list_all (\<lambda>d. rt_operation_id d = rt_operation_id ?f \<or> \<not> request_rows_clash ?f d) (rd_requests db)"
      using keyed_rows_okD(3) [OF db_okD(1) [OF storedD(2) [OF st], unfolded requests_ok_def] m] same
      by (auto simp: list_all_iff request_rows_clash_def)
    ultimately show ?thesis by (simp add: request_admissible_def)
  qed
  moreover have "list_all encodable (mutable_texts ?f)"
    using db_okD(5) [OF storedD(2) [OF st] m] same by (simp add: mutable_texts_def row_texts_def list_all_iff finished_row_def Let_def)
  ultimately show ?thesis by (simp add: saves_def)
qed

section \<open>Settling with unknown usage\<close>

text \<open>A hold settled without known usage consumes what it reserved.\<close>

lemma unknown_consumption:
  assumes ok: "holds_ok db" and s: "reconcile_hold b now db = Inr (h, db')" and b: "bc_state b = RA_UNKNOWN"
    and c: "\<And>h x y z. column (h\<lparr>hd_accounted_usd_micros := x, hd_state := y, hd_reconciled_at_ms := z\<rparr>) = column h"
  shows "consumed_where column key db' = consumed_where column key db"
proof (cases "find (\<lambda>h. hd_operation_id h = bc_operation_id b) (rd_holds db)")
  case None
  then show ?thesis using s by (simp add: reconcile_hold_def)
next
  case (Some h0)
  show ?thesis
  proof (cases "hd_state h0 = research_accounting_value RA_RESERVED")
    case False
    then show ?thesis using s Some by (auto simp: reconcile_hold_def and_then_Inr Let_def)
  next
    case True
    let ?p = "\<lambda>h. hd_operation_id h = bc_operation_id b"
    let ?f = "\<lambda>h. h\<lparr>hd_accounted_usd_micros := Some (hd_reserved_usd_micros h0),
        hd_state := research_accounting_value RA_UNKNOWN, hd_reconciled_at_ms := Some now\<rparr>"
    obtain holds n where u: "sql_update hold_row_ok ?p ?f (rd_holds db) = Some (holds, n)"
      and d: "db' = db\<lparr>rd_holds := holds\<rparr>"
      using s Some True b by (auto simp: reconcile_hold_def and_then_Inr Let_def split: option.splits)
    have holds: "holds = map (\<lambda>h. if ?p h then ?f h else h) (rd_holds db)"
      using holds_update(3) [OF u] ok by (simp add: holds_ok_def)
    have same: "hold_consumption (if ?p h then ?f h else h) = hold_consumption h" if "h \<in> set (rd_holds db)" for h
    proof (cases "?p h")
      case p: True
      then have "h = h0"
        using find_key_Some_iff [of hd_operation_id "rd_holds db" "bc_operation_id b" h] Some that ok
        by (simp add: holds_ok_def)
      then show ?thesis using True p by (simp add: hold_consumption_def)
    qed simp
    have col: "column (if ?p h then ?f h else h) = column h" for h by (simp add: c)
    have gen: "sum_list (map hold_consumption (filter (\<lambda>h. column h = key) (map g hs)))
        = sum_list (map hold_consumption (filter (\<lambda>h. column h = key) hs))"
      if "\<And>h. h \<in> set hs \<Longrightarrow> hold_consumption (g h) = hold_consumption h" "\<And>h. column (g h) = column h"
      for g and hs :: "hold_row list"
      using that by (induction hs) simp_all
    show ?thesis unfolding consumed_where_def d holds using gen [OF same col] by simp
  qed
qed

text \<open>What finishing with unknown usage keeps: the other requests, and the budget that is consumed.\<close>

definition kept :: "(pystr \<Rightarrow> research_row option) \<Rightarrow> pystr option \<Rightarrow> research_db \<Rightarrow> research_db \<Rightarrow> bool" where
  "kept requests held db db' \<longleftrightarrow> db_ok db' \<and> request_map db' = requests \<and> held_operation db' = held
     \<and> (\<forall>k. consumed_where hd_day_key k db' = consumed_where hd_day_key k db)
     \<and> (\<forall>k. consumed_where hd_month_key k db' = consumed_where hd_month_key k db)"

lemma reconcile_unknown_keeps:
  "triple (kept requests held db0) (reconcile env row RA_UNKNOWN None None) (\<lambda>_. kept requests held db0)"
proof -
  let ?b = "\<lparr>bc_operation_id = row_id row, bc_usage = None, bc_calculated_cost_usd_micros = None, bc_state = RA_UNKNOWN\<rparr>"
  have t: "triple (kept requests held db0) (tx (ledger_reconcile now ?b)) (\<lambda>_. kept requests held db0)" for now
  proof (rule triple_tx)
    fix db x db' assume k: "kept requests held db0 db" and x: "ledger_reconcile now ?b db = (x, db')"
    show "kept requests held db0 db'"
    proof (cases "reconcile_hold ?b now db")
      case (Inl e)
      then show ?thesis using k x by (simp add: ledger_reconcile_def run_in_immediate_transaction_def)
    next
      case (Inr p)
      then obtain h where s: "reconcile_hold ?b now db = Inr (h, db')"
        using x by (cases p) (simp add: ledger_reconcile_def run_in_immediate_transaction_def)
      have ok: "db_ok db" using k by (simp add: kept_def)
      note o = settle_ok [OF ok s]
      have "consumed_where hd_day_key j db' = consumed_where hd_day_key j db"
          "consumed_where hd_month_key j db' = consumed_where hd_month_key j db" for j
        by (rule unknown_consumption [OF db_okD(3) [OF ok] s]; simp)+
      then show ?thesis using k o by (simp add: kept_def)
    qed
  qed
  show ?thesis
    unfolding reconcile_def Let_def
    by (rule triple_lift_bind) (auto intro!: triple_clock_bind triple_bindE [OF t])
qed

text \<open>Programs that ask the provider nothing.\<close>

definition silent :: "(research_world, 'a) prog \<Rightarrow> bool" where
  "silent p \<longleftrightarrow> (\<forall>w. wd_calls (snd (run p w)) = wd_calls w)"

lemma silent_simps [simp]: "silent (ret a)" "silent (raise e)" "silent (lift r)" "silent (tick f)" "silent (clock_ms env)"
  by (simp_all add: silent_def clock_ms_def tick_def)

lemma silent_tx [simp]: "silent (tx f)"
  by (simp add: silent_def tx_def split: prod.split)

lemma silent_bindE: "silent m \<Longrightarrow> (\<And>a. silent (k a)) \<Longrightarrow> silent (bindE m k)"
  unfolding silent_def run_bindE by (metis (no_types, lifting) prod.collapse case_prod_conv snd_conv sum.case_eq_if)

lemma silentD: "silent p \<Longrightarrow> run p w = (x, w') \<Longrightarrow> wd_calls w' = wd_calls w"
  unfolding silent_def by (metis snd_conv)

lemma silent_reconcile: "silent (reconcile env row a u c)"
  unfolding reconcile_def Let_def by (intro silent_bindE) simp_all

lemma silent_finish: "silent (finish env row state code a u c)"
  unfolding finish_def by (intro silent_bindE silent_reconcile) simp_all

lemma tripleD: "triple P p Q \<Longrightarrow> P (wd_db w) \<Longrightarrow> run p w = (x, w') \<Longrightarrow> Q x (wd_db w')"
  unfolding triple_def by fastforce

lemma finish_unknown_effect:
  assumes st: "stored row (wd_db w)" and n: "\<not> is_terminal_lifecycle (row_state row)"
    and t: "rw_admitted_at_ms row \<le> en_clock env (wd_ticks w)" and e: "is_terminal_lifecycle state"
    and r: "run (finish_unknown env row state code) w = (x, w')"
  shows "kept ((request_map (wd_db w))(row_id row \<mapsto> finished_row row state (Some code) RA_UNKNOWN True (en_clock env (wd_ticks w))))
      None (wd_db w) (wd_db w')" and "wd_calls w' = wd_calls w"
proof -
  let ?f = "finished_row row state (Some code) RA_UNKNOWN True (en_clock env (wd_ticks w))"
  have i: "row_id ?f = row_id row" and s: "same_request row ?f" and sf: "row_state ?f = state"
    by (simp_all add: finished_row_def Let_def same_request_def merge_row_def)
  have v: "research_row_valid ?f"
    using storedD(4) [OF st] by (simp add: research_row_valid_def finished_row_def Let_def limits_agree_def research_request_post_init_def)
  have m: "request_map (wd_db w) (row_id ?f) = Some row" using storedD(3) [OF st] i by simp
  note step = save_step [OF storedD(2) [OF st] m s v]
  have sv: "saves (wd_db w) ?f" by (rule finished_saves [OF st t])
  let ?d = "finished_slot ?f (put_request ?f (wd_db w))"
  have k: "kept ((request_map (wd_db w))(row_id row \<mapsto> ?f)) None (wd_db w) ?d"
    using step(2) [OF sv] step(3) i sf e storedD(5) [OF st] n
    by (simp add: kept_def held_finished consumed_where_def)
  let ?w1 = "w\<lparr>wd_ticks := Suc (wd_ticks w), wd_db := ?d\<rparr>"
  obtain y w2 where y: "run (reconcile env ?f RA_UNKNOWN None None) ?w1 = (y, w2)"
    by (cases "run (reconcile env ?f RA_UNKNOWN None None) ?w1")
  have c: "run (clock_ms env) w = (Inr (en_clock env (wd_ticks w)), w\<lparr>wd_ticks := Suc (wd_ticks w)\<rparr>)"
    by (simp add: clock_ms_def tick_def)
  have sv': "run (tx (repository_save ?f)) (w\<lparr>wd_ticks := Suc (wd_ticks w)\<rparr>) = (Inr ?f, ?w1)"
    using step(1) sv by (simp add: tx_def)
  have w2: "w' = w2"
    using r unfolding finish_def run_bindE c prod.case sum.case sv' y by (cases y) simp_all
  show "kept ((request_map (wd_db w))(row_id row \<mapsto> ?f)) None (wd_db w) (wd_db w')"
    unfolding w2 by (rule tripleD [OF reconcile_unknown_keeps _ y]) (simp add: k)
  show "wd_calls w' = wd_calls w" by (rule silentD [OF silent_finish r])
qed

section \<open>The active request\<close>

lemma active_run:
  assumes st: "stored row (wd_db w)" and n: "\<not> is_terminal_lifecycle (row_state row)"
  shows "run active_request w = (Inr (Some row), w)"
proof -
  have h: "held_operation (wd_db w) = Some (row_id row)" using storedD(5) [OF st] n by simp
  have e: "encodable (row_id row)" using storedD(3) [OF st] by (intro encodable_id [OF storedD(2) [OF st]]) simp
  show ?thesis
    using get_request_eval [OF storedD(2) [OF st] e] storedD(3) [OF st] h
    by (simp add: active_request_def tx_def active_slot_operation_id_def run_in_transaction_def)
qed

lemma no_active_run: "held_operation (wd_db w) = None \<Longrightarrow> run active_request w = (Inr None, w)"
  by (simp add: active_request_def tx_def active_slot_operation_id_def run_in_transaction_def)

lemma poll_expired:
  assumes st: "stored row (wd_db w)" and s: "row_state row \<in> {R_RUNNING, R_CANCEL_REQUESTED}"
    and h: "row_handle row = Some handle"
    and t: "en_clock env (wd_ticks w) - rw_admitted_at_ms row \<ge> rq_deadline_seconds (rw_record row) * 1000"
    and t': "rw_admitted_at_ms row \<le> en_clock env (Suc (wd_ticks w))"
    and r: "run (poll_once env) w = (x, w')"
  shows "kept ((request_map (wd_db w))(row_id row \<mapsto> finished_row row R_TIMEOUT (Some E_TIMEOUT) RA_UNKNOWN True
      (en_clock env (Suc (wd_ticks w))))) None (wd_db w) (wd_db w')"
    and "wd_calls w' = wd_calls w @ [PCancel handle]"
proof -
  have n: "\<not> is_terminal_lifecycle (row_state row)" using s by auto
  let ?w1 = "w\<lparr>wd_ticks := Suc (wd_ticks w), wd_calls := wd_calls w @ [PCancel handle]\<rparr>"
  obtain y w2 where f: "run (finish_unknown env row R_TIMEOUT E_TIMEOUT) ?w1 = (y, w2)"
    by (cases "run (finish_unknown env row R_TIMEOUT E_TIMEOUT) ?w1")
  have c: "run (clock_ms env) w = (Inr (en_clock env (wd_ticks w)), w\<lparr>wd_ticks := Suc (wd_ticks w)\<rparr>)"
    by (simp add: clock_ms_def tick_def)
  have p: "run (poll_remote env row handle) w = (y, w2)"
    unfolding poll_remote_def run_bindE c prod.case sum.case if_P [OF t] run_catch provider_call_prog_def run_atomic Let_def
    using f by (cases "en_observe env (wd_calls w @ [PCancel handle])") simp_all
  have "w' = w2"
    using r s h unfolding poll_once_def run_bindE active_run [OF st n] prod.case sum.case option.case
    by (cases y) (auto simp: p)
  then show "kept ((request_map (wd_db w))(row_id row \<mapsto> finished_row row R_TIMEOUT (Some E_TIMEOUT) RA_UNKNOWN True
      (en_clock env (Suc (wd_ticks w))))) None (wd_db w) (wd_db w')" "wd_calls w' = wd_calls w @ [PCancel handle]"
    using finish_unknown_effect [of row ?w1 env R_TIMEOUT E_TIMEOUT y w2] st n t' f by simp_all
qed

lemma recover_submitting:
  assumes st: "stored row (wd_db w)" and s: "row_state row = R_SUBMITTING"
    and t: "rw_admitted_at_ms row \<le> en_clock env (wd_ticks w)" and r: "run (recover env) w = (x, w')"
  shows "kept ((request_map (wd_db w))(row_id row \<mapsto> finished_row row R_SUBMISSION_UNKNOWN (Some E_SUBMISSION_UNKNOWN)
      RA_UNKNOWN True (en_clock env (wd_ticks w)))) None (wd_db w) (wd_db w')"
    and "wd_calls w' = wd_calls w"
proof -
  have n: "\<not> is_terminal_lifecycle (row_state row)" using s by simp
  obtain y w2 where f: "run (finish_unknown env row R_SUBMISSION_UNKNOWN E_SUBMISSION_UNKNOWN) w = (y, w2)"
    by (cases "run (finish_unknown env row R_SUBMISSION_UNKNOWN E_SUBMISSION_UNKNOWN) w")
  have "w' = w2"
    using r s unfolding recover_def run_bindE active_run [OF st n] prod.case sum.case option.case
    by (cases y) (auto simp: f)
  then show "kept ((request_map (wd_db w))(row_id row \<mapsto> finished_row row R_SUBMISSION_UNKNOWN (Some E_SUBMISSION_UNKNOWN)
      RA_UNKNOWN True (en_clock env (wd_ticks w)))) None (wd_db w) (wd_db w')" "wd_calls w' = wd_calls w"
    using finish_unknown_effect [OF st n t _ f] by simp_all
qed

section \<open>Requests no operation moves\<close>

text \<open>
  A request whose cancellation was asked for before a handle was known: \<open>submit_pending\<close> wants
  \<open>ADMITTED\<close>, \<open>recover\<close> wants \<open>SUBMITTING\<close>, \<open>poll_once\<close> and the remote part of \<open>cancel\<close> want a
  handle.
\<close>

definition cancelled_early :: "research_row \<Rightarrow> bool" where
  "cancelled_early row \<longleftrightarrow> row_state row = R_CANCEL_REQUESTED \<and> row_handle row = None
     \<and> rw_cancel_requested_at_ms row \<noteq> None"

lemma cancelled_early_stays:
  assumes st: "stored row (wd_db w)" and c: "cancelled_early row"
  shows "wd_db (snd (run (submit_pending env) w)) = wd_db w"
    and "wd_db (snd (run (recover env) w)) = wd_db w"
    and "wd_db (snd (run (poll_once env) w)) = wd_db w"
    and "wd_db (snd (run (cancel env (row_id row)) w)) = wd_db w"
proof -
  have s: "row_state row = R_CANCEL_REQUESTED" and h: "row_handle row = None" and k: "rw_cancel_requested_at_ms row \<noteq> None"
    using c by (simp_all add: cancelled_early_def)
  have n: "\<not> is_terminal_lifecycle (row_state row)" using s by simp
  have a: "run active_request w' = (Inr (Some row), w')" if "wd_db w' = wd_db w" for w'
    using active_run [of row w'] st n that by simp
  show "wd_db (snd (run (recover env) w)) = wd_db w" "wd_db (snd (run (poll_once env) w)) = wd_db w"
    by (simp_all add: recover_def poll_once_def a s h)
  show "wd_db (snd (run (submit_pending env) w)) = wd_db w"
  proof -
    obtain b w1 where e: "run (submission_enabled env) w = (Inr b, w1)" "wd_db w1 = wd_db w"
      by (cases "en_submission_enabled env") (simp_all add: submission_enabled_def tick_def)
    then show ?thesis by (simp add: submit_pending_def a [OF e(2)] s)
  qed
  have e: "encodable (row_id row)" using storedD(3) [OF st] by (intro encodable_id [OF storedD(2) [OF st]]) simp
  obtain y where "rw_cancel_requested_at_ms row = Some y" using k by blast
  then show "wd_db (snd (run (cancel env (row_id row)) w)) = wd_db w"
    using get_request_eval [OF storedD(2) [OF st] e] storedD(3) [OF st]
    by (simp add: cancel_def tx_def n clock_ms_def tick_def cancel_remote_def h)
qed

section \<open>Admission\<close>

text \<open>The request of a client, as the stored row.\<close>

definition client_row :: "research_db \<Rightarrow> pystr \<Rightarrow> pystr \<Rightarrow> research_row option" where
  "client_row db owner client = (case select_client owner client db of
     None \<Rightarrow> None | Some c \<Rightarrow> request_map db (rt_operation_id c))"

lemma client_row_facts:
  assumes ok: "db_ok db"
  shows "select_client owner client db = map_option columns_of (client_row db owner client)"
    and "client_row db owner client = Some r \<Longrightarrow> request_map db (row_id r) = Some r
      \<and> rw_owner_login_key r = owner \<and> rw_client_request_id r = client"
proof -
  have f: "\<exists>r. columns_of r = c \<and> request_map db (rt_operation_id c) = Some r \<and> row_id r = rt_operation_id c
      \<and> rw_owner_login_key r = owner \<and> rw_client_request_id r = client"
    if "select_client owner client db = Some c" for c
  proof -
    have c: "c \<in> set (rd_requests db)" "rt_owner_login_key c = owner" "rt_client_request_id c = client"
      using that by (auto simp: select_client_def find_Some_iff)
    then obtain r where "columns_of r = c" "request_map db (rt_operation_id c) = Some r"
      using row_in_map [OF db_okD(1) [OF ok] c(1)] by metis
    then show ?thesis using c(2,3) by (intro exI [of _ r]) auto
  qed
  show "select_client owner client db = map_option columns_of (client_row db owner client)"
  proof (cases "select_client owner client db")
    case (Some c)
    then obtain r where "columns_of r = c" "request_map db (rt_operation_id c) = Some r" using f by blast
    then show ?thesis using Some by (simp add: client_row_def)
  qed (simp add: client_row_def)
  show "client_row db owner client = Some r \<Longrightarrow> request_map db (row_id r) = Some r
      \<and> rw_owner_login_key r = owner \<and> rw_client_request_id r = client"
    using f by (auto simp: client_row_def split: option.splits)
qed

lemma find_by_client_eval:
  assumes ok: "db_ok db"
  shows "find_by_client owner client db =
    (if encodable owner \<and> encodable client then Inr (client_row db owner client) else Inl UnicodeEncodeError, db)"
proof (cases "client_row db owner client")
  case None
  then show ?thesis
    using client_row_facts(1) [OF ok, of owner client]
    by (simp add: find_by_client_def run_in_transaction_def bind_texts_def read_row_def)
next
  case (Some r)
  have "research_row_valid r"
    using client_row_facts(2) [OF ok Some] select_request_map(2) [OF db_okD(1) [OF ok]] by blast
  then show ?thesis
    using client_row_facts(1) [OF ok, of owner client] Some
    by (simp add: find_by_client_def run_in_transaction_def bind_texts_def read_row_def row_read_back)
qed

text \<open>What an admission adds to the tables.\<close>

definition admitted_to :: "research_row \<Rightarrow> budget_reservation \<Rightarrow> research_db \<Rightarrow> research_db \<Rightarrow> bool" where
  "admitted_to row b db db' \<longleftrightarrow> held_operation db = None
     \<and> client_row db (rw_owner_login_key row) (rw_client_request_id row) = None \<and> row_id row \<notin> set (request_ids db)
     \<and> rd_requests db' = rd_requests db @ [columns_of row] \<and> held_operation db' = Some (row_id row)
     \<and> rd_documents db' = rd_documents db \<and> rd_records db' = rd_records db
     \<and> (\<exists>h. rd_holds db' = rd_holds db @ [h] \<and> hd_operation_id h = row_id row
          \<and> hold_consumption h = br_reserved_usd_micros b
          \<and> consumed_where hd_day_key (hd_day_key h) db' \<le> br_daily_limit_usd_micros b
          \<and> consumed_where hd_month_key (hd_month_key h) db' \<le> br_monthly_limit_usd_micros b)"

lemma reserve_appends:
  assumes r: "reserve_hold b now db = Inr (h, db')"
  shows "\<exists>h. db' = db\<lparr>rd_holds := rd_holds db @ [h]\<rparr> \<and> hd_operation_id h = br_operation_id b
    \<and> hold_consumption h = br_reserved_usd_micros b
    \<and> consumed_where hd_day_key (hd_day_key h) db' \<le> br_daily_limit_usd_micros b
    \<and> consumed_where hd_month_key (hd_month_key h) db' \<le> br_monthly_limit_usd_micros b"
proof -
  obtain d m where k: "consumed_where hd_day_key d db + br_reserved_usd_micros b \<le> br_daily_limit_usd_micros b"
      "consumed_where hd_month_key m db + br_reserved_usd_micros b \<le> br_monthly_limit_usd_micros b"
    and i: "insert_hold \<lparr>hd_operation_id = br_operation_id b, hd_day_key = d, hd_month_key = m,
          hd_reserved_usd_micros = br_reserved_usd_micros b, hd_accounted_usd_micros = None,
          hd_state = research_accounting_value RA_RESERVED, hd_created_at_ms = now,
          hd_reconciled_at_ms = None\<rparr> db = Inr db'"
    using hold_reserve_effect [OF r] by metis
  let ?h = "\<lparr>hd_operation_id = br_operation_id b, hd_day_key = d, hd_month_key = m,
          hd_reserved_usd_micros = br_reserved_usd_micros b, hd_accounted_usd_micros = None,
          hd_state = research_accounting_value RA_RESERVED, hd_created_at_ms = now, hd_reconciled_at_ms = None\<rparr>"
  have d: "db' = db\<lparr>rd_holds := rd_holds db @ [?h]\<rparr>" using i by (auto simp: insert_hold_def split: if_splits)
  show ?thesis
    using k by (intro exI [of _ ?h]) (simp add: d hold_consumption_def consumed_where_def)
qed

lemma repository_admit_outcome:
  assumes f: "flight_ok db" and new: "client_row db (rw_owner_login_key row) (rw_client_request_id row) = None"
    and x: "repository_admit row b db = (x, db')"
  shows "(\<exists>e. x = Inl e \<and> db' = db) \<or> x = Inr row \<and> admitted_to row b db db'"
    and "held_operation db \<noteq> None \<Longrightarrow> br_operation_id b = row_id row \<Longrightarrow>
      br_reserved_usd_micros b = sp_budget_reservation_usd_micros (rq_profile (rw_record row)) \<Longrightarrow>
      encodable (rw_owner_login_key row) \<Longrightarrow> encodable (rw_client_request_id row) \<Longrightarrow>
      x = Inl (ResearchStoreError E_BUSY)"
proof -
  note ok = flight_okD(1) [OF f]
  have sel: "select_client (rw_owner_login_key row) (rw_client_request_id row) db = None"
    using client_row_facts(1) [OF ok] new by simp
  have s: "y = row \<and> admitted_to row b db d" if a: "admit_operation row b db = Inr (y, d)" and i: "br_operation_id b = row_id row" for y d
  proof -
    obtain c d1 hd d2 where y: "y = row" and c: "row_to_values row = Inr c" "insert_request c (ensure_slot db) = Inr d1"
      and r: "reserve_hold b (rw_admitted_at_ms row) d1 = Inr (hd, d2)" and l: "held_operation db = None"
      and t: "set_slot \<lparr>sl_operation_id = Some (row_id row), sl_held_since_ms = Some (rw_admitted_at_ms row)\<rparr> d2 = Inr d"
      using a sel by (auto simp: admit_operation_def and_then_Inr Let_def split: if_splits prod.splits)
    have cc: "c = columns_of row" and id: "row_id row = rt_operation_id c"
      using c(1) by (auto simp: row_to_values_def and_then_Inr utf8_length_def split: if_splits)
    note p = admit_parts [OF db_okD(2,3) [OF ok] c(2) r i [unfolded id] t [unfolded id]]
    have fresh: "row_id row \<notin> set (request_ids db)" and d1: "rd_holds d1 = rd_holds db"
      using c(2) by (auto simp: insert_request_def and_then_Inr request_ids_def id split: if_splits)
    have "rd_holds d = rd_holds d2" using set_slot_effect [OF t] by auto
    then have "\<exists>h. rd_holds d = rd_holds db @ [h] \<and> hd_operation_id h = row_id row
          \<and> hold_consumption h = br_reserved_usd_micros b
          \<and> consumed_where hd_day_key (hd_day_key h) d \<le> br_daily_limit_usd_micros b
          \<and> consumed_where hd_month_key (hd_month_key h) d \<le> br_monthly_limit_usd_micros b"
      using reserve_appends [OF r] i d1 by (auto simp: consumed_where_def)
    then show ?thesis using p fresh l new y by (simp add: admitted_to_def cc)
  qed
  show "(\<exists>e. x = Inl e \<and> db' = db) \<or> x = Inr row \<and> admitted_to row b db db'"
  proof (cases "br_operation_id b \<noteq> row_id row
      \<or> br_reserved_usd_micros b \<noteq> sp_budget_reservation_usd_micros (rq_profile (rw_record row))")
    case True
    then show ?thesis using x by (auto simp: repository_admit_def)
  next
    case False
    then have t: "run_in_immediate_transaction (admit_operation row b) db = (x, db')" and i: "br_operation_id b = row_id row"
      using x by (simp_all add: repository_admit_def)
    show ?thesis
    proof (cases "admit_operation row b db")
      case (Inl e)
      then show ?thesis using t by (auto simp: run_in_immediate_transaction_def)
    next
      case (Inr p)
      obtain y d where "p = (y, d)" by (cases p)
      then show ?thesis using t Inr s [of y d] i by (simp add: run_in_immediate_transaction_def)
    qed
  qed
  assume "held_operation db \<noteq> None" "br_operation_id b = row_id row"
      "br_reserved_usd_micros b = sp_budget_reservation_usd_micros (rq_profile (rw_record row))"
      "encodable (rw_owner_login_key row)" "encodable (rw_client_request_id row)"
  then show "x = Inl (ResearchStoreError E_BUSY)"
    using x by (simp add: repository_admit_def run_in_immediate_transaction_def admit_operation_def bind_texts_def sel Let_def)
qed

text \<open>A request as its client asked for it.\<close>

definition asked_for :: "research_row \<Rightarrow> pystr \<Rightarrow> pystr \<Rightarrow> research_kind \<Rightarrow> pystr \<Rightarrow> bool" where
  "asked_for row owner client kind prompt \<longleftrightarrow> rw_owner_login_key row = owner \<and> rw_client_request_id row = client
     \<and> rq_kind (rw_record row) = kind \<and> rq_prompt (rw_record row) = prompt"

definition admission_result :: "pystr \<Rightarrow> pystr \<Rightarrow> research_kind \<Rightarrow> pystr \<Rightarrow> research_db
    \<Rightarrow> research_exn + admission_receipt \<Rightarrow> research_db \<Rightarrow> bool" where
  "admission_result owner client kind prompt db x db' \<longleftrightarrow>
     (case x of
        Inl e \<Rightarrow> db' = db
      | Inr receipt \<Rightarrow> asked_for (ar_row receipt) owner client kind prompt
          \<and> (if ar_newly_admitted receipt
             then (\<exists>b. admitted_to (ar_row receipt) b db db' \<and> budget_reservation_post_init b = Inr ())
               \<and> row_state (ar_row receipt) = R_ADMITTED
             else db' = db \<and> client_row db owner client = Some (ar_row receipt)))"

lemma admit_new_result:
  assumes f: "flight_ok db0" and new: "client_row db0 owner client = None"
  shows "triple (\<lambda>db. db = db0) (admit_new env owner client kind prompt consent) (admission_result owner client kind prompt db0)"
proof -
  have err: "admission_result owner client kind prompt db0 (Inl e) db0" for e by (simp add: admission_result_def)
  have s: "triple (\<lambda>db. db = db0) (store_admission env snap now owner client kind prompt fp i) (admission_result owner client kind prompt db0)"
    for snap now fp i
  proof -
    let ?q = "admitted_request snap i kind prompt"
    let ?r = "admitted_row ?q owner client fp now"
    let ?b = "admission_reservation ?q kind snap"
    have o: "rw_owner_login_key ?r = owner" "rw_client_request_id ?r = client" "row_id ?r = i"
        "rw_request_fingerprint ?r = fp" "row_state ?r = R_ADMITTED" "asked_for ?r owner client kind prompt"
      by (simp_all add: admitted_row_def admitted_request_def asked_for_def)
    have t: "triple (\<lambda>db. db = db0) (tx (repository_admit ?r ?b))
        (\<lambda>x db. (\<exists>e. x = Inl e \<and> db = db0) \<or> x = Inr ?r \<and> admitted_to ?r ?b db0 db)"
      by (rule triple_tx) (use repository_admit_outcome(1) [OF f] new o in metis)
    have k: "triple (\<lambda>db. db = db0) (bindE (tx (repository_admit ?r ?b)) (\<lambda>stored. ret \<lparr>ar_row = stored,
        ar_newly_admitted = (row_id stored = i \<and> rw_request_fingerprint stored = fp)\<rparr>)) (admission_result owner client kind prompt db0)"
      if b: "budget_reservation_post_init ?b = Inr ()"
    proof (rule triple_bindE [OF t])
      fix stored
      show "triple (\<lambda>db. (\<exists>e. Inr stored = Inl e \<and> db = db0) \<or> Inr stored = (Inr ?r :: research_exn + research_row) \<and> admitted_to ?r ?b db0 db)
        (ret \<lparr>ar_row = stored, ar_newly_admitted = (row_id stored = i \<and> rw_request_fingerprint stored = fp)\<rparr>)
        (admission_result owner client kind prompt db0)"
        using o b by (auto simp: admission_result_def)
    qed (auto simp: err)
    show ?thesis
      unfolding store_admission_def Let_def
      by (rule triple_lift_bind, rule triple_lift_bind) (auto simp: err k)
  qed
  have b: "triple (\<lambda>db. db = db0) (admission_blocker env) (\<lambda>_ db. db = db0)"
    unfolding admission_blocker_def by (auto intro: triple_read simp: run_in_transaction_def)
  show ?thesis
    unfolding admit_new_def
    by (rule triple_bindE [OF b])
      (auto intro!: triple_tick_bind triple_clock_bind triple_lift_bind s simp: err split: option.splits sum.splits)
qed

lemma admit_result:
  assumes f: "flight_ok db0"
  shows "triple (\<lambda>db. db = db0) (admit env owner client kind prompt consent) (admission_result owner client kind prompt db0)"
proof -
  have err: "admission_result owner client kind prompt db0 (Inl e) db0" for e by (simp add: admission_result_def)
  have t: "triple (\<lambda>db. db = db0) (tx (find_by_client owner client))
      (\<lambda>x db. db = db0 \<and> (\<forall>r. x = Inr r \<longrightarrow> r = client_row db0 owner client))"
    by (rule triple_tx) (auto simp: find_by_client_eval [OF flight_okD(1) [OF f]] split: if_splits)
  have r: "triple (\<lambda>db. db = db0) (bindE (lift (replay_matches env row owner kind prompt consent)) (\<lambda>same.
      if same then ret \<lparr>ar_row = row, ar_newly_admitted = False\<rparr>
      else raise (ResearchStoreError E_IDEMPOTENCY_CONFLICT))) (admission_result owner client kind prompt db0)"
    if row: "client_row db0 owner client = Some row" for row
  proof (rule triple_lift_bind)
    fix same assume m: "replay_matches env row owner kind prompt consent = Inr same"
    have c: "rw_client_request_id row = client" using client_row_facts(2) [OF flight_okD(1) [OF f] row] by simp
    have "same \<Longrightarrow> asked_for row owner client kind prompt"
      using m c by (auto simp: replay_matches_def asked_for_def and_then_Inr split: if_splits)
    then show "triple (\<lambda>db. db = db0) (if same then ret \<lparr>ar_row = row, ar_newly_admitted = False\<rparr>
      else raise (ResearchStoreError E_IDEMPOTENCY_CONFLICT)) (admission_result owner client kind prompt db0)"
      using row by (auto simp: admission_result_def)
  qed (simp add: err)
  show ?thesis
    unfolding admit_def
  proof (cases "strip prompt = [] \<or> owner = [] \<or> client = []")
    case True
    then show "triple (\<lambda>db. db = db0) (if strip prompt = [] \<or> owner = [] \<or> client = [] then raise (ResearchStoreError E_INVALID_REQUEST)
      else bindE (tx (find_by_client owner client)) (\<lambda>existing. case existing of
          Some row \<Rightarrow> bindE (lift (replay_matches env row owner kind prompt consent)) (\<lambda>same.
            if same then ret \<lparr>ar_row = row, ar_newly_admitted = False\<rparr> else raise (ResearchStoreError E_IDEMPOTENCY_CONFLICT))
        | None \<Rightarrow> admit_new env owner client kind prompt consent)) (admission_result owner client kind prompt db0)"
      by (simp add: err)
  next
    case False
    have k: "triple (\<lambda>db. db = db0 \<and> (\<forall>r. Inr existing = Inr r \<longrightarrow> r = client_row db0 owner client)) (case existing of
          Some row \<Rightarrow> bindE (lift (replay_matches env row owner kind prompt consent)) (\<lambda>same.
            if same then ret \<lparr>ar_row = row, ar_newly_admitted = False\<rparr> else raise (ResearchStoreError E_IDEMPOTENCY_CONFLICT))
        | None \<Rightarrow> admit_new env owner client kind prompt consent) (admission_result owner client kind prompt db0)" for existing
    proof (cases "existing = client_row db0 owner client")
      case True
      then show ?thesis using r admit_new_result [OF f] by (cases "client_row db0 owner client") simp_all
    qed (simp add: triple_def)
    have "triple (\<lambda>db. db = db0) (bindE (tx (find_by_client owner client)) (\<lambda>existing. case existing of
          Some row \<Rightarrow> bindE (lift (replay_matches env row owner kind prompt consent)) (\<lambda>same.
            if same then ret \<lparr>ar_row = row, ar_newly_admitted = False\<rparr> else raise (ResearchStoreError E_IDEMPOTENCY_CONFLICT))
        | None \<Rightarrow> admit_new env owner client kind prompt consent)) (admission_result owner client kind prompt db0)"
      by (rule triple_bindE [OF t k]) (simp add: err)
    then show "triple (\<lambda>db. db = db0) (if strip prompt = [] \<or> owner = [] \<or> client = [] then raise (ResearchStoreError E_INVALID_REQUEST)
      else bindE (tx (find_by_client owner client)) (\<lambda>existing. case existing of
          Some row \<Rightarrow> bindE (lift (replay_matches env row owner kind prompt consent)) (\<lambda>same.
            if same then ret \<lparr>ar_row = row, ar_newly_admitted = False\<rparr> else raise (ResearchStoreError E_IDEMPOTENCY_CONFLICT))
        | None \<Rightarrow> admit_new env owner client kind prompt consent)) (admission_result owner client kind prompt db0)"
      unfolding if_not_P [OF False] .
  qed
qed

end
