(* ===== verification/Research_Submission.thy ===== *)
theory Research_Submission
  imports Research_Steps
begin

text \<open>
  Threads that run coordinator operations interleaved: the provider is asked at most once to
  create an operation.  The claim of \<open>ADMITTED\<close> is the only way to a submission, and no other
  transaction makes a request \<open>ADMITTED\<close> again.
\<close>

section \<open>Operations that may still be claimed\<close>

text \<open>An operation that may still be claimed: it is \<open>ADMITTED\<close>, or does not exist yet.\<close>

definition claimable :: "research_db \<Rightarrow> pystr \<Rightarrow> bool" where
  "claimable db i \<longleftrightarrow> i \<notin> set (request_ids db)
     \<or> list_ex (\<lambda>c. rt_operation_id c = i \<and> rt_lifecycle_state c = research_state_value R_ADMITTED) (rd_requests db)"

definition no_new_claims :: "research_db \<Rightarrow> research_db \<Rightarrow> bool" where
  "no_new_claims db db' \<longleftrightarrow> (\<forall>i. claimable db' i \<longrightarrow> claimable db i)"

lemma no_new_claims_refl [simp]: "no_new_claims db db"
  by (simp add: no_new_claims_def)

lemma no_new_claims_trans: "no_new_claims a b \<Longrightarrow> no_new_claims b c \<Longrightarrow> no_new_claims a c"
  by (simp add: no_new_claims_def)

lemma no_new_claims_same: "rd_requests db' = rd_requests db \<Longrightarrow> no_new_claims db db'"
  by (simp add: no_new_claims_def claimable_def request_ids_def)

section \<open>Moves of a thread\<close>

definition submit_move :: "pystr option \<Rightarrow> research_world \<Rightarrow> pystr option \<Rightarrow> research_world \<Rightarrow> bool" where
  "submit_move g w g' w' \<longleftrightarrow>
     (g' = g \<and> submitted w' = submitted w \<and> no_new_claims (wd_db w) (wd_db w'))
     \<or> (\<exists>i. g = None \<and> g' = Some i \<and> submitted w' = submitted w \<and> no_new_claims (wd_db w) (wd_db w')
          \<and> claimable (wd_db w) i \<and> \<not> claimable (wd_db w') i)
     \<or> (\<exists>i. g = Some i \<and> g' = None \<and> submitted w' = submitted w @ [i] \<and> wd_db w' = wd_db w)"

definition one_submission :: "pystr option list \<Rightarrow> research_world \<Rightarrow> bool" where
  "one_submission gs w \<longleftrightarrow> (\<forall>i. count_list (submitted w) i + count_list gs (Some i)
     + (if claimable (wd_db w) i then 1 else 0) \<le> 1)"

lemma count_list_update:
  "k < length gs \<Longrightarrow> count_list (gs[k := x]) y + (if gs ! k = y then 1 else 0)
    = count_list gs y + (if x = y then 1 else 0)"
proof (induction gs arbitrary: k)
  case (Cons a gs)
  show ?case
  proof (cases k)
    case 0
    then show ?thesis by simp
  next
    case (Suc n)
    then show ?thesis using Cons.IH [of n] Cons.prems by auto
  qed
qed simp

lemma move_keeps_one:
  assumes inv: "one_submission gs w" and k: "k < length gs" and m: "submit_move (gs ! k) w g' w'"
  shows "one_submission (gs[k := g']) w'"
  unfolding one_submission_def
proof
  fix i
  have b: "count_list (submitted w) i + count_list gs (Some i) + (if claimable (wd_db w) i then 1 else 0) \<le> 1"
    using inv by (simp add: one_submission_def)
  have u: "count_list (gs[k := g']) (Some i) + (if gs ! k = Some i then 1 else 0)
      = count_list gs (Some i) + (if g' = Some i then 1 else 0)" by (rule count_list_update [OF k])
  show "count_list (submitted w') i + count_list (gs[k := g']) (Some i)
      + (if claimable (wd_db w') i then 1 else 0) \<le> 1"
    using m unfolding submit_move_def
  proof (elim disjE exE conjE)
    assume "g' = gs ! k" "submitted w' = submitted w" "no_new_claims (wd_db w) (wd_db w')"
    then show ?thesis using b u by (auto simp: no_new_claims_def split: if_splits)
  next
    fix j assume "gs ! k = None" "g' = Some j" "submitted w' = submitted w"
      "no_new_claims (wd_db w) (wd_db w')" "claimable (wd_db w) j" "\<not> claimable (wd_db w') j"
    then show ?thesis using b u by (cases "i = j") (auto simp: no_new_claims_def split: if_splits)
  next
    fix j assume "gs ! k = Some j" "g' = None" "submitted w' = submitted w @ [j]" "wd_db w' = wd_db w"
    then show ?thesis using b u by (cases "i = j") (auto split: if_splits)
  qed
qed

section \<open>Transactions\<close>

lemma update_no_new_claims:
  assumes "sql_update adm p f (rd_requests db) = Some (rows, n)"
    and "\<And>c. rt_operation_id (f c) = rt_operation_id c"
    and "\<And>c. rt_lifecycle_state (f c) = research_state_value R_ADMITTED \<Longrightarrow> rt_lifecycle_state c = research_state_value R_ADMITTED"
  shows "no_new_claims db (db\<lparr>rd_requests := rows\<rparr>)"
proof -
  have rows: "rows = map (\<lambda>c. if p c then f c else c) (rd_requests db)"
    using assms(1) by (auto simp: sql_update_def split: if_splits)
  have "map rt_operation_id rows = map rt_operation_id (rd_requests db)"
    unfolding rows using assms(2) by simp
  then have "request_ids (db\<lparr>rd_requests := rows\<rparr>) = request_ids db" by (simp add: request_ids_def)
  moreover have "\<exists>c \<in> set (rd_requests db). rt_operation_id c = i \<and> rt_lifecycle_state c = research_state_value R_ADMITTED"
    if "c' \<in> set rows" "rt_operation_id c' = i" "rt_lifecycle_state c' = research_state_value R_ADMITTED" for c' i
    using that assms(2,3) unfolding rows by (auto split: if_splits)
  ultimately show ?thesis
    by (auto simp: no_new_claims_def claimable_def list_ex_iff)
qed

lemma insert_request_claims: "insert_request c db = Inr db' \<Longrightarrow> no_new_claims db db'"
  by (auto simp: insert_request_def and_then_Inr no_new_claims_def claimable_def request_ids_def list_ex_iff
      split: if_splits)

lemma save_claims:
  assumes "repository_save r db = (x, db')" and "row_state r \<noteq> R_ADMITTED"
  shows "no_new_claims db db'" 
proof -
  have s: "no_new_claims db d \<and> r' = r" if d: "save_operation r v db = Inr (r', d)" and v: "row_to_values r = Inr v"
    for v d r'
  proof -
    obtain n where n: "v = row_columns n r" using v by (auto simp: row_to_values_def and_then_Inr)
    obtain rows k where u: "sql_update (request_admissible db) (\<lambda>c. rt_operation_id c = row_id r)
        (set_mutable_columns v) (rd_requests db) = Some (rows, k)"
      and d': "rd_requests d = rows" "r' = r"
    proof (cases "sql_update (request_admissible db) (\<lambda>c. rt_operation_id c = row_id r)
        (set_mutable_columns v) (rd_requests db)")
      case None
      then show ?thesis using d by (simp add: save_operation_def and_then_Inr)
    next
      case (Some p)
      then show ?thesis using d that [of "fst p" "snd p"]
        by (cases p) (auto simp: save_operation_def and_then_Inr Let_def split: if_splits)
    qed
    have "no_new_claims db (db\<lparr>rd_requests := rows\<rparr>)"
      using assms(2) by (intro update_no_new_claims [OF u]) (simp_all add: set_mutable_columns_def n)
    moreover have "no_new_claims (db\<lparr>rd_requests := rows\<rparr>) d"
      using d'(1) by (intro no_new_claims_same) simp
    ultimately show ?thesis using no_new_claims_trans d'(2) by blast
  qed
  show ?thesis
    using assms(1) s
    by (auto simp: repository_save_def run_in_immediate_transaction_def split: sum.splits prod.splits)
qed

lemma claim_claims:
  assumes "claim_submission now i db = (x, db')"
  shows "no_new_claims db db'" and "x = Inr (Some r) \<Longrightarrow> claimable db i \<and> \<not> claimable db' i \<and> row_id r = i"
proof -
  let ?p = "\<lambda>c. rt_operation_id c = i \<and> rt_lifecycle_state c = research_state_value R_ADMITTED"
  let ?f = "\<lambda>c. c\<lparr>rt_lifecycle_state := research_state_value R_SUBMITTING, rt_updated_at_ms := now\<rparr>"
  have s: "no_new_claims db d \<and> (y = Some r \<longrightarrow> claimable db i \<and> \<not> claimable d i \<and> row_id r = i)"
    if d: "claim_operation i now db = Inr (y, d)" for y d
  proof -
    obtain rows k where u: "sql_update (request_admissible db) ?p ?f (rd_requests db) = Some (rows, k)"
      and c: "(k \<noteq> 1 \<and> y = None \<and> d = db)
        \<or> (k = 1 \<and> d = db\<lparr>rd_requests := rows\<rparr> \<and> read_row (select_request i d) = Inr y)"
    proof (cases "sql_update (request_admissible db) ?p ?f (rd_requests db)")
      case None
      then show ?thesis using d by (simp add: claim_operation_def and_then_Inr)
    next
      case (Some q)
      then show ?thesis using d that [of "fst q" "snd q"]
        by (cases q; cases "snd q = 1") (auto simp: claim_operation_def and_then_Inr Let_def)
    qed
    have rows: "rows = map (\<lambda>c. if ?p c then ?f c else c) (rd_requests db)" "k = length (filter ?p (rd_requests db))"
      using u by (auto simp: sql_update_def split: if_splits)
    have n: "no_new_claims db (db\<lparr>rd_requests := rows\<rparr>)" by (rule update_no_new_claims [OF u]) simp_all
    show ?thesis
      using c
    proof (elim disjE conjE)
      assume k: "k = 1" and dd: "d = db\<lparr>rd_requests := rows\<rparr>" and y: "read_row (select_request i d) = Inr y"
      have "filter ?p (rd_requests db) \<noteq> []" using k rows(2) by auto
      then obtain c where c: "c \<in> set (rd_requests db)" "?p c" by (auto simp: filter_empty_conv)
      then have "claimable db i" by (auto simp: claimable_def list_ex_iff)
      moreover have "\<not> claimable d i"
      proof -
        have "i \<in> set (request_ids d)" using c by (force simp: request_ids_def dd rows(1))
        moreover have "\<not> ?p c'" if m: "c' \<in> set rows" for c'
        proof -
          obtain e where "c' = (if ?p e then ?f e else e)" using m unfolding rows(1) set_map by blast
          then show ?thesis by (cases "?p e") simp_all
        qed
        ultimately show ?thesis by (auto simp: claimable_def list_ex_iff dd)
      qed
      moreover have "row_id r = i" if yr: "y = Some r"
      proof -
        obtain c' where c': "select_request i d = Some c'" "row_from_mapping c' = Inr r"
          using y yr by (auto simp: read_row_def opt_map_def split: option.splits sum.splits)
        then have "rt_operation_id c' = i" by (auto simp: select_request_def find_Some_iff)
        then show ?thesis using c'(2) by (auto simp: row_from_mapping_def and_then_Inr Let_def)
      qed
      ultimately show ?thesis using n dd by blast
    qed simp
  qed
  show "no_new_claims db db'" "x = Inr (Some r) \<Longrightarrow> claimable db i \<and> \<not> claimable db' i \<and> row_id r = i"
    using assms s
    by (auto simp: claim_submission_def run_in_immediate_transaction_def split: sum.splits prod.splits)
qed

lemma admit_claims:
  assumes "repository_admit row reservation db = (x, db')"
  shows "no_new_claims db db'"
proof -
  have s: "no_new_claims db d" if d: "admit_operation row reservation db = Inr (y, d)" for y d
  proof (cases "select_client (rw_owner_login_key row) (rw_client_request_id row) db")
    case (Some c)
    then have "d = db" using d by (auto simp: admit_operation_def and_then_Inr split: if_splits)
    then show ?thesis by simp
  next
    case None
    then obtain v d1 h d2 where v: "insert_request v (ensure_slot db) = Inr d1"
      and h: "reserve_hold reservation (rw_admitted_at_ms row) d1 = Inr (h, d2)"
      and t: "set_slot \<lparr>sl_operation_id = Some (row_id row), sl_held_since_ms = Some (rw_admitted_at_ms row)\<rparr> d2 = Inr d"
      using d by (auto simp: admit_operation_def and_then_Inr Let_def split: if_splits prod.splits)
    have "no_new_claims db (ensure_slot db)" by (rule no_new_claims_same) (simp add: ensure_slot_def split: option.splits)
    moreover have "no_new_claims (ensure_slot db) d1" by (rule insert_request_claims [OF v])
    moreover have "rd_requests d2 = rd_requests d1"
      using h by (auto simp: reserve_hold_def insert_hold_def and_then_Inr split: if_splits prod.splits)
    moreover have "rd_requests d = rd_requests d2" using t by (auto simp: set_slot_def split: if_splits)
    ultimately show ?thesis using no_new_claims_same no_new_claims_trans by metis
  qed
  show ?thesis
    using assms s
    by (auto simp: repository_admit_def run_in_immediate_transaction_def split: sum.splits prod.splits if_splits)
qed

lemma complete_claims:
  assumes "result_complete U did rid now completion db = (x, db')"
  shows "no_new_claims db db'"
proof -
  have s: "no_new_claims db d" if d: "complete_operation U did rid now completion db = Inr (y, d)" for y d
  proof -
    have "d = db \<or> (\<exists>d1 d2 dr rr. insert_document dr db = Inr d1 \<and> insert_record rr d1 = Inr d2
        \<and> bind_record (rc_operation_id completion) rid now d2 = Inr d)"
      using d by (auto simp: complete_operation_def Let_def and_then_Inr split: option.splits if_splits)
    then show ?thesis
    proof (elim disjE exE conjE)
      fix d1 d2 dr rr
      assume d1: "insert_document dr db = Inr d1" and d2: "insert_record rr d1 = Inr d2"
        and b: "bind_record (rc_operation_id completion) rid now d2 = Inr d"
      have "rd_requests d2 = rd_requests db"
        using d1 d2 by (auto simp: insert_document_def insert_record_def split: if_splits)
      moreover obtain rows k where u: "sql_update (request_admissible d2)
          (\<lambda>c. rt_operation_id c = rc_operation_id completion)
          (\<lambda>c. c\<lparr>rt_record_id := Some (uuid_to_text rid), rt_updated_at_ms := now\<rparr>) (rd_requests d2) = Some (rows, k)"
        and d': "d = d2\<lparr>rd_requests := rows\<rparr>"
        using b by (auto simp: bind_record_def split: option.splits)
      moreover have "no_new_claims d2 (d2\<lparr>rd_requests := rows\<rparr>)" by (rule update_no_new_claims [OF u]) simp_all
      ultimately show ?thesis using no_new_claims_same no_new_claims_trans by metis
    qed simp
  qed
  show ?thesis
    using assms s by (auto simp: result_complete_def run_in_immediate_transaction_def split: sum.splits prod.splits)
qed

section \<open>What each program guarantees\<close>

interpretation submitting: coordinator_steps submit_move no_new_claims
proof
  show "ledger_reconcile now c db = (x, db') \<Longrightarrow> no_new_claims db db'"
    for now c db db' and x :: "research_exn + budget_hold"
    by (intro no_new_claims_same)
      (auto simp: ledger_reconcile_def run_in_immediate_transaction_def reconcile_hold_def and_then_Inr Let_def
        split: sum.splits prod.splits option.splits if_splits)
qed (simp_all add: submit_move_def save_claims admit_claims complete_claims)

lemma keeps_idle: "submitting.keeps None p (\<lambda>_. True) \<Longrightarrow> guarantees submit_move None p (\<lambda>_ _. True)"
  unfolding submitting.keeps_def by (erule guarantees_mono) simp

text \<open>Submitting uses the claim up.\<close>

lemma submit_claimed_guarantee:
  assumes "row_id row = i"
  shows "guarantees submit_move (Some i) (submit_claimed env row) (\<lambda>_ _. True)"
proof -
  let ?request = "provider_request_of row"
  have s: "guarantees submit_move (Some i) (provider_call_prog (en_observe env) (PSubmit ?request)) (\<lambda>_ g. g = None)"
    unfolding provider_call_prog_def
    by (rule guarantees_atomic)
      (use assms in \<open>simp add: Let_def submit_move_def submitted_def provider_request_of_def\<close>)
  have c: "guarantees submit_move (Some i) (catch (provider_call_prog (en_observe env) (PSubmit ?request))
      (\<lambda>_. finish_unknown env row R_SUBMISSION_UNKNOWN E_SUBMISSION_UNKNOWN) (apply_submit_observation env row))
      (\<lambda>_ _. True)"
    by (rule guarantees_catch [OF s]) (auto intro: keeps_idle submitting.keeps_submit_observation submitting.keeps_finish_any)
  have l: "guarantees submit_move (Some i) (lift (provider_request_post_init ?request)) (\<lambda>_ g. g = Some i)"
    by (simp add: lift_def)
  show ?thesis
    unfolding submit_claimed_def Let_def by (rule guarantees_bindE [OF l]) (use c in auto)
qed

lemma claim_guarantee:
  "guarantees submit_move None (tx (claim_submission now i))
     (\<lambda>x g. g = (case x of Inr (Some r) \<Rightarrow> Some i | _ \<Rightarrow> None) \<and> (\<forall>r. x = Inr (Some r) \<longrightarrow> row_id r = i))"
  unfolding tx_def
proof (rule guarantees_atomic)
  fix w :: research_world
  obtain x db' where c: "claim_submission now i (wd_db w) = (x, db')" by (cases "claim_submission now i (wd_db w)")
  note k = claim_claims [OF c]
  show "\<exists>g'. submit_move None w g' (snd (case claim_submission now i (wd_db w) of (r, db) \<Rightarrow> (r, w\<lparr>wd_db := db\<rparr>)))
      \<and> g' = (case fst (case claim_submission now i (wd_db w) of (r, db) \<Rightarrow> (r, w\<lparr>wd_db := db\<rparr>)) of
          Inr (Some r) \<Rightarrow> Some i | _ \<Rightarrow> None)
      \<and> (\<forall>r. fst (case claim_submission now i (wd_db w) of (r, db) \<Rightarrow> (r, w\<lparr>wd_db := db\<rparr>)) = Inr (Some r) \<longrightarrow> row_id r = i)"
  proof (cases "\<exists>r. x = Inr (Some r)")
    case True
    then show ?thesis using k by (auto simp: c submit_move_def)
  next
    case False
    then show ?thesis using k(1) by (auto simp: c submit_move_def split: sum.splits option.splits)
  qed
qed

lemma submit_pending_guarantee: "guarantees submit_move None (submit_pending env) (\<lambda>_ _. True)"
proof -
  have e: "submitting.keeps None (submission_enabled env) (\<lambda>_. True)"
    by (simp add: submission_enabled_def submitting.keeps_tick split: option.splits)
  have c: "guarantees submit_move None (bindE (tx (claim_submission t i)) (\<lambda>claimed.
      case claimed of None \<Rightarrow> ret None | Some c \<Rightarrow> bindE (submit_claimed env c) (\<lambda>r. ret (Some r)))) (\<lambda>_ _. True)" for t i
    by (rule guarantees_bindE [OF claim_guarantee])
      (auto intro!: guarantees_ret guarantees_bindE [OF submit_claimed_guarantee] split: option.splits)
  have k: "guarantees submit_move None (bindE (clock_ms env) (\<lambda>now_ms. bindE (tx (claim_submission now_ms i)) (\<lambda>claimed.
      case claimed of None \<Rightarrow> ret None | Some c \<Rightarrow> bindE (submit_claimed env c) (\<lambda>r. ret (Some r))))) (\<lambda>_ _. True)" for i
    by (rule guarantees_bindE [OF submitting.keeps_clock [unfolded submitting.keeps_def]]) (use c in auto)
  have a: "guarantees submit_move None (bindE active_request (\<lambda>active. case active of
         None \<Rightarrow> ret None
       | Some row \<Rightarrow>
           if row_state row \<noteq> R_ADMITTED then ret None
           else bindE (clock_ms env) (\<lambda>now_ms. bindE (tx (claim_submission now_ms (row_id row))) (\<lambda>claimed.
             case claimed of None \<Rightarrow> ret None | Some c \<Rightarrow> bindE (submit_claimed env c) (\<lambda>r. ret (Some r)))))) (\<lambda>_ _. True)"
    by (rule guarantees_bindE [OF submitting.keeps_active [unfolded submitting.keeps_def]])
      (auto intro!: guarantees_ret k split: option.splits)
  show ?thesis
    unfolding submit_pending_def
    by (rule guarantees_bindE [OF e [unfolded submitting.keeps_def]]) (auto intro!: guarantees_ret a)
qed

lemma thread_guarantee: "guarantees submit_move None (perform env c) (\<lambda>_ _. True)"
proof -
  have t: "guarantees submit_move None (as_thread p) (\<lambda>_ _. True)" if "guarantees submit_move None p (\<lambda>_ _. True)"
    for p :: "(research_world, 'a) prog"
    unfolding as_thread_def by (rule guarantees_bind [OF that]) simp
  show ?thesis
    by (cases c) (simp_all add: t keeps_idle submit_pending_guarantee submitting.keeps_admit submitting.keeps_recover
      submitting.keeps_poll submitting.keeps_cancel submitting.keeps_release)
qed

interpretation submission: shared_invariant submit_move None one_submission "coordinator_thread env" for env
proof
  show "one_submission gs w \<Longrightarrow> i < length gs \<Longrightarrow> submit_move (gs ! i) w g' w' \<Longrightarrow> one_submission (gs[i := g']) w'"
    for gs w i g' w' by (rule move_keeps_one)
  show "one_submission gs w \<Longrightarrow> one_submission (gs @ [None]) w" for gs w
    by (simp add: one_submission_def)
  show "one_submission [] w" if inv: "one_submission gs w" for gs w
    unfolding one_submission_def
  proof
    fix i
    have "count_list (submitted w) i + count_list gs (Some i) + (if claimable (wd_db w) i then 1 else 0) \<le> 1"
      using inv unfolding one_submission_def by blast
    then show "count_list (submitted w) i + count_list [] (Some i) + (if claimable (wd_db w) i then 1 else 0) \<le> 1"
      by simp
  qed
  show "coordinator_thread env p \<Longrightarrow> guarantees submit_move None p (\<lambda>_ _. True)" for p
    by (auto simp: coordinator_thread_def thread_guarantee)
qed

lemma reachable_one_submission:
  assumes "(par_step (coordinator_thread env))\<^sup>*\<^sup>* ([], w) (ps, w')" and "wd_calls w = []"
  shows "count_list (submitted w') i \<le> 1"
proof -
  have "one_submission [] w" using assms(2) by (simp add: one_submission_def submitted_def)
  then have "submission.config_ok ([], w)" by (auto simp: submission.config_ok_def)
  then obtain gs where "one_submission gs w'" using submission.reachable_inv [OF assms(1)] by blast
  then have "count_list (submitted w') i + count_list gs (Some i) + (if claimable (wd_db w') i then 1 else 0) \<le> 1"
    unfolding one_submission_def by blast
  then show ?thesis by simp
qed

end
