(* ===== verification/Research_Samples.thy ===== *)
theory Research_Samples
  imports Research_Outcomes Research_Submission
begin

text \<open>
  A concrete environment of the research coordinator, with a provider that answers, and the
  databases it reaches: the runs the theorems are applied to.
\<close>

lemma run_reaches:
  assumes "run p w = (a, w')" and "i < length ps" and "ps ! i = p"
  shows "(par_step startable)\<^sup>*\<^sup>* (ps, w) (ps[i := Ret a], w')"
  using assms
proof (induction p arbitrary: w ps)
  case (Ret x)
  then have "ps[i := Ret a] = ps" by (metis list_update_id prod.inject run.simps(1))
  then show ?case using Ret by simp
next
  case (Atomic f)
  obtain p w1 where f: "f w = (p, w1)" by (cases "f w")
  have r: "run p w1 = (a, w')" using Atomic.prems(1) f by (simp add: run_Atomic)
  have "(par_step startable)\<^sup>*\<^sup>* (ps[i := p], w1) ((ps[i := p])[i := Ret a], w')"
    using f rangeI [of f w] Atomic.prems(2) r by (intro Atomic.IH [of "f w"]) (auto simp: fsts.simps)
  moreover have "par_step startable (ps, w) (ps[i := p], w1)"
    using Atomic.prems f by (intro par_step.step)
  ultimately show ?case by simp
qed

lemma run_calls_reach:
  "\<exists>ps'. (par_step (coordinator_thread env))\<^sup>*\<^sup>* (ps, w) (ps', run_calls env cs w)"
proof (induction cs arbitrary: ps w)
  case (Cons c cs)
  let ?qs = "ps @ [perform env c]"
  have "par_step (coordinator_thread env) (ps, w) (?qs, w)"
    by (rule par_step.start) (auto simp: coordinator_thread_def)
  moreover obtain a w1 where r: "run (perform env c) w = (a, w1)" by (cases "run (perform env c) w")
  moreover have "(par_step (coordinator_thread env))\<^sup>*\<^sup>* (?qs, w) (?qs[length ps := Ret a], w1)"
    by (rule run_reaches [OF r]) simp_all
  moreover obtain ps' where "(par_step (coordinator_thread env))\<^sup>*\<^sup>* (?qs[length ps := Ret a], w1) (ps', run_calls env cs w1)"
    using Cons.IH by blast
  ultimately have "(par_step (coordinator_thread env))\<^sup>*\<^sup>* (ps, w) (ps', run_calls env cs w1)"
    by (meson converse_rtranclp_into_rtranclp rtranclp_trans)
  then show ?case using r by auto
qed auto

definition sample_profile :: selected_profile where
  "sample_profile = \<lparr>sp_provider_id = OPENAI_RESPONSES_PROVIDER_ID, sp_model_id = FIXED_OPENAI_RESPONSES_MODEL_ID,
     sp_configuration_version = RESEARCH_CONFIGURATION_VERSION, sp_reasoning_effort = lit ''low'',
     sp_tool_allowlist = [WEB_SEARCH_TOOL], sp_background = True, sp_max_tool_calls = 3,
     sp_max_output_tokens = 4096, sp_deadline_seconds = 180, sp_budget_reservation_usd_micros = 500000\<rparr>"

definition sample_limits :: resource_limits where
  "sample_limits = \<lparr>rl_max_tool_calls = 3, rl_max_output_tokens = 4096, rl_budget_reservation_usd_micros = 500000,
     rl_prompt_max_utf8_bytes = 16384, rl_answer_max_utf8_bytes = 2097152, rl_citation_count_max = 200\<rparr>"

definition sample_descriptor :: provider_descriptor where
  "sample_descriptor = \<lparr>pd_provider_id = OPENAI_RESPONSES_PROVIDER_ID, pd_adapter_version = lit ''1'',
     pd_configuration_version = RESEARCH_CONFIGURATION_VERSION,
     pd_capabilities = \<lparr>cap_search = True, cap_research = True, cap_native_research = False, cap_cancellation = True,
       cap_remote_retrieval = True, cap_remote_deletion = True\<rparr>,
     pd_execution_location = EL_PROVIDER_NATIVE, pd_retention_posture = STANDARD_REMOTE_DELETE,
     pd_accounting = \<lparr>reports_token_usage = True, reports_cached_input_separately = True,
       reports_web_tool_calls = True, missing_usage_is_visible_failure = True\<rparr>,
     pd_submission_idempotency = NOT_GUARANTEED, pd_availability = PA_CONFIGURED\<rparr>"

definition sample_snapshot :: selection_snapshot where
  "sample_snapshot = \<lparr>ss_provider_id = OPENAI_RESPONSES_PROVIDER_ID, ss_model_id = FIXED_OPENAI_RESPONSES_MODEL_ID,
     ss_kind = SEARCH, ss_profile = sample_profile, ss_resource_limits = sample_limits, ss_deadline_seconds = 180,
     ss_descriptor = sample_descriptor, ss_live_ready = True, ss_daily_budget_usd_micros = 1000000,
     ss_monthly_budget_usd_micros = 3000000\<rparr>"

definition sample_answer :: research_answer where
  "sample_answer = \<lparr>an_text = lit ''Paris'', an_citations = [\<lparr>ct_url = lit ''https://example.org'', ct_title = lit ''A \"source\"''\<rparr>],
     an_evidence = \<lparr>ce_provider_terminal = True, ce_answer_complete = True, ce_web_search_executed = True,
       ce_refusal_marker = False, ce_incomplete_marker = False\<rparr>,
     an_usage = Some \<lparr>ru_input_tokens = 1200, ru_cached_input_tokens = 200, ru_output_tokens = 300,
       ru_reasoning_tokens = 100, ru_web_tool_calls = 2, ru_cache_write_input_tokens = None\<rparr>\<rparr>"

text \<open>The provider accepts the first call and has the answer at the next.\<close>

definition sample_observe :: "provider_call list \<Rightarrow> unit + observation" where
  "sample_observe calls =
     Inr (if length calls = 1
       then \<lparr>ob_kind = O_RUNNING, ob_remote_handle = Some (lit ''resp_1''), ob_answer = None, ob_error_code = None\<rparr>
       else \<lparr>ob_kind = O_COMPLETE, ob_remote_handle = Some (lit ''resp_1''), ob_answer = Some sample_answer,
             ob_error_code = None\<rparr>)"

definition sample_env :: research_env where
  "sample_env = \<lparr>en_observe = sample_observe,
     en_cleanup = (\<lambda>_. Inr \<lparr>co_state = RC_DELETED, co_error_code = None\<rparr>),
     en_clock = (\<lambda>t. 1700000000000 + int t), en_operation_id = (\<lambda>t. lit ''operation-1''),
     en_document_id = (\<lambda>t. sample_uuid 1), en_record_id = (\<lambda>t. sample_uuid 2),
     en_select = (\<lambda>t kind. Inr sample_snapshot), en_admission_guard = None, en_accounting_blocker = True,
     en_submission_enabled = None, en_price_schedule = None, en_sha256 = (\<lambda>s. replicate 64 48),
     en_tables = ascii_tables\<rparr>"

text \<open>A request that was admitted on 2020-09-13, at a moment of its life.\<close>

definition sample_row :: "research_state \<Rightarrow> pystr option \<Rightarrow> research_row" where
  "sample_row state handle =
     \<lparr>rw_record = \<lparr>rq_operation_id = lit ''operation-1'', rq_kind = SEARCH, rq_prompt = lit ''Capital of France?'',
        rq_profile = sample_profile, rq_deadline_seconds = 180, rq_resource_limits = sample_limits,
        rq_state = state, rq_cleanup_state = RC_NOT_REQUIRED, rq_accounting_state = RA_RESERVED,
        rq_remote_handle = handle, rq_error_code = None\<rparr>,
      rw_owner_login_key = lit ''alice@example.org'', rw_client_request_id = lit ''client-1'',
      rw_request_fingerprint = replicate 64 48, rw_checkpoint_json = None, rw_checkpoint_sha256 = None,
      rw_record_id = None, rw_created_at_ms = 1600000000000, rw_admitted_at_ms = 1600000000000,
      rw_submitted_at_ms = None, rw_finished_at_ms = None, rw_updated_at_ms = 1600000000000,
      rw_cancel_requested_at_ms = None, rw_cancellation_confirmed_at_ms = None\<rparr>"

definition sample_hold :: hold_row where
  "sample_hold = \<lparr>hd_operation_id = lit ''operation-1'', hd_day_key = lit ''2020-09-13'', hd_month_key = lit ''2020-09'',
     hd_reserved_usd_micros = 500000, hd_accounted_usd_micros = None, hd_state = lit ''reserved'',
     hd_created_at_ms = 1600000000000, hd_reconciled_at_ms = None\<rparr>"

definition sample_db :: "research_row \<Rightarrow> research_db" where
  "sample_db r = \<lparr>rd_requests = [columns_of r],
     rd_slot = Some \<lparr>sl_operation_id = Some (lit ''operation-1''), sl_held_since_ms = Some 1600000000000\<rparr>,
     rd_holds = [sample_hold], rd_documents = [], rd_records = []\<rparr>"

definition sample_world :: "research_row \<Rightarrow> research_world" where
  "sample_world r = \<lparr>wd_db = sample_db r, wd_calls = [], wd_ticks = 0\<rparr>"

lemmas sample_values = sample_profile_def sample_limits_def research_limits OPENAI_RESPONSES_PROVIDER_ID_def
  FIXED_OPENAI_RESPONSES_MODEL_ID_def RESEARCH_CONFIGURATION_VERSION_def ALLOWED_RESEARCH_TOOLS_def
  WEB_SEARCH_TOOL_def ALLOWED_REASONING_EFFORTS_def

lemma sample_profile_ok: "ok (selected_profile_post_init sample_profile)"
  by (simp add: selected_profile_post_init_def sample_values lit_def is_space_def)

lemma sample_limits_ok: "ok (resource_limits_post_init sample_limits)"
  by (simp add: resource_limits_post_init_def sample_values)

lemma sample_request_ok: "ok (research_request_post_init (rw_record (sample_row st h)))"
  by (simp add: research_request_post_init_def sample_row_def sample_values lit_def is_space_def strip_def)

lemma sample_row_valid:
  assumes "case h of None \<Rightarrow> True | Some v \<Rightarrow> handle_ok v"
  shows "research_row_valid (sample_row st h)"
proof -
  have "encodable (lit ''Capital of France?'')" by (simp add: encodable_def lit_def)
  then show ?thesis
    using assms sample_request_ok [of st h] sample_profile_ok sample_limits_ok
    by (simp add: research_row_valid_def limits_agree_def sample_row_def) (simp add: sample_profile_def sample_limits_def)
qed

lemma sample_identity_checks: "list_all check_passes (request_identity_checks (columns_of (sample_row st h)))"
proof -
  have "list_all check_passes (request_identity_checks (columns_of (sample_row R_ADMITTED None)))"
    by code_simp
  moreover have "request_identity_checks (columns_of (sample_row st h)) = (request_identity_checks
      (columns_of (sample_row R_ADMITTED None)))[7 := Some (research_state_value st \<in> set (map lit [''admitted'', ''submitting'', ''running'', ''validating'',
       ''saved'', ''refused'', ''failed'', ''incomplete'', ''cancel_requested'', ''cancelled'', ''timeout'',
       ''submission_unknown'']))]"
    by (simp add: request_identity_checks_def sample_row_def)
  moreover have "research_state_value st \<in> set (map lit [''admitted'', ''submitting'', ''running'', ''validating'',
       ''saved'', ''refused'', ''failed'', ''incomplete'', ''cancel_requested'', ''cancelled'', ''timeout'',
       ''submission_unknown''])" by (cases st) (simp_all add: research_state_value.simps)
  ultimately show ?thesis
    using set_update_subset_insert [of "request_identity_checks (columns_of (sample_row R_ADMITTED None))" 7 "Some True"]
    by (auto simp: list_all_iff)
qed

lemma sample_limit_checks: "list_all check_passes (request_limit_checks (columns_of (sample_row st h)))"
proof -
  have "tools_json [WEB_SEARCH_TOOL] = lit ''[\"web_search\"]''" by code_simp
  then show ?thesis by (simp add: request_limit_checks_def sample_row_def sample_profile_def sample_limits_def)
qed

lemma sample_progress_checks:
  assumes "h = None \<or> h = Some (lit ''resp_1'')"
  shows "list_all check_passes (request_progress_checks (columns_of (sample_row st h)))"
proof -
  have "sql_length (handle_json (lit ''resp_1'')) = 19" by code_simp
  then show ?thesis
    using assms by (auto simp: request_progress_checks_def sample_row_def research_cleanup_value.simps
      research_accounting_value.simps)
qed

lemma sample_checks:
  "h = None \<or> h = Some (lit ''resp_1'') \<Longrightarrow> request_checks_ok (columns_of (sample_row st h))"
  by (simp add: request_checks_ok_def sample_identity_checks sample_limit_checks sample_progress_checks)

lemma sample_handle_ok: "handle_ok (lit ''resp_1'')"
  by (simp add: handle_ok_def provider_handle_new_def lit_def is_space_def text_ok_def)

lemma sample_texts: "list_all encodable (row_texts (columns_of (sample_row st h)))"
  by (simp add: row_texts_def mutable_texts_def sample_row_def sample_values encodable_def lit_def list_all_iff)

lemma sample_hold_ok: "hold_row_ok sample_hold"
  by code_simp

lemma sample_db_ok:
  assumes "h = None \<or> h = Some (lit ''resp_1'')"
  shows "db_ok (sample_db (sample_row st h))" and "tables_ok (sample_db (sample_row st h))"
proof -
  let ?r = "sample_row st h" let ?db = "sample_db ?r"
  have v: "research_row_valid ?r" using assms sample_handle_ok by (intro sample_row_valid) auto
  have i: "row_id ?r = lit ''operation-1''" "rw_record_id ?r = None" by (simp_all add: sample_row_def)
  have k: "requests_ok (rd_requests ?db)" "keyed_rows_ok rt_operation_id request_checks_ok request_rows_clash (rd_requests ?db)"
    using sample_checks [OF assms] v by (simp_all add: requests_ok_def keyed_rows_ok_def sample_db_def)
  have fk: "list_all (request_fk_ok ?db) (rd_requests ?db)" by (simp add: sample_db_def request_fk_ok_def i)
  have sl: "slot_ok ?db" by (simp add: slot_ok_def sample_db_def slot_row_ok_def held_operation_def request_ids_def i)
  have h: "holds_ok ?db"
    using sample_hold_ok by (simp add: holds_ok_def sample_db_def request_ids_def i) (simp add: sample_hold_def)
  show "db_ok ?db" using k fk sl h sample_texts [of st h] by (simp add: db_ok_def) (simp add: sample_db_def)
  show "tables_ok ?db" using k fk sl h by (simp add: tables_ok_def) (simp add: sample_db_def results_ok_def documents_ok_def)
qed

lemma sample_stored:
  assumes "h = None \<or> h = Some (lit ''resp_1'')" and n: "\<not> is_terminal_lifecycle st"
  shows "stored (sample_row st h) (sample_db (sample_row st h))"
proof -
  let ?r = "sample_row st h" let ?db = "sample_db ?r"
  have v: "research_row_valid ?r" using assms(1) sample_handle_ok by (intro sample_row_valid) auto
  have i: "row_id ?r = lit ''operation-1''" "row_state ?r = st" by (simp_all add: sample_row_def)
  have "request_map ?db j = (if j = row_id ?r then Some ?r else None)" for j
    using v by (simp add: request_map_def select_request_def sample_db_def row_read_back)
  then show ?thesis
    using sample_db_ok(1) [OF assms(1), of st] n by (simp add: stored_def flight_ok_def i) (simp add: sample_db_def held_operation_def)
qed

lemma sample_env_ok: "env_ok sample_env"
  by (simp add: env_ok_def sample_env_def sample_observe_def observation_ok_def sample_handle_ok snapshot_ok_def
      sample_snapshot_def sample_profile_ok sample_limits_ok) (simp add: sample_profile_def sample_limits_def)

text \<open>Submitting the admitted request asks the provider for it.\<close>

lemma sample_observation: "sample_observe [c] = Inr \<lparr>ob_kind = O_RUNNING, ob_remote_handle = Some (lit ''resp_1''),
    ob_answer = None, ob_error_code = None\<rparr>"
  by (simp add: sample_observe_def)

lemma sample_submits: "submitted (snd (run (submit_pending sample_env) (sample_world (sample_row R_ADMITTED None)))) = [lit ''operation-1'']"
proof -
  let ?r = "sample_row R_ADMITTED None" let ?w = "sample_world ?r" let ?db = "sample_db ?r"
  let ?c = "?r\<lparr>rw_record := (rw_record ?r)\<lparr>rq_state := R_SUBMITTING\<rparr>, rw_updated_at_ms := 1700000000000\<rparr>"
  have st: "stored ?r ?db" by (rule sample_stored) simp_all
  have i: "row_id ?r = lit ''operation-1''" "row_state ?r = R_ADMITTED" by (simp_all add: sample_row_def)
  have e: "encodable (row_id ?r)" using storedD(3) [OF st] by (intro encodable_id [OF storedD(2) [OF st]]) simp
  have rc: "request_checks_ok (columns_of ?c)"
  proof -
    have "request_identity_checks (columns_of ?c) = request_identity_checks (columns_of (sample_row R_SUBMITTING None))"
        "request_limit_checks (columns_of ?c) = request_limit_checks (columns_of (sample_row R_SUBMITTING None))"
      by (simp_all add: request_identity_checks_def request_limit_checks_def sample_row_def)
    moreover have "list_all check_passes (request_progress_checks (columns_of ?c))"
      by (simp add: request_progress_checks_def sample_row_def research_cleanup_value.simps research_accounting_value.simps)
    ultimately show ?thesis by (simp add: request_checks_ok_def sample_identity_checks sample_limit_checks)
  qed
  have "request_admissible ?db (columns_of ?c)"
    using rc by (simp add: request_admissible_def request_fk_ok_def sample_db_def sample_row_def)
  then have c: "claim_submission 1700000000000 (row_id ?r) ?db = (Inr (Some ?c), put_request ?c ?db)"
    using claim_step(2) [OF storedD(2) [OF st] e storedD(3) [OF st] i(2) refl, of 1700000000000] by simp
  have a: "run active_request ?w = (Inr (Some ?r), ?w)"
    using active_run [of ?r ?w] st by (simp add: sample_world_def i)
  have p: "provider_request_post_init (provider_request_of ?c) = Inr ()"
    by (simp add: provider_request_post_init_def provider_request_of_def sample_row_def sample_values utf8_length_def
        encodable_def utf8_size_def utf8_char_size_def lit_def strip_def is_space_def ok_unit)
  let ?w1 = "\<lparr>wd_db = put_request ?c ?db, wd_calls = [PSubmit (provider_request_of ?c)], wd_ticks = 1\<rparr>"
  let ?obs = "\<lparr>ob_kind = O_RUNNING, ob_remote_handle = Some (lit ''resp_1''), ob_answer = None, ob_error_code = None\<rparr>"
  have q: "silent (apply_submit_observation sample_env ?c ?obs)"
    unfolding apply_submit_observation_def by (intro silent_bindE) simp_all
  have s: "run (submit_claimed sample_env ?c) \<lparr>wd_db = put_request ?c ?db, wd_calls = [], wd_ticks = 1\<rparr>
      = run (apply_submit_observation sample_env ?c ?obs) ?w1"
    by (simp add: submit_claimed_def Let_def p provider_call_prog_def) (simp add: sample_env_def sample_observation)
  obtain y w2 where w2: "run (apply_submit_observation sample_env ?c ?obs) ?w1 = (y, w2)"
    by (cases "run (apply_submit_observation sample_env ?c ?obs) ?w1")
  have "wd_calls w2 = [PSubmit (provider_request_of ?c)]" using silentD [OF q w2] by simp
  moreover have "snd (run (submit_pending sample_env) ?w) = w2"
  proof -
    have en: "submission_enabled sample_env = ret True" by (simp add: submission_enabled_def sample_env_def)
    have ck: "run (clock_ms sample_env) ?w = (Inr 1700000000000, \<lparr>wd_db = ?db, wd_calls = [], wd_ticks = 1\<rparr>)"
      by (simp add: clock_ms_def tick_def sample_env_def sample_world_def)
    have cl: "run (tx (claim_submission 1700000000000 (row_id ?r))) \<lparr>wd_db = ?db, wd_calls = [], wd_ticks = 1\<rparr>
        = (Inr (Some ?c), \<lparr>wd_db = put_request ?c ?db, wd_calls = [], wd_ticks = 1\<rparr>)"
      by (simp add: tx_def c)
    show ?thesis
      unfolding submit_pending_def en run_bindE run_ret prod.case sum.case not_True_eq_False if_False a option.case i(2)
        simp_thms ck cl s w2
      by (cases y) simp_all
  qed
  ultimately show ?thesis by (simp add: submitted_def provider_request_of_def i)
qed

text \<open>The world after that submission, reached by a thread of its own.\<close>

definition submitted_world :: research_world where
  "submitted_world = run_calls sample_env [CSubmit] (sample_world (sample_row R_ADMITTED None))"

lemma run_as_thread: "snd (run (as_thread p) w) = snd (run p w)"
  by (cases "run p w") (simp add: as_thread_def)

lemma submitted_world_calls: "submitted submitted_world = [lit ''operation-1'']"
  using sample_submits by (simp add: submitted_world_def run_as_thread)

lemma submitted_world_reached:
  "\<exists>ps'. (par_step (coordinator_thread sample_env))\<^sup>*\<^sup>* ([], sample_world (sample_row R_ADMITTED None)) (ps', submitted_world)"
  unfolding submitted_world_def by (rule run_calls_reach)

end
