(* ===== verification/Research_Properties.thy ===== *)
theory Research_Properties
  imports Research_Samples
begin

text \<open>
  The properties of the research subsystem: the coordinator of
  \<open>src/framenest/application/research.py\<close> over the request, budget and record repositories.
  \<open>par_step (coordinator_thread env)\<close> are the interleavings of the steps of any number of
  coordinator operations, with threads that start at any time and a process that may stop;
  \<open>run_calls env cs\<close> performs operations one after the other.
\<close>

text \<open>C3. The provider is asked at most once to create an operation: whatever coordinator
  operations run, however their steps interleave and wherever the process stops and starts again,
  no operation id is submitted twice.\<close>

theorem at_most_one_submission:
  assumes "(par_step (coordinator_thread env))\<^sup>*\<^sup>* ([], w) (ps, w')" and "wd_calls w = []"
  shows "count_list (submitted w') operation_id \<le> 1"
  by (rule reachable_one_submission [OF assms])

theorem at_most_one_submission_witness:
  "submitted submitted_world = [lit ''operation-1''] \<and> count_list (submitted submitted_world) (lit ''operation-1'') \<le> 1"
proof -
  obtain ps where r: "(par_step (coordinator_thread sample_env))\<^sup>*\<^sup>*
      ([], sample_world (sample_row R_ADMITTED None)) (ps, submitted_world)"
    using submitted_world_reached by blast
  show ?thesis
    using at_most_one_submission [OF r, of "lit ''operation-1''"] submitted_world_calls by (simp add: sample_world_def)
qed

text \<open>C6. In every interleaving the budgets hold: the holds of a day and of a month, each up to what
  it reserved, never exceed the ceilings of 10 and 30 dollars, whatever limits the selections ask for.\<close>

theorem budget_within_ceilings:
  assumes "(par_step (coordinator_thread env))\<^sup>*\<^sup>* ([], w) (ps, w')"
    and "tables_ok (wd_db w)" and "within_budget (wd_db w)"
  shows "charged hd_day_key day (rd_holds (wd_db w')) \<le> 10000000
    \<and> charged hd_month_key month (rd_holds (wd_db w')) \<le> 30000000"
  using budgeted.reachable_database [OF assms(1)] assms(2,3)
  by (simp add: within_budget_def MAX_DAILY_BUDGET_MICRO_USD_def MAX_MONTHLY_BUDGET_MICRO_USD_def)

lemma sample_within_budget: "within_budget (sample_db r)"
  by (simp add: within_budget_def sample_db_def charged_def charge_def hold_consumption_def sample_hold_def
      research_accounting_value.simps MAX_DAILY_BUDGET_MICRO_USD_def MAX_MONTHLY_BUDGET_MICRO_USD_def)

theorem budget_within_ceilings_witness:
  "charged hd_day_key (lit ''2020-09-13'') (rd_holds (wd_db submitted_world)) \<le> 10000000"
proof -
  obtain ps where r: "(par_step (coordinator_thread sample_env))\<^sup>*\<^sup>*
      ([], sample_world (sample_row R_ADMITTED None)) (ps, submitted_world)"
    using submitted_world_reached by blast
  have "tables_ok (wd_db (sample_world (sample_row R_ADMITTED None)))"
      "within_budget (wd_db (sample_world (sample_row R_ADMITTED None)))"
    using sample_db_ok(2) [of None R_ADMITTED] sample_within_budget by (simp_all add: sample_world_def)
  then show ?thesis using budget_within_ceilings [OF r] by blast
qed

text \<open>C11. In every interleaving the research tables stay consistent: the constraints of each table,
  one request per client key, exactly one hold per request, a slot that names a stored request,
  and requests, records and documents that refer to each other.\<close>

theorem research_tables_consistent:
  assumes "(par_step (coordinator_thread env))\<^sup>*\<^sup>* ([], w) (ps, w')" and "tables_ok (wd_db w)"
  shows "tables_ok (wd_db w')"
  by (rule consistent.reachable_database [OF assms])

theorem research_tables_consistent_witness: "tables_ok (wd_db submitted_world)"
proof -
  obtain ps where r: "(par_step (coordinator_thread sample_env))\<^sup>*\<^sup>*
      ([], sample_world (sample_row R_ADMITTED None)) (ps, submitted_world)"
    using submitted_world_reached by blast
  show ?thesis
    by (rule research_tables_consistent [OF r]) (use sample_db_ok(2) [of None R_ADMITTED] in \<open>simp add: sample_world_def\<close>)
qed

text \<open>C8. Operations that run one after the other keep one request in flight: at most one stored
  request is not finished, and the active slot names exactly that one.\<close>

theorem single_flight:
  assumes "env_ok env" and "flight_ok (wd_db w)"
  shows "let db = wd_db (run_calls env cs w) in
    (\<forall>i r j s. request_map db i = Some r \<and> \<not> is_terminal_lifecycle (row_state r)
      \<and> request_map db j = Some s \<and> \<not> is_terminal_lifecycle (row_state s) \<longrightarrow> i = j)
    \<and> (\<forall>i. held_operation db = Some i \<longleftrightarrow>
        (\<exists>r. request_map db i = Some r \<and> \<not> is_terminal_lifecycle (row_state r)))"
proof -
  let ?db = "wd_db (run_calls env cs w)"
  have f: "flight_ok ?db" by (rule run_calls_flight [OF assms])
  note t = flight_okD(2) [OF f]
  have "\<exists>r. request_map ?db i = Some r" if "held_operation ?db = Some i" for i
    using that db_okD(1,2) [OF flight_okD(1) [OF f]] select_request_map(3) [of ?db i] by (fastforce simp: slot_ok_def)
  then show ?thesis using t unfolding Let_def by (metis option.inject)
qed

theorem single_flight_witness:
  "\<forall>i. held_operation (wd_db submitted_world) = Some i \<longleftrightarrow>
     (\<exists>r. request_map (wd_db submitted_world) i = Some r \<and> \<not> is_terminal_lifecycle (row_state r))"
proof -
  have f: "flight_ok (wd_db (sample_world (sample_row R_ADMITTED None)))"
    using storedD(1) [OF sample_stored [of None R_ADMITTED]] by (simp add: sample_world_def)
  show ?thesis
    using single_flight [OF sample_env_ok f, of "[CSubmit]"] unfolding submitted_world_def Let_def by blast
qed

lemma silent_admit: "silent (admit env owner client kind prompt consent)"
  unfolding admit_def admit_new_def admission_blocker_def store_admission_def Let_def
  by (auto intro!: silent_bindE split: option.splits sum.splits)

text \<open>C12. An admission stores everything or nothing: it fails and leaves the database as it was, or
  returns the stored request of the client, which asks for the same, or it adds the request, its
  hold within the limits of the selection, and takes the free slot.  The provider is not called.\<close>

theorem admission_all_or_nothing:
  assumes "flight_ok (wd_db w)" and "run (admit env owner client kind prompt consent) w = (x, w')"
  shows "admission_result owner client kind prompt (wd_db w) x (wd_db w') \<and> wd_calls w' = wd_calls w"
  using tripleD [OF admit_result [OF assms(1)] refl assms(2)] silentD [OF silent_admit assms(2)] by blast

theorem admission_all_or_nothing_witness:
  "\<exists>x w'. run (admit sample_env (lit ''bob@example.org'') (lit ''client-2'') SEARCH (lit ''Hello?'') (lit ''1''))
     (sample_world (sample_row R_ADMITTED None)) = (x, w')
   \<and> admission_result (lit ''bob@example.org'') (lit ''client-2'') SEARCH (lit ''Hello?'')
     (sample_db (sample_row R_ADMITTED None)) x (wd_db w')"
proof -
  let ?w = "sample_world (sample_row R_ADMITTED None)"
  let ?p = "admit sample_env (lit ''bob@example.org'') (lit ''client-2'') SEARCH (lit ''Hello?'') (lit ''1'')"
  obtain x w' where r: "run ?p ?w = (x, w')" by (cases "run ?p ?w")
  have f: "flight_ok (wd_db ?w)"
    using storedD(1) [OF sample_stored [of None R_ADMITTED]] by (simp add: sample_world_def)
  show ?thesis using admission_all_or_nothing [OF f r] r by (simp add: sample_world_def)
qed

text \<open>C14. An expired request ends: one poll after the deadline asks the provider to cancel it, stores
  it as timed out, frees the slot, leaves the other requests alone and keeps its reservation
  consumed, whatever the provider answers.\<close>

theorem expired_request_times_out:
  assumes "stored row (wd_db w)" and "row_state row \<in> {R_RUNNING, R_CANCEL_REQUESTED}"
    and "row_handle row = Some handle"
    and "en_clock env (wd_ticks w) - rw_admitted_at_ms row \<ge> rq_deadline_seconds (rw_record row) * 1000"
    and "rw_admitted_at_ms row \<le> en_clock env (Suc (wd_ticks w))"
    and "run (poll_once env) w = (x, w')"
  shows "wd_calls w' = wd_calls w @ [PCancel handle] \<and> held_operation (wd_db w') = None
    \<and> (\<exists>r. request_map (wd_db w') = (request_map (wd_db w))(row_id row \<mapsto> r) \<and> row_state r = R_TIMEOUT
         \<and> rq_error_code (rw_record r) = Some E_TIMEOUT \<and> rq_cleanup_state (rw_record r) = RC_PENDING)
    \<and> consumed_where hd_day_key day (wd_db w') = consumed_where hd_day_key day (wd_db w)"
  using poll_expired [OF assms] assms(3) by (auto simp: kept_def finished_row_def Let_def)

theorem expired_request_times_out_witness:
  "\<exists>w'. snd (run (poll_once sample_env) (sample_world (sample_row R_RUNNING (Some (lit ''resp_1''))))) = w'
     \<and> wd_calls w' = [PCancel (lit ''resp_1'')] \<and> held_operation (wd_db w') = None"
proof -
  let ?r = "sample_row R_RUNNING (Some (lit ''resp_1''))" let ?w = "sample_world ?r"
  obtain x w' where r: "run (poll_once sample_env) ?w = (x, w')" by (cases "run (poll_once sample_env) ?w")
  have s: "stored ?r (wd_db ?w)" using sample_stored [of "Some (lit ''resp_1'')" R_RUNNING] by (simp add: sample_world_def)
  have f: "row_state ?r \<in> {R_RUNNING, R_CANCEL_REQUESTED}" "row_handle ?r = Some (lit ''resp_1'')"
      "en_clock sample_env (wd_ticks ?w) - rw_admitted_at_ms ?r \<ge> rq_deadline_seconds (rw_record ?r) * 1000"
      "rw_admitted_at_ms ?r \<le> en_clock sample_env (Suc (wd_ticks ?w))"
    by (simp_all add: sample_row_def sample_env_def sample_world_def)
  show ?thesis using expired_request_times_out [OF s f r] r by (simp add: sample_world_def)
qed

text \<open>C15. A submission interrupted by a crash ends: \<open>recover\<close> stores the request as of unknown
  submission, frees the slot, keeps its reservation consumed and does not call the provider.\<close>

theorem interrupted_submission_settles:
  assumes "stored row (wd_db w)" and "row_state row = R_SUBMITTING"
    and "rw_admitted_at_ms row \<le> en_clock env (wd_ticks w)" and "run (recover env) w = (x, w')"
  shows "wd_calls w' = wd_calls w \<and> held_operation (wd_db w') = None
    \<and> (\<exists>r. request_map (wd_db w') = (request_map (wd_db w))(row_id row \<mapsto> r) \<and> row_state r = R_SUBMISSION_UNKNOWN
         \<and> rq_error_code (rw_record r) = Some E_SUBMISSION_UNKNOWN \<and> rq_accounting_state (rw_record r) = RA_UNKNOWN)
    \<and> consumed_where hd_month_key month (wd_db w') = consumed_where hd_month_key month (wd_db w)"
  using recover_submitting [OF assms] by (auto simp: kept_def finished_row_def Let_def)

theorem interrupted_submission_settles_witness:
  "held_operation (wd_db (snd (run (recover sample_env) (sample_world (sample_row R_SUBMITTING None))))) = None"
proof -
  let ?r = "sample_row R_SUBMITTING None" let ?w = "sample_world ?r"
  obtain x w' where r: "run (recover sample_env) ?w = (x, w')" by (cases "run (recover sample_env) ?w")
  have s: "stored ?r (wd_db ?w)" using sample_stored [of None R_SUBMITTING] by (simp add: sample_world_def)
  have f: "row_state ?r = R_SUBMITTING" "rw_admitted_at_ms ?r \<le> en_clock sample_env (wd_ticks ?w)"
    by (simp_all add: sample_row_def sample_env_def sample_world_def)
  show ?thesis using interrupted_submission_settles [OF s f r] r by simp
qed

text \<open>C27. The cost of a usage report is never understated: it is at least the exact cost and less than
  five micro-dollars above it, and a report that does not determine the cost is refused.\<close>

theorem usage_cost_never_understated:
  assumes "usage_valid u" and "schedule_valid s"
  shows "if cost_known u s
    then \<exists>t c. tier_prices s (ru_input_tokens u) = Some t \<and> usage_cost_micro_usd u s = Inr c
      \<and> exact_cost u s t \<le> 1000000 * c \<and> 1000000 * c < exact_cost u s t + 5000000
    else usage_cost_micro_usd u s = Inl ResearchValueError"
proof (cases "cost_known u s")
  case True
  then obtain t where t: "tier_prices s (ru_input_tokens u) = Some t" by (auto simp: cost_known_def split: option.splits)
  show ?thesis using usage_cost_bounds [OF assms t True] t True by auto
next
  case False
  then show ?thesis using usage_cost_unknown [OF assms False] by simp
qed

definition sample_usage :: research_usage where
  "sample_usage = \<lparr>ru_input_tokens = 1200, ru_cached_input_tokens = 200, ru_output_tokens = 300,
     ru_reasoning_tokens = 100, ru_web_tool_calls = 2, ru_cache_write_input_tokens = None\<rparr>"

definition sample_schedule :: price_schedule where
  "sample_schedule = \<lparr>ps_input = 2500000, ps_cached_input = 250000, ps_output = 15000001,
     ps_web_search_per_thousand = 10000001, ps_cache_write_input = None, ps_long_context_threshold_tokens = Some 272000,
     ps_long_context = None\<rparr>"

theorem usage_cost_never_understated_witness:
  "\<exists>t c. tier_prices sample_schedule 1200 = Some t \<and> usage_cost_micro_usd sample_usage sample_schedule = Inr c
     \<and> exact_cost sample_usage sample_schedule t \<le> 1000000 * c
     \<and> 1000000 * c < exact_cost sample_usage sample_schedule t + 5000000"
proof -
  have u: "usage_valid sample_usage" by (simp add: usage_valid_def research_usage_post_init_def sample_usage_def)
  have s: "schedule_valid sample_schedule"
    by (simp add: schedule_valid_def price_schedule_post_init_def sample_schedule_def)
  have k: "cost_known sample_usage sample_schedule"
    by (simp add: cost_known_def tier_prices_def sample_usage_def sample_schedule_def)
  have i: "ru_input_tokens sample_usage = 1200" by (simp add: sample_usage_def)
  show ?thesis using usage_cost_never_understated [OF u s] k unfolding i by simp
qed

text \<open>The row of a valid request is read back as the request, so different requests have
  different rows.\<close>

theorem request_row_roundtrip:
  assumes "research_row_valid r"
  shows "\<exists>c. row_to_values r = Inr c \<and> row_from_mapping c = Inr r
    \<and> (\<forall>s. row_to_values s = Inr c \<and> research_row_valid s \<longrightarrow> s = r)"
  using row_to_values_valid [OF assms] row_read_back [OF assms] row_to_values_valid row_read_back
  by (metis sum.inject(2))

theorem request_row_roundtrip_witness:
  "\<exists>c. row_to_values (sample_row R_RUNNING (Some (lit ''resp_1''))) = Inr c
     \<and> row_from_mapping c = Inr (sample_row R_RUNNING (Some (lit ''resp_1'')))"
proof -
  have "research_row_valid (sample_row R_RUNNING (Some (lit ''resp_1'')))"
    by (rule sample_row_valid) (simp add: sample_handle_ok)
  then show ?thesis using request_row_roundtrip by blast
qed

text \<open>C28. The checkpoint of a valid answer is read back as the answer, with its citations, its
  evidence and its usage: a restart completes the request with the answer that was received.\<close>

theorem checkpoint_roundtrip:
  assumes "answer_valid a" and "rw_checkpoint_json row = Some (answer_checkpoint a)"
  shows "answer_from_checkpoint row = Inr (Some a)"
  by (rule checkpoint_read [OF assms])

lemma sample_answer_valid: "answer_valid sample_answer"
  by (simp add: answer_valid_def sample_answer_def citation_valid_def citation_post_init_def research_answer_post_init_def
      research_usage_post_init_def utf8_length_def encodable_def utf8_size_def utf8_char_size_def lit_def is_space_def
      research_limits text_ok_def)

theorem checkpoint_roundtrip_witness:
  "answer_from_checkpoint ((sample_row R_VALIDATING None)\<lparr>rw_checkpoint_json := Some (answer_checkpoint sample_answer)\<rparr>)
    = Inr (Some sample_answer)"
  by (rule checkpoint_roundtrip [OF sample_answer_valid]) simp

text \<open>C29. The columns of a valid completed document are read back as the document: its citations and
  its evidence pass through their canonical JSON text.\<close>

theorem document_roundtrip:
  assumes "document_valid U d"
  shows "(let r = document_values d in document_from_storage U (PyStr (dr_id r)) (PyStr (dr_operation_id r))
      (PyStr (dr_kind r)) (PyStr (dr_question_text r)) (PyStr (dr_answer_text r)) (PyStr (dr_citations_json r))
      (PyStr (dr_completion_evidence_json r)) (PyInt (dr_created_at_ms r)) (PyInt (dr_completed_at_ms r))) = Inr d"
  by (rule document_read [OF assms])

lemma encodable_ascii: "list_all (\<lambda>c. c < 128) s \<Longrightarrow> encodable s"
  by (auto simp: encodable_def list_all_iff)

definition sample_document :: completed_document where
  "sample_document = \<lparr>cdoc_document_id = sample_uuid 2, cdoc_operation_id = lit ''operation-1'', cdoc_kind = RK_SEARCH,
     cdoc_question_text = lit ''Capital of France?'', cdoc_answer_text = lit ''Paris'',
     cdoc_citations = an_citations sample_answer, cdoc_evidence = an_evidence sample_answer,
     cdoc_created_at_ms = 1600000000000, cdoc_completed_at_ms = 1600000001000\<rparr>"

lemma sample_document_valid: "document_valid ascii_tables sample_document"
proof -
  have g: "\<not> glob_uuid (uni_casefold ascii_tables (lit ''operation-1''))" "\<not> list_ex is_cc (lit ''operation-1'')"
    by code_simp+
  have t: "parse_operation_token ascii_tables (lit ''operation-1'') = Inr (lit ''operation-1'')"
    using g by (simp add: parse_operation_token_def MAX_OPERATION_TOKEN_LENGTH_def utf8_length_def encodable_def utf8_size_def
        utf8_char_size_def lit_def)
  have c: "list_all citation_valid (cdoc_citations sample_document)"
    using sample_answer_valid by (simp add: answer_valid_def sample_document_def)
  have "ok (document_post_init ascii_tables sample_document)"
    using t by (simp add: document_post_init_def sample_document_def sample_answer_def nonblank_text_def completion_error_def
        require_timestamp_def utf8_length_def encodable_def utf8_size_def utf8_char_size_def lit_def strip_def is_space_def
        research_limits ok_unit)
  then show ?thesis using c by (simp add: document_valid_def sample_document_def)
qed

theorem document_roundtrip_witness:
  "(let r = document_values sample_document in document_from_storage ascii_tables (PyStr (dr_id r)) (PyStr (dr_operation_id r))
      (PyStr (dr_kind r)) (PyStr (dr_question_text r)) (PyStr (dr_answer_text r)) (PyStr (dr_citations_json r))
      (PyStr (dr_completion_evidence_json r)) (PyInt (dr_created_at_ms r)) (PyInt (dr_completed_at_ms r))) = Inr sample_document"
  by (rule document_roundtrip [OF sample_document_valid])

text \<open>C30. A fingerprint stands for one request: two requests with the same fingerprint agree in owner,
  kind, prompt and consent version, or exhibit a collision of SHA-256.\<close>

theorem fingerprint_determines_request:
  assumes "list_all (text_ok False) [o1, p1, c1, o2, p2, c2]"
    and "research_request_fingerprint env o1 k1 p1 c1 = Inr f" and "research_request_fingerprint env o2 k2 p2 c2 = Inr f"
  shows "(o1 = o2 \<and> k1 = k2 \<and> p1 = p2 \<and> c1 = c2) \<or> (\<exists>s t. s \<noteq> t \<and> en_sha256 env s = en_sha256 env t)"
proof -
  let ?s = "json_dumps compact_style (fingerprint_object o1 k1 p1 c1)"
  let ?t = "json_dumps compact_style (fingerprint_object o2 k2 p2 c2)"
  have "en_sha256 env ?s = en_sha256 env ?t"
    using assms(2,3) by (simp add: research_request_fingerprint_def sha256_text_def split: if_splits)
  then show ?thesis using fingerprint_text_inj [OF assms(1)] by blast
qed

theorem fingerprint_determines_request_witness:
  "\<exists>f. research_request_fingerprint (sample_env\<lparr>en_sha256 := id\<rparr>) (lit ''a'') SEARCH (lit ''p'') (lit ''1'') = Inr f
     \<and> (\<forall>p. text_ok False p \<and> research_request_fingerprint (sample_env\<lparr>en_sha256 := id\<rparr>) (lit ''a'') SEARCH p (lit ''1'') = Inr f
          \<longrightarrow> p = lit ''p'')"
proof -
  let ?e = "sample_env\<lparr>en_sha256 := id\<rparr>"
  let ?f = "json_dumps compact_style (fingerprint_object (lit ''a'') SEARCH (lit ''p'') (lit ''1''))"
  have "list_all (\<lambda>c. c < 128) ?f" by code_simp
  then have "encodable ?f" by (rule encodable_ascii)
  then have f: "research_request_fingerprint ?e (lit ''a'') SEARCH (lit ''p'') (lit ''1'') = Inr ?f"
    by (simp add: research_request_fingerprint_def sha256_text_def)
  have "p = lit ''p''" if t: "text_ok False p" and g: "research_request_fingerprint ?e (lit ''a'') SEARCH p (lit ''1'') = Inr ?f" for p
    using fingerprint_determines_request [OF _ f g] t by simp
  then show ?thesis using f by blast
qed

section \<open>A request nobody moves\<close>

text \<open>A request whose cancellation was asked for before a provider handle was stored stays as it is:
  no coordinator operation but an admission or a cleanup changes the database, and an admission of
  another client is refused as busy.\<close>

lemma cancelled_early_blocks:
  assumes st: "stored row (wd_db w)" and c: "cancelled_early row"
    and new: "client_row (wd_db w) owner client = None"
    and r: "run (admit env owner client kind prompt consent) w = (x, w')"
  shows "wd_db w' = wd_db w" and "\<exists>e. x = Inl e"
proof -
  have f: "flight_ok (wd_db w)" by (rule storedD(1) [OF st])
  have h: "held_operation (wd_db w) \<noteq> None" using storedD(5) [OF st] c by (auto simp: cancelled_early_def)
  have a: "admission_result owner client kind prompt (wd_db w) x (wd_db w')"
    by (rule tripleD [OF admit_result [OF f] refl r])
  have "False" if y: "x = Inr y" for y
    using a h new unfolding admission_result_def y by (auto simp: admitted_to_def split: if_splits)
  then show e: "\<exists>e. x = Inl e" by (cases x) auto
  then show "wd_db w' = wd_db w" using a by (auto simp: admission_result_def)
qed

end
