(* ===== verification/Spec2Isabelle.thy ===== *)
theory Spec2Isabelle
  imports Youtube_Claim_Properties X_Claim_Properties Pipeline_Samples Upload_Concurrency Upload_Validation_Outcome
    Upload_Listing Upload_Service_Properties Session_Locks Research_Properties
begin

text \<open>
  FrameNest: a verification development of its core.

  The program.  FrameNest keeps a private media catalog.  A file is uploaded in chunks into a
  session, validated, deduplicated by its exact bytes, published into a library directory and
  entered into the catalog; YouTube videos and X posts are acquired through claims that end in the
  same pipeline.  A search or research question is admitted against a budget, submitted once to a
  provider, polled, and completed as a document and a record.  The domain modules
  (\<open>src/framenest/domain\<close>) are immutable values whose constructors validate every field; the repositories (\<open>infrastructure/persistence\<close>) keep them in
  SQLite tables with CHECK constraints and change them by guarded UPDATE statements that demand the
  expected state and version; the application services sequence repository calls.

  The theories, each with the definitions of its part before its lemmas:

  \<^item> \<open>Prelude\<close>: Python values, errors as sums (\<open>'e + 'a\<close>), guard sequences (\<open>all_checks\<close>), character
    classes, splitting and stripping of text, the tables of the Unicode database as a parameter.
  \<^item> \<open>Identities\<close>: UUIDv4 identities and their text (\<open>domain/identities.py\<close>); the interfaces
    \<open>text_codec\<close> and \<open>enum_codec\<close> of an encoding by text.
  \<^item> \<open>Lifecycle\<close>: transition tables, the interfaces \<open>lifecycle\<close> and \<open>ranked_lifecycle\<close>.
  \<^item> \<open>Snapshots\<close>: runs of operations on immutable snapshots, the interface \<open>snapshot\<close>.
  \<^item> \<open>Identity_Access\<close>: logins, roles, capabilities and read decisions
    (\<open>domain/identity_access.py\<close>, \<open>domain/record_access.py\<close>).
  \<^item> \<open>Uploads\<close>, \<open>Upload_Publications\<close>, \<open>Media\<close>: the values of the upload pipeline
    (\<open>domain/uploads.py\<close>, \<open>media_byte_identities.py\<close>, \<open>upload_publications.py\<close>, \<open>media.py\<close>,
    \<open>media_metadata.py\<close>, \<open>media_classification.py\<close>): for each class its record, the predicate of
    its \<open>__post_init__\<close> and the lemma that says exactly which values it accepts.
  \<^item> \<open>Sql_Tables\<close>, \<open>Catalog_Schema\<close>: rows, three-valued CHECK constraints, transactions that roll
    back on an error (\<open>engine.py\<close>, \<open>upload_schema.py\<close>, \<open>catalog_schema.py\<close>), the store as a record
    of tables.
  \<^item> \<open>Upload_Session_Repository\<close>, \<open>Upload_Publication_Repository\<close>: every method of the two
    repositories as a function of its arguments and the store to a result and the new store, guards
    in the order of the source, with the conversions between rows and values.
  \<^item> \<open>Upload_Session_Store\<close>, \<open>Upload_Session_Contracts\<close>: the store read as a map of sessions, and the
    refinement of the session operations to that map.
  \<^item> \<open>Catalog_Removal\<close>: the insertions of \<open>media_repository.py\<close> and \<open>remove_catalog_media\<close> of
    \<open>catalog_removal_repository.py\<close> as far as the tables of this store go: it detaches the upload's
    publication and deletes the media, its locations, metadata and tags.  What the other tables
    decide (a bound record, the fingerprint, the receipt, the YouTube claims, foreign keys of X
    assets) is an argument (\<open>removal_outside\<close>) that may be anything.
  \<^item> \<open>Upload_Evidence\<close>, \<open>Publication_Store\<close>, \<open>Upload_Pipeline\<close>, \<open>Upload_History\<close>: the invariant of
    the whole store and its preservation by every command; \<open>pipeline_reachable\<close> are the stores
    reached from an empty one by any sequence of commands with any arguments: every writing method
    of the two upload repositories, of the media repository, and the removal of media.  The
    libraries and tags are those of the start, any ones: registering one later reaches no other
    store, as a command that misses it changes nothing.  Editing the metadata of cataloged media
    writes two tables (\<open>media_metadata_rows\<close>, \<open>media_canonical_tags\<close>) that no statement about
    uploads reads.
  \<^item> \<open>Upload_Liveness\<close>, \<open>Publication_History\<close>, \<open>Upload_Concurrency\<close>, \<open>Upload_Validation_Outcome\<close>,
    \<open>Upload_Listing\<close>: what follows about progress, how a publication evolves and loses its media,
    racing commands, validation and listings.  \<open>Pipeline_Samples\<close>: reachable stores that the witnesses use.
  \<^item> \<open>Upload_Services\<close>, \<open>Upload_Completion\<close>: the entry points and helpers of
    \<open>application/upload_publication.py\<close>, \<open>upload_catalog.py\<close> and \<open>upload_validation.py\<close>;
    \<open>Upload_Transport\<close>, \<open>Upload_Receiving\<close>: \<open>UploadTransportService\<close> of
    \<open>application/upload_transport.py\<close> (\<open>root_paths.py\<close> with it), \<open>receive_chunk\<close> and the recovery of
    a failed chunk among it.  Each operation is a program (\<open>Programs\<close>) whose steps are repository
    transactions on the store of \<open>Upload_Pipeline\<close>, calls of the quarantine, the published storage
    and the validator, and clock readings; a service holds its ports in a record
    (\<open>upload_ports\<close>, \<open>transport_ports\<close>).  \<open>Session_Locks\<close>: \<open>UploadSessionLockRegistry\<close> as a step
    relation (\<open>lease_step\<close>) and its invariant.
  \<^item> \<open>Upload_Service_Steps\<close>, \<open>Upload_Service_Safety\<close>,
    \<open>Upload_Service_Guarantees\<close>, \<open>Upload_Service_Interleavings\<close>, \<open>Upload_Service_Runs\<close>: what one
    step may do to the store and to the recorded removals and confirmations, and the invariant that
    every interleaving of calls with stops at any time keeps (\<open>upload_runs\<close>; the interpretation
    \<open>upload_services\<close> of \<open>shared_invariant\<close>).  \<open>Upload_Service_Progress\<close>,
    \<open>Upload_Service_Outcomes\<close>, \<open>Upload_Chunk_Outcome\<close>: what a single call of publication,
    validation and \<open>receive_chunk\<close> returns and leaves.  \<open>Upload_Service_Samples\<close>,
    \<open>Upload_Service_Properties\<close>: sample ports and worlds, and the properties.
  \<^item> \<open>Url_Parsing\<close>: the part of \<open>urllib.parse\<close> the source policies call.  \<open>Claim_Fields\<close>: the field
    validators both claims share.  \<open>Youtube_Url\<close>, \<open>Youtube_Claims\<close> (\<open>domain/youtube_acquisition.py\<close>)
    and \<open>X_Url\<close>, \<open>X_Claims\<close> (\<open>domain/x_acquisition.py\<close>): URL policies, claims and assets, their
    transition tables and operations.
  \<^item> \<open>Youtube_Claim_Rows\<close>, \<open>Youtube_Claim_Facts\<close>: the table \<open>youtube_acquisition_claims\<close> with its
    constraints, its rows as claims, and which claims the constraints take.  \<open>Keyed_Rows\<close>: tables with
    a primary key and constraints between rows, the interfaces \<open>keyed_rows\<close> and \<open>snapshot_table\<close>.
  \<^item> \<open>Youtube_Claim_Repository\<close>: every method of \<open>youtube_acquisition_claim_repository.py\<close> and the
    claims' step of \<open>catalog_removal_repository.py\<close>; \<open>Youtube_Claim_Store\<close>, \<open>Youtube_Claim_History\<close>,
    \<open>Youtube_Claim_Properties\<close>: the table read as a map of claims, runs of transactions on it
    (\<open>claims_step\<close>) and what they keep.
  \<^item> \<open>Media_User_Alias\<close> (\<open>domain/media_user_alias.py\<close>); \<open>X_Claim_Rows\<close>: the tables \<open>x_post_claims\<close>,
    \<open>x_assets\<close> and the two of the pending aliases; \<open>X_Claim_Repository\<close>: every method of
    \<open>x_acquisition_claim_repository.py\<close>; \<open>X_Claim_Facts\<close>, \<open>X_Claim_Store\<close>, \<open>X_Claim_History\<close>,
    \<open>X_Pending_Aliases\<close>, \<open>X_Claim_Properties\<close>: rows as claims and assets, the tables read as maps,
    runs of transactions on them (\<open>x_step\<close>), the outcome of a save and of writing an alias.
  \<^item> \<open>Json_Text\<close>, \<open>Json_Roundtrip\<close>: \<open>json.dumps\<close> in the three styles the program uses, \<open>json.loads\<close>,
    and that a dumped value is read back.
  \<^item> \<open>Research_Values\<close> (\<open>domain/research.py\<close>), \<open>Research_Rows\<close> and \<open>Record_Documents\<close> (the research and
    record tables of \<open>catalog_schema.py\<close>, \<open>domain/records.py\<close> as far as documents go,
    \<open>SqliteResearchResultCompletion\<close>), \<open>Research_Repository\<close> (\<open>research_request_repository.py\<close>,
    \<open>research_budget_repository.py\<close>): values, rows, and every repository method as a transaction.
  \<^item> \<open>Programs\<close>: sequential programs of atomic steps, their interleavings (\<open>par_step\<close>: threads start
    at any time and may stop at any step) and rely-guarantee reasoning about them.
    \<open>Research_Coordinator\<close> (\<open>application/research.py\<close>): every method of the coordinator as a program
    whose steps are transactions, provider calls and clock readings.
  \<^item> \<open>Research_Steps\<close>, \<open>Research_Moves\<close>, \<open>Research_Invariants\<close>, \<open>Research_Submission\<close>: the interfaces
    \<open>coordinator_steps\<close>, \<open>database_invariant\<close>, \<open>move_invariant\<close> and their interpretations: what every
    interleaving keeps.  \<open>Research_Store\<close>, \<open>Research_Runs\<close>, \<open>Research_Outcomes\<close>: the table read as a
    map of requests, operations one after the other, the outcome of single operations.
    \<open>Research_Documents\<close>: checkpoints, documents and fingerprints.  \<open>Research_Samples\<close>,
    \<open>Research_Properties\<close>: a sample world, and the properties.

  Correspondence.  A Python \<open>str\<close> is its list of code points, an \<open>int\<close> is an \<open>int\<close> (they do not
  overflow), a parameter annotated \<open>object\<close> is a \<open>pyobj\<close> so that every \<open>isinstance\<close> test is a branch.
  A dataclass is a record, an enumeration a datatype with its text value, a table the list of its
  rows.  A raise is \<open>Inl\<close> of the error; a repository method that raises leaves the store as it
  was.  A fresh random UUID is an argument.  \<open>**changes\<close> of a snapshot operation is the update it
  makes.  \<open>str.lower\<close>, \<open>str.casefold\<close>, Unicode normalisation, \<open>\d\<close>, RFC 2047 decoding and the
  validity of IP literals belong to the runtime and are parameters (\<open>unicode_tables\<close>); a property
  that needs a law of theirs names it as a hypothesis.

  Properties.  C1, C5, C9, C10 and C16 (\<open>Upload_Service_Properties\<close>) are about the upload
  services: no upload is lost, published files are confirmed, and the outcome of a chunk, of a
  publication and of a validation; C17 (\<open>Session_Locks\<close>) is about their locks.  C2, C4, C7, C13,
  C23 to C26 and C31 to C33 (this theory) are about the upload repositories: backing of
  publications and catalog entries, progress of a publication, histories, terminal states, stale
  commands, byte identities, validation outcomes, the refinement of the session operations,
  listings and paths.  C3, C6, C8, C11, C12, C14, C15 and C27 to C30
  (\<open>Research_Properties\<close>) are about research.  C34 and C35 (\<open>Identity_Access\<close>) are about
  authorization, C36 (\<open>Youtube_Url\<close>), C37 (\<open>Youtube_Claims\<close>), C38 and C39 (\<open>X_Url\<close>) about
  acquisition, C18, C19 and C40 (\<open>Youtube_Claim_Properties\<close>) and C20 to C22
  (\<open>X_Claim_Properties\<close>) about stored claims.

  Bounds.  The loops of the source range over lists or text and the definitions recurse on them.
  Two kinds of loop have fuel.  \<open>json_loads\<close> has twice the length of the text:
  \<open>json_value_fuel\<close> shows that more fuel changes nothing, for any text.  The loops that read a file
  or a request body to its end (\<open>hash_chunks\<close>, \<open>write_body\<close>) have \<open>rounds\<close>, an argument of the
  operation, because a reader need never report the end; running out is the error \<open>Unfinished\<close>,
  which no handler of the services catches.  More rounds than bytes suffice for a reader that
  serves a file in non-empty chunks (\<open>hash_chunks_gives\<close>), and the safety properties hold for every
  number of rounds.

  Not modelled: the HTTP and command-line adapters, the ASGI and subprocess plumbing, the file
  system, network and downloader effects, the AI providers and their configuration, backups and
  migrations, the SQL engine beyond what its statements and constraints do, the
  coordinators that list uploads and call the upload services, the wrapping of an upload operation
  in its lease (its program may interleave with every other one, which is more than the leases
  allow), the application services of acquisition, and the product areas of records (approvals, projections,
  listings), companion review and metadata editing.  Of the X module the title heuristics, the
  creator normalisation and the failure-code sets are left out.  Of the research subsystem the
  provider, the selection, the admission guard, the clock and SHA-256 are parameters; \<open>str\<close> of a
  float or a container and \<open>int\<close> of a text in a checkpoint, and the recursion limit of the JSON
  reader are left out.
\<close>

section \<open>What every reachable catalog satisfies\<close>

text \<open>C2. In every store the repositories can reach, a stored publication belongs to a stored
  upload: it repeats the upload's size, checksum, media kind, format and byte identity, the two
  rows are in matching phases of the pipeline, and while the publication names a media row, that
  row and the named location exist and point at the published file.  (A verified publication
  without media belongs to a published upload, or to a cataloged one whose media was removed from
  the catalog.)\<close>

theorem publication_backed_by_upload:
  assumes "pipeline_reachable db" and "stored_publication db i = Some p"
  shows "\<exists>s. stored_session db i = Some s \<and> evidence_matches p s \<and> phase_matches p s
    \<and> (up_media_id p \<noteq> None \<longrightarrow> catalog_links_resolve db p)"
proof -
  have ok: "pipeline_ok db" by (rule reachable_pipeline_ok [OF assms(1)])
  then have "publication_linked db p" "up_upload_id p = i"
    using assms(2) stored_nonneg(2) unfolding pipeline_ok_def by blast+
  then show ?thesis unfolding publication_linked_def by blast
qed

theorem publication_backed_by_upload_witness:
  "\<exists>s. stored_session sample_cataloged (sample_uuid 0) = Some s \<and> us_state s = U_CATALOGED"
proof -
  obtain s where s: "stored_session sample_cataloged (sample_uuid 0) = Some s"
      and p: "phase_matches (linked_publication (sample_uuid 4) (sample_uuid 1) 6
        (cleaned 5 (verified 4 sample_reservation))) s"
    using publication_backed_by_upload [OF sample_cataloged_reachable sample_cataloged_stored(2)] by blast
  have "us_state s = U_CATALOGED" using p by (simp add: phase_matches_def)
  with s show ?thesis by blast
qed

text \<open>C4. After any run of commands, a cataloged upload has a verified and cleaned-up publication
  with its evidence, and it is completely in the catalog: the media row and the location row the
  publication names exist, the location naming that media row, the library the file was published
  to and the published path.  The one exception is an upload whose media was removed: then the
  publication names no media and no location, and the run has a removal that succeeded on the media
  the publication named just before it.\<close>

theorem cataloged_upload_resolves:
  assumes "list_all valid_command cs" and "db = pipeline_run libs tags cs"
    and "stored_session db i = Some s" and "us_state s = U_CATALOGED"
  shows "\<exists>p. stored_publication db i = Some p \<and> up_state p = P_VERIFIED
    \<and> up_cleanup_state p = C_COMPLETE \<and> evidence_matches p s
    \<and> (case up_media_id p of
         Some m \<Rightarrow> (\<exists>l. up_media_location_id p = Some l
           \<and> uuid_to_text m \<in> set (map mr_id (logical_media_rows db))
           \<and> (\<exists>row \<in> set (physical_media_locations db). lr_id row = uuid_to_text l
               \<and> lr_media_id row = uuid_to_text m
               \<and> lr_library_id row = uuid_to_text (up_destination_id p)
               \<and> lr_relative_path row = up_relative_path p))
       | None \<Rightarrow> up_media_location_id p = None \<and> removed_in_run libs tags cs i)"
proof -
  have ok: "pipeline_ok db"
    using reachable_pipeline_ok [OF run_reachable [OF assms(1)]] by (simp add: assms(2))
  then obtain p where p: "stored_publication db i = Some p"
    using assms(3,4) unfolding pipeline_ok_def by blast
  note f = pipeline_stored_publication [OF ok p assms(3)]
  have st: "up_state p = P_VERIFIED" "up_cleanup_state p = C_COMPLETE"
    using f(1) assms(4) by (cases "up_state p"; simp add: phase_matches_def)+
  have wf: "upload_publication_wf p" using ok stored_publication_wf p by (auto simp: pipeline_ok_def)
  show ?thesis
  proof (cases "up_media_id p")
    case None
    then have "removed_in_run libs tags cs i"
      using cataloged_without_media [OF assms(1)] assms(2-4) p by blast
    then show ?thesis using p st f(2) None wf by (simp add: upload_publication_wf_def)
  next
    case (Some m)
    then have "catalog_links_resolve db p" using f(4) by simp
    then show ?thesis
      using p st f(2) Some
      by (auto simp: catalog_links_resolve_def sql_first_def find_Some_iff split: option.splits)
  qed
qed

theorem cataloged_upload_resolves_witness:
  "(\<exists>p. stored_publication sample_cataloged (sample_uuid 0) = Some p \<and> up_cleanup_state p = C_COMPLETE)
    \<and> removed_in_run [uuid_to_text (sample_uuid 3)] [] sample_removal (sample_uuid 0)"
proof
  show "\<exists>p. stored_publication sample_cataloged (sample_uuid 0) = Some p \<and> up_cleanup_state p = C_COMPLETE"
    using cataloged_upload_resolves [OF sample_run_valid(1) sample_run_cataloged [symmetric]
        sample_cataloged_stored(1)] by auto
  show "removed_in_run [uuid_to_text (sample_uuid 3)] [] sample_removal (sample_uuid 0)"
    using cataloged_upload_resolves [OF sample_run_valid(2) refl sample_removed_stored(1)]
    by (auto simp: sample_removed_stored(2))
qed

text \<open>C7. From a reachable store, an upload that waits for publication reaches the catalog: with
  a reservation that fits it and free catalog rows, reserving, committing the verified file,
  marking the clean-up and cataloging, each at the version the step before left, all take
  effect, and the session and its publication end with exactly these fields.\<close>

theorem pending_upload_reaches_catalog:
  assumes "pipeline_reachable db" and "stored_session db i = Some s"
    and "us_state s = U_PUBLISH_PENDING" and "reservation_fits db s p" and "catalog_entry_fits db p m l"
    and "us_created_at_ms s \<le> t1" and "up_created_at_ms p \<le> t1" and "t1 \<le> t2" and "t1 \<le> t3"
  shows "stored_session (fold run_command (publish_commands s p m l t1 t2 t3) db)
      = (stored_session db)(i \<mapsto> s\<lparr>us_state := U_CATALOGED, us_updated_at_ms := t3,
          us_failure_code := None, us_version := us_version s + 2\<rparr>)
    \<and> stored_publication (fold run_command (publish_commands s p m l t1 t2 t3) db)
      = (stored_publication db)(i \<mapsto> p\<lparr>up_state := P_VERIFIED, up_cleanup_state := C_COMPLETE,
          up_verified_at_ms := Some t1, up_cleanup_completed_at_ms := Some t2,
          up_media_id := Some (lm_id m), up_media_location_id := Some (ml_id l),
          up_updated_at_ms := t3, up_version := up_version p + 3\<rparr>)"
proof -
  note e = publish_path [OF reachable_pipeline_ok [OF assms(1)] assms(2-9) refl]
  show ?thesis
    unfolding e(2,3)
    by (cases p) (simp add: cataloged_def published_def linked_publication_def cleaned_def
        verified_def add.commute)
qed

theorem pending_upload_reaches_catalog_witness:
  "map_option us_state (stored_session (fold run_command (publish_commands sample_upload
     sample_reservation sample_media sample_location 4 5 6) sample_pending) (sample_uuid 0))
   = Some U_CATALOGED"
  using pending_upload_reaches_catalog [OF sample_pending_reachable sample_pending_session
      sample_times(5) sample_reservation_fits sample_entry_fits sample_times(1-4)]
  by simp

section \<open>Histories\<close>

text \<open>C13. Whatever commands run, a stored session stays stored and only moves forward: its
  identity, names, declared size, creation and expiry times, owner and resolution mode never
  change, received bytes never shrink, checksum and byte identity are never replaced once set,
  its state follows the lifecycle, its version never falls and an unchanged version means an
  unchanged session.\<close>

theorem upload_history:
  assumes "pipeline_reachable db" and "list_all valid_command cs" and "stored_session db i = Some s"
  shows "\<exists>s'. stored_session (fold run_command cs db) i = Some s' \<and> session_later s s'"
  using fold_commands [OF reachable_pipeline_ok [OF assms(1)] assms(2,3)] .

theorem upload_history_witness:
  "session_later sample_upload (cataloged 6 (published 4 sample_upload))"
  using upload_history [OF sample_pending_reachable sample_commands_valid sample_pending_session]
    sample_cataloged_stored(1)
  by (simp add: sample_cataloged_def)

text \<open>C23. A terminal upload stays in its state: no command moves a cataloged, rejected,
  cancelled, expired or failed session.\<close>

theorem terminal_upload_stays:
  assumes "pipeline_reachable db" and "list_all valid_command cs"
    and "stored_session db i = Some s" and "is_terminal_upload_session_state (us_state s)"
  shows "map_option us_state (stored_session (fold run_command cs db) i) = Some (us_state s)"
  using fold_commands [OF reachable_pipeline_ok [OF assms(1)] assms(2,3)] later_terminal assms(4)
  by auto

theorem terminal_upload_stays_witness:
  "map_option us_state (stored_session (fold run_command sample_commands sample_cataloged)
     (sample_uuid 0)) = Some U_CATALOGED"
  using terminal_upload_stays [OF sample_cataloged_reachable sample_commands_valid
      sample_cataloged_stored(1)]
  by (simp add: terminal_upload_state_iff)

text \<open>C24. A command prepared against another version of the session than the stored one
  changes nothing at all.\<close>

theorem stale_command_changes_nothing:
  assumes "pipeline_reachable db" and "stored_session db i = Some s"
    and "expected_session_version c = Some (i, v)" and "us_version s \<noteq> v" and "valid_command c"
  shows "run_command c db = db"
  by (rule stale_command [OF reachable_pipeline_ok [OF assms(1)] assms(2-5)])

theorem stale_command_changes_nothing_witness:
  "run_command (CommitVerified (sample_uuid 0) (sample_uuid 2) 7 0 9) sample_pending = sample_pending"
proof (rule stale_command_changes_nothing [OF sample_pending_reachable sample_pending_session])
  show "us_version sample_upload \<noteq> (7::int)" by (simp add: sample_upload_def)
qed simp_all

text \<open>Of two commands prepared against the same version of a session, at most one changes
  it: when the first does, the second changes nothing, in either order.\<close>

theorem racing_commands_one_wins:
  assumes "pipeline_reachable db" and "valid_command c" and "valid_command d"
    and "expected_session_version c = Some (i, v)" and "expected_session_version d = Some (i, v)"
    and "stored_session (run_command c db) i \<noteq> stored_session db i"
    and "stored_session db i = Some s"
  shows "run_command d (run_command c db) = run_command c db"
proof -
  have ok: "pipeline_ok db" by (rule reachable_pipeline_ok [OF assms(1)])
  have step: "step_ok db (run_command c db)" by (rule command_step [OF ok assms(2)])
  have v: "us_version s = v"
    using stale_command [OF ok assms(7,4) _ assms(2)] assms(6) by metis
  obtain s' where s': "stored_session (run_command c db) i = Some s'" "session_evolves s s'"
    using step assms(6,7) unfolding step_ok_def by force
  have "us_version s' = us_version s + 1" using s'(2) by (simp only: session_evolves_def)
  then show ?thesis
    using stale_command [OF _ s'(1) assms(5) _ assms(3)] step v by (simp add: step_ok_def)
qed

theorem racing_commands_one_wins_witness:
  "\<exists>db'. run_command (StartValidation (sample_uuid 0) 0 9) db' = db'
    \<and> stored_session db' (sample_uuid 0) \<noteq> stored_session sample_checking (sample_uuid 0)"
proof -
  let ?c = "RejectValidation (sample_uuid 0) 0 (lit ''E'') 9"
  have r: "map_prod id stored_session (reject_validation (sample_uuid 0) 0 (lit ''E'') 9 sample_checking)
      = reject_spec 0 (lit ''E'') 9 (sample_uuid 0) (stored_session sample_checking)"
    using reject_refines [of sample_checking] reachable_pipeline_ok [OF sample_checking_reachable]
    by (simp add: pipeline_ok_def evidence_store_ok_def failure_code_pattern_def matches_class_def
        lit_def char_class_defs)
  let ?s = "sample_unchecked\<lparr>us_state := U_REJECTED, us_failure_code := Some (lit ''E''),
      us_updated_at_ms := 9, us_version := 1\<rparr>"
  have "upload_session_wf ?s"
    using sample_unchecked_wf
    by (simp add: upload_wf_defs sample_unchecked_def sample_upload_def checksum_pair_ok_def
        evidence_pair_ok_def VALIDATED_UPLOAD_SESSION_STATES_def failure_code_pattern_def
        matches_class_def lit_def char_class_defs state_requires_complete_upload_def
        COMPLETE_UPLOAD_SESSION_STATES_def)
  moreover have "us_state sample_unchecked = U_VALIDATING" "us_version sample_unchecked = 0"
    by (simp_all add: sample_unchecked_def sample_upload_def)
  ultimately have "stored_session (run_command ?c sample_checking)
      = (stored_session sample_checking)(sample_uuid 0 \<mapsto> ?s)"
    using r sample_checking_session
    by (simp add: reject_spec_def spec_update_def map_prod_def split: prod.splits)
  moreover from this have "stored_session (run_command ?c sample_checking) (sample_uuid 0)
      \<noteq> stored_session sample_checking (sample_uuid 0)"
    using sample_checking_session \<open>us_version sample_unchecked = 0\<close>
    by (auto dest: arg_cong [where f = us_version])
  moreover have "run_command (StartValidation (sample_uuid 0) 0 9) (run_command ?c sample_checking)
      = run_command ?c sample_checking"
    by (rule racing_commands_one_wins [OF sample_checking_reachable _ _ _ _ calculation(2)
        sample_checking_session]) simp_all
  ultimately show ?thesis by blast
qed

section \<open>Validation and byte identities\<close>

text \<open>C25. A stored upload names equal bytes by equal identities: two sessions that carry a byte
  identity carry the same one exactly when declared size and checksum agree.\<close>

theorem equal_bytes_equal_identity:
  assumes "pipeline_reachable db"
    and "stored_session db i = Some s" and "us_byte_identity_id s = Some j"
    and "stored_session db i' = Some s'" and "us_byte_identity_id s' = Some j'"
  shows "j = j' \<longleftrightarrow> us_declared_size_bytes s = us_declared_size_bytes s'
    \<and> us_checksum_hex s = us_checksum_hex s'"
proof -
  have "evidence_store_ok db" using reachable_pipeline_ok [OF assms(1)] by (simp add: pipeline_ok_def)
  then show ?thesis by (rule same_bytes_iff [OF _ assms(2-5)])
qed

theorem equal_bytes_equal_identity_witness:
  "sample_uuid 1 = sample_uuid 1 \<longleftrightarrow> us_declared_size_bytes sample_upload = 10"
  using equal_bytes_equal_identity [OF sample_pending_reachable sample_pending_session _
      sample_pending_session, of "sample_uuid 1" "sample_uuid 1"]
  by (simp add: sample_upload_def)

text \<open>C26. Completing a validation of a stored, unchecked session at its version succeeds and
  writes the evidence; the session then waits for publication, except that bytes another session
  is bringing to the catalog, or has there, make it wait for a decision in explicit mode, and in
  silent mode keep it separate.  An upload whose media was removed from the catalog does not count.\<close>

theorem validation_success_outcome:
  assumes "pipeline_reachable db" and "stored_session db i = Some s"
    and "us_state s = U_VALIDATING" and "us_checksum_hex s = None" and "us_validated_media_kind s = None"
    and "is_uuid4 new" and "uuid_to_text new \<notin> set (map ir_id (media_byte_identities db))"
    and "sha256_hex_pattern h" and "(k, f) \<in> set ALLOWED_UPLOAD_VALIDATION_EVIDENCE_PAIRS"
    and "us_created_at_ms s \<le> t"
  shows "\<exists>s' db'. complete_validation_success new i (us_version s) h (Member k) (Member f) t db
      = (Inr s', db') \<and> stored_session db' = (stored_session db)(i \<mapsto> s')
    \<and> us_checksum_hex s' = Some h \<and> us_validated_media_kind s' = Some k
    \<and> us_validated_format s' = Some f \<and> us_version s' = us_version s + 1
    \<and> (us_state s', us_duplicate_disposition s') =
        (if \<not> duplicate_bytes i (us_declared_size_bytes s) h db then (U_PUBLISH_PENDING, None)
         else if us_duplicate_resolution_mode s = EXPLICIT then (U_DUPLICATE_PENDING, None)
         else (U_PUBLISH_PENDING, Some KEEP_SEPARATE))"
proof -
  obtain s' db' j where
      run: "complete_validation_success new i (us_version s) h (Member k) (Member f) t db = (Inr s', db')"
      and st: "stored_session db' = (stored_session db)(i \<mapsto> s')"
      and s': "s' = s\<lparr>us_state := fst (success_of (duplicate_bytes i (us_declared_size_bytes s) h db)
          (us_duplicate_resolution_mode s)),
        us_duplicate_disposition := snd (success_of (duplicate_bytes i (us_declared_size_bytes s) h db)
          (us_duplicate_resolution_mode s)),
        us_checksum_algorithm := Some (lit ''sha256''), us_checksum_hex := Some h,
        us_validated_media_kind := Some k, us_validated_format := Some f,
        us_byte_identity_id := Some j, us_updated_at_ms := t, us_version := us_version s + 1\<rparr>"
    using validation_outcome [OF reachable_pipeline_ok [OF assms(1)] assms(2-10)] by blast
  show ?thesis
    using run st
    by (intro exI [of _ s'] exI [of _ db'])
      (cases "us_duplicate_resolution_mode s"; simp add: s' success_of_def)
qed

theorem validation_success_outcome_witness:
  "\<exists>s' db'. complete_validation_success (sample_uuid 1) (sample_uuid 0) 0 sample_hex (Member VIDEO)
      (Member MP4) 5 sample_checking = (Inr s', db')
    \<and> us_checksum_hex s' = Some sample_hex"
  using validation_success_outcome [OF sample_checking_reachable sample_checking_session, of
      "sample_uuid 1" sample_hex VIDEO MP4 5] sample_hex_ok sample_checking_identities
  by (auto simp: sample_unchecked_def sample_upload_def ALLOWED_UPLOAD_VALIDATION_EVIDENCE_PAIRS_def)

text \<open>A completed validation can be repeated: the same evidence reported again, at any
  version and with any fresh identity, returns the stored session and changes nothing.\<close>

theorem validation_success_replays:
  assumes "pipeline_reachable db" and "is_uuid4 new" and "is_uuid4 new'" and "0 \<le> t'" and "0 \<le> v'"
    and "complete_validation_success new i v h (Member k) (Member f) t db = (Inr s', db')"
  shows "complete_validation_success new' i v' h (Member k) (Member f) t' db' = (Inr s', db')"
  by (rule validation_replay [OF reachable_pipeline_ok [OF assms(1)] assms(2-6)])

theorem validation_success_replays_witness:
  "\<exists>s' db'. complete_validation_success (sample_uuid 2) (sample_uuid 0) 9 sample_hex (Member VIDEO)
      (Member MP4) 7 db' = (Inr s', db') \<and> us_state s' = U_PUBLISH_PENDING"
proof -
  obtain s' db' j where run: "complete_validation_success (sample_uuid 1) (sample_uuid 0)
      (us_version sample_unchecked) sample_hex (Member VIDEO) (Member MP4) 5 sample_checking = (Inr s', db')"
      and s': "us_state s' = fst (success_of (duplicate_bytes (sample_uuid 0)
        (us_declared_size_bytes sample_unchecked) sample_hex sample_checking)
        (us_duplicate_resolution_mode sample_unchecked))"
    using validation_outcome [OF reachable_pipeline_ok [OF sample_checking_reachable]
        sample_checking_session _ _ _ is_uuid4_sample(2) _ sample_hex_ok, of VIDEO MP4 5]
      sample_checking_identities
    by (auto simp: sample_unchecked_def sample_upload_def ALLOWED_UPLOAD_VALIDATION_EVIDENCE_PAIRS_def)
  have "\<not> duplicate_bytes (sample_uuid 0) (us_declared_size_bytes sample_unchecked) sample_hex sample_checking"
    by (auto simp: duplicate_bytes_def sample_checking_eq stored_session_def row_by_id_def sql_first_def
        sample_unchecked_def sample_upload_def)
  then have "us_state s' = U_PUBLISH_PENDING" using s' by (simp add: success_of_def)
  moreover have "complete_validation_success (sample_uuid 2) (sample_uuid 0) 9 sample_hex (Member VIDEO)
      (Member MP4) 7 db' = (Inr s', db')"
    by (rule validation_success_replays [OF sample_checking_reachable _ _ _ _ run]) simp_all
  ultimately show ?thesis by blast
qed

section \<open>The session operations compute their specifications\<close>

text \<open>C31. On every reachable store \<open>transition_state\<close> is the abstract transition of the
  session map: the table, the arguments and the failure code are checked first, then state,
  version, completeness and evidence, and exactly the named session changes.\<close>

theorem transition_state_contract:
  assumes "pipeline_reachable db"
  shows "map_prod id stored_session (transition_state i state target v t code db) =
    (if target \<notin> set (allowed_upload_transitions state)
     then (Inl InvalidUploadSessionTransitionError, stored_session db)
     else if \<not> transition_arguments_ok target v t code
     then (Inl UploadSessionConcurrencyConflictError, stored_session db)
     else if code \<noteq> None \<and> target \<notin> {U_FAILED, U_REJECTED}
     then (Inl InvalidUploadSessionTransitionError, stored_session db)
     else transition_spec state target v t code i (stored_session db))"
  using reachable_pipeline_ok [OF assms]
  by (intro transition_refines) (simp add: pipeline_ok_def evidence_store_ok_def)

theorem transition_state_contract_witness:
  "fst (transition_state (sample_uuid 0) U_VALIDATING U_RECEIVED 0 5 None sample_checking)
    = Inl InvalidUploadSessionTransitionError"
  using transition_state_contract [OF sample_checking_reachable, of "sample_uuid 0" U_VALIDATING U_RECEIVED 0 5 None]
  by (simp add: map_prod_def split: prod.splits)

text \<open>\<open>advance_received_offset\<close> adds the accepted bytes to a receiving session exactly when
  the expected offset and version match and the declared size is not exceeded; every other case
  is the error the specification names and changes nothing.\<close>

theorem advance_offset_contract:
  assumes "pipeline_reachable db"
  shows "map_prod id stored_session (advance_received_offset i e n v t db) =
    (if 0 \<le> e \<and> 0 < n \<and> 0 \<le> v \<and> 0 \<le> t then advance_spec e v (e + n) t i (stored_session db)
     else (Inl UploadOffsetConflictError, stored_session db))"
  using reachable_pipeline_ok [OF assms]
  by (intro advance_refines) (simp add: pipeline_ok_def evidence_store_ok_def)

theorem advance_offset_contract_witness:
  "stored_session (snd (advance_received_offset (sample_uuid 0) 0 0 0 5 sample_checking)) (sample_uuid 0)
    = Some sample_unchecked"
  using advance_offset_contract [OF sample_checking_reachable, of "sample_uuid 0" 0 0 0 5]
    sample_checking_session
  by (simp add: map_prod_def split: prod.splits)

text \<open>A created session is the one that is read back (with the byte identity the store
  already has for its bytes), and no other session changes; creation demands a new identifier.\<close>

theorem create_then_get:
  assumes "pipeline_reachable db" and "upload_session_wf s"
    and "create_session s db = (Inr (), db')"
  shows "\<exists>j. get_session (us_id s) db' = (Inr (Some (s\<lparr>us_byte_identity_id := j\<rparr>)), db')
    \<and> (j = None \<longleftrightarrow> us_byte_identity_id s = None)
    \<and> get_session (us_id s) db = (Inr None, db)
    \<and> (\<forall>i. i \<noteq> us_id s \<longrightarrow> fst (get_session i db') = fst (get_session i db))"
proof -
  have ev: "evidence_store_ok db" using reachable_pipeline_ok [OF assms(1)] by (simp add: pipeline_ok_def)
  have c: "create_session_in s db = Inr ((), db')"
    using assms(3) by (simp add: create_session_def run_in_transaction_Inr)
  note e = create_in_ok [OF ev assms(2) c]
  have "session_rows_ok db" "session_rows_ok db'"
    using ev e(1) by (simp_all add: evidence_store_ok_def)
  then show ?thesis using e(2,3) by (auto simp: get_session_stored)
qed

theorem create_then_get_witness:
  "\<exists>s. fst (get_session (sample_uuid 0) sample_checking) = Inr (Some s)"
proof -
  have "create_session sample_unchecked sample_start = (Inr (), sample_checking)"
    using create_plain [OF sample_unchecked_wf] sample_checking_eq
    by (simp add: sample_unchecked_def sample_upload_def)
  moreover have "pipeline_reachable sample_start"
    unfolding sample_start_def by (rule pipeline_reachable.start)
  ultimately obtain j where "get_session (us_id sample_unchecked) sample_checking
      = (Inr (Some (sample_unchecked\<lparr>us_byte_identity_id := j\<rparr>)), sample_checking)"
    using create_then_get [OF _ sample_unchecked_wf] by blast
  moreover have "us_id sample_unchecked = sample_uuid 0"
    by (simp add: sample_unchecked_def sample_upload_def)
  ultimately show ?thesis by simp
qed

text \<open>C32. The candidate listing returns the first page of exactly the stored sessions in the
  listed states that come after the cursor, ordered by update time and identifier.\<close>

theorem listing_is_ordered_page:
  assumes "pipeline_reachable db" and "0 < n" and "0 \<le> t" and "i \<noteq> []"
  shows "\<exists>all. list_validation_candidates states (PyInt n) (PyInt t) (PyStr i) db
      = (Inr (take (nat n) all), db) \<and> sorted (map listed_key all) \<and> distinct all
    \<and> set all = {s. listed_after states t i s \<and> (\<exists>j. stored_session db j = Some s)}"
proof -
  have ss: "session_rows_ok db"
    using reachable_pipeline_ok [OF assms(1)] by (simp add: pipeline_ok_def evidence_store_ok_def)
  have c: "validate_candidate_cursor (PyInt t) (PyStr i) = Inr ()" using assms by simp
  show ?thesis
    by (rule listing_page [OF ss assms(2) c, of states]) (intro exI conjI; assumption)
qed

theorem listing_is_ordered_page_witness:
  "\<exists>all. fst (list_validation_candidates [U_VALIDATING] (PyInt 5) (PyInt 0) (PyStr (lit ''a'')) sample_checking)
      = Inr (take 5 all) \<and> sample_unchecked \<in> set all"
proof -
  have l: "listed_after [U_VALIDATING] 0 (lit ''a'') sample_unchecked"
    by (simp add: listed_after_def listed_key_def sample_unchecked_def sample_upload_def less_prod_def)
  obtain all where "list_validation_candidates [U_VALIDATING] (PyInt 5) (PyInt 0) (PyStr (lit ''a''))
        sample_checking = (Inr (take 5 all), sample_checking)"
      and "set all = {s. listed_after [U_VALIDATING] 0 (lit ''a'') s
        \<and> (\<exists>j. stored_session sample_checking j = Some s)}"
    using listing_is_ordered_page [OF sample_checking_reachable, of 5 0 "lit ''a''" "[U_VALIDATING]"]
    by (auto simp: lit_def)
  then show ?thesis using l sample_checking_session by (intro exI [of _ all]) auto
qed

section \<open>Validated values and their rows\<close>

text \<open>The constructor of \<open>UploadSession\<close> accepts exactly the well-formed sessions.\<close>

theorem session_constructor_accepts_wf:
  "upload_session_post_init s = Inr () \<longleftrightarrow> upload_session_wf s"
  by (rule upload_session_post_init_iff)

text \<open>Rows and sessions correspond one to one: reading a row whose mode column passes its
  CHECK gives a session exactly when that session is well formed and the row is the one it is
  written as.\<close>

theorem session_row_roundtrip:
  assumes "ur_duplicate_resolution_mode r \<in> set [lit ''explicit'', lit ''silent_keep_separate'']"
  shows "session_from_row r = Inr s \<longleftrightarrow> upload_session_wf s \<and> r = values_from_session s"
  by (rule session_from_row_iff [OF assms])

theorem session_row_roundtrip_witness:
  "session_from_row (values_from_session sample_upload) = Inr sample_upload"
  using session_row_roundtrip [of "values_from_session sample_upload" sample_upload] sample_upload_wf
  by (simp add: sample_upload_def)

text \<open>The CHECK constraints of \<open>upload_sessions\<close> accept a well-formed session exactly when
  its owner key is lower case.\<close>

theorem session_checks_iff:
  assumes "upload_session_wf s"
  shows "upload_row_ok (values_from_session s) \<longleftrightarrow> login_key_lower s"
  by (rule values_row_ok [OF assms])

theorem session_checks_iff_witness:
  "upload_row_ok (values_from_session sample_upload)"
  using session_checks_iff [OF sample_upload_wf] by (simp add: login_key_lower_def sample_upload_def)

text \<open>Rows and publications correspond one to one, and the CHECK constraints accept every
  well-formed publication.\<close>

theorem publication_row_roundtrip:
  "(publication_from_row r = Inr p \<longleftrightarrow> upload_publication_wf p \<and> r = publication_values p)
   \<and> \<not> (upload_publication_wf p \<and> \<not> publication_row_ok (publication_values p))"
  using publication_from_row_iff publication_values_row_ok by blast

theorem publication_row_roundtrip_witness:
  "publication_row_ok (publication_values sample_reservation)"
  using publication_row_roundtrip [of "publication_values sample_reservation" sample_reservation]
    sample_reservation_wf by blast

text \<open>Identity text is canonical: reading accepts exactly the lower-case hyphenated text of
  a version 4 UUID, and two identities have the same text only if they are equal.\<close>

theorem identity_text_roundtrip:
  "(identity_from_string t = Inr u \<longleftrightarrow> is_uuid4 u \<and> t = identity_to_string u)
   \<and> (identity_to_string u = identity_to_string v \<longleftrightarrow> u = v)"
  using identity.parse_iff [of t u] by (simp add: identity_to_string_eq)

text \<open>The lifecycle ends: a run through it enters no state twice and takes at most seven
  steps.\<close>

theorem lifecycle_run_bounded:
  assumes "table_run lifecycle_moves s ts"
  shows "distinct (s # ts) \<and> length ts \<le> 7"
proof -
  have "lifecycle_rank t \<le> 7" for t by (cases t) simp_all
  then have "lifecycle_rank (last (s # ts)) \<le> 7" .
  then show ?thesis
    using pipeline_lifecycle.run_distinct [OF assms] pipeline_lifecycle.run_length [OF assms] by simp
qed

theorem lifecycle_run_bounded_witness:
  "distinct [U_CREATED, U_RECEIVING, U_RECEIVED, U_VALIDATING, U_PUBLISH_PENDING, U_PUBLISHED, U_CATALOGED]"
  using lifecycle_run_bounded [of U_CREATED "[U_RECEIVING, U_RECEIVED, U_VALIDATING,
      U_PUBLISH_PENDING, U_PUBLISHED, U_CATALOGED]"] by simp

text \<open>C33. A validated relative path is safe and canonical: it is the given text with slashes, not
  empty, at most 4096 characters, not absolute for POSIX or Windows, without NUL or backslash,
  without empty, dot or dot-dot parts, and validating it again gives itself.\<close>

theorem relative_path_safe:
  assumes "normalize_relative_path v = Inr r"
  shows "(\<exists>s. v = PyStr s \<and> r = map (\<lambda>c. if c = 92 then 47 else c) s)
    \<and> r \<noteq> [] \<and> length r \<le> 4096 \<and> \<not> posix_is_absolute r \<and> \<not> windows_is_absolute r
    \<and> 0 \<notin> set r \<and> 92 \<notin> set r
    \<and> [] \<notin> set (split_on 47 r) \<and> [46] \<notin> set (split_on 47 r) \<and> [46, 46] \<notin> set (split_on 47 r)
    \<and> normalize_relative_path (PyStr r) = Inr r"
  by (rule normalized_path_facts [OF assms])

theorem relative_path_safe_witness:
  "normalize_relative_path (PyStr (lit ''a/b'')) = Inr (lit ''a/b'')"
proof -
  have "normalize_relative_path (PyStr [97, 92, 98]) = Inr [97, 47, 98]" by code_simp
  then show ?thesis using relative_path_safe by (simp add: lit_def)
qed

end
